(* ===== verification/Go_Prelude.thy ===== *)
theory Go_Prelude
  imports Main "HOL-Library.Sublist" "HOL-Library.Log_Nat"
begin

section \<open>Shared prelude: the parts of Go the components use\<close>

text \<open>
  The theories of this development translate Go. This prelude holds what they share:

  \<^item> results: a Go function returns a value, an error, panics, or blocks for ever on a
    mutex it already holds (\<open>go_fail\<close>, \<open>go_result\<close>, \<open>bindR\<close>, \<open>bindS\<close>);
  \<^item> integers: Go's \<open>int\<close> and \<open>int64\<close> are 64 bits wide (\<open>wrap64\<close>, \<open>in_i64\<close>);
  \<^item> times and durations in nanoseconds, with the saturating \<open>Time.Sub\<close> (\<open>time_sub\<close>);
  \<^item> strings: a Go string is a list of bytes, here the type \<open>string\<close>, with the functions
    of the packages \<open>strings\<close>, \<open>strconv\<close> and \<open>fmt\<close> that the components call.

  The functions of \<open>strings\<close> that look at letters or at white space are Unicode aware in Go;
  here they are written for ASCII text, and a byte above 127 is neither a letter nor a space.
\<close>

named_theorems go_arith \<open>facts on 64-bit wrap-around and saturating time arithmetic\<close>
named_theorems str_simps \<open>rewrite rules on the string functions\<close>

subsection \<open>Results\<close>

datatype go_fail =
    GoErr string      \<comment> \<open>a non-nil \<open>error\<close>, by its text\<close>
  | GoPanic string    \<comment> \<open>a run-time panic\<close>
  | GoDeadlock        \<comment> \<open>a \<open>Lock\<close> on a mutex the goroutine already holds: the call never returns\<close>

type_synonym 'a go_result = "go_fail + 'a"

text \<open>Sequencing of fallible steps, without and with a state that survives the failure.\<close>

definition bindR :: "'a go_result \<Rightarrow> ('a \<Rightarrow> 'b go_result) \<Rightarrow> 'b go_result" where
  "bindR r f = (case r of Inl e \<Rightarrow> Inl e | Inr a \<Rightarrow> f a)"

definition bindS :: "'a go_result \<times> 's \<Rightarrow> ('a \<Rightarrow> 's \<Rightarrow> 'b go_result \<times> 's) \<Rightarrow> 'b go_result \<times> 's" where
  "bindS r f = (case fst r of Inl e \<Rightarrow> (Inl e, snd r) | Inr a \<Rightarrow> f a (snd r))"

lemma bindR_simps [simp]: "bindR (Inl e) f = Inl e" "bindR (Inr a) f = f a"
  by (simp_all add: bindR_def)

lemma bindS_simps [simp]: "bindS (Inl e, s) f = (Inl e, s)" "bindS (Inr a, s) f = f a s"
  by (simp_all add: bindS_def)

lemma bindR_InrE:
  assumes "bindR r f = Inr b"
  obtains a where "r = Inr a" "f a = Inr b"
  using assms by (cases r) auto

lemma bindS_InrE:
  assumes "bindS r f = (Inr b, t)"
  obtains a s where "r = (Inr a, s)" "f a s = (Inr b, t)"
  using assms by (cases r; cases "fst r") auto

fun is_ok :: "'a go_result \<Rightarrow> bool" where
  "is_ok (Inr _) = True"
| "is_ok (Inl _) = False"

lemma is_ok_iff: "is_ok r \<longleftrightarrow> (\<exists>a. r = Inr a)"
  by (cases r) auto

subsection \<open>64-bit integers\<close>

definition in_i64 :: "int \<Rightarrow> bool" where
  "in_i64 x \<longleftrightarrow> - (2 ^ 63) \<le> x \<and> x < 2 ^ 63"

definition wrap64 :: "int \<Rightarrow> int" where
  "wrap64 x = (x + 2 ^ 63) mod 2 ^ 64 - 2 ^ 63"

abbreviation max_i64 :: int where
  "max_i64 \<equiv> 2 ^ 63 - 1"

abbreviation min_i64 :: int where
  "min_i64 \<equiv> - (2 ^ 63)"

lemma wrap64_in_range [simp]: "in_i64 (wrap64 x)"
  by (simp add: in_i64_def wrap64_def)

lemma wrap64_id [go_arith]: "in_i64 x \<Longrightarrow> wrap64 x = x"
  by (simp add: in_i64_def wrap64_def)

text \<open>Go's integer division truncates towards zero.\<close>

definition quot :: "int \<Rightarrow> int \<Rightarrow> int" where
  "quot a b = sgn a * sgn b * (\<bar>a\<bar> div \<bar>b\<bar>)"

lemma quot_nonneg [go_arith]: "0 \<le> a \<Longrightarrow> 0 < b \<Longrightarrow> quot a b = a div b"
  by (cases "a = 0") (auto simp: quot_def sgn_if)

subsection \<open>Times and durations\<close>

text \<open>
  A \<open>time.Time\<close> and a \<open>time.Duration\<close> are integers counting nanoseconds. \<open>Time.Sub\<close> (and
  with it \<open>time.Since\<close> and \<open>time.Until\<close>) saturates at the ends of \<open>int64\<close>.
\<close>

abbreviation Second :: int where
  "Second \<equiv> 1000000000"

abbreviation Minute :: int where
  "Minute \<equiv> 60 * Second"

definition time_sub :: "int \<Rightarrow> int \<Rightarrow> int" where
  "time_sub t u = max min_i64 (min max_i64 (t - u))"

lemma time_sub_exact [go_arith]: "in_i64 (t - u) \<Longrightarrow> time_sub t u = t - u"
  by (simp add: time_sub_def in_i64_def)

lemma time_sub_in_range [simp]: "in_i64 (time_sub t u)"
  by (simp add: time_sub_def in_i64_def)

lemma time_sub_ge_iff [go_arith]:
  "min_i64 < d \<Longrightarrow> d \<le> max_i64 \<Longrightarrow> d \<le> time_sub t u \<longleftrightarrow> u + d \<le> t"
  by (auto simp: time_sub_def)

subsection \<open>Characters and white space\<close>

abbreviation byte :: "char \<Rightarrow> nat" where
  "byte c \<equiv> of_char c"

definition is_space :: "char \<Rightarrow> bool" where
  "is_space c \<longleftrightarrow> byte c \<in> {9, 10, 11, 12, 13, 32}"

text \<open>The class \<open>\s\<close> of a regular expression, which has no vertical tab.\<close>

definition re_space :: "char \<Rightarrow> bool" where
  "re_space c \<longleftrightarrow> byte c \<in> {9, 10, 12, 13, 32}"

definition is_digit :: "char \<Rightarrow> bool" where
  "is_digit c \<longleftrightarrow> 48 \<le> byte c \<and> byte c \<le> 57"

definition lower_char :: "char \<Rightarrow> char" where
  "lower_char c = (if 65 \<le> byte c \<and> byte c \<le> 90 then char_of (byte c + 32) else c)"

definition upper_char :: "char \<Rightarrow> char" where
  "upper_char c = (if 97 \<le> byte c \<and> byte c \<le> 122 then char_of (byte c - 32) else c)"

definition ToLower :: "string \<Rightarrow> string" where
  "ToLower = map lower_char"

definition ToUpper :: "string \<Rightarrow> string" where
  "ToUpper = map upper_char"

definition EqualFold :: "string \<Rightarrow> string \<Rightarrow> bool" where
  "EqualFold s t \<longleftrightarrow> ToLower s = ToLower t"

lemma byte_char_of [str_simps]: "n < 256 \<Longrightarrow> byte (char_of n) = n"
  by simp

lemma lower_char_idem [simp]: "lower_char (lower_char c) = lower_char c"
  by (auto simp: lower_char_def)

lemma ToLower_idem [simp]: "ToLower (ToLower s) = ToLower s"
  by (simp add: ToLower_def)

lemma length_ToLower [simp]: "length (ToLower s) = length s"
  by (simp add: ToLower_def)

lemma EqualFold_refl [simp]: "EqualFold s s"
  by (simp add: EqualFold_def)

lemma EqualFold_ToLower [simp]: "EqualFold (ToLower s) s"
  by (simp add: EqualFold_def)

lemma is_space_lower_char [simp]: "is_space (lower_char c) = is_space c"
  by (auto simp: is_space_def lower_char_def)

definition TrimLeft :: "(char \<Rightarrow> bool) \<Rightarrow> string \<Rightarrow> string" where
  "TrimLeft p s = dropWhile p s"

definition TrimRight :: "(char \<Rightarrow> bool) \<Rightarrow> string \<Rightarrow> string" where
  "TrimRight p s = rev (dropWhile p (rev s))"

definition Trim :: "(char \<Rightarrow> bool) \<Rightarrow> string \<Rightarrow> string" where
  "Trim p s = TrimRight p (TrimLeft p s)"

definition TrimSpace :: "string \<Rightarrow> string" where
  "TrimSpace s = Trim is_space s"

definition IsBlank :: "string \<Rightarrow> bool" where
  "IsBlank s \<longleftrightarrow> TrimSpace s = []"

lemma Trim_Nil [simp]: "Trim p [] = []"
  by (simp add: Trim_def TrimLeft_def TrimRight_def)

lemma Trim_eq_Nil_iff: "Trim p s = [] \<longleftrightarrow> list_all p s"
  by (auto simp: Trim_def TrimLeft_def TrimRight_def list_all_iff
      dest: set_dropWhileD) (metis dropWhile_eq_Nil_conv hd_dropWhile list.set_sel(1))

lemma IsBlank_iff: "IsBlank s \<longleftrightarrow> list_all is_space s"
  by (simp add: IsBlank_def TrimSpace_def Trim_eq_Nil_iff)

lemma dropWhile_id: "(s \<noteq> [] \<Longrightarrow> \<not> p (hd s)) \<Longrightarrow> dropWhile p s = s"
  by (cases s) auto

lemma hd_Trim: "Trim p s \<noteq> [] \<Longrightarrow> \<not> p (hd (Trim p s))"
proof -
  assume ne: "Trim p s \<noteq> []"
  let ?l = "dropWhile p s"
  have "prefix (TrimRight p ?l) ?l"
    unfolding TrimRight_def
    by (metis rev_rev_ident suffix_dropWhile suffix_to_prefix)
  then obtain z where z: "?l = Trim p s @ z"
    by (auto simp: Trim_def TrimLeft_def prefix_def)
  with ne have "hd ?l = hd (Trim p s)" "?l \<noteq> []" by auto
  with hd_dropWhile[of p s] show ?thesis by auto
qed

lemma Trim_idem [simp]: "Trim p (Trim p s) = Trim p s"
proof -
  have a: "dropWhile p (Trim p s) = Trim p s"
    by (rule dropWhile_id) (rule hd_Trim)
  have b: "TrimRight p (TrimRight p t) = TrimRight p t" for t
    by (simp add: TrimRight_def)
  show ?thesis
    using a b by (simp add: Trim_def TrimLeft_def)
qed

lemma TrimSpace_idem [simp]: "TrimSpace (TrimSpace s) = TrimSpace s"
  by (simp add: TrimSpace_def)

lemma TrimSpace_Nil [simp]: "TrimSpace [] = []"
  by (simp add: TrimSpace_def)

lemma IsBlank_Nil [simp]: "IsBlank []"
  by (simp add: IsBlank_def)

lemma length_Trim_le: "length (Trim p s) \<le> length s"
  by (simp add: Trim_def TrimLeft_def TrimRight_def)
     (metis length_dropWhile_le length_rev order_trans)

subsection \<open>Searching, splitting and joining\<close>

abbreviation HasPrefix :: "string \<Rightarrow> string \<Rightarrow> bool" where
  "HasPrefix s p \<equiv> prefix p s"

abbreviation HasSuffix :: "string \<Rightarrow> string \<Rightarrow> bool" where
  "HasSuffix s p \<equiv> suffix p s"

text \<open>\<open>strings.Index\<close>: the first position of a substring; Go's -1 is \<open>None\<close>.\<close>

fun Index :: "string \<Rightarrow> string \<Rightarrow> nat option" where
  "Index [] sub = (if sub = [] then Some 0 else None)"
| "Index (c # s) sub = (if prefix sub (c # s) then Some 0 else map_option Suc (Index s sub))"

definition Contains :: "string \<Rightarrow> string \<Rightarrow> bool" where
  "Contains s sub \<longleftrightarrow> Index s sub \<noteq> None"

lemma Index_Some_iff:
  "Index s sub = Some i \<longleftrightarrow>
     prefix sub (drop i s) \<and> i \<le> length s \<and> (\<forall>j < i. \<not> prefix sub (drop j s))"
proof (induction s arbitrary: i)
  case Nil
  then show ?case by auto
next
  case (Cons c s)
  show ?case
  proof (cases "prefix sub (c # s)")
    case True
    then show ?thesis by (cases i) auto
  next
    case False
    then show ?thesis
      using Cons.IH by (cases i) (auto simp: less_Suc_eq_0_disj)
  qed
qed

lemma Index_None_iff: "Index s sub = None \<longleftrightarrow> (\<forall>i \<le> length s. \<not> prefix sub (drop i s))"
proof (induction s)
  case (Cons c s)
  have "(\<forall>i \<le> Suc (length s). \<not> prefix sub (drop i (c # s))) \<longleftrightarrow>
      \<not> prefix sub (c # s) \<and> (\<forall>i \<le> length s. \<not> prefix sub (drop i s))"
    by (metis drop0 drop_Suc_Cons le_SucE not0_implies_Suc Suc_le_mono zero_le)
  with Cons show ?case by auto
qed auto

lemma Contains_sublist: "Contains s sub \<longleftrightarrow> sublist sub s"
proof
  assume "Contains s sub"
  then obtain i where "Index s sub = Some i" by (auto simp: Contains_def)
  then have "prefix sub (drop i s)" by (simp add: Index_Some_iff)
  then show "sublist sub s"
    by (meson prefix_imp_sublist sublist_drop sublist_order.order_trans)
next
  assume "sublist sub s"
  then obtain u v where s: "s = u @ sub @ v" by (auto simp: sublist_def)
  then have "prefix sub (drop (length u) s)" "length u \<le> length s" by auto
  then show "Contains s sub"
    by (auto simp: Contains_def Index_None_iff)
qed

text \<open>\<open>strings.Split\<close> and \<open>strings.Join\<close> for a separator of one byte.\<close>

fun Split :: "char \<Rightarrow> string \<Rightarrow> string list" where
  "Split d [] = [[]]"
| "Split d (c # s) =
     (if c = d then [] # Split d s
      else (case Split d s of [] \<Rightarrow> [[c]] | p # ps \<Rightarrow> (c # p) # ps))"

text \<open>The verb \<open>%s\<close> between single quotes.\<close>

definition quoted :: "string \<Rightarrow> string" where
  "quoted s = CHR 0x27 # s @ [CHR 0x27]"

fun Join :: "string list \<Rightarrow> string \<Rightarrow> string" where
  "Join [] sep = []"
| "Join [s] sep = s"
| "Join (s # t # ss) sep = s @ sep @ Join (t # ss) sep"

lemma Split_nonempty [simp]: "Split d s \<noteq> []"
  by (induction s) (auto split: list.splits)

lemma Join_Cons: "ss \<noteq> [] \<Longrightarrow> Join (s # ss) sep = s @ sep @ Join ss sep"
  by (cases ss) auto

lemma Join_Split [str_simps]: "Join (Split d s) [d] = s"
proof (induction s)
  case (Cons c s)
  obtain p ps where sp: "Split d s = p # ps"
    using Split_nonempty by (meson list.exhaust)
  show ?case
    using Cons sp by (cases ps) (auto simp: Join_Cons)
qed simp

lemma Split_no_sep: "p \<in> set (Split d s) \<Longrightarrow> d \<notin> set p"
proof (induction s arbitrary: p)
  case (Cons c s)
  then show ?case
    by (cases "Split d s") (auto split: if_splits)
qed simp

lemma Split_part_length: "p \<in> set (Split d s) \<Longrightarrow> length p \<le> length s"
proof (induction s arbitrary: p)
  case (Cons c s)
  then show ?case
    by (cases "Split d s") (auto split: if_splits simp: le_SucI)
qed simp

lemma Split_part_less: "d \<in> set s \<Longrightarrow> p \<in> set (Split d s) \<Longrightarrow> length p < length s"
proof (induction s arbitrary: p)
  case (Cons c s)
  show ?case
  proof (cases "c = d")
    case True
    with Cons.prems show ?thesis
      by (auto simp: less_Suc_eq_le dest: Split_part_length)
  next
    case False
    with Cons.prems(1) have d: "d \<in> set s" by simp
    obtain q qs where sp: "Split d s = q # qs"
      using Split_nonempty by (meson list.exhaust)
    with False Cons.prems(2) have "p = c # q \<or> p \<in> set qs" by auto
    moreover have "length q < length s" using Cons.IH[OF d, of q] sp by simp
    moreover have "p \<in> set qs \<Longrightarrow> length p < length s" using Cons.IH[OF d, of p] sp by simp
    ultimately show ?thesis by auto
  qed
qed simp

lemma Split_no_occurrence: "d \<notin> set s \<Longrightarrow> Split d s = [s]"
  by (induction s) auto

lemma Split_append_sep: "d \<notin> set s \<Longrightarrow> Split d (s @ d # t) = s # Split d t"
  by (induction s) auto

lemma Contains_single [simp]: "Contains s [d] \<longleftrightarrow> d \<in> set s"
  by (simp add: Contains_sublist) (metis append_Cons append_Nil in_set_conv_decomp sublist_def)

subsection \<open>Decimal numbers\<close>

definition digit_char :: "nat \<Rightarrow> char" where
  "digit_char n = char_of (48 + n)"

definition digit_val :: "char \<Rightarrow> int" where
  "digit_val c = int (byte c) - 48"

fun decimal :: "nat \<Rightarrow> string" where
  "decimal n = (if n < 10 then [digit_char n] else decimal (n div 10) @ [digit_char (n mod 10)])"

declare decimal.simps [simp del]

text \<open>\<open>strconv.Itoa\<close>, \<open>strconv.FormatInt\<close> in base ten and the verb \<open>%d\<close>.\<close>

definition Itoa :: "int \<Rightarrow> string" where
  "Itoa i = (if i < 0 then CHR ''-'' # decimal (nat (- i)) else decimal (nat i))"

text \<open>The verb \<open>%0wd\<close>: zeros between the sign and the digits, up to \<open>w\<close> bytes in all.\<close>

definition pad0 :: "nat \<Rightarrow> string \<Rightarrow> string" where
  "pad0 w s = replicate (w - length s) (CHR ''0'') @ s"

definition Itoa0 :: "nat \<Rightarrow> int \<Rightarrow> string" where
  "Itoa0 w i =
     (if i < 0 then CHR ''-'' # pad0 (w - 1) (decimal (nat (- i))) else pad0 w (decimal (nat i)))"

text \<open>\<open>strconv.Atoi\<close>, and \<open>strconv.ParseInt\<close> in base ten and 64 bits: \<open>None\<close> for an error.\<close>

definition undecimal :: "string \<Rightarrow> int" where
  "undecimal s = foldl (\<lambda>a c. 10 * a + digit_val c) 0 s"

definition Atoi :: "string \<Rightarrow> int option" where
  "Atoi s =
     (let neg = (s \<noteq> [] \<and> hd s = CHR ''-'');
          ds = (if s \<noteq> [] \<and> (hd s = CHR ''-'' \<or> hd s = CHR ''+'') then tl s else s);
          v = (if neg then - undecimal ds else undecimal ds)
      in if ds = [] \<or> \<not> list_all is_digit ds \<or> \<not> in_i64 v then None else Some v)"

lemma byte_digit_char [str_simps]: "n < 10 \<Longrightarrow> byte (digit_char n) = 48 + n"
  by (simp add: digit_char_def)

lemma is_digit_digit_char [str_simps]: "n < 10 \<Longrightarrow> is_digit (digit_char n)"
  by (simp add: is_digit_def byte_digit_char)

lemma digit_val_digit_char [str_simps]: "n < 10 \<Longrightarrow> digit_val (digit_char n) = int n"
  by (simp add: digit_val_def byte_digit_char)

lemma decimal_digits: "list_all is_digit (decimal n) \<and> decimal n \<noteq> []"
proof (induction n rule: decimal.induct)
  case (1 n)
  then show ?case
    by (subst (1 2) decimal.simps) (auto simp: str_simps)
qed

lemma undecimal_snoc: "undecimal (s @ [c]) = 10 * undecimal s + digit_val c"
  by (simp add: undecimal_def)

lemma undecimal_decimal [str_simps]: "undecimal (decimal n) = int n"
proof (induction n rule: decimal.induct)
  case (1 n)
  show ?case
  proof (cases "n < 10")
    case True
    then show ?thesis
      by (subst decimal.simps) (simp add: undecimal_def str_simps)
  next
    case False
    with 1 have IH: "undecimal (decimal (n div 10)) = int (n div 10)" by simp
    have "undecimal (decimal n) = 10 * int (n div 10) + int (n mod 10)"
      using False IH by (subst decimal.simps) (simp add: undecimal_snoc str_simps)
    then show ?thesis by (simp add: zdiv_int zmod_int)
  qed
qed

lemma is_digit_not_sign: "is_digit c \<Longrightarrow> c \<noteq> CHR ''-'' \<and> c \<noteq> CHR ''+''"
  by (auto simp: is_digit_def)

lemma decimal_hd: "is_digit (hd (decimal n))"
  using decimal_digits[of n] by (cases "decimal n") auto

text \<open>Printing an \<open>int\<close> and reading it back gives the same number.\<close>

lemma Atoi_Itoa: "in_i64 i \<Longrightarrow> Atoi (Itoa i) = Some i"
  using decimal_digits[of "nat i"] decimal_digits[of "nat (- i)"] decimal_hd[of "nat i"]
    is_digit_not_sign[of "hd (decimal (nat i))"]
  by (auto simp: Atoi_def Itoa_def Let_def str_simps)

lemma Itoa_nonempty [simp]: "Itoa i \<noteq> []"
  using decimal_digits by (simp add: Itoa_def)

lemma Atoi_range: "Atoi s = Some v \<Longrightarrow> in_i64 v"
  by (auto simp: Atoi_def Let_def split: if_splits)

subsection \<open>Helpers of \<open>src/openclaw/util/helper.go\<close>\<close>

definition Clamp :: "int \<Rightarrow> int \<Rightarrow> int \<Rightarrow> int" where
  "Clamp val lo hi = (if val < lo then lo else if val > hi then hi else val)"

lemma Clamp_bounds: "lo \<le> hi \<Longrightarrow> lo \<le> Clamp v lo hi \<and> Clamp v lo hi \<le> hi"
  by (auto simp: Clamp_def)

text \<open>The hash of a text in hexadecimal, \<open>sha\<close>, and nothing for no text.\<close>

definition ComputeTurnHash :: "(string \<Rightarrow> string) \<Rightarrow> string \<Rightarrow> string" where
  "ComputeTurnHash sha txt = (if txt = [] then [] else sha txt)"

subsection \<open>Runs of step relations\<close>

text \<open>
  The components that are shared between goroutines are step relations labelled with the
  operation that was performed; \<open>steps\<close> is a finite interleaving of such operations.
\<close>

inductive steps :: "('s \<Rightarrow> 'e \<Rightarrow> 's \<Rightarrow> bool) \<Rightarrow> 's \<Rightarrow> 'e list \<Rightarrow> 's \<Rightarrow> bool" for step where
  steps_refl: "steps step s [] s"
| steps_step: "step s e t \<Longrightarrow> steps step t es u \<Longrightarrow> steps step s (e # es) u"

inductive_cases steps_NilE [elim!]: "steps step s [] t"
inductive_cases steps_ConsE [elim!]: "steps step s (e # es) t"

lemma steps_append: "steps step s es t \<Longrightarrow> steps step t fs u \<Longrightarrow> steps step s (es @ fs) u"
  by (induction rule: steps.induct) (auto intro: steps.intros)

lemma steps_appendE:
  "steps step s (es @ fs) u \<Longrightarrow> (\<And>t. steps step s es t \<Longrightarrow> steps step t fs u \<Longrightarrow> P) \<Longrightarrow> P"
  by (induction es arbitrary: s) (auto intro: steps.intros)

text \<open>
  The contract of a component with an invariant: the initial state satisfies it and every
  operation keeps it. The component proves the two laws; every reachable state satisfies
  the invariant then.
\<close>

locale invariant_machine =
  fixes init :: "'s \<Rightarrow> bool"
    and step :: "'s \<Rightarrow> 'e \<Rightarrow> 's \<Rightarrow> bool"
    and inv :: "'s \<Rightarrow> bool"
  assumes inv_init: "init s \<Longrightarrow> inv s"
    and inv_step: "inv s \<Longrightarrow> step s e t \<Longrightarrow> inv t"
begin

lemma inv_steps: "steps step s es t \<Longrightarrow> inv s \<Longrightarrow> inv t"
  by (induction rule: steps.induct) (auto intro: inv_step)

lemma inv_reachable: "init s \<Longrightarrow> steps step s es t \<Longrightarrow> inv t"
  using inv_init inv_steps by blast

end

end
