(* ===== verification/Cron.thy ===== *)
theory Cron
  imports Go_Prelude
begin

section \<open>Cron expressions\<close>

text \<open>
  \<open>src/openclaw/util/cron.go\<close>: the validator for five-field cron expressions, the macros, and the
  translation of an interval such as \<open>5m\<close>. \<open>ParseCronExpression\<close> only calls the package
  \<open>robfig/cron\<close>; what the loop scheduler needs of it is a parameter there (\<open>Loops\<close>).
\<close>

definition cron_macro :: "string \<Rightarrow> string" where
  "cron_macro expression =
     (if expression = ''@hourly'' then ''0 * * * *''
      else if expression = ''@daily'' then ''0 0 * * *''
      else if expression = ''@weekly'' then ''0 0 * * 0''
      else if expression = ''@monthly'' then ''0 0 1 * *''
      else expression)"

definition NormalizeCronExpression :: "string \<Rightarrow> string" where
  "NormalizeCronExpression expression = cron_macro (ToLower (TrimSpace expression))"

function IsValidCronField :: "string \<Rightarrow> int \<Rightarrow> int \<Rightarrow> bool" where
  "IsValidCronField field lo hi =
     (if IsBlank field then False
      else if field = ''*'' then True
      else if field = ''L'' then lo = 1
      else (case Atoi field of
         Some exact \<Rightarrow> lo \<le> exact \<and> exact \<le> hi
       | None \<Rightarrow>
           if Contains field '','' then
             list_all (\<lambda>opt. opt \<noteq> [] \<and> IsValidCronField opt lo hi) (Split (CHR '','') field)
           else if Contains field ''/'' then
             (let stepParts = Split (CHR ''/'') field in
              if length stepParts \<noteq> 2 then False
              else (case Atoi (stepParts ! 1) of
                      None \<Rightarrow> False
                    | Some step \<Rightarrow>
                        if step \<le> 0 then False
                        else stepParts ! 0 = ''*'' \<or> IsValidCronField (stepParts ! 0) lo hi))
           else if Contains field ''-'' then
             (let rangeParts = Split (CHR ''-'') field in
              if length rangeParts \<noteq> 2 then False
              else (case (Atoi (rangeParts ! 0), Atoi (rangeParts ! 1)) of
                      (Some s, Some e) \<Rightarrow> lo \<le> s \<and> s \<le> hi \<and> lo \<le> e \<and> e \<le> hi
                    | _ \<Rightarrow> False))
           else False))"
  by pat_completeness auto
termination
  by (relation "measure (\<lambda>(field, _, _). length field)") (auto intro: Split_part_less)

declare IsValidCronField.simps [simp del]

definition IsValidCronExpression :: "string \<Rightarrow> bool" where
  "IsValidCronExpression expression =
     (if IsBlank expression then False
      else (let parts = Split (CHR '' '') (NormalizeCronExpression expression) in
            if length parts \<noteq> 5 then False
            else IsValidCronField (parts ! 0) 0 59 \<and> IsValidCronField (parts ! 1) 0 23 \<and>
                 IsValidCronField (parts ! 2) 1 31 \<and> IsValidCronField (parts ! 3) 1 12 \<and>
                 IsValidCronField (parts ! 4) 0 6))"

definition IntervalToCron :: "string \<Rightarrow> string go_result" where
  "IntervalToCron interval =
     (if length interval < 2 then Inl (GoErr (''invalid interval: '' @ interval))
      else (let unit = last interval; valStr = butlast interval in
            case Atoi valStr of
              None \<Rightarrow> Inl (GoErr (''invalid interval value: '' @ interval))
            | Some val \<Rightarrow>
                if val \<le> 0 then Inl (GoErr (''invalid interval value: '' @ interval))
                else if unit = CHR ''s'' then
                  (if val \<ge> 60 then Inr (''*/'' @ Itoa (quot val 60) @ '' * * * *'')
                   else Inr (''*/'' @ Itoa val @ '' * * * * *''))
                else if unit = CHR ''m'' then Inr (''*/'' @ Itoa val @ '' * * * *'')
                else if unit = CHR ''h'' then Inr (''0 */'' @ Itoa val @ '' * * *'')
                else Inl (GoErr (''unknown interval unit: '' @ [unit]))))"

text \<open>\<open>DaysInMonth\<close>: the day before the first of the next month, in the Gregorian calendar.\<close>

definition leap_year :: "int \<Rightarrow> bool" where
  "leap_year y \<longleftrightarrow> (y mod 4 = 0 \<and> y mod 100 \<noteq> 0) \<or> y mod 400 = 0"

definition DaysInMonth :: "int \<Rightarrow> int \<Rightarrow> string" where
  "DaysInMonth year month =
     Itoa (if month \<in> {4, 6, 9, 11} then 30 else if month = 2 then (if leap_year year then 29 else 28) else 31)"

definition NormalizeExpression :: "string \<Rightarrow> int \<Rightarrow> int \<Rightarrow> string" where
  "NormalizeExpression expression year month =
     (let parts = Split (CHR '' '') (cron_macro (ToLower (TrimSpace expression)));
          day = (if length parts = 5 then Some 2 else if length parts = 6 then Some 3 else None)
      in case day of
           Some i \<Rightarrow> Join (if parts ! i = ''1'' then parts[i := DaysInMonth year month] else parts) '' ''
         | None \<Rightarrow> Join parts '' '')"

subsection \<open>Reading numbers\<close>

lemma Atoi_None_nondigit:
  assumes "ch \<in> set s" "\<not> is_digit ch" "ch \<noteq> CHR ''-''" "ch \<noteq> CHR ''+''"
  shows "Atoi s = None"
proof -
  have "ch \<in> set (if s \<noteq> [] \<and> (hd s = CHR ''-'' \<or> hd s = CHR ''+'') then tl s else s)"
    using assms by (cases s) auto
  then show ?thesis using assms(2) by (auto simp: Atoi_def Let_def list_all_iff)
qed

lemma Atoi_None_inner:
  assumes "s \<noteq> []" "is_digit (hd s)" "ch \<in> set s" "\<not> is_digit ch"
  shows "Atoi s = None"
  using assms is_digit_not_sign[of "hd s"] by (auto simp: Atoi_def Let_def list_all_iff)

lemma Atoi_decimal: "Atoi (decimal n) = (if in_i64 (int n) then Some (int n) else None)"
  using decimal_digits[of n] decimal_hd[of n] is_digit_not_sign[of "hd (decimal n)"]
  by (auto simp: Atoi_def Let_def str_simps)

lemma decimal_chars: "ch \<in> set (decimal n) \<Longrightarrow> is_digit ch"
  using decimal_digits[of n] by (simp add: list_all_iff)

lemma not_digit [simp]:
  "\<not> is_digit (CHR '','')" "\<not> is_digit (CHR ''/'')" "\<not> is_digit (CHR ''-'')" "\<not> is_digit (CHR ''*'')"
  "\<not> is_digit (CHR '' '')" "\<not> is_digit (CHR ''L'')"
  by (simp_all add: is_digit_def)

lemma decimal_lacks [simp]:
  "CHR '','' \<notin> set (decimal n)" "CHR ''/'' \<notin> set (decimal n)" "CHR ''-'' \<notin> set (decimal n)"
  "CHR ''*'' \<notin> set (decimal n)" "CHR '' '' \<notin> set (decimal n)" "CHR ''L'' \<notin> set (decimal n)"
  by (auto dest: decimal_chars)

lemma decimal_neq [simp]: "decimal n \<noteq> CHR ''*'' # s" "decimal n \<noteq> CHR ''L'' # s"
  by (metis decimal_lacks(4) list.set_intros(1), metis decimal_lacks(6) list.set_intros(1))

lemma not_blank: "ch \<in> set s \<Longrightarrow> \<not> is_space ch \<Longrightarrow> \<not> IsBlank s"
  by (auto simp: IsBlank_iff list_all_iff)

lemma digit_not_space: "is_digit ch \<Longrightarrow> \<not> is_space ch"
  by (auto simp: is_digit_def is_space_def)

lemma decimal_nonempty [simp]: "decimal n \<noteq> []"
  using decimal_digits by blast

lemma decimal_not_blank [simp]: "\<not> IsBlank (decimal n)"
  using decimal_hd[of n] by (intro not_blank[of "hd (decimal n)"] digit_not_space) auto

subsection \<open>The fields the validator accepts\<close>

text \<open>A cron field as data, and how it is written.\<close>

datatype cron_item = CStar | CNum nat | CRange nat nat

datatype cron_opt = CPlain cron_item | CStep cron_item nat

fun show_item :: "cron_item \<Rightarrow> string" where
  "show_item CStar = ''*''"
| "show_item (CNum n) = decimal n"
| "show_item (CRange a b) = decimal a @ ''-'' @ decimal b"

fun show_opt :: "cron_opt \<Rightarrow> string" where
  "show_opt (CPlain i) = show_item i"
| "show_opt (CStep i k) = show_item i @ ''/'' @ decimal k"

definition show_field :: "cron_opt list \<Rightarrow> string" where
  "show_field opts = Join (map show_opt opts) '',''"

fun item_ok :: "int \<Rightarrow> int \<Rightarrow> cron_item \<Rightarrow> bool" where
  "item_ok lo hi CStar = True"
| "item_ok lo hi (CNum n) = (lo \<le> int n \<and> int n \<le> hi)"
| "item_ok lo hi (CRange a b) = (lo \<le> int a \<and> int a \<le> hi \<and> lo \<le> int b \<and> int b \<le> hi)"

fun opt_ok :: "int \<Rightarrow> int \<Rightarrow> cron_opt \<Rightarrow> bool" where
  "opt_ok lo hi (CPlain i) = item_ok lo hi i"
| "opt_ok lo hi (CStep i k) = (item_ok lo hi i \<and> 0 < k \<and> in_i64 (int k))"

lemma valid_item:
  assumes "in_i64 hi"
  shows "IsValidCronField (show_item i) lo hi = item_ok lo hi i"
proof (cases i)
  case CStar
  have "\<not> IsBlank ''*''" by (rule not_blank[of "CHR ''*''"]) (simp_all add: is_space_def)
  with CStar show ?thesis by (subst IsValidCronField.simps) simp
next
  case (CNum n)
  have "\<not> in_i64 (int n) \<Longrightarrow> \<not> int n \<le> hi" using assms by (simp add: in_i64_def)
  then show ?thesis
    using CNum by (subst IsValidCronField.simps) (auto simp: Atoi_decimal)
next
  case (CRange a b)
  let ?s = "decimal a @ ''-'' @ decimal b"
  have at: "Atoi ?s = None" by (rule Atoi_None_inner[of _ "CHR ''-''"]) (simp_all add: decimal_hd)
  have sp: "Split (CHR ''-'') ?s = [decimal a, decimal b]" by (simp add: Split_append_sep Split_no_occurrence)
  have nb: "\<not> IsBlank ?s" by (rule not_blank[of "CHR ''-''"]) (simp_all add: is_space_def)
  have ne: "?s \<noteq> ''*''" "?s \<noteq> ''L''" using decimal_nonempty[of a] by (cases "decimal a"; auto)+
  have "\<not> in_i64 (int n) \<Longrightarrow> \<not> int n \<le> hi" for n using assms by (simp add: in_i64_def)
  then show ?thesis
    using CRange at sp nb ne by (subst IsValidCronField.simps) (auto simp: Atoi_decimal Let_def)
qed

lemma show_item_lacks: "CHR '','' \<notin> set (show_item i)" "CHR ''/'' \<notin> set (show_item i)" "show_item i \<noteq> []"
  by (cases i; simp)+

lemma valid_opt:
  assumes "in_i64 hi"
  shows "IsValidCronField (show_opt q) lo hi = opt_ok lo hi q"
proof (cases q)
  case (CPlain i)
  then show ?thesis using valid_item[OF assms] by simp
next
  case (CStep i k)
  let ?s = "show_item i @ ''/'' @ decimal k"
  have at: "Atoi ?s = None" by (rule Atoi_None_nondigit[of "CHR ''/''"]) simp_all
  have sp: "Split (CHR ''/'') ?s = [show_item i, decimal k]"
    using show_item_lacks(2) by (simp add: Split_append_sep Split_no_occurrence)
  have nb: "\<not> IsBlank ?s" by (rule not_blank[of "CHR ''/''"]) (simp_all add: is_space_def)
  have ne: "?s \<noteq> ''*''" "?s \<noteq> ''L''" using show_item_lacks(3)[of i] by (cases "show_item i"; auto)+
  have star: "show_item i = ''*'' \<Longrightarrow> item_ok lo hi i"
    by (cases i) (auto simp: append_eq_Cons_conv)
  have "\<not> Contains ?s '',''" using show_item_lacks(1)[of i] by simp
  then show ?thesis
    using CStep at sp nb ne star valid_item[OF assms, of i lo]
    by (subst IsValidCronField.simps) (auto simp: Atoi_decimal Let_def)
qed

lemma show_opt_lacks: "CHR '','' \<notin> set (show_opt q)" "show_opt q \<noteq> []"
  using show_item_lacks by (cases q; simp)+

lemma Split_Join:
  "xs \<noteq> [] \<Longrightarrow> (\<forall>x \<in> set xs. d \<notin> set x) \<Longrightarrow> Split d (Join xs [d]) = xs"
proof (induction xs)
  case (Cons x xs)
  then show ?case by (cases xs) (simp_all add: Join_Cons Split_append_sep Split_no_occurrence)
qed simp

text \<open>The validator accepts a written field exactly when every number in it lies between the bounds of
  the field and every step is positive: for lists of stars, numbers and ranges, with or without a
  step. The two ends of a range are checked apart, so a range may run backwards.\<close>

theorem cron_field_accepts:
  assumes "opts \<noteq> []" "in_i64 hi"
  shows "IsValidCronField (show_field opts) lo hi \<longleftrightarrow> list_all (opt_ok lo hi) opts"
proof (cases "tl opts = []")
  case True
  then obtain q where "opts = [q]" using assms(1) by (cases opts) auto
  then show ?thesis using valid_opt[OF assms(2)] by (simp add: show_field_def)
next
  case False
  then obtain q r rest where o: "opts = q # r # rest" by (cases opts; cases "tl opts") auto
  let ?s = "show_field opts"
  have c: "CHR '','' \<in> set ?s" by (simp add: show_field_def o Join_Cons)
  have sp: "Split (CHR '','') ?s = map show_opt opts"
    unfolding show_field_def using show_opt_lacks(1) o by (intro Split_Join) auto
  have at: "Atoi ?s = None" by (rule Atoi_None_nondigit[OF c]) simp_all
  have nb: "\<not> IsBlank ?s" by (rule not_blank[OF c]) (simp add: is_space_def)
  have ne: "?s \<noteq> ''*''" "?s \<noteq> ''L''" using c by auto
  have "IsValidCronField ?s lo hi \<longleftrightarrow> list_all (\<lambda>x. x \<noteq> [] \<and> IsValidCronField x lo hi) (map show_opt opts)"
    using at nb ne c sp by (subst IsValidCronField.simps) simp
  also have "\<dots> \<longleftrightarrow> list_all (opt_ok lo hi) opts"
    using show_opt_lacks(2) valid_opt[OF assms(2)] by (simp add: list.pred_map comp_def)
  finally show ?thesis .
qed

theorem cron_field_accepts_witness:
  "IsValidCronField (show_field [CPlain (CRange 50 10), CStep CStar 5]) 0 59 \<and>
   \<not> IsValidCronField (show_field [CPlain (CNum 60)]) 0 59"
  using cron_field_accepts[of "[CPlain (CRange 50 10), CStep CStar 5]" 59 0]
    cron_field_accepts[of "[CPlain (CNum 60)]" 59 0] by (simp add: in_i64_def)


subsection \<open>Intervals\<close>

lemma TrimSpace_id:
  assumes "s \<noteq> []" "\<not> is_space (hd s)" "\<not> is_space (last s)"
  shows "TrimSpace s = s"
proof -
  have "dropWhile is_space s = s" using assms by (intro dropWhile_id) simp
  moreover have "dropWhile is_space (rev s) = rev s" using assms by (intro dropWhile_id) (simp add: hd_rev)
  ultimately show ?thesis by (simp add: TrimSpace_def Trim_def TrimLeft_def TrimRight_def)
qed

lemma lower_digit: "is_digit ch \<Longrightarrow> lower_char ch = ch"
  by (auto simp: is_digit_def lower_char_def)

lemma ToLower_decimal [simp]: "ToLower (decimal n) = decimal n"
  unfolding ToLower_def by (rule map_idI) (blast intro: lower_digit decimal_chars)

lemma ToLower_append: "ToLower (s @ t) = ToLower s @ ToLower t"
  by (simp add: ToLower_def)

text \<open>An expression written from parts without spaces, capitals or macros is split into them again.\<close>

lemma valid_parts:
  assumes "parts \<noteq> []" "\<forall>x \<in> set parts. x \<noteq> [] \<and> CHR '' '' \<notin> set x \<and> ToLower x = x \<and> list_all (\<lambda>c. \<not> is_space c) x"
    and "hd (hd parts) \<noteq> CHR ''@''"
  shows "Split (CHR '' '') (NormalizeCronExpression (Join parts '' '')) = parts"
    and "\<not> IsBlank (Join parts '' '')"
proof -
  let ?e = "Join parts '' ''"
  have e: "?e \<noteq> [] \<and> hd ?e = hd (hd parts) \<and> last ?e = last (last parts)" using assms(1,2)
  proof (induction parts)
    case (Cons x xs)
    then show ?case by (cases xs) (auto simp: Join_Cons)
  qed simp
  have ns: "\<not> is_space (hd (hd parts))" "\<not> is_space (last (last parts))"
    using assms(1,2) by (auto simp: list_all_iff dest: bspec[OF _ hd_in_set] bspec[OF _ last_in_set])
  then have t: "TrimSpace ?e = ?e" using e by (intro TrimSpace_id) auto
  have l: "ToLower ?e = ?e" using assms(1,2)
  proof (induction parts)
    case (Cons x xs)
    then show ?case by (cases xs) (auto simp: Join_Cons ToLower_append, simp add: ToLower_def lower_char_def)
  qed simp
  have "?e \<notin> {''@hourly'', ''@daily'', ''@weekly'', ''@monthly''}" using e assms(3) by auto
  then have "NormalizeCronExpression ?e = ?e" by (simp add: NormalizeCronExpression_def t l cron_macro_def)
  then show "Split (CHR '' '') (NormalizeCronExpression ?e) = parts"
    using assms(1,2) by (simp add: Split_Join)
  show "\<not> IsBlank ?e" using e t by (simp add: IsBlank_def)
qed

lemma star_part: "x = ''*'' \<Longrightarrow> IsValidCronField x lo hi"
  using valid_item[of 0 CStar lo] by (subst IsValidCronField.simps)
    (auto simp: IsBlank_iff is_space_def)

lemma step_part: "0 < v \<Longrightarrow> in_i64 (int v) \<Longrightarrow> in_i64 hi \<Longrightarrow> IsValidCronField (CHR ''*'' # CHR ''/'' # decimal v) lo hi"
  using valid_opt[of hi "CStep CStar v" lo] by simp

lemma zero_part: "IsValidCronField ''0'' 0 59"
  by code_simp

lemma part_chars:
  "list_all (\<lambda>c. \<not> is_space c) (decimal v)" "\<not> is_space (CHR ''*'')" "\<not> is_space (CHR ''/'')" "\<not> is_space (CHR ''0'')"
  by (auto simp: list_all_iff dest: decimal_chars digit_not_space) (simp_all add: is_space_def)

text \<open>An interval of minutes, hours, or at least sixty seconds becomes an expression the validator
  accepts. An interval below sixty seconds becomes a six-field expression, which it rejects.\<close>

theorem interval_cron_valid:
  assumes "0 < v" "in_i64 (int v)"
  shows "(\<exists>e. IntervalToCron (decimal v @ ''m'') = Inr e \<and> IsValidCronExpression e) \<and>
     (\<exists>e. IntervalToCron (decimal v @ ''h'') = Inr e \<and> IsValidCronExpression e) \<and>
     (\<exists>e. IntervalToCron (decimal v @ ''s'') = Inr e \<and> (IsValidCronExpression e \<longleftrightarrow> 60 \<le> v))"
proof -
  have len: "\<not> length (decimal v @ [u]) < 2" for u :: char
    using decimal_nonempty[of v] by (cases "decimal v") auto
  have i: "Itoa (int n) = decimal n" for n by (simp add: Itoa_def)
  have q: "60 \<le> v \<Longrightarrow> quot (int v) 60 = int (v div 60)" by (simp add: quot_nonneg zdiv_int)
  let ?st = "\<lambda>n. CHR ''*'' # CHR ''/'' # decimal n"
  have low: "ToLower (?st n) = ?st n" "ToLower ''*'' = ''*''" "ToLower ''0'' = ''0''" for n
    using ToLower_decimal[of n] by (simp_all add: ToLower_def lower_char_def)
  have five: "IsValidCronExpression (?st n @ '' * * * *'')" if "0 < n" "in_i64 (int n)" for n
    using valid_parts[of "[?st n, ''*'', ''*'', ''*'', ''*'']"] step_part[OF that, of 59 0] star_part low part_chars
    by (simp add: IsValidCronExpression_def Let_def in_i64_def)
  have hours: "IsValidCronExpression (''0 */'' @ decimal v @ '' * * *'')"
    using valid_parts[of "[''0'', ?st v, ''*'', ''*'', ''*'']"] step_part[OF assms, of 23 0] star_part low part_chars zero_part
    by (simp add: IsValidCronExpression_def Let_def in_i64_def)
  have six: "\<not> IsValidCronExpression (?st v @ '' * * * * *'')"
    using valid_parts[of "[?st v, ''*'', ''*'', ''*'', ''*'', ''*'']"] low part_chars
    by (simp add: IsValidCronExpression_def Let_def)
  have n60: "60 \<le> v \<Longrightarrow> 0 < v div 60 \<and> in_i64 (int (v div 60))"
  proof -
    assume "60 \<le> v"
    moreover have "v div 60 \<le> v" by simp
    ultimately show ?thesis using assms(2) by (simp add: in_i64_def div_greater_zero_iff)
  qed
  show ?thesis
    using assms len five[OF assms] hours six five[of "v div 60"] n60 q
    by (auto simp: IntervalToCron_def Atoi_decimal i Let_def)
qed

theorem interval_cron_valid_witness:
  "(\<exists>e. IntervalToCron (decimal 90 @ ''s'') = Inr e \<and> IsValidCronExpression e) \<and>
   (\<exists>e. IntervalToCron (decimal 30 @ ''s'') = Inr e \<and> \<not> IsValidCronExpression e)"
  using interval_cron_valid[of 90] interval_cron_valid[of 30] by (simp add: in_i64_def)

subsection \<open>The last day of the month\<close>

lemma Split_part_chars: "p \<in> set (Split d s) \<Longrightarrow> set p \<subseteq> set s"
proof (induction s arbitrary: p)
  case (Cons c s)
  then show ?case by (cases "Split d s") (fastforce split: if_splits)+
qed simp

lemma cron_macro_no_L: "CHR ''L'' \<notin> set (cron_macro (ToLower s))"
proof -
  have "byte (lower_char ch) \<noteq> 76" for ch by (auto simp: lower_char_def)
  moreover have "byte (CHR ''L'') = (76 :: nat)" by simp
  ultimately have n: "lower_char ch \<noteq> CHR ''L''" for ch by metis
  have "CHR ''L'' \<notin> set (ToLower s)" unfolding ToLower_def using n by (metis imageE set_map)
  then show ?thesis by (simp add: cron_macro_def)
qed


text \<open>A last-day field can never be written: the expression is put in lower case before its fields are
  checked against a capital \<open>L\<close>, and the lower-case letter is refused in every field. The expansion
  of an expression to a month replaces day 1 instead, so a monthly job moves to the month's last day.\<close>

theorem last_day_unreachable:
  "''L'' \<notin> set (Split (CHR '' '') (NormalizeCronExpression e)) \<and>
   (''l'' \<in> set (Split (CHR '' '') (NormalizeCronExpression e)) \<longrightarrow> \<not> IsValidCronExpression e) \<and>
   NormalizeExpression ''@monthly'' year month = ''0 0 '' @ DaysInMonth year month @ '' * *''"
proof (intro conjI impI)
  let ?n = "NormalizeCronExpression e"
  show "''L'' \<notin> set (Split (CHR '' '') ?n)"
  proof
    assume "''L'' \<in> set (Split (CHR '' '') ?n)"
    then have "CHR ''L'' \<in> set ?n" using Split_part_chars by fastforce
    then show False using cron_macro_no_L by (simp add: NormalizeCronExpression_def)
  qed
  have "\<not> IsValidCronField ''l'' lo hi" for lo hi
    by (subst IsValidCronField.simps) (simp add: IsBlank_iff is_space_def Atoi_def is_digit_def)
  then show "\<not> IsValidCronExpression e" if "''l'' \<in> set (Split (CHR '' '') ?n)"
    using that by (auto simp: IsValidCronExpression_def Let_def in_set_conv_nth eval_nat_numeral less_Suc_eq)
  have "ToLower (TrimSpace ''@monthly'') = ''@monthly''" by code_simp
  moreover have "Split (CHR '' '') ''0 0 1 * *'' = [''0'', ''0'', ''1'', ''*'', ''*'']" by simp
  ultimately show "NormalizeExpression ''@monthly'' year month = ''0 0 '' @ DaysInMonth year month @ '' * *''"
    by (simp add: NormalizeExpression_def cron_macro_def Let_def eval_nat_numeral)
qed

theorem last_day_unreachable_witness:
  "\<not> IsValidCronExpression ''0 0 L * *'' \<and> NormalizeExpression ''@monthly'' 2024 2 = ''0 0 29 * *''"
proof -
  have a: "''l'' \<in> set (Split (CHR '' '') (NormalizeCronExpression ''0 0 L * *''))" by code_simp
  have b: "DaysInMonth 2024 2 = ''29''" by code_simp
  show ?thesis using last_day_unreachable[of "''0 0 L * *''" 2024 2] a b by simp
qed

end
