(* ===== verification/Loops.thy ===== *)
theory Loops
  imports Go_Prelude "HOL-Library.AList"
begin

section \<open>Prompt loops\<close>

text \<open>
  \<open>src/openclaw/core/loops.go\<close>: the command \<open>/loop\<close>, the detector of termination keywords, and the
  scheduler of recurring prompts. A schedule of the package \<open>robfig/cron\<close> is a function from a
  time to the next occurrence after it, and parsing an expression is the parameter \<open>parse\<close>. The
  \<open>sync.Map\<close> of entries is an association list with distinct keys; nothing below depends on its
  order. The delivery of due prompts to a queue (\<open>asynq\<close>) is not modelled.
\<close>

subsection \<open>The command\<close>

datatype LoopAction = LoopAction_Schedule | LoopAction_Cancel | LoopAction_Status | LoopAction_Invalid

record LoopCommand =
  lc_Action :: LoopAction
  lc_Interval :: string
  lc_Prompt :: string

text \<open>The class \<open>\s\<close> of the regular expressions, which leaves out the vertical tab.\<close>

text \<open>The regular expression of the command. No two adjacent parts of it can match the same character,
  except white space before the prompt, which the greedy match takes first; so it is matched from
  left to right without backtracking.\<close>

definition LoopCommandRegex :: "string \<Rightarrow> (string \<times> string \<times> string) option" where
  "LoopCommandRegex t =
     (let r1 = drop 5 t; r2 = dropWhile re_space r1;
          value = takeWhile is_digit r2; r3 = dropWhile is_digit r2; r4 = dropWhile re_space r3
      in if \<not> EqualFold (take 5 t) ''/loop'' \<or> r1 = r2 \<or> value = [] then None
         else (case r4 of
                 [] \<Rightarrow> None
               | u # r5 \<Rightarrow>
                   (let prompt = dropWhile re_space r5 in
                    if lower_char u \<notin> {CHR ''s'', CHR ''m'', CHR ''h''} \<or> prompt = r5 \<or> prompt = []
                       \<or> CHR 0x0A \<in> set prompt
                    then None else Some (value, [u], prompt))))"

definition TryParse :: "string \<Rightarrow> LoopCommand option" where
  "TryParse t =
     (if IsBlank t \<or> \<not> HasPrefix t ''/loop'' then None
      else (let trimmed = TrimSpace t in
            if trimmed = ''/loop cancel'' \<or> trimmed = ''/loop stop''
            then Some \<lparr>lc_Action = LoopAction_Cancel, lc_Interval = [], lc_Prompt = []\<rparr>
            else if trimmed = ''/loop status''
            then Some \<lparr>lc_Action = LoopAction_Status, lc_Interval = [], lc_Prompt = []\<rparr>
            else (case LoopCommandRegex trimmed of
                    None \<Rightarrow> Some \<lparr>lc_Action = LoopAction_Invalid, lc_Interval = [], lc_Prompt = []\<rparr>
                  | Some (value, unit, prompt) \<Rightarrow>
                      Some \<lparr>lc_Action = LoopAction_Schedule, lc_Interval = value @ unit,
                            lc_Prompt = TrimSpace prompt\<rparr>)))"

subsection \<open>Termination keywords\<close>

definition IsLetterOrDigit :: "char \<Rightarrow> bool" where
  "IsLetterOrDigit b \<longleftrightarrow> (97 \<le> byte b \<and> byte b \<le> 122) \<or> (65 \<le> byte b \<and> byte b \<le> 90) \<or> is_digit b"

definition IsKeywordCharacter :: "char \<Rightarrow> bool" where
  "IsKeywordCharacter b \<longleftrightarrow> IsLetterOrDigit b \<or> b = CHR ''_''"

definition TerminationKeywords :: "string list" where
  "TerminationKeywords = [''LOOP_TERMINATE'', ''DONE'', ''WORK_COMPLETE'']"

function keyword_loop :: "string \<Rightarrow> string \<Rightarrow> nat \<Rightarrow> bool" where
  "keyword_loop lowerText lowerKeyword startIndex =
     (if startIndex < length lowerText then
        (case Index (drop startIndex lowerText) lowerKeyword of
           None \<Rightarrow> False
         | Some relIndex \<Rightarrow>
             (let index = startIndex + relIndex;
                  before = (index = 0 \<or> \<not> IsKeywordCharacter (lowerText ! (index - 1)));
                  afterIndex = index + length lowerKeyword;
                  after = (afterIndex = length lowerText \<or> \<not> IsKeywordCharacter (lowerText ! afterIndex))
              in if before \<and> after then True else keyword_loop lowerText lowerKeyword (index + 1)))
      else False)"
  by pat_completeness auto
termination by (relation "measure (\<lambda>(t, _, i). length t - i)") auto

declare keyword_loop.simps [simp del]

definition cntainsWholeKeyword :: "string \<Rightarrow> string \<Rightarrow> bool" where
  "cntainsWholeKeyword t keyword =
     (if keyword = [] then False else keyword_loop (ToLower t) (ToLower keyword) 0)"

text \<open>The specification: the keyword occurs, in any case, with no keyword character on either side.\<close>

definition whole_word_at :: "string \<Rightarrow> string \<Rightarrow> nat \<Rightarrow> bool" where
  "whole_word_at t k i \<longleftrightarrow> prefix k (drop i t) \<and> i + length k \<le> length t \<and>
     (i = 0 \<or> \<not> IsKeywordCharacter (t ! (i - 1))) \<and>
     (i + length k = length t \<or> \<not> IsKeywordCharacter (t ! (i + length k)))"

lemma prefix_drop_length: "k \<noteq> [] \<Longrightarrow> prefix k (drop i t) \<Longrightarrow> i + length k \<le> length t"
  using prefix_length_le[of k "drop i t"] by (cases k) auto

lemma keyword_loop_spec:
  assumes "k \<noteq> []"
  shows "keyword_loop t k start \<longleftrightarrow> (\<exists>i \<ge> start. whole_word_at t k i)"
  using assms
proof (induction t k start rule: keyword_loop.induct)
  case (1 t k start)
  note ne = 1(2)
  show ?case
  proof (cases "start < length t")
    case False
    then have "\<not> whole_word_at t k i" if "i \<ge> start" for i
      using that ne by (cases k) (auto simp: whole_word_at_def)
    with False show ?thesis by (subst keyword_loop.simps) auto
  next
    case start: True
    show ?thesis
    proof (cases "Index (drop start t) k")
      case None
      have "\<not> prefix k (drop i t)" if "i \<ge> start" for i
      proof
        assume p: "prefix k (drop i t)"
        then have "i - start \<le> length (drop start t)"
          using prefix_drop_length[OF ne p] that by auto
        moreover have "drop (i - start) (drop start t) = drop i t" using that by simp
        ultimately show False using None p by (metis Index_None_iff)
      qed
      with start None show ?thesis
        by (subst keyword_loop.simps) (auto simp: whole_word_at_def)
    next
      case (Some r)
      let ?i = "start + r"
      from Some have p: "prefix k (drop ?i t)" and first: "\<forall>j < r. \<not> prefix k (drop j (drop start t))"
        by (auto simp: Index_Some_iff add.commute)
      have le: "?i + length k \<le> length t" using prefix_drop_length[OF ne p] .
      have skip: "i \<ge> ?i" if "whole_word_at t k i" "i \<ge> start" for i
      proof (rule ccontr)
        assume "\<not> i \<ge> ?i"
        then have "i - start < r" using that by auto
        moreover have "drop (i - start) (drop start t) = drop i t" using that by simp
        ultimately show False using first that(1) by (auto simp: whole_word_at_def)
      qed
      show ?thesis
      proof (cases "whole_word_at t k ?i")
        case True
        then show ?thesis
          using start Some by (subst keyword_loop.simps) (auto simp: whole_word_at_def Let_def intro!: exI[of _ ?i])
      next
        case False
        then have "keyword_loop t k start = keyword_loop t k (?i + 1)"
          using start Some p le by (subst keyword_loop.simps) (auto simp: whole_word_at_def Let_def)
        also have "\<dots> \<longleftrightarrow> (\<exists>i \<ge> ?i + 1. whole_word_at t k i)"
          using 1(1)[OF start Some refl refl refl refl _ ne] False p le by (auto simp: whole_word_at_def)
        also have "\<dots> \<longleftrightarrow> (\<exists>i \<ge> start. whole_word_at t k i)"
          using skip False by (metis Suc_eq_plus1 Suc_leD Suc_leI le_neq_implies_less le_add1 order_trans)
        finally show ?thesis .
      qed
    qed
  qed
qed

text \<open>The keyword search, which restarts one byte after each occurrence it rejects, finds a keyword
  exactly when it stands somewhere as a whole word, in any mixture of capitals.\<close>

theorem whole_keyword_spec:
  "cntainsWholeKeyword t keyword \<longleftrightarrow>
     keyword \<noteq> [] \<and> (\<exists>i. whole_word_at (ToLower t) (ToLower keyword) i)"
proof -
  have "ToLower keyword \<noteq> [] \<longleftrightarrow> keyword \<noteq> []" by (simp add: ToLower_def)
  then show ?thesis using keyword_loop_spec[of "ToLower keyword" "ToLower t" 0] by (simp add: cntainsWholeKeyword_def)
qed


subsection \<open>The scheduler\<close>

record LoopEntry =
  le_SessionId :: string
  le_Prompt :: string
  le_CronExpression :: string
  le_ScheduledAt :: int
  le_schedule :: "int \<Rightarrow> int"
  le_nextOccurrence :: int

type_synonym ClawLoopScheduler = "(string \<times> LoopEntry) list"

definition NewLoopEntry :: "int \<Rightarrow> string \<Rightarrow> string \<Rightarrow> string \<Rightarrow> (int \<Rightarrow> int) \<Rightarrow> LoopEntry" where
  "NewLoopEntry now sessionId prompt cronExpression schedule =
     \<lparr>le_SessionId = sessionId, le_Prompt = prompt, le_CronExpression = cronExpression, le_ScheduledAt = now,
      le_schedule = schedule, le_nextOccurrence = schedule now\<rparr>"

definition IsDue :: "int \<Rightarrow> LoopEntry \<Rightarrow> bool \<times> LoopEntry" where
  "IsDue now e =
     (if now < le_nextOccurrence e then (False, e)
      else (True, e\<lparr>le_nextOccurrence := le_schedule e now\<rparr>))"

definition ScheduleLoop ::
  "(string \<Rightarrow> (int \<Rightarrow> int) option) \<Rightarrow> int \<Rightarrow> string \<Rightarrow> string \<Rightarrow> string \<Rightarrow> ClawLoopScheduler
     \<Rightarrow> unit go_result \<times> ClawLoopScheduler" where
  "ScheduleLoop parse now sessionId cronExpression prompt s =
     (case parse cronExpression of
        None \<Rightarrow> (Inl (GoErr (''invalid cron expression '' @ cronExpression)), s)
      | Some schedule \<Rightarrow>
          (Inr (), AList.update (ToLower sessionId) (NewLoopEntry now sessionId prompt cronExpression schedule) s))"

definition CancelLoop :: "string \<Rightarrow> ClawLoopScheduler \<Rightarrow> ClawLoopScheduler" where
  "CancelLoop sessionId s = AList.delete (ToLower sessionId) s"

definition GetLoopStatus :: "(int \<Rightarrow> string) \<Rightarrow> string \<Rightarrow> ClawLoopScheduler \<Rightarrow> string" where
  "GetLoopStatus format sessionId s =
     (case map_of s (ToLower sessionId) of
        None \<Rightarrow> []
      | Some e \<Rightarrow> ''Loop active '' @ [CHR 0xE2, CHR 0x80, CHR 0x94] @ '' cron: '' @ le_CronExpression e
          @ '', prompt: '' @ [CHR 0x22] @ le_Prompt e @ [CHR 0x22] @ '', scheduled at: '' @ format (le_ScheduledAt e))"

definition SignalComplete :: "string \<Rightarrow> ClawLoopScheduler \<Rightarrow> unit go_result \<times> ClawLoopScheduler" where
  "SignalComplete sessionId s = (Inr (), CancelLoop sessionId s)"

definition OnToolComplete :: "string \<Rightarrow> ClawLoopScheduler \<Rightarrow> unit go_result \<times> ClawLoopScheduler" where
  "OnToolComplete sessionId s = SignalComplete sessionId s"

text \<open>The scheduler's \<open>SignalComplete\<close> never fails, so the order in which the keywords are tried does not
  matter.\<close>

definition ScanText :: "string \<Rightarrow> string \<Rightarrow> ClawLoopScheduler \<Rightarrow> bool \<times> ClawLoopScheduler" where
  "ScanText sessionId t s =
     (if IsBlank t then (False, s)
      else if list_ex (cntainsWholeKeyword t) TerminationKeywords
      then (case SignalComplete sessionId s of (Inl _, s1) \<Rightarrow> (False, s1) | (Inr _, s1) \<Rightarrow> (True, s1))
      else (False, s))"

fun GetDueEntries :: "int \<Rightarrow> ClawLoopScheduler \<Rightarrow> LoopEntry list \<times> ClawLoopScheduler" where
  "GetDueEntries now [] = ([], [])"
| "GetDueEntries now ((k, e) # rest) =
     (let (due, e1) = IsDue now e; (results, rest1) = GetDueEntries now rest
      in (if due then e1 # results else results, (k, e1) # rest1))"

lemma GetDueEntries_due:
  "fst (GetDueEntries now s) =
     map (\<lambda>e. e\<lparr>le_nextOccurrence := le_schedule e now\<rparr>) (filter (\<lambda>e. le_nextOccurrence e \<le> now) (map snd s))"
  by (induction s) (auto simp: IsDue_def split: prod.splits)

lemma GetDueEntries_state:
  "snd (GetDueEntries now s) = map (\<lambda>(k, e). (k, snd (IsDue now e))) s"
  by (induction s) (auto split: prod.splits)

text \<open>A tick returns exactly the loops whose time has come, each moved on to its next occurrence, and
  until then no further tick returns them again, provided a schedule's next occurrence is always
  later than the time asked for.\<close>

theorem tick_fires_once:
  assumes "\<forall>(k, e) \<in> set s. \<forall>t. t < le_schedule e t" "GetDueEntries now s = (due, s')" "later \<le> now"
  shows "map le_SessionId due = map le_SessionId (filter (\<lambda>e. le_nextOccurrence e \<le> now) (map snd s)) \<and>
     map fst s' = map fst s \<and> fst (GetDueEntries later s') = []"
proof -
  have d: "due = fst (GetDueEntries now s)" and s': "s' = map (\<lambda>(k, e). (k, snd (IsDue now e))) s"
    using assms(2) GetDueEntries_state[of now s] by simp_all
  have "now < le_nextOccurrence e" if "e \<in> set (map snd s')" for e
    using that assms(1) unfolding s' by (auto simp: IsDue_def)
  then have "filter (\<lambda>e. le_nextOccurrence e \<le> later) (map snd s') = []"
    using assms(3) by (fastforce simp: filter_empty_conv)
  then have "fst (GetDueEntries later s') = []" by (simp add: GetDueEntries_due)
  moreover have "map fst s' = map fst s" by (simp add: s' case_prod_unfold comp_def)
  ultimately show ?thesis by (simp add: d GetDueEntries_due comp_def)
qed

definition hourly :: "int \<Rightarrow> int" where
  "hourly t = (t div (60 * Minute) + 1) * (60 * Minute)"

lemma hourly_later: "t < hourly t"
proof -
  have "t = t div (60 * Minute) * (60 * Minute) + t mod (60 * Minute)" by simp
  moreover have "t mod (60 * Minute) < 60 * Minute" by simp
  ultimately show ?thesis by (simp add: hourly_def distrib_right)
qed

theorem tick_fires_once_witness:
  "map le_SessionId (fst (GetDueEntries (61 * Minute)
      (snd (ScheduleLoop (\<lambda>_. Some hourly) 5 ''S1'' ''0 * * * *'' ''check'' [])))) = [''S1''] \<and>
   fst (GetDueEntries (61 * Minute) (snd (GetDueEntries (61 * Minute)
      (snd (ScheduleLoop (\<lambda>_. Some hourly) 5 ''S1'' ''0 * * * *'' ''check'' []))))) = []"
proof -
  let ?s = "snd (ScheduleLoop (\<lambda>_. Some hourly) 5 ''S1'' ''0 * * * *'' ''check'' [])"
  have s: "?s = [(ToLower ''S1'', NewLoopEntry 5 ''S1'' ''check'' ''0 * * * *'' hourly)]"
    by (simp add: ScheduleLoop_def)
  have h: "\<forall>(k, e) \<in> set ?s. \<forall>t. t < le_schedule e t" by (simp add: s NewLoopEntry_def hourly_later)
  obtain due s' where g: "GetDueEntries (61 * Minute) ?s = (due, s')" by fastforce
  have "filter (\<lambda>e. le_nextOccurrence e \<le> 61 * Minute) (map snd ?s) = [NewLoopEntry 5 ''S1'' ''check'' ''0 * * * *'' hourly]"
    by (simp add: s NewLoopEntry_def hourly_def)
  with tick_fires_once[OF h g, of "61 * Minute"] g show ?thesis by (simp add: NewLoopEntry_def)
qed

text \<open>When the answer of a session contains a termination keyword as a whole word, the session's loop
  is gone, whatever the case its identifier is written in, and every other loop stays.\<close>

theorem keyword_ends_loop:
  assumes "list_ex (cntainsWholeKeyword t) TerminationKeywords" "\<not> IsBlank t"
  shows "\<exists>s'. ScanText sessionId t s = (True, s') \<and>
     (\<forall>id. ToLower id = ToLower sessionId \<longrightarrow> GetLoopStatus format id s' = []) \<and>
     (\<forall>id. ToLower id \<noteq> ToLower sessionId \<longrightarrow> GetLoopStatus format id s' = GetLoopStatus format id s)"
  using assms by (simp add: ScanText_def SignalComplete_def CancelLoop_def GetLoopStatus_def delete_conv')

theorem keyword_ends_loop_witness:
  "\<exists>s'. ScanText ''s1'' ''All tests pass. Done!''
      (snd (ScheduleLoop (\<lambda>_. Some hourly) 5 ''S1'' ''0 * * * *'' ''check'' [])) = (True, s') \<and>
    GetLoopStatus Itoa ''S1'' s' = []"
proof -
  have k: "list_ex (cntainsWholeKeyword ''All tests pass. Done!'') TerminationKeywords" by code_simp
  have b: "\<not> IsBlank ''All tests pass. Done!''" by code_simp
  have l: "ToLower ''S1'' = ToLower ''s1''" by code_simp
  show ?thesis using keyword_ends_loop[OF k b] l by blast
qed

end
