(* ===== verification/Goal.thy ===== *)
theory Goal
  imports Go_Prelude
begin

section \<open>Session goals\<close>

text \<open>
  \<open>src/openclaw/core/goal_models.go\<close>, the in-memory service of \<open>src/openclaw/core/goal.go\<close> and
  the auto-continuation of \<open>src/openclaw/agent/goal.go\<close>.

  The service keeps one goal per session; its \<open>sync.Map\<close> is a partial function. Every operation
  locks the goal's mutex for its whole body, so it is one step. \<open>go_locked\<close> says that a
  goroutine holds the mutex for ever: an operation that finds it locked never returns
  (\<open>GoDeadlock\<close>). The history file is a list of records; whether appending to it succeeds is the
  argument \<open>io\<close>. SHA-256 is the parameter \<open>sha\<close>. Times are kept unformatted.
\<close>

named_theorems goal_defs \<open>definitions of the goal service's operations\<close>

datatype GoalStatus =
    GoalStatus_Active | GoalStatus_Paused | GoalStatus_Blocked | GoalStatus_BudgetLimited
  | GoalStatus_UsageLimited | GoalStatus_Complete

fun IsPursuable :: "GoalStatus \<Rightarrow> bool" where
  "IsPursuable g = (g = GoalStatus_Active)"

fun IsTerminal :: "GoalStatus \<Rightarrow> bool" where
  "IsTerminal g = (g = GoalStatus_Complete)"

fun ToDisplayName :: "GoalStatus \<Rightarrow> string" where
  "ToDisplayName GoalStatus_Active = ''Activ''"
| "ToDisplayName GoalStatus_Paused = ''Paused''"
| "ToDisplayName GoalStatus_Blocked = ''Blocked''"
| "ToDisplayName GoalStatus_BudgetLimited = ''BudgetLimited''"
| "ToDisplayName GoalStatus_UsageLimited = ''UsageLimited''"
| "ToDisplayName GoalStatus_Complete = ''Complete''"

record SessionGoal =
  go_SessionId :: string
  go_Objective :: string
  go_Status :: GoalStatus
  go_CreatedAt :: int
  go_UpdatedAt :: int
  go_TokenBudget :: int
  go_TokensUsed :: int
  go_ContinuationCount :: int
  go_RecentTurnHashes :: "string list"
  go_ConsecutiveBlockerCount :: int
  go_LastBlockerHash :: string
  go_StatusNote :: string
  go_TokensAtStart :: int
  go_locked :: bool

definition IsBudgetExceeded :: "SessionGoal \<Rightarrow> bool" where
  "IsBudgetExceeded s \<longleftrightarrow> go_TokenBudget s > 0 \<and> go_TokenBudget s \<ge> go_TokensUsed s"

definition RemainingBudget :: "SessionGoal \<Rightarrow> int" where
  "RemainingBudget s =
     (if go_TokenBudget s > 0 then max 0 (wrap64 (go_TokenBudget s - go_TokensUsed s)) else max_i64)"

text \<open>\<open>util.Truncate\<close> counts runes; for ASCII text a rune is a byte.\<close>

definition Truncate :: "string \<Rightarrow> nat \<Rightarrow> string" where
  "Truncate txt n = (if length txt \<le> n then txt else take n txt @ ''...'')"

definition FormatGoalFooterLine :: "SessionGoal option \<Rightarrow> string" where
  "FormatGoalFooterLine g =
     (case g of None \<Rightarrow> [] | Some s \<Rightarrow>
        (let progress = ''('' @ Itoa (go_TokensUsed s) @ ''/'' @ Itoa (go_TokenBudget s) @ '')'' in
         case go_Status s of
           GoalStatus_Active \<Rightarrow>
             (if go_TokenBudget s > 0 then ''Pursuing goal '' @ progress
              else ''Pursuing goal: '' @ Truncate (go_Objective s) 40)
         | GoalStatus_Paused \<Rightarrow> ''Goal paused (/goal resume)''
         | GoalStatus_Blocked \<Rightarrow> ''Goal blocked (/goal resume)''
         | GoalStatus_BudgetLimited \<Rightarrow> ''Goal unmet '' @ progress
         | GoalStatus_UsageLimited \<Rightarrow> ''Goal hit usage limits (/goal resume)''
         | GoalStatus_Complete \<Rightarrow> ''Goal achieved ('' @ Itoa (go_TokensUsed s) @ '')''))"

definition FormatGoalProgressBar :: "SessionGoal option \<Rightarrow> string go_result" where
  "FormatGoalProgressBar g =
     (case g of None \<Rightarrow> Inr [] | Some s \<Rightarrow>
        if go_TokenBudget s < 0 then Inr []
        else if go_TokenBudget s = 0 then Inl (GoPanic ''integer divide by zero'')
        else (let used = (if go_TokensUsed s < 0 then 0
                          else if go_TokensUsed s > go_TokenBudget s then go_TokenBudget s else go_TokensUsed s);
                  filled = quot (wrap64 (used * 20)) (go_TokenBudget s);
                  pctInt = quot (wrap64 (used * 100)) (go_TokenBudget s);
                  bar = ''['' @ replicate (nat filled) (CHR ''='')
                    @ (if filled < 20 then CHR ''>'' # replicate (nat (20 - (filled + 1))) (CHR '' '') else []) @ '']''
              in Inr (bar @ '' '' @ Itoa pctInt @ ''% ('' @ Itoa (go_TokensUsed s) @ ''/'' @ Itoa (go_TokenBudget s) @ '')'')))"

subsection \<open>The in-memory service\<close>

record GoalHistoryRecord =
  gh_Timestamp :: int
  gh_SessionId :: string
  gh_Objective :: string
  gh_Status :: string
  gh_TokenBudget :: int
  gh_TokensUsed :: int
  gh_ContinuationCount :: int
  gh_CreatedAt :: int

record GoalService =
  gs_historyFilePath :: string
  gs_goals :: "string \<rightharpoonup> SessionGoal"
  gs_history :: "GoalHistoryRecord list"

definition NewInMemoryGoalService :: "string \<Rightarrow> GoalService" where
  "NewInMemoryGoalService historyFilePath =
     \<lparr>gs_historyFilePath = historyFilePath, gs_goals = Map.empty, gs_history = []\<rparr>"

definition put :: "string \<Rightarrow> SessionGoal \<Rightarrow> GoalService \<Rightarrow> GoalService" where
  "put sid g s = s\<lparr>gs_goals := (gs_goals s)(sid \<mapsto> g)\<rparr>"

definition RecordGoalHistory :: "unit go_result \<Rightarrow> int \<Rightarrow> SessionGoal \<Rightarrow> GoalService \<Rightarrow> unit go_result \<times> GoalService" where [goal_defs]:
  "RecordGoalHistory io now g s =
     (if IsBlank (gs_historyFilePath s) then (Inr (), s)
      else (case io of
              Inl e \<Rightarrow> (Inl e, s)
            | Inr _ \<Rightarrow>
                (Inr (), s\<lparr>gs_history := gs_history s @
                   [\<lparr>gh_Timestamp = now, gh_SessionId = go_SessionId g, gh_Objective = go_Objective g,
                     gh_Status = ToDisplayName (go_Status g), gh_TokenBudget = go_TokenBudget g,
                     gh_TokensUsed = go_TokensUsed g, gh_ContinuationCount = go_ContinuationCount g,
                     gh_CreatedAt = go_CreatedAt g\<rparr>]\<rparr>)))"

text \<open>\<open>ClearGoal\<close> takes the goal out of the map before it locks it.\<close>

definition ClearGoal :: "unit go_result \<Rightarrow> int \<Rightarrow> string \<Rightarrow> GoalService \<Rightarrow> unit go_result \<times> GoalService" where [goal_defs]:
  "ClearGoal io now sid s =
     (case gs_goals s sid of
        None \<Rightarrow> (Inr (), s)
      | Some g \<Rightarrow>
          (let s1 = s\<lparr>gs_goals := (gs_goals s)(sid := None)\<rparr> in
           if go_locked g then (Inl GoDeadlock, s1)
           else if \<not> IsTerminal (go_Status g) then RecordGoalHistory io now g s1
           else (Inr (), s1)))"

definition CreateGoal :: "string \<Rightarrow> string \<Rightarrow> int \<Rightarrow> int \<Rightarrow> GoalService \<Rightarrow> SessionGoal go_result \<times> GoalService" where [goal_defs]:
  "CreateGoal sid objective tokenBudget tokensAtStart s =
     (if IsBlank sid \<or> IsBlank objective then (Inl (GoErr ''invalid parameter''), s)
      else if length objective > 4000
      then (Inl (GoErr ''objective exceeds max length of 4000 characters''), s)
      else if tokenBudget < 0 then (Inl (GoErr ''token budget cannot be negative''), s)
      else if tokensAtStart < 0 then (Inl (GoErr ''token baseline cannot be negative''), s)
      else (case gs_goals s sid of
              Some _ \<Rightarrow> (Inl (GoErr (''goal already exists for session '' @ [CHR 0x27] @ sid @ [CHR 0x27]
                          @ ''. clear it first'')), s)
            | None \<Rightarrow>
                (let goal = \<lparr>go_SessionId = sid, go_Objective = objective, go_Status = GoalStatus_Active,
                             go_CreatedAt = 0, go_UpdatedAt = 0, go_TokenBudget = tokenBudget, go_TokensUsed = 0,
                             go_ContinuationCount = 0, go_RecentTurnHashes = [], go_ConsecutiveBlockerCount = 0,
                             go_LastBlockerHash = [],
                             go_StatusNote = [], go_TokensAtStart = tokensAtStart, go_locked = False\<rparr>
                 in (Inr goal, put sid goal s))))"

definition no_goal :: "string \<Rightarrow> go_fail" where
  "no_goal sid = GoErr (''no goal found for session '' @ [CHR 0x27] @ sid @ [CHR 0x27])"

definition GetGoal :: "string \<Rightarrow> GoalService \<Rightarrow> SessionGoal go_result" where
  "GetGoal sid s = (case gs_goals s sid of None \<Rightarrow> Inl (no_goal sid) | Some g \<Rightarrow> Inr g)"

text \<open>The shape all operations on an existing goal share: load it, lock it, run the body.\<close>

definition with_goal ::
  "'a go_result \<Rightarrow> string \<Rightarrow> (SessionGoal \<Rightarrow> GoalService \<Rightarrow> 'a go_result \<times> GoalService) \<Rightarrow> GoalService
     \<Rightarrow> 'a go_result \<times> GoalService" where [goal_defs]:
  "with_goal missing sid body s =
     (case gs_goals s sid of
        None \<Rightarrow> (missing, s)
      | Some g \<Rightarrow> if go_locked g then (Inl GoDeadlock, s) else body g s)"

definition BeginTurn :: "string \<Rightarrow> GoalService \<Rightarrow> unit go_result \<times> GoalService" where [goal_defs]:
  "BeginTurn sid = with_goal (Inr ()) sid (\<lambda>g s. (Inr (), put sid (g\<lparr>go_ContinuationCount := 0\<rparr>) s))"

definition HasActiveGoal :: "string \<Rightarrow> GoalService \<Rightarrow> bool go_result \<times> GoalService" where [goal_defs]:
  "HasActiveGoal sid = with_goal (Inr False) sid (\<lambda>g s. (Inr (IsPursuable (go_Status g)), s))"

definition IncrementContinuationCount :: "int \<Rightarrow> string \<Rightarrow> GoalService \<Rightarrow> int go_result \<times> GoalService" where [goal_defs]:
  "IncrementContinuationCount now sid = with_goal (Inr 0) sid (\<lambda>g s.
     let n = wrap64 (go_ContinuationCount g + 1) in
     (Inr n, put sid (g\<lparr>go_ContinuationCount := n, go_UpdatedAt := now\<rparr>) s))"

definition RecordTurnHash :: "(string \<Rightarrow> string) \<Rightarrow> string \<Rightarrow> string \<Rightarrow> GoalService \<Rightarrow> bool go_result \<times> GoalService" where [goal_defs]:
  "RecordTurnHash sha sid normalizedText = with_goal (Inr False) sid (\<lambda>g s.
     let hash = ComputeTurnHash sha normalizedText in
     if IsBlank hash then (Inr False, put sid (g\<lparr>go_LastBlockerHash := [], go_ConsecutiveBlockerCount := 0\<rparr>) s)
     else if hash = go_LastBlockerHash g then
       (let n = wrap64 (go_ConsecutiveBlockerCount g + 1) in
        (Inr (n \<ge> 3), put sid (g\<lparr>go_ConsecutiveBlockerCount := n\<rparr>) s))
     else (Inr False, put sid (g\<lparr>go_LastBlockerHash := hash, go_ConsecutiveBlockerCount := 1\<rparr>) s))"

definition isValidTransition :: "GoalStatus \<Rightarrow> GoalStatus \<Rightarrow> bool" where
  "isValidTransition cur nxt \<longleftrightarrow> cur = nxt \<or>
     (cur, nxt) \<in> {(GoalStatus_Active, GoalStatus_Paused), (GoalStatus_Active, GoalStatus_Blocked),
       (GoalStatus_Active, GoalStatus_BudgetLimited), (GoalStatus_Active, GoalStatus_UsageLimited),
       (GoalStatus_Active, GoalStatus_Complete), (GoalStatus_Paused, GoalStatus_Active),
       (GoalStatus_Blocked, GoalStatus_Active), (GoalStatus_BudgetLimited, GoalStatus_Active),
       (GoalStatus_UsageLimited, GoalStatus_Active)}"

definition UpdateStatus ::
  "unit go_result \<Rightarrow> int \<Rightarrow> string \<Rightarrow> GoalStatus \<Rightarrow> string \<Rightarrow> GoalService \<Rightarrow> unit go_result \<times> GoalService" where [goal_defs]:
  "UpdateStatus io now sid newStatus note = with_goal (Inl (no_goal sid)) sid (\<lambda>g s.
     if IsTerminal (go_Status g)
     then (Inl (GoErr (''cannot transition from terminal state '' @ [CHR 0x27] @ ToDisplayName (go_Status g) @ [CHR 0x27])), s)
     else if \<not> isValidTransition (go_Status g) newStatus
     then (Inl (GoErr (''invalid transition: '' @ ToDisplayName (go_Status g) @ '' -> '' @ ToDisplayName newStatus)), s)
     else (let g1 = g\<lparr>go_Status := newStatus, go_UpdatedAt := now, go_StatusNote := note\<rparr>; s1 = put sid g1 s in
           if IsTerminal newStatus \<or> newStatus = GoalStatus_Blocked \<or> newStatus = GoalStatus_BudgetLimited
           then RecordGoalHistory io now g1 s1 else (Inr (), s1)))"

text \<open>\<open>UpdateModelStatus\<close> locks the goal and, when its guards pass, calls \<open>UpdateStatus\<close>, which finds the
  goal locked. The call never returns, and the goal stays locked.\<close>

definition UpdateModelStatus ::
  "unit go_result \<Rightarrow> int \<Rightarrow> string \<Rightarrow> GoalStatus \<Rightarrow> string \<Rightarrow> GoalService \<Rightarrow> unit go_result \<times> GoalService" where [goal_defs]:
  "UpdateModelStatus io now sid newStatus note = with_goal (Inr ()) sid (\<lambda>g s.
     if newStatus \<noteq> GoalStatus_Blocked \<and> newStatus \<noteq> GoalStatus_Complete
     then (Inl (GoErr ''The model can only complete or block goals.''), s)
     else if newStatus = GoalStatus_Blocked \<and> go_ConsecutiveBlockerCount g < 3
     then (Inl (GoErr (''Blocking requires three consecutive observations of the same blocker. ''
            @ ''Continue working or report the blocker for this turn.'')), s)
     else (case UpdateStatus io now sid newStatus note (put sid (g\<lparr>go_locked := True\<rparr>) s) of
             (Inl GoDeadlock, s1) \<Rightarrow> (Inl GoDeadlock, s1)
           | (r, s1) \<Rightarrow> (r, s1\<lparr>gs_goals := (gs_goals s1)(sid :=
                 map_option (\<lambda>g1. g1\<lparr>go_locked := False\<rparr>) (gs_goals s1 sid))\<rparr>)))"

definition UpdateTokenUsage :: "int \<Rightarrow> string \<Rightarrow> int \<Rightarrow> GoalService \<Rightarrow> unit go_result \<times> GoalService" where [goal_defs]:
  "UpdateTokenUsage now sid sessionTotalTokens = with_goal (Inr ()) sid (\<lambda>g s.
     (Inr (), put sid (g\<lparr>go_TokensUsed := max 0 (wrap64 (sessionTotalTokens - go_TokensAtStart g)),
                         go_UpdatedAt := now\<rparr>) s))"


subsection \<open>Auto-continuation\<close>

text \<open>\<open>util.NormalizeForComparison\<close>: runs of white space become one space.\<close>

fun collapse_spaces :: "bool \<Rightarrow> string \<Rightarrow> string" where
  "collapse_spaces wasSpace [] = []"
| "collapse_spaces wasSpace (ch # s) =
     (if is_space ch then (if wasSpace then collapse_spaces True s else CHR '' '' # collapse_spaces True s)
      else ch # collapse_spaces False s)"

definition NormalizeForComparison :: "string \<Rightarrow> string" where
  "NormalizeForComparison txt =
     (let trimmed = TrimSpace txt in if trimmed = [] then [] else collapse_spaces False trimmed)"

record GoalSession =
  se_Id :: string
  se_ChannelId :: string
  se_TotalTokens :: int

definition InteractiveChannelIds :: "string list" where
  "InteractiveChannelIds =
     [''cli'', ''tui'', ''terminal'', ''console'', ''companion'', ''websocket'', ''discord'', ''slack'', ''teams'',
      ''telegram'', ''signal'', ''whatsapp'', ''sms'']"

definition isInteractiveChannel :: "string \<Rightarrow> bool" where
  "isInteractiveChannel channelId \<longleftrightarrow> channelId = [] \<or> channelId \<in> set InteractiveChannelIds"

text \<open>The prompt texts, in UTF-8; every line is indented by twelve spaces.\<close>

definition prompt_line :: "string \<Rightarrow> string" where
  "prompt_line l = CHR 0x0A # ''            '' @ l"

definition BuildActivationPrompt :: "SessionGoal option \<Rightarrow> string" where
  "BuildActivationPrompt g =
     (case g of None \<Rightarrow> [] | Some goal \<Rightarrow>
        prompt_line ''**Active Goal**''
        @ prompt_line ''A session-scoped goal is now active with the following objective:''
        @ prompt_line (''<objective>'' @ go_Objective goal @ ''</objective>'')
        @ [CHR 0x0A]
        @ prompt_line ''**Your Behavior**''
        @ prompt_line ''- Treat the objective itself as your directive. Do NOT pause to ask the user what to do.''
        @ prompt_line ''- The system will automatically continue you if you stop before the goal is achieved.''
        @ prompt_line (''- When the goal is fully achieved, use the update_goal tool with status='' @ [CHR 0x27] @ ''complete'' @ [CHR 0x27] @ ''.'')
        @ prompt_line (''- If you'' @ [CHR 0x27] @ ''re genuinely blocked after repeated attempts, use update_goal with status='' @ [CHR 0x27] @ ''blocked'' @ [CHR 0x27] @ ''.'')
        @ [CHR 0x0A]
        @ prompt_line ''**Completion Audit**''
        @ prompt_line ''Before declaring the goal complete, derive concrete requirements from the objective.''
        @ prompt_line ''For each requirement, identify authoritative evidence. Uncertain evidence means NOT achieved.''
        @ prompt_line [])"

definition BuildCheckPrompt :: "SessionGoal option \<Rightarrow> int \<Rightarrow> int \<Rightarrow> string" where
  "BuildCheckPrompt g iteration maxIterations =
     (case g of None \<Rightarrow> [] | Some goal \<Rightarrow>
        (let budgetLine =
           (if go_TokenBudget goal > 0
            then ''**Budget**: Used '' @ Itoa (go_TokensUsed goal) @ '' / Budget '' @ Itoa (go_TokenBudget goal)
              @ '' / Remaining '' @ Itoa (RemainingBudget goal)
            else ''**Budget**: No limit set.'')
         in prompt_line (''**Goal Check '' @ [CHR 0xE2, CHR 0x80, CHR 0x94] @ '' Continue Working**'')
            @ prompt_line ''You were working toward this objective: <objective>{goal.Objective}</objective>''
            @ [CHR 0x0A]
            @ prompt_line ''1. REVIEW all work done so far''
            @ prompt_line ''2. DETERMINE whether the objective has been FULLY achieved''
            @ prompt_line (''3. If ACHIEVED '' @ [CHR 0xE2, CHR 0x86, CHR 0x92] @ '' use update_goal tool with status='' @ [CHR 0x27] @ ''complete'' @ [CHR 0x27])
            @ prompt_line (''4. If NOT ACHIEVED '' @ [CHR 0xE2, CHR 0x86, CHR 0x92] @ '' CONTINUE working without asking the user'')
            @ [CHR 0x0A]
            @ prompt_line budgetLine
            @ prompt_line ''**Fidelity**: Optimize for movement toward the requested end state. Do NOT substitute easier solutions.''
            @ prompt_line ''**Blocked Audit**: Only mark blocked after 3+ consecutive turns with the same blocker.''
            @ prompt_line (''Iteration: '' @ Itoa iteration @ ''/'' @ Itoa maxIterations)
            @ prompt_line []))"

definition BuildGoalSystemPrompt :: "string \<Rightarrow> GoalService \<Rightarrow> string" where
  "BuildGoalSystemPrompt sid s =
     (case GetGoal sid s of
        Inl _ \<Rightarrow> []
      | Inr g \<Rightarrow> if IsPursuable (go_Status g) then BuildActivationPrompt (Some g) else [])"

definition UpdateGoalTokenUsage :: "int \<Rightarrow> GoalSession \<Rightarrow> GoalService \<Rightarrow> unit go_result \<times> GoalService" where
  "UpdateGoalTokenUsage now session = UpdateTokenUsage now (se_Id session) (se_TotalTokens session)"

text \<open>An error ends the evaluation without a prompt; a call that never returns does so here too.\<close>

definition or_stop :: "'a go_result \<times> GoalService \<Rightarrow> ('a \<Rightarrow> GoalService \<Rightarrow> string go_result \<times> GoalService)
  \<Rightarrow> string go_result \<times> GoalService" where [goal_defs]:
  "or_stop r k =
     (case r of (Inr a, s) \<Rightarrow> k a s | (Inl (GoErr _), s) \<Rightarrow> (Inr [], s) | (Inl f, s) \<Rightarrow> (Inl f, s))"

text \<open>
  The evaluation among other callers of the service: before each of its calls the environment may
  have run operations of its own, the move \<open>env i\<close>. Alone it meets no other move.
\<close>

definition EvaluateGoalContinuation_among ::
  "(nat \<Rightarrow> GoalService \<Rightarrow> GoalService) \<Rightarrow> (string \<Rightarrow> string) \<Rightarrow> unit go_result \<Rightarrow> int \<Rightarrow> GoalSession \<Rightarrow> int \<Rightarrow> int \<Rightarrow>
     string \<Rightarrow> GoalService \<Rightarrow> string go_result \<times> GoalService" where
  "EvaluateGoalContinuation_among env sha io now session iteration maxIterations modelResponseText s =
     (let sid = se_Id session; stop = (\<lambda>_ s. (Inr [], s)) in
      or_stop (GetGoal sid (env 0 s), env 0 s) (\<lambda>g s.
      if \<not> IsPursuable (go_Status g) \<or> \<not> isInteractiveChannel (se_ChannelId session) then (Inr [], s)
      else or_stop (UpdateTokenUsage now sid (se_TotalTokens session) (env 1 s)) (\<lambda>_ s.
      or_stop (GetGoal sid (env 2 s), env 2 s) (\<lambda>g s.
      if \<not> IsPursuable (go_Status g) then (Inr [], s)
      else if IsBudgetExceeded g
      then or_stop (UpdateStatus io now sid GoalStatus_BudgetLimited ''Token budget exceeded'' (env 3 s)) stop
      else or_stop (IncrementContinuationCount now sid (env 3 s)) (\<lambda>continuationCount s.
      if continuationCount = 0 then (Inr [], s)
      else if continuationCount > 10
      then or_stop (UpdateStatus io now sid GoalStatus_Paused ''Auto-paused after 10 continuations'' (env 4 s)) stop
      else or_stop (RecordTurnHash sha sid (NormalizeForComparison modelResponseText) (env 4 s)) (\<lambda>isBlocked s.
      if isBlocked
      then or_stop (UpdateStatus io now sid GoalStatus_Blocked ''Same blocker repeated 3+ consecutive turns'' (env 5 s)) stop
      else if iteration \<ge> maxIterations then (Inr [], s)
      else (Inr (BuildCheckPrompt (Some g) iteration maxIterations), s)))))))"

definition EvaluateGoalContinuation ::
  "(string \<Rightarrow> string) \<Rightarrow> unit go_result \<Rightarrow> int \<Rightarrow> GoalSession option \<Rightarrow> int \<Rightarrow> int \<Rightarrow> string \<Rightarrow> GoalService
     \<Rightarrow> string go_result \<times> GoalService" where
  "EvaluateGoalContinuation sha io now sess iteration maxIterations modelResponseText s =
     (case sess of None \<Rightarrow> (Inr [], s)
      | Some session \<Rightarrow>
          EvaluateGoalContinuation_among (\<lambda>i s. s) sha io now session iteration maxIterations modelResponseText s)"

subsection \<open>The service as a machine\<close>

datatype goal_event =
    EvClear string | EvCreate string | EvBeginTurn string | EvIncrement string | EvTurnHash string
  | EvStatus string GoalStatus | EvModelStatus string GoalStatus | EvTokens string | EvHas string

inductive goal_step :: "GoalService \<Rightarrow> goal_event \<Rightarrow> GoalService \<Rightarrow> bool" where
  clear: "goal_step s (EvClear sid) (snd (ClearGoal io now sid s))"
| create: "in_i64 b \<Longrightarrow> in_i64 t \<Longrightarrow> goal_step s (EvCreate sid) (snd (CreateGoal sid obj b t s))"
| begin_turn: "goal_step s (EvBeginTurn sid) (snd (BeginTurn sid s))"
| increment: "goal_step s (EvIncrement sid) (snd (IncrementContinuationCount now sid s))"
| turn_hash: "goal_step s (EvTurnHash sid) (snd (RecordTurnHash sha sid txt s))"
| status: "goal_step s (EvStatus sid st) (snd (UpdateStatus io now sid st note s))"
| model_status: "goal_step s (EvModelStatus sid st) (snd (UpdateModelStatus io now sid st note s))"
| tokens: "goal_step s (EvTokens sid) (snd (UpdateTokenUsage now sid tot s))"
| has: "goal_step s (EvHas sid) (snd (HasActiveGoal sid s))"

inductive_cases goal_stepE: "goal_step s e s'"

definition goal_ok :: "string \<Rightarrow> SessionGoal \<Rightarrow> bool" where
  "goal_ok sid g \<longleftrightarrow> go_SessionId g = sid \<and> \<not> IsBlank sid \<and> \<not> IsBlank (go_Objective g) \<and>
     length (go_Objective g) \<le> 4000 \<and> 0 \<le> go_TokenBudget g \<and> in_i64 (go_TokenBudget g) \<and>
     0 \<le> go_TokensUsed g \<and> in_i64 (go_TokensUsed g) \<and> 0 \<le> go_TokensAtStart g \<and>
     in_i64 (go_ContinuationCount g) \<and> in_i64 (go_ConsecutiveBlockerCount g)"

definition goal_inv :: "GoalService \<Rightarrow> bool" where
  "goal_inv s \<longleftrightarrow> (\<forall>sid g. gs_goals s sid = Some g \<longrightarrow> goal_ok sid g)"

text \<open>What an operation may do to a goal that stays in the map.\<close>

definition same_goal :: "SessionGoal \<Rightarrow> SessionGoal \<Rightarrow> bool" where
  "same_goal g g' \<longleftrightarrow> go_SessionId g' = go_SessionId g \<and> go_Objective g' = go_Objective g \<and>
     go_TokenBudget g' = go_TokenBudget g \<and> go_TokensAtStart g' = go_TokensAtStart g \<and>
     isValidTransition (go_Status g) (go_Status g') \<and>
     (IsTerminal (go_Status g) \<longrightarrow> go_Status g' = go_Status g \<and> go_StatusNote g' = go_StatusNote g)"

lemma put_simps [simp]:
  "gs_goals (put sid g s) = (gs_goals s)(sid \<mapsto> g)" "gs_historyFilePath (put sid g s) = gs_historyFilePath s"
  "gs_history (put sid g s) = gs_history s"
  by (simp_all add: put_def)

lemma history_goals [simp]: "gs_goals (snd (RecordGoalHistory io now g s)) = gs_goals s"
  by (auto simp: RecordGoalHistory_def split: sum.splits)

lemma history_goals_pair: "RecordGoalHistory io now g s = (r, s') \<Longrightarrow> gs_goals s' = gs_goals s"
  by (metis history_goals snd_conv)


lemma UpdateModelStatus_eq:
  "UpdateModelStatus io now sid newStatus note s = with_goal (Inr ()) sid (\<lambda>g s.
     if newStatus \<noteq> GoalStatus_Blocked \<and> newStatus \<noteq> GoalStatus_Complete
     then (Inl (GoErr ''The model can only complete or block goals.''), s)
     else if newStatus = GoalStatus_Blocked \<and> go_ConsecutiveBlockerCount g < 3
     then (Inl (GoErr (''Blocking requires three consecutive observations of the same blocker. ''
            @ ''Continue working or report the blocker for this turn.'')), s)
     else (Inl GoDeadlock, put sid (g\<lparr>go_locked := True\<rparr>) s)) s"
  by (simp add: UpdateModelStatus_def UpdateStatus_def with_goal_def split: option.splits)

text \<open>A goal in the map changes only to a goal that is the same one, or is cleared.\<close>

definition goal_moves :: "string \<Rightarrow> SessionGoal \<Rightarrow> goal_event \<Rightarrow> SessionGoal option \<Rightarrow> bool" where
  "goal_moves sid g e after \<longleftrightarrow>
     (case after of None \<Rightarrow> e = EvClear sid | Some g' \<Rightarrow> same_goal g g' \<and> (goal_ok sid g \<longrightarrow> goal_ok sid g'))"

lemma isValidTransition_refl [simp]: "isValidTransition st st"
  by (simp add: isValidTransition_def)

lemma same_goal_refl: "same_goal g g"
  by (simp add: same_goal_def)

lemma max_wrap: "0 \<le> max 0 (wrap64 x) \<and> in_i64 (max 0 (wrap64 x))"
  using wrap64_in_range[of x] by (auto simp: max_def in_i64_def)

lemma goal_step_moves:
  assumes "goal_step s e s'" "gs_goals s sid = Some g"
  shows "goal_moves sid g e (gs_goals s' sid)"
  using assms(1)
proof (cases rule: goal_step.cases)
  case (clear k io now)
  then show ?thesis using assms(2)
    by (auto simp: goal_moves_def ClearGoal_def same_goal_refl Let_def split: option.splits)
next
  case (create b t k obj)
  then show ?thesis using assms(2)
    by (auto simp: goal_moves_def CreateGoal_def same_goal_refl Let_def split: option.splits)
next
  case (begin_turn k)
  then show ?thesis using assms(2)
    by (auto simp: goal_moves_def BeginTurn_def with_goal_def same_goal_def goal_ok_def
        in_i64_def split: option.splits)
next
  case (increment k now)
  then show ?thesis using assms(2)
    by (auto simp: goal_moves_def IncrementContinuationCount_def with_goal_def same_goal_def
        goal_ok_def Let_def split: option.splits)
next
  case (turn_hash k sha tt)
  then show ?thesis using assms(2)
    by (auto simp: goal_moves_def RecordTurnHash_def with_goal_def same_goal_def
        goal_ok_def Let_def in_i64_def[of 0] in_i64_def[of 1] split: option.splits)
next
  case (status k st io now nt)
  then show ?thesis using assms(2)
    by (auto simp: goal_moves_def UpdateStatus_def with_goal_def same_goal_def goal_ok_def Let_def
        split: option.splits)
next
  case (model_status k st io now nt)
  then show ?thesis using assms(2)
    by (auto simp: goal_moves_def UpdateModelStatus_eq with_goal_def same_goal_def goal_ok_def
        split: option.splits)
next
  case (tokens k now tot)
  then show ?thesis using assms(2)
    by (auto simp: goal_moves_def UpdateTokenUsage_def with_goal_def same_goal_def goal_ok_def max_wrap
        split: option.splits)
next
  case (has k)
  then show ?thesis using assms(2)
    by (auto simp: goal_moves_def HasActiveGoal_def with_goal_def same_goal_refl split: option.splits)
qed

lemma goal_step_new:
  assumes "goal_step s e s'" "gs_goals s sid = None" "gs_goals s' sid = Some g"
  shows "goal_ok sid g \<and> go_Status g = GoalStatus_Active"
  using assms(1)
proof (cases rule: goal_step.cases)
  case (create b t k obj)
  then show ?thesis using assms(2,3)
    by (auto simp: CreateGoal_def goal_ok_def Let_def in_i64_def[of 0] split: option.splits if_splits)
qed (use assms(2,3) in \<open>auto simp: ClearGoal_def BeginTurn_def IncrementContinuationCount_def RecordTurnHash_def
  UpdateStatus_def UpdateModelStatus_eq UpdateTokenUsage_def HasActiveGoal_def with_goal_def Let_def
  split: option.splits if_splits\<close>)

lemma goal_step_inv:
  assumes "goal_inv s" "goal_step s e s'"
  shows "goal_inv s'"
  unfolding goal_inv_def
proof (intro allI impI)
  fix sid g'
  assume g': "gs_goals s' sid = Some g'"
  show "goal_ok sid g'"
  proof (cases "gs_goals s sid")
    case None
    then show ?thesis using goal_step_new[OF assms(2) None g'] by simp
  next
    case (Some g)
    then show ?thesis
      using goal_step_moves[OF assms(2) Some] g' assms(1) by (simp add: goal_moves_def goal_inv_def)
  qed
qed

interpretation goals: invariant_machine "\<lambda>s. \<exists>path. s = NewInMemoryGoalService path" goal_step goal_inv
  by unfold_locales (auto simp: NewInMemoryGoalService_def goal_inv_def[of "\<lparr>gs_historyFilePath = _, gs_goals = _, gs_history = _\<rparr>"]
      intro: goal_step_inv)

text \<open>A goal only ever follows the state diagram: whatever the users of the service do, its session,
  objective and budget never change, and once it is complete it stays complete, with the same note,
  until it is cleared.\<close>

theorem completed_goal_is_final:
  assumes "steps goal_step s es s'" "gs_goals s sid = Some g" "EvClear sid \<notin> set es"
  shows "\<exists>g'. gs_goals s' sid = Some g' \<and> go_SessionId g' = go_SessionId g \<and> go_Objective g' = go_Objective g \<and>
     go_TokenBudget g' = go_TokenBudget g \<and>
     (go_Status g = GoalStatus_Complete \<longrightarrow>
        go_Status g' = GoalStatus_Complete \<and> go_StatusNote g' = go_StatusNote g)"
  using assms
proof (induction arbitrary: g rule: steps.induct)
  case (steps_step s e t es u)
  have "goal_moves sid g e (gs_goals t sid)"
    using goal_step_moves[OF steps_step.hyps(1) steps_step.prems(1)] .
  moreover have "e \<noteq> EvClear sid" using steps_step.prems(2) by auto
  ultimately obtain g1 where g1: "gs_goals t sid = Some g1" "same_goal g g1"
    by (auto simp: goal_moves_def split: option.splits)
  then show ?case
    using steps_step.IH[OF g1(1)] steps_step.prems(2) by (auto simp: same_goal_def)
qed simp

definition goal_example :: GoalService where
  "goal_example = snd (UpdateStatus (Inr ()) 1 ''s1'' GoalStatus_Complete ''done''
     (snd (CreateGoal ''s1'' ''write it'' 100 0 (NewInMemoryGoalService ''h''))))"

theorem completed_goal_is_final_witness:
  "\<exists>g'. gs_goals (snd (UpdateStatus (Inr ()) 2 ''s1'' GoalStatus_Active [] goal_example)) ''s1'' = Some g' \<and>
     go_Status g' = GoalStatus_Complete \<and> go_StatusNote g' = ''done''"
proof -
  have "map_option (\<lambda>g. (go_Status g, go_StatusNote g)) (gs_goals goal_example ''s1'') =
      Some (GoalStatus_Complete, ''done'')" by code_simp
  then obtain g where g: "gs_goals goal_example ''s1'' = Some g" "go_Status g = GoalStatus_Complete"
    "go_StatusNote g = ''done''" by auto
  let ?t = "snd (UpdateStatus (Inr ()) 2 ''s1'' GoalStatus_Active [] goal_example)"
  have "steps goal_step goal_example [EvStatus ''s1'' GoalStatus_Active] ?t"
    by (auto intro: steps.intros goal_step.intros)
  from completed_goal_is_final[OF this g(1)] g show ?thesis by auto
qed


subsection \<open>The model cannot finish a goal\<close>

text \<open>A status update by the model never takes effect on an existing goal: it is refused, or the call
  blocks for ever on the mutex it holds itself. In the second case the goal stays locked, and every
  later operation that locks it blocks as well.\<close>

theorem model_update_never_succeeds:
  assumes "gs_goals s sid = Some g"
  shows "\<exists>f s' g'. UpdateModelStatus io now sid st note s = (Inl f, s') \<and> gs_goals s' sid = Some g' \<and>
     go_Status g' = go_Status g \<and>
     (\<not> go_locked g \<and> st = GoalStatus_Complete \<longrightarrow>
        f = GoDeadlock \<and> fst (UpdateStatus io2 now2 sid st2 note2 s') = Inl GoDeadlock \<and>
        fst (BeginTurn sid s') = Inl GoDeadlock \<and> fst (HasActiveGoal sid s') = Inl GoDeadlock)"
  using assms
  by (cases "go_locked g")
     (auto simp: UpdateModelStatus_eq UpdateStatus_def BeginTurn_def HasActiveGoal_def with_goal_def)

theorem model_update_never_succeeds_witness:
  "\<exists>s'. UpdateModelStatus (Inr ()) 5 ''s1'' GoalStatus_Complete ''done''
      (snd (CreateGoal ''s1'' ''write it'' 100 0 (NewInMemoryGoalService ''h''))) = (Inl GoDeadlock, s') \<and>
    fst (HasActiveGoal ''s1'' s') = Inl GoDeadlock"
proof -
  let ?s = "snd (CreateGoal ''s1'' ''write it'' 100 0 (NewInMemoryGoalService ''h''))"
  have "map_option go_locked (gs_goals ?s ''s1'') = Some False" by code_simp
  then obtain g where "gs_goals ?s ''s1'' = Some g" "\<not> go_locked g" by auto
  from model_update_never_succeeds[OF this(1), of "Inr ()" 5 GoalStatus_Complete "''done''" "Inr ()" 5
      GoalStatus_Active "[]"] this(2)
  show ?thesis by auto
qed

subsection \<open>Three times the same blocker\<close>

fun record_turns :: "(string \<Rightarrow> string) \<Rightarrow> string \<Rightarrow> string list \<Rightarrow> GoalService \<Rightarrow> bool go_result list \<times> GoalService" where
  "record_turns sha sid [] s = ([], s)"
| "record_turns sha sid (t # ts) s =
     (let (r, s1) = RecordTurnHash sha sid t s; (rs, s2) = record_turns sha sid ts s1 in (r # rs, s2))"

lemma record_turns_Cons:
  "fst (record_turns sha sid (t # ts) s) =
     fst (RecordTurnHash sha sid t s) # fst (record_turns sha sid ts (snd (RecordTurnHash sha sid t s)))"
  by (simp split: prod.splits)

lemma record_same:
  assumes "gs_goals s sid = Some g" "\<not> go_locked g" "\<not> IsBlank (sha t)" "t \<noteq> []"
    and "go_LastBlockerHash g = sha t" "go_ConsecutiveBlockerCount g = int k" "int (k + n) < 2 ^ 63"
  shows "fst (record_turns sha sid (replicate n t) s) = map (\<lambda>i. Inr (k + i \<ge> 2)) [0..<n]"
  using assms
proof (induction n arbitrary: s g k)
  case (Suc n)
  let ?g = "g\<lparr>go_ConsecutiveBlockerCount := int (Suc k)\<rparr>"
  have w: "wrap64 (int k + 1) = int (Suc k)"
    using Suc.prems(7) by (simp add: wrap64_id in_i64_def)
  have r: "RecordTurnHash sha sid t s = (Inr (k \<ge> 2), put sid ?g s)"
    using Suc.prems w by (auto simp: RecordTurnHash_def with_goal_def ComputeTurnHash_def Let_def)
  have "fst (record_turns sha sid (replicate n t) (put sid ?g s)) = map (\<lambda>i. Inr (Suc k + i \<ge> 2)) [0..<n]"
    by (rule Suc.IH[where g = ?g]) (use Suc.prems in auto)
  then show ?case
    using r by (simp add: record_turns_Cons map_upt_Suc del: upt_Suc record_turns.simps)
qed simp

text \<open>The same non-empty answer turn after turn is reported as a blocker from its third occurrence on,
  and not before; any other answer in between starts the count again.\<close>

theorem blocker_from_third_turn:
  assumes "gs_goals s sid = Some g" "\<not> go_locked g" "\<not> IsBlank (sha t)" "t \<noteq> []"
    and "go_LastBlockerHash g \<noteq> sha t" "int n < 2 ^ 63"
  shows "fst (record_turns sha sid (replicate n t) s) = map (\<lambda>i. Inr (i \<ge> 2)) [0..<n]"
proof (cases n)
  case (Suc m)
  let ?g = "g\<lparr>go_LastBlockerHash := sha t, go_ConsecutiveBlockerCount := 1\<rparr>"
  have r: "RecordTurnHash sha sid t s = (Inr False, put sid ?g s)"
    using assms by (auto simp: RecordTurnHash_def with_goal_def ComputeTurnHash_def Let_def)
  have "fst (record_turns sha sid (replicate m t) (put sid ?g s)) = map (\<lambda>i. Inr (1 + i \<ge> 2)) [0..<m]"
    by (rule record_same[where g = ?g]) (use assms Suc in auto)
  then show ?thesis
    using r Suc by (simp add: record_turns_Cons map_upt_Suc del: upt_Suc record_turns.simps)
qed simp

theorem blocker_from_third_turn_witness:
  "fst (record_turns (\<lambda>x. x) ''s1'' (replicate 4 ''stuck'')
      (snd (CreateGoal ''s1'' ''write it'' 100 0 (NewInMemoryGoalService ''h'')))) =
    [Inr False, Inr False, Inr True, Inr True]"
proof -
  let ?s = "snd (CreateGoal ''s1'' ''write it'' 100 0 (NewInMemoryGoalService ''h''))"
  have "map_option (\<lambda>g. (go_locked g, go_LastBlockerHash g)) (gs_goals ?s ''s1'') = Some (False, [])" by code_simp
  then obtain g where g: "gs_goals ?s ''s1'' = Some g" "\<not> go_locked g" "go_LastBlockerHash g = []" by auto
  have b: "\<not> IsBlank ''stuck''" by code_simp
  from blocker_from_third_turn[OF g(1,2), of "\<lambda>x. x" "''stuck''" 4] g(3) b
  show ?thesis by (simp add: upt_rec)
qed


subsection \<open>Continuation is bounded\<close>

lemma or_stop_simps [simp]:
  "or_stop (Inr a, s) k = k a s" "or_stop (Inl (GoErr e), s) k = (Inr [], s)"
  "or_stop (Inl GoDeadlock, s) k = (Inl GoDeadlock, s)"
  by (simp_all add: or_stop_def)

definition counted :: "int \<Rightarrow> GoalSession \<Rightarrow> SessionGoal \<Rightarrow> SessionGoal" where
  "counted now session g =
     g\<lparr>go_TokensUsed := max 0 (wrap64 (se_TotalTokens session - go_TokensAtStart g)), go_UpdatedAt := now\<rparr>"

lemma evaluate_idle:
  assumes "case gs_goals s (se_Id session) of None \<Rightarrow> True | Some g \<Rightarrow>
    \<not> IsPursuable (go_Status g) \<or> \<not> isInteractiveChannel (se_ChannelId session)"
  shows "EvaluateGoalContinuation sha io now (Some session) it mx resp s = (Inr [], s)"
  using assms by (auto simp: EvaluateGoalContinuation_def EvaluateGoalContinuation_among_def GetGoal_def no_goal_def Let_def split: option.splits)

lemma evaluate_locked:
  assumes "gs_goals s (se_Id session) = Some g" "IsPursuable (go_Status g)"
    and "isInteractiveChannel (se_ChannelId session)" "go_locked g"
  shows "EvaluateGoalContinuation sha io now (Some session) it mx resp s = (Inl GoDeadlock, s)"
  using assms by (simp add: EvaluateGoalContinuation_def EvaluateGoalContinuation_among_def GetGoal_def UpdateTokenUsage_def with_goal_def Let_def)

lemma evaluate_active:
  assumes "gs_goals s (se_Id session) = Some g" "IsPursuable (go_Status g)"
    and "isInteractiveChannel (se_ChannelId session)" "\<not> go_locked g"
  shows "EvaluateGoalContinuation sha io now (Some session) it mx resp s =
    (let sid = se_Id session; g1 = counted now session g; s1 = put sid g1 s;
         n = wrap64 (go_ContinuationCount g + 1);
         s2 = put sid (g1\<lparr>go_ContinuationCount := n, go_UpdatedAt := now\<rparr>) s1
     in if IsBudgetExceeded g1
        then or_stop (UpdateStatus io now sid GoalStatus_BudgetLimited ''Token budget exceeded'' s1) (\<lambda>_ s. (Inr [], s))
        else if n = 0 then (Inr [], s2)
        else if n > 10
        then or_stop (UpdateStatus io now sid GoalStatus_Paused ''Auto-paused after 10 continuations'' s2) (\<lambda>_ s. (Inr [], s))
        else or_stop (RecordTurnHash sha sid (NormalizeForComparison resp) s2) (\<lambda>isBlocked s.
          if isBlocked
          then or_stop (UpdateStatus io now sid GoalStatus_Blocked ''Same blocker repeated 3+ consecutive turns'' s)
                 (\<lambda>_ s. (Inr [], s))
          else if it \<ge> mx then (Inr [], s)
          else (Inr (BuildCheckPrompt (Some g1) it mx), s)))"
  using assms
  by (simp add: EvaluateGoalContinuation_def EvaluateGoalContinuation_among_def GetGoal_def UpdateTokenUsage_def with_goal_def Let_def
      IncrementContinuationCount_def counted_def)

lemma update_status_active:
  assumes "gs_goals s sid = Some g" "\<not> go_locked g" "go_Status g = GoalStatus_Active"
  shows "\<exists>s'. (UpdateStatus io now sid st nt s = (Inr (), s') \<or> (\<exists>f. io = Inl f \<and> UpdateStatus io now sid st nt s = (Inl f, s'))) \<and>
    gs_goals s' = (gs_goals s)(sid \<mapsto> g\<lparr>go_Status := st, go_UpdatedAt := now, go_StatusNote := nt\<rparr>)"
proof -
  have "isValidTransition GoalStatus_Active st" by (cases st) (simp_all add: isValidTransition_def)
  with assms show ?thesis
    by (cases io) (auto simp: UpdateStatus_def with_goal_def RecordGoalHistory_def Let_def)
qed

lemma stop_after_update:
  assumes "gs_goals s sid = Some g" "\<not> go_locked g" "go_Status g = GoalStatus_Active"
    and "or_stop (UpdateStatus io now sid st nt s) (\<lambda>_ s. (Inr [], s)) = (r, s')"
  shows "(\<forall>p. r = Inr p \<longrightarrow> p = []) \<and>
    gs_goals s' = (gs_goals s)(sid \<mapsto> g\<lparr>go_Status := st, go_UpdatedAt := now, go_StatusNote := nt\<rparr>)"
proof -
  obtain s1 where s1: "UpdateStatus io now sid st nt s = (Inr (), s1) \<or>
      (\<exists>f. io = Inl f \<and> UpdateStatus io now sid st nt s = (Inl f, s1))"
    "gs_goals s1 = (gs_goals s)(sid \<mapsto> g\<lparr>go_Status := st, go_UpdatedAt := now, go_StatusNote := nt\<rparr>)"
    using update_status_active[OF assms(1-3), of io now st nt] by blast
  from s1(1) show ?thesis
  proof
    assume "UpdateStatus io now sid st nt s = (Inr (), s1)"
    with assms(4) s1(2) show ?thesis by auto
  next
    assume "\<exists>f. io = Inl f \<and> UpdateStatus io now sid st nt s = (Inl f, s1)"
    then obtain f where "UpdateStatus io now sid st nt s = (Inl f, s1)" by blast
    with assms(4) s1(2) show ?thesis by (cases f) (auto simp: or_stop_def)
  qed
qed

lemma record_turn_hash_goal:
  assumes "gs_goals s sid = Some g" "\<not> go_locked g"
  obtains b g' where "RecordTurnHash sha sid t s = (Inr b, put sid g' s)" "go_Status g' = go_Status g"
    "go_ContinuationCount g' = go_ContinuationCount g" "go_locked g' = go_locked g"
proof -
  let ?h = "ComputeTurnHash sha t"
  let ?n = "wrap64 (go_ConsecutiveBlockerCount g + 1)"
  let ?g' = "if IsBlank ?h then g\<lparr>go_LastBlockerHash := [], go_ConsecutiveBlockerCount := 0\<rparr>
     else if ?h = go_LastBlockerHash g then g\<lparr>go_ConsecutiveBlockerCount := ?n\<rparr>
     else g\<lparr>go_LastBlockerHash := ?h, go_ConsecutiveBlockerCount := 1\<rparr>"
  show thesis
    by (rule that[of "\<not> IsBlank ?h \<and> ?h = go_LastBlockerHash g \<and> ?n \<ge> 3" ?g'])
       (use assms in \<open>simp_all add: RecordTurnHash_def with_goal_def Let_def\<close>)
qed

text \<open>What the others may do: any operation but those that reset or raise the count of this session.\<close>

definition quiet_event :: "string \<Rightarrow> goal_event \<Rightarrow> bool" where
  "quiet_event sid e \<longleftrightarrow> e \<noteq> EvClear sid \<and> e \<noteq> EvBeginTurn sid \<and> e \<noteq> EvIncrement sid"

inductive quietly :: "string \<Rightarrow> GoalService \<Rightarrow> GoalService \<Rightarrow> bool" for sid where
  stays: "quietly sid s s"
| moves: "quietly sid s t \<Longrightarrow> goal_step t e u \<Longrightarrow> quiet_event sid e \<Longrightarrow> quietly sid s u"

text \<open>
  A turn of a session: evaluations, each with its own token total, time, write outcome and answer of
  the model, and between and within them quiet operations. The list holds what the evaluations
  returned.
\<close>

inductive goal_turn :: "string \<Rightarrow> GoalService \<Rightarrow> string go_result list \<Rightarrow> GoalService \<Rightarrow> bool" for sid where
  begins: "goal_turn sid s [] s"
| others: "goal_turn sid s rs t \<Longrightarrow> goal_step t e u \<Longrightarrow> quiet_event sid e \<Longrightarrow> goal_turn sid s rs u"
| answer: "goal_turn sid s rs t \<Longrightarrow> (\<And>i s. quietly sid s (env i s)) \<Longrightarrow> se_Id session = sid \<Longrightarrow>
    EvaluateGoalContinuation_among env sha io now session it mx resp t = (r, u) \<Longrightarrow> goal_turn sid s (rs @ [r]) u"

definition prompted :: "string go_result \<Rightarrow> nat" where
  "prompted r = (case r of Inr p \<Rightarrow> if p \<noteq> [] then 1 else 0 | Inl _ \<Rightarrow> 0)"

text \<open>The prompts given so far are paid for by the count; after \<open>n\<close> evaluations it is at most \<open>n\<close>.\<close>

definition tally :: "string \<Rightarrow> nat \<Rightarrow> nat \<Rightarrow> GoalService \<Rightarrow> bool" where
  "tally sid p n s \<longleftrightarrow>
     (case gs_goals s sid of None \<Rightarrow> p = 0
      | Some g \<Rightarrow> p \<le> 10 \<and> (\<not> go_locked g \<longrightarrow> int p \<le> go_ContinuationCount g \<and> go_ContinuationCount g \<le> int n))"

lemma tally_step:
  assumes "goal_step s e s'" "quiet_event sid e" "tally sid p n s"
  shows "tally sid p n s'"
  using assms(1)
proof (cases rule: goal_step.cases)
  case (clear k io now)
  then show ?thesis using assms(2,3)
    by (auto simp: tally_def quiet_event_def ClearGoal_def Let_def split: option.splits)
next
  case (create b t k obj)
  then show ?thesis using assms(3)
    by (auto simp: tally_def CreateGoal_def Let_def split: option.splits)
next
  case (begin_turn k)
  then show ?thesis using assms(2,3)
    by (auto simp: tally_def quiet_event_def BeginTurn_def with_goal_def split: option.splits)
next
  case (increment k now)
  then show ?thesis using assms(2,3)
    by (auto simp: tally_def quiet_event_def IncrementContinuationCount_def with_goal_def Let_def split: option.splits)
next
  case (turn_hash k sha tt)
  then show ?thesis using assms(3)
    by (auto simp: tally_def RecordTurnHash_def with_goal_def Let_def split: option.splits)
next
  case (status k st io now nt)
  then show ?thesis using assms(3)
    by (auto simp: tally_def UpdateStatus_def with_goal_def Let_def split: option.splits)
next
  case (model_status k st io now nt)
  then show ?thesis using assms(3)
    by (auto simp: tally_def UpdateModelStatus_eq with_goal_def split: option.splits)
next
  case (tokens k now tot)
  then show ?thesis using assms(3)
    by (auto simp: tally_def UpdateTokenUsage_def with_goal_def split: option.splits)
next
  case (has k)
  then show ?thesis using assms(3)
    by (auto simp: tally_def HasActiveGoal_def with_goal_def split: option.splits)
qed

lemma tally_quietly: "quietly sid s t \<Longrightarrow> tally sid p n s \<Longrightarrow> tally sid p n t"
  by (induction rule: quietly.induct) (auto intro: tally_step)

lemma tally_Suc: "tally sid p n s \<Longrightarrow> tally sid p (Suc n) s"
  by (auto simp: tally_def split: option.splits)

lemma tally_increment:
  assumes "tally sid p n s" "int n < max_i64" "IncrementContinuationCount now sid s = (x, s')"
  shows "tally sid p (Suc n) s'" and "x = Inr c \<Longrightarrow> c \<noteq> 0 \<Longrightarrow> c \<le> 10 \<Longrightarrow> tally sid (Suc p) (Suc n) s'"
  using assms
  by (auto simp: tally_def IncrementContinuationCount_def with_goal_def Let_def wrap64_id in_i64_def split: option.splits if_splits)

text \<open>Whatever ends an evaluation early gives no prompt.\<close>

lemma tally_or_stop:
  assumes "or_stop y k = (r, s')" "tally sid p n (snd y)"
    and "\<And>a. fst y = Inr a \<Longrightarrow> k a (snd y) = (r, s') \<Longrightarrow> tally sid (p + prompted r) n s'"
  shows "tally sid (p + prompted r) n s'"
  using assms by (cases y) (auto simp: or_stop_def prompted_def split: sum.splits go_fail.splits)

lemma tally_end: "tally sid p n s \<Longrightarrow> (Inr [], s) = (r, s') \<Longrightarrow> tally sid (p + prompted r) n s'"
  by (auto simp: prompted_def)

lemma tally_stop:
  assumes "or_stop (UpdateStatus io now sid st nt s) (\<lambda>_ s. (Inr [], s)) = (r, s')" "tally sid p n s"
  shows "tally sid (p + prompted r) n s'"
  by (rule tally_or_stop[OF assms(1)])
    (rule tally_step[OF goal_step.status _ assms(2)], simp add: quiet_event_def, erule tally_end[rotated],
     rule tally_step[OF goal_step.status _ assms(2)], simp add: quiet_event_def)

lemma tally_evaluation:
  assumes env: "\<And>i s. quietly (se_Id session) s (env i s)"
    and run: "EvaluateGoalContinuation_among env sha io now session it mx resp s = (r, s')"
    and t: "tally (se_Id session) p n s" and n: "int n < max_i64"
  shows "tally (se_Id session) (p + prompted r) (Suc n) s'"
proof -
  let ?sid = "se_Id session"
  have quiet: "tally ?sid q m t \<Longrightarrow> tally ?sid q m (env i t)" for q m i t
    using tally_quietly[OF env] .
  have hash: "tally ?sid q m t \<Longrightarrow> tally ?sid q m (snd (RecordTurnHash sha ?sid x t))" for q m t x
    by (rule tally_step[OF goal_step.turn_hash]) (simp_all add: quiet_event_def)
  have usage: "tally ?sid q m t \<Longrightarrow> tally ?sid q m (snd (UpdateTokenUsage now ?sid x t))" for q m t x
    by (rule tally_step[OF goal_step.tokens]) (simp_all add: quiet_event_def)
  have rest: "tally ?sid (p + prompted r) (Suc n) s'"
    if up: "tally ?sid (Suc p) (Suc n) u"
      and go: "or_stop (RecordTurnHash sha ?sid x (env 4 u)) (\<lambda>isBlocked s.
        if isBlocked
        then or_stop (UpdateStatus io now ?sid GoalStatus_Blocked b (env 5 s)) (\<lambda>_ s. (Inr [], s))
        else if it \<ge> mx then (Inr [], s)
        else (Inr (BuildCheckPrompt g it mx), s)) = (r, s')"
      and down: "tally ?sid p (Suc n) u" for u x b g
  proof (rule tally_or_stop[OF go])
    show "tally ?sid p (Suc n) (snd (RecordTurnHash sha ?sid x (env 4 u)))" by (intro hash quiet down)
    fix blocked
    let ?v = "snd (RecordTurnHash sha ?sid x (env 4 u))"
    assume k: "(if blocked then or_stop (UpdateStatus io now ?sid GoalStatus_Blocked b (env 5 ?v)) (\<lambda>_ s. (Inr [], s))
        else if it \<ge> mx then (Inr [], ?v) else (Inr (BuildCheckPrompt g it mx), ?v)) = (r, s')"
    have "tally ?sid p (Suc n) (env 5 ?v)" "tally ?sid p (Suc n) ?v" "tally ?sid (Suc p) (Suc n) ?v"
      by (intro quiet hash down up)+
    with k show "tally ?sid (p + prompted r) (Suc n) s'"
    proof (cases blocked)
      case True
      with k \<open>tally ?sid p (Suc n) (env 5 ?v)\<close> show ?thesis by (auto intro: tally_stop)
    next
      case False
      with k \<open>tally ?sid p (Suc n) ?v\<close> \<open>tally ?sid (Suc p) (Suc n) ?v\<close> show ?thesis
        by (auto simp: prompted_def split: if_splits)
    qed
  qed
  have counts: "tally ?sid (p + prompted r) (Suc n) s'"
    if go: "or_stop (IncrementContinuationCount now ?sid u) (\<lambda>continuationCount s.
        if continuationCount = 0 then (Inr [], s)
        else if continuationCount > 10 then or_stop (UpdateStatus io now ?sid GoalStatus_Paused a (env 4 s)) (\<lambda>_ s. (Inr [], s))
        else or_stop (RecordTurnHash sha ?sid x (env 4 s)) (\<lambda>isBlocked s.
        if isBlocked
        then or_stop (UpdateStatus io now ?sid GoalStatus_Blocked b (env 5 s)) (\<lambda>_ s. (Inr [], s))
        else if it \<ge> mx then (Inr [], s)
        else (Inr (BuildCheckPrompt g it mx), s))) = (r, s')"
      and down: "tally ?sid p n u" for u x a b g
  proof -
    obtain y v where inc: "IncrementContinuationCount now ?sid u = (y, v)" by force
    note up = tally_increment[OF down n inc]
    show ?thesis
    proof (rule tally_or_stop[OF go])
      show "tally ?sid p (Suc n) (snd (IncrementContinuationCount now ?sid u))" using up(1) by (simp add: inc)
      fix c
      assume c: "fst (IncrementContinuationCount now ?sid u) = Inr c"
        and k: "(if c = 0 then (Inr [], snd (IncrementContinuationCount now ?sid u))
          else if c > 10 then or_stop (UpdateStatus io now ?sid GoalStatus_Paused a
            (env 4 (snd (IncrementContinuationCount now ?sid u)))) (\<lambda>_ s. (Inr [], s))
          else or_stop (RecordTurnHash sha ?sid x (env 4 (snd (IncrementContinuationCount now ?sid u)))) (\<lambda>isBlocked s.
          if isBlocked
          then or_stop (UpdateStatus io now ?sid GoalStatus_Blocked b (env 5 s)) (\<lambda>_ s. (Inr [], s))
          else if it \<ge> mx then (Inr [], s)
          else (Inr (BuildCheckPrompt g it mx), s))) = (r, s')"
      consider "c = 0" | "c \<noteq> 0" "c > 10" | "c \<noteq> 0" "c \<le> 10" by linarith
      then show "tally ?sid (p + prompted r) (Suc n) s'"
      proof cases
        case 1
        with k up(1) inc show ?thesis by (auto intro: tally_end)
      next
        case 2
        with k up(1) inc quiet show ?thesis by (auto intro: tally_stop)
      next
        case 3
        with k c inc have "tally ?sid (Suc p) (Suc n) v" using up(2) by simp
        moreover from 3 k inc have "or_stop (RecordTurnHash sha ?sid x (env 4 v)) (\<lambda>isBlocked s.
          if isBlocked
          then or_stop (UpdateStatus io now ?sid GoalStatus_Blocked b (env 5 s)) (\<lambda>_ s. (Inr [], s))
          else if it \<ge> mx then (Inr [], s)
          else (Inr (BuildCheckPrompt g it mx), s)) = (r, s')" by simp
        ultimately show ?thesis using rest up(1) by blast
      qed
    qed
  qed
  have stays: "tally ?sid p n (env i t)" "tally ?sid p n (snd (UpdateTokenUsage now ?sid x t))" if "tally ?sid p n t" for i t x
    using that by (auto intro: quiet usage)
  show ?thesis
    using run unfolding EvaluateGoalContinuation_among_def Let_def
    apply (rule tally_or_stop)
     apply (simp add: tally_Suc stays t)
    apply (simp only: snd_conv split: if_split_asm)
     apply (erule tally_end[rotated], simp add: tally_Suc stays t)
    apply (erule tally_or_stop)
     apply (simp add: tally_Suc stays t)
    apply (erule tally_or_stop)
     apply (simp add: tally_Suc stays t)
    apply (simp only: snd_conv split: if_split_asm)
      apply (erule tally_end[rotated], simp add: tally_Suc stays t)
     apply (erule tally_stop, simp add: tally_Suc stays t)
    apply (erule counts, simp add: stays t)
    done
qed

lemma tally_most: "tally sid p n s \<Longrightarrow> p \<le> 10"
  by (auto simp: tally_def split: option.splits)

lemma tally_turn:
  assumes "goal_turn sid s rs t" "tally sid 0 0 s" "int (length rs) \<le> max_i64"
  shows "tally sid (sum_list (map prompted rs)) (length rs) t"
  using assms
proof (induction rule: goal_turn.induct)
  case (others s rs t e u)
  then show ?case using tally_step by blast
next
  case (answer s rs t env session sha io now it mx resp r u)
  then have "tally sid (sum_list (map prompted rs)) (length rs) t" "int (length rs) < max_i64" by auto
  with answer.hyps(2-4) tally_evaluation[of session env sha io now it mx resp t r u] show ?case by simp
qed simp

text \<open>C35: In one turn, from a \<open>BeginTurn\<close> to the next, a session is given at most ten continuation
  prompts, whatever the model answers, whatever its token total, the clock and the history file do
  from one evaluation to the next, and whatever other operations on goals run before, between and
  within the evaluations, apart from those that reset the count (\<open>BeginTurn\<close> and clearing the goal) or
  raise it (another evaluation). The bound on the number of evaluations keeps the counter from
  wrapping.\<close>

theorem at_most_ten_continuations:
  assumes "goal_turn sid (snd (BeginTurn sid s)) rs t" "int (length rs) \<le> max_i64"
  shows "sum_list (map prompted rs) \<le> 10"
proof -
  have "tally sid 0 0 (snd (BeginTurn sid s))"
    by (auto simp: tally_def BeginTurn_def with_goal_def split: option.splits)
  from tally_turn[OF assms(1) this assms(2)] show ?thesis by (rule tally_most)
qed

text \<open>A turn with two answers, at other times and with other token totals, and a pause resumed between them.\<close>

lemma example_turn:
  "\<exists>rs t. goal_turn ''s1'' s rs t \<and> length rs = 2"
proof -
  let ?x = "\<lparr>se_Id = ''s1'', se_ChannelId = ''cli'', se_TotalTokens = 5\<rparr> :: GoalSession"
  obtain r1 t1 where one: "EvaluateGoalContinuation_among (\<lambda>i s. s) id (Inr ()) 7 ?x 1 20 ''a'' s = (r1, t1)" by force
  let ?t2 = "snd (UpdateStatus (Inr ()) 8 ''s1'' GoalStatus_Paused ''wait'' t1)"
  let ?t3 = "snd (UpdateStatus (Inr ()) 9 ''s1'' GoalStatus_Active ''go on'' ?t2)"
  obtain r2 t4 where two: "EvaluateGoalContinuation_among (\<lambda>i s. s) id (Inl (GoErr ''full'')) 12 (?x\<lparr>se_TotalTokens := 900\<rparr>)
      2 20 ''b'' ?t3 = (r2, t4)" by force
  note alone = quietly.stays
  have "goal_turn ''s1'' s [r1] t1"
    using goal_turn.answer[OF goal_turn.begins alone _ one] by simp
  then have "goal_turn ''s1'' s [r1] ?t2"
    by (rule goal_turn.others[OF _ goal_step.status]) (simp add: quiet_event_def)
  then have "goal_turn ''s1'' s [r1] ?t3"
    by (rule goal_turn.others[OF _ goal_step.status]) (simp add: quiet_event_def)
  from goal_turn.answer[OF this alone _ two] have "goal_turn ''s1'' s [r1, r2] t4" by simp
  then show ?thesis by (intro exI[of _ "[r1, r2]"] exI[of _ t4]) simp
qed

theorem at_most_ten_continuations_witness:
  "\<exists>rs t. goal_turn ''s1'' (snd (BeginTurn ''s1'' (snd (CreateGoal ''s1'' ''write it'' 0 0 (NewInMemoryGoalService []))))) rs t \<and>
     length rs = 2 \<and> sum_list (map prompted rs) \<le> 10"
proof -
  let ?s = "snd (CreateGoal ''s1'' ''write it'' 0 0 (NewInMemoryGoalService []))"
  obtain rs t where run: "goal_turn ''s1'' (snd (BeginTurn ''s1'' ?s)) rs t" and two: "length rs = 2"
    using example_turn by blast
  from at_most_ten_continuations[OF run] two run show ?thesis by auto
qed

subsection \<open>The budget check is the wrong way round\<close>

lemma check_prompt_nonempty [simp]: "BuildCheckPrompt (Some g) it mx \<noteq> []"
  by (simp add: BuildCheckPrompt_def Let_def prompt_line_def)

text \<open>For an active goal with a token budget the first evaluation ends the goal as out of budget as long
  as the tokens used are within the budget; once they exceed it, the goal is continued.\<close>

theorem budget_check_inverted:
  assumes "gs_goals s (se_Id session) = Some g" "go_Status g = GoalStatus_Active" "\<not> go_locked g"
    and "isInteractiveChannel (se_ChannelId session)" "0 < go_TokenBudget g"
    and "used = max 0 (wrap64 (se_TotalTokens session - go_TokensAtStart g))"
    and "0 \<le> go_ContinuationCount g" "go_ContinuationCount g < 10" "it < mx"
    and "EvaluateGoalContinuation sha (Inr ()) now (Some session) it mx resp s = (r, s')"
  shows "(used \<le> go_TokenBudget g \<longrightarrow> r = Inr [] \<and>
        map_option go_Status (gs_goals s' (se_Id session)) = Some GoalStatus_BudgetLimited) \<and>
     (used > go_TokenBudget g \<and> ComputeTurnHash sha (NormalizeForComparison resp) \<noteq> go_LastBlockerHash g \<longrightarrow>
        (\<exists>p. r = Inr p \<and> p \<noteq> []) \<and>
        map_option go_Status (gs_goals s' (se_Id session)) = Some GoalStatus_Active)"
proof -
  let ?sid = "se_Id session" let ?g1 = "counted now session g"
  have p: "IsPursuable (go_Status g)" using assms(2) by simp
  have w: "wrap64 (go_ContinuationCount g + 1) = go_ContinuationCount g + 1"
    using assms(7,8) by (simp add: wrap64_id in_i64_def)
  note ev = evaluate_active[OF assms(1) p assms(4,3), of sha "Inr ()" now it mx resp, unfolded Let_def w assms(10)]
  have u: "go_TokensUsed ?g1 = used" "go_TokenBudget ?g1 = go_TokenBudget g" "go_Status ?g1 = GoalStatus_Active"
    "\<not> go_locked ?g1" "go_LastBlockerHash ?g1 = go_LastBlockerHash g"
    using assms(2,3,6) by (simp_all add: counted_def)
  show ?thesis
  proof (intro conjI impI; (elim conjE)?)
    assume "used \<le> go_TokenBudget g"
    then have b: "IsBudgetExceeded ?g1" using u assms(5) by (simp add: IsBudgetExceeded_def)
    obtain s1 where "UpdateStatus (Inr ()) now ?sid GoalStatus_BudgetLimited ''Token budget exceeded'' (put ?sid ?g1 s)
        = (Inr (), s1)"
      "gs_goals s1 = (gs_goals (put ?sid ?g1 s))(?sid \<mapsto> ?g1\<lparr>go_Status := GoalStatus_BudgetLimited,
          go_UpdatedAt := now, go_StatusNote := ''Token budget exceeded''\<rparr>)"
      using update_status_active[of "put ?sid ?g1 s" ?sid ?g1 "Inr ()" now] u by fastforce
    with ev b show "r = Inr []" "map_option go_Status (gs_goals s' ?sid) = Some GoalStatus_BudgetLimited" by auto
  next
    assume o: "used > go_TokenBudget g"
      and h: "ComputeTurnHash sha (NormalizeForComparison resp) \<noteq> go_LastBlockerHash g"
    then have "\<not> IsBudgetExceeded ?g1" using u by (simp add: IsBudgetExceeded_def)
    with ev assms(7-9) u h show "\<exists>p. r = Inr p \<and> p \<noteq> []"
      "map_option go_Status (gs_goals s' ?sid) = Some GoalStatus_Active"
      by (auto simp: RecordTurnHash_def with_goal_def Let_def split: if_splits)
  qed
qed

theorem budget_check_inverted_witness:
  "\<exists>s'. EvaluateGoalContinuation (\<lambda>x. x) (Inr ()) 7
      (Some \<lparr>se_Id = ''s1'', se_ChannelId = ''cli'', se_TotalTokens = 5\<rparr>) 1 20 ''a''
      (snd (CreateGoal ''s1'' ''write it'' 100 0 (NewInMemoryGoalService []))) = (Inr [], s') \<and>
    map_option go_Status (gs_goals s' ''s1'') = Some GoalStatus_BudgetLimited"
proof -
  let ?s = "snd (CreateGoal ''s1'' ''write it'' 100 0 (NewInMemoryGoalService []))"
  let ?x = "\<lparr>se_Id = ''s1'', se_ChannelId = ''cli'', se_TotalTokens = 5\<rparr> :: GoalSession"
  have "map_option (\<lambda>g. (go_Status g, go_locked g, go_TokenBudget g, go_TokensAtStart g, go_ContinuationCount g))
      (gs_goals ?s ''s1'') = Some (GoalStatus_Active, False, 100, 0, 0)" by code_simp
  then obtain g where g: "gs_goals ?s (se_Id ?x) = Some g" "go_Status g = GoalStatus_Active" "\<not> go_locked g"
    "go_TokenBudget g = 100" "go_TokensAtStart g = 0" "go_ContinuationCount g = 0" by auto
  have i: "isInteractiveChannel (se_ChannelId ?x)" by (simp add: isInteractiveChannel_def InteractiveChannelIds_def)
  obtain r s' where e: "EvaluateGoalContinuation (\<lambda>x. x) (Inr ()) 7 (Some ?x) 1 20 ''a'' ?s = (r, s')" by fastforce
  have u: "max 0 (wrap64 (se_TotalTokens ?x - go_TokensAtStart g)) = 5" by (simp add: g wrap64_def)
  from budget_check_inverted[OF g(1-3) i _ refl _ _ _ e] g u e show ?thesis by simp
qed

end
