(* ===== verification/Circuit.thy ===== *)
theory Circuit
  imports Go_Prelude
begin

section \<open>The circuit breaker\<close>

text \<open>
  The package \<open>circuitbreaker\<close> (\<open>src/openclaw/circuitbreaker/circuit.go\<close>). The record
  \<open>CircuitBreaker\<close> is the struct without its mutex and logger; every method body runs under
  the mutex, so each is one atomic operation on the record. \<open>Execute\<close> releases the mutex while
  it runs the action: it is split into \<open>execute_admit\<close> and \<open>execute_finish\<close>, composed in
  \<open>Execute\<close> for one caller and interleaved in the relation \<open>cb_step\<close> for many callers. The
  clock is the argument \<open>now\<close>. The counters are unbounded integers: they count failures one
  by one, and no run of the program reaches \<open>2 ^ 63\<close> of them.
\<close>

named_theorems cb_defs \<open>definitions of the circuit breaker's operations\<close>

subsection \<open>Data\<close>

datatype CircuitState = StateClosed | StateOpen | StateHalfOpen

fun CircuitState_String :: "CircuitState \<Rightarrow> string" where
  "CircuitState_String StateClosed = ''Closed''"
| "CircuitState_String StateOpen = ''Open''"
| "CircuitState_String StateHalfOpen = ''HalfOpen''"

record ErrCircuitOpen =
  RetryAfter :: int

record CircuitBreaker =
  failureThreshold :: int
  baseCooldown :: int
  maxCooldown :: int
  consecutiveFailures :: int
  probeFailures :: int
  openedAt :: int
  currentCooldown :: int
  cb_state :: CircuitState
  halfOpenProbeActive :: bool

subsection \<open>Construction\<close>

datatype Option = WithFailureThreshold int | WithCooldown int | WithLogger

fun apply_Option :: "Option \<Rightarrow> CircuitBreaker \<Rightarrow> CircuitBreaker" where
  "apply_Option (WithFailureThreshold threshold) cb =
     cb\<lparr>failureThreshold := (if threshold < 1 then 1 else threshold)\<rparr>"
| "apply_Option (WithCooldown cooldown) cb =
     cb\<lparr>baseCooldown := cooldown, currentCooldown := cooldown\<rparr>"
| "apply_Option WithLogger cb = cb"

text \<open>The zero value of the fields that \<open>New\<close> does not set; the zero \<open>time.Time\<close> is time 0.\<close>

definition New_default :: CircuitBreaker where
  "New_default =
     \<lparr>failureThreshold = 5, baseCooldown = 30 * Second, maxCooldown = 5 * Minute,
      consecutiveFailures = 0, probeFailures = 0, openedAt = 0,
      currentCooldown = 30 * Second, cb_state = StateClosed, halfOpenProbeActive = False\<rparr>"

definition New :: "Option list \<Rightarrow> CircuitBreaker" where
  "New opts = foldl (\<lambda>cb opt. apply_Option opt cb) New_default opts"

subsection \<open>The back-off\<close>

text \<open>
  \<open>computeBackoffCooldown\<close> works in \<open>float64\<close>. \<open>f64_of_int\<close> rounds an integer to the
  53 bits of a \<open>float64\<close> (ties to even); the multiplier is a power of two, so the product is
  that integer times \<open>2 ^ n\<close>, or an infinity or not-a-number when the multiplier overflows.
  The conversion back to \<open>int64\<close> of a value outside its range is left to the implementation
  by the Go specification; the two conversions below are those of the processors Go
  programs run on most.
\<close>

definition f64_of_int :: "int \<Rightarrow> int" where
  "f64_of_int x =
     (let a = \<bar>x\<bar>; k = nat (bitlen a - 53); q = a div 2 ^ k; r = a mod 2 ^ k;
          q' = (if 2 * r > 2 ^ k \<or> (2 * r = 2 ^ k \<and> odd q) then q + 1 else q)
      in if a \<le> 2 ^ 53 then x else sgn x * q' * 2 ^ k)"

datatype f64 = Fin int | PosInf | NegInf | NaN

definition f64_mul_pow2 :: "int \<Rightarrow> nat \<Rightarrow> f64" where
  "f64_mul_pow2 x n =
     (if n < 1024 then (if \<bar>x * 2 ^ n\<bar> < 2 ^ 1024 then Fin (x * 2 ^ n) else if 0 < x then PosInf else NegInf)
      else if x = 0 then NaN else if 0 < x then PosInf else NegInf)"

datatype goarch = Amd64 | Arm64

fun int64_of_f64 :: "goarch \<Rightarrow> f64 \<Rightarrow> int" where
  "int64_of_f64 Amd64 (Fin x) = (if in_i64 x then x else min_i64)"
| "int64_of_f64 Amd64 _ = min_i64"
| "int64_of_f64 Arm64 (Fin x) = max min_i64 (min max_i64 x)"
| "int64_of_f64 Arm64 PosInf = max_i64"
| "int64_of_f64 Arm64 NegInf = min_i64"
| "int64_of_f64 Arm64 NaN = 0"

definition backoff :: "goarch \<Rightarrow> int \<Rightarrow> int \<Rightarrow> int \<Rightarrow> int" where
  "backoff arch base cap probes =
     (let n = nat (if probes < 1 then 1 else probes);
          cooldown = int64_of_f64 arch (f64_mul_pow2 (f64_of_int base) n)
      in if cooldown > cap then cap else cooldown)"

definition computeBackoffCooldown :: "goarch \<Rightarrow> CircuitBreaker \<Rightarrow> int \<Rightarrow> int" where
  "computeBackoffCooldown arch cb probes = backoff arch (baseCooldown cb) (maxCooldown cb) probes"

subsection \<open>Operations\<close>

definition State :: "CircuitBreaker \<Rightarrow> CircuitState" where
  "State cb = cb_state cb"

definition Reset :: "CircuitBreaker \<Rightarrow> CircuitBreaker" where [cb_defs]:
  "Reset cb =
     cb\<lparr>consecutiveFailures := 0, probeFailures := 0, currentCooldown := baseCooldown cb,
        cb_state := StateClosed, halfOpenProbeActive := False\<rparr>"

definition retry_after :: "int \<Rightarrow> CircuitBreaker \<Rightarrow> ErrCircuitOpen" where
  "retry_after now cb = \<lparr>RetryAfter = time_sub (openedAt cb + currentCooldown cb) now\<rparr>"

definition ThrowIfOpen :: "int \<Rightarrow> CircuitBreaker \<Rightarrow> ErrCircuitOpen option \<times> CircuitBreaker" where [cb_defs]:
  "ThrowIfOpen now cb =
     (if cb_state cb = StateOpen then
        if time_sub now (openedAt cb) \<ge> currentCooldown cb
        then (None, cb\<lparr>cb_state := StateHalfOpen\<rparr>)
        else (Some (retry_after now cb), cb)
      else (None, cb))"

definition execute_admit :: "int \<Rightarrow> CircuitBreaker \<Rightarrow> ErrCircuitOpen option \<times> CircuitBreaker" where [cb_defs]:
  "execute_admit now cb =
     (case cb_state cb of
        StateOpen \<Rightarrow>
          if time_sub now (openedAt cb) \<ge> currentCooldown cb
          then (None, cb\<lparr>cb_state := StateHalfOpen, halfOpenProbeActive := True\<rparr>)
          else (Some (retry_after now cb), cb)
      | StateHalfOpen \<Rightarrow>
          if halfOpenProbeActive cb then (Some (retry_after now cb), cb)
          else (None, cb\<lparr>halfOpenProbeActive := True\<rparr>)
      | StateClosed \<Rightarrow> (None, cb))"

definition onSuccess :: "CircuitBreaker \<Rightarrow> CircuitBreaker" where [cb_defs]:
  "onSuccess cb =
     (if cb_state cb = StateClosed \<and> consecutiveFailures cb = 0 then cb
      else cb\<lparr>consecutiveFailures := 0, probeFailures := 0, currentCooldown := baseCooldown cb,
              cb_state := StateClosed, halfOpenProbeActive := False\<rparr>)"

definition onFailure :: "goarch \<Rightarrow> int \<Rightarrow> CircuitBreaker \<Rightarrow> CircuitBreaker" where [cb_defs]:
  "onFailure arch now cb0 =
     (let cb = cb0\<lparr>consecutiveFailures := consecutiveFailures cb0 + 1\<rparr> in
      if cb_state cb = StateHalfOpen \<or>
         (cb_state cb = StateClosed \<and> consecutiveFailures cb \<ge> failureThreshold cb)
      then
        let cb1 =
          (if cb_state cb = StateHalfOpen
           then cb\<lparr>probeFailures := probeFailures cb + 1,
                   currentCooldown := computeBackoffCooldown arch cb (probeFailures cb + 1)\<rparr>
           else cb\<lparr>probeFailures := 0, currentCooldown := baseCooldown cb\<rparr>)
        in cb1\<lparr>cb_state := StateOpen, halfOpenProbeActive := False, openedAt := now\<rparr>
      else cb)"

definition RecordSuccess :: "CircuitBreaker \<Rightarrow> CircuitBreaker" where
  "RecordSuccess cb = onSuccess cb"

definition RecordFailure :: "goarch \<Rightarrow> int \<Rightarrow> CircuitBreaker \<Rightarrow> CircuitBreaker" where
  "RecordFailure arch now cb = onFailure arch now cb"

text \<open>
  What an action returns: a value, an error that is \<open>context.Canceled\<close> or
  \<open>context.DeadlineExceeded\<close>, or any other error.
\<close>

datatype 'a action_result = ActionOk 'a | ActionCanceled string | ActionFailed string

datatype exec_error = CircuitIsOpen ErrCircuitOpen | ActionError string

fun execute_finish ::
  "goarch \<Rightarrow> int \<Rightarrow> 'a action_result \<Rightarrow> CircuitBreaker \<Rightarrow> (exec_error + 'a) \<times> CircuitBreaker" where
  "execute_finish arch now (ActionCanceled e) cb = (Inl (ActionError e), cb)"
| "execute_finish arch now (ActionFailed e) cb = (Inl (ActionError e), onFailure arch now cb)"
| "execute_finish arch now (ActionOk v) cb = (Inr v, onSuccess cb)"

text \<open>
  \<open>Execute\<close> for one caller: \<open>now\<close> is the time of admission, \<open>later\<close> the time the action
  returns, and the action is a function on the state \<open>w\<close> of the rest of the program.
\<close>

definition Execute ::
  "goarch \<Rightarrow> int \<Rightarrow> int \<Rightarrow> ('w \<Rightarrow> 'a action_result \<times> 'w) \<Rightarrow> CircuitBreaker \<times> 'w
     \<Rightarrow> (exec_error + 'a) \<times> CircuitBreaker \<times> 'w" where
  "Execute arch now later action = (\<lambda>(cb, w).
     (case execute_admit now cb of
        (Some e, cb') \<Rightarrow> (Inl (CircuitIsOpen e), cb', w)
      | (None, cb') \<Rightarrow>
          (case action w of (r, w') \<Rightarrow>
             (case execute_finish arch later r cb' of (res, cb'') \<Rightarrow> (res, cb'', w')))))"

subsection \<open>Interleaved callers\<close>

text \<open>
  Any number of goroutines share one breaker. A state is the breaker and the number of
  admitted calls whose action still runs; a step is one critical section of one caller.
\<close>

datatype cb_event =
    Admitted int | Rejected int | Finished "unit action_result" int
  | Threw int | Succeeded | Failed int | WasReset

inductive cb_step :: "goarch \<Rightarrow> CircuitBreaker \<times> nat \<Rightarrow> cb_event \<Rightarrow> CircuitBreaker \<times> nat \<Rightarrow> bool"
  for arch where
  admit: "execute_admit now cb = (None, cb') \<Longrightarrow> cb_step arch (cb, n) (Admitted now) (cb', Suc n)"
| reject: "execute_admit now cb = (Some e, cb') \<Longrightarrow> cb_step arch (cb, n) (Rejected now) (cb', n)"
| finish: "execute_finish arch now r cb = (res, cb') \<Longrightarrow>
     cb_step arch (cb, Suc n) (Finished r now) (cb', n)"
| throw: "ThrowIfOpen now cb = (e, cb') \<Longrightarrow> cb_step arch (cb, n) (Threw now) (cb', n)"
| succeed: "cb_step arch (cb, n) Succeeded (RecordSuccess cb, n)"
| fail: "cb_step arch (cb, n) (Failed now) (RecordFailure arch now cb, n)"
| reset: "cb_step arch (cb, n) WasReset (Reset cb, n)"

inductive_cases cb_stepE: "cb_step arch s e t"

subsection \<open>The invariant\<close>

text \<open>
  The breaker is closed exactly while it has seen fewer failures than the threshold; a probe
  is out only in the half-open state; and the current cool-down is the base one until a probe
  fails, the back-off of the number of failed probes after that.
\<close>

definition cb_inv :: "goarch \<Rightarrow> CircuitBreaker \<Rightarrow> bool" where
  "cb_inv arch cb \<longleftrightarrow>
     1 \<le> failureThreshold cb \<and> 0 \<le> consecutiveFailures cb \<and> 0 \<le> probeFailures cb \<and>
     (cb_state cb = StateClosed \<longleftrightarrow> consecutiveFailures cb < failureThreshold cb) \<and>
     (halfOpenProbeActive cb \<longrightarrow> cb_state cb = StateHalfOpen) \<and>
     (cb_state cb = StateClosed \<longrightarrow> probeFailures cb = 0) \<and>
     currentCooldown cb =
       (if probeFailures cb = 0 then baseCooldown cb
        else computeBackoffCooldown arch cb (probeFailures cb))"

lemma apply_Option_fresh:
  assumes "1 \<le> failureThreshold cb" "consecutiveFailures cb = 0" "probeFailures cb = 0"
    "cb_state cb = StateClosed" "\<not> halfOpenProbeActive cb" "currentCooldown cb = baseCooldown cb"
  shows "1 \<le> failureThreshold (apply_Option opt cb)" "consecutiveFailures (apply_Option opt cb) = 0"
    "probeFailures (apply_Option opt cb) = 0" "cb_state (apply_Option opt cb) = StateClosed"
    "\<not> halfOpenProbeActive (apply_Option opt cb)"
    "currentCooldown (apply_Option opt cb) = baseCooldown (apply_Option opt cb)"
  using assms by (cases opt; simp)+

lemma New_fresh:
  "1 \<le> failureThreshold (New opts) \<and> consecutiveFailures (New opts) = 0 \<and>
   probeFailures (New opts) = 0 \<and> cb_state (New opts) = StateClosed \<and>
   \<not> halfOpenProbeActive (New opts) \<and> currentCooldown (New opts) = baseCooldown (New opts)"
proof (induction opts rule: rev_induct)
  case Nil
  then show ?case by (simp add: New_def New_default_def)
next
  case (snoc opt opts)
  then show ?case
    using apply_Option_fresh[of "New opts" opt] by (simp add: New_def)
qed

lemma New_inv: "cb_inv arch (New opts)"
  using New_fresh[of opts] by (simp add: cb_inv_def)

lemma onSuccess_inv: "cb_inv arch cb \<Longrightarrow> cb_inv arch (onSuccess cb)"
  by (auto simp: cb_inv_def onSuccess_def computeBackoffCooldown_def)

lemma onFailure_inv: "cb_inv arch cb \<Longrightarrow> cb_inv arch (onFailure arch now cb)"
  by (cases "cb_state cb") (auto simp: cb_inv_def onFailure_def Let_def computeBackoffCooldown_def)

lemma Reset_inv: "cb_inv arch cb \<Longrightarrow> cb_inv arch (Reset cb)"
  by (simp add: cb_inv_def Reset_def)

lemma ThrowIfOpen_inv: "cb_inv arch cb \<Longrightarrow> cb_inv arch (snd (ThrowIfOpen now cb))"
  by (auto simp: cb_inv_def ThrowIfOpen_def computeBackoffCooldown_def)

lemma execute_admit_inv: "cb_inv arch cb \<Longrightarrow> cb_inv arch (snd (execute_admit now cb))"
  by (auto simp: cb_inv_def execute_admit_def computeBackoffCooldown_def split: CircuitState.splits)

lemma execute_finish_inv: "cb_inv arch cb \<Longrightarrow> cb_inv arch (snd (execute_finish arch now r cb))"
  by (cases r) (auto intro: onSuccess_inv onFailure_inv)

lemmas cb_inv_ops = New_inv onSuccess_inv onFailure_inv Reset_inv ThrowIfOpen_inv
  execute_admit_inv execute_finish_inv

lemma cb_step_inv: "cb_step arch s e t \<Longrightarrow> cb_inv arch (fst s) \<Longrightarrow> cb_inv arch (fst t)"
  by (erule cb_stepE; simp add: RecordSuccess_def RecordFailure_def cb_inv_ops;
      metis cb_inv_ops snd_conv)

interpretation breaker: invariant_machine
  "\<lambda>s. \<exists>opts. s = (New opts, 0)" "cb_step arch" "\<lambda>s. cb_inv arch (fst s)"
  by unfold_locales (auto intro: New_inv cb_step_inv)

text \<open>C15: In every state that any interleaving of callers can bring a new breaker to, the breaker
  is closed exactly while it has counted fewer failures than its threshold, a probe is marked
  active only in the half-open state, and the cool-down in force is the base one or the
  back-off of the number of failed probes.\<close>

theorem cb_reachable_inv:
  assumes "steps (cb_step arch) (New opts, 0) es (cb, n)"
  shows "cb_inv arch cb"
  using breaker.inv_reachable[of "(New opts, 0)" arch es "(cb, n)"] assms by auto

theorem cb_reachable_inv_witness:
  "cb_inv Amd64 (onFailure Amd64 7 (New [WithFailureThreshold 1]))"
proof -
  have "steps (cb_step Amd64) (New [WithFailureThreshold 1], 0) [Failed 7]
      (RecordFailure Amd64 7 (New [WithFailureThreshold 1]), 0)"
    by (rule steps.intros(2), rule cb_step.fail, rule steps.intros(1))
  from cb_reachable_inv[OF this] show ?thesis by (simp add: RecordFailure_def)
qed

subsection \<open>Opening\<close>

lemma onFailure_closed:
  assumes "cb_state cb = StateClosed"
  shows "cb_state (onFailure arch now cb) =
      (if consecutiveFailures cb + 1 < failureThreshold cb then StateClosed else StateOpen)"
    and "consecutiveFailures (onFailure arch now cb) = consecutiveFailures cb + 1"
    and "failureThreshold (onFailure arch now cb) = failureThreshold cb"
  using assms by (auto simp: onFailure_def Let_def)

lemma onFailure_open:
  assumes "cb_state cb = StateOpen"
  shows "onFailure arch now cb = cb\<lparr>consecutiveFailures := consecutiveFailures cb + 1\<rparr>"
  using assms by (simp add: onFailure_def)

lemma fold_failures:
  assumes "cb_inv arch cb" "cb_state cb = StateClosed"
  shows "failureThreshold (foldl (\<lambda>c t. onFailure arch t c) cb ts) = failureThreshold cb \<and>
     consecutiveFailures (foldl (\<lambda>c t. onFailure arch t c) cb ts) =
       consecutiveFailures cb + int (length ts) \<and>
     cb_state (foldl (\<lambda>c t. onFailure arch t c) cb ts) =
       (if consecutiveFailures cb + int (length ts) < failureThreshold cb
        then StateClosed else StateOpen)"
  using assms
proof (induction ts rule: rev_induct)
  case Nil
  then show ?case by (simp add: cb_inv_def)
next
  case (snoc t ts)
  then show ?case
    by (cases "consecutiveFailures cb + int (length ts) < failureThreshold cb")
       (auto simp: onFailure_closed onFailure_open)
qed

text \<open>A new breaker, whatever its options, stays closed for as many recorded failures in a row
  as are below its threshold and is open from the failure that reaches the threshold on.\<close>

theorem opens_at_threshold:
  "cb_state (foldl (\<lambda>cb t. RecordFailure arch t cb) (New opts) ts) =
     (if int (length ts) < failureThreshold (New opts) then StateClosed else StateOpen)"
  using fold_failures[OF New_inv, of opts arch ts] New_fresh[of opts]
  by (simp add: RecordFailure_def)

subsection \<open>Rejecting\<close>

lemma execute_admit_open:
  assumes "cb_state cb = StateOpen" "min_i64 < currentCooldown cb" "currentCooldown cb \<le> max_i64"
  shows "execute_admit now cb =
      (if openedAt cb + currentCooldown cb \<le> now
       then (None, cb\<lparr>cb_state := StateHalfOpen, halfOpenProbeActive := True\<rparr>)
       else (Some (retry_after now cb), cb))"
  using assms by (simp add: execute_admit_def time_sub_ge_iff)

text \<open>Before the cool-down has passed, an open breaker turns \<open>Execute\<close> away: the action is not
  called (the state of the rest of the program is unchanged), the breaker is unchanged, and
  the error names a positive time to wait.\<close>

theorem open_rejects_without_calling:
  assumes "cb_state cb = StateOpen"
    and "min_i64 < currentCooldown cb" "currentCooldown cb \<le> max_i64"
    and "now < openedAt cb + currentCooldown cb"
  shows "\<exists>e. Execute arch now later action (cb, w) = (Inl (CircuitIsOpen e), cb, w) \<and> 0 < RetryAfter e"
proof -
  have "execute_admit now cb = (Some (retry_after now cb), cb)"
    using assms execute_admit_open by simp
  moreover have "0 < RetryAfter (retry_after now cb)"
    using assms by (simp add: retry_after_def time_sub_def)
  ultimately show ?thesis by (simp add: Execute_def)
qed

definition opened_example :: CircuitBreaker where
  "opened_example = New_default\<lparr>cb_state := StateOpen, consecutiveFailures := 5\<rparr>"

theorem open_rejects_without_calling_witness:
  "\<exists>e. Execute Arm64 10 20 (\<lambda>w. (ActionOk (), w + 1)) (opened_example, 0::int)
        = (Inl (CircuitIsOpen e), opened_example, 0) \<and> 0 < RetryAfter e"
  by (rule open_rejects_without_calling) (simp_all add: opened_example_def New_default_def)

subsection \<open>Probing\<close>

lemma f64_of_int_exact: "\<bar>x\<bar> \<le> 2 ^ 53 \<Longrightarrow> f64_of_int x = x"
  by (simp add: f64_of_int_def Let_def)

lemma power2_lt_cancel: "(2::int) ^ n < 2 ^ m \<longleftrightarrow> n < m"
  by simp

lemma backoff_in_range:
  assumes "0 \<le> base" "base \<le> 2 ^ 53" "base * 2 ^ n < 2 ^ 63" "1 \<le> n" "n < 1024"
  shows "backoff arch base cap (int n) = min (base * 2 ^ n) cap"
proof -
  have lt: "base * 2 ^ n < (2::int) ^ 1024"
    by (rule less_trans[OF assms(3)]) simp
  have "int64_of_f64 arch (f64_mul_pow2 (f64_of_int base) n) = base * 2 ^ n"
  proof -
    have "f64_mul_pow2 (f64_of_int base) n = Fin (base * 2 ^ n)"
      using assms lt by (simp add: f64_of_int_exact f64_mul_pow2_def)
    moreover have "in_i64 (base * 2 ^ n)"
      using assms(1,3) by (simp add: in_i64_def order_trans[of _ 0])
    ultimately show ?thesis
      using assms(1,3) by (cases arch) (simp_all add: in_i64_def)
  qed
  with assms(4) show ?thesis by (simp add: backoff_def Let_def min_def)
qed

text \<open>When the cool-down has passed, \<open>Execute\<close> runs the action as a probe. If the probe succeeds
  its value is returned and the breaker is closed with both counters and the cool-down reset;
  if it fails the breaker is open again from that moment on, and the next cool-down is the base
  cool-down doubled once per failed probe, capped at the maximum (while the doubled value is
  below \<open>2 ^ 63\<close> nanoseconds).\<close>

theorem probe_closes_or_backs_off:
  assumes "cb_inv arch cb" "cb_state cb = StateOpen"
    and "min_i64 < currentCooldown cb" "currentCooldown cb \<le> max_i64"
    and "openedAt cb + currentCooldown cb \<le> now"
    and "0 \<le> baseCooldown cb" "baseCooldown cb \<le> 2 ^ 53"
    and "baseCooldown cb * 2 ^ nat (probeFailures cb + 1) < 2 ^ 63" "probeFailures cb < 1000"
  shows "Execute arch now later (\<lambda>w. (ActionOk v, f w)) (cb, w) =
      (Inr v, Reset cb, f w) \<and>
    (\<exists>cb'. Execute arch now later (\<lambda>w. (ActionFailed e, f w)) (cb, w) =
      (Inl (ActionError e), cb', f w) \<and>
      cb_state cb' = StateOpen \<and> openedAt cb' = later \<and> \<not> halfOpenProbeActive cb' \<and>
      currentCooldown cb' = min (baseCooldown cb * 2 ^ nat (probeFailures cb + 1)) (maxCooldown cb))"
proof
  have adm: "execute_admit now cb = (None, cb\<lparr>cb_state := StateHalfOpen, halfOpenProbeActive := True\<rparr>)"
    using assms execute_admit_open by simp
  show "Execute arch now later (\<lambda>w. (ActionOk v, f w)) (cb, w) = (Inr v, Reset cb, f w)"
    using adm by (simp add: Execute_def onSuccess_def Reset_def)
  have pf: "0 \<le> probeFailures cb" using assms(1) by (simp add: cb_inv_def)
  have "backoff arch (baseCooldown cb) (maxCooldown cb) (int (nat (probeFailures cb + 1))) =
      min (baseCooldown cb * 2 ^ nat (probeFailures cb + 1)) (maxCooldown cb)"
    using assms pf by (intro backoff_in_range) auto
  with adm pf
  show "\<exists>cb'. Execute arch now later (\<lambda>w. (ActionFailed e, f w)) (cb, w) =
      (Inl (ActionError e), cb', f w) \<and>
      cb_state cb' = StateOpen \<and> openedAt cb' = later \<and> \<not> halfOpenProbeActive cb' \<and>
      currentCooldown cb' = min (baseCooldown cb * 2 ^ nat (probeFailures cb + 1)) (maxCooldown cb)"
    by (simp add: Execute_def onFailure_def Let_def computeBackoffCooldown_def)
qed

theorem probe_closes_or_backs_off_witness:
  "Execute Amd64 (31 * Second) (32 * Second) (\<lambda>w. (ActionOk (1::int), w)) (opened_example, ()) =
     (Inr 1, Reset opened_example, ())"
  by (rule probe_closes_or_backs_off[THEN conjunct1])
     (simp_all add: opened_example_def New_default_def cb_inv_def)

text \<open>With the default options on amd64, from the twenty-ninth failed probe in a row on, the
  product of the back-off no longer fits in \<open>int64\<close>, the conversion gives the least \<open>int64\<close>,
  which is not above the maximum, and the breaker opens with a negative cool-down: it admits
  the next call at once, at the same time stamp.\<close>

theorem backoff_overflow_amd64:
  assumes "29 \<le> n" "n < 989" "cb_inv Amd64 cb" "cb_state cb = StateHalfOpen"
    and "baseCooldown cb = 30 * Second" "maxCooldown cb = 5 * Minute"
    and "probeFailures cb + 1 = int n"
  shows "currentCooldown (onFailure Amd64 now cb) = min_i64 \<and>
     fst (execute_admit now (onFailure Amd64 now cb)) = None"
proof -
  have "(2::int) ^ 29 \<le> 2 ^ n" using assms(1) by (rule power_increasing) simp
  then have big: "\<not> in_i64 (30000000000 * 2 ^ n)" by (simp add: in_i64_def)
  have "(30000000000::int) < 2 ^ 35" by simp
  then have "30000000000 * (2::int) ^ n < 2 ^ 35 * 2 ^ n" by (simp add: mult_strict_right_mono)
  also have "\<dots> = 2 ^ (35 + n)" by (simp add: power_add)
  also have "\<dots> \<le> (2::int) ^ 1024" using assms(2) by (intro power_increasing) auto
  finally have fin: "30000000000 * (2::int) ^ n < 2 ^ 1024" .
  have "f64_mul_pow2 (f64_of_int 30000000000) n = Fin (30000000000 * 2 ^ n)"
    using fin assms(2) by (simp add: f64_of_int_exact f64_mul_pow2_def abs_mult)
  then have "backoff Amd64 30000000000 300000000000 (int n) = min_i64"
    using big assms(1) by (simp add: backoff_def Let_def)
  then have cc: "currentCooldown (onFailure Amd64 now cb) = min_i64"
    using assms(4-7) by (simp add: onFailure_def Let_def computeBackoffCooldown_def)
  moreover have "cb_state (onFailure Amd64 now cb) = StateOpen"
    using assms(4) by (simp add: onFailure_def Let_def)
  moreover have "min_i64 \<le> time_sub now t" for t
    by (simp add: time_sub_def)
  ultimately show ?thesis by (simp add: execute_admit_def)
qed

definition probing_example :: CircuitBreaker where
  "probing_example =
     New_default\<lparr>cb_state := StateHalfOpen, consecutiveFailures := 33, probeFailures := 28,
       halfOpenProbeActive := True, currentCooldown := 300 * Second\<rparr>"

theorem backoff_overflow_amd64_witness:
  "currentCooldown (onFailure Amd64 0 probing_example) = min_i64 \<and>
   fst (execute_admit 0 (onFailure Amd64 0 probing_example)) = None"
proof (rule backoff_overflow_amd64[of 29])
  have "backoff Amd64 30000000000 300000000000 (int 28) = 300000000000"
    by (subst backoff_in_range) simp_all
  then show "cb_inv Amd64 probing_example"
    by (simp add: cb_inv_def probing_example_def New_default_def computeBackoffCooldown_def)
qed (simp_all add: probing_example_def New_default_def)

subsection \<open>A cancelled probe\<close>

text \<open>The operations a caller performs that neither resets the breaker nor records by hand.\<close>

fun is_call :: "cb_event \<Rightarrow> bool" where
  "is_call (Admitted _) = True"
| "is_call (Rejected _) = True"
| "is_call (Finished _ _) = True"
| "is_call (Threw _) = True"
| "is_call _ = False"

lemma stuck_step:
  assumes "cb_state cb = StateHalfOpen" "halfOpenProbeActive cb"
    and "cb_step arch (cb, 0) e t" "is_call e"
  shows "t = (cb, 0) \<and> (\<forall>now. e \<noteq> Admitted now)"
  using assms(3,4,1,2)
  by (cases rule: cb_step.cases) (auto simp: execute_admit_def ThrowIfOpen_def)

text \<open>If the probe of a half-open breaker ends with its context cancelled and no other call is in
  flight, then whatever calls follow, at whatever times, none of them is ever admitted and the
  breaker never changes: only \<open>Reset\<close> or a result recorded by hand can free it.\<close>

theorem cancelled_probe_sticks:
  assumes "cb_state cb = StateHalfOpen" "halfOpenProbeActive cb"
    and "steps (cb_step arch) (cb, 1) (Finished (ActionCanceled msg) now # es) t"
    and "list_all is_call es"
  shows "t = (cb, 0) \<and> (\<forall>tm. Admitted tm \<notin> set es)"
proof -
  from assms(3) have "steps (cb_step arch) (cb, 0) es t"
    by (auto elim!: cb_stepE)
  then show ?thesis
    using assms(1,2,4)
  proof (induction es arbitrary: t)
    case Nil
    then show ?case by auto
  next
    case (Cons e es)
    then obtain u where "cb_step arch (cb, 0) e u" "steps (cb_step arch) u es t" by auto
    moreover from this(1) Cons.prems have "u = (cb, 0)" "\<forall>tm. e \<noteq> Admitted tm"
      using stuck_step[of cb arch e u] by auto
    ultimately show ?case using Cons.IH[of t] Cons.prems by auto
  qed
qed

theorem cancelled_probe_sticks_witness:
  "steps (cb_step Arm64) (probing_example, 1)
     [Finished (ActionCanceled ''context canceled'') 5, Rejected (10 ^ 15)] (probing_example, 0) \<and>
   (\<forall>tm. Admitted tm \<notin> set [Rejected (10 ^ 15)])"
proof -
  let ?cancel = "Finished (ActionCanceled ''context canceled'') 5"
  have f: "cb_step Arm64 (probing_example, Suc 0) ?cancel (probing_example, 0)"
    by (rule cb_step.finish) simp
  have r: "cb_step Arm64 (probing_example, 0) (Rejected (10 ^ 15)) (probing_example, 0)"
    by (rule cb_step.reject) (simp add: execute_admit_def probing_example_def)
  have s: "steps (cb_step Arm64) (probing_example, 1) [?cancel, Rejected (10 ^ 15)] (probing_example, 0)"
    using f r by (auto intro: steps.intros)
  have "(\<forall>tm. Admitted tm \<notin> set [Rejected (10 ^ 15)])"
    using cancelled_probe_sticks[OF _ _ s] by (simp add: probing_example_def)
  with s show ?thesis by blast
qed

end
