(* ===== verification/Pay_Models.thy ===== *)
theory Pay_Models
  imports Go_Prelude
begin

section \<open>Payment data\<close>

text \<open>
  The types and pure functions of \<open>src/openclaw/payments/models.go\<close>, and the in-memory audit
  sink of \<open>audit.go\<close>. A struct is a record whose fields carry a prefix for the struct, because
  many structs share field names; a pointer to a time is an \<open>int option\<close>; a string map is an
  association list. The JSON tags of the fields are not modelled.
\<close>

subsection \<open>Environments\<close>

abbreviation PaymentEnvTest :: string where
  "PaymentEnvTest \<equiv> ''test''"

abbreviation PaymentEnvLive :: string where
  "PaymentEnvLive \<equiv> ''live''"

text \<open>\<open>TryNormalizeEnvironment\<close> returns a string and a flag: \<open>None\<close> is \<open>("", false)\<close>.\<close>

definition TryNormalizeEnvironment :: "string \<Rightarrow> string option" where
  "TryNormalizeEnvironment value =
     (let val = TrimSpace value in
      if val = [] then Some PaymentEnvTest
      else if EqualFold val PaymentEnvTest then Some PaymentEnvTest
      else if EqualFold val PaymentEnvLive then Some PaymentEnvLive
      else None)"

text \<open>The variadic \<open>fallback\<close> is never given by a caller, so its default \<open>test\<close> is used.\<close>

definition NormalizeEnvironment :: "string \<Rightarrow> string go_result" where
  "NormalizeEnvironment value =
     (let candidate = (if TrimSpace value = [] then PaymentEnvTest else TrimSpace value) in
      (case TryNormalizeEnvironment candidate of
         Some env \<Rightarrow> Inr env
       | None \<Rightarrow> Inl (GoErr (''unsupported payment environment '' @ [CHR 0x27] @ value @ [CHR 0x27]
                   @ ''. Use '' @ [CHR 0x27] @ ''test'' @ [CHR 0x27] @ '' or '' @ [CHR 0x27]
                   @ ''live'' @ [CHR 0x27]))))"

definition IsLiveEnvironment :: "string \<Rightarrow> bool" where
  "IsLiveEnvironment value \<longleftrightarrow> TryNormalizeEnvironment value = Some PaymentEnvLive"

abbreviation ActionSetupStatus :: string where "ActionSetupStatus \<equiv> ''setup_status''"
abbreviation ActionListFundingSources :: string where "ActionListFundingSources \<equiv> ''list_funding_sources''"
abbreviation ActionIssueVirtualCard :: string where "ActionIssueVirtualCard \<equiv> ''issue_virtual_card''"
abbreviation ActionExecuteMachinePayment :: string where "ActionExecuteMachinePayment \<equiv> ''execute_machine_payment''"
abbreviation ActionGetPaymentStatus :: string where "ActionGetPaymentStatus \<equiv> ''get_payment_status''"
abbreviation ActionBrowserSentinelFill :: string where "ActionBrowserSentinelFill \<equiv> ''browser_sentinel_fill''"
abbreviation DecisionAllow :: string where "DecisionAllow \<equiv> ''allow''"
abbreviation DecisionDeny :: string where "DecisionDeny \<equiv> ''deny''"
abbreviation DecisionRequireApproval :: string where "DecisionRequireApproval \<equiv> ''require_approval''"
abbreviation SeverityCritical :: string where "SeverityCritical \<equiv> ''critical''"

subsection \<open>Requests, results and events\<close>

record PaymentSetupRequirement =
  req_Name :: string
  req_Satisfied :: bool
  req_Message :: string

record PaymentSetupStatus =
  pss_ProviderId :: string
  pss_Enabled :: bool
  pss_Installed :: bool
  pss_Version :: string
  pss_Mode :: string
  pss_Status :: string
  pss_Message :: string
  pss_Requirements :: "PaymentSetupRequirement list"
  pss_Metadata :: "(string \<times> string) list"

definition NewPaymentSetupStatus :: "string \<Rightarrow> PaymentSetupStatus" where
  "NewPaymentSetupStatus providerId =
     \<lparr>pss_ProviderId = providerId, pss_Enabled = False, pss_Installed = False, pss_Version = [],
      pss_Mode = PaymentEnvTest, pss_Status = ''unknown'', pss_Message = [],
      pss_Requirements = [], pss_Metadata = []\<rparr>"

record FundingSource =
  fs_FundingSourceId :: string
  fs_ProviderId :: string
  fs_DisplayName :: string
  fs_Type :: string
  fs_Last4 :: string
  fs_Currency :: string
  fs_TestMode :: bool
  fs_Available :: bool

record BuyerProfile =
  bp_BuyerId :: string
  bp_DisplayName :: string
  bp_EmailHash :: string
  bp_Country :: string

record VirtualCardRequest =
  vcr_ProviderId :: string
  vcr_FundingSourceId :: string
  vcr_MerchantName :: string
  vcr_MerchantUrl :: string
  vcr_AmountMinor :: int
  vcr_Currency :: string
  vcr_Purpose :: string
  vcr_ValidUntilUtc :: "int option"
  vcr_BuyerProfile :: "BuyerProfile option"
  vcr_Environment :: string

record VirtualCardHandle =
  vch_HandleId :: string
  vch_ProviderId :: string
  vch_Last4 :: string
  vch_TargetMerchantName :: string
  vch_IssuedAtUtc :: int
  vch_ValidUntilUtc :: "int option"
  vch_SpendRequestId :: string
  vch_Status :: string
  vch_Environment :: string

record MachinePaymentChallenge =
  mpc_ChallengeId :: string
  mpc_Protocol :: string
  mpc_ResourceUrl :: string
  mpc_MerchantName :: string
  mpc_AmountMinor :: int
  mpc_Currency :: string
  mpc_ProviderId :: string
  mpc_SafeMetadata :: "(string \<times> string) list"

record MachinePaymentRequest =
  mpr_ProviderId :: string
  mpr_Challenge :: MachinePaymentChallenge
  mpr_FundingSourceId :: string
  mpr_Environment :: string
  mpr_IdempotencyKey :: string

record MachinePaymentResult =
  mres_PaymentId :: string
  mres_ProviderId :: string
  mres_Status :: string
  mres_MerchantName :: string
  mres_AmountMinor :: int
  mres_Currency :: string
  mres_CreatedAtUtc :: int
  mres_ProviderReference :: string
  mres_SafeMetadata :: "(string \<times> string) list"

record PaymentStatus =
  ps_PaymentId :: string
  ps_ProviderId :: string
  ps_Status :: string
  ps_MerchantName :: string
  ps_AmountMinor :: int
  ps_Currency :: string
  ps_UpdatedAtUtc :: "int option"
  ps_ProviderReference :: string

record PaymentPolicyDecision =
  ppd_Decision :: string
  ppd_Reason :: string
  ppd_Severity :: string

definition RequiresApproval :: "PaymentPolicyDecision \<Rightarrow> bool" where
  "RequiresApproval p \<longleftrightarrow> EqualFold (ppd_Decision p) DecisionRequireApproval"

definition Allowed :: "PaymentPolicyDecision \<Rightarrow> bool" where
  "Allowed p \<longleftrightarrow> EqualFold (ppd_Decision p) DecisionAllow"

definition Denied :: "PaymentPolicyDecision \<Rightarrow> bool" where
  "Denied p \<longleftrightarrow> EqualFold (ppd_Decision p) DecisionDeny"

record ApprovalRequest =
  ar_Action :: string
  ar_Summary :: string
  ar_Severity :: string
  ar_MerchantName :: string
  ar_AmountMinor :: int
  ar_Currency :: string
  ar_FundingSourceDisplay :: string
  ar_ProviderId :: string
  ar_ExpiresAtUtc :: "int option"
  ar_Environment :: string
  ar_AgentId :: string
  ar_WorkspaceId :: string
  ar_SessionId :: string
  ar_ChannelId :: string
  ar_SenderId :: string
  ar_CliConfirmed :: bool

record ApprovalResult =
  ares_Approved :: bool
  ares_Source :: string
  ares_Reason :: string
  ares_DecidedAtUtc :: int

record PaymentExecutionContext =
  pec_SessionId :: string
  pec_ChannelId :: string
  pec_SenderId :: string
  pec_CorrelationId :: string
  pec_WorkspaceId :: string
  pec_Environment :: string
  pec_CliConfirmed :: bool
  pec_AllowTestModeWithoutApproval :: bool

record PaymentAuditEvent =
  pae_EventType :: string
  pae_ProviderId :: string
  pae_HandleId :: string
  pae_PaymentId :: string
  pae_Last4 :: string
  pae_MerchantName :: string
  pae_AmountMinor :: int
  pae_Currency :: string
  pae_IssuedAtUtc :: "int option"
  pae_ValidUntilUtc :: "int option"
  pae_Status :: string
  pae_Decision :: string
  pae_Reason :: string
  pae_Environment :: string
  pae_TimestampUtc :: int

text \<open>The zero value of an event; a struct literal in the source sets some of its fields.\<close>

definition audit0 :: PaymentAuditEvent where
  "audit0 =
     \<lparr>pae_EventType = [], pae_ProviderId = [], pae_HandleId = [], pae_PaymentId = [],
      pae_Last4 = [], pae_MerchantName = [], pae_AmountMinor = 0, pae_Currency = [],
      pae_IssuedAtUtc = None, pae_ValidUntilUtc = None, pae_Status = [], pae_Decision = [],
      pae_Reason = [], pae_Environment = [], pae_TimestampUtc = 0\<rparr>"

subsection \<open>Secrets\<close>

datatype PaymentSecretField =
    SecretFieldPan | SecretFieldCvv | SecretFieldExpMonth | SecretFieldExpYear
  | SecretFieldExpMonthYearShort | SecretFieldExpMonthYearLong | SecretFieldPostalCode
  | SecretFieldAuthorizationHeader | SecretFieldAuthorizationToken

fun field_number :: "PaymentSecretField \<Rightarrow> int" where
  "field_number SecretFieldPan = 0"
| "field_number SecretFieldCvv = 1"
| "field_number SecretFieldExpMonth = 2"
| "field_number SecretFieldExpYear = 3"
| "field_number SecretFieldExpMonthYearShort = 4"
| "field_number SecretFieldExpMonthYearLong = 5"
| "field_number SecretFieldPostalCode = 6"
| "field_number SecretFieldAuthorizationHeader = 7"
| "field_number SecretFieldAuthorizationToken = 8"

record PaymentSecret =
  sec_handleId :: string
  sec_providerId :: string
  sec_last4 :: string
  sec_expiresAtUtc :: "int option"
  sec_environment :: string
  sec_pan :: string
  sec_cvv :: string
  sec_expMonth :: string
  sec_expYear :: string
  sec_postalCode :: string
  sec_authorizationToken :: string
  sec_authorizationHeader :: string

definition normalizeMonth :: "string \<Rightarrow> string" where
  "normalizeMonth value =
     (if TrimSpace value = [] then []
      else (case Atoi value of None \<Rightarrow> value | Some month \<Rightarrow> Itoa0 2 month))"

definition normalizeYear :: "string \<Rightarrow> string" where
  "normalizeYear value =
     (if TrimSpace value = [] then []
      else if length value = 2 then ''20'' @ value else value)"

text \<open>\<open>s[len(s)-n:]\<close> for a string of at least \<open>n\<close> bytes.\<close>

definition last_bytes :: "nat \<Rightarrow> string \<Rightarrow> string" where
  "last_bytes n s = drop (length s - n) s"

definition NewPaymentSecret ::
  "string \<Rightarrow> string \<Rightarrow> string \<Rightarrow> string \<Rightarrow> string \<Rightarrow> string \<Rightarrow> string \<Rightarrow> string \<Rightarrow> string
     \<Rightarrow> int option \<Rightarrow> string \<Rightarrow> PaymentSecret" where
  "NewPaymentSecret handleId providerId pan cvv expMonth expYear postalCode authToken authHeader
     expiresAtUtc environment =
     \<lparr>sec_handleId = handleId, sec_providerId = providerId,
      sec_last4 = (if length pan \<ge> 4 then last_bytes 4 pan else []),
      sec_expiresAtUtc = expiresAtUtc,
      sec_environment = (case NormalizeEnvironment environment of Inr env \<Rightarrow> env | Inl _ \<Rightarrow> []),
      sec_pan = pan, sec_cvv = cvv, sec_expMonth = normalizeMonth expMonth,
      sec_expYear = normalizeYear expYear, sec_postalCode = postalCode,
      sec_authorizationToken = authToken, sec_authorizationHeader = authHeader\<rparr>"

fun Resolve :: "PaymentSecretField \<Rightarrow> PaymentSecret \<Rightarrow> string" where
  "Resolve SecretFieldPan s = sec_pan s"
| "Resolve SecretFieldCvv s = sec_cvv s"
| "Resolve SecretFieldExpMonth s = sec_expMonth s"
| "Resolve SecretFieldExpYear s = sec_expYear s"
| "Resolve SecretFieldExpMonthYearShort s =
     (if sec_expMonth s \<noteq> [] \<and> length (sec_expYear s) \<ge> 2
      then sec_expMonth s @ ''/'' @ last_bytes 2 (sec_expYear s) else [])"
| "Resolve SecretFieldExpMonthYearLong s =
     (if sec_expMonth s \<noteq> [] \<and> sec_expYear s \<noteq> []
      then sec_expMonth s @ ''/'' @ sec_expYear s else [])"
| "Resolve SecretFieldPostalCode s = sec_postalCode s"
| "Resolve SecretFieldAuthorizationToken s = sec_authorizationToken s"
| "Resolve SecretFieldAuthorizationHeader s = sec_authorizationHeader s"

definition Clear :: "PaymentSecret \<Rightarrow> PaymentSecret" where
  "Clear s =
     s\<lparr>sec_pan := [], sec_cvv := [], sec_expMonth := [], sec_expYear := [],
       sec_postalCode := [], sec_authorizationToken := [], sec_authorizationHeader := []\<rparr>"

definition MarshalJSON :: "PaymentSecret \<Rightarrow> string go_result" where
  "MarshalJSON s = Inl (GoErr ''PaymentSecret cannot be serialized'')"

definition UnmarshalJSON :: "string \<Rightarrow> PaymentSecret \<Rightarrow> unit go_result" where
  "UnmarshalJSON b s = Inl (GoErr ''PaymentSecret cannot be deserialized'')"

record VirtualCardIssueResult =
  vci_Handle :: VirtualCardHandle
  vci_Secret :: "PaymentSecret option"

record MachinePaymentProviderResult =
  mpp_Result :: MachinePaymentResult
  mpp_ScopedAuthorizationSecret :: "PaymentSecret option"

subsection \<open>Contexts and the audit sink\<close>

text \<open>
  A \<open>context.Context\<close> is seen only through \<open>Done\<close> and \<open>Err\<close>: \<open>None\<close> is a live context,
  \<open>Some e\<close> one that is done with error text \<open>e\<close>. It does not change during one operation.
\<close>

type_synonym ctx = "string option"

definition ctx_check :: "ctx \<Rightarrow> unit go_result" where
  "ctx_check c = (case c of None \<Rightarrow> Inr () | Some e \<Rightarrow> Inl (GoErr e))"

text \<open>\<open>InMemoryPaymentAuditSink\<close>: its state is the list of recorded events.\<close>

type_synonym AuditSink = "PaymentAuditEvent list"

definition Record :: "ctx \<Rightarrow> PaymentAuditEvent \<Rightarrow> AuditSink \<Rightarrow> unit go_result \<times> AuditSink" where
  "Record c event events =
     (case ctx_check c of Inl e \<Rightarrow> (Inl e, events) | Inr _ \<Rightarrow> (Inr (), events @ [event]))"

definition Snapshot :: "AuditSink \<Rightarrow> PaymentAuditEvent list" where
  "Snapshot events = events"

subsection \<open>Facts\<close>

lemma ctx_check_simps [simp]: "ctx_check None = Inr ()" "ctx_check (Some e) = Inl (GoErr e)"
  by (simp_all add: ctx_check_def)

lemma Record_live [simp]: "Record None ev es = (Inr (), es @ [ev])"
  by (simp add: Record_def)

lemma Resolve_Clear [simp]: "Resolve f (Clear s) = []"
  by (cases f) (simp_all add: Clear_def)

lemma Clear_frame [simp]:
  "sec_handleId (Clear s) = sec_handleId s" "sec_providerId (Clear s) = sec_providerId s"
  "sec_last4 (Clear s) = sec_last4 s" "sec_environment (Clear s) = sec_environment s"
  "sec_expiresAtUtc (Clear s) = sec_expiresAtUtc s"
  by (simp_all add: Clear_def)

lemma test_neq_live: "ToLower PaymentEnvTest \<noteq> ToLower PaymentEnvLive"
  by (simp add: ToLower_def lower_char_def)

lemma decisions_distinct:
  "Allowed p \<Longrightarrow> \<not> Denied p" "Allowed p \<Longrightarrow> \<not> RequiresApproval p" "Denied p \<Longrightarrow> \<not> RequiresApproval p"
  by (auto simp: Allowed_def Denied_def RequiresApproval_def EqualFold_def ToLower_def lower_char_def)

lemma TryNormalizeEnvironment_range:
  "TryNormalizeEnvironment v = Some e \<Longrightarrow> e = PaymentEnvTest \<or> e = PaymentEnvLive"
  by (auto simp: TryNormalizeEnvironment_def Let_def split: if_splits)

lemma TryNormalizeEnvironment_canon [simp]:
  "TryNormalizeEnvironment PaymentEnvTest = Some PaymentEnvTest"
  "TryNormalizeEnvironment PaymentEnvLive = Some PaymentEnvLive"
  by (simp_all add: TryNormalizeEnvironment_def Let_def TrimSpace_def Trim_def TrimLeft_def
      TrimRight_def is_space_def EqualFold_def ToLower_def lower_char_def)

lemma NormalizeEnvironment_Inr_iff:
  "NormalizeEnvironment v = Inr e \<longleftrightarrow> TryNormalizeEnvironment v = Some e"
proof -
  have trim: "TryNormalizeEnvironment (TrimSpace v) = TryNormalizeEnvironment v"
    by (simp add: TryNormalizeEnvironment_def)
  show ?thesis
  proof (cases "TrimSpace v = []")
    case True
    then show ?thesis
      by (simp add: NormalizeEnvironment_def) (auto simp: TryNormalizeEnvironment_def)
  next
    case False
    then show ?thesis
      using trim by (auto simp: NormalizeEnvironment_def split: option.splits)
  qed
qed

text \<open>Normalising an environment gives \<open>test\<close> or \<open>live\<close>, and normalising again changes nothing;
  white space around the name and the case of its letters do not matter.\<close>

theorem NormalizeEnvironment_canonical:
  assumes "NormalizeEnvironment v = Inr e"
  shows "(e = PaymentEnvTest \<or> e = PaymentEnvLive) \<and> NormalizeEnvironment e = Inr e \<and>
     (IsLiveEnvironment v \<longleftrightarrow> e = PaymentEnvLive)"
proof -
  from assms have t: "TryNormalizeEnvironment v = Some e"
    by (simp add: NormalizeEnvironment_Inr_iff)
  then have "e = PaymentEnvTest \<or> e = PaymentEnvLive" by (rule TryNormalizeEnvironment_range)
  with t show ?thesis by (auto simp: NormalizeEnvironment_Inr_iff IsLiveEnvironment_def)
qed

theorem NormalizeEnvironment_canonical_witness:
  "NormalizeEnvironment '' LIVE '' = Inr PaymentEnvLive \<and> IsLiveEnvironment '' LIVE ''"
proof -
  have n: "NormalizeEnvironment '' LIVE '' = Inr PaymentEnvLive"
    by code_simp
  from NormalizeEnvironment_canonical[OF n] n show ?thesis by simp
qed

end
