(* ===== verification/Pay_Vault.thy ===== *)
theory Pay_Vault
  imports Pay_Models "HOL-Library.AList"
begin

section \<open>The secret vault\<close>

text \<open>
  \<open>src/openclaw/payments/vault.go\<close>. The vault keeps pointers to entries and \<open>TryRetrieve\<close>
  returns a pointer into the entry, so the copy a caller holds is the copy the vault later
  clears. The model keeps that aliasing: entries live in a store (\<open>heap\<close>, a list; an address
  is an index) and the map holds addresses. A Go map has no order: the association list
  \<open>entries\<close> has distinct keys, and nothing below depends on their order.
\<close>

named_theorems vault_defs \<open>definitions of the vault's operations\<close>

record VaultEntry =
  ve_Secret :: PaymentSecret
  ve_ExpiresAtUtc :: int
  ve_RetrieveOnce :: bool

record Vault =
  entries :: "(string \<times> nat) list"
  heap :: "VaultEntry list"

definition NewInMemoryPaymentSecretVault :: Vault where
  "NewInMemoryPaymentSecretVault = \<lparr>entries = [], heap = []\<rparr>"

text \<open>Reading a secret through a pointer, and clearing the secret of an entry in place.\<close>

definition deref :: "Vault \<Rightarrow> nat \<Rightarrow> PaymentSecret" where
  "deref v a = ve_Secret (heap v ! a)"

definition clear_at :: "nat \<Rightarrow> VaultEntry list \<Rightarrow> VaultEntry list" where
  "clear_at a h = h[a := (h ! a)\<lparr>ve_Secret := Clear (ve_Secret (h ! a))\<rparr>]"

definition Revoke :: "string \<Rightarrow> Vault \<Rightarrow> Vault" where [vault_defs]:
  "Revoke handleId v =
     (if handleId = [] then v
      else (case map_of (entries v) handleId of
              Some a \<Rightarrow> v\<lparr>heap := clear_at a (heap v)\<rparr>
            | None \<Rightarrow> v))"

text \<open>The loop of \<open>cleanupExpired\<close> over the entries.\<close>

fun cleanup_loop :: "int \<Rightarrow> (string \<times> nat) list \<Rightarrow> Vault \<Rightarrow> Vault" where
  "cleanup_loop nowUtc [] v = v"
| "cleanup_loop nowUtc ((k, a) # rest) v =
     (if ve_ExpiresAtUtc (heap v ! a) > nowUtc then cleanup_loop nowUtc rest v
      else cleanup_loop nowUtc rest
             (v\<lparr>entries := AList.delete k (entries v), heap := clear_at a (heap v)\<rparr>))"

definition cleanupExpired :: "int \<Rightarrow> Vault \<Rightarrow> Vault" where
  "cleanupExpired nowUtc v = cleanup_loop nowUtc (entries v) v"

definition effective_ttl :: "int \<Rightarrow> int" where
  "effective_ttl ttl = (if ttl < 0 then 5 * Minute else ttl)"

definition Store :: "ctx \<Rightarrow> int \<Rightarrow> PaymentSecret \<Rightarrow> int \<Rightarrow> bool \<Rightarrow> Vault \<Rightarrow> string go_result \<times> Vault" where [vault_defs]:
  "Store c now secret ttl retrieveOnce v =
     (case ctx_check c of
        Inl e \<Rightarrow> (Inl e, v)
      | Inr _ \<Rightarrow>
          (let v1 = cleanupExpired now v;
               expiresAt = now + effective_ttl ttl;
               entry = \<lparr>ve_Secret = secret, ve_ExpiresAtUtc = expiresAt, ve_RetrieveOnce = retrieveOnce\<rparr>
           in (Inr (sec_handleId secret),
               v1\<lparr>entries := AList.update (sec_handleId secret) (length (heap v1)) (entries v1),
                  heap := heap v1 @ [entry]\<rparr>)))"

text \<open>
  On a missing handle the source calls a method on the nil entry before it returns its error:
  a nil pointer dereference. The result on success is the address of the entry.
\<close>

definition TryRetrieve :: "ctx \<Rightarrow> int \<Rightarrow> string \<Rightarrow> Vault \<Rightarrow> nat go_result \<times> Vault" where [vault_defs]:
  "TryRetrieve c now handleId v =
     (if handleId = [] then (Inl (GoErr ''handleId can not be empty''), v)
      else (case ctx_check c of
        Inl e \<Rightarrow> (Inl e, v)
      | Inr _ \<Rightarrow>
          (case map_of (entries v) handleId of
             None \<Rightarrow> (Inl (GoPanic ''nil pointer dereference''), v)
           | Some a \<Rightarrow>
               if ve_ExpiresAtUtc (heap v ! a) < now
               then (Inl (GoErr (handleId @ '' was expired'')),
                     v\<lparr>entries := AList.delete handleId (entries v), heap := clear_at a (heap v)\<rparr>)
               else (Inr a,
                     if ve_RetrieveOnce (heap v ! a)
                     then v\<lparr>entries := AList.delete handleId (entries v)\<rparr> else v))))"

subsection \<open>Shared use\<close>

text \<open>Operations on one vault, as other goroutines interleave them.\<close>

datatype vault_event =
    VStored PaymentSecret int bool int
  | VRetrieved string nat int
  | VNotRetrieved string int
  | VRevoked string

inductive vault_step :: "Vault \<Rightarrow> vault_event \<Rightarrow> Vault \<Rightarrow> bool" where
  store: "Store c now s ttl once v = (Inr h, v') \<Longrightarrow> vault_step v (VStored s ttl once now) v'"
| retrieve: "TryRetrieve c now h v = (Inr a, v') \<Longrightarrow> vault_step v (VRetrieved h a now) v'"
| no_retrieve: "TryRetrieve c now h v = (Inl e, v') \<Longrightarrow> vault_step v (VNotRetrieved h now) v'"
| revoke: "vault_step v (VRevoked h) (Revoke h v)"

inductive_cases vault_stepE: "vault_step v e v'"

subsection \<open>The specification\<close>

text \<open>What the vault holds, by handle.\<close>

definition holds :: "Vault \<Rightarrow> string \<Rightarrow> VaultEntry option" where
  "holds v h = map_option (\<lambda>a. heap v ! a) (map_of (entries v) h)"

definition vault_inv :: "Vault \<Rightarrow> bool" where
  "vault_inv v \<longleftrightarrow>
     distinct (map fst (entries v)) \<and> distinct (map snd (entries v)) \<and>
     (\<forall>(k, a) \<in> set (entries v). a < length (heap v) \<and> sec_handleId (ve_Secret (heap v ! a)) = k)"

text \<open>
  The contract of \<open>IPaymentSecretVault\<close>: the operations, an abstraction to a partial function
  from handles to entries, and the laws.
\<close>

locale secret_vault =
  fixes store :: "ctx \<Rightarrow> int \<Rightarrow> PaymentSecret \<Rightarrow> int \<Rightarrow> bool \<Rightarrow> 'v \<Rightarrow> string go_result \<times> 'v"
    and retrieve :: "ctx \<Rightarrow> int \<Rightarrow> string \<Rightarrow> 'v \<Rightarrow> nat go_result \<times> 'v"
    and revoke :: "string \<Rightarrow> 'v \<Rightarrow> 'v"
    and read :: "'v \<Rightarrow> nat \<Rightarrow> PaymentSecret"
    and content :: "'v \<Rightarrow> string \<Rightarrow> VaultEntry option"
    and ok :: "'v \<Rightarrow> bool"
  assumes store_ok: "ok v \<Longrightarrow> ok (snd (store c now s ttl once v))"
    and retrieve_ok: "ok v \<Longrightarrow> ok (snd (retrieve c now h v))"
    and revoke_ok: "ok v \<Longrightarrow> ok (revoke h v)"
    and store_result: "fst (store None now s ttl once v) = Inr (sec_handleId s)"
    and store_content: "ok v \<Longrightarrow> content (snd (store None now s ttl once v)) =
      (\<lambda>h. if h = sec_handleId s
           then Some \<lparr>ve_Secret = s, ve_ExpiresAtUtc = now + effective_ttl ttl, ve_RetrieveOnce = once\<rparr>
           else (case content v h of
                   Some e \<Rightarrow> (if ve_ExpiresAtUtc e > now then Some e else None)
                 | None \<Rightarrow> None))"
    and retrieve_content: "ok v \<Longrightarrow> h \<noteq> [] \<Longrightarrow> content v h = Some e \<Longrightarrow> now \<le> ve_ExpiresAtUtc e \<Longrightarrow>
      \<exists>a v'. retrieve None now h v = (Inr a, v') \<and> read v' a = ve_Secret e \<and>
        content v' = (if ve_RetrieveOnce e then (content v)(h := None) else content v)"
    and retrieve_only: "ok v \<Longrightarrow> retrieve c now h v = (Inr a, v') \<Longrightarrow>
      \<exists>e. content v h = Some e \<and> now \<le> ve_ExpiresAtUtc e"
    and revoke_content: "ok v \<Longrightarrow> h \<noteq> [] \<Longrightarrow> content (revoke h v) =
      (content v)(h := map_option (\<lambda>e. e\<lparr>ve_Secret := Clear (ve_Secret e)\<rparr>) (content v h))"
begin

lemma store_retrieve:
  assumes "ok v" "sec_handleId s \<noteq> []" "later \<le> now + effective_ttl ttl"
  shows "\<exists>a v'. retrieve None later (sec_handleId s) (snd (store None now s ttl once v)) = (Inr a, v') \<and>
     read v' a = s \<and> (once \<longrightarrow> content v' (sec_handleId s) = None)"
proof -
  let ?v1 = "snd (store None now s ttl once v)"
  have "content ?v1 (sec_handleId s) =
      Some \<lparr>ve_Secret = s, ve_ExpiresAtUtc = now + effective_ttl ttl, ve_RetrieveOnce = once\<rparr>"
    using store_content[OF assms(1), of now s ttl once] by simp
  from retrieve_content[OF store_ok[OF assms(1)] assms(2) this, of later] assms(3)
  obtain a v' where "retrieve None later (sec_handleId s) ?v1 = (Inr a, v')" "read v' a = s"
    "content v' = (if once then (content ?v1)(sec_handleId s := None) else content ?v1)"
    by auto
  then show ?thesis by auto
qed

lemma revoke_retrieve:
  assumes "ok v" "h \<noteq> []" "content v h = Some e" "now \<le> ve_ExpiresAtUtc e"
  shows "\<exists>a v'. retrieve None now h (revoke h v) = (Inr a, v') \<and> (\<forall>f. Resolve f (read v' a) = [])"
proof -
  have "content (revoke h v) h = Some (e\<lparr>ve_Secret := Clear (ve_Secret e)\<rparr>)"
    using revoke_content[OF assms(1,2)] assms(3) by simp
  from retrieve_content[OF revoke_ok[OF assms(1)] assms(2) this, of now] assms(4)
  obtain a v' where "retrieve None now h (revoke h v) = (Inr a, v')" "read v' a = Clear (ve_Secret e)"
    by auto
  then show ?thesis by auto
qed

lemma absent_not_retrieved: "ok v \<Longrightarrow> content v h = None \<Longrightarrow> \<not> is_ok (fst (retrieve c now h v))"
  using retrieve_only[of v c now h] by (cases "retrieve c now h v") (auto simp: is_ok_iff)

end

subsection \<open>The in-memory vault meets it\<close>

lemma length_clear_at [simp]: "length (clear_at a h) = length h"
  by (simp add: clear_at_def)

lemma nth_clear_at:
  "i < length h \<Longrightarrow> clear_at a h ! i =
     (if i = a then (h ! a)\<lparr>ve_Secret := Clear (ve_Secret (h ! a))\<rparr> else h ! i)"
  by (simp add: clear_at_def nth_list_update)

lemma vault_invD:
  assumes "vault_inv v" "map_of (entries v) k = Some a"
  shows "a < length (heap v)" "sec_handleId (ve_Secret (heap v ! a)) = k"
  using assms by (auto simp: vault_inv_def dest!: map_of_SomeD)

lemma vault_inv_inj:
  assumes "vault_inv v" "map_of (entries v) k = Some a" "map_of (entries v) k' = Some a"
  shows "k = k'"
  using vault_invD(2)[OF assms(1,2)] vault_invD(2)[OF assms(1,3)] by simp

lemma delete_snd_distinct: "distinct (map snd xs) \<Longrightarrow> distinct (map snd (AList.delete k xs))"
  by (simp add: AList.delete_eq distinct_map) (auto intro: inj_on_subset)

lemma delete_keys_distinct: "distinct (map fst xs) \<Longrightarrow> distinct (map fst (AList.delete k xs))"
  by (rule distinct_delete)

lemma vault_inv_clear:
  "vault_inv v \<Longrightarrow> vault_inv (v\<lparr>heap := clear_at a (heap v)\<rparr>)"
  by (fastforce simp: vault_inv_def nth_clear_at)

lemma vault_inv_delete:
  assumes "vault_inv v"
  shows "vault_inv (v\<lparr>entries := AList.delete k (entries v)\<rparr>)"
proof -
  have "set (AList.delete k (entries v)) \<subseteq> set (entries v)"
    by (auto simp: AList.delete_eq)
  with assms show ?thesis
    by (auto simp: vault_inv_def delete_snd_distinct delete_keys_distinct)
qed

lemma vault_inv_remove:
  assumes "vault_inv v"
  shows "vault_inv (v\<lparr>entries := AList.delete k (entries v), heap := clear_at a (heap v)\<rparr>)"
  using vault_inv_clear[OF vault_inv_delete[OF assms, of k], of a] by simp

lemma holds_remove:
  assumes "vault_inv v" "map_of (entries v) k = Some a"
  shows "holds (v\<lparr>entries := AList.delete k (entries v), heap := clear_at a (heap v)\<rparr>) =
    (holds v)(k := None)"
proof
  fix h
  show "holds (v\<lparr>entries := AList.delete k (entries v), heap := clear_at a (heap v)\<rparr>) h =
    ((holds v)(k := None)) h"
    using vault_invD[OF assms(1)] vault_inv_inj[OF assms]
    by (auto simp: holds_def delete_conv' nth_clear_at option.map_comp
        split: option.splits intro!: option.map_cong0)
qed

lemma cleanup_loop_spec:
  assumes "vault_inv v" "distinct (map fst rest)" "\<forall>(k, a) \<in> set rest. map_of (entries v) k = Some a"
  shows "vault_inv (cleanup_loop now rest v) \<and>
    holds (cleanup_loop now rest v) =
      (\<lambda>h. if h \<in> fst ` set rest
           then (case holds v h of
                   Some e \<Rightarrow> (if ve_ExpiresAtUtc e > now then Some e else None) | None \<Rightarrow> None)
           else holds v h)"
  using assms
proof (induction rest arbitrary: v)
  case Nil
  then show ?case by simp
next
  case (Cons ka rest)
  obtain k a where ka: "ka = (k, a)" by fastforce
  from Cons.prems ka have look: "map_of (entries v) k = Some a" and fresh: "k \<notin> fst ` set rest" by auto
  then have hv: "holds v k = Some (heap v ! a)" by (simp add: holds_def)
  show ?case
  proof (cases "ve_ExpiresAtUtc (heap v ! a) > now")
    case True
    then show ?thesis
      using Cons.IH[of v] Cons.prems ka hv fresh by (auto simp: fun_eq_iff)
  next
    case False
    let ?w = "v\<lparr>entries := AList.delete k (entries v), heap := clear_at a (heap v)\<rparr>"
    have w: "vault_inv ?w" using Cons.prems(1) by (rule vault_inv_remove)
    have hw: "holds ?w = (holds v)(k := None)" using Cons.prems(1) look by (rule holds_remove)
    have "\<forall>(k', a') \<in> set rest. map_of (entries ?w) k' = Some a'"
      using Cons.prems(3) fresh ka by (force simp: delete_conv')
    with Cons.IH[OF w] Cons.prems(2) ka
    have IH: "vault_inv (cleanup_loop now rest ?w) \<and> holds (cleanup_loop now rest ?w) =
      (\<lambda>h. if h \<in> fst ` set rest
           then (case holds ?w h of
                   Some e \<Rightarrow> (if ve_ExpiresAtUtc e > now then Some e else None) | None \<Rightarrow> None)
           else holds ?w h)" by simp
    then show ?thesis using False ka hv hw fresh by (auto simp: fun_eq_iff)
  qed
qed

lemma cleanupExpired_spec:
  assumes "vault_inv v"
  shows "vault_inv (cleanupExpired now v)"
    and "holds (cleanupExpired now v) h =
      (case holds v h of Some e \<Rightarrow> (if ve_ExpiresAtUtc e > now then Some e else None) | None \<Rightarrow> None)"
proof -
  have d: "distinct (map fst (entries v))" using assms by (simp add: vault_inv_def)
  then have all: "\<forall>(k, a) \<in> set (entries v). map_of (entries v) k = Some a" by auto
  note spec = cleanup_loop_spec[OF assms d all, of now]
  from spec show "vault_inv (cleanupExpired now v)" by (simp add: cleanupExpired_def)
  have "h \<notin> fst ` set (entries v) \<Longrightarrow> holds v h = None"
    by (simp add: holds_def map_of_eq_None_iff)
  with spec show "holds (cleanupExpired now v) h =
      (case holds v h of Some e \<Rightarrow> (if ve_ExpiresAtUtc e > now then Some e else None) | None \<Rightarrow> None)"
    by (auto simp: cleanupExpired_def)
qed

lemma set_update:
  "distinct (map fst xs) \<Longrightarrow> set (AList.update k a xs) = insert (k, a) {p \<in> set xs. fst p \<noteq> k}"
  by (induction xs) force+

lemma update_snd_distinct:
  "distinct (map fst xs) \<Longrightarrow> distinct (map snd xs) \<Longrightarrow> a \<notin> snd ` set xs \<Longrightarrow>
   distinct (map snd (AList.update k a xs))"
proof (induction xs)
  case (Cons x xs)
  then show ?case
    by (cases x) (auto simp: set_update image_iff)
qed simp

lemma Store_live:
  "Store None now s ttl once v =
     (Inr (sec_handleId s),
      (cleanupExpired now v)
        \<lparr>entries := AList.update (sec_handleId s) (length (heap (cleanupExpired now v))) (entries (cleanupExpired now v)),
         heap := heap (cleanupExpired now v) @
           [\<lparr>ve_Secret = s, ve_ExpiresAtUtc = now + effective_ttl ttl, ve_RetrieveOnce = once\<rparr>]\<rparr>)"
  by (simp add: Store_def Let_def)

lemma Store_inv:
  assumes "vault_inv v"
  shows "vault_inv (snd (Store c now s ttl once v))"
proof (cases c)
  case None
  let ?w = "cleanupExpired now v"
  have w: "vault_inv ?w" using cleanupExpired_spec(1)[OF assms] .
  then have d: "distinct (map fst (entries ?w))" and lt: "\<forall>p \<in> set (entries ?w). snd p < length (heap ?w)"
    by (auto simp: vault_inv_def)
  have "length (heap ?w) \<notin> snd ` set (entries ?w)" using lt by auto
  then have "distinct (map snd (AList.update (sec_handleId s) (length (heap ?w)) (entries ?w)))"
    using w d by (intro update_snd_distinct) (auto simp: vault_inv_def)
  with w d lt show ?thesis
    unfolding None Store_live by (auto simp: vault_inv_def set_update distinct_update nth_append)
next
  case (Some e)
  with assms show ?thesis by (simp add: Store_def)
qed

lemma Store_holds:
  assumes "vault_inv v"
  shows "holds (snd (Store None now s ttl once v)) =
      (\<lambda>h. if h = sec_handleId s
           then Some \<lparr>ve_Secret = s, ve_ExpiresAtUtc = now + effective_ttl ttl, ve_RetrieveOnce = once\<rparr>
           else (case holds v h of
                   Some e \<Rightarrow> (if ve_ExpiresAtUtc e > now then Some e else None)
                 | None \<Rightarrow> None))"
proof
  fix h
  let ?w = "cleanupExpired now v"
  have w: "vault_inv ?w" by (rule cleanupExpired_spec(1)[OF assms])
  have "h \<noteq> sec_handleId s \<Longrightarrow> holds (snd (Store None now s ttl once v)) h = holds ?w h"
    using vault_invD(1)[OF w, of h] unfolding Store_live
    by (auto simp: holds_def update_conv' nth_append intro!: option.map_cong0)
  moreover have "holds (snd (Store None now s ttl once v)) (sec_handleId s) =
      Some \<lparr>ve_Secret = s, ve_ExpiresAtUtc = now + effective_ttl ttl, ve_RetrieveOnce = once\<rparr>"
    unfolding Store_live by (simp add: holds_def update_conv')
  ultimately show "holds (snd (Store None now s ttl once v)) h = (if h = sec_handleId s
           then Some \<lparr>ve_Secret = s, ve_ExpiresAtUtc = now + effective_ttl ttl, ve_RetrieveOnce = once\<rparr>
           else (case holds v h of
                   Some e \<Rightarrow> (if ve_ExpiresAtUtc e > now then Some e else None)
                 | None \<Rightarrow> None))"
    using cleanupExpired_spec(2)[OF assms] by simp
qed

lemma TryRetrieve_inv: "vault_inv v \<Longrightarrow> vault_inv (snd (TryRetrieve c now h v))"
  by (auto simp: TryRetrieve_def vault_inv_remove vault_inv_delete split: option.splits sum.splits)

lemma TryRetrieve_Inr:
  assumes "TryRetrieve c now h v = (Inr a, v')"
  shows "h \<noteq> [] \<and> c = None \<and> map_of (entries v) h = Some a \<and> now \<le> ve_ExpiresAtUtc (heap v ! a) \<and>
    heap v' = heap v \<and>
    entries v' = (if ve_RetrieveOnce (heap v ! a) then AList.delete h (entries v) else entries v)"
  using assms by (cases c) (auto simp: TryRetrieve_def split: option.splits if_splits)

lemma TryRetrieve_holds:
  assumes "vault_inv v" "h \<noteq> []" "holds v h = Some e" "now \<le> ve_ExpiresAtUtc e"
  shows "\<exists>a v'. TryRetrieve None now h v = (Inr a, v') \<and> deref v' a = ve_Secret e \<and>
     holds v' = (if ve_RetrieveOnce e then (holds v)(h := None) else holds v)"
proof -
  from assms(3) obtain a where a: "map_of (entries v) h = Some a" "e = heap v ! a"
    by (auto simp: holds_def)
  let ?v' = "if ve_RetrieveOnce e then v\<lparr>entries := AList.delete h (entries v)\<rparr> else v"
  have "TryRetrieve None now h v = (Inr a, ?v')"
    using a assms(2,4) by (simp add: TryRetrieve_def)
  moreover have "deref ?v' a = ve_Secret e" using a by (simp add: deref_def)
  moreover have "holds ?v' = (if ve_RetrieveOnce e then (holds v)(h := None) else holds v)"
    by (auto simp: holds_def delete_conv' fun_eq_iff)
  ultimately show ?thesis by blast
qed

lemma Revoke_inv: "vault_inv v \<Longrightarrow> vault_inv (Revoke h v)"
  by (auto simp: Revoke_def vault_inv_clear split: option.splits)

lemma Revoke_holds:
  assumes "vault_inv v" "h \<noteq> []"
  shows "holds (Revoke h v) =
    (holds v)(h := map_option (\<lambda>e. e\<lparr>ve_Secret := Clear (ve_Secret e)\<rparr>) (holds v h))"
proof
  fix k
  show "holds (Revoke h v) k =
    ((holds v)(h := map_option (\<lambda>e. e\<lparr>ve_Secret := Clear (ve_Secret e)\<rparr>) (holds v h))) k"
    using assms vault_invD[OF assms(1)] vault_inv_inj[OF assms(1), of h _ k]
    by (auto simp: Revoke_def holds_def nth_clear_at option.map_comp
        split: option.splits intro!: option.map_cong0)
qed

interpretation vault: secret_vault Store TryRetrieve Revoke deref holds vault_inv
proof (unfold_locales, goal_cases)
  case (5 v now s ttl once)
  then show ?case by (rule Store_holds)
next
  case (7 v c now h a v')
  then show ?case by (auto dest!: TryRetrieve_Inr simp: holds_def)
qed (simp_all add: Store_inv TryRetrieve_inv Revoke_inv Store_live Store_holds TryRetrieve_holds
      Revoke_holds del: split_paired_Ex)

lemma vault_step_inv: "vault_inv v \<Longrightarrow> vault_step v e v' \<Longrightarrow> vault_inv v'"
  by (erule vault_stepE; metis Store_inv TryRetrieve_inv Revoke_inv snd_conv)

interpretation vault_machine: invariant_machine
  "\<lambda>v. v = NewInMemoryPaymentSecretVault" vault_step vault_inv
  by unfold_locales
     (auto simp: NewInMemoryPaymentSecretVault_def vault_inv_def[of "\<lparr>entries = [], heap = []\<rparr>"]
       intro: vault_step_inv)

subsection \<open>Round trip\<close>

definition secret_example :: PaymentSecret where
  "secret_example =
     NewPaymentSecret ''pvh_1'' ''mock'' ''4242424242424242'' ''123'' ''7'' ''30'' ''94107'' [] [] None ''test''"

text \<open>A secret stored under a handle is the one retrieved with that handle, until its time to
  live has passed; a retrieve-once secret is gone from the vault after that retrieval.\<close>

theorem store_then_retrieve:
  assumes "vault_inv v" "sec_handleId s \<noteq> []" "later \<le> now + effective_ttl ttl"
  shows "\<exists>a v'. TryRetrieve None later (sec_handleId s) (snd (Store None now s ttl once v)) = (Inr a, v') \<and>
     deref v' a = s \<and> (once \<longrightarrow> holds v' (sec_handleId s) = None)"
  using assms by (rule vault.store_retrieve)

theorem store_then_retrieve_witness:
  "\<exists>a v'. TryRetrieve None 20 ''pvh_1''
      (snd (Store None 10 secret_example 30 True NewInMemoryPaymentSecretVault)) = (Inr a, v') \<and>
     deref v' a = secret_example \<and> (True \<longrightarrow> holds v' ''pvh_1'' = None)"
proof -
  have h: "sec_handleId secret_example = ''pvh_1''"
    by (simp add: secret_example_def NewPaymentSecret_def)
  have i: "vault_inv NewInMemoryPaymentSecretVault" by (rule vault_machine.inv_init) simp
  show ?thesis
    using store_then_retrieve[OF i, of secret_example 20 10 30 True] by (simp add: h effective_ttl_def)
qed

subsection \<open>A retrieve-once secret leaves the vault once\<close>

definition at_most_once :: "string \<Rightarrow> Vault \<Rightarrow> bool" where
  "at_most_once h v \<longleftrightarrow> (\<forall>e. holds v h = Some e \<longrightarrow> ve_RetrieveOnce e)"

fun is_retrieval_of :: "string \<Rightarrow> vault_event \<Rightarrow> bool" where
  "is_retrieval_of h (VRetrieved k _ _) = (k = h)"
| "is_retrieval_of h _ = False"

fun stores_under :: "string \<Rightarrow> vault_event \<Rightarrow> bool" where
  "stores_under h (VStored s _ _ _) = (sec_handleId s = h)"
| "stores_under h _ = False"

lemma retrieve_fail_holds:
  assumes "vault_inv v" "TryRetrieve c now h v = (Inl e, v')"
  shows "holds v' k = holds v k \<or> holds v' k = None"
  using assms
  by (cases c) (auto simp: TryRetrieve_def holds_remove split: option.splits if_splits)

lemma vault_step_once:
  assumes "vault_step v e v'" "vault_inv v" "\<not> stores_under h e"
  shows "is_retrieval_of h e \<Longrightarrow> at_most_once h v \<Longrightarrow> holds v h \<noteq> None \<and> holds v' h = None"
    and "\<not> is_retrieval_of h e \<Longrightarrow> at_most_once h v \<Longrightarrow> at_most_once h v'"
    and "holds v h = None \<Longrightarrow> holds v' h = None"
proof -
  show "is_retrieval_of h e \<Longrightarrow> at_most_once h v \<Longrightarrow> holds v h \<noteq> None \<and> holds v' h = None"
    using assms(1)
    by (cases rule: vault_step.cases)
       (auto simp: at_most_once_def holds_def delete_conv' dest!: TryRetrieve_Inr)
  have "holds v' h = holds v h \<or> holds v' h = None \<or>
      (\<exists>x y. holds v h = Some x \<and> holds v' h = Some y \<and> ve_RetrieveOnce y = ve_RetrieveOnce x)"
    using assms(1)
  proof (cases rule: vault_step.cases)
    case (store c now s ttl once k)
    then have "c = None" by (cases c) (auto simp: Store_def)
    with store assms(2,3) Store_holds[OF assms(2), of now s ttl once] show ?thesis
      by (auto split: option.splits)
  next
    case (retrieve c now k a)
    then show ?thesis
      using TryRetrieve_Inr[OF retrieve(2)] by (cases "h = k") (auto simp: holds_def delete_conv')
  next
    case (no_retrieve c now k x)
    then show ?thesis using retrieve_fail_holds[OF assms(2)] by blast
  next
    case (revoke k)
    then show ?thesis
      by (cases "k = []") (auto simp: Revoke_holds[OF assms(2)], simp add: Revoke_def)
  qed
  then show "\<not> is_retrieval_of h e \<Longrightarrow> at_most_once h v \<Longrightarrow> at_most_once h v'"
    and "holds v h = None \<Longrightarrow> holds v' h = None"
    by (auto simp: at_most_once_def)
qed

lemma absent_never_retrieved:
  assumes "steps vault_step v es v'" "vault_inv v" "holds v h = None"
    and "\<forall>e \<in> set es. \<not> stores_under h e"
  shows "filter (is_retrieval_of h) es = []"
  using assms
proof (induction rule: steps.induct)
  case (steps_step v e w es u)
  have "at_most_once h v" using steps_step.prems(2) by (simp add: at_most_once_def)
  then show ?case
    using steps_step vault_step_once[OF steps_step.hyps(1), of h] vault_step_inv by auto
qed simp

text \<open>C34: However the operations of all users of the vault interleave, a secret stored as
  retrieve-once is handed out at most once, as long as nothing is stored under its handle again.\<close>

theorem retrieve_once_at_most_once:
  assumes "steps vault_step v es v'" "vault_inv v" "at_most_once h v"
    and "\<forall>e \<in> set es. \<not> stores_under h e"
  shows "length (filter (is_retrieval_of h) es) \<le> 1"
  using assms
proof (induction rule: steps.induct)
  case (steps_step v e w es u)
  have w: "vault_inv w" using steps_step vault_step_inv by blast
  show ?case
  proof (cases "is_retrieval_of h e")
    case True
    then have "holds w h = None"
      using vault_step_once(1)[OF steps_step.hyps(1)] steps_step.prems by auto
    then have "filter (is_retrieval_of h) es = []"
      using absent_never_retrieved[OF steps_step.hyps(2) w] steps_step.prems by auto
    with True show ?thesis by simp
  next
    case False
    then show ?thesis
      using vault_step_once(2)[OF steps_step.hyps(1)] steps_step w by auto
  qed
qed simp

theorem retrieve_once_at_most_once_witness:
  "length (filter (is_retrieval_of ''pvh_1'') [VRetrieved ''pvh_1'' 0 20, VNotRetrieved ''pvh_1'' 21]) \<le> 1"
proof -
  let ?v = "snd (Store None 10 secret_example 30 True NewInMemoryPaymentSecretVault)"
  have i: "vault_inv NewInMemoryPaymentSecretVault" by (rule vault_machine.inv_init) simp
  have h: "sec_handleId secret_example = ''pvh_1''"
    by (simp add: secret_example_def NewPaymentSecret_def)
  have once: "at_most_once ''pvh_1'' ?v" using Store_holds[OF i] h by (simp add: at_most_once_def)
  have v: "?v = \<lparr>entries = [(''pvh_1'', 0)],
      heap = [\<lparr>ve_Secret = secret_example, ve_ExpiresAtUtc = 40, ve_RetrieveOnce = True\<rparr>]\<rparr>"
    by (simp add: Store_live h cleanupExpired_def NewInMemoryPaymentSecretVault_def effective_ttl_def)
  let ?w = "?v\<lparr>entries := []\<rparr>"
  have "vault_step ?v (VRetrieved ''pvh_1'' 0 20) ?w"
    by (rule vault_step.retrieve[of None]) (simp add: v TryRetrieve_def)
  moreover have "vault_step ?w (VNotRetrieved ''pvh_1'' 21) ?w"
    by (rule vault_step.no_retrieve[of None _ _ _ "GoPanic ''nil pointer dereference''"])
       (simp add: TryRetrieve_def)
  ultimately have "steps vault_step ?v [VRetrieved ''pvh_1'' 0 20, VNotRetrieved ''pvh_1'' 21] ?w"
    by (auto intro: steps.intros)
  from retrieve_once_at_most_once[OF this Store_inv[OF i] once] show ?thesis by simp
qed


subsection \<open>Revocation reaches the pointers already handed out\<close>

definition erased :: "nat \<Rightarrow> Vault \<Rightarrow> bool" where
  "erased a v \<longleftrightarrow> a < length (heap v) \<and> Clear (deref v a) = deref v a"

lemma Clear_idem [simp]: "Clear (Clear s) = Clear s"
  by (simp add: Clear_def)

lemma erased_Resolve: "erased a v \<Longrightarrow> Resolve f (deref v a) = []"
  by (metis erased_def Resolve_Clear)

lemma erased_heap_cong: "heap v = heap w \<Longrightarrow> erased a v = erased a w"
  by (simp add: erased_def deref_def)

lemma erased_clear_at: "erased a v \<Longrightarrow> erased a (v\<lparr>entries := es, heap := clear_at b (heap v)\<rparr>)"
  by (auto simp: erased_def deref_def nth_clear_at)

lemma erased_clear_heap: "erased a v \<Longrightarrow> erased a (v\<lparr>heap := clear_at b (heap v)\<rparr>)"
  by (auto simp: erased_def deref_def nth_clear_at)

lemma erased_cleanup_loop: "erased a v \<Longrightarrow> erased a (cleanup_loop now rest v)"
  by (induction now rest v rule: cleanup_loop.induct) (simp_all add: erased_clear_at)

lemma erased_Store: "erased a v \<Longrightarrow> erased a (snd (Store c now s ttl once v))"
  using erased_cleanup_loop[of a v now "entries v"]
  by (cases c) (auto simp: Store_def Let_def cleanupExpired_def erased_def deref_def nth_append)

lemma erased_TryRetrieve: "erased a v \<Longrightarrow> erased a (snd (TryRetrieve c now h v))"
  by (auto simp: TryRetrieve_def erased_clear_at split: option.splits sum.splits)
     (simp add: erased_def deref_def)

lemma erased_Revoke: "erased a v \<Longrightarrow> erased a (Revoke h v)"
  by (auto simp: Revoke_def erased_clear_heap split: option.splits)

lemma erased_step: "vault_step v e w \<Longrightarrow> erased a v \<Longrightarrow> erased a w"
  by (erule vault_stepE; metis erased_Store erased_TryRetrieve erased_Revoke snd_conv)

lemma erased_steps: "steps vault_step v es w \<Longrightarrow> erased a v \<Longrightarrow> erased a w"
  by (induction rule: steps.induct) (auto intro: erased_step)

text \<open>A pointer obtained from the vault for a secret that stays in it is emptied by a revocation of
  its handle: after the revocation, whatever the users of the vault do next, every field read
  through that pointer is empty.\<close>

theorem revoked_pointer_empty:
  assumes "vault_inv v" "TryRetrieve c now h v = (Inr a, v1)" "holds v1 h \<noteq> None"
    and "steps vault_step (Revoke h v1) es w"
  shows "Resolve f (deref w a) = []"
proof -
  note r = TryRetrieve_Inr[OF assms(2)]
  have "map_of (entries v1) h = Some a" "a < length (heap v1)"
    using r assms(3) vault_invD(1)[OF assms(1)]
    by (auto simp: holds_def delete_conv' split: if_splits)
  then have "erased a (Revoke h v1)"
    using r by (simp add: Revoke_def erased_def deref_def nth_clear_at)
  with assms(4) have "erased a w" by (rule erased_steps)
  then show ?thesis by (rule erased_Resolve)
qed

theorem revoked_pointer_empty_witness:
  "Resolve SecretFieldPan (deref (snd (TryRetrieve None 20 ''pvh_1''
     (snd (Store None 10 secret_example 30 False NewInMemoryPaymentSecretVault)))) 0) = ''4242424242424242'' \<and>
   Resolve SecretFieldPan (deref (Revoke ''pvh_1'' (snd (TryRetrieve None 20 ''pvh_1''
     (snd (Store None 10 secret_example 30 False NewInMemoryPaymentSecretVault))))) 0) = []"
proof -
  let ?v = "snd (Store None 10 secret_example 30 False NewInMemoryPaymentSecretVault)"
  have i: "vault_inv ?v" by (rule Store_inv, rule vault_machine.inv_init) simp
  have h: "sec_handleId secret_example = ''pvh_1''" and pan: "sec_pan secret_example = ''4242424242424242''"
    by (simp_all add: secret_example_def NewPaymentSecret_def)
  have v: "?v = \<lparr>entries = [(''pvh_1'', 0)],
      heap = [\<lparr>ve_Secret = secret_example, ve_ExpiresAtUtc = 40, ve_RetrieveOnce = False\<rparr>]\<rparr>"
    by (simp add: Store_live h cleanupExpired_def NewInMemoryPaymentSecretVault_def effective_ttl_def)
  have r: "TryRetrieve None 20 ''pvh_1'' ?v = (Inr 0, ?v)" by (simp add: v TryRetrieve_def)
  have "holds ?v ''pvh_1'' \<noteq> None" by (simp add: v holds_def)
  from revoked_pointer_empty[OF i r this steps.intros(1)] pan show ?thesis
    by (simp add: r) (simp add: v deref_def)
qed

subsection \<open>What a failed retrieval does\<close>

text \<open>Retrieving an expired secret fails with an error, drops the handle and erases every field of
  the secret in place; the other handles keep what they had.\<close>

theorem expired_retrieval_erases:
  assumes "vault_inv v" "h \<noteq> []" "map_of (entries v) h = Some a" "ve_ExpiresAtUtc (heap v ! a) < now"
  shows "\<exists>v'. TryRetrieve None now h v = (Inl (GoErr (h @ '' was expired'')), v') \<and>
     holds v' = (holds v)(h := None) \<and> Resolve f (deref v' a) = []"
proof -
  let ?v' = "v\<lparr>entries := AList.delete h (entries v), heap := clear_at a (heap v)\<rparr>"
  have "TryRetrieve None now h v = (Inl (GoErr (h @ '' was expired'')), ?v')"
    using assms(2-4) by (simp add: TryRetrieve_def)
  moreover have "Resolve f (deref ?v' a) = []"
    using vault_invD(1)[OF assms(1,3)] by (simp add: deref_def nth_clear_at)
  ultimately show ?thesis using holds_remove[OF assms(1,3)] by blast
qed

theorem expired_retrieval_erases_witness:
  "\<exists>v'. TryRetrieve None 50 ''pvh_1''
      (snd (Store None 10 secret_example 30 False NewInMemoryPaymentSecretVault)) =
      (Inl (GoErr ''pvh_1 was expired''), v') \<and> holds v' ''pvh_1'' = None \<and>
      Resolve SecretFieldCvv (deref v' 0) = []"
proof -
  let ?v = "snd (Store None 10 secret_example 30 False NewInMemoryPaymentSecretVault)"
  have i: "vault_inv ?v" by (rule Store_inv, rule vault_machine.inv_init) simp
  have h: "sec_handleId secret_example = ''pvh_1''"
    by (simp add: secret_example_def NewPaymentSecret_def)
  have v: "?v = \<lparr>entries = [(''pvh_1'', 0)],
      heap = [\<lparr>ve_Secret = secret_example, ve_ExpiresAtUtc = 40, ve_RetrieveOnce = False\<rparr>]\<rparr>"
    by (simp add: Store_live h cleanupExpired_def NewInMemoryPaymentSecretVault_def effective_ttl_def)
  have "map_of (entries ?v) ''pvh_1'' = Some 0" "ve_ExpiresAtUtc (heap ?v ! 0) < 50" by (simp_all add: v)
  from expired_retrieval_erases[OF i _ this, of SecretFieldCvv] show ?thesis by auto
qed

text \<open>Asking again for a retrieve-once secret that was already handed out does not give the error
  the code announces: the call panics on a nil entry, at any time and whatever else the vault holds.\<close>

theorem second_retrieval_panics:
  assumes "vault_inv v" "sec_handleId s \<noteq> []" "t1 \<le> now + effective_ttl ttl"
  shows "fst (TryRetrieve None t2 (sec_handleId s)
     (snd (TryRetrieve None t1 (sec_handleId s) (snd (Store None now s ttl True v))))) =
     Inl (GoPanic ''nil pointer dereference'')"
proof -
  let ?v1 = "snd (Store None now s ttl True v)"
  from vault.store_retrieve[OF assms, of True] obtain a v' where
    r: "TryRetrieve None t1 (sec_handleId s) ?v1 = (Inr a, v')" and "holds v' (sec_handleId s) = None"
    by auto
  then have "map_of (entries v') (sec_handleId s) = None" by (simp add: holds_def)
  with r assms(2) show ?thesis by (simp add: TryRetrieve_def)
qed

theorem second_retrieval_panics_witness:
  "fst (TryRetrieve None 21 ''pvh_1'' (snd (TryRetrieve None 20 ''pvh_1''
     (snd (Store None 10 secret_example 30 True NewInMemoryPaymentSecretVault))))) =
     Inl (GoPanic ''nil pointer dereference'')"
proof -
  have h: "sec_handleId secret_example = ''pvh_1''"
    by (simp add: secret_example_def NewPaymentSecret_def)
  have i: "vault_inv NewInMemoryPaymentSecretVault" by (rule vault_machine.inv_init) simp
  show ?thesis
    using second_retrieval_panics[OF i, of secret_example 20 10 30 21] by (simp add: h effective_ttl_def)
qed

end
