(* ===== verification/Pay_Policy.thy ===== *)
theory Pay_Policy
  imports Pay_Models
begin

section \<open>The payment policy\<close>

text \<open>
  \<open>src/openclaw/payments/policy.go\<close>: the default policy decides from the environment, the
  amount and whether somebody can approve. The interface \<open>IPaymentPolicy\<close> is a function of the
  context, the request and the flag \<open>approvalServiceAvailable\<close>; its contract for live
  payments is the locale \<open>live_guard\<close>, which the default policy meets.
\<close>

type_synonym Policy = "ctx \<Rightarrow> ApprovalRequest \<Rightarrow> bool \<Rightarrow> PaymentPolicyDecision go_result"

record DefaultPaymentPolicy =
  allowTestModeWithoutApproval :: bool
  denyLiveWithoutApprovalService :: bool
  maxLiveAmountMinor :: "int option"

definition NewDefaultPaymentPolicy :: "bool option \<Rightarrow> bool option \<Rightarrow> int option \<Rightarrow> DefaultPaymentPolicy" where
  "NewDefaultPaymentPolicy allowTest denyLive maxLive =
     \<lparr>allowTestModeWithoutApproval = (case allowTest of Some b \<Rightarrow> b | None \<Rightarrow> True),
      denyLiveWithoutApprovalService = (case denyLive of Some b \<Rightarrow> b | None \<Rightarrow> True),
      maxLiveAmountMinor = maxLive\<rparr>"

definition policy_deny :: "string \<Rightarrow> PaymentPolicyDecision" where
  "policy_deny reason = \<lparr>ppd_Decision = DecisionDeny, ppd_Reason = reason, ppd_Severity = []\<rparr>"

definition Evaluate :: "DefaultPaymentPolicy \<Rightarrow> Policy" where
  "Evaluate d c request approvalServiceAvailable =
     (case ctx_check c of
        Inl e \<Rightarrow> Inl e
      | Inr _ \<Rightarrow>
          (case TryNormalizeEnvironment (ar_Environment request) of
             None \<Rightarrow> Inr (policy_deny (''Unsupported payment environment '' @ [CHR 0x27]
                       @ ar_Environment request @ [CHR 0x27] @ ''.''))
           | Some environment \<Rightarrow>
               (let live = (environment = PaymentEnvLive) in
                if live \<and> (case maxLiveAmountMinor d of None \<Rightarrow> False | Some limit \<Rightarrow> ar_AmountMinor request > limit)
                then Inr (policy_deny (''Live payment amount '' @ Itoa (ar_AmountMinor request)
                       @ '' exceeds configured limit '' @ Itoa (the (maxLiveAmountMinor d)) @ ''.''))
                else if \<not> live \<and> allowTestModeWithoutApproval d
                then Inr \<lparr>ppd_Decision = DecisionAllow,
                          ppd_Reason = ''Deterministic test-mode payment allowed by policy.'', ppd_Severity = []\<rparr>
                else if live \<and> \<not> approvalServiceAvailable \<and> denyLiveWithoutApprovalService d
                then Inr (policy_deny ''Live payment denied because no payment approval service is registered.'')
                else Inr \<lparr>ppd_Decision = DecisionRequireApproval,
                          ppd_Reason = ''Money-moving payment action requires critical approval.'', ppd_Severity = []\<rparr>)))"

subsection \<open>The contract for live payments\<close>

definition in_budget :: "int option \<Rightarrow> int \<Rightarrow> bool" where
  "in_budget limit amount \<longleftrightarrow> (case limit of None \<Rightarrow> True | Some l \<Rightarrow> amount \<le> l)"

text \<open>A policy guards live payments when it never allows one outright, and denies any above its limit.\<close>

locale live_guard =
  fixes policy :: Policy and limit :: "int option"
  assumes never_allows_live:
      "policy c req avail = Inr d \<Longrightarrow> IsLiveEnvironment (ar_Environment req) \<Longrightarrow> \<not> Allowed d"
    and denies_above:
      "policy c req avail = Inr d \<Longrightarrow> IsLiveEnvironment (ar_Environment req) \<Longrightarrow>
       \<not> in_budget limit (ar_AmountMinor req) \<Longrightarrow> Denied d"
begin

lemma live_passes:
  assumes "policy c req avail = Inr d" "IsLiveEnvironment (ar_Environment req)" "\<not> Denied d"
  shows "in_budget limit (ar_AmountMinor req)" "\<not> Allowed d"
  using assms never_allows_live denies_above by blast+

end

lemma deny_facts [simp]:
  "Denied (policy_deny r)" "\<not> Allowed (policy_deny r)" "\<not> RequiresApproval (policy_deny r)"
  by (auto simp: policy_deny_def Denied_def Allowed_def RequiresApproval_def EqualFold_def ToLower_def
      lower_char_def)

interpretation default_policy: live_guard "Evaluate d" "maxLiveAmountMinor d" for d
proof (unfold_locales, goal_cases)
  case (1 c req avail r)
  then show ?case
    by (cases c) (auto simp: Evaluate_def Let_def IsLiveEnvironment_def Allowed_def
        EqualFold_def ToLower_def lower_char_def policy_deny_def split: if_splits)
next
  case (2 c req avail r)
  then show ?case
    by (cases c) (auto simp: Evaluate_def Let_def IsLiveEnvironment_def in_budget_def
        split: if_splits option.splits)
qed

text \<open>The default policy, with its default options, decides every request: an unknown environment is
  denied, a test payment allowed, a live payment above the limit denied, and any other live payment
  denied or sent to approval depending on whether somebody can approve it.\<close>

theorem default_policy_decides:
  "Evaluate (NewDefaultPaymentPolicy None None limit) None req avail = Inr d \<longrightarrow>
     (TryNormalizeEnvironment (ar_Environment req) = None \<longrightarrow> Denied d) \<and>
     (TryNormalizeEnvironment (ar_Environment req) = Some PaymentEnvTest \<longrightarrow> Allowed d) \<and>
     (IsLiveEnvironment (ar_Environment req) \<longrightarrow>
        (Denied d \<longleftrightarrow> \<not> in_budget limit (ar_AmountMinor req) \<or> \<not> avail) \<and>
        (RequiresApproval d \<longleftrightarrow> in_budget limit (ar_AmountMinor req) \<and> avail))"
  by (auto simp: Evaluate_def NewDefaultPaymentPolicy_def Let_def IsLiveEnvironment_def in_budget_def
      Denied_def Allowed_def RequiresApproval_def policy_deny_def EqualFold_def ToLower_def
      lower_char_def split: option.splits if_splits)

definition approval_example :: ApprovalRequest where
  "approval_example =
     \<lparr>ar_Action = ActionExecuteMachinePayment, ar_Summary = [], ar_Severity = [], ar_MerchantName = ''shop'',
      ar_AmountMinor = 700, ar_Currency = ''USD'', ar_FundingSourceDisplay = [], ar_ProviderId = ''mock'',
      ar_ExpiresAtUtc = None, ar_Environment = '' Live'', ar_AgentId = [], ar_WorkspaceId = [],
      ar_SessionId = [], ar_ChannelId = [], ar_SenderId = [], ar_CliConfirmed = False\<rparr>"

theorem default_policy_decides_witness:
  "\<exists>d. Evaluate (NewDefaultPaymentPolicy None None (Some 500)) None approval_example True = Inr d \<and> Denied d"
proof -
  have n: "TryNormalizeEnvironment (ar_Environment approval_example) = Some PaymentEnvLive" by code_simp
  then obtain d where e: "Evaluate (NewDefaultPaymentPolicy None None (Some 500)) None approval_example True = Inr d"
    by (simp add: Evaluate_def NewDefaultPaymentPolicy_def approval_example_def)
  moreover have "\<not> in_budget (Some 500) (ar_AmountMinor approval_example)"
    by (simp add: in_budget_def approval_example_def)
  ultimately have "Denied d"
    using default_policy_decides[of "Some 500" approval_example True d] n by (simp add: IsLiveEnvironment_def)
  with e show ?thesis by blast
qed

end
