(* ===== verification/Pay_Provider.thy ===== *)
theory Pay_Provider
  imports Pay_Models
begin

section \<open>Payment providers\<close>

text \<open>
  \<open>src/openclaw/payments/provider.go\<close>: the interface \<open>IPaymentProvider\<close> and the deterministic
  mock provider. A provider is a record of functions over a world \<open>'w\<close>, everything its calls
  may change; an operation that reads the clock takes the time it reads. The mock provider's
  world is the struct \<open>MockPaymentProvider\<close>. Its methods hold the mutex throughout, so each is
  one step. The map \<open>statuses\<close> is a partial function.
\<close>

record 'w Provider =
  pr_GetProviderId :: string
  pr_GetSetupStatus :: "ctx \<Rightarrow> 'w \<Rightarrow> PaymentSetupStatus go_result \<times> 'w"
  pr_ListFundingSources :: "ctx \<Rightarrow> PaymentExecutionContext \<Rightarrow> 'w \<Rightarrow> FundingSource list go_result \<times> 'w"
  pr_IssueVirtualCard ::
    "ctx \<Rightarrow> int \<Rightarrow> VirtualCardRequest \<Rightarrow> PaymentExecutionContext \<Rightarrow> 'w \<Rightarrow> VirtualCardIssueResult go_result \<times> 'w"
  pr_ExecuteMachinePayment ::
    "ctx \<Rightarrow> int \<Rightarrow> MachinePaymentRequest \<Rightarrow> PaymentExecutionContext \<Rightarrow> 'w
       \<Rightarrow> MachinePaymentProviderResult go_result \<times> 'w"
  pr_GetPaymentStatus ::
    "ctx \<Rightarrow> int \<Rightarrow> string \<Rightarrow> PaymentExecutionContext \<Rightarrow> 'w \<Rightarrow> PaymentStatus go_result \<times> 'w"

subsection \<open>The mock provider\<close>

record MockPaymentProvider =
  mk_sequence :: int
  mk_providerId :: string
  mk_FundingSourceDisplayName :: string
  mk_statuses :: "string \<rightharpoonup> PaymentStatus"

definition NewMockPaymentProvider :: "string \<Rightarrow> string \<Rightarrow> MockPaymentProvider" where
  "NewMockPaymentProvider providerId fundingSourceDisplayName =
     \<lparr>mk_sequence = 0,
      mk_providerId = (if providerId = [] then ''mock'' else providerId),
      mk_FundingSourceDisplayName =
        (if fundingSourceDisplayName = [] then ''Mock Visa ending 4242'' else fundingSourceDisplayName),
      mk_statuses = Map.empty\<rparr>"

text \<open>The fields a literal of \<open>PaymentSecret\<close> leaves out are empty, \<open>last4\<close> among them.\<close>

definition secret0 :: PaymentSecret where
  "secret0 =
     \<lparr>sec_handleId = [], sec_providerId = [], sec_last4 = [], sec_expiresAtUtc = None, sec_environment = [],
      sec_pan = [], sec_cvv = [], sec_expMonth = [], sec_expYear = [], sec_postalCode = [],
      sec_authorizationToken = [], sec_authorizationHeader = []\<rparr>"

definition Mock_ExecuteMachinePayment ::
  "ctx \<Rightarrow> int \<Rightarrow> MachinePaymentRequest \<Rightarrow> PaymentExecutionContext \<Rightarrow> MockPaymentProvider
     \<Rightarrow> MachinePaymentProviderResult go_result \<times> MockPaymentProvider" where
  "Mock_ExecuteMachinePayment c now request execContext m =
     (case ctx_check c of
        Inl e \<Rightarrow> (Inl e, m)
      | Inr _ \<Rightarrow>
          (let sequence = wrap64 (mk_sequence m + 1);
               paymentId = ''mp_mock_'' @ Itoa0 6 sequence;
               providerReference =
                 (if mpc_ChallengeId (mpr_Challenge request) = [] then ''challenge_'' @ Itoa0 6 sequence
                  else mpc_ChallengeId (mpr_Challenge request));
               protocol =
                 (if mpc_Protocol (mpr_Challenge request) = [] then ''mock-402''
                  else mpc_Protocol (mpr_Challenge request));
               result =
                 \<lparr>mres_PaymentId = paymentId, mres_ProviderId = mk_providerId m, mres_Status = ''completed'',
                  mres_MerchantName = mpc_MerchantName (mpr_Challenge request),
                  mres_AmountMinor = mpc_AmountMinor (mpr_Challenge request),
                  mres_Currency = mpc_Currency (mpr_Challenge request), mres_CreatedAtUtc = now,
                  mres_ProviderReference = providerReference,
                  mres_SafeMetadata = [(''protocol'', protocol)]\<rparr>;
               status =
                 \<lparr>ps_PaymentId = paymentId, ps_ProviderId = mk_providerId m, ps_Status = mres_Status result,
                  ps_MerchantName = mres_MerchantName result, ps_AmountMinor = mres_AmountMinor result,
                  ps_Currency = mres_Currency result, ps_UpdatedAtUtc = Some (mres_CreatedAtUtc result),
                  ps_ProviderReference = mres_ProviderReference result\<rparr>;
               secret =
                 secret0\<lparr>sec_handleId := paymentId, sec_providerId := mk_providerId m,
                   sec_authorizationToken := ''payment_mock_secret_token_'' @ Itoa0 6 sequence,
                   sec_authorizationHeader := ''Payment payment_mock_secret_token_'' @ Itoa0 6 sequence,
                   sec_expiresAtUtc := Some (now + 5 * Minute), sec_environment := pec_Environment execContext\<rparr>
           in (Inr \<lparr>mpp_Result = result, mpp_ScopedAuthorizationSecret = Some secret\<rparr>,
               m\<lparr>mk_sequence := sequence, mk_statuses := (mk_statuses m)(paymentId \<mapsto> status)\<rparr>)))"

definition Mock_GetPaymentStatus ::
  "ctx \<Rightarrow> int \<Rightarrow> string \<Rightarrow> PaymentExecutionContext \<Rightarrow> MockPaymentProvider
     \<Rightarrow> PaymentStatus go_result \<times> MockPaymentProvider" where
  "Mock_GetPaymentStatus c now paymentIdOrHandleId execContext m =
     (case ctx_check c of
        Inl e \<Rightarrow> (Inl e, m)
      | Inr _ \<Rightarrow>
          (case mk_statuses m paymentIdOrHandleId of
             Some status \<Rightarrow> (Inr status, m)
           | None \<Rightarrow>
               (Inr \<lparr>ps_PaymentId = paymentIdOrHandleId, ps_ProviderId = mk_providerId m,
                     ps_Status = ''not_found'', ps_MerchantName = [], ps_AmountMinor = 0, ps_Currency = [],
                     ps_UpdatedAtUtc = Some now, ps_ProviderReference = []\<rparr>, m)))"

definition Mock_GetSetupStatus :: "ctx \<Rightarrow> MockPaymentProvider \<Rightarrow> PaymentSetupStatus go_result \<times> MockPaymentProvider" where
  "Mock_GetSetupStatus c m =
     (Inr \<lparr>pss_ProviderId = mk_providerId m, pss_Enabled = True, pss_Installed = True, pss_Version = ''mock-1'',
           pss_Mode = ''test'', pss_Status = ''ready'',
           pss_Message = ''Deterministic mock payment provider is ready.'', pss_Requirements = [],
           pss_Metadata = []\<rparr>, m)"

definition Mock_IssueVirtualCard ::
  "ctx \<Rightarrow> int \<Rightarrow> VirtualCardRequest \<Rightarrow> PaymentExecutionContext \<Rightarrow> MockPaymentProvider
     \<Rightarrow> VirtualCardIssueResult go_result \<times> MockPaymentProvider" where
  "Mock_IssueVirtualCard c now request execContext m =
     (case ctx_check c of
        Inl e \<Rightarrow> (Inl e, m)
      | Inr _ \<Rightarrow>
          (let sequence = wrap64 (mk_sequence m + 1);
               handleId = ''pvh_mock_'' @ Itoa0 6 sequence;
               spendId = ''mock_spend_'' @ Itoa0 6 sequence;
               validUntil =
                 (case vcr_ValidUntilUtc request of None \<Rightarrow> Some (now + 30 * Minute) | Some t \<Rightarrow> Some t);
               secret =
                 secret0\<lparr>sec_handleId := handleId, sec_providerId := mk_providerId m,
                   sec_pan := ''4242424242424242'', sec_cvv := ''123'', sec_expMonth := ''12'',
                   sec_expYear := ''2030'', sec_postalCode := ''94107'', sec_expiresAtUtc := validUntil,
                   sec_environment := pec_Environment execContext\<rparr>;
               handle =
                 \<lparr>vch_HandleId = handleId, vch_ProviderId = mk_providerId m, vch_Last4 = ''4242'',
                  vch_TargetMerchantName = vcr_MerchantName request, vch_IssuedAtUtc = now,
                  vch_ValidUntilUtc = validUntil, vch_SpendRequestId = spendId, vch_Status = ''issued'',
                  vch_Environment = pec_Environment execContext\<rparr>;
               status =
                 \<lparr>ps_PaymentId = handleId, ps_ProviderId = mk_providerId m, ps_Status = ''issued'',
                  ps_MerchantName = vcr_MerchantName request, ps_AmountMinor = vcr_AmountMinor request,
                  ps_Currency = vcr_Currency request, ps_UpdatedAtUtc = Some now,
                  ps_ProviderReference = spendId\<rparr>
           in (Inr \<lparr>vci_Handle = handle, vci_Secret = Some secret\<rparr>,
               m\<lparr>mk_sequence := sequence, mk_statuses := (mk_statuses m)(handleId \<mapsto> status)\<rparr>)))"

definition Mock_ListFundingSources ::
  "ctx \<Rightarrow> PaymentExecutionContext \<Rightarrow> MockPaymentProvider \<Rightarrow> FundingSource list go_result \<times> MockPaymentProvider" where
  "Mock_ListFundingSources c execContext m =
     (Inr [\<lparr>fs_FundingSourceId = ''mock_fs_visa_4242'', fs_ProviderId = mk_providerId m,
            fs_DisplayName = mk_FundingSourceDisplayName m, fs_Type = ''card'', fs_Last4 = ''4242'',
            fs_Currency = ''USD'', fs_TestMode = True, fs_Available = True\<rparr>], m)"

definition mock_provider :: "string \<Rightarrow> MockPaymentProvider Provider" where
  "mock_provider providerId =
     \<lparr>pr_GetProviderId = providerId, pr_GetSetupStatus = Mock_GetSetupStatus,
      pr_ListFundingSources = Mock_ListFundingSources, pr_IssueVirtualCard = Mock_IssueVirtualCard,
      pr_ExecuteMachinePayment = Mock_ExecuteMachinePayment, pr_GetPaymentStatus = Mock_GetPaymentStatus\<rparr>"

subsection \<open>Identifiers are never reused\<close>

lemma undecimal_pad0: "undecimal (pad0 w s) = undecimal s"
proof -
  have "foldl (\<lambda>a c. 10 * a + digit_val c) 0 (replicate k (CHR ''0'') @ s) = undecimal s" for k
    by (induction k) (simp_all add: undecimal_def digit_val_def)
  then show ?thesis by (simp add: pad0_def undecimal_def)
qed

lemma Itoa0_inj: "0 \<le> i \<Longrightarrow> 0 \<le> j \<Longrightarrow> Itoa0 w i = Itoa0 w j \<Longrightarrow> i = j"
proof -
  assume ij: "0 \<le> i" "0 \<le> j" "Itoa0 w i = Itoa0 w j"
  have "undecimal (Itoa0 w k) = k" if "0 \<le> k" for k
    using that by (simp add: Itoa0_def undecimal_pad0 undecimal_decimal)
  with ij show "i = j" by metis
qed

definition mock_ids :: "int \<Rightarrow> string set" where
  "mock_ids n = {''mp_mock_'' @ Itoa0 6 n, ''pvh_mock_'' @ Itoa0 6 n}"

definition mock_inv :: "MockPaymentProvider \<Rightarrow> bool" where
  "mock_inv m \<longleftrightarrow> 0 \<le> mk_sequence m \<and> dom (mk_statuses m) \<subseteq> (\<Union>n \<in> {1..mk_sequence m}. mock_ids n)"

lemma mock_ids_disjoint: "0 \<le> i \<Longrightarrow> 0 \<le> j \<Longrightarrow> i \<noteq> j \<Longrightarrow> mock_ids i \<inter> mock_ids j = {}"
  by (auto simp: mock_ids_def dest: Itoa0_inj)

lemma mock_inv_fresh:
  assumes "mock_inv m" "k \<in> mock_ids (mk_sequence m + 1)"
  shows "mk_statuses m k = None"
proof (rule ccontr)
  assume "mk_statuses m k \<noteq> None"
  with assms obtain n where "1 \<le> n" "n \<le> mk_sequence m" "k \<in> mock_ids n"
    by (fastforce simp: mock_inv_def domIff subset_iff)
  then show False using mock_ids_disjoint[of n "mk_sequence m + 1"] assms(2) by auto
qed

lemma mock_inv_extend:
  assumes "mock_inv m" "k \<in> mock_ids (mk_sequence m + 1)"
  shows "mock_inv (m\<lparr>mk_sequence := mk_sequence m + 1, mk_statuses := (mk_statuses m)(k \<mapsto> st)\<rparr>)"
  using assms by (fastforce simp: mock_inv_def)

lemma next_sequence: "0 \<le> s \<Longrightarrow> s < max_i64 \<Longrightarrow> wrap64 (s + 1) = s + 1"
  by (simp add: go_arith in_i64_def)

lemma mock_execute_ok:
  assumes "mk_sequence m < max_i64" "mock_inv m"
  obtains r where "Mock_ExecuteMachinePayment None now req ec m = (Inr r,
      m\<lparr>mk_sequence := mk_sequence m + 1, mk_statuses := (mk_statuses m)(mres_PaymentId (mpp_Result r) \<mapsto>
        \<lparr>ps_PaymentId = mres_PaymentId (mpp_Result r), ps_ProviderId = mk_providerId m, ps_Status = ''completed'',
         ps_MerchantName = mpc_MerchantName (mpr_Challenge req), ps_AmountMinor = mpc_AmountMinor (mpr_Challenge req),
         ps_Currency = mpc_Currency (mpr_Challenge req), ps_UpdatedAtUtc = Some now,
         ps_ProviderReference = mres_ProviderReference (mpp_Result r)\<rparr>)\<rparr>)"
    "mres_PaymentId (mpp_Result r) = ''mp_mock_'' @ Itoa0 6 (mk_sequence m + 1)"
  using assms next_sequence[of "mk_sequence m"]
  by (simp add: Mock_ExecuteMachinePayment_def Let_def mock_inv_def)

text \<open>A machine payment of the mock provider gets an identifier that names no earlier payment or
  card; the status found under it is the payment just made, and every status recorded before is
  still found unchanged. The identifiers stay unique until the 64-bit sequence is used up.\<close>

theorem mock_payment_recorded:
  assumes "mock_inv m" "mk_sequence m < max_i64"
  shows "\<exists>r m'. Mock_ExecuteMachinePayment None now req ec m = (Inr r, m') \<and> mock_inv m' \<and>
     mk_statuses m (mres_PaymentId (mpp_Result r)) = None \<and>
     (\<exists>st. fst (Mock_GetPaymentStatus None later (mres_PaymentId (mpp_Result r)) ec m') = Inr st \<and>
        ps_Status st = ''completed'' \<and> ps_AmountMinor st = mpc_AmountMinor (mpr_Challenge req) \<and>
        ps_Currency st = mpc_Currency (mpr_Challenge req)) \<and>
     (\<forall>k st. mk_statuses m k = Some st \<longrightarrow> fst (Mock_GetPaymentStatus None later k ec m') = Inr st)"
proof -
  obtain r where r: "Mock_ExecuteMachinePayment None now req ec m = (Inr r,
      m\<lparr>mk_sequence := mk_sequence m + 1, mk_statuses := (mk_statuses m)(mres_PaymentId (mpp_Result r) \<mapsto>
        \<lparr>ps_PaymentId = mres_PaymentId (mpp_Result r), ps_ProviderId = mk_providerId m, ps_Status = ''completed'',
         ps_MerchantName = mpc_MerchantName (mpr_Challenge req), ps_AmountMinor = mpc_AmountMinor (mpr_Challenge req),
         ps_Currency = mpc_Currency (mpr_Challenge req), ps_UpdatedAtUtc = Some now,
         ps_ProviderReference = mres_ProviderReference (mpp_Result r)\<rparr>)\<rparr>)"
    and id: "mres_PaymentId (mpp_Result r) = ''mp_mock_'' @ Itoa0 6 (mk_sequence m + 1)"
    using mock_execute_ok[OF assms(2,1)] by blast
  have k: "mres_PaymentId (mpp_Result r) \<in> mock_ids (mk_sequence m + 1)" by (simp add: id mock_ids_def)
  show ?thesis
    using mock_inv_extend[OF assms(1) k] mock_inv_fresh[OF assms(1) k]
    by (simp add: r) (auto simp: Mock_GetPaymentStatus_def)
qed

definition context_example :: PaymentExecutionContext where
  "context_example =
     \<lparr>pec_SessionId = ''s1'', pec_ChannelId = [], pec_SenderId = [], pec_CorrelationId = [],
      pec_WorkspaceId = [], pec_Environment = ''test'', pec_CliConfirmed = False,
      pec_AllowTestModeWithoutApproval = False\<rparr>"

definition machine_example :: MachinePaymentRequest where
  "machine_example =
     \<lparr>mpr_ProviderId = ''mock'',
      mpr_Challenge = \<lparr>mpc_ChallengeId = ''c1'', mpc_Protocol = ''x402'', mpc_ResourceUrl = [],
        mpc_MerchantName = ''shop'', mpc_AmountMinor = 250, mpc_Currency = ''USD'', mpc_ProviderId = [],
        mpc_SafeMetadata = []\<rparr>,
      mpr_FundingSourceId = [], mpr_Environment = ''test'', mpr_IdempotencyKey = []\<rparr>"

lemma mock_new_inv: "mock_inv (NewMockPaymentProvider p d)"
  by (simp add: mock_inv_def NewMockPaymentProvider_def)

theorem mock_payment_recorded_witness:
  "\<exists>r m' st. Mock_ExecuteMachinePayment None 5 machine_example context_example
       (NewMockPaymentProvider [] []) = (Inr r, m') \<and>
     fst (Mock_GetPaymentStatus None 9 (mres_PaymentId (mpp_Result r)) context_example m') = Inr st \<and>
     ps_AmountMinor st = 250"
proof -
  have s: "mk_sequence (NewMockPaymentProvider [] []) < max_i64" by (simp add: NewMockPaymentProvider_def)
  have a: "mpc_AmountMinor (mpr_Challenge machine_example) = 250" by (simp add: machine_example_def)
  show ?thesis
    using mock_payment_recorded[OF mock_new_inv s, of 5 machine_example context_example 9] a by metis
qed

end
