(* ===== verification/Pay_Runtime.thy ===== *)
theory Pay_Runtime
  imports Pay_Vault Pay_Policy Pay_Provider
begin

section \<open>The payment runtime service\<close>

text \<open>
  \<open>src/openclaw/payments/payment.go\<close>. The service is a record of its collaborators; the state
  its operations change is the vault, the audit log and the world of the providers. The
  approval service is an interface with no implementation in the repository: it is a function
  of the whole state, since it waits for a person while other goroutines use the service. The
  provider map is a partial function. An operation that reads the clock several times takes
  \<open>clk\<close>, where \<open>clk i\<close> is its reading number \<open>i\<close>. Errors of \<open>audit.Record\<close> are ignored by the
  source, and a panic of a collaborator passes through unrecorded.
\<close>

record 'w Runtime =
  rt_vault :: Vault
  rt_audit :: AuditSink
  rt_world :: 'w

type_synonym 'w Approver = "ctx \<Rightarrow> ApprovalRequest \<Rightarrow> 'w Runtime \<Rightarrow> ApprovalResult go_result \<times> 'w Runtime"

record 'w PaymentRuntimeService =
  prs_defaultProviderId :: string
  prs_policy :: Policy
  prs_approval :: "'w Approver option"
  prs_providers :: "string \<rightharpoonup> 'w Provider"
  prs_secretTtl :: int

definition buildApprovalRequest ::
  "string \<Rightarrow> string \<Rightarrow> string \<Rightarrow> string \<Rightarrow> int \<Rightarrow> string \<Rightarrow> int option \<Rightarrow> PaymentExecutionContext \<Rightarrow> ApprovalRequest" where
  "buildApprovalRequest action summary providerId merchantName amountMinor currency expiresAtUtc execContext =
     \<lparr>ar_Action = action, ar_Summary = summary, ar_Severity = [], ar_MerchantName = merchantName,
      ar_AmountMinor = amountMinor, ar_Currency = currency, ar_FundingSourceDisplay = [],
      ar_ProviderId = providerId, ar_ExpiresAtUtc = expiresAtUtc,
      ar_Environment = pec_Environment execContext, ar_AgentId = pec_SenderId execContext,
      ar_WorkspaceId = pec_WorkspaceId execContext, ar_SessionId = pec_SessionId execContext,
      ar_ChannelId = pec_ChannelId execContext, ar_SenderId = pec_SenderId execContext,
      ar_CliConfirmed = pec_CliConfirmed execContext\<rparr>"

definition prepareSecretForVault ::
  "PaymentSecret \<Rightarrow> string \<Rightarrow> string \<Rightarrow> string \<Rightarrow> int option \<Rightarrow> PaymentSecret" where
  "prepareSecretForVault secret handleId providerId environment expiresAtUtc =
     secret0\<lparr>sec_handleId := handleId, sec_providerId := providerId,
       sec_pan := Resolve SecretFieldPan secret, sec_cvv := Resolve SecretFieldCvv secret,
       sec_expMonth := Resolve SecretFieldExpMonth secret, sec_expYear := Resolve SecretFieldExpYear secret,
       sec_postalCode := Resolve SecretFieldPostalCode secret,
       sec_authorizationToken := Resolve SecretFieldAuthorizationToken secret,
       sec_authorizationHeader := Resolve SecretFieldAuthorizationHeader secret,
       sec_expiresAtUtc := (case expiresAtUtc of None \<Rightarrow> sec_expiresAtUtc secret | Some t \<Rightarrow> Some t),
       sec_environment := environment\<rparr>"

definition validateMachinePaymentRequest :: "MachinePaymentRequest \<Rightarrow> unit go_result" where
  "validateMachinePaymentRequest request =
     (if mpc_AmountMinor (mpr_Challenge request) \<le> 0 then Inl (GoErr ''amount_minor must be greater than 0'')
      else if mpc_Currency (mpr_Challenge request) = [] then Inl (GoErr ''currency is required'')
      else Inr ())"

definition validateVirtualCardRequest :: "VirtualCardRequest \<Rightarrow> unit go_result" where
  "validateVirtualCardRequest request =
     (if vcr_MerchantName request = [] then Inl (GoErr ''merchant is required'')
      else if vcr_AmountMinor request \<le> 0 then Inl (GoErr ''amount_minor must be greater than 0'')
      else if vcr_Currency request = [] then Inl (GoErr ''currency is required'')
      else Inr ())"

text \<open>The loop of the constructor over the providers: later ones replace earlier ones of the same
  id, and the first id is the default when none is given.\<close>

fun register_providers ::
  "'w Provider list \<Rightarrow> (string \<rightharpoonup> 'w Provider) \<Rightarrow> string \<Rightarrow> (string \<rightharpoonup> 'w Provider) \<times> string" where
  "register_providers [] providerMap defaultProviderId = (providerMap, defaultProviderId)"
| "register_providers (v # vs) providerMap defaultProviderId =
     register_providers vs (providerMap(pr_GetProviderId v \<mapsto> v))
       (if defaultProviderId = [] then pr_GetProviderId v else defaultProviderId)"

definition NewPaymentRuntimeService ::
  "'w Provider list \<Rightarrow> Policy \<Rightarrow> 'w Approver option \<Rightarrow> string \<Rightarrow> int \<Rightarrow> 'w PaymentRuntimeService" where
  "NewPaymentRuntimeService providers policy approval defaultProviderId secretTtl =
     (let (providerMap, def) = register_providers providers Map.empty defaultProviderId in
      \<lparr>prs_defaultProviderId = (if def = [] then ''mock'' else def), prs_policy = policy,
       prs_approval = approval, prs_providers = providerMap,
       prs_secretTtl = (if secretTtl < 0 then 30 * Minute else secretTtl)\<rparr>)"

definition audit_record :: "ctx \<Rightarrow> PaymentAuditEvent \<Rightarrow> 'w Runtime \<Rightarrow> 'w Runtime" where
  "audit_record c event s = s\<lparr>rt_audit := snd (Record c event (rt_audit s))\<rparr>"

definition RetrieveMachineAuthorizationOnce ::
  "ctx \<Rightarrow> int \<Rightarrow> string \<Rightarrow> 'w Runtime \<Rightarrow> nat go_result \<times> 'w Runtime" where
  "RetrieveMachineAuthorizationOnce c now paymentId s =
     (let (r, v) = TryRetrieve c now paymentId (rt_vault s) in (r, s\<lparr>rt_vault := v\<rparr>))"

subsection \<open>The approval gate\<close>

definition request_event :: "string \<Rightarrow> string \<Rightarrow> ApprovalRequest \<Rightarrow> PaymentAuditEvent" where
  "request_event eventType providerId request =
     audit0\<lparr>pae_EventType := eventType, pae_ProviderId := providerId,
       pae_MerchantName := ar_MerchantName request, pae_AmountMinor := ar_AmountMinor request,
       pae_Currency := ar_Currency request, pae_Environment := ar_Environment request\<rparr>"

definition cli_approval :: ApprovalResult where
  "cli_approval =
     \<lparr>ares_Approved = True, ares_Source = ''cli --yes'',
      ares_Reason = ''Operator confirmed live payment command noninteractively.'', ares_DecidedAtUtc = 0\<rparr>"

definition obtain_approval ::
  "'w PaymentRuntimeService \<Rightarrow> ctx \<Rightarrow> ApprovalRequest \<Rightarrow> 'w Runtime \<Rightarrow> ApprovalResult go_result \<times> 'w Runtime" where
  "obtain_approval p c request s =
     (if ar_CliConfirmed request then (Inr cli_approval, s)
      else (case prs_approval p of
              None \<Rightarrow> (Inl (GoErr ''Payment requires approval but no approval service is registered.''), s)
            | Some service \<Rightarrow> service c request s))"

definition requireApprovalOrPolicyAllow ::
  "'w PaymentRuntimeService \<Rightarrow> ctx \<Rightarrow> ApprovalRequest \<Rightarrow> 'w Runtime \<Rightarrow> unit go_result \<times> 'w Runtime" where
  "requireApprovalOrPolicyAllow p c request s =
     (let providerId = (if ar_ProviderId request = [] then prs_defaultProviderId p else ar_ProviderId request);
          s1 = audit_record c (request_event ''approval_requested'' providerId request) s
      in case prs_policy p c request (\<not> Option.is_none (prs_approval p) \<or> ar_CliConfirmed request) of
           Inl e \<Rightarrow> (Inl e, s1)
         | Inr decision \<Rightarrow>
             if Denied decision then
               (Inl (GoErr (ppd_Reason decision)),
                audit_record c ((request_event ''policy_denied'' providerId request)
                  \<lparr>pae_Decision := ppd_Decision decision, pae_Reason := ppd_Reason decision\<rparr>) s1)
             else if Allowed decision then (Inr (), s1)
             else bindS (obtain_approval p c request s1) (\<lambda>approval s2.
               let s3 = audit_record c
                     ((request_event (if ares_Approved approval then ''approval_granted'' else ''approval_denied'')
                        providerId request)
                       \<lparr>pae_Decision := (if ares_Approved approval then ''approved'' else ''denied''),
                        pae_Reason := ares_Reason approval\<rparr>) s2
               in if \<not> ares_Approved approval
                  then (Inl (GoErr (if ares_Reason approval = [] then ''Payment approval denied.'' else ares_Reason approval)), s3)
                  else (Inr (), s3)))"

subsection \<open>Reading a secret at an approved boundary\<close>

text \<open>The environment and provider the approval is asked for.\<close>

definition effective_approval :: "ApprovalRequest \<Rightarrow> PaymentSecret \<Rightarrow> ApprovalRequest go_result" where
  "effective_approval approval secret =
     (let prov = (if ar_ProviderId approval = [] then sec_providerId secret else ar_ProviderId approval) in
      if ar_Environment approval = []
      then Inr (approval\<lparr>ar_ProviderId := prov, ar_Environment := sec_environment secret\<rparr>)
      else bindR (NormalizeEnvironment (ar_Environment approval))
             (\<lambda>e. Inr (approval\<lparr>ar_ProviderId := prov, ar_Environment := e\<rparr>)))"

definition sentinel_event :: "string \<Rightarrow> string \<Rightarrow> string \<Rightarrow> string \<Rightarrow> ApprovalRequest \<Rightarrow> PaymentAuditEvent" where
  "sentinel_event eventType status providerId handleId approval =
     (request_event eventType providerId approval)\<lparr>pae_HandleId := handleId, pae_Status := status\<rparr>"

definition ResolveSecretFieldForApprovedBoundary ::
  "'w PaymentRuntimeService \<Rightarrow> ctx \<Rightarrow> int \<Rightarrow> string \<Rightarrow> PaymentSecretField \<Rightarrow> ApprovalRequest \<Rightarrow> 'w Runtime
     \<Rightarrow> string go_result \<times> 'w Runtime" where
  "ResolveSecretFieldForApprovedBoundary p c now handleId field approval s =
     (case TryRetrieve c now handleId (rt_vault s) of
        (Inl (GoErr _), v) \<Rightarrow>
          (Inl (GoErr ''Payment secret is missing, expired, or revoked.''), s\<lparr>rt_vault := v\<rparr>)
      | (Inl f, v) \<Rightarrow> (Inl f, s\<lparr>rt_vault := v\<rparr>)
      | (Inr a, v) \<Rightarrow>
          (let s1 = s\<lparr>rt_vault := v\<rparr> in
           case effective_approval approval (deref v a) of
             Inl e \<Rightarrow> (Inl e, s1)
           | Inr eff \<Rightarrow>
               (let providerId = (if ar_ProviderId eff = [] then sec_providerId (deref v a) else ar_ProviderId eff);
                    s2 = audit_record c
                      (sentinel_event ''browser_sentinel_substitution_attempted'' [] providerId handleId eff) s1
                in case requireApprovalOrPolicyAllow p c eff s2 of
                     (Inl (GoErr e), s3) \<Rightarrow>
                       (Inl (GoErr e), audit_record c
                          (sentinel_event ''browser_sentinel_substitution_denied'' ''denied'' providerId handleId eff) s3)
                   | (Inl f, s3) \<Rightarrow> (Inl f, s3)
                   | (Inr _, s3) \<Rightarrow>
                       (let value = Resolve field (deref (rt_vault s3) a) in
                        if value = []
                        then (Inl (GoErr (''Payment secret field '' @ [CHR 0x27] @ Itoa (field_number field)
                               @ [CHR 0x27] @ '' is not available'')), s3)
                        else (Inr value, audit_record c
                          (sentinel_event ''browser_sentinel_substitution_approved'' ''approved'' providerId handleId eff) s3)))))"

subsection \<open>Choosing the provider and the environment\<close>

definition resolveProvider :: "'w PaymentRuntimeService \<Rightarrow> string \<Rightarrow> 'w Provider go_result" where
  "resolveProvider p providerId =
     (let id = (if providerId = [] then prs_defaultProviderId p else providerId) in
      case prs_providers p id of
        Some provider \<Rightarrow> Inr provider
      | None \<Rightarrow> Inl (GoErr (''Payment provider '' @ [CHR 0x27] @ id @ [CHR 0x27] @ '' is not registered'')))"

definition normalizeContext ::
  "PaymentExecutionContext \<Rightarrow> string \<Rightarrow> PaymentExecutionContext go_result" where
  "normalizeContext execContext environment =
     bindR (NormalizeEnvironment (if environment = [] then pec_Environment execContext else environment))
       (\<lambda>e. Inr (execContext\<lparr>pec_Environment := e\<rparr>))"

text \<open>A provider call: the world is the part of the state a provider can change.\<close>

definition call_provider :: "('w \<Rightarrow> 'a go_result \<times> 'w) \<Rightarrow> 'w Runtime \<Rightarrow> 'a go_result \<times> 'w Runtime" where
  "call_provider f s = (let (r, w) = f (rt_world s) in (r, s\<lparr>rt_world := w\<rparr>))"

subsection \<open>The operations\<close>

definition GetPaymentStatus ::
  "'w PaymentRuntimeService \<Rightarrow> ctx \<Rightarrow> int \<Rightarrow> string \<Rightarrow> string \<Rightarrow> PaymentExecutionContext \<Rightarrow> 'w Runtime
     \<Rightarrow> PaymentStatus go_result \<times> 'w Runtime" where
  "GetPaymentStatus p c now paymentIdOrHandleId providerId execContext s =
     (case resolveProvider p providerId of
        Inl e \<Rightarrow> (Inl e, s)
      | Inr provider \<Rightarrow>
          (case normalizeContext execContext [] of
             Inl e \<Rightarrow> (Inl e, s)
           | Inr ec \<Rightarrow>
               bindS (call_provider (pr_GetPaymentStatus provider c now paymentIdOrHandleId ec) s) (\<lambda>status s1.
                 (Inr status, audit_record c
                    (audit0\<lparr>pae_EventType := ''payment_status_checked'',
                       pae_ProviderId := pr_GetProviderId provider, pae_PaymentId := ps_PaymentId status,
                       pae_MerchantName := ps_MerchantName status, pae_AmountMinor := ps_AmountMinor status,
                       pae_Currency := ps_Currency status, pae_Status := ps_Status status,
                       pae_Environment := pec_Environment ec\<rparr>) s1))))"

definition machine_approval ::
  "'w Provider \<Rightarrow> MachinePaymentRequest \<Rightarrow> PaymentExecutionContext \<Rightarrow> ApprovalRequest" where
  "machine_approval provider request ec =
     (let ch = mpr_Challenge request;
          target = (if mpc_MerchantName ch \<noteq> [] then mpc_MerchantName ch
                    else if mpc_ResourceUrl ch \<noteq> [] then mpc_ResourceUrl ch else ''paid resource'');
          summary = ''Execute machine payment for '' @ target @ '' ('' @ Itoa (mpc_AmountMinor ch) @ '' ''
            @ mpc_Currency ch @ '') using '' @ pr_GetProviderId provider @ ''.''
      in buildApprovalRequest ActionExecuteMachinePayment summary (pr_GetProviderId provider)
           (mpc_MerchantName ch) (mpc_AmountMinor ch) (mpc_Currency ch) None ec)"

text \<open>The event that opens or closes a machine payment.\<close>

definition machine_attempt_event :: "'w Provider \<Rightarrow> MachinePaymentRequest \<Rightarrow> PaymentExecutionContext \<Rightarrow> PaymentAuditEvent" where
  "machine_attempt_event provider request ec =
     audit0\<lparr>pae_EventType := ''machine_payment_attempted'', pae_ProviderId := pr_GetProviderId provider,
       pae_MerchantName := mpc_MerchantName (mpr_Challenge request),
       pae_AmountMinor := mpc_AmountMinor (mpr_Challenge request),
       pae_Currency := mpc_Currency (mpr_Challenge request), pae_Environment := pec_Environment ec\<rparr>"

definition machine_done_event :: "'w Provider \<Rightarrow> MachinePaymentResult \<Rightarrow> PaymentExecutionContext \<Rightarrow> PaymentAuditEvent" where
  "machine_done_event provider r ec =
     audit0\<lparr>pae_EventType :=
         (if mres_Status r = ''completed'' then ''machine_payment_completed'' else ''machine_payment_failed''),
       pae_ProviderId := pr_GetProviderId provider, pae_PaymentId := mres_PaymentId r,
       pae_MerchantName := mres_MerchantName r, pae_AmountMinor := mres_AmountMinor r,
       pae_Currency := mres_Currency r, pae_Status := mres_Status r, pae_Environment := pec_Environment ec\<rparr>"

definition vault_store ::
  "ctx \<Rightarrow> int \<Rightarrow> PaymentSecret \<Rightarrow> int \<Rightarrow> bool \<Rightarrow> 'w Runtime \<Rightarrow> string go_result \<times> 'w Runtime" where
  "vault_store c now secret ttl once s =
     (let (r, v) = Store c now secret ttl once (rt_vault s) in (r, s\<lparr>rt_vault := v\<rparr>))"

definition ExecuteMachinePayment ::
  "'w PaymentRuntimeService \<Rightarrow> ctx \<Rightarrow> (nat \<Rightarrow> int) \<Rightarrow> MachinePaymentRequest \<Rightarrow> PaymentExecutionContext
     \<Rightarrow> 'w Runtime \<Rightarrow> MachinePaymentResult go_result \<times> 'w Runtime" where
  "ExecuteMachinePayment p c clk request execContext s =
     (case resolveProvider p (if mpr_ProviderId request = [] then mpc_ProviderId (mpr_Challenge request)
                              else mpr_ProviderId request) of
        Inl e \<Rightarrow> (Inl e, s)
      | Inr provider \<Rightarrow>
     (case normalizeContext execContext (mpr_Environment request) of
        Inl e \<Rightarrow> (Inl e, s)
      | Inr ec \<Rightarrow>
     (case validateMachinePaymentRequest request of
        Inl e \<Rightarrow> (Inl e, s)
      | Inr _ \<Rightarrow>
     bindS (requireApprovalOrPolicyAllow p c (machine_approval provider request ec) s) (\<lambda>_ s1.
     bindS (call_provider
              (pr_ExecuteMachinePayment provider c (clk 0)
                 (request\<lparr>mpr_ProviderId := pr_GetProviderId provider, mpr_Environment := pec_Environment ec\<rparr>) ec)
              (audit_record c (machine_attempt_event provider request ec) s1)) (\<lambda>providerResult s2.
       let s3 = (case mpp_ScopedAuthorizationSecret providerResult of
                   None \<Rightarrow> s2
                 | Some sec \<Rightarrow>
                     snd (vault_store c (clk 2)
                       (prepareSecretForVault sec (mres_PaymentId (mpp_Result providerResult))
                          (pr_GetProviderId provider) (pec_Environment ec) (Some (clk 1 + 5 * Minute)))
                       (5 * Minute) True s2))
       in (Inr (mpp_Result providerResult),
           audit_record c (machine_done_event provider (mpp_Result providerResult) ec) s3))))))"

definition resolveSecretTtl :: "'w PaymentRuntimeService \<Rightarrow> int \<Rightarrow> int option \<Rightarrow> int" where
  "resolveSecretTtl p now validUntilUtc =
     (case validUntilUtc of
        None \<Rightarrow> prs_secretTtl p
      | Some t \<Rightarrow>
          (let ttl = time_sub t now in
           if ttl \<le> 0 then 1 * Minute else if ttl < prs_secretTtl p then ttl else prs_secretTtl p))"

definition card_approval ::
  "'w Provider \<Rightarrow> VirtualCardRequest \<Rightarrow> PaymentExecutionContext \<Rightarrow> ApprovalRequest" where
  "card_approval provider request ec =
     buildApprovalRequest ActionIssueVirtualCard
       (''Issue virtual card for '' @ vcr_MerchantName request @ '' ('' @ Itoa (vcr_AmountMinor request) @ '' ''
          @ vcr_Currency request @ '') using '' @ pr_GetProviderId provider @ ''.'')
       (pr_GetProviderId provider) (vcr_MerchantName request) (vcr_AmountMinor request)
       (vcr_Currency request) (vcr_ValidUntilUtc request) ec"

definition card_failed :: "'w Provider \<Rightarrow> VirtualCardRequest \<Rightarrow> PaymentExecutionContext \<Rightarrow> 'w Runtime \<Rightarrow> 'w Runtime" where
  "card_failed provider request ec s =
     audit_record None (audit0\<lparr>pae_EventType := ''virtual_card_failed'',
       pae_ProviderId := pr_GetProviderId provider, pae_MerchantName := vcr_MerchantName request,
       pae_AmountMinor := vcr_AmountMinor request, pae_Currency := vcr_Currency request,
       pae_Status := ''failed'', pae_Environment := pec_Environment ec\<rparr>) s"

definition card_issued_event ::
  "'w Provider \<Rightarrow> VirtualCardRequest \<Rightarrow> VirtualCardHandle \<Rightarrow> PaymentExecutionContext \<Rightarrow> PaymentAuditEvent" where
  "card_issued_event provider request h ec =
     audit0\<lparr>pae_EventType := ''virtual_card_issued'', pae_ProviderId := pr_GetProviderId provider,
       pae_HandleId := vch_HandleId h, pae_Last4 := vch_Last4 h, pae_MerchantName := vch_TargetMerchantName h,
       pae_AmountMinor := vcr_AmountMinor request, pae_Currency := vcr_Currency request,
       pae_IssuedAtUtc := Some (vch_IssuedAtUtc h), pae_ValidUntilUtc := vch_ValidUntilUtc h,
       pae_Status := vch_Status h, pae_Environment := pec_Environment ec\<rparr>"

definition IssueVirtualCard ::
  "'w PaymentRuntimeService \<Rightarrow> ctx \<Rightarrow> (nat \<Rightarrow> int) \<Rightarrow> VirtualCardRequest \<Rightarrow> PaymentExecutionContext
     \<Rightarrow> 'w Runtime \<Rightarrow> VirtualCardHandle go_result \<times> 'w Runtime" where
  "IssueVirtualCard p c clk request execContext s =
     (case resolveProvider p (vcr_ProviderId request) of
        Inl e \<Rightarrow> (Inl e, s)
      | Inr provider \<Rightarrow>
     (case normalizeContext execContext (vcr_Environment request) of
        Inl e \<Rightarrow> (Inl e, s)
      | Inr ec \<Rightarrow>
     (case validateVirtualCardRequest request of
        Inl e \<Rightarrow> (Inl e, s)
      | Inr _ \<Rightarrow>
     bindS (requireApprovalOrPolicyAllow p c (card_approval provider request ec) s) (\<lambda>_ s1.
       let request' = request\<lparr>vcr_ProviderId := pr_GetProviderId provider, vcr_Environment := pec_Environment ec\<rparr>
       in case call_provider (pr_IssueVirtualCard provider c (clk 0) request' ec) s1 of
            (Inl (GoErr e), s2) \<Rightarrow> (Inl (GoErr e), card_failed provider request' ec s2)
          | (Inl f, s2) \<Rightarrow> (Inl f, s2)
          | (Inr issue, s2) \<Rightarrow>
              (case vci_Secret issue of
                 None \<Rightarrow> (Inl (GoErr ''Payment provider did not return a vaultable virtual card secret.''),
                          card_failed provider request' ec s2)
               | Some sec \<Rightarrow>
                   (let h = vci_Handle issue;
                        secret = prepareSecretForVault sec (vch_HandleId h) (pr_GetProviderId provider)
                          (pec_Environment ec) (vch_ValidUntilUtc h)
                    in case vault_store c (clk 2) secret (resolveSecretTtl p (clk 1) (vch_ValidUntilUtc h)) False s2 of
                         (Inl e, s3) \<Rightarrow> (Inl e, card_failed provider request' ec s3)
                       | (Inr _, s3) \<Rightarrow>
                           (Inr h, audit_record c (card_issued_event provider request' h ec) s3)))))))"

definition GetSetupStatus ::
  "'w PaymentRuntimeService \<Rightarrow> ctx \<Rightarrow> string \<Rightarrow> 'w Runtime \<Rightarrow> PaymentSetupStatus go_result \<times> 'w Runtime" where
  "GetSetupStatus p c providerId s =
     (case resolveProvider p providerId of
        Inl e \<Rightarrow> (Inl e, s)
      | Inr provider \<Rightarrow> call_provider (pr_GetSetupStatus provider c) s)"

definition ListFundingSources ::
  "'w PaymentRuntimeService \<Rightarrow> ctx \<Rightarrow> string \<Rightarrow> PaymentExecutionContext \<Rightarrow> 'w Runtime
     \<Rightarrow> FundingSource list go_result \<times> 'w Runtime" where
  "ListFundingSources p c providerId execContext s =
     (case resolveProvider p providerId of
        Inl e \<Rightarrow> (Inl e, s)
      | Inr provider \<Rightarrow>
          (case normalizeContext execContext [] of
             Inl e \<Rightarrow> (Inl e, s)
           | Inr ec \<Rightarrow> call_provider (pr_ListFundingSources provider c ec) s))"

definition HasApprovalService :: "'w PaymentRuntimeService \<Rightarrow> bool" where
  "HasApprovalService p \<longleftrightarrow> \<not> Option.is_none (prs_approval p)"


subsection \<open>Facts on the parts\<close>

lemma audit_record_frame [simp]:
  "rt_vault (audit_record c e s) = rt_vault s" "rt_world (audit_record c e s) = rt_world s"
  by (simp_all add: audit_record_def)

lemma audit_record_live [simp]: "rt_audit (audit_record None e s) = rt_audit s @ [e]"
  by (simp add: audit_record_def)

lemma call_provider_frame [simp]:
  "rt_vault (snd (call_provider f s)) = rt_vault s" "rt_audit (snd (call_provider f s)) = rt_audit s"
  "fst (call_provider f s) = fst (f (rt_world s))" "rt_world (snd (call_provider f s)) = snd (f (rt_world s))"
  by (simp_all add: call_provider_def split: prod.splits)

lemma vault_store_frame [simp]:
  "rt_world (snd (vault_store c t x ttl once s)) = rt_world s"
  "rt_audit (snd (vault_store c t x ttl once s)) = rt_audit s"
  "rt_vault (snd (vault_store c t x ttl once s)) = snd (Store c t x ttl once (rt_vault s))"
  "fst (vault_store c t x ttl once s) = fst (Store c t x ttl once (rt_vault s))"
  by (simp_all add: vault_store_def split: prod.splits)

lemma Resolve_prepare [simp]: "Resolve f (prepareSecretForVault sec h p e t) = Resolve f sec"
  by (cases f) (simp_all add: prepareSecretForVault_def secret0_def)

lemma prepare_fields [simp]: "sec_handleId (prepareSecretForVault sec h p e t) = h"
  by (simp add: prepareSecretForVault_def)

lemma normalizeContext_Inr:
  assumes "normalizeContext ec env = Inr ec'"
  shows "pec_Environment ec' = PaymentEnvTest \<or> pec_Environment ec' = PaymentEnvLive"
    and "pec_CliConfirmed ec' = pec_CliConfirmed ec"
    and "NormalizeEnvironment (if env = [] then pec_Environment ec else env) = Inr (pec_Environment ec')"
  using assms
  by (auto simp: normalizeContext_def NormalizeEnvironment_Inr_iff elim!: bindR_InrE
      dest: TryNormalizeEnvironment_range)

lemma normalizeContext_live:
  assumes "normalizeContext ec env = Inr ec'"
  shows "IsLiveEnvironment (pec_Environment ec') =
    IsLiveEnvironment (if env = [] then pec_Environment ec else env)"
proof -
  have "TryNormalizeEnvironment (if env = [] then pec_Environment ec else env) = Some (pec_Environment ec')"
    using normalizeContext_Inr(3)[OF assms] by (simp add: NormalizeEnvironment_Inr_iff)
  with normalizeContext_Inr(1)[OF assms] show ?thesis by (elim disjE) (simp_all add: IsLiveEnvironment_def)
qed

subsection \<open>Who may approve\<close>

text \<open>The state in which approval is asked for: the request has been recorded.\<close>

definition asked :: "'w PaymentRuntimeService \<Rightarrow> ctx \<Rightarrow> ApprovalRequest \<Rightarrow> 'w Runtime \<Rightarrow> 'w Runtime" where
  "asked p c req s = audit_record c (request_event ''approval_requested''
     (if ar_ProviderId req = [] then prs_defaultProviderId p else ar_ProviderId req) req) s"

text \<open>A request was approved: on the command line, or by the approval service when it was asked.\<close>

definition approved_by :: "'w PaymentRuntimeService \<Rightarrow> ctx \<Rightarrow> ApprovalRequest \<Rightarrow> 'w Runtime \<Rightarrow> bool" where
  "approved_by p c req s \<longleftrightarrow> ar_CliConfirmed req \<or>
     (\<exists>service r t. prs_approval p = Some service \<and> service c req (asked p c req s) = (Inr r, t) \<and> ares_Approved r)"

lemma obtain_approval_Inr:
  assumes "obtain_approval p c req (asked p c req s) = (Inr r, t)" "ares_Approved r"
  shows "approved_by p c req s"
  using assms by (auto simp: obtain_approval_def approved_by_def split: if_splits option.splits)

lemma gate_Inr:
  assumes "requireApprovalOrPolicyAllow p c req s = (Inr u, s')"
  obtains d where "prs_policy p c req (\<not> Option.is_none (prs_approval p) \<or> ar_CliConfirmed req) = Inr d"
    "\<not> Denied d" "Allowed d \<or> approved_by p c req s"
  using assms
  by (fastforce simp: requireApprovalOrPolicyAllow_def Let_def asked_def[symmetric] elim!: bindS_InrE
      split: sum.splits if_splits intro: obtain_approval_Inr)

context live_guard
begin

lemma gate_live:
  assumes "prs_policy p = policy" "requireApprovalOrPolicyAllow p c req s = (Inr u, s')"
    and "IsLiveEnvironment (ar_Environment req)"
  shows "in_budget limit (ar_AmountMinor req)" "approved_by p c req s"
  using gate_Inr[OF assms(2)] live_passes assms(1,3) by metis+

end

text \<open>A successful machine payment, step by step.\<close>

lemma execute_machine_Inr:
  assumes "ExecuteMachinePayment p c clk req ec s = (Inr r, s')"
  obtains provider ec' s1 pres w' where
    "resolveProvider p (if mpr_ProviderId req = [] then mpc_ProviderId (mpr_Challenge req) else mpr_ProviderId req)
       = Inr provider"
    "normalizeContext ec (mpr_Environment req) = Inr ec'"
    "validateMachinePaymentRequest req = Inr ()"
    "requireApprovalOrPolicyAllow p c (machine_approval provider req ec') s = (Inr (), s1)"
    "pr_ExecuteMachinePayment provider c (clk 0)
       (req\<lparr>mpr_ProviderId := pr_GetProviderId provider, mpr_Environment := pec_Environment ec'\<rparr>) ec' (rt_world s1)
       = (Inr pres, w')"
    "r = mpp_Result pres"
    "rt_world s' = w'"
    "rt_vault s' = (case mpp_ScopedAuthorizationSecret pres of
        None \<Rightarrow> rt_vault s1
      | Some sec \<Rightarrow> snd (Store c (clk 2)
          (prepareSecretForVault sec (mres_PaymentId r) (pr_GetProviderId provider) (pec_Environment ec')
             (Some (clk 1 + 5 * Minute))) (5 * Minute) True (rt_vault s1)))"
  using assms
  by (fastforce simp: ExecuteMachinePayment_def call_provider_def Let_def elim!: bindS_InrE
      split: sum.splits prod.splits option.splits)

lemma machine_approval_fields [simp]:
  "ar_AmountMinor (machine_approval pr req ec) = mpc_AmountMinor (mpr_Challenge req)"
  "ar_Currency (machine_approval pr req ec) = mpc_Currency (mpr_Challenge req)"
  "ar_MerchantName (machine_approval pr req ec) = mpc_MerchantName (mpr_Challenge req)"
  "ar_Environment (machine_approval pr req ec) = pec_Environment ec"
  "ar_CliConfirmed (machine_approval pr req ec) = pec_CliConfirmed ec"
  "ar_ProviderId (machine_approval pr req ec) = pr_GetProviderId pr"
  by (simp_all add: machine_approval_def buildApprovalRequest_def Let_def)

text \<open>C2: Under the default policy no live machine payment succeeds unless its amount is positive and
  within the configured limit, and the operator confirmed it on the command line or the approval
  service approved a request for that very amount, currency and merchant.\<close>

theorem live_payment_approved:
  fixes p :: "'w PaymentRuntimeService"
  assumes "prs_policy p = Evaluate d" "ExecuteMachinePayment p c clk req ec s = (Inr r, s')"
    and "IsLiveEnvironment (if mpr_Environment req = [] then pec_Environment ec else mpr_Environment req)"
  shows "0 < mpc_AmountMinor (mpr_Challenge req) \<and>
     in_budget (maxLiveAmountMinor d) (mpc_AmountMinor (mpr_Challenge req)) \<and>
     (\<exists>areq. approved_by p c areq s \<and> ar_AmountMinor areq = mpc_AmountMinor (mpr_Challenge req) \<and>
        ar_Currency areq = mpc_Currency (mpr_Challenge req) \<and>
        ar_MerchantName areq = mpc_MerchantName (mpr_Challenge req) \<and>
        (ar_CliConfirmed areq \<longleftrightarrow> pec_CliConfirmed ec))"
proof -
  obtain provider :: "'w Provider" and ec' s1 where n: "normalizeContext ec (mpr_Environment req) = Inr ec'"
    and v: "validateMachinePaymentRequest req = Inr ()"
    and g: "requireApprovalOrPolicyAllow p c (machine_approval provider req ec') s = (Inr (), s1)"
    by (rule execute_machine_Inr[OF assms(2)]) blast
  have "IsLiveEnvironment (pec_Environment ec')"
    using assms(3) by (simp add: normalizeContext_live[OF n])
  then have "in_budget (maxLiveAmountMinor d) (mpc_AmountMinor (mpr_Challenge req))"
    and "approved_by p c (machine_approval provider req ec') s"
    using default_policy.gate_live[OF assms(1) g] by simp_all
  moreover have "0 < mpc_AmountMinor (mpr_Challenge req)"
    using v by (auto simp: validateMachinePaymentRequest_def split: if_splits)
  ultimately show ?thesis
    using normalizeContext_Inr(2)[OF n] by (intro conjI exI[of _ "machine_approval provider req ec'"]) simp_all
qed


text \<open>A service with the mock provider, an approver that agrees to everything, and a limit of 500.\<close>

definition agree :: "'w Approver" where
  "agree c req s = (Inr \<lparr>ares_Approved = True, ares_Source = ''test'', ares_Reason = [], ares_DecidedAtUtc = 0\<rparr>, s)"

definition service_example :: "MockPaymentProvider PaymentRuntimeService" where
  "service_example = NewPaymentRuntimeService [mock_provider ''mock'']
     (Evaluate (NewDefaultPaymentPolicy None None (Some 500))) (Some agree) [] (- 1)"

definition runtime_example :: "MockPaymentProvider Runtime" where
  "runtime_example = \<lparr>rt_vault = NewInMemoryPaymentSecretVault, rt_audit = [],
     rt_world = NewMockPaymentProvider [] []\<rparr>"

lemma service_example_policy:
  "prs_policy service_example = Evaluate (NewDefaultPaymentPolicy None None (Some 500))"
  by (simp add: service_example_def NewPaymentRuntimeService_def)

theorem live_payment_approved_witness:
  "\<exists>r s' areq. ExecuteMachinePayment service_example None (\<lambda>_. 5)
       (machine_example\<lparr>mpr_Environment := ''live''\<rparr>) context_example runtime_example = (Inr r, s') \<and>
     approved_by service_example None areq runtime_example \<and> ar_AmountMinor areq = 250"
proof -
  let ?req = "machine_example\<lparr>mpr_Environment := ''live''\<rparr>"
  have "is_ok (fst (ExecuteMachinePayment service_example None (\<lambda>_. 5) ?req context_example runtime_example))"
    by code_simp
  then obtain r s' where e:
    "ExecuteMachinePayment service_example None (\<lambda>_. 5) ?req context_example runtime_example = (Inr r, s')"
    by (cases "ExecuteMachinePayment service_example None (\<lambda>_. 5) ?req context_example runtime_example")
       (auto simp: is_ok_iff)
  have l: "IsLiveEnvironment (if mpr_Environment ?req = [] then pec_Environment context_example
      else mpr_Environment ?req)"
    by (simp add: IsLiveEnvironment_def)
  have a: "mpc_AmountMinor (mpr_Challenge ?req) = 250" by (simp add: machine_example_def)
  from live_payment_approved[OF service_example_policy e l] a e show ?thesis by auto
qed


subsection \<open>A refused payment moves nothing\<close>

lemma gate_denied:
  assumes "prs_policy p c req (\<not> Option.is_none (prs_approval p) \<or> ar_CliConfirmed req) = Inr d" "Denied d"
  shows "fst (requireApprovalOrPolicyAllow p c req s) = Inl (GoErr (ppd_Reason d))"
    and "rt_vault (snd (requireApprovalOrPolicyAllow p c req s)) = rt_vault s"
    and "rt_world (snd (requireApprovalOrPolicyAllow p c req s)) = rt_world s"
  using assms by (simp_all add: requireApprovalOrPolicyAllow_def Let_def)

lemma gate_policy_error:
  assumes "prs_policy p c req (\<not> Option.is_none (prs_approval p) \<or> ar_CliConfirmed req) = Inl e"
  shows "fst (requireApprovalOrPolicyAllow p c req s) = Inl e"
    and "rt_vault (snd (requireApprovalOrPolicyAllow p c req s)) = rt_vault s"
    and "rt_world (snd (requireApprovalOrPolicyAllow p c req s)) = rt_world s"
  using assms by (simp_all add: requireApprovalOrPolicyAllow_def Let_def)

context live_guard
begin

lemma gate_over_limit:
  assumes "prs_policy p = policy" "IsLiveEnvironment (ar_Environment req)"
    and "\<not> in_budget limit (ar_AmountMinor req)"
  obtains e s' where "requireApprovalOrPolicyAllow p c req s = (Inl e, s')"
    "rt_vault s' = rt_vault s" "rt_world s' = rt_world s"
proof -
  let ?g = "requireApprovalOrPolicyAllow p c req s"
  let ?d = "prs_policy p c req (\<not> Option.is_none (prs_approval p) \<or> ar_CliConfirmed req)"
  have "\<exists>e. fst ?g = Inl e \<and> rt_vault (snd ?g) = rt_vault s \<and> rt_world (snd ?g) = rt_world s"
  proof (cases ?d)
    case (Inl e)
    then show ?thesis by (simp add: gate_policy_error)
  next
    case (Inr d)
    then have "Denied d" using denies_above[of c req _ d] assms by simp
    with Inr show ?thesis by (simp add: gate_denied)
  qed
  then show ?thesis using that[of _ "snd ?g"] by (metis prod.collapse)
qed

end

lemma card_approval_fields [simp]:
  "ar_AmountMinor (card_approval pr req ec) = vcr_AmountMinor req"
  "ar_Environment (card_approval pr req ec) = pec_Environment ec"
  "ar_CliConfirmed (card_approval pr req ec) = pec_CliConfirmed ec"
  "ar_ProviderId (card_approval pr req ec) = pr_GetProviderId pr"
  by (simp_all add: card_approval_def buildApprovalRequest_def)

lemma execute_refused:
  fixes p :: "'w PaymentRuntimeService"
  assumes "\<And>(pr :: 'w Provider) ec'. normalizeContext ec (mpr_Environment req) = Inr ec' \<Longrightarrow>
    \<exists>e s'. requireApprovalOrPolicyAllow p c (machine_approval pr req ec') s = (Inl e, s') \<and>
      rt_world s' = rt_world s \<and> rt_vault s' = rt_vault s"
  shows "\<exists>e s'. ExecuteMachinePayment p c clk req ec s = (Inl e, s') \<and>
    rt_world s' = rt_world s \<and> rt_vault s' = rt_vault s"
proof (cases "resolveProvider p (if mpr_ProviderId req = [] then mpc_ProviderId (mpr_Challenge req) else mpr_ProviderId req)")
  case (Inr pr)
  then show ?thesis
    using assms[of _ pr]
    by (cases "normalizeContext ec (mpr_Environment req)"; cases "validateMachinePaymentRequest req")
       (fastforce simp: ExecuteMachinePayment_def)+
qed (simp add: ExecuteMachinePayment_def)

lemma issue_refused:
  fixes p :: "'w PaymentRuntimeService"
  assumes "\<And>(pr :: 'w Provider) ec'. normalizeContext ec (vcr_Environment req) = Inr ec' \<Longrightarrow>
    \<exists>e s'. requireApprovalOrPolicyAllow p c (card_approval pr req ec') s = (Inl e, s') \<and>
      rt_world s' = rt_world s \<and> rt_vault s' = rt_vault s"
  shows "\<exists>e s'. IssueVirtualCard p c clk req ec s = (Inl e, s') \<and>
    rt_world s' = rt_world s \<and> rt_vault s' = rt_vault s"
proof (cases "resolveProvider p (vcr_ProviderId req)")
  case (Inr pr)
  then show ?thesis
    using assms[of _ pr]
    by (cases "normalizeContext ec (vcr_Environment req)"; cases "validateVirtualCardRequest req")
       (fastforce simp: IssueVirtualCard_def)+
qed (simp add: IssueVirtualCard_def)

text \<open>C3: Under the default policy a live payment or card above the limit is refused, whoever approves
  it: the call fails, and neither the provider nor the vault sees anything of it.\<close>

theorem over_limit_refused:
  fixes p :: "'w PaymentRuntimeService"
  assumes "prs_policy p = Evaluate d"
  shows "(IsLiveEnvironment (if mpr_Environment mreq = [] then pec_Environment ec else mpr_Environment mreq) \<longrightarrow>
      \<not> in_budget (maxLiveAmountMinor d) (mpc_AmountMinor (mpr_Challenge mreq)) \<longrightarrow>
      (\<exists>e s'. ExecuteMachinePayment p c clk mreq ec s = (Inl e, s') \<and>
         rt_world s' = rt_world s \<and> rt_vault s' = rt_vault s)) \<and>
    (IsLiveEnvironment (if vcr_Environment creq = [] then pec_Environment ec else vcr_Environment creq) \<longrightarrow>
      \<not> in_budget (maxLiveAmountMinor d) (vcr_AmountMinor creq) \<longrightarrow>
      (\<exists>e s'. IssueVirtualCard p c clk creq ec s = (Inl e, s') \<and>
         rt_world s' = rt_world s \<and> rt_vault s' = rt_vault s))"
proof (intro conjI impI)
  assume l: "IsLiveEnvironment (if mpr_Environment mreq = [] then pec_Environment ec else mpr_Environment mreq)"
    and b: "\<not> in_budget (maxLiveAmountMinor d) (mpc_AmountMinor (mpr_Challenge mreq))"
  have "\<exists>e s'. requireApprovalOrPolicyAllow p c (machine_approval pr mreq ec') s = (Inl e, s') \<and>
      rt_world s' = rt_world s \<and> rt_vault s' = rt_vault s"
    if "normalizeContext ec (mpr_Environment mreq) = Inr ec'" for pr :: "'w Provider" and ec'
    by (rule default_policy.gate_over_limit[OF assms, of "machine_approval pr mreq ec'" c s])
       (use l b that in \<open>auto simp: normalizeContext_live\<close>)
  then show "\<exists>e s'. ExecuteMachinePayment p c clk mreq ec s = (Inl e, s') \<and>
      rt_world s' = rt_world s \<and> rt_vault s' = rt_vault s"
    by (rule execute_refused)
next
  assume l: "IsLiveEnvironment (if vcr_Environment creq = [] then pec_Environment ec else vcr_Environment creq)"
    and b: "\<not> in_budget (maxLiveAmountMinor d) (vcr_AmountMinor creq)"
  have "\<exists>e s'. requireApprovalOrPolicyAllow p c (card_approval pr creq ec') s = (Inl e, s') \<and>
      rt_world s' = rt_world s \<and> rt_vault s' = rt_vault s"
    if "normalizeContext ec (vcr_Environment creq) = Inr ec'" for pr :: "'w Provider" and ec'
    by (rule default_policy.gate_over_limit[OF assms, of "card_approval pr creq ec'" c s])
       (use l b that in \<open>auto simp: normalizeContext_live\<close>)
  then show "\<exists>e s'. IssueVirtualCard p c clk creq ec s = (Inl e, s') \<and>
      rt_world s' = rt_world s \<and> rt_vault s' = rt_vault s"
    by (rule issue_refused)
qed

theorem over_limit_refused_witness:
  "\<exists>e s'. ExecuteMachinePayment service_example None (\<lambda>_. 5)
       (machine_example\<lparr>mpr_Environment := ''live'', mpr_Challenge := (mpr_Challenge machine_example)\<lparr>mpc_AmountMinor := 501\<rparr>\<rparr>)
       context_example runtime_example = (Inl e, s') \<and> rt_world s' = rt_world runtime_example"
  using conjunct1[OF over_limit_refused[OF service_example_policy,
    of "machine_example\<lparr>mpr_Environment := ''live'', mpr_Challenge := (mpr_Challenge machine_example)\<lparr>mpc_AmountMinor := 501\<rparr>\<rparr>"
       context_example None "\<lambda>_. 5" runtime_example]]
  by (auto simp: IsLiveEnvironment_def in_budget_def NewDefaultPaymentPolicy_def)


subsection \<open>Secrets through the vault\<close>

text \<open>While it waits, an approval service may let other users of the vault run, but it changes the
  vault only through the vault's operations.\<close>

definition approver_uses_vault :: "'w PaymentRuntimeService \<Rightarrow> bool" where
  "approver_uses_vault p \<longleftrightarrow>
     (\<forall>service c req s. prs_approval p = Some service \<longrightarrow>
        (\<exists>es. steps vault_step (rt_vault s) es (rt_vault (snd (service c req s)))))"

lemma obtain_approval_vault:
  assumes "approver_uses_vault p"
  shows "\<exists>es. steps vault_step (rt_vault s) es (rt_vault (snd (obtain_approval p c req s)))"
  using assms by (auto simp: obtain_approval_def approver_uses_vault_def intro: steps.intros split: option.splits)

lemma gate_vault:
  assumes "approver_uses_vault p"
  shows "\<exists>es. steps vault_step (rt_vault s) es (rt_vault (snd (requireApprovalOrPolicyAllow p c req s)))"
proof -
  let ?s = "asked p c req s"
  obtain es where es: "steps vault_step (rt_vault s) es (rt_vault (snd (obtain_approval p c req ?s)))"
    using obtain_approval_vault[OF assms, of ?s c req] by (auto simp: asked_def)
  have "rt_vault (snd (requireApprovalOrPolicyAllow p c req s)) \<in>
      {rt_vault s, rt_vault (snd (obtain_approval p c req ?s))}"
    by (auto simp: requireApprovalOrPolicyAllow_def Let_def asked_def bindS_def split: sum.splits)
  then show ?thesis by (metis es insertE singletonD steps.intros(1))
qed

lemma gate_vault_inv:
  assumes "approver_uses_vault p" "vault_inv (rt_vault s)" "requireApprovalOrPolicyAllow p c req s = (r, s1)"
  shows "vault_inv (rt_vault s1)"
proof -
  obtain es where "steps vault_step (rt_vault s) es (rt_vault s1)"
    using gate_vault[OF assms(1), of s c req] assms(3) by auto
  then show ?thesis using assms(2) by (rule vault_machine.inv_steps)
qed

text \<open>After a machine payment whose provider returned a scoped authorization, that authorization can
  be fetched under the payment's identifier for five minutes, field for field as the provider gave
  it; a second fetch finds nothing.\<close>

theorem machine_authorization_round_trip:
  fixes p :: "'w PaymentRuntimeService"
  assumes "approver_uses_vault p" "vault_inv (rt_vault s)"
    and "ExecuteMachinePayment p None clk req ec s = (Inr r, s')"
    and "resolveProvider p (if mpr_ProviderId req = [] then mpc_ProviderId (mpr_Challenge req)
           else mpr_ProviderId req) = Inr provider"
    and "normalizeContext ec (mpr_Environment req) = Inr ec'"
    and "pr_ExecuteMachinePayment provider None (clk 0)
           (req\<lparr>mpr_ProviderId := pr_GetProviderId provider, mpr_Environment := pec_Environment ec'\<rparr>) ec'
           (rt_world (snd (requireApprovalOrPolicyAllow p None (machine_approval provider req ec') s)))
         = (Inr pres, w')"
    and "mpp_ScopedAuthorizationSecret pres = Some sec"
    and "mres_PaymentId r \<noteq> []" "now \<le> clk 2 + 5 * Minute"
  shows "r = mpp_Result pres \<and>
     (\<exists>a s''. RetrieveMachineAuthorizationOnce None now (mres_PaymentId r) s' = (Inr a, s'') \<and>
        (\<forall>f. Resolve f (deref (rt_vault s'') a) = Resolve f sec) \<and>
        holds (rt_vault s'') (mres_PaymentId r) = None)"
proof -
  let ?x = "prepareSecretForVault sec (mres_PaymentId r) (pr_GetProviderId provider) (pec_Environment ec')
       (Some (clk 1 + 5 * Minute))"
  obtain s1 where
    g: "requireApprovalOrPolicyAllow p None (machine_approval provider req ec') s = (Inr (), s1)" and
    r: "r = mpp_Result pres" and
    v: "rt_vault s' = snd (Store None (clk 2) ?x (5 * Minute) True (rt_vault s1))"
    by (rule execute_machine_Inr[OF assms(3)]) (use assms(4-7) in auto)
  have i: "vault_inv (rt_vault s1)" using gate_vault_inv[OF assms(1,2) g] .
  obtain a v' where "TryRetrieve None now (mres_PaymentId r)
      (snd (Store None (clk 2) ?x (5 * Minute) True (rt_vault s1))) = (Inr a, v')"
    "deref v' a = ?x" "holds v' (mres_PaymentId r) = None"
    using vault.store_retrieve[OF i, of ?x now "clk 2" "5 * Minute" True] assms(8,9)
    by (auto simp: effective_ttl_def)
  then show ?thesis using v r by (simp add: RetrieveMachineAuthorizationOnce_def)
qed

lemma agree_uses_vault: "approver_uses_vault service_example"
  by (auto simp: approver_uses_vault_def service_example_def NewPaymentRuntimeService_def agree_def
      intro: steps.intros)

lemma runtime_example_inv: "vault_inv (rt_vault runtime_example)"
  using vault_machine.inv_init by (simp add: runtime_example_def)

theorem machine_authorization_round_trip_witness:
  "\<exists>r s' a s'' sec. ExecuteMachinePayment service_example None (\<lambda>_. 5) machine_example context_example runtime_example
       = (Inr r, s') \<and>
     RetrieveMachineAuthorizationOnce None 9 (mres_PaymentId r) s' = (Inr a, s'') \<and>
     Resolve SecretFieldAuthorizationHeader (deref (rt_vault s'') a) = Resolve SecretFieldAuthorizationHeader sec"
proof -
  let ?x = "ExecuteMachinePayment service_example None (\<lambda>_. 5) machine_example context_example runtime_example"
  let ?pr = "mock_provider ''mock''"
  let ?w = "rt_world (snd (requireApprovalOrPolicyAllow service_example None
      (machine_approval ?pr machine_example context_example) runtime_example))"
  have "map_sum id mres_PaymentId (fst ?x) = Inr ''mp_mock_000001''" by code_simp
  then obtain r s' where e: "?x = (Inr r, s')" and id: "mres_PaymentId r = ''mp_mock_000001''"
    by (cases ?x; cases "fst ?x") auto
  have pr: "resolveProvider service_example (if mpr_ProviderId machine_example = [] then
      mpc_ProviderId (mpr_Challenge machine_example) else mpr_ProviderId machine_example) = Inr ?pr"
    by (simp add: resolveProvider_def service_example_def NewPaymentRuntimeService_def mock_provider_def
        machine_example_def)
  have ec: "normalizeContext context_example (mpr_Environment machine_example) = Inr context_example"
    by (simp add: normalizeContext_def machine_example_def context_example_def NormalizeEnvironment_Inr_iff[THEN iffD2])
  obtain pres w' where m: "pr_ExecuteMachinePayment ?pr None 5
      (machine_example\<lparr>mpr_ProviderId := pr_GetProviderId ?pr, mpr_Environment := pec_Environment context_example\<rparr>)
      context_example ?w = (Inr pres, w')" and sec: "mpp_ScopedAuthorizationSecret pres \<noteq> None"
    by (simp add: mock_provider_def Mock_ExecuteMachinePayment_def Let_def)
  from sec obtain sec where sec: "mpp_ScopedAuthorizationSecret pres = Some sec" by blast
  show ?thesis
    using machine_authorization_round_trip[OF agree_uses_vault runtime_example_inv e pr ec m sec, of 9] e id
    by auto
qed


subsection \<open>Cards\<close>

text \<open>A successful card, step by step.\<close>

lemma issue_Inr:
  assumes "IssueVirtualCard p c clk req ec s = (Inr h, s')"
  obtains provider ec' s1 issue w' sec where
    "resolveProvider p (vcr_ProviderId req) = Inr provider"
    "normalizeContext ec (vcr_Environment req) = Inr ec'"
    "requireApprovalOrPolicyAllow p c (card_approval provider req ec') s = (Inr (), s1)"
    "pr_IssueVirtualCard provider c (clk 0)
       (req\<lparr>vcr_ProviderId := pr_GetProviderId provider, vcr_Environment := pec_Environment ec'\<rparr>) ec' (rt_world s1)
       = (Inr issue, w')"
    "h = vci_Handle issue" "vci_Secret issue = Some sec" "c = None"
    "rt_vault s' = snd (Store c (clk 2)
        (prepareSecretForVault sec (vch_HandleId h) (pr_GetProviderId provider) (pec_Environment ec')
           (vch_ValidUntilUtc h)) (resolveSecretTtl p (clk 1) (vch_ValidUntilUtc h)) False (rt_vault s1))"
proof -
  obtain provider where pr: "resolveProvider p (vcr_ProviderId req) = Inr provider"
    using assms by (cases "resolveProvider p (vcr_ProviderId req)") (simp_all add: IssueVirtualCard_def)
  obtain ec' where ec: "normalizeContext ec (vcr_Environment req) = Inr ec'"
    using assms pr by (cases "normalizeContext ec (vcr_Environment req)") (simp_all add: IssueVirtualCard_def)
  obtain s1 where g: "requireApprovalOrPolicyAllow p c (card_approval provider req ec') s = (Inr (), s1)"
    using assms pr ec by (auto simp: IssueVirtualCard_def elim!: bindS_InrE split: sum.splits)
  let ?call = "pr_IssueVirtualCard provider c (clk 0)
       (req\<lparr>vcr_ProviderId := pr_GetProviderId provider, vcr_Environment := pec_Environment ec'\<rparr>) ec' (rt_world s1)"
  obtain issue w' where i: "?call = (Inr issue, w')"
    using assms pr ec g
    by (cases ?call; cases "fst ?call")
       (auto simp: IssueVirtualCard_def call_provider_def Let_def split: sum.splits go_fail.splits)
  obtain sec where sec: "vci_Secret issue = Some sec"
    using assms pr ec g i
    by (cases "vci_Secret issue") (auto simp: IssueVirtualCard_def call_provider_def Let_def split: sum.splits)
  have c: "c = None"
    using assms pr ec g i sec
    by (cases c) (auto simp: IssueVirtualCard_def call_provider_def vault_store_def Store_def Let_def split: sum.splits)
  show thesis
    using assms pr ec g i sec c
    by (intro that[OF pr ec g i _ sec c])
       (auto simp: IssueVirtualCard_def call_provider_def vault_store_def Let_def Store_live split: sum.splits)
qed

text \<open>The secret of a card is never kept longer than the service's time to live, or a minute if that
  is more; and a card that was still valid when its secret was stored is gone from the vault, at the
  latest, when the card expires.\<close>

theorem resolveSecretTtl_bounds:
  "0 \<le> resolveSecretTtl (NewPaymentRuntimeService ps pol ap def ttl) now valid \<and>
   resolveSecretTtl (NewPaymentRuntimeService ps pol ap def ttl) now valid
     \<le> max (if ttl < 0 then 30 * Minute else ttl) Minute \<and>
   (case valid of None \<Rightarrow> True | Some t \<Rightarrow>
      (now < t \<longrightarrow> now + resolveSecretTtl (NewPaymentRuntimeService ps pol ap def ttl) now valid \<le> t))"
proof -
  have p: "prs_secretTtl (NewPaymentRuntimeService ps pol ap def ttl) = (if ttl < 0 then 30 * Minute else ttl)"
    by (simp add: NewPaymentRuntimeService_def split: prod.splits)
  show ?thesis
    by (cases valid) (auto simp: resolveSecretTtl_def p Let_def time_sub_def max_def min_def)
qed


theorem resolveSecretTtl_bounds_witness:
  "resolveSecretTtl (NewPaymentRuntimeService [] (Evaluate (NewDefaultPaymentPolicy None None None)) None [] (- 1))
     100 (Some 160) = 60 \<and> (100::int) + 60 \<le> 160"
  using resolveSecretTtl_bounds[of "[]" "Evaluate (NewDefaultPaymentPolicy None None None)" None "[]" "- 1" 100 "Some 160"]
  by (simp add: resolveSecretTtl_def NewPaymentRuntimeService_def time_sub_def)

lemma gate_test_mode:
  assumes "prs_policy p = Evaluate d" "allowTestModeWithoutApproval d"
    and "TryNormalizeEnvironment (ar_Environment req) = Some PaymentEnvTest"
  shows "requireApprovalOrPolicyAllow p None req s = (Inr (), asked p None req s)"
  using assms
  by (simp add: requireApprovalOrPolicyAllow_def asked_def Evaluate_def Let_def Denied_def Allowed_def
      EqualFold_def ToLower_def lower_char_def)

lemma asked_vault [simp]: "rt_vault (asked p c req s) = rt_vault s"
  by (simp add: asked_def)

text \<open>A card issued in test mode fills a browser form: until its secret expires, every non-empty
  field resolved under the card's handle is the field the provider returned.\<close>

theorem issued_card_resolves:
  fixes p :: "'w PaymentRuntimeService"
  assumes "approver_uses_vault p" "vault_inv (rt_vault s)"
    and "prs_policy p = Evaluate d" "allowTestModeWithoutApproval d"
    and "IssueVirtualCard p None clk req ec s = (Inr h, s')"
    and "resolveProvider p (vcr_ProviderId req) = Inr provider"
    and "normalizeContext ec (vcr_Environment req) = Inr ec'" "pec_Environment ec' = PaymentEnvTest"
    and "pr_IssueVirtualCard provider None (clk 0)
           (req\<lparr>vcr_ProviderId := pr_GetProviderId provider, vcr_Environment := pec_Environment ec'\<rparr>) ec'
           (rt_world (snd (requireApprovalOrPolicyAllow p None (card_approval provider req ec') s)))
         = (Inr issue, w')"
    and "vci_Secret issue = Some sec" "vch_HandleId h \<noteq> []"
    and "now \<le> clk 2 + resolveSecretTtl p (clk 1) (vch_ValidUntilUtc h)"
    and "0 \<le> resolveSecretTtl p (clk 1) (vch_ValidUntilUtc h)"
    and "ar_Environment areq = []" "Resolve f sec \<noteq> []"
  shows "fst (ResolveSecretFieldForApprovedBoundary p None now (vch_HandleId h) f areq s') = Inr (Resolve f sec)"
proof -
  let ?x = "prepareSecretForVault sec (vch_HandleId h) (pr_GetProviderId provider) (pec_Environment ec')
       (vch_ValidUntilUtc h)"
  let ?ttl = "resolveSecretTtl p (clk 1) (vch_ValidUntilUtc h)"
  obtain s1 where
    g: "requireApprovalOrPolicyAllow p None (card_approval provider req ec') s = (Inr (), s1)" and
    v: "rt_vault s' = snd (Store None (clk 2) ?x ?ttl False (rt_vault s1))"
    by (rule issue_Inr[OF assms(5)]) (use assms(6-10) in auto)
  have i: "vault_inv (rt_vault s1)" using gate_vault_inv[OF assms(1,2) g] .
  obtain a v' where t: "TryRetrieve None now (vch_HandleId h) (rt_vault s') = (Inr a, v')" "deref v' a = ?x"
    using vault.store_retrieve[OF i, of ?x now "clk 2" ?ttl False] assms(11-13) v
    by (auto simp: effective_ttl_def)
  let ?eff = "areq\<lparr>ar_ProviderId := (if ar_ProviderId areq = [] then pr_GetProviderId provider
       else ar_ProviderId areq), ar_Environment := PaymentEnvTest\<rparr>"
  have "effective_approval areq ?x = Inr ?eff"
    using assms(8,14) by (simp add: effective_approval_def prepareSecretForVault_def Let_def)
  moreover have "requireApprovalOrPolicyAllow p None ?eff u = (Inr (), asked p None ?eff u)" for u
    using gate_test_mode[OF assms(3,4), of ?eff] by simp
  ultimately show ?thesis
    using t assms(15) by (simp add: ResolveSecretFieldForApprovedBoundary_def Let_def)
qed

definition card_example :: VirtualCardRequest where
  "card_example =
     \<lparr>vcr_ProviderId = ''mock'', vcr_FundingSourceId = [], vcr_MerchantName = ''shop'', vcr_MerchantUrl = [],
      vcr_AmountMinor = 900, vcr_Currency = ''EUR'', vcr_Purpose = [], vcr_ValidUntilUtc = None,
      vcr_BuyerProfile = None, vcr_Environment = ''test''\<rparr>"

theorem issued_card_resolves_witness:
  "\<exists>h s'. IssueVirtualCard service_example None (\<lambda>_. 5) card_example context_example runtime_example = (Inr h, s') \<and>
     fst (ResolveSecretFieldForApprovedBoundary service_example None 9 (vch_HandleId h) SecretFieldPan
       (approval_example\<lparr>ar_Environment := []\<rparr>) s') = Inr ''4242424242424242''"
proof -
  let ?x = "IssueVirtualCard service_example None (\<lambda>_. 5) card_example context_example runtime_example"
  let ?pr = "mock_provider ''mock''"
  let ?w = "rt_world (snd (requireApprovalOrPolicyAllow service_example None
      (card_approval ?pr card_example context_example) runtime_example))"
  have "map_sum id (\<lambda>h. (vch_HandleId h, vch_ValidUntilUtc h)) (fst ?x) =
      Inr (''pvh_mock_000001'', Some (5 + 30 * Minute))" by code_simp
  then obtain h s' where e: "?x = (Inr h, s')"
    and h: "vch_HandleId h = ''pvh_mock_000001''" "vch_ValidUntilUtc h = Some (5 + 30 * Minute)"
    by (cases ?x; cases "fst ?x") auto
  have pr: "resolveProvider service_example (vcr_ProviderId card_example) = Inr ?pr"
    by (simp add: resolveProvider_def service_example_def NewPaymentRuntimeService_def mock_provider_def
        card_example_def)
  have ec: "normalizeContext context_example (vcr_Environment card_example) = Inr context_example"
    by (simp add: normalizeContext_def card_example_def context_example_def NormalizeEnvironment_Inr_iff[THEN iffD2])
  obtain issue w' sec where m: "pr_IssueVirtualCard ?pr None 5
      (card_example\<lparr>vcr_ProviderId := pr_GetProviderId ?pr, vcr_Environment := pec_Environment context_example\<rparr>)
      context_example ?w = (Inr issue, w')" and sec: "vci_Secret issue = Some sec" "sec_pan sec = ''4242424242424242''"
    by (simp add: mock_provider_def Mock_IssueVirtualCard_def Let_def)
  have ttl: "resolveSecretTtl service_example 5 (vch_ValidUntilUtc h) = 30 * Minute"
    by (simp add: h resolveSecretTtl_def service_example_def NewPaymentRuntimeService_def time_sub_def)
  have d: "allowTestModeWithoutApproval (NewDefaultPaymentPolicy None None (Some 500))"
    by (simp add: NewDefaultPaymentPolicy_def)
  have "pec_Environment context_example = PaymentEnvTest" by (simp add: context_example_def)
  from issued_card_resolves[OF agree_uses_vault runtime_example_inv service_example_policy d e pr ec this m sec(1),
      of 9 "approval_example\<lparr>ar_Environment := []\<rparr>" SecretFieldPan] e h ttl sec(2)
  show ?thesis by auto
qed

text \<open>C12: Once a handle is revoked no field of its secret can be resolved any more, whatever the policy
  and the approval service decide and whatever the other users of the vault do meanwhile.\<close>

theorem revoked_never_resolves:
  assumes "approver_uses_vault p" "vault_inv (rt_vault s)" "h \<noteq> []"
  shows "\<not> is_ok (fst (ResolveSecretFieldForApprovedBoundary p c now h f areq
     (s\<lparr>rt_vault := Revoke h (rt_vault s)\<rparr>)))"
proof (cases "TryRetrieve c now h (Revoke h (rt_vault s))")
  case (Pair r v)
  show ?thesis
  proof (cases r)
    case (Inl e)
    with Pair show ?thesis by (cases e) (simp_all add: ResolveSecretFieldForApprovedBoundary_def)
  next
    case (Inr a)
    note t = TryRetrieve_Inr[OF Pair[unfolded Inr]]
    have "map_of (entries (rt_vault s)) h = Some a"
      using t assms(3) by (simp add: Revoke_def split: option.splits)
    then have "erased a (Revoke h (rt_vault s))"
      using assms vault_invD(1)[OF assms(2)] by (simp add: Revoke_def erased_def deref_def nth_clear_at)
    with t have e: "erased a v" by (simp add: erased_def deref_def)
    have gone: "Resolve f (deref (rt_vault s3) a) = []"
      if "requireApprovalOrPolicyAllow p c q s2 = (Inr u, s3)" "rt_vault s2 = v" for q s2 s3 u
      using gate_vault[OF assms(1), of s2 c q] that e erased_steps erased_Resolve by fastforce
    show ?thesis
      using Pair Inr
      by (auto simp: ResolveSecretFieldForApprovedBoundary_def Let_def split: sum.splits prod.splits go_fail.splits
          dest!: gone)
  qed
qed

theorem revoked_never_resolves_witness:
  "\<not> is_ok (fst (ResolveSecretFieldForApprovedBoundary service_example None 9 ''pvh_1'' SecretFieldPan
     approval_example (runtime_example\<lparr>rt_vault :=
       Revoke ''pvh_1'' (snd (Store None 5 secret_example 30 False NewInMemoryPaymentSecretVault))\<rparr>)))"
proof -
  let ?s = "runtime_example\<lparr>rt_vault := snd (Store None 5 secret_example 30 False NewInMemoryPaymentSecretVault)\<rparr>"
  have "vault_inv (rt_vault ?s)" using Store_inv[OF vault_machine.inv_init] by simp
  from revoked_never_resolves[OF agree_uses_vault this, of "''pvh_1''"] show ?thesis by simp
qed

end
