(* ===== verification/Pay_Sentinel.thy ===== *)
theory Pay_Sentinel
  imports Pay_Runtime
begin

section \<open>Sentinels and card numbers\<close>

text \<open>
  \<open>src/openclaw/payments/sentinel.go\<close>: placeholders \<open>{{payment.vcard:handle:field}}\<close> in the
  arguments of the browser tool are replaced by card data just before execution, while the
  arguments that are kept stay as they were. \<open>src/openclaw/payments/sensitive.go\<close>: the digit
  filter and the Luhn check of the redactor; its other rules are regular expressions and are
  not modelled.

  The regular expression of a sentinel is written out as a matcher: the class of the handle
  contains every character of \<open>:field\<close> but not the closing brace, so a match takes the whole run
  of such characters and splits it at its last colon. The decoded arguments and the function
  that rewrites one property of a JSON text are parameters (\<open>encoding/json\<close>).
\<close>

subsection \<open>Replacing\<close>

text \<open>\<open>bytes.ReplaceAll\<close> for a non-empty old text.\<close>

function ReplaceAll :: "string \<Rightarrow> string \<Rightarrow> string \<Rightarrow> string" where
  "ReplaceAll [] old new = []"
| "ReplaceAll (ch # s) old new =
     (if old \<noteq> [] \<and> prefix old (ch # s) then new @ ReplaceAll (drop (length old) (ch # s)) old new
      else ch # ReplaceAll s old new)"
  by pat_completeness auto
termination by (relation "measure (\<lambda>(s, _, _). length s)") (auto simp: not_less_eq_eq Suc_le_eq)

lemma ReplaceAll_absent: "\<not> sublist old s \<Longrightarrow> ReplaceAll s old new = s"
proof (induction s old new rule: ReplaceAll.induct)
  case (2 ch s old new)
  then have "\<not> prefix old (ch # s)" "\<not> sublist old s"
    by (auto simp: sublist_Cons_right)
  with 2 show ?case by simp
qed simp

subsection \<open>The matcher\<close>

definition sentinel_open :: string where
  "sentinel_open = ''{{payment.vcard:''"

definition handle_char :: "char \<Rightarrow> bool" where
  "handle_char ch \<longleftrightarrow> (65 \<le> byte ch \<and> byte ch \<le> 90) \<or> (97 \<le> byte ch \<and> byte ch \<le> 122) \<or> is_digit ch
     \<or> ch \<in> {CHR ''_'', CHR ''.'', CHR '':'', CHR ''-''}"

definition sentinel_fields :: "string list" where
  "sentinel_fields = [''pan'', ''cvv'', ''exp_month'', ''exp_year'', ''exp_mm_yy'', ''exp_mm_yyyy'', ''postal_code'']"

text \<open>A match: the handle and the field.\<close>

definition full_match :: "string \<times> string \<Rightarrow> string" where
  "full_match m = sentinel_open @ fst m @ '':'' @ snd m @ ''}}''"

definition match_here :: "string \<Rightarrow> (string \<times> string) option" where
  "match_here s =
     (if \<not> prefix sentinel_open s then None
      else (let body = drop (length sentinel_open) s;
                run = takeWhile handle_char body;
                field = rev (takeWhile (\<lambda>ch. ch \<noteq> CHR '':'') (rev run));
                handle = take (length run - length field - 1) run
            in if prefix ''}}'' (drop (length run) body) \<and> CHR '':'' \<in> set run \<and> handle \<noteq> []
                  \<and> field \<in> set sentinel_fields
               then Some (handle, field) else None))"

lemma run_split:
  assumes "CHR '':'' \<in> set run" "field = rev (takeWhile (\<lambda>ch. ch \<noteq> CHR '':'') (rev run))"
  shows "run = take (length run - length field - 1) run @ '':'' @ field" "length field < length run"
proof -
  let ?p = "\<lambda>ch. ch \<noteq> CHR '':''"
  obtain z where d: "dropWhile ?p (rev run) = CHR '':'' # z"
  proof -
    have "dropWhile ?p (rev run) \<noteq> []" using assms(1) by (simp add: dropWhile_eq_Nil_conv)
    then show ?thesis using hd_dropWhile[of ?p "rev run"] that by (cases "dropWhile ?p (rev run)") auto
  qed
  have "run = rev (dropWhile ?p (rev run)) @ field"
    using assms(2) by (metis rev_append rev_rev_ident takeWhile_dropWhile_id)
  then have run: "run = rev z @ '':'' @ field" using d by simp
  then have "length run - length field - 1 = length (rev z)" by simp
  with run show "run = take (length run - length field - 1) run @ '':'' @ field"
    by (metis append_eq_conv_conj)
  show "length field < length run" using run by simp
qed

lemma match_here_prefix:
  assumes "match_here s = Some m"
  shows "prefix (full_match m) s"
proof -
  obtain body where s: "s = sentinel_open @ body"
    using assms by (auto simp: match_here_def Let_def prefix_def split: if_splits)
  let ?run = "takeWhile handle_char body"
  let ?field = "rev (takeWhile (\<lambda>ch. ch \<noteq> CHR '':'') (rev ?run))"
  have c: "prefix ''}}'' (drop (length ?run) body)" "CHR '':'' \<in> set ?run"
    and m: "m = (take (length ?run - length ?field - 1) ?run, ?field)"
    using assms s by (auto simp: match_here_def Let_def split: if_splits)
  have "full_match m = sentinel_open @ ?run @ ''}}''"
    using run_split(1)[OF c(2) refl] m by (simp add: full_match_def)
  moreover have "body = ?run @ drop (length ?run) body"
    by (metis append_eq_conv_conj takeWhile_dropWhile_id)
  ultimately show ?thesis using c(1) s by (metis append_assoc same_prefix_prefix)
qed

text \<open>\<open>FindAllStringSubmatch\<close>: matches from left to right that do not overlap.\<close>

function find_all :: "string \<Rightarrow> (string \<times> string) list" where
  "find_all [] = []"
| "find_all (ch # s) =
     (case match_here (ch # s) of
        None \<Rightarrow> find_all s
      | Some m \<Rightarrow> m # find_all (drop (length (full_match m)) (ch # s)))"
  by pat_completeness auto
termination
  by (relation "measure length") (auto simp: full_match_def sentinel_open_def)

definition MatchString :: "string \<Rightarrow> bool" where
  "MatchString s \<longleftrightarrow> find_all s \<noteq> []"

subsection \<open>Substitution\<close>

definition parseField :: "string \<Rightarrow> PaymentSecretField go_result" where
  "parseField field =
     (if field = ''pan'' then Inr SecretFieldPan
      else if field = ''cvv'' then Inr SecretFieldCvv
      else if field = ''exp_month'' then Inr SecretFieldExpMonth
      else if field = ''exp_year'' then Inr SecretFieldExpYear
      else if field = ''exp_mm_yy'' then Inr SecretFieldExpMonthYearShort
      else if field = ''exp_mm_yyyy'' then Inr SecretFieldExpMonthYearLong
      else if field = ''postal_code'' then Inr SecretFieldPostalCode
      else Inl (GoErr (''unsupported payment sentinel field '' @ [CHR 0x27] @ field @ [CHR 0x27])))"

record SentinelContext =
  sc_ToolName :: string
  sc_ArgumentsJson :: string
  sc_PaymentEnvironment :: string
  sc_PaymentProviderId :: string
  sc_SessionId :: string
  sc_ChannelId :: string
  sc_SenderId :: string
  sc_CorrelationId :: string
  sc_WorkspaceId :: string

record SentinelResult =
  sr_ExecutionArgumentsJson :: string
  sr_PersistedArgumentsJson :: string
  sr_Substituted :: bool

definition sentinel_approval :: "SentinelContext \<Rightarrow> string \<Rightarrow> ApprovalRequest" where
  "sentinel_approval sc handleID =
     \<lparr>ar_Action = ActionBrowserSentinelFill,
      ar_Summary = ''Fill browser checkout field using payment handle '' @ handleID @ ''.'',
      ar_Severity = SeverityCritical, ar_MerchantName = [], ar_AmountMinor = 0, ar_Currency = [],
      ar_FundingSourceDisplay = [], ar_ProviderId = sc_PaymentProviderId sc, ar_ExpiresAtUtc = None,
      ar_Environment = sc_PaymentEnvironment sc, ar_AgentId = [], ar_WorkspaceId = [],
      ar_SessionId = sc_SessionId sc, ar_ChannelId = sc_ChannelId sc, ar_SenderId = sc_SenderId sc,
      ar_CliConfirmed = False\<rparr>"

text \<open>The loop over the matches; \<open>clk i\<close> is the clock when match number \<open>i\<close> is resolved.\<close>

fun substitute_loop ::
  "'w PaymentRuntimeService \<Rightarrow> ctx \<Rightarrow> (nat \<Rightarrow> int) \<Rightarrow> SentinelContext \<Rightarrow> (string \<times> string) list \<Rightarrow> nat \<Rightarrow> string
     \<Rightarrow> 'w Runtime \<Rightarrow> string go_result \<times> 'w Runtime" where
  "substitute_loop p c clk sc [] i executionValue s = (Inr executionValue, s)"
| "substitute_loop p c clk sc (m # ms) i executionValue s =
     (case parseField (snd m) of
        Inl e \<Rightarrow> (Inl e, s)
      | Inr field \<Rightarrow>
          bindS (ResolveSecretFieldForApprovedBoundary p c (clk i) (fst m) field (sentinel_approval sc (fst m)) s)
            (\<lambda>raw s1. substitute_loop p c clk sc ms (Suc i) (ReplaceAll executionValue (full_match m) raw) s1))"

text \<open>The arguments after decoding: the properties \<open>action\<close> and \<open>value\<close>, when they are strings.\<close>

record fill_args =
  fa_action :: "string option"
  fa_value :: "string option"

definition unchanged :: "SentinelContext \<Rightarrow> SentinelResult" where
  "unchanged sc =
     \<lparr>sr_ExecutionArgumentsJson = sc_ArgumentsJson sc, sr_PersistedArgumentsJson = sc_ArgumentsJson sc,
      sr_Substituted = False\<rparr>"

definition Substitute ::
  "(string \<Rightarrow> fill_args go_result) \<Rightarrow> (string \<Rightarrow> string \<Rightarrow> string \<Rightarrow> string go_result)
     \<Rightarrow> 'w PaymentRuntimeService \<Rightarrow> ctx \<Rightarrow> (nat \<Rightarrow> int) \<Rightarrow> SentinelContext \<Rightarrow> 'w Runtime
     \<Rightarrow> SentinelResult go_result \<times> 'w Runtime" where
  "Substitute unmarshal replaceRootStringProperty p c clk sc s =
     (if sc_ToolName sc \<noteq> ''browser'' \<or> \<not> MatchString (sc_ArgumentsJson sc) then (Inr (unchanged sc), s)
      else (case unmarshal (sc_ArgumentsJson sc) of
        Inl (GoErr e) \<Rightarrow> (Inl (GoErr (''invalid json format: '' @ e)), s)
      | Inl f \<Rightarrow> (Inl f, s)
      | Inr args \<Rightarrow>
          if fa_action args \<noteq> Some ''fill''
          then (Inl (GoErr ''payment sentinels may only be resolved inside browser fill execution''), s)
          else (case fa_value args of
            None \<Rightarrow> (Inl (GoErr ''payment sentinel fill requires a string value''), s)
          | Some valueVal \<Rightarrow>
              (let matches = find_all valueVal in
               if matches = [] then (Inr (unchanged sc), s)
               else bindS (substitute_loop p c clk sc matches 0 valueVal s) (\<lambda>executionValue s1.
                 (case replaceRootStringProperty (sc_ArgumentsJson sc) ''value'' executionValue of
                    Inl e \<Rightarrow> (Inl e, s1)
                  | Inr executionJSON \<Rightarrow>
                      (Inr \<lparr>sr_ExecutionArgumentsJson = executionJSON,
                            sr_PersistedArgumentsJson = sc_ArgumentsJson sc, sr_Substituted = True\<rparr>, s1)))))))"


subsection \<open>What is kept never holds a secret\<close>

text \<open>Whatever the sentinels in the arguments of a tool call resolve to, the arguments kept in the
  session are the original ones; the arguments executed differ from them only for a \<open>fill\<close> of the
  browser tool, and when nothing was substituted neither the vault nor the audit log was touched.\<close>

theorem persisted_arguments_unchanged:
  assumes "Substitute unmarshal replaceRoot p c clk sc s = (Inr r, s')"
  shows "sr_PersistedArgumentsJson r = sc_ArgumentsJson sc \<and>
     (\<not> sr_Substituted r \<longrightarrow> sr_ExecutionArgumentsJson r = sc_ArgumentsJson sc \<and> s' = s) \<and>
     (sr_Substituted r \<longrightarrow> sc_ToolName sc = ''browser'' \<and>
        (\<exists>args v. unmarshal (sc_ArgumentsJson sc) = Inr args \<and> fa_action args = Some ''fill'' \<and>
           fa_value args = Some v \<and> find_all v \<noteq> [] \<and>
           is_ok (fst (substitute_loop p c clk sc (find_all v) 0 v s))))"
proof (cases "sc_ToolName sc \<noteq> ''browser'' \<or> \<not> MatchString (sc_ArgumentsJson sc)")
  case True
  with assms show ?thesis by (auto simp: Substitute_def unchanged_def)
next
  case False
  with assms obtain args where u: "unmarshal (sc_ArgumentsJson sc) = Inr args" "fa_action args = Some ''fill''"
    by (auto simp: Substitute_def split: sum.splits go_fail.splits if_splits)
  with assms False obtain v where v: "fa_value args = Some v"
    by (cases "fa_value args") (auto simp: Substitute_def)
  show ?thesis
  proof (cases "find_all v = []")
    case True
    with assms False u v show ?thesis by (auto simp: Substitute_def unchanged_def)
  next
    case ne: False
    obtain x s1 where l: "substitute_loop p c clk sc (find_all v) 0 v s = (Inr x, s1)"
      using assms False u v ne by (auto simp: Substitute_def Let_def elim!: bindS_InrE)
    with assms False u v ne show ?thesis
      by (auto simp: Substitute_def Let_def split: sum.splits)
  qed
qed

definition sentinel_example :: SentinelContext where
  "sentinel_example =
     \<lparr>sc_ToolName = ''browser'', sc_ArgumentsJson = ''{{payment.vcard:pvh_1:pan}}'',
      sc_PaymentEnvironment = ''test'', sc_PaymentProviderId = ''mock'', sc_SessionId = [],
      sc_ChannelId = [], sc_SenderId = [], sc_CorrelationId = [], sc_WorkspaceId = []\<rparr>"

definition raw_value :: "string \<Rightarrow> fill_args go_result" where
  "raw_value s = Inr \<lparr>fa_action = Some ''fill'', fa_value = Some s\<rparr>"

definition set_value :: "string \<Rightarrow> string \<Rightarrow> string \<Rightarrow> string go_result" where
  "set_value s k v = Inr v"

theorem persisted_arguments_unchanged_witness:
  "\<exists>r s'. Substitute raw_value set_value service_example None (\<lambda>_. 9) sentinel_example
       (runtime_example\<lparr>rt_vault := snd (Store None 5 secret_example 30 False NewInMemoryPaymentSecretVault)\<rparr>)
       = (Inr r, s') \<and>
     sr_ExecutionArgumentsJson r = ''4242424242424242'' \<and>
     sr_PersistedArgumentsJson r = ''{{payment.vcard:pvh_1:pan}}''"
proof -
  let ?x = "Substitute raw_value set_value service_example None (\<lambda>_. 9) sentinel_example
       (runtime_example\<lparr>rt_vault := snd (Store None 5 secret_example 30 False NewInMemoryPaymentSecretVault)\<rparr>)"
  have "map_sum id sr_ExecutionArgumentsJson (fst ?x) = Inr ''4242424242424242''" by code_simp
  then obtain r s' where e: "?x = (Inr r, s')" and x: "sr_ExecutionArgumentsJson r = ''4242424242424242''"
    by (cases ?x; cases "fst ?x") auto
  from persisted_arguments_unchanged[OF e] e x show ?thesis by (simp add: sentinel_example_def)
qed

subsection \<open>Card numbers\<close>

definition stripDigits :: "string \<Rightarrow> string" where
  "stripDigits s = filter is_digit s"

definition isPotentialPan :: "string \<Rightarrow> bool" where
  "isPotentialPan digits \<longleftrightarrow> 13 \<le> length digits \<and> length digits \<le> 19"

text \<open>The loop runs from the last byte to the first: over the reversed list.\<close>

fun luhn_loop :: "string \<Rightarrow> bool \<Rightarrow> int \<Rightarrow> int" where
  "luhn_loop [] alternate acc = acc"
| "luhn_loop (ch # s) alternate acc =
     (let n = (int (byte ch) - 48) mod 256;
          n2 = (if alternate then (if n * 2 > 9 then n * 2 - 9 else n * 2) else n)
      in luhn_loop s (\<not> alternate) (acc + n2))"

definition passesLuhn :: "string \<Rightarrow> bool" where
  "passesLuhn digits \<longleftrightarrow> luhn_loop (rev digits) False 0 mod 10 = 0"

definition luhn_value :: "bool \<Rightarrow> char \<Rightarrow> int" where
  "luhn_value alternate ch =
     (let n = (int (byte ch) - 48) mod 256
      in if alternate then (if n * 2 > 9 then n * 2 - 9 else n * 2) else n)"

fun luhn_sum :: "string \<Rightarrow> bool \<Rightarrow> int" where
  "luhn_sum [] a = 0"
| "luhn_sum (ch # s) a = luhn_value a ch + luhn_sum s (\<not> a)"

lemma luhn_loop_sum: "luhn_loop xs a t = t + luhn_sum xs a"
  by (induction xs a t rule: luhn_loop.induct) (simp_all add: luhn_value_def Let_def)

lemma luhn_sum_update:
  "i < length xs \<Longrightarrow> luhn_sum (xs[i := d]) a =
     luhn_sum xs a - luhn_value (a \<noteq> odd i) (xs ! i) + luhn_value (a \<noteq> odd i) d"
proof (induction xs arbitrary: i a)
  case (Cons x xs)
  then show ?case by (cases i; cases a) simp_all
qed simp

lemma digit_offset: "is_digit ch \<Longrightarrow> (int (byte ch) - 48) mod 256 = int (byte ch) - 48"
  by (auto simp: is_digit_def)

lemma luhn_value_range:
  assumes "is_digit ch"
  shows "0 \<le> luhn_value a ch" "luhn_value a ch \<le> 9"
  using assms by (auto simp: luhn_value_def Let_def digit_offset) (auto simp: is_digit_def)

lemma luhn_value_inj:
  assumes "is_digit x" "is_digit y" "luhn_value a x = luhn_value a y"
  shows "x = y"
proof -
  have "int (byte x) = int (byte y)"
    using assms by (cases a) (auto simp: luhn_value_def Let_def digit_offset split: if_splits; presburger)+
  then show ?thesis by simp
qed

text \<open>The Luhn check of the redactor catches every single wrong digit: a number that passes no longer
  passes once any one of its digits is changed.\<close>

theorem luhn_detects_single_digit:
  assumes "list_all is_digit ds" "passesLuhn ds" "i < length ds" "is_digit d" "d \<noteq> ds ! i"
  shows "\<not> passesLuhn (ds[i := d])"
proof
  let ?j = "length ds - 1 - i" let ?a = "odd (length ds - 1 - i)"
  assume "passesLuhn (ds[i := d])"
  moreover have "rev (ds[i := d]) = (rev ds)[?j := d]" using assms(3) by (simp add: rev_update)
  ultimately have "luhn_loop ((rev ds)[?j := d]) False 0 mod 10 = 0" by (simp add: passesLuhn_def)
  moreover have "rev ds ! ?j = ds ! i" using assms(3) by (simp add: rev_nth)
  ultimately have "(luhn_loop (rev ds) False 0 - luhn_value ?a (ds ! i) + luhn_value ?a d) mod 10 = 0"
    using luhn_sum_update[of ?j "rev ds" d False] assms(3) by (auto simp: luhn_loop_sum)
  moreover have "luhn_loop (rev ds) False 0 mod 10 = 0" using assms(2) by (simp add: passesLuhn_def)
  ultimately have m: "(luhn_value ?a d - luhn_value ?a (ds ! i)) mod 10 = 0" by presburger
  have dg: "is_digit (ds ! i)" using assms(1,3) by (simp add: list_all_length)
  have "luhn_value ?a d = luhn_value ?a (ds ! i)"
    using m luhn_value_range[OF assms(4), of ?a] luhn_value_range[OF dg, of ?a] by presburger
  then show False using luhn_value_inj[OF assms(4) dg] assms(5) by blast
qed

theorem luhn_detects_single_digit_witness:
  "passesLuhn ''4242424242424242'' \<and> \<not> passesLuhn (''4242424242424242''[3 := CHR ''7''])"
proof -
  have a: "list_all is_digit ''4242424242424242''" and p: "passesLuhn ''4242424242424242''"
    and d: "is_digit (CHR ''7'')" by code_simp+
  have "CHR ''7'' \<noteq> ''4242424242424242'' ! 3" by (simp add: eval_nat_numeral)
  then show ?thesis using luhn_detects_single_digit[OF a p, of 3 "CHR ''7''"] d p by simp
qed

end
