(* ===== verification/Pay_Http.thy ===== *)
theory Pay_Http
  imports Pay_Runtime
begin

section \<open>Paying for HTTP resources\<close>

text \<open>
  \<open>src/openclaw/payments/round_tripper.go\<close>: a transport that answers a status 402 by paying and
  sending the request once more with the authorization it bought. The next transport is a
  parameter over its own state \<open>'h\<close>. A body is \<open>None\<close> when there is none, else the result of
  reading it to the end. Headers are association lists with canonical keys. The flag \<open>rs_BodyClosed\<close>
  marks a response whose body was already read and closed, as the source leaves it on one path.
\<close>

record HttpRequest =
  rq_URL :: "string option"
  rq_Header :: "(string \<times> string) list"
  rq_Body :: "string go_result option"
  rq_ContentLength :: int

record HttpResponse =
  rs_StatusCode :: int
  rs_Header :: "(string \<times> string) list"
  rs_Body :: "string go_result option"
  rs_BodyClosed :: bool

type_synonym 'h Transport = "HttpRequest \<Rightarrow> 'h \<Rightarrow> HttpResponse go_result \<times> 'h"

record 'h PaymentAwareRoundTripper =
  par_next :: "'h Transport"
  par_execContext :: PaymentExecutionContext
  par_providerId :: string

definition NewPaymentAwareRoundTripper ::
  "'h Transport \<Rightarrow> PaymentExecutionContext \<Rightarrow> string \<Rightarrow> 'h Transport option \<Rightarrow> 'h PaymentAwareRoundTripper" where
  "NewPaymentAwareRoundTripper defaultTransport execContext providerId nxt =
     \<lparr>par_next = (case nxt of None \<Rightarrow> defaultTransport | Some t \<Rightarrow> t),
      par_execContext = execContext, par_providerId = providerId\<rparr>"

subsection \<open>Reading the challenge\<close>

definition IndexAny :: "string \<Rightarrow> string \<Rightarrow> nat option" where
  "IndexAny s chars =
     (let n = length (takeWhile (\<lambda>ch. ch \<notin> set chars) s) in if n < length s then Some n else None)"

definition extractKeyValue :: "string \<Rightarrow> string \<Rightarrow> string" where
  "extractKeyValue txt key =
     (let needle = key @ ''='' in
      case Index (ToLower txt) needle of
        None \<Rightarrow> []
      | Some idx \<Rightarrow>
          (let rest = drop (idx + length needle) txt;
               val = (case IndexAny rest ('';,'' @ [CHR 0x0A, CHR 0x0D]) of None \<Rightarrow> rest | Some e \<Rightarrow> take e rest)
           in Trim (\<lambda>ch. ch = CHR 0x22 \<or> ch = CHR 0x27) (TrimSpace val)))"

fun firstNonEmpty :: "string list \<Rightarrow> string" where
  "firstNonEmpty [] = []"
| "firstNonEmpty (v # vs) = (if v \<noteq> [] then v else firstNonEmpty vs)"

text \<open>\<open>strconv.ParseInt\<close> with its error ignored: the value is 0 for a syntax error and the nearest
  \<open>int64\<close> for a number out of range.\<close>

definition ParseInt_ignoring :: "string \<Rightarrow> int" where
  "ParseInt_ignoring s =
     (let neg = (s \<noteq> [] \<and> hd s = CHR ''-'');
          ds = (if s \<noteq> [] \<and> (hd s = CHR ''-'' \<or> hd s = CHR ''+'') then tl s else s);
          v = (if neg then - undecimal ds else undecimal ds)
      in if ds = [] \<or> \<not> list_all is_digit ds then 0 else max min_i64 (min max_i64 v))"

definition parseMachinePaymentChallenge :: "HttpResponse \<Rightarrow> MachinePaymentChallenge option" where
  "parseMachinePaymentChallenge resp =
     (let headerVal = (case map_of (rs_Header resp) ''Payment-Required'' of None \<Rightarrow> [] | Some v \<Rightarrow> v);
          challengeText =
            (if headerVal \<noteq> [] then headerVal
             else (case rs_Body resp of Some (Inr b) \<Rightarrow> b | _ \<Rightarrow> []))
      in if TrimSpace challengeText = [] then None
         else Some \<lparr>mpc_ChallengeId =
                      firstNonEmpty [extractKeyValue challengeText ''challenge'', extractKeyValue challengeText ''id''],
                    mpc_Protocol = (if Contains (ToLower challengeText) ''x402'' then ''x402'' else ''http-402''),
                    mpc_ResourceUrl = [],
                    mpc_MerchantName = extractKeyValue challengeText ''merchant'',
                    mpc_AmountMinor = ParseInt_ignoring (extractKeyValue challengeText ''amount''),
                    mpc_Currency = firstNonEmpty [extractKeyValue challengeText ''currency'', ''USD''],
                    mpc_ProviderId = [], mpc_SafeMetadata = []\<rparr>)"

subsection \<open>The round trip\<close>

definition complete_challenge :: "string \<Rightarrow> HttpRequest \<Rightarrow> MachinePaymentChallenge \<Rightarrow> MachinePaymentChallenge" where
  "complete_challenge providerId req ch =
     ch\<lparr>mpc_ResourceUrl := (case rq_URL req of
           Some u \<Rightarrow> (if mpc_ResourceUrl ch = [] then u else mpc_ResourceUrl ch)
         | None \<Rightarrow> mpc_ResourceUrl ch),
        mpc_ProviderId := (if mpc_ProviderId ch = [] then providerId else mpc_ProviderId ch)\<rparr>"

definition retry_request :: "HttpRequest \<Rightarrow> string \<Rightarrow> string \<Rightarrow> HttpRequest" where
  "retry_request req bodyBytes authHeader =
     (let r = req\<lparr>rq_Header := AList.update ''Authorization'' authHeader (rq_Header req)\<rparr> in
      if bodyBytes \<noteq> [] then r\<lparr>rq_Body := Some (Inr bodyBytes), rq_ContentLength := int (length bodyBytes)\<rparr>
      else r)"

definition wrapErr :: "string \<Rightarrow> go_fail \<Rightarrow> go_fail" where
  "wrapErr msg f = (case f of GoErr e \<Rightarrow> GoErr (msg @ e) | _ \<Rightarrow> f)"

text \<open>\<open>clk 3\<close> is the clock when the authorization is fetched; the request's context is \<open>c\<close>.\<close>

definition RoundTrip ::
  "'h PaymentAwareRoundTripper \<Rightarrow> 'w PaymentRuntimeService \<Rightarrow> ctx \<Rightarrow> (nat \<Rightarrow> int) \<Rightarrow> HttpRequest
     \<Rightarrow> 'w Runtime \<times> 'h \<Rightarrow> HttpResponse go_result \<times> ('w Runtime \<times> 'h)" where
  "RoundTrip t p c clk req st =
     (let s = fst st; h = snd st in
      case (case rq_Body req of None \<Rightarrow> Inr [] | Some b \<Rightarrow> b) of
        Inl e \<Rightarrow> (Inl (wrapErr ''read request body failed: '' e), st)
      | Inr bodyBytes \<Rightarrow>
     (case par_next t req h of
        (Inl e, h1) \<Rightarrow> (Inl e, (s, h1))
      | (Inr resp, h1) \<Rightarrow>
          if rs_StatusCode resp \<noteq> 402 then (Inr resp, (s, h1))
          else (case parseMachinePaymentChallenge resp of
             None \<Rightarrow> (Inr (resp\<lparr>rs_BodyClosed := True\<rparr>), (s, h1))
           | Some ch0 \<Rightarrow>
               (let ch = complete_challenge (par_providerId t) req ch0;
                    mreq = \<lparr>mpr_ProviderId = par_providerId t, mpr_Challenge = ch, mpr_FundingSourceId = [],
                            mpr_Environment = pec_Environment (par_execContext t), mpr_IdempotencyKey = []\<rparr>
                in case ExecuteMachinePayment p c clk mreq (par_execContext t) s of
                     (Inl e, s1) \<Rightarrow> (Inl (wrapErr ''execute machine payment failed: '' e), (s1, h1))
                   | (Inr payResult, s1) \<Rightarrow>
                       (case RetrieveMachineAuthorizationOnce c (clk 3) (mres_PaymentId payResult) s1 of
                          (Inl e, s2) \<Rightarrow> (Inl (wrapErr ''failed to retrieve payment authorization header: '' e), (s2, h1))
                        | (Inr a, s2) \<Rightarrow>
                            (let authHeader = Resolve SecretFieldAuthorizationHeader (deref (rt_vault s2) a) in
                             if authHeader = []
                             then (Inl (GoErr ''machine payment provider did not return scoped authorization''), (s2, h1))
                             else (case par_next t (retry_request req bodyBytes authHeader) h1 of
                                     (r, h2) \<Rightarrow> (r, (s2, h2)))))))))"

text \<open>The transport pays only for what asks for payment: when the server does not answer 402, or gives
  no challenge, the request is sent once, as it was, and no payment, audit event or secret results.
  When it does pay, the answer is that of the same request with only the authorization added.\<close>

theorem pays_only_on_402:
  assumes "RoundTrip t p c clk req (s, h) = (Inr r, (s', h'))"
  shows "\<exists>resp h1. par_next t req h = (Inr resp, h1) \<and>
     ((rs_StatusCode resp \<noteq> 402 \<or> parseMachinePaymentChallenge resp = None) \<longrightarrow>
        s' = s \<and> h' = h1 \<and> r\<lparr>rs_BodyClosed := rs_BodyClosed resp\<rparr> = resp) \<and>
     (rs_StatusCode resp = 402 \<and> parseMachinePaymentChallenge resp \<noteq> None \<longrightarrow>
        (\<exists>req2 auth. auth \<noteq> [] \<and> par_next t req2 h1 = (Inr r, h') \<and> rq_URL req2 = rq_URL req \<and>
           map_of (rq_Header req2) = (map_of (rq_Header req))(''Authorization'' \<mapsto> auth) \<and>
           (case rq_Body req of Some (Inr b) \<Rightarrow> rq_Body req2 = Some (Inr b) | _ \<Rightarrow> rq_Body req2 = rq_Body req)))"
proof -
  obtain b where b: "(case rq_Body req of None \<Rightarrow> Inr [] | Some b \<Rightarrow> b) = Inr b"
    using assms by (auto simp: RoundTrip_def split: sum.splits)
  obtain resp h1 where n: "par_next t req h = (Inr resp, h1)"
    using assms b by (auto simp: RoundTrip_def split: sum.splits prod.splits)
  show ?thesis
  proof (cases "rs_StatusCode resp \<noteq> 402 \<or> parseMachinePaymentChallenge resp = None")
    case True
    with assms b n show ?thesis by (auto simp: RoundTrip_def split: if_splits option.splits)
  next
    case False
    then obtain ch0 where ch0: "parseMachinePaymentChallenge resp = Some ch0" by auto
    from assms b n False ch0 obtain auth where a: "auth \<noteq> []" "par_next t (retry_request req b auth) h1 = (Inr r, h')"
      by (auto simp: RoundTrip_def Let_def split: sum.splits prod.splits if_splits)
    moreover have "case rq_Body req of Some (Inr b') \<Rightarrow> rq_Body (retry_request req b auth) = Some (Inr b')
        | _ \<Rightarrow> rq_Body (retry_request req b auth) = rq_Body req"
      using b by (auto simp: retry_request_def Let_def split: option.splits sum.splits)
    ultimately show ?thesis
      using False n by (auto simp: retry_request_def Let_def update_conv' intro!: exI[of _ "retry_request req b auth"])
  qed
qed

definition paid_server :: "HttpRequest \<Rightarrow> nat \<Rightarrow> HttpResponse go_result \<times> nat" where
  "paid_server req n =
     (Inr \<lparr>rs_StatusCode = (if map_of (rq_Header req) ''Authorization'' = None then 402 else 200),
           rs_Header = [], rs_Body = Some (Inr ''amount=250; merchant=shop''), rs_BodyClosed = False\<rparr>, n + 1)"

definition get_example :: HttpRequest where
  "get_example = \<lparr>rq_URL = Some ''https://x/y'', rq_Header = [], rq_Body = None, rq_ContentLength = 0\<rparr>"

theorem pays_only_on_402_witness:
  "\<exists>r s' h'. RoundTrip (NewPaymentAwareRoundTripper paid_server context_example ''mock'' None) service_example None
       (\<lambda>_. 5) get_example (runtime_example, 0) = (Inr r, (s', h')) \<and>
     (\<exists>req2 auth. auth \<noteq> [] \<and> fst (paid_server req2 1) = Inr r \<and> map_of (rq_Header req2) ''Authorization'' = Some auth)"
proof -
  let ?t = "NewPaymentAwareRoundTripper paid_server context_example ''mock'' None"
  let ?x = "RoundTrip ?t service_example None (\<lambda>_. 5) get_example (runtime_example, 0)"
  have "is_ok (fst ?x)" by code_simp
  then obtain r s' h' where e: "?x = (Inr r, (s', h'))" by (cases ?x; cases "snd ?x") (auto simp: is_ok_iff)
  let ?resp = "\<lparr>rs_StatusCode = 402, rs_Header = [], rs_Body = Some (Inr ''amount=250; merchant=shop''),
      rs_BodyClosed = False\<rparr>"
  have n: "par_next ?t get_example 0 = (Inr ?resp, 1)"
    by (simp add: NewPaymentAwareRoundTripper_def paid_server_def get_example_def)
  have c: "parseMachinePaymentChallenge ?resp \<noteq> None" by code_simp
  from pays_only_on_402[OF e] n c obtain req2 auth where
    "auth \<noteq> []" "par_next ?t req2 1 = (Inr r, h')"
    "map_of (rq_Header req2) = (map_of (rq_Header get_example))(''Authorization'' \<mapsto> auth)"
    by auto
  moreover have "par_next ?t = paid_server" by (simp add: NewPaymentAwareRoundTripper_def)
  ultimately show ?thesis using e by (metis fst_conv fun_upd_same)
qed

end
