(* ===== verification/Go_Json.thy ===== *)
theory Go_Json
  imports Go_Prelude Complex_Main
begin

section \<open>JSON values and \<open>float64\<close>\<close>

text \<open>
  Values of \<open>encoding/json\<close> and the arithmetic of \<open>float64\<close>, for the components that exchange JSON.
  A number that comes out of a JSON text is finite, so a \<open>float64\<close> is a rational here and the tests
  for infinities and not-a-number are vacuous; \<open>f64_round\<close> rounds the exact result of an operation
  to the nearest \<open>float64\<close>, ties to even, within the range where no overflow occurs.
\<close>

datatype json = JNull | JBool bool | JNum rat | JStr string | JArr "json list" | JObj "(string \<times> json) list"

type_synonym payload = "(string \<times> json) list"

text \<open>\<open>json.Unmarshal\<close> into a map, a parameter; \<open>None\<close> is an error.\<close>

type_synonym unmarshal_map = "string \<Rightarrow> payload option"

subsection \<open>Reading members\<close>

text \<open>
  The readers of \<open>map[string]any\<close> in \<open>src/openclaw/util/json.go\<close>. Such a map is a payload: the members of a
  JSON object, each name once; \<open>sprint\<close> is \<open>fmt.Sprintf("%v", _)\<close> on a value that is no string.
\<close>

text \<open>\<open>strconv.ParseBool\<close>.\<close>

definition ParseBool :: "string \<Rightarrow> bool option" where
  "ParseBool s =
     (if s \<in> {''1'', ''t'', ''T'', ''TRUE'', ''true'', ''True''} then Some True
      else if s \<in> {''0'', ''f'', ''F'', ''FALSE'', ''false'', ''False''} then Some False else None)"

definition TryGetProperty :: "payload \<Rightarrow> string \<Rightarrow> json option" where
  "TryGetProperty args name =
     (case map_of args name of
        Some v \<Rightarrow> Some v
      | None \<Rightarrow> if name = [] then None else map_of args (upper_char (hd name) # tl name))"

definition GetString :: "(json \<Rightarrow> string) \<Rightarrow> payload \<Rightarrow> string \<Rightarrow> string option" where
  "GetString sprint args name =
     (case TryGetProperty args name of
        None \<Rightarrow> None
      | Some JNull \<Rightarrow> None
      | Some (JStr s) \<Rightarrow> Some s
      | Some v \<Rightarrow> Some (sprint v))"

definition GetBool :: "payload \<Rightarrow> string \<Rightarrow> bool option" where
  "GetBool args name =
     (case TryGetProperty args name of
        Some (JBool b) \<Rightarrow> Some b
      | Some (JStr s) \<Rightarrow> ParseBool s
      | _ \<Rightarrow> None)"

subsection \<open>Rounding\<close>

definition pow2 :: "int \<Rightarrow> rat" where
  "pow2 k = (if 0 \<le> k then 2 ^ nat k else 1 / 2 ^ nat (- k))"

definition round_even :: "rat \<Rightarrow> int" where
  "round_even m =
     (let q = \<lfloor>m\<rfloor>; r = m - of_int q in if r > 1 / 2 \<or> (r = 1 / 2 \<and> odd q) then q + 1 else q)"

text \<open>The exponent \<open>k\<close> with \<open>2 ^ k \<le> \<bar>x\<bar> < 2 ^ (k + 1)\<close>, from the lengths of numerator and denominator.\<close>

definition f64_exponent :: "rat \<Rightarrow> int" where
  "f64_exponent x =
     (let nd = quotient_of x; k = bitlen \<bar>fst nd\<bar> - bitlen (snd nd)
      in if \<bar>x\<bar> \<ge> pow2 k then k else k - 1)"

definition f64_round :: "rat \<Rightarrow> rat" where
  "f64_round x =
     (if x = 0 then 0
      else let e = max (- 1074) (f64_exponent x - 52) in of_int (round_even (x / pow2 e)) * pow2 e)"

lemma f64_round_0 [simp]: "f64_round 0 = 0"
  by (simp add: f64_round_def)

lemma pow2_pos [simp]: "0 < pow2 k"
  by (simp add: pow2_def)

lemma round_even_nonneg: "0 \<le> m \<Longrightarrow> 0 \<le> round_even m"
  by (simp add: round_even_def Let_def)

lemma round_even_nonpos: "m \<le> 0 \<Longrightarrow> round_even m \<le> 0"
proof -
  assume m: "m \<le> 0"
  show ?thesis
  proof (cases "\<lfloor>m\<rfloor> = 0")
    case True
    with m have "m = 0" by linarith
    then show ?thesis by (simp add: round_even_def)
  next
    case False
    with m have "\<lfloor>m\<rfloor> < 0" by (metis floor_le_zero less_le m floor_mono floor_zero)
    then show ?thesis by (auto simp: round_even_def Let_def)
  qed
qed

text \<open>Rounding keeps the sign, so a difference of two floats is negative only when the first is smaller.\<close>

lemma f64_round_nonneg: "0 \<le> x \<Longrightarrow> 0 \<le> f64_round x"
  by (auto simp: f64_round_def Let_def intro!: mult_nonneg_nonneg round_even_nonneg divide_nonneg_pos less_imp_le[OF pow2_pos])

lemma f64_round_nonpos: "x \<le> 0 \<Longrightarrow> f64_round x \<le> 0"
  by (auto simp: f64_round_def Let_def intro!: mult_nonpos_nonneg round_even_nonpos divide_nonpos_pos less_imp_le[OF pow2_pos])

end
