(* ===== verification/Pay_Tool.thy ===== *)
theory Pay_Tool
  imports Pay_Runtime Go_Json
begin

section \<open>The payment tool\<close>

text \<open>
  \<open>src/openclaw/payments/tool.go\<close>: the tool a language model calls with JSON arguments. The
  decoder of \<open>encoding/json\<close> is a parameter that gives the decoded object, so is the encoder of
  the results; what the tool reads from the decoded object is modelled. A JSON number is a
  \<open>float64\<close>, a rational here; \<open>int64(v)\<close> truncates it, and gives the least \<open>int64\<close> when it does not
  fit (amd64). The shape of a result is a datatype, since \<open>res\<close> has type \<open>any\<close>.
\<close>

definition int64_of_float :: "rat \<Rightarrow> int" where
  "int64_of_float v =
     (let n = (if v \<ge> 0 then \<lfloor>v\<rfloor> else \<lceil>v\<rceil>) in if in_i64 n then n else min_i64)"

subsection \<open>Reading the arguments\<close>

definition readString :: "payload \<Rightarrow> string \<Rightarrow> string" where
  "readString m property = (case map_of m property of Some (JStr s) \<Rightarrow> s | _ \<Rightarrow> [])"

definition readRequiredString :: "payload \<Rightarrow> string \<Rightarrow> string go_result" where
  "readRequiredString m property =
     (let val = readString m property in
      if val = [] then Inl (GoErr (property @ '' is required.'')) else Inr val)"

definition readLong :: "payload \<Rightarrow> string \<Rightarrow> int option" where
  "readLong m property =
     (case map_of m property of
        Some (JNum v) \<Rightarrow> Some (int64_of_float v)
      | Some (JStr v) \<Rightarrow> Atoi v
      | _ \<Rightarrow> None)"

definition readRequiredPositiveLong :: "payload \<Rightarrow> string \<Rightarrow> int go_result" where
  "readRequiredPositiveLong m property =
     (case readLong m property of
        None \<Rightarrow> Inl (GoErr (property @ '' is required and must be an integer.''))
      | Some val \<Rightarrow> if val \<le> 0 then Inl (GoErr (property @ '' must be greater than 0.'')) else Inr val)"

definition buildVirtualCardRequest :: "int \<Rightarrow> payload \<Rightarrow> string \<Rightarrow> string \<Rightarrow> VirtualCardRequest go_result" where
  "buildVirtualCardRequest now obj provider environment =
     bindR (readRequiredString obj ''merchant'') (\<lambda>merchant.
     bindR (readRequiredPositiveLong obj ''amount_minor'') (\<lambda>amountMinor.
       let currency = (if readString obj ''currency'' = [] then ''USD'' else readString obj ''currency'');
           minutesVal = (case readLong obj ''valid_minutes'' of Some v \<Rightarrow> v | None \<Rightarrow> 30);
           clampedMinutes = Clamp minutesVal 1 1440
       in Inr \<lparr>vcr_ProviderId = provider, vcr_FundingSourceId = readString obj ''funding_source_id'',
               vcr_MerchantName = merchant, vcr_MerchantUrl = readString obj ''merchant_url'',
               vcr_AmountMinor = amountMinor, vcr_Currency = currency,
               vcr_Purpose = readString obj ''purpose'',
               vcr_ValidUntilUtc = Some (now + clampedMinutes * Minute), vcr_BuyerProfile = None,
               vcr_Environment = environment\<rparr>))"

definition buildMachinePaymentRequest :: "payload \<Rightarrow> string \<Rightarrow> string \<Rightarrow> MachinePaymentRequest go_result" where
  "buildMachinePaymentRequest obj provider environment =
     bindR (readRequiredPositiveLong obj ''amount_minor'') (\<lambda>amountMinor.
       let protocol = (if readString obj ''protocol'' = [] then ''http-402'' else readString obj ''protocol'');
           currency = (if readString obj ''currency'' = [] then ''USD'' else readString obj ''currency'')
       in Inr \<lparr>mpr_ProviderId = provider,
               mpr_Challenge =
                 \<lparr>mpc_ChallengeId = readString obj ''challenge_id'', mpc_Protocol = protocol,
                  mpc_ResourceUrl = readString obj ''resource_url'', mpc_MerchantName = readString obj ''merchant'',
                  mpc_AmountMinor = amountMinor, mpc_Currency = currency, mpc_ProviderId = provider,
                  mpc_SafeMetadata = []\<rparr>,
               mpr_FundingSourceId = readString obj ''funding_source_id'', mpr_Environment = environment,
               mpr_IdempotencyKey = []\<rparr>)"

subsection \<open>Executing a call\<close>

datatype tool_result =
    TSetup PaymentSetupStatus | TFunding "FundingSource list" | TCard VirtualCardHandle
  | TMachine MachinePaymentResult | TStatus PaymentStatus

record ToolContext =
  tc_SessionId :: string
  tc_ChannelId :: string
  tc_SenderId :: string
  tc_CorrelationId :: string

record PaymentTool =
  pt_defaultProviderID :: string
  pt_environment :: string

definition NewPaymentTool :: "string \<Rightarrow> string \<Rightarrow> PaymentTool" where
  "NewPaymentTool defaultProviderID environment =
     \<lparr>pt_defaultProviderID = (if TrimSpace defaultProviderID = [] then ''mock'' else defaultProviderID),
      pt_environment = (if TrimSpace environment = [] then PaymentEnvTest else environment)\<rparr>"

definition map_res :: "('a \<Rightarrow> 'b) \<Rightarrow> 'a go_result \<times> 's \<Rightarrow> 'b go_result \<times> 's" where
  "map_res f r = (map_sum id f (fst r), snd r)"

definition tool_exec_context :: "string \<Rightarrow> ToolContext option \<Rightarrow> PaymentExecutionContext" where
  "tool_exec_context env toolCtx =
     \<lparr>pec_SessionId = (case toolCtx of None \<Rightarrow> [] | Some t \<Rightarrow> tc_SessionId t),
      pec_ChannelId = (case toolCtx of None \<Rightarrow> [] | Some t \<Rightarrow> tc_ChannelId t),
      pec_SenderId = (case toolCtx of None \<Rightarrow> [] | Some t \<Rightarrow> tc_SenderId t),
      pec_CorrelationId = (case toolCtx of None \<Rightarrow> [] | Some t \<Rightarrow> tc_CorrelationId t),
      pec_WorkspaceId = [], pec_Environment = env, pec_CliConfirmed = False,
      pec_AllowTestModeWithoutApproval = False\<rparr>"

text \<open>The \<open>switch\<close> on the action; \<open>clk 3\<close> is the clock when a card's validity is computed.\<close>

definition dispatch ::
  "'w PaymentRuntimeService \<Rightarrow> ctx \<Rightarrow> (nat \<Rightarrow> int) \<Rightarrow> string \<Rightarrow> payload \<Rightarrow> string \<Rightarrow> PaymentExecutionContext
     \<Rightarrow> 'w Runtime \<Rightarrow> tool_result go_result \<times> 'w Runtime" where
  "dispatch p c clk action obj provider ec s =
     (if action = ActionSetupStatus then map_res TSetup (GetSetupStatus p c provider s)
      else if action = ActionListFundingSources then map_res TFunding (ListFundingSources p c provider ec s)
      else if action = ActionIssueVirtualCard then
        (case buildVirtualCardRequest (clk 3) obj provider (pec_Environment ec) of
           Inl e \<Rightarrow> (Inl e, s)
         | Inr req \<Rightarrow> map_res TCard (IssueVirtualCard p c clk req ec s))
      else if action = ActionExecuteMachinePayment then
        (case buildMachinePaymentRequest obj provider (pec_Environment ec) of
           Inl e \<Rightarrow> (Inl e, s)
         | Inr req \<Rightarrow> map_res TMachine (ExecuteMachinePayment p c clk req ec s))
      else if action = ActionGetPaymentStatus then
        (case readRequiredString obj ''payment_id'' of
           Inl e \<Rightarrow> (Inl e, s)
         | Inr paymentID \<Rightarrow> map_res TStatus (GetPaymentStatus p c (clk 0) paymentID provider ec s))
      else (Inl (GoErr (''unsupported payment action '' @ [CHR 0x27] @ action @ [CHR 0x27] @ ''.'')), s))"

definition processRequest ::
  "(string \<Rightarrow> payload go_result) \<Rightarrow> (tool_result \<Rightarrow> string go_result) \<Rightarrow> PaymentTool \<Rightarrow> 'w PaymentRuntimeService
     \<Rightarrow> ctx \<Rightarrow> (nat \<Rightarrow> int) \<Rightarrow> string \<Rightarrow> ToolContext option \<Rightarrow> 'w Runtime \<Rightarrow> string go_result \<times> 'w Runtime" where
  "processRequest unmarshal serialize t p c clk argumentsJson toolCtx s =
     (case unmarshal argumentsJson of
        Inl e \<Rightarrow> (Inl e, s)
      | Inr obj \<Rightarrow>
          (let action = readString obj ''action'' in
           if TrimSpace action = [] then (Inl (GoErr ''action is required.''), s)
           else (let provider = (if readString obj ''provider'' = [] then pt_defaultProviderID t
                                 else readString obj ''provider'');
                     envStr = (if readString obj ''environment'' = [] then pt_environment t
                               else readString obj ''environment'')
                 in case NormalizeEnvironment envStr of
                      Inl e \<Rightarrow> (Inl e, s)
                    | Inr env \<Rightarrow>
                        bindS (dispatch p c clk action obj provider (tool_exec_context env toolCtx) s)
                          (\<lambda>res s1. (serialize res, s1)))))"

text \<open>An error response is an object of three strings; its encoding is the parameter \<open>encode\<close>.\<close>

definition errorResponse :: "string \<Rightarrow> string \<Rightarrow> (string \<times> string) list" where
  "errorResponse message code =
     [(''status'', ''error''), (''code'', if code = [] then ''invalid_request'' else code), (''message'', message)]"

text \<open>Nothing in the repository creates a \<open>PaymentPolicyDeniedError\<close>, so the branch for it is never taken:
  the error values of \<open>processRequest\<close> are all plain.\<close>

definition executeCore ::
  "((string \<times> string) list \<Rightarrow> string) \<Rightarrow> (string \<Rightarrow> payload go_result) \<Rightarrow> (tool_result \<Rightarrow> string go_result)
     \<Rightarrow> PaymentTool \<Rightarrow> 'w PaymentRuntimeService \<Rightarrow> ctx \<Rightarrow> (nat \<Rightarrow> int) \<Rightarrow> string \<Rightarrow> ToolContext option \<Rightarrow> 'w Runtime
     \<Rightarrow> string go_result \<times> 'w Runtime" where
  "executeCore encode unmarshal serialize t p c clk argumentsJson toolCtx s =
     (case processRequest unmarshal serialize t p c clk argumentsJson toolCtx s of
        (Inl (GoErr e), s1) \<Rightarrow> (Inr (encode (errorResponse e ''invalid_request'')), s1)
      | r \<Rightarrow> r)"

subsection \<open>What a model can reach through the tool\<close>

lemma buildMachine_Inr:
  assumes "buildMachinePaymentRequest obj provider env = Inr req"
  shows "mpr_Environment req = env" "0 < mpc_AmountMinor (mpr_Challenge req)" "mpr_ProviderId req = provider"
  using assms
  by (auto simp: buildMachinePaymentRequest_def Let_def readRequiredPositiveLong_def elim!: bindR_InrE
      split: option.splits if_splits)

lemma buildCard_Inr:
  assumes "buildVirtualCardRequest now obj provider env = Inr req"
  shows "vcr_Environment req = env" "0 < vcr_AmountMinor req"
    "\<exists>m. 1 \<le> m \<and> m \<le> 1440 \<and> vcr_ValidUntilUtc req = Some (now + m * Minute)"
proof -
  have "1 \<le> Clamp x 1 1440" "Clamp x 1 1440 \<le> 1440" for x by (auto simp: Clamp_def)
  then show "\<exists>m. 1 \<le> m \<and> m \<le> 1440 \<and> vcr_ValidUntilUtc req = Some (now + m * Minute)"
    using assms by (auto simp: buildVirtualCardRequest_def Let_def elim!: bindR_InrE)
  show "vcr_Environment req = env" "0 < vcr_AmountMinor req"
    using assms
    by (auto simp: buildVirtualCardRequest_def Let_def readRequiredPositiveLong_def elim!: bindR_InrE
        split: option.splits if_splits)
qed

lemma machine_unapproved:
  fixes p :: "'w PaymentRuntimeService"
  assumes "prs_policy p = Evaluate d" "prs_approval p = None" "\<not> pec_CliConfirmed ec"
    and "IsLiveEnvironment (if mpr_Environment req = [] then pec_Environment ec else mpr_Environment req)"
  shows "\<exists>e s'. ExecuteMachinePayment p c clk req ec s = (Inl e, s') \<and>
    rt_world s' = rt_world s \<and> rt_vault s' = rt_vault s"
proof (rule execute_refused)
  fix pr :: "'w Provider" and ec'
  assume n: "normalizeContext ec (mpr_Environment req) = Inr ec'"
  let ?q = "machine_approval pr req ec'"
  let ?g = "requireApprovalOrPolicyAllow p c ?q s"
  have "IsLiveEnvironment (ar_Environment ?q)" using assms(4) by (simp add: normalizeContext_live[OF n])
  then have "\<not> is_ok (fst ?g)"
    using default_policy.gate_live(2)[OF assms(1), of c ?q s] assms(2,3) normalizeContext_Inr(2)[OF n]
    by (cases ?g) (auto simp: is_ok_iff approved_by_def)
  moreover have "rt_world (snd ?g) = rt_world s" "rt_vault (snd ?g) = rt_vault s"
    using assms(2,3) normalizeContext_Inr(2)[OF n]
    by (auto simp: requireApprovalOrPolicyAllow_def Let_def obtain_approval_def split: sum.splits)
  ultimately show "\<exists>e s'. ?g = (Inl e, s') \<and> rt_world s' = rt_world s \<and> rt_vault s' = rt_vault s"
    by (cases ?g; cases "fst ?g") auto
qed

lemma card_unapproved:
  fixes p :: "'w PaymentRuntimeService"
  assumes "prs_policy p = Evaluate d" "prs_approval p = None" "\<not> pec_CliConfirmed ec"
    and "IsLiveEnvironment (if vcr_Environment req = [] then pec_Environment ec else vcr_Environment req)"
  shows "\<exists>e s'. IssueVirtualCard p c clk req ec s = (Inl e, s') \<and>
    rt_world s' = rt_world s \<and> rt_vault s' = rt_vault s"
proof (rule issue_refused)
  fix pr :: "'w Provider" and ec'
  assume n: "normalizeContext ec (vcr_Environment req) = Inr ec'"
  let ?q = "card_approval pr req ec'"
  let ?g = "requireApprovalOrPolicyAllow p c ?q s"
  have "IsLiveEnvironment (ar_Environment ?q)" using assms(4) by (simp add: normalizeContext_live[OF n])
  then have "\<not> is_ok (fst ?g)"
    using default_policy.gate_live(2)[OF assms(1), of c ?q s] assms(2,3) normalizeContext_Inr(2)[OF n]
    by (cases ?g) (auto simp: is_ok_iff approved_by_def)
  moreover have "rt_world (snd ?g) = rt_world s" "rt_vault (snd ?g) = rt_vault s"
    using assms(2,3) normalizeContext_Inr(2)[OF n]
    by (auto simp: requireApprovalOrPolicyAllow_def Let_def obtain_approval_def split: sum.splits)
  ultimately show "\<exists>e s'. ?g = (Inl e, s') \<and> rt_world s' = rt_world s \<and> rt_vault s' = rt_vault s"
    by (cases ?g; cases "fst ?g") auto
qed

text \<open>When no approval service is registered, no arguments a language model can send make the tool
  move live money: a live payment or card request ends in an error response, and neither the
  provider nor the vault changes.\<close>

theorem tool_cannot_pay_live:
  fixes p :: "'w PaymentRuntimeService"
  assumes "prs_policy p = Evaluate d" "prs_approval p = None"
    and "unmarshal args = Inr obj"
    and "IsLiveEnvironment (if readString obj ''environment'' = [] then pt_environment t
           else readString obj ''environment'')"
    and "readString obj ''action'' \<in> {ActionExecuteMachinePayment, ActionIssueVirtualCard}"
  shows "\<exists>e s'. processRequest unmarshal serialize t p c clk args toolCtx s = (Inl e, s') \<and>
     rt_world s' = rt_world s \<and> rt_vault s' = rt_vault s"
proof -
  let ?env = "if readString obj ''environment'' = [] then pt_environment t else readString obj ''environment''"
  let ?prov = "if readString obj ''provider'' = [] then pt_defaultProviderID t else readString obj ''provider''"
  let ?ec = "tool_exec_context PaymentEnvLive toolCtx"
  have n: "NormalizeEnvironment ?env = Inr PaymentEnvLive"
    using assms(4) by (simp add: NormalizeEnvironment_Inr_iff IsLiveEnvironment_def)
  have ec: "pec_Environment ?ec = PaymentEnvLive" "\<not> pec_CliConfirmed ?ec" by (simp_all add: tool_exec_context_def)
  have live: "IsLiveEnvironment PaymentEnvLive" by (simp add: IsLiveEnvironment_def)
  have m: "\<exists>e s'. ExecuteMachinePayment p c clk req ?ec s = (Inl e, s') \<and> rt_world s' = rt_world s \<and>
      rt_vault s' = rt_vault s" if "buildMachinePaymentRequest obj ?prov PaymentEnvLive = Inr req" for req
    using machine_unapproved[OF assms(1,2) ec(2)] buildMachine_Inr(1)[OF that] live by simp
  have v: "\<exists>e s'. IssueVirtualCard p c clk req ?ec s = (Inl e, s') \<and> rt_world s' = rt_world s \<and>
      rt_vault s' = rt_vault s" if "buildVirtualCardRequest (clk 3) obj ?prov PaymentEnvLive = Inr req" for req
    using card_unapproved[OF assms(1,2) ec(2)] buildCard_Inr(1)[OF that] live by simp
  let ?d = "dispatch p c clk (readString obj ''action'') obj ?prov ?ec s"
  have "\<exists>e s'. ?d = (Inl e, s') \<and> rt_world s' = rt_world s \<and> rt_vault s' = rt_vault s"
  proof (cases "readString obj ''action'' = ActionExecuteMachinePayment")
    case True
    then show ?thesis
      using m by (cases "buildMachinePaymentRequest obj ?prov PaymentEnvLive")
        (force simp: dispatch_def map_res_def ec)+
  next
    case False
    with assms(5) have "readString obj ''action'' = ActionIssueVirtualCard" by simp
    then show ?thesis
      using v by (cases "buildVirtualCardRequest (clk 3) obj ?prov PaymentEnvLive")
        (force simp: dispatch_def map_res_def ec)+
  qed
  moreover have "TrimSpace (readString obj ''action'') \<noteq> []"
    using assms(5) by (auto simp: TrimSpace_def Trim_eq_Nil_iff is_space_def)
  ultimately show ?thesis
    using assms(3) n by (auto simp: processRequest_def Let_def)
qed

theorem tool_cannot_pay_live_witness:
  "\<exists>e s'. processRequest (\<lambda>_. Inr [(''action'', JStr ''execute_machine_payment''),
       (''environment'', JStr ''LIVE''), (''amount_minor'', JNum 1), (''merchant'', JStr ''shop'')])
       (\<lambda>_. Inr []) (NewPaymentTool [] []) (NewPaymentRuntimeService [mock_provider ''mock'']
          (Evaluate (NewDefaultPaymentPolicy None None None)) None [] (- 1)) None (\<lambda>_. 5) [] None runtime_example
       = (Inl e, s') \<and> rt_world s' = rt_world runtime_example"
proof -
  let ?obj = "[(''action'', JStr ''execute_machine_payment''), (''environment'', JStr ''LIVE''),
      (''amount_minor'', JNum 1), (''merchant'', JStr ''shop'')]"
  let ?p = "NewPaymentRuntimeService [mock_provider ''mock'']
          (Evaluate (NewDefaultPaymentPolicy None None None)) None [] (- 1)"
  have p: "prs_policy ?p = Evaluate (NewDefaultPaymentPolicy None None None)" "prs_approval ?p = None"
    by (simp_all add: NewPaymentRuntimeService_def)
  have r: "readString ?obj ''environment'' = ''LIVE''" "readString ?obj ''action'' = ActionExecuteMachinePayment"
    by (simp_all add: readString_def)
  have "IsLiveEnvironment ''LIVE''" by code_simp
  then show ?thesis
    using tool_cannot_pay_live[OF p, of "\<lambda>_. Inr ?obj" "[]" ?obj "NewPaymentTool [] []" "\<lambda>_. Inr []" None
        "\<lambda>_. 5" None runtime_example] r by auto
qed

end
