(* ===== verification/Pay_Stripe.thy ===== *)
theory Pay_Stripe
  imports Pay_Tool
begin

section \<open>The Stripe Link provider\<close>

text \<open>
  \<open>src/openclaw/payments/stripelink.go\<close>: a provider that runs the program \<open>link-cli\<close>. The
  command runner (\<open>ILinkCliCommandRunner\<close>) is a parameter over a world \<open>'w\<close>, because what the
  program does is outside the repository; so are the decoders of \<open>encoding/json\<close> for the answers
  and the random identifiers. The command lines and what is made of the answers are modelled.
\<close>

record StripeLinkOptions =
  slo_ProviderId :: string
  slo_CliPath :: string
  slo_Mode :: string
  slo_Timeout :: int
  slo_WorkingDirectory :: string
  slo_EnvironmentVariables :: "(string \<times> string) list"

definition NewStripeLinkOptions :: StripeLinkOptions where
  "NewStripeLinkOptions =
     \<lparr>slo_ProviderId = ''stripe-link'', slo_CliPath = ''link-cli'', slo_Mode = ''test'',
      slo_Timeout = Second * 30, slo_WorkingDirectory = [], slo_EnvironmentVariables = []\<rparr>"

record LinkCliCommandResult =
  cli_ExitCode :: int
  cli_Stdout :: string
  cli_Stderr :: string
  cli_TimedOut :: bool

type_synonym 'w Runner =
  "ctx \<Rightarrow> string \<Rightarrow> string list \<Rightarrow> string \<Rightarrow> (string \<times> string) list \<Rightarrow> int \<Rightarrow> 'w \<Rightarrow> LinkCliCommandResult go_result \<times> 'w"

record MachinePaymentRaw =
  raw_PaymentID :: string
  raw_PaymentIDCamel :: string
  raw_ID :: string
  raw_Status :: string
  raw_AuthHeader :: string
  raw_AuthHeaderCamel :: string
  raw_AuthToken :: string
  raw_AuthTokenCamel :: string
  raw_Token :: string
  raw_ProviderReference :: string
  raw_ProviderRefCamel :: string

record paymentStatusAlias =
  al_PaymentID1 :: "string option"
  al_PaymentID2 :: "string option"
  al_PaymentID3 :: "string option"
  al_Status :: "string option"
  al_MerchantName1 :: "string option"
  al_MerchantName2 :: "string option"
  al_Amount1 :: "int option"
  al_Amount2 :: "int option"
  al_Currency :: "string option"
  al_ProviderReference1 :: "string option"
  al_ProviderReference2 :: "string option"

record stripeLinkDTO =
  dto_HandleID :: "string option"
  dto_HandleIDCamel :: "string option"
  dto_ID :: "string option"
  dto_PAN :: "string option"
  dto_CardNumber :: "string option"
  dto_CardNumberCamel :: "string option"
  dto_CVV :: "string option"
  dto_CVC :: "string option"
  dto_ExpMonth :: "string option"
  dto_ExpMonthCamel :: "string option"
  dto_ExpYear :: "string option"
  dto_ExpYearCamel :: "string option"
  dto_PostalCode :: "string option"
  dto_PostalCodeCamel :: "string option"
  dto_Last4 :: "string option"
  dto_SpendRequestID :: "string option"
  dto_SpendReqIDCamel :: "string option"
  dto_Status :: "string option"

text \<open>What the provider needs from outside: the runner, the decoders and fresh identifiers.\<close>

record 'w StripeLink =
  sl_options :: StripeLinkOptions
  sl_runner :: "'w Runner"
  sl_unmarshalMachine :: "string \<Rightarrow> MachinePaymentRaw go_result"
  sl_unmarshalStatus :: "string \<Rightarrow> paymentStatusAlias go_result"
  sl_unmarshalCard :: "string \<Rightarrow> stripeLinkDTO go_result"
  sl_unmarshalAny :: "string \<Rightarrow> json go_result"
  sl_uuid :: "int \<Rightarrow> string"

definition runJson :: "'w StripeLink \<Rightarrow> ctx \<Rightarrow> string list \<Rightarrow> 'w \<Rightarrow> LinkCliCommandResult go_result \<times> 'w" where
  "runJson sl c arguments =
     sl_runner sl c (slo_CliPath (sl_options sl)) arguments (slo_WorkingDirectory (sl_options sl))
       (slo_EnvironmentVariables (sl_options sl)) (slo_Timeout (sl_options sl))"

text \<open>A run that failed, as every operation reports it: by the error, else by the standard error.\<close>

definition cli_failed :: "string \<Rightarrow> LinkCliCommandResult go_result \<Rightarrow> go_fail option" where
  "cli_failed what r =
     (case r of
        Inl (GoErr e) \<Rightarrow> Some (GoErr (what @ e))
      | Inl f \<Rightarrow> Some f
      | Inr res \<Rightarrow> if cli_ExitCode res \<noteq> 0 then Some (GoErr (what @ cli_Stderr res)) else None)"

definition cli_then ::
  "string \<Rightarrow> LinkCliCommandResult go_result \<times> 'w \<Rightarrow> (string \<Rightarrow> 'a go_result) \<Rightarrow> 'a go_result \<times> 'w" where
  "cli_then what run parse =
     (case cli_failed what (fst run) of
        Some f \<Rightarrow> (Inl f, snd run)
      | None \<Rightarrow> (bindR (fst run) (\<lambda>res. parse (cli_Stdout res)), snd run))"

subsection \<open>Machine payments\<close>

definition first_or :: "string \<Rightarrow> string \<Rightarrow> string" where
  "first_or a b = (if a \<noteq> [] then a else b)"

definition GetPaymentID :: "MachinePaymentRaw \<Rightarrow> string" where
  "GetPaymentID r = first_or (raw_PaymentID r) (first_or (raw_PaymentIDCamel r) (raw_ID r))"

definition GetAuthHeader :: "MachinePaymentRaw \<Rightarrow> string" where
  "GetAuthHeader r = first_or (raw_AuthHeader r) (raw_AuthHeaderCamel r)"

definition GetToken :: "MachinePaymentRaw \<Rightarrow> string" where
  "GetToken r = first_or (raw_AuthToken r) (first_or (raw_AuthTokenCamel r) (raw_Token r))"

definition GetProviderRef :: "MachinePaymentRaw \<Rightarrow> string" where
  "GetProviderRef r = first_or (raw_ProviderReference r) (raw_ProviderRefCamel r)"

definition parseMachinePayment ::
  "'w StripeLink \<Rightarrow> int \<Rightarrow> string \<Rightarrow> MachinePaymentRequest \<Rightarrow> PaymentExecutionContext
     \<Rightarrow> MachinePaymentProviderResult go_result" where
  "parseMachinePayment sl now jsonStr request ec =
     bindR (sl_unmarshalMachine sl jsonStr) (\<lambda>raw.
       let paymentId = (if GetPaymentID raw = [] then ''stripe_mp_'' @ sl_uuid sl now else GetPaymentID raw);
           auth = GetAuthHeader raw; token = GetToken raw;
           status = (if raw_Status raw = [] then ''completed'' else raw_Status raw);
           scopedSecret =
             (if TrimSpace auth = [] \<and> TrimSpace token = [] then None
              else Some (secret0\<lparr>sec_handleId := paymentId, sec_providerId := slo_ProviderId (sl_options sl),
                     sec_authorizationToken := token, sec_authorizationHeader := auth,
                     sec_expiresAtUtc := Some (now + 5 * Minute), sec_environment := pec_Environment ec\<rparr>))
       in Inr \<lparr>mpp_Result =
                 \<lparr>mres_PaymentId = paymentId, mres_ProviderId = slo_ProviderId (sl_options sl), mres_Status = status,
                  mres_MerchantName = mpc_MerchantName (mpr_Challenge request),
                  mres_AmountMinor = mpc_AmountMinor (mpr_Challenge request),
                  mres_Currency = mpc_Currency (mpr_Challenge request), mres_CreatedAtUtc = 0,
                  mres_ProviderReference = GetProviderRef raw, mres_SafeMetadata = []\<rparr>,
               mpp_ScopedAuthorizationSecret = scopedSecret\<rparr>)"

definition machine_args :: "StripeLinkOptions \<Rightarrow> MachinePaymentRequest \<Rightarrow> string list" where
  "machine_args opts request =
     [''machine-payment'', ''execute'', ''--json'', ''--mode'', slo_Mode opts, ''--amount'',
      Itoa (mpc_AmountMinor (mpr_Challenge request)), ''--currency'', mpc_Currency (mpr_Challenge request)]
     @ (if mpc_ChallengeId (mpr_Challenge request) \<noteq> []
        then [''--challenge'', mpc_ChallengeId (mpr_Challenge request)] else [])
     @ (if mpc_ResourceUrl (mpr_Challenge request) \<noteq> []
        then [''--resource'', mpc_ResourceUrl (mpr_Challenge request)] else [])"

definition Stripe_ExecuteMachinePayment ::
  "'w StripeLink \<Rightarrow> ctx \<Rightarrow> int \<Rightarrow> MachinePaymentRequest \<Rightarrow> PaymentExecutionContext \<Rightarrow> 'w
     \<Rightarrow> MachinePaymentProviderResult go_result \<times> 'w" where
  "Stripe_ExecuteMachinePayment sl c now request ec w =
     cli_then ''Stripe Link machine payment failed: '' (runJson sl c (machine_args (sl_options sl) request) w)
       (\<lambda>stdout. parseMachinePayment sl now stdout request ec)"

subsection \<open>Payment status\<close>

definition pick :: "'a option list \<Rightarrow> 'a \<Rightarrow> 'a" where
  "pick opts dflt = (case dropWhile Option.is_none opts of Some x # _ \<Rightarrow> x | _ \<Rightarrow> dflt)"

definition parseStatus :: "'w StripeLink \<Rightarrow> int \<Rightarrow> string \<Rightarrow> string \<Rightarrow> PaymentStatus go_result" where
  "parseStatus sl now jsonBytes paymentIdOrHandleId =
     bindR (sl_unmarshalStatus sl jsonBytes) (\<lambda>al.
       Inr \<lparr>ps_PaymentId = pick [al_PaymentID1 al, al_PaymentID2 al, al_PaymentID3 al] paymentIdOrHandleId,
            ps_ProviderId = slo_ProviderId (sl_options sl), ps_Status = pick [al_Status al] ''unknown'',
            ps_MerchantName = pick [al_MerchantName1 al, al_MerchantName2 al] [],
            ps_AmountMinor = pick [al_Amount1 al, al_Amount2 al] 0,
            ps_Currency = pick [al_Currency al] [], ps_UpdatedAtUtc = Some now,
            ps_ProviderReference = pick [al_ProviderReference1 al, al_ProviderReference2 al] []\<rparr>)"

definition Stripe_GetPaymentStatus ::
  "'w StripeLink \<Rightarrow> ctx \<Rightarrow> int \<Rightarrow> string \<Rightarrow> PaymentExecutionContext \<Rightarrow> 'w \<Rightarrow> PaymentStatus go_result \<times> 'w" where
  "Stripe_GetPaymentStatus sl c now paymentIdOrHandleId ec w =
     cli_then ''Stripe Link status failed: ''
       (runJson sl c [''status'', ''--json'', ''--mode'', slo_Mode (sl_options sl), ''--id'', paymentIdOrHandleId] w)
       (\<lambda>stdout. parseStatus sl now stdout paymentIdOrHandleId)"

subsection \<open>Set-up, cards and funding sources\<close>

text \<open>On an error of the runner the source reads the standard error of a nil result.\<close>

definition Stripe_GetSetupStatus :: "'w StripeLink \<Rightarrow> ctx \<Rightarrow> 'w \<Rightarrow> PaymentSetupStatus go_result \<times> 'w" where
  "Stripe_GetSetupStatus sl c w =
     (let (r, w1) = runJson sl c [''--version''] w; st = NewPaymentSetupStatus (slo_ProviderId (sl_options sl)) in
      case r of
        Inl (GoErr e) \<Rightarrow> (Inl (GoPanic ''nil pointer dereference''), w1)
      | Inl f \<Rightarrow> (Inl f, w1)
      | Inr res \<Rightarrow>
          if cli_ExitCode res \<noteq> 0
          then (Inr (st\<lparr>pss_Enabled := True, pss_Installed := False, pss_Mode := slo_Mode (sl_options sl),
                  pss_Status := ''not_installed'', pss_Message := ''link-cli was not found or did not start.'',
                  pss_Requirements := [\<lparr>req_Name = ''link-cli'', req_Satisfied = False, req_Message = cli_Stderr res\<rparr>]\<rparr>), w1)
          else (Inr (st\<lparr>pss_Enabled := True, pss_Installed := True,
                  pss_Version := (case Index (cli_Stdout res) [CHR 0x0D, CHR 0x0A] of
                     None \<Rightarrow> cli_Stdout res | Some i \<Rightarrow> take i (cli_Stdout res)),
                  pss_Mode := slo_Mode (sl_options sl), pss_Status := ''ready'',
                  pss_Requirements := [\<lparr>req_Name = ''link-cli'', req_Satisfied = True, req_Message = []\<rparr>]\<rparr>), w1))"

fun firstNonNil :: "string option list \<Rightarrow> string" where
  "firstNonNil [] = []"
| "firstNonNil (Some v # vs) = (if v \<noteq> [] then v else firstNonNil vs)"
| "firstNonNil (None # vs) = firstNonNil vs"

definition parseVirtualCardIssue ::
  "'w StripeLink \<Rightarrow> int \<Rightarrow> string \<Rightarrow> VirtualCardRequest \<Rightarrow> PaymentExecutionContext \<Rightarrow> VirtualCardIssueResult go_result" where
  "parseVirtualCardIssue sl now stdout request ec =
     (case sl_unmarshalCard sl stdout of
        Inl (GoErr e) \<Rightarrow> Inl (GoErr (''failed to unmarshal JSON: '' @ e))
      | Inl f \<Rightarrow> Inl f
      | Inr dto \<Rightarrow>
          (let hid = firstNonNil [dto_HandleID dto, dto_HandleIDCamel dto, dto_ID dto];
               handleID = (if hid = [] then ''stripe_link_'' @ sl_uuid sl now else hid);
               secret = NewPaymentSecret handleID (slo_ProviderId (sl_options sl))
                 (firstNonNil [dto_PAN dto, dto_CardNumber dto, dto_CardNumberCamel dto])
                 (firstNonNil [dto_CVV dto, dto_CVC dto])
                 (firstNonNil [dto_ExpMonth dto, dto_ExpMonthCamel dto])
                 (firstNonNil [dto_ExpYear dto, dto_ExpYearCamel dto])
                 (firstNonNil [dto_PostalCode dto, dto_PostalCodeCamel dto]) [] []
                 (vcr_ValidUntilUtc request) (pec_Environment ec);
               l4 = firstNonNil [dto_Last4 dto]; st = firstNonNil [dto_Status dto]
           in Inr \<lparr>vci_Handle =
                     \<lparr>vch_HandleId = handleID, vch_ProviderId = slo_ProviderId (sl_options sl),
                      vch_Last4 = (if l4 = [] then sec_last4 secret else l4),
                      vch_TargetMerchantName = vcr_MerchantName request, vch_IssuedAtUtc = now,
                      vch_ValidUntilUtc = vcr_ValidUntilUtc request,
                      vch_SpendRequestId = firstNonNil [dto_SpendRequestID dto, dto_SpendReqIDCamel dto],
                      vch_Status = (if st = [] then ''issued'' else st), vch_Environment = pec_Environment ec\<rparr>,
                   vci_Secret = Some secret\<rparr>))"

definition card_args :: "StripeLinkOptions \<Rightarrow> VirtualCardRequest \<Rightarrow> string list" where
  "card_args opts request =
     [''virtual-card'', ''issue'', ''--json'', ''--mode'', slo_Mode opts, ''--merchant'', vcr_MerchantName request,
      ''--amount'', Itoa (vcr_AmountMinor request), ''--currency'', vcr_Currency request]
     @ (if vcr_FundingSourceId request \<noteq> [] then [''--funding-source'', vcr_FundingSourceId request] else [])"

definition Stripe_IssueVirtualCard ::
  "'w StripeLink \<Rightarrow> ctx \<Rightarrow> int \<Rightarrow> VirtualCardRequest \<Rightarrow> PaymentExecutionContext \<Rightarrow> 'w
     \<Rightarrow> VirtualCardIssueResult go_result \<times> 'w" where
  "Stripe_IssueVirtualCard sl c now request ec w =
     cli_then ''Stripe Link virtual card issue failed: '' (runJson sl c (card_args (sl_options sl) request) w)
       (\<lambda>stdout. parseVirtualCardIssue sl now stdout request ec)"

text \<open>A text property of a funding source; whether it was found is ignored.\<close>

definition source_text :: "(json \<Rightarrow> string) \<Rightarrow> payload \<Rightarrow> string \<Rightarrow> string" where
  "source_text format item name = (case GetString format item name of Some s \<Rightarrow> s | None \<Rightarrow> [])"

definition funding_items :: "json \<Rightarrow> json list" where
  "funding_items raw =
     (case raw of
        JArr v \<Rightarrow> v
      | JObj v \<Rightarrow>
          (case map_of v ''funding_sources'' of
             Some (JArr sources) \<Rightarrow> sources
           | _ \<Rightarrow> (case map_of v ''fundingSources'' of Some (JArr camel) \<Rightarrow> camel | _ \<Rightarrow> []))
      | _ \<Rightarrow> [])"

definition funding_source :: "(json \<Rightarrow> string) \<Rightarrow> StripeLinkOptions \<Rightarrow> json \<Rightarrow> FundingSource list" where
  "funding_source format opts rawItem =
     (case rawItem of
        JObj item \<Rightarrow>
          (let id1 = source_text format item ''id'';
               idv = (if id1 = [] then source_text format item ''fundingSourceId'' else id1)
           in if TrimSpace idv = [] then []
              else (let d1 = source_text format item ''display_name'';
                        d2 = (if d1 = [] then source_text format item ''displayName'' else d1);
                        displayName = (if d2 = [] then ''Stripe Link funding source'' else d2);
                        t1 = source_text format item ''type''; typ = (if t1 = [] then ''link'' else t1)
                    in [\<lparr>fs_FundingSourceId = idv, fs_ProviderId = slo_ProviderId opts, fs_DisplayName = displayName,
                         fs_Type = typ, fs_Last4 = source_text format item ''last4'',
                         fs_Currency = source_text format item ''currency'',
                         fs_TestMode = EqualFold (slo_Mode opts) PaymentEnvTest,
                         fs_Available = (case GetBool item ''available'' of Some b \<Rightarrow> b | None \<Rightarrow> True)\<rparr>]))
      | _ \<Rightarrow> [])"

definition parseFundingSources :: "(json \<Rightarrow> string) \<Rightarrow> 'w StripeLink \<Rightarrow> string \<Rightarrow> FundingSource list go_result" where
  "parseFundingSources format sl jsonStr =
     bindR (sl_unmarshalAny sl jsonStr) (\<lambda>raw.
       Inr (concat (map (funding_source format (sl_options sl)) (funding_items raw))))"

definition Stripe_ListFundingSources ::
  "(json \<Rightarrow> string) \<Rightarrow> 'w StripeLink \<Rightarrow> ctx \<Rightarrow> PaymentExecutionContext \<Rightarrow> 'w \<Rightarrow> FundingSource list go_result \<times> 'w" where
  "Stripe_ListFundingSources format sl c ec w =
     cli_then ''Stripe Link funding source list failed: ''
       (runJson sl c [''funding-sources'', ''list'', ''--json'', ''--mode'', slo_Mode (sl_options sl)] w)
       (parseFundingSources format sl)"

definition stripe_provider :: "(json \<Rightarrow> string) \<Rightarrow> 'w StripeLink \<Rightarrow> 'w Provider" where
  "stripe_provider format sl =
     \<lparr>pr_GetProviderId = slo_ProviderId (sl_options sl), pr_GetSetupStatus = Stripe_GetSetupStatus sl,
      pr_ListFundingSources = Stripe_ListFundingSources format sl,
      pr_IssueVirtualCard = Stripe_IssueVirtualCard sl,
      pr_ExecuteMachinePayment = Stripe_ExecuteMachinePayment sl,
      pr_GetPaymentStatus = Stripe_GetPaymentStatus sl\<rparr>"


subsection \<open>The mode on the command line is not the environment that was approved\<close>

text \<open>The approval gate decides by the environment of the request, but the command line carries the
  mode of the provider's options. With a provider in live mode, a machine payment asked for in the
  test environment passes the default policy without any approval service and runs \<open>link-cli\<close> with
  \<open>--mode live\<close> for the full amount.\<close>

theorem stripe_live_without_approval:
  fixes p :: "'w PaymentRuntimeService"
  assumes "prs_policy p = Evaluate (NewDefaultPaymentPolicy None None limit)"
    and "resolveProvider p (if mpr_ProviderId req = [] then mpc_ProviderId (mpr_Challenge req)
           else mpr_ProviderId req) = Inr (stripe_provider fmt sl)"
    and "normalizeContext ec (mpr_Environment req) = Inr ec'" "pec_Environment ec' = PaymentEnvTest"
    and "validateMachinePaymentRequest req = Inr ()"
  shows "\<exists>args. rt_world (snd (ExecuteMachinePayment p None clk req ec s)) =
        snd (sl_runner sl None (slo_CliPath (sl_options sl)) args (slo_WorkingDirectory (sl_options sl))
               (slo_EnvironmentVariables (sl_options sl)) (slo_Timeout (sl_options sl)) (rt_world s)) \<and>
      prefix [''machine-payment'', ''execute'', ''--json'', ''--mode'', slo_Mode (sl_options sl), ''--amount'',
        Itoa (mpc_AmountMinor (mpr_Challenge req))] args"
proof -
  let ?pr = "stripe_provider fmt sl"
  let ?req = "req\<lparr>mpr_ProviderId := pr_GetProviderId ?pr, mpr_Environment := pec_Environment ec'\<rparr>"
  let ?q = "machine_approval ?pr req ec'"
  let ?s1 = "audit_record None (machine_attempt_event ?pr req ec') (asked p None ?q s)"
  let ?run = "sl_runner sl None (slo_CliPath (sl_options sl)) (machine_args (sl_options sl) ?req)
      (slo_WorkingDirectory (sl_options sl)) (slo_EnvironmentVariables (sl_options sl)) (slo_Timeout (sl_options sl))
      (rt_world s)"
  let ?call = "call_provider (pr_ExecuteMachinePayment ?pr None (clk 0) ?req ec') ?s1"
  have "requireApprovalOrPolicyAllow p None ?q s = (Inr (), asked p None ?q s)"
    using gate_test_mode[OF assms(1), of ?q s] assms(4) by (simp add: NewDefaultPaymentPolicy_def)
  then have "rt_world (snd (ExecuteMachinePayment p None clk req ec s)) = rt_world (snd ?call)"
    using assms(2,3,5)
    by (cases ?call; cases "fst ?call")
       (auto simp: ExecuteMachinePayment_def Let_def split: option.splits)
  also have "\<dots> = snd ?run"
    by (simp add: stripe_provider_def Stripe_ExecuteMachinePayment_def cli_then_def runJson_def asked_def
        split: option.splits)
  finally show ?thesis
    by (intro exI[of _ "machine_args (sl_options sl) ?req"]) (simp add: machine_args_def)
qed

definition live_stripe :: "string list StripeLink" where
  "live_stripe =
     \<lparr>sl_options = NewStripeLinkOptions\<lparr>slo_Mode := ''live''\<rparr>,
      sl_runner = (\<lambda>c exe args dir env t w.
        (Inr \<lparr>cli_ExitCode = 0, cli_Stdout = [], cli_Stderr = [], cli_TimedOut = False\<rparr>, args)),
      sl_unmarshalMachine = (\<lambda>_. Inl (GoErr [])), sl_unmarshalStatus = (\<lambda>_. Inl (GoErr [])),
      sl_unmarshalCard = (\<lambda>_. Inl (GoErr [])), sl_unmarshalAny = (\<lambda>_. Inl (GoErr [])), sl_uuid = (\<lambda>_. [])\<rparr>"

theorem stripe_live_without_approval_witness:
  "prefix [''machine-payment'', ''execute'', ''--json'', ''--mode'', ''live'', ''--amount'', ''250'']
     (rt_world (snd (ExecuteMachinePayment
        (NewPaymentRuntimeService [stripe_provider (\<lambda>_. []) live_stripe]
           (Evaluate (NewDefaultPaymentPolicy None None (Some 1))) None [] (- 1))
        None (\<lambda>_. 5) (machine_example\<lparr>mpr_ProviderId := ''stripe-link''\<rparr>) context_example
        \<lparr>rt_vault = NewInMemoryPaymentSecretVault, rt_audit = [], rt_world = []\<rparr>)))"
proof -
  let ?p = "NewPaymentRuntimeService [stripe_provider (\<lambda>_. []) live_stripe]
     (Evaluate (NewDefaultPaymentPolicy None None (Some 1))) None [] (- 1)"
  let ?req = "machine_example\<lparr>mpr_ProviderId := ''stripe-link''\<rparr>"
  let ?s = "\<lparr>rt_vault = NewInMemoryPaymentSecretVault, rt_audit = [], rt_world = [] :: string list\<rparr>"
  have pol: "prs_policy ?p = Evaluate (NewDefaultPaymentPolicy None None (Some 1))"
    by (simp add: NewPaymentRuntimeService_def)
  have pr: "resolveProvider ?p (if mpr_ProviderId ?req = [] then mpc_ProviderId (mpr_Challenge ?req)
      else mpr_ProviderId ?req) = Inr (stripe_provider (\<lambda>_. []) live_stripe)"
    by (simp add: resolveProvider_def NewPaymentRuntimeService_def stripe_provider_def live_stripe_def
        NewStripeLinkOptions_def Let_def)
  have ec: "normalizeContext context_example (mpr_Environment ?req) = Inr context_example"
    by (simp add: normalizeContext_def machine_example_def context_example_def NormalizeEnvironment_Inr_iff[THEN iffD2])
  have t: "pec_Environment context_example = PaymentEnvTest" by (simp add: context_example_def)
  have v: "validateMachinePaymentRequest ?req = Inr ()"
    by (simp add: validateMachinePaymentRequest_def machine_example_def)
  have i: "Itoa (mpc_AmountMinor (mpr_Challenge ?req)) = ''250''" by code_simp
  have m: "slo_Mode (sl_options live_stripe) = ''live''" by (simp add: live_stripe_def)
  have r: "snd (sl_runner live_stripe c x args d e t w) = args" for c x args d e t w by (simp add: live_stripe_def)
  from stripe_live_without_approval[OF pol pr ec t v, of "\<lambda>_. 5" ?s] show ?thesis
    unfolding i m r by auto
qed

end
