(* ===== verification/Route_Config.thy ===== *)
theory Route_Config
  imports Go_Json
begin

section \<open>Configuration of decision routing\<close>

text \<open>
  \<open>src/openclaw/core/models_turn_outer.go\<close> and \<open>validation_routing.go\<close>: the settings of the service
  that classifies turns into tiers, the tiers themselves, and the validation that every client and
  the policy run before they are built. \<open>url.Parse\<close> and \<open>net.ParseIP\<close> are arguments: the first gives
  the parts of a URL the validation looks at, the second whether a host is a literal address and a
  loopback one. A pointer of the source is an option.
\<close>

record DecisionRoutingConfig =
  rc_Mode :: string
  rc_Endpoint :: string
  rc_Model :: string
  rc_TimeoutMs :: int
  rc_MaxStateChars :: int
  rc_HistoryMessages :: int
  rc_MaxConcurrentRequests :: int
  rc_CircuitFailureThreshold :: int
  rc_CircuitBreakSeconds :: int
  rc_MinConfidence :: rat
  rc_DowngradeMinConfidence :: rat
  rc_MinProbabilityMargin :: rat
  rc_HighRiskThreshold :: rat
  rc_InputUsdPerMillionTokens :: rat
  rc_DiagnosticsPath :: string
  rc_ProviderName :: string
  rc_ApiKeyRef :: string
  rc_CalibrationId :: string
  rc_Language :: string

text \<open>Decimal literals of the source are rounded to \<open>float64\<close>.\<close>

definition NewDefaultDecisionRoutingConfig :: DecisionRoutingConfig where
  "NewDefaultDecisionRoutingConfig =
     \<lparr>rc_Mode = ''disabled'', rc_Endpoint = [], rc_Model = [], rc_TimeoutMs = 1500,
      rc_MaxStateChars = 12000, rc_HistoryMessages = 4, rc_MaxConcurrentRequests = 8,
      rc_CircuitFailureThreshold = 3, rc_CircuitBreakSeconds = 30,
      rc_MinConfidence = f64_round (80 / 100), rc_DowngradeMinConfidence = f64_round (95 / 100),
      rc_MinProbabilityMargin = f64_round (15 / 100), rc_HighRiskThreshold = f64_round (20 / 100),
      rc_InputUsdPerMillionTokens = 0, rc_DiagnosticsPath = [], rc_ProviderName = [],
      rc_ApiKeyRef = [], rc_CalibrationId = [], rc_Language = []\<rparr>"

definition NewJevRoutingConfig :: DecisionRoutingConfig where
  "NewJevRoutingConfig =
     NewDefaultDecisionRoutingConfig
       \<lparr>rc_Endpoint := ''https://api.typesafe.ai/v1/systemone'', rc_Model := ''jev-1.13.0'',
        rc_InputUsdPerMillionTokens := f64_round (42 / 1000),
        rc_DiagnosticsPath := ''routing/jev-decisions.jsonl'', rc_ApiKeyRef := ''env:TYPESAFE_API_KEY''\<rparr>"

definition NewLayaRoutingConfig :: DecisionRoutingConfig where
  "NewLayaRoutingConfig =
     NewDefaultDecisionRoutingConfig
       \<lparr>rc_Endpoint := ''http://127.0.0.1:8099/v1/decisions'',
        rc_Model := ''laya@1c5edc17a7acd8701df6fc341c0d179f1c62c982'',
        rc_DiagnosticsPath := ''routing/laya-decisions.jsonl'', rc_MaxConcurrentRequests := 1\<rparr>"

subsection \<open>Tiers\<close>

record CacheContinuitySafeguardsConfig =
  cs_Enabled :: bool
  cs_MaxConversationTurns :: int
  cs_ResetOnProfileSwitch :: bool

definition DefaultCacheContinuitySafeguardsConfig :: CacheContinuitySafeguardsConfig where
  "DefaultCacheContinuitySafeguardsConfig =
     \<lparr>cs_Enabled = False, cs_MaxConversationTurns = 64, cs_ResetOnProfileSwitch = True\<rparr>"

record DynamicTurnRoutingTierTarget =
  tt_ModelProfileId :: string
  tt_DirectModelFallbackProfileId :: string
  tt_AllowedTools :: "string list"
  tt_PreferredTags :: "string list"
  tt_ReasoningLevel :: string
  tt_ResponsePolicy :: string
  tt_ImageCapableModelProfileId :: string
  tt_CacheContinuitySafeguards :: "CacheContinuitySafeguardsConfig option"
  tt_PromptMode :: string
  tt_DisableTools :: bool

definition DefaultDynamicTurnRoutingTierTarget :: DynamicTurnRoutingTierTarget where
  "DefaultDynamicTurnRoutingTierTarget =
     \<lparr>tt_ModelProfileId = [], tt_DirectModelFallbackProfileId = [], tt_AllowedTools = [],
      tt_PreferredTags = [], tt_ReasoningLevel = [], tt_ResponsePolicy = [],
      tt_ImageCapableModelProfileId = [],
      tt_CacheContinuitySafeguards = Some DefaultCacheContinuitySafeguardsConfig,
      tt_PromptMode = ''full'', tt_DisableTools = False\<rparr>"

record DynamicTurnRoutingTierMap =
  tm_T0 :: "DynamicTurnRoutingTierTarget option"
  tm_T1 :: "DynamicTurnRoutingTierTarget option"
  tm_T2 :: "DynamicTurnRoutingTierTarget option"
  tm_T3 :: "DynamicTurnRoutingTierTarget option"

definition DefaultDynamicTurnRoutingTierMap :: DynamicTurnRoutingTierMap where
  "DefaultDynamicTurnRoutingTierMap =
     \<lparr>tm_T0 = Some DefaultDynamicTurnRoutingTierTarget, tm_T1 = Some DefaultDynamicTurnRoutingTierTarget,
      tm_T2 = Some DefaultDynamicTurnRoutingTierTarget, tm_T3 = Some DefaultDynamicTurnRoutingTierTarget\<rparr>"

record DynamicTurnRoutingPolicyConfig =
  rp_Tiers :: "DynamicTurnRoutingTierMap option"
  rp_EnableDiagnostics :: bool
  rp_EnableStickyTier :: bool
  rp_EnableMarginUpgrade :: bool
  rp_EnableR1Rescue :: bool
  rp_EnableUnderRoutingSafety :: bool
  rp_MarginUpgradeThreshold :: rat
  rp_R1RescueThreshold :: rat
  rp_UnderRoutingSafetyThreshold :: rat
  rp_DeepConversationTurnIndexThreshold :: int

definition DefaultDynamicTurnRoutingPolicyConfig :: DynamicTurnRoutingPolicyConfig where
  "DefaultDynamicTurnRoutingPolicyConfig =
     \<lparr>rp_Tiers = Some DefaultDynamicTurnRoutingTierMap, rp_EnableDiagnostics = False,
      rp_EnableStickyTier = True, rp_EnableMarginUpgrade = True, rp_EnableR1Rescue = True,
      rp_EnableUnderRoutingSafety = True, rp_MarginUpgradeThreshold = f64_round (15 / 100),
      rp_R1RescueThreshold = f64_round (20 / 100), rp_UnderRoutingSafetyThreshold = f64_round (45 / 100),
      rp_DeepConversationTurnIndexThreshold = 4\<rparr>"

definition IsConfigured :: "DynamicTurnRoutingTierTarget option \<Rightarrow> bool" where
  "IsConfigured tier =
     (case tier of
        None \<Rightarrow> False
      | Some t \<Rightarrow>
          let safeguardsChanged =
                (case tt_CacheContinuitySafeguards t of
                   None \<Rightarrow> False
                 | Some s \<Rightarrow> cs_Enabled s \<noteq> cs_Enabled DefaultCacheContinuitySafeguardsConfig \<or>
                     cs_MaxConversationTurns s \<noteq> cs_MaxConversationTurns DefaultCacheContinuitySafeguardsConfig \<or>
                     cs_ResetOnProfileSwitch s \<noteq> cs_ResetOnProfileSwitch DefaultCacheContinuitySafeguardsConfig)
          in TrimSpace (tt_ModelProfileId t) \<noteq> [] \<or>
             TrimSpace (tt_DirectModelFallbackProfileId t) \<noteq> [] \<or>
             length (tt_AllowedTools t) > 0 \<or> length (tt_PreferredTags t) > 0 \<or>
             TrimSpace (tt_ReasoningLevel t) \<noteq> [] \<or> TrimSpace (tt_ResponsePolicy t) \<noteq> [] \<or>
             TrimSpace (tt_ImageCapableModelProfileId t) \<noteq> [] \<or> safeguardsChanged \<or>
             \<not> EqualFold (tt_PromptMode t) (tt_PromptMode DefaultDynamicTurnRoutingTierTarget) \<or>
             tt_DisableTools t)"

definition HasAnyConfigured :: "DynamicTurnRoutingTierMap option \<Rightarrow> bool" where
  "HasAnyConfigured tiers =
     (case tiers of
        None \<Rightarrow> False
      | Some m \<Rightarrow> IsConfigured (tm_T0 m) \<or> IsConfigured (tm_T1 m) \<or>
                  IsConfigured (tm_T2 m) \<or> IsConfigured (tm_T3 m))"

lemma default_tiers_not_configured: "\<not> HasAnyConfigured (Some DefaultDynamicTurnRoutingTierMap)"
  by (simp add: HasAnyConfigured_def IsConfigured_def DefaultDynamicTurnRoutingTierMap_def
      DefaultDynamicTurnRoutingTierTarget_def)

subsection \<open>Validation\<close>

record URL =
  url_Scheme :: string
  url_HasUser :: bool
  url_RawQuery :: string
  url_Fragment :: string
  url_Hostname :: string

record net_lib =
  url_Parse :: "string \<Rightarrow> URL go_result"
  net_ParseIP :: "string \<Rightarrow> bool option"    \<comment> \<open>\<open>None\<close>: no literal address; else \<open>IsLoopback\<close>\<close>

definition DecisionRoutingConfigurationProvider :: "DecisionRoutingConfig \<Rightarrow> string" where
  "DecisionRoutingConfigurationProvider cfg =
     (if rc_ProviderName cfg \<noteq> [] then ToLower (rc_ProviderName cfg)
      else if Contains (rc_Endpoint cfg) ''127.0.0.1'' \<or> HasPrefix (rc_Model cfg) ''laya@'' then ''laya''
      else ''jev'')"

definition DecisionRoutingConfigurationNormalizeMode :: "DecisionRoutingConfig \<Rightarrow> string go_result" where
  "DecisionRoutingConfigurationNormalizeMode cfg =
     (let mode = ToLower (TrimSpace (rc_Mode cfg)) in
      if mode \<in> {''disabled'', ''shadow'', ''active''} then Inr mode
      else Inl (GoErr ''decision routing mode must be disabled, shadow, or active''))"

definition core_isProbability :: "rat \<Rightarrow> bool" where
  "core_isProbability v \<longleftrightarrow> v \<ge> 0 \<and> v \<le> 1"

definition isAsciiLetterOrDigit :: "char \<Rightarrow> bool" where
  "isAsciiLetterOrDigit r \<longleftrightarrow>
     (97 \<le> byte r \<and> byte r \<le> 122) \<or> (65 \<le> byte r \<and> byte r \<le> 90) \<or> (48 \<le> byte r \<and> byte r \<le> 57)"

definition DecisionRoutingConfigurationIsHex :: "string \<Rightarrow> int \<Rightarrow> bool" where
  "DecisionRoutingConfigurationIsHex v len \<longleftrightarrow>
     int (length v) = len \<and>
     list_all (\<lambda>c. (48 \<le> byte c \<and> byte c \<le> 57) \<or> (97 \<le> byte c \<and> byte c \<le> 102)) v"

definition DecisionRoutingConfigurationValidateLimits :: "DecisionRoutingConfig \<Rightarrow> unit go_result" where
  "DecisionRoutingConfigurationValidateLimits cfg =
     (if rc_TimeoutMs cfg < 1 \<or> rc_TimeoutMs cfg > 30000 \<or>
         rc_MaxStateChars cfg < 256 \<or> rc_MaxStateChars cfg > 32000 \<or>
         rc_HistoryMessages cfg < 0 \<or> rc_HistoryMessages cfg > 20 \<or>
         rc_MaxConcurrentRequests cfg < 1 \<or> rc_MaxConcurrentRequests cfg > 128 \<or>
         rc_CircuitFailureThreshold cfg < 1 \<or> rc_CircuitFailureThreshold cfg > 100 \<or>
         rc_CircuitBreakSeconds cfg < 1 \<or> rc_CircuitBreakSeconds cfg > 3600
      then Inl (GoErr ''decision request, state, concurrency, or circuit limits are outside their supported ranges'')
      else if \<not> core_isProbability (rc_MinConfidence cfg) \<or>
         \<not> core_isProbability (rc_DowngradeMinConfidence cfg) \<or>
         rc_DowngradeMinConfidence cfg < rc_MinConfidence cfg \<or>
         \<not> core_isProbability (rc_MinProbabilityMargin cfg) \<or>
         \<not> core_isProbability (rc_HighRiskThreshold cfg) \<or>
         rc_InputUsdPerMillionTokens cfg < 0 \<or> rc_InputUsdPerMillionTokens cfg > 1000000
      then Inl (GoErr ''decision thresholds must be finite probabilities, downgrade confidence cannot be lower than minimum confidence, and price cannot be negative'')
      else Inr ())"

abbreviation laya_endpoint_error :: "'a go_result" where
  "laya_endpoint_error \<equiv>
     Inl (GoErr ''Laya.Endpoint must use a literal loopback IP, without credentials, query, or fragment'')"

definition validateLaya :: "net_lib \<Rightarrow> DecisionRoutingConfig \<Rightarrow> string \<Rightarrow> URL go_result" where
  "validateLaya net cfg mode =
     bindR (DecisionRoutingConfigurationValidateLimits cfg) (\<lambda>_.
     case url_Parse net (rc_Endpoint cfg) of
       Inl _ \<Rightarrow> laya_endpoint_error
     | Inr endpoint \<Rightarrow>
         if url_Scheme endpoint \<noteq> ''http'' \<and> url_Scheme endpoint \<noteq> ''https'' then laya_endpoint_error
         else if url_HasUser endpoint \<or> url_RawQuery endpoint \<noteq> [] \<or> url_Fragment endpoint \<noteq> []
         then laya_endpoint_error
         else if net_ParseIP net (url_Hostname endpoint) \<noteq> Some True then laya_endpoint_error
         else if \<not> HasPrefix (rc_Model cfg) ''laya@'' \<or>
                 \<not> DecisionRoutingConfigurationIsHex (drop 5 (rc_Model cfg)) 40
         then Inl (GoErr ''Laya.Model must be laya@ followed by the pinned 40-character Hugging Face revision'')
         else if (mode = ''active'' \<or> rc_CalibrationId cfg \<noteq> []) \<and>
                 \<not> DecisionRoutingConfigurationIsHex (rc_CalibrationId cfg) 64
         then Inl (GoErr ''Laya active routing requires the SHA-256 CalibrationId of an evaluated calibration artifact'')
         else if length (rc_Language cfg) > 35 \<or>
                 \<not> list_all (\<lambda>r. isAsciiLetterOrDigit r \<or> r = CHR ''-'') (rc_Language cfg)
         then Inl (GoErr ''Laya.Language must be empty or a language tag such as en or de-DE'')
         else if rc_InputUsdPerMillionTokens cfg \<noteq> 0
         then Inl (GoErr ''Laya has no metered API token price; account for local compute separately'')
         else Inr endpoint)"

definition validateJev :: "net_lib \<Rightarrow> DecisionRoutingConfig \<Rightarrow> string \<Rightarrow> URL go_result" where
  "validateJev net cfg mode =
     bindR (DecisionRoutingConfigurationValidateLimits cfg) (\<lambda>_.
     case url_Parse net (rc_Endpoint cfg) of
       Inl _ \<Rightarrow> Inl (GoErr ''invalid Jev endpoint'')
     | Inr endpoint \<Rightarrow>
         if rc_Endpoint cfg = [] then Inl (GoErr ''invalid Jev endpoint'') else Inr endpoint)"

definition DecisionRoutingConfigurationValidate :: "net_lib \<Rightarrow> DecisionRoutingConfig \<Rightarrow> URL go_result" where
  "DecisionRoutingConfigurationValidate net cfg =
     bindR (DecisionRoutingConfigurationNormalizeMode cfg) (\<lambda>mode.
       let provider = DecisionRoutingConfigurationProvider cfg in
       if provider = ''jev'' then validateJev net cfg mode
       else if provider = ''laya'' then validateLaya net cfg mode
       else Inl (GoErr (''unsupported decision provider: '' @ provider)))"

subsection \<open>What a validated configuration guarantees\<close>

definition valid_limits :: "DecisionRoutingConfig \<Rightarrow> bool" where
  "valid_limits cfg \<longleftrightarrow>
     rc_TimeoutMs cfg \<in> {1..30000} \<and> rc_MaxStateChars cfg \<in> {256..32000} \<and>
     rc_HistoryMessages cfg \<in> {0..20} \<and> rc_MaxConcurrentRequests cfg \<in> {1..128} \<and>
     rc_CircuitFailureThreshold cfg \<in> {1..100} \<and> rc_CircuitBreakSeconds cfg \<in> {1..3600} \<and>
     0 \<le> rc_MinConfidence cfg \<and> rc_MinConfidence cfg \<le> rc_DowngradeMinConfidence cfg \<and>
     rc_DowngradeMinConfidence cfg \<le> 1 \<and> 0 \<le> rc_MinProbabilityMargin cfg \<and> rc_MinProbabilityMargin cfg \<le> 1 \<and>
     0 \<le> rc_HighRiskThreshold cfg \<and> rc_HighRiskThreshold cfg \<le> 1"

lemma ValidateLimits_ok:
  "DecisionRoutingConfigurationValidateLimits cfg = Inr () \<Longrightarrow> valid_limits cfg"
  by (auto simp: DecisionRoutingConfigurationValidateLimits_def valid_limits_def core_isProbability_def
      split: if_splits)

lemma Validate_limits:
  assumes "DecisionRoutingConfigurationValidate net cfg = Inr u"
  shows "valid_limits cfg"
proof -
  have "DecisionRoutingConfigurationValidateLimits cfg = Inr ()"
    using assms
    by (cases "DecisionRoutingConfigurationValidateLimits cfg")
       (auto simp: DecisionRoutingConfigurationValidate_def validateJev_def validateLaya_def Let_def
         elim!: bindR_InrE split: if_splits)
  then show ?thesis by (rule ValidateLimits_ok)
qed

lemma NormalizeMode_ok:
  "DecisionRoutingConfigurationNormalizeMode cfg = Inr m \<Longrightarrow> m = ''disabled'' \<or> m = ''shadow'' \<or> m = ''active''"
  by (auto simp: DecisionRoutingConfigurationNormalizeMode_def Let_def split: if_splits)

text \<open>
  A configuration for the local classifier is accepted only when its endpoint is a loopback
  address: the state of the conversation does not leave the machine.
\<close>

lemma laya_endpoint_is_loopback:
  assumes "DecisionRoutingConfigurationValidate net cfg = Inr u"
    and "DecisionRoutingConfigurationProvider cfg = ''laya''"
  shows "url_Parse net (rc_Endpoint cfg) = Inr u" "net_ParseIP net (url_Hostname u) = Some True"
    "HasPrefix (rc_Model cfg) ''laya@''"
  using assms
  by (auto simp: DecisionRoutingConfigurationValidate_def validateLaya_def Let_def
      elim!: bindR_InrE split: if_splits sum.splits)

end
