(* ===== verification/Route_Client.thy ===== *)
theory Route_Client
  imports Route_Config Goal
begin

section \<open>Clients of the decision service\<close>

text \<open>
  \<open>src/openclaw/routingdecision\<close>: the requests and responses of \<open>models.go\<close>, their validation in
  \<open>validate.go\<close>, the serializer of \<open>json.go\<close>, and the clients of \<open>layaclient.go\<close> and
  \<open>typesafeclient.go\<close>. A Go map is an association list with distinct keys, in the order in which a
  loop visits it. A \<open>json.RawMessage\<close> is the value it encodes, \<open>None\<close> when it is empty. The HTTP
  transport acts on a state \<open>'w\<close>; the decoder of a response, the encoder of a request, the verbs
  \<open>%g\<close> and \<open>%v\<close> of \<open>fmt\<close> and SHA-256 are arguments.
\<close>

record DecisionQuestion =
  q_Type :: string
  q_Instructions :: string
  q_Criteria :: "json option"

record DecisionRequest =
  dq_Model :: string
  dq_RubricVersion :: string
  dq_State :: json
  dq_Questions :: "(string \<times> DecisionQuestion) list"

record DecisionAnswer =
  a_Type :: string
  a_Choice :: "string option"
  a_Score :: "rat option"
  a_Noul :: "rat option"
  a_Confidence :: "rat option"
  a_Probabilities :: "(string \<times> rat) list"
  a_Legend :: "(string \<times> string) list option"

record DecisionUsage =
  du_InputTokens :: int
  du_OutputTokens :: int

record DecisionMetadata =
  dm_Checkpoint :: string
  dm_Revision :: string
  dm_CalibrationId :: string
  dm_SchemaHash :: string
  dm_RubricVersion :: string
  dm_Device :: string
  dm_SdkVersion :: string
  dm_Truncated :: bool

record DecisionResponse =
  dr_Model :: string
  dr_Answers :: "(string \<times> DecisionAnswer) list option"
  dr_Usage :: DecisionUsage
  dr_Metadata :: "DecisionMetadata option"

subsection \<open>Validation\<close>

definition isProbability :: "rat option \<Rightarrow> bool" where
  "isProbability v \<longleftrightarrow> (case v of None \<Rightarrow> False | Some p \<Rightarrow> p \<ge> 0 \<and> p \<le> 1)"

text \<open>\<open>json.Unmarshal\<close> of raw criteria into a map and into a slice: keys, and number of elements.\<close>

definition criteria_keys :: "json option \<Rightarrow> string list option" where
  "criteria_keys c = (case c of Some (JObj kvs) \<Rightarrow> Some (remdups (map fst kvs)) | _ \<Rightarrow> None)"

definition criteria_levels :: "json option \<Rightarrow> int" where
  "criteria_levels c = (case c of Some (JArr vs) \<Rightarrow> int (length vs) | _ \<Rightarrow> 0)"

text \<open>The sum of the probabilities in \<open>float64\<close>, each addition rounded, stopping at the first bad value.\<close>

fun probSum :: "rat \<Rightarrow> (string \<times> rat) list \<Rightarrow> rat option" where
  "probSum acc [] = Some acc"
| "probSum acc ((_, v) # ps) = (if isProbability (Some v) then probSum (f64_round (acc + v)) ps else None)"

fun maxProb :: "rat \<Rightarrow> (string \<times> rat) list \<Rightarrow> rat" where
  "maxProb m [] = m"
| "maxProb m ((_, v) # ps) = maxProb (if v > m then v else m) ps"

definition has_key :: "string \<Rightarrow> (string \<times> 'v) list \<Rightarrow> bool" where
  "has_key k m \<longleftrightarrow> k \<in> set (map fst m)"

definition validate_choice :: "DecisionQuestion \<Rightarrow> DecisionAnswer \<Rightarrow> unit go_result" where
  "validate_choice question answer =
     (case criteria_keys (q_Criteria question) of
        None \<Rightarrow> Inl (GoErr ''invalid_choice'')
      | Some criteria \<Rightarrow>
          if length (a_Probabilities answer) \<noteq> length criteria then Inl (GoErr ''invalid_choice'')
          else if \<not> list_all (\<lambda>(key, _). key \<in> set criteria) (a_Probabilities answer)
          then Inl (GoErr ''invalid_choice'')
          else (case a_Choice answer of
                  None \<Rightarrow> Inl (GoErr ''invalid_choice'')
                | Some ch \<Rightarrow>
                    (case map_of (a_Probabilities answer) ch of
                       None \<Rightarrow> Inl (GoErr ''invalid_choice'')
                     | Some chosenProb \<Rightarrow>
                         if chosenProb < maxProb (- 1) (a_Probabilities answer)
                         then Inl (GoErr ''invalid_choice'') else Inr ())))"

definition validate_score :: "DecisionQuestion \<Rightarrow> DecisionAnswer \<Rightarrow> unit go_result" where
  "validate_score question answer =
     (let levels = criteria_levels (q_Criteria question) in
      if levels < 2 \<or> levels > 10 then Inl (GoErr ''invalid_score'')
      else (case (a_Score answer, a_Legend answer) of
              (Some score, Some legend) \<Rightarrow>
                if score < 0 \<or> score > of_int (levels - 1) \<or>
                   int (length (a_Probabilities answer)) \<noteq> levels \<or> int (length legend) \<noteq> levels
                then Inl (GoErr ''invalid_score'')
                else if \<not> list_all (\<lambda>(key, _). has_key key legend) (a_Probabilities answer)
                then Inl (GoErr ''invalid_score'')
                else if \<not> list_all (\<lambda>i. has_key (Itoa i) (a_Probabilities answer)) [0..levels - 1]
                then Inl (GoErr ''invalid_score'') else Inr ()
            | _ \<Rightarrow> Inl (GoErr ''invalid_score'')))"

definition validate_answer :: "DecisionQuestion \<Rightarrow> DecisionAnswer option \<Rightarrow> unit go_result" where
  "validate_answer question ans =
     (case ans of
        None \<Rightarrow> Inl (GoErr ''invalid_answer'')
      | Some answer \<Rightarrow>
          if a_Type answer \<noteq> q_Type question then Inl (GoErr ''invalid_answer'')
          else if q_Type question = ''noul''
          then (if isProbability (a_Noul answer) then Inr () else Inl (GoErr ''invalid_answer''))
          else if \<not> isProbability (a_Confidence answer) \<or> length (a_Probabilities answer) = 0
          then Inl (GoErr ''invalid_probabilities'')
          else (case probSum 0 (a_Probabilities answer) of
                  None \<Rightarrow> Inl (GoErr ''invalid_probabilities'')
                | Some total_prob \<Rightarrow>
                    if \<bar>f64_round (total_prob - 1)\<bar> > f64_round (1 / 1000)
                    then Inl (GoErr ''invalid_probabilities'')
                    else if q_Type question = ''choice'' then validate_choice question answer
                    else if q_Type question = ''score'' then validate_score question answer
                    else Inl (GoErr ''unsupported_question'')))"

fun validate_all ::
  "(string \<times> DecisionQuestion) list \<Rightarrow> (string \<times> DecisionAnswer) list \<Rightarrow> unit go_result" where
  "validate_all [] answers = Inr ()"
| "validate_all ((qid, question) # qs) answers =
     bindR (validate_answer question (map_of answers qid)) (\<lambda>_. validate_all qs answers)"

definition validate :: "DecisionRequest \<Rightarrow> DecisionResponse \<Rightarrow> unit go_result" where
  "validate req resp =
     (case dr_Answers resp of
        None \<Rightarrow> Inl (GoErr ''invalid_response'')
      | Some answers \<Rightarrow>
          if TrimSpace (dr_Model resp) = [] \<or> length (dr_Model resp) > 128 \<or>
             du_InputTokens (dr_Usage resp) < 0 \<or> du_OutputTokens (dr_Usage resp) < 0 \<or>
             length answers \<noteq> length (dq_Questions req)
          then Inl (GoErr ''invalid_response'')
          else validate_all (dq_Questions req) answers)"

subsection \<open>The exchange\<close>

record HttpReply =
  hy_StatusCode :: int
  hy_ContentLength :: int
  hy_Body :: string                     \<comment> \<open>the bytes the body delivers\<close>
  hy_BodyErr :: "string option"         \<comment> \<open>the error after them, \<open>None\<close> at the end of the body\<close>

record HttpCall =
  hc_URL :: string
  hc_Header :: "(string \<times> string) list"
  hc_Body :: "string option"

type_synonym 'w http_client = "HttpCall \<Rightarrow> 'w \<Rightarrow> HttpReply go_result \<times> 'w"

abbreviation maxResponseBytes :: int where
  "maxResponseBytes \<equiv> 256 * 1024"

text \<open>\<open>io.ReadAll\<close> of a reader limited to \<open>n\<close> bytes.\<close>

definition read_limited :: "int \<Rightarrow> HttpReply \<Rightarrow> string go_result" where
  "read_limited n resp =
     (if int (length (hy_Body resp)) \<ge> n then Inr (take (nat n) (hy_Body resp))
      else case hy_BodyErr resp of None \<Rightarrow> Inr (hy_Body resp) | Some e \<Rightarrow> Inl (GoErr e))"

definition SendAndValidateDecision ::
  "(string \<Rightarrow> DecisionResponse option) \<Rightarrow> 'w http_client \<Rightarrow> HttpCall \<Rightarrow> DecisionRequest \<Rightarrow> 'w \<Rightarrow>
     DecisionResponse go_result \<times> 'w" where
  "SendAndValidateDecision decode client call request w =
     bindS (client call w) (\<lambda>resp w.
       (if hy_StatusCode resp < 200 \<or> hy_StatusCode resp \<ge> 300
        then Inl (GoErr (''http_'' @ Itoa (hy_StatusCode resp)))
        else if hy_ContentLength resp > maxResponseBytes then Inl (GoErr ''response_too_large'')
        else bindR (read_limited (maxResponseBytes + 1) resp) (\<lambda>bodyBytes.
          if int (length bodyBytes) > maxResponseBytes then Inl (GoErr ''response_too_large'')
          else (case decode bodyBytes of
                  None \<Rightarrow> Inl (GoErr ''invalid_response'')
                | Some result \<Rightarrow> bindR (validate request result) (\<lambda>_. Inr result))), w))"

subsection \<open>Canonical JSON\<close>

definition hex_digit :: "nat \<Rightarrow> char" where
  "hex_digit n = (if n < 10 then char_of (48 + n) else char_of (87 + n))"

definition escape_byte :: "char \<Rightarrow> string" where
  "escape_byte c =
     (if c = CHR 0x22 then [CHR 0x5C, CHR 0x22]
      else if c = CHR 0x5C then [CHR 0x5C, CHR 0x5C]
      else if byte c = 8 then [CHR 0x5C, CHR ''b'']
      else if byte c = 12 then [CHR 0x5C, CHR ''f'']
      else if byte c = 10 then [CHR 0x5C, CHR ''n'']
      else if byte c = 13 then [CHR 0x5C, CHR ''r'']
      else if byte c = 9 then [CHR 0x5C, CHR ''t'']
      else if byte c < 32 then [CHR 0x5C] @ ''u00'' @ [hex_digit (byte c div 16), hex_digit (byte c mod 16)]
      else [c])"

definition appendString :: "string \<Rightarrow> string" where
  "appendString s = [CHR 0x22] @ concat (map escape_byte s) @ [CHR 0x22]"

fun appendValue :: "(rat \<Rightarrow> string) \<Rightarrow> json \<Rightarrow> string" where
  "appendValue fmt_g (JObj kvs) =
     ''{'' @ Join (map (\<lambda>kv. appendString (fst kv) @ '':'' @ appendValue fmt_g (snd kv)) kvs) '','' @ ''}''"
| "appendValue fmt_g (JArr vs) = ''['' @ Join (map (appendValue fmt_g) vs) '','' @ '']''"
| "appendValue fmt_g (JStr s) = appendString s"
| "appendValue fmt_g (JBool b) = (if b then ''true'' else ''false'')"
| "appendValue fmt_g JNull = ''null''"
| "appendValue fmt_g (JNum x) = fmt_g x"

subsection \<open>The local client\<close>

definition checkpoints :: "string list" where
  "checkpoints = [''english'', ''multilingual'', ''typed-decisions'']"

definition devices :: "string list" where
  "devices = [''cpu'', ''cuda'', ''mps'']"

record layaWireRequest =
  lw_Model :: string
  lw_State :: json
  lw_Questions :: "(string \<times> DecisionQuestion) list"
  lw_RubricVersion :: string
  lw_Language :: "string option"

text \<open>What the clients call of the standard library.\<close>

record codec =
  co_decode :: "string \<Rightarrow> DecisionResponse option"
  co_marshal :: "layaWireRequest \<Rightarrow> string go_result"
  co_fmt_g :: "rat \<Rightarrow> string"
  co_fmt_v :: "(string \<times> DecisionQuestion) list \<Rightarrow> string"
  co_sha :: "string \<Rightarrow> string"

record 'w LayaDecisionClient =
  lc_httpClient :: "'w http_client"
  lc_config :: DecisionRoutingConfig
  lc_uri :: string

definition NewLayaDecisionClient ::
  "net_lib \<Rightarrow> (URL \<Rightarrow> string) \<Rightarrow> 'w http_client \<Rightarrow> DecisionRoutingConfig \<Rightarrow> 'w LayaDecisionClient go_result" where
  "NewLayaDecisionClient net url_String httpClient config =
     bindR (DecisionRoutingConfigurationValidate net config) (\<lambda>uri.
       Inr \<lparr>lc_httpClient = httpClient, lc_config = config, lc_uri = url_String uri\<rparr>)"

definition metadata_matches ::
  "DecisionRoutingConfig \<Rightarrow> DecisionRequest \<Rightarrow> string \<Rightarrow> DecisionResponse \<Rightarrow> DecisionMetadata \<Rightarrow> bool" where
  "metadata_matches cfg request expectedSchemaHash result metadata \<longleftrightarrow>
     dr_Model result = rc_Model cfg \<and> dm_Revision metadata = drop 5 (rc_Model cfg) \<and>
     dm_Checkpoint metadata \<in> set checkpoints \<and>
     dm_RubricVersion metadata = dq_RubricVersion request \<and> dm_SchemaHash metadata = expectedSchemaHash \<and>
     dm_SdkVersion metadata = ''0.3.4'' \<and> dm_Device metadata \<in> set devices"

definition check_metadata ::
  "DecisionRoutingConfig \<Rightarrow> DecisionRequest \<Rightarrow> string \<Rightarrow> DecisionResponse \<Rightarrow> DecisionResponse go_result" where
  "check_metadata cfg request expectedSchemaHash result =
     (case dr_Metadata result of
        None \<Rightarrow> Inl (GoErr ''laya_metadata_mismatch'')
      | Some metadata \<Rightarrow>
          if \<not> metadata_matches cfg request expectedSchemaHash result metadata
          then Inl (GoErr ''laya_metadata_mismatch'')
          else if dm_Truncated metadata then Inl (GoErr ''laya_truncated_input'')
          else if dm_CalibrationId metadata \<noteq> ''uncalibrated'' \<and>
                  \<not> DecisionRoutingConfigurationIsHex (dm_CalibrationId metadata) 64
          then Inl (GoErr ''laya_calibration_mismatch'')
          else if rc_CalibrationId cfg \<noteq> [] \<and> dm_CalibrationId metadata \<noteq> rc_CalibrationId cfg
          then Inl (GoErr ''laya_calibration_mismatch'')
          else Inr result)"

definition LayaEvaluate ::
  "codec \<Rightarrow> 'w LayaDecisionClient \<Rightarrow> DecisionRequest \<Rightarrow> 'w \<Rightarrow> DecisionResponse go_result \<times> 'w" where
  "LayaEvaluate co l request w =
     (let statestr = appendValue (co_fmt_g co) (dq_State request) in
      if int (length statestr) > min 32000 (rc_MaxStateChars (lc_config l))
      then (Inl (GoErr ''request_too_large''), w)
      else
        let questionstr = co_fmt_v co (dq_Questions request);
            req = \<lparr>lw_Model = dq_Model request, lw_State = dq_State request,
                   lw_Questions = dq_Questions request, lw_RubricVersion = dq_RubricVersion request,
                   lw_Language = Some (rc_Language (lc_config l))\<rparr>
        in case co_marshal co req of
             Inl e \<Rightarrow> (Inl e, w)
           | Inr data \<Rightarrow>
               if int (length data) > 65536 then (Inl (GoErr ''request_too_large''), w)
               else
                 let expectedSchemaHash = ComputeTurnHash (co_sha co) questionstr;
                     rawrequest = \<lparr>hc_URL = lc_uri l, hc_Header = [(''Content-Type'', ''application/json'')],
                                   hc_Body = Some data\<rparr>
                 in bindS (SendAndValidateDecision (co_decode co) (lc_httpClient l) rawrequest request w)
                      (\<lambda>result w. (check_metadata (lc_config l) request expectedSchemaHash result, w)))"

subsection \<open>The remote client\<close>

record 'w TypeSafeDecisionClient =
  tc_httpClient :: "'w http_client"
  tc_uri :: string
  tc_resolveApiKey :: "(unit \<Rightarrow> string) option"

definition TypeSafeEvaluate ::
  "codec \<Rightarrow> 'w TypeSafeDecisionClient \<Rightarrow> DecisionRequest \<Rightarrow> 'w \<Rightarrow> DecisionResponse go_result \<times> 'w" where
  "TypeSafeEvaluate co l request w =
     (case tc_resolveApiKey l of
        None \<Rightarrow> (Inl (GoErr ''missing_api_key_resolver''), w)
      | Some resolve \<Rightarrow>
          let apiKey = resolve () in
          if apiKey = [] then (Inl (GoErr ''missing_api_key''), w)
          else SendAndValidateDecision (co_decode co) (tc_httpClient l)
                 \<lparr>hc_URL = tc_uri l,
                  hc_Header = [(''Authorization'', ''Bearer '' @ apiKey), (''Content-Type'', ''application/json'')],
                  hc_Body = None\<rparr> request w)"

subsection \<open>What a validated response is\<close>

text \<open>
  The contract between the clients and the policy, without reference to the order of the checks:
  every question has an answer of its type; a probability question has a probability; a choice is
  one of the criteria and no criterion is more probable; a score lies on its scale.
\<close>

definition sums_to_one :: "(string \<times> rat) list \<Rightarrow> bool" where
  "sums_to_one ps \<longleftrightarrow>
     \<bar>f64_round (foldl (\<lambda>acc p. f64_round (acc + snd p)) 0 ps - 1)\<bar> \<le> f64_round (1 / 1000)"

definition on_scale :: "int \<Rightarrow> DecisionAnswer \<Rightarrow> bool" where
  "on_scale levels a \<longleftrightarrow>
     2 \<le> levels \<and> levels \<le> 10 \<and>
     (\<exists>score legend. a_Score a = Some score \<and> 0 \<le> score \<and> score \<le> of_int (levels - 1) \<and>
        a_Legend a = Some legend \<and> int (length (a_Probabilities a)) = levels \<and> int (length legend) = levels \<and>
        fst ` set (a_Probabilities a) \<subseteq> fst ` set legend \<and>
        (\<forall>i \<in> {0..levels - 1}. Itoa i \<in> fst ` set (a_Probabilities a)))"

definition well_formed_answer :: "DecisionQuestion \<Rightarrow> DecisionAnswer \<Rightarrow> bool" where
  "well_formed_answer q a \<longleftrightarrow>
     a_Type a = q_Type q \<and>
     (if q_Type q = ''noul'' then isProbability (a_Noul a)
      else isProbability (a_Confidence a) \<and> a_Probabilities a \<noteq> [] \<and>
        (\<forall>p \<in> set (a_Probabilities a). isProbability (Some (snd p))) \<and> sums_to_one (a_Probabilities a) \<and>
        (q_Type q = ''choice'' \<and>
           (\<exists>ks ch pr. criteria_keys (q_Criteria q) = Some ks \<and>
              length ks = length (a_Probabilities a) \<and> fst ` set (a_Probabilities a) \<subseteq> set ks \<and>
              a_Choice a = Some ch \<and> map_of (a_Probabilities a) ch = Some pr \<and>
              (\<forall>p \<in> set (a_Probabilities a). snd p \<le> pr)) \<or>
         q_Type q = ''score'' \<and> on_scale (criteria_levels (q_Criteria q)) a))"

definition well_formed_response :: "DecisionRequest \<Rightarrow> DecisionResponse \<Rightarrow> bool" where
  "well_formed_response req resp \<longleftrightarrow>
     \<not> IsBlank (dr_Model resp) \<and> length (dr_Model resp) \<le> 128 \<and>
     0 \<le> du_InputTokens (dr_Usage resp) \<and> 0 \<le> du_OutputTokens (dr_Usage resp) \<and>
     (\<exists>answers. dr_Answers resp = Some answers \<and> length answers = length (dq_Questions req) \<and>
        (\<forall>(qid, q) \<in> set (dq_Questions req). \<exists>a. map_of answers qid = Some a \<and> well_formed_answer q a))"

lemma probSum_Some_iff:
  "probSum acc ps = Some t \<longleftrightarrow>
     (\<forall>p \<in> set ps. isProbability (Some (snd p))) \<and> t = foldl (\<lambda>acc p. f64_round (acc + snd p)) acc ps"
  by (induction ps arbitrary: acc) (auto split: if_splits, force+)

lemma probSum_None_iff: "probSum acc ps = None \<longleftrightarrow> \<not> (\<forall>p \<in> set ps. isProbability (Some (snd p)))"
  by (induction ps arbitrary: acc) (auto, force)

lemma maxProb_le_iff: "maxProb m ps \<le> x \<longleftrightarrow> m \<le> x \<and> (\<forall>p \<in> set ps. snd p \<le> x)"
  by (induction ps arbitrary: m) (auto split: if_splits, force+)

lemma validate_choice_iff:
  assumes "\<forall>p \<in> set (a_Probabilities a). isProbability (Some (snd p))"
  shows "validate_choice q a = Inr () \<longleftrightarrow>
     (\<exists>ks ch pr. criteria_keys (q_Criteria q) = Some ks \<and>
        length ks = length (a_Probabilities a) \<and> fst ` set (a_Probabilities a) \<subseteq> set ks \<and>
        a_Choice a = Some ch \<and> map_of (a_Probabilities a) ch = Some pr \<and>
        (\<forall>p \<in> set (a_Probabilities a). snd p \<le> pr))"
proof -
  have "- 1 \<le> pr" if "map_of (a_Probabilities a) ch = Some pr" for ch pr
    using assms map_of_SomeD[OF that] by (fastforce simp: isProbability_def)
  then show ?thesis
    by (auto simp: validate_choice_def list_all_iff maxProb_le_iff image_subset_iff case_prod_beta
        simp flip: not_le split: option.splits)
qed

lemma validate_score_iff:
  "validate_score q a = Inr () \<longleftrightarrow> on_scale (criteria_levels (q_Criteria q)) a"
  by (cases "a_Score a"; cases "a_Legend a")
     (auto simp: validate_score_def on_scale_def Let_def list_all_iff has_key_def image_subset_iff
       case_prod_beta not_less split: if_splits)

lemma validate_answer_iff:
  "validate_answer q (Some a) = Inr () \<longleftrightarrow> well_formed_answer q a"
proof (cases "q_Type q = ''noul'' \<or> a_Type a \<noteq> q_Type q")
  case True
  then show ?thesis by (auto simp: validate_answer_def well_formed_answer_def)
next
  case typed: False
  show ?thesis
  proof (cases "probSum 0 (a_Probabilities a)")
    case None
    then have "\<not> (\<forall>p \<in> set (a_Probabilities a). isProbability (Some (snd p)))"
      by (simp only: probSum_None_iff simp_thms)
    with None typed show ?thesis
      by (simp add: validate_answer_def well_formed_answer_def)
  next
    case (Some t)
    then have ok: "\<forall>p \<in> set (a_Probabilities a). isProbability (Some (snd p))"
      and one: "sums_to_one (a_Probabilities a) \<longleftrightarrow> \<not> \<bar>f64_round (t - 1)\<bar> > f64_round (1 / 1000)"
      by (simp_all add: probSum_Some_iff sums_to_one_def not_less)
    show ?thesis
      using typed Some one ok
      by (simp add: validate_answer_def well_formed_answer_def validate_choice_iff[OF ok] validate_score_iff)
  qed
qed

lemma validate_all_iff:
  "validate_all qs answers = Inr () \<longleftrightarrow>
     (\<forall>(qid, q) \<in> set qs. \<exists>a. map_of answers qid = Some a \<and> well_formed_answer q a)"
proof (induction qs)
  case (Cons qq qs)
  obtain qid q where qq: "qq = (qid, q)" by force
  show ?case
  proof (cases "map_of answers qid")
    case None
    then show ?thesis by (auto simp: qq validate_answer_def)
  next
    case (Some a)
    then show ?thesis
      using Cons.IH validate_answer_iff[of q a]
      by (cases "validate_answer q (Some a)") (auto simp: qq)
  qed
qed simp

text \<open>The checks of \<open>validate.go\<close>, in any order, accept exactly the well-formed responses.\<close>

lemma validate_iff: "validate req resp = Inr () \<longleftrightarrow> well_formed_response req resp"
  by (cases "dr_Answers resp")
     (auto simp: validate_def well_formed_response_def validate_all_iff IsBlank_def not_less)

subsection \<open>The interface of a client\<close>

locale decision_client =
  fixes evaluate :: "DecisionRequest \<Rightarrow> 'w \<Rightarrow> DecisionResponse go_result \<times> 'w"
  assumes evaluate_valid: "evaluate req w = (Inr resp, w') \<Longrightarrow> well_formed_response req resp"
begin

lemma choice_is_confident:
  assumes "evaluate req w = (Inr resp, w')" "(qid, q) \<in> set (dq_Questions req)" "q_Type q = ''choice''"
    "dr_Answers resp = Some answers"
  obtains a ks ch where "map_of answers qid = Some a" "isProbability (a_Confidence a)"
    "criteria_keys (q_Criteria q) = Some ks" "a_Choice a = Some ch" "ch \<in> set ks"
    "length (a_Probabilities a) = length ks"
proof -
  have "well_formed_response req resp" using assms(1) by (rule evaluate_valid)
  with assms(2,4) obtain a where a: "map_of answers qid = Some a" "well_formed_answer q a"
    by (fastforce simp: well_formed_response_def)
  from a(2) assms(3) obtain ks ch pr where
    "criteria_keys (q_Criteria q) = Some ks" "length ks = length (a_Probabilities a)"
    "fst ` set (a_Probabilities a) \<subseteq> set ks" "a_Choice a = Some ch"
    "map_of (a_Probabilities a) ch = Some pr" "isProbability (a_Confidence a)"
    by (auto simp: well_formed_answer_def)
  with a that show ?thesis by (metis domI dom_map_of_conv_image_fst subsetD)
qed

end

lemma SendAndValidate_valid:
  assumes "SendAndValidateDecision decode client call req w = (Inr resp, w')"
  shows "well_formed_response req resp"
proof -
  have "validate req resp = Inr ()"
    using assms
    by (auto simp: SendAndValidateDecision_def elim!: bindS_InrE bindR_InrE split: if_splits option.splits)
  then show ?thesis by (simp add: validate_iff)
qed

lemma check_metadata_same: "check_metadata cfg req h r = Inr resp \<Longrightarrow> resp = r"
  by (auto simp: check_metadata_def split: option.splits if_splits)

lemma LayaEvaluate_valid:
  assumes "LayaEvaluate co l req w = (Inr resp, w')"
  shows "well_formed_response req resp"
  using assms
  by (auto simp: LayaEvaluate_def Let_def split: if_splits sum.splits elim!: bindS_InrE
      dest: check_metadata_same SendAndValidate_valid)

interpretation laya: decision_client "LayaEvaluate co l" for co l
  by unfold_locales (rule LayaEvaluate_valid)

interpretation typesafe: decision_client "TypeSafeEvaluate co l" for co l
  by unfold_locales
     (auto simp: TypeSafeEvaluate_def Let_def split: option.splits if_splits dest: SendAndValidate_valid)

end
