(* ===== verification/Route_Signals.thy ===== *)
theory Route_Signals
  imports Go_Prelude
begin

section \<open>Signals of a turn and tier rules\<close>

text \<open>
  \<open>src/openclaw/agent/routing.go\<close>: the keyword and pattern signals of a user message, and the rules
  that raise a tier. The Chinese keywords are the bytes of their UTF-8 encoding, written with their
  code points. The four regular expressions are written out as scanners: \<open>codeBlocks\<close> finds the
  matches of \<open>codeBlockRegex\<close> (shortest text between two fences), \<open>filePaths\<close> those of
  \<open>filePathRegex\<close>, and the other two are only asked whether they match.
\<close>

text \<open>The UTF-8 encoding of a code point of the basic multilingual plane above 2047: three bytes.\<close>

definition utf8 :: "int list \<Rightarrow> string" where
  "utf8 = concat \<circ> map (\<lambda>c. [char_of (224 + c div 4096), char_of (128 + (c div 64) mod 64), char_of (128 + c mod 64)])"

subsection \<open>Keywords\<close>

definition debugKeywords :: "string list" where
  "debugKeywords =
    [''error'', ''bug'', ''exception'', ''traceback'', ''failed'', ''root cause'', utf8 [0x62A5, 0x9519],
     utf8 [0x6839, 0x56E0], utf8 [0x4FEE, 0x590D], ''stack trace'', ''debug'']"

definition researchKeywords :: "string list" where
  "researchKeywords =
    [utf8 [0x8C03, 0x7814], ''research'', utf8 [0x5BF9, 0x6BD4], ''compare'', ''survey'',
     utf8 [0x5206, 0x6790, 0x62A5, 0x544A], ''competitive analysis'', utf8 [0x7EFC, 0x8FF0]]"

definition architectureKeywords :: "string list" where
  "architectureKeywords =
    [''architecture'', utf8 [0x67B6, 0x6784], utf8 [0x91CD, 0x6784], ''refactor'', ''monorepo'',
     ''codebase'', ''module'', ''dependency'']"

definition compareKeywords :: "string list" where
  "compareKeywords =
    [utf8 [0x5BF9, 0x6BD4], ''compare'', ''audit'', utf8 [0x5BA1, 0x8BA1], ''review'', utf8 [0x8BC4, 0x4F30]]"

definition planningKeywords :: "string list" where
  "planningKeywords =
    [''plan'', ''planning'', utf8 [0x65B9, 0x6848], utf8 [0x8BA1, 0x5212], ''roadmap'', ''milestone'',
     utf8 [0x6B65, 0x9AA4], utf8 [0x5B9E, 0x65BD]]"

definition strictFormatKeywords :: "string list" where
  "strictFormatKeywords =
    [''json'', ''yaml'', ''csv'', ''schema'', utf8 [0x53EA, 0x8FD4, 0x56DE],
     utf8 [0x4E0D, 0x8981, 0x89E3, 0x91CA], utf8 [0x6309, 0x683C, 0x5F0F], ''only return'',
     ''no explanation'']"

definition highRiskKeywords :: "string list" where
  "highRiskKeywords =
    [''deploy'', ''rollback'', ''migration'', ''delete'', ''overwrite'', utf8 [0x8986, 0x76D6],
     ''production'', utf8 [0x751F, 0x4EA7], utf8 [0x90E8, 0x7F72], utf8 [0x5220, 0x9664],
     utf8 [0x5BA2, 0x6237], utf8 [0x6CD5, 0x52A1], utf8 [0x8D22, 0x52A1]]"

definition productionKeywords :: "string list" where
  "productionKeywords =
    [''production'', utf8 [0x751F, 0x4EA7], ''prod'', utf8 [0x7EBF, 0x4E0A],
     utf8 [0x6B63, 0x5F0F, 0x73AF, 0x5883]]"

definition customerKeywords :: "string list" where
  "customerKeywords =
    [''customer'', utf8 [0x5BA2, 0x6237], utf8 [0x7528, 0x6237, 0x90AE, 0x4EF6], ''client'']"

definition deleteKeywords :: "string list" where
  "deleteKeywords =
    [''delete'', ''remove'', ''drop'', ''truncate'', utf8 [0x5220, 0x9664], utf8 [0x6E05, 0x7A7A],
     utf8 [0x8986, 0x76D6], ''overwrite'']"

definition formalKeywords :: "string list" where
  "formalKeywords =
    [''formal'', utf8 [0x6B63, 0x5F0F], ''official'', utf8 [0x516C, 0x6587], utf8 [0x5408, 0x540C],
     utf8 [0x6CD5, 0x5F8B]]"

definition constraintKeywords :: "string list" where
  "constraintKeywords =
    [utf8 [0x5FC5, 0x987B], utf8 [0x4E0D, 0x80FD], utf8 [0x4E0D, 0x8981], utf8 [0x53EA, 0x80FD], ''must'',
     ''shall'', ''required'', ''forbidden'', utf8 [0x4E0D, 0x5141, 0x8BB8], utf8 [0x81F3, 0x5C11],
     utf8 [0x6700, 0x591A]]"

definition teachingKeywords :: "string list" where
  "teachingKeywords =
    [''how does'', ''explain'', ''what is'', ''why does'', ''how to'', utf8 [0x6559, 0x6211],
     utf8 [0x89E3, 0x91CA], utf8 [0x4E3A, 0x4EC0, 0x4E48], utf8 [0x600E, 0x4E48],
     utf8 [0x662F, 0x4EC0, 0x4E48], ''how can'', ''tell me about'', ''walk me through'',
     utf8 [0x4ECB, 0x7ECD], utf8 [0x8BF4, 0x660E]]"

definition implementKeywords :: "string list" where
  "implementKeywords =
    [''implement'', ''write function'', ''write a'', ''create a'', utf8 [0x5199, 0x4E2A],
     utf8 [0x5B9E, 0x73B0], utf8 [0x7528, 0x6CD5], utf8 [0x5E2E, 0x6211, 0x5199],
     utf8 [0x751F, 0x6210, 0x4EE3, 0x7801], ''add a'', ''build a'', ''make a'',
     utf8 [0x5199, 0x4E00, 0x4E2A], utf8 [0x7F16, 0x5199]]"

definition complaintKeywords :: "string list" where
  "complaintKeywords =
    [utf8 [0x4E0D, 0x5BF9], utf8 [0x592A, 0x6CDB, 0x4E86], utf8 [0x91CD, 0x65B0, 0x5199], ''wrong'',
     ''too vague'', ''redo'', ''try again'', ''not right'']"


fun keywordCount :: "string \<Rightarrow> string list \<Rightarrow> int" where
  "keywordCount txt [] = 0"
| "keywordCount txt (kw # kws) =
     (if Contains (ToLower txt) (ToLower kw) then 1 else 0) + keywordCount txt kws"

lemma keywordCount_nonneg [simp]: "0 \<le> keywordCount txt kws"
  by (induction kws) auto

lemma keywordCount_pos_iff:
  "0 < keywordCount txt kws \<longleftrightarrow> (\<exists>kw \<in> set kws. sublist (ToLower kw) (ToLower txt))"
proof (induction kws)
  case (Cons kw kws)
  then show ?case
    by (auto simp: Contains_sublist intro: add_pos_nonneg)
qed simp

subsection \<open>Patterns\<close>

abbreviation fence :: string where
  "fence \<equiv> ''```''"

text \<open>
  The lengths of the matches of \<open>codeBlockRegex\<close>, left to right without overlap: a match begins at
  the first fence and ends with the next fence after it.
\<close>

function codeBlocks :: "string \<Rightarrow> nat list" where
  "codeBlocks txt =
     (case Index txt fence of
        None \<Rightarrow> []
      | Some i \<Rightarrow>
          (case Index (drop (i + 3) txt) fence of
             None \<Rightarrow> []
           | Some j \<Rightarrow> (j + 6) # codeBlocks (drop (i + j + 6) txt)))"
  by pat_completeness auto
termination
proof (relation "measure length")
  fix s :: string and i j
  assume "Index s fence = Some i" "Index (drop (i + 3) s) fence = Some j"
  then have "prefix fence (drop i s)" by (simp add: Index_Some_iff)
  then have "length fence \<le> length (drop i s)" by (rule prefix_length_le)
  then show "(drop (i + j + 6) s, s) \<in> measure length" by simp
qed simp

declare codeBlocks.simps [simp del]

text \<open>The class \<open>\w\<close> of a pattern.\<close>

definition word_char :: "char \<Rightarrow> bool" where
  "word_char c \<longleftrightarrow> (48 \<le> byte c \<and> byte c \<le> 57) \<or> (65 \<le> byte c \<and> byte c \<le> 90) \<or>
     (97 \<le> byte c \<and> byte c \<le> 122) \<or> c = CHR ''_''"

definition path_start :: "char \<Rightarrow> bool" where
  "path_start c \<longleftrightarrow> (65 \<le> byte c \<and> byte c \<le> 90) \<or> (97 \<le> byte c \<and> byte c \<le> 122) \<or> c = CHR ''_''"

definition name_char :: "char \<Rightarrow> bool" where
  "name_char c \<longleftrightarrow> word_char c \<or> c = CHR ''.'' \<or> c = CHR ''-''"

definition rest_char :: "char \<Rightarrow> bool" where
  "rest_char c \<longleftrightarrow> word_char c \<or> c = CHR ''.'' \<or> c = CHR ''/'' \<or> c = CHR ''-''"

definition path_delim :: "char \<Rightarrow> bool" where
  "path_delim c \<longleftrightarrow> re_space c \<or> c = CHR 0x22 \<or> c = CHR 0x27 \<or> c = CHR ''`'' \<or> c = CHR ''(''"

text \<open>
  \<open>dot_end r\<close>: in a run of \<open>rest_char\<close> bytes, the end of the longest \<open>[\w./-]+\.[\w]+\<close> that begins
  at its start, taking the last dot that has a byte before it and a word character after it.
\<close>

definition dot_end :: "string \<Rightarrow> nat option" where
  "dot_end r =
     (case filter (\<lambda>i. 1 \<le> i \<and> r ! i = CHR ''.'' \<and> i + 1 < length r \<and> word_char (r ! (i + 1))) (rev [0..<length r]) of
        [] \<Rightarrow> None
      | i # _ \<Rightarrow> Some (i + 1 + length (takeWhile word_char (drop (i + 1) r))))"

text \<open>The length of the path that begins with the text, if one does.\<close>

definition path_at :: "string \<Rightarrow> nat option" where
  "path_at s =
     (case s of
        [] \<Rightarrow> None
      | c # cs \<Rightarrow>
          if \<not> path_start c then None
          else let name = takeWhile name_char cs; after = dropWhile name_char cs in
            (case after of
               [] \<Rightarrow> None
             | d # ds \<Rightarrow>
                 if d \<noteq> CHR ''/'' then None
                 else (case dot_end (takeWhile rest_char ds) of
                         None \<Rightarrow> None
                       | Some e \<Rightarrow> Some (1 + length name + 1 + e))))"

text \<open>
  \<open>filePaths bol txt\<close> counts the matches of \<open>filePathRegex\<close> in the rest of a text; \<open>bol\<close> says
  whether it begins a line. A match is a path at the beginning of a line, or a delimiter and a path.
\<close>

fun filePaths :: "nat \<Rightarrow> bool \<Rightarrow> string \<Rightarrow> nat" where
  "filePaths skip bol [] = 0"
| "filePaths (Suc skip) bol (c # cs) = filePaths skip (c = CHR 0x0A) cs"
| "filePaths 0 bol (c # cs) =
     (case (if bol then path_at (c # cs) else None) of
        Some n \<Rightarrow> 1 + filePaths (n - 1) (c = CHR 0x0A) cs
      | None \<Rightarrow>
          (case (if path_delim c then path_at cs else None) of
             Some n \<Rightarrow> 1 + filePaths n (c = CHR 0x0A) cs
           | None \<Rightarrow> filePaths 0 (c = CHR 0x0A) cs))"

fun suffixes_ok :: "(string \<Rightarrow> bool) \<Rightarrow> string \<Rightarrow> bool" where
  "suffixes_ok p [] = p []"
| "suffixes_ok p (c # cs) = (p (c # cs) \<or> suffixes_ok p cs)"

definition followed_by :: "string \<Rightarrow> (char \<Rightarrow> bool) \<Rightarrow> string \<Rightarrow> bool" where
  "followed_by lit p s \<longleftrightarrow> prefix lit s \<and> (case drop (length lit) s of [] \<Rightarrow> False | c # _ \<Rightarrow> p c)"

definition urlMatch :: "string \<Rightarrow> bool" where
  "urlMatch txt \<longleftrightarrow>
     suffixes_ok (\<lambda>s. followed_by ''http://'' (\<lambda>c. \<not> re_space c) s \<or>
                      followed_by ''https://'' (\<lambda>c. \<not> re_space c) s) txt"

definition tracebackMatch :: "string \<Rightarrow> bool" where
  "tracebackMatch txt \<longleftrightarrow>
     Contains txt ''Traceback (most recent'' \<or> Contains txt ''stderr:'' \<or>
     suffixes_ok (followed_by (''.py'' @ [CHR 0x22] @ '', line '') is_digit) txt"

subsection \<open>Signals\<close>

record TurnRoutingSignals =
  Debug :: bool
  RepoArch :: bool
  HighRisk :: bool
  LongContext :: bool
  StrictFormat :: bool
  HasCodeBlock :: bool
  HasFileReference :: bool
  HasUrl :: bool
  DeepConversation :: bool
  Research :: bool
  Planning :: bool

definition ExtractSignals :: "string \<Rightarrow> int \<Rightarrow> TurnRoutingSignals" where
  "ExtractSignals txt turnIndex =
     (let blocks = codeBlocks txt;
          fileMatches = filePaths 0 True txt;
          debug = keywordCount txt debugKeywords > 0 \<or> tracebackMatch txt;
          prodCount = keywordCount txt productionKeywords;
          deleteCount = keywordCount txt deleteKeywords
      in \<lparr>Debug = debug,
          RepoArch = keywordCount txt architectureKeywords > 0 \<or> keywordCount txt compareKeywords > 0,
          HighRisk = keywordCount txt highRiskKeywords > 0 \<or> (prodCount > 0 \<and> deleteCount > 0) \<or>
            keywordCount txt customerKeywords > 0 \<or> (prodCount > 0 \<and> debug),
          LongContext = length txt \<ge> 6000 \<or> sum_list blocks \<ge> 1500 \<or> fileMatches \<ge> 2,
          StrictFormat = keywordCount txt strictFormatKeywords > 0 \<or> keywordCount txt constraintKeywords > 1,
          HasCodeBlock = blocks \<noteq> [], HasFileReference = fileMatches > 0, HasUrl = urlMatch txt,
          DeepConversation = turnIndex \<ge> 4,
          Research = keywordCount txt researchKeywords > 0,
          Planning = keywordCount txt planningKeywords > 0\<rparr>)"

subsection \<open>Tier rules\<close>

definition ApplyFlagOverrides :: "int \<Rightarrow> TurnRoutingSignals \<Rightarrow> int" where
  "ApplyFlagOverrides tier signals =
     (let r1 = (if HighRisk signals then max tier 2 else tier);
          r2 = (if Debug signals \<and> LongContext signals then max r1 2 else r1);
          r3 = (if (Research signals \<and> Planning signals) \<or> (RepoArch signals \<and> Planning signals)
                then max r2 3 else r2);
          r4 = (if RepoArch signals then max r3 1 else r3)
      in if Planning signals then max r4 1 else r4)"

definition ApplyContextRule :: "int \<Rightarrow> int \<Rightarrow> int \<Rightarrow> int" where
  "ApplyContextRule tier turnIndex turnIndexThreshold =
     (if turnIndex \<ge> turnIndexThreshold then max tier 1 else tier)"

definition ApplyStickyTier :: "int \<Rightarrow> string \<Rightarrow> bool \<Rightarrow> int" where
  "ApplyStickyTier tier previousTier enabled =
     (if \<not> enabled then tier
      else let s = ToUpper (TrimSpace previousTier);
               previous = (if s = ''T0'' then 0 else if s = ''T1'' then 1 else if s = ''T2'' then 2
                           else if s = ''T3'' then 3 else - 1)
           in if previous > tier then previous else tier)"

lemma ApplyFlagOverrides_ge: "tier \<le> ApplyFlagOverrides tier sg"
  by (auto simp: ApplyFlagOverrides_def Let_def le_max_iff_disj)

lemma ApplyFlagOverrides_high_risk: "HighRisk sg \<Longrightarrow> 2 \<le> ApplyFlagOverrides tier sg"
  by (auto simp: ApplyFlagOverrides_def Let_def le_max_iff_disj)

lemma ApplyFlagOverrides_range: "0 \<le> tier \<Longrightarrow> tier \<le> 3 \<Longrightarrow> ApplyFlagOverrides tier sg \<in> {0..3}"
  by (auto simp: ApplyFlagOverrides_def Let_def)

lemma ApplyContextRule_ge: "tier \<le> ApplyContextRule tier i n"
  by (simp add: ApplyContextRule_def)

lemma ApplyContextRule_range: "0 \<le> tier \<Longrightarrow> tier \<le> 3 \<Longrightarrow> ApplyContextRule tier i n \<in> {0..3}"
  by (auto simp: ApplyContextRule_def)

lemma ApplyStickyTier_ge: "tier \<le> ApplyStickyTier tier prev en"
  by (simp add: ApplyStickyTier_def Let_def)

lemma ApplyStickyTier_range: "0 \<le> tier \<Longrightarrow> tier \<le> 3 \<Longrightarrow> ApplyStickyTier tier prev en \<in> {0..3}"
  by (simp add: ApplyStickyTier_def Let_def)

lemmas tier_rules_ge = ApplyFlagOverrides_ge ApplyContextRule_ge ApplyStickyTier_ge
lemmas tier_rules_range = ApplyFlagOverrides_range ApplyContextRule_range ApplyStickyTier_range

text \<open>The order of the rules does not matter for the lower bounds they guarantee: each only raises.\<close>

lemma high_risk_keyword:
  "kw \<in> set highRiskKeywords \<union> set customerKeywords \<Longrightarrow> sublist (ToLower kw) (ToLower txt) \<Longrightarrow>
     HighRisk (ExtractSignals txt n)"
  by (auto simp: ExtractSignals_def Let_def keywordCount_pos_iff)

end
