(* ===== verification/Chat.thy ===== *)
theory Chat
  imports Go_Json
begin

section \<open>Chat messages\<close>

text \<open>
  \<open>src/extensions_ai/abstractions\<close>: the messages openclaw exchanges with language models. The
  contents of a message are values of the interface \<open>IAIContent\<close>. A Go interface remembers whether
  it holds a struct or a pointer to one, and a type assertion distinguishes the two: \<open>Val\<close> and \<open>Ref\<close>.
  The embedded \<open>AIContent\<close> (raw representation, additional properties) and the fields that no
  operation here reads (data bytes, usage details, call arguments) are left out.
\<close>

datatype content =
    AIContent
  | TextContent string                    \<comment> \<open>\<open>Text\<close>\<close>
  | TextReasoningContent string
  | DataContent string string             \<comment> \<open>\<open>URI\<close>, \<open>MediaType\<close>\<close>
  | UriContent string string
  | FunctionCallContent string string     \<comment> \<open>\<open>CallId\<close>, \<open>Name\<close>\<close>
  | FunctionResultContent string
  | ErrorContent string
  | UsageContent

datatype IAIContent = Val content | Ref content

datatype ChatRole = RoleSystem | RoleAssistant | RoleUser | RoleTool | RoleDeveloper | OtherRole string

fun role_string :: "ChatRole \<Rightarrow> string" where
  "role_string RoleSystem = ''system''"
| "role_string RoleAssistant = ''assistant''"
| "role_string RoleUser = ''user''"
| "role_string RoleTool = ''tool''"
| "role_string RoleDeveloper = ''developer''"
| "role_string (OtherRole s) = s"

record ChatMessage =
  cm_AuthorName :: "string option"
  cm_Role :: ChatRole
  cm_Contents :: "IAIContent list"
  cm_MessageId :: "string option"

subsection \<open>Construction\<close>

definition NewTextContent :: "string \<Rightarrow> IAIContent" where
  "NewTextContent s = Ref (TextContent s)"

definition NewChatMessage :: "ChatRole \<Rightarrow> IAIContent list \<Rightarrow> ChatMessage" where
  "NewChatMessage role contents =
     \<lparr>cm_AuthorName = None, cm_Role = role, cm_Contents = contents, cm_MessageId = None\<rparr>"

definition NewChatMessageWithText :: "ChatRole \<Rightarrow> string \<Rightarrow> ChatMessage" where
  "NewChatMessageWithText role s =
     \<lparr>cm_AuthorName = None, cm_Role = role, cm_Contents = [NewTextContent s], cm_MessageId = None\<rparr>"

text \<open>\<open>ContentTypeRegistry\<close>: what the decoder of a message creates for each type name.\<close>

definition ContentTypeRegistry :: "(string \<times> (unit \<Rightarrow> IAIContent)) list" where
  "ContentTypeRegistry =
    [(''AIContent'', \<lambda>_. Ref AIContent),
     (''DataContent'', \<lambda>_. Ref (DataContent [] [])),
     (''ErrorContent'', \<lambda>_. Ref (ErrorContent [])),
     (''FunctionCallContent'', \<lambda>_. Ref (FunctionCallContent [] [])),
     (''FunctionResultContent'', \<lambda>_. Ref (FunctionResultContent [])),
     (''TextContent'', \<lambda>_. Ref (TextContent [])),
     (''UriContent'', \<lambda>_. Ref (UriContent [] [])),
     (''TextReasoningContent'', \<lambda>_. Ref (TextReasoningContent [])),
     (''UsageContent'', \<lambda>_. Ref UsageContent)]"

definition createContentByType :: "string \<Rightarrow> IAIContent go_result" where
  "createContentByType typeStr =
     (case map_of ContentTypeRegistry typeStr of
        Some factory \<Rightarrow> Inr (factory ())
      | None \<Rightarrow> Inl (GoErr (''unknown type: '' @ typeStr)))"

subsection \<open>The text of a message\<close>

fun ConcatTextContents :: "IAIContent list \<Rightarrow> string" where
  "ConcatTextContents [] = []"
| "ConcatTextContents (Val (TextContent t) # cs) = t @ ConcatTextContents cs"
| "ConcatTextContents (_ # cs) = ConcatTextContents cs"

definition Text :: "ChatMessage \<Rightarrow> string" where
  "Text m = ConcatTextContents (cm_Contents m)"

subsection \<open>Messages made of pointers\<close>

text \<open>
  Every constructor and the decoder store pointers, and \<open>ConcatTextContents\<close> looks for structs:
  a message all of whose contents are pointers has no text.
\<close>

fun is_ref :: "IAIContent \<Rightarrow> bool" where
  "is_ref (Ref _) = True"
| "is_ref (Val _) = False"

definition pointer_message :: "ChatMessage \<Rightarrow> bool" where
  "pointer_message m \<longleftrightarrow> list_all is_ref (cm_Contents m)"

lemma ConcatTextContents_refs: "list_all is_ref cs \<Longrightarrow> ConcatTextContents cs = []"
proof (induction cs)
  case (Cons c cs)
  then show ?case by (cases c) auto
qed simp

lemma Text_pointer_message [simp]: "pointer_message m \<Longrightarrow> Text m = []"
  by (simp add: pointer_message_def Text_def ConcatTextContents_refs)

lemma pointer_message_text [simp]: "pointer_message (NewChatMessageWithText r s)"
  by (simp add: pointer_message_def NewChatMessageWithText_def NewTextContent_def)

lemma created_content_is_ref: "createContentByType ty = Inr c \<Longrightarrow> is_ref c"
  by (auto simp: createContentByType_def ContentTypeRegistry_def split: if_splits)

end
