(* ===== verification/Route_Safety.thy ===== *)
theory Route_Safety
  imports Route_Policy
begin

section \<open>What the routing policy promises\<close>

text \<open>
  The properties of \<open>Resolve\<close>: when it departs from the baseline and how far, what it sends to the
  service, when it stops calling it, and how many calls run at the same time.
\<close>

named_theorems route_fields \<open>fields that the bookkeeping of the policy leaves alone\<close>

lemma acquireSlot_fields [route_fields]:
  "dp_config (snd (acquireSlot p)) = dp_config p" "dp_provider (snd (acquireSlot p)) = dp_provider p"
  "dp_policy (snd (acquireSlot p)) = dp_policy p" "dp_baseline (snd (acquireSlot p)) = dp_baseline p"
  "dp_client (snd (acquireSlot p)) = dp_client p" "dp_redactor (snd (acquireSlot p)) = dp_redactor p"
  "dp_mode (snd (acquireSlot p)) = dp_mode p" "dp_failures (snd (acquireSlot p)) = dp_failures p"
  "dp_openUntil (snd (acquireSlot p)) = dp_openUntil p" "dp_slots (snd (acquireSlot p)) = dp_slots p"
  "dp_observer (snd (acquireSlot p)) = dp_observer p"
  by (simp_all add: acquireSlot_def split: option.splits)

lemma releaseSlot_fields [route_fields]:
  "dp_config (releaseSlot p) = dp_config p" "dp_provider (releaseSlot p) = dp_provider p"
  "dp_policy (releaseSlot p) = dp_policy p" "dp_baseline (releaseSlot p) = dp_baseline p"
  "dp_client (releaseSlot p) = dp_client p" "dp_redactor (releaseSlot p) = dp_redactor p"
  "dp_mode (releaseSlot p) = dp_mode p" "dp_failures (releaseSlot p) = dp_failures p"
  "dp_openUntil (releaseSlot p) = dp_openUntil p" "dp_slots (releaseSlot p) = dp_slots p"
  by (simp_all add: releaseSlot_def)

lemma settle_fields [route_fields]:
  "dp_config (settle now reason f p) = dp_config p" "dp_provider (settle now reason f p) = dp_provider p"
  "dp_policy (settle now reason f p) = dp_policy p" "dp_baseline (settle now reason f p) = dp_baseline p"
  "dp_client (settle now reason f p) = dp_client p" "dp_redactor (settle now reason f p) = dp_redactor p"
  "dp_mode (settle now reason f p) = dp_mode p" "dp_slots (settle now reason f p) = dp_slots p"
  "dp_used (settle now reason f p) = dp_used p"
  by (simp_all add: settle_def recordFailure_def resetFailures_def Let_def)

lemma recordDiagnostic_fields [route_fields]:
  "dp_config (recordDiagnostic req b pr ap rs reason tr ms p) = dp_config p"
  "dp_baseline (recordDiagnostic req b pr ap rs reason tr ms p) = dp_baseline p"
  "dp_client (recordDiagnostic req b pr ap rs reason tr ms p) = dp_client p"
  "dp_mode (recordDiagnostic req b pr ap rs reason tr ms p) = dp_mode p"
  "dp_slots (recordDiagnostic req b pr ap rs reason tr ms p) = dp_slots p"
  "dp_used (recordDiagnostic req b pr ap rs reason tr ms p) = dp_used p"
  "dp_failures (recordDiagnostic req b pr ap rs reason tr ms p) = dp_failures p"
  "dp_openUntil (recordDiagnostic req b pr ap rs reason tr ms p) = dp_openUntil p"
  by (simp_all add: recordDiagnostic_def Let_def split: option.splits)

lemma finish_fields [route_fields]:
  "dp_config (snd (finish env req b pr reason tr p)) = dp_config p"
  "dp_baseline (snd (finish env req b pr reason tr p)) = dp_baseline p"
  "dp_client (snd (finish env req b pr reason tr p)) = dp_client p"
  "dp_mode (snd (finish env req b pr reason tr p)) = dp_mode p"
  "dp_slots (snd (finish env req b pr reason tr p)) = dp_slots p"
  "dp_used (snd (finish env req b pr reason tr p)) = dp_used p"
  "dp_failures (snd (finish env req b pr reason tr p)) = dp_failures p"
  "dp_openUntil (snd (finish env req b pr reason tr p)) = dp_openUntil p"
  by (simp_all add: finish_def Let_def route_fields split: option.splits)

lemma finish_result:
  "fst (finish env req b pr reason tr p) =
     (case ce_ctxErr env of
        Some e \<Rightarrow> Inl (GoErr e)
      | None \<Rightarrow> Inr (if dp_mode p = ''active'' \<and> pr \<noteq> None then pr else b))"
  by (simp add: finish_def Let_def split: option.splits)

subsection \<open>An assessment\<close>

text \<open>The policy as the assessment sees it differs from the policy before only in its slots.\<close>

lemma buildState_slot [route_fields]: "buildState (snd (acquireSlot p)) req = buildState p req"
  by (simp add: buildState_def Let_def route_fields)

lemma buildRequest_slot [route_fields]: "buildRequest (snd (acquireSlot p)) st = buildRequest p st"
  by (simp add: buildRequest_def BuildLayaRequest_def route_fields)

lemma guarded_tier_slot [route_fields]:
  "guarded_tier (snd (acquireSlot p)) req se ans t = guarded_tier p req se ans t"
  by (simp add: guarded_tier_def Let_def route_fields)

lemma propose_slot [route_fields]:
  "propose (snd (acquireSlot p)) req b resp tr = propose p req b resp tr"
  unfolding propose_def acquireSlot_fields guarded_tier_slot ..

lemma executeEvaluation_slot [route_fields]:
  "executeEvaluation (snd (acquireSlot p)) dl req b w = executeEvaluation p dl req b w"
  unfolding executeEvaluation_def acquireSlot_fields buildState_slot buildRequest_slot propose_slot ..

text \<open>The call of \<open>Resolve\<close> that reaches the service, and its outcome.\<close>

lemma Resolve_reaches:
  assumes "dp_baseline p req = Inr b" "dp_mode p \<noteq> ''disabled''" "refusal (ce_now env) p req = Inr None"
    "fst (acquireSlot p)"
  shows "Resolve env req p w =
     (case executeEvaluation p (ce_deadline env) req b w of
        (Inl e, w') \<Rightarrow> (Inl e, releaseSlot (snd (acquireSlot p)), w')
      | (Inr (proposed, reason, truncated, failed), w') \<Rightarrow>
          (let f = finish env req b proposed reason truncated (settle (ce_later env) reason failed (snd (acquireSlot p)))
           in (fst f, releaseSlot (snd f), w')))"
proof -
  obtain p' where "acquireSlot p = (True, p')" using assms(4) by (cases "acquireSlot p") auto
  moreover then have "executeEvaluation p' dl req b w = executeEvaluation p dl req b w" for dl
    using executeEvaluation_slot[of p] by simp
  ultimately show ?thesis
    using assms by (auto simp: Resolve_def Let_def case_prod_beta split: sum.splits prod.splits)
qed

lemma Resolve_keeps_baseline:
  assumes "dp_baseline p req = Inr b"
    and "dp_mode p = ''disabled'' \<or> (\<exists>reason. refusal (ce_now env) p req = Inr (Some reason)) \<or>
         (refusal (ce_now env) p req = Inr None \<and> \<not> fst (acquireSlot p))"
  shows "snd (snd (Resolve env req p w)) = w"
    "fst (Resolve env req p w) = Inr b \<or> (\<exists>e. ce_ctxErr env = Some e \<and> fst (Resolve env req p w) = Inl (GoErr e))"
proof -
  obtain f p' where acq: "acquireSlot p = (f, p')" by (cases "acquireSlot p")
  show "snd (snd (Resolve env req p w)) = w"
    using assms acq by (auto simp: Resolve_def case_prod_beta)
  show "fst (Resolve env req p w) = Inr b \<or>
    (\<exists>e. ce_ctxErr env = Some e \<and> fst (Resolve env req p w) = Inl (GoErr e))"
    using assms acq by (auto simp: Resolve_def case_prod_beta finish_result split: option.splits)
qed

lemma executeEvaluation_SomeE:
  assumes "executeEvaluation p dl req baseline w = (Inr (Some d, reason, truncated, failed), w')"
  obtains st resp where "buildState p req = Inr (st, truncated)" "\<not> failed"
    "dp_client p (buildRequest p st) w = (Inr resp, w')" "dr_Model resp = rc_Model (dp_config p)"
    "propose p req baseline resp truncated = Inr (Some d, reason)"
  using assms
  by (auto simp: executeEvaluation_def elim!: bindR_InrE
      split: sum.splits go_fail.splits prod.splits if_splits)

lemma Resolve_departsE:
  assumes "dp_baseline p req = Inr b" "Resolve env req p w = (Inr d, p', w')" "d \<noteq> b"
  obtains d' reason truncated where "d = Some d'" "dp_mode p = ''active''"
    "executeEvaluation p (ce_deadline env) req b w = (Inr (Some d', reason, truncated, False), w')"
proof -
  have on: "dp_mode p \<noteq> ''disabled'' \<and> refusal (ce_now env) p req = Inr None \<and> fst (acquireSlot p)"
  proof (rule ccontr)
    assume off: "\<not> ?thesis"
    show False
    proof (cases "refusal (ce_now env) p req")
      case (Inl e)
      with assms show False by (auto simp: Resolve_def split: if_splits)
    next
      case (Inr r)
      with off assms(1) have "fst (Resolve env req p w) = Inr b \<or>
          (\<exists>e. ce_ctxErr env = Some e \<and> fst (Resolve env req p w) = Inl (GoErr e))"
        by (intro Resolve_keeps_baseline) (auto simp: not_None_eq)
      with assms show False by auto
    qed
  qed
  then have eq: "Resolve env req p w =
     (case executeEvaluation p (ce_deadline env) req b w of
        (Inl e, w') \<Rightarrow> (Inl e, releaseSlot (snd (acquireSlot p)), w')
      | (Inr (proposed, reason, truncated, failed), w') \<Rightarrow>
          (let f = finish env req b proposed reason truncated (settle (ce_later env) reason failed (snd (acquireSlot p)))
           in (fst f, releaseSlot (snd f), w')))"
    using assms(1) by (intro Resolve_reaches) auto
  obtain r w1 where ev: "executeEvaluation p (ce_deadline env) req b w = (r, w1)" by force
  with eq assms(2) obtain pr reason truncated failed where r: "r = Inr (pr, reason, truncated, failed)"
    by (cases r) auto
  from eq ev r assms(2) have "d = (if dp_mode p = ''active'' \<and> pr \<noteq> None then pr else b) \<and> w1 = w'"
    by (auto simp: Let_def finish_result route_fields split: option.splits)
  with assms(3) obtain d' where d: "pr = Some d'" "d = Some d'" "dp_mode p = ''active''" "w1 = w'"
    by (auto split: if_splits)
  with ev r have ev': "executeEvaluation p (ce_deadline env) req b w = (Inr (Some d', reason, truncated, failed), w')"
    by simp
  then have "\<not> failed" by (rule executeEvaluation_SomeE)
  with d ev' show ?thesis by (intro that) auto
qed

lemma tier_question: "\<exists>q. (''tier'', q) \<in> set (dq_Questions (buildRequest p st)) \<and> q_Type q = ''choice''"
  by (simp add: buildRequest_def BuildLayaRequest_def jev_questions_def laya_questions_def)

text \<open>What the flag of a state that was not truncated says: every message of the filter was sent.\<close>

lemma history_loop_complete:
  "history_loop redact n ms hist b = (hist', False) \<Longrightarrow>
     hist' = hist @ map (\<lambda>m. \<lparr>hm_Role = role_string (cm_Role m), hm_Text = redact (Text m)\<rparr>) ms \<and> \<not> b"
  by (induction redact n ms hist b rule: history_loop.induct) (auto simp: Let_def split: if_splits)

lemma untruncated_sends_filtered:
  assumes "buildState p req = Inr (st, False)"
  shows "ds_RecentConversation st =
     map (\<lambda>m. \<lparr>hm_Role = role_string (cm_Role m), hm_Text = dp_redactor p (Text m)\<rparr>) (filtered_messages req)"
proof -
  let ?ms = "filtered_messages req"
  let ?start = "max 0 (int (length ?ms) - rc_HistoryMessages (dp_config p))"
  obtain n b hist where loop: "history_loop (dp_redactor p) n (rev (drop (nat ?start) ?ms)) [] b = (hist, False)"
    and st: "ds_RecentConversation st = rev hist"
    and b: "int (length ?ms) > rc_HistoryMessages (dp_config p) \<longrightarrow> b"
    using assms by (auto simp: buildState_def Let_def prod_eq_iff split: if_splits)
  note sent = history_loop_complete[OF loop]
  then have "nat ?start = 0" using b by auto
  then show ?thesis using sent st by (simp add: rev_map)
qed


text \<open>A run that departs: the service upgrades a greeting on a new session to T3.\<close>

definition example_session :: Session where
  "example_session =
     \<lparr>se_Id = ''s1'', se_ModelOverride = [], se_ModelProfileId = [], se_PreferredModelTags = [],
      se_FallbackModelProfileIds = [], se_SystemPromptOverride = [], se_RouteAllowedTools = [],
      se_RouteToolsDisabled = False, se_RouteModelTier = [], se_RouteModelTierSource = [],
      se_RouteReason = [], se_ReasoningEffort = [], se_ResponseMode = []\<rparr>"

definition example_request :: TurnRoutingRequest where
  "example_request = \<lparr>tr_Session = Some example_session, tr_UserMessage = ''hi'', tr_Messages = []\<rparr>"

definition example_answers :: "(string \<times> DecisionAnswer) list" where
  "example_answers =
     [(''tier'', \<lparr>a_Type = ''choice'', a_Choice = Some ''T3'', a_Score = None, a_Noul = None,
        a_Confidence = Some 1,
        a_Probabilities = [(''T0'', 0), (''T1'', 0), (''T2'', 0), (''T3'', 1), (''abstain'', 0)],
        a_Legend = None\<rparr>),
      (''high_risk'', \<lparr>a_Type = ''noul'', a_Choice = None, a_Score = None, a_Noul = Some 0,
        a_Confidence = None, a_Probabilities = [], a_Legend = None\<rparr>),
      (''requires_tools'', \<lparr>a_Type = ''noul'', a_Choice = None, a_Score = None, a_Noul = Some 0,
        a_Confidence = None, a_Probabilities = [], a_Legend = None\<rparr>)]"

definition example_codec :: codec where
  "example_codec =
     \<lparr>co_decode = (\<lambda>_. Some \<lparr>dr_Model = ''jev-1.13.0'', dr_Answers = Some example_answers,
        dr_Usage = \<lparr>du_InputTokens = 10, du_OutputTokens = 1\<rparr>, dr_Metadata = None\<rparr>),
      co_marshal = (\<lambda>_. Inr []), co_fmt_g = (\<lambda>_. []), co_fmt_v = (\<lambda>_. []), co_sha = id\<rparr>"

definition example_client :: "nat TypeSafeDecisionClient" where
  "example_client =
     \<lparr>tc_httpClient = (\<lambda>_ n. (Inr \<lparr>hy_StatusCode = 200, hy_ContentLength = 0, hy_Body = [], hy_BodyErr = None\<rparr>, n + 1)),
      tc_uri = [], tc_resolveApiKey = Some (\<lambda>_. ''key'')\<rparr>"

definition example_target :: DynamicTurnRoutingTierTarget where
  "example_target = DefaultDynamicTurnRoutingTierTarget\<lparr>tt_ModelProfileId := ''deep''\<rparr>"

definition example_policy :: "nat DecisionTurnRoutingPolicy" where
  "example_policy =
     \<lparr>dp_config = NewDefaultDecisionRoutingConfig\<lparr>rc_Mode := ''active'', rc_Model := ''jev-1.13.0''\<rparr>,
      dp_provider = ''jev'',
      dp_policy = DefaultDynamicTurnRoutingPolicyConfig\<lparr>rp_Tiers :=
        Some (DefaultDynamicTurnRoutingTierMap\<lparr>tm_T3 := Some example_target\<rparr>)\<rparr>,
      dp_baseline = NoopTurnRoutingPolicy_Resolve, dp_client = TypeSafeEvaluate example_codec example_client,
      dp_redactor = id, dp_observer = None, dp_mode = ''active'', dp_slots = Some 8, dp_used = 0,
      dp_failures = 0, dp_openUntil = 0\<rparr>"

definition example_env :: call_env where
  "example_env =
     \<lparr>ce_now = 1, ce_later = 2, ce_latencyMs = 0, ce_deadline = False, ce_ctxErr = None\<rparr>"

definition example_base :: TurnRoutingDecision where
  "example_base =
     \<lparr>td_Tier = [], td_ModelProfileId = [], td_DirectModelFallbackProfileId = [],
       td_DisableTools = False, td_AllowedTools = [], td_PreferredTags = [], td_ReasoningLevel = [],
       td_ResponsePolicy = [], td_ImageCapableModelProfileId = [],
       td_CacheContinuitySafeguardsEnabled = False, td_CacheContinuityMaxConversationTurns = 0,
       td_CacheContinuityResetOnProfileSwitch = False, td_SystemPromptSuffix = [], td_Reason = []\<rparr>"

lemma example_run_once:
  "(case Resolve example_env example_request example_policy 0 of (r, p, w) \<Rightarrow> (r, w)) =
     (Inr (Some (routed_decision ''jev'' example_base example_target 3 3)), 1)"
  by code_simp

lemma example_run:
  "fst (Resolve example_env example_request example_policy 0) =
     Inr (Some (routed_decision ''jev'' example_base example_target 3 3))"
  "snd (snd (Resolve example_env example_request example_policy 0)) = 1"
  using example_run_once by (auto split: prod.splits)


subsection \<open>The circuit\<close>

text \<open>A sequence of calls, and a call whose assessment fails.\<close>

fun resolves ::
  "(call_env \<times> TurnRoutingRequest) list \<Rightarrow> 'w DecisionTurnRoutingPolicy \<Rightarrow> 'w \<Rightarrow> 'w DecisionTurnRoutingPolicy \<times> 'w" where
  "resolves [] p w = (p, w)"
| "resolves ((env, req) # cs) p w = (case Resolve env req p w of (_, p', w') \<Rightarrow> resolves cs p' w')"

definition assessment_fails ::
  "call_env \<Rightarrow> TurnRoutingRequest \<Rightarrow> 'w DecisionTurnRoutingPolicy \<Rightarrow> 'w \<Rightarrow> bool" where
  "assessment_fails env req p w \<longleftrightarrow>
     dp_mode p \<noteq> ''disabled'' \<and> refusal (ce_now env) p req = Inr None \<and> fst (acquireSlot p) \<and>
     (case dp_baseline p req of Inl _ \<Rightarrow> False | Inr b \<Rightarrow>
        (case fst (executeEvaluation p (ce_deadline env) req b w) of
           Inl _ \<Rightarrow> False | Inr (_, _, _, failed) \<Rightarrow> failed))"

fun all_fail ::
  "(call_env \<times> TurnRoutingRequest) list \<Rightarrow> 'w DecisionTurnRoutingPolicy \<Rightarrow> 'w \<Rightarrow> bool" where
  "all_fail [] p w = True"
| "all_fail ((env, req) # cs) p w \<longleftrightarrow>
     assessment_fails env req p w \<and> (case Resolve env req p w of (_, p', w') \<Rightarrow> all_fail cs p' w')"

lemma failing_call:
  assumes "assessment_fails env req p w" "Resolve env req p w = (r, p', w')"
  shows "dp_failures p' = wrap64 (dp_failures p + 1)" "dp_config p' = dp_config p" "dp_mode p' = dp_mode p"
    "dp_baseline p' = dp_baseline p"
    "dp_failures p' \<ge> rc_CircuitFailureThreshold (dp_config p) \<Longrightarrow>
       dp_openUntil p' = ce_later env + wrap64 (rc_CircuitBreakSeconds (dp_config p) * Second)"
proof -
  obtain b pr reason tr w1 where b: "dp_baseline p req = Inr b"
    and ev: "executeEvaluation p (ce_deadline env) req b w = (Inr (pr, reason, tr, True), w1)"
    using assms(1)
    by (cases "executeEvaluation p (ce_deadline env) req (projr (dp_baseline p req)) w")
       (auto simp: assessment_fails_def split: sum.splits prod.splits)
  have "p' = releaseSlot (snd (finish env req b pr reason tr (settle (ce_later env) reason True (snd (acquireSlot p)))))"
    using assms Resolve_reaches[of p req b env w] b ev by (auto simp: assessment_fails_def Let_def)
  then show "dp_failures p' = wrap64 (dp_failures p + 1)" "dp_config p' = dp_config p" "dp_mode p' = dp_mode p"
    "dp_baseline p' = dp_baseline p"
    "dp_failures p' \<ge> rc_CircuitFailureThreshold (dp_config p) \<Longrightarrow>
       dp_openUntil p' = ce_later env + wrap64 (rc_CircuitBreakSeconds (dp_config p) * Second)"
    by (simp_all add: route_fields settle_def recordFailure_def Let_def split: if_splits)
qed

lemma failing_calls:
  assumes "all_fail cs p w" "resolves cs p w = (p', w')" "cs \<noteq> []" "0 \<le> dp_failures p"
    "dp_failures p + int (length cs) \<le> max_i64"
  shows "dp_failures p' = dp_failures p + int (length cs) \<and> dp_config p' = dp_config p \<and>
    dp_mode p' = dp_mode p \<and> dp_baseline p' = dp_baseline p \<and>
    (dp_failures p' \<ge> rc_CircuitFailureThreshold (dp_config p) \<longrightarrow>
       dp_openUntil p' = ce_later (fst (last cs)) + wrap64 (rc_CircuitBreakSeconds (dp_config p) * Second))"
  using assms
proof (induction cs arbitrary: p w)
  case (Cons c cs)
  obtain env req where c: "c = (env, req)" by force
  obtain r p1 w1 where run: "Resolve env req p w = (r, p1, w1)" by (cases "Resolve env req p w") auto
  with Cons.prems c have f: "assessment_fails env req p w" and rest: "all_fail cs p1 w1" "resolves cs p1 w1 = (p', w')"
    by auto
  note one = failing_call[OF f run]
  have cnt: "dp_failures p1 = dp_failures p + 1"
    using one(1) Cons.prems by (simp add: wrap64_id in_i64_def)
  show ?case
  proof (cases "cs = []")
    case True
    with rest one cnt c show ?thesis by simp
  next
    case False
    with Cons.IH[OF rest False] Cons.prems cnt one c show ?thesis by simp
  qed
qed simp

lemma open_circuit_refuses:
  assumes "ce_now env < dp_openUntil p" "tr_Session req \<noteq> None"
  shows "\<exists>reason. refusal (ce_now env) p req = Inr (Some reason)"
  using assms by (auto simp: refusal_def circuitOpen_def)

text \<open>As many failing assessments in a row as the threshold of a valid configuration open the
  circuit: until the configured number of seconds after the last failure, every call returns the
  decision of the baseline and leaves the rest of the world untouched: the service is not called.
\<close>

theorem failures_open_circuit:
  assumes valid: "valid_limits (dp_config p)" and fresh: "dp_failures p = 0"
    and failing: "all_fail cs p w" "int (length cs) = rc_CircuitFailureThreshold (dp_config p)"
    and run: "resolves cs p w = (p', w')"
    and early: "ce_now env < ce_later (fst (last cs)) + rc_CircuitBreakSeconds (dp_config p) * Second"
    and base: "dp_baseline p req = Inr b" and sess: "tr_Session req \<noteq> None" and ctx: "ce_ctxErr env = None"
  shows "fst (Resolve env req p' w') = Inr b \<and> snd (snd (Resolve env req p' w')) = w'"
proof -
  have thr: "1 \<le> rc_CircuitFailureThreshold (dp_config p)" "rc_CircuitFailureThreshold (dp_config p) \<le> 100"
    and brk: "1 \<le> rc_CircuitBreakSeconds (dp_config p)" "rc_CircuitBreakSeconds (dp_config p) \<le> 3600"
    using valid by (auto simp: valid_limits_def)
  have "dp_openUntil p' = ce_later (fst (last cs)) + wrap64 (rc_CircuitBreakSeconds (dp_config p) * Second)"
    and base': "dp_baseline p' req = Inr b"
    using failing_calls[OF failing(1) run] failing(2) thr fresh base by (cases "cs = []"; simp)+
  then have "ce_now env < dp_openUntil p'"
    using early brk by (simp add: wrap64_id in_i64_def)
  from open_circuit_refuses[OF this sess] ctx show ?thesis
    using Resolve_keeps_baseline[OF base', of env w'] by fastforce
qed

definition failing_policy :: "nat DecisionTurnRoutingPolicy" where
  "failing_policy =
     example_policy\<lparr>dp_client := TypeSafeEvaluate example_codec (example_client\<lparr>tc_resolveApiKey := None\<rparr>)\<rparr>"

lemma example_limits: "valid_limits (dp_config failing_policy)"
proof -
  have "0 \<le> f64_round (80 / 100)" "f64_round (80 / 100) \<le> f64_round (95 / 100)" "f64_round (95 / 100) \<le> 1"
    "0 \<le> f64_round (15 / 100)" "f64_round (15 / 100) \<le> 1" "0 \<le> f64_round (20 / 100)" "f64_round (20 / 100) \<le> 1"
    by code_simp+
  then show ?thesis
    by (simp add: valid_limits_def failing_policy_def example_policy_def NewDefaultDecisionRoutingConfig_def)
qed

theorem failures_open_circuit_witness:
  "let p' = fst (resolves (replicate 3 (example_env, example_request)) failing_policy 0);
       w' = snd (resolves (replicate 3 (example_env, example_request)) failing_policy 0);
       later = example_env\<lparr>ce_now := 30 * Second + 1\<rparr>
   in fst (Resolve later example_request p' w') = Inr (Some example_base) \<and>
      snd (snd (Resolve later example_request p' w')) = w'"
proof -
  let ?cs = "replicate 3 (example_env, example_request)"
  have fail: "all_fail ?cs failing_policy 0" by code_simp
  obtain p' w' where run: "resolves ?cs failing_policy 0 = (p', w')" by force
  have base: "dp_baseline failing_policy example_request = Inr (Some example_base)"
    by (simp add: failing_policy_def example_policy_def NoopTurnRoutingPolicy_Resolve_def example_base_def)
  show ?thesis
    using failures_open_circuit[OF example_limits _ fail _ run _ base, of "example_env\<lparr>ce_now := 30 * Second + 1\<rparr>"]
    unfolding Let_def run fst_conv snd_conv
    by (simp add: failing_policy_def example_policy_def NewDefaultDecisionRoutingConfig_def
        example_env_def example_request_def)
qed

subsection \<open>The state that leaves the program\<close>

lemma history_loop_spec:
  assumes "history_loop redact n ms hist tr = (h, tr')" "0 \<le> n"
  shows "\<exists>k. k \<le> length ms \<and>
     h = hist @ map (\<lambda>m. \<lparr>hm_Role = role_string (cm_Role m), hm_Text = redact (Text m)\<rparr>) (take k ms) \<and>
     int (sum_list (map (\<lambda>m. length (redact (Text m))) (take k ms))) \<le> n \<and>
     (k < length ms \<longrightarrow> tr') \<and> (tr \<longrightarrow> tr')"
  using assms
proof (induction redact n ms hist tr rule: history_loop.induct)
  case (2 redact remaining msg ms hist truncated)
  show ?case
  proof (cases "int (length (redact (Text msg))) > remaining")
    case True
    with 2 show ?thesis by (intro exI[of _ 0]) (auto simp: Let_def)
  next
    case False
    from 2(1)[OF refl False] 2(2,3) False obtain k where
      "k \<le> length ms"
      "h = (hist @ [\<lparr>hm_Role = role_string (cm_Role msg), hm_Text = redact (Text msg)\<rparr>]) @
         map (\<lambda>m. \<lparr>hm_Role = role_string (cm_Role m), hm_Text = redact (Text m)\<rparr>) (take k ms)"
      "int (sum_list (map (\<lambda>m. length (redact (Text m))) (take k ms))) \<le> remaining - int (length (redact (Text msg)))"
      "k < length ms \<longrightarrow> tr'" "truncated \<longrightarrow> tr'"
      by (auto simp: Let_def)
    with False show ?thesis by (intro exI[of _ "Suc k"]) auto
  qed
qed auto

definition state_text_length :: "DecisionRoutingState \<Rightarrow> int" where
  "state_text_length st =
     int (length (ds_CurrentRequest st)) + int (sum_list (map (\<lambda>m. length (hm_Text m)) (ds_RecentConversation st)))"

text \<open>The state sent to the service holds the redacted message and the redacted texts of the
  newest messages of the conversation, in order: within the configured number of characters and of
  messages, and complete unless the policy notes that it was cut.
\<close>

theorem state_bounded_and_redacted:
  assumes "buildState p req = Inr (st, truncated)" "0 \<le> rc_HistoryMessages (dp_config p)"
  shows "state_text_length st \<le> rc_MaxStateChars (dp_config p) \<and>
     int (length (ds_RecentConversation st)) \<le> rc_HistoryMessages (dp_config p) \<and>
     ds_CurrentRequest st = dp_redactor p (tr_UserMessage req) \<and>
     (\<exists>ms. suffix ms (filtered_messages req) \<and> (\<not> truncated \<longrightarrow> ms = filtered_messages req) \<and>
        ds_RecentConversation st =
          map (\<lambda>m. \<lparr>hm_Role = role_string (cm_Role m), hm_Text = dp_redactor p (Text m)\<rparr>) ms)"
proof -
  let ?all = "filtered_messages req" and ?H = "rc_HistoryMessages (dp_config p)"
  let ?red = "\<lambda>m. \<lparr>hm_Role = role_string (cm_Role m), hm_Text = dp_redactor p (Text m)\<rparr>"
  define ms where "ms = drop (nat (max 0 (int (length ?all) - ?H))) ?all"
  define rest where "rest = rc_MaxStateChars (dp_config p) - int (length (dp_redactor p (tr_UserMessage req)))"
  define tr where "tr = (int (length ?all) > ?H \<or>
      list_ex (\<lambda>msg. HasPrefix (Text msg) summary_marker \<or> HasPrefix (Text msg) tool_calls_marker) (tr_Messages req))"
  obtain h tr' where h: "history_loop (dp_redactor p) rest (rev ms) [] tr = (h, tr')" by force
  have st: "st = \<lparr>ds_CurrentRequest = dp_redactor p (tr_UserMessage req), ds_RecentConversation = rev h\<rparr>"
    and tr': "truncated = tr'" and rest: "0 \<le> rest"
    using assms(1) h by (auto simp: buildState_def Let_def ms_def rest_def tr_def split: if_splits)
  from history_loop_spec[OF h rest] obtain k where k: "k \<le> length ms" "h = map ?red (take k (rev ms))"
    "int (sum_list (map (\<lambda>m. length (dp_redactor p (Text m))) (take k (rev ms)))) \<le> rest"
    "k < length ms \<longrightarrow> tr'" "tr \<longrightarrow> tr'" by auto
  define sent where "sent = drop (length ms - k) ms"
  have sent: "rev (take k (rev ms)) = sent" using k(1) by (simp add: sent_def take_rev)
  have conv: "ds_RecentConversation st = map ?red sent"
    using k(2) by (simp add: st rev_map sent)
  have "sum_list (map (\<lambda>m. length (dp_redactor p (Text m))) sent) =
      sum_list (map (\<lambda>m. length (dp_redactor p (Text m))) (take k (rev ms)))"
    by (simp add: sent[symmetric] rev_map[symmetric] sum_list_rev)
  moreover have cur: "ds_CurrentRequest st = dp_redactor p (tr_UserMessage req)" by (simp add: st)
  ultimately have len: "state_text_length st \<le> rc_MaxStateChars (dp_config p)"
    using k(3) by (simp add: state_text_length_def conv rest_def comp_def)
  have num: "int (length (ds_RecentConversation st)) \<le> ?H"
    using assms(2) by (simp add: conv sent_def ms_def)
  have "suffix sent ?all"
    unfolding sent_def ms_def by (meson suffix_drop suffix_order.trans)
  moreover have "sent = ?all" if "\<not> truncated"
  proof -
    from that tr' k(4,5) k(1) have "k = length ms" "\<not> tr" by auto
    then show ?thesis by (simp add: sent_def ms_def tr_def)
  qed
  ultimately show ?thesis using len num conv cur by blast
qed

definition talk :: "ChatRole \<Rightarrow> string \<Rightarrow> ChatMessage" where
  "talk r s = NewChatMessage r [Val (TextContent s)]"

theorem state_bounded_and_redacted_witness:
  "\<exists>st. buildState (example_policy\<lparr>dp_redactor := take 3\<rparr>)
          (example_request\<lparr>tr_Messages := [talk RoleUser ''first'', talk RoleAssistant ''second'']\<rparr>) = Inr (st, False) \<and>
     state_text_length st \<le> 12000 \<and>
     ds_RecentConversation st =
       [\<lparr>hm_Role = ''user'', hm_Text = ''fir''\<rparr>, \<lparr>hm_Role = ''assistant'', hm_Text = ''sec''\<rparr>]"
proof -
  let ?p = "example_policy\<lparr>dp_redactor := take 3\<rparr>"
  let ?r = "example_request\<lparr>tr_Messages := [talk RoleUser ''first'', talk RoleAssistant ''second'']\<rparr>"
  let ?st = "\<lparr>ds_CurrentRequest = ''hi'', ds_RecentConversation =
       [\<lparr>hm_Role = ''user'', hm_Text = ''fir''\<rparr>, \<lparr>hm_Role = ''assistant'', hm_Text = ''sec''\<rparr>]\<rparr>"
  have st: "buildState ?p ?r = Inr (?st, False)" by code_simp
  have cfg: "rc_MaxStateChars (dp_config ?p) = 12000" "0 \<le> rc_HistoryMessages (dp_config ?p)"
    by (simp_all add: example_policy_def NewDefaultDecisionRoutingConfig_def)
  have "state_text_length ?st \<le> 12000"
    using state_bounded_and_redacted[OF st cfg(2)] unfolding cfg(1) by (rule conjunct1)
  with st show ?thesis by (intro exI[of _ ?st]) (auto simp only: DecisionRoutingState.simps)
qed

text \<open>The contents of every message that the constructors or the decoder of the chat library build
  are pointers, which the text of a message skips. For such conversations the state never holds any
  history and never counts as cut, however long the conversation is, so that the rule against
  lowering the tier on partial context never applies, and the turn counter counts the current
  message too.
\<close>

theorem history_never_sent:
  assumes "list_all pointer_message (tr_Messages req)" "0 \<le> rc_HistoryMessages (dp_config p)"
    and "buildState p req = Inr (st, truncated)" "tr_UserMessage req \<noteq> []"
  shows "ds_RecentConversation st = [] \<and> \<not> truncated \<and>
     countUserTurns req = int (length (filter (\<lambda>m. cm_Role m = RoleUser) (tr_Messages req)))"
proof -
  have blank: "Text m = []" if "m \<in> set (tr_Messages req)" for m
    using assms(1) that by (simp add: list_all_iff)
  have none: "filtered_messages req = []"
    using blank by (auto simp: filtered_messages_def Let_def filter_empty_conv)
  have unmarked: "\<not> list_ex (\<lambda>m. HasPrefix (Text m) summary_marker \<or> HasPrefix (Text m) tool_calls_marker) (tr_Messages req)"
    using blank by (auto simp: list_ex_iff summary_marker_def tool_calls_marker_def)
  have "ds_RecentConversation st = [] \<and> \<not> truncated"
    using assms(2,3) none unmarked by (auto simp: buildState_def Let_def split: if_splits)
  moreover have "tr_Messages req \<noteq> [] \<Longrightarrow> Text (last (tr_Messages req)) \<noteq> tr_UserMessage req"
    using assms(4) blank by simp
  ultimately show ?thesis by (auto simp: countUserTurns_def Let_def)
qed

theorem history_never_sent_witness:
  "let req = example_request\<lparr>tr_Messages := replicate 9 (NewChatMessageWithText RoleUser ''delete it'')\<rparr>
   in \<exists>st truncated. buildState example_policy req = Inr (st, truncated) \<and>
        ds_RecentConversation st = [] \<and> \<not> truncated \<and> countUserTurns req = 9"
proof -
  let ?req = "example_request\<lparr>tr_Messages := replicate 9 (NewChatMessageWithText RoleUser ''delete it'')\<rparr>"
  obtain st truncated where st: "buildState example_policy ?req = Inr (st, truncated)"
    by (auto simp: buildState_def Let_def example_policy_def example_request_def NewDefaultDecisionRoutingConfig_def)
  have "list_all pointer_message (tr_Messages ?req)" by (simp add: list_all_iff)
  from history_never_sent[OF this _ st] st show ?thesis
    by (auto simp: example_policy_def example_request_def NewDefaultDecisionRoutingConfig_def
        NewChatMessageWithText_def Let_def)
qed

subsection \<open>Calls that run at the same time\<close>

text \<open>
  The operations of \<open>Resolve\<close> on the shared policy as atomic steps of callers that interleave: a
  caller that got a slot asks the service, settles the outcome and releases the slot when it
  returns. A state is the policy and the callers that are between acquiring and releasing.
\<close>

datatype route_event = Acquire nat | Settle nat int string bool | Release nat

inductive route_step ::
  "'w DecisionTurnRoutingPolicy \<times> nat set \<Rightarrow> route_event \<Rightarrow> 'w DecisionTurnRoutingPolicy \<times> nat set \<Rightarrow> bool" where
  acquire: "acquireSlot p = (True, p') \<Longrightarrow> g \<notin> G \<Longrightarrow> route_step (p, G) (Acquire g) (p', insert g G)"
| settled: "g \<in> G \<Longrightarrow> route_step (p, G) (Settle g now reason failed) (settle now reason failed p, G)"
| release: "g \<in> G \<Longrightarrow> route_step (p, G) (Release g) (releaseSlot p, G - {g})"

inductive_cases route_stepE: "route_step s e t"

definition slots_inv :: "nat \<Rightarrow> 'w DecisionTurnRoutingPolicy \<times> nat set \<Rightarrow> bool" where
  "slots_inv cap s \<longleftrightarrow>
     dp_slots (fst s) = Some cap \<and> finite (snd s) \<and> card (snd s) = dp_used (fst s) \<and> dp_used (fst s) \<le> cap"

lemma slots_inv_step: "slots_inv cap s \<Longrightarrow> route_step s e t \<Longrightarrow> slots_inv cap t"
  by (erule route_stepE)
     (auto simp: slots_inv_def acquireSlot_def releaseSlot_def route_fields card_Diff_singleton split: if_splits)

interpretation route_slots: invariant_machine
  "\<lambda>s. slots_inv cap s \<and> snd s = {}" route_step "slots_inv cap" for cap
  by unfold_locales (auto intro: slots_inv_step)

text \<open>However the callers of a new policy interleave, no more of them are asking the service at
  once than the configuration allows, the slots in use are exactly those callers', and the next
  caller gets a slot whenever fewer are running.
\<close>

theorem concurrency_bounded:
  assumes "NewDecisionTurnRoutingPolicy net cfg pol base cl red obs = Inr p"
    and "steps route_step (p, {}) es (p', G)"
  shows "int (card G) \<le> rc_MaxConcurrentRequests cfg \<and> dp_used p' = card G \<and>
     (fst (acquireSlot p') \<longleftrightarrow> int (card G) < rc_MaxConcurrentRequests cfg)"
proof -
  have "valid_limits cfg"
    using assms(1) by (auto simp: NewDecisionTurnRoutingPolicy_def elim!: bindR_InrE dest: Validate_limits)
  then have pos: "1 \<le> rc_MaxConcurrentRequests cfg" by (simp add: valid_limits_def)
  have "slots_inv (nat (rc_MaxConcurrentRequests cfg)) (p, {})"
    using assms(1) pos by (auto simp: NewDecisionTurnRoutingPolicy_def slots_inv_def elim!: bindR_InrE)
  then have "slots_inv (nat (rc_MaxConcurrentRequests cfg)) (p', G)"
    using route_slots.inv_reachable assms(2) by fastforce
  then show ?thesis
    using pos by (auto simp: slots_inv_def acquireSlot_def)
qed

definition example_net :: net_lib where
  "example_net =
     \<lparr>url_Parse = (\<lambda>_. Inr \<lparr>url_Scheme = ''http'', url_HasUser = False, url_RawQuery = [], url_Fragment = [],
        url_Hostname = ''127.0.0.1''\<rparr>), net_ParseIP = (\<lambda>_. Some True)\<rparr>"

theorem concurrency_bounded_witness:
  "\<exists>p p'. NewDecisionTurnRoutingPolicy example_net NewLayaRoutingConfig DefaultDynamicTurnRoutingPolicyConfig
       NoopTurnRoutingPolicy_Resolve (TypeSafeEvaluate example_codec example_client) id None = Inr p \<and>
     steps route_step (p, {}) [Acquire 7] (p', {7}) \<and> \<not> fst (acquireSlot p')"
proof -
  let ?new = "NewDecisionTurnRoutingPolicy example_net NewLayaRoutingConfig DefaultDynamicTurnRoutingPolicyConfig
       NoopTurnRoutingPolicy_Resolve (TypeSafeEvaluate example_codec example_client) id None"
  have "is_ok ?new" by code_simp
  then obtain p where p: "?new = Inr p" by (auto simp: is_ok_iff)
  then have slots: "dp_slots p = Some 1" "dp_used p = 0"
    by (auto simp: NewDecisionTurnRoutingPolicy_def NewLayaRoutingConfig_def elim!: bindR_InrE)
  have "route_step (p, {}) (Acquire 7) (p\<lparr>dp_used := 1\<rparr>, {7})"
    using acquire[of p "p\<lparr>dp_used := 1\<rparr>" 7 "{}"] slots by (simp add: acquireSlot_def)
  then have run: "steps route_step (p, {}) [Acquire 7] (p\<lparr>dp_used := 1\<rparr>, {7})"
    by (rule steps_step) (rule steps_refl)
  from concurrency_bounded[OF p run] have "\<not> fst (acquireSlot (p\<lparr>dp_used := 1\<rparr>))"
    by (simp add: NewLayaRoutingConfig_def)
  with p run show ?thesis by (intro exI[of _ p] exI[of _ "p\<lparr>dp_used := 1\<rparr>"] conjI)
qed

end
