(* ===== verification/Route_Apply.thy ===== *)
theory Route_Apply
  imports Route_Safety
begin

section \<open>Applying a routing decision to a session\<close>

text \<open>
  \<open>ApplyTurnRouting\<close> of \<open>src/openclaw/agent/agent_runtime.go\<close> with \<open>TurnRoutingSnapshot\<close> and
  \<open>TurnRoutingRestoreScope\<close> of \<open>agent_core.go\<close>: the turn loop asks the routing policy, takes a
  snapshot of the session, changes the session for the turn, and returns a function that restores
  it. The messages of the turn and the hint for meta skills, which other parts of the runtime
  build, are arguments. A policy returns a decision or nil, and an error or nil.
\<close>

record TurnRoutingSnapshot =
  ts_ModelProfileId :: string
  ts_PreferredModelTags :: "string list"
  ts_FallbackModelProfileIds :: "string list"
  ts_SystemPromptOverride :: string
  ts_RouteAllowedTools :: "string list"
  ts_RouteToolsDisabled :: bool
  ts_RouteModelTier :: string
  ts_RouteReason :: string
  ts_ReasoningEffort :: string
  ts_ResponseMode :: string

definition snapshot_of :: "Session \<Rightarrow> TurnRoutingSnapshot" where
  "snapshot_of session =
     \<lparr>ts_ModelProfileId = se_ModelProfileId session, ts_PreferredModelTags = se_PreferredModelTags session,
      ts_FallbackModelProfileIds = se_FallbackModelProfileIds session,
      ts_SystemPromptOverride = se_SystemPromptOverride session,
      ts_RouteAllowedTools = se_RouteAllowedTools session, ts_RouteToolsDisabled = se_RouteToolsDisabled session,
      ts_RouteModelTier = se_RouteModelTier session, ts_RouteReason = se_RouteReason session,
      ts_ReasoningEffort = se_ReasoningEffort session, ts_ResponseMode = se_ResponseMode session\<rparr>"

definition TurnRoutingRestoreScope :: "TurnRoutingSnapshot \<Rightarrow> Session \<Rightarrow> Session" where
  "TurnRoutingRestoreScope snapshot session =
     session\<lparr>se_ModelProfileId := ts_ModelProfileId snapshot,
       se_PreferredModelTags := ts_PreferredModelTags snapshot,
       se_FallbackModelProfileIds := ts_FallbackModelProfileIds snapshot,
       se_SystemPromptOverride := ts_SystemPromptOverride snapshot,
       se_RouteAllowedTools := ts_RouteAllowedTools snapshot,
       se_RouteToolsDisabled := ts_RouteToolsDisabled snapshot,
       se_RouteReason := ts_RouteReason snapshot,
       se_ReasoningEffort := ts_ReasoningEffort snapshot,
       se_ResponseMode := ts_ResponseMode snapshot\<rparr>"

definition CombineSystemPromptSuffixes :: "string \<Rightarrow> string \<Rightarrow> string" where
  "CombineSystemPromptSuffixes first second =
     (if first = [] then second else if second = [] then first
      else TrimSpace first @ [CHR 0x0A] @ TrimSpace second)"

definition CombineSystemPromptOverride :: "string \<Rightarrow> string \<Rightarrow> string" where
  "CombineSystemPromptOverride original suffix_text =
     (if suffix_text = [] then original else if original = [] then TrimSpace suffix_text
      else TrimSpace original @ [CHR 0x0A] @ TrimSpace suffix_text)"

text \<open>
  What the turn does to the session with a decision. The loop over the fallback profiles runs over
  the slice that was just replaced, so that it never finds an earlier profile to keep.
\<close>

definition apply_decision :: "string \<Rightarrow> TurnRoutingDecision \<Rightarrow> Session \<Rightarrow> Session" where
  "apply_decision metaRoutingSuffix decision session =
     (let snapshot = snapshot_of session;
          s1 = (if td_ModelProfileId decision \<noteq> [] then session\<lparr>se_ModelProfileId := td_ModelProfileId decision\<rparr> else session);
          s2 = (if td_DirectModelFallbackProfileId decision \<noteq> []
                then let fallback = td_DirectModelFallbackProfileId decision
                     in s1\<lparr>se_FallbackModelProfileIds := [fallback] @ filter (\<lambda>item. item \<noteq> fallback) [fallback]\<rparr>
                else s1);
          s3 = (if length (td_PreferredTags decision) > 0
                then s2\<lparr>se_PreferredModelTags := td_PreferredTags decision\<rparr> else s2);
          s4 = (if td_ReasoningLevel decision \<noteq> [] then s3\<lparr>se_ReasoningEffort := td_ReasoningLevel decision\<rparr> else s3);
          s5 = (if td_ResponsePolicy decision \<noteq> [] then s4\<lparr>se_ResponseMode := td_ResponsePolicy decision\<rparr> else s4);
          s6 = (if td_DisableTools decision then s5\<lparr>se_RouteToolsDisabled := True, se_RouteAllowedTools := []\<rparr>
                else if length (td_AllowedTools decision) > 0
                then s5\<lparr>se_RouteToolsDisabled := False, se_RouteAllowedTools := td_AllowedTools decision\<rparr>
                else s5)
      in s6\<lparr>se_RouteModelTier := td_Tier decision, se_RouteReason := td_Reason decision,
            se_SystemPromptOverride :=
              CombineSystemPromptOverride (ts_SystemPromptOverride snapshot)
                (CombineSystemPromptSuffixes (td_SystemPromptSuffix decision) metaRoutingSuffix)\<rparr>)"

text \<open>
  The session during the turn and the function that restores it. \<open>answer\<close> is what the policy
  returned; the source compares the error with nil the wrong way round.
\<close>

definition ApplyTurnRouting ::
  "TurnRoutingDecision option \<times> string option \<Rightarrow> string \<Rightarrow> Session \<Rightarrow> (Session \<times> (Session \<Rightarrow> Session)) go_result" where
  "ApplyTurnRouting answer metaRoutingSuffix session =
     (let snapshot = snapshot_of session in
      if snd answer = None then Inr (session, TurnRoutingRestoreScope snapshot)
      else (case fst answer of
              None \<Rightarrow> Inl (GoPanic ''nil pointer dereference'')
            | Some decision \<Rightarrow>
                Inr (apply_decision metaRoutingSuffix decision session, TurnRoutingRestoreScope snapshot)))"

text \<open>The two results of \<open>Resolve\<close>: an error comes with a nil decision.\<close>

fun go_pair :: "TurnRoutingDecision option go_result \<Rightarrow> (TurnRoutingDecision option \<times> string option) go_result" where
  "go_pair (Inr d) = Inr (d, None)"
| "go_pair (Inl (GoErr e)) = Inr (None, Some e)"
| "go_pair (Inl f) = Inl f"

definition route_turn ::
  "call_env \<Rightarrow> string \<Rightarrow> ChatMessage list \<Rightarrow> string \<Rightarrow> Session \<Rightarrow> 'w DecisionTurnRoutingPolicy \<Rightarrow> 'w \<Rightarrow>
     (Session \<times> (Session \<Rightarrow> Session)) go_result \<times> 'w DecisionTurnRoutingPolicy \<times> 'w" where
  "route_turn env userMessage messages metaRoutingSuffix session p w =
     (case Resolve env \<lparr>tr_Session = Some session, tr_UserMessage = userMessage, tr_Messages = messages\<rparr> p w of
        (r, p', w') \<Rightarrow> (bindR (go_pair r) (\<lambda>answer. ApplyTurnRouting answer metaRoutingSuffix session), p', w'))"

subsection \<open>Restoring\<close>

text \<open>The restored session is the session before the turn but for the tier, which stays.\<close>

lemma restore_after_decision:
  "TurnRoutingRestoreScope (snapshot_of s) (apply_decision suffix_text d s) = s\<lparr>se_RouteModelTier := td_Tier d\<rparr>"
  by (simp add: TurnRoutingRestoreScope_def snapshot_of_def apply_decision_def Let_def)

lemma restore_untouched [simp]: "TurnRoutingRestoreScope (snapshot_of s) s = s"
  by (simp add: TurnRoutingRestoreScope_def snapshot_of_def)

text \<open>A routed turn never uses the decision: when the policy returns one, whatever it says, the
  session keeps its model, tools, prompt and tier, and when the policy returns an error, the turn
  panics. (The decision would be applied only together with an error.)
\<close>

theorem routing_never_applied:
  "case fst (route_turn env userMessage messages suffix_text session p w) of
     Inr (during, restore) \<Rightarrow> during = session \<and> restore during = session
   | Inl (GoErr e) \<Rightarrow> False
   | Inl _ \<Rightarrow> True"
proof -
  obtain r p' w' where run:
    "Resolve env \<lparr>tr_Session = Some session, tr_UserMessage = userMessage, tr_Messages = messages\<rparr> p w = (r, p', w')"
    by (cases "Resolve env \<lparr>tr_Session = Some session, tr_UserMessage = userMessage, tr_Messages = messages\<rparr> p w") auto
  show ?thesis
  proof (cases r rule: go_pair.cases)
    case (1 d)
    with run show ?thesis by (simp add: route_turn_def ApplyTurnRouting_def)
  next
    case (2 e)
    with run show ?thesis by (simp add: route_turn_def ApplyTurnRouting_def)
  qed (use run in \<open>simp_all add: route_turn_def\<close>)
qed

end
