(* ===== verification/Glob.thy ===== *)
theory Glob
  imports Go_Prelude
begin

section \<open>Wildcard patterns and allowlists\<close>

text \<open>
  \<open>GlobMatcher\<close> and \<open>AllowlistPolicy\<close> of \<open>src/openclaw/core/security.go\<close>. A pattern is text in which
  \<open>*\<close> stands for any text. The matcher cuts the pattern at its stars and looks for each piece at its
  first occurrence, without ever going back; \<open>glob_loop\<close> is its loop, with the rest of the value in
  place of the index into it. The reference is the textbook meaning of a pattern, \<open>glob\<close>.
\<close>

abbreviation star :: char where
  "star \<equiv> CHR ''*''"

subsection \<open>The matcher\<close>

text \<open>\<open>strings.IndexByte\<close> of a star: the part before the first star and the part after it.\<close>

definition cut_star :: "string \<Rightarrow> (string \<times> string) option" where
  "cut_star p =
     (if star \<in> set p then Some (takeWhile (\<lambda>c. c \<noteq> star) p, tl (dropWhile (\<lambda>c. c \<noteq> star) p)) else None)"

lemma cut_star_append: "star \<notin> set seg \<Longrightarrow> cut_star (seg @ star # rest) = Some (seg, rest)"
  by (induction seg) (auto simp: cut_star_def)

lemma cut_star_Some_iff: "cut_star p = Some (seg, rest) \<longleftrightarrow> p = seg @ star # rest \<and> star \<notin> set seg"
proof
  assume c: "cut_star p = Some (seg, rest)"
  then have "star \<in> set p" by (simp add: cut_star_def split: if_splits)
  then obtain u v where p: "p = u @ star # v" "star \<notin> set u" by (meson split_list_first)
  with c cut_star_append[of u v] show "p = seg @ star # rest \<and> star \<notin> set seg" by simp
qed (auto simp: cut_star_append)

lemma cut_star_Nil: "cut_star [] = None"
  by (simp add: cut_star_def)

lemma cut_star_None_iff: "cut_star p = None \<longleftrightarrow> star \<notin> set p"
  by (simp add: cut_star_def)

lemma cut_star_length: "cut_star p = Some (seg, rest) \<Longrightarrow> length rest < length p"
  by (auto simp: cut_star_Some_iff)

function glob_loop :: "bool \<Rightarrow> string \<Rightarrow> string \<Rightarrow> bool" where
  "glob_loop isFirst remaining value =
     (if remaining = [] then True
      else (case cut_star remaining of
              None \<Rightarrow> HasSuffix value remaining
            | Some (segment, rest) \<Rightarrow>
                if segment = [] then glob_loop False rest value
                else if isFirst
                then (if HasPrefix value segment then glob_loop False rest (drop (length segment) value) else False)
                else (case Index value segment of
                        None \<Rightarrow> False
                      | Some found \<Rightarrow> glob_loop False rest (drop (found + length segment) value))))"
  by pat_completeness auto
termination
  by (relation "measure (\<lambda>(_, remaining, _). length remaining)") (auto dest: cut_star_length)

declare glob_loop.simps [simp del]

definition IsMatch :: "string \<Rightarrow> string \<Rightarrow> bool" where
  "IsMatch pattern value =
     (if pattern = [star] then True
      else if length pattern = 0 then length value = 0
      else if star \<notin> set pattern then pattern = value
      else glob_loop True pattern value)"

definition GlobMatcher_IsAllowed :: "string list \<Rightarrow> string list \<Rightarrow> string \<Rightarrow> bool" where
  "GlobMatcher_IsAllowed allowGlobs denyGlobs value =
     (if list_ex (\<lambda>deny. \<not> IsBlank deny \<and> IsMatch (TrimSpace deny) value) denyGlobs then False
      else if length allowGlobs = 0 then False
      else list_ex (\<lambda>allow. \<not> IsBlank allow \<and> IsMatch (TrimSpace allow) value) allowGlobs)"

subsection \<open>Allowlists\<close>

datatype AllowlistSemantics = Legacy | Strict

definition ParseSemantics :: "string \<Rightarrow> AllowlistSemantics" where
  "ParseSemantics value = (if value = ''strict'' then Strict else Legacy)"

definition AllowlistPolicy_IsAllowed :: "string list \<Rightarrow> string \<Rightarrow> AllowlistSemantics \<Rightarrow> bool" where
  "AllowlistPolicy_IsAllowed allowlist value semantics =
     (if length allowlist = 0 then semantics = Legacy
      else list_ex (\<lambda>entry. \<not> IsBlank entry \<and>
             (let pat = TrimSpace entry in pat = [star] \<or> IsMatch pat value)) allowlist)"

subsection \<open>The meaning of a pattern\<close>

fun glob :: "string \<Rightarrow> string \<Rightarrow> bool" where
  "glob [] v \<longleftrightarrow> v = []"
| "glob (c # p) v \<longleftrightarrow>
     (if c = star then \<exists>k \<le> length v. glob p (drop k v)
      else (case v of [] \<Rightarrow> False | d # w \<Rightarrow> c = d \<and> glob p w))"

lemma glob_star: "glob (star # p) v \<longleftrightarrow> (\<exists>k \<le> length v. glob p (drop k v))"
  by simp

lemma glob_char: "star \<noteq> c \<Longrightarrow> glob (c # p) v \<longleftrightarrow> (\<exists>w. v = c # w \<and> glob p w)"
  by (cases v) auto

declare glob.simps(2) [simp del]

lemma glob_literal: "star \<notin> set p \<Longrightarrow> glob p v \<longleftrightarrow> v = p"
proof (induction p arbitrary: v)
  case (Cons a p)
  then show ?case by (cases v) (simp_all add: glob_char)
qed simp

lemma glob_literal_append: "star \<notin> set seg \<Longrightarrow> glob (seg @ p) v \<longleftrightarrow> prefix seg v \<and> glob p (drop (length seg) v)"
proof (induction seg arbitrary: v)
  case (Cons a seg)
  then show ?case by (cases v) (simp_all add: glob_char, blast)
qed simp

lemma glob_star_end: "glob [star] v"
  by (auto simp: glob_star intro: exI[of _ "length v"])

text \<open>A star in front absorbs whatever the value has in front: more value never hurts.\<close>

lemma glob_star_drop: "glob (star # p) (drop k v) \<Longrightarrow> glob (star # p) v"
proof -
  assume "glob (star # p) (drop k v)"
  then obtain j where j: "j \<le> length (drop k v)" "glob p (drop j (drop k v))" by (auto simp: glob_star)
  show ?thesis
  proof (cases "k \<le> length v")
    case True
    with j show ?thesis by (auto simp: glob_star intro!: exI[of _ "j + k"])
  next
    case False
    with j show ?thesis by (auto simp: glob_star intro!: exI[of _ "length v"])
  qed
qed

lemma glob_star_mono: "k \<le> j \<Longrightarrow> glob (star # p) (drop j v) \<Longrightarrow> glob (star # p) (drop k v)"
  using glob_star_drop[of p "j - k" "drop k v"] by simp

text \<open>
  The step that makes backtracking unnecessary: behind a star, the first occurrence of the next
  piece leaves the longest rest, and the star after the piece can absorb the difference.
\<close>

lemma glob_first_occurrence:
  assumes "star \<notin> set seg"
  shows "glob (star # seg @ star # p) v \<longleftrightarrow>
     (case Index v seg of None \<Rightarrow> False | Some i \<Rightarrow> glob (star # p) (drop (i + length seg) v))"
proof -
  have all: "glob (star # seg @ star # p) v \<longleftrightarrow>
      (\<exists>k \<le> length v. prefix seg (drop k v) \<and> glob (star # p) (drop (k + length seg) v))"
    using assms by (simp add: glob_star[of "seg @ star # p"] glob_literal_append add.commute)
  show ?thesis
  proof (cases "Index v seg")
    case None
    then have "\<forall>k \<le> length v. \<not> prefix seg (drop k v)" by (simp only: Index_None_iff)
    with None all show ?thesis by auto
  next
    case (Some i)
    then have i: "prefix seg (drop i v)" "i \<le> length v" "\<And>j. j < i \<Longrightarrow> \<not> prefix seg (drop j v)"
      by (auto simp: Index_Some_iff)
    show ?thesis
    proof
      assume "glob (star # seg @ star # p) v"
      with all obtain k where k: "prefix seg (drop k v)" "glob (star # p) (drop (k + length seg) v)" by blast
      with i(3) have "i + length seg \<le> k + length seg" using not_less by auto
      from glob_star_mono[OF this k(2)] Some
      show "case Index v seg of None \<Rightarrow> False | Some i \<Rightarrow> glob (star # p) (drop (i + length seg) v)" by simp
    next
      assume "case Index v seg of None \<Rightarrow> False | Some i \<Rightarrow> glob (star # p) (drop (i + length seg) v)"
      with Some i all show "glob (star # seg @ star # p) v" by auto
    qed
  qed
qed

lemma glob_star_suffix: "star \<notin> set p \<Longrightarrow> glob (star # p) v \<longleftrightarrow> suffix p v"
proof -
  assume "star \<notin> set p"
  then have "glob (star # p) v \<longleftrightarrow> (\<exists>k \<le> length v. drop k v = p)"
    by (simp add: glob_star glob_literal)
  then show ?thesis by (auto simp: suffix_drop) (metis append_eq_conv_conj le_add1 length_append suffix_def)
qed

lemma glob_star_star: "glob (star # star # p) v \<longleftrightarrow> glob (star # p) v"
  using glob_star_drop[of p _ v] by (auto simp: glob_star[of "star # p"] intro: exI[of _ 0])

lemma glob_loop_cases:
  "glob_loop isFirst [] v"
  "remaining \<noteq> [] \<Longrightarrow> cut_star remaining = None \<Longrightarrow> glob_loop isFirst remaining v = suffix remaining v"
  "cut_star remaining = Some ([], rest) \<Longrightarrow> glob_loop isFirst remaining v = glob_loop False rest v"
  "cut_star remaining = Some (seg, rest) \<Longrightarrow> seg \<noteq> [] \<Longrightarrow>
     glob_loop True remaining v = (prefix seg v \<and> glob_loop False rest (drop (length seg) v))"
  "cut_star remaining = Some (seg, rest) \<Longrightarrow> seg \<noteq> [] \<Longrightarrow>
     glob_loop False remaining v =
       (case Index v seg of None \<Rightarrow> False | Some i \<Rightarrow> glob_loop False rest (drop (i + length seg) v))"
  by (subst glob_loop.simps, use cut_star_Nil in \<open>cases "remaining = []"; auto split: option.splits\<close>)+

lemma glob_star_tail: "rest = [] \<or> glob (star # rest) w \<longleftrightarrow> glob (star # rest) w"
  using glob_star_end by auto

lemma glob_loop_rest: "glob_loop False remaining v \<longleftrightarrow> glob (star # remaining) v"
proof (induction "length remaining" arbitrary: remaining v rule: less_induct)
  case less
  show ?case
  proof (cases "cut_star remaining")
    case None
    then have "star \<notin> set remaining" by (simp add: cut_star_None_iff)
    with None show ?thesis by (cases "remaining = []") (auto simp: glob_loop_cases glob_star_suffix glob_star_end)
  next
    case (Some sr)
    obtain seg rest where sr: "sr = (seg, rest)" by force
    with Some have cut: "remaining = seg @ star # rest" "star \<notin> set seg" by (auto simp: cut_star_Some_iff)
    then have IH: "glob_loop False rest w \<longleftrightarrow> glob (star # rest) w" for w by (intro less) simp
    show ?thesis
    proof (cases "seg = []")
      case True
      with Some sr cut IH show ?thesis by (simp add: glob_loop_cases(3) glob_star_star)
    next
      case False
      with Some sr have "glob_loop False remaining v \<longleftrightarrow>
          (case Index v seg of None \<Rightarrow> False | Some i \<Rightarrow> glob_loop False rest (drop (i + length seg) v))"
        by (simp add: glob_loop_cases(5))
      then show ?thesis
        unfolding IH cut(1) glob_first_occurrence[OF cut(2)] .
    qed
  qed
qed

lemma IsMatch_is_glob: "IsMatch pat v \<longleftrightarrow> glob pat v"
proof (cases "star \<in> set pat")
  case False
  then show ?thesis by (auto simp: IsMatch_def glob_literal)
next
  case True
  then obtain seg rest where cut: "cut_star pat = Some (seg, rest)" by (auto simp: cut_star_def)
  then have p: "pat = seg @ star # rest" "star \<notin> set seg" by (auto simp: cut_star_Some_iff)
  have "glob_loop True pat v \<longleftrightarrow> glob pat v"
  proof (cases "seg = []")
    case True
    with cut p show ?thesis by (simp add: glob_loop_cases(3) glob_loop_rest)
  next
    case False
    with cut have "glob_loop True pat v \<longleftrightarrow> prefix seg v \<and> glob (star # rest) (drop (length seg) v)"
      by (simp add: glob_loop_cases(4) glob_loop_rest)
    then show ?thesis by (simp only: p(1) glob_literal_append[OF p(2)])
  qed
  with True show ?thesis by (auto simp: IsMatch_def glob_star_end)
qed

text \<open>C36: The matcher, which never goes back, accepts a value exactly when the pattern matches it with
  every star standing for some text. A value passes allow and deny patterns exactly when one that is
  not blank allows it and none denies it, and passes an allowlist exactly when one of its entries
  matches, or when it is empty and not strict.\<close>

theorem patterns_decide:
  "(IsMatch pat v \<longleftrightarrow> glob pat v) \<and>
   (GlobMatcher_IsAllowed allow deny v \<longleftrightarrow>
     (\<exists>a \<in> set allow. \<not> IsBlank a \<and> glob (TrimSpace a) v) \<and> \<not> (\<exists>d \<in> set deny. \<not> IsBlank d \<and> glob (TrimSpace d) v)) \<and>
   (AllowlistPolicy_IsAllowed entries v sem \<longleftrightarrow>
     (entries = [] \<and> sem = Legacy) \<or> (\<exists>e \<in> set entries. \<not> IsBlank e \<and> glob (TrimSpace e) v))"
  using glob_star_end
  by (auto simp: IsMatch_is_glob GlobMatcher_IsAllowed_def AllowlistPolicy_IsAllowed_def list_ex_iff Let_def)

end
