(* ===== verification/Net_Addr.thy ===== *)
theory Net_Addr
  imports Go_Prelude "HOL-Library.Word"
begin

unbundle bit_operations_syntax

section \<open>Network addresses\<close>

text \<open>
  An address of the package \<open>netip\<close> is a word, with a zone for IPv6; the predicates on addresses are
  those of that package since Go 1.22.4. The test of \<open>src/openclaw/core/security.go\<close> for addresses
  that are not public is proved equal to membership in explicit ranges of numbers.
\<close>

subsection \<open>Addresses\<close>

datatype addr = NoAddr | V4 "32 word" | V6 "128 word" string

text \<open>An IPv4 address inside IPv6: \<open>::ffff:0:0/96\<close>.\<close>

definition is4in6 :: "128 word \<Rightarrow> bool" where
  "is4in6 w \<longleftrightarrow> drop_bit 32 w = 0xFFFF"

fun Unmap :: "addr \<Rightarrow> addr" where
  "Unmap (V6 w z) = (if is4in6 w then V4 (ucast w) else V6 w z)"
| "Unmap a = a"

fun BitLen :: "addr \<Rightarrow> nat" where
  "BitLen NoAddr = 0"
| "BitLen (V4 _) = 32"
| "BitLen (V6 _ _) = 128"

definition octet :: "nat \<Rightarrow> 32 word \<Rightarrow> 8 word" where
  "octet i x = ucast (drop_bit (24 - 8 * i) x)"

definition group16 :: "128 word \<Rightarrow> 16 word" where
  "group16 w = ucast (drop_bit 112 w)"

definition IsUnspecified :: "addr \<Rightarrow> bool" where
  "IsUnspecified a \<longleftrightarrow> a = V4 0 \<or> a = V6 0 []"

fun IsLoopback4 :: "addr \<Rightarrow> bool" where
  "IsLoopback4 (V4 x) = (octet 0 x = 127)"
| "IsLoopback4 (V6 w _) = (w = 1)"
| "IsLoopback4 NoAddr = False"

fun IsLinkLocal4 :: "addr \<Rightarrow> bool" where
  "IsLinkLocal4 (V4 x) = (octet 0 x = 169 \<and> octet 1 x = 254)"
| "IsLinkLocal4 (V6 w _) = (group16 w AND 0xFFC0 = 0xFE80)"
| "IsLinkLocal4 NoAddr = False"

fun IsMulticast4 :: "addr \<Rightarrow> bool" where
  "IsMulticast4 (V4 x) = (octet 0 x AND 0xF0 = 0xE0)"
| "IsMulticast4 (V6 w _) = (drop_bit 8 (group16 w) = 0xFF)"
| "IsMulticast4 NoAddr = False"

fun IsPrivate4 :: "addr \<Rightarrow> bool" where
  "IsPrivate4 (V4 x) =
     (octet 0 x = 10 \<or> (octet 0 x = 172 \<and> octet 1 x AND 0xF0 = 16) \<or> (octet 0 x = 192 \<and> octet 1 x = 168))"
| "IsPrivate4 (V6 w _) = (drop_bit 8 (group16 w) AND 0xFE = 0xFC)"
| "IsPrivate4 NoAddr = False"

text \<open>\<open>isNonPublicAddress\<close> of the validator.\<close>

definition isNonPublicAddress :: "addr \<Rightarrow> bool" where
  "isNonPublicAddress ip =
     (if ip = NoAddr \<or> IsUnspecified ip then True
      else if IsLoopback4 (Unmap ip) then True
      else if IsLinkLocal4 (Unmap ip) then True
      else if IsMulticast4 (Unmap ip) then True
      else if IsPrivate4 (Unmap ip) then True
      else (case ip of
              V4 x \<Rightarrow> octet 0 x = 0 \<or> (octet 0 x = 100 \<and> octet 1 x \<ge> 64 \<and> octet 1 x \<le> 127) \<or>
                      (octet 0 x = 198 \<and> (octet 1 x = 18 \<or> octet 1 x = 19))
            | _ \<Rightarrow> False))"

subsection \<open>Public addresses as ranges of numbers\<close>

text \<open>The number of an IPv4 address in dotted notation, and closed ranges of numbers.\<close>

definition ip4 :: "nat \<Rightarrow> nat \<Rightarrow> nat \<Rightarrow> nat \<Rightarrow> nat" where
  "ip4 a b c d = ((a * 256 + b) * 256 + c) * 256 + d"

definition inside :: "(nat \<times> nat) list \<Rightarrow> nat \<Rightarrow> bool" where
  "inside ranges n \<longleftrightarrow> (\<exists>(lo, hi) \<in> set ranges. lo \<le> n \<and> n \<le> hi)"

text \<open>Private, loopback, link-local and multicast addresses of IPv4.\<close>

definition local_ranges4 :: "(nat \<times> nat) list" where
  "local_ranges4 =
     [(ip4 10 0 0 0, ip4 10 255 255 255),
      (ip4 127 0 0 0, ip4 127 255 255 255),
      (ip4 169 254 0 0, ip4 169 254 255 255),
      (ip4 172 16 0 0, ip4 172 31 255 255),
      (ip4 192 168 0 0, ip4 192 168 255 255),
      (ip4 224 0 0 0, ip4 239 255 255 255)]"

text \<open>This network, the shared address space of carriers and the benchmark networks.\<close>

definition special_ranges4 :: "(nat \<times> nat) list" where
  "special_ranges4 =
     [(ip4 0 0 0 0, ip4 0 255 255 255),
      (ip4 100 64 0 0, ip4 100 127 255 255),
      (ip4 198 18 0 0, ip4 198 19 255 255)]"

text \<open>The first of the addresses \<open>::ffff:0:0/96\<close>, which stand for an IPv4 address.\<close>

definition mapped4 :: nat where
  "mapped4 = 0xFFFF * 2 ^ 32"

text \<open>Loopback, unique local, link-local and multicast addresses of IPv6.\<close>

definition local_ranges6 :: "(nat \<times> nat) list" where
  "local_ranges6 =
     [(1, 1),
      (0xFC00 * 2 ^ 112, 0xFE00 * 2 ^ 112 - 1),
      (0xFE80 * 2 ^ 112, 0xFEC0 * 2 ^ 112 - 1),
      (0xFF00 * 2 ^ 112, 0x10000 * 2 ^ 112 - 1)]"

text \<open>
  The addresses that the test lets through. An IPv4 address inside IPv6 is judged by the first list
  only, and the unspecified address of IPv6 only without a zone.
\<close>

fun public_address :: "addr \<Rightarrow> bool" where
  "public_address NoAddr = False"
| "public_address (V4 x) = (\<not> inside (local_ranges4 @ special_ranges4) (unat x))"
| "public_address (V6 w z) =
     (if inside [(mapped4, mapped4 + 2 ^ 32 - 1)] (unat w)
      then \<not> inside local_ranges4 (unat w - mapped4)
      else \<not> inside local_ranges6 (unat w) \<and> \<not> (unat w = 0 \<and> z = []))"

subsection \<open>Words and blocks of numbers\<close>

lemma unat_drop: "unat (drop_bit n w) = unat w div 2 ^ n"
  by (simp only: unat_drop_bit_eq) (rule drop_bit_eq_div)

lemma unat_below: "unat w < 2 ^ LENGTH('a)" for w :: "'a::len word"
  by (rule unsigned_less)

lemma and_block: "n AND ((2 ^ j - 1) * 2 ^ k) = n div 2 ^ k mod 2 ^ j * 2 ^ k" for n :: nat
proof -
  have "n AND push_bit k (mask j) = push_bit k (take_bit j (drop_bit k n))"
    by (rule bit_eqI) (auto simp: bit_simps)
  then show ?thesis by (simp add: push_bit_eq_mult take_bit_eq_mod drop_bit_eq_div mask_eq_exp_minus_1)
qed

lemma block_le: "(0::nat) < k \<Longrightarrow> a * k \<le> n \<longleftrightarrow> a \<le> n div k"
  by (simp add: less_eq_div_iff_mult_less_eq)

lemma block_less: "(0::nat) < k \<Longrightarrow> n < a * k \<longleftrightarrow> n div k < a"
  by (simp add: div_less_iff_less_mult)

lemma block_upper: "(0::nat) < k \<Longrightarrow> 0 < a \<Longrightarrow> n \<le> a * k - 1 \<longleftrightarrow> n div k < a"
  using block_less[of k n a] by (metis Suc_pred' One_nat_def less_Suc_eq_le mult_pos_pos diff_Suc_1)

lemma block_is: "(0::nat) < k \<Longrightarrow> n div k = q \<longleftrightarrow> q * k \<le> n \<and> n < (q + 1) * k"
  by (simp only: block_le block_less) auto

lemma inside_blocks:
  "0 < k \<Longrightarrow> list_all (\<lambda>(a, b). a < b) bs \<Longrightarrow>
     inside (map (\<lambda>(a, b). (a * k, b * k - 1)) bs) n \<longleftrightarrow> (\<exists>(a, b) \<in> set bs. a \<le> n div k \<and> n div k < b)"
proof (induction bs)
  case (Cons ab bs)
  obtain a b where "ab = (a, b)" by force
  with Cons show ?case by (auto simp: inside_def block_le block_upper[unfolded One_nat_def])
qed (simp add: inside_def)

lemma local_ranges4_blocks:
  "local_ranges4 = map (\<lambda>(a, b). (a * 2 ^ 16, b * 2 ^ 16 - 1))
     [(2560, 2816), (32512, 32768), (43518, 43519), (44048, 44064), (49320, 49321), (57344, 61440)]"
  by (simp add: local_ranges4_def ip4_def)

lemma special_ranges4_blocks:
  "special_ranges4 = map (\<lambda>(a, b). (a * 2 ^ 16, b * 2 ^ 16 - 1)) [(0, 256), (25664, 25728), (50706, 50708)]"
  by (simp add: special_ranges4_def ip4_def)

lemma octets_of_block: "n div 16777216 = n div 65536 div 256" for n :: nat
  by (simp flip: div_mult2_eq)

lemma two_bytes:
  fixes m q lo hi :: nat
  assumes "hi < 256"
  shows "m div 256 = q \<and> lo \<le> m mod 256 \<and> m mod 256 \<le> hi \<longleftrightarrow> q * 256 + lo \<le> m \<and> m \<le> q * 256 + hi"
proof -
  have "q * 256 + lo \<le> m \<and> m \<le> q * 256 + hi \<Longrightarrow> m div 256 = q"
    using assms by (simp add: block_is)
  moreover have "m = m div 256 * 256 + m mod 256" by simp
  ultimately show ?thesis by (metis add_le_cancel_left)
qed

lemma two_bytes_eq: "b < 256 \<Longrightarrow> m div 256 = q \<and> m mod 256 = b \<longleftrightarrow> m = q * 256 + b" for m q b :: nat
  by (auto simp: mult.commute)

lemma unat_octet: "unat (octet i x) = unat x div 2 ^ (24 - 8 * i) mod 256"
  by (simp add: octet_def unsigned_ucast_eq unat_drop take_bit_eq_mod)

lemma unat_group16: "unat (group16 w) = unat w div 2 ^ 112"
proof -
  have "unat w < 2 ^ 128" using unat_below[of w] by simp
  then show ?thesis
    by (simp add: group16_def unsigned_ucast_eq unat_drop take_bit_eq_mod less_mult_imp_div_less)
qed

lemma and_F0: "b AND 0xF0 = 0xE0 \<longleftrightarrow> unat b div 16 = 14" "b AND 0xF0 = 16 \<longleftrightarrow> unat b div 16 = 1" for b :: "8 word"
proof -
  have "unat b div 16 < 16" using unat_below[of b] by simp
  then have "unat (b AND 0xF0) = unat b div 16 * 16"
    using and_block[of "unat b" 4 4] by (simp add: unsigned_and_eq)
  then show "b AND 0xF0 = 0xE0 \<longleftrightarrow> unat b div 16 = 14" "b AND 0xF0 = 16 \<longleftrightarrow> unat b div 16 = 1"
    by (simp_all add: word_unat_eq_iff)
qed

lemma and_FFC0: "g AND 0xFFC0 = 0xFE80 \<longleftrightarrow> unat g div 64 = 1018" for g :: "16 word"
proof -
  have "unat g div 64 < 1024" using unat_below[of g] by simp
  then have "unat (g AND 0xFFC0) = unat g div 64 * 64"
    using and_block[of "unat g" 10 6] by (simp add: unsigned_and_eq)
  then show ?thesis by (simp add: word_unat_eq_iff)
qed

lemma and_FE: "drop_bit 8 g AND 0xFE = 0xFC \<longleftrightarrow> unat g div 512 = 126" for g :: "16 word"
proof -
  have "unat g div 512 < 128" using unat_below[of g] by simp
  then have "unat (drop_bit 8 g AND 0xFE) = unat g div 512 * 2"
    using and_block[of "unat g div 256" 7 1] by (simp add: unsigned_and_eq unat_drop div_mult2_eq[symmetric])
  then show ?thesis by (simp add: word_unat_eq_iff)
qed

lemma drop_FF: "drop_bit 8 g = 0xFF \<longleftrightarrow> unat g div 256 = 255" for g :: "16 word"
  by (simp add: word_unat_eq_iff unat_drop)

lemma is4in6_range: "is4in6 w \<longleftrightarrow> unat w div 2 ^ 32 = 0xFFFF"
  by (simp add: is4in6_def word_unat_eq_iff unat_drop)

lemma unat_embedded: "unat (ucast w :: 32 word) = unat w mod 2 ^ 32" for w :: "128 word"
  by (simp add: unsigned_ucast_eq take_bit_eq_mod)

lemma octet_unat: "unat (octet 0 x) = unat x div 2 ^ 24" "unat (octet 1 x) = unat x div 2 ^ 16 mod 256"
proof -
  have "unat x div 2 ^ 24 < 256" using unat_below[of x] by simp
  then show "unat (octet 0 x) = unat x div 2 ^ 24" "unat (octet 1 x) = unat x div 2 ^ 16 mod 256"
    by (simp_all add: unat_octet)
qed

lemma octet_bits:
  "octet 0 x = a \<longleftrightarrow> unat x div 2 ^ 24 = unat a"
  "octet 1 x = b \<longleftrightarrow> unat x div 2 ^ 16 mod 256 = unat b"
  unfolding word_unat_eq_iff octet_unat by (rule refl)+

subsection \<open>The test decides the ranges\<close>

lemma local_ranges4_exact:
  "IsLoopback4 (V4 x) \<or> IsLinkLocal4 (V4 x) \<or> IsMulticast4 (V4 x) \<or> IsPrivate4 (V4 x) \<longleftrightarrow>
     inside local_ranges4 (unat x)"
proof -
  define m where "m = unat x div 2 ^ 16"
  have "octet 0 x = a \<longleftrightarrow> m div 256 = unat a" "octet 1 x = a \<longleftrightarrow> m mod 256 = unat a"
    "octet 0 x AND 0xF0 = 0xE0 \<longleftrightarrow> m div 256 div 16 = 14" "octet 1 x AND 0xF0 = 16 \<longleftrightarrow> m mod 256 div 16 = 1" for a
    using octet_unat[of x] by (simp_all add: m_def octet_bits and_F0 octets_of_block del: One_nat_def)
  moreover have "inside local_ranges4 (unat x) \<longleftrightarrow>
      2560 \<le> m \<and> m < 2816 \<or> 32512 \<le> m \<and> m < 32768 \<or> m = 43518 \<or> 44048 \<le> m \<and> m < 44064 \<or> m = 49320 \<or>
      57344 \<le> m \<and> m < 61440"
    by (subst local_ranges4_blocks, subst inside_blocks) (auto simp: m_def)
  moreover have "m div 256 = 10 \<longleftrightarrow> 2560 \<le> m \<and> m < 2816" "m div 256 = 127 \<longleftrightarrow> 32512 \<le> m \<and> m < 32768"
    "m div 256 div 16 = 14 \<longleftrightarrow> 57344 \<le> m \<and> m < 61440" "m mod 256 div 16 = 1 \<longleftrightarrow> 16 \<le> m mod 256 \<and> m mod 256 \<le> 31"
    by (auto simp: block_is div_mult2_eq[symmetric])
  moreover have "m div 256 = 169 \<and> m mod 256 = 254 \<longleftrightarrow> m = 43518"
    using two_bytes_eq[of 254 m 169] by simp
  moreover have "m div 256 = 192 \<and> m mod 256 = 168 \<longleftrightarrow> m = 49320"
    using two_bytes_eq[of 168 m 192] by simp
  moreover have "m div 256 = 172 \<and> 16 \<le> m mod 256 \<and> m mod 256 \<le> 31 \<longleftrightarrow> 44048 \<le> m \<and> m < 44064"
    using two_bytes[of 31 m 172 16] by auto
  ultimately show ?thesis by simp blast
qed

lemma special_ranges4_exact:
  "octet 0 x = 0 \<or> (octet 0 x = 100 \<and> octet 1 x \<ge> 64 \<and> octet 1 x \<le> 127) \<or>
     (octet 0 x = 198 \<and> (octet 1 x = 18 \<or> octet 1 x = 19)) \<longleftrightarrow> inside special_ranges4 (unat x)"
proof -
  define m where "m = unat x div 2 ^ 16"
  have "octet 0 x = a \<longleftrightarrow> m div 256 = unat a" "octet 1 x = a \<longleftrightarrow> m mod 256 = unat a"
    "octet 1 x \<ge> 64 \<longleftrightarrow> 64 \<le> m mod 256" "octet 1 x \<le> 127 \<longleftrightarrow> m mod 256 \<le> 127" for a
    using octet_unat[of x] by (simp_all add: m_def octet_bits octets_of_block word_le_nat_alt del: One_nat_def)
  moreover have "inside special_ranges4 (unat x) \<longleftrightarrow>
      m < 256 \<or> 25664 \<le> m \<and> m < 25728 \<or> 50706 \<le> m \<and> m < 50708"
    by (subst special_ranges4_blocks, subst inside_blocks) (auto simp: m_def)
  moreover have "m div 256 = 0 \<longleftrightarrow> m < 256"
    "m div 256 = 100 \<and> 64 \<le> m mod 256 \<and> m mod 256 \<le> 127 \<longleftrightarrow> 25664 \<le> m \<and> m < 25728"
    "m div 256 = 198 \<and> (m mod 256 = 18 \<or> m mod 256 = 19) \<longleftrightarrow> 50706 \<le> m \<and> m < 50708"
    using two_bytes[of 127 m 100 64] two_bytes[of 19 m 198 18] by (auto simp: block_is)
  ultimately show ?thesis by simp
qed

lemma local_ranges6_blocks:
  "local_ranges6 = (1, 1) # map (\<lambda>(a, b). (a * 2 ^ 112, b * 2 ^ 112 - 1))
     [(0xFC00, 0xFE00), (0xFE80, 0xFEC0), (0xFF00, 0x10000)]"
  by (simp add: local_ranges6_def)

lemma inside_Cons: "inside ((a, b) # rs) n \<longleftrightarrow> a \<le> n \<and> n \<le> b \<or> inside rs n"
  by (simp add: inside_def)

lemma local_ranges6_exact:
  "IsLoopback4 (V6 w z) \<or> IsLinkLocal4 (V6 w z) \<or> IsMulticast4 (V6 w z) \<or> IsPrivate4 (V6 w z) \<longleftrightarrow>
     inside local_ranges6 (unat w)"
proof -
  have one: "w = 1 \<longleftrightarrow> unat w = 1" by (simp add: word_unat_eq_iff)
  have group: "unat (group16 w) < 65536" using unat_below[of "group16 w"] by simp
  define m where "m = unat (group16 w)"
  have "inside local_ranges6 (unat w) \<longleftrightarrow>
      unat w = 1 \<or> 0xFC00 \<le> m \<and> m < 0xFE00 \<or> 0xFE80 \<le> m \<and> m < 0xFEC0 \<or> 0xFF00 \<le> m \<and> m < 0x10000"
    by (subst local_ranges6_blocks, subst inside_Cons, subst inside_blocks) (auto simp: m_def unat_group16)
  moreover have "m div 64 = 1018 \<longleftrightarrow> 0xFE80 \<le> m \<and> m < 0xFEC0" "m div 256 = 255 \<longleftrightarrow> 0xFF00 \<le> m \<and> m < 0x10000"
    "m div 512 = 126 \<longleftrightarrow> 0xFC00 \<le> m \<and> m < 0xFE00" by (simp_all add: block_is)
  ultimately show ?thesis by (simp add: one and_FFC0 and_FE drop_FF flip: m_def) blast
qed

lemma mapped_exact: "is4in6 w \<longleftrightarrow> inside [(mapped4, mapped4 + 2 ^ 32 - 1)] (unat w)"
proof -
  have "[(mapped4, mapped4 + 2 ^ 32 - 1)] = map (\<lambda>(a, b). (a * 2 ^ 32, b * 2 ^ 32 - 1)) [(0xFFFF, 0x10000)]"
    by (simp add: mapped4_def)
  then have "inside [(mapped4, mapped4 + 2 ^ 32 - 1)] (unat w) \<longleftrightarrow> 0xFFFF \<le> unat w div 2 ^ 32 \<and> unat w div 2 ^ 32 < 0x10000"
    by (simp only: inside_blocks) (subst inside_blocks, auto)
  then show ?thesis by (auto simp: is4in6_range)
qed

lemma embedded_minus: "is4in6 w \<Longrightarrow> unat (ucast w :: 32 word) = unat w - mapped4"
proof -
  assume "is4in6 w"
  then have "unat w = 0xFFFF * 2 ^ 32 + unat w mod 2 ^ 32"
    using is4in6_range[of w] div_mult_mod_eq[of "unat w" "2 ^ 32"] by simp
  then show ?thesis by (simp add: unat_embedded mapped4_def)
qed

lemma isNonPublicAddress_exact: "isNonPublicAddress a \<longleftrightarrow> \<not> public_address a"
proof (cases a)
  case NoAddr
  then show ?thesis by (simp add: isNonPublicAddress_def)
next
  case (V4 x)
  have "inside special_ranges4 0" by (simp add: special_ranges4_def inside_def ip4_def)
  moreover have "inside (local_ranges4 @ special_ranges4) n \<longleftrightarrow> inside local_ranges4 n \<or> inside special_ranges4 n" for n
    by (auto simp: inside_def)
  ultimately show ?thesis
    using local_ranges4_exact[of x] special_ranges4_exact[of x] V4
    by (auto simp: isNonPublicAddress_def IsUnspecified_def)
next
  case (V6 w z)
  have zero: "w = 0 \<longleftrightarrow> unat w = 0" by (simp add: word_unat_eq_iff)
  show ?thesis
  proof (cases "is4in6 w")
    case True
    then have "w \<noteq> 0" by (auto simp: is4in6_def)
    with True V6 local_ranges4_exact[of "ucast w"] mapped_exact[of w] show ?thesis
      by (auto simp: isNonPublicAddress_def IsUnspecified_def embedded_minus)
  next
    case False
    with V6 local_ranges6_exact[of w z] mapped_exact[of w] zero show ?thesis
      by (auto simp: isNonPublicAddress_def IsUnspecified_def)
  qed
qed
end
