(* ===== verification/Url_Safety.thy ===== *)
theory Url_Safety
  imports Glob Net_Addr
begin

unbundle bit_operations_syntax

section \<open>Which URLs a tool may fetch\<close>

text \<open>
  \<open>UrlSafetyValidator\<close> of \<open>src/openclaw/core/security.go\<close>: the check that keeps tools from fetching
  addresses inside the network of the gateway. The addresses and the test for non-public ones are
  those of \<open>Net_Addr\<close>. Parsing of addresses and prefixes, their printing and the resolver are arguments (\<open>net_env\<close>). A nil policy
  is \<open>None\<close>.
\<close>

subsection \<open>Prefixes\<close>

text \<open>\<open>Prefix.Contains\<close> of a prefix with an address and a number of bits.\<close>

fun prefix_contains :: "addr \<Rightarrow> nat \<Rightarrow> addr \<Rightarrow> bool" where
  "prefix_contains (V4 n) bits (V4 x) = (bits \<le> 32 \<and> drop_bit (32 - bits) (n XOR x) = 0)"
| "prefix_contains (V6 n nz) bits (V6 x z) = (bits \<le> 128 \<and> nz = [] \<and> z = [] \<and> drop_bit (128 - bits) (n XOR x) = 0)"
| "prefix_contains _ bits _ = False"

subsection \<open>The validator\<close>

record net_env =
  ne_ParseAddr :: "string \<Rightarrow> addr option"
  ne_ParsePrefix :: "string \<Rightarrow> (addr \<times> nat) option"
  ne_LookupNetIP :: "string \<Rightarrow> addr list go_result"
  ne_String :: "addr \<Rightarrow> string"

record UrlSafetyConfig =
  us_Enabled :: bool
  us_BlockPrivateNetworkTargets :: bool
  us_BlockedHostGlobs :: "string list"
  us_BlockedCidrs :: "string list"

definition NewDefaultUrlSafetyConfig :: UrlSafetyConfig where
  "NewDefaultUrlSafetyConfig =
     \<lparr>us_Enabled = True, us_BlockPrivateNetworkTargets = True, us_BlockedHostGlobs = [], us_BlockedCidrs = []\<rparr>"

definition zero_config :: UrlSafetyConfig where
  "zero_config =
     \<lparr>us_Enabled = False, us_BlockPrivateNetworkTargets = False, us_BlockedHostGlobs = [], us_BlockedCidrs = []\<rparr>"

datatype UrlSafetyValidationResult = Allow | Deny string

record uri =
  uri_Scheme :: string
  uri_Host :: string

definition addressMatchesCidr :: "net_env \<Rightarrow> addr \<Rightarrow> string \<Rightarrow> bool" where
  "addressMatchesCidr net address cidr =
     (case ne_ParsePrefix net cidr of
        None \<Rightarrow> False
      | Some (network, bits) \<Rightarrow>
          let addrUnmapped = Unmap address; netUnmapped = Unmap network in
          if BitLen addrUnmapped \<noteq> BitLen netUnmapped then False
          else prefix_contains netUnmapped bits addrUnmapped)"

definition normalizeHost :: "uri \<Rightarrow> string" where
  "normalizeHost u = ToLower (TrimRight (\<lambda>c. c = CHR ''.'') (TrimSpace (uri_Host u)))"

fun validate_cidrs :: "net_env \<Rightarrow> addr \<Rightarrow> string \<Rightarrow> string list \<Rightarrow> UrlSafetyValidationResult option" where
  "validate_cidrs net address host [] = None"
| "validate_cidrs net address host (cidr # cs) =
     (if \<not> IsBlank cidr \<and> addressMatchesCidr net address (TrimSpace cidr)
      then Some (Deny (''host '' @ [CHR 0x27] @ host @ [CHR 0x27] @ '' resolves to '' @ ne_String net address @
             '', which matches blocked CIDR '' @ [CHR 0x27] @ cidr @ [CHR 0x27] @ ''.''))
      else validate_cidrs net address host cs)"

fun validateAddresses :: "net_env \<Rightarrow> addr list \<Rightarrow> UrlSafetyConfig \<Rightarrow> string \<Rightarrow> UrlSafetyValidationResult" where
  "validateAddresses net [] policy host = Allow"
| "validateAddresses net (address # as) policy host =
     (if us_BlockPrivateNetworkTargets policy \<and> isNonPublicAddress address
      then Deny (''host '' @ [CHR 0x27] @ host @ [CHR 0x27] @ '' resolves to non-public address '' @ ne_String net address @ ''.'')
      else case validate_cidrs net address host (us_BlockedCidrs policy) of
             Some r \<Rightarrow> r
           | None \<Rightarrow> validateAddresses net as policy host)"

definition BuiltInBlockedHostGlobs :: "string list" where
  "BuiltInBlockedHostGlobs = [''localhost'', ''*.localhost'', ''metadata'', ''metadata.google.internal'']"

definition ValidateHttpUrlLocal :: "net_env \<Rightarrow> uri \<Rightarrow> UrlSafetyConfig option \<Rightarrow> UrlSafetyValidationResult" where
  "ValidateHttpUrlLocal net u pol =
     (let policy = (case pol of None \<Rightarrow> zero_config | Some c \<Rightarrow> c) in
      if \<not> us_Enabled policy then Allow
      else if uri_Scheme u \<noteq> ''http'' \<and> uri_Scheme u \<noteq> ''https''
      then Deny ''only absolute http(s) URLs are allowed.''
      else
        let host = normalizeHost u in
        if IsBlank host then Deny ''URL host is empty.''
        else if us_BlockPrivateNetworkTargets policy \<and> list_ex (\<lambda>pat. IsMatch pat host) BuiltInBlockedHostGlobs
        then Deny (''host '' @ [CHR 0x27] @ host @ [CHR 0x27] @ '' is blocked.'')
        else (case find (\<lambda>pat. IsMatch pat host) (us_BlockedHostGlobs policy) of
                Some pat \<Rightarrow> Deny (''host '' @ [CHR 0x27] @ host @ [CHR 0x27] @ '' matches blocklist entry '' @
                              [CHR 0x27] @ pat @ [CHR 0x27])
              | None \<Rightarrow>
                  (case ne_ParseAddr net host of
                     Some literalIp \<Rightarrow> validateAddresses net [literalIp] policy host
                   | None \<Rightarrow> Allow)))"

definition ValidateHttpUrl :: "net_env \<Rightarrow> string option \<Rightarrow> uri \<Rightarrow> UrlSafetyConfig option \<Rightarrow> UrlSafetyValidationResult" where
  "ValidateHttpUrl net ctxErr u pol =
     (let policy = (case pol of None \<Rightarrow> zero_config | Some c \<Rightarrow> c) in
      case ctxErr of
        Some e \<Rightarrow> Deny (''validation canceled: '' @ e)
      | None \<Rightarrow>
          let preliminary = ValidateHttpUrlLocal net u (Some policy) in
          if preliminary \<noteq> Allow then preliminary
          else if \<not> us_Enabled policy \<or> (\<not> us_BlockPrivateNetworkTargets policy \<and> length (us_BlockedCidrs policy) = 0)
          then Allow
          else
            let host = normalizeHost u in
            if ne_ParseAddr net host \<noteq> None then preliminary
            else (case ne_LookupNetIP net host of
                    Inl f \<Rightarrow> Deny (''DNS resolution failed for '' @ [CHR 0x27] @ host @ [CHR 0x27] @ '': '' @
                                (case f of GoErr e \<Rightarrow> e | _ \<Rightarrow> []))
                  | Inr addresses \<Rightarrow>
                      if length addresses = 0
                      then Deny (''DNS resolution returned no addresses for '' @ [CHR 0x27] @ host @ [CHR 0x27])
                      else validateAddresses net addresses policy host))"

subsection \<open>What an allowed URL guarantees\<close>

definition blocked_cidr :: "net_env \<Rightarrow> UrlSafetyConfig \<Rightarrow> addr \<Rightarrow> bool" where
  "blocked_cidr net policy a \<longleftrightarrow>
     (\<exists>cidr \<in> set (us_BlockedCidrs policy). \<not> IsBlank cidr \<and> addressMatchesCidr net a (TrimSpace cidr))"

lemma validate_cidrs_None:
  "validate_cidrs net a host (us_BlockedCidrs policy) = None \<longleftrightarrow> \<not> blocked_cidr net policy a"
proof -
  have "validate_cidrs net a host cs = None \<longleftrightarrow>
      (\<forall>cidr \<in> set cs. IsBlank cidr \<or> \<not> addressMatchesCidr net a (TrimSpace cidr))" for cs
    by (induction cs) auto
  then show ?thesis by (auto simp: blocked_cidr_def)
qed

lemma validate_cidrs_deny: "validate_cidrs net a host cs \<noteq> Some Allow"
  by (induction cs) auto

lemma validateAddresses_Allow:
  "validateAddresses net as policy host = Allow \<longleftrightarrow>
     (\<forall>a \<in> set as. \<not> (us_BlockPrivateNetworkTargets policy \<and> isNonPublicAddress a) \<and> \<not> blocked_cidr net policy a)"
proof (induction as)
  case (Cons a as)
  show ?case
  proof (cases "validate_cidrs net a host (us_BlockedCidrs policy)")
    case None
    then have "\<not> blocked_cidr net policy a" by (simp only: validate_cidrs_None not_False_eq_True)
    with None Cons show ?thesis by auto
  next
    case (Some r)
    then have "blocked_cidr net policy a" using validate_cidrs_None[of net a host policy] by auto
    with Some show ?thesis
      using validate_cidrs_deny[of net a host "us_BlockedCidrs policy"] by auto
  qed
qed simp

declare validateAddresses.simps [simp del]


definition example_net_env :: net_env where
  "example_net_env =
     \<lparr>ne_ParseAddr = (\<lambda>s. if s = ''127.0.0.1'' then Some (V4 0x7F000001) else None),
      ne_ParsePrefix = (\<lambda>s. if s = ''93.0.0.0/8'' then Some (V4 0x5D000000, 8) else None),
      ne_LookupNetIP = (\<lambda>s. if s = ''example.org'' then Inr [V4 0x5DB8D822] else Inl (GoErr ''no such host'')),
      ne_String = (\<lambda>_. [])\<rparr>"


text \<open>
  The extra ranges of IPv4 are tested only on plain IPv4 addresses: the same address of the shared
  address space passes when it is written inside IPv6.
\<close>

lemma mapped_shared_address:
  "isNonPublicAddress (V4 0x64400001)" "\<not> isNonPublicAddress (V6 0xFFFF64400001 [])"
  "Unmap (V6 0xFFFF64400001 []) = V4 0x64400001"
  by code_simp+

lemma mapped_shared_address_passes: "public_address (V6 0xFFFF64400001 [])" "\<not> public_address (V4 0x64400001)"
  using mapped_shared_address(1,2) by (simp_all only: isNonPublicAddress_exact not_not not_False_eq_True)

subsection \<open>Hosts with a port\<close>

text \<open>
  The host of a \<open>url.URL\<close> includes the port, and the validator normalises it without removing the
  port. No name of the built-in list ends with a digit.
\<close>

lemma builtin_globs_end:
  assumes "pat \<in> set BuiltInBlockedHostGlobs" "glob pat host"
  shows "host \<noteq> [] \<and> \<not> is_digit (last host)"
proof -
  from assms(1) consider "pat = ''localhost''" | "pat = ''metadata''" | "pat = ''metadata.google.internal''" |
    "pat = star # ''.localhost''" by (auto simp: BuiltInBlockedHostGlobs_def)
  then show ?thesis
  proof cases
    case 4
    with assms(2) have "suffix ''.localhost'' host" by (simp add: glob_star_suffix)
    then obtain u where "host = u @ ''.localhost''" by (auto simp: suffix_def)
    then show ?thesis by (simp add: is_digit_def)
  qed (use assms(2) in \<open>auto simp: glob_literal is_digit_def\<close>)
qed

lemma lower_digit_char: "is_digit c \<Longrightarrow> lower_char c = c"
  by (auto simp: is_digit_def lower_char_def)

lemma TrimRight_last: "s \<noteq> [] \<Longrightarrow> \<not> p (last s) \<Longrightarrow> TrimRight p s = s"
  by (simp add: TrimRight_def dropWhile_id hd_rev)

lemma normalizeHost_port:
  assumes "port \<noteq> []" "list_all is_digit port" "name \<noteq> []" "\<not> is_space (hd name)"
  shows "normalizeHost \<lparr>uri_Scheme = s, uri_Host = name @ '':'' @ port\<rparr> = ToLower name @ '':'' @ port"
proof -
  have last: "is_digit (last port)" using assms(1,2) by (simp add: list_all_iff)
  then have "\<not> is_space (last port)" "last port \<noteq> CHR ''.''" by (auto simp: is_digit_def is_space_def)
  then have trim: "TrimSpace (name @ CHR '':'' # port) = name @ CHR '':'' # port"
    using assms by (simp add: TrimSpace_def Trim_def TrimLeft_def TrimRight_last dropWhile_id)
  have "map lower_char port = port"
    using assms(2) by (auto simp: list_all_iff lower_digit_char intro: map_idI)
  then show ?thesis
    using \<open>last port \<noteq> CHR ''.''\<close> assms(1)
    by (simp add: normalizeHost_def trim TrimRight_last ToLower_def lower_char_def)
qed

text \<open>The check that does not resolve names allows every http or https URL whose host carries a
  port, under the default protection, whatever the host is: a loopback or private address too,
  since neither a parser of addresses nor a name of the built-in list accepts a host with a port.\<close>

theorem local_check_passes_ports:
  assumes "uri_Scheme u = ''http'' \<or> uri_Scheme u = ''https''"
    and "uri_Host u = name @ '':'' @ port" "port \<noteq> []" "list_all is_digit port" "name \<noteq> []" "\<not> is_space (hd name)"
    and parse: "ne_ParseAddr net (ToLower name @ '':'' @ port) = None"
  shows "ValidateHttpUrlLocal net u (Some NewDefaultUrlSafetyConfig) = Allow"
proof -
  have host: "normalizeHost u = ToLower name @ '':'' @ port"
    using normalizeHost_port[OF assms(3-6), of "uri_Scheme u"] assms(2) by (cases u) simp
  have last: "is_digit (last (normalizeHost u))"
    using assms(3,4) by (simp add: host list_all_iff)
  have ne: "\<not> IsBlank (normalizeHost u)"
    by (simp add: host IsBlank_iff is_space_def)
  have "\<not> list_ex (\<lambda>pat. IsMatch pat (normalizeHost u)) BuiltInBlockedHostGlobs"
    using builtin_globs_end last by (auto simp: list_ex_iff IsMatch_is_glob)
  then show ?thesis
    using assms(1) ne parse
    by (auto simp: ValidateHttpUrlLocal_def NewDefaultUrlSafetyConfig_def Let_def host)
qed

theorem local_check_passes_ports_witness:
  "ValidateHttpUrlLocal example_net_env \<lparr>uri_Scheme = ''http'', uri_Host = ''127.0.0.1:80''\<rparr>
     (Some NewDefaultUrlSafetyConfig) = Allow \<and>
   ValidateHttpUrlLocal example_net_env \<lparr>uri_Scheme = ''http'', uri_Host = ''127.0.0.1''\<rparr>
     (Some NewDefaultUrlSafetyConfig) \<noteq> Allow"
proof
  show "ValidateHttpUrlLocal example_net_env \<lparr>uri_Scheme = ''http'', uri_Host = ''127.0.0.1:80''\<rparr>
     (Some NewDefaultUrlSafetyConfig) = Allow"
    by (rule local_check_passes_ports[of _ "''127.0.0.1''" "''80''"])
       (auto simp: example_net_env_def ToLower_def is_digit_def is_space_def lower_char_def)
  show "ValidateHttpUrlLocal example_net_env \<lparr>uri_Scheme = ''http'', uri_Host = ''127.0.0.1''\<rparr>
     (Some NewDefaultUrlSafetyConfig) \<noteq> Allow"
    by code_simp
qed

end
