(* ===== verification/Middleware.thy ===== *)
theory Middleware
  imports Go_Prelude
begin

section \<open>Message middleware\<close>

text \<open>
  \<open>src/openclaw/core/middleware.go\<close>: the chain every inbound message passes before the agent sees it,
  with the rate limiter and the token budget. A middleware acts on the message and its own state
  and then either calls the next one or returns; no middleware here calls it twice. The rate limiter
  is modelled by the steps between which its calls interleave; times are nanoseconds.
\<close>

record MessageContext =
  mc_ChannelId :: string
  mc_SenderId :: string
  mc_Text :: string
  mc_MessageId :: string
  mc_SessionId :: string
  mc_SessionInputTokens :: int
  mc_SessionOutputTokens :: int
  mc_IsShortCircuited :: bool
  mc_ShortCircuitResponse :: string

definition ShortCircuit :: "string \<Rightarrow> MessageContext \<Rightarrow> MessageContext" where
  "ShortCircuit responseText m = m\<lparr>mc_IsShortCircuited := True, mc_ShortCircuitResponse := responseText\<rparr>"

text \<open>How an invocation ends: it calls the next middleware, returns, or returns an error.\<close>

datatype mw_end = CallNext | Return | Fail string

type_synonym 's middleware = "MessageContext \<Rightarrow> 's \<Rightarrow> mw_end \<times> MessageContext \<times> 's"

fun run_chain :: "'s middleware list \<Rightarrow> MessageContext \<Rightarrow> 's \<Rightarrow> bool \<times> MessageContext \<times> 's" where
  "run_chain [] m s = (True, m, s)"
| "run_chain (mw # mws) m s =
     (if mc_IsShortCircuited m then (True, m, s)
      else (case mw m s of
              (CallNext, m', s') \<Rightarrow> run_chain mws m' s'
            | (Return, m', s') \<Rightarrow> (True, m', s')
            | (Fail _, m', s') \<Rightarrow> (False, m', s')))"

definition MiddlewarePipeline_Execute :: "'s middleware list \<Rightarrow> MessageContext \<Rightarrow> 's \<Rightarrow> bool \<times> MessageContext \<times> 's" where
  "MiddlewarePipeline_Execute mws m s =
     (if length mws = 0 then (True, m, s)
      else (case run_chain mws m s of
              (False, m', s') \<Rightarrow> (False, m', s')
            | (True, m', s') \<Rightarrow> (\<not> mc_IsShortCircuited m', m', s')))"

subsection \<open>The rate limiter\<close>

text \<open>
  The windows are shared objects: \<open>rl_heap\<close> holds them by address, the map \<open>windows\<close> the address of a
  key. The first time of a window is the zero time, which lies before every clock reading.
\<close>

record rateWindow =
  rw_entries :: "int list"
  rw_lastSeenAt :: int

record RateLimitMiddleware =
  rl_maxMessagesPerMinute :: int
  rl_idleTtl :: int
  rl_cleanupEvery :: int
  rl_heap :: "rateWindow list"
  rl_windows :: "(string \<times> nat) list"
  rl_requestCount :: int

definition never_seen :: int where
  "never_seen = - (62135596800 * Second)"

definition NewRateLimitMiddleware :: "int \<Rightarrow> int option \<Rightarrow> int \<Rightarrow> RateLimitMiddleware" where
  "NewRateLimitMiddleware maxMessagesPerMinute idleTtl cleanupEvery =
     \<lparr>rl_maxMessagesPerMinute = (if maxMessagesPerMinute \<le> 0 then max_i64 else maxMessagesPerMinute),
      rl_idleTtl = (case idleTtl of None \<Rightarrow> 10 * Minute | Some ttl \<Rightarrow> ttl),
      rl_cleanupEvery = max cleanupEvery 1,
      rl_heap = [], rl_windows = [], rl_requestCount = 0\<rparr>"

definition evict :: "int \<Rightarrow> int list \<Rightarrow> int list" where
  "evict cutoff entries = dropWhile (\<lambda>t. t < cutoff) entries"

definition rate_key :: "string \<Rightarrow> string \<Rightarrow> string" where
  "rate_key channelId senderId = channelId @ '':'' @ senderId"

text \<open>
  The parts of \<open>Invoke\<close> and \<open>cleanupStaleWindows\<close> between which other calls run: each is one operation
  of the map or one critical section of the lock of a window.
\<close>

definition LoadOrStore :: "string \<Rightarrow> RateLimitMiddleware \<Rightarrow> nat \<times> RateLimitMiddleware" where
  "LoadOrStore key r =
     (case map_of (rl_windows r) key of
        Some a \<Rightarrow> (a, r)
      | None \<Rightarrow> (length (rl_heap r),
                r\<lparr>rl_heap := rl_heap r @ [\<lparr>rw_entries = [], rw_lastSeenAt = never_seen\<rparr>],
                  rl_windows := (key, length (rl_heap r)) # rl_windows r\<rparr>))"

definition admit_section :: "int \<Rightarrow> nat \<Rightarrow> RateLimitMiddleware \<Rightarrow> bool \<times> RateLimitMiddleware" where
  "admit_section now a r =
     (let window = rl_heap r ! a;
          cutoff = now - Minute;
          entries = evict cutoff (rw_entries window)
      in if int (length entries) \<ge> rl_maxMessagesPerMinute r
         then (False, r\<lparr>rl_heap := (rl_heap r)[a := window\<lparr>rw_entries := entries\<rparr>]\<rparr>)
         else (True, r\<lparr>rl_heap := (rl_heap r)[a := \<lparr>rw_entries = entries @ [now], rw_lastSeenAt = now\<rparr>]\<rparr>))"

definition count_section :: "RateLimitMiddleware \<Rightarrow> bool \<times> RateLimitMiddleware" where
  "count_section r =
     (let n = wrap64 (rl_requestCount r + 1) in (rl_cleanupEvery r dvd n, r\<lparr>rl_requestCount := n\<rparr>))"

definition inspect_section :: "int \<Rightarrow> nat \<Rightarrow> RateLimitMiddleware \<Rightarrow> bool \<times> RateLimitMiddleware" where
  "inspect_section now a r =
     (let window = rl_heap r ! a;
          entries = evict (now - Minute) (rw_entries window)
      in (length entries = 0 \<and> rw_lastSeenAt window < now - rl_idleTtl r,
          r\<lparr>rl_heap := (rl_heap r)[a := window\<lparr>rw_entries := entries\<rparr>]\<rparr>))"

definition Delete_window :: "string \<Rightarrow> RateLimitMiddleware \<Rightarrow> RateLimitMiddleware" where
  "Delete_window key r = r\<lparr>rl_windows := filter (\<lambda>(k, a). k \<noteq> key) (rl_windows r)\<rparr>"

text \<open>
  A call that runs alone, with the order in which \<open>Range\<close> visits the keys: whether the message is
  admitted.
\<close>

fun cleanupStaleWindows :: "int \<Rightarrow> string list \<Rightarrow> RateLimitMiddleware \<Rightarrow> RateLimitMiddleware" where
  "cleanupStaleWindows now [] r = r"
| "cleanupStaleWindows now (key # keys) r =
     (case map_of (rl_windows r) key of
        None \<Rightarrow> cleanupStaleWindows now keys r
      | Some a \<Rightarrow>
          let (remove, r') = inspect_section now a r
          in cleanupStaleWindows now keys (if remove then Delete_window key r' else r'))"

definition rate_admit :: "string list \<Rightarrow> int \<Rightarrow> string \<Rightarrow> RateLimitMiddleware \<Rightarrow> bool \<times> RateLimitMiddleware" where
  "rate_admit order now key r =
     (let (a, r) = LoadOrStore key r; (ok, r) = admit_section now a r in
      if \<not> ok then (False, r)
      else let (due, r) = count_section r in (True, if due then cleanupStaleWindows now order r else r))"

definition RateLimit_Invoke :: "string list \<Rightarrow> int \<Rightarrow> RateLimitMiddleware middleware" where
  "RateLimit_Invoke order now m r =
     (case rate_admit order now (rate_key (mc_ChannelId m) (mc_SenderId m)) r of
        (True, r') \<Rightarrow> (CallNext, m, r')
      | (False, r') \<Rightarrow>
          (Return, ShortCircuit (''You'' @ [CHR 0x27] @ ''re sending messages too quickly. Please wait a moment and try again.'') m, r'))"

text \<open>
  Calls that run at the same time: where a call stands, and its next step. The clock is read after the
  window was loaded; \<open>Range\<close> visits registered keys, each once, in any order, and is over when every key
  it began with was visited or removed; a key registered meanwhile it may visit or not.
\<close>

datatype rate_pc =
    Outside
  | Loaded string nat
  | Clocked string nat int
  | Admitted int
  | Ranging int "string list" "string list"
  | Visiting int "string list" "string list" string nat
  | Removing int "string list" "string list" string

datatype rate_action = Enter string | Clock int | Lock | Count | Visit string | Inspect | Remove | Leave

type_synonym rate_state = "RateLimitMiddleware \<times> (nat \<Rightarrow> rate_pc)"

text \<open>The step of call \<open>g\<close>, with the decision it takes, if any: time, key and whether it is admitted.\<close>

fun rate_step :: "nat \<Rightarrow> rate_action \<Rightarrow> rate_state \<Rightarrow> (rate_state \<times> ((int \<times> string) \<times> bool) list) option" where
  "rate_step g act (r, pcs) =
     (case (act, pcs g) of
        (Enter key, Outside) \<Rightarrow> (case LoadOrStore key r of (a, r') \<Rightarrow> Some ((r', pcs(g := Loaded key a)), []))
      | (Clock now, Loaded key a) \<Rightarrow> Some ((r, pcs(g := Clocked key a now)), [])
      | (Lock, Clocked key a now) \<Rightarrow>
          (case admit_section now a r of
             (ok, r') \<Rightarrow> Some ((r', pcs(g := (if ok then Admitted now else Outside))), [((now, key), ok)]))
      | (Count, Admitted now) \<Rightarrow>
          (case count_section r of
             (due, r') \<Rightarrow> Some ((r', pcs(g := (if due then Ranging now (map fst (rl_windows r')) [] else Outside))), []))
      | (Visit key, Ranging now start seen) \<Rightarrow>
          (if key \<in> set seen then None
           else case map_of (rl_windows r) key of
                  None \<Rightarrow> None
                | Some a \<Rightarrow> Some ((r, pcs(g := Visiting now start (key # seen) key a)), []))
      | (Inspect, Visiting now start seen key a) \<Rightarrow>
          (case inspect_section now a r of
             (remove, r') \<Rightarrow>
               Some ((r', pcs(g := (if remove then Removing now start seen key else Ranging now start seen))), []))
      | (Remove, Removing now start seen key) \<Rightarrow>
          Some ((Delete_window key r, pcs(g := Ranging now start seen)), [])
      | (Leave, Ranging now start seen) \<Rightarrow>
          (if \<forall>key \<in> set start. key \<in> set seen \<or> map_of (rl_windows r) key = None
           then Some ((r, pcs(g := Outside)), []) else None)
      | _ \<Rightarrow> None)"

fun rate_run :: "(nat \<times> rate_action) list \<Rightarrow> rate_state \<Rightarrow> (rate_state \<times> ((int \<times> string) \<times> bool) list) option" where
  "rate_run [] s = Some (s, [])"
| "rate_run ((g, act) # es) s =
     (case rate_step g act s of
        None \<Rightarrow> None
      | Some (s', ds) \<Rightarrow> map_option (\<lambda>(t, rest). (t, ds @ rest)) (rate_run es s'))"

definition rate_start :: "RateLimitMiddleware \<Rightarrow> rate_state" where
  "rate_start r = (r, \<lambda>_. Outside)"

subsection \<open>The token budget\<close>

record TokenBudgetMiddleware =
  tb_maxTokensPerSession :: int
  tb_costChecker :: "(string \<Rightarrow> string \<Rightarrow> string \<Rightarrow> string \<times> string \<times> bool) option"
    \<comment> \<open>maximal and current cost, printed with two decimals, and whether it is exceeded\<close>

definition TokenBudget_Invoke :: "TokenBudgetMiddleware \<Rightarrow> 's middleware" where
  "TokenBudget_Invoke b m s =
     (let total_tokens = wrap64 (mc_SessionInputTokens m + mc_SessionOutputTokens m) in
      if tb_maxTokensPerSession b > 0 \<and> total_tokens \<ge> tb_maxTokensPerSession b
      then (Return, ShortCircuit (''This session has reached its token budget ('' @ Itoa total_tokens @ ''/'' @
              Itoa (tb_maxTokensPerSession b) @ '' tokens). Please start a new conversation.'') m, s)
      else (case tb_costChecker b of
              None \<Rightarrow> (CallNext, m, s)
            | Some check \<Rightarrow>
                (case check (mc_SessionId m) (mc_ChannelId m) (mc_SenderId m) of
                   (maxCost, currentCost, exceeded) \<Rightarrow>
                     if exceeded
                     then (Return, ShortCircuit (''This session has reached its cost budget ($'' @ currentCost @ ''/$'' @
                             maxCost @ '' USD). Please start a new conversation or adjust the contract budget.'') m, s)
                     else (CallNext, m, s))))"

subsection \<open>The chain\<close>

text \<open>A message is let through exactly when every middleware calls the next one, in order.\<close>

lemma run_chain_passes:
  "run_chain mws m s = (True, m', s') \<Longrightarrow> \<not> mc_IsShortCircuited m' \<Longrightarrow> \<not> mc_IsShortCircuited m \<Longrightarrow>
   (\<And>mw n t n' t'. mw \<in> set mws \<Longrightarrow> mw n t = (Return, n', t') \<Longrightarrow> mc_IsShortCircuited n') \<Longrightarrow>
   mw \<in> set mws \<Longrightarrow> \<exists>n t n' t'. mw n t = (CallNext, n', t')"
proof (induction mws m s rule: run_chain.induct)
  case (2 mw0 mws m s)
  from 2(2,4) show ?case
  proof (cases "mw0 m s")
    case (fields e n t)
    with 2(2-5) have e: "e = CallNext" by (auto split: mw_end.splits if_splits prod.splits) (metis list.set_intros(1))
    with 2(2,4) fields have run: "run_chain mws n t = (True, m', s')" by simp
    show ?thesis
    proof (cases "mw = mw0")
      case True
      with fields e show ?thesis by blast
    next
      case False
      with 2(6) have mem: "mw \<in> set mws" by simp
      show ?thesis
      proof (cases "mc_IsShortCircuited n")
        case True
        with run 2(3) mem show ?thesis by (cases mws) auto
      next
        case False
        with 2(1)[OF 2(4) fields[symmetric]] e run 2(3,5) mem show ?thesis by (auto) (meson list.set_intros(2))
      qed
    qed
  qed
qed simp


subsection \<open>What the limiter promises\<close>

text \<open>
  The reference: one log of admission times per key that is never trimmed. A message is admitted
  while fewer than the maximum of the logged times lie in the minute that ends now.
\<close>

type_synonym sliding = "string \<Rightarrow> int list"

definition in_minute :: "int \<Rightarrow> int list \<Rightarrow> int list" where
  "in_minute now ts = filter (\<lambda>t. now - Minute \<le> t) ts"

definition sliding_admit :: "int \<Rightarrow> int \<Rightarrow> string \<Rightarrow> sliding \<Rightarrow> bool \<times> sliding" where
  "sliding_admit maxMsgs now key S =
     (if int (length (in_minute now (S key))) < maxMsgs then (True, S(key := S key @ [now])) else (False, S))"

fun sliding_run :: "int \<Rightarrow> (int \<times> string) list \<Rightarrow> sliding \<Rightarrow> bool list \<times> sliding" where
  "sliding_run maxMsgs [] S = ([], S)"
| "sliding_run maxMsgs ((now, key) # msgs) S =
     (let (ok, S') = sliding_admit maxMsgs now key S; (oks, S'') = sliding_run maxMsgs msgs S' in (ok # oks, S''))"

text \<open>The entries that the limiter keeps for a key.\<close>

definition entries_in :: "(string \<times> nat) list \<Rightarrow> rateWindow list \<Rightarrow> string \<Rightarrow> int list" where
  "entries_in ws h key = (case map_of ws key of None \<Rightarrow> [] | Some a \<Rightarrow> rw_entries (h ! a))"

definition entries_of :: "RateLimitMiddleware \<Rightarrow> string \<Rightarrow> int list" where
  "entries_of r = entries_in (rl_windows r) (rl_heap r)"

definition windows_fine :: "(string \<times> nat) list \<Rightarrow> nat \<Rightarrow> bool" where
  "windows_fine ws n \<longleftrightarrow> distinct (map fst ws) \<and> distinct (map snd ws) \<and> (\<forall>a \<in> snd ` set ws. a < n)"

definition windows_ok :: "RateLimitMiddleware \<Rightarrow> bool" where
  "windows_ok r \<longleftrightarrow> windows_fine (rl_windows r) (length (rl_heap r))"

text \<open>
  The simulation: what a window keeps of its log is a suffix that starts no later than the minute
  before the latest decision, whether the rest was evicted by a message, by a clean-up, or went
  with a removed window.
\<close>

definition rate_sim :: "int \<Rightarrow> RateLimitMiddleware \<Rightarrow> sliding \<Rightarrow> bool" where
  "rate_sim T r S \<longleftrightarrow> windows_ok r \<and>
     (\<forall>key. sorted (S key) \<and> (\<forall>t\<in>set (S key). t \<le> T) \<and>
        (\<exists>c \<le> T - Minute. entries_of r key = evict c (S key)))"

lemma evict_evict: "c \<le> d \<Longrightarrow> evict d (evict c ts) = evict d ts"
  unfolding evict_def by (induction ts) auto

lemma evict_in_minute: "sorted ts \<Longrightarrow> evict (now - Minute) ts = in_minute now ts"
proof (induction ts)
  case (Cons t ts)
  then have "now - Minute \<le> t \<Longrightarrow> filter (\<lambda>t. now - Minute \<le> t) ts = ts" by (force simp: filter_id_conv)
  with Cons show ?case by (auto simp: evict_def in_minute_def)
qed (simp add: evict_def in_minute_def)

lemma evict_snoc: "c \<le> x \<Longrightarrow> evict c ts @ [x] = evict c (ts @ [x])"
  unfolding evict_def by (induction ts) auto

lemma evict_kept: "d \<le> c \<Longrightarrow> evict d (evict c ts) = evict c ts"
  unfolding evict_def by (induction ts) auto

text \<open>A window belongs to one key: writing it changes the entries of that key only.\<close>

lemma window_below: "windows_fine ws n \<Longrightarrow> map_of ws key = Some a \<Longrightarrow> a < n"
  by (force simp: windows_fine_def dest: map_of_SomeD)

lemma same_window:
  assumes "windows_fine ws n" "map_of ws key = Some a" "map_of ws k = Some a"
  shows "k = key"
proof -
  from assms(2,3) have "(key, a) \<in> set ws" "(k, a) \<in> set ws" by (auto dest: map_of_SomeD)
  moreover have "inj_on snd (set ws)" using assms(1) by (simp add: windows_fine_def distinct_map)
  ultimately show ?thesis by (metis inj_onD prod.inject snd_conv)
qed

lemma entries_write:
  assumes "windows_fine ws (length h)" "map_of ws key = Some a"
  shows "entries_in ws (h[a := w]) k = (if k = key then rw_entries w else entries_in ws h k)"
proof (cases "map_of ws k")
  case (Some b)
  then have "b = a \<Longrightarrow> k = key" using same_window[OF assms, of k] by simp
  then show ?thesis using assms Some window_below[OF assms] by (cases "b = a") (auto simp: entries_in_def)
qed (use assms in \<open>auto simp: entries_in_def\<close>)

lemma entries_stray: "a \<notin> snd ` set ws \<Longrightarrow> entries_in ws (h[a := w]) k = entries_in ws h k"
proof (cases "map_of ws k")
  case (Some b)
  moreover assume "a \<notin> snd ` set ws"
  ultimately have "b \<noteq> a" by (force dest: map_of_SomeD)
  with Some show ?thesis by (simp add: entries_in_def)
qed (simp add: entries_in_def)

lemma entries_fresh:
  assumes "windows_fine ws (length h)" "map_of ws key = None"
  shows "entries_in ((key, length h) # ws) (h @ [\<lparr>rw_entries = [], rw_lastSeenAt = z\<rparr>]) k = entries_in ws h k"
    and "windows_fine ((key, length h) # ws) (Suc (length h))"
proof -
  show "entries_in ((key, length h) # ws) (h @ [\<lparr>rw_entries = [], rw_lastSeenAt = z\<rparr>]) k = entries_in ws h k"
    using assms(2) window_below[OF assms(1), of k]
    by (cases "k = key"; cases "map_of ws k") (simp_all add: entries_in_def nth_append)
  show "windows_fine ((key, length h) # ws) (Suc (length h))"
    using assms by (auto simp: windows_fine_def map_of_eq_None_iff less_Suc_eq)
qed

lemma map_of_removed: "map_of (filter (\<lambda>(k, a). k \<noteq> key) ws) k = (if k = key then None else map_of ws k)"
  by (induction ws) auto

text \<open>The parts keep the simulation, and the decision is that of the log.\<close>

lemma sim_load:
  assumes sim: "rate_sim T r S" and load: "LoadOrStore key r = (a, r')"
  shows "rate_sim T r' S" "map_of (rl_windows r') key = Some a"
    "rl_maxMessagesPerMinute r' = rl_maxMessagesPerMinute r"
proof -
  show "rate_sim T r' S"
  proof (cases "map_of (rl_windows r) key")
    case None
    with sim load show ?thesis
      by (auto simp: LoadOrStore_def rate_sim_def windows_ok_def entries_of_def entries_fresh)
  qed (use sim load in \<open>auto simp: LoadOrStore_def\<close>)
qed (use load in \<open>auto simp: LoadOrStore_def split: option.splits\<close>)

lemma sim_count: "rate_sim T r S \<Longrightarrow> rate_sim T (snd (count_section r)) S"
  by (simp add: rate_sim_def windows_ok_def entries_of_def count_section_def Let_def)

lemma sim_delete:
  assumes "rate_sim T r S" "entries_of r key = []"
  shows "rate_sim T (Delete_window key r) S"
proof -
  have "entries_of (Delete_window key r) k = entries_of r k" for k
    using assms(2) by (auto simp: entries_of_def entries_in_def Delete_window_def map_of_removed)
  then show ?thesis
    using assms(1)
    by (auto simp: rate_sim_def windows_ok_def windows_fine_def Delete_window_def distinct_map inj_on_def)
qed

lemma sim_inspect:
  assumes sim: "rate_sim T r S" and "now \<le> T"
  shows "rate_sim T (snd (inspect_section now a r)) S"
proof (cases "a \<in> snd ` set (rl_windows r)")
  case False
  with sim show ?thesis
    by (simp add: rate_sim_def windows_ok_def entries_of_def inspect_section_def Let_def entries_stray)
next
  case True
  with sim obtain key where key: "map_of (rl_windows r) key = Some a"
    by (force simp: rate_sim_def windows_ok_def windows_fine_def)
  have fine: "windows_fine (rl_windows r) (length (rl_heap r))" using sim by (simp add: rate_sim_def windows_ok_def)
  obtain c where c: "c \<le> T - Minute" "rw_entries (rl_heap r ! a) = evict c (S key)"
    using sim key unfolding rate_sim_def entries_of_def entries_in_def by (metis option.simps(5))
  have "evict (now - Minute) (evict c (S key)) = evict (max c (now - Minute)) (S key)"
    by (cases "c \<le> now - Minute") (simp_all add: evict_evict evict_kept)
  moreover have "max c (now - Minute) \<le> T - Minute" using c(1) \<open>now \<le> T\<close> by simp
  ultimately have "\<exists>d \<le> T - Minute. evict (now - Minute) (rw_entries (rl_heap r ! a)) = evict d (S key)"
    unfolding c(2) by metis
  with sim show ?thesis
    by (simp add: rate_sim_def windows_ok_def entries_of_def inspect_section_def Let_def entries_write[OF fine key])
qed

lemma sim_admit:
  assumes sim: "rate_sim T r S" and "T \<le> now" and key: "map_of (rl_windows r) key = Some a"
  shows "fst (admit_section now a r) = fst (sliding_admit (rl_maxMessagesPerMinute r) now key S)"
    and "rate_sim now (snd (admit_section now a r)) (snd (sliding_admit (rl_maxMessagesPerMinute r) now key S))"
proof -
  from sim have fine: "windows_fine (rl_windows r) (length (rl_heap r))" and srt: "sorted (S k)" and le: "\<forall>t\<in>set (S k). t \<le> now" for k
    using \<open>T \<le> now\<close> by (force simp: rate_sim_def windows_ok_def)+
  have ev: "\<exists>c \<le> now - Minute. entries_of r k = evict c (S k)" for k
    using sim \<open>T \<le> now\<close> unfolding rate_sim_def by (meson diff_right_mono order_trans)
  have ent: "rw_entries (rl_heap r ! a) = entries_of r key" using key by (simp add: entries_of_def entries_in_def)
  have old: "evict (now - Minute) (entries_of r key) = in_minute now (S key)"
    using ev[of key] by (auto simp: evict_evict simp flip: evict_in_minute[OF srt])
  show dec: "fst (admit_section now a r) = fst (sliding_admit (rl_maxMessagesPerMinute r) now key S)"
    unfolding admit_section_def sliding_admit_def Let_def ent old by simp
  have log: "in_minute now (S key) = evict (now - Minute) (S key)"
    "in_minute now (S key) @ [now] = evict (now - Minute) (S key @ [now])"
    using evict_snoc[of "now - Minute" now "S key"] by (simp_all only: evict_in_minute[OF srt])
  let ?S = "snd (sliding_admit (rl_maxMessagesPerMinute r) now key S)" and ?r = "snd (admit_section now a r)"
  have "sorted (?S k) \<and> (\<forall>t\<in>set (?S k). t \<le> now)" for k
    using srt le by (auto simp: sliding_admit_def sorted_append)
  moreover have "entries_of ?r k = (if k = key then evict (now - Minute) (?S key) else entries_of r k)" for k
    unfolding admit_section_def sliding_admit_def Let_def ent old using log
    by (simp add: entries_of_def entries_write[OF fine key])
  moreover have "?S k = S k" if "k \<noteq> key" for k using that by (simp add: sliding_admit_def)
  moreover have "windows_ok ?r" using fine by (simp add: windows_ok_def admit_section_def Let_def)
  ultimately show "rate_sim now ?r ?S" using ev by (auto simp: rate_sim_def)
qed

subsection \<open>Calls that interleave\<close>

text \<open>
  What calls must not do to each other: remove a window between the moment a call loaded it and the
  moment it locks it, or admit a message to a window that a clean-up found empty and is about to
  remove.
\<close>

fun undisturbed :: "nat \<Rightarrow> rate_action \<Rightarrow> rate_state \<Rightarrow> bool" where
  "undisturbed g act (r, pcs) =
     (case (act, pcs g) of
        (Lock, Clocked key a now) \<Rightarrow> map_of (rl_windows r) key = Some a
      | (Remove, Removing now start seen key) \<Rightarrow> entries_of r key = []
      | _ \<Rightarrow> True)"

fun run_undisturbed :: "(nat \<times> rate_action) list \<Rightarrow> rate_state \<Rightarrow> bool" where
  "run_undisturbed [] s = True"
| "run_undisturbed ((g, act) # es) s =
     (undisturbed g act s \<and> (case rate_step g act s of None \<Rightarrow> True | Some (s', ds) \<Rightarrow> run_undisturbed es s'))"

fun clock_of :: "rate_pc \<Rightarrow> int option" where
  "clock_of (Admitted now) = Some now"
| "clock_of (Ranging now start seen) = Some now"
| "clock_of (Visiting now start seen key a) = Some now"
| "clock_of (Removing now start seen key) = Some now"
| "clock_of _ = None"

definition rate_inv :: "int \<Rightarrow> rate_state \<Rightarrow> sliding \<Rightarrow> bool" where
  "rate_inv T s S \<longleftrightarrow> rate_sim T (fst s) S \<and> (\<forall>g now. clock_of (snd s g) = Some now \<longrightarrow> now \<le> T)"

text \<open>A step without a decision keeps the log, a decision is that of the log.\<close>

lemma rate_step_inv:
  assumes inv: "rate_inv T (r, pcs) S" and calm: "undisturbed g act (r, pcs)"
    and run: "rate_step g act (r, pcs) = Some (s', ds)"
  shows "(ds = [] \<and> rate_inv T s' S \<or>
     (\<exists>now key ok. ds = [((now, key), ok)] \<and>
        (T \<le> now \<longrightarrow> ok = fst (sliding_admit (rl_maxMessagesPerMinute r) now key S) \<and>
           rate_inv now s' (snd (sliding_admit (rl_maxMessagesPerMinute r) now key S))))) \<and>
     rl_maxMessagesPerMinute (fst s') = rl_maxMessagesPerMinute r"
proof -
  have sim: "rate_sim T r S" and low: "\<And>h now. clock_of (pcs h) = Some now \<Longrightarrow> now \<le> T"
    using inv by (auto simp: rate_inv_def)
  show ?thesis
  proof (cases act)
    case (Enter key)
    with run obtain a r' where "LoadOrStore key r = (a, r')" "s' = (r', pcs(g := Loaded key a))" "ds = []"
      by (auto split: rate_pc.splits prod.splits)
    with sim_load[OF sim] low show ?thesis by (auto simp: rate_inv_def)
  next
    case (Clock now)
    with run inv show ?thesis by (auto simp: rate_inv_def split: rate_pc.splits if_splits)
  next
    case Lock
    with run calm obtain key a now ok r' where pc: "pcs g = Clocked key a now" "map_of (rl_windows r) key = Some a"
      and sec: "admit_section now a r = (ok, r')"
      and s': "s' = (r', pcs(g := (if ok then Admitted now else Outside)))" "ds = [((now, key), ok)]"
      by (auto split: rate_pc.splits prod.splits)
    have "rl_maxMessagesPerMinute r' = rl_maxMessagesPerMinute r"
      using sec by (auto simp: admit_section_def Let_def split: if_splits)
    moreover have "rate_inv now s' (snd (sliding_admit (rl_maxMessagesPerMinute r) now key S))" if "T \<le> now"
      using sim_admit(2)[OF sim that pc(2)] sec low that s'(1)
      by (auto simp: rate_inv_def split: if_splits) (meson order_trans)+
    moreover have "ok = fst (sliding_admit (rl_maxMessagesPerMinute r) now key S)" if "T \<le> now"
      using sim_admit(1)[OF sim that pc(2)] by (simp add: sec)
    ultimately show ?thesis using s' by auto
  next
    case Count
    with run obtain now where "pcs g = Admitted now" by (auto split: rate_pc.splits)
    with Count run sim_count[OF sim] low[of g now] low show ?thesis
      by (auto simp: rate_inv_def count_section_def Let_def split: if_splits)
  next
    case (Visit key)
    with run obtain now start seen a where pc: "pcs g = Ranging now start seen"
      and s': "s' = (r, pcs(g := Visiting now start (key # seen) key a))" "ds = []"
      by (auto split: rate_pc.splits if_splits option.splits)
    with inv low[of g now] show ?thesis by (auto simp: rate_inv_def)
  next
    case Inspect
    with run obtain now start seen key a remove r' where pc: "pcs g = Visiting now start seen key a"
      and sec: "inspect_section now a r = (remove, r')"
      and s': "s' = (r', pcs(g := (if remove then Removing now start seen key else Ranging now start seen)))" "ds = []"
      by (auto split: rate_pc.splits prod.splits)
    have "rl_maxMessagesPerMinute r' = rl_maxMessagesPerMinute r"
      using sec by (auto simp: inspect_section_def Let_def)
    moreover have "now \<le> T" using low[of g now] pc by simp
    moreover note sim_inspect[OF sim \<open>now \<le> T\<close>, of a]
    ultimately show ?thesis using sec s' low
      by (auto simp: rate_inv_def split: if_splits)
  next
    case Remove
    with run calm obtain now start seen key where pc: "pcs g = Removing now start seen key" and "entries_of r key = []"
      "s' = (Delete_window key r, pcs(g := Ranging now start seen))" "ds = []"
      by (auto split: rate_pc.splits)
    with sim_delete[OF sim, of key] low[of g now] low show ?thesis
      by (auto simp: rate_inv_def Delete_window_def)
  next
    case Leave
    with run inv show ?thesis by (auto simp: rate_inv_def split: rate_pc.splits if_splits)
  qed
qed

lemma rate_run_sliding:
  "rate_inv T s S \<Longrightarrow> run_undisturbed es s \<Longrightarrow> rate_run es s = Some (t, ds) \<Longrightarrow>
   sorted (T # map (fst \<circ> fst) ds) \<Longrightarrow>
   map snd ds = fst (sliding_run (rl_maxMessagesPerMinute (fst s)) (map fst ds) S)"
proof (induction es s arbitrary: T S ds rule: rate_run.induct)
  case (2 g act es s)
  obtain r pcs where s: "s = (r, pcs)" by force
  from 2(4) obtain s' d rest where step: "rate_step g act s = Some (s', d)" and rest: "rate_run es s' = Some (t, rest)"
    and ds: "ds = d @ rest" by (auto split: option.splits)
  note one = rate_step_inv[OF 2(2)[unfolded s] _ step[unfolded s]]
  have calm: "undisturbed g act (r, pcs)" "run_undisturbed es s'" using 2(3) step s by auto
  note IH = 2(1)[OF step refl _ calm(2) rest]
  from one[OF calm(1)] show ?case
  proof (elim conjE disjE exE)
    assume "d = []" "rate_inv T s' S" "rl_maxMessagesPerMinute (fst s') = rl_maxMessagesPerMinute r"
    with IH[of T S] 2(5) show ?thesis by (simp add: ds s)
  next
    fix now key ok
    let ?admit = "sliding_admit (rl_maxMessagesPerMinute r) now key S"
    assume d: "d = [((now, key), ok)]" and keep: "rl_maxMessagesPerMinute (fst s') = rl_maxMessagesPerMinute r"
      and dec: "T \<le> now \<longrightarrow> ok = fst ?admit \<and> rate_inv now s' (snd ?admit)"
    have "T \<le> now" "sorted (now # map (fst \<circ> fst) rest)" using 2(5) by (simp_all add: ds d comp_def)
    with dec IH[of now "snd ?admit"] show ?thesis by (simp add: ds d s keep split_beta Let_def comp_def)
  qed
qed simp

text \<open>C21: The rate limiter is the sliding log. However calls interleave at the operations of the map and
  the locks of the windows, the limiter admits exactly the messages that a log of all admissions which
  is never trimmed would admit, provided that the locks are taken in the order of the clock readings,
  that no clean-up removes a window between its loading and its locking by another call, and that
  none removes a window to which a message was admitted since it was inspected; a maximum that is
  not positive admits without limit. Without the second condition it admits more
  (\<open>removal_loses_admission\<close>).\<close>

theorem rate_limiter_refines_sliding_log:
  assumes "rate_run es (rate_start (NewRateLimitMiddleware maxMsgs idleTtl cleanupEvery)) = Some (s, ds)"
    and "sorted (map (fst \<circ> fst) ds)"
    and "run_undisturbed es (rate_start (NewRateLimitMiddleware maxMsgs idleTtl cleanupEvery))"
  shows "map snd ds = fst (sliding_run (if maxMsgs \<le> 0 then max_i64 else maxMsgs) (map fst ds) (\<lambda>_. []))"
proof (cases ds)
  case (Cons d rest)
  let ?r = "NewRateLimitMiddleware maxMsgs idleTtl cleanupEvery"
  have "rate_inv (fst (fst d)) (rate_start ?r) (\<lambda>_. [])"
    by (auto simp: rate_inv_def rate_sim_def rate_start_def NewRateLimitMiddleware_def windows_ok_def windows_fine_def
        entries_of_def entries_in_def evict_def intro: order_refl)
  from rate_run_sliding[OF this assms(3,1)] assms(2) show ?thesis
    by (simp add: Cons rate_start_def NewRateLimitMiddleware_def)
qed simp

text \<open>Two senders at the same time, then the first again in the same minute and after it.\<close>

definition example_calls :: "(nat \<times> rate_action) list" where
  "example_calls =
     [(1, Enter ''a:b''), (2, Enter ''a:c''), (2, Clock 0), (1, Clock 1), (2, Lock), (1, Lock), (2, Count), (1, Count),
      (3, Enter ''a:b''), (1, Visit ''a:b''), (3, Clock 5), (1, Inspect), (3, Lock), (1, Visit ''a:c''), (1, Inspect), (1, Leave),
      (4, Enter ''a:b''), (4, Clock (70 * Second)), (4, Lock), (4, Count)]"

lemma example_calls_run:
  "map_option snd (rate_run example_calls (rate_start (NewRateLimitMiddleware 1 None 2))) =
     Some [((0, ''a:c''), True), ((1, ''a:b''), True), ((5, ''a:b''), False), ((70 * Second, ''a:b''), True)] \<and>
   run_undisturbed example_calls (rate_start (NewRateLimitMiddleware 1 None 2))"
  by code_simp

lemma rate_limiter_refines_sliding_log_witness:
  "fst (sliding_run 1 [(0, ''a:c''), (1, ''a:b''), (5, ''a:b''), (70 * Second, ''a:b'')] (\<lambda>_. [])) = [True, True, False, True]"
proof -
  let ?r = "NewRateLimitMiddleware 1 None 2"
  obtain s where run: "rate_run example_calls (rate_start ?r) =
      Some (s, [((0, ''a:c''), True), ((1, ''a:b''), True), ((5, ''a:b''), False), ((70 * Second, ''a:b''), True)])"
    using example_calls_run by auto
  from rate_limiter_refines_sliding_log[OF run] example_calls_run show ?thesis by simp
qed

text \<open>
  The race that the conditions exclude: a clean-up meets the new window of a call that has not locked
  it yet, finds it empty and never used, and removes it; the admission to it is lost, and the sender
  gets two messages through where one a minute is allowed.
\<close>

lemma removal_loses_admission:
  "\<exists>es s. rate_run es (rate_start (NewRateLimitMiddleware 1 None 1)) =
       Some (s, [((0, ''a:c''), True), ((1, ''a:b''), True), ((2, ''a:b''), True)]) \<and>
     fst (sliding_run 1 [(0, ''a:c''), (1, ''a:b''), (2, ''a:b'')] (\<lambda>_. [])) = [True, True, False]"
proof -
  let ?es = "[(1, Enter ''a:b''), (2, Enter ''a:c''), (2, Clock 0), (2, Lock), (2, Count), (2, Visit ''a:b''), (2, Inspect),
      (2, Remove), (1, Clock 1), (1, Lock), (3, Enter ''a:b''), (3, Clock 2), (3, Lock)]"
  have "map_option snd (rate_run ?es (rate_start (NewRateLimitMiddleware 1 None 1))) =
      Some [((0, ''a:c''), True), ((1, ''a:b''), True), ((2, ''a:b''), True)]" by code_simp
  then obtain s where "rate_run ?es (rate_start (NewRateLimitMiddleware 1 None 1)) =
      Some (s, [((0, ''a:c''), True), ((1, ''a:b''), True), ((2, ''a:b''), True)])" by auto
  moreover have "fst (sliding_run 1 [(0, ''a:c''), (1, ''a:b''), (2, ''a:b'')] (\<lambda>_. [])) = [True, True, False]"
    by code_simp
  ultimately show ?thesis by metis
qed

subsection \<open>Calls one after another\<close>

lemma entries_removed: "rw_entries (rl_heap r ! a) = [] \<Longrightarrow> map_of (rl_windows r) key = Some a \<Longrightarrow> entries_of r key = []"
  by (simp add: entries_of_def entries_in_def)

lemma sim_cleanup:
  "rate_sim T r S \<Longrightarrow> now \<le> T \<Longrightarrow> rate_sim T (cleanupStaleWindows now keys r) S \<and>
     rl_maxMessagesPerMinute (cleanupStaleWindows now keys r) = rl_maxMessagesPerMinute r"
proof (induction keys arbitrary: r)
  case (Cons key keys)
  show ?case
  proof (cases "map_of (rl_windows r) key")
    case None
    with Cons show ?thesis by simp
  next
    case (Some a)
    obtain remove r' where sec: "inspect_section now a r = (remove, r')" by force
    have sim: "rate_sim T r' S" using sim_inspect[OF Cons.prems, of a] by (simp add: sec)
    have keep: "rl_maxMessagesPerMinute r' = rl_maxMessagesPerMinute r" and ws: "rl_windows r' = rl_windows r"
      and heap: "rl_heap r' = (rl_heap r)[a := (rl_heap r ! a)\<lparr>rw_entries := evict (now - Minute) (rw_entries (rl_heap r ! a))\<rparr>]"
      and empty: "remove \<longrightarrow> evict (now - Minute) (rw_entries (rl_heap r ! a)) = []"
      using sec by (auto simp: inspect_section_def Let_def)
    have "a < length (rl_heap r)" using Cons.prems(1) Some window_below by (auto simp: rate_sim_def windows_ok_def)
    then have "remove \<Longrightarrow> entries_of r' key = []" using Some empty by (intro entries_removed[of _ a]) (auto simp: heap ws)
    with sim have "rate_sim T (if remove then Delete_window key r' else r') S" by (simp add: sim_delete)
    from Cons.IH[OF this Cons.prems(2)] show ?thesis
      using keep by (cases remove) (simp_all add: Some sec Delete_window_def)
  qed
qed simp

lemma rate_admit_log:
  assumes "rate_sim T r S" "T \<le> now" "rate_admit order now key r = (ok, r')"
  shows "ok = fst (sliding_admit (rl_maxMessagesPerMinute r) now key S) \<and>
     rate_sim now r' (snd (sliding_admit (rl_maxMessagesPerMinute r) now key S)) \<and>
     rl_maxMessagesPerMinute r' = rl_maxMessagesPerMinute r"
proof -
  obtain a r1 where load: "LoadOrStore key r = (a, r1)" by force
  obtain b r2 where sec: "admit_section now a r1 = (b, r2)" by force
  note one = sim_load[OF assms(1) load]
  note two = sim_admit[OF one(1) assms(2) one(2), unfolded sec one(3) fst_conv snd_conv]
  have keep: "rl_maxMessagesPerMinute r2 = rl_maxMessagesPerMinute r"
    using sec one(3) by (auto simp: admit_section_def Let_def split: if_splits)
  show ?thesis
  proof (cases b)
    case False
    with assms(3) two keep show ?thesis by (simp add: rate_admit_def load sec)
  next
    case True
    obtain due r3 where cnt: "count_section r2 = (due, r3)" by force
    have "rate_sim now r3 (snd (sliding_admit (rl_maxMessagesPerMinute r) now key S))"
      using sim_count[OF two(2)] by (simp add: cnt)
    note clean = sim_cleanup[OF this order_refl, of order]
    have "rl_maxMessagesPerMinute r3 = rl_maxMessagesPerMinute r" using cnt keep by (auto simp: count_section_def Let_def)
    with assms(3) True two clean show ?thesis
      using sim_count[OF two(2)] by (cases due) (auto simp: rate_admit_def load sec cnt)
  qed
qed

text \<open>Calls that do not overlap, each with the order of its clean-up.\<close>

fun rate_calls :: "(string list \<times> int \<times> string) list \<Rightarrow> RateLimitMiddleware \<Rightarrow> bool list" where
  "rate_calls [] r = []"
| "rate_calls ((order, now, key) # msgs) r =
     (let (ok, r') = rate_admit order now key r in ok # rate_calls msgs r')"

lemma rate_calls_sliding:
  "rate_sim T r S \<Longrightarrow> sorted (T # map (fst \<circ> snd) msgs) \<Longrightarrow>
   rate_calls msgs r = fst (sliding_run (rl_maxMessagesPerMinute r) (map snd msgs) S)"
proof (induction msgs arbitrary: T r S)
  case (Cons msg msgs)
  obtain order now key where msg: "msg = (order, now, key)" by (cases msg) auto
  obtain ok r' where call: "rate_admit order now key r = (ok, r')" by force
  from Cons.prems have "T \<le> now" and srt: "sorted (now # map (fst \<circ> snd) msgs)" by (auto simp: msg comp_def)
  note one = rate_admit_log[OF Cons.prems(1) \<open>T \<le> now\<close> call]
  with Cons.IH[OF _ srt, of r' "snd (sliding_admit (rl_maxMessagesPerMinute r) now key S)"]
  show ?case by (simp add: msg call split_beta Let_def comp_def)
qed simp

text \<open>Calls that do not overlap and read a clock that does not go back are decided by the log.\<close>

theorem separate_calls_refine_sliding_log:
  assumes "sorted (map (fst \<circ> snd) msgs)"
  shows "rate_calls msgs (NewRateLimitMiddleware maxMsgs idleTtl cleanupEvery) =
    fst (sliding_run (if maxMsgs \<le> 0 then max_i64 else maxMsgs) (map snd msgs) (\<lambda>_. []))"
proof (cases msgs)
  case (Cons msg rest)
  let ?r = "NewRateLimitMiddleware maxMsgs idleTtl cleanupEvery"
  have "rate_sim (fst (snd msg)) ?r (\<lambda>_. [])"
    by (auto simp: rate_sim_def NewRateLimitMiddleware_def windows_ok_def windows_fine_def
        entries_of_def entries_in_def evict_def intro: order_refl)
  from rate_calls_sliding[OF this, of msgs] assms Cons show ?thesis by (simp add: NewRateLimitMiddleware_def)
qed simp

end
