(* ===== verification/Go_Fs.thy ===== *)
theory Go_Fs
  imports Go_Prelude
begin

section \<open>Files and directories\<close>

text \<open>
  The calls of the package \<open>os\<close> that the components make, on a tree of files. A path is the list of
  its parts, a file system maps paths to nodes. Every call takes the failure the system may
  report on its own account (no permission, no space) as an optional error.
\<close>

type_synonym path = "string list"

datatype fs_node = Dir | File string

type_synonym fs = "path \<Rightarrow> fs_node option"

definition is_file :: "fs \<Rightarrow> path \<Rightarrow> bool" where
  "is_file fs p = (case fs p of Some (File _) \<Rightarrow> True | _ \<Rightarrow> False)"

lemma is_file_upd [simp]: "is_file (fs(p \<mapsto> n)) q = (if q = p then (\<exists>d. n = File d) else is_file fs q)"
  by (auto simp: is_file_def split: fs_node.splits)

text \<open>Some proper part of the path is a regular file: every call reports \<open>ENOTDIR\<close>.\<close>

definition not_dir :: "fs \<Rightarrow> path \<Rightarrow> bool" where
  "not_dir fs p = list_ex (\<lambda>k. is_file fs (take k p)) [0..<length p]"

text \<open>\<open>util.FileExists\<close>: an error of \<open>Stat\<close> other than \<open>ErrNotExist\<close> leaves \<open>info\<close> nil, whose use panics.\<close>

definition FileExists :: "fs \<Rightarrow> path \<Rightarrow> bool go_result" where
  "FileExists fs p =
     (if not_dir fs p then Inl (GoPanic ''invalid memory address or nil pointer dereference'')
      else (case fs p of None \<Rightarrow> Inr False | Some Dir \<Rightarrow> Inr False | Some (File _) \<Rightarrow> Inr True))"

definition ReadFile :: "string option \<Rightarrow> fs \<Rightarrow> path \<Rightarrow> string go_result" where
  "ReadFile fault fs p =
     (case fault of
        Some e \<Rightarrow> Inl (GoErr e)
      | None \<Rightarrow> (case fs p of
                  Some (File data) \<Rightarrow> Inr data
                | Some Dir \<Rightarrow> Inl (GoErr ''is a directory'')
                | None \<Rightarrow> Inl (GoErr ''no such file or directory'')))"

definition MkdirAll :: "string option \<Rightarrow> fs \<Rightarrow> path \<Rightarrow> fs go_result" where
  "MkdirAll fault fs p =
     (if not_dir fs p \<or> is_file fs p then Inl (GoErr ''not a directory'')
      else (case fault of
              Some e \<Rightarrow> Inl (GoErr e)
            | None \<Rightarrow> Inr (\<lambda>q. if prefix q p then Some Dir else fs q)))"

definition WriteFile :: "string option \<Rightarrow> fs \<Rightarrow> path \<Rightarrow> string \<Rightarrow> fs go_result" where
  "WriteFile fault fs p data =
     (if fs p = Some Dir then Inl (GoErr ''is a directory'')
      else if fs (butlast p) \<noteq> Some Dir then Inl (GoErr ''no such file or directory'')
      else (case fault of Some e \<Rightarrow> Inl (GoErr e) | None \<Rightarrow> Inr (fs(p \<mapsto> File data))))"

definition Remove_file :: "fs \<Rightarrow> path \<Rightarrow> fs" where
  "Remove_file fs p = (if is_file fs p then fs(p := None) else fs)"

text \<open>\<open>os.Rename\<close> moves a file or a tree; unlike \<open>rename(2)\<close> it refuses a directory as its target.\<close>

definition Rename :: "string option \<Rightarrow> fs \<Rightarrow> path \<Rightarrow> path \<Rightarrow> fs go_result" where
  "Rename fault fs src dst =
     (if fs src = None then Inl (GoErr ''no such file or directory'')
      else if fs dst = Some Dir then Inl (GoErr ''file exists'')
      else if fs (butlast dst) \<noteq> Some Dir then Inl (GoErr ''no such file or directory'')
      else if fs src = Some Dir \<and> fs dst \<noteq> None then Inl (GoErr ''not a directory'')
      else if fs src = Some Dir \<and> prefix src dst then Inl (GoErr ''invalid argument'')
      else (case fault of
              Some e \<Rightarrow> Inl (GoErr e)
            | None \<Rightarrow> Inr (\<lambda>q. if prefix dst q then fs (src @ drop (length dst) q)
                             else if prefix src q then None else fs q)))"

lemma not_dir_iff: "not_dir fs p \<longleftrightarrow> (\<exists>k < length p. is_file fs (take k p))"
  by (auto simp: not_dir_def list_ex_iff)

lemma MkdirAll_dir: "MkdirAll fault fs p = Inr fs' \<Longrightarrow> fs' p = Some Dir"
  by (auto simp: MkdirAll_def split: if_splits option.splits)

lemma MkdirAll_file: "MkdirAll fault fs p = Inr fs' \<Longrightarrow> \<not> prefix q p \<Longrightarrow> fs' q = fs q"
  by (auto simp: MkdirAll_def split: if_splits option.splits)

lemma WriteFile_on_dir: "fs p = Some Dir \<Longrightarrow> WriteFile fault fs p data = Inl (GoErr ''is a directory'')"
  by (simp add: WriteFile_def)

lemma WriteFile_Inr:
  "WriteFile fault fs p data = Inr fs' \<longleftrightarrow>
     fault = None \<and> fs p \<noteq> Some Dir \<and> fs (butlast p) = Some Dir \<and> fs' = fs(p \<mapsto> File data)"
  by (auto simp: WriteFile_def split: if_splits option.splits)

text \<open>What a rename of a regular file does to the names that are not directories.\<close>

lemma Rename_file_Inr:
  assumes "Rename fault fs src dst = Inr fs'" and "fs src = Some (File data)"
  shows "fs' dst = Some (File data)" and "q \<noteq> src \<Longrightarrow> \<not> prefix dst q \<Longrightarrow> \<not> prefix src q \<Longrightarrow> fs' q = fs q"
  using assms by (auto simp: Rename_def split: if_splits option.splits)

subsection \<open>Well-formed file systems\<close>

text \<open>Every node lies in a directory.\<close>

definition fs_wf :: "fs \<Rightarrow> bool" where
  "fs_wf fs \<longleftrightarrow> (\<forall>p. p \<noteq> [] \<longrightarrow> fs p \<noteq> None \<longrightarrow> fs (butlast p) = Some Dir)"

lemma fs_wf_below:
  assumes "fs_wf fs" "fs p \<noteq> Some Dir" "strict_prefix p q"
  shows "fs q = None"
proof -
  from assms(3) obtain s where "q = p @ s" "s \<noteq> []" by (auto simp: strict_prefix_def prefix_def)
  moreover have "s \<noteq> [] \<Longrightarrow> fs (p @ s) = None" for s
  proof (induction s rule: rev_induct)
    case (snoc x s)
    then have "fs (p @ s) \<noteq> Some Dir" using assms(2) by (cases s) auto
    then show ?case using assms(1) by (auto simp: fs_wf_def butlast_append dest!: spec[of _ "p @ s @ [x]"])
  qed simp
  ultimately show ?thesis by simp
qed

lemma fs_wf_upd: "fs_wf fs \<Longrightarrow> fs (butlast p) = Some Dir \<Longrightarrow> fs p \<noteq> Some Dir \<Longrightarrow> p \<noteq> [] \<Longrightarrow> fs_wf (fs(p := n))"
proof -
  assume a: "fs_wf fs" "fs (butlast p) = Some Dir" "fs p \<noteq> Some Dir" "p \<noteq> []"
  then have "fs q = None" if "q \<noteq> []" "butlast q = p" for q
    using that by (intro fs_wf_below[OF a(1,3)]) (metis append_butlast_last_id strict_prefixI')
  with a show ?thesis unfolding fs_wf_def by (auto simp: fun_upd_def)
qed

text \<open>Moving a regular file in a well-formed file system changes two names and nothing else.\<close>

lemma Rename_file:
  assumes "fs_wf fs" "fs src = Some (File data)" "src \<noteq> dst" "Rename fault fs src dst = Inr fs'"
  shows "fs' = (fs(src := None))(dst \<mapsto> File data)"
proof (rule ext)
  fix q
  have src: "zs \<noteq> [] \<Longrightarrow> fs (src @ zs) = None" for zs
    using fs_wf_below[OF assms(1), of src "src @ zs"] assms(2) by (simp add: strict_prefix_def)
  from assms(4) have "fs dst \<noteq> Some Dir" by (auto simp: Rename_def split: if_splits)
  then have dst: "zs \<noteq> [] \<Longrightarrow> fs (dst @ zs) = None" for zs
    using fs_wf_below[OF assms(1), of dst "dst @ zs"] by (simp add: strict_prefix_def)
  from assms(2,4) have fs': "fs' q = (if prefix dst q then fs (src @ drop (length dst) q) else if prefix src q then None else fs q)"
    by (auto simp: Rename_def split: if_splits option.splits)
  show "fs' q = ((fs(src := None))(dst \<mapsto> File data)) q"
  proof (cases "prefix dst q")
    case True
    then obtain zs where "q = dst @ zs" by (auto simp: prefix_def)
    with fs' src[of zs] dst[of zs] assms(2) show ?thesis by (cases "zs = []") auto
  next
    case False
    with fs' src assms(3) show ?thesis by (auto simp: prefix_def)
  qed
qed

end
