(* ===== verification/Pairing.thy ===== *)
theory Pairing
  imports Go_Fs
begin

section \<open>Pairing codes\<close>

text \<open>
  \<open>PairingManager\<close> of \<open>src/openclaw/core/security.go\<close>. A sender who is not approved gets a code and is
  approved when the code comes back. Each call is one step on the two maps and on the file
  system; the calls of the source take no common lock, so the theorems below are about calls that
  do not overlap. The approved senders are a list without repetitions, in the order in which the
  map is ranged over.
\<close>

record PendingPairing =
  pp_Code :: string
  pp_ExpiresAt :: int
  pp_FailedAttempts :: int
  pp_LastFailedAt :: "int option"

record PairingManager =
  pm_codeTtl :: int
  pm_failedAttemptCooldown :: int
  pm_maxFailedAttempts :: int
  pm_storageDir :: path
  pm_approvedListPath :: path
  pm_pendingCodes :: "string \<Rightarrow> PendingPairing option"
  pm_approvedSenders :: "string list"

abbreviation Millisecond :: int where
  "Millisecond \<equiv> 1000000"

text \<open>The JSON codec of a list of strings and the failures of the system.\<close>

record pair_env =
  pe_encode :: "string list \<Rightarrow> string"
  pe_decode :: "string \<Rightarrow> string list option"
  pe_readFault :: "string option"
  pe_mkdirFault :: "string option"
  pe_writeFault :: "string option"
  pe_renameFault :: "string option"

definition loadApprovedSenders :: "pair_env \<Rightarrow> fs \<Rightarrow> PairingManager \<Rightarrow> PairingManager go_result" where
  "loadApprovedSenders env fs p =
     bindR (FileExists fs (pm_approvedListPath p)) (\<lambda>exists.
       if \<not> exists then Inr p
       else (case ReadFile (pe_readFault env) fs (pm_approvedListPath p) of
               Inl _ \<Rightarrow> Inr p
             | Inr data \<Rightarrow>
                 (case pe_decode env data of
                    None \<Rightarrow> Inr p
                  | Some saved \<Rightarrow> Inr (p\<lparr>pm_approvedSenders := remdups (pm_approvedSenders p @ saved)\<rparr>))))"

definition NewPairingManager :: "pair_env \<Rightarrow> path \<Rightarrow> fs \<Rightarrow> PairingManager go_result" where
  "NewPairingManager env baseStoragePath fs =
     loadApprovedSenders env fs
       \<lparr>pm_codeTtl = Millisecond * 10, pm_failedAttemptCooldown = Millisecond * 5, pm_maxFailedAttempts = 5,
        pm_storageDir = baseStoragePath @ [''pairing''],
        pm_approvedListPath = baseStoragePath @ [''pairing'', ''approved.json''],
        pm_pendingCodes = (\<lambda>_. None), pm_approvedSenders = []\<rparr>"

text \<open>
  \<open>persistApprovedSenders\<close>: the three calls that may fail, and the deferred function that recovers
  from the panic of the last two.
\<close>

definition tmp_path :: "path \<Rightarrow> path" where
  "tmp_path p = butlast p @ [last p @ ''.tmp'']"

definition persistApprovedSenders :: "pair_env \<Rightarrow> PairingManager \<Rightarrow> fs \<Rightarrow> fs go_result" where
  "persistApprovedSenders env p fs =
     (let tmp = tmp_path (pm_approvedListPath p) in
      case MkdirAll (pe_mkdirFault env) fs tmp of
        Inl _ \<Rightarrow> Inr fs
      | Inr fs1 \<Rightarrow>
          let data = pe_encode env (pm_approvedSenders p);
              recovered = (\<lambda>fs'. bindR (FileExists fs' tmp) (\<lambda>exists. Inr (if exists then Remove_file fs' tmp else fs')))
          in (case WriteFile (pe_writeFault env) fs1 tmp data of
                Inl _ \<Rightarrow> recovered fs1
              | Inr fs2 \<Rightarrow>
                  (case Rename (pe_renameFault env) fs2 tmp (pm_approvedListPath p) of
                     Inl _ \<Rightarrow> recovered fs2
                   | Inr fs3 \<Rightarrow> Inr fs3)))"

definition cleanupExpiredPendingCodes :: "int \<Rightarrow> PairingManager \<Rightarrow> PairingManager" where
  "cleanupExpiredPendingCodes now p =
     p\<lparr>pm_pendingCodes := (\<lambda>key. case pm_pendingCodes p key of
         None \<Rightarrow> None
       | Some t \<Rightarrow> if pp_ExpiresAt t < now then None else Some t)\<rparr>"

definition fixedTimeCodeEquals :: "string \<Rightarrow> string \<Rightarrow> bool" where
  "fixedTimeCodeEquals expected provided = (if IsBlank provided then False else expected = TrimSpace provided)"

definition pair_key :: "string \<Rightarrow> string \<Rightarrow> string" where
  "pair_key channelId senderId = channelId @ '':'' @ senderId"

definition GetApprovedList :: "PairingManager \<Rightarrow> string list" where
  "GetApprovedList p = pm_approvedSenders p"

definition IsApproved :: "string \<Rightarrow> string \<Rightarrow> PairingManager \<Rightarrow> bool" where
  "IsApproved channelId senderId p = (pair_key channelId senderId \<in> set (pm_approvedSenders p))"

type_synonym pair_state = "PairingManager \<times> fs"

text \<open>The change to the approved senders comes first, so it stays when the saving panics.\<close>

definition save_senders :: "pair_env \<Rightarrow> PairingManager \<Rightarrow> fs \<Rightarrow> unit go_result \<times> pair_state" where
  "save_senders env p fs =
     (case persistApprovedSenders env p fs of Inl e \<Rightarrow> (Inl e, p, fs) | Inr fs' \<Rightarrow> (Inr (), p, fs'))"

definition PairingManager_Revoke :: "pair_env \<Rightarrow> string \<Rightarrow> string \<Rightarrow> pair_state \<Rightarrow> unit go_result \<times> pair_state" where
  "PairingManager_Revoke env channelId senderId s =
     (let key = pair_key channelId senderId in
      case s of (p, fs) \<Rightarrow>
        if key \<in> set (pm_approvedSenders p)
        then save_senders env (p\<lparr>pm_approvedSenders := removeAll key (pm_approvedSenders p)\<rparr>) fs
        else (Inr (), p, fs))"

definition approve_key :: "string \<Rightarrow> PairingManager \<Rightarrow> PairingManager" where
  "approve_key key p = p\<lparr>pm_approvedSenders := List.insert key (pm_approvedSenders p)\<rparr>"

definition ApproveAdmin :: "pair_env \<Rightarrow> string \<Rightarrow> string \<Rightarrow> pair_state \<Rightarrow> unit go_result \<times> pair_state" where
  "ApproveAdmin env channelId senderId s =
     (case s of (p, fs) \<Rightarrow> save_senders env (approve_key (pair_key channelId senderId) p) fs)"

text \<open>Whether a call of \<open>TryApprove\<close> gets as far as comparing the code, and why not.\<close>

definition approve_refusal :: "int \<Rightarrow> string \<Rightarrow> PairingManager \<Rightarrow> string option" where
  "approve_refusal now key p =
     (case pm_pendingCodes p key of
        None \<Rightarrow> Some ''No pending pairing request found.''
      | Some pending \<Rightarrow>
          if pp_ExpiresAt pending < now then Some ''Pairing code has expired. Request a new code.''
          else if pp_FailedAttempts pending \<ge> pm_maxFailedAttempts p \<and>
             (case pp_LastFailedAt pending of
                None \<Rightarrow> False
              | Some t \<Rightarrow> time_sub now t < pm_failedAttemptCooldown p)
          then Some ''Too many invalid attempts. Please wait and try again.''
          else None)"

definition TryApprove :: "pair_env \<Rightarrow> int \<Rightarrow> string \<Rightarrow> string \<Rightarrow> string \<Rightarrow> pair_state \<Rightarrow> unit go_result \<times> pair_state" where
  "TryApprove env now channelId senderId providedCode s =
     (let key = pair_key channelId senderId in
      case s of (p, fs) \<Rightarrow>
        (case (approve_refusal now key p, pm_pendingCodes p key) of
           (Some e, Some pending) \<Rightarrow>
             (Inl (GoErr e),
              (if pp_ExpiresAt pending < now then p\<lparr>pm_pendingCodes := (pm_pendingCodes p)(key := None)\<rparr> else p), fs)
         | (Some e, None) \<Rightarrow> (Inl (GoErr e), p, fs)
         | (None, None) \<Rightarrow> (Inl (GoErr ''No pending pairing request found.''), p, fs)
         | (None, Some pending) \<Rightarrow>
             if \<not> fixedTimeCodeEquals (pp_Code pending) providedCode
             then (Inl (GoErr ''TInvalid pairing code.''),
                   p\<lparr>pm_pendingCodes := (pm_pendingCodes p)(key \<mapsto>
                       pending\<lparr>pp_FailedAttempts := pp_FailedAttempts pending + 1, pp_LastFailedAt := Some now\<rparr>)\<rparr>, fs)
             else save_senders env (approve_key key (p\<lparr>pm_pendingCodes := (pm_pendingCodes p)(key := None)\<rparr>)) fs))"

text \<open>\<open>util.GenerateCode\<close> with the bounds of the call: \<open>random\<close> is the number drawn below \<open>900000\<close>.\<close>

definition GenerateCode :: "int \<Rightarrow> int \<Rightarrow> int \<Rightarrow> string" where
  "GenerateCode lo hi random = Itoa (random mod (hi - lo) + lo)"

definition GeneratePairingCode :: "int \<Rightarrow> int \<Rightarrow> string \<Rightarrow> string \<Rightarrow> PairingManager \<Rightarrow> string \<times> PairingManager" where
  "GeneratePairingCode random now channelId senderId p0 =
     (let key = pair_key channelId senderId;
          p = cleanupExpiredPendingCodes now p0;
          code = GenerateCode 100000 1000000 random;
          fresh = (code, p\<lparr>pm_pendingCodes := (pm_pendingCodes p)(key \<mapsto>
                     \<lparr>pp_Code = code, pp_ExpiresAt = now + pm_codeTtl p, pp_FailedAttempts = 0, pp_LastFailedAt = None\<rparr>)\<rparr>)
      in case pm_pendingCodes p key of
           None \<Rightarrow> fresh
         | Some existing \<Rightarrow> if pp_ExpiresAt existing > now then (pp_Code existing, p) else fresh)"

subsection \<open>Runs\<close>

datatype pair_op =
    CallGenerate string string int
  | CallApprove string string string
  | CallAdmin string string
  | CallRevoke string string

fun op_key :: "pair_op \<Rightarrow> string" where
  "op_key (CallGenerate ch snd_id _) = pair_key ch snd_id"
| "op_key (CallApprove ch snd_id _) = pair_key ch snd_id"
| "op_key (CallAdmin ch snd_id) = pair_key ch snd_id"
| "op_key (CallRevoke ch snd_id) = pair_key ch snd_id"

fun pair_step :: "pair_env \<Rightarrow> int \<times> pair_op \<Rightarrow> pair_state \<Rightarrow> pair_state" where
  "pair_step env (now, CallGenerate ch sd random) (p, fs) = (snd (GeneratePairingCode random now ch sd p), fs)"
| "pair_step env (now, CallApprove ch sd guess) s = snd (TryApprove env now ch sd guess s)"
| "pair_step env (now, CallAdmin ch sd) s = snd (ApproveAdmin env ch sd s)"
| "pair_step env (now, CallRevoke ch sd) s = snd (PairingManager_Revoke env ch sd s)"

definition pair_run :: "pair_env \<Rightarrow> (int \<times> pair_op) list \<Rightarrow> pair_state \<Rightarrow> pair_state" where
  "pair_run env ops s = fold (pair_step env) ops s"

text \<open>How many guesses were compared with the code of a key since that code was issued.\<close>

definition issues :: "int \<Rightarrow> string \<Rightarrow> PairingManager \<Rightarrow> bool" where
  "issues now key p = (case pm_pendingCodes p key of None \<Rightarrow> True | Some t \<Rightarrow> pp_ExpiresAt t \<le> now)"

fun count_guess :: "int \<times> pair_op \<Rightarrow> PairingManager \<Rightarrow> (string \<Rightarrow> nat) \<Rightarrow> string \<Rightarrow> nat" where
  "count_guess (now, CallGenerate ch sd _) p tries =
     (if issues now (pair_key ch sd) p then tries(pair_key ch sd := 0) else tries)"
| "count_guess (now, CallApprove ch sd _) p tries =
     (if approve_refusal now (pair_key ch sd) p = None
      then tries(pair_key ch sd := tries (pair_key ch sd) + 1) else tries)"
| "count_guess _ p tries = tries"

fun guesses :: "pair_env \<Rightarrow> (int \<times> pair_op) list \<Rightarrow> pair_state \<Rightarrow> (string \<Rightarrow> nat) \<Rightarrow> string \<Rightarrow> nat" where
  "guesses env [] s tries = tries"
| "guesses env (op1 # ops) s tries = guesses env ops (pair_step env op1 s) (count_guess op1 (fst s) tries)"

subsection \<open>What the steps do\<close>

lemma save_senders_fst [simp]: "fst (snd (save_senders env p fs)) = p"
  by (simp add: save_senders_def split: sum.splits)

lemma pair_step_consts [simp]:
  "pm_codeTtl (fst (pair_step env op1 s)) = pm_codeTtl (fst s)"
  "pm_failedAttemptCooldown (fst (pair_step env op1 s)) = pm_failedAttemptCooldown (fst s)"
  "pm_maxFailedAttempts (fst (pair_step env op1 s)) = pm_maxFailedAttempts (fst s)"
  "pm_approvedListPath (fst (pair_step env op1 s)) = pm_approvedListPath (fst s)"
  by (cases "(env, op1, s)" rule: pair_step.cases;
      auto simp: GeneratePairingCode_def cleanupExpiredPendingCodes_def TryApprove_def ApproveAdmin_def PairingManager_Revoke_def
        approve_key_def Let_def split: option.splits prod.splits)+

text \<open>The pending codes after a step: kept, removed, issued, or with one more failure.\<close>

lemma pending_step:
  assumes "pm_pendingCodes (fst (pair_step env (now, op1) s)) key = Some t"
  obtains (kept) "pm_pendingCodes (fst s) key = Some t"
      "\<And>ch sd g. op1 = CallApprove ch sd g \<Longrightarrow> pair_key ch sd = key \<Longrightarrow> approve_refusal now key (fst s) \<noteq> None"
      "\<And>ch sd r. op1 = CallGenerate ch sd r \<Longrightarrow> pair_key ch sd = key \<Longrightarrow> \<not> issues now key (fst s)"
  | (issued) ch sd r where "op1 = CallGenerate ch sd r" "pair_key ch sd = key" "issues now key (fst s)"
      "t = \<lparr>pp_Code = GenerateCode 100000 1000000 r, pp_ExpiresAt = now + pm_codeTtl (fst s),
            pp_FailedAttempts = 0, pp_LastFailedAt = None\<rparr>"
  | (failed) ch sd g t0 where "op1 = CallApprove ch sd g" "pair_key ch sd = key" "approve_refusal now key (fst s) = None"
      "pm_pendingCodes (fst s) key = Some t0" "\<not> fixedTimeCodeEquals (pp_Code t0) g"
      "t = t0\<lparr>pp_FailedAttempts := pp_FailedAttempts t0 + 1, pp_LastFailedAt := Some now\<rparr>"
proof (cases op1)
  case (CallGenerate ch sd r)
  with assms show ?thesis
    by (cases s; cases "pair_key ch sd = key")
      (auto simp: GeneratePairingCode_def cleanupExpiredPendingCodes_def Let_def issues_def
        split: option.splits if_splits intro: kept issued)
next
  case (CallApprove ch sd g)
  with assms show ?thesis
    by (cases s; cases "pair_key ch sd = key")
      (auto simp: TryApprove_def Let_def approve_key_def split: option.splits if_splits intro: kept failed)
next
  case (CallAdmin ch sd)
  with assms show ?thesis by (cases s) (auto simp: ApproveAdmin_def approve_key_def intro: kept)
next
  case (CallRevoke ch sd)
  with assms show ?thesis by (cases s) (auto simp: PairingManager_Revoke_def Let_def split: if_splits intro: kept)
qed

subsection \<open>Guessing\<close>

text \<open>
  The invariant behind the bound: the failures of a pending code are the guesses compared with it;
  beyond the allowed number each of them lies at least the cooldown after the one before.
\<close>

definition guess_inv :: "int \<Rightarrow> PairingManager \<Rightarrow> (string \<Rightarrow> nat) \<Rightarrow> bool" where
  "guess_inv T p tries \<longleftrightarrow>
     (\<forall>key t. pm_pendingCodes p key = Some t \<longrightarrow>
        pp_FailedAttempts t = int (tries key) \<and> pp_ExpiresAt t - pm_codeTtl p \<le> T \<and>
        (pm_maxFailedAttempts p \<le> int (tries key) \<longrightarrow>
           (\<exists>l. pp_LastFailedAt t = Some l \<and>
              l \<ge> pp_ExpiresAt t - pm_codeTtl p + (int (tries key) - pm_maxFailedAttempts p) * pm_failedAttemptCooldown p))) \<and>
     (\<forall>key. int (tries key) \<le> pm_maxFailedAttempts p + pm_codeTtl p div pm_failedAttemptCooldown p)"

definition pairing_limits :: "PairingManager \<Rightarrow> bool" where
  "pairing_limits p \<longleftrightarrow> pm_maxFailedAttempts p > 0 \<and> pm_codeTtl p \<ge> 0 \<and>
     pm_failedAttemptCooldown p > 0 \<and> in_i64 (pm_failedAttemptCooldown p)"

lemma compared_pending: "approve_refusal now key p = None \<Longrightarrow> \<exists>t. pm_pendingCodes p key = Some t"
  by (auto simp: approve_refusal_def split: option.splits)

lemma compared_guess:
  assumes "guess_inv T p tries" "pairing_limits p" "T \<le> now"
    and "pm_pendingCodes p key = Some t" "approve_refusal now key p = None"
  shows "now \<ge> pp_ExpiresAt t - pm_codeTtl p + (int (tries key) + 1 - pm_maxFailedAttempts p) * pm_failedAttemptCooldown p"
    and "int (tries key) + 1 \<le> pm_maxFailedAttempts p + pm_codeTtl p div pm_failedAttemptCooldown p"
proof -
  let ?n = "int (tries key)" and ?mx = "pm_maxFailedAttempts p" and ?cd = "pm_failedAttemptCooldown p"
    and ?start = "pp_ExpiresAt t - pm_codeTtl p"
  from assms have inv: "pp_FailedAttempts t = ?n" "?start \<le> T"
      "?mx \<le> ?n \<Longrightarrow> \<exists>l. pp_LastFailedAt t = Some l \<and> l \<ge> ?start + (?n - ?mx) * ?cd"
    by (auto simp: guess_inv_def)
  from assms(2) have lim: "0 < ?mx" "0 \<le> pm_codeTtl p" "0 < ?cd" "in_i64 ?cd" by (auto simp: pairing_limits_def)
  from assms(4,5) have exp: "now \<le> pp_ExpiresAt t"
    and cool: "\<And>l. ?mx \<le> pp_FailedAttempts t \<Longrightarrow> pp_LastFailedAt t = Some l \<Longrightarrow> time_sub now l \<ge> ?cd"
    by (auto simp: approve_refusal_def split: if_splits)
  show late: "now \<ge> ?start + (?n + 1 - ?mx) * ?cd"
  proof (cases "?mx \<le> ?n")
    case True
    with inv obtain l where l: "pp_LastFailedAt t = Some l" "l \<ge> ?start + (?n - ?mx) * ?cd" by auto
    with cool inv(1) True have "time_sub now l \<ge> ?cd" by simp
    with lim(3,4) have "now - l \<ge> ?cd" by (simp add: time_sub_def in_i64_def split: if_splits)
    with l(2) show ?thesis by (simp add: algebra_simps)
  next
    case False
    then have "(?n + 1 - ?mx) * ?cd \<le> 0" using lim(3) by (simp add: mult_nonpos_nonneg)
    with inv(2) assms(3) show ?thesis by linarith
  qed
  from late exp have "(?n + 1 - ?mx) * ?cd \<le> pm_codeTtl p" by simp
  then have "?n + 1 - ?mx \<le> pm_codeTtl p div ?cd" using zdiv_mono1[OF _ lim(3)] lim(3) by fastforce
  then show "?n + 1 \<le> ?mx + pm_codeTtl p div ?cd" by linarith
qed

lemma guess_inv_step:
  assumes inv: "guess_inv T (fst s) tries" and lim: "pairing_limits (fst s)" and le: "T \<le> now"
  shows "guess_inv now (fst (pair_step env (now, op1) s)) (count_guess (now, op1) (fst s) tries)"
proof -
  let ?p = "fst s" and ?p' = "fst (pair_step env (now, op1) s)" and ?tries' = "count_guess (now, op1) (fst s) tries"
  have "int (?tries' key) \<le> pm_maxFailedAttempts ?p + pm_codeTtl ?p div pm_failedAttemptCooldown ?p" for key
  proof (cases op1)
    case (CallApprove ch sd g)
    show ?thesis
    proof (cases "key = pair_key ch sd \<and> approve_refusal now key ?p = None")
      case True
      then obtain t where "pm_pendingCodes ?p key = Some t" using compared_pending by blast
      with True CallApprove show ?thesis using compared_guess(2)[OF inv lim le] by force
    next
      case False
      with CallApprove inv show ?thesis by (auto simp: guess_inv_def)
    qed
  next
    case (CallGenerate ch sd r)
    then show ?thesis using inv lim by (auto simp: guess_inv_def pairing_limits_def pos_imp_zdiv_nonneg_iff)
  qed (use inv in \<open>auto simp: guess_inv_def\<close>)
  moreover have "pp_FailedAttempts t = int (?tries' key) \<and> pp_ExpiresAt t - pm_codeTtl ?p \<le> now \<and>
        (pm_maxFailedAttempts ?p \<le> int (?tries' key) \<longrightarrow>
           (\<exists>l. pp_LastFailedAt t = Some l \<and>
              l \<ge> pp_ExpiresAt t - pm_codeTtl ?p + (int (?tries' key) - pm_maxFailedAttempts ?p) * pm_failedAttemptCooldown ?p))"
    if pend: "pm_pendingCodes ?p' key = Some t" for key t
    using pend
  proof (cases rule: pending_step)
    case kept
    then have "?tries' key = tries key" by (cases op1) auto
    with kept(1) inv le show ?thesis by (force simp: guess_inv_def)
  next
    case (issued ch sd r)
    with lim show ?thesis by (simp add: pairing_limits_def)
  next
    case (failed ch sd g t0)
    from inv failed(4) have t0: "pp_FailedAttempts t0 = int (tries key)" "pp_ExpiresAt t0 - pm_codeTtl ?p \<le> T"
      by (auto simp: guess_inv_def)
    from failed(1-3) have "?tries' key = tries key + 1" by simp
    with t0 le failed(6) show ?thesis
      using compared_guess(1)[OF inv lim le failed(4,3)] by (simp add: add.commute)
  qed
  ultimately show ?thesis unfolding guess_inv_def by (simp only: pair_step_consts) blast
qed

lemma guesses_bounded:
  "guess_inv T (fst s) tries \<Longrightarrow> pairing_limits (fst s) \<Longrightarrow> sorted (T # map fst ops) \<Longrightarrow>
   int (guesses env ops s tries key) \<le> pm_maxFailedAttempts (fst s) + pm_codeTtl (fst s) div pm_failedAttemptCooldown (fst s)"
proof (induction ops arbitrary: T s tries)
  case Nil
  then show ?case by (auto simp: guess_inv_def)
next
  case (Cons op1 ops)
  obtain now o1 where op1: "op1 = (now, o1)" by force
  from Cons.prems op1 have "T \<le> now" by simp
  from guess_inv_step[OF Cons.prems(1,2) this] Cons.prems op1 show ?case
    using Cons.IH[of now "pair_step env op1 s" "count_guess op1 (fst s) tries"]
    by (simp add: pairing_limits_def)
qed


subsection \<open>Saving\<close>

abbreviation list_path :: "path \<Rightarrow> path" where
  "list_path base \<equiv> base @ [''pairing'', ''approved.json'']"

text \<open>A path looks the same in two file systems: its node, and whether a file stands on the way to it.\<close>

definition same_at :: "path \<Rightarrow> fs \<Rightarrow> fs \<Rightarrow> bool" where
  "same_at p fs' fs \<longleftrightarrow> fs' p = fs p \<and> not_dir fs' p = not_dir fs p"

lemma same_at_refl [simp]: "same_at p fs fs"
  by (simp add: same_at_def)

lemma persist_never_writes:
  assumes "pm_approvedListPath p = list_path base"
  shows "\<exists>fs'. persistApprovedSenders env p fs = Inr fs' \<and> same_at (list_path base) fs' fs"
proof (cases "MkdirAll (pe_mkdirFault env) fs (tmp_path (list_path base))")
  case (Inl e)
  then show ?thesis by (simp add: persistApprovedSenders_def assms)
next
  case (Inr fs1)
  let ?a = "list_path base" and ?tmp = "tmp_path (list_path base)"
  have tmp: "?tmp = base @ [''pairing'', ''approved.json.tmp'']" by (simp add: tmp_path_def butlast_append)
  from Inr have dir: "fs1 ?tmp = Some Dir" by (rule MkdirAll_dir)
  from Inr have fs1: "fs1 = (\<lambda>q. if prefix q ?tmp then Some Dir else fs q)" and nofile: "\<not> not_dir fs ?tmp"
    by (auto simp: MkdirAll_def split: if_splits option.splits)
  have "\<not> not_dir fs1 ?tmp" by (auto simp: not_dir_def list_ex_iff is_file_def fs1 take_is_prefix)
  then have "FileExists fs1 ?tmp = Inr False" by (simp add: FileExists_def dir)
  with Inr dir have r: "persistApprovedSenders env p fs = Inr fs1"
    by (simp add: persistApprovedSenders_def assms WriteFile_on_dir)
  have keep: "fs1 ?a = fs ?a" using Inr by (rule MkdirAll_file) (unfold tmp, simp)
  have same: "take k ?a = take k ?tmp" if "k < length ?a" for k
    using that unfolding tmp by (auto simp: take_Cons' less_Suc_eq)
  have "length ?tmp = length ?a" unfolding tmp by simp
  with nofile same have "\<not> not_dir fs ?a" unfolding not_dir_iff by metis
  moreover have "\<not> is_file fs1 (take k ?a)" if "k < length ?a" for k
    unfolding same[OF that] by (simp add: is_file_def fs1 take_is_prefix)
  then have "\<not> not_dir fs1 ?a" unfolding not_dir_iff by blast
  ultimately show ?thesis using r keep by (simp add: same_at_def)
qed

lemma save_senders_keeps:
  "pm_approvedListPath p = list_path base \<Longrightarrow> same_at (list_path base) (snd (snd (save_senders env p fs))) fs"
  using persist_never_writes[of p base env fs] by (auto simp: save_senders_def)

text \<open>What a later start of the program reads depends on the list's file and the way to it only.\<close>

lemma load_depends_on:
  assumes "same_at (pm_approvedListPath p) fs' fs"
  shows "loadApprovedSenders env fs' p = loadApprovedSenders env fs p"
proof -
  have files: "FileExists fs' (pm_approvedListPath p) = FileExists fs (pm_approvedListPath p)"
    "ReadFile f fs' (pm_approvedListPath p) = ReadFile f fs (pm_approvedListPath p)" for f
    using assms by (auto simp: same_at_def FileExists_def ReadFile_def split: option.split)
  show ?thesis unfolding loadApprovedSenders_def files ..
qed

lemma New_depends_on:
  "same_at (list_path base) fs' fs \<Longrightarrow> NewPairingManager env base fs' = NewPairingManager env base fs"
  unfolding NewPairingManager_def by (rule load_depends_on) simp

lemma pair_step_file:
  assumes "pm_approvedListPath (fst s) = list_path base"
  shows "same_at (list_path base) (snd (pair_step env op1 s)) (snd s)"
proof -
  obtain p fs where s: "s = (p, fs)" by force
  obtain now o1 where op1: "op1 = (now, o1)" by force
  have save: "same_at (list_path base) (snd (snd (save_senders env q fs))) fs"
    if "pm_approvedListPath q = pm_approvedListPath p" for q
    using that assms s by (auto intro: save_senders_keeps)
  show ?thesis
  proof (cases o1)
    case (CallApprove ch sd g)
    then show ?thesis
      by (simp add: s op1 TryApprove_def approve_key_def Let_def save split: option.splits)
  qed (simp_all add: s op1 ApproveAdmin_def PairingManager_Revoke_def approve_key_def Let_def save)
qed

lemma New_fields:
  assumes "NewPairingManager env base fs = Inr p"
  shows "pm_pendingCodes p = (\<lambda>_. None) \<and> pm_codeTtl p = 10000000 \<and> pm_failedAttemptCooldown p = 5000000 \<and>
    pm_maxFailedAttempts p = 5 \<and> pm_approvedListPath p = list_path base"
  using assms
  by (auto simp: NewPairingManager_def loadApprovedSenders_def elim!: bindR_InrE split: if_splits sum.splits option.splits)

text \<open>A pairing code can be tried seven times at most. In every sequence of calls of a new manager, in the
  order of their times, at most five guesses and two more after cooldowns are compared with the code of
  a channel and sender before the code changes.\<close>

theorem at_most_seven_guesses:
  assumes "NewPairingManager env base fs = Inr p" "sorted (map fst ops)"
  shows "guesses env ops (p, fs) (\<lambda>_. 0) key \<le> 7"
proof (cases ops)
  case (Cons op1 rest)
  note p = New_fields[OF assms(1)]
  then have "guess_inv (fst op1) (fst (p, fs)) (\<lambda>_. 0)" "pairing_limits (fst (p, fs))"
    by (auto simp: guess_inv_def pairing_limits_def in_i64_def)
  with assms(2) Cons have "int (guesses env ops (p, fs) (\<lambda>_. 0) key) \<le> 7"
    using guesses_bounded[of "fst op1" "(p, fs)" "\<lambda>_. 0" ops env key] by (simp add: p)
  then show ?thesis by simp
qed simp

text \<open>No approval and no revocation survives a restart. Whatever calls are made, and whether or not
  the system reports failures, a manager made afterwards is the manager a restart before the calls
  would have made: the temporary path is created as a directory, so the list is never written.\<close>

theorem approvals_lost_at_restart:
  assumes "NewPairingManager env base fs = Inr p"
  shows "NewPairingManager env' base (snd (pair_run env ops (p, fs))) = NewPairingManager env' base fs"
proof -
  have "NewPairingManager env' base (snd (pair_run env ops s)) = NewPairingManager env' base (snd s)"
    if "pm_approvedListPath (fst s) = list_path base" for s
    using that unfolding pair_run_def
  proof (induction ops arbitrary: s)
    case (Cons op1 ops)
    then show ?case
      using Cons.IH[of "pair_step env op1 s"] New_depends_on[OF pair_step_file[OF Cons.prems]] by simp
  qed simp
  with New_fields[OF assms] show ?thesis by simp
qed

subsection \<open>How a sender becomes approved\<close>

lemma pair_run_snoc: "pair_run env (ops @ [op1]) s = pair_step env op1 (pair_run env ops s)"
  by (simp add: pair_run_def)

lemma pair_run_ttl: "pm_codeTtl (fst (pair_run env ops s)) = pm_codeTtl (fst s)"
  by (induction ops rule: rev_induct) (simp_all add: pair_run_snoc, simp add: pair_run_def)

text \<open>A pending code was issued by an earlier call for its key, and expires as that call set it.\<close>

definition issued_by :: "int \<Rightarrow> string \<Rightarrow> PendingPairing \<Rightarrow> (int \<times> pair_op) list \<Rightarrow> bool" where
  "issued_by ttl key t ops \<longleftrightarrow>
     (\<exists>b ti ch sd r mid. ops = b @ (ti, CallGenerate ch sd r) # mid \<and> pair_key ch sd = key \<and>
        pp_Code t = GenerateCode 100000 1000000 r \<and> pp_ExpiresAt t = ti + ttl)"

lemma issued_by_snoc: "issued_by ttl key t ops \<Longrightarrow> issued_by ttl key t (ops @ [op1])"
  unfolding issued_by_def by force

lemma pending_issued:
  assumes "pm_pendingCodes (fst s) = (\<lambda>_. None)" "pm_pendingCodes (fst (pair_run env ops s)) key = Some t"
  shows "issued_by (pm_codeTtl (fst s)) key t ops"
  using assms(2)
proof (induction ops arbitrary: t rule: rev_induct)
  case Nil
  with assms(1) show ?case by (simp add: pair_run_def)
next
  case (snoc op1 ops)
  obtain now o1 where op1: "op1 = (now, o1)" by force
  from snoc.prems[unfolded pair_run_snoc op1] show ?case
  proof (cases rule: pending_step)
    case kept
    with snoc.IH op1 show ?thesis by (auto intro: issued_by_snoc)
  next
    case (issued ch sd r)
    then show ?thesis unfolding issued_by_def by (fastforce simp: op1 pair_run_ttl)
  next
    case (failed ch sd g t0)
    then have "issued_by (pm_codeTtl (fst s)) key t ops \<longleftrightarrow> issued_by (pm_codeTtl (fst s)) key t0 ops"
      by (simp add: issued_by_def)
    with snoc.IH[of t0] failed(4) show ?thesis by (simp add: issued_by_snoc)
  qed
qed

text \<open>What one step adds to the approved senders.\<close>

lemma approved_step:
  assumes "key \<in> set (pm_approvedSenders (fst (pair_step env (now, o1) s)))"
  obtains (kept) "key \<in> set (pm_approvedSenders (fst s))" "\<And>ch sd. o1 = CallRevoke ch sd \<Longrightarrow> pair_key ch sd \<noteq> key"
  | (admin) ch sd where "o1 = CallAdmin ch sd" "pair_key ch sd = key"
  | (code) ch sd g t where "o1 = CallApprove ch sd g" "pair_key ch sd = key"
      "pm_pendingCodes (fst s) key = Some t" "TrimSpace g = pp_Code t" "now \<le> pp_ExpiresAt t"
proof (cases o1)
  case (CallGenerate ch sd r)
  with assms show ?thesis
    by (cases s) (auto simp: GeneratePairingCode_def cleanupExpiredPendingCodes_def Let_def split: option.splits if_splits intro: kept)
next
  case (CallApprove ch sd g)
  with assms show ?thesis
    by (cases s)
      (auto simp: TryApprove_def Let_def approve_key_def approve_refusal_def fixedTimeCodeEquals_def
        split: option.splits if_splits intro: kept code)
next
  case (CallAdmin ch sd)
  with assms show ?thesis by (cases s) (auto simp: ApproveAdmin_def approve_key_def intro: kept admin)
next
  case (CallRevoke ch sd)
  with assms show ?thesis by (cases s) (auto simp: PairingManager_Revoke_def Let_def split: if_splits intro: kept)
qed

definition revokes :: "string \<Rightarrow> pair_op \<Rightarrow> bool" where
  "revokes key o1 = (case o1 of CallRevoke ch sd \<Rightarrow> pair_key ch sd = key | _ \<Rightarrow> False)"

text \<open>The last call that made a sender approved: none, an administrator's, or one with the code.\<close>

definition earned :: "int \<Rightarrow> bool \<Rightarrow> string \<Rightarrow> (int \<times> pair_op) list \<Rightarrow> bool" where
  "earned ttl loaded key before \<longleftrightarrow>
     (before = [] \<and> loaded) \<or>
     (\<exists>b t ch sd. before = b @ [(t, CallAdmin ch sd)] \<and> pair_key ch sd = key) \<or>
     (\<exists>b ti ch sd r mid tj ch' sd' g.
        before = b @ (ti, CallGenerate ch sd r) # mid @ [(tj, CallApprove ch' sd' g)] \<and>
        pair_key ch sd = key \<and> pair_key ch' sd' = key \<and>
        TrimSpace g = GenerateCode 100000 1000000 r \<and> tj \<le> ti + ttl)"

text \<open>C37: Approval needs a code or an administrator. A sender approved after any sequence of calls was
  approved when the manager was made, by an administrator, or by a call with the code that an
  earlier call issued for the same key no longer than ten milliseconds before; and no revocation of
  the key came after.\<close>

theorem approved_only_by_code_or_admin:
  assumes "NewPairingManager env base fs = Inr p"
    and "IsApproved ch sd (fst (pair_run env ops (p, fs)))"
  shows "\<exists>before after. ops = before @ after \<and> (\<forall>op1 \<in> set after. \<not> revokes (pair_key ch sd) (snd op1)) \<and>
    earned 10000000 (pair_key ch sd \<in> set (pm_approvedSenders p)) (pair_key ch sd) before"
  using assms(2) unfolding IsApproved_def
proof (induction ops rule: rev_induct)
  case Nil
  then show ?case by (simp add: pair_run_def earned_def)
next
  case (snoc op1 ops)
  let ?key = "pair_key ch sd"
  obtain now o1 where op1: "op1 = (now, o1)" by force
  from snoc.prems[unfolded pair_run_snoc op1] show ?case
  proof (cases rule: approved_step)
    case kept
    with snoc.IH obtain before after where ba: "ops = before @ after"
      "\<forall>op1 \<in> set after. \<not> revokes ?key (snd op1)" "earned 10000000 (?key \<in> set (pm_approvedSenders p)) ?key before" by auto
    moreover from kept(2) have "\<not> revokes ?key o1" by (auto simp: revokes_def split: pair_op.splits)
    ultimately show ?thesis by (intro exI[of _ before] exI[of _ "after @ [op1]"]) (auto simp: op1)
  next
    case (admin ch' sd')
    then show ?thesis by (intro exI[of _ "ops @ [op1]"] exI[of _ "[]"]) (auto simp: op1 earned_def)
  next
    case (code ch' sd' g t)
    note fresh = New_fields[OF assms(1)]
    with pending_issued[of "(p, fs)" env ops ?key t] code(3) have "issued_by 10000000 ?key t ops" by simp
    then obtain b ti c s r mid where "ops = b @ (ti, CallGenerate c s r) # mid" "pair_key c s = ?key"
      "pp_Code t = GenerateCode 100000 1000000 r" "pp_ExpiresAt t = ti + 10000000"
      unfolding issued_by_def by blast
    with code have "earned 10000000 (?key \<in> set (pm_approvedSenders p)) ?key (ops @ [op1])"
      unfolding earned_def op1 by (intro disjI2) fastforce
    then show ?thesis by (intro exI[of _ "ops @ [op1]"] exI[of _ "[]"]) simp
  qed
qed

subsection \<open>Examples\<close>

definition example_pair_env :: pair_env where
  "example_pair_env = \<lparr>pe_encode = (\<lambda>ss. Join ss '',''), pe_decode = (\<lambda>d. Some (Split (CHR '','') d)),
     pe_readFault = None, pe_mkdirFault = None, pe_writeFault = None, pe_renameFault = None\<rparr>"

definition example_fs :: fs where
  "example_fs = (\<lambda>p. if p = [] \<or> p = [''data''] then Some Dir else None)"

definition example_manager :: PairingManager where
  "example_manager = \<lparr>pm_codeTtl = 10000000, pm_failedAttemptCooldown = 5000000, pm_maxFailedAttempts = 5,
     pm_storageDir = [''data'', ''pairing''], pm_approvedListPath = list_path [''data''],
     pm_pendingCodes = (\<lambda>_. None), pm_approvedSenders = []\<rparr>"

lemma example_New: "NewPairingManager example_pair_env [''data''] example_fs = Inr example_manager"
  by (simp add: NewPairingManager_def loadApprovedSenders_def FileExists_def example_fs_def example_manager_def
      not_dir_iff is_file_def)

definition example_ops :: "(int \<times> pair_op) list" where
  "example_ops = [(0, CallGenerate ''sms'' ''ann'' 5), (1, CallApprove ''sms'' ''ann'' ''1''),
     (2, CallApprove ''sms'' ''ann'' ''100005'')]"

lemma at_most_seven_guesses_witness:
  "guesses example_pair_env example_ops (example_manager, example_fs) (\<lambda>_. 0) ''sms:ann'' \<le> 7"
  by (rule at_most_seven_guesses[OF example_New]) (simp add: example_ops_def)

lemma approvals_lost_at_restart_witness:
  "NewPairingManager example_pair_env [''data'']
     (snd (pair_run example_pair_env example_ops (example_manager, example_fs))) = Inr example_manager"
  using approvals_lost_at_restart[OF example_New, of example_pair_env example_ops] by (simp add: example_New)

lemma example_code: "GenerateCode 100000 1000000 5 = ''100005''"
  by (simp add: GenerateCode_def Itoa_def decimal.simps[of 100005] decimal.simps[of 10000] decimal.simps[of 1000]
      decimal.simps[of 100] decimal.simps[of 10] decimal.simps[of "Suc 0"] digit_char_def char_of_def bit_0)

lemma example_approved:
  "IsApproved ''sms'' ''ann'' (fst (pair_run example_pair_env example_ops (example_manager, example_fs)))"
  by (simp add: pair_run_def example_ops_def GeneratePairingCode_def cleanupExpiredPendingCodes_def TryApprove_def
      approve_refusal_def fixedTimeCodeEquals_def IsBlank_iff is_space_def TrimSpace_def Trim_def TrimLeft_def
      TrimRight_def approve_key_def IsApproved_def pair_key_def Let_def example_manager_def example_code[simplified])

lemma approved_only_by_code_or_admin_witness:
  "\<exists>before after. example_ops = before @ after \<and> (\<forall>op1 \<in> set after. \<not> revokes ''sms:ann'' (snd op1)) \<and>
    earned 10000000 False ''sms:ann'' before"
  using approved_only_by_code_or_admin[OF example_New example_approved]
  by (simp add: example_manager_def pair_key_def)

end
