(* ===== verification/Allowlist.thy ===== *)
theory Allowlist
  imports Go_Fs
begin

section \<open>Allowlists on disk\<close>

text \<open>
  \<open>AllowlistManager\<close> of \<open>src/openclaw/core/security.go\<close>: one JSON file per channel, replaced by a rename.
  An update holds the lock of its channel from the reading of the file to the rename and is one
  step here. Two channel names with the same safe form share a file but not a lock, so the step
  is faithful as long as updates of such names do not overlap. Channel names are ASCII.
\<close>

record ChannelAllowlistFile =
  al_AllowedFrom :: "string list"
  al_AllowedTo :: "string list"
  al_UpdatedAtUtc :: int

text \<open>
  The JSON codec, where an absent or null list decodes to \<open>None\<close>, and the failures the system may
  report on creating, writing, renaming and reading: a failing write may leave part of the data
  (\<open>ae_partial\<close>). Two failures the code ignores: \<open>Close\<close> may fail with data not written, after which
  the file holds \<open>ae_closeLoss\<close>, and the temporary file may not be removable.
\<close>

record al_env =
  ae_encode :: "ChannelAllowlistFile \<Rightarrow> string"
  ae_decode :: "string \<Rightarrow> (string list option \<times> string list option \<times> int) option"
  ae_createFault :: "string option"
  ae_encodeFault :: "string option"
  ae_renameFault :: "string option"
  ae_readFault :: "string option"
  ae_partial :: string
  ae_closeLoss :: "string option"
  ae_removeFails :: bool

record AllowlistManager =
  am_rootDir :: path

definition NewAllowlistManager :: "string option \<Rightarrow> path \<Rightarrow> fs \<Rightarrow> (AllowlistManager \<times> fs) go_result" where
  "NewAllowlistManager fault baseStoragePath fs =
     (let rootDir = baseStoragePath @ [''allowlists''] in
      case MkdirAll fault fs rootDir of
        Inl (GoErr e) \<Rightarrow> Inl (GoErr (''failed to create root directory: '' @ e))
      | Inl f \<Rightarrow> Inl f
      | Inr fs' \<Rightarrow> Inr (\<lparr>am_rootDir = rootDir\<rparr>, fs'))"

definition safe_char :: "char \<Rightarrow> bool" where
  "safe_char c \<longleftrightarrow> (97 \<le> byte c \<and> byte c \<le> 122) \<or> (65 \<le> byte c \<and> byte c \<le> 90) \<or> is_digit c \<or>
     c = CHR ''_'' \<or> c = CHR ''-'' \<or> c = CHR ''.''"

definition safe_name :: "string \<Rightarrow> string" where
  "safe_name channelID =
     (let safe = TrimLeft (\<lambda>c. c = CHR ''.'') (filter safe_char channelID) in
      if TrimSpace safe = [] then ''unknown'' else safe)"

definition getPath :: "AllowlistManager \<Rightarrow> string \<Rightarrow> path" where
  "getPath m channelID = am_rootDir m @ [safe_name channelID @ ''.json'']"

definition TryGetDynamic :: "al_env \<Rightarrow> AllowlistManager \<Rightarrow> fs \<Rightarrow> string \<Rightarrow> ChannelAllowlistFile option" where
  "TryGetDynamic env m fs channelID =
     (case ReadFile (ae_readFault env) fs (getPath m channelID) of
        Inl _ \<Rightarrow> None
      | Inr data \<Rightarrow>
          (case ae_decode env data of
             None \<Rightarrow> None
           | Some (from_, to_, updated) \<Rightarrow>
               Some \<lparr>al_AllowedFrom = (case from_ of None \<Rightarrow> [] | Some l \<Rightarrow> l),
                     al_AllowedTo = (case to_ of None \<Rightarrow> [] | Some l \<Rightarrow> l), al_UpdatedAtUtc = updated\<rparr>))"

definition GetEffective :: "al_env \<Rightarrow> AllowlistManager \<Rightarrow> fs \<Rightarrow> string \<Rightarrow> ChannelAllowlistFile \<Rightarrow> ChannelAllowlistFile" where
  "GetEffective env m fs channelID configAllowlist =
     (case TryGetDynamic env m fs channelID of Some dynamic \<Rightarrow> dynamic | None \<Rightarrow> configAllowlist)"

text \<open>\<open>random\<close> is the part of the temporary name that \<open>os.CreateTemp\<close> chooses so that the name is free.\<close>

definition temp_path :: "AllowlistManager \<Rightarrow> string \<Rightarrow> path" where
  "temp_path m random = am_rootDir m @ [''allowlist-'' @ random @ ''.tmp'']"

definition discard_temp :: "al_env \<Rightarrow> fs \<Rightarrow> path \<Rightarrow> fs" where
  "discard_temp env fs tmpPath = (if ae_removeFails env then fs else Remove_file fs tmpPath)"

definition UpsertDynamic ::
  "al_env \<Rightarrow> AllowlistManager \<Rightarrow> string \<Rightarrow> int \<Rightarrow> string \<Rightarrow>
   (ChannelAllowlistFile option \<Rightarrow> ChannelAllowlistFile) \<Rightarrow> fs \<Rightarrow> fs" where
  "UpsertDynamic env m random now channelID updateFn fs =
     (let current = TryGetDynamic env m fs channelID;
          next_file = (updateFn current)\<lparr>al_UpdatedAtUtc := now\<rparr>;
          path = getPath m channelID;
          tmpPath = temp_path m random
      in case WriteFile (ae_createFault env) fs tmpPath [] of
           Inl _ \<Rightarrow> fs
         | Inr fs1 \<Rightarrow>
             (case WriteFile (ae_encodeFault env) fs1 tmpPath (ae_encode env next_file) of
                Inl _ \<Rightarrow> discard_temp env (fs1(tmpPath \<mapsto> File (ae_partial env))) tmpPath
              | Inr fs2 \<Rightarrow>
                  (let fs2 = (case ae_closeLoss env of None \<Rightarrow> fs2 | Some d \<Rightarrow> fs2(tmpPath \<mapsto> File d)) in
                   case Rename (ae_renameFault env) fs2 tmpPath path of
                     Inl _ \<Rightarrow> discard_temp env fs2 tmpPath
                   | Inr fs3 \<Rightarrow> discard_temp env fs3 tmpPath)))"

definition add_from :: "string \<Rightarrow> ChannelAllowlistFile option \<Rightarrow> ChannelAllowlistFile" where
  "add_from senderID cur0 =
     (let cur = (case cur0 of None \<Rightarrow> \<lparr>al_AllowedFrom = [], al_AllowedTo = [], al_UpdatedAtUtc = 0\<rparr> | Some c \<Rightarrow> c) in
      if senderID \<in> set (al_AllowedFrom cur) then cur
      else \<lparr>al_AllowedFrom = al_AllowedFrom cur @ [senderID], al_AllowedTo = al_AllowedTo cur, al_UpdatedAtUtc = 0\<rparr>)"

definition AddAllowedFrom :: "al_env \<Rightarrow> AllowlistManager \<Rightarrow> string \<Rightarrow> int \<Rightarrow> string \<Rightarrow> string \<Rightarrow> fs \<Rightarrow> fs" where
  "AddAllowedFrom env m random now channelID senderID fs =
     (if TrimSpace senderID = [] then fs else UpsertDynamic env m random now channelID (add_from senderID) fs)"

fun clean_ids :: "string list \<Rightarrow> string list \<Rightarrow> string list" where
  "clean_ids seen [] = []"
| "clean_ids seen (sid # senderIDs) =
     (let trimmed = TrimSpace sid in
      if trimmed = [] then clean_ids seen senderIDs
      else if trimmed \<in> set seen then clean_ids seen senderIDs
      else trimmed # clean_ids (trimmed # seen) senderIDs)"

definition set_from :: "string list \<Rightarrow> ChannelAllowlistFile option \<Rightarrow> ChannelAllowlistFile" where
  "set_from l cur0 =
     (let cur = (case cur0 of None \<Rightarrow> \<lparr>al_AllowedFrom = [], al_AllowedTo = [], al_UpdatedAtUtc = 0\<rparr> | Some c \<Rightarrow> c) in
      \<lparr>al_AllowedFrom = l, al_AllowedTo = al_AllowedTo cur, al_UpdatedAtUtc = 0\<rparr>)"

definition SetAllowedFrom :: "al_env \<Rightarrow> AllowlistManager \<Rightarrow> string \<Rightarrow> int \<Rightarrow> string \<Rightarrow> string list \<Rightarrow> fs \<Rightarrow> fs" where
  "SetAllowedFrom env m random now channelID senderIDs fs =
     UpsertDynamic env m random now channelID (set_from (clean_ids [] senderIDs)) fs"

subsection \<open>Paths\<close>

lemma set_TrimLeft: "set (TrimLeft p s) \<subseteq> set s"
  by (auto simp: TrimLeft_def dest: set_dropWhileD)

lemma safe_name_chars: "list_all safe_char (safe_name channelID) \<and> safe_name channelID \<noteq> [] \<and> hd (safe_name channelID) \<noteq> CHR ''.''"
proof (cases "TrimSpace (TrimLeft (\<lambda>c. c = CHR ''.'') (filter safe_char channelID)) = []")
  case True
  then have "safe_name channelID = ''unknown''" by (simp add: safe_name_def)
  moreover have "list_all safe_char ''unknown''" by code_simp
  ultimately show ?thesis by simp
next
  case False
  let ?safe = "TrimLeft (\<lambda>c. c = CHR ''.'') (filter safe_char channelID)"
  from False have safe: "safe_name channelID = ?safe" "?safe \<noteq> []" by (auto simp: safe_name_def)
  then have "hd ?safe \<noteq> CHR ''.''" unfolding TrimLeft_def by (rule_tac hd_dropWhile)
  with safe set_TrimLeft[of "\<lambda>c. c = CHR ''.''" "filter safe_char channelID"]
  show ?thesis by (auto simp: list_all_iff)
qed

lemma path_not_temp: "getPath m channelID \<noteq> temp_path m random"
proof
  assume "getPath m channelID = temp_path m random"
  then have "last (safe_name channelID @ ''.json'') = last (''allowlist-'' @ random @ ''.tmp'')"
    by (simp add: getPath_def temp_path_def)
  then show False by simp
qed

text \<open>An update replaces the file of its channel or leaves every file as it is, but for the temporary
  one when it cannot be removed.\<close>

definition new_content :: "al_env \<Rightarrow> AllowlistManager \<Rightarrow> int \<Rightarrow> string \<Rightarrow>
   (ChannelAllowlistFile option \<Rightarrow> ChannelAllowlistFile) \<Rightarrow> fs \<Rightarrow> string" where
  "new_content env m now channelID f fs =
     (case ae_closeLoss env of
        None \<Rightarrow> ae_encode env ((f (TryGetDynamic env m fs channelID))\<lparr>al_UpdatedAtUtc := now\<rparr>)
      | Some d \<Rightarrow> d)"

definition updated :: "al_env \<Rightarrow> AllowlistManager \<Rightarrow> int \<Rightarrow> string \<Rightarrow>
   (ChannelAllowlistFile option \<Rightarrow> ChannelAllowlistFile) \<Rightarrow> fs \<Rightarrow> fs" where
  "updated env m now channelID f fs = fs(getPath m channelID \<mapsto> File (new_content env m now channelID f fs))"

definition left_over :: "al_env \<Rightarrow> path \<Rightarrow> fs \<Rightarrow> fs \<Rightarrow> bool" where
  "left_over env tmp fs fs' \<longleftrightarrow> fs' = fs \<or> ae_removeFails env \<and> (\<exists>d. fs' = fs(tmp \<mapsto> File d))"

lemma upsert_outcome:
  assumes "fs_wf fs" "fs (temp_path m random) = None"
  shows "left_over env (temp_path m random) fs (UpsertDynamic env m random now channelID f fs) \<or>
      UpsertDynamic env m random now channelID f fs = updated env m now channelID f fs"
    and "ae_createFault env = None \<Longrightarrow> ae_encodeFault env = None \<Longrightarrow> ae_renameFault env = None \<Longrightarrow>
      fs (am_rootDir m) = Some Dir \<Longrightarrow> fs (getPath m channelID) \<noteq> Some Dir \<Longrightarrow>
      UpsertDynamic env m random now channelID f fs = updated env m now channelID f fs"
proof -
  let ?tmp = "temp_path m random" and ?path = "getPath m channelID"
  let ?enc = "ae_encode env ((f (TryGetDynamic env m fs channelID))\<lparr>al_UpdatedAtUtc := now\<rparr>)"
    and ?data = "new_content env m now channelID f fs"
  note ne = path_not_temp[of m channelID random]
  have dirs: "butlast ?tmp = am_rootDir m" "butlast ?path = am_rootDir m" "?tmp \<noteq> []"
    by (simp_all add: temp_path_def getPath_def)
  have neq: "am_rootDir m \<noteq> ?tmp" by (simp add: temp_path_def)
  have undo: "left_over env ?tmp fs (discard_temp env (fs(?tmp \<mapsto> File d)) ?tmp)" for d
    using assms(2) by (auto simp: left_over_def discard_temp_def Remove_file_def is_file_def)
  have run: "UpsertDynamic env m random now channelID f fs =
      (if fs (am_rootDir m) \<noteq> Some Dir \<or> ae_createFault env \<noteq> None then fs
       else if ae_encodeFault env \<noteq> None then discard_temp env (fs(?tmp \<mapsto> File (ae_partial env))) ?tmp
       else case Rename (ae_renameFault env) (fs(?tmp \<mapsto> File ?data)) ?tmp ?path of
              Inl e \<Rightarrow> discard_temp env (fs(?tmp \<mapsto> File ?data)) ?tmp
            | Inr fs' \<Rightarrow> discard_temp env fs' ?tmp)"
  proof (cases "ae_closeLoss env")
    case None
    then have "?data = ?enc" by (simp add: new_content_def)
    with None show ?thesis using assms(2) dirs neq unfolding \<open>?data = ?enc\<close>
      by (auto simp: UpsertDynamic_def Let_def WriteFile_def split: option.splits)
  next
    case (Some d)
    then have "?data = d" by (simp add: new_content_def)
    with Some show ?thesis using assms(2) dirs neq unfolding \<open>?data = d\<close>
      by (auto simp: UpsertDynamic_def Let_def WriteFile_def split: option.splits)
  qed
  have renamed: "discard_temp env fs' ?tmp = updated env m now channelID f fs"
    if "Rename fault (fs(?tmp \<mapsto> File ?data)) ?tmp ?path = Inr fs'" "fs (am_rootDir m) = Some Dir" for fault fs'
  proof -
    have "fs_wf (fs(?tmp \<mapsto> File ?data))" using assms(1,2) that(2) dirs by (intro fs_wf_upd) auto
    then have "fs' = updated env m now channelID f fs"
      using Rename_file[of "fs(?tmp \<mapsto> File ?data)" ?tmp ?data ?path fault fs'] that(1) ne assms(2) by (auto simp: updated_def)
    then show ?thesis using ne assms(2) by (simp add: discard_temp_def Remove_file_def is_file_def updated_def)
  qed
  show "left_over env ?tmp fs (UpsertDynamic env m random now channelID f fs) \<or>
      UpsertDynamic env m random now channelID f fs = updated env m now channelID f fs"
  proof (cases "fs (am_rootDir m) \<noteq> Some Dir \<or> ae_createFault env \<noteq> None \<or> ae_encodeFault env \<noteq> None")
    case True
    with undo show ?thesis by (auto simp: run left_over_def)
  next
    case False
    with undo renamed show ?thesis by (auto simp: run split: sum.splits)
  qed
  show "UpsertDynamic env m random now channelID f fs = updated env m now channelID f fs"
    if ok: "ae_createFault env = None" "ae_encodeFault env = None" "ae_renameFault env = None"
      "fs (am_rootDir m) = Some Dir" "fs ?path \<noteq> Some Dir"
  proof -
    have "Rename None (fs(?tmp \<mapsto> File ?data)) ?tmp ?path \<noteq> Inl e" for e
      using ok ne dirs neq by (simp add: Rename_def)
    with ok renamed show ?thesis by (auto simp: run split: sum.splits)
  qed
qed


subsection \<open>What an update guarantees\<close>

definition ae_healthy :: "al_env \<Rightarrow> bool" where
  "ae_healthy env \<longleftrightarrow> ae_createFault env = None \<and> ae_encodeFault env = None \<and> ae_renameFault env = None \<and>
     ae_readFault env = None \<and> ae_closeLoss env = None"

text \<open>The documented behaviour of the JSON codec: a file that was written decodes to itself.\<close>

definition al_codec :: "al_env \<Rightarrow> bool" where
  "al_codec env \<longleftrightarrow> (\<forall>f. ae_decode env (ae_encode env f) = Some (Some (al_AllowedFrom f), Some (al_AllowedTo f), al_UpdatedAtUtc f))"

lemma upsert_read:
  assumes "fs_wf fs" "fs (temp_path m random) = None" "fs (am_rootDir m) = Some Dir"
    and "fs (getPath m channelID) \<noteq> Some Dir" "ae_healthy env" "al_codec env"
  shows "TryGetDynamic env m (UpsertDynamic env m random now channelID f fs) channelID =
    Some ((f (TryGetDynamic env m fs channelID))\<lparr>al_UpdatedAtUtc := now\<rparr>)"
proof -
  have "UpsertDynamic env m random now channelID f fs = updated env m now channelID f fs"
    using assms(5) by (intro upsert_outcome(2)[OF assms(1,2)] assms(3,4)) (auto simp: ae_healthy_def)
  with assms(5,6) show ?thesis
    by (simp add: updated_def new_content_def TryGetDynamic_def ReadFile_def ae_healthy_def al_codec_def)
qed

lemma clean_ids_spec:
  "distinct (clean_ids seen ids) \<and> set (clean_ids seen ids) = TrimSpace ` set ids - {[]} - set seen"
  by (induction seen ids rule: clean_ids.induct) (auto simp: Let_def)

definition stored :: "al_env \<Rightarrow> AllowlistManager \<Rightarrow> fs \<Rightarrow> string \<Rightarrow> string list \<times> string list" where
  "stored env m fs channelID =
     (case TryGetDynamic env m fs channelID of None \<Rightarrow> ([], []) | Some f \<Rightarrow> (al_AllowedFrom f, al_AllowedTo f))"

text \<open>What is saved is read back. On storage without failures, after \<open>SetAllowedFrom\<close> the effective list
  of the channel holds each given sender once, trimmed and without blanks, and after \<open>AddAllowedFrom\<close>
  it holds the new sender behind the ones it had; the allowed receivers stay in both cases, whatever
  the configured list.\<close>

theorem allowlist_roundtrip:
  assumes "fs_wf fs" "fs (temp_path m random) = None" "fs (am_rootDir m) = Some Dir"
    and "fs (getPath m channelID) \<noteq> Some Dir" "ae_healthy env" "al_codec env" "TrimSpace senderID \<noteq> []"
  shows "(let f = GetEffective env m (SetAllowedFrom env m random now channelID ids fs) channelID config in
       distinct (al_AllowedFrom f) \<and> set (al_AllowedFrom f) = TrimSpace ` set ids - {[]} \<and>
       al_AllowedTo f = snd (stored env m fs channelID)) \<and>
     (let f = GetEffective env m (AddAllowedFrom env m random now channelID senderID fs) channelID config in
       al_AllowedFrom f = (if senderID \<in> set (fst (stored env m fs channelID)) then fst (stored env m fs channelID)
                           else fst (stored env m fs channelID) @ [senderID]) \<and>
       al_AllowedTo f = snd (stored env m fs channelID))"
  using upsert_read[OF assms(1-6)] assms(7) clean_ids_spec[of "[]" ids]
  by (auto simp: GetEffective_def SetAllowedFrom_def AddAllowedFrom_def set_from_def add_from_def stored_def Let_def
      split: option.splits)

text \<open>C38: An update is confined and replaces the file as a whole. Whatever the system fails to do, after an
  update every path but the channel's own and the temporary one has the node it had; the temporary file
  is gone unless it could not be removed, an error the code ignores; and the channel's file is the old
  one or the complete new one, provided that the temporary file could be closed without loss, the
  other error the code ignores. That file lies directly in the manager's directory, under a name of
  letters, digits, underscores, hyphens and dots that does not start with a dot.\<close>

theorem allowlist_update_atomic:
  assumes "fs_wf fs" "fs (temp_path m random) = None"
  shows "(let fs' = UpsertDynamic env m random now channelID f fs; path = getPath m channelID; tmp = temp_path m random in
       (\<forall>q. q \<noteq> path \<and> q \<noteq> tmp \<longrightarrow> fs' q = fs q) \<and> (\<not> ae_removeFails env \<longrightarrow> fs' tmp = None) \<and>
       (ae_closeLoss env = None \<longrightarrow> fs' path = fs path \<or>
          fs' path = Some (File (ae_encode env ((f (TryGetDynamic env m fs channelID))\<lparr>al_UpdatedAtUtc := now\<rparr>))))) \<and>
     (\<exists>name. getPath m channelID = am_rootDir m @ [name] \<and> list_all safe_char name \<and> hd name \<noteq> CHR ''.'')"
proof
  have "temp_path m random \<noteq> getPath m channelID" using path_not_temp[of m channelID random] by auto
  with upsert_outcome(1)[OF assms, of env now channelID f] assms(2)
  show "let fs' = UpsertDynamic env m random now channelID f fs; path = getPath m channelID; tmp = temp_path m random in
       (\<forall>q. q \<noteq> path \<and> q \<noteq> tmp \<longrightarrow> fs' q = fs q) \<and> (\<not> ae_removeFails env \<longrightarrow> fs' tmp = None) \<and>
       (ae_closeLoss env = None \<longrightarrow> fs' path = fs path \<or>
          fs' path = Some (File (ae_encode env ((f (TryGetDynamic env m fs channelID))\<lparr>al_UpdatedAtUtc := now\<rparr>))))"
    by (auto simp: updated_def new_content_def left_over_def Let_def)
  have "list_all safe_char ''.json''" by code_simp
  with safe_name_chars[of channelID]
  show "\<exists>name. getPath m channelID = am_rootDir m @ [name] \<and> list_all safe_char name \<and> hd name \<noteq> CHR ''.''"
    by (auto simp: getPath_def)
qed

subsection \<open>Examples\<close>

text \<open>A concrete codec: every character behind a mark, every string and every list closed by one.\<close>

definition ex_string :: "string \<Rightarrow> string" where
  "ex_string s = concat (map (\<lambda>c. [CHR ''c'', c]) s) @ '';''"

definition ex_list :: "string list \<Rightarrow> string" where
  "ex_list l = concat (map ex_string l) @ ''.''"

fun ex_read :: "string \<Rightarrow> string \<Rightarrow> (string list \<times> string) option" where
  "ex_read acc [] = None"
| "ex_read acc (c # s) =
     (if c = CHR ''.'' then Some ([], s)
      else if c = CHR '';'' then map_option (\<lambda>(l, r). (rev acc # l, r)) (ex_read [] s)
      else (case s of [] \<Rightarrow> None | d # s' \<Rightarrow> ex_read (d # acc) s'))"

definition example_al_env :: al_env where
  "example_al_env =
     \<lparr>ae_encode = (\<lambda>f. ex_list (al_AllowedFrom f) @ ex_list (al_AllowedTo f) @
        (if al_UpdatedAtUtc f < 0 then CHR ''-'' else CHR ''+'') # replicate (nat \<bar>al_UpdatedAtUtc f\<bar>) (CHR ''1'')),
      ae_decode = (\<lambda>d. case ex_read [] d of
         Some (l1, d1) \<Rightarrow>
           (case ex_read [] d1 of
              Some (l2, sg # d2) \<Rightarrow> Some (Some l1, Some l2, (if sg = CHR ''-'' then - int (length d2) else int (length d2)))
            | _ \<Rightarrow> None)
       | None \<Rightarrow> None),
      ae_createFault = None, ae_encodeFault = None, ae_renameFault = None, ae_readFault = None,
      ae_partial = [], ae_closeLoss = None, ae_removeFails = False\<rparr>"

lemma ex_read_string: "ex_read acc (ex_string s @ rest) = map_option (\<lambda>(l, r). ((rev acc @ s) # l, r)) (ex_read [] rest)"
  by (induction s arbitrary: acc) (simp_all add: ex_string_def)

lemma ex_read_list: "ex_read [] (ex_list l @ rest) = Some (l, rest)"
  by (induction l) (simp_all add: ex_list_def ex_read_string)

lemma example_codec: "al_codec example_al_env" "ae_healthy example_al_env"
  by (simp_all add: al_codec_def ae_healthy_def example_al_env_def ex_read_list)

definition example_al_fs :: fs where
  "example_al_fs = (\<lambda>p. if p = [] \<or> p = [''allowlists''] then Some Dir else None)"

lemma example_al_fs_wf: "fs_wf example_al_fs"
  by (auto simp: fs_wf_def example_al_fs_def)

lemma example_trim: "TrimSpace ''ann '' = ''ann''" "TrimSpace '' '' = []" "TrimSpace ''bob'' = ''bob''" "TrimSpace ''ann'' = ''ann''"
  by code_simp+

lemma allowlist_roundtrip_witness:
  "(let m = \<lparr>am_rootDir = [''allowlists'']\<rparr>;
        f = GetEffective example_al_env m (SetAllowedFrom example_al_env m ''7'' 5 ''sms'' [''ann '', '' '', ''bob'', ''ann''] example_al_fs)
              ''sms'' \<lparr>al_AllowedFrom = [''eve''], al_AllowedTo = [], al_UpdatedAtUtc = 0\<rparr>
    in set (al_AllowedFrom f)) = {''ann'', ''bob''}"
proof -
  let ?m = "\<lparr>am_rootDir = [''allowlists'']\<rparr>"
  have fs: "example_al_fs (temp_path ?m ''7'') = None" "example_al_fs (am_rootDir ?m) = Some Dir"
    "example_al_fs (getPath ?m ''sms'') \<noteq> Some Dir"
    by (simp_all add: example_al_fs_def temp_path_def getPath_def)
  have "TrimSpace ''ann'' \<noteq> []" by (simp add: example_trim)
  from allowlist_roundtrip[OF example_al_fs_wf fs example_codec(2,1) this, of 5 "[''ann '', '' '', ''bob'', ''ann'']"
      "\<lparr>al_AllowedFrom = [''eve''], al_AllowedTo = [], al_UpdatedAtUtc = 0\<rparr>"]
  show ?thesis by (auto simp: example_trim Let_def)
qed

lemma allowlist_update_atomic_witness:
  "(let fs' = UpsertDynamic example_al_env \<lparr>am_rootDir = [''allowlists'']\<rparr> ''7'' 5 ''../x'' (add_from ''ann'') example_al_fs
    in fs' [''allowlists'', ''y.json''] = None \<and> fs' [] = Some Dir)"
proof -
  let ?m = "\<lparr>am_rootDir = [''allowlists'']\<rparr>"
  have "example_al_fs (temp_path ?m ''7'') = None" by (simp add: example_al_fs_def temp_path_def)
  note atomic = allowlist_update_atomic[OF example_al_fs_wf this, of example_al_env 5 "''../x''" "add_from ''ann''"]
  have "safe_name ''../x'' = ''x''" by code_simp
  with atomic show ?thesis by (simp add: Let_def getPath_def temp_path_def example_al_fs_def)
qed

end
