(* ===== verification/Approval.thy ===== *)
theory Approval
  imports Go_Prelude "HOL-Library.AList"
begin

section \<open>Approval of tool calls\<close>

text \<open>
  \<open>ToolApprovalService\<close> of \<open>src/openclaw/core/pipeline.go\<close>. A tool call that needs an approval creates a
  request and waits; an operator or the requester decides. The service holds a map of pending
  requests under a mutex, but deciders and waiters work on the request itself, through a channel
  with room for one value and a \<open>sync.Once\<close>. The calls are split where they release the mutex or
  touch the channel, so that every interleaving of goroutines is a run of the step relation below.
  Requests live in a store, and the map holds their addresses, as the source holds pointers.
\<close>

subsection \<open>Data\<close>

datatype ToolApprovalDecisionResult = Recorded | DecisionNotFound | Unauthorized

datatype ToolApprovalWaitResult = Approved | Denied | TimedOut | WaitNotFound

record ToolApprovalRequest =
  tr_ApprovalId :: string
  tr_SessionId :: string
  tr_ChannelId :: string
  tr_SenderId :: string
  tr_ToolName :: string
  tr_Arguments :: string
  tr_Action :: string
  tr_IsMutation :: bool
  tr_Summary :: string
  tr_CreatedAt :: "int option"   \<comment> \<open>\<open>None\<close> is the zero time\<close>

record pendingRequest =
  pr_Request :: ToolApprovalRequest
  pr_ExpiresAt :: int
  pr_decisionChan :: "bool option"   \<comment> \<open>the buffer of the channel\<close>
  pr_setDecision :: bool             \<comment> \<open>the \<open>sync.Once\<close> has run\<close>

record ToolApprovalService =
  ta_store :: "pendingRequest list"
  ta_pending :: "(string \<times> nat) list"

definition NewToolApprovalService :: ToolApprovalService where
  "NewToolApprovalService = \<lparr>ta_store = [], ta_pending = []\<rparr>"

subsection \<open>Operations\<close>

text \<open>\<open>uuid\<close> is the random part of the identifier.\<close>

definition approval_Create ::
  "string \<Rightarrow> int \<Rightarrow> string \<Rightarrow> string \<Rightarrow> string \<Rightarrow> string \<Rightarrow> string \<Rightarrow> int \<Rightarrow> string \<Rightarrow> bool \<Rightarrow> string \<Rightarrow>
   ToolApprovalService \<Rightarrow> ToolApprovalRequest \<times> ToolApprovalService" where
  "approval_Create uuid now sessionId channelId senderId toolName arguments timeout action isMutation summary s =
     (let approvalId = ''apr_'' @ uuid;
          req = \<lparr>tr_ApprovalId = approvalId, tr_SessionId = sessionId, tr_ChannelId = channelId, tr_SenderId = senderId,
                 tr_ToolName = toolName, tr_Arguments = arguments,
                 tr_Action = (if TrimSpace action \<noteq> [] then action else []),
                 tr_IsMutation = isMutation, tr_Summary = summary, tr_CreatedAt = None\<rparr>;
          p = \<lparr>pr_Request = req, pr_ExpiresAt = now + timeout, pr_decisionChan = None, pr_setDecision = False\<rparr>
      in (req, s\<lparr>ta_store := ta_store s @ [p],
                 ta_pending := AList.update approvalId (length (ta_store s)) (ta_pending s)\<rparr>))"

text \<open>The test of the requester, and the part of \<open>TrySetDecision\<close> after the map was read.\<close>

definition requester_matches :: "string \<Rightarrow> string \<Rightarrow> ToolApprovalRequest \<Rightarrow> bool" where
  "requester_matches requesterChannelId requesterSenderId req \<longleftrightarrow>
     \<not> (TrimSpace requesterChannelId = [] \<or> TrimSpace requesterSenderId = []) \<and>
     requesterChannelId = tr_ChannelId req \<and> requesterSenderId = tr_SenderId req"

definition decide_request ::
  "nat \<Rightarrow> bool \<Rightarrow> string \<Rightarrow> string \<Rightarrow> bool \<Rightarrow> ToolApprovalService \<Rightarrow> ToolApprovalDecisionResult \<times> ToolApprovalService" where
  "decide_request a approved requesterChannelId requesterSenderId requireRequesterMatch s =
     (let p = ta_store s ! a in
      if requireRequesterMatch \<and> \<not> requester_matches requesterChannelId requesterSenderId (pr_Request p)
      then (Unauthorized, s)
      else if pr_setDecision p then (DecisionNotFound, s)
      else (Recorded, s\<lparr>ta_store := (ta_store s)[a := p\<lparr>pr_setDecision := True, pr_decisionChan := Some approved\<rparr>]\<rparr>))"

definition delete_pending :: "string \<Rightarrow> ToolApprovalService \<Rightarrow> ToolApprovalService" where
  "delete_pending approvalId s = s\<lparr>ta_pending := AList.delete approvalId (ta_pending s)\<rparr>"

definition receive_decision :: "nat \<Rightarrow> ToolApprovalService \<Rightarrow> (bool \<times> ToolApprovalService) option" where
  "receive_decision a s =
     (case pr_decisionChan (ta_store s ! a) of
        None \<Rightarrow> None
      | Some approved \<Rightarrow>
          Some (approved, s\<lparr>ta_store := (ta_store s)[a := (ta_store s ! a)\<lparr>pr_decisionChan := None\<rparr>]\<rparr>))"

text \<open>The \<open>Do\<close> of the waiter whose timer fired: whether it came first.\<close>

definition cancel_once :: "nat \<Rightarrow> ToolApprovalService \<Rightarrow> bool \<times> ToolApprovalService" where
  "cancel_once a s =
     (let p = ta_store s ! a in
      if pr_setDecision p then (False, s)
      else (True, s\<lparr>ta_store := (ta_store s)[a := p\<lparr>pr_setDecision := True\<rparr>]\<rparr>))"

text \<open>
  \<open>ListPending\<close> holds the mutex throughout. Expired requests go, and so do those with a decision,
  which is taken out of the channel by the test for it.
\<close>

fun list_loop :: "int \<Rightarrow> string \<Rightarrow> string \<Rightarrow> (string \<times> nat) list \<Rightarrow> ToolApprovalService \<Rightarrow>
   ToolApprovalRequest list \<times> ToolApprovalService" where
  "list_loop now channelId senderId [] s = ([], s)"
| "list_loop now channelId senderId ((approvalId, a) # todo) s =
     (let p = ta_store s ! a in
      if pr_ExpiresAt p \<le> now then list_loop now channelId senderId todo (delete_pending approvalId s)
      else case receive_decision a s of
             Some (_, s') \<Rightarrow> list_loop now channelId senderId todo (delete_pending approvalId s')
           | None \<Rightarrow>
               (case list_loop now channelId senderId todo s of
                  (result, s') \<Rightarrow>
                    (if channelId \<noteq> [] \<and> tr_ChannelId (pr_Request p) \<noteq> channelId then result
                     else if senderId \<noteq> [] \<and> tr_SenderId (pr_Request p) \<noteq> senderId then result
                     else pr_Request p # result, s')))"

definition ListPending :: "int \<Rightarrow> string \<Rightarrow> string \<Rightarrow> ToolApprovalService \<Rightarrow> ToolApprovalRequest list \<times> ToolApprovalService" where
  "ListPending now channelId senderId s = list_loop now channelId senderId (ta_pending s) s"

definition PendingCount :: "int \<Rightarrow> ToolApprovalService \<Rightarrow> nat \<times> ToolApprovalService" where
  "PendingCount now s = (case ListPending now [] [] s of (result, s') \<Rightarrow> (length result, s'))"

subsection \<open>Goroutines\<close>

text \<open>Where a goroutine stands in \<open>TrySetDecision\<close> or in \<open>WaitForDecisionOutcome\<close>.\<close>

datatype proc =
    Idle
  | Deciding nat bool string string bool      \<comment> \<open>the request was found in the map\<close>
  | Decided ToolApprovalDecisionResult
  | Found nat                                 \<comment> \<open>the request was found, \<open>select\<close> not yet reached\<close>
  | Selecting nat
  | Received nat bool
  | TimerFired nat
  | Draining nat                              \<comment> \<open>blocked on the channel after the timer\<close>
  | Waited ToolApprovalWaitResult "nat option"
  | WaitCanceled

datatype approval_event =
    EvCreate nat ToolApprovalRequest
  | EvTryLookup nat string
  | EvDecide nat nat bool string string bool ToolApprovalDecisionResult
  | EvWaitLookup nat string
  | EvSelect nat
  | EvReceive nat nat bool
  | EvRemove nat
  | EvCtxDone nat
  | EvTimer nat
  | EvCancel nat nat
  | EvList int string string

type_synonym approval_state = "ToolApprovalService \<times> (nat \<Rightarrow> proc)"

definition wait_result :: "bool \<Rightarrow> ToolApprovalWaitResult" where
  "wait_result approved = (if approved then Approved else Denied)"

definition approval_id :: "nat \<Rightarrow> ToolApprovalService \<Rightarrow> string" where
  "approval_id a s = tr_ApprovalId (pr_Request (ta_store s ! a))"

inductive approval_step :: "approval_state \<Rightarrow> approval_event \<Rightarrow> approval_state \<Rightarrow> bool" where
  create: "approval_Create uuid now ses ch sd tool args timeout action mut summary s = (req, s') \<Longrightarrow>
    approval_step (s, ps) (EvCreate (length (ta_store s)) req) (s', ps)"
| try_missing: "ps i = Idle \<Longrightarrow> map_of (ta_pending s) k = None \<Longrightarrow>
    approval_step (s, ps) (EvTryLookup i k) (s, ps(i := Decided DecisionNotFound))"
| try_found: "ps i = Idle \<Longrightarrow> map_of (ta_pending s) k = Some a \<Longrightarrow>
    approval_step (s, ps) (EvTryLookup i k) (s, ps(i := Deciding a approved ch sd rm))"
| decide: "ps i = Deciding a approved ch sd rm \<Longrightarrow> decide_request a approved ch sd rm s = (r, s') \<Longrightarrow>
    approval_step (s, ps) (EvDecide i a approved ch sd rm r) (s', ps(i := Decided r))"
| wait_missing: "ps i = Idle \<Longrightarrow> map_of (ta_pending s) k = None \<Longrightarrow>
    approval_step (s, ps) (EvWaitLookup i k) (s, ps(i := Waited WaitNotFound None))"
| wait_found: "ps i = Idle \<Longrightarrow> map_of (ta_pending s) k = Some a \<Longrightarrow>
    approval_step (s, ps) (EvWaitLookup i k) (s, ps(i := Found a))"
| select: "ps i = Found a \<Longrightarrow> approval_step (s, ps) (EvSelect i) (s, ps(i := Selecting a))"
| receive: "ps i = Selecting a \<Longrightarrow> receive_decision a s = Some (b, s') \<Longrightarrow>
    approval_step (s, ps) (EvReceive i a b) (s', ps(i := Received a b))"
| remove: "ps i = Received a b \<Longrightarrow>
    approval_step (s, ps) (EvRemove i) (delete_pending (approval_id a s) s, ps(i := Waited (wait_result b) (Some a)))"
| ctx_done: "ps i = Selecting a \<Longrightarrow> approval_step (s, ps) (EvCtxDone i) (s, ps(i := WaitCanceled))"
| timer: "ps i = Selecting a \<Longrightarrow>
    approval_step (s, ps) (EvTimer i) (delete_pending (approval_id a s) s, ps(i := TimerFired a))"
| cancel: "ps i = TimerFired a \<Longrightarrow> cancel_once a s = (hasCanceled, s') \<Longrightarrow>
    approval_step (s, ps) (EvCancel i a) (s', ps(i := (if hasCanceled then Waited TimedOut (Some a) else Draining a)))"
| drain: "ps i = Draining a \<Longrightarrow> receive_decision a s = Some (b, s') \<Longrightarrow>
    approval_step (s, ps) (EvReceive i a b) (s', ps(i := Waited (wait_result b) (Some a)))"
| list: "ListPending now ch sd s = (result, s') \<Longrightarrow> approval_step (s, ps) (EvList now ch sd) (s', ps)"

inductive_cases approval_stepE: "approval_step st e st'"

definition approval_init :: "approval_state \<Rightarrow> bool" where
  "approval_init st \<longleftrightarrow> st = (NewToolApprovalService, \<lambda>_. Idle)"

subsection \<open>One decision, delivered once\<close>

text \<open>The decisions recorded on a request, and those received by its waiters, in the order of a run.\<close>

definition recorded :: "nat \<Rightarrow> approval_event list \<Rightarrow> bool list" where
  "recorded a es = List.map_filter (\<lambda>e. case e of EvDecide i a' b ch sd rm r \<Rightarrow>
     if a' = a \<and> r = Recorded then Some b else None | _ \<Rightarrow> None) es"

definition delivered :: "nat \<Rightarrow> approval_event list \<Rightarrow> bool list" where
  "delivered a es = List.map_filter (\<lambda>e. case e of EvReceive i a' b \<Rightarrow> if a' = a then Some b else None | _ \<Rightarrow> None) es"

text \<open>A decision was recorded by a caller who passed the test of the requester, where it was asked for.\<close>

definition authorized_decision :: "nat \<Rightarrow> bool \<Rightarrow> ToolApprovalService \<Rightarrow> approval_event list \<Rightarrow> bool" where
  "authorized_decision a b s es \<longleftrightarrow>
     (\<exists>i ch sd rm. EvDecide i a b ch sd rm Recorded \<in> set es \<and>
        (rm \<longrightarrow> requester_matches ch sd (pr_Request (ta_store s ! a))))"

text \<open>What a request's channel and once-flag say of the decisions recorded and delivered so far.\<close>

definition slot_ok :: "pendingRequest \<Rightarrow> bool list \<Rightarrow> bool list \<Rightarrow> bool" where
  "slot_ok p r d \<longleftrightarrow> (\<not> pr_setDecision p \<longrightarrow> pr_decisionChan p = None \<and> r = []) \<and>
     (\<forall>b. pr_decisionChan p = Some b \<longrightarrow> r = [b] \<and> d = []) \<and> length r \<le> 1 \<and> (d = [] \<or> d = r)"

fun proc_ok :: "nat \<Rightarrow> (nat \<Rightarrow> bool list) \<Rightarrow> proc \<Rightarrow> bool" where
  "proc_ok n d (Deciding a _ _ _ _) = (a < n)"
| "proc_ok n d (Found a) = (a < n)"
| "proc_ok n d (Selecting a) = (a < n)"
| "proc_ok n d (Received a b) = (a < n \<and> b \<in> set (d a))"
| "proc_ok n d (TimerFired a) = (a < n)"
| "proc_ok n d (Draining a) = (a < n)"
| "proc_ok n d (Waited Approved a) = (\<exists>a'. a = Some a' \<and> a' < n \<and> True \<in> set (d a'))"
| "proc_ok n d (Waited Denied a) = (\<exists>a'. a = Some a' \<and> a' < n \<and> False \<in> set (d a'))"
| "proc_ok n d _ = True"

definition approval_inv :: "approval_event list \<times> approval_state \<Rightarrow> bool" where
  "approval_inv h \<longleftrightarrow> (case h of (es, s, ps) \<Rightarrow>
     (\<forall>ka \<in> set (ta_pending s). snd ka < length (ta_store s)) \<and>
     (\<forall>i. proc_ok (length (ta_store s)) (\<lambda>a. delivered a es) (ps i)) \<and>
     (\<forall>a < length (ta_store s). slot_ok (ta_store s ! a) (recorded a es) (delivered a es)) \<and>
     (\<forall>a \<ge> length (ta_store s). recorded a es = [] \<and> delivered a es = []) \<and>
     (\<forall>a. \<forall>b \<in> set (recorded a es). authorized_decision a b s es))"

lemma recorded_snoc [simp]:
  "recorded a (es @ [EvDecide i a' b ch sd rm r]) = recorded a es @ (if a' = a \<and> r = Recorded then [b] else [])"
  "recorded a (es @ [EvCreate n req]) = recorded a es" "recorded a (es @ [EvTryLookup i k]) = recorded a es"
  "recorded a (es @ [EvWaitLookup i k]) = recorded a es" "recorded a (es @ [EvSelect i]) = recorded a es"
  "recorded a (es @ [EvReceive i n b]) = recorded a es" "recorded a (es @ [EvRemove i]) = recorded a es"
  "recorded a (es @ [EvCtxDone i]) = recorded a es" "recorded a (es @ [EvTimer i]) = recorded a es"
  "recorded a (es @ [EvCancel i n]) = recorded a es" "recorded a (es @ [EvList t ch sd]) = recorded a es"
  by (simp_all add: recorded_def List.map_filter_def)

lemma delivered_snoc [simp]:
  "delivered a (es @ [EvReceive i a' b]) = delivered a es @ (if a' = a then [b] else [])"
  "delivered a (es @ [EvCreate n req]) = delivered a es" "delivered a (es @ [EvTryLookup i k]) = delivered a es"
  "delivered a (es @ [EvWaitLookup i k]) = delivered a es" "delivered a (es @ [EvSelect i]) = delivered a es"
  "delivered a (es @ [EvDecide i n b ch sd rm r]) = delivered a es" "delivered a (es @ [EvRemove i]) = delivered a es"
  "delivered a (es @ [EvCtxDone i]) = delivered a es" "delivered a (es @ [EvTimer i]) = delivered a es"
  "delivered a (es @ [EvCancel i n]) = delivered a es" "delivered a (es @ [EvList t ch sd]) = delivered a es"
  by (simp_all add: delivered_def List.map_filter_def)

lemma recorded_authorized_mono:
  assumes "authorized_decision a b s es" "pr_Request (ta_store s' ! a) = pr_Request (ta_store s ! a)"
  shows "authorized_decision a b s' (es @ [e])"
  using assms unfolding authorized_decision_def by auto

lemma proc_ok_mono: "proc_ok n d q \<Longrightarrow> n \<le> n' \<Longrightarrow> (\<And>a. set (d a) \<subseteq> set (d' a)) \<Longrightarrow> proc_ok n' d' q"
  by (cases "(n, d, q)" rule: proc_ok.cases) force+

text \<open>Listing only forgets: it removes names from the map and empties channels.\<close>

definition drained :: "pendingRequest \<Rightarrow> pendingRequest \<Rightarrow> bool" where
  "drained p p' \<longleftrightarrow> p' = p \<or> p' = p\<lparr>pr_decisionChan := None\<rparr>"

lemma list_loop_forgets:
  "list_loop now ch sd todo s = (result, s') \<Longrightarrow>
   set (ta_pending s') \<subseteq> set (ta_pending s) \<and> list_all2 drained (ta_store s) (ta_store s')"
proof (induction now ch sd todo s arbitrary: result s' rule: list_loop.induct)
  case (1 now ch sd s)
  then show ?case by (simp add: drained_def list.rel_refl)
next
  case (2 now ch sd k a todo s)
  have del: "set (ta_pending (delete_pending k u)) \<subseteq> set (ta_pending u)" "ta_store (delete_pending k u) = ta_store u" for u
    by (auto simp: delete_pending_def AList.delete_eq)
  have trans: "list_all2 drained x y \<Longrightarrow> list_all2 drained y z \<Longrightarrow> list_all2 drained x z" for x y z
    by (rule list_all2_trans) (auto simp: drained_def)
  show ?case
  proof (cases "pr_ExpiresAt (ta_store s ! a) \<le> now")
    case True
    with 2 del[of s] show ?thesis by fastforce
  next
    case False
    show ?thesis
    proof (cases "receive_decision a s")
      case None
      obtain res1 s1 where "list_loop now ch sd todo s = (res1, s1)" by force
      with 2(2)[of "ta_store s ! a" res1 s1] 2(4) False None show ?thesis by (simp add: Let_def)
    next
      case (Some bs)
      obtain b s1 where bs: "bs = (b, s1)" by force
      with Some have s1: "s1 = s\<lparr>ta_store := (ta_store s)[a := (ta_store s ! a)\<lparr>pr_decisionChan := None\<rparr>]\<rparr>"
        by (auto simp: receive_decision_def split: option.splits)
      have "list_all2 drained (ta_store s) (ta_store s1)"
        by (auto simp: s1 list_all2_conv_all_nth drained_def) (metis nth_list_update_eq nth_list_update_neq)
      with 2(3)[of "ta_store s ! a" bs b s1 result s'] 2(4) False Some bs del[of s1] s1 show ?thesis
        by (auto intro: trans)
    qed
  qed
qed

lemma slot_ok_steps:
  assumes "slot_ok p r d"
  shows "drained p p' \<Longrightarrow> slot_ok p' r d"
    and "\<not> pr_setDecision p \<Longrightarrow> slot_ok (p\<lparr>pr_setDecision := True, pr_decisionChan := Some b\<rparr>) (r @ [b]) d"
    and "pr_decisionChan p = Some b \<Longrightarrow> slot_ok (p\<lparr>pr_decisionChan := None\<rparr>) r (d @ [b])"
    and "\<not> pr_setDecision p \<Longrightarrow> slot_ok (p\<lparr>pr_setDecision := True\<rparr>) r d"
  using assms by (auto simp: slot_ok_def drained_def)

lemma nth_list_upd: "xs[i := x] ! j = (if i = j \<and> j < length xs then x else xs ! j)"
  by (cases "i < length xs") (auto simp: nth_list_update list_update_beyond)

lemma decide_request_cases:
  assumes "decide_request a b ch sd rm s = (r, s')"
  obtains (same) "r \<noteq> Recorded" "s' = s"
  | (new) "r = Recorded" "\<not> pr_setDecision (ta_store s ! a)" "rm \<longrightarrow> requester_matches ch sd (pr_Request (ta_store s ! a))"
      "s' = s\<lparr>ta_store := (ta_store s)[a := (ta_store s ! a)\<lparr>pr_setDecision := True, pr_decisionChan := Some b\<rparr>]\<rparr>"
  using assms by (auto simp: decide_request_def Let_def split: if_splits)

lemma slot_ok_fresh: "\<not> pr_setDecision p \<Longrightarrow> pr_decisionChan p = None \<Longrightarrow> slot_ok p [] []"
  by (simp add: slot_ok_def)

lemma delivered_snoc_mono: "set (delivered a es) \<subseteq> set (delivered a (es @ [e]))"
  by (auto simp: delivered_def List.map_filter_def)

text \<open>One step keeps the invariant when it keeps the requests, the slots and the goroutine that moved.\<close>

lemma approval_inv_update:
  fixes es s ps e s' ps'
  defines "n \<equiv> length (ta_store s)" and "n' \<equiv> length (ta_store s')" and "d \<equiv> \<lambda>a. delivered a (es @ [e])"
  assumes inv: "approval_inv (es, s, ps)" and "n \<le> n'"
    and pend: "\<forall>ka \<in> set (ta_pending s'). snd ka < n'"
    and procs: "\<forall>j. ps' j = ps j \<or> proc_ok n' d (ps' j)"
    and slots: "\<forall>a < n'. slot_ok (ta_store s' ! a) (recorded a (es @ [e])) (d a)"
    and beyond: "\<forall>a \<ge> n'. recorded a (es @ [e]) = [] \<and> d a = []"
    and reqs: "\<forall>a < n. pr_Request (ta_store s' ! a) = pr_Request (ta_store s ! a)"
    and recs: "\<forall>a. \<forall>b \<in> set (recorded a (es @ [e])). b \<in> set (recorded a es) \<or> authorized_decision a b s' (es @ [e])"
  shows "approval_inv (es @ [e], s', ps')"
proof -
  from inv have old: "\<forall>i. proc_ok n (\<lambda>a. delivered a es) (ps i)" "\<forall>a \<ge> n. recorded a es = []"
    "\<forall>a. \<forall>b \<in> set (recorded a es). authorized_decision a b s es"
    by (auto simp: approval_inv_def n_def)
  have "\<forall>i. proc_ok n' d (ps' i)"
  proof
    fix i
    from old(1) have "proc_ok n (\<lambda>a. delivered a es) (ps i)" ..
    then have "proc_ok n' d (ps i)"
      by (rule proc_ok_mono) (auto simp: d_def \<open>n \<le> n'\<close> delivered_snoc_mono[THEN subsetD])
    with procs show "proc_ok n' d (ps' i)" by metis
  qed
  moreover have "authorized_decision a b s' (es @ [e])" if "b \<in> set (recorded a (es @ [e]))" for a b
  proof (cases "b \<in> set (recorded a es)")
    case True
    with old(2) have "a < n" by (metis empty_iff empty_set not_le_imp_less)
    with True old(3) reqs show ?thesis by (meson recorded_authorized_mono)
  next
    case False
    with recs that show ?thesis by blast
  qed
  ultimately show ?thesis using pend slots beyond unfolding approval_inv_def n'_def d_def by simp
qed

lemma approval_inv_step:
  assumes inv: "approval_inv (es, st)" and step: "approval_step st e st'"
  shows "approval_inv (es @ [e], st')"
proof -
  obtain s ps s' ps' where st: "st = (s, ps)" and st': "st' = (s', ps')" by (cases st; cases st') auto
  note inv' = inv[unfolded st]
  from inv' have pend: "\<And>k a. (k, a) \<in> set (ta_pending s) \<Longrightarrow> a < length (ta_store s)"
    and procs: "\<And>i. proc_ok (length (ta_store s)) (\<lambda>a. delivered a es) (ps i)"
    and slots: "\<And>a. a < length (ta_store s) \<Longrightarrow> slot_ok (ta_store s ! a) (recorded a es) (delivered a es)"
    and beyond: "\<And>a. a \<ge> length (ta_store s) \<Longrightarrow> recorded a es = [] \<and> delivered a es = []"
    by (fastforce simp: approval_inv_def)+
  have del: "(k, a) \<in> set (ta_pending (delete_pending x s)) \<Longrightarrow> (k, a) \<in> set (ta_pending s)" for k a x
    by (auto simp: delete_pending_def AList.delete_eq)
  from step[unfolded st st'] show ?thesis unfolding st'
  proof (cases rule: approval_step.cases)
    case (create uuid now ses ch sd tool args timeout action mut summary req)
    have upd: "(k, a) \<in> set (AList.update x n al) \<Longrightarrow> (k, a) \<in> set al \<or> a = n" for k a x n and al :: "(string \<times> nat) list"
      by (induction al) (auto split: if_splits)
    from create show "approval_inv (es @ [e], s', ps')"
      by (intro approval_inv_update[OF inv'])
        (auto simp: approval_Create_def Let_def nth_append slots beyond slot_ok_fresh less_Suc_eq dest!: upd pend)
  next
    case (try_found i k a approved ch sd rm)
    then show "approval_inv (es @ [e], s', ps')"
      by (intro approval_inv_update[OF inv']) (auto simp: slots beyond pend dest: map_of_SomeD)
  next
    case (wait_found i k a)
    then show "approval_inv (es @ [e], s', ps')"
      by (intro approval_inv_update[OF inv']) (auto simp: slots beyond pend dest: map_of_SomeD)
  next
    case (decide i a approved ch sd rm r)
    with procs[of i] have a: "a < length (ta_store s)" by simp
    from decide(4) show "approval_inv (es @ [e], s', ps')"
    proof (cases rule: decide_request_cases)
      case same
      with decide(1-3) show ?thesis unfolding same(2)
        by (intro approval_inv_update[OF inv']) (auto simp: slots beyond pend)
    next
      case new
      have "authorized_decision a approved s' (es @ [e])"
        unfolding authorized_decision_def using new decide(1) a
        by (intro exI[of _ i] exI[of _ ch] exI[of _ sd] exI[of _ rm]) (simp add: nth_list_upd)
      with decide(1-3) a slot_ok_steps(2)[OF slots[OF a] new(2)] new(1,4) show ?thesis
        by (intro approval_inv_update[OF inv']) (auto simp: slots beyond nth_list_upd dest: pend)
    qed
  next
    case (receive i a b)
    with procs[of i] have a: "a < length (ta_store s)" by simp
    from receive(4) have b: "pr_decisionChan (ta_store s ! a) = Some b"
      and s': "s' = s\<lparr>ta_store := (ta_store s)[a := (ta_store s ! a)\<lparr>pr_decisionChan := None\<rparr>]\<rparr>"
      by (auto simp: receive_decision_def split: option.splits)
    from receive(1-3) a slot_ok_steps(3)[OF slots[OF a] b] show "approval_inv (es @ [e], s', ps')"
      by (intro approval_inv_update[OF inv']) (auto simp: s' slots beyond nth_list_upd dest: pend)
  next
    case (drain i a b)
    with procs[of i] have a: "a < length (ta_store s)" by simp
    from drain(4) have b: "pr_decisionChan (ta_store s ! a) = Some b"
      and s': "s' = s\<lparr>ta_store := (ta_store s)[a := (ta_store s ! a)\<lparr>pr_decisionChan := None\<rparr>]\<rparr>"
      by (auto simp: receive_decision_def split: option.splits)
    from drain(1-3) a slot_ok_steps(3)[OF slots[OF a] b] show "approval_inv (es @ [e], s', ps')"
      by (intro approval_inv_update[OF inv']) (auto simp: s' slots beyond nth_list_upd wait_result_def dest: pend)
  next
    case (remove i a b)
    with procs[of i] show "approval_inv (es @ [e], s', ps')"
      by (intro approval_inv_update[OF inv']) 
        (auto simp: slots beyond wait_result_def dest!: del pend, auto simp: delete_pending_def slots beyond)
  next
    case (timer i a)
    with procs[of i] show "approval_inv (es @ [e], s', ps')"
      by (intro approval_inv_update[OF inv']) 
        (auto simp: slots beyond dest!: del pend, auto simp: delete_pending_def slots beyond)
  next
    case (cancel i a hasCanceled)
    with procs[of i] have a: "a < length (ta_store s)" by simp
    show "approval_inv (es @ [e], s', ps')"
    proof (cases hasCanceled)
      case True
      with cancel a show ?thesis
        by (intro approval_inv_update[OF inv'])
          (auto simp: cancel_once_def Let_def slots beyond pend nth_list_update slot_ok_steps split: if_splits)
    next
      case False
      with cancel(4) have same: "s' = s" by (simp add: cancel_once_def Let_def split: if_splits)
      from False cancel(1-3) a show ?thesis unfolding same
        by (intro approval_inv_update[OF inv']) (auto simp: slots beyond pend)
    qed
  next
    case (list now ch sd result)
    with list_loop_forgets[of now ch sd "ta_pending s" s result s']
    have "set (ta_pending s') \<subseteq> set (ta_pending s)" "list_all2 drained (ta_store s) (ta_store s')"
      by (auto simp: ListPending_def)
    moreover from this have "length (ta_store s') = length (ta_store s)"
      "\<And>a. a < length (ta_store s) \<Longrightarrow> drained (ta_store s ! a) (ta_store s' ! a)"
      by (auto simp: list_all2_conv_all_nth)
    moreover from this have "\<And>a. a < length (ta_store s) \<Longrightarrow> pr_Request (ta_store s' ! a) = pr_Request (ta_store s ! a)"
      by (fastforce simp: drained_def)
    ultimately show "approval_inv (es @ [e], s', ps')" using list
      by (intro approval_inv_update[OF inv']) (auto simp: beyond dest!: pend intro: slot_ok_steps(1) slots)
  next
    case (select i a)
    with procs[of i] show "approval_inv (es @ [e], s', ps')"
      by (intro approval_inv_update[OF inv']) (auto simp: slots beyond pend)
  next
    case (ctx_done i a)
    then show "approval_inv (es @ [e], s', ps')"
      by (intro approval_inv_update[OF inv']) (auto simp: slots beyond pend)
  next
    case (try_missing i k)
    then show "approval_inv (es @ [e], s', ps')"
      by (intro approval_inv_update[OF inv']) (auto simp: slots beyond pend)
  next
    case (wait_missing i k)
    then show "approval_inv (es @ [e], s', ps')"
      by (intro approval_inv_update[OF inv']) (auto simp: slots beyond pend)
  qed
qed

text \<open>The service together with the run so far is an instance of the machine with an invariant.\<close>

definition hist_init :: "approval_event list \<times> approval_state \<Rightarrow> bool" where
  "hist_init h \<longleftrightarrow> fst h = [] \<and> approval_init (snd h)"

definition hist_step :: "approval_event list \<times> approval_state \<Rightarrow> approval_event \<Rightarrow> approval_event list \<times> approval_state \<Rightarrow> bool" where
  "hist_step h e h' \<longleftrightarrow> fst h' = fst h @ [e] \<and> approval_step (snd h) e (snd h')"

interpretation approvals: invariant_machine hist_init hist_step approval_inv
proof
  fix h assume "hist_init h"
  then show "approval_inv h"
    by (cases h) (auto simp: hist_init_def approval_init_def approval_inv_def NewToolApprovalService_def
        recorded_def delivered_def List.map_filter_def)
next
  fix h e h' assume "approval_inv h" "hist_step h e h'"
  then show "approval_inv h'" using approval_inv_step[of "fst h" "snd h" e "snd h'"] by (cases h') (auto simp: hist_step_def)
qed

lemma hist_steps: "steps approval_step st es st' \<Longrightarrow> steps hist_step (es0, st) es (es0 @ es, st')"
proof (induction arbitrary: es0 rule: steps.induct)
  case (steps_refl st)
  show ?case by (simp add: steps.steps_refl)
next
  case (steps_step st e st' es st'')
  then have "hist_step (es0, st) e (es0 @ [e], st')" by (simp add: hist_step_def)
  with steps_step.IH[of "es0 @ [e]"] show ?case by (auto intro: steps.steps_step)
qed

lemma approval_reachable:
  assumes "approval_init st0" "steps approval_step st0 es st"
  shows "approval_inv (es, st)"
  using approvals.inv_reachable[of "([], st0)" es "(es, st)"] hist_steps[OF assms(2), of "[]"] assms(1)
  by (simp add: hist_init_def)

text \<open>C19: No approval without a decision, and no decision twice. In every interleaving of any number of
  goroutines that create, decide, wait, list and time out, a waiter is told \<open>Approved\<close> only if an
  approving decision of this very request was recorded by a caller who passed the test of the requester
  where it was asked for; at most one decision is recorded per request, and what its waiters receive is
  that decision, at most once.\<close>

theorem approved_only_by_decision:
  assumes "approval_init st0" "steps approval_step st0 es (s, ps)"
  shows "(\<forall>i a. ps i = Waited Approved a \<longrightarrow> (\<exists>a'. a = Some a' \<and> authorized_decision a' True s es)) \<and>
    (\<forall>a. length (recorded a es) \<le> 1 \<and> (delivered a es = [] \<or> delivered a es = recorded a es))"
proof -
  from approval_reachable[OF assms] have inv: "approval_inv (es, s, ps)" .
  have del: "length (recorded a es) \<le> 1 \<and> (delivered a es = [] \<or> delivered a es = recorded a es)" for a
    using inv by (cases "a < length (ta_store s)") (auto simp: approval_inv_def slot_ok_def)
  moreover have "\<exists>a'. a = Some a' \<and> authorized_decision a' True s es" if "ps i = Waited Approved a" for i a
  proof -
    from inv have "proc_ok (length (ta_store s)) (\<lambda>a. delivered a es) (ps i)" by (simp add: approval_inv_def)
    with that obtain a' where a: "a = Some a'" "True \<in> set (delivered a' es)" by auto
    with del[of a'] have "True \<in> set (recorded a' es)" by auto
    with inv a(1) show ?thesis by (auto simp: approval_inv_def)
  qed
  ultimately show ?thesis by blast
qed

subsection \<open>A decision that is lost\<close>

text \<open>A goroutine waits for a channel whose only value was taken out by somebody else.\<close>

definition lost_wait :: "nat \<Rightarrow> nat \<Rightarrow> approval_state \<Rightarrow> bool" where
  "lost_wait i a st \<longleftrightarrow> (case st of (s, ps) \<Rightarrow> ps i = Draining a \<and> a < length (ta_store s) \<and>
     pr_setDecision (ta_store s ! a) \<and> pr_decisionChan (ta_store s ! a) = None)"

definition blocked_for_ever :: "nat \<Rightarrow> nat \<Rightarrow> approval_state \<Rightarrow> bool" where
  "blocked_for_ever i a st \<longleftrightarrow> (\<forall>es st'. steps approval_step st es st' \<longrightarrow> snd st' i = Draining a)"

lemma lost_wait_step:
  assumes "lost_wait i a st" "approval_step st e st'"
  shows "lost_wait i a st'"
proof -
  obtain s ps where st: "st = (s, ps)" by force
  from assms(2)[unfolded st] show ?thesis
  proof (cases rule: approval_step.cases)
    case (list now ch sd result s')
    with list_loop_forgets[of now ch sd "ta_pending s" s result s']
    have "length (ta_store s') = length (ta_store s)"
      "\<And>a. a < length (ta_store s) \<Longrightarrow> drained (ta_store s ! a) (ta_store s' ! a)"
      by (auto simp: ListPending_def list_all2_conv_all_nth)
    with list assms(1) show ?thesis by (fastforce simp: lost_wait_def st drained_def)
  qed (use assms(1) in \<open>auto simp: lost_wait_def st approval_Create_def Let_def nth_append decide_request_def
      receive_decision_def cancel_once_def delete_pending_def nth_list_upd split: if_splits option.splits\<close>)
qed

lemma lost_wait_blocks:
  assumes "lost_wait i a st"
  shows "blocked_for_ever i a st"
proof -
  have "lost_wait i a st'" if "steps approval_step st es st'" for es st'
    using that assms by (induction rule: steps.induct) (auto intro: lost_wait_step)
  then show ?thesis by (auto simp: blocked_for_ever_def lost_wait_def)
qed

text \<open>A run in which an operator approves, a listing reads the channel, and the waiter's timer fires.\<close>

definition example_approval :: "ToolApprovalRequest \<times> ToolApprovalService" where
  "example_approval = approval_Create ''00'' 0 ''s'' ''sms'' ''ann'' ''shell'' ''{}'' 60 [] True [] NewToolApprovalService"

definition lost_run :: "approval_event list" where
  "lost_run = [EvCreate 0 (fst example_approval), EvWaitLookup 1 ''apr_00'', EvTryLookup 2 ''apr_00'',
     EvDecide 2 0 True ''sms'' ''ann'' True Recorded, EvList 1 [] [], EvSelect 1, EvTimer 1, EvCancel 1 0]"

lemma ex_TrimSpace: "TrimSpace ''sms'' = ''sms''" "TrimSpace ''ann'' = ''ann''"
  by code_simp+

lemma lost_run_steps:
  "\<exists>st. steps approval_step (NewToolApprovalService, \<lambda>_. Idle) lost_run st \<and> lost_wait 1 0 st"
proof -
  define p where "p = ta_store (snd example_approval) ! 0"
  let ?s1 = "\<lparr>ta_store = [p], ta_pending = [(''apr_00'', 0)]\<rparr>"
  let ?s2 = "?s1\<lparr>ta_store := [p\<lparr>pr_setDecision := True, pr_decisionChan := Some True\<rparr>]\<rparr>"
  let ?s3 = "?s1\<lparr>ta_store := [p\<lparr>pr_setDecision := True, pr_decisionChan := None\<rparr>], ta_pending := []\<rparr>"
  let ?d = "Deciding 0 True ''sms'' ''ann'' True"
  note defs = example_approval_def approval_Create_def NewToolApprovalService_def Let_def
  have s1: "snd example_approval = ?s1" and p: "pr_setDecision p = False"
    "pr_decisionChan p = None" "pr_ExpiresAt p = 60" "tr_ChannelId (pr_Request p) = ''sms''"
    "tr_SenderId (pr_Request p) = ''ann''" "tr_ApprovalId (pr_Request p) = ''apr_00''"
    by (simp_all add: p_def defs)
  have "steps approval_step (NewToolApprovalService, \<lambda>_. Idle) lost_run
     (?s3, (\<lambda>_. Idle)(1 := Draining 0, 2 := Decided Recorded))"
    unfolding lost_run_def
  proof (intro steps.steps_step)
    show "approval_step (NewToolApprovalService, \<lambda>_. Idle) (EvCreate 0 (fst example_approval)) (?s1, \<lambda>_. Idle)"
      using approval_step.create[of "''00''" 0 "''s''" "''sms''" "''ann''" "''shell''" "''{}''" 60 "[]" True "[]"
          NewToolApprovalService "fst example_approval" "snd example_approval" "\<lambda>_. Idle"]
      unfolding s1[symmetric] by (simp add: example_approval_def NewToolApprovalService_def)
    show "approval_step (?s1, \<lambda>_. Idle) (EvWaitLookup 1 ''apr_00'') (?s1, (\<lambda>_. Idle)(1 := Found 0))"
      by (rule approval_step.wait_found) (simp_all add: p)
    show "approval_step (?s1, (\<lambda>_. Idle)(1 := Found 0)) (EvTryLookup 2 ''apr_00'') (?s1, (\<lambda>_. Idle)(1 := Found 0, 2 := ?d))"
      by (rule approval_step.try_found) (simp_all add: p)
    show "approval_step (?s1, (\<lambda>_. Idle)(1 := Found 0, 2 := ?d)) (EvDecide 2 0 True ''sms'' ''ann'' True Recorded)
       (?s2, (\<lambda>_. Idle)(1 := Found 0, 2 := Decided Recorded))"
      using approval_step.decide[of "(\<lambda>_. Idle)(1 := Found 0, 2 := ?d)" 2 0 True "''sms''" "''ann''" True ?s1 Recorded ?s2]
      by (simp add: decide_request_def requester_matches_def Let_def p ex_TrimSpace)
    show "approval_step (?s2, (\<lambda>_. Idle)(1 := Found 0, 2 := Decided Recorded)) (EvList 1 [] [])
       (?s3, (\<lambda>_. Idle)(1 := Found 0, 2 := Decided Recorded))"
      by (rule approval_step.list[of _ _ _ _ "[]"])
        (simp add: ListPending_def Let_def receive_decision_def delete_pending_def p AList.delete_eq)
    show "approval_step (?s3, (\<lambda>_. Idle)(1 := Found 0, 2 := Decided Recorded)) (EvSelect 1)
       (?s3, (\<lambda>_. Idle)(1 := Selecting 0, 2 := Decided Recorded))"
      using approval_step.select[of "(\<lambda>_. Idle)(1 := Found 0, 2 := Decided Recorded)" 1 0 ?s3]
      by (simp add: fun_upd_twist)
    show "approval_step (?s3, (\<lambda>_. Idle)(1 := Selecting 0, 2 := Decided Recorded)) (EvTimer 1)
       (?s3, (\<lambda>_. Idle)(1 := TimerFired 0, 2 := Decided Recorded))"
      using approval_step.timer[of "(\<lambda>_. Idle)(1 := Selecting 0, 2 := Decided Recorded)" 1 0 ?s3]
      by (simp add: fun_upd_twist delete_pending_def AList.delete_eq)
    show "approval_step (?s3, (\<lambda>_. Idle)(1 := TimerFired 0, 2 := Decided Recorded)) (EvCancel 1 0)
       (?s3, (\<lambda>_. Idle)(1 := Draining 0, 2 := Decided Recorded))"
      using approval_step.cancel[of "(\<lambda>_. Idle)(1 := TimerFired 0, 2 := Decided Recorded)" 1 0 ?s3 False ?s3]
      by (simp add: fun_upd_twist cancel_once_def Let_def)
  qed (rule steps.steps_refl)
  moreover have "lost_wait 1 0 (?s3, (\<lambda>_. Idle)(1 := Draining 0, 2 := Decided Recorded))"
    by (simp add: lost_wait_def)
  ultimately show ?thesis by blast
qed

text \<open>A recorded approval can be lost, and its waiter blocked for ever. There is a run of the service in
  which the approval of a request is recorded, a listing of the pending requests then takes the decision
  out of the channel, and the waiter, whose timer fires later, waits for that decision in every
  continuation of the run.\<close>

theorem listing_loses_decision:
  "\<exists>es st. steps approval_step (NewToolApprovalService, \<lambda>_. Idle) es st \<and>
     EvDecide 2 0 True ''sms'' ''ann'' True Recorded \<in> set es \<and> blocked_for_ever 1 0 st"
  using lost_run_steps lost_wait_blocks by (fastforce simp: lost_run_def)

lemma approved_only_by_decision_witness:
  "\<exists>s ps. steps approval_step (NewToolApprovalService, \<lambda>_. Idle) lost_run (s, ps) \<and>
     length (recorded 0 lost_run) \<le> 1"
proof -
  obtain s ps where run: "steps approval_step (NewToolApprovalService, \<lambda>_. Idle) lost_run (s, ps)"
    using lost_run_steps by (metis surj_pair)
  with approved_only_by_decision[OF _ run] show ?thesis by (auto simp: approval_init_def)
qed

end
