(* ===== verification/Meta_Graph.thy ===== *)
theory Meta_Graph
  imports Go_Json "HOL-Library.AList"
begin

section \<open>The step graph of a meta skill\<close>

text \<open>
  A meta skill is a graph of steps: each waits for the outputs of the steps it depends on, may have a
  fallback for its failure, and may choose one of several targets when it is done. The data are those of
  \<open>src/openclaw/core/skills_meta.go\<close>; the validation of a graph, the index of dependents and the
  blocking of steps are those of \<open>src/openclaw/agent/agent_runtime.go\<close>. Go maps from step
  identifiers are functions or association lists, and the sets of blocked and pending steps are sets.
\<close>

subsection \<open>Data\<close>

record MetaRouteDefinition =
  mr_When :: string
  mr_To :: string

record MetaStepRetryPolicy =
  rp_MaxAttempts :: int
  rp_BackoffMs :: int

record MetaStepOutputContract =
  oc_Format :: string
  oc_RequiredProperties :: "string list"

record MetaClarifyField =
  cf_Name :: string
  cf_Type :: string
  cf_Required :: bool
  cf_DefaultValue :: "json option"
  cf_Options :: "string list"
  cf_MinLength :: "int option"
  cf_MaxLength :: "int option"
  cf_Min :: "rat option"
  cf_Max :: "rat option"

record MetaClarifySchema =
  cl_Mode :: string
  cl_Fields :: "MetaClarifyField list"
  cl_CancelWords :: "string list"
  cl_SkipIf :: string
  cl_TimeoutSeconds :: "int option"

text \<open>The fields of a step that the modelled code reads. The template of a fan-out step is not one of them.\<close>

record MetaSkillStepDefinition =
  ms_Id :: string
  ms_Kind :: string
  ms_Skill :: string
  ms_Tool :: string
  ms_SkillExecEntrypoint :: string
  ms_CapabilityRef :: bool   \<comment> \<open>whether a capability reference is given\<close>
  ms_SkillExecArgs :: "string list"
  ms_SkillExecStdin :: string
  ms_SkillExecCwd :: string
  ms_WithJSON :: string
  ms_When :: string
  ms_ToolArgsJSON :: string
  ms_ToolAllowlist :: "string list"
  ms_OutputChoices :: "string list"
  ms_Clarify :: "MetaClarifySchema option"
  ms_Routes :: "MetaRouteDefinition list"
  ms_DependsOn :: "string list"
  ms_OnFailure :: string
  ms_TimeoutSeconds :: "int option"
  ms_Retry :: "MetaStepRetryPolicy option"
  ms_OutputContract :: "MetaStepOutputContract option"

type_synonym meta_step = MetaSkillStepDefinition

datatype SkillKind = SkillKind_Standard | SkillKind_Meta

record MetaSkillComposition =
  co_ToolArgsJson :: string
  co_Steps :: "meta_step list"

record SkillDefinition =
  sk_Name :: string
  sk_Kind :: SkillKind
  sk_Capabilities :: "string list"   \<comment> \<open>\<open>Metadata.Capabilities\<close>\<close>
  sk_FinalTextMode :: string
  sk_Composition :: "MetaSkillComposition option"
  sk_DisableModelInvocation :: bool

text \<open>\<open>stepById\<close> is filled in the order of the list, so a later step replaces an earlier one of its name.\<close>

definition stepById :: "meta_step list \<Rightarrow> string \<Rightarrow> meta_step option" where
  "stepById plan sid = find (\<lambda>s. ms_Id s = sid) (rev plan)"

definition deps_of :: "meta_step list \<Rightarrow> string \<Rightarrow> string list" where
  "deps_of plan sid = (case stepById plan sid of None \<Rightarrow> [] | Some s \<Rightarrow> ms_DependsOn s)"

lemma stepById_Some: "stepById plan sid = Some s \<Longrightarrow> s \<in> set plan \<and> ms_Id s = sid"
  unfolding stepById_def by (metis (mono_tags, lifting) find_Some_iff nth_mem set_rev)

lemma stepById_None: "stepById plan sid = None \<longleftrightarrow> sid \<notin> ms_Id ` set plan"
  unfolding stepById_def by (auto simp: find_None_iff)

lemma deps_of_ids: "deps_of plan sid \<noteq> [] \<Longrightarrow> sid \<in> ms_Id ` set plan"
  using stepById_None[of plan sid] by (cases "stepById plan sid") (auto simp: deps_of_def)

subsection \<open>Search for dependency cycles\<close>

text \<open>
  \<open>dfs_any\<close> is \<open>slices.ContainsFunc(ids, dfs)\<close> with the states the closure \<open>dfs\<close> has recorded so far:
  1 for a step that is being visited, 2 for one that is done. It returns whether a cycle was met and the
  new states.
\<close>

function dfs_any :: "meta_step list \<Rightarrow> (string \<Rightarrow> int option) \<Rightarrow> string list \<Rightarrow> bool \<times> (string \<Rightarrow> int option)" where
  "dfs_any plan st [] = (False, st)"
| "dfs_any plan st (sid # ids) =
     (let (found, st') =
        (case st sid of
           Some currentState \<Rightarrow> (currentState = 1, st)
         | None \<Rightarrow>
             (case dfs_any plan (st(sid \<mapsto> 1)) (deps_of plan sid) of
                (True, s1) \<Rightarrow> (True, s1)
              | (False, s1) \<Rightarrow> (False, s1(sid \<mapsto> 2))))
      in if found then (True, st') else dfs_any plan st' ids)"
  by pat_completeness auto

lemma dfs_any_grows:
  "dfs_any_dom (plan, st, ids) \<Longrightarrow> dom st \<subseteq> dom (snd (dfs_any plan st ids))"
proof (induction rule: dfs_any.pinduct)
  case (2 plan st sid ids)
  obtain b s1 where s1: "dfs_any plan (st(sid \<mapsto> 1)) (deps_of plan sid) = (b, s1)" by force
  define r where "r = (case st sid of Some c \<Rightarrow> (c = 1, st)
    | None \<Rightarrow> (case dfs_any plan (st(sid \<mapsto> 1)) (deps_of plan sid) of
        (True, s1) \<Rightarrow> (True, s1) | (False, s1) \<Rightarrow> (False, s1(sid \<mapsto> 2))))"
  have r: "dfs_any plan st (sid # ids) = (if fst r then (True, snd r) else dfs_any plan (snd r) ids)"
    unfolding dfs_any.psimps(2)[OF 2(1)] r_def[symmetric] Let_def by (simp only: split_beta)
  have grows: "dom st \<subseteq> dom (snd r)"
  proof (cases "st sid")
    case None
    from 2(2)[OF None] have "dom (st(sid \<mapsto> 1)) \<subseteq> dom s1" by (simp only: s1 snd_conv)
    with None s1 show ?thesis by (cases b) (auto simp: r_def)
  qed (simp add: r_def)
  show ?case
  proof (cases "fst r")
    case False
    from 2(3)[OF r_def _ False, of "snd r"] have "dom (snd r) \<subseteq> dom (snd (dfs_any plan (snd r) ids))" by simp
    with grows r False show ?thesis by (simp add: order_trans)
  qed (use r grows in simp)
qed (simp add: dfs_any.psimps)

termination dfs_any
proof (relation "inv_image (finite_psubset <*lex*> measure length)
    (\<lambda>(plan, st, ids). (ms_Id ` set plan - dom st, if ids = [] then [] else ids))", goal_cases)
  case 1
  show ?case by (intro wf_inv_image wf_lex_prod wf_finite_psubset wf_measure)
next
  case (2 plan st sid ids)
  show ?case
  proof (cases "sid \<in> ms_Id ` set plan")
    case True
    with 2 show ?thesis by (auto simp: finite_psubset_def)
  next
    case False
    then have "deps_of plan sid = []" using deps_of_ids by blast
    with False 2 show ?thesis by (auto simp: finite_psubset_def)
  qed
next
  case (3 plan st sid ids res found st')
  have "dom st \<subseteq> dom st'"
  proof (cases "st sid")
    case None
    obtain b s1 where s1: "dfs_any plan (st(sid \<mapsto> 1)) (deps_of plan sid) = (b, s1)" by force
    from dfs_any_grows[of plan "st(sid \<mapsto> 1)" "deps_of plan sid"] 3 None
    have "dom (st(sid \<mapsto> 1)) \<subseteq> dom s1" by (simp only: s1 snd_conv option.case)
    with 3 None s1 show ?thesis by (cases b) auto
  qed (use 3 in auto)
  with 3 show ?case by (auto simp: finite_psubset_def)
qed

declare dfs_any.simps(2) [simp del]

text \<open>The loop over all steps; \<open>dfs(step.Id)\<close> is \<open>dfs_any\<close> on that one name.\<close>

fun cycle_loop :: "meta_step list \<Rightarrow> (string \<Rightarrow> int option) \<Rightarrow> meta_step list \<Rightarrow> bool" where
  "cycle_loop plan st [] = False"
| "cycle_loop plan st (s # todo) =
     (if st (ms_Id s) = Some 2 then cycle_loop plan st todo
      else (case dfs_any plan st [ms_Id s] of
              (True, st') \<Rightarrow> True
            | (False, st') \<Rightarrow> cycle_loop plan st' todo))"

definition HasDependencyCycle :: "meta_step list \<Rightarrow> bool" where
  "HasDependencyCycle plan = cycle_loop plan (\<lambda>_. None) plan"

lemma dfs_any_cases:
  obtains (seen) c where "st sid = Some c"
      "dfs_any plan st (sid # ids) = (if c = 1 then (True, st) else dfs_any plan st ids)"
  | (found) s1 where "st sid = None" "dfs_any plan (st(sid \<mapsto> 1)) (deps_of plan sid) = (True, s1)"
      "dfs_any plan st (sid # ids) = (True, s1)"
  | (finished) s1 where "st sid = None" "dfs_any plan (st(sid \<mapsto> 1)) (deps_of plan sid) = (False, s1)"
      "dfs_any plan st (sid # ids) = dfs_any plan (s1(sid \<mapsto> 2)) ids"
proof (cases "st sid")
  case None
  obtain b s1 where "dfs_any plan (st(sid \<mapsto> 1)) (deps_of plan sid) = (b, s1)" by force
  with None that(2,3) show ?thesis by (cases b) (simp_all add: dfs_any.simps(2))
next
  case (Some c)
  with that(1) show ?thesis by (simp add: dfs_any.simps(2))
qed

text \<open>
  The relation of the graph. The states are right when every finished step has finished dependencies only
  and lies on no cycle; a search that finds nothing keeps the steps being visited and finishes its list,
  and one that finds something has met a step being visited again.
\<close>

definition dep_rel :: "meta_step list \<Rightarrow> (string \<times> string) set" where
  "dep_rel plan = {(x, y). y \<in> set (deps_of plan x)}"

definition states_ok :: "meta_step list \<Rightarrow> (string \<Rightarrow> int option) \<Rightarrow> bool" where
  "states_ok plan st \<longleftrightarrow> (\<forall>x c. st x = Some c \<longrightarrow> c \<in> {1, 2}) \<and>
     (\<forall>x y. st x = Some 2 \<longrightarrow> (x, y) \<in> dep_rel plan \<longrightarrow> st y = Some 2) \<and>
     (\<forall>x. st x = Some 2 \<longrightarrow> (x, x) \<notin> (dep_rel plan)\<^sup>+)"

lemma finished_closed:
  "(x, y) \<in> (dep_rel plan)\<^sup>+ \<Longrightarrow> states_ok plan st \<Longrightarrow> st x = Some 2 \<Longrightarrow> st y = Some 2"
  by (induction rule: trancl_induct) (auto simp: states_ok_def)

lemma states_ok_finish:
  assumes ok: "states_ok plan s1" and sid: "s1 sid = Some 1" and deps: "\<forall>y \<in> set (deps_of plan sid). s1 y = Some 2"
  shows "states_ok plan (s1(sid \<mapsto> 2))"
proof -
  have "(sid, sid) \<notin> (dep_rel plan)\<^sup>+"
  proof
    assume "(sid, sid) \<in> (dep_rel plan)\<^sup>+"
    then obtain y where "(sid, y) \<in> dep_rel plan" "(y, sid) \<in> (dep_rel plan)\<^sup>*" by (meson tranclD)
    with deps have "s1 y = Some 2" by (auto simp: dep_rel_def)
    with \<open>(y, sid) \<in> (dep_rel plan)\<^sup>*\<close> ok sid show False
      using finished_closed[of y sid plan s1] by (auto simp: rtrancl_eq_or_trancl)
  qed
  with ok deps show ?thesis by (auto simp: states_ok_def dep_rel_def)
qed

lemma dfs_any_False:
  "dfs_any plan st ids = (False, st') \<Longrightarrow> states_ok plan st \<Longrightarrow>
   states_ok plan st' \<and> (\<forall>x. st' x = Some 1 \<longleftrightarrow> st x = Some 1) \<and> (\<forall>x. st x = Some 2 \<longrightarrow> st' x = Some 2) \<and>
   (\<forall>x \<in> set ids. st' x = Some 2)"
proof (induction plan st ids arbitrary: st' rule: dfs_any.induct)
  case (2 plan st sid ids)
  show ?case
  proof (cases rule: dfs_any_cases[of st sid plan ids])
    case (seen c)
    with 2(3,4) have c: "c = 2" "dfs_any plan st ids = (False, st')" by (auto simp: states_ok_def split: if_splits)
    with 2(2)[OF refl, of False st st'] seen(1) 2(4) show ?thesis by auto
  next
    case (found s1)
    with 2(3) show ?thesis by simp
  next
    case (finished s1)
    have ok1: "states_ok plan (st(sid \<mapsto> 1))" using 2(4) finished(1) by (auto simp: states_ok_def)
    note inner = 2(1)[OF finished(1,2) ok1]
    then have fin: "states_ok plan (s1(sid \<mapsto> 2))" by (intro states_ok_finish) auto
    from finished(3) 2(3) have run: "dfs_any plan (s1(sid \<mapsto> 2)) ids = (False, st')" by simp
    have outer: "states_ok plan st' \<and> (\<forall>x. st' x = Some 1 \<longleftrightarrow> (s1(sid \<mapsto> 2)) x = Some 1) \<and>
      (\<forall>x. (s1(sid \<mapsto> 2)) x = Some 2 \<longrightarrow> st' x = Some 2) \<and> (\<forall>x \<in> set ids. st' x = Some 2)"
      by (rule 2(2)[OF refl _ _ run fin, of False]) (simp_all add: finished(1,2) del: fun_upd_apply)
    have "st' x = Some 1 \<longleftrightarrow> st x = Some 1" for x
      using outer inner finished(1) by (cases "x = sid") auto
    moreover have "st' x = Some 2" if "st x = Some 2" for x
      using outer inner finished(1) that by (cases "x = sid") auto
    ultimately show ?thesis using outer by simp
  qed
qed simp

lemma dfs_any_True:
  "dfs_any plan st ids = (True, st') \<Longrightarrow> states_ok plan st \<Longrightarrow>
   (\<forall>g x. st g = Some 1 \<longrightarrow> x \<in> set ids \<longrightarrow> (g, x) \<in> (dep_rel plan)\<^sup>+) \<Longrightarrow> \<exists>c. (c, c) \<in> (dep_rel plan)\<^sup>+"
proof (induction plan st ids arbitrary: st' rule: dfs_any.induct)
  case (2 plan st sid ids)
  have ok1: "states_ok plan (st(sid \<mapsto> 1))" if "st sid = None" using 2(4) that by (auto simp: states_ok_def)
  show ?case
  proof (cases rule: dfs_any_cases[of st sid plan ids])
    case (seen c)
    show ?thesis
    proof (cases "c = 1")
      case True
      with 2(5) seen(1) show ?thesis by auto
    next
      case False
      with seen 2(3) have "dfs_any plan st ids = (True, st')" by simp
      with 2(2)[OF refl, of False st st'] seen(1) False 2(4,5) show ?thesis by auto
    qed
  next
    case (found s1)
    have "(g, x) \<in> (dep_rel plan)\<^sup>+" if "(st(sid \<mapsto> 1)) g = Some 1" "x \<in> set (deps_of plan sid)" for g x
    proof -
      from that(2) have "(sid, x) \<in> dep_rel plan" by (simp add: dep_rel_def)
      with that(1) 2(5) show ?thesis
        by (cases "g = sid") (auto intro: trancl_into_trancl)
    qed
    with 2(1)[OF found(1,2) ok1[OF found(1)]] show ?thesis by blast
  next
    case (finished s1)
    note inner = dfs_any_False[OF finished(2) ok1[OF finished(1)]]
    then have fin: "states_ok plan (s1(sid \<mapsto> 2))" by (intro states_ok_finish) auto
    from finished(3) 2(3) have run: "dfs_any plan (s1(sid \<mapsto> 2)) ids = (True, st')" by simp
    have "(g, x) \<in> (dep_rel plan)\<^sup>+" if "(s1(sid \<mapsto> 2)) g = Some 1" "x \<in> set ids" for g x
      using that inner 2(5) by (auto split: if_splits)
    then have reach: "\<forall>g x. (s1(sid \<mapsto> 2)) g = Some 1 \<longrightarrow> x \<in> set ids \<longrightarrow> (g, x) \<in> (dep_rel plan)\<^sup>+" by blast
    show ?thesis
      by (rule 2(2)[OF refl _ _ run fin reach, of False]) (simp_all add: finished(1,2) del: fun_upd_apply)
  qed
qed simp

lemma cycle_loop_correct:
  "states_ok plan st \<Longrightarrow> (\<forall>x. st x \<noteq> Some 1) \<Longrightarrow> set todo \<subseteq> set plan \<Longrightarrow>
   (\<forall>s \<in> set plan - set todo. st (ms_Id s) = Some 2) \<Longrightarrow>
   cycle_loop plan st todo \<longleftrightarrow> \<not> acyclic (dep_rel plan)"
proof (induction todo arbitrary: st)
  case Nil
  have "(x, x) \<notin> (dep_rel plan)\<^sup>+" for x
  proof
    assume cyc: "(x, x) \<in> (dep_rel plan)\<^sup>+"
    then obtain y where "(x, y) \<in> dep_rel plan" by (meson tranclD)
    then have "x \<in> ms_Id ` set plan" using deps_of_ids[of plan x] by (cases "deps_of plan x") (auto simp: dep_rel_def)
    with Nil have "st x = Some 2" by auto
    with Nil(1) cyc show False by (auto simp: states_ok_def)
  qed
  then show ?case by (simp add: acyclic_def)
next
  case (Cons s todo)
  show ?case
  proof (cases "st (ms_Id s) = Some 2")
    case True
    have "\<forall>s' \<in> set plan - set todo. st (ms_Id s') = Some 2" using True Cons.prems(4) by auto
    with True Cons.IH[OF Cons.prems(1,2)] Cons.prems(3) show ?thesis by simp
  next
    case False
    obtain b st' where run: "dfs_any plan st [ms_Id s] = (b, st')" by force
    show ?thesis
    proof (cases b)
      case True
      with dfs_any_True[of plan st "[ms_Id s]" st'] run Cons.prems(1,2) have "\<exists>c. (c, c) \<in> (dep_rel plan)\<^sup>+" by simp
      with True run False show ?thesis by (simp add: acyclic_def)
    next
      case b: False
      with dfs_any_False[of plan st "[ms_Id s]" st'] run Cons.prems(1)
      have st': "states_ok plan st'" "\<forall>x. st' x = Some 1 \<longleftrightarrow> st x = Some 1"
        "\<forall>x. st x = Some 2 \<longrightarrow> st' x = Some 2" "st' (ms_Id s) = Some 2" by auto
      moreover from st' Cons.prems(4) have "\<forall>s' \<in> set plan - set todo. st' (ms_Id s') = Some 2" by auto
      ultimately show ?thesis using Cons.IH[of st'] Cons.prems(2,3) run b False by simp
    qed
  qed
qed

text \<open>The search for dependency cycles decides whether there is one: for every list of steps, with
  dangling dependencies, repeated names and self-references as they come, it ends and answers whether the
  relation from a step to the steps it depends on has a cycle.\<close>

theorem cycle_search_correct: "HasDependencyCycle plan \<longleftrightarrow> \<not> acyclic (dep_rel plan)"
  unfolding HasDependencyCycle_def by (rule cycle_loop_correct) (auto simp: states_ok_def)

subsection \<open>Validation of a plan\<close>

text \<open>The errors of \<open>TryValidateMetaPlan\<close>; \<open>None\<close> is the \<open>nil\<close> it returns for a plan it accepts.\<close>

datatype plan_error =
    DuplicateStepId string
  | ComposesMetaSkill string string
  | MissingDependency string string
  | SelfDependency string
  | InvalidFallbackTarget string string
  | InvalidSubstitute string string
  | SharedFallback string string string
  | DependsOnFallback string string
  | DependencyCycle

fun PlanError :: "plan_error \<Rightarrow> string" where
  "PlanError (DuplicateStepId sid) = ''Meta execution graph contains duplicate step id '' @ [CHR 0x27] @ sid @ [CHR 0x27] @ ''.''"
| "PlanError (ComposesMetaSkill name sid) = ''Meta execution graph cannot compose meta skill '' @ [CHR 0x27] @ name
     @ [CHR 0x27] @ '' from step '' @ [CHR 0x27] @ sid @ [CHR 0x27] @ ''.''"
| "PlanError (MissingDependency dep sid) = ''Meta execution graph references missing dependency '' @ [CHR 0x27] @ dep
     @ [CHR 0x27] @ '' from step '' @ [CHR 0x27] @ sid @ [CHR 0x27] @ ''.''"
| "PlanError (SelfDependency sid) = ''Meta execution graph contains self-dependency on step '' @ [CHR 0x27] @ sid @ [CHR 0x27] @ ''.''"
| "PlanError (InvalidFallbackTarget t sid) = ''Meta execution graph references invalid on_failure target '' @ [CHR 0x27] @ t
     @ [CHR 0x27] @ '' from step '' @ [CHR 0x27] @ sid @ [CHR 0x27] @ ''.''"
| "PlanError (InvalidSubstitute t sid) = ''Meta execution graph has invalid on_failure substitute '' @ [CHR 0x27] @ t
     @ [CHR 0x27] @ '' from step '' @ [CHR 0x27] @ sid @ [CHR 0x27] @ ''.''"
| "PlanError (SharedFallback t s1 s2) = ''Meta execution graph fallback step '' @ [CHR 0x27] @ t @ [CHR 0x27] @ '' is shared by steps ''
     @ [CHR 0x27] @ s1 @ [CHR 0x27] @ '' and '' @ [CHR 0x27] @ s2 @ [CHR 0x27] @ ''.''"
| "PlanError (DependsOnFallback sid dep) = ''Meta execution graph step '' @ [CHR 0x27] @ sid @ [CHR 0x27]
     @ '' depends directly on fallback-only step '' @ [CHR 0x27] @ dep @ [CHR 0x27] @ ''.''"
| "PlanError DependencyCycle = ''Meta execution graph contains a dependency cycle.''"

text \<open>A loop that returns the first error of its body.\<close>

primrec first_error :: "('a \<Rightarrow> 'e option) \<Rightarrow> 'a list \<Rightarrow> 'e option" where
  "first_error check [] = None"
| "first_error check (x # xs) = (case check x of Some e \<Rightarrow> Some e | None \<Rightarrow> first_error check xs)"

lemma first_error_None [simp]: "first_error check xs = None \<longleftrightarrow> (\<forall>x \<in> set xs. check x = None)"
  by (induction xs) (auto split: option.splits)

lemma orelse_None [simp]: "(case x of Some e \<Rightarrow> Some e | None \<Rightarrow> y) = None \<longleftrightarrow> x = None \<and> y = None"
  by (cases x) simp_all

primrec duplicate_check :: "string set \<Rightarrow> meta_step list \<Rightarrow> plan_error option" where
  "duplicate_check seen [] = None"
| "duplicate_check seen (s # ss) =
     (if ms_Id s \<in> seen then Some (DuplicateStepId (ms_Id s)) else duplicate_check (insert (ms_Id s) seen) ss)"

lemma duplicate_check_None:
  "duplicate_check seen ss = None \<longleftrightarrow> distinct (map ms_Id ss) \<and> ms_Id ` set ss \<inter> seen = {}"
  by (induction ss arbitrary: seen) auto

definition delegate_check :: "SkillDefinition list \<Rightarrow> meta_step \<Rightarrow> plan_error option" where
  "delegate_check loadedSkills s =
     (if ms_Skill s = [] then None
      else case find (\<lambda>sk. sk_Name sk = ms_Skill s) loadedSkills of
             None \<Rightarrow> None
           | Some sk \<Rightarrow> if sk_Kind sk = SkillKind_Meta then Some (ComposesMetaSkill (sk_Name sk) (ms_Id s)) else None)"

definition dependency_check :: "meta_step list \<Rightarrow> meta_step \<Rightarrow> plan_error option" where
  "dependency_check plan s = first_error (\<lambda>dep.
     if stepById plan dep = None then Some (MissingDependency dep (ms_Id s))
     else if ms_Id s = dep then Some (SelfDependency (ms_Id s)) else None) (ms_DependsOn s)"

text \<open>
  The loop over the fallbacks, with \<open>designatedFallbacks\<close>. A target that is no step of the plan is the zero
  step, which has no fallback and no dependencies.
\<close>

primrec fallback_check :: "meta_step list \<Rightarrow> (string \<times> string) list \<Rightarrow> meta_step list \<Rightarrow> plan_error option" where
  "fallback_check plan designated [] = None"
| "fallback_check plan designated (s # ss) =
     (if ms_OnFailure s = [] then fallback_check plan designated ss
      else let found = stepById plan (ms_OnFailure s) in
        if ms_Id s = ms_OnFailure s \<and> found = None then Some (InvalidFallbackTarget (ms_OnFailure s) (ms_Id s))
        else if (case found of Some t \<Rightarrow> ms_OnFailure t \<noteq> [] \<or> ms_DependsOn t \<noteq> [] | None \<Rightarrow> False) then
          Some (InvalidSubstitute (case found of Some t \<Rightarrow> ms_Id t | None \<Rightarrow> []) (ms_Id s))
        else case map_of designated (ms_OnFailure s) of
               Some prior \<Rightarrow> Some (SharedFallback (ms_OnFailure s) prior (ms_Id s))
             | None \<Rightarrow> fallback_check plan ((ms_OnFailure s, ms_Id s) # designated) ss)"

definition fallbackTargets :: "meta_step list \<Rightarrow> string set" where
  "fallbackTargets plan = set (filter (\<lambda>t. t \<noteq> []) (map ms_OnFailure plan))"

definition fallback_dependency_check :: "meta_step list \<Rightarrow> meta_step \<Rightarrow> plan_error option" where
  "fallback_dependency_check plan s = first_error (\<lambda>dep.
     if dep \<in> fallbackTargets plan then Some (DependsOnFallback (ms_Id s) dep) else None) (ms_DependsOn s)"

definition TryValidateMetaPlan :: "meta_step list \<Rightarrow> SkillDefinition list \<Rightarrow> plan_error option" where
  "TryValidateMetaPlan plan loadedSkills =
     (case duplicate_check {} plan of Some e \<Rightarrow> Some e | None \<Rightarrow>
      (case first_error (\<lambda>s. case delegate_check loadedSkills s of Some e \<Rightarrow> Some e | None \<Rightarrow> dependency_check plan s) plan of
         Some e \<Rightarrow> Some e | None \<Rightarrow>
      (case fallback_check plan [] plan of Some e \<Rightarrow> Some e | None \<Rightarrow>
      (case first_error (fallback_dependency_check plan) plan of Some e \<Rightarrow> Some e | None \<Rightarrow>
       if HasDependencyCycle plan then Some DependencyCycle else None))))"

text \<open>
  What an accepted plan is: step names that differ, no delegation to a meta skill, dependencies on steps of the
  plan and without a cycle, fallbacks that are each named once, have no fallback and no dependencies of their
  own where they exist, and are nobody's dependency.
\<close>

definition plan_ok :: "meta_step list \<Rightarrow> SkillDefinition list \<Rightarrow> bool" where
  "plan_ok plan loadedSkills \<longleftrightarrow>
     distinct (map ms_Id plan) \<and>
     (\<forall>s \<in> set plan. delegate_check loadedSkills s = None) \<and>
     (\<forall>s \<in> set plan. set (ms_DependsOn s) \<subseteq> ms_Id ` set plan) \<and> acyclic (dep_rel plan) \<and>
     distinct (filter (\<lambda>t. t \<noteq> []) (map ms_OnFailure plan)) \<and>
     (\<forall>s \<in> set plan. ms_OnFailure s \<noteq> [] \<longrightarrow> (\<forall>t \<in> set plan. ms_Id t = ms_OnFailure s \<longrightarrow>
        ms_OnFailure t = [] \<and> ms_DependsOn t = [])) \<and>
     (\<forall>s \<in> set plan. set (ms_DependsOn s) \<inter> fallbackTargets plan = {})"

lemma stepById_distinct:
  assumes "distinct (map ms_Id plan)" "t \<in> set plan"
  shows "stepById plan (ms_Id t) = Some t"
proof -
  obtain u where u: "stepById plan (ms_Id t) = Some u"
    using assms(2) stepById_None[of plan "ms_Id t"] by (cases "stepById plan (ms_Id t)") auto
  then have "u \<in> set plan \<and> ms_Id u = ms_Id t" by (rule stepById_Some)
  with assms have "u = t" by (auto dest: inj_onD simp: distinct_map)
  with u show ?thesis by simp
qed

lemma stepById_iff: "distinct (map ms_Id plan) \<Longrightarrow> stepById plan sid = Some t \<longleftrightarrow> t \<in> set plan \<and> ms_Id t = sid"
  by (metis stepById_Some stepById_distinct)

definition substitute_ok :: "meta_step list \<Rightarrow> meta_step \<Rightarrow> bool" where
  "substitute_ok plan s \<longleftrightarrow> ms_OnFailure s \<noteq> [] \<longrightarrow>
     (\<forall>t \<in> set plan. ms_Id t = ms_OnFailure s \<longrightarrow> ms_OnFailure t = [] \<and> ms_DependsOn t = [])"

lemma fallback_check_None:
  assumes dist: "distinct (map ms_Id plan)"
  shows "set todo \<subseteq> set plan \<Longrightarrow> fallback_check plan des todo = None \<longleftrightarrow>
    (\<forall>s \<in> set todo. substitute_ok plan s) \<and> distinct (filter (\<lambda>t. t \<noteq> []) (map ms_OnFailure todo)) \<and>
    set (filter (\<lambda>t. t \<noteq> []) (map ms_OnFailure todo)) \<inter> fst ` set des = {}"
proof (induction todo arbitrary: des)
  case (Cons s todo)
  show ?case
  proof (cases "ms_OnFailure s = []")
    case True
    with Cons show ?thesis by (simp add: substitute_ok_def)
  next
    case False
    have known: "stepById plan (ms_Id s) \<noteq> None" using Cons.prems stepById_distinct[OF dist, of s] by simp
    have sub: "(case stepById plan (ms_OnFailure s) of Some t \<Rightarrow> ms_OnFailure t \<noteq> [] \<or> ms_DependsOn t \<noteq> [] | None \<Rightarrow> False)
        \<longleftrightarrow> \<not> substitute_ok plan s"
    proof -
      have "stepById plan (ms_OnFailure s) = Some t" if "t \<in> set plan" "ms_Id t = ms_OnFailure s" for t
        using stepById_distinct[OF dist that(1)] that(2) by simp
      with False show ?thesis
        by (cases "stepById plan (ms_OnFailure s)") (auto simp: substitute_ok_def dest: stepById_Some)
    qed
    from Cons.prems have "set todo \<subseteq> set plan" by simp
    note IH = Cons.IH[OF this, of "(ms_OnFailure s, ms_Id s) # des"]
    define T where "T = filter (\<lambda>t. t \<noteq> []) (map ms_OnFailure todo)"
    have self: "\<not> (ms_Id s = ms_OnFailure s \<and> stepById plan (ms_OnFailure s) = None)" using known by auto
    have run: "fallback_check plan des (s # todo) = None \<longleftrightarrow> substitute_ok plan s \<and>
        ms_OnFailure s \<notin> fst ` set des \<and> fallback_check plan ((ms_OnFailure s, ms_Id s) # des) todo = None"
      unfolding fallback_check.simps Let_def sub
      using False self map_of_eq_None_iff[of des "ms_OnFailure s"]
      by (cases "map_of des (ms_OnFailure s)") auto
    show ?thesis unfolding run IH using False by (auto simp flip: T_def)
  qed
qed simp

lemma dependency_check_None:
  "dependency_check plan s = None \<longleftrightarrow> set (ms_DependsOn s) \<subseteq> ms_Id ` set plan \<and> ms_Id s \<notin> set (ms_DependsOn s)"
  using stepById_None[of plan] by (auto simp: dependency_check_def)

lemma acyclic_no_self:
  assumes "distinct (map ms_Id plan)" "acyclic (dep_rel plan)" "s \<in> set plan"
  shows "ms_Id s \<notin> set (ms_DependsOn s)"
proof
  assume "ms_Id s \<in> set (ms_DependsOn s)"
  with stepById_distinct[OF assms(1,3)] have "(ms_Id s, ms_Id s) \<in> dep_rel plan" by (simp add: dep_rel_def deps_of_def)
  with assms(2) show False by (auto simp: acyclic_def)
qed

text \<open>C5: The validation before a meta skill runs accepts exactly the plans that are sound: it returns no error
  if and only if the step names differ, no step hands over to a meta skill, every dependency is a step and
  there is no cycle, and every fallback is named by one step, is nobody's dependency and, where it is a step
  at all, has neither a fallback nor dependencies. A fallback that is no step of the plan is accepted.\<close>

theorem plan_validation_exact: "TryValidateMetaPlan plan loadedSkills = None \<longleftrightarrow> plan_ok plan loadedSkills"
proof (cases "distinct (map ms_Id plan)")
  case dist: True
  have main: "TryValidateMetaPlan plan loadedSkills = None \<longleftrightarrow>
    (\<forall>s \<in> set plan. delegate_check loadedSkills s = None \<and> dependency_check plan s = None) \<and>
    fallback_check plan [] plan = None \<and> (\<forall>s \<in> set plan. fallback_dependency_check plan s = None) \<and>
    acyclic (dep_rel plan)"
  proof -
    have "duplicate_check {} plan = None" using dist by (simp add: duplicate_check_None)
    moreover have "HasDependencyCycle plan \<longleftrightarrow> \<not> acyclic (dep_rel plan)"
      unfolding HasDependencyCycle_def by (rule cycle_loop_correct) (auto simp: states_ok_def)
    ultimately show ?thesis by (simp add: TryValidateMetaPlan_def)
  qed
  have fd: "fallback_dependency_check plan s = None \<longleftrightarrow> set (ms_DependsOn s) \<inter> fallbackTargets plan = {}" for s
    by (auto simp: fallback_dependency_check_def)
  have deps: "(\<forall>s \<in> set plan. delegate_check loadedSkills s = None \<and> dependency_check plan s = None) \<and> acyclic (dep_rel plan) \<longleftrightarrow>
      (\<forall>s \<in> set plan. delegate_check loadedSkills s = None) \<and>
      (\<forall>s \<in> set plan. set (ms_DependsOn s) \<subseteq> ms_Id ` set plan) \<and> acyclic (dep_rel plan)"
    using acyclic_no_self[OF dist] unfolding dependency_check_None by blast
  have fb: "fallback_check plan [] plan = None \<longleftrightarrow> (\<forall>s \<in> set plan. substitute_ok plan s) \<and>
      distinct (filter (\<lambda>t. t \<noteq> []) (map ms_OnFailure plan))"
    using fallback_check_None[OF dist, of plan "[]"] by simp
  have ok: "plan_ok plan loadedSkills \<longleftrightarrow>
      (\<forall>s \<in> set plan. delegate_check loadedSkills s = None) \<and>
      (\<forall>s \<in> set plan. set (ms_DependsOn s) \<subseteq> ms_Id ` set plan) \<and> acyclic (dep_rel plan) \<and>
      distinct (filter (\<lambda>t. t \<noteq> []) (map ms_OnFailure plan)) \<and> (\<forall>s \<in> set plan. substitute_ok plan s) \<and>
      (\<forall>s \<in> set plan. set (ms_DependsOn s) \<inter> fallbackTargets plan = {})"
    using dist by (simp only: plan_ok_def substitute_ok_def simp_thms)
  show ?thesis unfolding main fd fb ok using deps by argo
next
  case False
  then have "duplicate_check {} plan \<noteq> None" by (simp add: duplicate_check_None)
  with False show ?thesis by (auto simp: TryValidateMetaPlan_def plan_ok_def)
qed

subsection \<open>The index of dependents and the blocking of steps\<close>

type_synonym dependents = "(string \<times> string list) list"
type_synonym step_sets = "string set \<times> string set"   \<comment> \<open>the blocked and the pending steps\<close>

text \<open>
  \<open>BuildDependentsIndex\<close> enters every step with an empty list. Its second loop appends to the local variable
  \<open>children\<close> and never stores it.
\<close>

definition add_child :: "string \<Rightarrow> string \<Rightarrow> dependents \<Rightarrow> dependents" where
  "add_child sid dependency dependents =
     (case map_of dependents dependency of
        None \<Rightarrow> dependents
      | Some children \<Rightarrow> (let children = children @ [sid] in dependents))"

definition BuildDependentsIndex :: "meta_step list \<Rightarrow> dependents" where
  "BuildDependentsIndex plan =
     (let dependents = fold (\<lambda>s d. AList.update (ms_Id s) [] d) plan []
      in fold (\<lambda>s d. fold (add_child (ms_Id s)) (ms_DependsOn s) d) plan dependents)"

definition dependents_of :: "dependents \<Rightarrow> string \<Rightarrow> string list" where
  "dependents_of D sid = (case map_of D sid of Some ds \<Rightarrow> ds | None \<Rightarrow> [])"

text \<open>The stack of \<open>BlockStepAndDependents\<close>, its top first. The three copies of the routine do the same.\<close>

function block_loop :: "dependents \<Rightarrow> string list \<Rightarrow> step_sets \<Rightarrow> step_sets" where
  "block_loop D [] bp = bp"
| "block_loop D (current # stack) (blocked, pending) =
     (if current \<in> blocked then block_loop D stack (blocked, pending)
      else block_loop D (rev (dependents_of D current) @ stack) (insert current blocked, pending - {current}))"
  by pat_completeness auto

termination
proof (relation "measures [\<lambda>(D, stack, blocked, pending). card (fst ` set D - blocked), \<lambda>(D, stack, bp). length stack]",
    goal_cases)
  case (3 D current stack blocked pending)
  show ?case
  proof (cases "current \<in> fst ` set D")
    case True
    then have "fst ` set D - insert current blocked \<subset> fst ` set D - blocked" using 3 by auto
    then show ?thesis by (auto intro: psubset_card_mono)
  next
    case False
    then have "dependents_of D current = []" by (simp add: dependents_of_def map_of_eq_None_iff[THEN iffD2])
    moreover from False have "fst ` set D - insert current blocked = fst ` set D - blocked" by auto
    ultimately show ?thesis by simp
  qed
qed simp_all

definition BlockStepAndDependents :: "dependents \<Rightarrow> string \<Rightarrow> step_sets \<Rightarrow> step_sets" where
  "BlockStepAndDependents D stepId bp = block_loop D [stepId] bp"

text \<open>The steps that hang on some of \<open>S\<close>, along steps that are not blocked yet.\<close>

definition open_rel :: "dependents \<Rightarrow> string set \<Rightarrow> (string \<times> string) set" where
  "open_rel D blocked = {(x, y). y \<in> set (dependents_of D x) \<and> y \<notin> blocked}"

definition hanging_on :: "dependents \<Rightarrow> string set \<Rightarrow> string set \<Rightarrow> string set" where
  "hanging_on D blocked S = (open_rel D blocked)\<^sup>* `` (S - blocked)"

lemma hanging_on_blocked: "current \<in> blocked \<Longrightarrow> hanging_on D blocked (insert current S) = hanging_on D blocked S"
  by (simp add: hanging_on_def insert_Diff_if)

lemma hanging_on_step:
  assumes new: "current \<notin> blocked"
  shows "hanging_on D blocked (insert current S) =
    insert current (hanging_on D (insert current blocked) (set (dependents_of D current) \<union> S))" (is "?L = insert current ?R")
proof
  have closed: "y \<in> insert current ?R" if "x \<in> insert current ?R" "(x, y) \<in> open_rel D blocked" for x y
  proof (cases "y = current \<or> x = current")
    case True
    with that(2) show ?thesis by (auto simp: open_rel_def hanging_on_def)
  next
    case False
    with that have "x \<in> ?R" "(x, y) \<in> open_rel D (insert current blocked)" by (auto simp: open_rel_def)
    then show ?thesis unfolding hanging_on_def by (auto intro: rtrancl_into_rtrancl)
  qed
  show "?L \<subseteq> insert current ?R"
  proof
    fix x
    assume "x \<in> ?L"
    then obtain s where s: "s \<in> insert current S - blocked" "(s, x) \<in> (open_rel D blocked)\<^sup>*" by (auto simp: hanging_on_def)
    from s(2) show "x \<in> insert current ?R"
      by (induction rule: rtrancl_induct) (use s(1) closed in \<open>auto simp: hanging_on_def\<close>)
  qed
  have sub: "(open_rel D (insert current blocked))\<^sup>* \<subseteq> (open_rel D blocked)\<^sup>*"
    by (rule rtrancl_mono) (auto simp: open_rel_def)
  have "x \<in> ?L" if "s \<in> set (dependents_of D current) \<union> S" "s \<notin> insert current blocked"
    "(s, x) \<in> (open_rel D (insert current blocked))\<^sup>*" for s x
  proof (cases "s \<in> S")
    case True
    with that sub show ?thesis by (auto simp: hanging_on_def)
  next
    case False
    with that have "(current, s) \<in> open_rel D blocked" by (auto simp: open_rel_def)
    moreover have "(s, x) \<in> (open_rel D blocked)\<^sup>*" using that(3) sub by auto
    ultimately have "(current, x) \<in> (open_rel D blocked)\<^sup>*" by (rule converse_rtrancl_into_rtrancl)
    with new show ?thesis by (auto simp: hanging_on_def)
  qed
  then have "?R \<subseteq> ?L" by (auto simp: hanging_on_def)
  with new show "insert current ?R \<subseteq> ?L" by (auto simp: hanging_on_def)
qed

lemma block_loop_correct:
  "block_loop D stack (blocked, pending) =
   (blocked \<union> hanging_on D blocked (set stack), pending - hanging_on D blocked (set stack))"
proof (induction D stack "(blocked, pending)" arbitrary: blocked pending rule: block_loop.induct)
  case (2 D current stack blocked pending)
  then show ?case
    by (cases "current \<in> blocked") (auto simp: hanging_on_blocked hanging_on_step)
qed (simp add: hanging_on_def)

text \<open>C13: Blocking a step blocks, besides it, exactly the steps that depend on it along any chain of
  dependents whose members are not blocked yet, takes them all out of the pending steps, and leaves every other
  step as it was. It ends for every index of dependents, cyclic ones included.\<close>

theorem blocking_is_closure:
  "BlockStepAndDependents D stepId (blocked, pending) =
   (blocked \<union> hanging_on D blocked {stepId}, pending - hanging_on D blocked {stepId})"
  by (simp add: BlockStepAndDependents_def block_loop_correct)

lemma map_of_fold_update:
  "map_of (fold (\<lambda>s d. AList.update (ms_Id s) [] d) ss d) sid = (if sid \<in> ms_Id ` set ss then Some [] else map_of d sid)"
  by (induction ss arbitrary: d) (auto simp: update_conv')

lemma add_child_id [simp]: "add_child sid dependency D = D"
  by (simp add: add_child_def split: option.split)

lemma fold_add_child_id [simp]: "fold (add_child sid) ds D = D"
  by (induction ds) simp_all

lemma fold_ignore [simp]: "fold (\<lambda>s d. d) ss D = D"
  by (induction ss) simp_all

lemma dependents_of_index [simp]: "dependents_of (BuildDependentsIndex plan) sid = []"
  by (simp add: dependents_of_def BuildDependentsIndex_def map_of_fold_update)

lemma open_rel_index [simp]: "open_rel (BuildDependentsIndex plan) blocked = {}"
  by (simp add: open_rel_def)

lemma hanging_on_index [simp]: "hanging_on (BuildDependentsIndex plan) blocked S = S - blocked"
  by (simp add: hanging_on_def)

text \<open>The index of dependents is empty: \<open>BuildDependentsIndex\<close> gives every step of the plan the empty list,
  whatever depends on it, because the extended list is never stored. Blocking a step with this index therefore
  blocks that step alone.\<close>

theorem dependents_index_empty:
  "map_of (BuildDependentsIndex plan) sid = (if sid \<in> ms_Id ` set plan then Some [] else None)"
  by (simp add: BuildDependentsIndex_def map_of_fold_update)

subsection \<open>The state of a run\<close>

text \<open>
  The results of the steps, without the evidence of commands, and the state that
  \<open>ExecuteMetaSkill\<close> hands from routine to routine. The maps of outputs and aliases are association lists
  in the order of their first insertion.
\<close>

record MetaStepExecutionResult =
  sr_Id :: string
  sr_Kind :: string
  sr_Status :: string
  sr_FailureCode :: string
  sr_DurationMs :: rat
  sr_Continued :: bool

record meta_state =
  mt_pending :: "string set"
  mt_blocked :: "string set"
  mt_outputs :: "(string \<times> string) list"
  mt_failureAliases :: "(string \<times> string) list"
  mt_stepResults :: "MetaStepExecutionResult list"

text \<open>
  The context of templates and conditions. Its keys are in lower case; of two outputs whose names differ in
  case only one is kept (Go does not say which; here it is the later one).
\<close>

record MetaExecutionContext =
  mc_input :: string
  mc_outputs :: "(string \<times> string) list"
  mc_inputs :: "(string \<times> json) list"

definition lower_keys :: "(string \<times> 'a) list \<Rightarrow> (string \<times> 'a) list" where
  "lower_keys al = fold (\<lambda>(k, v) acc. AList.update (ToLower k) v acc) al []"

definition NewMetaExecutionContext ::
    "string \<Rightarrow> (string \<times> string) list \<Rightarrow> (string \<times> json) list \<Rightarrow> MetaExecutionContext" where
  "NewMetaExecutionContext input outputs inputs =
     (let ins = lower_keys inputs in
      \<lparr>mc_input = input, mc_outputs = lower_keys outputs,
       mc_inputs = (if map_of ins ''user_message'' = None then AList.update ''user_message'' (JStr input) ins else ins)\<rparr>)"

definition SampleMetaExecutionContext :: "string \<Rightarrow> (string \<times> string) list \<Rightarrow> MetaExecutionContext" where
  "SampleMetaExecutionContext input outputs =
     \<lparr>mc_input = input, mc_outputs = lower_keys outputs, mc_inputs = [(''user_message'', JStr input)]\<rparr>"

definition block_step :: "dependents \<Rightarrow> string \<Rightarrow> meta_state \<Rightarrow> meta_state" where
  "block_step D sid st =
     (let (b, p) = BlockStepAndDependents D sid (mt_blocked st, mt_pending st)
      in st\<lparr>mt_blocked := b, mt_pending := p\<rparr>)"

lemma block_step_simp:
  "block_step D sid st = st\<lparr>mt_blocked := mt_blocked st \<union> hanging_on D (mt_blocked st) {sid},
     mt_pending := mt_pending st - hanging_on D (mt_blocked st) {sid}\<rparr>"
  by (simp add: block_step_def BlockStepAndDependents_def block_loop_correct)

text \<open>\<open>TryActivateFailureBranch\<close>: \<open>None\<close> when it answers \<open>false\<close>, which leaves the state as it was.\<close>

definition TryActivateFailureBranch :: "meta_step \<Rightarrow> meta_step list \<Rightarrow> meta_state \<Rightarrow> meta_state option" where
  "TryActivateFailureBranch s plan st =
     (let fallbackStepId = TrimSpace (ms_OnFailure s) in
      if fallbackStepId = [] then None
      else if stepById plan fallbackStepId = None then None
      else Some (st\<lparr>mt_pending := insert fallbackStepId (mt_pending st - {ms_Id s}),
                    mt_blocked := mt_blocked st - {fallbackStepId},
                    mt_failureAliases := AList.update fallbackStepId (ms_Id s) (mt_failureAliases st)\<rparr>))"

definition CompleteMetaStepOutput :: "meta_step \<Rightarrow> string \<Rightarrow> meta_state \<Rightarrow> meta_state" where
  "CompleteMetaStepOutput s output st =
     (let outputs = AList.update (ms_Id s) output (mt_outputs st);
          outputs = (case map_of (mt_failureAliases st) (ms_Id s) of
                       Some primaryStepId \<Rightarrow> AList.update primaryStepId output outputs
                     | None \<Rightarrow> outputs)
      in st\<lparr>mt_outputs := outputs, mt_pending := mt_pending st - {ms_Id s}\<rparr>)"

definition append_result :: "string \<Rightarrow> string \<Rightarrow> string \<Rightarrow> string \<Rightarrow> rat \<Rightarrow> bool \<Rightarrow> meta_state \<Rightarrow> meta_state" where
  "append_result sid kind status failureCode durationMs continued st =
     st\<lparr>mt_stepResults := mt_stepResults st @
       [\<lparr>sr_Id = sid, sr_Kind = kind, sr_Status = status, sr_FailureCode = failureCode, sr_DurationMs = durationMs,
         sr_Continued = continued\<rparr>]\<rparr>"

subsection \<open>Routing\<close>

text \<open>
  The evaluator of conditions is a parameter here; it is \<open>Evaluate\<close> of the theory of conditions, and its
  \<open>None\<close> is a panic, which ends the process.
\<close>

type_synonym condition_evaluator = "string \<Rightarrow> MetaExecutionContext \<Rightarrow> bool option"

fun select_route :: "condition_evaluator \<Rightarrow> MetaExecutionContext \<Rightarrow> MetaRouteDefinition list \<Rightarrow> string option option" where
  "select_route ev ctx [] = Some None"
| "select_route ev ctx (r # rs) =
     (if TrimSpace (mr_When r) = [] then Some (Some (mr_To r))
      else case ev (mr_When r) ctx of
             None \<Rightarrow> None
           | Some True \<Rightarrow> Some (Some (mr_To r))
           | Some False \<Rightarrow> select_route ev ctx rs)"

definition SelectNextStep :: "condition_evaluator \<Rightarrow> meta_step \<Rightarrow> MetaExecutionContext \<Rightarrow> string option option" where
  "SelectNextStep ev s ctx = select_route ev ctx (ms_Routes s)"

definition ApplyInitialRoutingBlocks :: "meta_step list \<Rightarrow> meta_state \<Rightarrow> meta_state" where
  "ApplyInitialRoutingBlocks plan st =
     fold (\<lambda>s st. fold (\<lambda>r st. st\<lparr>mt_blocked := insert (mr_To r) (mt_blocked st),
                                 mt_pending := mt_pending st - {mr_To r}\<rparr>) (ms_Routes s) st) plan st"

definition route_one :: "meta_step list \<Rightarrow> dependents \<Rightarrow> string option \<Rightarrow> MetaRouteDefinition \<Rightarrow> meta_state \<Rightarrow> meta_state" where
  "route_one plan D selected r st =
     (if stepById plan (mr_To r) = None then st
      else if (case selected of Some t \<Rightarrow> EqualFold (mr_To r) t | None \<Rightarrow> False) then
        st\<lparr>mt_blocked := mt_blocked st - {mr_To r}, mt_pending := insert (mr_To r) (mt_pending st)\<rparr>
      else block_step D (mr_To r) st)"

definition ApplyCompletionRouting ::
    "condition_evaluator \<Rightarrow> meta_step list \<Rightarrow> dependents \<Rightarrow> meta_step \<Rightarrow> MetaExecutionContext \<Rightarrow> meta_state \<Rightarrow> meta_state option" where
  "ApplyCompletionRouting ev plan D s ctx st =
     (if ms_Routes s = [] then Some st
      else case SelectNextStep ev s ctx of
             None \<Rightarrow> None
           | Some selected \<Rightarrow> Some (fold (route_one plan D selected) (ms_Routes s) st))"

text \<open>The routes by label, as an association list in the order the iteration visits them.\<close>

definition ApplyClassificationRouting ::
    "string \<Rightarrow> (string \<times> string list) list \<Rightarrow> dependents \<Rightarrow> meta_step list \<Rightarrow> meta_state \<Rightarrow> meta_state" where
  "ApplyClassificationRouting selectedLabel routeMap D plan st =
     (let matchedTargets = (case map_of routeMap selectedLabel of Some ts \<Rightarrow> ts | None \<Rightarrow> []);
          st = fold (\<lambda>(label, targets) st. if label = selectedLabel then st
                 else fold (\<lambda>t st. if stepById plan t = None then st else block_step D t st) targets st) routeMap st
      in st\<lparr>mt_blocked := mt_blocked st - set matchedTargets\<rparr>)"

subsection \<open>Well-formed states\<close>

text \<open>
  The pending steps are steps of the plan, none of them is blocked, and outputs, aliases and results belong to
  steps of the plan. Every routine above keeps this.
\<close>

definition meta_wf :: "meta_step list \<Rightarrow> meta_state \<Rightarrow> bool" where
  "meta_wf plan st \<longleftrightarrow>
     mt_pending st \<subseteq> ms_Id ` set plan \<and> mt_pending st \<inter> mt_blocked st = {} \<and>
     fst ` set (mt_outputs st) \<subseteq> ms_Id ` set plan \<and>
     fst ` set (mt_failureAliases st) \<subseteq> ms_Id ` set plan \<and> snd ` set (mt_failureAliases st) \<subseteq> ms_Id ` set plan \<and>
     sr_Id ` set (mt_stepResults st) \<subseteq> ms_Id ` set plan"

named_theorems meta_keep \<open>routines that keep a well-formed state\<close>

lemma stepById_in_plan: "stepById plan sid \<noteq> None \<Longrightarrow> sid \<in> ms_Id ` set plan"
  using stepById_None[of plan sid] by simp

lemma set_update_keys: "fst ` set (AList.update k v al) = insert k (fst ` set al)"
  by (simp add: dom_update)

lemma set_update_vals: "snd ` set (AList.update k v al) \<subseteq> insert v (snd ` set al)"
  by (induction al) (auto split: if_splits)

lemma meta_wf_block [meta_keep]: "meta_wf plan st \<Longrightarrow> meta_wf plan (block_step D sid st)"
  by (auto simp: meta_wf_def block_step_simp)

lemma meta_wf_drop [meta_keep]: "meta_wf plan st \<Longrightarrow> meta_wf plan (st\<lparr>mt_pending := mt_pending st - X\<rparr>)"
  by (auto simp: meta_wf_def)

lemma meta_wf_outputs: "meta_wf plan st \<Longrightarrow> fst ` set outs \<subseteq> ms_Id ` set plan \<Longrightarrow> meta_wf plan (st\<lparr>mt_outputs := outs\<rparr>)"
  by (simp add: meta_wf_def)

lemma meta_wf_append [meta_keep]:
  "meta_wf plan st \<Longrightarrow> s \<in> set plan \<Longrightarrow> meta_wf plan (append_result (ms_Id s) kind status code ms continued st)"
  by (auto simp: meta_wf_def append_result_def)

lemma meta_wf_complete [meta_keep]:
  assumes "meta_wf plan st" "s \<in> set plan"
  shows "meta_wf plan (CompleteMetaStepOutput s output st)"
proof -
  define outs where "outs = mt_outputs (CompleteMetaStepOutput s output st)"
  have "fst ` set outs \<subseteq> ms_Id ` set plan"
  proof (cases "map_of (mt_failureAliases st) (ms_Id s)")
    case None
    with assms show ?thesis by (simp add: outs_def CompleteMetaStepOutput_def Let_def set_update_keys meta_wf_def)
  next
    case (Some prim)
    then have "prim \<in> snd ` set (mt_failureAliases st)" by (metis map_of_SomeD image_eqI snd_conv)
    with assms(1) have "prim \<in> ms_Id ` set plan" unfolding meta_wf_def by blast
    moreover have "fst ` set outs = insert prim (insert (ms_Id s) (fst ` set (mt_outputs st)))"
      using Some by (simp add: outs_def CompleteMetaStepOutput_def Let_def set_update_keys)
    ultimately show ?thesis using assms by (simp add: meta_wf_def)
  qed
  moreover have eq: "CompleteMetaStepOutput s output st = st\<lparr>mt_pending := mt_pending st - {ms_Id s}\<rparr>\<lparr>mt_outputs := outs\<rparr>"
    by (simp add: outs_def CompleteMetaStepOutput_def Let_def)
  ultimately show ?thesis unfolding eq by (intro meta_wf_outputs meta_wf_drop assms(1))
qed

lemma meta_wf_fallback [meta_keep]:
  assumes wf: "meta_wf plan st" and s: "s \<in> set plan" and act: "TryActivateFailureBranch s plan st = Some st'"
  shows "meta_wf plan st'"
proof -
  define t where "t = TrimSpace (ms_OnFailure s)"
  from act have t: "t \<in> ms_Id ` set plan" "st' = st\<lparr>mt_pending := insert t (mt_pending st - {ms_Id s}),
      mt_blocked := mt_blocked st - {t}, mt_failureAliases := AList.update t (ms_Id s) (mt_failureAliases st)\<rparr>"
    by (auto simp: TryActivateFailureBranch_def t_def[symmetric] Let_def intro: stepById_in_plan split: if_splits)
  have "snd ` set (AList.update t (ms_Id s) (mt_failureAliases st)) \<subseteq> ms_Id ` set plan"
    using wf s by (intro order_trans[OF set_update_vals]) (auto simp: meta_wf_def)
  with t wf show ?thesis by (auto simp: meta_wf_def set_update_keys)
qed

lemma meta_wf_route_one: "meta_wf plan st \<Longrightarrow> meta_wf plan (route_one plan D selected r st)"
  using stepById_in_plan[of plan "mr_To r"] by (auto simp: route_one_def meta_wf_block) (auto simp: meta_wf_def)

lemma meta_wf_fold: "(\<And>x st. meta_wf plan st \<Longrightarrow> meta_wf plan (f x st)) \<Longrightarrow> meta_wf plan st \<Longrightarrow> meta_wf plan (fold f xs st)"
  by (induction xs arbitrary: st) auto

lemma meta_wf_initial [meta_keep]: "meta_wf plan st \<Longrightarrow> meta_wf plan (ApplyInitialRoutingBlocks plan st)"
  unfolding ApplyInitialRoutingBlocks_def by (intro meta_wf_fold) (auto simp: meta_wf_def)

lemma meta_wf_routing [meta_keep]:
  "meta_wf plan st \<Longrightarrow> ApplyCompletionRouting ev plan D s ctx st = Some st' \<Longrightarrow> meta_wf plan st'"
  by (auto simp: ApplyCompletionRouting_def intro: meta_wf_fold meta_wf_route_one split: if_splits option.splits)

lemma meta_wf_classification [meta_keep]:
  assumes "meta_wf plan st"
  shows "meta_wf plan (ApplyClassificationRouting selectedLabel routeMap D plan st)"
proof -
  have "meta_wf plan (fold (\<lambda>(label, targets) st. if label = selectedLabel then st
      else fold (\<lambda>t st. if stepById plan t = None then st else block_step D t st) targets st) routeMap st)"
    using assms by (intro meta_wf_fold) (auto split: prod.splits intro!: meta_wf_fold meta_wf_block)
  then show ?thesis by (auto simp: ApplyClassificationRouting_def Let_def meta_wf_def)
qed

lemma route_targets:
  assumes "meta_wf plan st" "x \<in> mr_To ` set rs" "x \<in> ms_Id ` set plan"
  shows "let st' = fold (route_one plan (BuildDependentsIndex plan) (Some t)) rs st in
    (x \<in> mt_pending st' \<longleftrightarrow> EqualFold x t) \<and> (x \<in> mt_blocked st' \<longleftrightarrow> \<not> EqualFold x t)"
  using assms(2)
proof (induction rs rule: rev_induct)
  case (snoc r rs)
  define st1 where "st1 = fold (route_one plan (BuildDependentsIndex plan) (Some t)) rs st"
  have wf1: "meta_wf plan st1" unfolding st1_def by (intro meta_wf_fold meta_wf_route_one assms(1))
  have run: "fold (route_one plan (BuildDependentsIndex plan) (Some t)) (rs @ [r]) st
      = route_one plan (BuildDependentsIndex plan) (Some t) r st1" by (simp add: st1_def)
  show ?case
  proof (cases "mr_To r = x")
    case True
    moreover have "x \<notin> mt_pending st1 \<or> x \<notin> mt_blocked st1" using wf1 by (auto simp: meta_wf_def)
    ultimately show ?thesis
      using assms(3) stepById_None[of plan x] unfolding run Let_def by (auto simp: route_one_def block_step_simp)
  next
    case False
    with snoc have "x \<in> mr_To ` set rs" by auto
    from snoc.IH[OF this] False show ?thesis
      unfolding run Let_def st1_def[symmetric] by (auto simp: route_one_def block_step_simp)
  qed
qed simp

text \<open>When a step is done, its routes choose between their targets: of the targets that are steps of the
  plan, the selected one (up to case) becomes pending and is not blocked, and every other one is blocked and not
  pending, whatever they were before.\<close>

theorem routing_selects_one:
  assumes "meta_wf plan st" "SelectNextStep ev s ctx = Some (Some t)" "r \<in> set (ms_Routes s)" "mr_To r \<in> ms_Id ` set plan"
    "ApplyCompletionRouting ev plan (BuildDependentsIndex plan) s ctx st = Some st'"
  shows "(mr_To r \<in> mt_pending st' \<longleftrightarrow> EqualFold (mr_To r) t) \<and> (mr_To r \<in> mt_blocked st' \<longleftrightarrow> \<not> EqualFold (mr_To r) t)"
proof -
  have "st' = fold (route_one plan (BuildDependentsIndex plan) (Some t)) (ms_Routes s) st"
    using assms(2,3,5) by (auto simp: ApplyCompletionRouting_def split: if_splits)
  with route_targets[OF assms(1), of "mr_To r" "ms_Routes s" t] assms(3,4) show ?thesis by (simp add: Let_def)
qed

definition blank_step :: "string \<Rightarrow> MetaRouteDefinition list \<Rightarrow> meta_step" where
  "blank_step sid routes = \<lparr>ms_Id = sid, ms_Kind = ''llm_chat'', ms_Skill = [], ms_Tool = [], ms_SkillExecEntrypoint = [],
     ms_CapabilityRef = False, ms_SkillExecArgs = [], ms_SkillExecStdin = [], ms_SkillExecCwd = [], ms_WithJSON = [],
     ms_When = [], ms_ToolArgsJSON = [], ms_ToolAllowlist = [], ms_OutputChoices = [], ms_Clarify = None, ms_Routes = routes,
     ms_DependsOn = [], ms_OnFailure = [], ms_TimeoutSeconds = None, ms_Retry = None, ms_OutputContract = None\<rparr>"

definition fork_step :: meta_step where
  "fork_step = blank_step ''ask'' [\<lparr>mr_When = ''urgent'', mr_To = ''page''\<rparr>, \<lparr>mr_When = [], mr_To = ''mail''\<rparr>]"

definition fork_plan :: "meta_step list" where
  "fork_plan = [fork_step, blank_step ''page'' [], blank_step ''mail'' []]"

definition fork_state :: meta_state where
  "fork_state = \<lparr>mt_pending = {''ask''}, mt_blocked = {''page'', ''mail''}, mt_outputs = [], mt_failureAliases = [],
     mt_stepResults = []\<rparr>"

theorem routing_selects_one_witness:
  "\<exists>st'. ApplyCompletionRouting (\<lambda>cond _. Some (cond = ''urgent'')) fork_plan (BuildDependentsIndex fork_plan) fork_step
       (SampleMetaExecutionContext [] []) fork_state = Some st' \<and>
     ''page'' \<in> mt_pending st' \<and> ''page'' \<notin> mt_blocked st' \<and> ''mail'' \<notin> mt_pending st' \<and> ''mail'' \<in> mt_blocked st'"
proof -
  let ?ev = "\<lambda>cond (_ :: MetaExecutionContext). Some (cond = ''urgent'')"
  let ?ctx = "SampleMetaExecutionContext [] []"
  have wf: "meta_wf fork_plan fork_state"
    by (simp add: meta_wf_def fork_plan_def fork_state_def fork_step_def blank_step_def)
  have sel: "SelectNextStep ?ev fork_step ?ctx = Some (Some ''page'')" by code_simp
  have "\<exists>st'. ApplyCompletionRouting ?ev fork_plan (BuildDependentsIndex fork_plan) fork_step ?ctx fork_state = Some st'"
    using sel by (simp add: ApplyCompletionRouting_def)
  then obtain st' where run: "ApplyCompletionRouting ?ev fork_plan (BuildDependentsIndex fork_plan) fork_step ?ctx fork_state = Some st'"
    by blast
  have known: "''page'' \<in> ms_Id ` set fork_plan" "''mail'' \<in> ms_Id ` set fork_plan"
    by (simp_all add: fork_plan_def fork_step_def blank_step_def)
  have fold: "EqualFold ''page'' ''page''" "\<not> EqualFold ''mail'' ''page''" by code_simp+
  show ?thesis
    using run routing_selects_one[OF wf sel _ _ run, of "\<lparr>mr_When = ''urgent'', mr_To = ''page''\<rparr>"]
      routing_selects_one[OF wf sel _ _ run, of "\<lparr>mr_When = [], mr_To = ''mail''\<rparr>"] known fold
    by (simp add: fork_step_def blank_step_def)
qed

end
