(* ===== verification/Meta_Args.thy ===== *)
theory Meta_Args
  imports Go_Json "HOL-Library.AList"
begin

section \<open>Arguments of meta steps\<close>

text \<open>
  The arguments of a step: \<open>MetaToolArgumentResolver\<close> of \<open>src/openclaw/core/skills_meta.go\<close> and the array reader of
  \<open>src/openclaw/util/json.go\<close>. \<open>json.Unmarshal\<close> into a \<open>map[string]any\<close> is the parameter \<open>unmarshal\<close> (\<open>None\<close> for an error).
\<close>

definition ParseStringArray :: "(json \<Rightarrow> string) \<Rightarrow> payload \<Rightarrow> string \<Rightarrow> string list" where
  "ParseStringArray sprint args name =
     (case TryGetProperty args name of
        Some (JArr items) \<Rightarrow>
          filter (\<lambda>s. \<not> IsBlank s)
            (List.map_filter (\<lambda>item. case item of JNull \<Rightarrow> None | JStr s \<Rightarrow> Some s | v \<Rightarrow> Some (sprint v)) items)
      | _ \<Rightarrow> [])"

definition DeserializeMap :: "unmarshal_map \<Rightarrow> string \<Rightarrow> payload" where
  "DeserializeMap unmarshal withJson =
     (let withJson = TrimSpace withJson in
      if withJson = [] then []
      else case unmarshal withJson of Some parsed \<Rightarrow> parsed | None \<Rightarrow> [])"

text \<open>\<open>mergeInto\<close> and the arguments of a tool; the renderer and \<open>json.Marshal\<close> are parameters.\<close>

definition mergeInto :: "unmarshal_map \<Rightarrow> string \<Rightarrow> payload \<Rightarrow> payload option" where
  "mergeInto unmarshal jsonStr target =
     (if TrimSpace jsonStr = [] then Some target
      else case unmarshal jsonStr of
             None \<Rightarrow> None
           | Some parsedNode \<Rightarrow> Some (fold (\<lambda>(k, v). AList.update k v) parsedNode target))"

definition ResolveToolArgs ::
    "unmarshal_map \<Rightarrow> unmarshal_map \<Rightarrow> (json \<Rightarrow> string) \<Rightarrow> (string \<Rightarrow> string) \<Rightarrow> string \<Rightarrow> string \<Rightarrow> string \<Rightarrow> string option" where
  "ResolveToolArgs unmarshal decode marshal render compositionToolArgsJSON withJSON stepToolArgsJSON =
     Option.bind (mergeInto unmarshal compositionToolArgsJSON []) (\<lambda>merged.
     Option.bind (mergeInto unmarshal withJSON merged) (\<lambda>merged.
     Option.bind (mergeInto unmarshal stepToolArgsJSON merged) (\<lambda>merged.
     Option.bind (decode (render (marshal (JObj merged)))) (\<lambda>finalObj.
     Some (marshal (JObj finalObj))))))"

end
