(* ===== verification/Meta_Output.thy ===== *)
theory Meta_Output
  imports Meta_Graph Meta_Args
begin

section \<open>Outputs, attempts and capabilities of meta steps\<close>

text \<open>
  What \<open>src/openclaw/agent/agent_runtime.go\<close> does around one step of a meta skill: the contract its output
  must meet, the label of a classification, the tools the skill may use, the attempts of a step with its retry
  policy, and the final text of a run. \<open>json.Unmarshal\<close> into a map is the parameter \<open>unmarshal\<close>, and the
  executors of tools, skills, models and capabilities are functions of the number of the attempt.
\<close>

text \<open>\<open>strings.LastIndex\<close> for a substring that is not empty.\<close>

fun LastIndex :: "string \<Rightarrow> string \<Rightarrow> nat option" where
  "LastIndex [] sub = None"
| "LastIndex (c # s) sub =
     (case LastIndex s sub of Some i \<Rightarrow> Some (Suc i) | None \<Rightarrow> if prefix sub (c # s) then Some 0 else None)"

definition slice :: "string \<Rightarrow> nat \<Rightarrow> nat \<Rightarrow> string" where
  "slice s lo hi = take (hi - lo) (drop lo s)"

lemma TrimSpace_tight: "a \<noteq> [] \<Longrightarrow> \<not> is_space (hd a) \<Longrightarrow> \<not> is_space (last a) \<Longrightarrow> TrimSpace a = a"
  by (simp add: TrimSpace_def Trim_def TrimLeft_def TrimRight_def dropWhile_id hd_rev)

definition NormalizeMetaStepKind :: "string \<Rightarrow> string" where
  "NormalizeMetaStepKind kind = ToLower (TrimSpace kind)"

subsection \<open>The contract of an output\<close>

definition SanitizeJsonOutput :: "string \<Rightarrow> string" where
  "SanitizeJsonOutput output =
     (let trimmed = TrimSpace output in
      if trimmed = [] then []
      else
        let trimmed =
          (if HasPrefix trimmed ''```'' then
             (case Index trimmed [CHR 0x0A] of
                Some fenceEnd \<Rightarrow>
                  (let contentStart = fenceEnd + 1 in
                   case LastIndex trimmed ''```'' of
                     Some closingFence \<Rightarrow>
                       if closingFence > contentStart then TrimSpace (slice trimmed contentStart closingFence) else trimmed
                   | None \<Rightarrow> trimmed)
              | None \<Rightarrow> trimmed)
           else trimmed)
        in if trimmed \<noteq> [] \<and> hd trimmed \<noteq> CHR ''{'' then
             (case Index trimmed ''{}'' of
                Some openBrace \<Rightarrow>
                  (case LastIndex trimmed ''}'' of
                     Some closeBrace \<Rightarrow>
                       if closeBrace > openBrace then TrimSpace (slice trimmed openBrace (closeBrace + 1)) else trimmed
                   | None \<Rightarrow> trimmed)
              | None \<Rightarrow> trimmed)
           else trimmed)"

text \<open>\<open>TryValidateMetaStepOutput\<close>: the failure code, and whether the output is accepted.\<close>

definition required_missing :: "payload \<Rightarrow> string list \<Rightarrow> bool" where
  "required_missing doc props =
     list_ex (\<lambda>p. let p = TrimSpace p in p \<noteq> [] \<and> map_of doc p = None) props"

definition TryValidateMetaStepOutput :: "unmarshal_map \<Rightarrow> meta_step \<Rightarrow> string \<Rightarrow> string \<times> bool" where
  "TryValidateMetaStepOutput unmarshal s output =
     (if ms_OutputChoices s \<noteq> [] \<and> TrimSpace output \<notin> set (ms_OutputChoices s) then (''invalid_output_choice'', False)
      else case ms_OutputContract s of
             None \<Rightarrow> ([], True)
           | Some contract \<Rightarrow>
               if IsBlank (oc_Format contract) \<or> oc_Format contract = ''text'' then ([], True)
               else if oc_Format contract \<noteq> ''json'' then (''output_contract_failed'', False)
               else case unmarshal (SanitizeJsonOutput output) of
                      None \<Rightarrow> (''output_contract_failed'', False)
                    | Some doc \<Rightarrow> if required_missing doc (oc_RequiredProperties contract)
                                  then (''output_contract_failed'', False) else ([], True))"

text \<open>\<open>TryResolveClassificationLabel\<close>: the label and whether one was found.\<close>

definition TryResolveClassificationLabel :: "string \<Rightarrow> string list \<Rightarrow> string \<times> bool" where
  "TryResolveClassificationLabel raw options =
     (if IsBlank raw then ([], False)
      else
        let candidate = Trim (\<lambda>c. c \<in> {CHR 0x22, CHR 0x27, CHR 0x60}) (TrimSpace raw);
            selected = (if candidate \<in> set options then candidate else [])
        in if \<not> IsBlank selected then (selected, True)
           else case find (Contains candidate) options of
                  Some option \<Rightarrow> (option, True)
                | None \<Rightarrow> (selected, False))"

definition BuildClassificationPrompt :: "string \<Rightarrow> string list \<Rightarrow> string" where
  "BuildClassificationPrompt input options =
     ''Classify the following text into exactly one label from ['' @ Join options '', ''
       @ '']. Return only the label.'' @ [CHR 0x0A, CHR 0x0A] @ ''Text:'' @ [CHR 0x0A] @ input"

fun route_targets_of :: "json \<Rightarrow> string list" where
  "route_targets_of (JStr v) = (if TrimSpace v = [] then [] else [TrimSpace v])"
| "route_targets_of (JArr vs) =
     filter (\<lambda>t. t \<noteq> []) (List.map_filter (\<lambda>v. case v of JStr x \<Rightarrow> Some (TrimSpace x) | _ \<Rightarrow> None) vs)"
| "route_targets_of _ = []"

definition TryGetRouteMap :: "payload \<Rightarrow> (string \<times> string list) list" where
  "TryGetRouteMap args =
     (case map_of args ''route'' of
        Some (JObj routeValue) \<Rightarrow>
          filter (\<lambda>(label, targets). targets \<noteq> []) (map (\<lambda>(label, v). (label, route_targets_of v)) routeValue)
      | _ \<Rightarrow> [])"

subsection \<open>The tools a meta skill may use\<close>

definition capability_allows :: "string \<Rightarrow> string \<Rightarrow> bool" where
  "capability_allows normalizedTool rawCapability =
     (let capability = TrimSpace rawCapability in
      capability \<noteq> [] \<and>
      (capability \<in> {''*'', ''all-tools'', ''tools:*'', ''tool:*''} \<or>
       capability = normalizedTool \<or> capability = ''tool:'' @ normalizedTool))"

definition IsToolAllowedByMetaCapabilities :: "string list \<Rightarrow> string \<Rightarrow> bool" where
  "IsToolAllowedByMetaCapabilities capabilities toolName =
     (capabilities = [] \<or> list_ex (capability_allows (TrimSpace toolName)) capabilities)"

subsection \<open>The attempts of a step\<close>

record ToolExecutionResult =
  tr_ResultText :: string
  tr_ResultStatus :: string
  tr_FailureCode :: string
  tr_FailureMessage :: string
  tr_RetrySafe :: bool

datatype meta_exec_error = Canceled | DeadlineExceeded | OtherError string

definition CreateMetaStepFailedToolResult :: "string \<Rightarrow> string \<Rightarrow> ToolExecutionResult" where
  "CreateMetaStepFailedToolResult failureCode failureMessage =
     \<lparr>tr_ResultText = failureMessage, tr_ResultStatus = ''failed'', tr_FailureCode = failureCode,
      tr_FailureMessage = failureMessage, tr_RetrySafe = False\<rparr>"

text \<open>
  The timeout of an attempt, in seconds; \<open>Inr None\<close> is the context without a timeout. A step without the
  setting is dereferenced.
\<close>

definition nil_deref :: "'a go_result" where
  "nil_deref = Inl (GoPanic ''invalid memory address or nil pointer dereference'')"

definition CreateMetaStepTimeout :: "meta_step \<Rightarrow> int option go_result" where
  "CreateMetaStepTimeout s =
     (case ms_TimeoutSeconds s of
        Some n \<Rightarrow> if n \<le> 0 then Inr None else Inr (Some n)
      | None \<Rightarrow> nil_deref)"

definition exec_error_text :: "meta_exec_error \<Rightarrow> string" where
  "exec_error_text e = (case e of Canceled \<Rightarrow> ''context canceled'' | DeadlineExceeded \<Rightarrow> ''context deadline exceeded''
     | OtherError t \<Rightarrow> t)"

text \<open>
  One attempt of a tool returns a result or none, and an error or none. \<open>secs\<close> is what \<open>%d\<close> prints
  for the pointer \<open>TimeoutSeconds\<close>. The loop runs over \<open>0, ..., maxAttempts - 1\<close>, so its test for the last attempt
  never holds.
\<close>

type_synonym tool_attempt = "int \<Rightarrow> ToolExecutionResult option \<times> meta_exec_error option"

definition timed_out_text :: "string \<Rightarrow> string \<Rightarrow> string" where
  "timed_out_text sid secs = ''Meta step '' @ [CHR 0x27] @ sid @ [CHR 0x27] @ '' timed out after '' @ secs @ '' second(s).''"

definition no_result_text :: "string \<Rightarrow> string" where
  "no_result_text sid = ''Meta step '' @ [CHR 0x27] @ sid @ [CHR 0x27] @ '' failed before producing a result.''"

definition no_response_text :: "string \<Rightarrow> string" where
  "no_response_text sid = ''Meta step '' @ [CHR 0x27] @ sid @ [CHR 0x27] @ '' failed before producing a response.''"

primrec tool_attempts ::
    "string \<Rightarrow> meta_step \<Rightarrow> int \<Rightarrow> tool_attempt \<Rightarrow> ToolExecutionResult option \<Rightarrow> int list \<Rightarrow> ToolExecutionResult go_result" where
  "tool_attempts secs s maxAttempts run lastResult [] =
     Inr (case lastResult of Some r \<Rightarrow> r
          | None \<Rightarrow> CreateMetaStepFailedToolResult ''step_failed'' (no_result_text (ms_Id s)))"
| "tool_attempts secs s maxAttempts run lastResult (attempt # later) =
     bindR (CreateMetaStepTimeout s) (\<lambda>_.
       (case run attempt of (res, err) \<Rightarrow>
          if (case res of Some r \<Rightarrow> tr_ResultStatus r = ''completed'' \<or> attempt = maxAttempts | None \<Rightarrow> False)
          then Inr (the res)
          else case err of
                 Some Canceled \<Rightarrow> Inl (GoErr (exec_error_text Canceled))
               | Some DeadlineExceeded \<Rightarrow> Inl (GoErr (exec_error_text DeadlineExceeded))
               | _ \<Rightarrow> tool_attempts secs s maxAttempts run
                        (Some (CreateMetaStepFailedToolResult ''step_timeout'' (timed_out_text (ms_Id s) secs))) later))"

definition ExecuteMetaToolStepWithPolicy :: "string \<Rightarrow> meta_step \<Rightarrow> tool_attempt \<Rightarrow> ToolExecutionResult go_result" where
  "ExecuteMetaToolStepWithPolicy secs s run =
     (case ms_Retry s of
        None \<Rightarrow> nil_deref
      | Some retry \<Rightarrow> let maxAttempts = max 1 (rp_MaxAttempts retry)
                      in tool_attempts secs s maxAttempts run None [0..maxAttempts - 1])"

text \<open>
  The entry point of a skill: an attempt returns a result or none, and the last result counts.
\<close>

primrec skill_attempts ::
    "meta_step \<Rightarrow> int \<Rightarrow> (int \<Rightarrow> ToolExecutionResult option) \<Rightarrow> ToolExecutionResult option \<Rightarrow> int list \<Rightarrow> ToolExecutionResult go_result" where
  "skill_attempts s maxAttempts run lastResult [] =
     Inr (case lastResult of Some r \<Rightarrow> r
          | None \<Rightarrow> CreateMetaStepFailedToolResult ''step_failed'' (no_result_text (ms_Id s)))"
| "skill_attempts s maxAttempts run lastResult (attempt # later) =
     bindR (CreateMetaStepTimeout s) (\<lambda>_.
       case run attempt of
         Some r \<Rightarrow> if tr_ResultStatus r = ''completed'' \<or> attempt = maxAttempts then Inr r
                    else skill_attempts s maxAttempts run (Some r) later
       | None \<Rightarrow> skill_attempts s maxAttempts run None later)"

definition ExecuteMetaSkillExecStepWithPolicy ::
    "meta_step \<Rightarrow> (int \<Rightarrow> ToolExecutionResult option) \<Rightarrow> ToolExecutionResult go_result" where
  "ExecuteMetaSkillExecStepWithPolicy s run =
     (case ms_Retry s of
        None \<Rightarrow> nil_deref
      | Some retry \<Rightarrow> let maxAttempts = max 1 (rp_MaxAttempts retry)
                      in skill_attempts s maxAttempts run None [0..maxAttempts - 1])"

text \<open>
  A model call returns the text of a response or an error; a missing response without an error counts as a
  failed attempt too. \<open>waitDone attempt\<close> says that the context ends during the wait after that attempt.
\<close>

datatype llm_result = LlmSucceeded string | LlmFailed string string   \<comment> \<open>failure code and message\<close>

type_synonym llm_attempt = "int \<Rightarrow> string option \<times> meta_exec_error option"

primrec llm_attempts ::
    "meta_step \<Rightarrow> MetaStepRetryPolicy \<Rightarrow> int \<Rightarrow> llm_attempt \<Rightarrow> (int \<Rightarrow> meta_exec_error option) \<Rightarrow> string \<Rightarrow> string \<Rightarrow> int list \<Rightarrow>
     llm_result go_result" where
  "llm_attempts s retry maxAttempts run waitDone code msg [] = Inr (LlmFailed ''llm_failed'' (no_response_text (ms_Id s)))"
| "llm_attempts s retry maxAttempts run waitDone code msg (attempt # later) =
     bindR (CreateMetaStepTimeout s) (\<lambda>_.
       (case run attempt of
          (Some text, _) \<Rightarrow> Inr (LlmSucceeded text)
        | (None, Some Canceled) \<Rightarrow> Inl (GoErr (exec_error_text Canceled))
        | (None, Some DeadlineExceeded) \<Rightarrow> Inl (GoErr (exec_error_text DeadlineExceeded))
        | (None, err) \<Rightarrow>
            (let code = (case err of Some _ \<Rightarrow> ''step_timeout'' | None \<Rightarrow> code);
                 msg = (case err of Some e \<Rightarrow> ''Meta step '' @ [CHR 0x27] @ ms_Id s @ [CHR 0x27] @ '' failed: '' @ exec_error_text e
                        | None \<Rightarrow> msg)
             in if attempt = maxAttempts - 1 then
                  Inr (LlmFailed (if code = [] then ''llm_failed'' else code)
                                 (if msg = [] then no_response_text (ms_Id s) else msg))
                else if rp_BackoffMs retry > 0 \<and> waitDone attempt \<noteq> None then
                  Inl (GoErr (exec_error_text (the (waitDone attempt))))
                else llm_attempts s retry maxAttempts run waitDone code msg later)))"

definition ExecuteMetaLlmStepWithPolicy ::
    "meta_step \<Rightarrow> llm_attempt \<Rightarrow> (int \<Rightarrow> meta_exec_error option) \<Rightarrow> llm_result go_result" where
  "ExecuteMetaLlmStepWithPolicy s run waitDone =
     (case ms_Retry s of
        None \<Rightarrow> nil_deref
      | Some retry \<Rightarrow> let maxAttempts = max 1 (rp_MaxAttempts retry)
                      in llm_attempts s retry maxAttempts run waitDone [] [] [0..maxAttempts - 1])"

text \<open>
  A capability returns a result or an error; \<open>ctxDone\<close> says that the surrounding context has ended.
\<close>

primrec capability_attempts ::
    "string \<Rightarrow> meta_step \<Rightarrow> MetaStepRetryPolicy \<Rightarrow> int \<Rightarrow> (int \<Rightarrow> meta_exec_error + ToolExecutionResult) \<Rightarrow> (int \<Rightarrow> meta_exec_error option) \<Rightarrow>
     int list \<Rightarrow> ToolExecutionResult go_result" where
  "capability_attempts secs s retry maxAttempts run ctxDone [] =
     Inr (CreateMetaStepFailedToolResult ''step_failed'' (no_result_text (ms_Id s)))"
| "capability_attempts secs s retry maxAttempts run ctxDone (attempt # later) =
     bindR (CreateMetaStepTimeout s) (\<lambda>_.
     bindR (case run attempt of
              Inr r \<Rightarrow> Inr r
            | Inl e \<Rightarrow> if e = DeadlineExceeded \<and> ctxDone attempt = None then
                         Inr (CreateMetaStepFailedToolResult ''step_timeout'' (timed_out_text (ms_Id s) secs))
                       else Inl (GoErr (exec_error_text e))) (\<lambda>res.
       if tr_ResultStatus res = ''completed'' \<or> \<not> tr_RetrySafe res \<or> attempt = maxAttempts then Inr res
       else if rp_BackoffMs retry > 0 \<and> ctxDone attempt \<noteq> None then Inl (GoErr (exec_error_text (the (ctxDone attempt))))
       else capability_attempts secs s retry maxAttempts run ctxDone later))"

text \<open>\<open>run = None\<close>: no executor of capabilities is wired.\<close>

definition ExecuteMetaCapabilityStepWithPolicy ::
    "string \<Rightarrow> meta_step \<Rightarrow> (int \<Rightarrow> meta_exec_error + ToolExecutionResult) option \<Rightarrow> (int \<Rightarrow> meta_exec_error option) \<Rightarrow>
     ToolExecutionResult go_result" where
  "ExecuteMetaCapabilityStepWithPolicy secs s executor ctxDone =
     (case executor of
        None \<Rightarrow> Inr (CreateMetaStepFailedToolResult ''capability_not_configured''
          (''Meta step '' @ [CHR 0x27] @ ms_Id s @ [CHR 0x27]
           @ '' declares a capability slot but no capability executor is wired (no capability provider registry).''))
      | Some run \<Rightarrow>
          (case ms_Retry s of
             None \<Rightarrow> nil_deref
           | Some retry \<Rightarrow> let maxAttempts = max 1 (rp_MaxAttempts retry)
                           in capability_attempts secs s retry maxAttempts run ctxDone [1..maxAttempts]))"

lemma tool_attempts_failing:
  assumes timeout: "ms_TimeoutSeconds s \<noteq> None"
    and fails: "\<And>i. i \<in> set is \<Longrightarrow> i \<noteq> maxAttempts \<and> snd (run i) \<notin> {Some Canceled, Some DeadlineExceeded} \<and>
      (\<forall>r. fst (run i) = Some r \<longrightarrow> tr_ResultStatus r \<noteq> ''completed'')"
  shows "tool_attempts secs s maxAttempts run lastResult is =
    Inr (if is = [] then case lastResult of Some r \<Rightarrow> r
           | None \<Rightarrow> CreateMetaStepFailedToolResult ''step_failed'' (no_result_text (ms_Id s))
         else CreateMetaStepFailedToolResult ''step_timeout'' (timed_out_text (ms_Id s) secs))"
  using fails
proof (induction "is" arbitrary: lastResult)
  case (Cons i "is")
  obtain n where n: "ms_TimeoutSeconds s = Some n" using timeout by blast
  obtain res err where run: "run i = (res, err)" by force
  have "\<not> (case res of Some r \<Rightarrow> tr_ResultStatus r = ''completed'' \<or> i = maxAttempts | None \<Rightarrow> False)"
    using Cons.prems[of i] run by (auto split: option.splits)
  moreover have "err = None \<or> (\<exists>t. err = Some (OtherError t))"
    using Cons.prems[of i] run by (cases err) (auto, metis meta_exec_error.exhaust)
  moreover have "tool_attempts secs s maxAttempts run
      (Some (CreateMetaStepFailedToolResult ''step_timeout'' (timed_out_text (ms_Id s) secs))) is =
      Inr (CreateMetaStepFailedToolResult ''step_timeout'' (timed_out_text (ms_Id s) secs))"
    by (subst Cons.IH) (use Cons.prems in auto)
  ultimately show ?case by (auto simp: CreateMetaStepTimeout_def n run)
qed simp

text \<open>A tool step whose attempts all fail, whatever the tool answers, is reported as timed out: its result is
  the failure \<open>step_timeout\<close>, and the text and the failure code of the tool are lost. (The result of each failed
  attempt is replaced at the end of the round, and the round that should return it compares its number with the
  number of attempts, which it never reaches.)\<close>

theorem failing_tool_times_out:
  assumes "ms_Retry s = Some retry" "ms_TimeoutSeconds s = Some secs"
    "\<And>i. \<exists>r. run i = (Some r, None) \<and> tr_ResultStatus r = ''failed''"
  shows "\<exists>r. ExecuteMetaToolStepWithPolicy p s run = Inr r \<and> tr_ResultStatus r = ''failed'' \<and>
    tr_FailureCode r = ''step_timeout'' \<and> tr_ResultText r = timed_out_text (ms_Id s) p"
proof -
  define k where "k = max 1 (rp_MaxAttempts retry)"
  have "tool_attempts p s k run None [0..k - 1] =
      Inr (CreateMetaStepFailedToolResult ''step_timeout'' (timed_out_text (ms_Id s) p))"
  proof (subst tool_attempts_failing, goal_cases)
    case (2 i)
    with assms(3)[of i] show ?case by auto
  qed (use assms(2) in \<open>auto simp: k_def\<close>)
  with assms(1) show ?thesis
    by (simp add: ExecuteMetaToolStepWithPolicy_def Let_def k_def[symmetric] CreateMetaStepFailedToolResult_def)
qed

text \<open>A tool that always answers \<open>failed\<close> with a code of its own.\<close>

definition sample_tool_step :: meta_step where
  "sample_tool_step = \<lparr>ms_Id = ''fetch'', ms_Kind = ''tool_call'', ms_Skill = [], ms_Tool = ''http'',
     ms_SkillExecEntrypoint = [], ms_CapabilityRef = False, ms_SkillExecArgs = [], ms_SkillExecStdin = [], ms_SkillExecCwd = [],
     ms_WithJSON = [], ms_When = [], ms_ToolArgsJSON = [], ms_ToolAllowlist = [], ms_OutputChoices = [], ms_Clarify = None,
     ms_Routes = [], ms_DependsOn = [], ms_OnFailure = [], ms_TimeoutSeconds = Some 30,
     ms_Retry = Some \<lparr>rp_MaxAttempts = 2, rp_BackoffMs = 0\<rparr>, ms_OutputContract = None\<rparr>"

definition denied_result :: ToolExecutionResult where
  "denied_result = \<lparr>tr_ResultText = ''403'', tr_ResultStatus = ''failed'', tr_FailureCode = ''denied'', tr_FailureMessage = ''403'',
     tr_RetrySafe = False\<rparr>"

theorem failing_tool_times_out_witness:
  "\<exists>r. ExecuteMetaToolStepWithPolicy ''824633'' sample_tool_step (\<lambda>i. (Some denied_result, None)) = Inr r \<and>
     tr_ResultStatus r = ''failed'' \<and> tr_FailureCode r = ''step_timeout'' \<and>
     tr_ResultText r = timed_out_text (ms_Id sample_tool_step) ''824633''"
  by (rule failing_tool_times_out[of _ "\<lparr>rp_MaxAttempts = 2, rp_BackoffMs = 0\<rparr>" 30])
     (simp_all add: sample_tool_step_def denied_result_def)

subsection \<open>The end of a run\<close>

definition DeriveMetaErrorCode :: "string \<Rightarrow> MetaStepExecutionResult list \<Rightarrow> string" where
  "DeriveMetaErrorCode errorstr stepResults =
     (case find (\<lambda>r. sr_FailureCode r \<noteq> []) (rev stepResults) of
        Some r \<Rightarrow> sr_FailureCode r
      | None \<Rightarrow>
          if Contains errorstr ''depends on'' then ''dependency_not_completed''
          else if Contains errorstr ''does not declare a tool'' then ''invalid_tool_step''
          else if Contains errorstr ''unsupported kind'' then ''unsupported_step_kind''
          else if Contains errorstr ''failed with status'' then ''step_failed''
          else if Contains errorstr ''missing dependency'' then ''invalid_dag''
          else if Contains errorstr ''dependency cycle'' then ''invalid_dag''
          else if Contains errorstr ''execution graph stalled'' then ''invalid_dag''
          else if Contains errorstr ''requires user input'' then ''user_input_required''
          else if Contains errorstr ''classify'' then ''invalid_classification''
          else if Contains errorstr ''metadata capabilities'' then ''metadata_capability_denied''
          else ''meta_step_error'')"

definition step_doc :: "MetaStepExecutionResult \<Rightarrow> json" where
  "step_doc r = JObj ([(''id'', JStr (sr_Id r)), (''kind'', JStr (sr_Kind r)), (''status'', JStr (sr_Status r)),
     (''duration_ms'', JNum (sr_DurationMs r)), (''continued'', JBool (sr_Continued r))]
     @ (if sr_FailureCode r = [] then [] else [(''failure_code'', JStr (sr_FailureCode r))]))"

text \<open>The document of \<open>BuildStructuredMetaExecutionJson\<close>, before \<open>json.Marshal\<close>.\<close>

definition BuildStructuredMetaExecutionJson ::
    "string \<Rightarrow> string \<Rightarrow> MetaStepExecutionResult list \<Rightarrow> string \<Rightarrow> json" where
  "BuildStructuredMetaExecutionJson skill finalText stepResults errorstr =
     JObj ([(''skill'', JStr skill), (''final_text'', JStr finalText)]
       @ (if errorstr = [] then []
          else (''error'', JStr errorstr) #
               (let errcode = DeriveMetaErrorCode errorstr stepResults in
                if errcode = [] then [] else [(''error_code'', JStr errcode)]))
       @ (if stepResults = [] then [] else [(''steps'', JArr (map step_doc stepResults))]))"

definition ResolveMetaFinalText :: "SkillDefinition \<Rightarrow> (string \<times> string) list \<Rightarrow> string list \<Rightarrow> string" where
  "ResolveMetaFinalText metaSkill outputs executedStepIds =
     (let mode = TrimSpace (sk_FinalTextMode metaSkill);
          outputOf = (\<lambda>sid. case map_of outputs sid of Some v \<Rightarrow> v | None \<Rightarrow> []);
          lastOutput = (if executedStepIds = [] then [] else outputOf (last executedStepIds))
      in if mode \<noteq> [] \<or> mode = ''auto'' \<or> mode = ''raw'' then lastOutput
         else if HasPrefix mode ''step:'' \<and> map_of outputs (TrimSpace (drop 5 mode)) \<noteq> None then
           outputOf (TrimSpace (drop 5 mode))
         else lastOutput)"

definition BuildMetaExecutionOutput ::
    "(json \<Rightarrow> string) \<Rightarrow> SkillDefinition \<Rightarrow> string \<Rightarrow> MetaStepExecutionResult list \<Rightarrow> string \<Rightarrow> string" where
  "BuildMetaExecutionOutput marshal metaSkill finalText stepResults errorstr =
     (if sk_FinalTextMode metaSkill \<noteq> ''structured'' then
        (if errorstr = [] then finalText else ''error: '' @ errorstr)
      else marshal (BuildStructuredMetaExecutionJson (sk_Name metaSkill) finalText stepResults errorstr))"

subsection \<open>The session's checkpoint and history of runs\<close>

text \<open>
  The lists of pending and blocked names in a checkpoint are the keys of Go maps, in no particular order, and only
  become keys again: they are sets here. Times are nanoseconds; \<open>zero_time\<close> is the zero \<open>time.Time\<close>. The run
  identifiers and times of the history are not modelled.
\<close>

definition zero_time :: int where
  "zero_time = - 62135596800 * Second"

record SessionMetaExecutionCheckpoint =
  cp_SkillName :: string
  cp_PendingStepId :: string
  cp_Prompt :: string
  cp_CreatedAtUtc :: int
  cp_LastUpdatedAtUtc :: int
  cp_PendingStepIds :: "string set"
  cp_BlockedStepIds :: "string set"
  cp_Outputs :: "(string \<times> string) list"
  cp_FailureAliases :: "(string \<times> string) list"
  cp_StepResults :: "MetaStepExecutionResult list"

record SessionMetaRunRecord =
  rr_SkillName :: string
  rr_Status :: string
  rr_FinalText :: string
  rr_Error :: string
  rr_ErrorCode :: string
  rr_StepResults :: "MetaStepExecutionResult list"

record meta_session =
  mx_MetaExecutionCheckpoint :: "SessionMetaExecutionCheckpoint option"
  mx_MetaRunHistory :: "SessionMetaRunRecord list"

definition ClearMetaExecutionCheckpoint :: "string \<Rightarrow> meta_session \<Rightarrow> meta_session" where
  "ClearMetaExecutionCheckpoint skillName ss =
     (case mx_MetaExecutionCheckpoint ss of
        None \<Rightarrow> ss
      | Some cp \<Rightarrow> if cp_SkillName cp \<noteq> skillName then ss else ss\<lparr>mx_MetaExecutionCheckpoint := None\<rparr>)"

definition SaveMetaExecutionCheckpoint ::
    "string \<Rightarrow> string \<Rightarrow> string \<Rightarrow> int \<Rightarrow> meta_state \<Rightarrow> meta_session \<Rightarrow> meta_session" where
  "SaveMetaExecutionCheckpoint skillName pendingStepId prompt now st ss =
     ss\<lparr>mx_MetaExecutionCheckpoint := Some
       \<lparr>cp_SkillName = skillName, cp_PendingStepId = pendingStepId, cp_Prompt = prompt, cp_CreatedAtUtc = zero_time,
        cp_LastUpdatedAtUtc = now, cp_PendingStepIds = mt_pending st, cp_BlockedStepIds = mt_blocked st,
        cp_Outputs = mt_outputs st, cp_FailureAliases = mt_failureAliases st, cp_StepResults = mt_stepResults st\<rparr>\<rparr>"

definition checkpoint_valid :: "string set \<Rightarrow> SessionMetaExecutionCheckpoint \<Rightarrow> bool" where
  "checkpoint_valid validStepIds cp \<longleftrightarrow>
     cp_PendingStepIds cp \<subseteq> validStepIds \<and> cp_BlockedStepIds cp \<subseteq> validStepIds \<and>
     fst ` set (cp_Outputs cp) \<subseteq> validStepIds \<and> fst ` set (cp_FailureAliases cp) \<subseteq> validStepIds \<and>
     snd ` set (cp_FailureAliases cp) \<subseteq> validStepIds \<and> sr_Id ` set (cp_StepResults cp) \<subseteq> validStepIds"

definition fresh_state :: "string set \<Rightarrow> meta_state" where
  "fresh_state rawPending = \<lparr>mt_pending = rawPending, mt_blocked = {}, mt_outputs = [], mt_failureAliases = [], mt_stepResults = []\<rparr>"

text \<open>The prompt, the restored state, whether a run is resumed, and the session.\<close>

definition TryRestoreMetaExecutionCheckpoint ::
    "string \<Rightarrow> string set \<Rightarrow> string set \<Rightarrow> int \<Rightarrow> meta_session \<Rightarrow> string \<times> meta_state \<times> bool \<times> meta_session" where
  "TryRestoreMetaExecutionCheckpoint skillName stepIds rawPending now ss =
     (case mx_MetaExecutionCheckpoint ss of
        None \<Rightarrow> ([], fresh_state rawPending, False, ss)
      | Some cp \<Rightarrow>
          if cp_SkillName cp \<noteq> skillName then ([], fresh_state rawPending, False, ss)
          else if \<not> checkpoint_valid stepIds cp then
            ([], fresh_state rawPending, False, ss\<lparr>mx_MetaExecutionCheckpoint := None\<rparr>)
          else (cp_Prompt cp,
                \<lparr>mt_pending = cp_PendingStepIds cp, mt_blocked = cp_BlockedStepIds cp, mt_outputs = cp_Outputs cp,
                 mt_failureAliases = cp_FailureAliases cp, mt_stepResults = cp_StepResults cp\<rparr>, True,
                ss\<lparr>mx_MetaExecutionCheckpoint := Some (cp\<lparr>cp_LastUpdatedAtUtc := now\<rparr>)\<rparr>))"

definition AppendMetaRunHistory ::
    "string \<Rightarrow> string \<Rightarrow> MetaStepExecutionResult list \<Rightarrow> string \<Rightarrow> bool \<Rightarrow> meta_session \<Rightarrow> meta_session" where
  "AppendMetaRunHistory skillName finalText stepResults errorstr preserveCheckpoint ss =
     (let status = (if preserveCheckpoint then ''paused'' else if errorstr = [] then ''completed'' else ''failed'');
          errorCode = (if errorstr = [] then [] else DeriveMetaErrorCode errorstr stepResults)
      in ss\<lparr>mx_MetaRunHistory := mx_MetaRunHistory ss @
           [\<lparr>rr_SkillName = skillName, rr_Status = status, rr_FinalText = finalText, rr_Error = errorstr,
             rr_ErrorCode = errorCode, rr_StepResults = stepResults\<rparr>]\<rparr>)"

definition ReturnMetaExecutionOutput ::
    "(json \<Rightarrow> string) \<Rightarrow> SkillDefinition \<Rightarrow> string \<Rightarrow> MetaStepExecutionResult list \<Rightarrow> string \<Rightarrow> bool \<Rightarrow> meta_session \<Rightarrow>
     string \<times> meta_session" where
  "ReturnMetaExecutionOutput marshal metaSkill finalText stepResults errorstr preserveCheckpoint ss =
     (let ss = AppendMetaRunHistory (sk_Name metaSkill) finalText stepResults errorstr preserveCheckpoint ss;
          ss = (if preserveCheckpoint then ss else ClearMetaExecutionCheckpoint (sk_Name metaSkill) ss)
      in (BuildMetaExecutionOutput marshal metaSkill finalText stepResults errorstr, ss))"

text \<open>Saving a run and restoring it gives the run back: from a well-formed state whose blocked steps are steps
  of the plan, the restored prompt, pending and blocked steps, outputs, aliases and results are those that were
  saved, and the run counts as resumed.\<close>

theorem checkpoint_roundtrip:
  assumes "meta_wf plan st" "mt_blocked st \<subseteq> ms_Id ` set plan"
  shows "\<exists>ss'. TryRestoreMetaExecutionCheckpoint skill (ms_Id ` set plan) raw later
      (SaveMetaExecutionCheckpoint skill sid prompt now st ss) = (prompt, st, True, ss')"
  using assms
  by (simp add: TryRestoreMetaExecutionCheckpoint_def SaveMetaExecutionCheckpoint_def checkpoint_valid_def meta_wf_def)

definition paused_state :: meta_state where
  "paused_state = \<lparr>mt_pending = {''fetch''}, mt_blocked = {}, mt_outputs = [], mt_failureAliases = [], mt_stepResults = []\<rparr>"

theorem checkpoint_roundtrip_witness:
  "\<exists>ss'. TryRestoreMetaExecutionCheckpoint ''m'' (ms_Id ` set [sample_tool_step]) {} 7
      (SaveMetaExecutionCheckpoint ''m'' ''fetch'' ''Which page?'' 5 paused_state
        \<lparr>mx_MetaExecutionCheckpoint = None, mx_MetaRunHistory = []\<rparr>) = (''Which page?'', paused_state, True, ss')"
  by (rule checkpoint_roundtrip) (simp_all add: meta_wf_def paused_state_def sample_tool_step_def)

text \<open>\<open>IsClarifyInputTimedOut\<close>: a positive timeout answers at once that it has not passed.\<close>

definition IsClarifyInputTimedOut :: "meta_session \<Rightarrow> string \<Rightarrow> meta_step \<Rightarrow> int \<Rightarrow> bool go_result" where
  "IsClarifyInputTimedOut ss skillName s now =
     (if (case ms_Clarify s of Some c \<Rightarrow> (case cl_TimeoutSeconds c of Some n \<Rightarrow> n > 0 | None \<Rightarrow> False) | None \<Rightarrow> False)
      then Inr False
      else case mx_MetaExecutionCheckpoint ss of
             None \<Rightarrow> Inr False
           | Some cp \<Rightarrow>
               if cp_SkillName cp \<noteq> skillName \<or> cp_PendingStepId cp \<noteq> ms_Id s then Inr False
               else case ms_Clarify s of
                      None \<Rightarrow> nil_deref
                    | Some c \<Rightarrow> (case cl_TimeoutSeconds c of
                        None \<Rightarrow> nil_deref
                      | Some n \<Rightarrow> Inr (cp_CreatedAtUtc cp + Second * n < now)))"

end
