(* ===== verification/Meta_Condition.thy ===== *)
theory Meta_Condition
  imports Meta_Output "HOL-Library.Monad_Syntax"
begin

section \<open>Conditions of meta steps\<close>

text \<open>
  \<open>MetaConditionEvaluator\<close> of \<open>src/openclaw/core/skills_meta.go\<close>: a condition is split at its top-level
  \<open>and\<close> and \<open>or\<close>, every part is rendered by the template engine, and the texts are read as truth values. The
  engine (pongo2, not part of the repository) is the parameter \<open>pongo\<close>; it returns a text or an error. An
  evaluation is \<open>None\<close> when it never returns (the Go stack overflows) and \<open>Some (Inl p)\<close> when it panics.
\<close>

type_synonym template_engine = "string \<Rightarrow> MetaExecutionContext \<Rightarrow> string + string"

definition Render :: "template_engine \<Rightarrow> MetaExecutionContext \<Rightarrow> string \<Rightarrow> string" where
  "Render pongo ctx templateStr =
     (case pongo templateStr ctx of
        Inl e \<Rightarrow> ''(template render error: '' @ e @ '')''
      | Inr text \<Rightarrow> text)"

definition IsTruthy :: "string \<Rightarrow> bool" where
  "IsTruthy v =
     (let normalized = TrimSpace v in
      if normalized = [] then False
      else case ParseBool (ToLower normalized) of
             Some b \<Rightarrow> b
           | None \<Rightarrow> ToLower normalized \<notin> {''0'', ''no'', ''off'', ''null'', ''none'', ''undefined''})"

subsection \<open>Splitting at the operators\<close>

definition TryMatchLogicalOperator :: "string \<Rightarrow> nat \<Rightarrow> string \<Rightarrow> nat option" where
  "TryMatchLogicalOperator runes index operatorText =
     (let afterIndex = index + length operatorText in
      if afterIndex > length runes then None
      else if map lower_char (slice runes index afterIndex) \<noteq> map lower_char operatorText then None
      else if \<not> (index = 0 \<or> is_space (runes ! (index - 1)) \<or> runes ! (index - 1) = CHR ''('') then None
      else if \<not> (afterIndex = length runes \<or> is_space (runes ! afterIndex) \<or> runes ! afterIndex = CHR '')'') then None
      else Some (afterIndex + length (takeWhile is_space (drop afterIndex runes))))"

lemma TryMatch_greater: "TryMatchLogicalOperator runes i op = Some k \<Longrightarrow> op \<noteq> [] \<Longrightarrow> i < k"
  by (cases op) (auto simp: TryMatchLogicalOperator_def Let_def split: if_splits)

record operatorPart =
  op_Expression :: string
  op_Operator :: string

definition add_part :: "string \<Rightarrow> string \<Rightarrow> operatorPart list \<Rightarrow> operatorPart list" where
  "add_part text operator parts =
     (let expr = TrimSpace text in
      if expr = [] then parts else parts @ [\<lparr>op_Expression = expr, op_Operator = operator\<rparr>])"

record scan_state =
  sn_depth :: int
  sn_inSingleQuote :: bool
  sn_inDoubleQuote :: bool
  sn_inCurly :: nat
  sn_lastSplit :: nat
  sn_parts :: "operatorPart list"

definition scan_quotes :: "char \<Rightarrow> scan_state \<Rightarrow> scan_state" where
  "scan_quotes ch q =
     (if ch = CHR 0x27 \<and> \<not> sn_inDoubleQuote q then q\<lparr>sn_inSingleQuote := \<not> sn_inSingleQuote q\<rparr>
      else if ch = CHR 0x22 \<and> \<not> sn_inSingleQuote q then q\<lparr>sn_inDoubleQuote := \<not> sn_inDoubleQuote q\<rparr> else q)"

definition scan_parens :: "char \<Rightarrow> scan_state \<Rightarrow> scan_state" where
  "scan_parens ch q =
     (if ch = CHR ''('' then q\<lparr>sn_depth := sn_depth q + 1\<rparr>
      else if ch = CHR '')'' then q\<lparr>sn_depth := sn_depth q - 1\<rparr> else q)"

function split_loop :: "string \<Rightarrow> nat \<Rightarrow> scan_state \<Rightarrow> scan_state" where
  "split_loop runes i q0 =
     (if i \<ge> length runes then q0
      else
        let ch = runes ! i; q1 = scan_quotes ch q0 in
        if sn_inSingleQuote q1 \<or> sn_inDoubleQuote q1 then split_loop runes (i + 1) q1
        else let q = scan_parens ch q1; nxt = (if i + 1 < length runes then Some (runes ! (i + 1)) else None) in
          if ch = CHR ''{'' \<and> (nxt = Some (CHR ''{'') \<or> nxt = Some (CHR ''%'')) then
            split_loop runes (i + 2) (q\<lparr>sn_inCurly := sn_inCurly q + 1\<rparr>)
          else if (ch = CHR ''}'' \<or> ch = CHR ''%'') \<and> nxt = Some (CHR ''}'') then
            split_loop runes (i + 2) (q\<lparr>sn_inCurly := sn_inCurly q - 1\<rparr>)
          else if sn_depth q > 0 \<or> sn_inCurly q > 0 then split_loop runes (i + 1) q
          else case TryMatchLogicalOperator runes i ''and'' of
            Some nextIndex \<Rightarrow> split_loop runes nextIndex
              (q\<lparr>sn_parts := add_part (slice runes (sn_lastSplit q) i) ''and'' (sn_parts q), sn_lastSplit := nextIndex\<rparr>)
          | None \<Rightarrow> (case TryMatchLogicalOperator runes i ''or'' of
              Some nextIndex \<Rightarrow> split_loop runes nextIndex
                (q\<lparr>sn_parts := add_part (slice runes (sn_lastSplit q) i) ''or'' (sn_parts q), sn_lastSplit := nextIndex\<rparr>)
            | None \<Rightarrow> split_loop runes (i + 1) q))"
  by pat_completeness auto

termination
  by (relation "measure (\<lambda>(runes, i, q). length runes - i)")
     (auto dest: TryMatch_greater simp: diff_less_mono2)

declare split_loop.simps [simp del]

definition SplitByTopLevelOperators :: "string \<Rightarrow> operatorPart list" where
  "SplitByTopLevelOperators expression =
     (let q = split_loop expression 0 \<lparr>sn_depth = 0, sn_inSingleQuote = False, sn_inDoubleQuote = False, sn_inCurly = 0,
                sn_lastSplit = 0, sn_parts = []\<rparr>
      in add_part (drop (sn_lastSplit q) expression) [] (sn_parts q))"

subsection \<open>Evaluation\<close>

definition ExtractIfCondition :: "string \<Rightarrow> string" where
  "ExtractIfCondition template =
     (let inner = drop 2 template in
      case Index inner ''%}'' of
        None \<Rightarrow> inner
      | Some endIdx \<Rightarrow>
          let inner = TrimSpace (take endIdx inner) in
          if length inner \<ge> 3 \<and> EqualFold (take 3 inner) ''if '' then TrimSpace (drop 3 inner)
          else if length inner \<ge> 7 \<and> EqualFold (take 7 inner) ''unless '' then TrimSpace (drop 7 inner)
          else inner)"

text \<open>
  A part that is wrapped in \<open>{{ }}\<close> or \<open>{% %}\<close> and holds an operator is unwrapped and evaluated again. A text that
  starts with an opening delimiter but does not end with the closing one is not changed by the unwrapping.
\<close>

definition unwrapped :: "string \<Rightarrow> string option" where
  "unwrapped expression =
     (let candidate = TrimSpace expression in
      if (HasPrefix candidate ''{{'' \<or> HasPrefix candidate ''{%'') \<and>
         (Contains (ToLower candidate) '' and '' \<or> Contains (ToLower candidate) '' or '') then
        Some (if HasPrefix candidate ''{{'' \<and> HasSuffix candidate ''}}''
                then TrimSpace (slice candidate 2 (length candidate - 2))
              else if HasPrefix candidate ''{%'' \<and> HasSuffix candidate ''%}'' then ExtractIfCondition candidate
              else candidate)
      else None)"

text \<open>The regular expression \<open>(?i)^not\<bslash>s+\<close>: the rest after it.\<close>

definition strip_not :: "string \<Rightarrow> string option" where
  "strip_not candidate =
     (if length candidate > 3 \<and> EqualFold (take 3 candidate) ''not'' \<and> re_space (candidate ! 3)
      then Some (dropWhile re_space (drop 3 candidate)) else None)"

definition template_of :: "string \<Rightarrow> string" where
  "template_of candidate =
     (if Contains candidate ''{{'' \<or> Contains candidate ''{%'' then candidate else ''{{ '' @ candidate @ '' }}'')"

definition plain_atomic :: "(string \<Rightarrow> string) \<Rightarrow> string \<Rightarrow> bool" where
  "plain_atomic render expression =
     (let candidate = TrimSpace expression in
      case strip_not candidate of
        Some rest \<Rightarrow> \<not> IsTruthy (render (template_of (TrimSpace rest)))
      | None \<Rightarrow> IsTruthy (render (template_of candidate)))"

text \<open>\<open>or\<close> closes the current group of \<open>and\<close>s.\<close>

fun combine_loop :: "bool list \<Rightarrow> bool \<Rightarrow> (string \<times> bool) list \<Rightarrow> bool" where
  "combine_loop orResults currentAnd [] = list_ex id (orResults @ [currentAnd])"
| "combine_loop orResults currentAnd ((oper, b) # rest) =
     (if EqualFold oper ''and'' then combine_loop orResults (currentAnd \<and> b) rest
      else combine_loop (orResults @ [currentAnd]) b rest)"

definition combine :: "operatorPart list \<Rightarrow> bool list \<Rightarrow> bool go_result" where
  "combine parts evaluated =
     (case evaluated of
        [] \<Rightarrow> Inl (GoPanic ''index out of range [0] with length 0'')
      | b # bs \<Rightarrow> Inr (combine_loop [] b (zip (map op_Operator (butlast parts)) bs)))"

text \<open>The evaluations of the parts one after the other; the first that does not return a value ends it all.\<close>

fun traverse :: "('a \<Rightarrow> 'b go_result option) \<Rightarrow> 'a list \<Rightarrow> 'b list go_result option" where
  "traverse f [] = Some (Inr [])"
| "traverse f (x # xs) =
     Option.bind (f x) (\<lambda>r. case r of Inl e \<Rightarrow> Some (Inl e)
       | Inr y \<Rightarrow> Option.bind (traverse f xs) (\<lambda>rs. Some (bindR rs (\<lambda>ys. Inr (y # ys)))))"

lemma traverse_mono [partial_function_mono]:
  assumes "\<And>x. mono_option (\<lambda>f. B f x)"
  shows "mono_option (\<lambda>f. traverse (B f) xs)"
proof (induction xs)
  case (Cons x xs)
  have "mono_option (\<lambda>f. case r of Inl e \<Rightarrow> Some (Inl e)
      | Inr y \<Rightarrow> Option.bind (traverse (B f) xs) (\<lambda>rs. Some (bindR rs (\<lambda>ys. Inr (y # ys)))))" for r
    by (cases r) (simp_all add: option.const_mono bind_mono Cons.IH)
  then show ?case unfolding traverse.simps by (intro bind_mono assms)
qed (simp add: option.const_mono)

partial_function (option) Evaluate :: "(string \<Rightarrow> string) \<Rightarrow> string \<Rightarrow> bool go_result option" where
  "Evaluate render expression =
     (let candidate = TrimSpace expression; parts = SplitByTopLevelOperators candidate in
      if candidate = [] then Some (Inr False)
      else if length parts = 1 then
        (case unwrapped (op_Expression (hd parts)) of
           Some inner \<Rightarrow> Evaluate render inner
         | None \<Rightarrow> Some (Inr (plain_atomic render (op_Expression (hd parts)))))
      else
        Option.bind (traverse (\<lambda>p. case unwrapped (op_Expression p) of
            Some inner \<Rightarrow> Evaluate render inner
          | None \<Rightarrow> Some (Inr (plain_atomic render (op_Expression p)))) parts)
          (\<lambda>evaluated. Some (bindR evaluated (combine parts))))"

definition EvaluateAtomic :: "(string \<Rightarrow> string) \<Rightarrow> string \<Rightarrow> bool go_result option" where
  "EvaluateAtomic render expression =
     (case unwrapped expression of
        Some inner \<Rightarrow> Evaluate render inner
      | None \<Rightarrow> Some (Inr (plain_atomic render expression)))"

lemma Evaluate_unfold:
  "Evaluate render expression =
     (let candidate = TrimSpace expression; parts = SplitByTopLevelOperators candidate in
      if candidate = [] then Some (Inr False)
      else if length parts = 1 then EvaluateAtomic render (op_Expression (hd parts))
      else Option.bind (traverse (\<lambda>p. EvaluateAtomic render (op_Expression p)) parts)
             (\<lambda>evaluated. Some (bindR evaluated (combine parts))))"
  by (subst Evaluate.simps) (simp only: EvaluateAtomic_def)

subsection \<open>Reading back a condition\<close>

text \<open>
  Conditions in plain text: words of characters that are no quotes, brackets, braces or percent signs, none of
  them an operator, joined to atoms by single blanks, and atoms joined by operators.
\<close>

definition plain_char :: "char \<Rightarrow> bool" where
  "plain_char c \<longleftrightarrow> \<not> is_space c \<and> c \<notin> set ''(){}%'' \<and> c \<noteq> CHR 0x27 \<and> c \<noteq> CHR 0x22"

definition word_ok :: "string \<Rightarrow> bool" where
  "word_ok w \<longleftrightarrow> w \<noteq> [] \<and> list_all plain_char w \<and> ToLower w \<noteq> ''and'' \<and> ToLower w \<noteq> ''or''"

definition atom_ok :: "string \<Rightarrow> bool" where
  "atom_ok a \<longleftrightarrow> list_all word_ok (Split (CHR '' '') a)"

fun show_parts :: "operatorPart list \<Rightarrow> string" where
  "show_parts [] = []"
| "show_parts [p] = op_Expression p"
| "show_parts (p # ps) = op_Expression p @ '' '' @ op_Operator p @ '' '' @ show_parts ps"

fun parts_ok :: "operatorPart list \<Rightarrow> bool" where
  "parts_ok [] = False"
| "parts_ok [p] = (atom_ok (op_Expression p) \<and> op_Operator p = [])"
| "parts_ok (p # ps) = (atom_ok (op_Expression p) \<and> op_Operator p \<in> {''and'', ''or''} \<and> parts_ok ps)"

definition neutral :: "scan_state \<Rightarrow> bool" where
  "neutral q \<longleftrightarrow> sn_depth q = 0 \<and> \<not> sn_inSingleQuote q \<and> \<not> sn_inDoubleQuote q \<and> sn_inCurly q = 0"

lemma space_not_special:
  "is_space c \<Longrightarrow> c \<notin> set ''(){}%'' \<and> c \<noteq> CHR 0x27 \<and> c \<noteq> CHR 0x22"
  by (auto simp: is_space_def)

lemma loop_char:
  assumes "i < length runes" "neutral q" "plain_char (runes ! i) \<or> is_space (runes ! i)"
  shows "split_loop runes i q =
    (case TryMatchLogicalOperator runes i ''and'' of
       Some k \<Rightarrow> split_loop runes k
         (q\<lparr>sn_parts := add_part (slice runes (sn_lastSplit q) i) ''and'' (sn_parts q), sn_lastSplit := k\<rparr>)
     | None \<Rightarrow> (case TryMatchLogicalOperator runes i ''or'' of
         Some k \<Rightarrow> split_loop runes k
           (q\<lparr>sn_parts := add_part (slice runes (sn_lastSplit q) i) ''or'' (sn_parts q), sn_lastSplit := k\<rparr>)
       | None \<Rightarrow> split_loop runes (i + 1) q))"
proof -
  have "runes ! i \<notin> set ''(){}%'' \<and> runes ! i \<noteq> CHR 0x27 \<and> runes ! i \<noteq> CHR 0x22"
    using assms(3) space_not_special[of "runes ! i"] by (auto simp: plain_char_def)
  with assms(1,2) show ?thesis
    by (subst split_loop.simps) (simp add: Let_def scan_quotes_def scan_parens_def neutral_def)
qed

lemma no_match_word:
  assumes w: "word_ok w" and rest: "rest = [] \<or> is_space (hd rest)" and k: "k < length w"
    and oper: "oper \<in> {''and'', ''or''}"
  shows "TryMatchLogicalOperator (pre @ w @ rest) (length pre + k) oper = None"
proof (rule ccontr)
  assume "TryMatchLogicalOperator (pre @ w @ rest) (length pre + k) oper \<noteq> None"
  then have len: "length pre + k + length oper \<le> length (pre @ w @ rest)"
    and same: "map lower_char (take (length oper) (drop k w @ rest)) = map lower_char oper"
    and before: "length pre + k = 0 \<or> is_space ((pre @ w @ rest) ! (length pre + k - 1)) \<or>
      (pre @ w @ rest) ! (length pre + k - 1) = CHR ''(''"
    and after: "length pre + k + length oper = length (pre @ w @ rest) \<or>
      is_space ((pre @ w @ rest) ! (length pre + k + length oper)) \<or>
      (pre @ w @ rest) ! (length pre + k + length oper) = CHR '')''"
    using k by (auto simp: TryMatchLogicalOperator_def Let_def slice_def split: if_splits)
  have plain: "plain_char (w ! j)" if "j < length w" for j
    using w that by (auto simp: word_ok_def list_all_length)
  show False
  proof (cases "k = 0")
    case False
    then have "(pre @ w @ rest) ! (length pre + k - 1) = w ! (k - 1)"
      using k by (cases k) (simp_all add: nth_append)
    with before False plain[of "k - 1"] k show False by (auto simp: plain_char_def)
  next
    case True
    have nospace: "\<not> is_space (lower_char c)" if "c \<in> set oper" for c
      using oper that by (auto simp: is_space_def lower_char_def)
    consider "length oper < length w" | "length oper = length w" | "length oper > length w" by linarith
    then show False
    proof cases
      case 1
      then have "(pre @ w @ rest) ! (length pre + k + length oper) = w ! length oper"
        using True by (simp add: nth_append)
      with after 1 True plain[of "length oper"] show False by (auto simp: plain_char_def)
    next
      case 2
      with same True have "ToLower w = map lower_char oper" by (simp add: ToLower_def)
      moreover have "map lower_char oper = oper" using oper by (auto simp: lower_char_def)
      ultimately show False using w oper by (auto simp: word_ok_def)
    next
      case 3
      with len True have "rest \<noteq> []" by auto
      with rest have sp: "is_space (rest ! 0)" by (simp add: hd_conv_nth)
      have "length w < length (take (length oper) (w @ rest))" using 3 \<open>rest \<noteq> []\<close> by (cases rest) auto
      then have "map lower_char (take (length oper) (w @ rest)) ! length w = lower_char (take (length oper) (w @ rest) ! length w)"
        by (rule nth_map)
      with same True have "map lower_char oper ! length w = lower_char (take (length oper) (w @ rest) ! length w)" by simp
      also have "\<dots> = lower_char (rest ! 0)" using 3 \<open>rest \<noteq> []\<close> by (simp add: nth_append)
      finally have "is_space (map lower_char oper ! length w)" using sp by simp
      with 3 nospace[of "oper ! length w"] show False by simp
    qed
  qed
qed

lemma no_match_space:
  assumes "is_space (runes ! i)" "i < length runes" "oper \<in> {''and'', ''or''}"
  shows "TryMatchLogicalOperator runes i oper = None"
proof (rule ccontr)
  assume "TryMatchLogicalOperator runes i oper \<noteq> None"
  then have "map lower_char (slice runes i (i + length oper)) = map lower_char oper"
    by (auto simp: TryMatchLogicalOperator_def Let_def split: if_splits)
  then have "hd (map lower_char (slice runes i (i + length oper))) = hd (map lower_char oper)" by simp
  moreover have "hd (slice runes i (i + length oper)) = runes ! i" "slice runes i (i + length oper) \<noteq> []"
    using assms by (auto simp: slice_def hd_drop_conv_nth)
  ultimately have "lower_char (runes ! i) = lower_char (hd oper)" using assms(3) by (auto simp: hd_map)
  with assms(1) have "is_space (lower_char (hd oper))" by (metis is_space_lower_char)
  with assms(3) show False by (auto simp: is_space_def lower_char_def)
qed

lemma scan_word:
  assumes w: "word_ok w" and rest: "rest = [] \<or> is_space (hd rest)" and q: "neutral q"
  shows "split_loop (pre @ w @ rest) (length pre) q = split_loop (pre @ w @ rest) (length pre + length w) q"
proof -
  have "split_loop (pre @ w @ rest) (length pre + (length w - n)) q = split_loop (pre @ w @ rest) (length pre + length w) q"
    if "n \<le> length w" for n
    using that
  proof (induction n)
    case (Suc n)
    define k where "k = length w - Suc n"
    have k: "k < length w" "k + 1 = length w - n" using Suc.prems by (auto simp: k_def)
    have "plain_char ((pre @ w @ rest) ! (length pre + k))"
      using w k(1) by (simp add: nth_append word_ok_def list_all_length)
    then have "split_loop (pre @ w @ rest) (length pre + k) q = split_loop (pre @ w @ rest) (length pre + k + 1) q"
      using k(1) by (subst loop_char) (simp_all add: q no_match_word[OF w rest])
    moreover have "split_loop (pre @ w @ rest) (length pre + k + 1) q = split_loop (pre @ w @ rest) (length pre + length w) q"
      unfolding add.assoc k(2) using Suc by simp
    ultimately show ?case by (simp add: k_def[symmetric])
  qed simp
  from this[of "length w"] show ?thesis by simp
qed

lemma scan_space:
  assumes "neutral q"
  shows "split_loop (pre @ CHR '' '' # rest) (length pre) q = split_loop (pre @ CHR '' '' # rest) (length pre + 1) q"
proof -
  have sp: "is_space ((pre @ CHR '' '' # rest) ! length pre)" by (simp add: is_space_def)
  then show ?thesis using assms by (subst loop_char) (simp_all add: no_match_space)
qed

lemma scan_words:
  assumes "neutral q" "rest = [] \<or> is_space (hd rest)"
  shows "list_all word_ok ws \<Longrightarrow> ws \<noteq> [] \<Longrightarrow>
    split_loop (pre @ Join ws '' '' @ rest) (length pre) q =
    split_loop (pre @ Join ws '' '' @ rest) (length pre + length (Join ws '' '')) q"
proof (induction ws arbitrary: pre)
  case (Cons w ws)
  show ?case
  proof (cases "ws = []")
    case True
    with Cons.prems assms show ?thesis by (simp add: scan_word)
  next
    case False
    define rem where "rem = Join ws '' '' @ rest"
    have printed: "pre @ Join (w # ws) '' '' @ rest = pre @ w @ CHR '' '' # rem"
      using False by (simp add: Join_Cons rem_def)
    have "split_loop (pre @ w @ CHR '' '' # rem) (length pre) q = split_loop (pre @ w @ CHR '' '' # rem) (length pre + length w) q"
      using Cons.prems assms(1) by (intro scan_word) (auto simp: is_space_def)
    also have "\<dots> = split_loop ((pre @ w) @ CHR '' '' # rem) (length (pre @ w) + 1) q"
      using scan_space[OF assms(1), of "pre @ w" rem] by simp
    also have "\<dots> = split_loop ((pre @ w @ '' '') @ Join ws '' '' @ rest) (length (pre @ w @ '' '')) q"
      by (simp add: rem_def)
    also have "\<dots> = split_loop ((pre @ w @ '' '') @ Join ws '' '' @ rest) (length (pre @ w @ '' '') + length (Join ws '' '')) q"
      using Cons.prems False by (intro Cons.IH) auto
    finally show ?thesis unfolding printed using False by (simp add: rem_def Join_Cons add.assoc add.commute add.left_commute)
  qed
qed simp

lemma Join_words: "list_all word_ok ws \<Longrightarrow> ws \<noteq> [] \<Longrightarrow>
  Join ws '' '' \<noteq> [] \<and> \<not> is_space (hd (Join ws '' '')) \<and> \<not> is_space (last (Join ws '' ''))"
proof (induction ws)
  case (Cons w ws)
  then have w: "w \<noteq> []" "\<not> is_space (hd w)" "\<not> is_space (last w)"
    by (auto simp: word_ok_def list_all_iff plain_char_def)
  with Cons show ?case by (cases "ws = []") (auto simp: Join_Cons)
qed simp

lemma atom_words:
  assumes "atom_ok a"
  obtains ws where "a = Join ws '' ''" "list_all word_ok ws" "ws \<noteq> []" "a \<noteq> []" "\<not> is_space (hd a)" "\<not> is_space (last a)"
proof -
  have "a = Join (Split (CHR '' '') a) '' ''" using Join_Split[of "CHR '' ''" a] by simp
  moreover have "list_all word_ok (Split (CHR '' '') a)" using assms by (simp add: atom_ok_def)
  ultimately show thesis using that[of "Split (CHR '' '') a"] Join_words[of "Split (CHR '' '') a"] by simp
qed

lemma TrimSpace_tight_snoc:
  assumes "a \<noteq> []" "\<not> is_space (hd a)" "\<not> is_space (last a)"
  shows "TrimSpace (a @ '' '') = a"
proof -
  have "dropWhile is_space (a @ '' '') = a @ '' ''" using assms by (intro dropWhile_id) simp
  moreover have "dropWhile is_space (CHR '' '' # rev a) = rev a"
    using assms by (simp add: is_space_def[of "CHR '' ''"] dropWhile_id hd_rev)
  ultimately show ?thesis by (simp add: TrimSpace_def Trim_def TrimLeft_def TrimRight_def)
qed

lemma match_here:
  assumes "pre \<noteq> []" "is_space (last pre)" "rest \<noteq> []" "\<not> is_space (hd rest)" "oper \<noteq> []"
  shows "TryMatchLogicalOperator (pre @ oper @ CHR '' '' # rest) (length pre) oper = Some (length pre + length oper + 1)"
proof -
  have "(pre @ oper @ CHR '' '' # rest) ! (length pre - 1) = last pre"
    using assms(1) by (simp add: nth_append last_conv_nth)
  moreover have "(pre @ oper @ CHR '' '' # rest) ! (length pre + length oper) = CHR '' ''" by (simp add: nth_append)
  moreover have "takeWhile is_space rest = []" using assms(3,4) by (cases rest) auto
  ultimately show ?thesis using assms by (simp add: TryMatchLogicalOperator_def Let_def slice_def is_space_def)
qed

lemma and_not_or: "TryMatchLogicalOperator (pre @ ''or'' @ CHR '' '' # rest) (length pre) ''and'' = None"
  by (simp add: TryMatchLogicalOperator_def Let_def slice_def lower_char_def)

lemma show_parts_hd: "parts_ok ps \<Longrightarrow> show_parts ps \<noteq> [] \<and> \<not> is_space (hd (show_parts ps))"
  by (cases ps rule: show_parts.cases) (auto elim!: atom_words)

lemma scan_operator:
  assumes "neutral q" "pre \<noteq> []" "is_space (last pre)" "rest \<noteq> []" "\<not> is_space (hd rest)" "oper \<in> {''and'', ''or''}"
  shows "split_loop (pre @ oper @ CHR '' '' # rest) (length pre) q =
    split_loop (pre @ oper @ CHR '' '' # rest) (length pre + length oper + 1)
      (q\<lparr>sn_parts := add_part (slice (pre @ oper @ CHR '' '' # rest) (sn_lastSplit q) (length pre)) oper (sn_parts q),
         sn_lastSplit := length pre + length oper + 1\<rparr>)"
proof -
  have hd_op: "plain_char ((pre @ oper @ CHR '' '' # rest) ! length pre)"
    using assms(6) by (auto simp: nth_append plain_char_def is_space_def)
  from assms(6) show ?thesis
  proof
    assume "oper = ''and''"
    with match_here[OF assms(2-5), of "''and''"] hd_op assms(1) show ?thesis by (subst loop_char) simp_all
  next
    assume "oper \<in> {''or''}"
    with match_here[OF assms(2-5), of "''or''"] and_not_or[of pre rest] hd_op assms(1) show ?thesis
      by (subst loop_char) simp_all
  qed
qed

lemma split_parts:
  "parts_ok ps \<Longrightarrow> neutral q \<Longrightarrow> sn_lastSplit q = length pre \<Longrightarrow>
   (let q' = split_loop (pre @ show_parts ps) (length pre) q
    in add_part (drop (sn_lastSplit q') (pre @ show_parts ps)) [] (sn_parts q')) = sn_parts q @ ps"
proof (induction ps arbitrary: pre q rule: parts_ok.induct)
  case (2 p)
  then obtain ws where ws: "op_Expression p = Join ws '' ''" "list_all word_ok ws" "ws \<noteq> []"
    and a: "op_Expression p \<noteq> []" "\<not> is_space (hd (op_Expression p))" "\<not> is_space (last (op_Expression p))"
    by (auto elim: atom_words)
  have "split_loop (pre @ op_Expression p) (length pre) q = q"
    using scan_words[OF 2(2) disjI1[OF refl] ws(2,3), of pre] ws(1)
    by (simp add: split_loop.simps[of _ "length pre + length (Join ws '' '')"])
  with 2 a show ?case by (simp add: add_part_def TrimSpace_tight)
next
  case (3 p p2 ps)
  define rest where "rest = show_parts (p2 # ps)"
  define oper where "oper = op_Operator p"
  from 3(2) obtain ws where ws: "op_Expression p = Join ws '' ''" "list_all word_ok ws" "ws \<noteq> []"
    and a: "op_Expression p \<noteq> []" "\<not> is_space (hd (op_Expression p))" "\<not> is_space (last (op_Expression p))"
    by (auto elim: atom_words)
  define pre1 where "pre1 = pre @ op_Expression p @ '' ''"
  have printed: "pre @ show_parts (p # p2 # ps) = pre1 @ oper @ CHR '' '' # rest"
    by (simp add: pre1_def rest_def oper_def)
  have rest: "rest \<noteq> []" "\<not> is_space (hd rest)" using 3(2) show_parts_hd[of "p2 # ps"] by (auto simp: rest_def)
  have oper: "oper \<in> {''and'', ''or''}" using 3(2) by (simp add: oper_def)
  have "split_loop (pre1 @ oper @ CHR '' '' # rest) (length pre) q
      = split_loop (pre1 @ oper @ CHR '' '' # rest) (length pre + length (op_Expression p)) q"
    using scan_words[OF 3(3) _ ws(2,3), of "'' '' @ oper @ CHR '' '' # rest" pre] ws(1)
    by (simp add: pre1_def is_space_def)
  also have "\<dots> = split_loop (pre1 @ oper @ CHR '' '' # rest) (length pre1) q"
    using scan_space[OF 3(3), of "pre @ op_Expression p" "oper @ CHR '' '' # rest"] by (simp add: pre1_def)
  also have "\<dots> = split_loop (pre1 @ oper @ CHR '' '' # rest) (length pre1 + length oper + 1)
      (q\<lparr>sn_parts := add_part (slice (pre1 @ oper @ CHR '' '' # rest) (sn_lastSplit q) (length pre1)) oper (sn_parts q),
         sn_lastSplit := length pre1 + length oper + 1\<rparr>)"
    by (rule scan_operator) (use 3(3) rest oper in \<open>simp_all add: pre1_def is_space_def\<close>)
  also have "slice (pre1 @ oper @ CHR '' '' # rest) (sn_lastSplit q) (length pre1) = op_Expression p @ '' ''"
    using 3(4) by (simp add: slice_def pre1_def)
  also have "add_part (op_Expression p @ '' '') oper (sn_parts q) = sn_parts q @ [p]"
    using a TrimSpace_tight_snoc[OF a] by (simp add: add_part_def oper_def)
  finally have run: "split_loop (pre @ show_parts (p # p2 # ps)) (length pre) q =
      split_loop ((pre1 @ oper @ '' '') @ show_parts (p2 # ps)) (length (pre1 @ oper @ '' ''))
        (q\<lparr>sn_parts := sn_parts q @ [p], sn_lastSplit := length (pre1 @ oper @ '' '')\<rparr>)"
    unfolding printed by (simp add: rest_def)
  have shown: "pre @ show_parts (p # p2 # ps) = (pre1 @ oper @ '' '') @ show_parts (p2 # ps)"
    unfolding printed by (simp add: rest_def)
  have next_q: "parts_ok (p2 # ps)" "neutral (q\<lparr>sn_parts := sn_parts q @ [p], sn_lastSplit := length (pre1 @ oper @ '' '')\<rparr>)"
    "sn_lastSplit (q\<lparr>sn_parts := sn_parts q @ [p], sn_lastSplit := length (pre1 @ oper @ '' '')\<rparr>) = length (pre1 @ oper @ '' '')"
    using 3(2,3) by (simp_all add: neutral_def)
  show ?case unfolding run unfolding shown 3(1)[OF next_q] by simp
qed simp

lemma split_show_parts: "parts_ok ps \<Longrightarrow> SplitByTopLevelOperators (show_parts ps) = ps"
  using split_parts[of ps "\<lparr>sn_depth = 0, sn_inSingleQuote = False, sn_inDoubleQuote = False, sn_inCurly = 0,
      sn_lastSplit = 0, sn_parts = []\<rparr>" "[]"]
  by (simp add: SplitByTopLevelOperators_def neutral_def Let_def)

lemma show_parts_last: "parts_ok ps \<Longrightarrow> \<not> is_space (last (show_parts ps))"
  by (induction ps rule: parts_ok.induct) (auto elim!: atom_words dest: show_parts_hd)

text \<open>What a condition of atoms and operators means: some run of atoms joined by \<open>and\<close> is true throughout.\<close>

fun and_groups :: "(string \<times> bool) list \<Rightarrow> bool list list" where
  "and_groups [] = []"
| "and_groups [(oper, b)] = [[b]]"
| "and_groups ((oper, b) # rest) =
     (if oper = ''and'' then (case and_groups rest of g # gs \<Rightarrow> (b # g) # gs | [] \<Rightarrow> [[b]])
      else [b] # and_groups rest)"

lemma and_groups_nonempty: "xs \<noteq> [] \<Longrightarrow> and_groups xs \<noteq> []"
  by (cases xs rule: and_groups.cases) (auto split: list.splits)

lemma combine_loop_groups:
  "parts_ok ps \<Longrightarrow> length bs = length ps \<Longrightarrow>
   combine_loop ors (cur \<and> hd bs) (zip (map op_Operator (butlast ps)) (tl bs)) \<longleftrightarrow>
   True \<in> set ors \<or> (cur \<and> list_all id (hd (and_groups (zip (map op_Operator ps) bs)))) \<or>
   list_ex (list_all id) (tl (and_groups (zip (map op_Operator ps) bs)))"
proof (induction ps arbitrary: bs ors cur rule: parts_ok.induct)
  case (2 p)
  then obtain b where "bs = [b]" by (cases bs) auto
  then show ?case by (auto simp: list_ex_iff)
next
  case (3 p p2 ps)
  then obtain b b2 bs' where bs: "bs = b # b2 # bs'" by (cases bs; cases "tl bs") auto
  define oper where "oper = op_Operator p"
  define G where "G = and_groups (zip (map op_Operator (p2 # ps)) (b2 # bs'))"
  have G: "G \<noteq> []" by (simp add: G_def and_groups_nonempty)
  have groups: "and_groups (zip (map op_Operator (p # p2 # ps)) bs) =
      (if oper = ''and'' then (b # hd G) # tl G else [b] # G)"
    using G by (cases G) (simp_all add: bs G_def oper_def)
  have len: "length (b2 # bs') = length (p2 # ps)" using 3(3) bs by simp
  have IH: "combine_loop ors' (c \<and> b2) (zip (map op_Operator (butlast (p2 # ps))) bs') \<longleftrightarrow>
      True \<in> set ors' \<or> (c \<and> list_all id (hd G)) \<or> list_ex (list_all id) (tl G)" for ors' c
    using 3(1)[of "b2 # bs'" ors' c] 3(2) len by (simp add: G_def id_def)
  show ?case
  proof (cases "oper = ''and''")
    case True
    then have "combine_loop ors (cur \<and> hd bs) (zip (map op_Operator (butlast (p # p2 # ps))) (tl bs)) =
        combine_loop ors ((cur \<and> b) \<and> b2) (zip (map op_Operator (butlast (p2 # ps))) bs')"
      by (simp add: bs oper_def)
    then show ?thesis unfolding groups IH using True by (simp add: id_def)
  next
    case False
    with 3(2) have "oper = ''or''" by (simp add: oper_def)
    then have "combine_loop ors (cur \<and> hd bs) (zip (map op_Operator (butlast (p # p2 # ps))) (tl bs)) =
        combine_loop (ors @ [cur \<and> b]) (True \<and> b2) (zip (map op_Operator (butlast (p2 # ps))) bs')"
      by (simp add: bs oper_def EqualFold_def ToLower_def lower_char_def)
    then show ?thesis unfolding groups IH using False G by (cases G) (auto simp: id_def)
  qed
qed simp

lemma atom_not_wrapped: "atom_ok a \<Longrightarrow> unwrapped a = None"
proof -
  assume "atom_ok a"
  then obtain ws where ws: "a = Join ws '' ''" "list_all word_ok ws" "ws \<noteq> []" "a \<noteq> []" "\<not> is_space (hd a)" "\<not> is_space (last a)"
    by (rule atom_words)
  then obtain w ws' where "ws = w # ws'" "word_ok w" by (cases ws) auto
  moreover from this obtain c w' where "w = c # w'" "plain_char c" by (cases w) (auto simp: word_ok_def)
  ultimately have "hd a \<noteq> CHR ''{''" using ws(1) by (cases "ws' = []") (auto simp: Join_Cons plain_char_def)
  with ws(4-6) show ?thesis by (cases a) (simp_all add: unwrapped_def TrimSpace_tight)
qed

lemma parts_ok_atoms: "parts_ok ps \<Longrightarrow> p \<in> set ps \<Longrightarrow> atom_ok (op_Expression p)"
  by (induction ps rule: parts_ok.induct) auto

lemma traverse_values: "(\<And>x. x \<in> set xs \<Longrightarrow> f x = Some (Inr (g x))) \<Longrightarrow> traverse f xs = Some (Inr (map g xs))"
  by (induction xs) simp_all

lemma EvaluateAtomic_plain: "unwrapped a = None \<Longrightarrow> EvaluateAtomic render a = Some (Inr (plain_atomic render a))"
  by (simp add: EvaluateAtomic_def)

text \<open>C16: A condition is read with the usual precedence: written out from atoms (words without quotes, brackets
  and delimiters, none of them an operator) and the operators between them, it evaluates, for every
  template engine, to whether some maximal run of atoms joined by \<open>and\<close> is true throughout. In particular it is split
  at its operators only, never inside a word that contains \<open>and\<close> or \<open>or\<close>.\<close>

theorem condition_precedence:
  assumes "parts_ok ps"
  shows "Evaluate render (show_parts ps) =
    Some (Inr (list_ex (list_all id) (and_groups (zip (map op_Operator ps) (map (\<lambda>p. plain_atomic render (op_Expression p)) ps)))))"
proof -
  have atomic: "EvaluateAtomic render (op_Expression p) = Some (Inr (plain_atomic render (op_Expression p)))" if "p \<in> set ps" for p
    using parts_ok_atoms[OF assms that] by (simp add: EvaluateAtomic_plain atom_not_wrapped)
  have trim: "TrimSpace (show_parts ps) = show_parts ps" "show_parts ps \<noteq> []"
    using show_parts_hd[OF assms] show_parts_last[OF assms] by (simp_all add: TrimSpace_tight)
  show ?thesis
  proof (cases ps rule: parts_ok.cases)
    case 1
    with assms show ?thesis by simp
  next
    case (2 p)
    with atomic[of p] trim(2) show ?thesis
      unfolding Evaluate_unfold[of render "show_parts ps"] trim(1) split_show_parts[OF assms] Let_def by simp
  next
    case (3 p p2 ps')
    define bs where "bs = map (\<lambda>p. plain_atomic render (op_Expression p)) ps"
    have bs: "bs \<noteq> []" "length bs = length ps" using 3 by (simp_all add: bs_def)
    have G: "and_groups (zip (map op_Operator ps) bs) \<noteq> []" using 3 by (intro and_groups_nonempty) (simp add: bs_def)
    have "traverse (\<lambda>p. EvaluateAtomic render (op_Expression p)) ps = Some (Inr bs)"
      unfolding bs_def by (rule traverse_values) (rule atomic)
    then have "Evaluate render (show_parts ps) = Some (combine ps bs)"
      using 3 trim(2) unfolding Evaluate_unfold[of render "show_parts ps"] trim(1) split_show_parts[OF assms] Let_def
      by simp
    moreover have "combine ps bs = Inr (list_ex (list_all id) (and_groups (zip (map op_Operator ps) bs)))"
      using bs(1) combine_loop_groups[OF assms bs(2), of "[]" True] G
      by (cases bs; cases "and_groups (zip (map op_Operator ps) bs)") (simp_all add: combine_def)
    ultimately show ?thesis by (simp add: bs_def)
  qed
qed

definition sample_parts :: "operatorPart list" where
  "sample_parts = [\<lparr>op_Expression = ''inputs.vendor'', op_Operator = ''or''\<rparr>, \<lparr>op_Expression = ''outputs.android'', op_Operator = ''and''\<rparr>,
     \<lparr>op_Expression = ''not outputs.order == 1'', op_Operator = []\<rparr>]"

theorem condition_precedence_witness:
  "parts_ok sample_parts \<and> show_parts sample_parts = ''inputs.vendor or outputs.android and not outputs.order == 1'' \<and>
   Evaluate (\<lambda>t. if Contains t ''vendor'' then ''no'' else if Contains t ''android'' then ''1'' else ''false'') (show_parts sample_parts)
     = Some (Inr True)"
proof -
  have ok: "parts_ok sample_parts" by code_simp
  moreover have "list_ex (list_all id) (and_groups (zip (map op_Operator sample_parts)
      (map (\<lambda>p. plain_atomic (\<lambda>t. if Contains t ''vendor'' then ''no'' else if Contains t ''android'' then ''1'' else ''false'')
        (op_Expression p)) sample_parts)))" by code_simp
  moreover have "show_parts sample_parts = ''inputs.vendor or outputs.android and not outputs.order == 1''" by code_simp
  ultimately show ?thesis unfolding condition_precedence[OF ok] by simp
qed

subsection \<open>Conditions that do not evaluate\<close>

text \<open>A condition whose unwrapping gives it back: it starts a template, is one part, and does not end the template.\<close>

definition self_unwrapping :: "string \<Rightarrow> bool" where
  "self_unwrapping e \<longleftrightarrow>
     (let c = TrimSpace e in c \<noteq> [] \<and> length (SplitByTopLevelOperators c) = 1 \<and>
        unwrapped (op_Expression (hd (SplitByTopLevelOperators c))) = Some c)"

lemma self_unwrapping_diverges:
  assumes run: "Evaluate render e = Some r" and c: "self_unwrapping e"
  shows False
proof -
  have "self_unwrapping e \<longrightarrow> False"
  proof (rule Evaluate.raw_induct[where P = "\<lambda>render e r. self_unwrapping e \<longrightarrow> False", OF _ run], rule impI)
    fix ev :: "(string \<Rightarrow> string) \<Rightarrow> string \<Rightarrow> bool go_result option" and render e r
    assume IH: "\<And>render e r. ev render e = Some r \<Longrightarrow> self_unwrapping e \<longrightarrow> False"
      and body: "(let candidate = TrimSpace e; parts = SplitByTopLevelOperators candidate in
        if candidate = [] then Some (Inr False)
        else if length parts = 1 then
          (case unwrapped (op_Expression (hd parts)) of
             Some inner \<Rightarrow> ev render inner
           | None \<Rightarrow> Some (Inr (plain_atomic render (op_Expression (hd parts)))))
        else
          Option.bind (traverse (\<lambda>p. case unwrapped (op_Expression p) of
              Some inner \<Rightarrow> ev render inner
            | None \<Rightarrow> Some (Inr (plain_atomic render (op_Expression p)))) parts)
            (\<lambda>evaluated. Some (bindR evaluated (combine parts)))) = Some r"
      and self: "self_unwrapping e"
    define c where "c = TrimSpace e"
    from self have c: "c \<noteq> []" "length (SplitByTopLevelOperators c) = 1"
      "unwrapped (op_Expression (hd (SplitByTopLevelOperators c))) = Some c"
      by (simp_all add: self_unwrapping_def c_def Let_def)
    from body c have "ev render c = Some r" by (simp add: c_def[symmetric] Let_def)
    moreover have "self_unwrapping c" using self by (simp add: self_unwrapping_def c_def)
    ultimately show False using IH by blast
  qed
  with c show False by blast
qed

text \<open>The evaluation of a condition need not return. A condition that opens a template, has no operator outside
  it and does not end with the closing delimiter, such as \<open>{{ a and b }} == "yes"\<close>, is unwrapped into itself for ever,
  whatever the engine renders; the Go program dies of stack overflow. A condition that is an operator alone
  panics.\<close>

theorem condition_need_not_return:
  "Evaluate render ''{{ a and b }} == yes'' = None \<and>
   Evaluate render ''and'' = Some (Inl (GoPanic ''index out of range [0] with length 0''))"
proof
  have "self_unwrapping ''{{ a and b }} == yes''" by code_simp
  with self_unwrapping_diverges show "Evaluate render ''{{ a and b }} == yes'' = None"
    by (cases "Evaluate render ''{{ a and b }} == yes''") blast+
  have "SplitByTopLevelOperators ''and'' = []" "TrimSpace ''and'' = ''and''" by code_simp+
  then show "Evaluate render ''and'' = Some (Inl (GoPanic ''index out of range [0] with length 0''))"
    by (simp add: Evaluate_unfold combine_def)
qed

lemma bracketed_text_true: "hd s = CHR ''('' \<Longrightarrow> last s = CHR '')'' \<Longrightarrow> s \<noteq> [] \<Longrightarrow> IsTruthy s"
  using TrimSpace_tight[of s]
  by (cases s) (auto simp: IsTruthy_def Let_def ParseBool_def ToLower_def lower_char_def is_space_def)

text \<open>A condition whose template cannot be parsed or executed counts as true: for an atom that is not negated
  and not wrapped, an error of the engine becomes a text that is read as a true value, so the guarded step runs.\<close>

theorem broken_condition_holds:
  assumes "atom_ok a" "strip_not a = None" "pongo (template_of a) ctx = Inl e"
  shows "Evaluate (Render pongo ctx) a = Some (Inr True)"
proof -
  define ps where "ps = [\<lparr>op_Expression = a, op_Operator = []\<rparr>]"
  from assms(1) obtain ws where a: "a \<noteq> []" "\<not> is_space (hd a)" "\<not> is_space (last a)" by (rule atom_words)
  have ok: "parts_ok ps" using assms(1) by (simp add: ps_def)
  have trim: "TrimSpace a = a" using a by (rule TrimSpace_tight)
  have "SplitByTopLevelOperators a = ps" using split_show_parts[OF ok] by (simp add: ps_def)
  then have "Evaluate (Render pongo ctx) a = Some (Inr (plain_atomic (Render pongo ctx) a))"
    using a(1) atom_not_wrapped[OF assms(1)] trim
    by (simp add: Evaluate_unfold[of _ a] Let_def EvaluateAtomic_plain ps_def)
  moreover have "plain_atomic (Render pongo ctx) a"
    using assms(2,3) bracketed_text_true[of "''(template render error: '' @ e @ '')''"]
    by (simp add: plain_atomic_def trim Render_def)
  ultimately show ?thesis by simp
qed

theorem broken_condition_holds_witness:
  "Evaluate (Render (\<lambda>t ctx. Inl ''unknown filter'') (SampleMetaExecutionContext ''hi'' [])) ''outputs.gate|approved'' = Some (Inr True)"
proof (rule broken_condition_holds)
  show "atom_ok ''outputs.gate|approved''" "strip_not ''outputs.gate|approved'' = None" by code_simp+
qed (rule refl)

text \<open>The evaluator as the routing uses it: a panic or an endless recursion ends the process.\<close>

definition evaluator :: "template_engine \<Rightarrow> condition_evaluator" where
  "evaluator pongo expression ctx =
     (case Evaluate (Render pongo ctx) expression of Some (Inr b) \<Rightarrow> Some b | _ \<Rightarrow> None)"

end
