(* ===== verification/Meta_Clarify.thy ===== *)
theory Meta_Clarify
  imports Meta_Output
begin

section \<open>Answers to clarification questions\<close>

text \<open>
  \<open>MetaClarifyValidator\<close> of \<open>src/openclaw/core/skills_meta.go\<close>: the answer to a form is a JSON object, decoded
  with \<open>UseNumber\<close>, whose members are checked against the fields of the schema. A number is its literal here;
  \<open>strconv.ParseFloat\<close> is the parameter \<open>parseFloat\<close>, the JSON decoder is \<open>decode\<close> (\<open>None\<close> for an error,
  \<open>Some None\<close> for \<open>null\<close>) and \<open>json.Marshal\<close> is \<open>marshal\<close>.
\<close>

datatype form_value = RawNull | RawBool bool | RawNumber string | RawString string | RawOther

datatype clarify_value = ClarifyDefault json | ClarifyString string | ClarifyNumber rat | ClarifyInteger int | ClarifyBool bool

type_synonym decode_form = "string \<Rightarrow> (string \<times> form_value) list option option"

record MetaClarifyValidationResult =
  cr_IsValid :: bool
  cr_NormalizedOutput :: string
  cr_FailureCode :: string

definition ValidResult :: "string \<Rightarrow> MetaClarifyValidationResult" where
  "ValidResult output = \<lparr>cr_IsValid = True, cr_NormalizedOutput = output, cr_FailureCode = []\<rparr>"

definition InvalidResult :: "string \<Rightarrow> MetaClarifyValidationResult" where
  "InvalidResult failureCode = \<lparr>cr_IsValid = False, cr_NormalizedOutput = [], cr_FailureCode = failureCode\<rparr>"

definition matchesCancelWord :: "string \<Rightarrow> string list \<Rightarrow> bool" where
  "matchesCancelWord input cancelWords =
     (let trimmed = TrimSpace input in trimmed \<noteq> [] \<and> list_ex (\<lambda>w. EqualFold trimmed w) cancelWords)"

definition below :: "'a::linorder \<Rightarrow> 'a option \<Rightarrow> bool" where
  "below v bound = (case bound of Some b \<Rightarrow> v < b | None \<Rightarrow> False)"

definition above :: "'a::linorder \<Rightarrow> 'a option \<Rightarrow> bool" where
  "above v bound = (case bound of Some b \<Rightarrow> b < v | None \<Rightarrow> False)"

text \<open>\<open>tryResolveFieldValue\<close>: a failure code, or the value, where \<open>None\<close> is not written.\<close>

definition tryResolveFieldValue ::
    "(string \<Rightarrow> rat option) \<Rightarrow> (string \<times> form_value) list \<Rightarrow> MetaClarifyField \<Rightarrow> string + clarify_value option" where
  "tryResolveFieldValue parseFloat form field =
     (case map_of form (cf_Name field) of
        None \<Rightarrow>
          (case cf_DefaultValue field of
             Some d \<Rightarrow> Inr (Some (ClarifyDefault d))
           | None \<Rightarrow> if cf_Required field then Inl ''clarify_required_field_missing'' else Inr None)
      | Some RawNull \<Rightarrow> if cf_Required field then Inl ''clarify_required_field_missing'' else Inr None
      | Some v \<Rightarrow>
          (let kind = ToLower (cf_Type field) in
           if kind = ''string'' then
             (case v of RawString s \<Rightarrow>
                if below (int (length s)) (cf_MinLength field) then Inl ''clarify_min_length''
                else if above (int (length s)) (cf_MaxLength field) then Inl ''clarify_max_length''
                else Inr (Some (ClarifyString s))
              | _ \<Rightarrow> Inl ''clarify_invalid_type'')
           else if kind = ''enum'' then
             (case v of RawString s \<Rightarrow>
                if s \<in> set (cf_Options field) then Inr (Some (ClarifyString s)) else Inl ''clarify_invalid_option''
              | _ \<Rightarrow> Inl ''clarify_invalid_type'')
           else if kind = ''number'' then
             (case v of RawNumber lit \<Rightarrow>
                (case parseFloat lit of
                   None \<Rightarrow> Inl ''clarify_invalid_type''
                 | Some x \<Rightarrow> if below x (cf_Min field) then Inl ''clarify_min''
                     else if above x (cf_Max field) then Inl ''clarify_max'' else Inr (Some (ClarifyNumber x)))
              | _ \<Rightarrow> Inl ''clarify_invalid_type'')
           else if kind = ''integer'' then
             (case v of RawNumber lit \<Rightarrow>
                (case Atoi lit of
                   None \<Rightarrow> Inl ''clarify_invalid_type''
                 | Some i \<Rightarrow> if below (f64_round (rat_of_int i)) (cf_Min field) then Inl ''clarify_min''
                     else if above (f64_round (rat_of_int i)) (cf_Max field) then Inl ''clarify_max''
                     else Inr (Some (ClarifyInteger i)))
              | _ \<Rightarrow> Inl ''clarify_invalid_type'')
           else if kind = ''boolean'' then
             (case v of RawBool b \<Rightarrow> Inr (Some (ClarifyBool b)) | _ \<Rightarrow> Inl ''clarify_invalid_type'')
           else Inl ''clarify_invalid_type''))"

primrec normalize_fields ::
    "(string \<Rightarrow> rat option) \<Rightarrow> (string \<times> form_value) list \<Rightarrow> (string \<times> clarify_value) list \<Rightarrow> MetaClarifyField list \<Rightarrow>
     string + (string \<times> clarify_value) list" where
  "normalize_fields parseFloat form normalizedMap [] = Inr normalizedMap"
| "normalize_fields parseFloat form normalizedMap (field # todo) =
     (case tryResolveFieldValue parseFloat form field of
        Inl failureCode \<Rightarrow> Inl failureCode
      | Inr v \<Rightarrow> normalize_fields parseFloat form
          (case v of Some x \<Rightarrow> AList.update (cf_Name field) x normalizedMap | None \<Rightarrow> normalizedMap) todo)"

definition ValidateAndNormalize ::
    "decode_form \<Rightarrow> (string \<Rightarrow> rat option) \<Rightarrow> ((string \<times> clarify_value) list \<Rightarrow> string) \<Rightarrow> string \<Rightarrow> MetaClarifySchema \<Rightarrow>
     MetaClarifyValidationResult" where
  "ValidateAndNormalize decode parseFloat marshal input schema =
     (if matchesCancelWord input (cl_CancelWords schema) then InvalidResult ''user_input_cancelled''
      else if \<not> EqualFold (cl_Mode schema) ''form'' then ValidResult input
      else let trimmedInput = TrimSpace input in
        if trimmedInput = [] then InvalidResult ''clarify_input_required''
        else case decode trimmedInput of
               None \<Rightarrow> InvalidResult ''clarify_invalid_json''
             | Some None \<Rightarrow> InvalidResult ''clarify_invalid_shape''
             | Some (Some form) \<Rightarrow>
                 (case normalize_fields parseFloat form [] (cl_Fields schema) of
                    Inl failureCode \<Rightarrow> InvalidResult failureCode
                  | Inr normalizedMap \<Rightarrow> ValidResult (marshal normalizedMap)))"

subsection \<open>What an accepted form contains\<close>

definition value_ok :: "MetaClarifyField \<Rightarrow> clarify_value \<Rightarrow> bool" where
  "value_ok field v =
     (case v of
        ClarifyDefault d \<Rightarrow> cf_DefaultValue field = Some d
      | ClarifyString s \<Rightarrow>
          (ToLower (cf_Type field) = ''string'' \<and> \<not> below (int (length s)) (cf_MinLength field) \<and>
             \<not> above (int (length s)) (cf_MaxLength field)) \<or>
          (ToLower (cf_Type field) = ''enum'' \<and> s \<in> set (cf_Options field))
      | ClarifyNumber x \<Rightarrow> ToLower (cf_Type field) = ''number'' \<and> \<not> below x (cf_Min field) \<and> \<not> above x (cf_Max field)
      | ClarifyInteger i \<Rightarrow> ToLower (cf_Type field) = ''integer'' \<and> in_i64 i \<and>
          \<not> below (f64_round (rat_of_int i)) (cf_Min field) \<and> \<not> above (f64_round (rat_of_int i)) (cf_Max field)
      | ClarifyBool b \<Rightarrow> ToLower (cf_Type field) = ''boolean'')"

text \<open>The field has a value that fits, or none, and then it is not required.\<close>

definition field_satisfied :: "(string \<times> clarify_value) list \<Rightarrow> MetaClarifyField \<Rightarrow> bool" where
  "field_satisfied normalizedMap field =
     (case map_of normalizedMap (cf_Name field) of
        Some v \<Rightarrow> value_ok field v
      | None \<Rightarrow> \<not> cf_Required field)"

lemma resolved_value_ok: "tryResolveFieldValue parseFloat form field = Inr (Some v) \<Longrightarrow> value_ok field v"
  by (auto simp: tryResolveFieldValue_def value_ok_def Let_def dest: Atoi_range
      split: option.splits form_value.splits if_splits)

lemma resolved_absent: "tryResolveFieldValue parseFloat form field = Inr None \<Longrightarrow> \<not> cf_Required field"
  by (auto simp: tryResolveFieldValue_def Let_def split: option.splits form_value.splits if_splits)

lemma normalize_fields_satisfied:
  "normalize_fields parseFloat form acc todo = Inr out \<Longrightarrow> distinct (map cf_Name todo) \<Longrightarrow>
   cf_Name ` set todo \<inter> fst ` set acc = {} \<Longrightarrow>
   (\<forall>field \<in> set todo. field_satisfied out field) \<and> (\<forall>k. k \<notin> cf_Name ` set todo \<longrightarrow> map_of out k = map_of acc k)"
proof (induction todo arbitrary: acc)
  case (Cons field todo)
  obtain v where v: "tryResolveFieldValue parseFloat form field = Inr v"
    using Cons.prems(1) by (cases "tryResolveFieldValue parseFloat form field") auto
  define acc' where "acc' = (case v of Some x \<Rightarrow> AList.update (cf_Name field) x acc | None \<Rightarrow> acc)"
  have run: "normalize_fields parseFloat form acc' todo = Inr out" using Cons.prems(1) v by (simp add: acc'_def)
  have new: "map_of acc' (cf_Name field) = v" "k \<noteq> cf_Name field \<Longrightarrow> map_of acc' k = map_of acc k" for k
    using Cons.prems(3) by (auto simp: acc'_def update_conv' map_of_eq_None_iff split: option.split)
  have "cf_Name ` set todo \<inter> fst ` set acc' = {}"
    using Cons.prems(2,3) by (auto simp: acc'_def dom_update split: option.split)
  with Cons.IH[OF run] Cons.prems(2)
  have later: "\<forall>field \<in> set todo. field_satisfied out field" "\<forall>k. k \<notin> cf_Name ` set todo \<longrightarrow> map_of out k = map_of acc' k" by auto
  have "map_of out (cf_Name field) = v" using later(2) new(1) Cons.prems(2) by auto
  then have "field_satisfied out field"
    using v by (auto simp: field_satisfied_def intro: resolved_value_ok dest: resolved_absent split: option.split)
  moreover have "map_of out k = map_of acc k" if "k \<notin> cf_Name ` set (field # todo)" for k
    using that later(2) new(2)[of k] by simp
  ultimately show ?case using later(1) by auto
qed simp

text \<open>When the answer to a form whose fields have different names is accepted, the output encodes a map in which every
  field has a value that fits or its default, or is absent and not required.\<close>

lemma accepted_form_fits:
  assumes "ValidateAndNormalize decode parseFloat marshal input schema = ValidResult output"
    "EqualFold (cl_Mode schema) ''form''" "distinct (map cf_Name (cl_Fields schema))"
  shows "\<exists>normalizedMap. output = marshal normalizedMap \<and> list_all (field_satisfied normalizedMap) (cl_Fields schema)"
proof -
  from assms(1,2) obtain form out where "normalize_fields parseFloat form [] (cl_Fields schema) = Inr out" "output = marshal out"
    by (auto simp: ValidateAndNormalize_def Let_def ValidResult_def InvalidResult_def split: if_splits option.splits sum.splits)
  with normalize_fields_satisfied[of parseFloat form "[]" "cl_Fields schema" out] assms(3) show ?thesis
    by (auto simp: list_all_iff)
qed

end
