(* ===== verification/Meta_Step.thy ===== *)
theory Meta_Step
  imports Meta_Condition Meta_Clarify
begin

section \<open>Executing one step of a meta skill\<close>

text \<open>
  The body of the loop of \<open>ExecuteMetaSkill\<close> (\<open>src/openclaw/agent/agent_runtime.go\<close>) for one step, one
  definition for each kind of step. What lies outside is a parameter, collected in \<open>meta_env\<close>: the template
  engine, the JSON functions, the clock, and the tools, skills, capabilities and models, whose answers may depend
  on the state of the run and the number of the attempt. The messages sent to a model are its user text here;
  the system prompt and the options of the call are not modelled.
\<close>

record meta_env =
  en_pongo :: template_engine
  en_unmarshal :: unmarshal_map
  en_decode :: unmarshal_map
  en_marshal :: "json \<Rightarrow> string"
  en_sprint :: "json \<Rightarrow> string"
  en_decodeForm :: decode_form
  en_parseFloat :: "string \<Rightarrow> rat option"
  en_marshalForm :: "(string \<times> clarify_value) list \<Rightarrow> string"
  en_tool :: "meta_state \<Rightarrow> meta_step \<Rightarrow> string \<Rightarrow> string \<Rightarrow> tool_attempt"
  en_skill :: "meta_state \<Rightarrow> meta_step \<Rightarrow> string list \<Rightarrow> string \<Rightarrow> string \<Rightarrow> int \<Rightarrow> ToolExecutionResult option"
  en_capability :: "(meta_state \<Rightarrow> meta_step \<Rightarrow> string \<Rightarrow> int \<Rightarrow> meta_exec_error + ToolExecutionResult) option"
  en_llm :: "meta_state \<Rightarrow> meta_step \<Rightarrow> string \<Rightarrow> llm_attempt"
  en_ctxDone :: "meta_state \<Rightarrow> meta_step \<Rightarrow> int \<Rightarrow> meta_exec_error option"
  en_duration :: "meta_state \<Rightarrow> meta_step \<Rightarrow> rat"
  en_now :: int
  en_pointer :: string   \<comment> \<open>what \<open>%d\<close> prints for a pointer\<close>
  en_loadedSkills :: "SkillDefinition list"
  en_metaSkillsEnabled :: bool

text \<open>
  What a step does to the run: it goes on, with or without progress; it returns from \<open>ExecuteMetaSkill\<close> with an
  error and, for a paused run, keeps the checkpoint; or the process panics.
\<close>

datatype step_outcome =
    StepOn meta_session meta_state bool
  | StepReturn meta_session meta_state string bool
  | StepPanic

text \<open>What does not change during a run.\<close>

record meta_run =
  mr_env :: meta_env
  mr_skill :: SkillDefinition
  mr_plan :: "meta_step list"
  mr_dependents :: dependents
  mr_input :: string
  mr_sessionInputs :: payload

definition step_text :: "meta_step \<Rightarrow> string \<Rightarrow> string" where
  "step_text s rest = ''Meta step '' @ quoted (ms_Id s) @ rest"

definition sample_context :: "meta_run \<Rightarrow> meta_state \<Rightarrow> MetaExecutionContext" where
  "sample_context r st = SampleMetaExecutionContext (mr_input r) (mt_outputs st)"

definition complete_and_route :: "meta_run \<Rightarrow> meta_step \<Rightarrow> string \<Rightarrow> meta_session \<Rightarrow> meta_state \<Rightarrow> step_outcome" where
  "complete_and_route r s output ss st =
     (let st = CompleteMetaStepOutput s output st in
      case ApplyCompletionRouting (evaluator (en_pongo (mr_env r))) (mr_plan r) (mr_dependents r) s (sample_context r st) st of
        None \<Rightarrow> StepPanic
      | Some st \<Rightarrow> StepOn ss st True)"

text \<open>A failed step: its fallback, the end of the run, or on with \<open>output\<close> in its place.\<close>

definition fail_step :: "meta_run \<Rightarrow> meta_step \<Rightarrow> bool \<Rightarrow> string \<Rightarrow> string \<Rightarrow> meta_session \<Rightarrow> meta_state \<Rightarrow> step_outcome" where
  "fail_step r s continueOnError output errorText ss st =
     (case TryActivateFailureBranch s (mr_plan r) st of
        Some st' \<Rightarrow> StepOn ss st' True
      | None \<Rightarrow> if \<not> continueOnError then StepReturn ss st errorText False
                else complete_and_route r s output ss st)"

definition record_result :: "meta_run \<Rightarrow> meta_step \<Rightarrow> string \<Rightarrow> string \<Rightarrow> bool \<Rightarrow> meta_state \<Rightarrow> meta_state" where
  "record_result r s status failureCode continued st =
     append_result (ms_Id s) (ms_Kind s) status failureCode (en_duration (mr_env r) st s) continued st"

definition record_now :: "meta_step \<Rightarrow> string \<Rightarrow> string \<Rightarrow> bool \<Rightarrow> meta_state \<Rightarrow> meta_state" where
  "record_now s status failureCode continued st = append_result (ms_Id s) (ms_Kind s) status failureCode 0 continued st"

subsection \<open>Tools and skills\<close>

definition tool_result_outcome ::
    "meta_run \<Rightarrow> meta_step \<Rightarrow> bool \<Rightarrow> ToolExecutionResult \<Rightarrow> string \<Rightarrow> meta_session \<Rightarrow> meta_state \<Rightarrow> step_outcome" where
  "tool_result_outcome r s continueOnError res errorText ss st =
     (let (failureCode, ok) = TryValidateMetaStepOutput (en_unmarshal (mr_env r)) s (tr_ResultText res);
          completed = (tr_ResultStatus res = ''completed'' \<and> ok);
          resultStatus = (if tr_ResultStatus res = ''completed'' \<and> \<not> ok then ''failed'' else tr_ResultStatus res);
          st = record_result r s resultStatus failureCode (\<not> completed \<and> continueOnError) st
      in if completed then complete_and_route r s (tr_ResultText res) ss st
         else fail_step r s continueOnError (tr_ResultText res) errorText ss st)"

definition exec_tool_call ::
    "meta_run \<Rightarrow> meta_step \<Rightarrow> MetaExecutionContext \<Rightarrow> bool \<Rightarrow> meta_session \<Rightarrow> meta_state \<Rightarrow> step_outcome" where
  "exec_tool_call r s ctx continueOnError ss st =
     (let toolName = ms_Tool s; env = mr_env r in
      if toolName \<noteq> [] \<and> \<not> ms_CapabilityRef s then
        StepReturn ss st (step_text s ('' is '' @ quoted ''tool_call'' @ '' but does not declare a tool.'')) False
      else if \<not> ms_CapabilityRef s \<and> ms_ToolAllowlist s \<noteq> [] \<and> toolName \<notin> set (ms_ToolAllowlist s) then
        StepReturn ss (record_now s ''blocked'' ''tool_not_allowlisted'' False st)
          (step_text s ('' tool '' @ quoted toolName @ '' is not allowlisted.'')) False
      else if \<not> ms_CapabilityRef s \<and> \<not> IsToolAllowedByMetaCapabilities (sk_Capabilities (mr_skill r)) toolName then
        StepReturn ss (record_now s ''blocked'' ''metadata_capability_denied'' False
            (st\<lparr>mt_pending := mt_pending st - {ms_Id s}\<rparr>))
          (step_text s ('' tool '' @ quoted toolName @ '' is not permitted by metadata capabilities.'')) False
      else case ResolveToolArgs (en_unmarshal env) (en_decode env) (en_marshal env) (Render (en_pongo env) ctx)
                  (case sk_Composition (mr_skill r) of Some c \<Rightarrow> co_ToolArgsJson c | None \<Rightarrow> [])
                  (ms_WithJSON s) (ms_ToolArgsJSON s) of
             None \<Rightarrow> StepReturn ss st (step_text s '' declared invalid tool arguments.'') False
           | Some toolArgsJson \<Rightarrow>
               (case (if ms_CapabilityRef s then
                        ExecuteMetaCapabilityStepWithPolicy (en_pointer env) s
                          (map_option (\<lambda>cap. cap st s toolArgsJson) (en_capability env)) (en_ctxDone env st s)
                      else ExecuteMetaToolStepWithPolicy (en_pointer env) s (en_tool env st s toolName toolArgsJson)) of
                  Inl (GoErr e) \<Rightarrow> StepReturn ss st (step_text s '' exec error.'') False
                | Inl _ \<Rightarrow> StepPanic
                | Inr res \<Rightarrow> tool_result_outcome r s continueOnError res
                    (step_text s ('' failed with status '' @ quoted (tr_ResultStatus res) @ ''.'')) ss st))"

text \<open>\<open>skill_exec\<close>: the rendered standard input is assigned to the working directory.\<close>

definition exec_skill_exec ::
    "meta_run \<Rightarrow> meta_step \<Rightarrow> bool \<Rightarrow> meta_session \<Rightarrow> meta_state \<Rightarrow> step_outcome" where
  "exec_skill_exec r s continueOnError ss st =
     (case (if ms_Skill s = [] then None else find (\<lambda>sk. sk_Name sk = ms_Skill s) (en_loadedSkills (mr_env r))) of
        None \<Rightarrow>
          fail_step r s continueOnError [] (step_text s ('' references missing skill '' @ quoted (ms_Skill s) @ ''.'')) ss
            (record_now s ''failed'' ''skill_not_found'' continueOnError st)
      | Some delegatedSkill \<Rightarrow>
          (let render = Render (en_pongo (mr_env r)) (sample_context r st);
               renderedArgs = map render (ms_SkillExecArgs s);
               renderedCwd = (if ms_SkillExecCwd s = [] then [] else render (ms_SkillExecCwd s));
               renderedStdin = ms_SkillExecStdin s;
               renderedCwd = (if renderedStdin = [] then renderedCwd else render renderedStdin)
           in case ExecuteMetaSkillExecStepWithPolicy s
                     (en_skill (mr_env r) st s renderedArgs renderedCwd renderedStdin) of
                Inl (GoErr e) \<Rightarrow> StepReturn ss st (step_text s '' exec error.'') False
              | Inl _ \<Rightarrow> StepPanic
              | Inr res \<Rightarrow> tool_result_outcome r s continueOnError res
                  (if tr_FailureMessage res \<noteq> [] then tr_FailureMessage res
                   else step_text s ('' failed with status '' @ quoted (tr_ResultStatus res) @ ''.'')) ss st))"

subsection \<open>Models\<close>

definition failure_text :: "meta_step \<Rightarrow> string \<Rightarrow> string" where
  "failure_text s failureMessage = (if failureMessage = [] then no_response_text (ms_Id s) else failureMessage)"

definition llm_not_completed ::
    "meta_run \<Rightarrow> meta_step \<Rightarrow> bool \<Rightarrow> string \<Rightarrow> string \<Rightarrow> meta_session \<Rightarrow> meta_state \<Rightarrow> step_outcome" where
  "llm_not_completed r s continueOnError failureCode failureMessage ss st =
     (let msg = failure_text s failureMessage
      in fail_step r s continueOnError msg msg ss (record_result r s ''failed'' failureCode continueOnError st))"

text \<open>The contract of an output that is at hand, for \<open>agent\<close>, \<open>llm_chat\<close> and \<open>llm_classify\<close>.\<close>

definition contract_failed ::
    "meta_run \<Rightarrow> meta_step \<Rightarrow> bool \<Rightarrow> string \<Rightarrow> string \<Rightarrow> meta_session \<Rightarrow> meta_state \<Rightarrow> step_outcome" where
  "contract_failed r s continueOnError failureCode output ss st =
     fail_step r s continueOnError output (step_text s '' failed output contract validation.'') ss
       (record_result r s ''failed'' failureCode continueOnError st)"

text \<open>A completed step records its result after the routing.\<close>

definition complete_and_record ::
    "meta_run \<Rightarrow> meta_step \<Rightarrow> string \<Rightarrow> rat \<Rightarrow> meta_session \<Rightarrow> meta_state \<Rightarrow> step_outcome" where
  "complete_and_record r s output durationMs ss st =
     (case complete_and_route r s output ss st of
        StepOn ss st progress \<Rightarrow>
          StepOn ss (append_result (ms_Id s) (ms_Kind s) ''completed'' [] durationMs False st) progress
      | res \<Rightarrow> res)"

definition exec_llm_text ::
    "meta_run \<Rightarrow> meta_step \<Rightarrow> string \<Rightarrow> bool \<Rightarrow> meta_session \<Rightarrow> meta_state \<Rightarrow> step_outcome" where
  "exec_llm_text r s userText continueOnError ss st =
     (let env = mr_env r in
      case ExecuteMetaLlmStepWithPolicy s (en_llm env st s userText) (en_ctxDone env st s) of
        Inl (GoErr e) \<Rightarrow> StepReturn ss st (step_text s '' exec error.'') False
      | Inl _ \<Rightarrow> StepPanic
      | Inr (LlmFailed failureCode failureMessage) \<Rightarrow> llm_not_completed r s continueOnError failureCode failureMessage ss st
      | Inr (LlmSucceeded stepOutput) \<Rightarrow>
          (case TryValidateMetaStepOutput (en_unmarshal env) s stepOutput of
             (failureCode, False) \<Rightarrow> contract_failed r s continueOnError failureCode stepOutput ss st
           | (_, True) \<Rightarrow> complete_and_record r s stepOutput (en_duration env st s) ss st))"

definition exec_agent :: "meta_run \<Rightarrow> meta_step \<Rightarrow> string \<Rightarrow> bool \<Rightarrow> meta_session \<Rightarrow> meta_state \<Rightarrow> step_outcome" where
  "exec_agent r s stepInput = exec_llm_text r s (if stepInput = [] then mr_input r else stepInput)"

definition exec_llm_chat :: "meta_run \<Rightarrow> meta_step \<Rightarrow> string \<Rightarrow> bool \<Rightarrow> meta_session \<Rightarrow> meta_state \<Rightarrow> step_outcome" where
  "exec_llm_chat r s stepInput = exec_llm_text r s stepInput"

text \<open>\<open>llm_classify\<close>. The message about a label outside the options names \<open>{rawLabel}\<close> literally.\<close>

definition classify_label ::
    "meta_run \<Rightarrow> meta_step \<Rightarrow> payload \<Rightarrow> string list \<Rightarrow> string \<Rightarrow> bool \<Rightarrow> meta_session \<Rightarrow> meta_state \<Rightarrow> step_outcome" where
  "classify_label r s stepArgs optionsValues rawLabel continueOnError ss st =
     (case TryResolveClassificationLabel rawLabel optionsValues of
        (_, False) \<Rightarrow>
          fail_step r s continueOnError rawLabel
            (step_text s ('' returned classification '' @ quoted ''{rawLabel}'' @ '' outside declared options.'')) ss
            (record_result r s ''failed'' ''invalid_classification'' continueOnError st)
      | (selectedLabel, True) \<Rightarrow>
          (case TryValidateMetaStepOutput (en_unmarshal (mr_env r)) s selectedLabel of
             (outputFailureCode, False) \<Rightarrow> contract_failed r s continueOnError outputFailureCode selectedLabel ss st
           | (_, True) \<Rightarrow>
               (let durationMs = en_duration (mr_env r) st s;
                    st = CompleteMetaStepOutput s selectedLabel st;
                    st = append_result (ms_Id s) (ms_Kind s) ''completed'' [] durationMs False st
                in case ApplyCompletionRouting (evaluator (en_pongo (mr_env r))) (mr_plan r) (mr_dependents r) s
                          (sample_context r st) st of
                     None \<Rightarrow> StepPanic
                   | Some st \<Rightarrow>
                       (let routeMap = TryGetRouteMap stepArgs in
                        StepOn ss (if routeMap = [] then st
                          else ApplyClassificationRouting selectedLabel routeMap (mr_dependents r) (mr_plan r) st) True))))"

definition exec_llm_classify ::
    "meta_run \<Rightarrow> meta_step \<Rightarrow> payload \<Rightarrow> string \<Rightarrow> bool \<Rightarrow> meta_session \<Rightarrow> meta_state \<Rightarrow> step_outcome" where
  "exec_llm_classify r s stepArgs stepInput continueOnError ss st =
     (let env = mr_env r; optionsValues = ParseStringArray (en_sprint env) stepArgs ''options'' in
      if optionsValues = [] then
        StepReturn ss st (step_text s ('' is '' @ quoted ''llm_classify'' @ '' but does not declare non-empty options.'')) False
      else
        (case ExecuteMetaLlmStepWithPolicy s (en_llm env st s (BuildClassificationPrompt stepInput optionsValues)) (en_ctxDone env st s) of
           Inl (GoErr e) \<Rightarrow> StepReturn ss st (step_text s '' exec error.'') False
         | Inl _ \<Rightarrow> StepPanic
         | Inr (LlmFailed failureCode failureMessage) \<Rightarrow> llm_not_completed r s continueOnError failureCode failureMessage ss st
         | Inr (LlmSucceeded rawLabel) \<Rightarrow> classify_label r s stepArgs optionsValues rawLabel continueOnError ss st))"

subsection \<open>The user's input\<close>

definition arg_text :: "meta_run \<Rightarrow> payload \<Rightarrow> string \<Rightarrow> string" where
  "arg_text r stepArgs name = (case GetString (en_sprint (mr_env r)) stepArgs name of Some v \<Rightarrow> v | None \<Rightarrow> [])"

definition user_value :: "meta_run \<Rightarrow> payload \<Rightarrow> string \<Rightarrow> string" where
  "user_value r stepArgs stepInput =
     (let v = arg_text r stepArgs ''value'' in
      if v \<noteq> [] then v else let v = arg_text r stepArgs ''default'' in
      if v \<noteq> [] then v else let v = arg_text r stepArgs ''default_input'' in
      if v \<noteq> [] then v else stepInput)"

text \<open>The value at hand is asked for again: the run is paused with a checkpoint.\<close>

definition ask_user ::
    "meta_run \<Rightarrow> meta_step \<Rightarrow> payload \<Rightarrow> bool \<Rightarrow> bool \<Rightarrow> meta_session \<Rightarrow> meta_state \<Rightarrow> step_outcome" where
  "ask_user r s stepArgs skipClarify continueOnError ss st =
     (if skipClarify then complete_and_record r s [] 0 ss st
      else
        let prompt = arg_text r stepArgs ''prompt'';
            prompt = (if prompt = [] then ''Please provide input for step '' @ quoted (ms_Id s) @ ''.'' else prompt);
            st = record_now s ''failed'' ''user_input_required'' continueOnError st;
            ss = SaveMetaExecutionCheckpoint (sk_Name (mr_skill r)) (ms_Id s) prompt (en_now (mr_env r)) st ss
        in case TryActivateFailureBranch s (mr_plan r) st of
             Some st' \<Rightarrow> StepOn ss st' True
           | None \<Rightarrow>
               if \<not> continueOnError then
                 StepReturn ss st (step_text s ('' requires user input but no value/default is available in the current execution context. Prompt: '' @ prompt)) True
               else StepOn ss (CompleteMetaStepOutput s [] st) True)"

definition clarify_failure_text :: "meta_step \<Rightarrow> string \<Rightarrow> string" where
  "clarify_failure_text s failureCode =
     (if failureCode = ''user_input_cancelled'' then step_text s '' clarify input was cancelled.''
      else if failureCode = ''user_input_timeout'' then step_text s '' clarify input timed out.''
      else step_text s '' failed clarify validation.'')"

definition accept_user_value ::
    "meta_run \<Rightarrow> meta_step \<Rightarrow> string \<Rightarrow> string \<Rightarrow> bool \<Rightarrow> meta_session \<Rightarrow> meta_state \<Rightarrow> step_outcome" where
  "accept_user_value r s userValue normalizedUserValue continueOnError ss st =
     (case TryValidateMetaStepOutput (en_unmarshal (mr_env r)) s normalizedUserValue of
        (failureCode, False) \<Rightarrow>
          fail_step r s continueOnError userValue (step_text s '' failed output contract validation.'') ss
            (record_now s ''failed'' failureCode continueOnError st)
      | (_, True) \<Rightarrow> complete_and_record r s normalizedUserValue 0 ss st)"

definition exec_user_input ::
    "meta_run \<Rightarrow> meta_step \<Rightarrow> payload \<Rightarrow> string \<Rightarrow> bool \<Rightarrow> meta_session \<Rightarrow> meta_state \<Rightarrow> step_outcome" where
  "exec_user_input r s stepArgs stepInput continueOnError ss st =
     (let env = mr_env r; userValue = user_value r stepArgs stepInput in
      case (case ms_Clarify s of
              Some c \<Rightarrow> if cl_SkipIf c \<noteq> [] then evaluator (en_pongo env) (cl_SkipIf c) (sample_context r st) else Some False
            | None \<Rightarrow> Some False) of
        None \<Rightarrow> StepPanic
      | Some skipClarify \<Rightarrow>
          if userValue \<noteq> [] then ask_user r s stepArgs skipClarify continueOnError ss st
          else case IsClarifyInputTimedOut ss (sk_Name (mr_skill r)) s (en_now env) of
                 Inl _ \<Rightarrow> StepPanic
               | Inr True \<Rightarrow>
                   fail_step r s continueOnError [] (step_text s '' clarify input timed out.'') ss
                     (record_now s ''failed'' ''user_input_timeout'' continueOnError st)
               | Inr False \<Rightarrow>
                   (case ms_Clarify s of
                      None \<Rightarrow> accept_user_value r s userValue userValue continueOnError ss st
                    | Some c \<Rightarrow>
                        (let res = ValidateAndNormalize (en_decodeForm env) (en_parseFloat env) (en_marshalForm env) userValue c in
                         if \<not> cr_IsValid res then
                           fail_step r s continueOnError userValue (clarify_failure_text s (cr_FailureCode res)) ss
                             (record_now s ''failed'' (cr_FailureCode res) continueOnError st)
                         else accept_user_value r s userValue
                                (if cr_NormalizedOutput res = [] then userValue else cr_NormalizedOutput res)
                                continueOnError ss st)))"

end
