(* ===== verification/Meta_Run.thy ===== *)
theory Meta_Run
  imports Meta_Step
begin

section \<open>Running a meta skill\<close>

text \<open>
  \<open>ExecuteMetaSkill\<close> of \<open>src/openclaw/agent/agent_runtime.go\<close>: the choice of the skill, the resumption of a
  paused run, and the loop that goes over the steps until none is pending, nothing moves any more, or a step ends
  the run. The fan-out executor is left out: it does nothing without a step of that kind, and the loader accepts
  none (\<open>loaded_no_fan_out\<close> in \<open>Meta_Load\<close>).
\<close>

subsection \<open>One pass over the steps\<close>

datatype dep_status = DepsReady | DepBlocked | DepWaiting

primrec dependency_state :: "meta_state \<Rightarrow> string list \<Rightarrow> dep_status" where
  "dependency_state st [] = DepsReady"
| "dependency_state st (dep # deps) =
     (if dep \<in> mt_blocked st then DepBlocked
      else if map_of (mt_outputs st) dep = None then DepWaiting
      else dependency_state st deps)"

lemma deps_ready: "dependency_state st deps = DepsReady \<longleftrightarrow>
    (\<forall>d \<in> set deps. d \<notin> mt_blocked st \<and> d \<in> fst ` set (mt_outputs st))"
  by (induction deps) (auto simp: map_of_eq_None_iff)

definition step_context :: "meta_run \<Rightarrow> meta_state \<Rightarrow> MetaExecutionContext" where
  "step_context r st = NewMetaExecutionContext (mr_input r) (mt_outputs st) (mr_sessionInputs r)"

definition step_args :: "meta_run \<Rightarrow> meta_step \<Rightarrow> payload" where
  "step_args r s = DeserializeMap (en_unmarshal (mr_env r)) (ms_WithJSON s)"

definition continue_on_error :: "meta_run \<Rightarrow> meta_step \<Rightarrow> bool" where
  "continue_on_error r s = (GetBool (step_args r s) ''continue_on_error'' = Some True)"

definition dispatch_step :: "meta_run \<Rightarrow> meta_step \<Rightarrow> meta_session \<Rightarrow> meta_state \<Rightarrow> step_outcome" where
  "dispatch_step r s ss st =
     (let stepArgs = step_args r s; ctx = step_context r st; continueOnError = continue_on_error r s;
          stepInput = Render (en_pongo (mr_env r)) ctx (arg_text r stepArgs ''input'');
          kind = NormalizeMetaStepKind (ms_Kind s)
      in if kind = ''tool_call'' then exec_tool_call r s ctx continueOnError ss st
         else if kind = ''skill_exec'' then exec_skill_exec r s continueOnError ss st
         else if kind = ''agent'' then exec_agent r s stepInput continueOnError ss st
         else if kind = ''llm_chat'' then exec_llm_chat r s stepInput continueOnError ss st
         else if kind = ''llm_classify'' then exec_llm_classify r s stepArgs stepInput continueOnError ss st
         else if kind = ''user_input'' then exec_user_input r s stepArgs stepInput continueOnError ss st
         else if kind = ''fan_out'' then StepOn ss st False
         else StepReturn ss st (step_text s ('' has unsupported kind '' @ quoted (ms_Kind s) @ ''.'')) False)"

definition run_step :: "meta_run \<Rightarrow> meta_step \<Rightarrow> meta_session \<Rightarrow> meta_state \<Rightarrow> step_outcome" where
  "run_step r s ss st =
     (if ms_Id s \<notin> mt_pending st then StepOn ss st False
      else if ms_Id s \<in> mt_blocked st then StepOn ss (st\<lparr>mt_pending := mt_pending st - {ms_Id s}\<rparr>) True
      else case dependency_state st (ms_DependsOn s) of
             DepBlocked \<Rightarrow> StepOn ss (block_step (mr_dependents r) (ms_Id s) st) True
           | DepWaiting \<Rightarrow> StepOn ss st False
           | DepsReady \<Rightarrow>
               (case (if ms_When s = [] then Some True
                      else evaluator (en_pongo (mr_env r)) (ms_When s) (step_context r st)) of
                  None \<Rightarrow> StepPanic
                | Some False \<Rightarrow>
                    StepOn ss (record_now s ''blocked'' ''condition_false'' False
                      (block_step (mr_dependents r) (ms_Id s) st)) True
                | Some True \<Rightarrow> dispatch_step r s ss st))"

fun run_pass :: "meta_run \<Rightarrow> meta_step list \<Rightarrow> bool \<Rightarrow> meta_session \<Rightarrow> meta_state \<Rightarrow> step_outcome" where
  "run_pass r [] progress ss st = StepOn ss st progress"
| "run_pass r (s # todo) progress ss st =
     (case run_step r s ss st of
        StepOn ss st moved \<Rightarrow> run_pass r todo (progress \<or> moved) ss st
      | outcome \<Rightarrow> outcome)"

subsection \<open>The wave of parallel tools\<close>

text \<open>
  The candidates of \<open>TryExecuteParallelToolWave\<close>. It asks for steps that are pending and blocked, where the
  other loops ask for pending ones that are not blocked. A panic of a condition is \<open>None\<close>.
\<close>

definition wave_candidate :: "meta_run \<Rightarrow> meta_state \<Rightarrow> meta_step \<Rightarrow> (meta_step \<times> string) option option" where
  "wave_candidate r st s =
     (let env = mr_env r; ctx = sample_context r st in
      if ms_Id s \<notin> mt_pending st \<or> ms_Id s \<notin> mt_blocked st then Some None
      else if dependency_state st (ms_DependsOn s) \<noteq> DepsReady then Some None
      else if NormalizeMetaStepKind (ms_Kind s) \<noteq> ''tool_call'' then Some None
      else if ms_OnFailure s \<noteq> [] \<or> ms_Routes s \<noteq> [] then Some None
      else if \<not> continue_on_error r s then Some None
      else case (if ms_When s = [] then Some True else evaluator (en_pongo env) (ms_When s) ctx) of
             None \<Rightarrow> None
           | Some False \<Rightarrow> Some None
           | Some True \<Rightarrow>
               if ms_Tool s = [] then Some None
               else if ms_ToolAllowlist s \<noteq> [] \<and> ms_Tool s \<notin> set (ms_ToolAllowlist s) then Some None
               else if \<not> IsToolAllowedByMetaCapabilities (sk_Capabilities (mr_skill r)) (ms_Tool s) then Some None
               else Some (map_option (\<lambda>toolArgsJson. (s, toolArgsJson))
                      (ResolveToolArgs (en_unmarshal env) (en_decode env) (en_marshal env) (Render (en_pongo env) ctx)
                         (case sk_Composition (mr_skill r) of Some c \<Rightarrow> co_ToolArgsJson c | None \<Rightarrow> [])
                         (ms_WithJSON s) (ms_ToolArgsJSON s))))"

primrec wave_candidates :: "meta_run \<Rightarrow> meta_state \<Rightarrow> meta_step list \<Rightarrow> (meta_step \<times> string) list option" where
  "wave_candidates r st [] = Some []"
| "wave_candidates r st (s # todo) =
     (case wave_candidate r st s of
        None \<Rightarrow> None
      | Some c \<Rightarrow> map_option (\<lambda>cs. (case c of Some x \<Rightarrow> x # cs | None \<Rightarrow> cs)) (wave_candidates r st todo))"

text \<open>
  The executions in the order in which they end, a parameter; those that end with an error are dropped, a panic
  of one of them ends the process. The results of the steps are appended to a copy of the slice and lost.
\<close>

definition wave_complete :: "meta_run \<Rightarrow> meta_step \<times> ToolExecutionResult \<Rightarrow> meta_state option \<Rightarrow> meta_state option" where
  "wave_complete r c st =
     Option.bind st (\<lambda>st.
       let st = CompleteMetaStepOutput (fst c) (tr_ResultText (snd c)) st
       in ApplyCompletionRouting (evaluator (en_pongo (mr_env r))) (mr_plan r) (mr_dependents r) (fst c) (sample_context r st) st)"

definition TryExecuteParallelToolWave ::
    "((meta_step \<times> ToolExecutionResult) list \<Rightarrow> (meta_step \<times> ToolExecutionResult) list) \<Rightarrow> meta_run \<Rightarrow> meta_state \<Rightarrow>
     meta_state option option" where
  "TryExecuteParallelToolWave arrival r st =
     (if card (mt_pending st) < 2 then Some None
      else case wave_candidates r st (mr_plan r) of
             None \<Rightarrow> None
           | Some candidates \<Rightarrow>
               if length candidates < 2 then Some None
               else let runs = map (\<lambda>(s, toolArgsJson). (s, ExecuteMetaToolStepWithPolicy (en_pointer (mr_env r)) s
                                 (en_tool (mr_env r) st s (ms_Tool s) toolArgsJson))) candidates
                    in if list_ex (\<lambda>(s, res). case res of Inl (GoErr _) \<Rightarrow> False | Inl _ \<Rightarrow> True | Inr _ \<Rightarrow> False) runs then None
                       else map_option Some (fold (wave_complete r)
                              (arrival (List.map_filter (\<lambda>(s, res). case res of Inr x \<Rightarrow> Some (s, x) | Inl _ \<Rightarrow> None) runs)) (Some st)))"

text \<open>Without a step that is both pending and blocked there is no candidate, and the wave does nothing.\<close>

lemma no_candidates: "mt_pending st \<inter> mt_blocked st = {} \<Longrightarrow> wave_candidates r st todo = Some []"
  by (induction todo) (auto simp: wave_candidate_def Let_def)

lemma wave_idle: "mt_pending st \<inter> mt_blocked st = {} \<Longrightarrow> TryExecuteParallelToolWave arrival r st = Some None"
  by (simp add: TryExecuteParallelToolWave_def no_candidates)

subsection \<open>The loop\<close>

text \<open>The end of \<open>ExecuteMetaSkill\<close>: the text returned, the session, and the state it ended in.\<close>

datatype run_end = RunReturn string meta_session meta_state | RunPanic

definition return_error :: "meta_run \<Rightarrow> meta_session \<Rightarrow> meta_state \<Rightarrow> string \<Rightarrow> bool \<Rightarrow> run_end" where
  "return_error r ss st errorstr preserveCheckpoint =
     (let (out, ss) = ReturnMetaExecutionOutput (en_marshal (mr_env r)) (mr_skill r) [] (mt_stepResults st) errorstr
                        preserveCheckpoint ss
      in RunReturn out ss st)"

definition return_final :: "meta_run \<Rightarrow> meta_session \<Rightarrow> meta_state \<Rightarrow> run_end" where
  "return_final r ss st =
     (let executedStepIds = filter (\<lambda>sid. map_of (mt_outputs st) sid \<noteq> None) (map ms_Id (mr_plan r));
          finalText = ResolveMetaFinalText (mr_skill r) (mt_outputs st) executedStepIds;
          (out, ss) = ReturnMetaExecutionOutput (en_marshal (mr_env r)) (mr_skill r) finalText (mt_stepResults st) [] False ss
      in RunReturn out ss st)"

definition remaining_steps :: "meta_run \<Rightarrow> meta_state \<Rightarrow> string list" where
  "remaining_steps r st = filter (\<lambda>sid. sid \<in> mt_pending st \<and> sid \<notin> mt_blocked st) (map ms_Id (mr_plan r))"

text \<open>The loop runs on fuel; \<open>None\<close> means that it was not enough.\<close>

fun run_loop ::
    "((meta_step \<times> ToolExecutionResult) list \<Rightarrow> (meta_step \<times> ToolExecutionResult) list) \<Rightarrow> meta_run \<Rightarrow> nat \<Rightarrow>
     meta_session \<Rightarrow> meta_state \<Rightarrow> run_end option" where
  "run_loop arrival r 0 ss st = None"
| "run_loop arrival r (Suc n) ss st =
     (if mt_pending st = {} then Some (return_final r ss st)
      else case TryExecuteParallelToolWave arrival r st of
             None \<Rightarrow> Some RunPanic
           | Some (Some st') \<Rightarrow> run_loop arrival r n ss st'
           | Some None \<Rightarrow>
               (case run_pass r (mr_plan r) False ss st of
                  StepPanic \<Rightarrow> Some RunPanic
                | StepReturn ss st errorstr preserve \<Rightarrow> Some (return_error r ss st errorstr preserve)
                | StepOn ss st True \<Rightarrow> run_loop arrival r n ss st
                | StepOn ss st False \<Rightarrow>
                    (let remaining = remaining_steps r st in
                     if remaining = [] then Some (return_final r ss st)
                     else Some (return_error r ss st
                       (''Meta execution graph stalled. Remaining unresolved steps: '' @ Join remaining '', '' @ ''.'') False))))"

subsection \<open>Resumption and entry\<close>

definition rawPending :: "meta_step list \<Rightarrow> string set" where
  "rawPending plan = ms_Id ` set plan - fallbackTargets plan"

text \<open>
  What a resumed run does before the loop: it ends, or goes on with a session and a state. The test of the clarify
  schema dereferences it exactly when it is missing.
\<close>

datatype resume_step = ResumeEnd run_end | ResumeOn meta_session meta_state

definition resume_run :: "meta_run \<Rightarrow> string \<Rightarrow> meta_session \<Rightarrow> meta_state \<Rightarrow> resume_step" where
  "resume_run r waitingPrompt ss st =
     (let resumedStepId = (case mx_MetaExecutionCheckpoint ss of Some cp \<Rightarrow> cp_PendingStepId cp | None \<Rightarrow> []);
          resumedStep = (if resumedStepId = [] then None else find (\<lambda>s. ms_Id s = resumedStepId) (mr_plan r))
      in case resumedStep of
           None \<Rightarrow> ResumeEnd RunPanic
         | Some s \<Rightarrow>
             (case ms_Clarify s of
                None \<Rightarrow> ResumeEnd RunPanic
              | Some c \<Rightarrow>
                  let resumedSkipClarify = (cl_SkipIf c \<noteq> []) in
                  if mr_input r = [] then
                    (case IsClarifyInputTimedOut ss (sk_Name (mr_skill r)) s (en_now (mr_env r)) of
                       Inl _ \<Rightarrow> ResumeEnd RunPanic
                     | Inr False \<Rightarrow> ResumeOn ss st
                     | Inr True \<Rightarrow>
                         (let st = record_now s ''failed'' ''user_input_timeout'' False st in
                          case TryActivateFailureBranch s (mr_plan r) st of
                            Some st \<Rightarrow> ResumeOn (ClearMetaExecutionCheckpoint (sk_Name (mr_skill r)) ss) st
                          | None \<Rightarrow> ResumeEnd (return_error r ss st (step_text s '' clarify input timed out.'') False)))
                  else if resumedSkipClarify then ResumeOn (ClearMetaExecutionCheckpoint (sk_Name (mr_skill r)) ss) st
                  else ResumeEnd (return_error r ss st
                         (if waitingPrompt = [] then ''Meta execution is waiting for user input to continue.'' else waitingPrompt)
                         True)))"

text \<open>The record of a run; \<open>session_inputs\<close> are the session's identifier, history and runs as JSON.\<close>

definition new_run :: "meta_env \<Rightarrow> SkillDefinition \<Rightarrow> meta_step list \<Rightarrow> string \<Rightarrow> payload \<Rightarrow> meta_run" where
  "new_run env metaSkill plan input session_inputs =
     \<lparr>mr_env = env, mr_skill = metaSkill, mr_plan = plan, mr_dependents = BuildDependentsIndex plan, mr_input = input,
      mr_sessionInputs = session_inputs\<rparr>"

definition plan_of :: "SkillDefinition \<Rightarrow> meta_step list" where
  "plan_of metaSkill = (case sk_Composition metaSkill of Some c \<Rightarrow> co_Steps c | None \<Rightarrow> [])"

definition callable_skill :: "meta_env \<Rightarrow> string \<Rightarrow> SkillDefinition option" where
  "callable_skill env skillName =
     find (\<lambda>sk. sk_Kind sk = SkillKind_Meta \<and> \<not> sk_DisableModelInvocation sk \<and> sk_Name sk = skillName) (en_loadedSkills env)"

datatype execute_end = Refused string | Ended run_end

definition ExecuteMetaSkill ::
    "((meta_step \<times> ToolExecutionResult) list \<Rightarrow> (meta_step \<times> ToolExecutionResult) list) \<Rightarrow> meta_env \<Rightarrow> payload \<Rightarrow>
     nat \<Rightarrow> meta_session \<Rightarrow> string \<Rightarrow> string \<Rightarrow> execute_end option" where
  "ExecuteMetaSkill arrival env session_inputs fuel ss skillName input =
     (if \<not> en_metaSkillsEnabled env then Some (Refused ''Error: Meta skill invocation is disabled by runtime policy.'')
      else case callable_skill env skillName of
             None \<Rightarrow> Some (Refused (''Error: Meta skill '' @ quoted skillName @ '' was not found.''))
           | Some metaSkill \<Rightarrow>
               (let plan = plan_of metaSkill;
                    r = new_run env metaSkill plan input session_inputs
                in if plan = [] then
                     Some (Refused (''Error: Meta skill '' @ quoted (sk_Name metaSkill) @ '' has no executable composition steps.''))
                   else case TryValidateMetaPlan plan (en_loadedSkills env) of
                     Some e \<Rightarrow> Some (Ended (return_error r ss (fresh_state {}) (PlanError e) False))
                   | None \<Rightarrow>
                       (case TryRestoreMetaExecutionCheckpoint (sk_Name metaSkill) (ms_Id ` set plan) (rawPending plan)
                               (en_now env) ss of
                          (waitingPrompt, st, False, ss) \<Rightarrow>
                            map_option Ended (run_loop arrival r fuel ss (ApplyInitialRoutingBlocks plan st))
                        | (waitingPrompt, st, True, ss) \<Rightarrow>
                            (case resume_run r waitingPrompt ss st of
                               ResumeEnd e \<Rightarrow> Some (Ended e)
                             | ResumeOn ss st \<Rightarrow> map_option Ended (run_loop arrival r fuel ss st)))))"

end
