(* ===== verification/Meta_Safety.thy ===== *)
theory Meta_Safety
  imports Meta_Run
begin

section \<open>What every run of a meta skill keeps\<close>

text \<open>
  The handlers of the kinds of steps differ in what they call and when they fail, but change the state by the same
  few routines: a result is appended, the fallback is activated, or the output is stored and the routes are
  applied. The locale states what a property must satisfy for these routines: \<open>Q\<close> holds while step \<open>s\<close> is
  handled, \<open>P\<close> when it has made progress, and \<open>R\<close> when it ends the run. \<open>k\<close> is a bound a property may carry along.
\<close>

locale meta_handlers =
  fixes Q :: "meta_run \<Rightarrow> nat \<Rightarrow> meta_step \<Rightarrow> meta_state \<Rightarrow> bool"
    and P :: "meta_run \<Rightarrow> nat \<Rightarrow> meta_step \<Rightarrow> meta_state \<Rightarrow> bool"
    and R :: "meta_run \<Rightarrow> meta_state \<Rightarrow> bool"
  assumes Q_append: "Q r k s st \<Longrightarrow> Q r k s (append_result (ms_Id s) (ms_Kind s) status code ms continued st)"
    and P_append: "Q r k s st0 \<Longrightarrow> P r k s st \<Longrightarrow> P r k s (append_result (ms_Id s) (ms_Kind s) ''completed'' [] ms False st)"
    and P_fallback: "Q r k s st \<Longrightarrow> TryActivateFailureBranch s (mr_plan r) st = Some st' \<Longrightarrow> P r k s st'"
    and P_complete: "Q r k s st \<Longrightarrow> P r k s (CompleteMetaStepOutput s output st)"
    and P_route: "Q r k s st \<Longrightarrow> P r k s st' \<Longrightarrow>
      ApplyCompletionRouting (evaluator (en_pongo (mr_env r))) (mr_plan r) (mr_dependents r) s ctx st' = Some st'' \<Longrightarrow> P r k s st''"
    and P_classify: "Q r k s st \<Longrightarrow> P r k s st' \<Longrightarrow>
      P r k s (ApplyClassificationRouting label routeMap (mr_dependents r) (mr_plan r) st')"
    and R_return: "Q r k s st \<Longrightarrow> R r st"
    and R_denied: "Q r k s st \<Longrightarrow> R r (append_result (ms_Id s) (ms_Kind s) ''blocked'' code 0 False
        (st\<lparr>mt_pending := mt_pending st - {ms_Id s}\<rparr>))"
begin

definition good :: "meta_run \<Rightarrow> nat \<Rightarrow> meta_step \<Rightarrow> step_outcome \<Rightarrow> bool" where
  "good r k s out =
     (case out of
        StepOn ss st progress \<Rightarrow> if progress then P r k s st else Q r k s st
      | StepReturn ss st e preserve \<Rightarrow> R r st
      | StepPanic \<Rightarrow> True)"

lemma good_simps [simp]:
  "good r k s (StepOn ss st True) = P r k s st" "good r k s (StepOn ss st False) = Q r k s st"
  "good r k s (StepReturn ss st e preserve) = R r st" "good r k s StepPanic"
  by (simp_all add: good_def)

lemma Q_record: "Q r k s st \<Longrightarrow> Q r k s (record_result r s status code continued st)"
  by (simp add: record_result_def Q_append)

lemma Q_record_now: "Q r k s st \<Longrightarrow> Q r k s (record_now s status code continued st)"
  by (simp add: record_now_def Q_append)

lemma good_complete: "Q r k s st \<Longrightarrow> good r k s (complete_and_route r s out ss st)"
  using P_complete[of r k s st out]
  by (auto simp: complete_and_route_def Let_def dest: P_route split: option.split)

lemma good_fail: "Q r k s st \<Longrightarrow> good r k s (fail_step r s continueOnError out e ss st)"
  by (auto simp: fail_step_def good_complete dest: P_fallback R_return split: option.split)

lemma good_complete_record:
  assumes "Q r k s st"
  shows "good r k s (complete_and_record r s out ms ss st)"
proof (cases "complete_and_route r s out ss st")
  case (StepOn ss' st' progress)
  with good_complete[OF assms, of out ss] show ?thesis
    by (cases progress) (simp_all add: complete_and_record_def P_append[OF assms] Q_append)
qed (use good_complete[OF assms, of out ss] in \<open>simp_all add: complete_and_record_def\<close>)

lemma good_tool_result: "Q r k s st \<Longrightarrow> good r k s (tool_result_outcome r s continueOnError res e ss st)"
  by (simp add: tool_result_outcome_def Let_def Q_record good_complete good_fail split: prod.split)

lemma good_tool_call: "Q r k s st \<Longrightarrow> good r k s (exec_tool_call r s ctx continueOnError ss st)"
  using R_return[of r k s st] R_denied[of r k s st] R_return[OF Q_record_now, of r k s st]
  by (auto simp: exec_tool_call_def Let_def good_tool_result record_now_def
      split: option.splits sum.splits go_fail.splits)

lemma good_skill_exec: "Q r k s st \<Longrightarrow> good r k s (exec_skill_exec r s continueOnError ss st)"
  using R_return[of r k s st]
  by (auto simp: exec_skill_exec_def Let_def good_tool_result good_fail Q_record_now
      split: option.splits sum.splits go_fail.splits)

lemma good_llm_text: "Q r k s st \<Longrightarrow> good r k s (exec_llm_text r s userText continueOnError ss st)"
  using R_return[of r k s st]
  by (auto simp: exec_llm_text_def Let_def llm_not_completed_def contract_failed_def good_fail Q_record good_complete_record
      split: sum.splits go_fail.splits llm_result.splits prod.splits bool.splits)

lemma good_classify_label: "Q r k s st \<Longrightarrow> good r k s (classify_label r s stepArgs opts rawLabel continueOnError ss st)"
proof -
  assume q: "Q r k s st"
  have done_label: "good r k s
     (let durationMs = en_duration (mr_env r) st s; st = CompleteMetaStepOutput s label st;
          st = append_result (ms_Id s) (ms_Kind s) ''completed'' [] durationMs False st
      in case ApplyCompletionRouting (evaluator (en_pongo (mr_env r))) (mr_plan r) (mr_dependents r) s (sample_context r st) st of
           None \<Rightarrow> StepPanic
         | Some st \<Rightarrow> (let routeMap = TryGetRouteMap stepArgs in
             StepOn ss (if routeMap = [] then st
               else ApplyClassificationRouting label routeMap (mr_dependents r) (mr_plan r) st) True))" for label
    using P_append[OF q P_complete[OF q, of label]]
    by (auto simp: Let_def intro: P_classify[OF q] P_route[OF q, rotated] split: option.split)
  show ?thesis unfolding classify_label_def
    using good_fail[OF Q_record[OF q]] done_label by (auto simp: contract_failed_def split: prod.split bool.split)
qed

lemma good_llm_classify: "Q r k s st \<Longrightarrow> good r k s (exec_llm_classify r s stepArgs stepInput continueOnError ss st)"
  using R_return[of r k s st]
  by (auto simp: exec_llm_classify_def Let_def llm_not_completed_def good_fail Q_record good_classify_label
      split: sum.splits go_fail.splits llm_result.splits)

lemma good_ask_user: "Q r k s st \<Longrightarrow> good r k s (ask_user r s stepArgs skipClarify continueOnError ss st)"
proof -
  assume q: "Q r k s st"
  note q' = Q_record_now[OF q, of "''failed''" "''user_input_required''" continueOnError]
  show ?thesis
    using R_return[OF q'] P_complete[OF q'] P_fallback[OF q'] good_complete_record[OF q]
    by (auto simp: ask_user_def Let_def split: option.split)
qed

lemma good_accept: "Q r k s st \<Longrightarrow> good r k s (accept_user_value r s v n continueOnError ss st)"
  by (auto simp: accept_user_value_def good_fail Q_record_now good_complete_record split: prod.split bool.split)

lemma good_user_input: "Q r k s st \<Longrightarrow> good r k s (exec_user_input r s stepArgs stepInput continueOnError ss st)"
  by (auto simp: exec_user_input_def Let_def good_ask_user good_accept good_fail Q_record_now
      split: option.split sum.split bool.split)

lemma good_dispatch: "Q r k s st \<Longrightarrow> good r k s (dispatch_step r s ss st)"
  using R_return[of r k s st]
  by (simp add: dispatch_step_def Let_def good_tool_call good_skill_exec exec_agent_def exec_llm_chat_def good_llm_text
      good_llm_classify good_user_input)

end

subsection \<open>Well-formed runs, and steps after their dependencies\<close>

text \<open>Whatever step has a result, the steps it depends on have outputs.\<close>

definition results_after_dependencies :: "meta_step list \<Rightarrow> meta_state \<Rightarrow> bool" where
  "results_after_dependencies plan st \<longleftrightarrow>
     (\<forall>res \<in> set (mt_stepResults st). \<forall>s \<in> set plan. ms_Id s = sr_Id res \<longrightarrow>
        set (ms_DependsOn s) \<subseteq> fst ` set (mt_outputs st))"

definition run_inv :: "meta_step list \<Rightarrow> meta_state \<Rightarrow> bool" where
  "run_inv plan st \<longleftrightarrow> distinct (map ms_Id plan) \<and> meta_wf plan st \<and> results_after_dependencies plan st"

definition handling :: "meta_run \<Rightarrow> nat \<Rightarrow> meta_step \<Rightarrow> meta_state \<Rightarrow> bool" where
  "handling r k s st \<longleftrightarrow> s \<in> set (mr_plan r) \<and> run_inv (mr_plan r) st \<and> set (ms_DependsOn s) \<subseteq> fst ` set (mt_outputs st)"

lemma results_mono:
  "results_after_dependencies plan st \<Longrightarrow> mt_stepResults st' = mt_stepResults st \<Longrightarrow>
   fst ` set (mt_outputs st) \<subseteq> fst ` set (mt_outputs st') \<Longrightarrow> results_after_dependencies plan st'"
  by (force simp: results_after_dependencies_def)

lemma results_append:
  assumes "results_after_dependencies plan st" "distinct (map ms_Id plan)" "s \<in> set plan"
    "set (ms_DependsOn s) \<subseteq> fst ` set (mt_outputs st)"
  shows "results_after_dependencies plan (append_result (ms_Id s) kind status code ms continued st)"
proof -
  have "s' = s" if "s' \<in> set plan" "ms_Id s' = ms_Id s" for s'
    using assms(2,3) that by (auto dest: inj_onD simp: distinct_map)
  then have "set (ms_DependsOn s') \<subseteq> fst ` set (mt_outputs st)" if "s' \<in> set plan" "ms_Id s' = ms_Id s" for s'
    using assms(4) that by blast
  with assms(1) show ?thesis by (simp add: results_after_dependencies_def append_result_def)
qed

lemma frame_block: "mt_outputs (block_step D sid st) = mt_outputs st \<and> mt_stepResults (block_step D sid st) = mt_stepResults st"
  by (simp add: block_step_simp)

lemma frame_fold: "(\<And>x st. mt_outputs (f x st) = mt_outputs st \<and> mt_stepResults (f x st) = mt_stepResults st) \<Longrightarrow>
   mt_outputs (fold f xs st) = mt_outputs st \<and> mt_stepResults (fold f xs st) = mt_stepResults st"
  by (induction xs arbitrary: st) auto

lemma frame_routing:
  "ApplyCompletionRouting ev plan D s ctx st = Some st' \<Longrightarrow>
   mt_outputs st' = mt_outputs st \<and> mt_stepResults st' = mt_stepResults st"
proof -
  assume run: "ApplyCompletionRouting ev plan D s ctx st = Some st'"
  have "mt_outputs (fold (route_one plan D sel) rs st) = mt_outputs st \<and>
      mt_stepResults (fold (route_one plan D sel) rs st) = mt_stepResults st" for sel rs
    by (rule frame_fold) (simp add: route_one_def frame_block)
  with run show ?thesis by (auto simp: ApplyCompletionRouting_def split: if_splits option.splits)
qed

lemma frame_classification:
  "mt_outputs (ApplyClassificationRouting label routeMap D plan st) = mt_outputs st \<and>
   mt_stepResults (ApplyClassificationRouting label routeMap D plan st) = mt_stepResults st"
proof -
  have "mt_outputs (fold (\<lambda>(l, targets) st. if l = label then st
      else fold (\<lambda>t st. if stepById plan t = None then st else block_step D t st) targets st) routeMap st) = mt_outputs st \<and>
    mt_stepResults (fold (\<lambda>(l, targets) st. if l = label then st
      else fold (\<lambda>t st. if stepById plan t = None then st else block_step D t st) targets st) routeMap st) = mt_stepResults st"
    by (rule frame_fold) (auto simp: frame_block intro!: frame_fold[THEN conjunct1] frame_fold[THEN conjunct2])
  then show ?thesis by (simp add: ApplyClassificationRouting_def Let_def)
qed

lemma complete_outputs:
  "fst ` set (mt_outputs st) \<subseteq> fst ` set (mt_outputs (CompleteMetaStepOutput s out st)) \<and>
   mt_stepResults (CompleteMetaStepOutput s out st) = mt_stepResults st"
  by (auto simp: CompleteMetaStepOutput_def Let_def set_update_keys split: option.split)

lemma handling_complete: "handling r k s st \<Longrightarrow> handling r k s (CompleteMetaStepOutput s out st)"
  using complete_outputs[of st s out]
  by (auto simp: handling_def run_inv_def intro: meta_wf_complete results_mono)

lemma handling_frame:
  "handling r k s st \<Longrightarrow> meta_wf (mr_plan r) st' \<Longrightarrow> mt_outputs st' = mt_outputs st \<and> mt_stepResults st' = mt_stepResults st \<Longrightarrow>
   handling r k s st'"
  using results_mono[of "mr_plan r" st st'] by (simp add: handling_def run_inv_def)

lemma handling_wf: "handling r k s st \<Longrightarrow> meta_wf (mr_plan r) st \<and> s \<in> set (mr_plan r)"
  by (simp add: handling_def run_inv_def)

lemma handling_append: "handling r k s st \<Longrightarrow> handling r k s (append_result (ms_Id s) kind status code ms continued st)"
proof -
  assume h: "handling r k s st"
  then have "results_after_dependencies (mr_plan r) (append_result (ms_Id s) kind status code ms continued st)"
    by (auto simp: handling_def run_inv_def intro: results_append)
  with h meta_wf_append[of "mr_plan r" st s] show ?thesis
    by (simp add: handling_def run_inv_def) (simp add: append_result_def)
qed

interpretation keep: meta_handlers handling handling "\<lambda>r st. run_inv (mr_plan r) st"
proof
  fix r k s st st' st'' status code ms continued out ctx label routeMap and st0 :: meta_state
  show "handling r k s st \<Longrightarrow> handling r k s (append_result (ms_Id s) (ms_Kind s) status code ms continued st)"
    by (rule handling_append)
  show "handling r k s st0 \<Longrightarrow> handling r k s st \<Longrightarrow> handling r k s (append_result (ms_Id s) (ms_Kind s) ''completed'' [] ms False st)"
    by (rule handling_append)
  show "handling r k s st'" if "handling r k s st" "TryActivateFailureBranch s (mr_plan r) st = Some st'"
    by (rule handling_frame[OF that(1)])
       (use that handling_wf[OF that(1)] in \<open>auto intro: meta_wf_fallback simp: TryActivateFailureBranch_def Let_def split: if_splits\<close>)
  show "handling r k s (CompleteMetaStepOutput s out st)" if "handling r k s st"
    using that by (rule handling_complete)
  show "handling r k s st''" if "handling r k s st'"
    "ApplyCompletionRouting (evaluator (en_pongo (mr_env r))) (mr_plan r) (mr_dependents r) s ctx st' = Some st''"
    by (rule handling_frame[OF that(1)]) (use that handling_wf[OF that(1)] frame_routing in \<open>auto intro: meta_wf_routing\<close>)
  show "handling r k s (ApplyClassificationRouting label routeMap (mr_dependents r) (mr_plan r) st')" if "handling r k s st'"
    by (rule handling_frame[OF that]) (use handling_wf[OF that] in \<open>auto simp: frame_classification intro: meta_wf_classification\<close>)
  show "run_inv (mr_plan r) st" if "handling r k s st"
    using that by (simp add: handling_def)
  show "run_inv (mr_plan r) (append_result (ms_Id s) (ms_Kind s) ''blocked'' code 0 False
      (st\<lparr>mt_pending := mt_pending st - {ms_Id s}\<rparr>))" if h: "handling r k s st"
  proof -
    have "handling r k s (st\<lparr>mt_pending := mt_pending st - {ms_Id s}\<rparr>)"
      by (rule handling_frame[OF h]) (use handling_wf[OF h] in \<open>auto intro: meta_wf_drop\<close>)
    from handling_append[OF this] show ?thesis by (simp add: handling_def)
  qed
qed

definition outcome_inv :: "meta_step list \<Rightarrow> step_outcome \<Rightarrow> bool" where
  "outcome_inv plan out =
     (case out of StepOn ss st progress \<Rightarrow> run_inv plan st | StepReturn ss st e preserve \<Rightarrow> run_inv plan st | StepPanic \<Rightarrow> True)"

lemma outcome_inv_simps [simp]:
  "outcome_inv plan (StepOn ss st progress) = run_inv plan st"
  "outcome_inv plan (StepReturn ss st e preserve) = run_inv plan st" "outcome_inv plan StepPanic"
  by (simp_all add: outcome_inv_def)

lemma good_outcome_inv: "keep.good r k s out \<Longrightarrow> outcome_inv (mr_plan r) out"
  by (cases out) (auto simp: keep.good_def handling_def split: if_splits)

lemma run_inv_frame:
  "run_inv plan st \<Longrightarrow> meta_wf plan st' \<Longrightarrow> mt_outputs st' = mt_outputs st \<Longrightarrow> mt_stepResults st' = mt_stepResults st \<Longrightarrow>
   run_inv plan st'"
  using results_mono[of plan st st'] by (simp add: run_inv_def)

lemma run_inv_wf: "run_inv plan st \<Longrightarrow> meta_wf plan st"
  by (simp add: run_inv_def)

lemma run_step_inv:
  assumes inv: "run_inv (mr_plan r) st" and s: "s \<in> set (mr_plan r)"
  shows "outcome_inv (mr_plan r) (run_step r s ss st)"
proof -
  have drop: "run_inv (mr_plan r) (st\<lparr>mt_pending := mt_pending st - {ms_Id s}\<rparr>)"
    by (rule run_inv_frame[OF inv]) (simp_all add: meta_wf_drop run_inv_wf inv)
  have block: "run_inv (mr_plan r) (block_step D sid st)" for D sid
    by (rule run_inv_frame[OF inv]) (simp_all add: meta_wf_block run_inv_wf inv frame_block)
  show ?thesis
  proof (cases "dependency_state st (ms_DependsOn s) = DepsReady")
    case True
    then have deps: "set (ms_DependsOn s) \<subseteq> fst ` set (mt_outputs st)" by (auto simp: deps_ready)
    with inv s have h: "handling r 0 s st" by (simp add: handling_def)
    have "handling r 0 s (block_step D sid st)" for D sid
      using handling_frame[OF h meta_wf_block frame_block] handling_wf[OF h] by blast
    from handling_append[OF this] have blocked: "run_inv (mr_plan r) (record_now s code1 code2 c (block_step D sid st))" for code1 code2 c D sid
      by (simp add: handling_def record_now_def)
    from keep.good_dispatch[OF h, of ss] have "outcome_inv (mr_plan r) (dispatch_step r s ss st)" by (rule good_outcome_inv)
    with inv drop blocked True show ?thesis by (auto simp: run_step_def split: option.split bool.split)
  next
    case False
    with inv drop block show ?thesis by (auto simp: run_step_def split: dep_status.split)
  qed
qed

lemma run_pass_inv:
  "run_inv (mr_plan r) st \<Longrightarrow> set todo \<subseteq> set (mr_plan r) \<Longrightarrow> outcome_inv (mr_plan r) (run_pass r todo progress ss st)"
proof (induction r todo progress ss st rule: run_pass.induct)
  case (2 r s todo progress ss st)
  from 2(2,3) have "outcome_inv (mr_plan r) (run_step r s ss st)" by (intro run_step_inv) auto
  with 2 show ?case by (cases "run_step r s ss st") auto
qed simp

lemma run_loop_inv:
  "run_inv (mr_plan r) st \<Longrightarrow> run_loop arrival r n ss st = Some (RunReturn out ss' st') \<Longrightarrow> run_inv (mr_plan r) st'"
proof (induction n arbitrary: ss st)
  case (Suc n)
  have idle: "TryExecuteParallelToolWave arrival r st = Some None"
    using Suc.prems(1) by (intro wave_idle) (simp add: run_inv_def meta_wf_def)
  have pass: "outcome_inv (mr_plan r) (run_pass r (mr_plan r) False ss st)"
    using Suc.prems(1) by (intro run_pass_inv) simp_all
  show ?case
  proof (cases "mt_pending st = {}")
    case True
    with Suc.prems show ?thesis by (auto simp: return_final_def Let_def split: prod.splits)
  next
    case False
    show ?thesis
    proof (cases "run_pass r (mr_plan r) False ss st")
      case (StepOn ss1 st1 progress)
      with Suc pass False idle show ?thesis
        by (cases progress) (auto simp: return_final_def return_error_def Let_def split: prod.splits if_splits)
    next
      case (StepReturn ss1 st1 e preserve)
      with Suc pass False idle show ?thesis by (auto simp: return_error_def Let_def split: prod.splits)
    qed (use Suc False idle in simp)
  qed
qed simp

lemma fresh_inv: "distinct (map ms_Id plan) \<Longrightarrow> run_inv plan (ApplyInitialRoutingBlocks plan (fresh_state (rawPending plan)))"
proof (rule run_inv_frame)
  assume "distinct (map ms_Id plan)"
  then show "run_inv plan (fresh_state (rawPending plan))"
    by (auto simp: run_inv_def meta_wf_def fresh_state_def rawPending_def results_after_dependencies_def)
  then show "meta_wf plan (ApplyInitialRoutingBlocks plan (fresh_state (rawPending plan)))"
    by (intro meta_wf_initial run_inv_wf)
next
  have frame: "mt_outputs (ApplyInitialRoutingBlocks plan st) = mt_outputs st \<and>
      mt_stepResults (ApplyInitialRoutingBlocks plan st) = mt_stepResults st" for st
    unfolding ApplyInitialRoutingBlocks_def by (rule frame_fold, rule frame_fold) simp
  show "mt_outputs (ApplyInitialRoutingBlocks plan (fresh_state (rawPending plan))) = mt_outputs (fresh_state (rawPending plan))"
    "mt_stepResults (ApplyInitialRoutingBlocks plan (fresh_state (rawPending plan))) = mt_stepResults (fresh_state (rawPending plan))"
    using frame by blast+
qed

subsection \<open>The properties of a fresh run\<close>

lemma execute_fresh_inv:
  assumes skill: "callable_skill env skillName = Some metaSkill"
    and fresh: "mx_MetaExecutionCheckpoint ss = None"
    and run: "ExecuteMetaSkill arrival env inputs fuel ss skillName input = Some (Ended (RunReturn out ss' st))"
  shows "meta_wf (plan_of metaSkill) st \<and> results_after_dependencies (plan_of metaSkill) st"
proof (cases "TryValidateMetaPlan (plan_of metaSkill) (en_loadedSkills env)")
  case (Some e)
  with skill run have "st = fresh_state {}"
    by (auto simp: ExecuteMetaSkill_def Let_def return_error_def split: if_splits prod.splits)
  then show ?thesis by (simp add: meta_wf_def fresh_state_def results_after_dependencies_def)
next
  case None
  define plan where "plan = plan_of metaSkill"
  define r where "r = new_run env metaSkill plan input inputs"
  have r: "mr_plan r = plan" by (simp add: r_def new_run_def)
  have "distinct (map ms_Id plan)"
    using None by (auto simp: TryValidateMetaPlan_def plan_def[symmetric] duplicate_check_None split: option.splits)
  then have inv: "run_inv (mr_plan r) (ApplyInitialRoutingBlocks plan (fresh_state (rawPending plan)))"
    unfolding r by (rule fresh_inv)
  from skill run fresh None have "run_loop arrival r fuel ss (ApplyInitialRoutingBlocks plan (fresh_state (rawPending plan)))
      = Some (RunReturn out ss' st)"
    by (auto simp: ExecuteMetaSkill_def Let_def TryRestoreMetaExecutionCheckpoint_def plan_def[symmetric] r_def[symmetric]
        split: if_splits)
  from run_loop_inv[OF inv this] show ?thesis by (simp add: run_inv_def r plan_def)
qed

text \<open>C18: A fresh run of a meta skill ends in a well-formed state, however the tools, models and conditions behave:
  pending steps, outputs, aliases and results all belong to steps of the plan, and no step is pending and blocked
  at once. (This is why the parallel wave of tool steps, which asks for steps that are both, never starts.)\<close>

theorem meta_run_well_formed:
  assumes "callable_skill env skillName = Some metaSkill" "mx_MetaExecutionCheckpoint ss = None"
    "ExecuteMetaSkill arrival env inputs fuel ss skillName input = Some (Ended (RunReturn out ss' st))"
  shows "meta_wf (plan_of metaSkill) st"
  using execute_fresh_inv[OF assms] by (rule conjunct1)

text \<open>C14: In a fresh run of a meta skill every step comes after its dependencies: whichever step has a result, completed,
  failed or blocked by its condition, all the steps it depends on have outputs.\<close>

theorem steps_after_dependencies:
  assumes "callable_skill env skillName = Some metaSkill" "mx_MetaExecutionCheckpoint ss = None"
    "ExecuteMetaSkill arrival env inputs fuel ss skillName input = Some (Ended (RunReturn out ss' st))"
  shows "results_after_dependencies (plan_of metaSkill) st"
  using execute_fresh_inv[OF assms] by (rule conjunct2)

text \<open>A skill of two steps and a model that echoes its question.\<close>

definition chat_step :: "string \<Rightarrow> string list \<Rightarrow> meta_step" where
  "chat_step sid deps = \<lparr>ms_Id = sid, ms_Kind = ''llm_chat'', ms_Skill = [], ms_Tool = [], ms_SkillExecEntrypoint = [],
     ms_CapabilityRef = False, ms_SkillExecArgs = [], ms_SkillExecStdin = [], ms_SkillExecCwd = [], ms_WithJSON = [],
     ms_When = [], ms_ToolArgsJSON = [], ms_ToolAllowlist = [], ms_OutputChoices = [], ms_Clarify = None, ms_Routes = [],
     ms_DependsOn = deps, ms_OnFailure = [], ms_TimeoutSeconds = Some 60,
     ms_Retry = Some \<lparr>rp_MaxAttempts = 1, rp_BackoffMs = 0\<rparr>, ms_OutputContract = None\<rparr>"

definition skill_of :: "meta_step list \<Rightarrow> SkillDefinition" where
  "skill_of plan = \<lparr>sk_Name = ''m'', sk_Kind = SkillKind_Meta, sk_Capabilities = [], sk_FinalTextMode = ''auto'',
     sk_Composition = Some \<lparr>co_ToolArgsJson = [], co_Steps = plan\<rparr>, sk_DisableModelInvocation = False\<rparr>"

definition echo_env :: "meta_step list \<Rightarrow> meta_env" where
  "echo_env plan = \<lparr>en_pongo = \<lambda>t ctx. Inr t, en_unmarshal = \<lambda>_. Some [], en_decode = \<lambda>_. Some [], en_marshal = \<lambda>_. ''{}'',
     en_sprint = \<lambda>_. [], en_decodeForm = \<lambda>_. None, en_parseFloat = \<lambda>_. None, en_marshalForm = \<lambda>_. [],
     en_tool = \<lambda>st s name args i. (Some denied_result, None), en_skill = \<lambda>st s args cwd stdin i. None, en_capability = None,
     en_llm = \<lambda>st s text i. (Some (ms_Id s), None), en_ctxDone = \<lambda>st s i. None, en_duration = \<lambda>st s. 0, en_now = 0,
     en_pointer = ''1'', en_loadedSkills = [skill_of plan], en_metaSkillsEnabled = True\<rparr>"

definition sample_plan :: "meta_step list" where
  "sample_plan = [chat_step ''b'' [''a''], chat_step ''a'' []]"

definition empty_session :: meta_session where
  "empty_session = \<lparr>mx_MetaExecutionCheckpoint = None, mx_MetaRunHistory = []\<rparr>"

lemma sample_callable: "callable_skill (echo_env plan) ''m'' = Some (skill_of plan) \<and> plan_of (skill_of plan) = plan"
  by (simp add: callable_skill_def echo_env_def skill_of_def plan_of_def)

lemma sample_run:
  "case ExecuteMetaSkill id (echo_env sample_plan) [] 4 empty_session ''m'' ''hi'' of
     Some (Ended (RunReturn out ss' st)) \<Rightarrow> map sr_Id (mt_stepResults st) = [''a'', ''b'']
   | _ \<Rightarrow> False"
  by code_simp

lemma sample_run_ends:
  obtains out ss' st where
    "ExecuteMetaSkill id (echo_env sample_plan) [] 4 empty_session ''m'' ''hi'' = Some (Ended (RunReturn out ss' st))"
    "map sr_Id (mt_stepResults st) = [''a'', ''b'']"
  using sample_run by (auto split: option.splits execute_end.splits run_end.splits)

theorem meta_run_well_formed_witness:
  "\<exists>out ss' st. ExecuteMetaSkill id (echo_env sample_plan) [] 4 empty_session ''m'' ''hi'' = Some (Ended (RunReturn out ss' st)) \<and>
     meta_wf sample_plan st"
proof -
  obtain out ss' st where run:
    "ExecuteMetaSkill id (echo_env sample_plan) [] 4 empty_session ''m'' ''hi'' = Some (Ended (RunReturn out ss' st))"
    by (rule sample_run_ends)
  have "meta_wf (plan_of (skill_of sample_plan)) st"
    by (rule meta_run_well_formed[OF _ _ run]) (simp_all add: sample_callable empty_session_def)
  with run show ?thesis by (auto simp: sample_callable)
qed

theorem steps_after_dependencies_witness:
  "\<exists>out ss' st. ExecuteMetaSkill id (echo_env sample_plan) [] 4 empty_session ''m'' ''hi'' = Some (Ended (RunReturn out ss' st)) \<and>
     map sr_Id (mt_stepResults st) = [''a'', ''b''] \<and> results_after_dependencies sample_plan st"
proof -
  obtain out ss' st where run:
    "ExecuteMetaSkill id (echo_env sample_plan) [] 4 empty_session ''m'' ''hi'' = Some (Ended (RunReturn out ss' st))"
    "map sr_Id (mt_stepResults st) = [''a'', ''b'']"
    by (rule sample_run_ends)
  have "results_after_dependencies (plan_of (skill_of sample_plan)) st"
    by (rule steps_after_dependencies[OF _ _ run(1)]) (simp_all add: sample_callable empty_session_def)
  with run show ?thesis by (auto simp: sample_callable)
qed

end
