(* ===== verification/Meta_Termination.thy ===== *)
theory Meta_Termination
  imports Meta_Safety
begin

section \<open>Which runs of a meta skill end\<close>

text \<open>
  A plan without routes ends: every pass that makes progress takes a step out of the pending ones, and a fallback that
  is put in has no fallback of its own. With routes a run need not end.
\<close>

subsection \<open>The measure\<close>

definition weight :: "meta_state \<Rightarrow> meta_step \<Rightarrow> nat" where
  "weight st s = (if ms_Id s \<in> mt_pending st then (if ms_OnFailure s = [] then 1 else 2) else 0)"

definition work :: "meta_step list \<Rightarrow> meta_state \<Rightarrow> nat" where
  "work plan st = (\<Sum>s\<leftarrow>plan. weight st s)"

text \<open>Plans the measure works for: validated, without routes, and with fallbacks whose names carry no white space.\<close>

definition routeless :: "meta_step list \<Rightarrow> bool" where
  "routeless plan \<longleftrightarrow> (\<forall>s \<in> set plan. ms_Routes s = [] \<and> TrimSpace (ms_OnFailure s) = ms_OnFailure s)"

definition ending_plan :: "meta_run \<Rightarrow> bool" where
  "ending_plan r \<longleftrightarrow> distinct (map ms_Id (mr_plan r)) \<and> (\<forall>s \<in> set (mr_plan r). substitute_ok (mr_plan r) s) \<and>
     routeless (mr_plan r)"

lemma weight_mono: "mt_pending st' \<subseteq> mt_pending st \<Longrightarrow> weight st' s \<le> weight st s"
  by (auto simp: weight_def)

lemma work_mono: "mt_pending st' \<subseteq> mt_pending st \<Longrightarrow> work plan st' \<le> work plan st"
  unfolding work_def by (intro sum_list_mono weight_mono)

lemma sum_list_less:
  assumes "\<And>x. x \<in> set xs \<Longrightarrow> f x \<le> (g x :: nat)" "y \<in> set xs" "f y < g y"
  shows "(\<Sum>x\<leftarrow>xs. f x) < (\<Sum>x\<leftarrow>xs. g x)"
  using assms
proof (induction xs)
  case (Cons x xs)
  have le: "(\<Sum>x\<leftarrow>xs. f x) \<le> (\<Sum>x\<leftarrow>xs. g x)" using Cons.prems(1) by (intro sum_list_mono) auto
  show ?case
  proof (cases "y = x")
    case True
    with Cons.prems(3) le show ?thesis by simp
  next
    case False
    with Cons have "(\<Sum>x\<leftarrow>xs. f x) < (\<Sum>x\<leftarrow>xs. g x)" by auto
    with Cons.prems(1)[of x] show ?thesis by simp
  qed
qed simp

lemma work_drop:
  assumes "s \<in> set plan" "ms_Id s \<in> mt_pending st" "mt_pending st' \<subseteq> mt_pending st - {ms_Id s}"
  shows "work plan st' < work plan st"
  unfolding work_def
  by (rule sum_list_less[OF _ assms(1)]) (use assms weight_mono[of st' st] in \<open>auto simp: weight_def\<close>)

lemma work_fallback:
  assumes plan: "ending_plan r" and s: "s \<in> set (mr_plan r)" "ms_Id s \<in> mt_pending st"
    and act: "TryActivateFailureBranch s (mr_plan r) st = Some st'"
  shows "work (mr_plan r) st' < work (mr_plan r) st"
proof -
  define t where "t = ms_OnFailure s"
  have trim: "TrimSpace (ms_OnFailure s) = t" using plan s(1) by (simp add: ending_plan_def routeless_def t_def)
  from act have t: "t \<noteq> []" "stepById (mr_plan r) t \<noteq> None" "mt_pending st' = insert t (mt_pending st - {ms_Id s})"
    by (auto simp: TryActivateFailureBranch_def Let_def trim split: if_splits)
  from t(2) obtain u where u: "u \<in> set (mr_plan r)" "ms_Id u = t" using stepById_Some by fastforce
  have dist: "distinct (map ms_Id (mr_plan r))" using plan by (simp add: ending_plan_def)
  have "substitute_ok (mr_plan r) s" using plan s(1) by (simp add: ending_plan_def)
  then have sub: "ms_OnFailure u = []" using u t(1) unfolding substitute_ok_def t_def by blast
  have us: "u \<noteq> s" using sub t(1) by (auto simp: t_def)
  have other: "weight st' x \<le> weight st x" if "x \<in> set (mr_plan r)" "x \<noteq> u" for x
  proof -
    have "ms_Id x \<noteq> t" using that u dist by (auto dest: inj_onD simp: distinct_map)
    with t(3) show ?thesis by (auto simp: weight_def)
  qed
  have s2: "weight st s = 2" "weight st' s = 0"
  proof -
    have "ms_Id s \<noteq> t" using u us s(1) dist by (auto dest: inj_onD simp: distinct_map)
    with s t show "weight st s = 2" "weight st' s = 0" by (auto simp: weight_def t_def)
  qed
  have u1: "weight st' u \<le> 1" using sub by (simp add: weight_def)
  obtain xs ys where split_u: "mr_plan r = xs @ u # ys" using u(1) by (auto simp: in_set_conv_decomp)
  have rest_less: "(\<Sum>x\<leftarrow>xs @ ys. weight st' x) + 2 \<le> (\<Sum>x\<leftarrow>xs @ ys. weight st x)"
  proof -
    have dist': "distinct (xs @ u # ys)" using dist[unfolded distinct_map, THEN conjunct1] by (simp add: split_u)
    have s_in: "s \<in> set (xs @ ys)" using s(1) us split_u by auto
    define f where "f x = (if x = s then weight st' x + 2 else weight st' x)" for x
    have sums: "(\<Sum>x\<leftarrow>zs. f x) = (\<Sum>x\<leftarrow>zs. weight st' x) + (if s \<in> set zs then 2 else 0)" if "distinct zs" for zs
      using that by (induction zs) (auto simp: f_def)
    have "distinct (xs @ ys)" using dist' by simp
    from sums[OF this] s_in have "(\<Sum>x\<leftarrow>xs @ ys. f x) = (\<Sum>x\<leftarrow>xs @ ys. weight st' x) + 2" by (simp only: if_True)
    moreover have "(\<Sum>x\<leftarrow>xs @ ys. f x) \<le> (\<Sum>x\<leftarrow>xs @ ys. weight st x)"
      using other dist' split_u s2 by (intro sum_list_mono) (auto simp: f_def)
    ultimately show ?thesis by simp
  qed
  show ?thesis using rest_less u1 by (simp add: work_def split_u)
qed

subsection \<open>Progress takes work away\<close>

definition working :: "meta_run \<Rightarrow> nat \<Rightarrow> meta_step \<Rightarrow> meta_state \<Rightarrow> bool" where
  "working r k s st \<longleftrightarrow> ending_plan r \<and> s \<in> set (mr_plan r) \<and> ms_Id s \<in> mt_pending st \<and> work (mr_plan r) st \<le> k"

definition less_work :: "meta_run \<Rightarrow> nat \<Rightarrow> meta_step \<Rightarrow> meta_state \<Rightarrow> bool" where
  "less_work r k s st \<longleftrightarrow> work (mr_plan r) st < k"

lemma pending_append [simp]: "mt_pending (append_result sid kind status code ms continued st) = mt_pending st"
  by (simp add: append_result_def)

lemma work_append [simp]: "work plan (append_result sid kind status code ms continued st) = work plan st"
  by (simp add: work_def weight_def)

lemma pending_complete [simp]: "mt_pending (CompleteMetaStepOutput s out st) = mt_pending st - {ms_Id s}"
  by (simp add: CompleteMetaStepOutput_def Let_def)

lemma pending_block: "mt_pending (block_step D sid st) \<subseteq> mt_pending st"
  by (auto simp: block_step_simp)

lemma pending_classification: "mt_pending (ApplyClassificationRouting label routeMap D plan st) \<subseteq> mt_pending st"
proof -
  have fold_sub: "mt_pending (fold f xs st) \<subseteq> mt_pending st" if "\<And>x st. mt_pending (f x st) \<subseteq> mt_pending st"
    for f :: "'a \<Rightarrow> meta_state \<Rightarrow> meta_state" and xs st
    using that by (induction xs arbitrary: st) (simp, fastforce)
  have inner: "mt_pending (fold (\<lambda>t st. if stepById plan t = None then st else block_step D t st) targets st) \<subseteq> mt_pending st"
    for targets st
  proof (induction targets arbitrary: st)
    case (Cons t targets)
    have "mt_pending (if stepById plan t = None then st else block_step D t st) \<subseteq> mt_pending st" by (simp add: pending_block)
    with Cons.IH show ?case by (simp only: fold_simps comp_apply) (rule order_trans)
  qed simp
  have "mt_pending (fold (\<lambda>(l, targets) st. if l = label then st
      else fold (\<lambda>t st. if stepById plan t = None then st else block_step D t st) targets st) routeMap st) \<subseteq> mt_pending st"
    by (rule fold_sub) (auto simp: inner[THEN subsetD] split: prod.split)
  then show ?thesis by (simp add: ApplyClassificationRouting_def Let_def)
qed

interpretation progress: meta_handlers working less_work "\<lambda>r st. True"
proof
  fix r k s st st' st'' status code ms continued out ctx label routeMap and st0 :: meta_state
  show "less_work r k s st'" if "working r k s st" "TryActivateFailureBranch s (mr_plan r) st = Some st'"
    using that work_fallback[of r s st st'] by (simp add: working_def less_work_def)
  show "less_work r k s (CompleteMetaStepOutput s out st)" if "working r k s st"
    using that work_drop[of s "mr_plan r" st "CompleteMetaStepOutput s out st"] by (simp add: working_def less_work_def)
  show "less_work r k s st''" if "working r k s st" "less_work r k s st'"
    "ApplyCompletionRouting (evaluator (en_pongo (mr_env r))) (mr_plan r) (mr_dependents r) s ctx st' = Some st''"
    using that by (simp add: working_def ending_plan_def routeless_def ApplyCompletionRouting_def)
  show "less_work r k s (ApplyClassificationRouting label routeMap (mr_dependents r) (mr_plan r) st')"
    if "working r k s st" "less_work r k s st'"
    using that(2) unfolding less_work_def by (rule le_less_trans[OF work_mono[OF pending_classification]])
qed (simp_all add: working_def less_work_def)

definition outcome_work :: "meta_run \<Rightarrow> meta_state \<Rightarrow> step_outcome \<Rightarrow> bool" where
  "outcome_work r st out =
     (case out of
        StepOn ss st' progress \<Rightarrow>
          (if progress then work (mr_plan r) st' < work (mr_plan r) st else work (mr_plan r) st' \<le> work (mr_plan r) st)
      | _ \<Rightarrow> True)"

lemma outcome_work_simps [simp]:
  "outcome_work r st (StepOn ss st' True) \<longleftrightarrow> work (mr_plan r) st' < work (mr_plan r) st"
  "outcome_work r st (StepOn ss st' False) \<longleftrightarrow> work (mr_plan r) st' \<le> work (mr_plan r) st"
  "outcome_work r st (StepReturn ss st' e preserve)" "outcome_work r st StepPanic"
  by (simp_all add: outcome_work_def)

lemma run_step_work:
  assumes plan: "ending_plan r" and s: "s \<in> set (mr_plan r)"
  shows "outcome_work r st (run_step r s ss st)"
proof (cases "ms_Id s \<in> mt_pending st")
  case True
  have drop: "work (mr_plan r) (st\<lparr>mt_pending := mt_pending st - {ms_Id s}\<rparr>) < work (mr_plan r) st"
    by (rule work_drop[OF s True]) simp
  have block: "work (mr_plan r) (block_step D (ms_Id s) st) < work (mr_plan r) st" if "ms_Id s \<notin> mt_blocked st" for D
    by (rule work_drop[OF s True]) (use that in \<open>auto simp: block_step_simp hanging_on_def\<close>)
  have "working r (work (mr_plan r) st) s st" using plan s True by (simp add: working_def)
  from progress.good_dispatch[OF this, of ss] have "outcome_work r st (dispatch_step r s ss st)"
    by (cases "dispatch_step r s ss st") (auto simp: outcome_work_def progress.good_def less_work_def working_def split: if_splits)
  with drop block True show ?thesis
    by (auto simp: run_step_def record_now_def split: dep_status.split option.split bool.split)
qed (simp add: run_step_def)

lemma run_pass_work:
  "ending_plan r \<Longrightarrow> set todo \<subseteq> set (mr_plan r) \<Longrightarrow> (\<not> progress \<longrightarrow> work (mr_plan r) st \<le> k) \<Longrightarrow>
   (progress \<longrightarrow> work (mr_plan r) st < k) \<Longrightarrow>
   run_pass r todo progress ss st = StepOn ss' st' progress' \<Longrightarrow>
   (if progress' then work (mr_plan r) st' < k else work (mr_plan r) st' \<le> k)"
proof (induction r todo progress ss st rule: run_pass.induct)
  case (2 r s todo progress ss st)
  have step: "outcome_work r st (run_step r s ss st)" using 2(2,3) by (intro run_step_work) auto
  show ?case
  proof (cases "run_step r s ss st")
    case (StepOn ss1 st1 moved)
    with step 2(3-6) show ?thesis
      by (intro 2(1)[OF StepOn 2(2)]) (auto simp: outcome_work_def split: if_splits)
  qed (use 2 in simp_all)
qed simp

lemma run_loop_ends:
  "run_inv (mr_plan r) st \<Longrightarrow> ending_plan r \<Longrightarrow> work (mr_plan r) st < n \<Longrightarrow> \<exists>e. run_loop arrival r n ss st = Some e"
proof (induction n arbitrary: ss st)
  case (Suc n)
  have idle: "TryExecuteParallelToolWave arrival r st = Some None"
    using Suc.prems(1) by (intro wave_idle) (simp add: run_inv_def meta_wf_def)
  have inv: "outcome_inv (mr_plan r) (run_pass r (mr_plan r) False ss st)"
    using Suc.prems(1) by (intro run_pass_inv) simp_all
  show ?case
  proof (cases "run_pass r (mr_plan r) False ss st")
    case (StepOn ss1 st1 progress)
    have "progress \<Longrightarrow> work (mr_plan r) st1 < work (mr_plan r) st"
      using run_pass_work[OF Suc.prems(2) subset_refl _ _ StepOn, of "work (mr_plan r) st"] by simp
    with Suc StepOn inv idle show ?thesis by (cases progress) (auto simp: Let_def)
  qed (use idle in auto)
qed simp

lemma work_bound: "work plan st \<le> 2 * length plan"
  unfolding work_def by (induction plan) (auto simp: weight_def)



subsection \<open>A run that does not end\<close>

definition jump_step :: "string \<Rightarrow> string \<Rightarrow> meta_step" where
  "jump_step sid target = (chat_step sid [])\<lparr>ms_Routes := [\<lparr>mr_When = [], mr_To = target\<rparr>]\<rparr>"

definition ping_pong :: "meta_step list" where
  "ping_pong = [jump_step ''e'' ''a'', jump_step ''a'' ''b'', jump_step ''b'' ''a'']"

definition ping_pong_run :: meta_run where
  "ping_pong_run = new_run (echo_env ping_pong) (skill_of ping_pong) ping_pong ''hi'' []"

definition ping_pong_state :: "MetaStepExecutionResult list \<Rightarrow> meta_state" where
  "ping_pong_state rs = \<lparr>mt_pending = {''a''}, mt_blocked = {}, mt_outputs = [(''e'', ''e''), (''a'', ''a''), (''b'', ''b'')],
     mt_failureAliases = [], mt_stepResults = rs\<rparr>"

definition chat_done :: "string \<Rightarrow> MetaStepExecutionResult" where
  "chat_done sid = \<lparr>sr_Id = sid, sr_Kind = ''llm_chat'', sr_Status = ''completed'', sr_FailureCode = [], sr_DurationMs = 0,
     sr_Continued = False\<rparr>"

lemma ping_pong_pass:
  "run_pass ping_pong_run ping_pong False empty_session (ping_pong_state rs) =
   StepOn empty_session (ping_pong_state ((rs @ [chat_done ''a'']) @ [chat_done ''b''])) True"
  by code_simp

lemma ping_pong_first:
  "run_pass ping_pong_run ping_pong False empty_session
     (ApplyInitialRoutingBlocks ping_pong (fresh_state (rawPending ping_pong))) =
   StepOn empty_session (ping_pong_state [chat_done ''e'', chat_done ''a'', chat_done ''b'']) True"
  by code_simp

lemma ping_pong_loop: "run_loop arrival ping_pong_run n empty_session (ping_pong_state rs) = None"
proof (induction n arbitrary: rs)
  case (Suc n)
  have "mr_plan ping_pong_run = ping_pong" by (simp add: ping_pong_run_def new_run_def)
  moreover have "TryExecuteParallelToolWave arrival ping_pong_run (ping_pong_state rs) = Some None"
    by (rule wave_idle) (simp add: ping_pong_state_def)
  moreover have "mt_pending (ping_pong_state rs) \<noteq> {}" by (simp add: ping_pong_state_def)
  ultimately show ?case by (simp add: ping_pong_pass Suc.IH)
qed simp

text \<open>C39: A meta skill with routes need not end: a plan of three model steps, the first routed to the second and the
  second and third routed to each other, passes the validation, and with a model that always answers no number
  of rounds is enough; the process calls the model for ever.\<close>

theorem routed_run_need_not_end:
  "TryValidateMetaPlan ping_pong [skill_of ping_pong] = None \<and>
   ExecuteMetaSkill arrival (echo_env ping_pong) [] fuel empty_session ''m'' ''hi'' = None"
proof -
  have valid: "TryValidateMetaPlan ping_pong [skill_of ping_pong] = None" by code_simp
  define st where "st = ApplyInitialRoutingBlocks ping_pong (fresh_state (rawPending ping_pong))"
  have disjoint: "mt_pending st \<noteq> {}" "mt_pending st \<inter> mt_blocked st = {}" unfolding st_def by code_simp+
  have plan: "mr_plan ping_pong_run = ping_pong" by (simp add: ping_pong_run_def new_run_def)
  have "run_loop arrival ping_pong_run fuel empty_session st = None"
    using disjoint wave_idle[OF disjoint(2), of arrival ping_pong_run]
    by (cases fuel) (simp_all add: plan ping_pong_first[folded st_def] ping_pong_loop)
  moreover have "ping_pong \<noteq> []" by (simp add: ping_pong_def)
  moreover have "en_loadedSkills (echo_env ping_pong) = [skill_of ping_pong]" "en_metaSkillsEnabled (echo_env ping_pong)"
    by (simp_all add: echo_env_def)
  ultimately show ?thesis
    using valid sample_callable[of ping_pong] unfolding ping_pong_run_def st_def
    by (simp add: ExecuteMetaSkill_def Let_def TryRestoreMetaExecutionCheckpoint_def empty_session_def)
qed

subsection \<open>Runs that call no tool by name\<close>

text \<open>The run with other tools for the names that are not empty.\<close>

definition other_tools :: "(meta_state \<Rightarrow> meta_step \<Rightarrow> string \<Rightarrow> string \<Rightarrow> tool_attempt) \<Rightarrow> meta_env \<Rightarrow> meta_env" where
  "other_tools t env = env\<lparr>en_tool := (\<lambda>st s name args. if name = [] then en_tool env st s name args else t st s name args)\<rparr>"

definition with_tools :: "(meta_state \<Rightarrow> meta_step \<Rightarrow> string \<Rightarrow> string \<Rightarrow> tool_attempt) \<Rightarrow> meta_run \<Rightarrow> meta_run" where
  "with_tools t r = r\<lparr>mr_env := other_tools t (mr_env r)\<rparr>"

lemma with_tools_simps [simp]:
  "mr_plan (with_tools t r) = mr_plan r" "mr_skill (with_tools t r) = mr_skill r" "mr_input (with_tools t r) = mr_input r"
  "mr_dependents (with_tools t r) = mr_dependents r" "mr_sessionInputs (with_tools t r) = mr_sessionInputs r"
  "mr_env (with_tools t r) = other_tools t (mr_env r)"
  by (simp_all add: with_tools_def)

lemma other_tools_simps [simp]:
  "en_pongo (other_tools t env) = en_pongo env" "en_unmarshal (other_tools t env) = en_unmarshal env"
  "en_decode (other_tools t env) = en_decode env" "en_marshal (other_tools t env) = en_marshal env"
  "en_sprint (other_tools t env) = en_sprint env" "en_decodeForm (other_tools t env) = en_decodeForm env"
  "en_parseFloat (other_tools t env) = en_parseFloat env" "en_marshalForm (other_tools t env) = en_marshalForm env"
  "en_skill (other_tools t env) = en_skill env" "en_capability (other_tools t env) = en_capability env"
  "en_llm (other_tools t env) = en_llm env" "en_ctxDone (other_tools t env) = en_ctxDone env"
  "en_duration (other_tools t env) = en_duration env" "en_now (other_tools t env) = en_now env"
  "en_pointer (other_tools t env) = en_pointer env" "en_loadedSkills (other_tools t env) = en_loadedSkills env"
  "en_metaSkillsEnabled (other_tools t env) = en_metaSkillsEnabled env"
  "en_tool (other_tools t env) st s [] args = en_tool env st s [] args"
  by (simp_all add: other_tools_def)

named_theorems same_without_tools \<open>routines that do not look at the tools\<close>

lemma same_context [same_without_tools]:
  "sample_context (with_tools t r) = sample_context r" "step_context (with_tools t r) = step_context r"
  "step_args (with_tools t r) = step_args r" "record_result (with_tools t r) = record_result r"
  "arg_text (with_tools t r) = arg_text r"
  by (simp_all add: fun_eq_iff sample_context_def step_context_def step_args_def record_result_def arg_text_def)

lemmas without_tools = same_without_tools with_tools_simps other_tools_simps

lemma same_args [same_without_tools]:
  "continue_on_error (with_tools t r) = continue_on_error r" "user_value (with_tools t r) = user_value r"
  "complete_and_route (with_tools t r) = complete_and_route r"
  unfolding fun_eq_iff continue_on_error_def user_value_def complete_and_route_def same_without_tools without_tools by simp_all

lemma same_fail [same_without_tools]:
  "fail_step (with_tools t r) = fail_step r" "complete_and_record (with_tools t r) = complete_and_record r"
  unfolding fun_eq_iff fail_step_def complete_and_record_def same_without_tools without_tools by simp_all

lemma same_results [same_without_tools]:
  "tool_result_outcome (with_tools t r) = tool_result_outcome r" "llm_not_completed (with_tools t r) = llm_not_completed r"
  "contract_failed (with_tools t r) = contract_failed r" "ask_user (with_tools t r) = ask_user r"
  "accept_user_value (with_tools t r) = accept_user_value r"
  unfolding fun_eq_iff tool_result_outcome_def llm_not_completed_def contract_failed_def ask_user_def
    accept_user_value_def same_without_tools without_tools
  by simp_all

lemma same_kinds [same_without_tools]:
  "exec_skill_exec (with_tools t r) = exec_skill_exec r" "exec_llm_text (with_tools t r) = exec_llm_text r"
  "classify_label (with_tools t r) = classify_label r" "exec_user_input (with_tools t r) = exec_user_input r"
  unfolding fun_eq_iff exec_skill_exec_def exec_llm_text_def classify_label_def exec_user_input_def Let_def
    same_without_tools without_tools
  by simp_all

lemma same_classify [same_without_tools]: "exec_llm_classify (with_tools t r) = exec_llm_classify r"
  unfolding fun_eq_iff exec_llm_classify_def Let_def same_without_tools without_tools by simp

lemma same_tool_call [same_without_tools]: "exec_tool_call (with_tools t r) = exec_tool_call r"
proof (intro ext)
  fix s ctx c ss st
  show "exec_tool_call (with_tools t r) s ctx c ss st = exec_tool_call r s ctx c ss st"
  proof (cases "ms_Tool s \<noteq> [] \<and> \<not> ms_CapabilityRef s")
    case True
    then show ?thesis by (simp add: exec_tool_call_def)
  next
    case False
    then have "ms_CapabilityRef s \<or> ms_Tool s = []" by blast
    then show ?thesis
      by (rule disjE) (simp_all only: exec_tool_call_def Let_def same_without_tools without_tools simp_thms if_True if_False)
  qed
qed

lemma same_step [same_without_tools]: "run_step (with_tools t r) = run_step r"
  unfolding fun_eq_iff run_step_def dispatch_step_def exec_agent_def exec_llm_chat_def Let_def same_without_tools without_tools by simp

lemma same_pass [same_without_tools]: "run_pass (with_tools t r) = run_pass r"
proof (intro ext)
  fix todo progress ss st
  show "run_pass (with_tools t r) todo progress ss st = run_pass r todo progress ss st"
    by (induction todo arbitrary: progress ss st) (simp_all add: same_without_tools split: step_outcome.split)
qed

lemma same_ends [same_without_tools]:
  "return_error (with_tools t r) = return_error r" "return_final (with_tools t r) = return_final r"
  "remaining_steps (with_tools t r) = remaining_steps r"
  by (simp_all add: fun_eq_iff return_error_def return_final_def remaining_steps_def)

lemma same_loop:
  "run_inv (mr_plan r) st \<Longrightarrow> run_loop arrival (with_tools t r) n ss st = run_loop arrival r n ss st"
proof (induction n arbitrary: ss st)
  case (Suc n)
  have idle: "TryExecuteParallelToolWave arrival q st = Some None" for q
    using Suc.prems by (intro wave_idle) (simp add: run_inv_def meta_wf_def)
  have "outcome_inv (mr_plan r) (run_pass r (mr_plan r) False ss st)"
    using Suc.prems by (intro run_pass_inv) simp_all
  with Suc.IH show ?case
    by (cases "run_pass r (mr_plan r) False ss st") (auto simp: idle same_without_tools Let_def split: bool.split)
qed simp

text \<open>A meta skill never calls a tool by its name: a fresh run gives the same result whatever the tools with
  non-empty names do. (The test for a missing tool is inverted: a \<open>tool_call\<close> step that declares a tool ends the run
  with the error that it declares none, and one that declares none goes on to call the tool with the empty name.)\<close>

theorem named_tools_never_called:
  assumes "mx_MetaExecutionCheckpoint ss = None"
  shows "ExecuteMetaSkill arrival (other_tools t env) inputs fuel ss skillName input =
    ExecuteMetaSkill arrival env inputs fuel ss skillName input"
proof (cases "callable_skill env skillName")
  case None
  then show ?thesis by (simp add: ExecuteMetaSkill_def callable_skill_def)
next
  case (Some metaSkill)
  define plan where "plan = plan_of metaSkill"
  define r where "r = new_run env metaSkill plan input inputs"
  have r: "new_run (other_tools t env) metaSkill plan input inputs = with_tools t r" "mr_plan r = plan"
    by (simp_all add: r_def new_run_def with_tools_def)
  have same: "callable_skill (other_tools t env) skillName = Some metaSkill" using Some by (simp add: callable_skill_def)
  show ?thesis
  proof (cases "TryValidateMetaPlan plan (en_loadedSkills env)")
    case (Some e)
    then show ?thesis unfolding ExecuteMetaSkill_def same \<open>callable_skill env skillName = Some metaSkill\<close>
      by (simp add: Let_def plan_def[symmetric] r(1) same_without_tools) (simp add: r_def)
  next
    case None
    then have "distinct (map ms_Id plan)"
      by (auto simp: TryValidateMetaPlan_def duplicate_check_None split: option.splits)
    then have "run_inv (mr_plan r) (ApplyInitialRoutingBlocks plan (fresh_state (rawPending plan)))"
      unfolding r(2) by (rule fresh_inv)
    note loop = same_loop[OF this, of arrival t fuel ss]
    show ?thesis unfolding ExecuteMetaSkill_def same \<open>callable_skill env skillName = Some metaSkill\<close>
      using None assms loop
      by (simp add: Let_def plan_def[symmetric] r(1) TryRestoreMetaExecutionCheckpoint_def) (simp add: r_def)
  qed
qed

definition tool_plan :: "meta_step list" where
  "tool_plan = [sample_tool_step]"

theorem named_tools_never_called_witness:
  "ExecuteMetaSkill id (other_tools (\<lambda>st s name args i. (None, Some Canceled)) (echo_env tool_plan)) [] 3 empty_session ''m'' ''hi'' =
   ExecuteMetaSkill id (echo_env tool_plan) [] 3 empty_session ''m'' ''hi''"
  by (rule named_tools_never_called) (simp add: empty_session_def)

subsection \<open>Answers to a paused run\<close>

text \<open>An answer never resumes a paused run: when a run waits for a step with a clarify schema that has no skip
  condition, running the skill again with any non-empty input returns the prompt as an error and pauses again; no
  step is executed, the checkpoint stays, and the input is not looked at.\<close>

theorem answer_repeats_prompt:
  assumes "en_metaSkillsEnabled env" "callable_skill env skillName = Some metaSkill"
    "TryValidateMetaPlan (plan_of metaSkill) (en_loadedSkills env) = None" "sk_FinalTextMode metaSkill \<noteq> ''structured''"
    "mx_MetaExecutionCheckpoint ss = Some cp" "cp_SkillName cp = sk_Name metaSkill"
    "checkpoint_valid (ms_Id ` set (plan_of metaSkill)) cp" "cp_Prompt cp \<noteq> []"
    "s \<in> set (plan_of metaSkill)" "cp_PendingStepId cp = ms_Id s" "ms_Id s \<noteq> []"
    "ms_Clarify s = Some c" "cl_SkipIf c = []" "input \<noteq> []"
  shows "\<exists>ss' st. ExecuteMetaSkill arrival env inputs fuel ss skillName input =
      Some (Ended (RunReturn (''error: '' @ cp_Prompt cp) ss' st)) \<and>
    mt_stepResults st = cp_StepResults cp \<and> mt_outputs st = cp_Outputs cp \<and> mt_pending st = cp_PendingStepIds cp \<and>
    mx_MetaExecutionCheckpoint ss' = Some (cp\<lparr>cp_LastUpdatedAtUtc := en_now env\<rparr>)"
proof -
  define plan where "plan = plan_of metaSkill"
  have nonempty: "plan \<noteq> []" using assms(9) by (auto simp: plan_def)
  have dist: "distinct (map ms_Id plan)"
    using assms(3) by (auto simp: TryValidateMetaPlan_def plan_def[symmetric] duplicate_check_None split: option.splits)
  have "find (\<lambda>x. ms_Id x = ms_Id s) plan \<noteq> None" using assms(9) by (auto simp: plan_def find_None_iff)
  then obtain u where u: "find (\<lambda>x. ms_Id x = ms_Id s) plan = Some u" by blast
  then have u2: "u \<in> set plan" "ms_Id u = ms_Id s"
    by (metis (mono_tags, lifting) find_Some_iff nth_mem)+
  have "u = s" using u2 assms(9) dist by (auto dest: inj_onD simp: distinct_map plan_def)
  with assms u nonempty show ?thesis
    by (simp add: ExecuteMetaSkill_def Let_def plan_def[symmetric] TryRestoreMetaExecutionCheckpoint_def resume_run_def
        new_run_def return_error_def ReturnMetaExecutionOutput_def BuildMetaExecutionOutput_def AppendMetaRunHistory_def)
qed

text \<open>A form that asks for an age, paused.\<close>

definition age_field :: MetaClarifyField where
  "age_field = \<lparr>cf_Name = ''age'', cf_Type = ''Integer'', cf_Required = True, cf_DefaultValue = None, cf_Options = [],
     cf_MinLength = None, cf_MaxLength = None, cf_Min = Some 18, cf_Max = Some 120\<rparr>"

definition age_form :: MetaClarifySchema where
  "age_form = \<lparr>cl_Mode = ''form'', cl_Fields = [age_field], cl_CancelWords = [''stop''], cl_SkipIf = [], cl_TimeoutSeconds = None\<rparr>"

definition ask_step :: meta_step where
  "ask_step = (chat_step ''age'' [])\<lparr>ms_Kind := ''user_input'', ms_Clarify := Some age_form\<rparr>"

definition paused_session :: meta_session where
  "paused_session = SaveMetaExecutionCheckpoint ''m'' ''age'' ''How old are you?'' 7 (fresh_state {''age''}) empty_session"

theorem answer_repeats_prompt_witness:
  "\<exists>ss' st. ExecuteMetaSkill id (echo_env [ask_step]) [] 3 paused_session ''m'' ''42'' =
      Some (Ended (RunReturn (''error: '' @ ''How old are you?'') ss' st)) \<and> mt_stepResults st = []"
proof -
  let ?cp = "the (mx_MetaExecutionCheckpoint paused_session)"
  have cp: "mx_MetaExecutionCheckpoint paused_session = Some ?cp" "cp_Prompt ?cp = ''How old are you?''" "cp_StepResults ?cp = []"
    by (simp_all add: paused_session_def SaveMetaExecutionCheckpoint_def fresh_state_def)
  have "\<exists>ss' st. ExecuteMetaSkill id (echo_env [ask_step]) [] 3 paused_session ''m'' ''42'' =
      Some (Ended (RunReturn (''error: '' @ cp_Prompt ?cp) ss' st)) \<and>
    mt_stepResults st = cp_StepResults ?cp \<and> mt_outputs st = cp_Outputs ?cp \<and> mt_pending st = cp_PendingStepIds ?cp \<and>
    mx_MetaExecutionCheckpoint ss' = Some (?cp\<lparr>cp_LastUpdatedAtUtc := en_now (echo_env [ask_step])\<rparr>)"
  proof (rule answer_repeats_prompt[where metaSkill = "skill_of [ask_step]" and s = ask_step and c = age_form])
    show "TryValidateMetaPlan (plan_of (skill_of [ask_step])) (en_loadedSkills (echo_env [ask_step])) = None" by code_simp
  qed (simp_all add: sample_callable echo_env_def skill_of_def plan_of_def cp callable_skill_def ask_step_def chat_step_def age_form_def
       paused_session_def SaveMetaExecutionCheckpoint_def fresh_state_def checkpoint_valid_def)
  then show ?thesis unfolding cp(2,3) by blast
qed

end
