(* ===== verification/Meta_Load.thy ===== *)
theory Meta_Load
  imports Meta_Clarify
begin

section \<open>Loading the composition of a meta skill\<close>

text \<open>
  \<open>ParseComposition\<close> of \<open>src/openclaw/core/skills_loader.go\<close>: the JSON of a composition becomes a plan, step by
  step and property by property, and the plan is validated. The parsed document is a \<open>json\<close> value; reading it into a
  Go variable is one of the functions \<open>as_string\<close>, \<open>as_int\<close>, \ldots, for which \<open>null\<close> leaves the zero value. The text
  of an element is the parameter \<open>raw\<close>, and \<open>unmarshal\<close> reads such a text back. A rejection is \<open>GoErr\<close> with the code
  of the loader.
\<close>

abbreviation reject :: "string \<Rightarrow> 'a go_result" where
  "reject code \<equiv> Inl (GoErr code)"

fun as_string :: "json \<Rightarrow> string option" where
  "as_string (JStr s) = Some s"
| "as_string JNull = Some []"
| "as_string _ = None"

fun as_int :: "json \<Rightarrow> int option" where
  "as_int (JNum x) = (if x = rat_of_int \<lfloor>x\<rfloor> \<and> in_i64 \<lfloor>x\<rfloor> then Some \<lfloor>x\<rfloor> else None)"
| "as_int JNull = Some 0"
| "as_int _ = None"

fun as_float :: "json \<Rightarrow> rat option" where
  "as_float (JNum x) = Some (f64_round x)"
| "as_float JNull = Some 0"
| "as_float _ = None"

fun as_bool :: "json \<Rightarrow> bool option" where
  "as_bool (JBool b) = Some b"
| "as_bool JNull = Some False"
| "as_bool _ = None"

fun as_list :: "json \<Rightarrow> json list option" where
  "as_list (JArr xs) = Some xs"
| "as_list JNull = Some []"
| "as_list _ = None"

fun as_object :: "json \<Rightarrow> payload option" where
  "as_object (JObj m) = Some m"
| "as_object JNull = Some []"
| "as_object _ = None"

fun is_object :: "json \<Rightarrow> bool" where
  "is_object (JObj m) = True"
| "is_object _ = False"

text \<open>A property that may be missing, and must be a text that is not blank when it is there.\<close>

definition optional_text :: "string \<Rightarrow> payload \<Rightarrow> string \<Rightarrow> string option go_result" where
  "optional_text code el name =
     (case map_of el name of
        None \<Rightarrow> Inr None
      | Some v \<Rightarrow> (case as_string v of
          Some s \<Rightarrow> if TrimSpace s = [] then reject code else Inr (Some s)
        | None \<Rightarrow> reject code))"

definition optional_value :: "string \<Rightarrow> (json \<Rightarrow> 'a option) \<Rightarrow> ('a \<Rightarrow> bool) \<Rightarrow> payload \<Rightarrow> string \<Rightarrow> 'a option go_result" where
  "optional_value code read ok el name =
     (case map_of el name of
        None \<Rightarrow> Inr None
      | Some v \<Rightarrow> (case read v of Some x \<Rightarrow> if ok x then Inr (Some x) else reject code | None \<Rightarrow> reject code))"

primrec mapR :: "('a \<Rightarrow> 'b go_result) \<Rightarrow> 'a list \<Rightarrow> 'b list go_result" where
  "mapR f [] = Inr []"
| "mapR f (x # xs) = bindR (f x) (\<lambda>y. bindR (mapR f xs) (\<lambda>ys. Inr (y # ys)))"

text \<open>\<open>TryParseStringArrayProperty\<close>; the value must be an array.\<close>

definition TryParseStringArrayProperty :: "payload \<Rightarrow> string \<Rightarrow> string list go_result" where
  "TryParseStringArrayProperty el name =
     (case map_of el name of
        None \<Rightarrow> Inr []
      | Some (JArr items) \<Rightarrow>
          mapR (\<lambda>item. case as_string item of
              Some s \<Rightarrow> if TrimSpace s = [] then reject ''invalid_meta_composition'' else Inr s
            | None \<Rightarrow> reject ''invalid_meta_composition'') items
      | Some _ \<Rightarrow> reject ''invalid_meta_composition'')"

definition recode :: "string \<Rightarrow> 'a go_result \<Rightarrow> 'a go_result" where
  "recode code r = (case r of Inl _ \<Rightarrow> reject code | Inr x \<Rightarrow> Inr x)"

subsection \<open>The properties of a step\<close>

definition TryParseOnFailure :: "payload \<Rightarrow> string go_result" where
  "TryParseOnFailure el =
     (case map_of el ''on_failure'' of
        None \<Rightarrow> reject ''invalid_on_failure''
      | Some v \<Rightarrow> (case as_string v of
          Some s \<Rightarrow> if s = [] then reject ''invalid_on_failure'' else Inr s
        | None \<Rightarrow> reject ''invalid_on_failure''))"

definition TryParseTimeoutSeconds :: "payload \<Rightarrow> int go_result" where
  "TryParseTimeoutSeconds el =
     (case map_of el ''timeout_seconds'' of
        None \<Rightarrow> reject ''invalid_timeout_seconds''
      | Some v \<Rightarrow> (case as_int v of
          Some n \<Rightarrow> if n \<le> 0 then reject ''invalid_timeout_seconds'' else Inr n
        | None \<Rightarrow> reject ''invalid_timeout_seconds''))"

text \<open>The members of the retry policy match their names up to case; others are refused.\<close>

definition retry_member :: "payload \<Rightarrow> string \<Rightarrow> int \<Rightarrow> int \<Rightarrow> int \<Rightarrow> int go_result" where
  "retry_member m name lo hi zero =
     (case find (\<lambda>(k, v). EqualFold k name) m of
        None \<Rightarrow> Inr zero
      | Some (k, JNull) \<Rightarrow> Inr zero
      | Some (k, v) \<Rightarrow> (case as_int v of
          Some n \<Rightarrow> if n < lo \<or> hi < n then reject ''invalid_step_retry'' else Inr n
        | None \<Rightarrow> reject ''invalid_step_retry''))"

definition TryParseRetryPolicy :: "payload \<Rightarrow> MetaStepRetryPolicy go_result" where
  "TryParseRetryPolicy el =
     (case map_of el ''retry'' of
        None \<Rightarrow> Inr \<lparr>rp_MaxAttempts = 1, rp_BackoffMs = 0\<rparr>
      | Some JNull \<Rightarrow> Inr \<lparr>rp_MaxAttempts = 1, rp_BackoffMs = 0\<rparr>
      | Some (JObj m) \<Rightarrow>
          if list_ex (\<lambda>(k, v). \<not> EqualFold k ''max_attempts'' \<and> \<not> EqualFold k ''backoff_ms'') m then reject ''invalid_step_retry''
          else bindR (retry_member m ''max_attempts'' 1 10 1) (\<lambda>attempts.
               bindR (retry_member m ''backoff_ms'' 0 600000 0) (\<lambda>backoff.
               Inr \<lparr>rp_MaxAttempts = attempts, rp_BackoffMs = backoff\<rparr>))
      | Some _ \<Rightarrow> reject ''invalid_step_retry'')"

text \<open>\<open>TryParseOutputContract\<close>: without a contract the result is the empty one, not a missing one.\<close>

fun required_properties :: "string set \<Rightarrow> json list \<Rightarrow> string list go_result" where
  "required_properties seen [] = Inr []"
| "required_properties seen (item # items) =
     (case as_string item of
        None \<Rightarrow> reject ''invalid_output_contract''
      | Some s \<Rightarrow> (let t = TrimSpace s in
          if t = [] \<or> ToLower t \<in> seen then reject ''invalid_output_contract''
          else bindR (required_properties (insert (ToLower t) seen) items) (\<lambda>ts. Inr (t # ts))))"

definition TryParseOutputContract :: "payload \<Rightarrow> MetaStepOutputContract go_result" where
  "TryParseOutputContract el =
     (let code = ''invalid_output_contract'';
          found = (case map_of el ''output_contract'' of Some v \<Rightarrow> Some v | None \<Rightarrow> map_of el ''output_schema'')
      in case found of
           None \<Rightarrow> Inr \<lparr>oc_Format = [], oc_RequiredProperties = []\<rparr>
         | Some JNull \<Rightarrow> Inr \<lparr>oc_Format = [], oc_RequiredProperties = []\<rparr>
         | Some (JObj m) \<Rightarrow>
             if list_ex (\<lambda>(k, v). k \<noteq> ''format'' \<and> k \<noteq> ''required_properties'') m then reject code
             else bindR (optional_text code m ''format'') (\<lambda>f.
               let format = (case f of Some s \<Rightarrow> ToLower (TrimSpace s) | None \<Rightarrow> ''text'') in
               if format \<noteq> ''text'' \<and> format \<noteq> ''json'' then reject code
               else bindR (case map_of m ''required_properties'' of
                             None \<Rightarrow> Inr []
                           | Some v \<Rightarrow> (case as_list v of None \<Rightarrow> reject code | Some items \<Rightarrow> required_properties {} items)) (\<lambda>props.
                 if props \<noteq> [] \<and> format \<noteq> ''json'' then reject code
                 else Inr \<lparr>oc_Format = format, oc_RequiredProperties = props\<rparr>))
         | Some _ \<Rightarrow> reject code)"

text \<open>The kinds are compared exactly here, and up to case in the validation below.\<close>

definition TryParseStepToolArgs :: "(json \<Rightarrow> string) \<Rightarrow> payload \<Rightarrow> string \<Rightarrow> string go_result" where
  "TryParseStepToolArgs raw el kind =
     (case map_of el ''tool_args'' of
        None \<Rightarrow> Inr []
      | Some v \<Rightarrow> if kind \<noteq> ''tool_call'' \<or> \<not> is_object v then reject ''invalid_tool_args'' else Inr (raw v))"

definition TryParseToolAllowlist :: "payload \<Rightarrow> string \<Rightarrow> string list go_result" where
  "TryParseToolAllowlist el kind =
     (if map_of el ''tool_allowlist'' = None then Inr []
      else if kind \<noteq> ''tool_call'' then reject ''invalid_tool_allowlist''
      else bindR (recode ''invalid_tool_allowlist'' (TryParseStringArrayProperty el ''tool_allowlist'')) (\<lambda>vs.
           if vs = [] then reject ''invalid_tool_allowlist'' else Inr vs))"

definition TryParseOutputChoices :: "payload \<Rightarrow> string \<Rightarrow> string list go_result" where
  "TryParseOutputChoices el kind =
     (if map_of el ''output_choices'' = None then Inr []
      else if kind \<notin> {''agent'', ''skill_exec'', ''tool_call'', ''llm_chat'', ''llm_classify''} then reject ''invalid_output_choices''
      else bindR (recode ''invalid_output_choices'' (TryParseStringArrayProperty el ''output_choices'')) (\<lambda>vs.
           if vs = [] then reject ''invalid_output_choices'' else Inr vs))"

definition TryNormalizeClassifyOptions ::
    "unmarshal_map \<Rightarrow> (json \<Rightarrow> string) \<Rightarrow> string \<Rightarrow> string \<Rightarrow> string list \<Rightarrow> string go_result" where
  "TryNormalizeClassifyOptions unmarshal raw stepKind withJson outputChoices =
     (if \<not> EqualFold stepKind ''llm_classify'' then Inr withJson
      else if TrimSpace withJson = [] then
        (if outputChoices = [] then Inr withJson
         else Inr (raw (JObj [(''options'', JArr (map JStr outputChoices))])))
      else case unmarshal withJson of
             None \<Rightarrow> reject ''invalid_meta_composition''
           | Some doc \<Rightarrow>
               if map_of doc ''options'' \<noteq> None then Inr withJson
               else if outputChoices = [] then Inr withJson
               else Inr (raw (JObj (AList.update ''options'' (JArr (map JStr outputChoices)) doc))))"

text \<open>\<open>TryParseSkillExecOptions\<close>; \<open>filepath.IsAbs\<close> is the one of Unix.\<close>

record SkillExecOptions =
  so_entrypoint :: string
  so_args :: "string list"
  so_stdin :: string
  so_cwd :: string
  so_parseMode :: string

definition skill_exec_text :: "bool \<Rightarrow> payload \<Rightarrow> string \<Rightarrow> string option go_result" where
  "skill_exec_text isSkillExec el name =
     (if map_of el name \<noteq> None \<and> \<not> isSkillExec then reject ''invalid_skill_exec''
      else optional_text ''invalid_skill_exec'' el name)"

definition TryParseSkillExecOptions :: "payload \<Rightarrow> string \<Rightarrow> SkillExecOptions go_result" where
  "TryParseSkillExecOptions el kind =
     (let code = ''invalid_skill_exec''; isSkillExec = EqualFold kind ''skill_exec'' in
      bindR (skill_exec_text isSkillExec el ''entrypoint'') (\<lambda>entrypoint.
      bindR (if map_of el ''args'' = None then Inr []
             else if \<not> isSkillExec then reject code
             else recode code (TryParseStringArrayProperty el ''args'')) (\<lambda>args.
      bindR (skill_exec_text isSkillExec el ''stdin'') (\<lambda>stdin.
      bindR (skill_exec_text isSkillExec el ''cwd'') (\<lambda>cwd.
      let dir = (case cwd of Some d \<Rightarrow> TrimSpace d | None \<Rightarrow> []) in
      if cwd \<noteq> None \<and> (HasPrefix dir ''/'' \<or> Contains dir ''..'') then reject code
      else bindR (skill_exec_text isSkillExec el ''parse_mode'') (\<lambda>parseMode.
      let mode = (case parseMode of Some m \<Rightarrow> ToLower (TrimSpace m) | None \<Rightarrow> []) in
      if parseMode \<noteq> None \<and> mode \<notin> {''text'', ''json''} then reject code
      else Inr \<lparr>so_entrypoint = (case entrypoint of Some e \<Rightarrow> TrimSpace e | None \<Rightarrow> []), so_args = args,
                so_stdin = (case stdin of Some i \<Rightarrow> i | None \<Rightarrow> []), so_cwd = dir, so_parseMode = mode\<rparr>))))))"

subsection \<open>The clarify schema\<close>

definition ValidateClarifyFieldConstraints ::
    "string \<Rightarrow> string list \<Rightarrow> int option \<Rightarrow> int option \<Rightarrow> rat option \<Rightarrow> rat option \<Rightarrow> bool" where
  "ValidateClarifyFieldConstraints fieldType options minLength maxLength lo hi =
     (let isString = EqualFold fieldType ''string''; isInteger = EqualFold fieldType ''integer'';
          isNumber = EqualFold fieldType ''number''; isEnum = EqualFold fieldType ''enum''
      in if (\<not> isString \<and> (minLength \<noteq> None \<or> maxLength \<noteq> None)) \<or> (\<not> (isInteger \<or> isNumber) \<and> (lo \<noteq> None \<or> hi \<noteq> None)) \<or>
            (\<not> isEnum \<and> options \<noteq> []) then False
         else if minLength \<noteq> None \<and> maxLength \<noteq> None \<and> the maxLength < the minLength then False
         else if lo \<noteq> None \<and> hi \<noteq> None \<and> the hi < the lo then False else True)"

definition IsValidClarifyDefaultValue ::
    "string \<Rightarrow> string list \<Rightarrow> int option \<Rightarrow> int option \<Rightarrow> rat option \<Rightarrow> rat option \<Rightarrow> json \<Rightarrow> bool" where
  "IsValidClarifyDefaultValue fieldType options minLength maxLength lo hi v =
     (if EqualFold fieldType ''string'' then
        (case as_string v of Some s \<Rightarrow> \<not> below (int (length s)) minLength \<and> \<not> above (int (length s)) maxLength | None \<Rightarrow> False)
      else if EqualFold fieldType ''integer'' then
        (case as_int v of Some i \<Rightarrow> \<not> below (f64_round (rat_of_int i)) lo \<and> \<not> above (f64_round (rat_of_int i)) hi | None \<Rightarrow> False)
      else if EqualFold fieldType ''number'' then
        (case as_float v of Some x \<Rightarrow> \<not> below x lo \<and> \<not> above x hi | None \<Rightarrow> False)
      else if EqualFold fieldType ''boolean'' then as_bool v \<noteq> None
      else if EqualFold fieldType ''enum'' then
        (case as_string v of Some s \<Rightarrow> TrimSpace s \<noteq> [] \<and> s \<in> set options | None \<Rightarrow> False)
      else False)"

definition clarify_type_ok :: "string \<Rightarrow> bool" where
  "clarify_type_ok kind = list_ex (EqualFold kind) [''string'', ''integer'', ''number'', ''boolean'', ''enum'']"

definition parse_clarify_field :: "string set \<Rightarrow> json \<Rightarrow> (string \<times> MetaClarifyField) go_result" where
  "parse_clarify_field fieldNames v =
     (let code = ''invalid_clarify_schema'' in
      case as_object v of
        None \<Rightarrow> reject code
      | Some m \<Rightarrow>
          if \<not> list_all (\<lambda>(k, v). k \<in> {''name'', ''type'', ''required'', ''default'', ''options'', ''min_length'', ''max_length'', ''min'', ''max''}) m
          then reject code
          else if map_of m ''name'' = None \<or> map_of m ''type'' = None then reject code
          else bindR (optional_text code m ''name'') (\<lambda>fieldName.
          bindR (optional_text code m ''type'') (\<lambda>fieldType.
          let name = the fieldName; kind = the fieldType in
          if ToLower name \<in> fieldNames then reject code
          else bindR (recode code (TryParseStringArrayProperty m ''options'')) (\<lambda>options.
          bindR (optional_value code as_int (\<lambda>n. 0 \<le> n) m ''min_length'') (\<lambda>minLength.
          bindR (optional_value code as_int (\<lambda>n. 0 \<le> n) m ''max_length'') (\<lambda>maxLength.
          bindR (optional_value code as_float (\<lambda>_. True) m ''min'') (\<lambda>lo.
          bindR (optional_value code as_float (\<lambda>_. True) m ''max'') (\<lambda>hi.
          bindR (optional_value code as_bool (\<lambda>_. True) m ''required'') (\<lambda>required.
          if \<not> clarify_type_ok kind then reject code
          else if EqualFold kind ''enum'' \<and> options = [] then reject code
          else if \<not> ValidateClarifyFieldConstraints kind options minLength maxLength lo hi then reject code
          else case map_of m ''default'' of
                 Some d \<Rightarrow>
                   if \<not> IsValidClarifyDefaultValue kind options minLength maxLength lo hi d then reject code
                   else Inr (ToLower name, \<lparr>cf_Name = name, cf_Type = kind, cf_Required = (required = Some True),
                     cf_DefaultValue = Some d, cf_Options = options, cf_MinLength = minLength, cf_MaxLength = maxLength,
                     cf_Min = lo, cf_Max = hi\<rparr>)
               | None \<Rightarrow> Inr (ToLower name, \<lparr>cf_Name = name, cf_Type = kind, cf_Required = (required = Some True),
                     cf_DefaultValue = None, cf_Options = options, cf_MinLength = minLength, cf_MaxLength = maxLength,
                     cf_Min = lo, cf_Max = hi\<rparr>))))))))))"

primrec parse_clarify_fields :: "string set \<Rightarrow> json list \<Rightarrow> MetaClarifyField list go_result" where
  "parse_clarify_fields fieldNames [] = Inr []"
| "parse_clarify_fields fieldNames (v # vs) =
     bindR (parse_clarify_field fieldNames v) (\<lambda>(name, field).
     bindR (parse_clarify_fields (insert name fieldNames) vs) (\<lambda>rest. Inr (field # rest)))"

definition TryGetClarifyElement :: "unmarshal_map \<Rightarrow> payload \<Rightarrow> string \<Rightarrow> json option go_result" where
  "TryGetClarifyElement decode el withJson =
     (case (if TrimSpace withJson = [] then Some [] else decode withJson) of
        None \<Rightarrow> reject ''invalid_clarify_schema''
      | Some doc \<Rightarrow> (case map_of el ''clarify'' of Some v \<Rightarrow> Inr (Some v) | None \<Rightarrow> Inr (map_of doc ''clarify'')))"

definition TryParseClarify :: "unmarshal_map \<Rightarrow> payload \<Rightarrow> string \<Rightarrow> string \<Rightarrow> MetaClarifySchema option go_result" where
  "TryParseClarify decode el withJson stepKind =
     (let code = ''invalid_clarify_schema'' in
      bindR (TryGetClarifyElement decode el withJson) (\<lambda>found.
      case found of
        None \<Rightarrow> Inr None
      | Some v \<Rightarrow>
          if \<not> EqualFold stepKind ''user_input'' then reject code
          else case as_object v of
            None \<Rightarrow> reject code
          | Some m \<Rightarrow>
              if \<not> list_all (\<lambda>(k, v). k \<in> {''mode'', ''extract_natural_language'', ''cancel_words'', ''skip_if'', ''timeout_seconds'', ''fields''}) m
              then reject code
              else bindR (optional_text code m ''mode'') (\<lambda>modeText.
              if (case modeText of Some t \<Rightarrow> \<not> EqualFold t ''chat'' \<and> \<not> EqualFold t ''form'' | None \<Rightarrow> False) then reject code
              else let mode = (case modeText of Some t \<Rightarrow> t | None \<Rightarrow> ''chat'') in
              bindR (optional_value code as_bool (\<lambda>_. True) m ''extract_natural_language'') (\<lambda>_.
              bindR (recode code (TryParseStringArrayProperty m ''cancel_words'')) (\<lambda>cancelWords.
              bindR (optional_value code as_int (\<lambda>n. 0 < n) m ''timeout_seconds'') (\<lambda>timeoutSeconds.
              bindR (optional_text code m ''skip_if'') (\<lambda>skipIf.
              bindR (case map_of m ''fields'' of
                       None \<Rightarrow> Inr []
                     | Some fs \<Rightarrow> (case as_list fs of None \<Rightarrow> reject code | Some vs \<Rightarrow> parse_clarify_fields {} vs)) (\<lambda>clarifyFields.
              if EqualFold mode ''form'' \<and> clarifyFields = [] then reject code
              else Inr (Some \<lparr>cl_Mode = mode, cl_Fields = clarifyFields, cl_CancelWords = cancelWords,
                     cl_SkipIf = (case skipIf of Some t \<Rightarrow> t | None \<Rightarrow> []), cl_TimeoutSeconds = timeoutSeconds\<rparr>)))))))))"

subsection \<open>Routes\<close>

definition parse_route :: "json \<Rightarrow> MetaRouteDefinition go_result" where
  "parse_route v =
     (case as_object v of
        None \<Rightarrow> reject ''invalid_route''
      | Some m \<Rightarrow>
          if \<not> list_all (\<lambda>(k, v). k = ''when'' \<or> k = ''to'') m then reject ''invalid_route''
          else bindR (optional_text ''invalid_when_expression'' m ''when'') (\<lambda>cond.
               if map_of m ''to'' = None then reject ''invalid_route''
               else bindR (optional_text ''invalid_route'' m ''to'') (\<lambda>target.
               Inr \<lparr>mr_When = (case cond of Some w \<Rightarrow> w | None \<Rightarrow> []), mr_To = the target\<rparr>)))"

text \<open>The routes, and whether the step has a \<open>route\<close> array.\<close>

definition TryParseRouteArray :: "payload \<Rightarrow> (MetaRouteDefinition list \<times> bool) go_result" where
  "TryParseRouteArray el =
     (case map_of el ''route'' of
        None \<Rightarrow> Inr ([], False)
      | Some v \<Rightarrow> (case as_list v of
          None \<Rightarrow> reject ''invalid_route''
        | Some vs \<Rightarrow> if vs = [] then reject ''invalid_route''
            else bindR (mapR parse_route vs) (\<lambda>routes. Inr (routes, True))))"

definition HasLegacyRouteObject :: "unmarshal_map \<Rightarrow> string \<Rightarrow> bool" where
  "HasLegacyRouteObject unmarshal withJson =
     (if TrimSpace withJson = [] then False
      else case unmarshal withJson of
             None \<Rightarrow> False
           | Some doc \<Rightarrow> (case map_of doc ''route'' of Some v \<Rightarrow> as_object v \<noteq> None | None \<Rightarrow> False))"

subsection \<open>Validation of the whole composition\<close>

text \<open>Identifiers are compared in lower case; the search for cycles is the one on the plan in lower case.\<close>

definition lower_step :: "meta_step \<Rightarrow> meta_step" where
  "lower_step s = s\<lparr>ms_Id := ToLower (ms_Id s), ms_DependsOn := map ToLower (ms_DependsOn s)\<rparr>"

definition loader_HasDependencyCycle :: "meta_step list \<Rightarrow> bool" where
  "loader_HasDependencyCycle plan = HasDependencyCycle (map lower_step plan)"

fun route_targets :: "json \<Rightarrow> string list option" where
  "route_targets (JStr v) = Some [v]"
| "route_targets (JArr vs) = those (map (\<lambda>v. case v of JStr t \<Rightarrow> Some t | _ \<Rightarrow> None) vs)"
| "route_targets _ = None"

text \<open>The targets must be in \<open>knownStepIds\<close>, which holds the identifiers in lower case, as they are written.\<close>

definition ValidateClassifyStep :: "unmarshal_map \<Rightarrow> string \<Rightarrow> string set \<Rightarrow> bool" where
  "ValidateClassifyStep unmarshal withJson knownStepIds =
     (if TrimSpace withJson = [] then False
      else case unmarshal withJson of
        None \<Rightarrow> False
      | Some doc \<Rightarrow> (case map_of doc ''options'' of
          Some (JArr opts) \<Rightarrow>
            (case those (map (\<lambda>v. case v of JStr t \<Rightarrow> Some t | _ \<Rightarrow> None) opts) of
               None \<Rightarrow> False
             | Some texts \<Rightarrow>
                 if texts = [] \<or> list_ex (\<lambda>t. TrimSpace t = []) texts then False
                 else (case map_of doc ''route'' of
                         None \<Rightarrow> True
                       | Some (JObj m) \<Rightarrow>
                           list_all (\<lambda>(routeKey, v). TrimSpace routeKey \<noteq> [] \<and> ToLower routeKey \<in> ToLower ` set texts \<and>
                             (case route_targets v of None \<Rightarrow> False
                              | Some ts \<Rightarrow> list_all (\<lambda>t. TrimSpace t \<noteq> [] \<and> t \<in> knownStepIds) ts)) m
                       | Some _ \<Rightarrow> False))
        | _ \<Rightarrow> False))"

primrec kinds_error :: "string set \<Rightarrow> meta_step list \<Rightarrow> string option" where
  "kinds_error ids [] = None"
| "kinds_error ids (s # ss) =
     (let is_kind = EqualFold (ms_Kind s); noSkill = (TrimSpace (ms_Skill s) = []); noTool = (TrimSpace (ms_Tool s) = []) in
      if ToLower (ms_Id s) \<in> ids then Some ''duplicate_step_id''
      else if ToLower (ms_Kind s) \<notin> {''agent'', ''skill_exec'', ''tool_call'', ''llm_chat'', ''llm_classify'', ''user_input''}
        then Some ''unsupported_step_kind''
      else if is_kind ''tool_call'' \<and> (noTool \<or> \<not> noSkill) then Some ''invalid_step_kind_fields''
      else if is_kind ''skill_exec'' \<and> (noSkill \<or> TrimSpace (ms_SkillExecEntrypoint s) = [] \<or> \<not> noTool)
        then Some ''invalid_step_kind_fields''
      else if is_kind ''agent'' \<and> \<not> noTool then Some ''invalid_step_kind_fields''
      else if (is_kind ''llm_chat'' \<or> is_kind ''llm_classify'' \<or> is_kind ''user_input'') \<and> (\<not> noSkill \<or> \<not> noTool)
        then Some ''invalid_step_kind_fields''
      else kinds_error (insert (ToLower (ms_Id s)) ids) ss)"

definition dependencies_error :: "unmarshal_map \<Rightarrow> string set \<Rightarrow> meta_step \<Rightarrow> string option" where
  "dependencies_error unmarshal ids s =
     (if EqualFold (ms_Kind s) ''llm_classify'' \<and> \<not> ValidateClassifyStep unmarshal (ms_WithJSON s) ids
      then Some ''invalid_classify_step''
      else first_error (\<lambda>dependency.
        if ToLower dependency \<notin> ids then Some ''invalid_dependency''
        else if EqualFold (ms_Id s) dependency then Some ''self_dependency'' else None) (ms_DependsOn s))"

fun routes_error :: "string set \<Rightarrow> string \<Rightarrow> nat \<Rightarrow> MetaRouteDefinition list \<Rightarrow> string option" where
  "routes_error ids stepIdLower fallbackCount [] = None"
| "routes_error ids stepIdLower fallbackCount (r # rs) =
     (if ToLower (mr_To r) \<notin> ids then Some ''invalid_route_target''
      else if ToLower (mr_To r) = stepIdLower then Some ''invalid_route_scope''
      else if TrimSpace (mr_When r) = [] \<and> (0 < fallbackCount \<or> rs \<noteq> []) then Some ''invalid_route_fallback''
      else routes_error ids stepIdLower (if TrimSpace (mr_When r) = [] then fallbackCount + 1 else fallbackCount) rs)"

definition ValidateRouteArrays :: "meta_step list \<Rightarrow> string option" where
  "ValidateRouteArrays plan =
     first_error (\<lambda>s. routes_error ((ToLower \<circ> ms_Id) ` set plan) (ToLower (ms_Id s)) 0 (ms_Routes s)) plan"

definition containsFallbackTargetInLegacyClassifyRoutes :: "unmarshal_map \<Rightarrow> string \<Rightarrow> string set \<Rightarrow> bool" where
  "containsFallbackTargetInLegacyClassifyRoutes unmarshal withJson targets =
     (if TrimSpace withJson = [] then False
      else case unmarshal withJson of
        None \<Rightarrow> False
      | Some doc \<Rightarrow> (case map_of doc ''route'' of
          Some (JObj m) \<Rightarrow>
            list_ex (\<lambda>(k, v).
              (case v of
                 JStr t \<Rightarrow> TrimSpace t \<noteq> [] \<and> ToLower (TrimSpace t) \<in> targets
               | JArr vs \<Rightarrow> list_ex (\<lambda>item. case item of
                     JStr t \<Rightarrow> TrimSpace t \<noteq> [] \<and> ToLower (TrimSpace t) \<in> targets | _ \<Rightarrow> False) vs
               | _ \<Rightarrow> False)) m
        | _ \<Rightarrow> False))"

text \<open>The first loop returns the fallback targets, or the error.\<close>

primrec designate :: "meta_step list \<Rightarrow> string set \<Rightarrow> string set \<Rightarrow> meta_step list \<Rightarrow> string set option" where
  "designate plan ids targets [] = Some targets"
| "designate plan ids targets (s # ss) =
     (let onFailure = TrimSpace (ms_OnFailure s); onFailureLower = ToLower onFailure in
      if onFailure = [] then designate plan ids targets ss
      else if ToLower (ms_Id s) = onFailureLower \<or> onFailureLower \<notin> ids then None
      else case stepById (map lower_step plan) onFailureLower of
             None \<Rightarrow> None
           | Some substitute \<Rightarrow>
               if TrimSpace (ms_OnFailure substitute) \<noteq> [] \<or> ms_DependsOn substitute \<noteq> [] then None
               else if onFailureLower \<in> targets then None
               else designate plan ids (insert onFailureLower targets) ss)"

definition ValidateFailureBranches :: "unmarshal_map \<Rightarrow> meta_step list \<Rightarrow> string set \<Rightarrow> string option" where
  "ValidateFailureBranches unmarshal plan ids =
     (case designate plan ids {} plan of
        None \<Rightarrow> Some ''invalid_on_failure''
      | Some targets \<Rightarrow> first_error (\<lambda>s.
          if list_ex (\<lambda>dependency. ToLower dependency \<in> targets) (ms_DependsOn s) \<or>
             list_ex (\<lambda>r. ToLower (mr_To r) \<in> targets) (ms_Routes s) \<or>
             containsFallbackTargetInLegacyClassifyRoutes unmarshal (ms_WithJSON s) targets
          then Some ''invalid_on_failure'' else None) plan)"

definition ValidateComposition :: "unmarshal_map \<Rightarrow> meta_step list \<Rightarrow> string option" where
  "ValidateComposition unmarshal plan =
     (let ids = (ToLower \<circ> ms_Id) ` set plan in
      if plan = [] then Some ''invalid_meta_composition''
      else case kinds_error {} plan of Some e \<Rightarrow> Some e | None \<Rightarrow>
       (case first_error (dependencies_error unmarshal ids) plan of Some e \<Rightarrow> Some e | None \<Rightarrow>
        if loader_HasDependencyCycle plan then Some ''dependency_cycle''
        else (case ValidateRouteArrays plan of Some e \<Rightarrow> Some e | None \<Rightarrow> ValidateFailureBranches unmarshal plan ids)))"

definition ValidateFinalTextMode :: "string \<Rightarrow> meta_step list \<Rightarrow> bool" where
  "ValidateFinalTextMode finalTextMode plan =
     (let mode = TrimSpace finalTextMode; stepId = TrimSpace (drop 5 mode) in
      if mode = [] then True
      else if mode \<in> {''auto'', ''raw'', ''structured''} then True
      else if \<not> HasPrefix mode ''step:'' then False
      else if stepId = [] then False else list_ex (\<lambda>s. ms_Id s = stepId) plan)"

subsection \<open>The composition\<close>

definition text_or_empty :: "payload \<Rightarrow> string \<Rightarrow> string" where
  "text_or_empty el name = (case Option.bind (map_of el name) as_string of Some t \<Rightarrow> t | None \<Rightarrow> [])"

definition step_kind :: "payload \<Rightarrow> string" where
  "step_kind el = (if map_of el ''kind'' \<noteq> None then text_or_empty el ''kind'' else text_or_empty el ''type'')"

definition parse_dependencies :: "payload \<Rightarrow> string list go_result" where
  "parse_dependencies el =
     (case map_of el ''depends_on'' of
        None \<Rightarrow> Inr []
      | Some v \<Rightarrow> (case Option.bind (as_list v) (\<lambda>vs. those (map as_string vs)) of
          None \<Rightarrow> reject ''invalid_meta_composition''
        | Some ds \<Rightarrow> if list_ex (\<lambda>d. TrimSpace d = []) ds then reject ''invalid_meta_composition'' else Inr ds))"

definition object_text :: "(json \<Rightarrow> string) \<Rightarrow> string \<Rightarrow> payload \<Rightarrow> string \<Rightarrow> string go_result" where
  "object_text raw code el name =
     (case map_of el name of
        None \<Rightarrow> Inr []
      | Some v \<Rightarrow> if as_object v = None then reject code else Inr (raw v))"

definition parse_step :: "unmarshal_map \<Rightarrow> (json \<Rightarrow> string) \<Rightarrow> payload \<Rightarrow> meta_step go_result" where
  "parse_step unmarshal raw el =
     (let sid = text_or_empty el ''id''; kind = step_kind el in
      if TrimSpace sid = [] then reject ''invalid_meta_composition''
      else if TrimSpace kind = [] then reject ''invalid_meta_composition''
      else bindR (parse_dependencies el) (\<lambda>dependsOn.
      bindR (object_text raw ''invalid_with_payload'' el ''with'') (\<lambda>with0.
      bindR (optional_text ''invalid_when_expression'' el ''when'') (\<lambda>cond.
      bindR (TryParseStepToolArgs raw el kind) (\<lambda>toolArgs.
      bindR (TryParseToolAllowlist el kind) (\<lambda>toolAllowlist.
      bindR (TryParseOutputChoices el kind) (\<lambda>outputChoices.
      bindR (TryNormalizeClassifyOptions unmarshal raw kind with0 outputChoices) (\<lambda>withJson.
      bindR (TryParseClarify unmarshal el withJson kind) (\<lambda>clarify.
      bindR (TryParseRouteArray el) (\<lambda>(routes, hasRouteArray).
      if hasRouteArray \<and> HasLegacyRouteObject unmarshal withJson then reject ''invalid_route''
      else bindR (TryParseOnFailure el) (\<lambda>onFailure.
      bindR (TryParseTimeoutSeconds el) (\<lambda>timeoutSeconds.
      bindR (TryParseRetryPolicy el) (\<lambda>retry.
      bindR (TryParseOutputContract el) (\<lambda>contract.
      bindR (TryParseSkillExecOptions el kind) (\<lambda>so.
      Inr \<lparr>ms_Id = sid, ms_Kind = kind, ms_Skill = text_or_empty el ''skill'', ms_Tool = text_or_empty el ''tool'',
           ms_SkillExecEntrypoint = so_entrypoint so, ms_CapabilityRef = False, ms_SkillExecArgs = so_args so,
           ms_SkillExecStdin = so_stdin so, ms_SkillExecCwd = so_cwd so, ms_WithJSON = withJson,
           ms_When = (case cond of Some w \<Rightarrow> w | None \<Rightarrow> []), ms_ToolArgsJSON = toolArgs, ms_ToolAllowlist = toolAllowlist,
           ms_OutputChoices = outputChoices, ms_Clarify = clarify, ms_Routes = routes, ms_DependsOn = dependsOn,
           ms_OnFailure = onFailure, ms_TimeoutSeconds = Some timeoutSeconds, ms_Retry = Some retry,
           ms_OutputContract = Some contract\<rparr>)))))))))))))))"

text \<open>\<open>doc\<close> is the decoded document, \<open>None\<close> when the text is blank or no JSON object.\<close>

definition ParseComposition :: "unmarshal_map \<Rightarrow> (json \<Rightarrow> string) \<Rightarrow> payload option \<Rightarrow> MetaSkillComposition go_result" where
  "ParseComposition unmarshal raw doc =
     (let code = ''invalid_meta_composition'' in
      case doc of
        None \<Rightarrow> reject code
      | Some m \<Rightarrow>
          (case Option.bind (Option.bind (map_of m ''steps'') as_list) (\<lambda>vs. those (map as_object vs)) of
             None \<Rightarrow> reject code
           | Some elements \<Rightarrow>
               bindR (object_text raw ''invalid_tool_args'' m ''tool_args'') (\<lambda>toolArgsJson.
               bindR (mapR (parse_step unmarshal raw) elements) (\<lambda>plan.
               case ValidateComposition unmarshal plan of
                 Some e \<Rightarrow> reject e
               | None \<Rightarrow> Inr \<lparr>co_ToolArgsJson = toolArgsJson, co_Steps = plan\<rparr>))))"

subsection \<open>What a loaded composition is\<close>

lemma mapR_Inr: "mapR f xs = Inr ys \<Longrightarrow> list_all2 (\<lambda>x y. f x = Inr y) xs ys"
  by (induction xs arbitrary: ys) (auto elim!: bindR_InrE)

lemma mapR_each: "mapR f xs = Inr ys \<Longrightarrow> \<forall>y \<in> set ys. \<exists>x \<in> set xs. f x = Inr y"
  by (drule mapR_Inr) (fastforce simp: list_all2_conv_all_nth in_set_conv_nth)

lemma ParseComposition_Inr:
  assumes "ParseComposition unmarshal raw doc = Inr composition"
  shows "ValidateComposition unmarshal (co_Steps composition) = None \<and>
    (\<forall>s \<in> set (co_Steps composition). \<exists>el. parse_step unmarshal raw el = Inr s)"
  using assms by (auto simp: ParseComposition_def Let_def elim!: bindR_InrE dest!: mapR_each split: option.splits) blast

definition retry_ok :: "MetaStepRetryPolicy \<Rightarrow> bool" where
  "retry_ok p \<longleftrightarrow> 1 \<le> rp_MaxAttempts p \<and> rp_MaxAttempts p \<le> 10 \<and> 0 \<le> rp_BackoffMs p \<and> rp_BackoffMs p \<le> 600000"

lemma retry_member_range: "retry_member m name lo hi zero = Inr n \<Longrightarrow> lo \<le> zero \<Longrightarrow> zero \<le> hi \<Longrightarrow> lo \<le> n \<and> n \<le> hi"
  by (auto simp: retry_member_def split: option.splits prod.splits json.splits if_splits)

lemma TryParseRetryPolicy_ok: "TryParseRetryPolicy el = Inr p \<Longrightarrow> retry_ok p"
  by (auto simp: TryParseRetryPolicy_def retry_ok_def elim!: bindR_InrE split: option.splits json.splits if_splits
      dest: retry_member_range)

definition step_limits :: "meta_step \<Rightarrow> bool" where
  "step_limits s \<longleftrightarrow> ms_OnFailure s \<noteq> [] \<and> (case ms_TimeoutSeconds s of Some n \<Rightarrow> 0 < n | None \<Rightarrow> False) \<and>
     (case ms_Retry s of Some p \<Rightarrow> retry_ok p | None \<Rightarrow> False) \<and> ms_OutputContract s \<noteq> None"

lemma parse_step_parts:
  assumes "parse_step unmarshal raw el = Inr s"
  obtains withJson n p c clarify where "TryParseOnFailure el = Inr (ms_OnFailure s)"
    "TryParseTimeoutSeconds el = Inr n" "ms_TimeoutSeconds s = Some n" "TryParseRetryPolicy el = Inr p" "ms_Retry s = Some p"
    "ms_OutputContract s = Some c" "TryParseClarify unmarshal el withJson (ms_Kind s) = Inr clarify" "ms_Clarify s = clarify"
  using assms unfolding parse_step_def Let_def
  by (auto elim!: bindR_InrE split: if_splits)

lemma parse_step_limits: "parse_step unmarshal raw el = Inr s \<Longrightarrow> step_limits s"
  by (erule parse_step_parts)
    (auto simp: step_limits_def TryParseOnFailure_def TryParseTimeoutSeconds_def intro: TryParseRetryPolicy_ok
      split: option.splits if_splits)

text \<open>A loaded step has limits: the timeout is a positive number of seconds, the retry policy allows one to ten
  attempts and waits at most ten minutes, and the output contract is there, so none of the pointers the
  executor reads without a test is nil. It also always has a fallback name that is not empty.\<close>

theorem loaded_steps_limited:
  assumes "ParseComposition unmarshal raw doc = Inr composition"
  shows "list_all step_limits (co_Steps composition)"
  using ParseComposition_Inr[OF assms] by (auto simp: list_all_iff intro: parse_step_limits)

definition lone_step :: payload where
  "lone_step = [(''id'', JStr ''Greet''), (''kind'', JStr ''llm_chat''), (''on_failure'', JStr '' ''), (''timeout_seconds'', JNum 30),
     (''retry'', JObj [(''max_attempts'', JNum 3)])]"

definition lone_composition :: payload where
  "lone_composition = [(''steps'', JArr [JObj lone_step])]"

definition loaded_step :: meta_step where
  "loaded_step = \<lparr>ms_Id = ''Greet'', ms_Kind = ''llm_chat'', ms_Skill = [], ms_Tool = [], ms_SkillExecEntrypoint = [],
     ms_CapabilityRef = False, ms_SkillExecArgs = [], ms_SkillExecStdin = [], ms_SkillExecCwd = [], ms_WithJSON = [],
     ms_When = [], ms_ToolArgsJSON = [], ms_ToolAllowlist = [], ms_OutputChoices = [], ms_Clarify = None, ms_Routes = [],
     ms_DependsOn = [], ms_OnFailure = '' '', ms_TimeoutSeconds = Some 30,
     ms_Retry = Some \<lparr>rp_MaxAttempts = 3, rp_BackoffMs = 0\<rparr>,
     ms_OutputContract = Some \<lparr>oc_Format = [], oc_RequiredProperties = []\<rparr>\<rparr>"

lemma lone_composition_loads:
  "ParseComposition (\<lambda>_. None) (\<lambda>_. []) (Some lone_composition) = Inr \<lparr>co_ToolArgsJson = [], co_Steps = [loaded_step]\<rparr>"
  by code_simp

theorem loaded_steps_limited_witness: "list_all step_limits [loaded_step]"
  using loaded_steps_limited[OF lone_composition_loads] by simp

text \<open>What the loader's validation establishes about the graph.\<close>

lemma kinds_error_None:
  "kinds_error ids ss = None \<Longrightarrow> distinct (map (ToLower \<circ> ms_Id) ss) \<and> (ToLower \<circ> ms_Id) ` set ss \<inter> ids = {}"
proof (induction ss arbitrary: ids)
  case (Cons s ss)
  from Cons.prems have new: "ToLower (ms_Id s) \<notin> ids" and rest: "kinds_error (insert (ToLower (ms_Id s)) ids) ss = None"
    by (simp_all add: Let_def split: if_splits)
  from Cons.IH[OF rest] new show ?case by auto
qed simp

lemma ValidateComposition_None:
  assumes "ValidateComposition unmarshal plan = None"
  shows "distinct (map (ToLower \<circ> ms_Id) plan)" "acyclic (dep_rel (map lower_step plan))"
    "s \<in> set plan \<Longrightarrow> ms_Id s \<notin> set (ms_DependsOn s)"
proof -
  from assms have parts: "kinds_error {} plan = None" "first_error (dependencies_error unmarshal ((ToLower \<circ> ms_Id) ` set plan)) plan = None"
      "\<not> loader_HasDependencyCycle plan"
    by (auto simp: ValidateComposition_def Let_def split: if_splits option.splits)
  from kinds_error_None[OF parts(1)] show "distinct (map (ToLower \<circ> ms_Id) plan)" by simp
  from parts(3) have "\<not> cycle_loop (map lower_step plan) (\<lambda>_. None) (map lower_step plan)"
    by (simp add: loader_HasDependencyCycle_def HasDependencyCycle_def)
  then show "acyclic (dep_rel (map lower_step plan))"
    by (subst (asm) cycle_loop_correct) (auto simp: states_ok_def)
  show "ms_Id s \<notin> set (ms_DependsOn s)" if "s \<in> set plan"
    using parts(2) that by (fastforce simp: dependencies_error_def EqualFold_def split: if_splits)
qed

lemma kinds_error_kinds:
  "kinds_error ids ss = None \<Longrightarrow>
   \<forall>s \<in> set ss. ToLower (ms_Kind s) \<in> {''agent'', ''skill_exec'', ''tool_call'', ''llm_chat'', ''llm_classify'', ''user_input''}"
proof (induction ss arbitrary: ids)
  case (Cons s ss)
  from Cons.prems have "ToLower (ms_Kind s) \<in> {''agent'', ''skill_exec'', ''tool_call'', ''llm_chat'', ''llm_classify'', ''user_input''}"
    and rest: "kinds_error (insert (ToLower (ms_Id s)) ids) ss = None"
    by (simp_all add: Let_def split: if_splits)
  with Cons.IH[OF rest] show ?case by simp
qed simp

text \<open>No step of a loaded composition is a fan-out step, so the fan-out executor has nothing to do for it.\<close>

lemma loaded_no_fan_out:
  assumes "ParseComposition unmarshal raw doc = Inr composition" "s \<in> set (co_Steps composition)"
  shows "NormalizeMetaStepKind (ms_Kind s) \<noteq> ''fan_out''"
proof -
  from ParseComposition_Inr[OF assms(1)] have "kinds_error {} (co_Steps composition) = None"
    by (auto simp: ValidateComposition_def Let_def split: if_splits option.splits)
  with assms(2) have kind: "ToLower (ms_Kind s) \<in> {''agent'', ''skill_exec'', ''tool_call'', ''llm_chat'', ''llm_classify'', ''user_input''}"
    using kinds_error_kinds by blast
  have "list_all (\<lambda>k. k \<noteq> [] \<and> list_all (\<lambda>c. \<not> is_space c) k \<and> k \<noteq> ''fan_out'')
      [''agent'', ''skill_exec'', ''tool_call'', ''llm_chat'', ''llm_classify'', ''user_input'']" by code_simp
  with kind have "ToLower (ms_Kind s) \<noteq> []" "list_all (\<lambda>c. \<not> is_space c) (ToLower (ms_Kind s))"
    and other: "ToLower (ms_Kind s) \<noteq> ''fan_out''"
    unfolding list_all_iff by fastforce+
  then have "ms_Kind s \<noteq> []" "\<forall>c \<in> set (ms_Kind s). \<not> is_space c"
    by (simp_all add: ToLower_def list_all_iff)
  then have "TrimSpace (ms_Kind s) = ms_Kind s" by (intro TrimSpace_tight) simp_all
  with other show ?thesis by (simp add: NormalizeMetaStepKind_def)
qed

lemma dep_rel_lower:
  assumes "distinct (map (ToLower \<circ> ms_Id) plan)" "(x, y) \<in> dep_rel plan"
  shows "(ToLower x, ToLower y) \<in> dep_rel (map lower_step plan)"
proof -
  from assms(2) obtain s where s: "stepById plan x = Some s" "y \<in> set (ms_DependsOn s)"
    by (cases "stepById plan x") (auto simp: dep_rel_def deps_of_def)
  then have "s \<in> set plan" "ms_Id s = x" by (auto dest: stepById_Some)
  moreover have "distinct (map ms_Id (map lower_step plan))"
    using assms(1) by (simp add: lower_step_def comp_def)
  ultimately have "stepById (map lower_step plan) (ToLower x) = Some (lower_step s)"
    using stepById_distinct[of "map lower_step plan" "lower_step s"] by (auto simp: lower_step_def)
  with s(2) show ?thesis by (auto simp: dep_rel_def deps_of_def lower_step_def)
qed

lemma lower_acyclic:
  assumes "distinct (map (ToLower \<circ> ms_Id) plan)" "acyclic (dep_rel (map lower_step plan))"
  shows "acyclic (dep_rel plan)"
proof -
  have "(ToLower x, ToLower y) \<in> (dep_rel (map lower_step plan))\<^sup>+" if "(x, y) \<in> (dep_rel plan)\<^sup>+" for x y
    using that by (induction rule: trancl_induct) (auto intro: dep_rel_lower[OF assms(1)] trancl_into_trancl)
  with assms(2) show ?thesis by (auto simp: acyclic_def)
qed

lemma first_error_Some: "first_error check xs = Some e \<Longrightarrow> \<exists>x \<in> set xs. check x = Some e"
  by (induction xs) (auto split: option.splits)

definition graph_error :: "plan_error \<Rightarrow> bool" where
  "graph_error e = (case e of DuplicateStepId _ \<Rightarrow> True | SelfDependency _ \<Rightarrow> True | DependencyCycle \<Rightarrow> True | _ \<Rightarrow> False)"

lemma fallback_check_no_graph_error: "fallback_check plan designated todo = Some e \<Longrightarrow> \<not> graph_error e"
  by (induction todo arbitrary: designated) (auto simp: graph_error_def Let_def split: if_splits option.splits)

lemma distinct_lower: "distinct (map (ToLower \<circ> ms_Id) plan) \<Longrightarrow> distinct (map ms_Id plan)"
  by (auto simp: distinct_map intro: inj_on_imageI2)

text \<open>C4: The graph of a loaded composition is sound: when the executor refuses a plan the loader has accepted, the
  reason is never a repeated step, a step that depends on itself or a cycle; the loader has found those, up
  to the case of the names. What is left are delegation to a meta skill, names whose case differs, and
  fallbacks.\<close>

theorem loaded_graph_sound:
  assumes "ParseComposition unmarshal raw doc = Inr composition"
    "TryValidateMetaPlan (co_Steps composition) loadedSkills = Some e"
  shows "\<not> graph_error e"
proof -
  define plan where "plan = co_Steps composition"
  from ParseComposition_Inr[OF assms(1)] have "ValidateComposition unmarshal plan = None" by (simp add: plan_def)
  note valid = ValidateComposition_None[OF this]
  have dup: "duplicate_check {} plan = None" using distinct_lower[OF valid(1)] by (simp add: duplicate_check_None)
  have "\<not> HasDependencyCycle plan"
    unfolding HasDependencyCycle_def
    by (subst cycle_loop_correct) (auto simp: states_ok_def lower_acyclic[OF valid(1,2)])
  with assms(2) dup consider
      s where "s \<in> set plan" "delegate_check loadedSkills s = Some e \<or> dependency_check plan s = Some e"
    | "fallback_check plan [] plan = Some e"
    | s where "s \<in> set plan" "fallback_dependency_check plan s = Some e"
    unfolding plan_def[symmetric] TryValidateMetaPlan_def
    by (auto split: option.splits dest!: first_error_Some)
  then show ?thesis
  proof cases
    case 1
    with valid(3)[of s] show ?thesis
      by (auto simp: graph_error_def delegate_check_def dependency_check_def dest!: first_error_Some split: if_splits option.splits)
  next
    case 2
    then show ?thesis by (rule fallback_check_no_graph_error)
  next
    case 3
    then show ?thesis
      by (auto simp: graph_error_def fallback_dependency_check_def dest!: first_error_Some split: if_splits)
  qed
qed

definition waiting_step :: payload where
  "waiting_step = [(''id'', JStr ''Ask''), (''kind'', JStr ''llm_chat''), (''depends_on'', JArr [JStr ''greet'']),
     (''on_failure'', JStr ''  ''), (''timeout_seconds'', JNum 30)]"

definition mixed_case_composition :: payload where
  "mixed_case_composition = [(''steps'', JArr [JObj lone_step, JObj waiting_step])]"

theorem loaded_graph_sound_witness:
  "\<exists>composition. ParseComposition (\<lambda>_. None) (\<lambda>_. []) (Some mixed_case_composition) = Inr composition \<and>
     TryValidateMetaPlan (co_Steps composition) [] = Some (MissingDependency ''greet'' ''Ask'') \<and>
     \<not> graph_error (MissingDependency ''greet'' ''Ask'')"
proof (intro exI conjI)
  show loads: "ParseComposition (\<lambda>_. None) (\<lambda>_. []) (Some mixed_case_composition) =
      Inr \<lparr>co_ToolArgsJson = [], co_Steps = [loaded_step,
        loaded_step\<lparr>ms_Id := ''Ask'', ms_DependsOn := [''greet''], ms_OnFailure := ''  '',
          ms_Retry := Some \<lparr>rp_MaxAttempts = 1, rp_BackoffMs = 0\<rparr>\<rparr>]\<rparr>"
    by code_simp
  show refused: "TryValidateMetaPlan (co_Steps \<lparr>co_ToolArgsJson = [], co_Steps = [loaded_step,
        loaded_step\<lparr>ms_Id := ''Ask'', ms_DependsOn := [''greet''], ms_OnFailure := ''  '',
          ms_Retry := Some \<lparr>rp_MaxAttempts = 1, rp_BackoffMs = 0\<rparr>\<rparr>]\<rparr>) [] = Some (MissingDependency ''greet'' ''Ask'')"
    by code_simp
  show "\<not> graph_error (MissingDependency ''greet'' ''Ask'')" by (rule loaded_graph_sound[OF loads refused])
qed

text \<open>Fallbacks are dead for skills that are loaded from a file: every step must name a fallback, and the executor
  accepts the plan only when no step's fallback is a step of the plan, and no two steps name the same one. So
  when a step of a loaded plan fails, no substitute is ever activated.\<close>

theorem loaded_fallbacks_dead:
  assumes "ParseComposition unmarshal raw doc = Inr composition"
    "TryValidateMetaPlan (co_Steps composition) loadedSkills = None"
  shows "distinct (map ms_OnFailure (co_Steps composition)) \<and>
    list_all (\<lambda>s. stepById (co_Steps composition) (ms_OnFailure s) = None) (co_Steps composition)"
proof -
  define plan where "plan = co_Steps composition"
  from ParseComposition_Inr[OF assms(1)] have named: "\<forall>s \<in> set plan. ms_OnFailure s \<noteq> []"
    and "ValidateComposition unmarshal plan = None"
    by (auto simp: plan_def dest!: parse_step_limits simp: step_limits_def)
  from distinct_lower[OF ValidateComposition_None(1)[OF this(2)]] have dist: "distinct (map ms_Id plan)" .
  from assms(2) have "fallback_check plan [] plan = None"
    by (auto simp: plan_def TryValidateMetaPlan_def split: option.splits)
  then have ok: "\<forall>s \<in> set plan. substitute_ok plan s" "distinct (filter (\<lambda>t. t \<noteq> []) (map ms_OnFailure plan))"
    by (simp_all add: fallback_check_None[OF dist])
  have "filter (\<lambda>t. t \<noteq> []) (map ms_OnFailure plan) = map ms_OnFailure plan"
    using named by (simp add: filter_id_conv)
  moreover have "stepById plan (ms_OnFailure s) = None" if "s \<in> set plan" for s
    unfolding stepById_None
  proof
    assume "ms_OnFailure s \<in> ms_Id ` set plan"
    then obtain t where "t \<in> set plan" "ms_Id t = ms_OnFailure s" by auto
    with ok(1) that named show False by (auto simp: substitute_ok_def)
  qed
  ultimately show ?thesis using ok(2) by (simp add: list_all_iff flip: plan_def)
qed

theorem loaded_fallbacks_dead_witness:
  "distinct (map ms_OnFailure [loaded_step]) \<and> list_all (\<lambda>s. stepById [loaded_step] (ms_OnFailure s) = None) [loaded_step]"
proof -
  have "TryValidateMetaPlan (co_Steps \<lparr>co_ToolArgsJson = [], co_Steps = [loaded_step]\<rparr>) [] = None" by code_simp
  from loaded_fallbacks_dead[OF lone_composition_loads this] show ?thesis by simp
qed

text \<open>What the loader establishes about a form, and what an accepted answer to a loaded form is.\<close>

definition field_wf :: "MetaClarifyField \<Rightarrow> bool" where
  "field_wf f \<longleftrightarrow>
     clarify_type_ok (cf_Type f) \<and>
     (EqualFold (cf_Type f) ''enum'' \<longleftrightarrow> cf_Options f \<noteq> []) \<and>
     (case (cf_MinLength f, cf_MaxLength f) of (Some a, Some b) \<Rightarrow> a \<le> b | _ \<Rightarrow> True) \<and>
     (case (cf_Min f, cf_Max f) of (Some a, Some b) \<Rightarrow> a \<le> b | _ \<Rightarrow> True) \<and>
     (case cf_DefaultValue f of Some d \<Rightarrow>
        IsValidClarifyDefaultValue (cf_Type f) (cf_Options f) (cf_MinLength f) (cf_MaxLength f) (cf_Min f) (cf_Max f) d
      | None \<Rightarrow> True)"

lemma constraints_ordered:
  "ValidateClarifyFieldConstraints kind opts a b lo hi \<Longrightarrow>
   (opts \<noteq> [] \<longrightarrow> EqualFold kind ''enum'') \<and> (case (a, b) of (Some a, Some b) \<Rightarrow> a \<le> b | _ \<Rightarrow> True) \<and>
   (case (lo, hi) of (Some a, Some b) \<Rightarrow> a \<le> b | _ \<Rightarrow> True)"
  by (auto simp: ValidateClarifyFieldConstraints_def Let_def split: option.splits if_splits)

lemma parse_clarify_field_parts:
  "parse_clarify_field names v = Inr (name, f) \<Longrightarrow> clarify_type_ok (cf_Type f) \<and>
   \<not> (EqualFold (cf_Type f) ''enum'' \<and> cf_Options f = []) \<and>
   ValidateClarifyFieldConstraints (cf_Type f) (cf_Options f) (cf_MinLength f) (cf_MaxLength f) (cf_Min f) (cf_Max f) \<and>
   (case cf_DefaultValue f of Some d \<Rightarrow>
      IsValidClarifyDefaultValue (cf_Type f) (cf_Options f) (cf_MinLength f) (cf_MaxLength f) (cf_Min f) (cf_Max f) d
    | None \<Rightarrow> True) \<and> name = ToLower (cf_Name f) \<and> name \<notin> names"
  unfolding parse_clarify_field_def Let_def
  by (elim bindR_InrE | simp split: option.splits if_splits | force)+

lemma parse_clarify_field_wf:
  "parse_clarify_field names v = Inr (name, f) \<Longrightarrow> field_wf f \<and> name = ToLower (cf_Name f) \<and> name \<notin> names"
  unfolding field_wf_def
  by (drule parse_clarify_field_parts) (auto dest!: constraints_ordered)

lemma parse_clarify_fields_wf:
  "parse_clarify_fields names vs = Inr fs \<Longrightarrow>
   list_all field_wf fs \<and> distinct (map (ToLower \<circ> cf_Name) fs) \<and> (ToLower \<circ> cf_Name) ` set fs \<inter> names = {}"
proof (induction vs arbitrary: names fs)
  case (Cons v vs)
  then obtain name f rest where f: "parse_clarify_field names v = Inr (name, f)"
      "parse_clarify_fields (insert name names) vs = Inr rest" "fs = f # rest"
    by (auto elim!: bindR_InrE)
  with Cons.IH[OF f(2)] parse_clarify_field_wf[OF f(1)] show ?case by auto
qed simp

lemma TryParseClarify_wf:
  assumes "TryParseClarify unmarshal el withJson kind = Inr (Some schema)"
  shows "list_all field_wf (cl_Fields schema) \<and> distinct (map cf_Name (cl_Fields schema))"
proof -
  have "cl_Fields schema = [] \<or> (\<exists>vs. parse_clarify_fields {} vs = Inr (cl_Fields schema))"
    using assms by (auto simp: TryParseClarify_def Let_def elim!: bindR_InrE split: option.splits if_splits)
  then show ?thesis
    using parse_clarify_fields_wf[of "{}" _ "cl_Fields schema"] by (auto simp: distinct_map intro: inj_on_imageI2)
qed

text \<open>A value of the declared type within the declared bounds; a default value is no exception.\<close>

definition fits_field :: "MetaClarifyField \<Rightarrow> clarify_value \<Rightarrow> bool" where
  "fits_field f v =
     (case v of
        ClarifyDefault d \<Rightarrow>
          IsValidClarifyDefaultValue (cf_Type f) (cf_Options f) (cf_MinLength f) (cf_MaxLength f) (cf_Min f) (cf_Max f) d
      | _ \<Rightarrow> value_ok f v)"

definition answers_field :: "(string \<times> clarify_value) list \<Rightarrow> MetaClarifyField \<Rightarrow> bool" where
  "answers_field normalizedMap f =
     (case map_of normalizedMap (cf_Name f) of Some v \<Rightarrow> fits_field f v | None \<Rightarrow> \<not> cf_Required f)"

lemma satisfied_answers: "field_wf f \<Longrightarrow> field_satisfied m f \<Longrightarrow> answers_field m f"
  by (auto simp: field_wf_def field_satisfied_def answers_field_def fits_field_def value_ok_def
      split: option.splits clarify_value.splits)

text \<open>An accepted answer to a loaded form fits the form: the normalized output encodes a map in which every field of
  the schema has a value of its type, within its bounds and among its options, also where the value is the
  default of the schema, or has no value, and then the field is not required.\<close>

theorem loaded_form_answers_fit:
  assumes "ParseComposition unmarshal raw doc = Inr composition"
    "s \<in> set (co_Steps composition)" "ms_Clarify s = Some schema" "EqualFold (cl_Mode schema) ''form''"
    "ValidateAndNormalize decode parseFloat marshal input schema = ValidResult output"
  shows "\<exists>normalizedMap. output = marshal normalizedMap \<and> list_all (answers_field normalizedMap) (cl_Fields schema)"
proof -
  from ParseComposition_Inr[OF assms(1)] assms(2) obtain el where "parse_step unmarshal raw el = Inr s" by blast
  then obtain withJson where "TryParseClarify unmarshal el withJson (ms_Kind s) = Inr (Some schema)"
    using assms(3) by (metis parse_step_parts)
  from TryParseClarify_wf[OF this] have wf: "list_all field_wf (cl_Fields schema)" "distinct (map cf_Name (cl_Fields schema))"
    by blast+
  from accepted_form_fits[OF assms(5,4) wf(2)] wf(1) show ?thesis
    by (auto simp: list_all_iff intro: satisfied_answers)
qed

definition question_step :: payload where
  "question_step = [(''id'', JStr ''ask''), (''kind'', JStr ''user_input''), (''on_failure'', JStr '' ''),
     (''timeout_seconds'', JNum 30),
     (''clarify'', JObj [(''mode'', JStr ''form''), (''fields'', JArr [
        JObj [(''name'', JStr ''age''), (''type'', JStr ''integer''), (''min'', JNum 18), (''required'', JBool True)],
        JObj [(''name'', JStr ''plan''), (''type'', JStr ''enum''), (''options'', JArr [JStr ''free'', JStr ''paid'']),
              (''default'', JStr ''free'')]])])]"

definition show_names :: "(string \<times> clarify_value) list \<Rightarrow> string" where
  "show_names m = concat (map fst m)"

definition question_schema :: MetaClarifySchema where
  "question_schema = \<lparr>cl_Mode = ''form'', cl_Fields = [
     \<lparr>cf_Name = ''age'', cf_Type = ''integer'', cf_Required = True, cf_DefaultValue = None, cf_Options = [],
      cf_MinLength = None, cf_MaxLength = None, cf_Min = Some 18, cf_Max = None\<rparr>,
     \<lparr>cf_Name = ''plan'', cf_Type = ''enum'', cf_Required = False, cf_DefaultValue = Some (JStr ''free''),
      cf_Options = [''free'', ''paid''], cf_MinLength = None, cf_MaxLength = None, cf_Min = None, cf_Max = None\<rparr>],
     cl_CancelWords = [], cl_SkipIf = [], cl_TimeoutSeconds = None\<rparr>"

theorem loaded_form_answers_fit_witness:
  "\<exists>normalizedMap. ''ageplan'' = show_names normalizedMap \<and> list_all (answers_field normalizedMap) (cl_Fields question_schema)"
proof -
  define s where "s = loaded_step\<lparr>ms_Id := ''ask'', ms_Kind := ''user_input'', ms_Clarify := Some question_schema,
    ms_Retry := Some \<lparr>rp_MaxAttempts = 1, rp_BackoffMs = 0\<rparr>\<rparr>"
  have loads: "ParseComposition (\<lambda>_. None) (\<lambda>_. []) (Some [(''steps'', JArr [JObj question_step])]) =
      Inr \<lparr>co_ToolArgsJson = [], co_Steps = [s]\<rparr>"
    unfolding s_def by code_simp
  have valid: "ValidateAndNormalize (\<lambda>_. Some (Some [(''age'', RawNumber ''42'')])) (\<lambda>_. None) show_names ''{}'' question_schema
      = ValidResult ''ageplan''" by code_simp
  show ?thesis
  proof (rule loaded_form_answers_fit[OF loads _ _ _ valid])
    show "s \<in> set (co_Steps \<lparr>co_ToolArgsJson = [], co_Steps = [s]\<rparr>)" by simp
    show "ms_Clarify s = Some question_schema" by (simp add: s_def loaded_step_def)
    show "EqualFold (cl_Mode question_schema) ''form''" by code_simp
  qed
qed

end
