(* ===== verification/Tool_Policy.thy ===== *)
theory Tool_Policy
  imports Go_Json
begin

section \<open>Which tools are dangerous, and who may forbid them\<close>

text \<open>
  The tables and rules that describe a tool call before it is executed: the action a call stands for
  (\<open>ToolActionPolicyResolver\<close> in \<open>src/openclaw/core/pipeline.go\<close>), the risk and the abilities of every built-in
  tool (\<open>ToolGovernanceDescriptorCatalog\<close> in \<open>governance_ledger_models.go\<close>, data in \<open>models_tool.go\<close>), and the
  governance service that asks an HTTP sidecar for a decision and decides itself when there is no answer
  (\<open>governance_service.go\<close>). The answer of the sidecar is a parameter.
\<close>

subsection \<open>Data\<close>

datatype GovernanceAction =
    GovernanceActionAllow | GovernanceActionDeny | GovernanceActionRequireApproval
  | GovernanceActionRedact | GovernanceActionAuditOnly

fun governanceActionToString :: "GovernanceAction \<Rightarrow> string" where
  "governanceActionToString GovernanceActionAllow = ''allow''"
| "governanceActionToString GovernanceActionDeny = ''deny''"
| "governanceActionToString GovernanceActionRequireApproval = ''require_approval''"
| "governanceActionToString GovernanceActionRedact = ''redact''"
| "governanceActionToString GovernanceActionAuditOnly = ''audit_only''"

datatype ToolGovernanceRiskLevel =
    ToolGovernanceRiskLevelLow | ToolGovernanceRiskLevelMedium
  | ToolGovernanceRiskLevelHigh | ToolGovernanceRiskLevelCritical

text \<open>The numbers of the Go constants; they give the order in which the code compares two levels.\<close>

fun risk_int :: "ToolGovernanceRiskLevel \<Rightarrow> int" where
  "risk_int ToolGovernanceRiskLevelLow = 0"
| "risk_int ToolGovernanceRiskLevelMedium = 1"
| "risk_int ToolGovernanceRiskLevelHigh = 2"
| "risk_int ToolGovernanceRiskLevelCritical = 3"

lemma risk_int_inject [simp]: "risk_int a = risk_int b \<longleftrightarrow> a = b"
  by (cases a; cases b) auto

instantiation ToolGovernanceRiskLevel :: linorder
begin

definition less_eq_ToolGovernanceRiskLevel :: "ToolGovernanceRiskLevel \<Rightarrow> ToolGovernanceRiskLevel \<Rightarrow> bool" where
  "a \<le> b \<longleftrightarrow> risk_int a \<le> risk_int b"

definition less_ToolGovernanceRiskLevel :: "ToolGovernanceRiskLevel \<Rightarrow> ToolGovernanceRiskLevel \<Rightarrow> bool" where
  "a < b \<longleftrightarrow> risk_int a < risk_int b"

instance
  by standard (auto simp: less_eq_ToolGovernanceRiskLevel_def less_ToolGovernanceRiskLevel_def)

end

lemmas risk_order = less_eq_ToolGovernanceRiskLevel_def less_ToolGovernanceRiskLevel_def

record ToolActionDescriptor =
  ad_Action :: string
  ad_IsMutation :: bool
  ad_RequiresApproval :: bool
  ad_Summary :: string
  ad_ApprovalFingerprint :: string
  ad_RiskLevel :: string

record ToolGovernanceDescriptor =
  gd_Name :: string
  gd_Description :: string
  gd_Category :: string
  gd_RiskLevel :: ToolGovernanceRiskLevel
  gd_RequiresApproval :: bool
  gd_ReadOnly :: bool
  gd_CanAccessNetwork :: bool
  gd_CanAccessFileSystem :: bool
  gd_CanExecuteCode :: bool
  gd_CanSendDataExternally :: bool
  gd_Capabilities :: "string list"

record ToolGovernanceConfig =
  gc_Enabled :: bool
  gc_Provider :: string
  gc_DecisionEndpoint :: string
  gc_ResultEndpoint :: string
  gc_TimeoutMs :: int
  gc_AuditResults :: bool
  gc_FailClosed :: bool
  gc_FailOpenReadOnlyLowRisk :: bool
  gc_RequireGovernanceForHighRiskTools :: bool

definition DefaultToolGovernanceConfig :: ToolGovernanceConfig where
  "DefaultToolGovernanceConfig =
     \<lparr>gc_Enabled = False, gc_Provider = ''http_sidecar'', gc_DecisionEndpoint = ''/api/v1/execute'',
      gc_ResultEndpoint = [], gc_TimeoutMs = 300, gc_AuditResults = True, gc_FailClosed = True,
      gc_FailOpenReadOnlyLowRisk = False, gc_RequireGovernanceForHighRiskTools = True\<rparr>"

record GovernanceDecision =
  gv_Allowed :: bool
  gv_Reason :: string
  gv_TrustScore :: "rat option"
  gv_PolicyId :: string
  gv_RuleId :: string
  gv_Action :: GovernanceAction
  gv_EvaluationMs :: "rat option"
  gv_IsUnavailable :: bool
  gv_RedactedArgumentsJson :: string
  gv_ReplacementArgumentsJson :: string

definition DefaultGovernanceDecision :: GovernanceDecision where
  "DefaultGovernanceDecision =
     \<lparr>gv_Allowed = False, gv_Reason = [], gv_TrustScore = None, gv_PolicyId = [], gv_RuleId = [],
      gv_Action = GovernanceActionAllow, gv_EvaluationMs = None, gv_IsUnavailable = False,
      gv_RedactedArgumentsJson = [], gv_ReplacementArgumentsJson = []\<rparr>"

definition NewGovernanceDecisionAllow :: "string \<Rightarrow> GovernanceDecision" where
  "NewGovernanceDecisionAllow reason = DefaultGovernanceDecision\<lparr>gv_Allowed := True, gv_Reason := reason\<rparr>"

record ToolGovernanceContext =
  tg_AgentId :: string
  tg_SessionId :: string
  tg_ChannelId :: string
  tg_SenderId :: string
  tg_CorrelationId :: string
  tg_CallId :: string
  tg_ToolName :: string
  tg_ArgumentsJson :: string
  tg_ActionDescriptor :: "ToolActionDescriptor option"
  tg_Descriptor :: ToolGovernanceDescriptor
  tg_IsStreaming :: bool

text \<open>A \<open>CaseInsensitiveSet\<close>: the names in lower case.\<close>

type_synonym CaseInsensitiveSet = "string set"

definition set_Add :: "string \<Rightarrow> CaseInsensitiveSet \<Rightarrow> CaseInsensitiveSet" where
  "set_Add val s = insert (ToLower val) s"

definition set_Contains :: "CaseInsensitiveSet \<Rightarrow> string \<Rightarrow> bool" where
  "set_Contains s val \<longleftrightarrow> ToLower val \<in> s"

record ResolvedToolPreset =
  rp_PresetId :: string
  rp_AllowedTools :: CaseInsensitiveSet
  rp_ApprovalRequiredTools :: CaseInsensitiveSet

subsection \<open>What a call does\<close>

definition AlwaysMutatingTools :: "string list" where
  "AlwaysMutatingTools =
     [''write_file'', ''edit_file'', ''apply_patch'', ''shell'', ''code_exec'', ''git'', ''database'',
      ''home_assistant_write'', ''mqtt_publish'', ''notion_write'', ''inbox_zero'', ''email'', ''calendar'',
      ''delegate_agent'']"

definition empty_action :: ToolActionDescriptor where
  "empty_action = \<lparr>ad_Action = [], ad_IsMutation = False, ad_RequiresApproval = False, ad_Summary = [],
     ad_ApprovalFingerprint = [], ad_RiskLevel = []\<rparr>"

text \<open>The local function \<open>getString\<close>: the member when it is a non-empty string.\<close>

definition action_string :: "payload \<Rightarrow> string \<Rightarrow> string \<Rightarrow> string" where
  "action_string args key fallback =
     (case map_of args key of Some (JStr s) \<Rightarrow> if s \<noteq> [] then s else fallback | _ \<Rightarrow> fallback)"

text \<open>A summary with a name in it, or a general one when the name is missing.\<close>

definition about :: "string \<Rightarrow> string \<Rightarrow> string \<Rightarrow> string \<Rightarrow> string" where
  "about name general before after = (if name = [] then general else before @ name @ after)"

definition execute_tool_action :: "string \<Rightarrow> ToolActionDescriptor" where
  "execute_tool_action toolName = empty_action\<lparr>ad_Summary := ''Execute tool '' @ quoted toolName @ ''.''\<rparr>"

definition process_action :: "payload \<Rightarrow> ToolActionDescriptor" where
  "process_action args =
     (let action = action_string args ''action'' ''start'';
          command = action_string args ''command'' [];
          processId = action_string args ''process_id'' (action_string args ''session_id'' []);
          summary =
            (if action = ''start'' then about command ''Start a background process.'' ''Start process: '' []
             else if action = ''write'' then about processId ''Write input to a background process.'' ''Write input to process '' ''.''
             else if action = ''kill'' then about processId ''Terminate a background process.'' ''Terminate process '' ''.''
             else if action = ''wait'' then about processId ''Wait for a background process.'' ''Wait for process '' ''.''
             else if action = ''log'' then about processId ''Read background process logs.'' ''Read logs for process '' ''.''
             else if action = ''poll'' then about processId ''Check background process status.'' ''Check status for process '' ''.''
             else ''Inspect background processes.'')
      in empty_action\<lparr>ad_Action := action, ad_IsMutation := action \<in> {''start'', ''write'', ''kill''}, ad_Summary := summary\<rparr>)"

definition automation_action :: "payload \<Rightarrow> ToolActionDescriptor" where
  "automation_action args =
     (let action = action_string args ''action'' ''list'';
          automationId = action_string args ''automation_id'' (action_string args ''id'' []);
          name = action_string args ''name'' [];
          summary =
            (if action = ''create'' then about (if name = [] then [] else quoted name) ''Create an automation.'' ''Create automation '' ''.''
             else if action = ''update'' then about automationId ''Update an automation.'' ''Update automation '' ''.''
             else if action = ''pause'' then about automationId ''Pause an automation.'' ''Pause automation '' ''.''
             else if action = ''resume'' then about automationId ''Resume an automation.'' ''Resume automation '' ''.''
             else if action = ''run'' then about automationId ''Run an automation.'' ''Run automation '' ''.''
             else if action = ''preview'' then ''Preview an automation.''
             else if action = ''get'' then about automationId ''Read automation details.'' ''Read automation '' ''.''
             else ''List automations.'')
      in empty_action\<lparr>ad_Action := action,
           ad_IsMutation := action \<in> {''create'', ''update'', ''pause'', ''resume'', ''run''}, ad_Summary := summary\<rparr>)"

definition external_cli_action :: "payload \<Rightarrow> ToolActionDescriptor" where
  "external_cli_action args =
     (let action = action_string args ''action'' ''list_connectors'';
          connector = action_string args ''connector'' [];
          command = action_string args ''command'' [];
          target = (if connector \<noteq> [] \<and> command \<noteq> [] then connector @ ''/'' @ command else ''an external CLI command'');
          summary =
            (if action = ''execute'' then ''Execute '' @ target @ ''.''
             else if action = ''preview'' then ''Preview '' @ target @ ''.''
             else if action = ''connector_status'' then
               about (if connector = [] then [] else quoted connector) ''Check external CLI connector status.'' ''Check external CLI connector '' ''.''
             else if action = ''list_commands'' then
               about (if connector = [] then [] else quoted connector) ''List external CLI commands.'' ''List commands for external CLI connector '' ''.''
             else if action = ''command_schema'' then ''Inspect schema for '' @ target @ ''.''
             else ''List external CLI connectors.'')
      in empty_action\<lparr>ad_Action := action, ad_IsMutation := (action = ''execute''),
           ad_RequiresApproval := (action = ''execute''), ad_Summary := summary\<rparr>)"

definition todo_action :: "payload \<Rightarrow> ToolActionDescriptor" where
  "todo_action args =
     (let action = action_string args ''action'' ''list'';
          summary =
            (if action = ''add'' then ''Add a todo item.''
             else if action = ''update'' then ''Update a todo item.''
             else if action = ''complete'' then ''Complete a todo item.''
             else if action = ''remove'' then ''Remove a todo item.''
             else if action = ''clear'' then ''Clear all todo items.''
             else ''List todo items.'')
      in empty_action\<lparr>ad_Action := action, ad_IsMutation := (action \<noteq> ''list''), ad_Summary := summary\<rparr>)"

definition action_Resolve :: "unmarshal_map \<Rightarrow> string \<Rightarrow> string \<Rightarrow> ToolActionDescriptor" where
  "action_Resolve unmarshal toolName argumentsJson =
     (if TrimSpace toolName = [] then empty_action
      else case unmarshal (if TrimSpace argumentsJson = [] then ''{}'' else argumentsJson) of
             None \<Rightarrow> execute_tool_action toolName
           | Some args \<Rightarrow>
               if EqualFold toolName ''process'' then process_action args
               else if EqualFold toolName ''automation'' then automation_action args
               else if EqualFold toolName ''external_cli'' then external_cli_action args
               else if EqualFold toolName ''todo'' then todo_action args
               else execute_tool_action toolName)"

definition SupportsActionAwareApproval :: "string \<Rightarrow> bool" where
  "SupportsActionAwareApproval toolName \<longleftrightarrow>
     EqualFold toolName ''process'' \<or> EqualFold toolName ''automation'' \<or> EqualFold toolName ''external_cli''"

definition IsMutationCapable :: "unmarshal_map \<Rightarrow> string \<Rightarrow> string \<Rightarrow> bool" where
  "IsMutationCapable unmarshal toolName argumentsJson \<longleftrightarrow>
     \<not> IsBlank toolName \<and>
     (toolName \<in> set AlwaysMutatingTools \<or> ad_IsMutation (action_Resolve unmarshal toolName argumentsJson))"

lemmas action_defs = execute_tool_action_def process_action_def automation_action_def external_cli_action_def
  todo_action_def empty_action_def

lemma approval_needs_mutation:
  "ad_RequiresApproval (action_Resolve um t js) \<Longrightarrow>
     ad_IsMutation (action_Resolve um t js) \<and> EqualFold t ''external_cli''"
  by (auto simp: action_Resolve_def action_defs Let_def split: option.splits if_splits)

lemma action_mutation_cases:
  "ad_IsMutation (action_Resolve um t js) \<Longrightarrow>
     EqualFold t ''process'' \<or> EqualFold t ''automation'' \<or> EqualFold t ''external_cli'' \<or> EqualFold t ''todo''"
  by (auto simp: action_Resolve_def action_defs Let_def split: option.splits if_splits)

subsection \<open>The catalog of built-in tools\<close>

definition read_tool :: "string \<Rightarrow> string \<Rightarrow> string list \<Rightarrow> bool \<Rightarrow> bool \<Rightarrow> bool \<Rightarrow> ToolGovernanceDescriptor" where
  "read_tool name category capabilities network fileSystem external =
     \<lparr>gd_Name = name, gd_Description = [], gd_Category = category, gd_RiskLevel = ToolGovernanceRiskLevelLow,
      gd_RequiresApproval = False, gd_ReadOnly = True, gd_CanAccessNetwork = network,
      gd_CanAccessFileSystem = fileSystem, gd_CanExecuteCode = False, gd_CanSendDataExternally = external,
      gd_Capabilities = capabilities\<rparr>"

definition write_tool :: "string \<Rightarrow> string \<Rightarrow> ToolGovernanceRiskLevel \<Rightarrow> string list \<Rightarrow> bool \<Rightarrow> bool \<Rightarrow> bool \<Rightarrow> bool \<Rightarrow> bool
    \<Rightarrow> ToolGovernanceDescriptor" where
  "write_tool name category risk capabilities network fileSystem executeCode external approval =
     \<lparr>gd_Name = name, gd_Description = [], gd_Category = category, gd_RiskLevel = risk,
      gd_RequiresApproval = approval, gd_ReadOnly = False, gd_CanAccessNetwork = network,
      gd_CanAccessFileSystem = fileSystem, gd_CanExecuteCode = executeCode, gd_CanSendDataExternally = external,
      gd_Capabilities = capabilities\<rparr>"

definition catalog_list :: "ToolGovernanceDescriptor list" where
  "catalog_list =
     [read_tool ''read_file'' ''filesystem'' [''filesystem.read''] False True False,
      write_tool ''write_file'' ''filesystem'' ToolGovernanceRiskLevelHigh [''filesystem.write''] False True False False False,
      write_tool ''edit_file'' ''filesystem'' ToolGovernanceRiskLevelHigh [''filesystem.read'', ''filesystem.write''] False True False False False,
      write_tool ''apply_patch'' ''filesystem'' ToolGovernanceRiskLevelHigh [''filesystem.read'', ''filesystem.write''] False True False False False,
      write_tool ''shell'' ''execution'' ToolGovernanceRiskLevelCritical [''process.execute'', ''filesystem.read'', ''filesystem.write''] False True True False True,
      write_tool ''process'' ''execution'' ToolGovernanceRiskLevelCritical [''process.execute'', ''process.control'', ''filesystem.read'', ''filesystem.write''] False True True False True,
      write_tool ''code_exec'' ''execution'' ToolGovernanceRiskLevelCritical [''code.execute'', ''filesystem.read'', ''filesystem.write''] False True True False True,
      write_tool ''git'' ''source-control'' ToolGovernanceRiskLevelHigh [''source.read'', ''source.write'', ''network.write''] True True False True True,
      write_tool ''memory'' ''memory'' ToolGovernanceRiskLevelMedium [''memory.read'', ''memory.write''] False False False False False,
      read_tool ''memory_get'' ''memory'' [''memory.read''] False False False,
      read_tool ''memory_search'' ''memory'' [''memory.search''] False False False,
      write_tool ''project_memory'' ''memory'' ToolGovernanceRiskLevelMedium [''memory.read'', ''memory.write''] False False False False False,
      read_tool ''session_search'' ''session'' [''session.search''] False False False,
      write_tool ''sessions'' ''session'' ToolGovernanceRiskLevelMedium [''session.read'', ''session.message''] False False False False False,
      read_tool ''sessions_history'' ''session'' [''session.read''] False False False,
      write_tool ''sessions_send'' ''session'' ToolGovernanceRiskLevelMedium [''session.message'', ''message.send''] False False False True False,
      write_tool ''sessions_spawn'' ''session'' ToolGovernanceRiskLevelMedium [''session.create''] False False False False False,
      read_tool ''session_status'' ''session'' [''session.read''] False False False,
      write_tool ''sessions_yield'' ''session'' ToolGovernanceRiskLevelMedium [''session.message'', ''message.send''] False False False True False,
      read_tool ''agents_list'' ''delegation'' [''agent.list''] False False False,
      write_tool ''delegate_agent'' ''delegation'' ToolGovernanceRiskLevelHigh [''agent.delegate'', ''tool.invoke''] False False False False True,
      read_tool ''profile_read'' ''profile'' [''profile.read''] False False False,
      write_tool ''profile_write'' ''profile'' ToolGovernanceRiskLevelMedium [''profile.write''] False False False False False,
      write_tool ''todo'' ''productivity'' ToolGovernanceRiskLevelMedium [''todo.read'', ''todo.write''] False False False False False,
      write_tool ''automation'' ''automation'' ToolGovernanceRiskLevelHigh [''automation.read'', ''automation.write'', ''automation.run''] False False False False True,
      write_tool ''cron'' ''automation'' ToolGovernanceRiskLevelHigh [''automation.read'', ''automation.run''] False False False False True,
      read_tool ''gateway'' ''runtime'' [''runtime.read''] False False False,
      write_tool ''message'' ''messaging'' ToolGovernanceRiskLevelHigh [''message.send'', ''data.export''] False False False True True,
      read_tool ''web_search'' ''network'' [''network.read'', ''external.http''] True False True,
      read_tool ''web_fetch'' ''network'' [''network.read'', ''external.http''] True False True,
      read_tool ''x_search'' ''network'' [''network.read'', ''external.http''] True False True,
      write_tool ''browser'' ''browser'' ToolGovernanceRiskLevelHigh [''browser.navigate'', ''browser.evaluate'', ''network.read'', ''external.http''] True False True True True,
      read_tool ''vision_analyze'' ''multimodal'' [''vision.analyze'', ''data.export''] False False True,
      write_tool ''text_to_speech'' ''multimodal'' ToolGovernanceRiskLevelMedium [''audio.generate'', ''data.export''] False False False True False,
      write_tool ''image_gen'' ''multimodal'' ToolGovernanceRiskLevelMedium [''image.generate'', ''data.export''] True False False True False,
      read_tool ''pdf_read'' ''document'' [''filesystem.read'', ''document.read''] False True False,
      write_tool ''canvas_present'' ''canvas'' ToolGovernanceRiskLevelLow [''ui.present''] False False False False False,
      write_tool ''canvas_hide'' ''canvas'' ToolGovernanceRiskLevelLow [''ui.present''] False False False False False,
      write_tool ''canvas_navigate'' ''canvas'' ToolGovernanceRiskLevelMedium [''ui.navigate'', ''network.read''] True False False False False,
      read_tool ''canvas_snapshot'' ''canvas'' [''ui.snapshot''] False False False,
      write_tool ''a2ui_push'' ''canvas'' ToolGovernanceRiskLevelMedium [''ui.write''] False False False False False,
      write_tool ''a2ui_reset'' ''canvas'' ToolGovernanceRiskLevelMedium [''ui.write''] False False False False False,
      write_tool ''a2ui_eval'' ''canvas'' ToolGovernanceRiskLevelHigh [''ui.evaluate'', ''code.execute''] False False True False True,
      write_tool ''a2ui_create_surface'' ''canvas'' ToolGovernanceRiskLevelMedium [''ui.write''] False False False False False,
      write_tool ''a2ui_update_components'' ''canvas'' ToolGovernanceRiskLevelMedium [''ui.write''] False False False False False,
      write_tool ''a2ui_update_data_model'' ''canvas'' ToolGovernanceRiskLevelMedium [''ui.write''] False False False False False,
      write_tool ''a2ui_delete_surface'' ''canvas'' ToolGovernanceRiskLevelMedium [''ui.write''] False False False False False,
      write_tool ''a2ui_sync_ui_to_data'' ''canvas'' ToolGovernanceRiskLevelMedium [''ui.write''] False False False False False,
      write_tool ''external_cli'' ''external-cli'' ToolGovernanceRiskLevelHigh [''process.execute'', ''external.cli''] False True True False True,
      write_tool ''payment'' ''payment'' ToolGovernanceRiskLevelCritical [''payment.execute'', ''data.export''] False False False True True,
      read_tool ''stream_echo'' ''diagnostic'' [''diagnostic.echo''] False False False,
      write_tool ''calendar'' ''calendar'' ToolGovernanceRiskLevelHigh [''calendar.read'', ''calendar.write'', ''data.export''] True False False True True,
      write_tool ''email'' ''email'' ToolGovernanceRiskLevelHigh [''email.read'', ''email.send'', ''data.export''] True False False True True,
      write_tool ''inbox_zero'' ''email'' ToolGovernanceRiskLevelHigh [''email.read'', ''email.write'', ''data.export''] True False False True True,
      write_tool ''database'' ''database'' ToolGovernanceRiskLevelHigh [''database.read'', ''database.write''] False True False False True,
      read_tool ''home_assistant'' ''home-automation'' [''home_assistant.read'', ''network.read''] True False False,
      write_tool ''home_assistant_write'' ''home-automation'' ToolGovernanceRiskLevelHigh [''home_assistant.write'', ''network.write''] True False False True True,
      read_tool ''mqtt'' ''iot'' [''mqtt.read'', ''network.read''] True False False,
      write_tool ''mqtt_publish'' ''iot'' ToolGovernanceRiskLevelHigh [''mqtt.publish'', ''network.write''] True False False True True,
      read_tool ''notion'' ''notion'' [''notion.read'', ''network.read''] True False True,
      write_tool ''notion_write'' ''notion'' ToolGovernanceRiskLevelHigh [''notion.write'', ''network.write'', ''data.export''] True False False True True]"

text \<open>The map the constructor fills from the list.\<close>

definition catalog_descriptors :: "(string \<times> ToolGovernanceDescriptor) list" where
  "catalog_descriptors = map (\<lambda>d. (gd_Name d, d)) (rev catalog_list)"

definition catalog_Contains :: "string \<Rightarrow> bool" where
  "catalog_Contains toolName \<longleftrightarrow> map_of catalog_descriptors toolName \<noteq> None"

definition createFallback :: "string \<Rightarrow> string \<Rightarrow> ToolGovernanceDescriptor" where
  "createFallback toolName description =
     \<lparr>gd_Name = toolName, gd_Description = description, gd_Category = ''plugin'',
      gd_RiskLevel = ToolGovernanceRiskLevelMedium, gd_RequiresApproval = False, gd_ReadOnly = False,
      gd_CanAccessNetwork = False, gd_CanAccessFileSystem = False, gd_CanExecuteCode = False,
      gd_CanSendDataExternally = False, gd_Capabilities = [''plugin.invoke'']\<rparr>"

definition maxRisk :: "ToolGovernanceRiskLevel \<Rightarrow> ToolGovernanceRiskLevel \<Rightarrow> ToolGovernanceRiskLevel" where
  "maxRisk left right = (if risk_int left \<ge> risk_int right then left else right)"

text \<open>Only one of the four names is written as the callers write it.\<close>

definition parseRisk :: "string \<Rightarrow> ToolGovernanceRiskLevel option" where
  "parseRisk riskLevel =
     (let trimmed = ToLower (TrimSpace riskLevel) in
      if trimmed = [] then None
      else if trimmed = ''low'' then Some ToolGovernanceRiskLevelLow
      else if trimmed = ''ToolGovernanceRiskLevelMedium'' then Some ToolGovernanceRiskLevelMedium
      else if trimmed = ''ToolGovernanceRiskLevelHigh'' then Some ToolGovernanceRiskLevelHigh
      else if trimmed = ''ToolGovernanceRiskLevelCritical'' then Some ToolGovernanceRiskLevelCritical
      else None)"

definition known_descriptor :: "string \<Rightarrow> string \<Rightarrow> ToolGovernanceDescriptor" where
  "known_descriptor toolName description =
     (case map_of catalog_descriptors toolName of
        Some known \<Rightarrow> if TrimSpace (gd_Description known) = [] then known\<lparr>gd_Description := description\<rparr> else known
      | None \<Rightarrow> createFallback toolName description)"

definition catalog_Resolve :: "string \<Rightarrow> string \<Rightarrow> ToolActionDescriptor option \<Rightarrow> ToolGovernanceDescriptor" where
  "catalog_Resolve toolName description actionDescriptor =
     (let descriptor = known_descriptor toolName description in
      case actionDescriptor of
        None \<Rightarrow> descriptor
      | Some ad \<Rightarrow>
          if ad_RequiresApproval ad \<or> ad_IsMutation ad then
            descriptor\<lparr>gd_RequiresApproval := gd_RequiresApproval descriptor \<or> ad_RequiresApproval ad,
              gd_ReadOnly := \<not> ad_IsMutation ad \<and> gd_ReadOnly descriptor,
              gd_RiskLevel := maxRisk (gd_RiskLevel descriptor)
                (case parseRisk (ad_RiskLevel ad) of None \<Rightarrow> ToolGovernanceRiskLevelMedium | Some r \<Rightarrow> r)\<rparr>
          else descriptor)"

subsection \<open>The governance service behind an HTTP sidecar\<close>

record ToolGovernanceSidecarRequest =
  sq_AgentId :: string
  sq_ConversationId :: string
  sq_SessionId :: string
  sq_ChannelId :: string
  sq_UserId :: string
  sq_TraceId :: string
  sq_CallId :: string
  sq_ToolName :: string
  sq_ToolCategory :: string
  sq_RiskLevel :: string
  sq_ArgumentsJson :: string
  sq_ActionDescriptor :: "ToolActionDescriptor option"
  sq_Descriptor :: ToolGovernanceDescriptor

record ToolGovernanceSidecarResponse =
  sp_Allowed :: "bool option"
  sp_Reason :: string
  sp_TrustScore :: "rat option"
  sp_PolicyId :: string
  sp_RuleId :: string
  sp_Action :: string
  sp_EvaluationMs :: "rat option"
  sp_RedactedArgumentsJson :: string
  sp_ReplacementArgumentsJson :: string

text \<open>
  What can come back: the request cannot be built, the call fails (at its deadline or not), or a response comes with
  its code, its status line and the answer its body decodes to, if any.
\<close>

datatype sidecar_reply =
    CannotRequest string
  | CallFailed string bool
  | SidecarResponse int string "ToolGovernanceSidecarResponse option"

type_synonym sidecar = "string \<Rightarrow> ToolGovernanceSidecarRequest \<Rightarrow> sidecar_reply"

definition highRiskCapabilities :: "string list" where
  "highRiskCapabilities = [''process.execute'', ''filesystem.write'', ''external.http'', ''data.export'', ''message.send'']"

definition isHighRiskOrSideEffecting :: "ToolGovernanceDescriptor \<Rightarrow> bool" where
  "isHighRiskOrSideEffecting d \<longleftrightarrow>
     gd_RiskLevel d = ToolGovernanceRiskLevelHigh \<or> gd_RiskLevel d = ToolGovernanceRiskLevelCritical \<or>
     \<not> gd_ReadOnly d \<or> gd_CanExecuteCode d \<or> gd_CanSendDataExternally d \<or>
     list_ex (\<lambda>c. c \<in> set highRiskCapabilities) (gd_Capabilities d)"

definition isLowRiskReadOnly :: "ToolGovernanceDescriptor \<Rightarrow> bool" where
  "isLowRiskReadOnly d \<longleftrightarrow>
     gd_ReadOnly d \<and> gd_RiskLevel d = ToolGovernanceRiskLevelLow \<and> \<not> gd_CanExecuteCode d \<and> \<not> gd_CanSendDataExternally d"

definition shouldFailClosed :: "ToolGovernanceConfig \<Rightarrow> ToolGovernanceDescriptor \<Rightarrow> bool" where
  "shouldFailClosed cfg d =
     (if gc_RequireGovernanceForHighRiskTools cfg \<and> isHighRiskOrSideEffecting d then True
      else if isLowRiskReadOnly d \<and> gc_FailOpenReadOnlyLowRisk cfg then False
      else gc_FailClosed cfg)"

definition buildUnavailableDecision :: "ToolGovernanceConfig \<Rightarrow> ToolGovernanceDescriptor \<Rightarrow> string \<Rightarrow> GovernanceDecision" where
  "buildUnavailableDecision cfg d reason =
     (if shouldFailClosed cfg d
      then DefaultGovernanceDecision\<lparr>gv_Allowed := False, gv_Action := GovernanceActionDeny, gv_Reason := reason, gv_IsUnavailable := True\<rparr>
      else DefaultGovernanceDecision\<lparr>gv_Allowed := True, gv_Action := GovernanceActionAuditOnly, gv_Reason := reason, gv_IsUnavailable := True\<rparr>)"

definition normalizeEndpoint :: "string \<Rightarrow> string \<Rightarrow> string" where
  "normalizeEndpoint endpoint fallback = (if TrimSpace endpoint = [] then fallback else TrimSpace endpoint)"

definition mapAction :: "string \<Rightarrow> GovernanceAction" where
  "mapAction action =
     (let normalized = ToLower (map (\<lambda>c. if c = CHR ''-'' then CHR ''_'' else c) (TrimSpace action)) in
      if normalized = ''allow'' then GovernanceActionAllow
      else if normalized = ''deny'' then GovernanceActionDeny
      else if normalized \<in> {''require_approval'', ''requireapproval''} then GovernanceActionRequireApproval
      else if normalized = ''redact'' then GovernanceActionRedact
      else if normalized \<in> {''audit_only'', ''auditonly'', ''log'', ''warn''} then GovernanceActionAuditOnly
      else GovernanceActionDeny)"

text \<open>A risk level has no method \<open>String\<close>, so it prints as its number.\<close>

definition sidecar_request :: "ToolGovernanceContext \<Rightarrow> ToolGovernanceSidecarRequest" where
  "sidecar_request g =
     \<lparr>sq_AgentId = tg_AgentId g, sq_ConversationId = tg_SessionId g, sq_SessionId = tg_SessionId g,
      sq_ChannelId = tg_ChannelId g, sq_UserId = tg_SenderId g, sq_TraceId = tg_CorrelationId g,
      sq_CallId = tg_CallId g, sq_ToolName = tg_ToolName g, sq_ToolCategory = gd_Category (tg_Descriptor g),
      sq_RiskLevel = Itoa (risk_int (gd_RiskLevel (tg_Descriptor g))), sq_ArgumentsJson = tg_ArgumentsJson g,
      sq_ActionDescriptor = tg_ActionDescriptor g, sq_Descriptor = tg_Descriptor g\<rparr>"

definition answer_decision :: "ToolGovernanceSidecarResponse \<Rightarrow> GovernanceDecision" where
  "answer_decision r =
     (let action = mapAction (sp_Action r);
          allowed = (case action of
              GovernanceActionDeny \<Rightarrow> False
            | GovernanceActionRequireApproval \<Rightarrow> True
            | _ \<Rightarrow> (case sp_Allowed r of Some b \<Rightarrow> b | None \<Rightarrow> True))
      in \<lparr>gv_Allowed = allowed, gv_Reason = sp_Reason r, gv_TrustScore = sp_TrustScore r, gv_PolicyId = sp_PolicyId r,
          gv_RuleId = sp_RuleId r, gv_Action = action, gv_EvaluationMs = sp_EvaluationMs r, gv_IsUnavailable = False,
          gv_RedactedArgumentsJson = sp_RedactedArgumentsJson r,
          gv_ReplacementArgumentsJson = sp_ReplacementArgumentsJson r\<rparr>)"

definition sidecar_Authorize :: "ToolGovernanceConfig \<Rightarrow> sidecar \<Rightarrow> ToolGovernanceContext \<Rightarrow> GovernanceDecision" where
  "sidecar_Authorize cfg post g =
     (if \<not> gc_Enabled cfg then NewGovernanceDecisionAllow ''Governance disabled''
      else case post (normalizeEndpoint (gc_DecisionEndpoint cfg) ''/api/v1/execute'') (sidecar_request g) of
             CannotRequest e \<Rightarrow> buildUnavailableDecision cfg (tg_Descriptor g) (''Failed to create request: '' @ e)
           | CallFailed e deadline \<Rightarrow>
               if deadline then buildUnavailableDecision cfg (tg_Descriptor g) ''Governance sidecar timed out''
               else buildUnavailableDecision cfg (tg_Descriptor g) (''Governance sidecar unavailable: '' @ e)
           | SidecarResponse code status body \<Rightarrow>
               if code < 200 \<or> code \<ge> 300 then
                 buildUnavailableDecision cfg (tg_Descriptor g) (''Governance sidecar returned '' @ Itoa code @ '' '' @ status)
               else (case body of
                   None \<Rightarrow> buildUnavailableDecision cfg (tg_Descriptor g) ''Governance sidecar returned an empty or invalid response''
                 | Some r \<Rightarrow> answer_decision r))"

definition noop_Authorize :: "ToolGovernanceContext \<Rightarrow> GovernanceDecision" where
  "noop_Authorize g = NewGovernanceDecisionAllow ''Governance disabled''"

record ToolGovernanceExecutionResult =
  ge_ResultStatus :: string
  ge_FailureCode :: string
  ge_FailureMessage :: string
  ge_Failed :: bool
  ge_TimedOut :: bool
  ge_DurationMs :: int
  ge_ResultBytes :: nat

text \<open>The audit of a result: what is posted, if anything; its answer changes nothing.\<close>

definition sidecar_RecordResult :: "ToolGovernanceConfig \<Rightarrow> ToolGovernanceContext \<Rightarrow> GovernanceDecision
    \<Rightarrow> ToolGovernanceExecutionResult \<Rightarrow> (string \<times> ToolGovernanceContext \<times> GovernanceDecision \<times> ToolGovernanceExecutionResult) option" where
  "sidecar_RecordResult cfg g decision result =
     (if \<not> gc_Enabled cfg \<or> \<not> gc_AuditResults cfg \<or> TrimSpace (gc_ResultEndpoint cfg) = [] then None
      else Some (normalizeEndpoint (gc_ResultEndpoint cfg) ''/api/v1/result'', g, decision, result))"

subsection \<open>What the tables promise\<close>

fun no_answer :: "sidecar_reply \<Rightarrow> bool" where
  "no_answer (SidecarResponse code status body) \<longleftrightarrow> code < 200 \<or> code \<ge> 300 \<or> body = None"
| "no_answer _ \<longleftrightarrow> True"

lemma unavailable_decision:
  "gc_Enabled cfg \<Longrightarrow> no_answer (post (normalizeEndpoint (gc_DecisionEndpoint cfg) ''/api/v1/execute'') (sidecar_request g)) \<Longrightarrow>
     \<exists>reason. sidecar_Authorize cfg post g = buildUnavailableDecision cfg (tg_Descriptor g) reason"
  by (auto simp: sidecar_Authorize_def split: sidecar_reply.splits option.splits)

lemma buildUnavailable_denies:
  "shouldFailClosed cfg d \<Longrightarrow>
     \<not> gv_Allowed (buildUnavailableDecision cfg d r) \<and> gv_Action (buildUnavailableDecision cfg d r) = GovernanceActionDeny \<and>
     gv_IsUnavailable (buildUnavailableDecision cfg d r)"
  by (simp add: buildUnavailableDecision_def DefaultGovernanceDecision_def)

text \<open>Whatever the code lists as mutating is described as a tool that writes.\<close>

lemma always_mutating_writes: "t \<in> set AlwaysMutatingTools \<Longrightarrow> \<not> gd_ReadOnly (known_descriptor t desc)"
proof -
  have "list_all (\<lambda>t. case map_of catalog_descriptors t of None \<Rightarrow> False | Some d \<Rightarrow> \<not> gd_ReadOnly d) AlwaysMutatingTools"
    by code_simp
  then show "t \<in> set AlwaysMutatingTools \<Longrightarrow> ?thesis"
    by (auto simp: list_all_iff known_descriptor_def split: option.splits)
qed

lemma catalog_Resolve_read_only:
  "gd_ReadOnly (catalog_Resolve t desc ad) \<longleftrightarrow>
     gd_ReadOnly (known_descriptor t desc) \<and> (case ad of None \<Rightarrow> True | Some a \<Rightarrow> \<not> ad_IsMutation a)"
  by (auto simp: catalog_Resolve_def Let_def split: option.splits)

lemma mutation_not_read_only:
  "IsMutationCapable um t js \<Longrightarrow> \<not> gd_ReadOnly (catalog_Resolve t desc (Some (action_Resolve um t js)))"
  unfolding IsMutationCapable_def catalog_Resolve_read_only by (auto dest: always_mutating_writes)

text \<open>The built-in tools that may go ahead without an answer when the configuration fails open for them.\<close>

definition harmless_tools :: "string list" where
  "harmless_tools =
     [''read_file'', ''memory_get'', ''memory_search'', ''session_search'', ''sessions_history'', ''session_status'',
      ''agents_list'', ''profile_read'', ''gateway'', ''pdf_read'', ''canvas_snapshot'', ''stream_echo'',
      ''home_assistant'', ''mqtt'']"

lemma catalog_harmless:
  "list_all (\<lambda>(t, d). gd_Name d = t \<and> gd_Description d = [] \<and>
      (\<not> isHighRiskOrSideEffecting d \<longleftrightarrow> t \<in> set harmless_tools) \<and> (t \<in> set harmless_tools \<longrightarrow> isLowRiskReadOnly d))
     catalog_descriptors"
  by code_simp
lemma harmless_known: "list_all catalog_Contains harmless_tools"
  by code_simp

lemma description_irrelevant [simp]:
  "isHighRiskOrSideEffecting (d\<lparr>gd_Description := x\<rparr>) = isHighRiskOrSideEffecting d"
  "isLowRiskReadOnly (d\<lparr>gd_Description := x\<rparr>) = isLowRiskReadOnly d"
  by (simp_all add: isHighRiskOrSideEffecting_def isLowRiskReadOnly_def)

lemma high_risk_known:
  "isHighRiskOrSideEffecting (known_descriptor t desc) \<longleftrightarrow> t \<notin> set harmless_tools"
  "t \<in> set harmless_tools \<Longrightarrow> isLowRiskReadOnly (known_descriptor t desc)"
proof -
  have "(isHighRiskOrSideEffecting (known_descriptor t desc) \<longleftrightarrow> t \<notin> set harmless_tools) \<and>
      (t \<in> set harmless_tools \<longrightarrow> isLowRiskReadOnly (known_descriptor t desc))"
  proof (cases "map_of catalog_descriptors t")
    case None
    with harmless_known have "t \<notin> set harmless_tools"
      by (auto simp: list_all_iff catalog_Contains_def)
    with None show ?thesis
      by (simp add: known_descriptor_def isHighRiskOrSideEffecting_def createFallback_def)
  next
    case (Some d)
    then have "(t, d) \<in> set catalog_descriptors" by (rule map_of_SomeD)
    with catalog_harmless have "gd_Description d = []"
      "\<not> isHighRiskOrSideEffecting d \<longleftrightarrow> t \<in> set harmless_tools" "t \<in> set harmless_tools \<longrightarrow> isLowRiskReadOnly d"
      by (auto simp: list_all_iff)
    with Some show ?thesis by (simp add: known_descriptor_def) blast
  qed
  then show "isHighRiskOrSideEffecting (known_descriptor t desc) \<longleftrightarrow> t \<notin> set harmless_tools"
    "t \<in> set harmless_tools \<Longrightarrow> isLowRiskReadOnly (known_descriptor t desc)" by auto
qed

lemma maxRisk_max: "maxRisk a b = max a b"
  by (simp add: maxRisk_def max_def risk_order)

lemma maxRisk_high:
  "a \<in> {ToolGovernanceRiskLevelHigh, ToolGovernanceRiskLevelCritical} \<Longrightarrow>
     maxRisk a b \<in> {ToolGovernanceRiskLevelHigh, ToolGovernanceRiskLevelCritical}"
  by (cases b) (auto simp: maxRisk_def)

lemma high_risk_stays:
  "isHighRiskOrSideEffecting (known_descriptor t desc) \<Longrightarrow> isHighRiskOrSideEffecting (catalog_Resolve t desc ad)"
  using maxRisk_high by (fastforce simp: isHighRiskOrSideEffecting_def catalog_Resolve_def Let_def split: option.splits)

lemma harmless_no_action:
  assumes "t \<in> set harmless_tools"
  shows "catalog_Resolve t desc (Some (action_Resolve um t js)) = known_descriptor t desc"
proof -
  have "list_all (\<lambda>t. \<not> EqualFold t ''process'' \<and> \<not> EqualFold t ''automation'' \<and> \<not> EqualFold t ''external_cli'' \<and>
      \<not> EqualFold t ''todo'') harmless_tools"
    by code_simp
  with assms have "\<not> ad_IsMutation (action_Resolve um t js)"
    by (auto simp: list_all_iff dest!: action_mutation_cases)
  moreover from this have "\<not> ad_RequiresApproval (action_Resolve um t js)"
    by (auto dest: approval_needs_mutation)
  ultimately show ?thesis by (simp add: catalog_Resolve_def)
qed

text \<open>When the sidecar gives no answer and the configuration fails open for harmless tools, the built-in tools
  that may still run are exactly fourteen read-only ones; every other name, known or not, is refused.\<close>

theorem unanswered_harmless_only:
  assumes "gc_Enabled cfg" "gc_RequireGovernanceForHighRiskTools cfg" "gc_FailOpenReadOnlyLowRisk cfg"
    and "tg_Descriptor g = catalog_Resolve t desc (Some (action_Resolve um t js))"
    and "no_answer (post (normalizeEndpoint (gc_DecisionEndpoint cfg) ''/api/v1/execute'') (sidecar_request g))"
  shows "gv_Allowed (sidecar_Authorize cfg post g) \<longleftrightarrow> t \<in> set harmless_tools"
proof -
  obtain reason where r: "sidecar_Authorize cfg post g = buildUnavailableDecision cfg (tg_Descriptor g) reason"
    using unavailable_decision assms by blast
  have "shouldFailClosed cfg (tg_Descriptor g) \<longleftrightarrow> t \<notin> set harmless_tools"
  proof (cases "t \<in> set harmless_tools")
    case True
    with assms show ?thesis
      by (simp add: shouldFailClosed_def harmless_no_action high_risk_known)
  next
    case False
    with assms high_risk_stays show ?thesis by (simp add: shouldFailClosed_def high_risk_known)
  qed
  with r show ?thesis by (simp add: buildUnavailableDecision_def DefaultGovernanceDecision_def)
qed

definition example_governance :: ToolGovernanceConfig where
  "example_governance = DefaultToolGovernanceConfig\<lparr>gc_Enabled := True, gc_FailOpenReadOnlyLowRisk := True\<rparr>"

definition example_governance_context :: "string \<Rightarrow> ToolGovernanceContext" where
  "example_governance_context t =
     \<lparr>tg_AgentId = ''s'', tg_SessionId = ''s'', tg_ChannelId = ''c'', tg_SenderId = ''u'', tg_CorrelationId = ''x'',
      tg_CallId = ''1'', tg_ToolName = t, tg_ArgumentsJson = ''{}'',
      tg_ActionDescriptor = Some (action_Resolve (\<lambda>_. Some []) t ''{}''),
      tg_Descriptor = catalog_Resolve t [] (Some (action_Resolve (\<lambda>_. Some []) t ''{}'')), tg_IsStreaming = False\<rparr>"

theorem unanswered_harmless_only_witness:
  "gv_Allowed (sidecar_Authorize example_governance (\<lambda>_ _. CallFailed ''refused'' False) (example_governance_context ''read_file'')) \<and>
   \<not> gv_Allowed (sidecar_Authorize example_governance (\<lambda>_ _. CallFailed ''refused'' False) (example_governance_context ''web_fetch''))"
  using unanswered_harmless_only [of example_governance "example_governance_context ''read_file''" "''read_file''" "[]"
      "\<lambda>_. Some []" "''{}''" "\<lambda>_ _. CallFailed ''refused'' False"]
    unanswered_harmless_only [of example_governance "example_governance_context ''web_fetch''" "''web_fetch''" "[]"
      "\<lambda>_. Some []" "''{}''" "\<lambda>_ _. CallFailed ''refused'' False"]
  by (simp add: example_governance_def example_governance_context_def DefaultToolGovernanceConfig_def harmless_tools_def)

lemma parseRisk_lower: "parseRisk r = None \<or> parseRisk r = Some ToolGovernanceRiskLevelLow"
proof -
  have "ToLower (TrimSpace r) \<notin> {''ToolGovernanceRiskLevelMedium'', ''ToolGovernanceRiskLevelHigh'',
      ''ToolGovernanceRiskLevelCritical''}"
  proof
    assume "ToLower (TrimSpace r) \<in> {''ToolGovernanceRiskLevelMedium'', ''ToolGovernanceRiskLevelHigh'',
      ''ToolGovernanceRiskLevelCritical''}"
    then have "hd (ToLower (TrimSpace r)) = CHR ''T''" "ToLower (TrimSpace r) \<noteq> []" by auto
    then have "CHR ''T'' = lower_char (hd (TrimSpace r))" by (auto simp: ToLower_def hd_map)
    then have "lower_char CHR ''T'' = CHR ''T''" by simp
    moreover have "lower_char CHR ''T'' \<noteq> CHR ''T''" by code_simp
    ultimately show False by contradiction
  qed
  then show ?thesis by (auto simp: parseRisk_def Let_def)
qed

text \<open>What an action declares never lowers the risk of a tool, never makes it read-only and never takes away its
  need for approval; and no risk it declares raises the risk above medium.\<close>

theorem descriptor_risk_bounds:
  "gd_RiskLevel (known_descriptor t desc) \<le> gd_RiskLevel (catalog_Resolve t desc ad) \<and>
   gd_RiskLevel (catalog_Resolve t desc ad) \<le> max (gd_RiskLevel (known_descriptor t desc)) ToolGovernanceRiskLevelMedium \<and>
   gd_RequiresApproval (known_descriptor t desc) \<le> gd_RequiresApproval (catalog_Resolve t desc ad) \<and>
   gd_ReadOnly (catalog_Resolve t desc ad) \<le> gd_ReadOnly (known_descriptor t desc)"
proof (cases ad)
  case None
  then show ?thesis by (simp add: catalog_Resolve_def Let_def)
next
  case (Some a)
  have "ToolGovernanceRiskLevelLow \<le> r" for r by (cases r) (auto simp: risk_order)
  with Some parseRisk_lower [of "ad_RiskLevel a"] show ?thesis
    by (auto simp: catalog_Resolve_def Let_def maxRisk_max max_def intro: order.antisym)
qed

end
