(* ===== verification/Tool_Router.thy ===== *)
theory Tool_Router
  imports Tool_Policy
begin

section \<open>Where a tool runs\<close>

text \<open>
  The sandbox modes (\<open>src/openclaw/core/sandbox_config.go\<close>), the router that picks the backend of a tool and falls
  back to another (\<open>ToolExecutionRouter\<close> in \<open>agent/execution.go\<close>) and \<open>ExecuteToolWithRouting\<close>
  (\<open>agent/tool_executor.go\<close>), which runs the tool in the process of the agent, on a backend or not at all. The tools
  and the backends are parameters whose answers may depend on all that has happened before. What happens is a list of
  events; this theory adds those that run something, the theory \<open>Tool_Gate\<close> the others. Only the fields of the
  configuration and of the requests that this code reads or writes are kept. A Go map is the list of its entries, each
  name once, in the order in which the map happens to be iterated.
\<close>

subsection \<open>Data\<close>

datatype ToolSandboxMode = ToolSandboxModeNone | ToolSandboxModePrefer | ToolSandboxModeRequire

record ExecutionProfile =
  pf_Type :: string
  pf_Enabled :: bool
  pf_Image :: string
  pf_TimeoutSeconds :: int

record ExecutionToolRouteConfig =
  er_Backend :: string
  er_FallbackBackend :: string
  er_RequireWorkspace :: bool

record SandboxToolConfig =
  st_Mode :: string
  st_Template :: string
  st_TTL :: "int option"

record tool_config =
  cf_ExecutionEnabled :: bool
  cf_DefaultBackend :: string
  cf_Profiles :: "(string \<times> ExecutionProfile) list"
  cf_ToolRoutes :: "(string \<times> ExecutionToolRouteConfig) list"
  cf_SandboxProvider :: string
  cf_SandboxTools :: "(string \<times> SandboxToolConfig) list"
  cf_SandboxDefaultTTL :: int
  cf_WorkspaceRoot :: string
  cf_ApprovalRequiredTools :: "string list"

record SandboxExecutionRequest =
  sx_Command :: string
  sx_Arguments :: "string list"
  sx_WorkingDirectory :: string
  sx_LeaseKey :: string
  sx_Template :: string
  sx_TimeToLiveSeconds :: int

record ExecutionRequest =
  eq_ToolName :: string
  eq_BackendName :: string
  eq_Command :: string
  eq_Arguments :: "string list"
  eq_LeaseKey :: string
  eq_WorkingDirectory :: string
  eq_Template :: string
  eq_TimeToLiveSeconds :: int
  eq_RequireWorkspace :: bool
  eq_AllowLocalFallback :: bool

record ExecutionResult =
  xr_ExitCode :: int
  xr_Stdout :: string
  xr_Stderr :: string
  xr_FallbackUsed :: bool

record SandboxResult =
  sr_ExitCode :: int
  sr_Stdout :: string
  sr_Stderr :: string

datatype execution_backend =
    LocalBackend ExecutionProfile string
  | DockerBackend string ExecutionProfile
  | SshBackend string ExecutionProfile
  | OpenSandboxBackend string int

text \<open>An error with its text, and whether it is the end of a deadline.\<close>

datatype exec_error = ExecError string bool

text \<open>What the orchestrator of plans decides on a call.\<close>

record PlanExecuteVerifyDecision =
  pv_Decision :: string
  pv_RequiresApproval :: bool
  pv_Summary :: string

text \<open>
  What happens while a call is handled, with the answers: the governance service, a hook, the orchestrator and the
  reviewer are asked; the secrets are filled in; the tool runs in the process (with its deadline), streams, runs as a
  meta skill or on a backend; text is streamed out; a result is intercepted and recorded.
\<close>

datatype tool_event =
    EvAuthorize ToolGovernanceContext GovernanceDecision
  | EvHook nat string bool
  | EvEvaluate string bool PlanExecuteVerifyDecision
  | EvApproval string bool
  | EvApprovalRecorded bool
  | EvSubstitute string
  | EvInvoke string string "int option"
  | EvStream string string "int option"
  | EvMetaInvoke string string
  | EvBackend execution_backend ExecutionRequest
  | EvDelta string
  | EvIntercept nat string
  | EvRecordResult ToolGovernanceExecutionResult
  | EvAudit bool
  | EvAfterHook nat string string
  | EvComplete

type_synonym trace = "tool_event list"

type_synonym 'a tool_run = "(exec_error + 'a) \<times> trace"

text \<open>
  A tool, with the optional interfaces it may implement: its own action descriptors, a policy on running locally
  (supported, failure code, message), a sandbox side, streaming.
\<close>

record sandbox_side =
  sb_DefaultSandboxMode :: ToolSandboxMode
  sb_CreateSandboxRequest :: "string \<Rightarrow> exec_error + SandboxExecutionRequest"
  sb_FormatSandboxResult :: "string \<Rightarrow> SandboxResult \<Rightarrow> string"

record tool =
  tl_Name :: string
  tl_Description :: string
  tl_ActionDescriptor :: "(trace \<Rightarrow> string \<Rightarrow> ToolActionDescriptor option) option"
  tl_LocalPolicy :: "(bool \<times> string \<times> string) option"
  tl_Sandbox :: "sandbox_side option"
  tl_Stream :: "(trace \<Rightarrow> string \<Rightarrow> exec_error + string list) option"
  tl_Execute :: "trace \<Rightarrow> string \<Rightarrow> exec_error + string"

type_synonym backend_run = "trace \<Rightarrow> execution_backend \<Rightarrow> ExecutionRequest \<Rightarrow> exec_error + ExecutionResult"

subsection \<open>Sandbox modes\<close>

definition SandboxProviderNamesNormalize :: "string \<Rightarrow> string" where
  "SandboxProviderNamesNormalize provider = (if TrimSpace provider = [] then ''None'' else TrimSpace provider)"

definition IsOpenSandboxProviderConfigured :: "tool_config \<Rightarrow> bool" where
  "IsOpenSandboxProviderConfigured cfg \<longleftrightarrow>
     EqualFold (SandboxProviderNamesNormalize (cf_SandboxProvider cfg)) ''OpenSandbox''"

definition TryParseMode :: "string \<Rightarrow> ToolSandboxMode \<times> bool" where
  "TryParseMode s =
     (let trimmed = TrimSpace s in
      if trimmed = [] then (ToolSandboxModeNone, False)
      else if EqualFold trimmed ''None'' then (ToolSandboxModeNone, True)
      else if EqualFold trimmed ''Prefer'' then (ToolSandboxModePrefer, True)
      else if EqualFold trimmed ''Require'' then (ToolSandboxModeRequire, True)
      else (ToolSandboxModeNone, False))"

record ToolSandboxModeResolution =
  sm_Provider :: string
  sm_ModeSource :: string
  sm_DefaultMode :: ToolSandboxMode
  sm_ConfiguredMode :: "ToolSandboxMode option"
  sm_EffectiveMode :: ToolSandboxMode
  sm_Reason :: string

definition ResolveModeDetailed :: "tool_config \<Rightarrow> string \<Rightarrow> ToolSandboxMode \<Rightarrow> ToolSandboxModeResolution" where
  "ResolveModeDetailed cfg toolName defaultMode =
     (let provider = SandboxProviderNamesNormalize (cf_SandboxProvider cfg);
          configured = (case map_of (cf_SandboxTools cfg) toolName of
              Some tc \<Rightarrow> if st_Mode tc \<noteq> [] then Some (fst (TryParseMode (st_Mode tc))) else None
            | None \<Rightarrow> None);
          selectedMode = (case configured of Some mode \<Rightarrow> mode | None \<Rightarrow> defaultMode);
          modeSource = (if configured \<noteq> None then ''tool-config'' else ''tool-default'')
      in if EqualFold provider ''None'' then
           \<lparr>sm_Provider = provider, sm_ModeSource = modeSource, sm_DefaultMode = defaultMode,
            sm_ConfiguredMode = configured, sm_EffectiveMode = ToolSandboxModeNone,
            sm_Reason = ''sandbox provider is None, the global sandbox off switch''\<rparr>
         else
           \<lparr>sm_Provider = provider, sm_ModeSource = modeSource, sm_DefaultMode = defaultMode,
            sm_ConfiguredMode = configured, sm_EffectiveMode = selectedMode,
            sm_Reason = (if configured \<noteq> None then ''tool-specific sandbox mode configured''
                         else ''using tool default sandbox mode'')\<rparr>)"

definition ResolveMode :: "tool_config \<Rightarrow> string \<Rightarrow> ToolSandboxMode \<Rightarrow> ToolSandboxMode" where
  "ResolveMode cfg toolName defaultMode = sm_EffectiveMode (ResolveModeDetailed cfg toolName defaultMode)"

definition ResolveTemplate :: "tool_config \<Rightarrow> string \<Rightarrow> string" where
  "ResolveTemplate cfg toolName = (case map_of (cf_SandboxTools cfg) toolName of Some tc \<Rightarrow> st_Template tc | None \<Rightarrow> [])"

definition ResolveTimeToLiveSeconds :: "tool_config \<Rightarrow> string \<Rightarrow> int option \<Rightarrow> int" where
  "ResolveTimeToLiveSeconds cfg toolName requested =
     (let configured = (case map_of (cf_SandboxTools cfg) toolName of
          Some tc \<Rightarrow> (case st_TTL tc of Some ttl \<Rightarrow> if ttl > 0 then ttl else cf_SandboxDefaultTTL cfg | None \<Rightarrow> cf_SandboxDefaultTTL cfg)
        | None \<Rightarrow> cf_SandboxDefaultTTL cfg)
      in case requested of Some r \<Rightarrow> if r > 0 then r else configured | None \<Rightarrow> configured)"

definition IsRequireSandboxed :: "tool_config \<Rightarrow> string \<Rightarrow> ToolSandboxMode \<Rightarrow> bool" where
  "IsRequireSandboxed cfg toolName defaultMode \<longleftrightarrow>
     IsOpenSandboxProviderConfigured cfg \<and> ResolveMode cfg toolName defaultMode = ToolSandboxModeRequire"

subsection \<open>The router\<close>

text \<open>The map of the backends, the entry stored last first.\<close>

type_synonym backends = "(string \<times> execution_backend) list"

fun add_profiles :: "string \<Rightarrow> bool \<Rightarrow> (string \<times> ExecutionProfile) list \<Rightarrow> backends \<Rightarrow> backends" where
  "add_profiles workspace sandbox [] bs = bs"
| "add_profiles workspace sandbox ((name, pf) # ps) bs =
     add_profiles workspace sandbox ps
       (if \<not> pf_Enabled pf then bs
        else if EqualFold (pf_Type pf) ''local'' then (ToLower name, LocalBackend pf workspace) # bs
        else if EqualFold (pf_Type pf) ''docker'' then (ToLower name, DockerBackend name pf) # bs
        else if EqualFold (pf_Type pf) ''ssh'' then (ToLower name, SshBackend name pf) # bs
        else if EqualFold (pf_Type pf) ''opensandbox'' \<and> sandbox
          then (ToLower name, OpenSandboxBackend name (pf_TimeoutSeconds pf)) # bs
        else bs)"

definition NewToolExecutionRouter :: "tool_config \<Rightarrow> bool \<Rightarrow> backends" where
  "NewToolExecutionRouter cfg sandbox =
     (let localProfile = (case map_of (cf_Profiles cfg) ''local'' of
              Some pf \<Rightarrow> pf
            | None \<Rightarrow> \<lparr>pf_Type = ''local'', pf_Enabled = False, pf_Image = [], pf_TimeoutSeconds = 0\<rparr>);
          bs = add_profiles (cf_WorkspaceRoot cfg) sandbox (cf_Profiles cfg) [(''local'', LocalBackend localProfile (cf_WorkspaceRoot cfg))]
      in if sandbox then (''opensandbox'', OpenSandboxBackend ''opensandbox'' 30) # bs else bs)"

definition profile_image :: "tool_config \<Rightarrow> string \<Rightarrow> string option" where
  "profile_image cfg backendName =
     (case map_of (cf_Profiles cfg) backendName of
        Some pf \<Rightarrow> if pf_Image pf \<noteq> [] then Some (pf_Image pf) else None
      | None \<Rightarrow> None)"

definition tryResolveConfiguredRoute :: "tool_config \<Rightarrow> string \<Rightarrow> (ExecutionToolRouteConfig \<times> string option) option" where
  "tryResolveConfiguredRoute cfg toolName =
     (if cf_ExecutionEnabled cfg then
        (case map_of (cf_ToolRoutes cfg) toolName of
           Some route \<Rightarrow> if TrimSpace (er_Backend route) \<noteq> [] then Some (route, profile_image cfg (er_Backend route)) else None
         | None \<Rightarrow> None)
      else None)"

record tool_route =
  tr_route :: "ExecutionToolRouteConfig option"
  tr_template :: "string option"
  tr_legacy :: bool
  tr_mode :: ToolSandboxMode
  tr_ok :: bool

definition TryResolveRoute :: "tool_config \<Rightarrow> tool \<Rightarrow> tool_route" where
  "TryResolveRoute cfg tool =
     (case tryResolveConfiguredRoute cfg (tl_Name tool) of
        Some (route, tmpl) \<Rightarrow>
          \<lparr>tr_route = Some route, tr_template = tmpl, tr_legacy = False, tr_mode = ToolSandboxModeNone, tr_ok = True\<rparr>
      | None \<Rightarrow>
          (case tl_Sandbox tool of
             None \<Rightarrow> \<lparr>tr_route = None, tr_template = None, tr_legacy = False, tr_mode = ToolSandboxModeNone, tr_ok = False\<rparr>
           | Some sb \<Rightarrow>
               (let mode = sm_EffectiveMode (ResolveModeDetailed cfg (tl_Name tool) (sb_DefaultSandboxMode sb)) in
                if mode = ToolSandboxModeNone then
                  \<lparr>tr_route = None, tr_template = None, tr_legacy = False, tr_mode = mode, tr_ok = False\<rparr>
                else if \<not> IsOpenSandboxProviderConfigured cfg then
                  \<lparr>tr_route = None, tr_template = None, tr_legacy = False, tr_mode = mode, tr_ok = True\<rparr>
                else
                  \<lparr>tr_route = Some \<lparr>er_Backend = ''opensandbox'', er_FallbackBackend = [], er_RequireWorkspace = False\<rparr>,
                   tr_template = Some (ResolveTemplate cfg (tl_Name tool)), tr_legacy = True, tr_mode = mode, tr_ok = True\<rparr>)))"

text \<open>One call of a backend.\<close>

definition backend_Execute :: "backend_run \<Rightarrow> execution_backend \<Rightarrow> ExecutionRequest \<Rightarrow> trace \<Rightarrow> ExecutionResult tool_run" where
  "backend_Execute run b request tr = (run (tr @ [EvBackend b request]) b request, tr @ [EvBackend b request])"

definition router_Execute ::
    "backends \<Rightarrow> backend_run \<Rightarrow> ExecutionRequest \<Rightarrow> string \<Rightarrow> trace \<Rightarrow> ExecutionResult tool_run" where
  "router_Execute bs run request fallbackBackend tr =
     (case map_of bs (ToLower (eq_BackendName request)) of
        None \<Rightarrow> (Inl (ExecError (''execution backend '' @ quoted (eq_BackendName request) @ '' is not configured'') False), tr)
      | Some b \<Rightarrow>
          (case backend_Execute run b request tr of
             (Inr res, tr) \<Rightarrow> (Inr res, tr)
           | (Inl e, tr) \<Rightarrow>
               if TrimSpace fallbackBackend = [] then (Inl e, tr)
               else (case map_of bs (ToLower fallbackBackend) of
                   None \<Rightarrow> (Inl e, tr)
                 | Some fb \<Rightarrow>
                     if eq_AllowLocalFallback request \<or> \<not> EqualFold fallbackBackend ''local'' then
                       (case backend_Execute run fb (request\<lparr>eq_BackendName := fallbackBackend\<rparr>) tr of
                          (Inr res, tr) \<Rightarrow> (Inr (res\<lparr>xr_FallbackUsed := True\<rparr>), tr)
                        | (Inl _, tr) \<Rightarrow> (Inl e, tr))
                     else (Inl e, tr))))"

definition RequiresWorkspace :: "tool_config \<Rightarrow> string \<Rightarrow> bool" where
  "RequiresWorkspace cfg backendName =
     (case map_of (cf_Profiles cfg) backendName of
        None \<Rightarrow> False
      | Some pf \<Rightarrow> EqualFold (pf_Type pf) ''docker'' \<or> EqualFold (pf_Type pf) ''ssh'')"

subsection \<open>Running a tool\<close>

definition IsLocalExecutionDisabled :: "tool \<Rightarrow> bool" where
  "IsLocalExecutionDisabled tool = (case tl_LocalPolicy tool of Some (supported, _) \<Rightarrow> \<not> supported | None \<Rightarrow> False)"

definition GetLocalExecutionUnavailableFailureCode :: "tool \<Rightarrow> string" where
  "GetLocalExecutionUnavailableFailureCode tool =
     (case tl_LocalPolicy tool of
        Some (supported, failureCode, _) \<Rightarrow> if \<not> supported then failureCode else ''runtime_capability_unavailable''
      | None \<Rightarrow> ''runtime_capability_unavailable'')"

definition GetLocalExecutionUnavailableMessage :: "tool \<Rightarrow> string" where
  "GetLocalExecutionUnavailableMessage tool =
     (let message = ''Error: Tool '' @ quoted (tl_Name tool) @
          '' requires a configured execution backend or sandbox in this runtime. Local execution is unavailable.'' in
      case tl_LocalPolicy tool of
        Some (supported, _, msg) \<Rightarrow> if \<not> supported then msg else message
      | None \<Rightarrow> message)"

definition local_unavailable :: "tool \<Rightarrow> exec_error" where
  "local_unavailable tool =
     ExecError (GetLocalExecutionUnavailableMessage tool @ [CHR 0x0A] @ GetLocalExecutionUnavailableFailureCode tool) False"

text \<open>
  The tool itself, with the deadline the executor sets. A tool that takes the session with it gets it in both cases,
  so \<open>InvokeTool\<close> is one event.
\<close>

definition ExecuteToolWithTimeout :: "int \<Rightarrow> tool \<Rightarrow> string \<Rightarrow> trace \<Rightarrow> string tool_run" where
  "ExecuteToolWithTimeout toolTimeout tool argsJson tr =
     (let tr = tr @ [EvInvoke (tl_Name tool) argsJson (if toolTimeout \<le> 0 then None else Some toolTimeout)]
      in (tl_Execute tool tr argsJson, tr))"

definition tool_error :: "tool \<Rightarrow> string \<Rightarrow> exec_error" where
  "tool_error tool rest = ExecError (''Error: Tool '' @ quoted (tl_Name tool) @ rest) False"

definition handleToolExecutorError ::
    "tool_route \<Rightarrow> int \<Rightarrow> tool \<Rightarrow> string \<Rightarrow> string \<Rightarrow> exec_error \<Rightarrow> trace \<Rightarrow> string tool_run" where
  "handleToolExecutorError rt toolTimeout tool backendName argsJson err tr =
     (if tr_legacy rt \<or> (case tr_route rt of Some r \<Rightarrow> er_FallbackBackend r \<noteq> [] | None \<Rightarrow> False) then
        if IsLocalExecutionDisabled tool then
          (if tr_legacy rt then (Inl (tool_error tool '' requires sandboxing but the sandbox provider is unavailable.''), tr)
           else (Inl (tool_error tool ('' requires execution backend '' @ quoted backendName @ '' but the provider is unavailable.'')), tr))
        else if tr_mode rt = ToolSandboxModeRequire then
          (Inl (tool_error tool '' requires sandboxing but the sandbox provider is unavailable.''), tr)
        else ExecuteToolWithTimeout toolTimeout tool argsJson tr
      else (Inl err, tr))"

text \<open>The choice of the backend: the route's, or the default.\<close>

definition route_backend :: "tool_config \<Rightarrow> tool_route \<Rightarrow> string" where
  "route_backend cfg rt =
     (case tr_route rt of
        Some r \<Rightarrow> if er_Backend r \<noteq> [] then er_Backend r else cf_DefaultBackend cfg
      | None \<Rightarrow> cf_DefaultBackend cfg)"

definition route_fallback :: "tool_route \<Rightarrow> string" where
  "route_fallback rt = (case tr_route rt of Some r \<Rightarrow> er_FallbackBackend r | None \<Rightarrow> [])"

definition route_request :: "tool_config \<Rightarrow> tool_route \<Rightarrow> string \<Rightarrow> tool \<Rightarrow> SandboxExecutionRequest \<Rightarrow> ExecutionRequest" where
  "route_request cfg rt sessionId tool sx =
     \<lparr>eq_ToolName = tl_Name tool, eq_BackendName = route_backend cfg rt, eq_Command = sx_Command sx,
      eq_Arguments = sx_Arguments sx,
      eq_LeaseKey = (if sx_LeaseKey sx = [] then sessionId @ '':'' @ tl_Name tool else sx_LeaseKey sx),
      eq_WorkingDirectory = sx_WorkingDirectory sx,
      eq_Template = (if sx_Template sx = [] then (case tr_template rt of Some t \<Rightarrow> t | None \<Rightarrow> []) else sx_Template sx),
      eq_TimeToLiveSeconds = ResolveTimeToLiveSeconds cfg (tl_Name tool) (Some (sx_TimeToLiveSeconds sx)),
      eq_RequireWorkspace = (case tr_route rt of Some r \<Rightarrow> er_RequireWorkspace r | None \<Rightarrow> False),
      eq_AllowLocalFallback = (\<not> IsLocalExecutionDisabled tool)\<rparr>"

text \<open>The tool goes to a backend.\<close>

definition dispatch_tool ::
    "tool_config \<Rightarrow> backends \<Rightarrow> backend_run \<Rightarrow> int \<Rightarrow> string \<Rightarrow> tool_route \<Rightarrow> sandbox_side \<Rightarrow> tool \<Rightarrow> string \<Rightarrow> trace
       \<Rightarrow> string tool_run" where
  "dispatch_tool cfg bs run toolTimeout sessionId rt sb tool argsJson tr =
     (case sb_CreateSandboxRequest sb argsJson of
        Inl e \<Rightarrow> handleToolExecutorError rt toolTimeout tool (route_backend cfg rt) argsJson e tr
      | Inr sx \<Rightarrow>
          (case router_Execute bs run (route_request cfg rt sessionId tool sx) (route_fallback rt) tr of
             (Inl e, tr) \<Rightarrow> handleToolExecutorError rt toolTimeout tool (route_backend cfg rt) argsJson e tr
           | (Inr res, tr) \<Rightarrow>
               (Inr (sb_FormatSandboxResult sb argsJson
                   \<lparr>sr_ExitCode = xr_ExitCode res, sr_Stdout = xr_Stdout res, sr_Stderr = xr_Stderr res\<rparr>), tr)))"

definition ExecuteToolWithRouting ::
    "tool_config \<Rightarrow> bool \<Rightarrow> backends \<Rightarrow> backend_run \<Rightarrow> int \<Rightarrow> string \<Rightarrow> tool \<Rightarrow> string \<Rightarrow> trace \<Rightarrow> string tool_run" where
  "ExecuteToolWithRouting cfg toolSandbox bs run toolTimeout sessionId tool argsJson tr =
     (let rt = TryResolveRoute cfg tool in
      if \<not> tr_ok rt then
        if IsLocalExecutionDisabled tool then (Inl (local_unavailable tool), tr)
        else ExecuteToolWithTimeout toolTimeout tool argsJson tr
      else case tl_Sandbox tool of
        None \<Rightarrow> ExecuteToolWithTimeout toolTimeout tool argsJson tr
      | Some sb \<Rightarrow>
          (let backendName = route_backend cfg rt; fallbackBackend = route_fallback rt in
           if tr_mode rt = ToolSandboxModeRequire \<and> \<not> tr_legacy rt \<and> tr_route rt = None then
             (Inl (tool_error tool '' requires sandboxing but no sandbox provider is configured.''), tr)
           else if backendName = ''local'' \<and> IsLocalExecutionDisabled tool then (Inl (local_unavailable tool), tr)
           else if backendName = ''local'' \<and> \<not> tr_legacy rt then ExecuteToolWithTimeout toolTimeout tool argsJson tr
           else if RequiresWorkspace cfg backendName \<and> cf_WorkspaceRoot cfg \<noteq> [] then
             (Inl (tool_error tool ('' is configured to use execution backend '' @ quoted backendName @
                '' but Tooling.WorkspaceRoot is not set.'')), tr)
           else if tr_legacy rt \<and> tr_template rt \<noteq> None \<and> tr_template rt \<noteq> Some [] \<and> fallbackBackend \<noteq> [] then
             (Inl (tool_error tool '' requires sandboxing but no sandbox template is configured.''), tr)
           else if tr_legacy rt \<and> \<not> toolSandbox then
             (Inl (tool_error tool '' requires sandboxing but no sandbox provider is configured.''), tr)
           else dispatch_tool cfg bs run toolTimeout sessionId rt sb tool argsJson tr))"

subsection \<open>What can have run\<close>

lemma ExecuteToolWithTimeout_trace:
  "snd (ExecuteToolWithTimeout tmo tool a tr) =
     tr @ [EvInvoke (tl_Name tool) a (if tmo \<le> 0 then None else Some tmo)]"
  by (simp add: ExecuteToolWithTimeout_def Let_def)

fun runs_on :: "(execution_backend \<Rightarrow> bool) \<Rightarrow> tool_event \<Rightarrow> bool" where
  "runs_on p (EvBackend b r) = p b"
| "runs_on p _ = False"

fun runs_locally :: "tool_event \<Rightarrow> bool" where
  "runs_locally (EvInvoke t a d) = True"
| "runs_locally _ = False"

text \<open>The backends a request and its fallback stand for.\<close>

definition reachable_backends :: "backends \<Rightarrow> string \<Rightarrow> string \<Rightarrow> execution_backend set" where
  "reachable_backends bs backendName fallbackBackend =
     set_option (map_of bs (ToLower backendName)) \<union>
     (if TrimSpace fallbackBackend = [] then {} else set_option (map_of bs (ToLower fallbackBackend)))"

lemma router_Execute_trace:
  "\<exists>new. snd (router_Execute bs run req fb tr) = tr @ new \<and>
     list_all (runs_on (\<lambda>b. b \<in> reachable_backends bs (eq_BackendName req) fb)) new"
proof (cases "map_of bs (ToLower (eq_BackendName req))")
  case None
  then show ?thesis by (simp add: router_Execute_def)
next
  case (Some b)
  then have b: "b \<in> reachable_backends bs (eq_BackendName req) fb" by (simp add: reachable_backends_def)
  show ?thesis
  proof (cases "map_of bs (ToLower fb)")
    case None
    with Some b show ?thesis
      by (auto simp: router_Execute_def backend_Execute_def split: sum.splits)
  next
    case (Some fb')
    then have "TrimSpace fb \<noteq> [] \<Longrightarrow> fb' \<in> reachable_backends bs (eq_BackendName req) fb"
      by (simp add: reachable_backends_def)
    with Some b \<open>map_of bs (ToLower (eq_BackendName req)) = Some b\<close> show ?thesis
      by (auto simp: router_Execute_def backend_Execute_def split: sum.splits)
  qed
qed

text \<open>The trace of \<open>ExecuteToolWithRouting\<close> grows; the cases that run something.\<close>

definition only_new :: "(tool_event \<Rightarrow> bool) \<Rightarrow> trace \<Rightarrow> 'r \<times> trace \<Rightarrow> bool" where
  "only_new p tr r \<longleftrightarrow> (\<exists>new. snd r = tr @ new \<and> list_all p new)"

lemma only_new_stop [simp]: "only_new p tr (x, tr)"
  by (simp add: only_new_def)

lemma only_new_trans: "only_new p tr r \<Longrightarrow> only_new p (snd r) r' \<Longrightarrow> only_new p tr r'"
  by (auto simp: only_new_def)

lemma only_new_mono: "only_new p tr r \<Longrightarrow> (\<And>e. p e \<Longrightarrow> q e) \<Longrightarrow> only_new q tr r"
  by (auto simp: only_new_def list_all_iff)

lemma only_new_local:
  "only_new p tr (ExecuteToolWithTimeout tmo tool a tr) \<longleftrightarrow> p (EvInvoke (tl_Name tool) a (if tmo \<le> 0 then None else Some tmo))"
  by (auto simp: only_new_def ExecuteToolWithTimeout_trace)

lemma only_new_router:
  "(\<And>b r. b \<in> reachable_backends bs (eq_BackendName req) fb \<Longrightarrow> p (EvBackend b r)) \<Longrightarrow>
     only_new p tr (router_Execute bs run req fb tr)"
  using router_Execute_trace [of bs run req fb tr]
  by (force simp: only_new_def list_all_iff elim: runs_on.elims)

text \<open>A tool that goes to a backend: its request, the backends, and what is done when they fail.\<close>

lemma only_new_dispatch:
  assumes "\<And>b r. b \<in> reachable_backends bs (route_backend cfg rt) (route_fallback rt) \<Longrightarrow> p (EvBackend b r)"
    and "\<And>e tr. only_new p tr (handleToolExecutorError rt tmo tool (route_backend cfg rt) a e tr)"
  shows "only_new p tr (dispatch_tool cfg bs run tmo sid rt sb tool a tr)"
proof (cases "sb_CreateSandboxRequest sb a")
  case (Inl e)
  with assms(2) show ?thesis by (simp add: dispatch_tool_def)
next
  case (Inr sx)
  let ?r = "router_Execute bs run (route_request cfg rt sid tool sx) (route_fallback rt) tr"
  have n: "only_new p tr ?r"
    by (rule only_new_router) (use assms(1) in \<open>simp add: route_request_def\<close>)
  show ?thesis
  proof (cases ?r)
    case (Pair x tr')
    with n have t: "only_new p tr (y, tr')" for y :: "exec_error + string" by (simp add: only_new_def)
    show ?thesis
    proof (cases x)
      case (Inl e)
      have "only_new p (snd ((Inl e :: exec_error + string), tr')) (handleToolExecutorError rt tmo tool (route_backend cfg rt) a e tr')"
        using assms(2) by simp
      with t have "only_new p tr (handleToolExecutorError rt tmo tool (route_backend cfg rt) a e tr')" by (rule only_new_trans)
      with Pair Inl \<open>sb_CreateSandboxRequest sb a = Inr sx\<close> show ?thesis by (simp add: dispatch_tool_def)
    next
      case (Inr res)
      with Pair t \<open>sb_CreateSandboxRequest sb a = Inr sx\<close> show ?thesis by (simp add: dispatch_tool_def)
    qed
  qed
qed

lemmas routing_defs = ExecuteToolWithRouting_def Let_def

lemma opensandbox_backend:
  "map_of (NewToolExecutionRouter cfg True) ''opensandbox'' = Some (OpenSandboxBackend ''opensandbox'' 30)"
  by (simp add: NewToolExecutionRouter_def Let_def)

lemma legacy_route:
  "tl_Sandbox tool = Some sb \<Longrightarrow> tryResolveConfiguredRoute cfg (tl_Name tool) = None \<Longrightarrow>
     ResolveMode cfg (tl_Name tool) (sb_DefaultSandboxMode sb) = ToolSandboxModeRequire \<Longrightarrow>
     TryResolveRoute cfg tool =
       (if IsOpenSandboxProviderConfigured cfg
        then \<lparr>tr_route = Some \<lparr>er_Backend = ''opensandbox'', er_FallbackBackend = [], er_RequireWorkspace = False\<rparr>,
              tr_template = Some (ResolveTemplate cfg (tl_Name tool)), tr_legacy = True,
              tr_mode = ToolSandboxModeRequire, tr_ok = True\<rparr>
        else \<lparr>tr_route = None, tr_template = None, tr_legacy = False, tr_mode = ToolSandboxModeRequire, tr_ok = True\<rparr>)"
  by (simp add: TryResolveRoute_def ResolveMode_def Let_def)

text \<open>C8: A tool for which the sandbox is required and no backend is configured never runs in the process of the
  agent, nor on any other backend than the sandbox: everything that runs is the sandbox backend.\<close>

theorem required_sandbox_never_local:
  assumes "tl_Sandbox tool = Some sb" "tryResolveConfiguredRoute cfg (tl_Name tool) = None"
    and "ResolveMode cfg (tl_Name tool) (sb_DefaultSandboxMode sb) = ToolSandboxModeRequire"
  shows "only_new (runs_on (\<lambda>b. b = OpenSandboxBackend ''opensandbox'' 30)) tr
     (ExecuteToolWithRouting cfg sandbox (NewToolExecutionRouter cfg sandbox) run tmo sid tool a tr)"
proof (cases "IsOpenSandboxProviderConfigured cfg \<and> sandbox")
  case False
  then show ?thesis
    by (simp add: routing_defs legacy_route [OF assms] assms(1) route_backend_def route_fallback_def)
next
  case True
  let ?rt = "TryResolveRoute cfg tool"
  have rt: "route_backend cfg ?rt = ''opensandbox''" "route_fallback ?rt = []" "tr_legacy ?rt" "tr_ok ?rt"
    "tr_mode ?rt = ToolSandboxModeRequire"
    using True by (simp_all add: legacy_route [OF assms] route_backend_def route_fallback_def)
  have "only_new (runs_on (\<lambda>b. b = OpenSandboxBackend ''opensandbox'' 30)) tr
     (dispatch_tool cfg (NewToolExecutionRouter cfg sandbox) run tmo sid ?rt sb tool a tr)"
    by (rule only_new_dispatch)
       (use True rt in \<open>auto simp: reachable_backends_def opensandbox_backend ToLower_def lower_char_def handleToolExecutorError_def\<close>)
  then show ?thesis
    using True rt assms(1) by (simp add: routing_defs)
qed
text \<open>An example: a shell tool with a sandbox side, and a configuration that requires the sandbox for it.\<close>

definition example_sandbox :: sandbox_side where
  "example_sandbox =
     \<lparr>sb_DefaultSandboxMode = ToolSandboxModePrefer,
      sb_CreateSandboxRequest = (\<lambda>a. Inr \<lparr>sx_Command = ''sh'', sx_Arguments = [a], sx_WorkingDirectory = [], sx_LeaseKey = [],
         sx_Template = [], sx_TimeToLiveSeconds = 0\<rparr>),
      sb_FormatSandboxResult = (\<lambda>a r. sr_Stdout r)\<rparr>"

definition example_shell :: tool where
  "example_shell =
     \<lparr>tl_Name = ''shell'', tl_Description = ''Runs a command'', tl_ActionDescriptor = None, tl_LocalPolicy = None,
      tl_Sandbox = Some example_sandbox, tl_Stream = None, tl_Execute = (\<lambda>tr a. Inr ''done in process'')\<rparr>"

definition example_tool_config :: tool_config where
  "example_tool_config =
     \<lparr>cf_ExecutionEnabled = True, cf_DefaultBackend = ''local'',
      cf_Profiles = [(''local'', \<lparr>pf_Type = ''local'', pf_Enabled = True, pf_Image = [], pf_TimeoutSeconds = 30\<rparr>),
        (''box'', \<lparr>pf_Type = ''docker'', pf_Enabled = True, pf_Image = ''alpine'', pf_TimeoutSeconds = 30\<rparr>),
        (''far'', \<lparr>pf_Type = ''ssh'', pf_Enabled = True, pf_Image = [], pf_TimeoutSeconds = 30\<rparr>)],
      cf_ToolRoutes = [], cf_SandboxProvider = ''opensandbox'',
      cf_SandboxTools = [(''shell'', \<lparr>st_Mode = ''require'', st_Template = ''py'', st_TTL = Some 60\<rparr>)],
      cf_SandboxDefaultTTL = 300, cf_WorkspaceRoot = [], cf_ApprovalRequiredTools = []\<rparr>"

definition backend_down :: backend_run where
  "backend_down = (\<lambda>tr b r. Inl (ExecError ''down'' False))"

definition backend_up :: backend_run where
  "backend_up = (\<lambda>tr b r. Inr \<lparr>xr_ExitCode = 0, xr_Stdout = eq_Template r, xr_Stderr = [], xr_FallbackUsed = False\<rparr>)"

lemmas example_tool_defs = example_sandbox_def example_shell_def example_tool_config_def

theorem required_sandbox_never_local_witness:
  "fst (ExecuteToolWithRouting example_tool_config True (NewToolExecutionRouter example_tool_config True) backend_up 30 ''s''
      example_shell ''ls'' []) = Inr ''py'' \<and>
   only_new (runs_on (\<lambda>b. b = OpenSandboxBackend ''opensandbox'' 30)) []
     (ExecuteToolWithRouting example_tool_config True (NewToolExecutionRouter example_tool_config True) backend_up 30 ''s''
        example_shell ''ls'' []) \<and>
   only_new (runs_on (\<lambda>b. b = OpenSandboxBackend ''opensandbox'' 30)) []
     (ExecuteToolWithRouting example_tool_config True (NewToolExecutionRouter example_tool_config True) backend_down 30 ''s''
        example_shell ''ls'' [])"
proof (intro conjI)
  show "fst (ExecuteToolWithRouting example_tool_config True (NewToolExecutionRouter example_tool_config True) backend_up 30 ''s''
      example_shell ''ls'' []) = Inr ''py''"
    by code_simp
  have a: "tl_Sandbox example_shell = Some example_sandbox"
    "tryResolveConfiguredRoute example_tool_config (tl_Name example_shell) = None"
    by (simp_all add: example_tool_defs tryResolveConfiguredRoute_def)
  have b: "ResolveMode example_tool_config (tl_Name example_shell) (sb_DefaultSandboxMode example_sandbox) = ToolSandboxModeRequire"
    by code_simp
  show "only_new (runs_on (\<lambda>b. b = OpenSandboxBackend ''opensandbox'' 30)) []
     (ExecuteToolWithRouting example_tool_config True (NewToolExecutionRouter example_tool_config True) backend_up 30 ''s''
        example_shell ''ls'' [])"
    "only_new (runs_on (\<lambda>b. b = OpenSandboxBackend ''opensandbox'' 30)) []
     (ExecuteToolWithRouting example_tool_config True (NewToolExecutionRouter example_tool_config True) backend_down 30 ''s''
        example_shell ''ls'' [])"
    by (rule required_sandbox_never_local [OF a b])+
qed

lemma handle_not_local:
  "IsLocalExecutionDisabled tool \<Longrightarrow> only_new (\<lambda>e. \<not> runs_locally e) tr (handleToolExecutorError rt tmo tool bn a e tr)"
  by (simp add: handleToolExecutorError_def)

lemma TryResolveRoute_ok:
  "tr_ok (TryResolveRoute cfg tool) \<Longrightarrow> tl_Sandbox tool \<noteq> None \<or> tryResolveConfiguredRoute cfg (tl_Name tool) \<noteq> None"
  by (auto simp: TryResolveRoute_def Let_def split: option.splits if_splits)

lemma TryResolveRoute_configured:
  "tryResolveConfiguredRoute cfg (tl_Name tool) = Some (r, tmpl) \<Longrightarrow>
     TryResolveRoute cfg tool =
       \<lparr>tr_route = Some r, tr_template = tmpl, tr_legacy = False, tr_mode = ToolSandboxModeNone, tr_ok = True\<rparr>"
  by (simp add: TryResolveRoute_def)

text \<open>A tool that forbids local execution runs in the process of the agent exactly when it has no sandbox side and a
  backend is configured for it: the configured backend is ignored and the prohibition with it.\<close>

theorem forbidden_local_runs_iff:
  assumes "IsLocalExecutionDisabled tool"
  shows "only_new (\<lambda>e. \<not> runs_locally e) tr (ExecuteToolWithRouting cfg sandbox bs run tmo sid tool a tr) \<longleftrightarrow>
     tl_Sandbox tool \<noteq> None \<or> tryResolveConfiguredRoute cfg (tl_Name tool) = None"
proof (cases "tl_Sandbox tool")
  case None
  show ?thesis
  proof (cases "tryResolveConfiguredRoute cfg (tl_Name tool)")
    case (Some p)
    with None show ?thesis
      by (cases p) (simp add: routing_defs TryResolveRoute_configured only_new_local)
  next
    case none: None
    with None TryResolveRoute_ok [of cfg tool] have "\<not> tr_ok (TryResolveRoute cfg tool)" by blast
    with none assms show ?thesis by (simp add: routing_defs)
  qed
next
  case (Some sb)
  have "only_new (\<lambda>e. \<not> runs_locally e) tr (dispatch_tool cfg bs run tmo sid (TryResolveRoute cfg tool) sb tool a tr)"
    by (rule only_new_dispatch) (simp_all add: handle_not_local assms)
  with Some assms show ?thesis by (simp add: routing_defs)
qed

theorem forbidden_local_runs_iff_witness:
  "IsLocalExecutionDisabled (example_shell\<lparr>tl_LocalPolicy := Some (False, ''code'', ''no'')\<rparr>) \<and>
   \<not> only_new (\<lambda>e. \<not> runs_locally e) []
     (ExecuteToolWithRouting
        (example_tool_config\<lparr>cf_ToolRoutes := [(''shell'', \<lparr>er_Backend = ''box'', er_FallbackBackend = [], er_RequireWorkspace = True\<rparr>)]\<rparr>)
        False [] backend_down 30 ''s''
        (example_shell\<lparr>tl_LocalPolicy := Some (False, ''code'', ''no''), tl_Sandbox := None\<rparr>) ''ls'' [])"
proof
  show "IsLocalExecutionDisabled (example_shell\<lparr>tl_LocalPolicy := Some (False, ''code'', ''no'')\<rparr>)"
    by (simp add: IsLocalExecutionDisabled_def)
  have d: "IsLocalExecutionDisabled (example_shell\<lparr>tl_LocalPolicy := Some (False, ''code'', ''no''), tl_Sandbox := None\<rparr>)"
    by (simp add: IsLocalExecutionDisabled_def)
  have c: "tryResolveConfiguredRoute (example_tool_config\<lparr>cf_ToolRoutes := [(''shell'',
      \<lparr>er_Backend = ''box'', er_FallbackBackend = [], er_RequireWorkspace = True\<rparr>)]\<rparr>) ''shell'' \<noteq> None"
    by code_simp
  from c show "\<not> only_new (\<lambda>e. \<not> runs_locally e) []
     (ExecuteToolWithRouting
        (example_tool_config\<lparr>cf_ToolRoutes := [(''shell'', \<lparr>er_Backend = ''box'', er_FallbackBackend = [], er_RequireWorkspace = True\<rparr>)]\<rparr>)
        False [] backend_down 30 ''s''
        (example_shell\<lparr>tl_LocalPolicy := Some (False, ''code'', ''no''), tl_Sandbox := None\<rparr>) ''ls'' [])"
    by (subst forbidden_local_runs_iff [OF d]) (simp add: example_shell_def)
qed

text \<open>The test of the workspace root is inverted: a tool routed to a container or a remote host is refused exactly when
  there is a workspace.\<close>

lemma workspace_check_inverted:
  assumes "tryResolveConfiguredRoute cfg (tl_Name tool) = Some (r, tmpl)" "tl_Sandbox tool = Some sb"
    and "er_Backend r \<noteq> ''local''" "er_Backend r \<noteq> []" "RequiresWorkspace cfg (er_Backend r)" "cf_WorkspaceRoot cfg \<noteq> []"
  shows "ExecuteToolWithRouting cfg sandbox bs run tmo sid tool a tr =
     (Inl (tool_error tool ('' is configured to use execution backend '' @ quoted (er_Backend r) @
        '' but Tooling.WorkspaceRoot is not set.'')), tr)"
  using assms by (simp add: routing_defs TryResolveRoute_configured route_backend_def)

definition backends_fail :: "backend_run \<Rightarrow> bool" where
  "backends_fail run \<longleftrightarrow> (\<forall>tr b req. \<exists>e. run tr b req = Inl e)"

lemma router_all_down:
  assumes "backends_fail run"
  obtains e where "fst (router_Execute bs run req fb tr) = Inl e"
proof -
  from assms obtain f where "run = (\<lambda>tr b req. Inl (f tr b req))"
    unfolding backends_fail_def by metis
  then have "\<exists>e. fst (router_Execute bs run req fb tr) = Inl e"
    by (auto simp: router_Execute_def backend_Execute_def split: option.splits)
  with that show thesis by blast
qed

text \<open>When the backend of a routed tool and its fallback both fail, the tool runs in the process of the agent all
  the same, whatever the fallback is: naming a fallback host gives up the isolation.\<close>

theorem failed_route_runs_in_process:
  assumes "tryResolveConfiguredRoute cfg (tl_Name tool) = Some (r, tmpl)" "tl_Sandbox tool = Some sb"
    and "\<not> IsLocalExecutionDisabled tool" "er_FallbackBackend r \<noteq> []" "er_Backend r \<noteq> ''local''"
    and "RequiresWorkspace cfg (er_Backend r) \<Longrightarrow> cf_WorkspaceRoot cfg = []"
    and "backends_fail run"
  shows "\<exists>failed. ExecuteToolWithRouting cfg sandbox bs run tmo sid tool a tr = ExecuteToolWithTimeout tmo tool a (tr @ failed) \<and>
     list_all (\<lambda>e. \<not> runs_locally e) failed"
proof -
  let ?rt = "TryResolveRoute cfg tool"
  have rt: "tr_route ?rt = Some r" "\<not> tr_legacy ?rt" "tr_mode ?rt = ToolSandboxModeNone" "tr_ok ?rt"
    using TryResolveRoute_configured [OF assms(1)] by simp_all
  have ne: "er_Backend r \<noteq> []"
    using assms(1) by (auto simp: tryResolveConfiguredRoute_def split: if_splits option.splits)
  then have bn: "route_backend cfg ?rt = er_Backend r" by (simp add: route_backend_def rt)
  have h: "handleToolExecutorError ?rt tmo tool bn a e tr' = ExecuteToolWithTimeout tmo tool a tr'" for bn e tr'
    using assms(3,4) by (simp add: handleToolExecutorError_def rt)
  have "\<exists>failed. dispatch_tool cfg bs run tmo sid ?rt sb tool a tr = ExecuteToolWithTimeout tmo tool a (tr @ failed) \<and>
     list_all (\<lambda>e. \<not> runs_locally e) failed"
  proof (cases "sb_CreateSandboxRequest sb a")
    case (Inl e)
    then show ?thesis by (intro exI [of _ "[]"]) (simp add: dispatch_tool_def h)
  next
    case (Inr sx)
    let ?req = "route_request cfg ?rt sid tool sx"
    obtain e where e: "fst (router_Execute bs run ?req (route_fallback ?rt) tr) = Inl e"
      using assms(7) by (rule router_all_down)
    have "only_new (\<lambda>e. \<not> runs_locally e) tr (router_Execute bs run ?req (route_fallback ?rt) tr)"
      by (rule only_new_router) simp
    then obtain failed where "snd (router_Execute bs run ?req (route_fallback ?rt) tr) = tr @ failed"
      "list_all (\<lambda>e. \<not> runs_locally e) failed"
      by (auto simp: only_new_def)
    with e Inr show ?thesis
      by (intro exI [of _ failed]) (cases "router_Execute bs run ?req (route_fallback ?rt) tr", simp add: dispatch_tool_def h)
  qed
  with assms(2,5,6) show ?thesis
    by (simp add: routing_defs rt bn) blast
qed

definition example_routed_config :: tool_config where
  "example_routed_config =
     example_tool_config\<lparr>cf_ToolRoutes := [(''shell'', \<lparr>er_Backend = ''box'', er_FallbackBackend = ''far'', er_RequireWorkspace = True\<rparr>)]\<rparr>"

theorem failed_route_runs_in_process_witness:
  "fst (ExecuteToolWithRouting example_routed_config True (NewToolExecutionRouter example_routed_config True) backend_down 30 ''s''
      example_shell ''ls'' []) = Inr ''done in process''"
proof -
  have r: "tryResolveConfiguredRoute example_routed_config (tl_Name example_shell) =
      Some (\<lparr>er_Backend = ''box'', er_FallbackBackend = ''far'', er_RequireWorkspace = True\<rparr>, Some ''alpine'')"
    by code_simp
  have "\<exists>failed. ExecuteToolWithRouting example_routed_config True (NewToolExecutionRouter example_routed_config True)
      backend_down 30 ''s'' example_shell ''ls'' [] = ExecuteToolWithTimeout 30 example_shell ''ls'' ([] @ failed) \<and>
     list_all (\<lambda>e. \<not> runs_locally e) failed"
    by (rule failed_route_runs_in_process [OF r])
       (simp_all add: example_tool_defs example_routed_config_def IsLocalExecutionDisabled_def backend_down_def backends_fail_def)
  then show ?thesis by (auto simp: ExecuteToolWithTimeout_def example_shell_def Let_def)
qed

end
