(* ===== verification/Tool_Gate.thy ===== *)
theory Tool_Gate
  imports Tool_Router Meta_Output
begin

section \<open>What stands between a model and a tool\<close>

text \<open>
  \<open>OpenClawToolExecutor\<close> (\<open>src/openclaw/agent/tool_executor.go\<close>): one call of a tool, from the request of the model to the
  result it gets back. A call passes the session and its preset, the governance service, the hooks, the orchestrator of
  plans and the reviewer, then its secrets are filled in and the tool runs; the result is redacted, intercepted and
  recorded. Interceptors of equal order keep their order here; the code leaves it open. Every party is a parameter whose answer may depend on all that has happened before, and every answer is an
  event of the trace.
\<close>

subsection \<open>Data\<close>

record tool_session =
  ts_Id :: string
  ts_ChannelId :: string
  ts_SenderId :: string
  ts_RouteToolsDisabled :: bool
  ts_RouteAllowedTools :: "string list"

record tool_hook =
  hk_Name :: string
  hk_WithContext :: bool
  hk_BeforeExecute :: "trace \<Rightarrow> string \<Rightarrow> bool"

record tool_executor =
  ex_toolsByName :: "(string \<times> tool) list"
  ex_toolTimeout :: int
  ex_requireToolApproval :: bool
  ex_approvalRequiredTools :: "string list"
  ex_hooks :: "tool_hook list"
  ex_interceptors :: "(int \<times> (trace \<Rightarrow> string \<Rightarrow> string option)) list"
  ex_config :: tool_config
  ex_toolSandbox :: bool
  ex_backends :: backends
  ex_run :: backend_run
  ex_presetResolver :: "(tool_session \<Rightarrow> string list \<Rightarrow> ResolvedToolPreset option) option"
  ex_auditLog :: bool
  ex_Redact :: "string \<Rightarrow> string"
  ex_Substitute :: "trace \<Rightarrow> string \<Rightarrow> exec_error + (string \<times> string)"
  ex_Authorize :: "trace \<Rightarrow> ToolGovernanceContext \<Rightarrow> exec_error + GovernanceDecision"
  ex_EvaluateTool :: "trace \<Rightarrow> string \<Rightarrow> bool \<Rightarrow> exec_error + PlanExecuteVerifyDecision"
  ex_metaInvoke :: "(trace \<Rightarrow> string \<Rightarrow> string \<Rightarrow> string) option"
  ex_unmarshal :: unmarshal_map

text \<open>One call: what the model asked for and what surrounds it.\<close>

record tool_call =
  cl_toolName :: string
  cl_argsJson :: string
  cl_callId :: string
  cl_session :: tool_session
  cl_CorrelationId :: string
  cl_isStreaming :: bool
  cl_approvalCallback :: "(trace \<Rightarrow> string \<Rightarrow> string \<Rightarrow> bool) option"
  cl_onDelta :: bool
  cl_toolCallCount :: int
  cl_boundTool :: "tool option"
  cl_cancelled :: "trace \<Rightarrow> bool"   \<comment> \<open>whether the context of the caller is cancelled by then\<close>
  cl_elapsedMs :: int

record tool_result = ToolExecutionResult +
  tx_ToolName :: string
  tx_Arguments :: string
  tx_CallId :: string
  tx_NextStep :: string
  tx_Governance :: "GovernanceDecision option"

text \<open>How a call ends before its tool runs.\<close>

datatype gate_stop = StopResult tool_result | StopError exec_error | StopPanic

type_synonym 'a gate = "(gate_stop + 'a) \<times> trace"

definition bindG :: "'a gate \<Rightarrow> ('a \<Rightarrow> trace \<Rightarrow> 'b gate) \<Rightarrow> 'b gate" where
  "bindG g f = (case g of (Inl stop, tr) \<Rightarrow> (Inl stop, tr) | (Inr x, tr) \<Rightarrow> f x tr)"

lemma bindG_simps [simp]:
  "bindG (Inl stop, tr) f = (Inl stop, tr)" "bindG (Inr x, tr) f = f x tr"
  by (simp_all add: bindG_def)

lemma bindG_InrE:
  assumes "bindG g f = (Inr y, tr')"
  obtains x tr where "g = (Inr x, tr)" "f x tr = (Inr y, tr')"
  using assms by (cases g) (auto simp: bindG_def split: sum.splits)

definition CreateImmediateResult ::
    "tool_call \<Rightarrow> string \<Rightarrow> string \<Rightarrow> string \<Rightarrow> string \<Rightarrow> string \<Rightarrow> string \<Rightarrow> GovernanceDecision option \<Rightarrow> tool_result" where
  "CreateImmediateResult cl argsJson result resultStatus failureCode failureMessage nextStep decision =
     \<lparr>tr_ResultText = result, tr_ResultStatus = resultStatus, tr_FailureCode = failureCode,
      tr_FailureMessage = failureMessage, tr_RetrySafe = False, tx_ToolName = cl_toolName cl, tx_Arguments = argsJson,
      tx_CallId = cl_callId cl, tx_NextStep = nextStep, tx_Governance = decision\<rparr>"

definition blocked_result :: "tool_call \<Rightarrow> string \<Rightarrow> string \<Rightarrow> string \<Rightarrow> string \<Rightarrow> string \<Rightarrow> GovernanceDecision option \<Rightarrow> gate_stop" where
  "blocked_result cl argsJson result failureCode failureMessage nextStep decision =
     StopResult (CreateImmediateResult cl argsJson result ''blocked'' failureCode failureMessage nextStep decision)"

subsection \<open>The constructor\<close>

definition NormalizeApprovalToolName :: "string \<Rightarrow> string" where
  "NormalizeApprovalToolName toolName = (if toolName = ''file_write'' then ''write_file'' else toolName)"

definition approval_set :: "string list \<Rightarrow> string list" where
  "approval_set items = map (\<lambda>i. NormalizeApprovalToolName (TrimSpace i)) (filter (\<lambda>i. TrimSpace i \<noteq> []) items)"

definition noop_Redact :: "string \<Rightarrow> string" where
  "noop_Redact s = []"

definition noop_Substitute :: "trace \<Rightarrow> string \<Rightarrow> exec_error + (string \<times> string)" where
  "noop_Substitute tr argsJson = Inr (argsJson, argsJson)"

definition noop_EvaluateTool :: "trace \<Rightarrow> string \<Rightarrow> bool \<Rightarrow> exec_error + PlanExecuteVerifyDecision" where
  "noop_EvaluateTool tr argsJson required =
     Inr \<lparr>pv_Decision = ''proceed'', pv_RequiresApproval = False, pv_Summary = ''Plan-Execute-Verify mode is disabled.''\<rparr>"

text \<open>
  The executor for the arguments of the constructor, the missing parts replaced. Building the declaration of a tool
  panics (\<open>CreateDeclaration\<close> is not written), so with any tool there is no executor: \<open>None\<close>.
\<close>

record executor_parts =
  ep_tools :: "tool list"
  ep_toolTimeoutSeconds :: int
  ep_requireToolApproval :: bool
  ep_approvalRequiredTools :: "string list"
  ep_hooks :: "tool_hook list"
  ep_interceptors :: "(int \<times> (trace \<Rightarrow> string \<Rightarrow> string option)) list"
  ep_config :: tool_config
  ep_toolSandbox :: bool
  ep_run :: backend_run
  ep_presetResolver :: "(tool_session \<Rightarrow> string list \<Rightarrow> ResolvedToolPreset option) option"
  ep_auditLog :: bool
  ep_redaction :: "(string \<Rightarrow> string) option"
  ep_substitution :: "(trace \<Rightarrow> string \<Rightarrow> exec_error + (string \<times> string)) option"
  ep_governance :: "(trace \<Rightarrow> ToolGovernanceContext \<Rightarrow> exec_error + GovernanceDecision) option"
  ep_planExecuteVerify :: "(trace \<Rightarrow> string \<Rightarrow> bool \<Rightarrow> exec_error + PlanExecuteVerifyDecision) option"
  ep_metaInvoke :: "(trace \<Rightarrow> string \<Rightarrow> string \<Rightarrow> string) option"
  ep_unmarshal :: unmarshal_map

definition NewOpenClawToolExecutor :: "executor_parts \<Rightarrow> tool_executor option" where
  "NewOpenClawToolExecutor p =
     (if ep_tools p \<noteq> [] then None
      else Some
        \<lparr>ex_toolsByName = [], ex_toolTimeout = ep_toolTimeoutSeconds p,
         ex_requireToolApproval = ep_requireToolApproval p,
         ex_approvalRequiredTools = approval_set (ep_approvalRequiredTools p), ex_hooks = ep_hooks p,
         ex_interceptors = ep_interceptors p, ex_config = ep_config p, ex_toolSandbox = ep_toolSandbox p,
         ex_backends = NewToolExecutionRouter (ep_config p) (ep_toolSandbox p), ex_run = ep_run p,
         ex_presetResolver = ep_presetResolver p, ex_auditLog = ep_auditLog p,
         ex_Redact = (case ep_redaction p of Some r \<Rightarrow> r | None \<Rightarrow> noop_Redact),
         ex_Substitute = (case ep_substitution p of Some s \<Rightarrow> s | None \<Rightarrow> noop_Substitute),
         ex_Authorize = (case ep_governance p of Some g \<Rightarrow> g | None \<Rightarrow> (\<lambda>tr g. Inr (noop_Authorize g))),
         ex_EvaluateTool = (case ep_planExecuteVerify p of Some e \<Rightarrow> e | None \<Rightarrow> noop_EvaluateTool),
         ex_metaInvoke = ep_metaInvoke p, ex_unmarshal = ep_unmarshal p\<rparr>)"

subsection \<open>The session and its preset\<close>

definition IsToolAllowedForSession :: "tool_session \<Rightarrow> string \<Rightarrow> ResolvedToolPreset option \<Rightarrow> bool" where
  "IsToolAllowedForSession session toolName preset =
     (if ts_RouteToolsDisabled session then False
      else if (case preset of Some p \<Rightarrow> \<not> set_Contains (rp_AllowedTools p) toolName | None \<Rightarrow> False) then False
      else if ts_RouteAllowedTools session \<noteq> [] then toolName \<in> set (ts_RouteAllowedTools session)
      else True)"

definition session_preset :: "tool_executor \<Rightarrow> tool_session \<Rightarrow> ResolvedToolPreset option" where
  "session_preset ex session =
     (case ex_presetResolver ex of Some resolve \<Rightarrow> resolve session (map fst (ex_toolsByName ex)) | None \<Rightarrow> None)"

definition GetToolDeclarations :: "tool_executor \<Rightarrow> tool_session \<Rightarrow> string list" where
  "GetToolDeclarations ex session =
     filter (\<lambda>name. IsToolAllowedForSession session name (session_preset ex session)) (map (tl_Name \<circ> snd) (ex_toolsByName ex))"

definition find_tool :: "tool_executor \<Rightarrow> tool_call \<Rightarrow> tool option" where
  "find_tool ex cl =
     (case cl_boundTool cl of
        Some t \<Rightarrow> if tl_Name t = cl_toolName cl then Some t else map_of (ex_toolsByName ex) (cl_toolName cl)
      | None \<Rightarrow> map_of (ex_toolsByName ex) (cl_toolName cl))"

definition session_gate :: "tool_executor \<Rightarrow> tool_call \<Rightarrow> string \<Rightarrow> trace \<Rightarrow> tool gate" where
  "session_gate ex cl persisted tr =
     (if cl_toolName cl = ''update_goal'' \<and> cl_toolCallCount cl > 1 then
        (Inl (blocked_result cl persisted ''Error: update_goal must be called alone after all other tools have completed.''
           ''tool_failed'' [] [] None), tr)
      else case find_tool ex cl of
        None \<Rightarrow>
          (Inl (StopResult (CreateImmediateResult cl persisted ''Error: Unknown tool'' ''failed'' ''tool_failed'' ''Unknown tool.''
             ''Use one of the tools declared for this session.'' None)), tr)
      | Some tool \<Rightarrow>
          if ts_RouteToolsDisabled (cl_session cl) then
            (let message = ''Tool '' @ quoted (tl_Name tool) @ '' is disabled for this routed turn.'' in
             (Inl (blocked_result cl persisted message ''preset_blocked'' message ''Continue without tools for this routed turn.'' None), tr))
          else if \<not> IsToolAllowedForSession (cl_session cl) (tl_Name tool) (session_preset ex (cl_session cl)) then
            (let message = ''Tool '' @ quoted (tl_Name tool) @
                 (case session_preset ex (cl_session cl) of
                    None \<Rightarrow> '' is not allowed for this session.''
                  | Some p \<Rightarrow> '' is not allowed for preset '' @ quoted (rp_PresetId p) @ ''.'')
             in (Inl (blocked_result cl persisted message ''preset_blocked'' message
                   ''Use a broader preset on this surface, or change the session preset if that access is intentional.'' None), tr))
          else (Inr tool, tr))"

subsection \<open>The governance service\<close>

text \<open>The descriptor of a call: the tool's own, which may be missing, or that of the table.\<close>

definition ResolveToolActionDescriptor :: "tool_executor \<Rightarrow> tool \<Rightarrow> trace \<Rightarrow> string \<Rightarrow> ToolActionDescriptor option" where
  "ResolveToolActionDescriptor ex tool tr argsJson =
     (case tl_ActionDescriptor tool of
        Some resolve \<Rightarrow> resolve tr argsJson
      | None \<Rightarrow> Some (action_Resolve (ex_unmarshal ex) (tl_Name tool) argsJson))"

definition governance_context :: "tool_call \<Rightarrow> tool \<Rightarrow> string \<Rightarrow> ToolActionDescriptor option \<Rightarrow> ToolGovernanceContext" where
  "governance_context cl tool persisted ad =
     \<lparr>tg_AgentId = ts_Id (cl_session cl), tg_SessionId = ts_Id (cl_session cl), tg_ChannelId = ts_ChannelId (cl_session cl),
      tg_SenderId = ts_SenderId (cl_session cl), tg_CorrelationId = cl_CorrelationId cl, tg_CallId = cl_callId cl,
      tg_ToolName = tl_Name tool, tg_ArgumentsJson = persisted, tg_ActionDescriptor = ad,
      tg_Descriptor = catalog_Resolve (tl_Name tool) (tl_Description tool) ad, tg_IsStreaming = cl_isStreaming cl\<rparr>"

definition audit :: "tool_executor \<Rightarrow> bool \<Rightarrow> trace \<Rightarrow> trace" where
  "audit ex failed tr = (if ex_auditLog ex then tr @ [EvAudit failed] else tr)"

text \<open>What is known of a call once governance has let it through.\<close>

record governed =
  go_args :: string
  go_persisted :: string
  go_descriptor :: "ToolActionDescriptor option"
  go_decision :: GovernanceDecision

definition governance_gate :: "tool_executor \<Rightarrow> tool_call \<Rightarrow> tool \<Rightarrow> string \<Rightarrow> string \<Rightarrow> trace \<Rightarrow> governed gate" where
  "governance_gate ex cl tool argsJson persisted tr =
     (let ad = ResolveToolActionDescriptor ex tool tr persisted;
          ctx = governance_context cl tool persisted ad in
      case ex_Authorize ex tr ctx of
        Inl e \<Rightarrow> (Inl (StopError e), tr)
      | Inr d \<Rightarrow>
          (let tr = tr @ [EvAuthorize ctx d];
               persisted = (if gv_RedactedArgumentsJson d \<noteq> [] \<and> ex_unmarshal ex (gv_RedactedArgumentsJson d) \<noteq> None
                            then ex_Redact ex (gv_RedactedArgumentsJson d) else persisted);
               replace = (gv_Action d = GovernanceActionRedact \<and> gv_ReplacementArgumentsJson d \<noteq> []) in
           if replace \<and> ex_unmarshal ex (gv_ReplacementArgumentsJson d) = None then
             (let message = ''Governance returned invalid replacement tool arguments.'' in
              (Inl (blocked_result cl persisted message ''governance_denied'' message
                 ''Review the governance sidecar redaction response.'' (Some d)), audit ex True tr))
           else
             (let argsJson = (if replace then gv_ReplacementArgumentsJson d else argsJson);
                  persisted = (if replace then ex_Redact ex (gv_ReplacementArgumentsJson d) else persisted);
                  ad = (if replace then ResolveToolActionDescriptor ex tool tr persisted else ad) in
              if gv_Action d \<noteq> GovernanceActionRequireApproval \<and> \<not> gv_Allowed d then
                (let reason = (if gv_Reason d = [] then ''Tool invocation denied by governance policy.'' else gv_Reason d) in
                 (Inl (blocked_result cl persisted reason
                    (if gv_IsUnavailable d then ''governance_unavailable'' else ''governance_denied'') reason
                    (if gv_IsUnavailable d then
                       ''Check governance sidecar availability or adjust fail-open/fail-closed policy before retrying.''
                     else ''Adjust the request or governance policy before retrying.'') (Some d)), audit ex True tr))
              else (Inr \<lparr>go_args = argsJson, go_persisted = persisted, go_descriptor = ad, go_decision = d\<rparr>, tr))))"

subsection \<open>The hooks\<close>

fun hooks_gate :: "tool_call \<Rightarrow> governed \<Rightarrow> nat \<Rightarrow> tool_hook list \<Rightarrow> trace \<Rightarrow> unit gate" where
  "hooks_gate cl g i [] tr = (Inr (), tr)"
| "hooks_gate cl g i (h # hs) tr =
     (let allowed = hk_BeforeExecute h tr (go_persisted g);
          tr = tr @ [EvHook i (go_persisted g) allowed] in
      if \<not> allowed then
        (let message = ''Tool execution denied by hook: '' @ hk_Name h in
         (Inl (blocked_result cl (go_persisted g) message ''tool_failed'' message [] (Some (go_decision g))), tr))
      else hooks_gate cl g (Suc i) hs tr)"

subsection \<open>The orchestrator and the reviewer\<close>

definition BlocksPlanExecuteVerifyDecision :: "string \<Rightarrow> bool" where
  "BlocksPlanExecuteVerifyDecision decision \<longleftrightarrow> decision \<noteq> ''proceed'' \<and> decision \<noteq> ''require_approval''"

text \<open>Whether a reviewer is needed before the orchestrator is asked. \<open>None\<close>: a missing descriptor is dereferenced.\<close>

definition requires_approval :: "tool_executor \<Rightarrow> tool_call \<Rightarrow> tool \<Rightarrow> governed \<Rightarrow> bool option" where
  "requires_approval ex cl tool g =
     (let normalizedToolName = NormalizeApprovalToolName (tl_Name tool);
          explicitlyConfigured = (normalizedToolName \<in> NormalizeApprovalToolName ` set (cf_ApprovalRequiredTools (ex_config ex)));
          presetRequires = (case session_preset ex (cl_session cl) of
              Some p \<Rightarrow> set_Contains (rp_ApprovalRequiredTools p) (tl_Name tool) | None \<Rightarrow> False);
          actionAware = SupportsActionAwareApproval (tl_Name tool);
          governanceRequires = (gv_Action (go_decision g) = GovernanceActionRequireApproval) in
      if go_descriptor g = None \<and> (ex_requireToolApproval ex \<and> actionAware \<or> \<not> governanceRequires) then None
      else
        (let ad = (case go_descriptor g of Some ad \<Rightarrow> ad | None \<Rightarrow> empty_action);
             defaultActionAware = (ex_requireToolApproval ex \<and> actionAware \<and> (ad_IsMutation ad \<or> ad_RequiresApproval ad));
             listed = (ex_requireToolApproval ex \<and>
                 (normalizedToolName \<in> set (ex_approvalRequiredTools ex) \<or> presetRequires));
             inner = (if actionAware \<and> \<not> explicitlyConfigured \<and> \<not> presetRequires then listed \<or> defaultActionAware
                      else defaultActionAware)
         in Some (governanceRequires \<or> ad_RequiresApproval ad \<or> inner)))"

definition approval_denied :: "tool_call \<Rightarrow> governed \<Rightarrow> string \<Rightarrow> string \<Rightarrow> string \<Rightarrow> gate_stop" where
  "approval_denied cl g result message nextStep =
     blocked_result cl (go_persisted g) result ''approval_required'' message nextStep (Some (go_decision g))"

definition reviewer_gate :: "tool_executor \<Rightarrow> tool_call \<Rightarrow> tool \<Rightarrow> governed \<Rightarrow> trace \<Rightarrow> unit gate" where
  "reviewer_gate ex cl tool g tr =
     (case cl_approvalCallback cl of
        Some callback \<Rightarrow>
          (let approved = callback tr (tl_Name tool) (go_persisted g);
               tr = tr @ [EvApproval (go_persisted g) approved, EvApprovalRecorded approved] in
           if \<not> approved then
             (Inl (approval_denied cl g ''Tool execution denied by user.'' ''Tool execution was denied by the reviewer.''
                ''Approve the tool request to allow this action.''), tr)
           else (Inr (), tr))
      | None \<Rightarrow>
          (let message = ''Tool '' @ quoted (tl_Name tool) @
                 '' requires approval but this session has no approval channel '' @ map char_of [0xE2, 0x80, 0x94 :: nat] @ '' auto-denied. '' @
                 ''To enable this tool: connect through the browser chat at /chat (it supports interactive approvals) '' @
                 ''or set OpenClaw:Tooling:RequireToolApproval=false for trusted local sessions.'' in
           (Inl (approval_denied cl g (ex_Redact ex message) message
              ''Use an approval-capable surface such as /chat, or disable approval requirements for trusted local sessions.''),
            tr @ [EvApprovalRecorded False])))"

text \<open>The descriptor must not have changed while the reviewer looked at it.\<close>

definition fingerprint_gate :: "tool_executor \<Rightarrow> tool_call \<Rightarrow> tool \<Rightarrow> governed \<Rightarrow> trace \<Rightarrow> unit gate" where
  "fingerprint_gate ex cl tool g tr =
     (case go_descriptor g of
        None \<Rightarrow> (Inl StopPanic, tr)
      | Some ad \<Rightarrow>
          if ad_ApprovalFingerprint ad = [] then (Inr (), tr)
          else (case ResolveToolActionDescriptor ex tool tr (go_persisted g) of
              None \<Rightarrow> (Inl StopPanic, tr)
            | Some current \<Rightarrow>
                if ad_ApprovalFingerprint current \<noteq> ad_ApprovalFingerprint ad then
                  (let message = ''Tool '' @ quoted (tl_Name tool) @ '' changed after approval was requested; execution blocked.'' in
                   (Inl (approval_denied cl g message message
                      ''Preview the command again and request approval for the updated fingerprint.''), tr))
                else (Inr (), tr)))"

definition approval_gate :: "tool_executor \<Rightarrow> tool_call \<Rightarrow> tool \<Rightarrow> governed \<Rightarrow> trace \<Rightarrow> unit gate" where
  "approval_gate ex cl tool g tr =
     (case requires_approval ex cl tool g of
        None \<Rightarrow> (Inl StopPanic, tr)
      | Some required \<Rightarrow>
          (case ex_EvaluateTool ex tr (go_persisted g) required of
             Inl e \<Rightarrow> (Inl (StopError e), tr)
           | Inr pev \<Rightarrow>
               (let tr = tr @ [EvEvaluate (go_persisted g) required pev] in
                if BlocksPlanExecuteVerifyDecision (pv_Decision pev) then
                  (let blocked = ''Plan-Execute-Verify decision '' @ quoted (pv_Decision pev) @ '' blocked tool execution: '' @ pv_Summary pev in
                   (Inl (approval_denied cl g (ex_Redact ex blocked) blocked
                      ''Review the linked Plan-Execute-Verify run before retrying.''), tr))
                else if required \<or> pv_RequiresApproval pev then
                  bindG (reviewer_gate ex cl tool g tr) (\<lambda>_. fingerprint_gate ex cl tool g)
                else (Inr (), tr))))"

text \<open>All the gates, in the order of the code.\<close>

definition all_gates :: "tool_executor \<Rightarrow> tool_call \<Rightarrow> trace \<Rightarrow> (tool \<times> governed) gate" where
  "all_gates ex cl tr =
     (let persisted = ex_Redact ex (cl_argsJson cl) in
      bindG (session_gate ex cl persisted tr) (\<lambda>tool.
      \<lambda>tr. bindG (governance_gate ex cl tool (cl_argsJson cl) persisted tr) (\<lambda>g.
      \<lambda>tr. bindG (hooks_gate cl g 0 (ex_hooks ex) tr) (\<lambda>_.
      \<lambda>tr. bindG (approval_gate ex cl tool g tr) (\<lambda>_ tr. (Inr (tool, g), tr))))))"

subsection \<open>Running the tool\<close>

definition LooksLikeOperatorAuthFailure :: "string \<Rightarrow> bool" where
  "LooksLikeOperatorAuthFailure message \<longleftrightarrow>
     list_ex (Contains message)
       [''operator auth'', ''operator authentication'', ''operator token'', ''browser-session'', ''account-token'',
        ''bootstrap token'', ''current surface'']"

definition BuildFailureNextStep :: "string \<Rightarrow> string \<Rightarrow> string" where
  "BuildFailureNextStep toolName failureCode =
     (if failureCode = ''operator_auth_required'' then
        ''Authenticate with a browser session or operator token on this surface before retrying the tool.''
      else if failureCode = ''browser_backend_missing'' then
        ''Configure a browser execution backend or sandbox, or disable the browser tool in this runtime.''
      else if failureCode = ''runtime_capability_unavailable'' then
        (if toolName = ''shell'' then
           ''Configure the required sandbox or execution backend for shell, or relax the tool policy for trusted local sessions.''
         else ''Configure the required execution backend or sandbox for this tool, or disable the tool in this runtime.'')
      else [])"

definition ClassifyToolFailureCode :: "tool \<Rightarrow> string \<Rightarrow> string" where
  "ClassifyToolFailureCode tool message =
     (if LooksLikeOperatorAuthFailure message then ''operator_auth_required''
      else if (case tl_LocalPolicy tool of Some (supported, _, msg) \<Rightarrow> \<not> supported \<and> message = msg | None \<Rightarrow> False) then
        (case tl_LocalPolicy tool of Some (_, failureCode, _) \<Rightarrow> failureCode | None \<Rightarrow> [])
      else if tl_Name tool = ''browser'' then
        (if Contains message ''execution backend'' \<or> Contains message ''Local Playwright execution is unavailable''
         then ''browser_backend_missing'' else ''runtime_capability_unavailable'')
      else if Contains message ''sandbox'' \<or> Contains message ''execution backend'' then ''runtime_capability_unavailable''
      else ''tool_failed'')"

definition TryGetMetaInvokeArguments :: "unmarshal_map \<Rightarrow> string \<Rightarrow> (string \<times> string) option" where
  "TryGetMetaInvokeArguments unmarshal argsJson =
     (if argsJson = [] then None
      else case unmarshal argsJson of
        None \<Rightarrow> None
      | Some doc \<Rightarrow>
          (case (map_of doc ''skill'', map_of doc ''input'') of
             (Some (JStr skill), Some (JStr inp)) \<Rightarrow> if skill \<noteq> [] \<and> inp \<noteq> [] then Some (skill, inp) else None
           | _ \<Rightarrow> None))"

definition MaxChars :: nat where
  "MaxChars = 1000000"

definition ellipsis :: string where
  "ellipsis = map char_of [0xE2, 0x80, 0xA6 :: nat]"

text \<open>The chunks of a stream, up to a limit.\<close>

fun collect_chunks :: "nat \<Rightarrow> string \<Rightarrow> string list \<Rightarrow> string" where
  "collect_chunks limit sb [] = sb"
| "collect_chunks limit sb (chunk # chunks) =
     collect_chunks limit
       (if length sb < limit then
          (let remaining = limit - length sb in if length chunk \<le> remaining then sb @ chunk else sb @ take remaining chunk)
        else sb) chunks"

definition stream_text :: "nat \<Rightarrow> string list \<Rightarrow> string" where
  "stream_text limit chunks =
     (let sb = collect_chunks limit [] chunks in if length sb \<ge> limit then sb @ ellipsis else sb)"

definition ExecuteStreamingToolCollect ::
    "tool_executor \<Rightarrow> tool \<Rightarrow> (trace \<Rightarrow> string \<Rightarrow> exec_error + string list) \<Rightarrow> string \<Rightarrow> trace \<Rightarrow> string tool_run" where
  "ExecuteStreamingToolCollect ex tool stream argsJson tr =
     (let tr = tr @ [EvStream (tl_Name tool) argsJson (if ex_toolTimeout ex > 0 then Some (ex_toolTimeout ex) else None)] in
      case stream tr argsJson of
        Inl e \<Rightarrow> (Inl e, tr)
      | Inr chunks \<Rightarrow>
          (let result = stream_text MaxChars chunks; redacted = ex_Redact ex result in
           (Inr result,
            tr @ (if redacted = result then map EvDelta chunks else if redacted \<noteq> [] then [EvDelta redacted] else []))))"

text \<open>How the run of a tool came out.\<close>

record tool_outcome =
  oc_result :: string
  oc_status :: string
  oc_failureCode :: string
  oc_failureMessage :: string
  oc_nextStep :: string
  oc_failed :: bool
  oc_timedOut :: bool

definition outcome_completed :: "string \<Rightarrow> tool_outcome" where
  "outcome_completed result =
     \<lparr>oc_result = result, oc_status = ''Completed'', oc_failureCode = [], oc_failureMessage = [], oc_nextStep = [],
      oc_failed = False, oc_timedOut = False\<rparr>"

definition outcome_failed :: "string \<Rightarrow> string \<Rightarrow> string \<Rightarrow> string \<Rightarrow> string \<Rightarrow> bool \<Rightarrow> tool_outcome" where
  "outcome_failed result status failureCode failureMessage nextStep timedOut =
     \<lparr>oc_result = result, oc_status = status, oc_failureCode = failureCode, oc_failureMessage = failureMessage,
      oc_nextStep = nextStep, oc_failed = True, oc_timedOut = timedOut\<rparr>"

text \<open>An error of the tool while the caller is still there.\<close>

fun error_outcome :: "tool \<Rightarrow> exec_error \<Rightarrow> tool_outcome" where
  "error_outcome tool (ExecError message True) =
     outcome_failed ''Error: Tool execution timed out.'' ''failed'' ''timeout'' message
       ''Retry the tool call or increase Tooling.ToolTimeoutSeconds.'' True"
| "error_outcome tool (ExecError message False) =
     (let failureCode = ClassifyToolFailureCode tool message in
      if failureCode \<in> {''operator_auth_required'', ''browser_backend_missing'', ''runtime_capability_unavailable''} then
        outcome_failed (if HasPrefix (ToLower message) ''error:'' then message else ''Error: '' @ message) ''blocked''
          failureCode message (BuildFailureNextStep (tl_Name tool) failureCode) False
      else outcome_failed ''Error: Tool execution failed.'' ''failed'' failureCode message [] False)"

fun error_text :: "exec_error \<Rightarrow> string" where
  "error_text (ExecError message deadline) = message"

text \<open>
  The tool proper: as a stream, as a meta skill or by the router. \<open>Inl\<close> is the error of a caller that has gone away.
\<close>

definition meta_invoke_outcome :: "string \<Rightarrow> tool_outcome" where
  "meta_invoke_outcome result =
     (if Contains result ''disabled by runtime policy'' \<or> Contains (ToLower result) ''disabled by runtime policy'' then
        outcome_failed result ''blocked'' ''runtime_capability_unavailable'' result
          ''Use a non-meta skill or enable meta invocation in runtime policy.'' False
      else outcome_completed result)"

definition run_outcome :: "tool_executor \<Rightarrow> tool_call \<Rightarrow> tool \<Rightarrow> string tool_run \<Rightarrow> tool_outcome tool_run" where
  "run_outcome ex cl tool r =
     (case r of
        (Inr result, tr) \<Rightarrow>
          (Inr (if ex_metaInvoke ex \<noteq> None \<and> tl_Name tool = ''meta_invoke'' \<and>
                  Contains (ToLower result) ''disabled by runtime policy''
                then meta_invoke_outcome result else outcome_completed result), tr)
      | (Inl e, tr) \<Rightarrow>
          if cl_cancelled cl tr then (Inl (ExecError ''context canceled'' False), tr)
          else (Inr (error_outcome tool e), tr))"

definition call_tool :: "tool_executor \<Rightarrow> tool_call \<Rightarrow> tool \<Rightarrow> string \<Rightarrow> trace \<Rightarrow> tool_outcome tool_run" where
  "call_tool ex cl tool executionArgs tr =
     (case (if cl_onDelta cl then tl_Stream tool else None) of
        Some stream \<Rightarrow> run_outcome ex cl tool (ExecuteStreamingToolCollect ex tool stream executionArgs tr)
      | None \<Rightarrow>
          (case (ex_metaInvoke ex,
                 if tl_Name tool = ''meta_invoke'' then TryGetMetaInvokeArguments (ex_unmarshal ex) executionArgs else None) of
             (Some invoke, Some (skill, inp)) \<Rightarrow>
               (let tr = tr @ [EvMetaInvoke skill inp] in (Inr (meta_invoke_outcome (invoke tr skill inp)), tr))
           | _ \<Rightarrow>
               run_outcome ex cl tool
                 (ExecuteToolWithRouting (ex_config ex) (ex_toolSandbox ex) (ex_backends ex) (ex_run ex) (ex_toolTimeout ex)
                    (ts_Id (cl_session cl)) tool executionArgs tr)))"

text \<open>The secrets are filled in first; what is kept are the arguments with the secrets left out, redacted.\<close>

definition run_tool :: "tool_executor \<Rightarrow> tool_call \<Rightarrow> tool \<Rightarrow> governed \<Rightarrow> trace \<Rightarrow> (tool_outcome \<times> string option) tool_run" where
  "run_tool ex cl tool g tr =
     (case ex_Substitute ex tr (go_args g) of
        Inl e \<Rightarrow>
          (Inr (outcome_failed ''Error: Tool execution failed.'' ''failed'' (ClassifyToolFailureCode tool (error_text e)) (error_text e) [] False, None),
           tr @ [EvSubstitute (go_args g)])
      | Inr (executionArgs, persisted) \<Rightarrow>
          (case call_tool ex cl tool executionArgs (tr @ [EvSubstitute (go_args g)]) of
             (Inl e, tr) \<Rightarrow> (Inl e, tr)
           | (Inr oc, tr) \<Rightarrow> (Inr (oc, Some (ex_Redact ex persisted)), tr)))"

subsection \<open>After the run\<close>

fun intercept_loop :: "nat \<Rightarrow> (int \<times> (trace \<Rightarrow> string \<Rightarrow> string option)) list \<Rightarrow> string \<Rightarrow> trace \<Rightarrow> string \<times> trace" where
  "intercept_loop i [] result tr = (result, tr)"
| "intercept_loop i ((ord, intercept) # rest) result tr =
     (let tr = tr @ [EvIntercept i result] in
      intercept_loop (Suc i) rest (case intercept tr result of Some r \<Rightarrow> r | None \<Rightarrow> result) tr)"

definition redact_if :: "tool_executor \<Rightarrow> string \<Rightarrow> string" where
  "redact_if ex s = (if s \<noteq> [] then ex_Redact ex s else s)"

text \<open>Redaction, interceptors in their order, the records and the hooks.\<close>

definition finish_call :: "tool_executor \<Rightarrow> tool_call \<Rightarrow> governed \<Rightarrow> tool_outcome \<Rightarrow> string option \<Rightarrow> trace \<Rightarrow> tool_result \<times> trace" where
  "finish_call ex cl g oc substituted tr =
     (let persistedArgs = (case substituted of Some a \<Rightarrow> a | None \<Rightarrow> []);
          contextArgs = (case substituted of Some a \<Rightarrow> a | None \<Rightarrow> go_persisted g);
          failureMessage = redact_if ex (oc_failureMessage oc);
          nextStep = redact_if ex (oc_nextStep oc);
          (result, tr) = intercept_loop 0 (sort_key fst (ex_interceptors ex)) (ex_Redact ex (oc_result oc)) tr;
          tr = tr @ [EvRecordResult
            \<lparr>ge_ResultStatus = oc_status oc, ge_FailureCode = oc_failureCode oc, ge_FailureMessage = failureMessage,
             ge_Failed = oc_failed oc, ge_TimedOut = oc_timedOut oc, ge_DurationMs = cl_elapsedMs cl,
             ge_ResultBytes = length result\<rparr>];
          tr = audit ex (oc_failed oc) tr;
          tr = tr @ map (\<lambda>(i, h). EvAfterHook i (if hk_WithContext h then contextArgs else persistedArgs) result)
                      (enumerate 0 (ex_hooks ex)) @ [EvComplete]
      in (\<lparr>tr_ResultText = result, tr_ResultStatus = oc_status oc, tr_FailureCode = oc_failureCode oc,
           tr_FailureMessage = failureMessage, tr_RetrySafe = False, tx_ToolName = cl_toolName cl,
           tx_Arguments = persistedArgs, tx_CallId = cl_callId cl, tx_NextStep = nextStep,
           tx_Governance = Some (go_decision g)\<rparr>, tr))"

subsection \<open>The whole call\<close>

datatype call_end = CallReturned tool_result | CallFailedWith exec_error | CallPanicked

fun stopped :: "gate_stop \<Rightarrow> call_end" where
  "stopped (StopResult r) = CallReturned r"
| "stopped (StopError e) = CallFailedWith e"
| "stopped StopPanic = CallPanicked"

definition executor_Execute :: "tool_executor \<Rightarrow> tool_call \<Rightarrow> call_end \<times> trace" where
  "executor_Execute ex cl =
     (case all_gates ex cl [] of
        (Inl stop, tr) \<Rightarrow> (stopped stop, tr)
      | (Inr (tool, g), tr) \<Rightarrow>
          (case run_tool ex cl tool g tr of
             (Inl e, tr') \<Rightarrow> (CallFailedWith e, tr')
           | (Inr (oc, substituted), tr') \<Rightarrow>
               (case finish_call ex cl g oc substituted tr' of (res, tr'') \<Rightarrow> (CallReturned res, tr''))))"

end
