(* ===== verification/Tool_Safety.thy ===== *)
theory Tool_Safety
  imports Tool_Gate
begin

section \<open>What a tool call guarantees\<close>

text \<open>
  The properties of \<open>executor_Execute\<close>: a tool runs only behind open gates, what an unreachable governance service and
  a default redaction do to a call, which lists ask for a reviewer, and that a run leaves a record.
\<close>

subsection \<open>The events of each part\<close>

fun is_run :: "tool_event \<Rightarrow> bool" where
  "is_run (EvInvoke t a d) = True"
| "is_run (EvStream t a d) = True"
| "is_run (EvMetaInvoke s i) = True"
| "is_run (EvBackend b r) = True"
| "is_run _ = False"

fun is_record :: "tool_event \<Rightarrow> bool" where
  "is_record (EvRecordResult r) = True"
| "is_record (EvAudit failed) = True"
| "is_record _ = False"

lemma only_newI: "snd r = tr @ new \<Longrightarrow> list_all p new \<Longrightarrow> only_new p tr r"
  by (auto simp: only_new_def)

lemma only_new_same_trace: "only_new p tr r \<Longrightarrow> snd r = snd r' \<Longrightarrow> only_new p tr r'"
  by (simp add: only_new_def)

lemma only_new_bindG:
  assumes "only_new p tr g" "\<And>x tr'. g = (Inr x, tr') \<Longrightarrow> only_new p tr' (f x tr')"
  shows "only_new p tr (bindG g f)"
proof (cases g)
  case (Pair r tr')
  show ?thesis
  proof (cases r)
    case (Inl stop)
    with Pair assms(1) show ?thesis by (simp add: only_new_def)
  next
    case (Inr x)
    with Pair assms(2) have "only_new p (snd g) (f x tr')" by simp
    with Pair Inr assms(1) show ?thesis using only_new_trans by fastforce
  qed
qed

definition is_gate_event :: "tool_event \<Rightarrow> bool" where
  "is_gate_event e \<longleftrightarrow> (case e of EvAuthorize c d \<Rightarrow> True | EvHook i a b \<Rightarrow> True | EvEvaluate a r v \<Rightarrow> True
     | EvApproval a b \<Rightarrow> True | EvApprovalRecorded b \<Rightarrow> True | EvAudit b \<Rightarrow> b | _ \<Rightarrow> False)"

lemma gate_event_simps [simp]:
  "is_gate_event (EvAuthorize c d)" "is_gate_event (EvHook i a b)" "is_gate_event (EvEvaluate a r v)"
  "is_gate_event (EvApproval a b)" "is_gate_event (EvApprovalRecorded b)" "is_gate_event (EvAudit True)"
  by (simp_all add: is_gate_event_def)

lemma gate_event_no_run: "is_gate_event e \<Longrightarrow> \<not> is_run e"
  by (cases e) (auto simp: is_gate_event_def)

lemma session_gate_trace: "snd (session_gate ex cl p tr) = tr"
  by (auto simp: session_gate_def Let_def split: option.splits)

lemma session_gate_new: "only_new q tr (session_gate ex cl p tr)"
  using session_gate_trace [of ex cl p tr] by (cases "session_gate ex cl p tr") (simp add: only_new_def)

lemma governance_gate_new: "only_new is_gate_event tr (governance_gate ex cl tool a p tr)"
  unfolding governance_gate_def Let_def
  by (auto simp: only_new_def audit_def split: sum.splits)

lemma hooks_gate_new: "only_new is_gate_event tr (hooks_gate cl g i hs tr)"
proof (induction hs arbitrary: i tr)
  case (Cons h hs)
  let ?e = "EvHook i (go_persisted g) (hk_BeforeExecute h tr (go_persisted g))"
  have "only_new is_gate_event tr ((), tr @ [?e])" by (simp add: only_new_def)
  from only_new_trans [OF this, simplified, OF Cons.IH]
  show ?case by (auto simp: Let_def only_new_def)
qed simp

lemma reviewer_gate_new: "only_new is_gate_event tr (reviewer_gate ex cl tool g tr)"
  by (auto simp: reviewer_gate_def only_new_def Let_def split: option.splits)

lemma fingerprint_gate_trace: "snd (fingerprint_gate ex cl tool g tr) = tr"
  by (auto simp: fingerprint_gate_def Let_def split: option.splits)

lemma fingerprint_gate_new: "only_new q tr (fingerprint_gate ex cl tool g tr)"
  using fingerprint_gate_trace [of ex cl tool g tr] by (simp add: only_new_def)

lemma approval_gate_new: "only_new is_gate_event tr (approval_gate ex cl tool g tr)"
proof -
  have *: "only_new is_gate_event tr (bindG (reviewer_gate ex cl tool g (tr @ [e])) (\<lambda>_. fingerprint_gate ex cl tool g))"
    if "is_gate_event e" for e
  proof -
    have "only_new is_gate_event tr ((), tr @ [e])" using that by (simp add: only_new_def)
    from only_new_trans [OF this, simplified, OF only_new_bindG [OF reviewer_gate_new fingerprint_gate_new]]
    show ?thesis .
  qed
  show ?thesis
    unfolding approval_gate_def Let_def
    by (auto simp: * split: option.splits sum.splits) (auto simp: only_new_def)
qed

lemma all_gates_new: "only_new is_gate_event tr (all_gates ex cl tr)"
  unfolding all_gates_def Let_def
  by (intro only_new_bindG session_gate_new governance_gate_new hooks_gate_new approval_gate_new) simp

subsection \<open>Open gates\<close>

text \<open>
  What must be in the trace for a tool to run: the session and its preset allow it, governance has allowed it or left it
  to a reviewer who agreed, every hook has agreed, the orchestrator does not block it, and when anyone asked for
  a reviewer, the reviewer agreed.
\<close>

definition approved :: "trace \<Rightarrow> bool" where
  "approved tr \<longleftrightarrow> (\<exists>a. EvApproval a True \<in> set tr)"

definition gates_open :: "tool_executor \<Rightarrow> tool_call \<Rightarrow> tool \<Rightarrow> trace \<Rightarrow> bool" where
  "gates_open ex cl tool tr \<longleftrightarrow>
     find_tool ex cl = Some tool \<and>
     IsToolAllowedForSession (cl_session cl) (tl_Name tool) (session_preset ex (cl_session cl)) \<and>
     (\<exists>ctx d. EvAuthorize ctx d \<in> set tr \<and> tg_ToolName ctx = tl_Name tool \<and>
        (gv_Action d = GovernanceActionRequireApproval \<and> approved tr \<or>
         gv_Action d \<noteq> GovernanceActionRequireApproval \<and> gv_Allowed d)) \<and>
     (\<forall>i < length (ex_hooks ex). \<exists>a. EvHook i a True \<in> set tr) \<and>
     (\<exists>a required v. EvEvaluate a required v \<in> set tr \<and> \<not> BlocksPlanExecuteVerifyDecision (pv_Decision v) \<and>
        (required \<or> pv_RequiresApproval v \<longrightarrow> approved tr))"

lemma approved_mono: "approved tr \<Longrightarrow> set tr \<subseteq> set tr' \<Longrightarrow> approved tr'"
  by (auto simp: approved_def)

lemma gates_open_mono:
  assumes "gates_open ex cl tool tr" "set tr \<subseteq> set tr'"
  shows "gates_open ex cl tool tr'"
proof -
  note sub = subsetD [OF assms(2)] approved_mono [OF _ assms(2)]
  from assms(1) show ?thesis unfolding gates_open_def by (meson sub)
qed

lemma session_gate_Inr:
  "session_gate ex cl p tr = (Inr tool, tr') \<Longrightarrow>
     tr' = tr \<and> find_tool ex cl = Some tool \<and>
     IsToolAllowedForSession (cl_session cl) (tl_Name tool) (session_preset ex (cl_session cl))"
  by (auto simp: session_gate_def Let_def split: if_splits option.splits)

lemma governance_gate_Inr:
  assumes "governance_gate ex cl tool a p tr = (Inr g, tr')"
  shows "(\<exists>ctx. tr' = tr @ [EvAuthorize ctx (go_decision g)] \<and> tg_ToolName ctx = tl_Name tool) \<and>
     (gv_Action (go_decision g) = GovernanceActionRequireApproval \<or> gv_Allowed (go_decision g))"
  using assms by (auto simp: governance_gate_def governance_context_def Let_def split: sum.splits if_splits)

lemma hooks_gate_Inr:
  assumes "hooks_gate cl g i hs tr = (Inr u, tr')" "j < length hs"
  shows "EvHook (i + j) (go_persisted g) True \<in> set tr'"
  using assms
proof (induction hs arbitrary: i j tr)
  case (Cons h hs)
  let ?e = "EvHook i (go_persisted g) True"
  from Cons.prems have rest: "hooks_gate cl g (Suc i) hs (tr @ [?e]) = (Inr u, tr')"
    by (auto simp: Let_def split: if_splits)
  show ?case
  proof (cases j)
    case 0
    have "only_new is_gate_event (tr @ [?e]) (hooks_gate cl g (Suc i) hs (tr @ [?e]))" by (rule hooks_gate_new)
    with rest 0 show ?thesis by (auto simp: only_new_def)
  next
    case (Suc k)
    with Cons.prems(2) Cons.IH [OF rest, of k] show ?thesis by simp
  qed
qed simp

lemma hooks_gate_grows: "hooks_gate cl g i hs tr = (Inr u, tr') \<Longrightarrow> set tr \<subseteq> set tr'"
  using hooks_gate_new [of tr cl g i hs] by (auto simp: only_new_def)

lemma reviewer_gate_Inr: "reviewer_gate ex cl tool g tr = (Inr u, tr') \<Longrightarrow> approved tr' \<and> set tr \<subseteq> set tr'"
  by (auto simp: reviewer_gate_def approved_def Let_def split: option.splits if_splits)

lemma fingerprint_gate_Inr: "fingerprint_gate ex cl tool g tr = (Inr u, tr') \<Longrightarrow> tr' = tr"
  using fingerprint_gate_trace [of ex cl tool g tr] by simp

lemma requires_approval_governed:
  "requires_approval ex cl tool g = Some required \<Longrightarrow> gv_Action (go_decision g) = GovernanceActionRequireApproval \<Longrightarrow> required"
  by (auto simp: requires_approval_def Let_def split: if_splits)

lemma approval_gate_Inr:
  assumes "approval_gate ex cl tool g tr = (Inr u, tr')"
  shows "(\<exists>a required v. EvEvaluate a required v \<in> set tr' \<and> \<not> BlocksPlanExecuteVerifyDecision (pv_Decision v) \<and>
        (required \<or> pv_RequiresApproval v \<longrightarrow> approved tr') \<and>
        (gv_Action (go_decision g) = GovernanceActionRequireApproval \<longrightarrow> approved tr')) \<and> set tr \<subseteq> set tr'"
proof -
  from assms obtain required where r: "requires_approval ex cl tool g = Some required"
    by (cases "requires_approval ex cl tool g") (auto simp: approval_gate_def)
  from assms r obtain v where v: "ex_EvaluateTool ex tr (go_persisted g) required = Inr v"
    by (cases "ex_EvaluateTool ex tr (go_persisted g) required") (auto simp: approval_gate_def)
  let ?e = "EvEvaluate (go_persisted g) required v"
  from assms r v have nb: "\<not> BlocksPlanExecuteVerifyDecision (pv_Decision v)"
    by (auto simp: approval_gate_def Let_def split: if_splits)
  show ?thesis
  proof (cases "required \<or> pv_RequiresApproval v")
    case True
    with assms r v nb have "bindG (reviewer_gate ex cl tool g (tr @ [?e])) (\<lambda>_. fingerprint_gate ex cl tool g) = (Inr u, tr')"
      by (simp add: approval_gate_def Let_def)
    then have "approved tr'" "set (tr @ [?e]) \<subseteq> set tr'"
      by (auto elim!: bindG_InrE dest!: reviewer_gate_Inr fingerprint_gate_Inr)
    with nb show ?thesis by auto
  next
    case False
    with assms r v nb have "tr' = tr @ [?e]" by (simp add: approval_gate_def Let_def)
    with False nb requires_approval_governed [OF r] show ?thesis by auto
  qed
qed

lemma all_gates_open:
  assumes "all_gates ex cl tr = (Inr (tool, g), tr')"
  shows "gates_open ex cl tool tr'"
proof -
  let ?p = "ex_Redact ex (cl_argsJson cl)"
  from assms obtain tr0 tr1 tr2 where
    s: "session_gate ex cl ?p tr = (Inr tool, tr0)" and
    g: "governance_gate ex cl tool (cl_argsJson cl) ?p tr0 = (Inr g, tr1)" and
    h: "hooks_gate cl g 0 (ex_hooks ex) tr1 = (Inr (), tr2)" and
    a: "approval_gate ex cl tool g tr2 = (Inr (), tr')"
    unfolding all_gates_def Let_def
    by (auto elim!: bindG_InrE)
  note ap = approval_gate_Inr [OF a]
  have sub: "set tr1 \<subseteq> set tr2" "set tr2 \<subseteq> set tr'"
    using hooks_gate_grows [OF h] ap by auto
  have hooks: "\<forall>i < length (ex_hooks ex). \<exists>a. EvHook i a True \<in> set tr'"
    using hooks_gate_Inr [OF h] sub by fastforce
  have gov: "\<exists>ctx. EvAuthorize ctx (go_decision g) \<in> set tr' \<and> tg_ToolName ctx = tl_Name tool"
    using governance_gate_Inr [OF g] sub by auto
  from session_gate_Inr [OF s] governance_gate_Inr [OF g] gov hooks ap
  show ?thesis unfolding gates_open_def by blast
qed

lemma gate_events_no_run: "only_new is_gate_event [] r \<Longrightarrow> e \<in> set (snd r) \<Longrightarrow> \<not> is_run e"
  by (auto simp: only_new_def list_all_iff dest: gate_event_no_run)

subsection \<open>The run and what follows\<close>

definition run_event :: "tool_event \<Rightarrow> bool" where
  "run_event e \<longleftrightarrow> is_run e \<or> (\<exists>s. e = EvDelta s)"

lemma run_event_simps [simp]:
  "run_event (EvInvoke t a d)" "run_event (EvStream t a d)" "run_event (EvMetaInvoke s i)" "run_event (EvBackend b r)"
  "run_event (EvDelta c)" "\<not> run_event (EvRecordResult x)" "\<not> run_event (EvAudit f)" "\<not> run_event (EvSubstitute a)"
  by (simp_all add: run_event_def)

lemma handle_new: "only_new run_event tr (handleToolExecutorError rt tmo tool bn a e tr)"
  by (simp add: handleToolExecutorError_def only_new_local)

lemma routing_new: "only_new run_event tr (ExecuteToolWithRouting cfg sandbox bs run tmo sid tool a tr)"
proof (cases "tl_Sandbox tool")
  case None
  then show ?thesis by (simp add: routing_defs only_new_local)
next
  case (Some sb)
  have "only_new run_event tr (dispatch_tool cfg bs run tmo sid (TryResolveRoute cfg tool) sb tool a tr)"
    by (rule only_new_dispatch) (simp_all add: handle_new)
  with Some show ?thesis by (simp add: routing_defs only_new_local)
qed

lemma stream_new: "only_new run_event tr (ExecuteStreamingToolCollect ex tool stream a tr)"
  by (auto simp: ExecuteStreamingToolCollect_def Let_def only_new_def list_all_iff split: sum.splits)

lemma run_outcome_trace: "snd (run_outcome ex cl tool r) = snd r"
  by (auto simp: run_outcome_def split: sum.splits prod.splits)

lemma call_tool_new: "only_new run_event tr (call_tool ex cl tool a tr)"
proof -
  have "only_new run_event tr (run_outcome ex cl tool r)" if "only_new run_event tr r" for r
    using that by (rule only_new_same_trace) (simp add: run_outcome_trace)
  note * = this [OF stream_new] this [OF routing_new]
  show ?thesis
    unfolding call_tool_def
    by (auto simp: * Let_def split: option.splits) (auto simp: only_new_def)
qed

lemma run_tool_new: "only_new (\<lambda>e. run_event e \<or> e = EvSubstitute (go_args g)) tr (run_tool ex cl tool g tr)"
proof (cases "ex_Substitute ex tr (go_args g)")
  case (Inl e)
  then show ?thesis by (simp add: run_tool_def only_new_def)
next
  case (Inr p)
  obtain x y where p: "p = (x, y)" by (cases p)
  obtain r tr' where r: "call_tool ex cl tool x (tr @ [EvSubstitute (go_args g)]) = (r, tr')"
    by (cases "call_tool ex cl tool x (tr @ [EvSubstitute (go_args g)])")
  have "only_new run_event (tr @ [EvSubstitute (go_args g)]) (r, tr')"
    using call_tool_new [of "tr @ [EvSubstitute (go_args g)]" ex cl tool x] r by simp
  then have "only_new (\<lambda>e. run_event e \<or> e = EvSubstitute (go_args g)) tr (y, tr')" for y :: "exec_error + tool_outcome \<times> string option"
    by (auto simp: only_new_def list_all_iff)
  with Inr p r show ?thesis by (cases r) (auto simp: run_tool_def)
qed

text \<open>Interceptors, the hooks after the run and the end of the call.\<close>

fun is_after :: "tool_event \<Rightarrow> bool" where
  "is_after (EvIntercept i r) = True"
| "is_after (EvAfterHook i a r) = True"
| "is_after EvComplete = True"
| "is_after _ = False"

lemma after_no_record: "is_after e \<Longrightarrow> \<not> is_record e"
  by (cases e) auto

lemma intercept_loop_new: "\<exists>new. snd (intercept_loop i xs r tr) = tr @ new \<and> list_all is_after new"
proof (induction i xs r tr rule: intercept_loop.induct)
  case (2 i ord intercept rest result tr)
  then show ?case by (auto simp: Let_def split: option.splits)
qed simp

lemma finish_call_shape:
  assumes "finish_call ex cl g oc sub tr = (res, tr')"
  shows "\<exists>mid rec audits rest. tr' = tr @ mid @ EvRecordResult rec # audits @ rest \<and> list_all is_after (mid @ rest) \<and>
     audits = (if ex_auditLog ex then [EvAudit (oc_failed oc)] else []) \<and>
     ge_ResultStatus rec = oc_status oc \<and> ge_Failed rec = oc_failed oc \<and> ge_ResultBytes rec = length (tr_ResultText res) \<and>
     tr_ResultStatus res = oc_status oc"
proof -
  let ?i = "intercept_loop 0 (sort_key fst (ex_interceptors ex)) (ex_Redact ex (oc_result oc)) tr"
  obtain mid where mid: "snd ?i = tr @ mid" "list_all is_after mid"
    using intercept_loop_new by blast
  let ?rest = "map (\<lambda>(i, h). EvAfterHook i (if hk_WithContext h then (case sub of Some a \<Rightarrow> a | None \<Rightarrow> go_persisted g)
      else (case sub of Some a \<Rightarrow> a | None \<Rightarrow> [])) (fst ?i)) (enumerate 0 (ex_hooks ex)) @ [EvComplete]"
  have rest: "list_all is_after ?rest"
    by (auto simp: list_all_iff)
  from assms mid have "tr' = tr @ mid @ EvRecordResult
      \<lparr>ge_ResultStatus = oc_status oc, ge_FailureCode = oc_failureCode oc, ge_FailureMessage = redact_if ex (oc_failureMessage oc),
       ge_Failed = oc_failed oc, ge_TimedOut = oc_timedOut oc, ge_DurationMs = cl_elapsedMs cl, ge_ResultBytes = length (fst ?i)\<rparr> #
      (if ex_auditLog ex then [EvAudit (oc_failed oc)] else []) @ ?rest"
    "tr_ResultText res = fst ?i" "tr_ResultStatus res = oc_status oc"
    by (auto simp: finish_call_def Let_def audit_def split: prod.splits)
  with mid(2) rest show ?thesis
    by (intro exI [of _ mid] exI [of _ "\<lparr>ge_ResultStatus = oc_status oc, ge_FailureCode = oc_failureCode oc,
       ge_FailureMessage = redact_if ex (oc_failureMessage oc), ge_Failed = oc_failed oc, ge_TimedOut = oc_timedOut oc,
       ge_DurationMs = cl_elapsedMs cl, ge_ResultBytes = length (fst ?i)\<rparr>"]
      exI [of _ "if ex_auditLog ex then [EvAudit (oc_failed oc)] else []"] exI [of _ ?rest]) simp
qed

text \<open>A call is stopped at a gate, or its tool runs and it is finished, or the caller goes away meanwhile.\<close>

lemma executor_cases:
  obtains (stopped) stop tr where "all_gates ex cl [] = (Inl stop, tr)" "executor_Execute ex cl = (stopped stop, tr)"
  | (gone) tool g tr e tr' where "all_gates ex cl [] = (Inr (tool, g), tr)" "run_tool ex cl tool g tr = (Inl e, tr')"
      "executor_Execute ex cl = (CallFailedWith e, tr')"
  | (returned) tool g tr oc sub tr' res tr'' where "all_gates ex cl [] = (Inr (tool, g), tr)"
      "run_tool ex cl tool g tr = (Inr (oc, sub), tr')" "finish_call ex cl g oc sub tr' = (res, tr'')"
      "executor_Execute ex cl = (CallReturned res, tr'')"
proof -
  obtain r tr where g: "all_gates ex cl [] = (r, tr)" by (cases "all_gates ex cl []")
  show thesis
  proof (cases r)
    case (Inl stop)
    with g that(1) show ?thesis by (simp add: executor_Execute_def)
  next
    case (Inr p)
    obtain tool gd where p: "p = (tool, gd)" by (cases p)
    obtain x tr' where x: "run_tool ex cl tool gd tr = (x, tr')" by (cases "run_tool ex cl tool gd tr")
    show ?thesis
    proof (cases x)
      case (Inl e)
      with g Inr p x that(2) show ?thesis by (simp add: executor_Execute_def)
    next
      case (Inr q)
      obtain oc sub where q: "q = (oc, sub)" by (cases q)
      obtain res tr'' where f: "finish_call ex cl gd oc sub tr' = (res, tr'')" by (cases "finish_call ex cl gd oc sub tr'")
      from g \<open>r = Inr p\<close> p x Inr q f that(3) show ?thesis by (simp add: executor_Execute_def)
    qed
  qed
qed

lemma run_tool_grows: "run_tool ex cl tool g tr = (r, tr') \<Longrightarrow> \<exists>new. tr' = tr @ new"
  using run_tool_new [of g tr ex cl tool] by (auto simp: only_new_def)

lemma executor_trace:
  "(\<exists>stop. all_gates ex cl [] = (Inl stop, snd (executor_Execute ex cl))) \<or>
   (\<exists>tool g tr rest. all_gates ex cl [] = (Inr (tool, g), tr) \<and> snd (executor_Execute ex cl) = tr @ rest)"
proof (cases rule: executor_cases [of ex cl])
  case (returned tool g tr oc sub tr' res tr'')
  with finish_call_shape [OF returned(3)] run_tool_grows [OF returned(2)] show ?thesis by auto
qed (auto dest: run_tool_grows)

text \<open>C1: Before any tool runs, in whatever way, the session and its preset allow it, governance has allowed it or left
  it to a reviewer who agreed, every hook has agreed and the orchestrator does not block it; and if anyone asked for a
  reviewer, the reviewer has agreed.\<close>

theorem run_needs_open_gates:
  assumes "snd (executor_Execute ex cl) = pre @ e # post" "is_run e"
  shows "\<exists>tool. gates_open ex cl tool pre"
proof -
  from executor_trace [of ex cl] show ?thesis
  proof (elim disjE exE conjE)
    fix stop assume "all_gates ex cl [] = (Inl stop, snd (executor_Execute ex cl))"
    with all_gates_new [of "[]" ex cl] have "only_new is_gate_event [] (Inl stop :: gate_stop + tool, pre @ e # post)"
      by (simp add: assms(1) only_new_def)
    with assms(2) gate_events_no_run show ?thesis by fastforce
  next
    fix tool g tr rest
    assume g: "all_gates ex cl [] = (Inr (tool, g), tr)" and t: "snd (executor_Execute ex cl) = tr @ rest"
    have "e \<notin> set tr"
      using all_gates_new [of "[]" ex cl] gate_events_no_run [of "all_gates ex cl []" e] assms(2) g by auto
    moreover from assms(1) t have "tr @ rest = pre @ e # post" by simp
    ultimately have "set tr \<subseteq> set pre"
      by (auto simp: append_eq_append_conv2 append_eq_Cons_conv)
    with all_gates_open [OF g] gates_open_mono show ?thesis by blast
  qed
qed

text \<open>An example: the shell tool runs in the process, one hook agrees, and a reviewer is asked.\<close>

definition example_decision :: GovernanceDecision where
  "example_decision = DefaultGovernanceDecision\<lparr>gv_Action := GovernanceActionRequireApproval\<rparr>"

definition example_executor :: tool_executor where
  "example_executor =
     \<lparr>ex_toolsByName = [(''shell'', example_shell)], ex_toolTimeout = 30, ex_requireToolApproval = True,
      ex_approvalRequiredTools = [''shell''], ex_hooks = [\<lparr>hk_Name = ''h'', hk_WithContext = False, hk_BeforeExecute = (\<lambda>tr a. True)\<rparr>],
      ex_interceptors = [], ex_config = example_tool_config\<lparr>cf_SandboxProvider := [], cf_ApprovalRequiredTools := [''shell'']\<rparr>,
      ex_toolSandbox = False, ex_backends = [], ex_run = backend_down, ex_presetResolver = None, ex_auditLog = True,
      ex_Redact = (\<lambda>s. s), ex_Substitute = noop_Substitute, ex_Authorize = (\<lambda>tr g. Inr example_decision),
      ex_EvaluateTool = noop_EvaluateTool, ex_metaInvoke = None, ex_unmarshal = (\<lambda>s. Some [])\<rparr>"

definition example_call :: tool_call where
  "example_call =
     \<lparr>cl_toolName = ''shell'', cl_argsJson = ''{}'', cl_callId = ''1'',
      cl_session = \<lparr>ts_Id = ''s'', ts_ChannelId = ''c'', ts_SenderId = ''u'', ts_RouteToolsDisabled = False, ts_RouteAllowedTools = []\<rparr>,
      cl_CorrelationId = ''x'', cl_isStreaming = False, cl_approvalCallback = Some (\<lambda>tr t a. True), cl_onDelta = False,
      cl_toolCallCount = 1, cl_boundTool = None, cl_cancelled = (\<lambda>tr. False), cl_elapsedMs = 5\<rparr>"

lemma example_call_run:
  "map is_run (snd (executor_Execute example_executor example_call)) =
     [False, False, False, False, False, False, True, False, False, False, False]"
  by code_simp

theorem run_needs_open_gates_witness:
  "\<exists>tool pre e post. snd (executor_Execute example_executor example_call) = pre @ e # post \<and> is_run e \<and>
     gates_open example_executor example_call tool pre"
proof -
  let ?t = "snd (executor_Execute example_executor example_call)"
  have l: "length ?t = 11" using arg_cong [OF example_call_run, of length] by simp
  have r: "is_run (?t ! 6)"
    using arg_cong [OF example_call_run, of "\<lambda>xs. xs ! 6"] l by simp
  have s: "?t = take 6 ?t @ ?t ! 6 # drop 7 ?t"
    using id_take_nth_drop [of 6 ?t] l by simp
  from run_needs_open_gates [OF s r] s r show ?thesis by blast
qed

subsection \<open>Records\<close>

definition status_ok :: "tool_outcome \<Rightarrow> bool" where
  "status_ok oc \<longleftrightarrow> oc_status oc \<in> {''Completed'', ''failed'', ''blocked''} \<and> (oc_failed oc \<longleftrightarrow> oc_status oc \<noteq> ''Completed'')"

lemma status_ok_intros [simp]:
  "status_ok (outcome_completed r)" "s \<in> {''failed'', ''blocked''} \<Longrightarrow> status_ok (outcome_failed r s c m n t)"
  by (auto simp: status_ok_def outcome_completed_def outcome_failed_def)

lemma error_outcome_status [simp]: "status_ok (error_outcome tool e)"
  by (cases "(tool, e)" rule: error_outcome.cases) (auto simp: Let_def)

lemma meta_invoke_status [simp]: "status_ok (meta_invoke_outcome r)"
  by (simp add: meta_invoke_outcome_def)

lemma run_outcome_status:
  assumes "run_outcome ex cl tool r = (x, tr')"
  shows "(\<forall>oc. x = Inr oc \<longrightarrow> status_ok oc) \<and> (\<forall>e. x = Inl e \<longrightarrow> e = ExecError ''context canceled'' False \<and> cl_cancelled cl tr')"
  using assms by (auto simp: run_outcome_def split: sum.splits prod.splits if_splits)

lemma call_tool_status:
  assumes "call_tool ex cl tool a tr = (x, tr')"
  shows "(\<forall>oc. x = Inr oc \<longrightarrow> status_ok oc) \<and> (\<forall>e. x = Inl e \<longrightarrow> e = ExecError ''context canceled'' False \<and> cl_cancelled cl tr')"
  using assms unfolding call_tool_def
  by (auto simp: Let_def split: option.splits dest!: run_outcome_status)

lemma run_tool_status:
  assumes "run_tool ex cl tool g tr = (x, tr')"
  shows "(\<forall>oc sub. x = Inr (oc, sub) \<longrightarrow> status_ok oc) \<and>
     (\<forall>e. x = Inl e \<longrightarrow> e = ExecError ''context canceled'' False \<and> cl_cancelled cl tr')"
proof (cases "ex_Substitute ex tr (go_args g)")
  case (Inl e)
  with assms show ?thesis by (auto simp: run_tool_def)
next
  case (Inr p)
  obtain y z where p: "p = (y, z)" by (cases p)
  obtain r tr2 where r: "call_tool ex cl tool y (tr @ [EvSubstitute (go_args g)]) = (r, tr2)"
    by (cases "call_tool ex cl tool y (tr @ [EvSubstitute (go_args g)])")
  from call_tool_status [OF r] assms Inr p r show ?thesis
    by (cases r) (auto simp: run_tool_def)
qed

lemma run_tool_no_record:
  assumes "run_tool ex cl tool g tr = (x, tr')"
  shows "\<exists>new. tr' = tr @ new \<and> list_all (\<lambda>e. \<not> is_record e) new"
proof -
  have "\<not> is_record e" if "run_event e \<or> e = EvSubstitute (go_args g)" for e
    using that by (cases e) (auto simp: run_event_def)
  with run_tool_new [of g tr ex cl tool] assms show ?thesis
    by (fastforce simp: only_new_def list_all_iff)
qed

text \<open>The record of a gate is the one of a refusal; a call that passes the gates has none of a run before it runs.\<close>

definition recorded_as :: "trace \<Rightarrow> tool_result \<Rightarrow> bool \<Rightarrow> bool" where
  "recorded_as tr res audited \<longleftrightarrow>
     (\<exists>pre rec post. tr = pre @ EvRecordResult rec # post \<and>
        ge_ResultStatus rec = tr_ResultStatus res \<and> ge_ResultBytes rec = length (tr_ResultText res) \<and>
        (ge_Failed rec \<longleftrightarrow> tr_ResultStatus res \<noteq> ''Completed'') \<and>
        (\<forall>x. EvRecordResult x \<notin> set pre \<union> set post) \<and>
        (audited \<longrightarrow> EvAudit (ge_Failed rec) \<in> set post))"

lemma no_record_no_result:
  "list_all (\<lambda>e. \<not> is_record e) es \<Longrightarrow> EvRecordResult r \<notin> set es" "list_all is_after es \<Longrightarrow> EvRecordResult r \<notin> set es"
  by (auto simp: list_all_iff)

lemma gates_no_result: "all_gates ex cl [] = (x, tr) \<Longrightarrow> EvRecordResult r \<notin> set tr"
  using all_gates_new [of "[]" ex cl] by (auto simp: only_new_def list_all_iff is_gate_event_def)

text \<open>C7: A call whose tool has run is either returned with exactly one record of its result, with the status and the
  size the caller gets, and an entry in the audit log when there is one; or the caller has gone away, and then
  the run leaves no record at all.\<close>

theorem every_run_recorded:
  assumes "e \<in> set (snd (executor_Execute ex cl))" "is_run e"
  shows "(\<exists>res. fst (executor_Execute ex cl) = CallReturned res \<and> recorded_as (snd (executor_Execute ex cl)) res (ex_auditLog ex)) \<or>
     fst (executor_Execute ex cl) = CallFailedWith (ExecError ''context canceled'' False) \<and>
     cl_cancelled cl (snd (executor_Execute ex cl)) \<and> (\<forall>r. EvRecordResult r \<notin> set (snd (executor_Execute ex cl)))"
proof (cases rule: executor_cases [of ex cl])
  case (stopped stop tr)
  with all_gates_new [of "[]" ex cl] gate_events_no_run [of "all_gates ex cl []" e] assms
  show ?thesis by auto
next
  case (gone tool g tr e' tr')
  with run_tool_status [OF gone(2)] run_tool_no_record [OF gone(2)] gates_no_result [OF gone(1)]
  show ?thesis using gone by (auto dest: no_record_no_result)
next
  case (returned tool g tr oc sub tr' res tr'')
  from run_tool_no_record [OF returned(2)] gates_no_result [OF returned(1)]
  have pre: "EvRecordResult r \<notin> set tr'" for r by (auto dest: no_record_no_result)
  from finish_call_shape [OF returned(3)] obtain mid rec audits rest where
    t: "tr'' = tr' @ mid @ EvRecordResult rec # audits @ rest" and
    n: "list_all is_after (mid @ rest)" and
    a: "audits = (if ex_auditLog ex then [EvAudit (oc_failed oc)] else [])" and
    s: "ge_ResultStatus rec = oc_status oc" "ge_Failed rec = oc_failed oc" "ge_ResultBytes rec = length (tr_ResultText res)"
      "tr_ResultStatus res = oc_status oc"
    by metis
  from run_tool_status [OF returned(2)] have ok: "status_ok oc" by simp
  have "recorded_as tr'' res (ex_auditLog ex)"
    unfolding recorded_as_def
    by (rule exI [of _ "tr' @ mid"], rule exI [of _ rec], rule exI [of _ "audits @ rest"])
       (use t n a s ok pre in \<open>auto simp: status_ok_def dest: no_record_no_result\<close>)
  with returned show ?thesis by simp
qed

theorem every_run_recorded_witness:
  "\<exists>res. fst (executor_Execute example_executor example_call) = CallReturned res \<and>
     recorded_as (snd (executor_Execute example_executor example_call)) res True"
proof -
  let ?t = "snd (executor_Execute example_executor example_call)"
  have l: "length ?t = 11" using arg_cong [OF example_call_run, of length] by simp
  have "is_run (?t ! 6)" "?t ! 6 \<in> set ?t"
    using arg_cong [OF example_call_run, of "\<lambda>xs. xs ! 6"] l by simp_all
  from every_run_recorded [OF this(2,1)] show ?thesis
    by (auto simp: example_executor_def example_call_def)
qed

text \<open>A call never ends with the status under which the meta runtime looks for success: what the executor calls
  \<open>Completed\<close> is spelled differently there.\<close>

lemma session_gate_status:
  "session_gate ex cl p tr = (Inl (StopResult res), tr') \<Longrightarrow> tr_ResultStatus res \<in> {''blocked'', ''failed''}"
  by (auto simp: session_gate_def blocked_result_def CreateImmediateResult_def Let_def split: if_splits option.splits)

lemma governance_gate_status:
  "governance_gate ex cl tool a p tr = (Inl (StopResult res), tr') \<Longrightarrow> tr_ResultStatus res = ''blocked''"
  by (auto simp: governance_gate_def blocked_result_def CreateImmediateResult_def Let_def split: if_splits sum.splits)

lemma hooks_gate_status:
  "hooks_gate cl g i hs tr = (Inl (StopResult res), tr') \<Longrightarrow> tr_ResultStatus res = ''blocked''"
  by (induction hs arbitrary: i tr) (auto simp: blocked_result_def CreateImmediateResult_def Let_def split: if_splits)

lemma approval_gate_status:
  "approval_gate ex cl tool g tr = (Inl (StopResult res), tr') \<Longrightarrow> tr_ResultStatus res = ''blocked''"
  by (auto simp: approval_gate_def reviewer_gate_def fingerprint_gate_def approval_denied_def blocked_result_def
      CreateImmediateResult_def Let_def bindG_def split: if_splits option.splits sum.splits prod.splits)

lemma bindG_InlE:
  assumes "bindG g f = (Inl y, tr')"
  obtains "g = (Inl y, tr')" | x tr where "g = (Inr x, tr)" "f x tr = (Inl y, tr')"
  using assms by (cases g) (auto simp: bindG_def split: sum.splits)

lemma all_gates_status:
  "all_gates ex cl tr = (Inl (StopResult res), tr') \<Longrightarrow> tr_ResultStatus res \<in> {''blocked'', ''failed''}"
  unfolding all_gates_def Let_def
  by (elim bindG_InlE)
     (auto dest: session_gate_status governance_gate_status hooks_gate_status approval_gate_status)

lemma executor_status:
  assumes "fst (executor_Execute ex cl) = CallReturned res"
  shows "tr_ResultStatus res \<in> {''Completed'', ''failed'', ''blocked''}"
proof (cases rule: executor_cases [of ex cl])
  case (stopped stop tr)
  with assms all_gates_status [of ex cl "[]"] show ?thesis by (cases stop) auto
next
  case (returned tool g tr oc sub tr' res' tr'')
  with assms run_tool_status [OF returned(2)] finish_call_shape [OF returned(3)] show ?thesis
    by (auto simp: status_ok_def)
qed (use assms in auto)

subsection \<open>Who asks for a reviewer\<close>

fun asks_reviewer :: "tool_event \<Rightarrow> bool" where
  "asks_reviewer (EvApproval a b) = True"
| "asks_reviewer (EvApprovalRecorded b) = True"
| "asks_reviewer _ = False"

lemma after_gates_no_ask:
  "\<exists>rest. snd (executor_Execute ex cl) = snd (all_gates ex cl []) @ rest \<and> list_all (\<lambda>e. \<not> asks_reviewer e) rest"
proof (cases rule: executor_cases [of ex cl])
  case (stopped stop tr)
  then show ?thesis by simp
next
  have run: "\<exists>new. tr' = tr @ new \<and> list_all (\<lambda>e. \<not> asks_reviewer e) new" if "run_tool ex cl tool g tr = (x, tr')" for tool g tr x tr'
  proof -
    have "\<not> asks_reviewer e" if "run_event e \<or> e = EvSubstitute (go_args g)" for e
      using that by (cases e) (auto simp: run_event_def)
    with run_tool_new [of g tr ex cl tool] that show ?thesis by (fastforce simp: only_new_def list_all_iff)
  qed
  {
    case (gone tool g tr e tr')
    with run show ?thesis by fastforce
  next
    case (returned tool g tr oc sub tr' res tr'')
    have "list_all (\<lambda>e. \<not> asks_reviewer e) es" if "list_all is_after es" for es
    proof -
      have "\<not> asks_reviewer e" if "is_after e" for e using that by (cases e) auto
      with that show ?thesis by (auto simp: list_all_iff)
    qed
    with run [OF returned(2)] finish_call_shape [OF returned(3)] returned show ?thesis by fastforce
  }
qed

lemma governance_gate_no_ask: "only_new (\<lambda>e. \<not> asks_reviewer e) tr (governance_gate ex cl tool a p tr)"
  unfolding governance_gate_def Let_def
  by (auto simp: only_new_def audit_def split: sum.splits)

lemma hooks_gate_no_ask: "only_new (\<lambda>e. \<not> asks_reviewer e) tr (hooks_gate cl g i hs tr)"
proof (induction hs arbitrary: i tr)
  case (Cons h hs)
  let ?e = "EvHook i (go_persisted g) (hk_BeforeExecute h tr (go_persisted g))"
  have "only_new (\<lambda>e. \<not> asks_reviewer e) tr ((), tr @ [?e])" by (simp add: only_new_def)
  from only_new_trans [OF this, simplified, OF Cons.IH]
  show ?case by (auto simp: Let_def only_new_def)
qed simp

lemma governance_gate_descriptor:
  "governance_gate ex cl tool a p tr = (Inr g, tr') \<Longrightarrow> tl_ActionDescriptor tool = None \<Longrightarrow>
     \<exists>js. go_descriptor g = Some (action_Resolve (ex_unmarshal ex) (tl_Name tool) js)"
  by (auto simp: governance_gate_def ResolveToolActionDescriptor_def Let_def split: sum.splits if_splits)

text \<open>For a tool the code does not know by name the lists have no say.\<close>

lemma requires_approval_unaware:
  assumes "\<not> SupportsActionAwareApproval (tl_Name tool)" "go_descriptor g = Some (action_Resolve um (tl_Name tool) js)"
  shows "requires_approval ex cl tool g = Some (gv_Action (go_decision g) = GovernanceActionRequireApproval)"
proof -
  have "\<not> ad_RequiresApproval (action_Resolve um (tl_Name tool) js)"
    using assms(1) approval_needs_mutation by (auto simp: SupportsActionAwareApproval_def)
  with assms show ?thesis by (simp add: requires_approval_def Let_def)
qed

lemma approval_gate_asks:
  assumes "e \<in> set (snd (approval_gate ex cl tool g tr))" "asks_reviewer e" "e \<notin> set tr"
  shows "\<exists>required v. requires_approval ex cl tool g = Some required \<and>
     EvEvaluate (go_persisted g) required v \<in> set (snd (approval_gate ex cl tool g tr)) \<and> (required \<or> pv_RequiresApproval v)"
proof -
  from assms obtain required where r: "requires_approval ex cl tool g = Some required"
    by (cases "requires_approval ex cl tool g") (auto simp: approval_gate_def)
  from assms r obtain v where v: "ex_EvaluateTool ex tr (go_persisted g) required = Inr v"
    by (cases "ex_EvaluateTool ex tr (go_persisted g) required") (auto simp: approval_gate_def)
  let ?e = "EvEvaluate (go_persisted g) required v"
  have b: "only_new is_gate_event (tr @ [?e])
      (bindG (reviewer_gate ex cl tool g (tr @ [?e])) (\<lambda>_. fingerprint_gate ex cl tool g))"
    by (intro only_new_bindG reviewer_gate_new fingerprint_gate_new)
  from assms r v have n: "\<not> BlocksPlanExecuteVerifyDecision (pv_Decision v)" and q: "required \<or> pv_RequiresApproval v"
    by (auto simp: approval_gate_def Let_def split: if_splits)
  with r v b have "?e \<in> set (snd (approval_gate ex cl tool g tr))"
    by (auto simp: approval_gate_def Let_def only_new_def)
  with r q show ?thesis by blast
qed

text \<open>For every tool but \<open>process\<close>, \<open>automation\<close> and \<open>external_cli\<close> (and those that describe their own actions) a
  reviewer is asked only when governance or the orchestrator demands it: the approval lists of the executor,
  the configuration and the preset are never consulted.\<close>

theorem approval_lists_ignored:
  assumes "find_tool ex cl = Some tool" "\<not> SupportsActionAwareApproval (tl_Name tool)" "tl_ActionDescriptor tool = None"
    and "e \<in> set (snd (executor_Execute ex cl))" "asks_reviewer e"
  shows "(\<exists>ctx d. EvAuthorize ctx d \<in> set (snd (executor_Execute ex cl)) \<and> gv_Action d = GovernanceActionRequireApproval) \<or>
     (\<exists>a required v. EvEvaluate a required v \<in> set (snd (executor_Execute ex cl)) \<and> pv_RequiresApproval v)"
proof -
  let ?p = "ex_Redact ex (cl_argsJson cl)"
  obtain rest where rest: "snd (executor_Execute ex cl) = snd (all_gates ex cl []) @ rest" "list_all (\<lambda>e. \<not> asks_reviewer e) rest"
    using after_gates_no_ask by blast
  with assms(4,5) have e: "e \<in> set (snd (all_gates ex cl []))" by (auto simp: list_all_iff)
  obtain s tr0 where s: "session_gate ex cl ?p [] = (s, tr0)" by (cases "session_gate ex cl ?p []")
  then have tr0: "tr0 = []" using session_gate_trace [of ex cl ?p "[]"] by simp
  with s e obtain t where t: "session_gate ex cl ?p [] = (Inr t, [])"
    by (cases s) (auto simp: all_gates_def Let_def)
  then have [simp]: "t = tool" using assms(1) session_gate_Inr by fastforce
  obtain gr tr1 where g1: "governance_gate ex cl tool (cl_argsJson cl) ?p [] = (gr, tr1)"
    by (cases "governance_gate ex cl tool (cl_argsJson cl) ?p []")
  with governance_gate_no_ask [of "[]" ex cl tool "cl_argsJson cl" ?p]
  have n1: "only_new (\<lambda>e. \<not> asks_reviewer e) [] (gr, tr1)" by simp
  have e1: "e \<notin> set tr1" using n1 assms(5) by (auto simp: only_new_def list_all_iff)
  with t g1 e obtain g where g: "gr = Inr g"
    by (cases gr) (auto simp: all_gates_def Let_def)
  obtain h tr2 where h: "hooks_gate cl g 0 (ex_hooks ex) tr1 = (h, tr2)"
    by (cases "hooks_gate cl g 0 (ex_hooks ex) tr1")
  with hooks_gate_no_ask [of tr1 cl g 0 "ex_hooks ex"] n1
  have n2: "only_new (\<lambda>e. \<not> asks_reviewer e) [] (h, tr2)"
    using only_new_trans [OF n1] by fastforce
  have e2: "e \<notin> set tr2" using n2 assms(5) by (auto simp: only_new_def list_all_iff)
  with t g1 g h e have hr: "h = Inr ()"
    by (cases h) (auto simp: all_gates_def Let_def)
  have gates: "snd (all_gates ex cl []) = snd (approval_gate ex cl tool g tr2)"
    using t g1 g h hr by (simp add: all_gates_def Let_def bindG_def split: sum.splits prod.splits)
  from g1 g have gg: "governance_gate ex cl tool (cl_argsJson cl) ?p [] = (Inr g, tr1)" by simp
  from governance_gate_descriptor [OF gg assms(3)] obtain js
    where d: "go_descriptor g = Some (action_Resolve (ex_unmarshal ex) (tl_Name tool) js)" by blast
  obtain v where v: "EvEvaluate (go_persisted g) (gv_Action (go_decision g) = GovernanceActionRequireApproval) v \<in>
      set (snd (all_gates ex cl []))"
    "gv_Action (go_decision g) = GovernanceActionRequireApproval \<or> pv_RequiresApproval v"
    using approval_gate_asks [of e ex cl tool g tr2] e assms(5) e2 gates requires_approval_unaware [OF assms(2) d]
    by auto
  have sub: "set tr1 \<subseteq> set (snd (all_gates ex cl []))"
    using hooks_gate_grows [of cl g 0 "ex_hooks ex" tr1 "()" tr2] h hr approval_gate_new [of tr2 ex cl tool g]
    unfolding gates by (auto simp: only_new_def)
  from governance_gate_Inr [OF gg] obtain ctx where "EvAuthorize ctx (go_decision g) \<in> set tr1" by auto
  with sub rest(1) have "EvAuthorize ctx (go_decision g) \<in> set (snd (executor_Execute ex cl))" by auto
  moreover from v(1) rest(1) have "EvEvaluate (go_persisted g) (gv_Action (go_decision g) = GovernanceActionRequireApproval) v
      \<in> set (snd (executor_Execute ex cl))" by simp
  ultimately show ?thesis using v(2) by blast
qed

text \<open>
  The example: the shell tool is on the list of the executor and of the configuration. With governance asking for a
  reviewer there is one; with governance allowing, the tool runs unasked.
\<close>

definition listed_executor :: tool_executor where
  "listed_executor = example_executor\<lparr>ex_Authorize := (\<lambda>tr g. Inr (NewGovernanceDecisionAllow []))\<rparr>"

theorem approval_lists_ignored_witness:
  "(\<exists>ctx d. EvAuthorize ctx d \<in> set (snd (executor_Execute example_executor example_call)) \<and>
      gv_Action d = GovernanceActionRequireApproval \<or>
      (\<exists>a required v. EvEvaluate a required v \<in> set (snd (executor_Execute example_executor example_call)) \<and> pv_RequiresApproval v)) \<and>
   map (\<lambda>e. (is_run e, asks_reviewer e)) (snd (executor_Execute listed_executor example_call)) =
     replicate 4 (False, False) @ [(True, False)] @ replicate 4 (False, False)"
proof (intro conjI)
  have f: "find_tool example_executor example_call = Some example_shell"
    by (simp add: find_tool_def example_executor_def example_call_def)
  have "list_ex asks_reviewer (snd (executor_Execute example_executor example_call))" by code_simp
  then obtain e where "e \<in> set (snd (executor_Execute example_executor example_call))" "asks_reviewer e"
    by (auto simp: list_ex_iff)
  from approval_lists_ignored [OF f _ _ this] show
    "\<exists>ctx d. EvAuthorize ctx d \<in> set (snd (executor_Execute example_executor example_call)) \<and>
      gv_Action d = GovernanceActionRequireApproval \<or>
      (\<exists>a required v. EvEvaluate a required v \<in> set (snd (executor_Execute example_executor example_call)) \<and> pv_RequiresApproval v)"
    by (auto simp: example_shell_def SupportsActionAwareApproval_def EqualFold_def ToLower_def lower_char_def)
  show "map (\<lambda>e. (is_run e, asks_reviewer e)) (snd (executor_Execute listed_executor example_call)) =
     replicate 4 (False, False) @ [(True, False)] @ replicate 4 (False, False)"
    by code_simp
qed

end
