(* ===== verification/Tool_Limits.thy ===== *)
theory Tool_Limits
  imports Tool_Safety
begin

section \<open>Governance, redaction, declarations and streams of a tool call\<close>

text \<open>
  What becomes of a call when the governance service cannot be reached, when no redaction is configured, what the
  model is told about the tools, and how much of a stream is kept.
\<close>

subsection \<open>An unreachable governance service\<close>

lemma session_gate_blocked:
  assumes "find_tool ex cl = Some tool" "session_gate ex cl p tr = (Inl stop, tr')"
  shows "\<exists>res. stop = StopResult res \<and> tr_ResultStatus res = ''blocked''"
  using assms by (auto simp: session_gate_def blocked_result_def CreateImmediateResult_def Let_def split: if_splits)

lemma governance_gate_unreachable:
  assumes "ex_Authorize ex = (\<lambda>tr g. Inr (sidecar_Authorize cfg post g))"
    and "gc_Enabled cfg" "gc_RequireGovernanceForHighRiskTools cfg" "\<And>endpoint request. no_answer (post endpoint request)"
    and "tl_ActionDescriptor tool = None" "IsMutationCapable (ex_unmarshal ex) (tl_Name tool) p"
  shows "\<exists>res tr'. governance_gate ex cl tool a p tr = (Inl (StopResult res), tr') \<and> tr_ResultStatus res = ''blocked'' \<and>
     tr_FailureCode res = ''governance_unavailable''"
proof -
  let ?ad = "action_Resolve (ex_unmarshal ex) (tl_Name tool) p"
  let ?g = "governance_context cl tool p (Some ?ad)"
  have ad: "ResolveToolActionDescriptor ex tool tr p = Some ?ad"
    using assms(5) by (simp add: ResolveToolActionDescriptor_def)
  have "\<not> gd_ReadOnly (tg_Descriptor ?g)"
    using mutation_not_read_only [OF assms(6)] by (simp add: governance_context_def)
  then have closed: "shouldFailClosed cfg (tg_Descriptor ?g)"
    using assms(3) by (simp add: shouldFailClosed_def isHighRiskOrSideEffecting_def)
  obtain reason where r: "sidecar_Authorize cfg post ?g = buildUnavailableDecision cfg (tg_Descriptor ?g) reason"
    using unavailable_decision [OF assms(2)] assms(4) by blast
  show ?thesis
    using closed
    by (auto simp: governance_gate_def ad assms(1) r buildUnavailableDecision_def DefaultGovernanceDecision_def
        blocked_result_def CreateImmediateResult_def Let_def)
qed

text \<open>C6: When governance of high-risk tools is required and the sidecar does not answer, a call that the code's own tables
  call a mutation is refused before anything else is asked, and its tool does not run.\<close>

theorem unreachable_sidecar_blocks_changes:
  assumes "ex_Authorize ex = (\<lambda>tr g. Inr (sidecar_Authorize cfg post g))"
    and "gc_Enabled cfg" "gc_RequireGovernanceForHighRiskTools cfg" "\<And>endpoint request. no_answer (post endpoint request)"
    and "find_tool ex cl = Some tool" "tl_ActionDescriptor tool = None"
    and "IsMutationCapable (ex_unmarshal ex) (tl_Name tool) (ex_Redact ex (cl_argsJson cl))"
  shows "(\<exists>res. fst (executor_Execute ex cl) = CallReturned res \<and> tr_ResultStatus res = ''blocked'') \<and>
     list_all (\<lambda>e. \<not> is_run e) (snd (executor_Execute ex cl))"
proof -
  let ?p = "ex_Redact ex (cl_argsJson cl)"
  obtain s tr0 where s: "session_gate ex cl ?p [] = (s, tr0)" by (cases "session_gate ex cl ?p []")
  have "\<exists>res tr'. all_gates ex cl [] = (Inl (StopResult res), tr') \<and> tr_ResultStatus res = ''blocked''"
  proof (cases s)
    case (Inl stop)
    with s session_gate_blocked [OF assms(5)] show ?thesis by (auto simp: all_gates_def Let_def)
  next
    case (Inr t)
    with s session_gate_Inr [of ex cl ?p "[]" t tr0] assms(5) have "session_gate ex cl ?p [] = (Inr tool, tr0)" by simp
    moreover obtain res tr' where "governance_gate ex cl tool (cl_argsJson cl) ?p tr0 = (Inl (StopResult res), tr')"
      "tr_ResultStatus res = ''blocked''"
      using governance_gate_unreachable [OF assms(1-4,6,7)] by blast
    ultimately show ?thesis by (auto simp: all_gates_def Let_def)
  qed
  then obtain res tr' where g: "all_gates ex cl [] = (Inl (StopResult res), tr')" and b: "tr_ResultStatus res = ''blocked''"
    by blast
  then have e: "executor_Execute ex cl = (CallReturned res, tr')" by (simp add: executor_Execute_def)
  have "list_all (\<lambda>e. \<not> is_run e) tr'"
    using all_gates_new [of "[]" ex cl] g gate_event_no_run by (auto simp: only_new_def list_all_iff)
  with e b show ?thesis by simp
qed

definition sidecar_down :: sidecar where
  "sidecar_down = (\<lambda>endpoint request. CallFailed ''refused'' False)"

definition governed_executor :: tool_executor where
  "governed_executor =
     example_executor\<lparr>ex_Authorize := (\<lambda>tr g. Inr (sidecar_Authorize (DefaultToolGovernanceConfig\<lparr>gc_Enabled := True\<rparr>) sidecar_down g))\<rparr>"

theorem unreachable_sidecar_blocks_changes_witness:
  "(\<exists>res. fst (executor_Execute governed_executor example_call) = CallReturned res \<and> tr_ResultStatus res = ''blocked'') \<and>
   list_all (\<lambda>e. \<not> is_run e) (snd (executor_Execute governed_executor example_call))"
  by (rule unreachable_sidecar_blocks_changes
      [where cfg = "DefaultToolGovernanceConfig\<lparr>gc_Enabled := True\<rparr>" and post = sidecar_down and tool = example_shell])
     (simp_all add: governed_executor_def example_executor_def example_call_def example_shell_def sidecar_down_def
       DefaultToolGovernanceConfig_def find_tool_def IsMutationCapable_def AlwaysMutatingTools_def IsBlank_iff is_space_def)

subsection \<open>The default redaction\<close>

text \<open>Without a redaction of its own the executor replaces every text by the empty one.\<close>

definition erase_args :: "(gate_stop + tool \<times> governed) \<times> trace \<Rightarrow> (gate_stop + tool \<times> governed) \<times> trace" where
  "erase_args r = (map_sum id (\<lambda>(tool, g). (tool, g\<lparr>go_args := []\<rparr>)) (fst r), snd r)"

text \<open>What of a call and of what is known of it does not mention the arguments.\<close>

lemma call_args_irrelevant:
  "cl_toolName (cl\<lparr>cl_argsJson := a\<rparr>) = cl_toolName cl" "cl_session (cl\<lparr>cl_argsJson := a\<rparr>) = cl_session cl"
  "cl_toolCallCount (cl\<lparr>cl_argsJson := a\<rparr>) = cl_toolCallCount cl"
  "cl_approvalCallback (cl\<lparr>cl_argsJson := a\<rparr>) = cl_approvalCallback cl"
  "find_tool ex (cl\<lparr>cl_argsJson := a\<rparr>) = find_tool ex cl"
  "CreateImmediateResult (cl\<lparr>cl_argsJson := a\<rparr>) = CreateImmediateResult cl"
  "blocked_result (cl\<lparr>cl_argsJson := a\<rparr>) = blocked_result cl"
  "governance_context (cl\<lparr>cl_argsJson := a\<rparr>) = governance_context cl"
  by (simp_all add: find_tool_def CreateImmediateResult_def blocked_result_def governance_context_def fun_eq_iff split: option.split)

lemma approval_denied_args [simp]: "approval_denied (cl\<lparr>cl_argsJson := a\<rparr>) = approval_denied cl"
  by (simp add: approval_denied_def call_args_irrelevant fun_eq_iff)

lemma governed_args_irrelevant:
  "go_persisted (g\<lparr>go_args := b\<rparr>) = go_persisted g" "go_descriptor (g\<lparr>go_args := b\<rparr>) = go_descriptor g"
  "go_decision (g\<lparr>go_args := b\<rparr>) = go_decision g"
  "approval_denied cl (g\<lparr>go_args := b\<rparr>) = approval_denied cl g"
  by (simp_all add: approval_denied_def fun_eq_iff)

lemma session_gate_args: "session_gate ex (cl\<lparr>cl_argsJson := a\<rparr>) p tr = session_gate ex cl p tr"
  unfolding session_gate_def call_args_irrelevant ..

lemma governance_gate_args:
  "governance_gate ex (cl\<lparr>cl_argsJson := a\<rparr>) tool b p tr = governance_gate ex cl tool b p tr"
  unfolding governance_gate_def call_args_irrelevant ..

lemma governance_gate_changed_args:
  "governance_gate ex cl tool b p tr =
     (case governance_gate ex cl tool c p tr of
        (Inl s, tr) \<Rightarrow> (Inl s, tr)
      | (Inr g, tr) \<Rightarrow> (Inr (g\<lparr>go_args :=
           if gv_Action (go_decision g) = GovernanceActionRedact \<and> gv_ReplacementArgumentsJson (go_decision g) \<noteq> [] then go_args g else b\<rparr>), tr))"
  by (auto simp: governance_gate_def Let_def split: sum.splits)

lemma hooks_gate_args:
  "hooks_gate (cl\<lparr>cl_argsJson := a\<rparr>) g i hs tr = hooks_gate cl g i hs tr"
  "hooks_gate cl (g\<lparr>go_args := b\<rparr>) i hs tr = hooks_gate cl g i hs tr"
  by (induction hs arbitrary: i tr) (simp_all add: call_args_irrelevant Let_def)

lemma approval_gate_args:
  "approval_gate ex (cl\<lparr>cl_argsJson := a\<rparr>) tool g tr = approval_gate ex cl tool g tr"
  "approval_gate ex cl tool (g\<lparr>go_args := b\<rparr>) tr = approval_gate ex cl tool g tr"
  unfolding approval_gate_def requires_approval_def reviewer_gate_def fingerprint_gate_def approval_denied_args
    call_args_irrelevant governed_args_irrelevant by (rule refl)+

lemma gates_blind:
  assumes "ex_Redact ex = noop_Redact"
  shows "erase_args (all_gates ex (cl\<lparr>cl_argsJson := a\<rparr>) tr) = erase_args (all_gates ex cl tr)"
proof -
  obtain s tr0 where s: "session_gate ex cl [] tr = (s, tr0)" by (cases "session_gate ex cl [] tr")
  show ?thesis
  proof (cases s)
    case (Inl stop)
    with s assms show ?thesis by (simp add: all_gates_def noop_Redact_def session_gate_args Let_def)
  next
    case (Inr tool)
    obtain r tr1 where r: "governance_gate ex cl tool (cl_argsJson cl) [] tr0 = (r, tr1)"
      by (cases "governance_gate ex cl tool (cl_argsJson cl) [] tr0")
    note r' = governance_gate_changed_args [of ex cl tool a "[]" tr0 "cl_argsJson cl"]
    show ?thesis
    proof (cases r)
      case (Inl stop)
      with s \<open>s = Inr tool\<close> r r' assms show ?thesis
        by (simp add: all_gates_def noop_Redact_def session_gate_args governance_gate_args Let_def)
    next
      case (Inr g)
      then obtain b where "governance_gate ex cl tool a [] tr0 = (Inr (g\<lparr>go_args := b\<rparr>), tr1)"
        using r r' by simp
      with s \<open>s = Inr tool\<close> r Inr assms show ?thesis
        by (simp add: all_gates_def noop_Redact_def session_gate_args governance_gate_args hooks_gate_args
            approval_gate_args Let_def erase_args_def bindG_def split: sum.splits prod.splits)
    qed
  qed
qed
text \<open>With the default redaction no gate sees the arguments of a call: the same parties are asked the same questions
  and let the same calls through, whatever the arguments are; and the result of every tool that is run comes back empty.\<close>

theorem default_redaction_blinds:
  assumes "ex_Redact ex = noop_Redact" "ex_interceptors ex = []"
  shows "snd (all_gates ex (cl\<lparr>cl_argsJson := a\<rparr>) []) = snd (all_gates ex cl []) \<and>
     isl (fst (all_gates ex (cl\<lparr>cl_argsJson := a\<rparr>) [])) = isl (fst (all_gates ex cl [])) \<and>
     (fst (executor_Execute ex cl) = CallReturned res \<and> EvSubstitute s \<in> set (snd (executor_Execute ex cl)) \<longrightarrow>
        tr_ResultText res = [])"
proof (intro conjI impI)
  note e = gates_blind [OF assms(1), where cl = cl and a = a and tr = "[]"]
  from arg_cong [OF e, of snd] show "snd (all_gates ex (cl\<lparr>cl_argsJson := a\<rparr>) []) = snd (all_gates ex cl [])"
    by (simp add: erase_args_def)
  have "isl (fst (erase_args r)) = isl (fst r)" for r by (cases "fst r") (auto simp: erase_args_def)
  with arg_cong [OF e, of "\<lambda>r. isl (fst r)"]
  show "isl (fst (all_gates ex (cl\<lparr>cl_argsJson := a\<rparr>) [])) = isl (fst (all_gates ex cl []))"
    by simp
  assume a: "fst (executor_Execute ex cl) = CallReturned res \<and> EvSubstitute s \<in> set (snd (executor_Execute ex cl))"
  show "tr_ResultText res = []"
  proof (cases rule: executor_cases [of ex cl])
    case (stopped stop tr)
    with a all_gates_new [of "[]" ex cl] show ?thesis by (auto simp: only_new_def list_all_iff is_gate_event_def)
  next
    case (returned tool g tr oc sub tr' res' tr'')
    with a assms show ?thesis
      by (auto simp: finish_call_def Let_def noop_Redact_def)
  qed (use a in auto)
qed

definition default_executor :: tool_executor where
  "default_executor = listed_executor\<lparr>ex_Redact := noop_Redact\<rparr>"

theorem default_redaction_blinds_witness:
  "snd (all_gates default_executor (example_call\<lparr>cl_argsJson := ''{delete everything}''\<rparr>) []) = snd (all_gates default_executor example_call []) \<and>
   (case executor_Execute default_executor example_call of (CallReturned res, tr) \<Rightarrow> tr_ResultText res = [] | _ \<Rightarrow> False)"
proof -
  have "(case executor_Execute default_executor example_call of
      (CallReturned res, tr) \<Rightarrow> list_ex (\<lambda>e. e = EvSubstitute ''{}'') tr | _ \<Rightarrow> False)"
    by code_simp
  then obtain res where r: "fst (executor_Execute default_executor example_call) = CallReturned res"
    and s: "EvSubstitute ''{}'' \<in> set (snd (executor_Execute default_executor example_call))"
    by (cases "executor_Execute default_executor example_call")
       (auto simp: list_ex_iff split: call_end.splits)
  have d: "ex_Redact default_executor = noop_Redact" "ex_interceptors default_executor = []"
    by (simp_all add: default_executor_def listed_executor_def example_executor_def)
  from default_redaction_blinds [OF d, where cl = example_call and a = "''{delete everything}''" and res = res and s = "''{}''"] r s show ?thesis
    by (cases "executor_Execute default_executor example_call") auto
qed

subsection \<open>What the model is told\<close>

text \<open>A table whose entries stand under the names of their tools, each once: what the constructor builds.\<close>

definition tools_wf :: "(string \<times> tool) list \<Rightarrow> bool" where
  "tools_wf tools \<longleftrightarrow> distinct (map fst tools) \<and> list_all (\<lambda>(n, t). tl_Name t = n) tools"

text \<open>The tools declared to the model are exactly those whose calls pass the session and its preset.\<close>

theorem declared_tools_callable:
  assumes "tools_wf (ex_toolsByName ex)" "cl_boundTool cl = None" "cl_toolCallCount cl \<le> 1"
  shows "cl_toolName cl \<in> set (GetToolDeclarations ex (cl_session cl)) \<longleftrightarrow>
     (\<exists>tool. fst (session_gate ex cl persisted tr) = Inr tool)"
proof (cases "map_of (ex_toolsByName ex) (cl_toolName cl)")
  case None
  with assms have "cl_toolName cl \<notin> tl_Name ` snd ` set (ex_toolsByName ex)"
    by (force simp: tools_wf_def list_all_iff map_of_eq_None_iff)
  then have "cl_toolName cl \<notin> set (GetToolDeclarations ex (cl_session cl))"
    by (auto simp: GetToolDeclarations_def image_comp)
  with None assms show ?thesis by (simp add: session_gate_def find_tool_def)
next
  case (Some tool)
  then have m: "(cl_toolName cl, tool) \<in> set (ex_toolsByName ex)" by (rule map_of_SomeD)
  with assms(1) have n: "tl_Name tool = cl_toolName cl" by (auto simp: tools_wf_def list_all_iff)
  from m n have "cl_toolName cl \<in> tl_Name ` snd ` set (ex_toolsByName ex)" by force
  then have "cl_toolName cl \<in> set (GetToolDeclarations ex (cl_session cl)) \<longleftrightarrow>
      IsToolAllowedForSession (cl_session cl) (cl_toolName cl) (session_preset ex (cl_session cl))"
    by (auto simp: GetToolDeclarations_def image_comp)
  with Some n assms show ?thesis
    by (auto simp: session_gate_def find_tool_def Let_def IsToolAllowedForSession_def)
qed

theorem declared_tools_callable_witness:
  "''shell'' \<in> set (GetToolDeclarations example_executor (cl_session example_call)) \<and>
   (\<exists>tool. fst (session_gate example_executor example_call ''{}'' []) = Inr tool)"
proof -
  have "''shell'' \<in> set (GetToolDeclarations example_executor (cl_session example_call))"
    by code_simp
  with declared_tools_callable [of example_executor example_call "''{}''" "[]"] show ?thesis
    by (simp add: example_executor_def example_call_def tools_wf_def example_shell_def)
qed

subsection \<open>Streams\<close>

lemma collect_chunks_take:
  "length sb \<le> limit \<Longrightarrow> collect_chunks limit sb chunks = take limit (sb @ concat chunks)"
proof (induction limit sb chunks rule: collect_chunks.induct)
  case (2 limit sb chunk chunks)
  show ?case
  proof (cases "length sb < limit")
    case True
    show ?thesis
    proof (cases "length chunk \<le> limit - length sb")
      case True
      with \<open>length sb < limit\<close> 2 show ?thesis by (simp add: Let_def)
    next
      case False
      with \<open>length sb < limit\<close> have "length (sb @ take (limit - length sb) chunk) = limit" by simp
      with False \<open>length sb < limit\<close> 2 show ?thesis by (simp add: Let_def)
    qed
  next
    case False
    with 2 show ?thesis by simp
  qed
qed simp

text \<open>What is kept of a stream is the text of its chunks up to the limit, with a mark when the limit is reached; and
  when the redaction leaves the kept text as it is, every chunk goes out as it came, those behind the limit too,
  which the redaction has never seen.\<close>

theorem stream_keeps_prefix:
  "stream_text limit chunks = take limit (concat chunks) @ (if length (concat chunks) \<ge> limit then ellipsis else []) \<and>
   (stream tr' argsJson = Inr chunks \<and> tr' = tr @ [EvStream (tl_Name tool) argsJson (if ex_toolTimeout ex > 0 then Some (ex_toolTimeout ex) else None)] \<and>
      ex_Redact ex (stream_text MaxChars chunks) = stream_text MaxChars chunks \<longrightarrow>
    snd (ExecuteStreamingToolCollect ex tool stream argsJson tr) = tr' @ map EvDelta chunks)"
proof
  show "stream_text limit chunks = take limit (concat chunks) @ (if length (concat chunks) \<ge> limit then ellipsis else [])"
    by (simp add: stream_text_def collect_chunks_take Let_def)
qed (auto simp: ExecuteStreamingToolCollect_def Let_def)

theorem stream_keeps_prefix_witness:
  "stream_text 4 [''abc'', ''def''] = ''abcd'' @ ellipsis \<and>
   snd (ExecuteStreamingToolCollect example_executor example_shell (\<lambda>tr a. Inr [''abc'', ''def'']) ''{}'' []) =
     [EvStream ''shell'' ''{}'' (Some 30), EvDelta ''abc'', EvDelta ''def'']"
  using stream_keeps_prefix [of 4 "[''abc'', ''def'']" "\<lambda>tr a. Inr [''abc'', ''def'']"
      "[EvStream ''shell'' ''{}'' (Some 30)]" "''{}''" "[]" example_shell example_executor]
  by (simp add: example_executor_def example_shell_def)

end
