(* ===== verification/Session_Manager.thy ===== *)
theory Session_Manager
  imports Go_Prelude
begin

section \<open>The session manager\<close>

text \<open>
  \<open>SessionManager\<close> (\<open>src/openclaw/core/session.go\<close>, data in \<open>session_models.go\<close>): the sessions in memory, their admission up to a
  limit with sweeping and eviction, saving in the background, and branches of a history. A session is an object that
  the manager and its callers share, so sessions live in a heap and the table holds addresses. The store is a map that
  may fail to read or write. An operation that takes the admission lock is one step. The locks of single
  sessions are in the theory \<open>Session_Locks\<close>.
\<close>

subsection \<open>Data\<close>

datatype SessionState = SessionStateActive | SessionStatePaused | SessionStateExpired

record ToolInvocation =
  ti_CallId :: string
  ti_ToolName :: string
  ti_Arguments :: string
  ti_Result :: string

record ChatTurn =
  ht_Role :: string
  ht_Content :: string
  ht_Timestamp :: int
  ht_ToolCalls :: "ToolInvocation list"

record chat_session =
  sn_Id :: string
  sn_ChannelId :: string
  sn_SenderId :: string
  sn_LastActiveAt :: int
  sn_History :: "ChatTurn list"
  sn_State :: SessionState
  sn_ContractPolicy :: "string option"   \<comment> \<open>the identifier of the contract\<close>

record session_branch =
  br_BranchId :: string
  br_SessionId :: string
  br_Name :: string
  br_History :: "ChatTurn list"

record session_manager =
  sg_heap :: "chat_session list"
  sg_active :: "(string \<times> nat) list"
  sg_activeCount :: int
  sg_store :: "string \<Rightarrow> chat_session option"
  sg_branches :: "string \<Rightarrow> session_branch option"
  sg_backgroundPersists :: "nat list"
  sg_timeout :: int
  sg_maxSessions :: int

definition new_manager :: "int \<Rightarrow> int \<Rightarrow> (string \<Rightarrow> chat_session option) \<Rightarrow> session_manager" where
  "new_manager timeout maxSessions store =
     \<lparr>sg_heap = [], sg_active = [], sg_activeCount = 0, sg_store = store, sg_branches = (\<lambda>_. None),
      sg_backgroundPersists = [], sg_timeout = timeout, sg_maxSessions = maxSessions\<rparr>"

text \<open>The end of the year 9999, from which the search for the oldest session starts.\<close>

definition far_future :: int where
  "far_future = 253402300799999999999"

abbreviation last_active :: "session_manager \<Rightarrow> nat \<Rightarrow> int" where
  "last_active s a \<equiv> sn_LastActiveAt (sg_heap s ! a)"

subsection \<open>Sweeping and eviction\<close>

definition touch_session :: "int \<Rightarrow> nat \<Rightarrow> session_manager \<Rightarrow> session_manager" where
  "touch_session now a s = s\<lparr>sg_heap := (sg_heap s)[a := (sg_heap s ! a)\<lparr>sn_LastActiveAt := now\<rparr>]\<rparr>"

text \<open>A session leaves the table: it is expired, counted out, and saved in the background.\<close>

definition evict_session :: "string \<Rightarrow> nat \<Rightarrow> session_manager \<Rightarrow> session_manager" where
  "evict_session key a s =
     s\<lparr>sg_active := filter (\<lambda>e. fst e \<noteq> key) (sg_active s),
       sg_heap := (sg_heap s)[a := (sg_heap s ! a)\<lparr>sn_State := SessionStateExpired\<rparr>],
       sg_activeCount := sg_activeCount s - 1, sg_backgroundPersists := sg_backgroundPersists s @ [a]\<rparr>"

fun sweep_loop :: "(nat \<Rightarrow> int) \<Rightarrow> nat \<Rightarrow> (string \<times> nat) list \<Rightarrow> nat \<Rightarrow> session_manager \<Rightarrow> nat \<times> session_manager" where
  "sweep_loop clk i [] removed s = (removed, s)"
| "sweep_loop clk i ((key, a) # es) removed s =
     (if last_active s a + sg_timeout s < clk i then sweep_loop clk (Suc i) es (Suc removed) (evict_session key a s)
      else sweep_loop clk (Suc i) es removed s)"

definition SweepExpiredActiveSessions :: "(nat \<Rightarrow> int) \<Rightarrow> session_manager \<Rightarrow> nat \<times> session_manager" where
  "SweepExpiredActiveSessions clk s = sweep_loop clk 0 (sg_active s) 0 s"

fun oldest_loop :: "chat_session list \<Rightarrow> (string \<times> nat) list \<Rightarrow> string \<Rightarrow> int \<Rightarrow> string" where
  "oldest_loop heap [] oldestKey oldestAt = oldestKey"
| "oldest_loop heap ((key, a) # es) oldestKey oldestAt =
     (if sn_LastActiveAt (heap ! a) < oldestAt then oldest_loop heap es key (sn_LastActiveAt (heap ! a))
      else oldest_loop heap es oldestKey oldestAt)"

fun evict_loop :: "nat \<Rightarrow> session_manager \<Rightarrow> session_manager" where
  "evict_loop 0 s = s"
| "evict_loop (Suc attempts) s =
     (if sg_activeCount s < sg_maxSessions s then s
      else let key = oldest_loop (sg_heap s) (sg_active s) [] far_future in
           if key = [] then s
           else case map_of (sg_active s) key of
             None \<Rightarrow> s
           | Some a \<Rightarrow> evict_loop attempts (evict_session key a s))"

definition evictLeastRecentlyActive :: "session_manager \<Rightarrow> session_manager" where
  "evictLeastRecentlyActive s = (if sg_maxSessions s \<le> 0 then s else evict_loop (nat (sg_maxSessions s + 1)) s)"

text \<open>\<open>True\<close>: there is room. The callers do not look.\<close>

definition ensureCapacityForAdmission :: "(nat \<Rightarrow> int) \<Rightarrow> session_manager \<Rightarrow> bool \<times> session_manager" where
  "ensureCapacityForAdmission clk s =
     (if sg_maxSessions s \<le> 0 then (True, s)
      else
        (let s = (if sg_activeCount s \<ge> sg_maxSessions s then snd (SweepExpiredActiveSessions clk s) else s);
             s = (if sg_activeCount s \<ge> sg_maxSessions s then evictLeastRecentlyActive s else s)
         in (sg_activeCount s < sg_maxSessions s, s)))"

subsection \<open>Admission\<close>

definition admit_session :: "int \<Rightarrow> string \<Rightarrow> chat_session \<Rightarrow> session_manager \<Rightarrow> nat \<times> session_manager" where
  "admit_session now key x s =
     (let a = length (sg_heap s); s = s\<lparr>sg_heap := sg_heap s @ [x]\<rparr> in
      case map_of (sg_active s) key of
        None \<Rightarrow> (a, s\<lparr>sg_active := (key, a) # sg_active s, sg_activeCount := sg_activeCount s + 1\<rparr>)
      | Some canonical \<Rightarrow> (canonical, touch_session now canonical s))"

definition GetOrCreateById ::
    "int \<Rightarrow> (nat \<Rightarrow> int) \<Rightarrow> bool \<Rightarrow> string \<Rightarrow> string \<Rightarrow> string \<Rightarrow> session_manager \<Rightarrow> (string + nat) \<times> session_manager" where
  "GetOrCreateById now clk readable sessionId channelId senderId s =
     (if sessionId = [] then (Inl ''sessionId must be set'', s)
      else case map_of (sg_active s) sessionId of
        Some a \<Rightarrow> (Inr a, touch_session now a s)
      | None \<Rightarrow>
          if \<not> readable then (Inl ''store'', s)
          else
            (let x = (case sg_store s sessionId of
                 Some stored \<Rightarrow> stored\<lparr>sn_LastActiveAt := now, sn_State := SessionStateActive\<rparr>
               | None \<Rightarrow> \<lparr>sn_Id = sessionId, sn_ChannelId = channelId, sn_SenderId = senderId, sn_LastActiveAt = now,
                            sn_History = [], sn_State = SessionStateActive, sn_ContractPolicy = None\<rparr>);
                 s = snd (ensureCapacityForAdmission clk s);
                 (a, s) = admit_session now sessionId x s
             in (Inr a, s)))"

text \<open>
  \<open>RemoveActive\<close> takes no lock: between its look at the table and its deletion other operations may run. The deletion
  counts down whether or not there is something left to delete.
\<close>

definition remove_check :: "string \<Rightarrow> session_manager \<Rightarrow> bool" where
  "remove_check sessionId s \<longleftrightarrow> sessionId \<noteq> [] \<and> map_of (sg_active s) sessionId \<noteq> None"

definition remove_delete :: "string \<Rightarrow> session_manager \<Rightarrow> session_manager" where
  "remove_delete sessionId s =
     s\<lparr>sg_active := filter (\<lambda>e. fst e \<noteq> sessionId) (sg_active s), sg_activeCount := sg_activeCount s - 1\<rparr>"

definition RemoveActive :: "string \<Rightarrow> session_manager \<Rightarrow> bool \<times> session_manager" where
  "RemoveActive sessionId s =
     (if remove_check sessionId s then (True, remove_delete sessionId s) else (False, s))"

definition IsActive :: "string \<Rightarrow> session_manager \<Rightarrow> bool" where
  "IsActive key s \<longleftrightarrow> map_of (sg_active s) key \<noteq> None"

definition TryGetActive :: "string \<Rightarrow> string \<Rightarrow> session_manager \<Rightarrow> nat option" where
  "TryGetActive channelId senderId s = map_of (sg_active s) (channelId @ '':'' @ senderId)"

definition TryGetActiveById :: "string \<Rightarrow> session_manager \<Rightarrow> nat option" where
  "TryGetActiveById sessionId s = find (\<lambda>a. sn_Id (sg_heap s ! a) = sessionId) (map snd (sg_active s))"

definition TryGetActiveByContractId :: "string \<Rightarrow> session_manager \<Rightarrow> nat option" where
  "TryGetActiveByContractId contractId s =
     find (\<lambda>a. sn_ContractPolicy (sg_heap s ! a) = Some contractId) (map snd (sg_active s))"

definition ListActive :: "session_manager \<Rightarrow> chat_session list" where
  "ListActive s = map (\<lambda>e. sg_heap s ! snd e) (sg_active s)"

definition Load :: "string \<Rightarrow> session_manager \<Rightarrow> chat_session option" where
  "Load sessionId s =
     (case map_of (sg_active s) sessionId of Some a \<Rightarrow> Some (sg_heap s ! a) | None \<Rightarrow> sg_store s sessionId)"

subsection \<open>Saving\<close>

text \<open>Four attempts; \<open>saves i\<close> says whether attempt number \<open>i\<close> succeeds. The result says whether the session is saved.\<close>

fun persist_loop :: "(nat \<Rightarrow> bool) \<Rightarrow> nat \<Rightarrow> nat \<Rightarrow> bool" where
  "persist_loop saves i 0 = saves i"
| "persist_loop saves i (Suc retries) = (if saves i then True else persist_loop saves (Suc i) retries)"

definition MaxRetries :: nat where
  "MaxRetries = 3"

definition save_session :: "(nat \<Rightarrow> bool) \<Rightarrow> nat \<Rightarrow> session_manager \<Rightarrow> session_manager" where
  "save_session saves a s =
     (if persist_loop saves 0 MaxRetries then s\<lparr>sg_store := (sg_store s)(sn_Id (sg_heap s ! a) \<mapsto> sg_heap s ! a)\<rparr> else s)"

text \<open>One of the saves in the background comes to its end.\<close>

definition background_persist :: "(nat \<Rightarrow> bool) \<Rightarrow> nat \<Rightarrow> session_manager \<Rightarrow> session_manager" where
  "background_persist saves a s =
     (save_session saves a s)\<lparr>sg_backgroundPersists := remove1 a (sg_backgroundPersists s)\<rparr>"

subsection \<open>Branches\<close>

definition branch_id :: "int \<Rightarrow> string \<Rightarrow> string \<Rightarrow> string" where
  "branch_id now sessionId branchName = sessionId @ '':branch:'' @ branchName @ '':'' @ Itoa (now div Second)"

text \<open>\<open>saved\<close>: the store could write. The identifier comes back in any case, next to the error.\<close>

definition Branch :: "int \<Rightarrow> bool \<Rightarrow> nat \<Rightarrow> string \<Rightarrow> session_manager \<Rightarrow> (string \<times> bool) \<times> session_manager" where
  "Branch now saved a branchName s =
     (let x = sg_heap s ! a in
      if sn_Id x = [] then (([], False), s)
      else let branchId = branch_id now (sn_Id x) branchName;
               branch = \<lparr>br_BranchId = branchId, br_SessionId = sn_Id x, br_Name = branchName, br_History = sn_History x\<rparr>
           in ((branchId, saved), if saved then s\<lparr>sg_branches := (sg_branches s)(branchId \<mapsto> branch)\<rparr> else s))"

text \<open>A branch that is not there is dereferenced.\<close>

definition RestoreBranch :: "int \<Rightarrow> bool \<Rightarrow> nat \<Rightarrow> string \<Rightarrow> session_manager \<Rightarrow> (bool \<times> session_manager) go_result" where
  "RestoreBranch now readable a branchId s =
     (if sn_Id (sg_heap s ! a) = [] \<or> \<not> readable then Inr (False, s)
      else case sg_branches s branchId of
        None \<Rightarrow> Inl (GoPanic ''invalid memory address or nil pointer dereference'')
      | Some b \<Rightarrow>
          if br_SessionId b \<noteq> sn_Id (sg_heap s ! a) then Inr (False, s)
          else Inr (True, s\<lparr>sg_heap := (sg_heap s)[a := (sg_heap s ! a)\<lparr>sn_History := br_History b, sn_LastActiveAt := now\<rparr>]\<rparr>))"

fun calls_equal :: "ToolInvocation list \<Rightarrow> ToolInvocation list \<Rightarrow> bool" where
  "calls_equal (l # ls) (r # rs) =
     (if ti_ToolName l \<noteq> ti_ToolName r \<or> ti_Arguments l \<noteq> ti_Arguments r \<or> ti_Result l \<noteq> ti_Result r then False
      else calls_equal ls rs)"
| "calls_equal _ _ = True"

definition turnsEqual :: "ChatTurn \<Rightarrow> ChatTurn \<Rightarrow> bool" where
  "turnsEqual left right =
     (if ht_Role left \<noteq> ht_Role right \<or> ht_Content left \<noteq> ht_Content right then False
      else if ht_ToolCalls left = [] \<and> ht_ToolCalls right = [] then True
      else if length (ht_ToolCalls left) \<noteq> length (ht_ToolCalls right) then False
      else calls_equal (ht_ToolCalls left) (ht_ToolCalls right))"

function shared_prefix :: "ChatTurn list \<Rightarrow> ChatTurn list \<Rightarrow> nat \<Rightarrow> nat" where
  "shared_prefix current branch i =
     (if i \<ge> min (length current) (length branch) \<or> \<not> turnsEqual (current ! i) (branch ! i) then i
      else shared_prefix current branch (Suc i))"
  by pat_completeness auto
termination shared_prefix
  by (relation "measure (\<lambda>(current, _, i). length current - i)") auto
declare shared_prefix.simps [simp del]

definition summarizeTurn :: "ChatTurn \<Rightarrow> string" where
  "summarizeTurn t =
     (let content = TrimSpace (ht_Content t);
          content = (if content = [] then ht_Role t else content);
          content = (if length content > 180 then take 180 content @ map char_of [0xE2, 0x80, 0xA6 :: nat] else content)
      in ht_Role t @ '': '' @ content)"

record session_diff =
  df_SharedPrefixTurns :: nat
  df_CurrentTurnCount :: nat
  df_BranchTurnCount :: nat
  df_CurrentOnly :: "string list"
  df_BranchOnly :: "string list"

definition BuildBranchDiff :: "bool \<Rightarrow> nat \<Rightarrow> string \<Rightarrow> session_manager \<Rightarrow> session_diff go_result" where
  "BuildBranchDiff readable a branchId s =
     (if sn_Id (sg_heap s ! a) = [] then Inl (GoErr ''sessionId must be set'')
      else if \<not> readable then Inl (GoErr ''store'')
      else case sg_branches s branchId of
        None \<Rightarrow> Inl (GoPanic ''invalid memory address or nil pointer dereference'')
      | Some b \<Rightarrow>
          if br_SessionId b \<noteq> sn_Id (sg_heap s ! a) then Inl (GoErr ''session data error'')
          else
            (let current = sn_History (sg_heap s ! a); n = shared_prefix current (br_History b) 0 in
             Inr \<lparr>df_SharedPrefixTurns = n, df_CurrentTurnCount = length current, df_BranchTurnCount = length (br_History b),
                  df_CurrentOnly = map summarizeTurn (drop n current), df_BranchOnly = map summarizeTurn (drop n (br_History b))\<rparr>))"

end
