(* ===== verification/Session_Safety.thy ===== *)
theory Session_Safety
  imports Session_Manager
begin

section \<open>What the session manager guarantees\<close>

text \<open>
  Operations on the sessions in any order (\<open>session_step\<close>), each admission and each sweep a step of its own; the theory
  \<open>Session_Admission\<close> takes them apart. Who is evicted, what a branch gives back, and what an eviction forgets.
\<close>

subsection \<open>The steps\<close>

text \<open>
  Beside the manager, a state holds the removals that have looked at the table and not yet deleted, and the number of
  deletions so far that found nothing to delete.
\<close>

type_synonym session_run = "session_manager \<times> string list \<times> nat"

datatype session_event =
    SvGet string nat          \<comment> \<open>\<open>GetOrCreateById\<close> of an identifier gave this session\<close>
  | SvRefused string
  | SvSweep nat
  | SvRemoveCheck string
  | SvRemoveDelete string
  | SvSaved nat               \<comment> \<open>a save in the background ended\<close>
  | SvPersist nat
  | SvTurns nat "ChatTurn list" \<comment> \<open>the holder of a session changes its history\<close>
  | SvBranch string
  | SvRestore nat string

inductive session_step :: "session_run \<Rightarrow> session_event \<Rightarrow> session_run \<Rightarrow> bool" where
  step_get: "GetOrCreateById now clk readable sid channel sender s = (Inr a, s') \<Longrightarrow> now < far_future \<Longrightarrow>
     session_step (s, P, d) (SvGet sid a) (s', P, d)"
| step_refused: "GetOrCreateById now clk readable sid channel sender s = (Inl e, s') \<Longrightarrow> session_step (s, P, d) (SvRefused sid) (s', P, d)"
| step_sweep: "SweepExpiredActiveSessions clk s = (n, s') \<Longrightarrow> session_step (s, P, d) (SvSweep n) (s', P, d)"
| step_check: "remove_check sid s \<Longrightarrow> session_step (s, P, d) (SvRemoveCheck sid) (s, sid # P, d)"
| step_delete: "sid \<in> set P \<Longrightarrow> session_step (s, P, d) (SvRemoveDelete sid)
     (remove_delete sid s, remove1 sid P, if map_of (sg_active s) sid = None then Suc d else d)"
| step_saved: "a \<in> set (sg_backgroundPersists s) \<Longrightarrow> session_step (s, P, d) (SvSaved a) (background_persist saves a s, P, d)"
| step_persist: "a < length (sg_heap s) \<Longrightarrow> session_step (s, P, d) (SvPersist a) (save_session saves a s, P, d)"
| step_turns: "a < length (sg_heap s) \<Longrightarrow>
     session_step (s, P, d) (SvTurns a h) (s\<lparr>sg_heap := (sg_heap s)[a := (sg_heap s ! a)\<lparr>sn_History := h\<rparr>]\<rparr>, P, d)"
| step_branch: "a < length (sg_heap s) \<Longrightarrow> Branch now saved a name s = ((bid, ok), s') \<Longrightarrow>
     session_step (s, P, d) (SvBranch bid) (s', P, d)"
| step_restore: "a < length (sg_heap s) \<Longrightarrow> now < far_future \<Longrightarrow> RestoreBranch now readable a bid s = Inr (ok, s') \<Longrightarrow>
     session_step (s, P, d) (SvRestore a bid) (s', P, d)"

inductive_cases session_stepE: "session_step r e r'"

subsection \<open>The table of sessions\<close>

text \<open>A new or changed list of objects in which identifiers stay and times stay before the end of the year 9999.\<close>

definition entry_ok :: "chat_session list \<Rightarrow> string \<times> nat \<Rightarrow> bool" where
  "entry_ok heap e \<longleftrightarrow> fst e \<noteq> [] \<and> snd e < length heap \<and> sn_Id (heap ! snd e) = fst e \<and>
     sn_LastActiveAt (heap ! snd e) < far_future"

definition table_ok :: "session_manager \<Rightarrow> nat \<Rightarrow> bool" where
  "table_ok s d \<longleftrightarrow> distinct (map fst (sg_active s)) \<and> (\<forall>e \<in> set (sg_active s). entry_ok (sg_heap s) e) \<and>
     int (length (sg_active s)) = sg_activeCount s + int d \<and> (\<forall>a \<in> set (sg_backgroundPersists s). a < length (sg_heap s)) \<and>
     (\<forall>k x. sg_store s k = Some x \<longrightarrow> sn_Id x = k)"

definition session_ok :: "session_run \<Rightarrow> bool" where
  "session_ok r \<longleftrightarrow> (case r of (s, P, d) \<Rightarrow>
     table_ok s d \<and> (0 < sg_maxSessions s \<longrightarrow> sg_activeCount s \<le> sg_maxSessions s))"

definition session_init :: "session_run \<Rightarrow> bool" where
  "session_init r \<longleftrightarrow> (\<exists>timeout maxSessions store. r = (new_manager timeout maxSessions store, [], 0) \<and>
     (\<forall>k x. store k = Some x \<longrightarrow> sn_Id x = k))"

lemma table_distinct: "table_ok s d \<Longrightarrow> distinct (map fst (sg_active s))"
  by (simp add: table_ok_def)

lemma table_entry: "table_ok s d \<Longrightarrow> (k, a) \<in> set (sg_active s) \<Longrightarrow> k \<noteq> [] \<and> a < length (sg_heap s) \<and> sn_Id (sg_heap s ! a) = k \<and> last_active s a < far_future"
  by (auto simp: table_ok_def entry_ok_def)

lemma table_map_of: "table_ok s d \<Longrightarrow> map_of (sg_active s) k = Some a \<longleftrightarrow> (k, a) \<in> set (sg_active s)"
  by (simp add: table_ok_def)

lemma table_unique: "table_ok s d \<Longrightarrow> (k, a) \<in> set (sg_active s) \<Longrightarrow> (k, b) \<in> set (sg_active s) \<Longrightarrow> b = a"
  by (metis option.inject table_map_of)

lemma filter_key_length:
  "distinct (map fst xs) \<Longrightarrow> length (filter (\<lambda>e. fst e \<noteq> k) xs) = (if k \<in> fst ` set xs then length xs - 1 else length xs)"
proof (induction xs)
  case (Cons x xs)
  then have "k \<notin> fst ` set xs \<Longrightarrow> filter (\<lambda>e. fst e \<noteq> k) xs = xs" by (auto simp: filter_id_conv)
  with Cons show ?case by (cases xs) auto
qed simp

lemma map_of_None_fst: "map_of xs k = None \<longleftrightarrow> k \<notin> fst ` set xs"
  by (simp add: map_of_eq_None_iff)

lemma upd_same: "f x = f (xs ! a) \<Longrightarrow> f (xs[a := x] ! b) = f (xs ! b)"
  by (cases "b = a"; cases "a < length xs") (auto simp: list_update_beyond)

text \<open>Changing one object keeps every entry whose identifier and time are kept.\<close>

lemma entry_ok_upd:
  "entry_ok heap e \<Longrightarrow> sn_Id x = sn_Id (heap ! a) \<Longrightarrow> sn_LastActiveAt x < far_future \<or> sn_LastActiveAt x = sn_LastActiveAt (heap ! a) \<Longrightarrow>
   entry_ok (heap[a := x]) e"
  by (cases "snd e = a") (auto simp: entry_ok_def)

lemma entry_ok_append: "entry_ok heap e \<Longrightarrow> entry_ok (heap @ [x]) e"
  by (auto simp: entry_ok_def nth_append)

lemma table_ok_upd:
  assumes "table_ok s d" "sn_Id x = sn_Id (sg_heap s ! a)"
    and "sn_LastActiveAt x < far_future \<or> sn_LastActiveAt x = last_active s a"
  shows "table_ok (s\<lparr>sg_heap := (sg_heap s)[a := x]\<rparr>) d"
  using assms by (auto simp: table_ok_def intro: entry_ok_upd)

lemma table_ok_delete:
  assumes "table_ok s d"
  shows "table_ok (remove_delete k s) (if map_of (sg_active s) k = None then Suc d else d)"
proof -
  have "k \<in> fst ` set (sg_active s) \<Longrightarrow> 0 < length (sg_active s)" by (cases "sg_active s") auto
  then have "int (length (filter (\<lambda>e. fst e \<noteq> k) (sg_active s))) =
      int (length (sg_active s)) - (if k \<in> fst ` set (sg_active s) then 1 else 0)"
    unfolding filter_key_length [OF table_distinct [OF assms], of k]
    by (auto simp: of_nat_diff Suc_le_eq simp del: length_greater_0_conv)
  then show ?thesis using assms
    by (auto simp: table_ok_def remove_delete_def map_of_None_fst distinct_map_filter split del: if_split split: if_split)
qed

lemma last_active_evict [simp]: "last_active (evict_session k a s) b = last_active s b"
  by (cases "b = a"; cases "a < length (sg_heap s)") (auto simp: evict_session_def list_update_beyond)

lemma evict_fields [simp]:
  "sg_active (evict_session k a s) = filter (\<lambda>e. fst e \<noteq> k) (sg_active s)"
  "sg_activeCount (evict_session k a s) = sg_activeCount s - 1"
  "sg_timeout (evict_session k a s) = sg_timeout s" "sg_maxSessions (evict_session k a s) = sg_maxSessions s"
  "sg_store (evict_session k a s) = sg_store s"
  "sg_backgroundPersists (evict_session k a s) = sg_backgroundPersists s @ [a]"
  by (simp_all add: evict_session_def)

lemma table_ok_evict:
  assumes "table_ok s d" "(k, a) \<in> set (sg_active s)"
  shows "table_ok (evict_session k a s) d"
proof -
  have "table_ok (s\<lparr>sg_heap := (sg_heap s)[a := (sg_heap s ! a)\<lparr>sn_State := SessionStateExpired\<rparr>]\<rparr>) d" (is "table_ok ?s d")
    using assms(1) by (rule table_ok_upd) simp_all
  then have "table_ok (remove_delete k ?s) d"
    using table_ok_delete [of ?s d k] assms by (auto simp: map_of_None_fst image_iff split: if_splits)
  moreover have "a < length (sg_heap s)" using table_entry [OF assms] by simp
  ultimately show ?thesis by (auto simp: table_ok_def remove_delete_def evict_session_def)
qed

subsection \<open>Sweeping\<close>

text \<open>What sweeping and evicting do: they keep the table and the settings, and every session they drop is expired and queued
  for saving.\<close>

definition dropped :: "session_manager \<Rightarrow> session_manager \<Rightarrow> (string \<times> nat) set" where
  "dropped s t = set (sg_active s) - set (sg_active t)"

definition drops :: "nat \<Rightarrow> session_manager \<Rightarrow> session_manager \<Rightarrow> bool" where
  "drops d s t \<longleftrightarrow> table_ok t d \<and> set (sg_active t) \<subseteq> set (sg_active s) \<and> sg_activeCount t \<le> sg_activeCount s \<and>
     sg_maxSessions t = sg_maxSessions s \<and> sg_timeout t = sg_timeout s \<and> sg_store t = sg_store s \<and>
     sg_branches t = sg_branches s \<and> length (sg_heap t) = length (sg_heap s) \<and>
     (\<forall>b. last_active t b = last_active s b \<and> sn_Id (sg_heap t ! b) = sn_Id (sg_heap s ! b) \<and>
          sn_History (sg_heap t ! b) = sn_History (sg_heap s ! b)) \<and>
     set (sg_backgroundPersists s) \<subseteq> set (sg_backgroundPersists t) \<and>
     (\<forall>b. sn_State (sg_heap s ! b) = SessionStateExpired \<longrightarrow> sn_State (sg_heap t ! b) = SessionStateExpired) \<and>
     (\<forall>(k, b) \<in> dropped s t. sn_State (sg_heap t ! b) = SessionStateExpired \<and> b \<in> set (sg_backgroundPersists t))"

lemma drops_refl: "table_ok s d \<Longrightarrow> drops d s s"
  by (simp add: drops_def dropped_def)

lemma drops_trans: "drops d s t \<Longrightarrow> drops d t u \<Longrightarrow> drops d s u"
  unfolding drops_def dropped_def by (auto; blast)

lemma drops_evict:
  assumes "table_ok s d" "(k, a) \<in> set (sg_active s)"
  shows "drops d s (evict_session k a s)"
proof -
  have a: "a < length (sg_heap s)" using table_entry [OF assms] by simp
  have "(k, b) \<in> set (sg_active s) \<Longrightarrow> b = a" for b
    using table_unique [OF assms] .
  with a show ?thesis
    using table_ok_evict [OF assms] last_active_evict [of k a s]
    by (auto simp: drops_def dropped_def evict_session_def nth_list_update)
qed

lemma sweep_loop_drops:
  assumes "table_ok s d" "set es \<subseteq> set (sg_active s)" "distinct (map fst es)" "sweep_loop clk i es n s = (m, t)"
  shows "drops d s t \<and> (\<forall>(k, b) \<in> dropped s t. \<exists>j. last_active s b + sg_timeout s < clk j)"
  using assms
proof (induction clk i es n s rule: sweep_loop.induct)
  case (2 clk i key a es n s)
  show ?case
  proof (cases "last_active s a + sg_timeout s < clk i")
    case True
    let ?s = "evict_session key a s"
    have drop: "drops d s ?s" using 2 drops_evict by simp
    have gone: "(k, b) \<in> dropped s ?s \<Longrightarrow> (k, b) = (key, a)" for k b
      using table_unique [OF "2.prems"(1), of key a] "2.prems"(2) by (auto simp: dropped_def)
    have "drops d ?s t \<and> (\<forall>(k, b) \<in> dropped ?s t. \<exists>j. last_active ?s b + sg_timeout ?s < clk j)"
      using True 2 by (intro "2.IH"(1)) (auto simp: drop drops_def [of d s ?s, THEN iffD1, OF drop] image_iff)
    then have "drops d s t" "\<forall>(k, b) \<in> dropped ?s t. \<exists>j. last_active s b + sg_timeout s < clk j"
      using drops_trans [OF drop] by auto
    moreover have "dropped s t \<subseteq> insert (key, a) (dropped ?s t)"
    proof (rule subsetI)
      fix e assume e: "e \<in> dropped s t"
      show "e \<in> insert (key, a) (dropped ?s t)"
      proof (cases "e \<in> set (sg_active ?s)")
        case False
        with e have "e \<in> dropped s ?s" unfolding dropped_def by blast
        with gone [of "fst e" "snd e"] show ?thesis by simp
      qed (use e in \<open>simp add: dropped_def\<close>)
    qed
    ultimately show ?thesis using True by blast
  next
    case False
    with 2 show ?thesis by simp
  qed
qed (auto simp: drops_refl dropped_def)

lemma Sweep_drops:
  assumes "table_ok s d" "SweepExpiredActiveSessions clk s = (n, t)"
  shows "drops d s t" "(k, b) \<in> dropped s t \<Longrightarrow> \<exists>j. last_active s b + sg_timeout s < clk j"
  using sweep_loop_drops [OF assms(1) subset_refl table_distinct [OF assms(1)] assms(2) [unfolded SweepExpiredActiveSessions_def]]
  by auto

subsection \<open>Eviction\<close>

lemma oldest_loop_spec:
  "oldest_loop heap es k0 t0 = k \<Longrightarrow> (k = k0 \<and> (\<forall>(k', b) \<in> set es. t0 \<le> sn_LastActiveAt (heap ! b))) \<or>
     (\<exists>a. (k, a) \<in> set es \<and> sn_LastActiveAt (heap ! a) < t0 \<and> (\<forall>(k', b) \<in> set es. sn_LastActiveAt (heap ! a) \<le> sn_LastActiveAt (heap ! b)))"
proof (induction heap es k0 t0 rule: oldest_loop.induct)
  case (2 heap key a es k0 t0)
  show ?case
  proof (cases "sn_LastActiveAt (heap ! a) < t0")
    case True
    with 2 consider "k = key" "\<forall>(k', b) \<in> set es. sn_LastActiveAt (heap ! a) \<le> sn_LastActiveAt (heap ! b)"
      | c where "(k, c) \<in> set es" "sn_LastActiveAt (heap ! c) < sn_LastActiveAt (heap ! a)"
        "\<forall>(k', b) \<in> set es. sn_LastActiveAt (heap ! c) \<le> sn_LastActiveAt (heap ! b)" by auto
    then show ?thesis
    proof cases
      case 1
      with True show ?thesis by (intro disjI2 exI [of _ a]) auto
    next
      case (2 c)
      with True show ?thesis by (intro disjI2 exI [of _ c]) auto
    qed
  next
    case False
    with "2.prems" have "oldest_loop heap es k0 t0 = k" by simp
    with "2.IH"(2) [OF False this] False show ?thesis by (elim disjE exE conjE) auto
  qed
qed simp

lemma oldest_found:
  assumes "table_ok s d" "sg_active s \<noteq> []"
  obtains k a where "oldest_loop (sg_heap s) (sg_active s) [] far_future = k" "(k, a) \<in> set (sg_active s)" "k \<noteq> []"
    "\<And>k' b. (k', b) \<in> set (sg_active s) \<Longrightarrow> last_active s a \<le> last_active s b"
proof -
  from assms(2) obtain k0 a0 where e0: "(k0, a0) \<in> set (sg_active s)" by (cases "sg_active s") auto
  then have "last_active s a0 < far_future" using table_entry [OF assms(1)] by blast
  with e0 have "\<not> (\<forall>(k', b) \<in> set (sg_active s). far_future \<le> last_active s b)" by force
  then obtain a where "(oldest_loop (sg_heap s) (sg_active s) [] far_future, a) \<in> set (sg_active s)"
    "\<forall>(k', b) \<in> set (sg_active s). last_active s a \<le> last_active s b"
    using oldest_loop_spec [OF refl, of "sg_heap s" "sg_active s" "[]" far_future]
    by (elim disjE exE conjE) (erule notE, assumption, rule that, assumption+)
  moreover from table_entry [OF assms(1) this(1)] have "oldest_loop (sg_heap s) (sg_active s) [] far_future \<noteq> []" by simp
  ultimately show thesis by (intro that) auto
qed

text \<open>As long as the counter is at most one above the room, one eviction is enough.\<close>

lemma evict_loop_once:
  assumes "table_ok s d" "sg_activeCount s = sg_maxSessions s" "0 < sg_maxSessions s"
  obtains k a where "(k, a) \<in> set (sg_active s)" "evict_loop (Suc (Suc n)) s = evict_session k a s"
    "\<And>k' b. (k', b) \<in> set (sg_active s) \<Longrightarrow> last_active s a \<le> last_active s b"
proof -
  have "sg_active s \<noteq> []" using assms by (auto simp: table_ok_def)
  with assms(1) obtain k a where o: "oldest_loop (sg_heap s) (sg_active s) [] far_future = k" "(k, a) \<in> set (sg_active s)"
    "k \<noteq> []" "\<And>k' b. (k', b) \<in> set (sg_active s) \<Longrightarrow> last_active s a \<le> last_active s b"
    by (rule oldest_found) blast
  then have "map_of (sg_active s) k = Some a" using assms(1) table_map_of by blast
  with o(1,3) assms(2) have "evict_loop (Suc (Suc n)) s = evict_session k a s" by (simp add: Let_def)
  with o that show thesis by blast
qed

lemma evictLeastRecentlyActive_cases:
  assumes "table_ok s d" "0 < sg_maxSessions s" "sg_activeCount s = sg_maxSessions s"
  obtains k a where "(k, a) \<in> set (sg_active s)" "evictLeastRecentlyActive s = evict_session k a s"
    "\<And>k' b. (k', b) \<in> set (sg_active s) \<Longrightarrow> last_active s a \<le> last_active s b"
proof -
  have "nat (sg_maxSessions s + 1) = Suc (Suc (nat (sg_maxSessions s - 1)))" using assms(2) by simp
  with assms(2) evict_loop_once [OF assms(1,3,2), of "nat (sg_maxSessions s - 1)"] that show thesis
    unfolding evictLeastRecentlyActive_def by auto
qed

text \<open>Room is made: what is dropped is expired or idle for the longest time.\<close>

lemma ensureCapacity_spec:
  assumes "table_ok s d" "0 < sg_maxSessions s" "sg_activeCount s \<le> sg_maxSessions s" "ensureCapacityForAdmission clk s = (ok, t)"
  shows "ok" "drops d s t" "sg_activeCount t < sg_maxSessions s"
    and "(k, b) \<in> dropped s t \<Longrightarrow> sg_maxSessions s \<le> sg_activeCount s \<and>
      ((\<exists>j. last_active s b + sg_timeout s < clk j) \<or> (\<forall>(k', c) \<in> set (sg_active t). last_active s b \<le> last_active s c))"
proof -
  define s1 where "s1 = (if sg_activeCount s \<ge> sg_maxSessions s then snd (SweepExpiredActiveSessions clk s) else s)"
  define s2 where "s2 = (if sg_activeCount s1 \<ge> sg_maxSessions s1 then evictLeastRecentlyActive s1 else s1)"
  have t: "t = s2" "ok \<longleftrightarrow> sg_activeCount s2 < sg_maxSessions s2"
    using assms(2,4) by (auto simp: ensureCapacityForAdmission_def s1_def s2_def Let_def)
  have 1: "drops d s s1" "(k, b) \<in> dropped s s1 \<Longrightarrow> sg_maxSessions s \<le> sg_activeCount s \<and> (\<exists>j. last_active s b + sg_timeout s < clk j)" for k b
    using Sweep_drops [OF assms(1), of clk "fst (SweepExpiredActiveSessions clk s)" "snd (SweepExpiredActiveSessions clk s)"]
      drops_refl [OF assms(1)] by (auto simp: s1_def dropped_def split: if_splits)
  then have s1: "table_ok s1 d" "sg_maxSessions s1 = sg_maxSessions s" "sg_activeCount s1 \<le> sg_activeCount s"
    "\<And>b. last_active s1 b = last_active s b" by (simp_all add: drops_def)
  have full: "sg_maxSessions s \<le> sg_activeCount s1 \<Longrightarrow> sg_maxSessions s \<le> sg_activeCount s" using s1 by linarith
  have "drops d s1 s2 \<and> sg_activeCount s2 < sg_maxSessions s \<and> (\<forall>k b. (k, b) \<in> dropped s1 s2 \<longrightarrow>
      sg_maxSessions s \<le> sg_activeCount s1 \<and> (\<forall>(k', c) \<in> set (sg_active s1). last_active s b \<le> last_active s c))"
  proof (cases "sg_activeCount s1 \<ge> sg_maxSessions s1")
    case True
    then have "sg_activeCount s1 = sg_maxSessions s1" "0 < sg_maxSessions s1" using s1 assms by linarith+
    with s1(1) obtain k a where ev: "(k, a) \<in> set (sg_active s1)" "evictLeastRecentlyActive s1 = evict_session k a s1"
      "\<And>k' b. (k', b) \<in> set (sg_active s1) \<Longrightarrow> last_active s1 a \<le> last_active s1 b"
      using evictLeastRecentlyActive_cases by metis
    have "(k', b) \<in> dropped s1 s2 \<Longrightarrow> b = a" for k' b
      using True ev(2) table_unique [OF s1(1) ev(1)] by (auto simp: s2_def dropped_def split: if_splits)
    moreover have "last_active s a \<le> last_active s c" if "(k', c) \<in> set (sg_active s1)" for k' c using ev(3) [OF that] s1(4) by simp
    moreover have "drops d s1 s2" "sg_activeCount s2 < sg_maxSessions s"
      using True drops_evict [OF s1(1) ev(1)] s1(2) \<open>sg_activeCount s1 = sg_maxSessions s1\<close> by (simp_all add: s2_def ev(2))
    moreover have "sg_maxSessions s \<le> sg_activeCount s1" using True s1(2) by simp
    ultimately show ?thesis by (intro conjI allI impI ballI) (assumption | clarsimp)+
  next
    case False
    then show ?thesis using drops_refl [OF s1(1)] s1 by (auto simp: s2_def dropped_def)
  qed
  note 2 = this
  show "ok" "drops d s t" "sg_activeCount t < sg_maxSessions s"
    using drops_trans [OF 1(1)] 2 t s1(2) by (simp_all add: drops_def [of d s1 s2])
  assume "(k, b) \<in> dropped s t"
  then have "(k, b) \<in> dropped s s1 \<or> (k, b) \<in> dropped s1 s2" by (auto simp: dropped_def t)
  moreover have "set (sg_active t) \<subseteq> set (sg_active s1)" using 2 t by (auto simp: drops_def)
  ultimately show "sg_maxSessions s \<le> sg_activeCount s \<and>
      ((\<exists>j. last_active s b + sg_timeout s < clk j) \<or> (\<forall>(k', c) \<in> set (sg_active t). last_active s b \<le> last_active s c))"
    using 1(2) 2 full by blast
qed

subsection \<open>Admission\<close>

definition admitted :: "int \<Rightarrow> string \<Rightarrow> string \<Rightarrow> string \<Rightarrow> session_manager \<Rightarrow> chat_session" where
  "admitted now sid channel sender s =
     (case sg_store s sid of
        Some stored \<Rightarrow> stored\<lparr>sn_LastActiveAt := now, sn_State := SessionStateActive\<rparr>
      | None \<Rightarrow> \<lparr>sn_Id = sid, sn_ChannelId = channel, sn_SenderId = sender, sn_LastActiveAt = now,
                   sn_History = [], sn_State = SessionStateActive, sn_ContractPolicy = None\<rparr>)"

definition put_new :: "string \<Rightarrow> chat_session \<Rightarrow> session_manager \<Rightarrow> session_manager" where
  "put_new sid x s = s\<lparr>sg_heap := sg_heap s @ [x], sg_active := (sid, length (sg_heap s)) # sg_active s,
     sg_activeCount := sg_activeCount s + 1\<rparr>"

lemma ensureCapacity_drops:
  assumes "table_ok s d" "0 < sg_maxSessions s \<longrightarrow> sg_activeCount s \<le> sg_maxSessions s" "ensureCapacityForAdmission clk s = (ok, t)"
  shows "drops d s t" "0 < sg_maxSessions s \<longrightarrow> sg_activeCount t < sg_maxSessions s"
proof -
  have "drops d s t \<and> (0 < sg_maxSessions s \<longrightarrow> sg_activeCount t < sg_maxSessions s)"
  proof (cases "0 < sg_maxSessions s")
    case True
    with assms(2) have "sg_activeCount s \<le> sg_maxSessions s" by simp
    from ensureCapacity_spec(2) [OF assms(1) True this assms(3)] ensureCapacity_spec(3) [OF assms(1) True this assms(3)]
    show ?thesis by blast
  next
    case False
    with assms(3) have "t = s" by (simp add: ensureCapacityForAdmission_def)
    with False drops_refl [OF assms(1)] show ?thesis by simp
  qed
  then show "drops d s t" "0 < sg_maxSessions s \<longrightarrow> sg_activeCount t < sg_maxSessions s" by simp_all
qed

lemma GetOrCreate_cases:
  assumes "session_ok (s, P, d)" "GetOrCreateById now clk readable sid channel sender s = (r, s')"
  obtains e where "r = Inl e" "s' = s"
  | a where "r = Inr a" "(sid, a) \<in> set (sg_active s)" "s' = touch_session now a s"
  | ok t where "r = Inr (length (sg_heap s))" "sid \<noteq> []" "sid \<notin> fst ` set (sg_active s)" "ensureCapacityForAdmission clk s = (ok, t)"
    "drops d s t" "s' = put_new sid (admitted now sid channel sender s) t"
    "0 < sg_maxSessions s \<longrightarrow> sg_activeCount t < sg_maxSessions s"
proof (cases "map_of (sg_active s) sid")
  case (Some a)
  show thesis
  proof (cases "sid = []")
    case True
    with assms(2) have "r = Inl ''sessionId must be set''" "s' = s" by (simp_all add: GetOrCreateById_def)
    then show thesis by (rule that(1))
  next
    case False
    with assms(2) Some have "r = Inr a" "s' = touch_session now a s" by (simp_all add: GetOrCreateById_def)
    with map_of_SomeD [OF Some] show thesis by (intro that(2))
  qed
next
  case None
  obtain ok t where t: "ensureCapacityForAdmission clk s = (ok, t)" by fastforce
  from assms(1) have inv: "table_ok s d" "0 < sg_maxSessions s \<longrightarrow> sg_activeCount s \<le> sg_maxSessions s" by (auto simp: session_ok_def)
  note dr = ensureCapacity_drops [OF inv t]
  then have "set (sg_active t) \<subseteq> set (sg_active s)" and len: "length (sg_heap t) = length (sg_heap s)" by (simp_all add: drops_def)
  with None have "map_of (sg_active t) sid = None" by (auto simp: map_of_None_fst)
  then have adm: "admit_session now sid x t = (length (sg_heap s), put_new sid x t)" for x
    by (simp add: admit_session_def put_new_def Let_def len)
  have new: "sid \<notin> fst ` set (sg_active s)" using None by (simp add: map_of_None_fst)
  show thesis
  proof (cases "sid = [] \<or> \<not> readable")
    case True
    with None assms(2) have "\<exists>e. r = Inl e" "s' = s" by (auto simp: GetOrCreateById_def split: if_splits)
    then show thesis using that(1) by blast
  next
    case False
    with None assms(2) t adm have "(r, s') = (Inr (length (sg_heap s)), put_new sid (admitted now sid channel sender s) t)"
      by (simp add: GetOrCreateById_def Let_def admitted_def split: option.splits)
    then have "r = Inr (length (sg_heap s))" "s' = put_new sid (admitted now sid channel sender s) t" by simp_all
    with t dr new False show thesis by (intro that(3)) blast+
  qed
qed

lemma table_ok_put_new:
  assumes "table_ok s d" "sid \<noteq> []" "sid \<notin> fst ` set (sg_active s)" "sn_Id x = sid" "sn_LastActiveAt x < far_future"
  shows "table_ok (put_new sid x s) d"
  using assms by (auto simp: table_ok_def put_new_def entry_ok_def nth_append)

lemma admitted_fields:
  "table_ok s d \<Longrightarrow> sn_Id (admitted now sid channel sender s) = sid"
  "sn_LastActiveAt (admitted now sid channel sender s) = now"
  by (auto simp: admitted_def table_ok_def split: option.splits)

subsection \<open>The invariant\<close>

lemma table_ok_store:
  "table_ok s d \<Longrightarrow> table_ok (save_session saves a s) d"
  by (auto simp: table_ok_def save_session_def)

lemma set_remove1_sub: "x \<in> set (remove1 a xs) \<Longrightarrow> x \<in> set xs"
  by (meson notin_set_remove1)

lemma manager_frames [simp]:
  "sg_maxSessions (save_session saves a s) = sg_maxSessions s" "sg_activeCount (save_session saves a s) = sg_activeCount s"
  "sg_backgroundPersists (save_session saves a s) = sg_backgroundPersists s" "sg_active (save_session saves a s) = sg_active s"
  "sg_heap (save_session saves a s) = sg_heap s" "sg_branches (save_session saves a s) = sg_branches s"
  "sg_heap (background_persist saves a s) = sg_heap s" "sg_branches (background_persist saves a s) = sg_branches s"
  "sg_maxSessions (background_persist saves a s) = sg_maxSessions s" "sg_activeCount (background_persist saves a s) = sg_activeCount s"
  "sg_maxSessions (touch_session now a s) = sg_maxSessions s" "sg_activeCount (touch_session now a s) = sg_activeCount s"
  "sg_branches (touch_session now a s) = sg_branches s"
  "sg_maxSessions (put_new sid x s) = sg_maxSessions s" "sg_activeCount (put_new sid x s) = sg_activeCount s + 1"
  "sg_branches (put_new sid x s) = sg_branches s" "sg_heap (put_new sid x s) = sg_heap s @ [x]"
  "sg_maxSessions (remove_delete sid s) = sg_maxSessions s" "sg_activeCount (remove_delete sid s) = sg_activeCount s - 1"
  "sg_branches (remove_delete sid s) = sg_branches s" "sg_heap (remove_delete sid s) = sg_heap s"
  by (simp_all add: save_session_def background_persist_def touch_session_def put_new_def remove_delete_def)

lemma session_ok_get:
  assumes "session_ok (s, P, d)" "GetOrCreateById now clk readable sid channel sender s = (r, s')" "now < far_future \<or> (\<exists>e. r = Inl e)"
  shows "session_ok (s', P, d)"
  using GetOrCreate_cases [OF assms(1,2)]
proof cases
  case 1
  with assms(1) show ?thesis by simp
next
  case (2 a)
  with assms(3) have "table_ok (s\<lparr>sg_heap := (sg_heap s)[a := (sg_heap s ! a)\<lparr>sn_LastActiveAt := now\<rparr>]\<rparr>) d"
    using assms(1) by (intro table_ok_upd) (auto simp: session_ok_def)
  with 2 assms(1) show ?thesis by (simp add: session_ok_def touch_session_def)
next
  case (3 ok t)
  have now: "now < far_future" using 3(1) assms(3) by simp
  have t: "table_ok t d" "set (sg_active t) \<subseteq> set (sg_active s)" "sg_maxSessions t = sg_maxSessions s"
    using 3(5) by (simp_all add: drops_def)
  then have "sid \<notin> fst ` set (sg_active t)" using 3(3) by auto
  moreover have "sn_Id (admitted now sid channel sender s) = sid" using assms(1) admitted_fields(1) by (auto simp: session_ok_def)
  ultimately have "table_ok (put_new sid (admitted now sid channel sender s) t) d"
    using t(1) 3(2) now by (intro table_ok_put_new) (simp_all add: admitted_fields(2))
  with 3(6,7) t(3) show ?thesis by (auto simp: session_ok_def)
qed

lemma session_ok_step: "session_ok r \<Longrightarrow> session_step r e r' \<Longrightarrow> session_ok r'"
proof (erule session_step.cases, goal_cases)
  case (3 clk s n s' P d)
  then show ?case using Sweep_drops(1) by (fastforce simp: session_ok_def drops_def)
next
  case (5 sid P s d)
  then show ?case using table_ok_delete [of s d sid] by (auto simp: session_ok_def)
next
  case (6 a s P d saves)
  then have "table_ok (save_session saves a s) d" by (auto simp: session_ok_def intro: table_ok_store)
  then have "table_ok (background_persist saves a s) d"
    by (auto simp: background_persist_def table_ok_def dest: set_remove1_sub)
  with 6 show ?case by (auto simp: session_ok_def)
next
  case (8 a s P d h)
  then show ?case using table_ok_upd [of s d "(sg_heap s ! a)\<lparr>sn_History := h\<rparr>" a] by (auto simp: session_ok_def)
next
  case (9 a s now saved name bid ok s' P d)
  then show ?case by (auto simp: session_ok_def Branch_def table_ok_def Let_def split: if_splits)
next
  case (10 a s now readable bid ok s' P d)
  have "table_ok (s\<lparr>sg_heap := (sg_heap s)[a := (sg_heap s ! a)\<lparr>sn_History := h, sn_LastActiveAt := now\<rparr>]\<rparr>) d" for h
    using 10 by (intro table_ok_upd) (auto simp: session_ok_def)
  with 10 show ?case by (auto simp: session_ok_def RestoreBranch_def split: if_splits option.splits)
next
  case 7
  then show ?case by (auto simp: session_ok_def table_ok_store)
next
  case 4
  then show ?case by (auto simp: session_ok_def)
qed (use session_ok_get in blast)+

interpretation session_table: invariant_machine session_init session_step session_ok
proof
  show "session_init r \<Longrightarrow> session_ok r" for r
    by (auto simp: session_init_def session_ok_def table_ok_def new_manager_def)
qed (rule session_ok_step)

subsection \<open>Examples\<close>

definition no_store :: "string \<Rightarrow> chat_session option" where
  "no_store k = None"

definition example_get :: "int \<Rightarrow> string \<Rightarrow> session_manager \<Rightarrow> session_manager" where
  "example_get now sid s = snd (GetOrCreateById now (\<lambda>_. now) True sid ''web'' ''ann'' s)"

definition example_manager :: session_manager where
  "example_manager = example_get 1 ''a'' (new_manager 10 1 no_store)"

lemmas session_eval = example_manager_def example_get_def GetOrCreateById_def new_manager_def no_store_def
  ensureCapacityForAdmission_def admit_session_def remove_delete_def remove_check_def Let_def

lemma step_example_get:
  "fst (GetOrCreateById now (\<lambda>_. now) True sid ''web'' ''ann'' s) = Inr a \<Longrightarrow> now < far_future \<Longrightarrow>
   session_step (s, P, d) (SvGet sid a) (example_get now sid s, P, d)"
  unfolding example_get_def by (rule step_get) (auto simp: prod_eq_iff)

lemma example_run_starts: "session_init (new_manager 10 1 no_store, [], 0)"
  unfolding session_init_def by (intro exI conjI) (rule refl, simp add: no_store_def)

subsection \<open>Eviction\<close>

text \<open>A session that has to leave for a new one was in a full table, is marked expired and queued for saving, and it had
  expired or it was idle for at least as long as every session that stays.\<close>

theorem admission_spares_recent:
  assumes "session_init r" "steps session_step r es (s, P, d)"
    and "GetOrCreateById now clk readable sid channel sender s = (Inr a, t)"
    and "(k, b) \<in> set (sg_active s)" "(k, b) \<notin> set (sg_active t)"
  shows "0 < sg_maxSessions s \<and> sg_maxSessions s \<le> sg_activeCount s \<and>
     sn_State (sg_heap t ! b) = SessionStateExpired \<and> b \<in> set (sg_backgroundPersists t) \<and>
     ((\<exists>i. last_active s b + sg_timeout s < clk i) \<or>
      (\<forall>(k', c) \<in> set (sg_active t). k' \<noteq> sid \<longrightarrow> last_active s b \<le> last_active s c))"
proof -
  have inv: "session_ok (s, P, d)" by (rule session_table.inv_reachable [OF assms(1,2)])
  then have tab: "table_ok s d" "0 < sg_maxSessions s \<Longrightarrow> sg_activeCount s \<le> sg_maxSessions s" by (auto simp: session_ok_def)
  from GetOrCreate_cases [OF inv assms(3)] obtain ok u where u: "ensureCapacityForAdmission clk s = (ok, u)" "drops d s u"
    "t = put_new sid (admitted now sid channel sender s) u"
    by cases (use assms(4,5) in \<open>auto simp: touch_session_def\<close>)
  have "(k, b) \<in> dropped s u" using assms(4,5) u(3) by (auto simp: dropped_def put_new_def)
  moreover have pos: "0 < sg_maxSessions s"
    using calculation u(1) by (auto simp: ensureCapacityForAdmission_def dropped_def split: if_splits)
  ultimately have "sg_maxSessions s \<le> sg_activeCount s \<and>
      ((\<exists>j. last_active s b + sg_timeout s < clk j) \<or> (\<forall>(k', c) \<in> set (sg_active u). last_active s b \<le> last_active s c))"
    using ensureCapacity_spec(4) [OF tab(1) pos tab(2) [OF pos] u(1)] by blast
  moreover have "sn_State (sg_heap u ! b) = SessionStateExpired" "b \<in> set (sg_backgroundPersists u)" "length (sg_heap u) = length (sg_heap s)"
    using u(2) \<open>(k, b) \<in> dropped s u\<close> by (auto simp: drops_def)
  moreover have "b < length (sg_heap s)" using table_entry [OF tab(1) assms(4)] by simp
  ultimately show ?thesis using pos by (auto simp: u(3) put_new_def nth_append)
qed

text \<open>A manager for one session holds one that nobody has used since time 1, and must admit another at time 5.\<close>

lemma example_first: "session_step (new_manager 10 1 no_store, [], 0) (SvGet ''a'' 0) (example_manager, [], 0)"
  unfolding example_manager_def by (rule step_example_get; simp add: session_eval far_future_def)

lemma example_one:
  "steps session_step (new_manager 10 1 no_store, [], 0) [SvGet ''a'' 0] (example_manager, [], 0)"
  by (rule steps_step, rule example_first, rule steps_refl)

lemma example_admission:
  "GetOrCreateById 5 (\<lambda>_. 5) True ''b'' ''web'' ''bob'' example_manager = (Inr 1, snd (GetOrCreateById 5 (\<lambda>_. 5) True ''b'' ''web'' ''bob'' example_manager))"
  "(''a'', 0) \<in> set (sg_active example_manager)"
  "(''a'', 0) \<notin> set (sg_active (snd (GetOrCreateById 5 (\<lambda>_. 5) True ''b'' ''web'' ''bob'' example_manager)))"
  by (simp_all add: session_eval SweepExpiredActiveSessions_def evictLeastRecentlyActive_def evict_session_def far_future_def numeral_2_eq_2)

theorem admission_spares_recent_witness:
  "sn_State (sg_heap (snd (GetOrCreateById 5 (\<lambda>_. 5) True ''b'' ''web'' ''bob'' example_manager)) ! 0) = SessionStateExpired \<and>
   \<not> (\<exists>i. last_active example_manager 0 + sg_timeout example_manager < (5 :: int))"
proof -
  have "last_active example_manager 0 + sg_timeout example_manager = 11" by (simp add: session_eval)
  with admission_spares_recent [OF example_run_starts example_one example_admission] show ?thesis by simp
qed

text \<open>When a session leaves for a new one and comes back before its save is through, its identifier gets another object
  with the history the store has, not the one in memory: the turns since the last save are forgotten, and the old object
  is still queued to be saved.\<close>

theorem readmission_forgets_unsaved_turns:
  assumes "session_init r" "steps session_step r es (s, P, d)"
    and "GetOrCreateById now clk readable sid channel sender s = (Inr c, t)"
    and "(k, a) \<in> set (sg_active s)" "(k, a) \<notin> set (sg_active t)" "now < far_future"
    and "GetOrCreateById now' clk' True k channel' sender' t = (Inr b, u)"
  shows "b \<noteq> a \<and> (k, b) \<in> set (sg_active u) \<and>
     sn_History (sg_heap u ! b) = (case sg_store s k of Some x \<Rightarrow> sn_History x | None \<Rightarrow> []) \<and>
     sn_History (sg_heap u ! a) = sn_History (sg_heap s ! a) \<and> a \<in> set (sg_backgroundPersists u)"
proof -
  have inv: "session_ok (s, P, d)" by (rule session_table.inv_reachable [OF assms(1,2)])
  then have a: "a < length (sg_heap s)" "k \<noteq> []" using table_entry assms(4) by (auto simp: session_ok_def)
  have inv': "session_ok (t, P, d)" using session_ok_get [OF inv assms(3)] assms(6) by blast
  from GetOrCreate_cases [OF inv assms(3)] obtain v where v: "drops d s v" "sid \<notin> fst ` set (sg_active s)"
    "t = put_new sid (admitted now sid channel sender s) v"
    by cases (use assms(4,5) in \<open>auto simp: touch_session_def\<close>)
  have gone: "k \<notin> fst ` set (sg_active t)"
  proof
    assume "k \<in> fst ` set (sg_active t)"
    then obtain a' where "(k, a') \<in> set (sg_active t)" by auto
    moreover have "k \<noteq> sid" using assms(4) v(2) by force
    ultimately have "(k, a') \<in> set (sg_active v)" by (simp add: v(3) put_new_def)
    moreover have "set (sg_active v) \<subseteq> set (sg_active s)" using v(1) by (simp add: drops_def)
    ultimately have "a' = a" using table_unique [of s d k a a'] inv assms(4) by (auto simp: session_ok_def)
    with \<open>(k, a') \<in> set (sg_active t)\<close> assms(5) show False by simp
  qed
  from GetOrCreate_cases [OF inv' assms(7)] obtain w where w: "b = length (sg_heap t)" "drops d t w"
    "u = put_new k (admitted now' k channel' sender' t) w"
    by cases (use gone in \<open>auto simp: image_iff\<close>)
  have "(k, a) \<in> dropped s v" using assms(4,5) v(3) by (auto simp: dropped_def put_new_def)
  then have "a \<in> set (sg_backgroundPersists v)" "length (sg_heap v) = length (sg_heap s)" "sg_store v = sg_store s"
    "sn_History (sg_heap v ! a) = sn_History (sg_heap s ! a)" using v(1) by (auto simp: drops_def)
  then have t: "a \<in> set (sg_backgroundPersists t)" "length (sg_heap t) = Suc (length (sg_heap s))" "sg_store t = sg_store s"
    "sn_History (sg_heap t ! a) = sn_History (sg_heap s ! a)" using a by (simp_all add: v(3) put_new_def nth_append)
  have "length (sg_heap w) = length (sg_heap t)" "a \<in> set (sg_backgroundPersists w)"
    "sn_History (sg_heap w ! a) = sn_History (sg_heap t ! a)" using w(2) t(1) by (auto simp: drops_def)
  then show ?thesis using w(1) t a by (auto simp: w(3) put_new_def nth_append admitted_def split: option.splits)
qed

definition example_turn :: ChatTurn where
  "example_turn = \<lparr>ht_Role = ''user'', ht_Content = ''hi'', ht_Timestamp = 2, ht_ToolCalls = []\<rparr>"

definition example_talk :: session_manager where
  "example_talk = example_manager\<lparr>sg_heap := (sg_heap example_manager)[0 := (sg_heap example_manager ! 0)\<lparr>sn_History := [example_turn]\<rparr>]\<rparr>"

lemma example_talk_run:
  "steps session_step (new_manager 10 1 no_store, [], 0) [SvGet ''a'' 0, SvTurns 0 [example_turn]] (example_talk, [], 0)"
proof -
  have "session_step (example_manager, [], 0) (SvTurns 0 [example_turn]) (example_talk, [], 0)"
    unfolding example_talk_def by (rule step_turns) (simp add: session_eval)
  note second = this
  show ?thesis by (rule steps_step, rule example_first, rule steps_step, rule second, rule steps_refl)
qed

definition example_left :: session_manager where
  "example_left = snd (GetOrCreateById 5 (\<lambda>_. 5) True ''b'' ''web'' ''bob'' example_talk)"

lemma example_leaves:
  "GetOrCreateById 5 (\<lambda>_. 5) True ''b'' ''web'' ''bob'' example_talk = (Inr 1, example_left)"
  "(''a'', 0) \<in> set (sg_active example_talk)" "(''a'', 0) \<notin> set (sg_active example_left)" "sg_store example_talk ''a'' = None"
  "GetOrCreateById 6 (\<lambda>_. 6) True ''a'' ''web'' ''ann'' example_left =
     (Inr 2, snd (GetOrCreateById 6 (\<lambda>_. 6) True ''a'' ''web'' ''ann'' example_left))"
  by (simp_all add: session_eval example_left_def example_talk_def SweepExpiredActiveSessions_def evictLeastRecentlyActive_def
    evict_session_def far_future_def numeral_2_eq_2)

theorem readmission_forgets_unsaved_turns_witness:
  "sn_History (sg_heap example_talk ! 0) = [example_turn] \<and>
   sn_History (sg_heap (snd (GetOrCreateById 6 (\<lambda>_. 6) True ''a'' ''web'' ''ann'' example_left)) ! 2) = []"
proof -
  have "sn_History (sg_heap example_talk ! 0) = [example_turn]" by (simp add: session_eval example_talk_def)
  with readmission_forgets_unsaved_turns [OF example_run_starts example_talk_run example_leaves(1-3) _ example_leaves(5)]
  show ?thesis by (simp add: far_future_def example_leaves(4))
qed

subsection \<open>Branches\<close>

lemma GetOrCreate_frame:
  assumes "session_ok (s, P, d)" "GetOrCreateById now clk readable sid channel sender s = (r, t)"
  shows "length (sg_heap s) \<le> length (sg_heap t) \<and> sg_branches t = sg_branches s \<and>
     (\<forall>a < length (sg_heap s). sn_Id (sg_heap t ! a) = sn_Id (sg_heap s ! a))"
  using GetOrCreate_cases [OF assms]
  by cases (auto simp: touch_session_def upd_same [of sn_Id] put_new_def drops_def nth_append)

text \<open>No step changes the identifier of an object or a branch that is not saved again.\<close>

lemma session_step_frame:
  assumes "session_step (s, P, d) e (t, Q, d')" "session_ok (s, P, d)"
  shows "length (sg_heap s) \<le> length (sg_heap t) \<and> (\<forall>a < length (sg_heap s). sn_Id (sg_heap t ! a) = sn_Id (sg_heap s ! a)) \<and>
     (e \<noteq> SvBranch bid \<longrightarrow> sg_branches t bid = sg_branches s bid)"
  using assms(1)
proof (cases rule: session_step.cases)
  case (step_sweep clk n)
  with assms(2) Sweep_drops(1) [of s d clk n t] show ?thesis by (auto simp: session_ok_def drops_def)
next
  case (step_branch a now saved name bid' ok)
  then show ?thesis by (auto simp: Branch_def Let_def split: if_splits)
next
  case (step_restore a now readable bid' ok)
  then show ?thesis by (auto simp: RestoreBranch_def nth_list_update split: if_splits option.splits)
qed (use GetOrCreate_frame [OF assms(2)] in \<open>auto simp: nth_list_update\<close>)

lemma session_run_frame:
  assumes "steps session_step (s, P, d) es (t, Q, d')" "session_ok (s, P, d)" "SvBranch bid \<notin> set es" "a < length (sg_heap s)"
  shows "a < length (sg_heap t) \<and> sn_Id (sg_heap t ! a) = sn_Id (sg_heap s ! a) \<and> sg_branches t bid = sg_branches s bid"
  using assms
proof (induction es arbitrary: s P d)
  case (Cons e es)
  then obtain u R c where u: "session_step (s, P, d) e (u, R, c)" "steps session_step (u, R, c) es (t, Q, d')" by auto
  have "session_ok (u, R, c)" using session_ok_step [OF Cons.prems(2) u(1)] .
  with Cons.IH [OF u(2)] session_step_frame [OF u(1) Cons.prems(2), of bid] Cons.prems(3,4) show ?case by auto
qed auto

text \<open>C26: Whatever happens to the sessions after a branch is saved, as long as no branch of the same name is saved in the same
  second, restoring it gives the session the history it had then.\<close>

theorem branch_restores_history:
  assumes "session_init r" "steps session_step r es (s, P, d)" "a < length (sg_heap s)"
    and "Branch now saved a name s = ((bid, True), s')" "steps session_step (s', P, d) fs (t, Q, e)" "SvBranch bid \<notin> set fs"
  shows "\<exists>u. RestoreBranch now' True a bid t = Inr (True, u) \<and> sn_History (sg_heap u ! a) = sn_History (sg_heap s ! a) \<and>
     sn_Id (sg_heap u ! a) = sn_Id (sg_heap s ! a)"
proof -
  have inv: "session_ok (s, P, d)" by (rule session_table.inv_reachable [OF assms(1,2)])
  have "session_step (s, P, d) (SvBranch bid) (s', P, d)" using assms(3,4) by (rule step_branch)
  then have inv': "session_ok (s', P, d)" by (rule session_ok_step [OF inv])
  have b: "sn_Id (sg_heap s ! a) \<noteq> []" "sg_heap s' = sg_heap s"
    "\<exists>b. sg_branches s' bid = Some b \<and> br_SessionId b = sn_Id (sg_heap s ! a) \<and> br_History b = sn_History (sg_heap s ! a)"
    using assms(4) by (auto simp: Branch_def Let_def split: if_splits)
  have "a < length (sg_heap t)" "sn_Id (sg_heap t ! a) = sn_Id (sg_heap s ! a)" "sg_branches t bid = sg_branches s' bid"
    using session_run_frame [OF assms(5) inv' assms(6), of a] assms(3) b(2) by auto
  with b show ?thesis by (auto simp: RestoreBranch_def)
qed

definition example_branched :: session_manager where
  "example_branched = snd (Branch 3 True 0 ''try'' example_talk)"

definition example_cleared :: session_manager where
  "example_cleared = example_branched\<lparr>sg_heap := (sg_heap example_branched)[0 := (sg_heap example_branched ! 0)\<lparr>sn_History := []\<rparr>]\<rparr>"

theorem branch_restores_history_witness:
  "sn_History (sg_heap example_cleared ! 0) = [] \<and>
   (\<exists>u. RestoreBranch 9 True 0 (branch_id 3 ''a'' ''try'') example_cleared = Inr (True, u) \<and> sn_History (sg_heap u ! 0) = [example_turn])"
proof -
  have len: "0 < length (sg_heap example_talk)" by (simp add: session_eval example_talk_def)
  have h: "sn_History (sg_heap example_talk ! 0) = [example_turn]" by (simp add: session_eval example_talk_def)
  have b: "Branch 3 True 0 ''try'' example_talk = ((branch_id 3 ''a'' ''try'', True), example_branched)"
    by (simp add: session_eval example_talk_def example_branched_def Branch_def)
  have "session_step (example_branched, [], 0) (SvTurns 0 []) (example_cleared, [], 0)"
    unfolding example_cleared_def
    by (rule step_turns) (simp add: session_eval example_talk_def example_branched_def Branch_def)
  then have run: "steps session_step (example_branched, [], 0) [SvTurns 0 []] (example_cleared, [], 0)"
    by (rule steps_step, intro steps_refl)
  have "sn_History (sg_heap example_cleared ! 0) = []"
    by (simp add: example_cleared_def session_eval example_talk_def example_branched_def Branch_def)
  with branch_restores_history [OF example_run_starts example_talk_run len b run, of 9] h show ?thesis by auto
qed

text \<open>What a comparison of two turns looks at.\<close>

definition turn_text :: "ChatTurn \<Rightarrow> string \<times> string \<times> (string \<times> string \<times> string) list" where
  "turn_text t = (ht_Role t, ht_Content t, map (\<lambda>c. (ti_ToolName c, ti_Arguments c, ti_Result c)) (ht_ToolCalls t))"

lemma calls_equal_iff:
  "length ls = length rs \<Longrightarrow> calls_equal ls rs \<longleftrightarrow>
     map (\<lambda>c. (ti_ToolName c, ti_Arguments c, ti_Result c)) ls = map (\<lambda>c. (ti_ToolName c, ti_Arguments c, ti_Result c)) rs"
  by (induction ls rs rule: list_induct2) auto

lemma turnsEqual_iff: "turnsEqual l r \<longleftrightarrow> turn_text l = turn_text r"
proof (cases "length (ht_ToolCalls l) = length (ht_ToolCalls r)")
  case True
  then show ?thesis using calls_equal_iff [OF True] by (auto simp: turnsEqual_def turn_text_def)
next
  case False
  then have "turn_text l \<noteq> turn_text r" by (auto simp: turn_text_def dest: map_eq_imp_length_eq)
  with False show ?thesis by (auto simp: turnsEqual_def)
qed

lemma longest_common_prefix_drop:
  "i \<le> length xs \<Longrightarrow> i \<le> length ys \<Longrightarrow> take i xs = take i ys \<Longrightarrow>
   length (longest_common_prefix xs ys) = i + length (longest_common_prefix (drop i xs) (drop i ys))"
proof (induction i arbitrary: xs ys)
  case (Suc i)
  then show ?case by (cases xs; cases ys) auto
qed simp

lemma shared_prefix_spec:
  "i \<le> length xs \<Longrightarrow> i \<le> length ys \<Longrightarrow>
   shared_prefix xs ys i = i + length (longest_common_prefix (map turn_text (drop i xs)) (map turn_text (drop i ys)))"
proof (induction xs ys i rule: shared_prefix.induct)
  case (1 xs ys i)
  show ?case
  proof (cases "i \<ge> min (length xs) (length ys) \<or> \<not> turnsEqual (xs ! i) (ys ! i)")
    case True
    then show ?thesis
      by (cases "i < length xs \<and> i < length ys") (auto simp: shared_prefix.simps turnsEqual_iff Cons_nth_drop_Suc [symmetric])
  next
    case False
    then have "i < length xs" "i < length ys" "turn_text (xs ! i) = turn_text (ys ! i)" by (auto simp: turnsEqual_iff)
    with 1 False show ?thesis
      by (subst shared_prefix.simps) (auto simp: Cons_nth_drop_Suc [symmetric])
  qed
qed

text \<open>The difference of a session and a branch of it counts the longest common beginning of the two histories, up to
  time stamps and call identifiers, and summarises exactly the turns behind it on either side.\<close>

theorem diff_splits_at_common_prefix:
  assumes "sn_Id (sg_heap s ! a) \<noteq> []" "sg_branches s bid = Some b" "br_SessionId b = sn_Id (sg_heap s ! a)"
  shows "\<exists>df. BuildBranchDiff True a bid s = Inr df \<and>
     df_SharedPrefixTurns df = length (longest_common_prefix (map turn_text (sn_History (sg_heap s ! a))) (map turn_text (br_History b))) \<and>
     df_CurrentOnly df = map summarizeTurn (drop (df_SharedPrefixTurns df) (sn_History (sg_heap s ! a))) \<and>
     df_BranchOnly df = map summarizeTurn (drop (df_SharedPrefixTurns df) (br_History b)) \<and>
     df_CurrentTurnCount df = df_SharedPrefixTurns df + length (df_CurrentOnly df) \<and>
     df_BranchTurnCount df = df_SharedPrefixTurns df + length (df_BranchOnly df)"
proof -
  let ?h = "sn_History (sg_heap s ! a)" and ?n = "shared_prefix (sn_History (sg_heap s ! a)) (br_History b) 0"
  have n: "?n = length (longest_common_prefix (map turn_text ?h) (map turn_text (br_History b)))"
    using shared_prefix_spec [of 0 ?h "br_History b"] by simp
  have "?n \<le> length ?h" "?n \<le> length (br_History b)"
    unfolding n
    using prefix_length_le [OF longest_common_prefix_prefix1 [of "map turn_text ?h" "map turn_text (br_History b)"]]
      prefix_length_le [OF longest_common_prefix_prefix2 [of "map turn_text ?h" "map turn_text (br_History b)"]] by simp_all
  with assms n show ?thesis by (simp add: BuildBranchDiff_def Let_def)
qed

theorem diff_splits_at_common_prefix_witness:
  "\<exists>df. BuildBranchDiff True 0 (branch_id 3 ''a'' ''try'') example_cleared = Inr df \<and> df_SharedPrefixTurns df = 0 \<and>
     df_BranchOnly df = [''user: hi''] \<and> df_CurrentOnly df = []"
proof -
  let ?b = "\<lparr>br_BranchId = branch_id 3 ''a'' ''try'', br_SessionId = ''a'', br_Name = ''try'', br_History = [example_turn]\<rparr>"
  have "sn_Id (sg_heap example_cleared ! 0) = ''a''" "sn_History (sg_heap example_cleared ! 0) = []"
    "sg_branches example_cleared (branch_id 3 ''a'' ''try'') = Some ?b"
    by (simp_all add: example_cleared_def session_eval example_talk_def example_branched_def Branch_def)
  moreover have "summarizeTurn example_turn = ''user: hi''" by code_simp
  ultimately show ?thesis
    using diff_splits_at_common_prefix [of example_cleared 0 "branch_id 3 ''a'' ''try''" ?b] by auto
qed

end
