(* ===== verification/Session_Locks.thy ===== *)
theory Session_Locks
  imports Session_Safety
begin

section \<open>The locks of sessions\<close>

text \<open>
  \<open>SessionManager\<close> (\<open>src/openclaw/core/session.go\<close>) has a lock for every session: a channel of capacity one, made when it
  is first asked for, in which the holder leaves a token. A lease gives the token back once. Asking and entering are two
  steps, since a lock may be disposed of in between. The theory holds the cleaning of locks that nobody uses, the
  disposal of all of them, and \<open>Persist\<close>, which may take a lock.
\<close>

subsection \<open>Operations\<close>

record lock_gate =
  lg_full :: bool
  lg_closed :: bool

record session_lease =
  le_sessionID :: string
  le_gate :: nat
  le_disposed :: bool

record lock_table =
  lk_gates :: "lock_gate list"
  lk_sessionLocks :: "(string \<times> nat) list"
  lk_lastUsed :: "string \<Rightarrow> int option"
  lk_waiting :: "(string \<times> nat) list"   \<comment> \<open>goroutines that send their token\<close>
  lk_leases :: "session_lease list"

definition new_locks :: lock_table where
  "new_locks = \<lparr>lk_gates = [], lk_sessionLocks = [], lk_lastUsed = (\<lambda>_. None), lk_waiting = [], lk_leases = []\<rparr>"

abbreviation gate_full :: "lock_table \<Rightarrow> nat \<Rightarrow> bool" where
  "gate_full s g \<equiv> lg_full (lk_gates s ! g)"

abbreviation gate_closed :: "lock_table \<Rightarrow> nat \<Rightarrow> bool" where
  "gate_closed s g \<equiv> lg_closed (lk_gates s ! g)"

text \<open>\<open>AcquireSessionLock\<close> up to the select statement, and its two ways to go on. Sending on a closed channel panics.\<close>

definition acquire_ask :: "string \<Rightarrow> lock_table \<Rightarrow> lock_table option" where
  "acquire_ask sid s =
     (if sid = [] then None
      else case map_of (lk_sessionLocks s) sid of
        Some g \<Rightarrow> Some (s\<lparr>lk_waiting := (sid, g) # lk_waiting s\<rparr>)
      | None \<Rightarrow> (let g = length (lk_gates s) in
          Some (s\<lparr>lk_gates := lk_gates s @ [\<lparr>lg_full = False, lg_closed = False\<rparr>],
                  lk_sessionLocks := (sid, g) # lk_sessionLocks s, lk_waiting := (sid, g) # lk_waiting s\<rparr>)))"

definition can_enter :: "string \<times> nat \<Rightarrow> lock_table \<Rightarrow> bool" where
  "can_enter w s \<longleftrightarrow> w \<in> set (lk_waiting s) \<and> \<not> gate_full s (snd w) \<and> \<not> gate_closed s (snd w)"

definition acquire_enter :: "int \<Rightarrow> string \<times> nat \<Rightarrow> lock_table \<Rightarrow> lock_table" where
  "acquire_enter now w s =
     s\<lparr>lk_gates := (lk_gates s)[snd w := (lk_gates s ! snd w)\<lparr>lg_full := True\<rparr>],
       lk_waiting := remove1 w (lk_waiting s), lk_lastUsed := (lk_lastUsed s)(fst w \<mapsto> now),
       lk_leases := lk_leases s @ [\<lparr>le_sessionID = fst w, le_gate = snd w, le_disposed = False\<rparr>]\<rparr>"

definition acquire_give_up :: "string \<times> nat \<Rightarrow> lock_table \<Rightarrow> lock_table" where
  "acquire_give_up w s = s\<lparr>lk_waiting := remove1 w (lk_waiting s)\<rparr>"

definition lease_Dispose :: "int \<Rightarrow> nat \<Rightarrow> lock_table \<Rightarrow> lock_table" where
  "lease_Dispose now i s =
     (let l = lk_leases s ! i; g = le_gate l in
      if le_disposed l then s
      else s\<lparr>lk_leases := (lk_leases s)[i := l\<lparr>le_disposed := True\<rparr>],
             lk_lastUsed := (lk_lastUsed s)(le_sessionID l \<mapsto> now),
             lk_gates := (if gate_full s g then (lk_gates s)[g := (lk_gates s ! g)\<lparr>lg_full := False\<rparr>] else lk_gates s)\<rparr>)"

text \<open>
  One lock of \<open>CleanupSessionLocksOnce\<close>. \<open>active\<close> and \<open>active'\<close> are the two looks at the table of sessions. The token that
  the cleaner leaves in a lock is taken out again at the end, unless the lock has been removed.
\<close>

definition cleanup_lock ::
    "int \<Rightarrow> int \<Rightarrow> (string \<Rightarrow> bool) \<Rightarrow> (string \<Rightarrow> bool) \<Rightarrow> string \<times> nat \<Rightarrow> lock_table \<Rightarrow> lock_table" where
  "cleanup_lock now orphanThreshold active active' e s =
     (let (sessionKey, g) = e; s = s\<lparr>lk_lastUsed := (lk_lastUsed s)(sessionKey \<mapsto> now)\<rparr> in
      if active sessionKey then s\<lparr>lk_lastUsed := (lk_lastUsed s)(sessionKey \<mapsto> now)\<rparr>
      else
        let lastUsed = (case lk_lastUsed s sessionKey of Some t \<Rightarrow> t | None \<Rightarrow> now) in
        if \<not> time_sub now lastUsed > orphanThreshold then s
        else if gate_full s g then s
        else if active' sessionKey then s\<lparr>lk_lastUsed := (lk_lastUsed s)(sessionKey \<mapsto> now)\<rparr>
        else s\<lparr>lk_sessionLocks := filter (\<lambda>e. fst e \<noteq> sessionKey) (lk_sessionLocks s),
               lk_lastUsed := (lk_lastUsed s)(sessionKey := None),
               lk_gates := (lk_gates s)[g := \<lparr>lg_full = True, lg_closed = True\<rparr>]\<rparr>)"

definition CleanupSessionLocksOnce ::
    "int \<Rightarrow> int \<Rightarrow> (string \<Rightarrow> bool) \<Rightarrow> (string \<Rightarrow> bool) \<Rightarrow> lock_table \<Rightarrow> lock_table" where
  "CleanupSessionLocksOnce now orphanThreshold active active' s =
     fold (cleanup_lock now orphanThreshold active active') (lk_sessionLocks s) s"

definition DisposeSessionLocks :: "lock_table \<Rightarrow> lock_table" where
  "DisposeSessionLocks s =
     s\<lparr>lk_gates := fold (\<lambda>e gs. gs[snd e := (gs ! snd e)\<lparr>lg_closed := True\<rparr>]) (lk_sessionLocks s) (lk_gates s),
       lk_sessionLocks := [], lk_lastUsed := (\<lambda>_. None)\<rparr>"

text \<open>\<open>Close\<close>, the first time: it waits for the saves in the background, here all that are queued, and disposes of the locks.\<close>

definition CloseManager :: "(nat \<Rightarrow> nat \<Rightarrow> bool) \<Rightarrow> bool \<Rightarrow> session_manager \<Rightarrow> lock_table \<Rightarrow> bool \<times> session_manager \<times> lock_table" where
  "CloseManager saves disposeStarted m s =
     (if disposeStarted then (True, m, s)
      else (True, fold (\<lambda>a. background_persist (saves a) a) (sg_backgroundPersists m) m, DisposeSessionLocks s))"

text \<open>
  \<open>Persist\<close> as far as locks go: whether the goroutine has to wait for the lock of its session before it saves. The
  argument \<open>sessionLockHeld\<close> decides, the wrong way round.
\<close>

definition persist_waits :: "bool \<Rightarrow> string \<Rightarrow> lock_table \<Rightarrow> bool" where
  "persist_waits sessionLockHeld sid s \<longleftrightarrow>
     sessionLockHeld \<and> sid \<noteq> [] \<and>
     (case map_of (lk_sessionLocks s) sid of Some g \<Rightarrow> gate_full s g | None \<Rightarrow> False)"

subsection \<open>Steps\<close>

datatype lock_event =
    LkAsk string
  | LkEnter "string \<times> nat"
  | LkGiveUp "string \<times> nat"
  | LkDispose nat
  | LkCleanup int
  | LkDisposeAll

inductive lock_step :: "lock_table \<Rightarrow> lock_event \<Rightarrow> lock_table \<Rightarrow> bool" where
  lk_ask: "acquire_ask sid s = Some s' \<Longrightarrow> lock_step s (LkAsk sid) s'"
| lk_enter: "can_enter w s \<Longrightarrow> lock_step s (LkEnter w) (acquire_enter now w s)"
| lk_give_up: "w \<in> set (lk_waiting s) \<Longrightarrow> lock_step s (LkGiveUp w) (acquire_give_up w s)"
| lk_dispose: "i < length (lk_leases s) \<Longrightarrow> lock_step s (LkDispose i) (lease_Dispose now i s)"
| lk_cleanup: "lock_step s (LkCleanup threshold) (CleanupSessionLocksOnce now threshold active active' s)"
| lk_dispose_all: "lock_step s LkDisposeAll (DisposeSessionLocks s)"

text \<open>A run of the live manager: thresholds are not negative and the manager is not closed.\<close>

fun live_lock_event :: "lock_event \<Rightarrow> bool" where
  "live_lock_event (LkCleanup threshold) = (0 \<le> threshold)"
| "live_lock_event LkDisposeAll = False"
| "live_lock_event _ = True"

definition live_lock_step :: "lock_table \<Rightarrow> lock_event \<Rightarrow> lock_table \<Rightarrow> bool" where
  "live_lock_step s e t \<longleftrightarrow> lock_step s e t \<and> live_lock_event e"

subsection \<open>Cleaning\<close>

text \<open>The time of last use is set before it is read, so no lock has ever been idle.\<close>

lemma cleanup_lock_idle:
  assumes "0 \<le> threshold"
  shows "\<exists>f. cleanup_lock now threshold active active' e s = s\<lparr>lk_lastUsed := f\<rparr>"
  using assms by (auto simp: cleanup_lock_def Let_def time_sub_def split: prod.splits)

lemma cleanup_fold_idle:
  "0 \<le> threshold \<Longrightarrow> \<exists>f. fold (cleanup_lock now threshold active active') es s = s\<lparr>lk_lastUsed := f\<rparr>"
proof (induction es arbitrary: s)
  case Nil
  show ?case by (rule exI [of _ "lk_lastUsed s"]) simp
next
  case (Cons e es)
  from cleanup_lock_idle [OF Cons.prems] obtain f where "cleanup_lock now threshold active active' e s = s\<lparr>lk_lastUsed := f\<rparr>" by blast
  with Cons.IH [OF Cons.prems, of "s\<lparr>lk_lastUsed := f\<rparr>"] show ?case by simp
qed

lemma cleanup_idle:
  assumes "0 \<le> threshold"
  obtains f where "CleanupSessionLocksOnce now threshold active active' s = s\<lparr>lk_lastUsed := f\<rparr>"
  using cleanup_fold_idle [OF assms] unfolding CleanupSessionLocksOnce_def by blast

subsection \<open>The invariant\<close>

definition holds_gate :: "lock_table \<Rightarrow> nat \<Rightarrow> nat \<Rightarrow> bool" where
  "holds_gate s g i \<longleftrightarrow> i < length (lk_leases s) \<and> le_gate (lk_leases s ! i) = g \<and> \<not> le_disposed (lk_leases s ! i)"

text \<open>Every lock, waiting goroutine and lease of a session uses the same channel, and its token is in it exactly when one lease
  is not disposed of.\<close>

definition locks_ok :: "lock_table \<Rightarrow> bool" where
  "locks_ok s \<longleftrightarrow> distinct (map fst (lk_sessionLocks s)) \<and> (\<forall>k g. (k, g) \<in> set (lk_sessionLocks s) \<longrightarrow> g < length (lk_gates s)) \<and>
     (\<forall>w \<in> set (lk_waiting s). w \<in> set (lk_sessionLocks s)) \<and>
     (\<forall>i < length (lk_leases s). (le_sessionID (lk_leases s ! i), le_gate (lk_leases s ! i)) \<in> set (lk_sessionLocks s)) \<and>
     (\<forall>g < length (lk_gates s). gate_full s g \<longleftrightarrow> (\<exists>i. holds_gate s g i)) \<and>
     (\<forall>g i j. holds_gate s g i \<longrightarrow> holds_gate s g j \<longrightarrow> i = j)"

lemma holds_gate_upd [simp]:
  "holds_gate (s\<lparr>lk_lastUsed := f\<rparr>) = holds_gate s" "holds_gate (s\<lparr>lk_waiting := w\<rparr>) = holds_gate s"
  "holds_gate (s\<lparr>lk_gates := gs\<rparr>) = holds_gate s" "holds_gate (s\<lparr>lk_sessionLocks := ls\<rparr>) = holds_gate s"
  by (auto simp: holds_gate_def fun_eq_iff)

lemma locks_ok_holds:
  assumes "locks_ok s" "holds_gate s g i"
  shows "g < length (lk_gates s)"
  using assms by (force simp: locks_ok_def holds_gate_def)

lemma locks_ok_ask:
  assumes "locks_ok s" "acquire_ask sid s = Some t"
  shows "locks_ok t"
proof (cases "map_of (lk_sessionLocks s) sid")
  case None
  let ?g = "length (lk_gates s)"
  have t: "t = s\<lparr>lk_gates := lk_gates s @ [\<lparr>lg_full = False, lg_closed = False\<rparr>],
      lk_sessionLocks := (sid, ?g) # lk_sessionLocks s, lk_waiting := (sid, ?g) # lk_waiting s\<rparr>"
    using assms(2) None by (auto simp: acquire_ask_def Let_def split: if_splits)
  have holds: "holds_gate t = holds_gate s" unfolding t by (simp add: holds_gate_def fun_eq_iff)
  have "\<not> holds_gate s ?g i" for i using locks_ok_holds [OF assms(1)] by blast
  then have "\<forall>g < length (lk_gates t). gate_full t g \<longleftrightarrow> (\<exists>i. holds_gate t g i)"
    unfolding holds using assms(1) by (auto simp: t locks_ok_def nth_append less_Suc_eq)
  with assms(1) None holds show ?thesis
    by (auto simp: locks_ok_def t map_of_None_fst less_Suc_eq)
next
  case (Some g)
  with assms map_of_SomeD [OF Some] show ?thesis by (auto simp: acquire_ask_def locks_ok_def split: if_splits)
qed

lemma locks_ok_enter:
  assumes "locks_ok s" "can_enter w s"
  shows "locks_ok (acquire_enter now w s)"
proof -
  have w: "w \<in> set (lk_sessionLocks s)" using assms by (auto simp: locks_ok_def can_enter_def)
  then have w': "snd w < length (lk_gates s)" using assms(1) unfolding locks_ok_def by (metis prod.collapse)
  have "holds_gate (acquire_enter now w s) g i \<longleftrightarrow> holds_gate s g i \<or> (g = snd w \<and> i = length (lk_leases s))" for g i
    by (auto simp: holds_gate_def acquire_enter_def nth_append less_Suc_eq)
  moreover have "\<not> holds_gate s (snd w) i" for i using assms w' by (auto simp: locks_ok_def can_enter_def)
  moreover have "gate_full (acquire_enter now w s) g \<longleftrightarrow> gate_full s g \<or> g = snd w" if "g < length (lk_gates s)" for g
    using that w' by (auto simp: acquire_enter_def nth_list_update)
  ultimately show ?thesis
    using assms(1) w w' by (auto simp: locks_ok_def acquire_enter_def nth_append less_Suc_eq dest: set_remove1_sub)
qed

lemma locks_ok_Dispose:
  assumes "locks_ok s" "i < length (lk_leases s)"
  shows "locks_ok (lease_Dispose now i s)"
proof (cases "le_disposed (lk_leases s ! i)")
  case False
  define g where "g = le_gate (lk_leases s ! i)"
  have h: "holds_gate s g i" using False assms(2) by (simp add: holds_gate_def g_def)
  have g: "g < length (lk_gates s)" using assms by (auto simp: locks_ok_def g_def)
  then have full: "gate_full s g" using assms(1) h by (auto simp: locks_ok_def)
  have t: "lease_Dispose now i s = s\<lparr>lk_leases := (lk_leases s)[i := (lk_leases s ! i)\<lparr>le_disposed := True\<rparr>],
      lk_lastUsed := (lk_lastUsed s)(le_sessionID (lk_leases s ! i) \<mapsto> now), lk_gates := (lk_gates s)[g := (lk_gates s ! g)\<lparr>lg_full := False\<rparr>]\<rparr>"
    using False full by (simp add: lease_Dispose_def g_def Let_def)
  have holds: "holds_gate (lease_Dispose now i s) g' j \<longleftrightarrow> holds_gate s g' j \<and> j \<noteq> i" for g' j
    unfolding t using assms(2) by (auto simp: holds_gate_def nth_list_update)
  have one: "holds_gate s g j \<Longrightarrow> j = i" for j using assms(1) h by (auto simp: locks_ok_def)
  have other: "holds_gate s g' i \<Longrightarrow> g' = g" for g' by (simp add: holds_gate_def g_def)
  have "gate_full (lease_Dispose now i s) g' \<longleftrightarrow> gate_full s g' \<and> g' \<noteq> g" if "g' < length (lk_gates s)" for g'
    unfolding t using g by (simp add: nth_list_update)
  moreover have "length (lk_gates (lease_Dispose now i s)) = length (lk_gates s)" unfolding t by simp
  ultimately have "\<forall>g' < length (lk_gates (lease_Dispose now i s)). gate_full (lease_Dispose now i s) g' \<longleftrightarrow> (\<exists>j. holds_gate (lease_Dispose now i s) g' j)"
    using assms(1) one other unfolding holds by (auto simp: locks_ok_def)
  moreover have "\<forall>g' j k. holds_gate (lease_Dispose now i s) g' j \<longrightarrow> holds_gate (lease_Dispose now i s) g' k \<longrightarrow> j = k"
    using assms(1) unfolding holds by (auto simp: locks_ok_def)
  moreover have "le_sessionID (lk_leases (lease_Dispose now i s) ! j) = le_sessionID (lk_leases s ! j) \<and>
      le_gate (lk_leases (lease_Dispose now i s) ! j) = le_gate (lk_leases s ! j)" for j
    unfolding t by (simp add: upd_same [of le_sessionID] upd_same [of le_gate])
  moreover have "lk_sessionLocks (lease_Dispose now i s) = lk_sessionLocks s" "lk_waiting (lease_Dispose now i s) = lk_waiting s"
    "length (lk_leases (lease_Dispose now i s)) = length (lk_leases s)" unfolding t by simp_all
  ultimately show ?thesis
    using assms(1) \<open>length (lk_gates (lease_Dispose now i s)) = length (lk_gates s)\<close> unfolding locks_ok_def by simp
qed (use assms(1) in \<open>simp add: lease_Dispose_def\<close>)

lemma locks_ok_step: "locks_ok s \<Longrightarrow> live_lock_step s e t \<Longrightarrow> locks_ok t"
  unfolding live_lock_step_def
proof (elim conjE, erule lock_step.cases, goal_cases)
  case (3 w s)
  then show ?case by (auto simp: acquire_give_up_def locks_ok_def dest: set_remove1_sub)
next
  case (5 s threshold now active active')
  then have "0 \<le> threshold" by simp
  then obtain f where "CleanupSessionLocksOnce now threshold active active' s = s\<lparr>lk_lastUsed := f\<rparr>" by (rule cleanup_idle)
  with 5 show ?case by (simp add: locks_ok_def)
qed (auto intro: locks_ok_ask locks_ok_enter locks_ok_Dispose)

interpretation session_locks: invariant_machine "\<lambda>s. s = new_locks" live_lock_step locks_ok
proof
  show "s = new_locks \<Longrightarrow> locks_ok s" for s by (simp add: locks_ok_def new_locks_def holds_gate_def)
qed (rule locks_ok_step)

lemma same_lease:
  assumes "locks_ok s" "i < length (lk_leases s)" "j < length (lk_leases s)"
    and "le_sessionID (lk_leases s ! i) = le_sessionID (lk_leases s ! j)"
    and "\<not> le_disposed (lk_leases s ! i)" "\<not> le_disposed (lk_leases s ! j)"
  shows "i = j"
proof -
  have "distinct (map fst (lk_sessionLocks s))" "(le_sessionID (lk_leases s ! i), le_gate (lk_leases s ! i)) \<in> set (lk_sessionLocks s)"
    "(le_sessionID (lk_leases s ! i), le_gate (lk_leases s ! j)) \<in> set (lk_sessionLocks s)"
    using assms by (auto simp: locks_ok_def)
  then have "le_gate (lk_leases s ! i) = le_gate (lk_leases s ! j)" by (metis map_of_eq_Some_iff option.inject)
  with assms show ?thesis by (auto simp: locks_ok_def holds_gate_def)
qed

text \<open>The leases of a session that have not been given back.\<close>

definition open_leases :: "string \<Rightarrow> lock_table \<Rightarrow> session_lease list" where
  "open_leases sid s = filter (\<lambda>l. le_sessionID l = sid \<and> \<not> le_disposed l) (lk_leases s)"

text \<open>C23: While the manager is open, a session is locked by one goroutine at a time, however callers ask, wait, give up, return
  their leases twice and locks are cleaned.\<close>

theorem one_holder_per_session:
  assumes "steps live_lock_step new_locks es s"
  shows "length (open_leases sid s) \<le> 1"
  unfolding open_leases_def length_filter_conv_card
  using same_lease [OF session_locks.inv_reachable [OF refl assms]] by (auto simp: card_le_Suc0_iff_eq)

definition example_locked :: lock_table where
  "example_locked = acquire_enter 4 (''a'', 0) (lease_Dispose 3 0 (the (acquire_ask ''a'' (acquire_enter 2 (''a'', 0) (the (acquire_ask ''a'' new_locks))))))"

lemma example_locked_run:
  "steps live_lock_step new_locks [LkAsk ''a'', LkEnter (''a'', 0), LkAsk ''a'', LkDispose 0, LkEnter (''a'', 0)] example_locked"
proof -
  let ?s1 = "the (acquire_ask ''a'' new_locks)"
  let ?s2 = "acquire_enter 2 (''a'', 0) ?s1"
  let ?s3 = "the (acquire_ask ''a'' ?s2)"
  let ?s4 = "lease_Dispose 3 0 ?s3"
  note ev = live_lock_step_def acquire_ask_def acquire_enter_def can_enter_def lease_Dispose_def new_locks_def Let_def
  have 1: "live_lock_step new_locks (LkAsk ''a'') ?s1" by (auto simp: ev intro!: lk_ask)
  have 2: "live_lock_step ?s1 (LkEnter (''a'', 0)) ?s2"
    unfolding live_lock_step_def using lk_enter [of "(''a'', 0)" ?s1 2] by (simp add: ev)
  have 3: "live_lock_step ?s2 (LkAsk ''a'') ?s3" unfolding live_lock_step_def by (auto simp: ev intro!: lk_ask)
  have 4: "live_lock_step ?s3 (LkDispose 0) ?s4"
    unfolding live_lock_step_def using lk_dispose [of 0 ?s3 3] by (simp add: ev)
  have 5: "live_lock_step ?s4 (LkEnter (''a'', 0)) example_locked"
    unfolding live_lock_step_def example_locked_def using lk_enter [of "(''a'', 0)" ?s4 4] by (simp add: ev)
  show ?thesis
    by (rule steps_step, rule 1, rule steps_step, rule 2, rule steps_step, rule 3, rule steps_step, rule 4, rule steps_step, rule 5,
        rule steps_refl)
qed

theorem one_holder_per_session_witness:
  "length (lk_leases example_locked) = 2 \<and> length (open_leases ''a'' example_locked) = 1"
proof -
  have "length (lk_leases example_locked) = 2" "open_leases ''a'' example_locked \<noteq> []"
    by (simp_all add: example_locked_def open_leases_def acquire_ask_def acquire_enter_def lease_Dispose_def new_locks_def Let_def)
  with one_holder_per_session [OF example_locked_run, of "''a''"] show ?thesis
    by (cases "open_leases ''a'' example_locked") auto
qed

text \<open>The lock of every session that was ever locked stays.\<close>

lemma locks_stay:
  assumes "live_lock_step s e t"
  shows "set (lk_sessionLocks s) \<subseteq> set (lk_sessionLocks t)"
proof -
  from assms have live: "live_lock_event e" and "lock_step s e t" by (simp_all add: live_lock_step_def)
  from this(2) show ?thesis
  proof cases
    case (lk_cleanup threshold now active active')
    with live obtain f where "CleanupSessionLocksOnce now threshold active active' s = s\<lparr>lk_lastUsed := f\<rparr>"
      using cleanup_idle by (metis live_lock_event.simps(1))
    then show ?thesis unfolding lk_cleanup by simp
  qed (use live in \<open>auto simp: acquire_ask_def acquire_enter_def acquire_give_up_def lease_Dispose_def Let_def split: if_splits option.splits\<close>)
qed

lemma locks_stay_run: "steps live_lock_step s es t \<Longrightarrow> set (lk_sessionLocks s) \<subseteq> set (lk_sessionLocks t)"
  by (induction rule: steps.induct) (use locks_stay in fastforce)+

text \<open>Cleaning never removes a lock: whoever once asked for the lock of a session leaves a channel behind, with whatever
  thresholds and however long ago.\<close>

theorem locks_never_cleaned:
  assumes "steps live_lock_step new_locks es s" "LkAsk sid \<in> set es"
  shows "\<exists>g. map_of (lk_sessionLocks s) sid = Some g"
proof -
  from assms(2) obtain ds fs where "es = ds @ LkAsk sid # fs" by (auto simp: in_set_conv_decomp)
  with assms(1) obtain t u where tu: "live_lock_step t (LkAsk sid) u" "steps live_lock_step u fs s" by (auto elim!: steps_appendE)
  then have "acquire_ask sid t = Some u" by (auto simp: live_lock_step_def elim: lock_step.cases)
  then have "\<exists>g. (sid, g) \<in> set (lk_sessionLocks u)"
    by (fastforce simp: acquire_ask_def Let_def split: if_splits option.splits dest: map_of_SomeD)
  then obtain g where "(sid, g) \<in> set (lk_sessionLocks u)" by blast
  with locks_stay_run [OF tu(2)] show ?thesis by (metis weak_map_of_SomeI subsetD)
qed

theorem locks_never_cleaned_witness:
  "\<exists>g. map_of (lk_sessionLocks (CleanupSessionLocksOnce 1000 0 (\<lambda>_. False) (\<lambda>_. False) example_locked)) ''a'' = Some g"
proof -
  have "live_lock_step example_locked (LkCleanup 0) (CleanupSessionLocksOnce 1000 0 (\<lambda>_. False) (\<lambda>_. False) example_locked)"
    by (simp add: live_lock_step_def lk_cleanup)
  note step = this
  have "steps live_lock_step example_locked [LkCleanup 0] (CleanupSessionLocksOnce 1000 0 (\<lambda>_. False) (\<lambda>_. False) example_locked)"
    by (rule steps_step, rule step, rule steps_refl)
  from locks_never_cleaned [OF steps_append [OF example_locked_run this], of "''a''"] show ?thesis by simp
qed

text \<open>\<open>Persist\<close> reads its argument the wrong way round: a caller that holds the lock of the session, and says so, waits for
  itself, and one that says it does not hold the lock saves without waiting for the goroutine that does.\<close>

theorem persist_waits_for_its_caller:
  assumes "steps live_lock_step new_locks es s" "l \<in> set (open_leases sid s)" "sid \<noteq> []"
  shows "persist_waits True sid s \<and> \<not> persist_waits False sid s"
proof -
  have ok: "locks_ok s" using session_locks.inv_reachable [OF refl assms(1)] .
  from assms(2) obtain i where i: "i < length (lk_leases s)" "lk_leases s ! i = l" "le_sessionID l = sid" "\<not> le_disposed l"
    by (auto simp: open_leases_def in_set_conv_nth)
  then have "(sid, le_gate l) \<in> set (lk_sessionLocks s)" "holds_gate s (le_gate l) i" using ok by (auto simp: locks_ok_def holds_gate_def)
  moreover from this have "gate_full s (le_gate l)" using ok locks_ok_holds [OF ok] unfolding locks_ok_def by blast
  ultimately show ?thesis using ok assms(3) by (auto simp: persist_waits_def locks_ok_def)
qed

theorem persist_waits_for_its_caller_witness:
  "persist_waits True ''a'' example_locked \<and> \<not> persist_waits False ''a'' example_locked"
proof -
  have "lk_leases example_locked ! 1 \<in> set (open_leases ''a'' example_locked)"
    by (simp add: example_locked_def open_leases_def acquire_ask_def acquire_enter_def lease_Dispose_def new_locks_def Let_def)
  from persist_waits_for_its_caller [OF example_locked_run this] show ?thesis by simp
qed

end
