(* ===== verification/Session_Admission.thy ===== *)
theory Session_Admission
  imports Session_Safety
begin

section \<open>Admission among removals\<close>

text \<open>
  \<open>GetOrCreateById\<close>, \<open>SweepExpiredActiveSessions\<close>, \<open>evictLeastRecentlyActive\<close> and \<open>RemoveActive\<close> of
  \<open>src/openclaw/core/session.go\<close> by the steps between which they interleave: one operation of the
  table, the counter or the store each. Only admissions hold the gate; sweeps and removals hold
  nothing. A sweep and the search for the oldest session visit registered keys, each once, in any order,
  and end when every key they began with was visited or has left. A search only runs under the gate.
  Expiring an object, counting it out and queueing its save are one step.
\<close>

subsection \<open>The steps\<close>

record sm_request =
  rq_Id :: string
  rq_Channel :: string
  rq_Sender :: string
  rq_Now :: int

datatype sm_task = OwnSweep | ForAdmission sm_request chat_session

datatype sm_pc =
    Idle
  | Waiting sm_request
  | Gated sm_request
  | Missed sm_request
  | Capacity sm_request chat_session
  | Sweeping sm_task "string list" "string list"
  | SweepDelete sm_task "string list" "string list" string nat
  | SweepCount sm_task "string list" "string list" nat
  | Recheck sm_request chat_session
  | Evicting sm_request chat_session nat
  | Searching sm_request chat_session nat "string list" "string list" string int
  | Taking sm_request chat_session nat string
  | EvictDelete sm_request chat_session nat string nat
  | EvictCount sm_request chat_session nat nat
  | Storing sm_request chat_session
  | Counting
  | RemoveDelete string
  | RemoveCount

datatype sm_action =
    Ask sm_request
  | Lock
  | Look
  | Read bool
  | Check
  | Sweep
  | SweepVisit string int
  | Delete
  | Discount
  | EndRange
  | Attempt
  | Visit string
  | Take
  | Store
  | CountUp
  | Remove string
  | Turns nat "ChatTurn list"
  | SaveNow nat "nat \<Rightarrow> bool"
  | SaveQueued nat "nat \<Rightarrow> bool"
  | SaveBranch int bool nat string
  | Restore int bool nat string

text \<open>
  The manager, where each caller stands, who holds the gate, and the number of deletions so far that
  found nothing to delete because the key had left between the look and the deletion.
\<close>

type_synonym sm_state = "session_manager \<times> (nat \<Rightarrow> sm_pc) \<times> nat option \<times> nat"

definition sm_keys :: "session_manager \<Rightarrow> string list" where
  "sm_keys s = map fst (sg_active s)"

definition expire_session :: "nat \<Rightarrow> session_manager \<Rightarrow> session_manager" where
  "expire_session a s = s\<lparr>sg_heap := (sg_heap s)[a := (sg_heap s ! a)\<lparr>sn_State := SessionStateExpired\<rparr>]\<rparr>"

definition drop_entry :: "string \<Rightarrow> session_manager \<Rightarrow> session_manager" where
  "drop_entry key s = s\<lparr>sg_active := filter (\<lambda>e. fst e \<noteq> key) (sg_active s)\<rparr>"

definition missing :: "string \<Rightarrow> session_manager \<Rightarrow> nat \<Rightarrow> nat" where
  "missing key s d = (if map_of (sg_active s) key = None then Suc d else d)"

definition count_out :: "nat \<Rightarrow> session_manager \<Rightarrow> session_manager" where
  "count_out a s = s\<lparr>sg_activeCount := sg_activeCount s - 1, sg_backgroundPersists := sg_backgroundPersists s @ [a]\<rparr>"

definition ranged :: "session_manager \<Rightarrow> string list \<Rightarrow> string list \<Rightarrow> bool" where
  "ranged s start seen \<longleftrightarrow> (\<forall>k \<in> set start. k \<in> set seen \<or> map_of (sg_active s) k = None)"

definition request_session :: "sm_request \<Rightarrow> session_manager \<Rightarrow> chat_session" where
  "request_session r s =
     (case sg_store s (rq_Id r) of
        Some stored \<Rightarrow> stored\<lparr>sn_LastActiveAt := rq_Now r, sn_State := SessionStateActive\<rparr>
      | None \<Rightarrow> \<lparr>sn_Id = rq_Id r, sn_ChannelId = rq_Channel r, sn_SenderId = rq_Sender r, sn_LastActiveAt = rq_Now r,
                   sn_History = [], sn_State = SessionStateActive, sn_ContractPolicy = None\<rparr>)"

definition insert_session :: "string \<Rightarrow> chat_session \<Rightarrow> session_manager \<Rightarrow> session_manager" where
  "insert_session key x s = s\<lparr>sg_heap := sg_heap s @ [x], sg_active := (key, length (sg_heap s)) # sg_active s\<rparr>"

fun sm_step :: "nat \<Rightarrow> sm_action \<Rightarrow> sm_state \<Rightarrow> sm_state option" where
  "sm_step g act (s, pcs, gate, d) =
     (let go = (\<lambda>t p. Some (t, pcs(g := p), gate, d));
          leave = (\<lambda>t. Some (t, pcs(g := Idle), None, d));
          delete = (\<lambda>key p. Some (drop_entry key s, pcs(g := p), gate, missing key s d))
      in case (act, pcs g) of
        (Ask r, Idle) \<Rightarrow>
          (if rq_Id r = [] then None
           else case map_of (sg_active s) (rq_Id r) of
                  Some a \<Rightarrow> go (touch_session (rq_Now r) a s) Idle
                | None \<Rightarrow> go s (Waiting r))
      | (Lock, Waiting r) \<Rightarrow> (if gate = None then Some (s, pcs(g := Gated r), Some g, d) else None)
      | (Look, Gated r) \<Rightarrow>
          (case map_of (sg_active s) (rq_Id r) of
             Some a \<Rightarrow> leave (touch_session (rq_Now r) a s)
           | None \<Rightarrow> go s (Missed r))
      | (Read readable, Missed r) \<Rightarrow> (if readable then go s (Capacity r (request_session r s)) else leave s)
      | (Check, Capacity r x) \<Rightarrow>
          (if sg_maxSessions s \<le> 0 \<or> sg_activeCount s < sg_maxSessions s then go s (Storing r x)
           else go s (Sweeping (ForAdmission r x) (sm_keys s) []))
      | (Sweep, Idle) \<Rightarrow> go s (Sweeping OwnSweep (sm_keys s) [])
      | (SweepVisit key clk, Sweeping task start seen) \<Rightarrow>
          (if key \<in> set seen then None
           else case map_of (sg_active s) key of
                  None \<Rightarrow> None
                | Some a \<Rightarrow>
                    if last_active s a + sg_timeout s < clk
                    then go (expire_session a s) (SweepDelete task start (key # seen) key a)
                    else go s (Sweeping task start (key # seen)))
      | (Delete, SweepDelete task start seen key a) \<Rightarrow> delete key (SweepCount task start seen a)
      | (Discount, SweepCount task start seen a) \<Rightarrow> go (count_out a s) (Sweeping task start seen)
      | (EndRange, Sweeping task start seen) \<Rightarrow>
          (if \<not> ranged s start seen then None
           else case task of OwnSweep \<Rightarrow> go s Idle | ForAdmission r x \<Rightarrow> go s (Recheck r x))
      | (Check, Recheck r x) \<Rightarrow>
          (if sg_activeCount s \<ge> sg_maxSessions s then go s (Evicting r x 0) else go s (Storing r x))
      | (Attempt, Evicting r x n) \<Rightarrow>
          (if sg_activeCount s < sg_maxSessions s then go s (Storing r x)
           else if int (Suc n) > sg_maxSessions s + 1 then go s (Storing r x)
           else go s (Searching r x (Suc n) (sm_keys s) [] [] far_future))
      | (Visit key, Searching r x n start seen best best_at) \<Rightarrow>
          (if key \<in> set seen then None
           else case map_of (sg_active s) key of
                  None \<Rightarrow> None
                | Some a \<Rightarrow>
                    if last_active s a < best_at then go s (Searching r x n start (key # seen) key (last_active s a))
                    else go s (Searching r x n start (key # seen) best best_at))
      | (EndRange, Searching r x n start seen best best_at) \<Rightarrow>
          (if \<not> ranged s start seen then None
           else if best = [] then go s (Storing r x) else go s (Taking r x n best))
      | (Take, Taking r x n key) \<Rightarrow>
          (case map_of (sg_active s) key of
             None \<Rightarrow> go s (Storing r x)
           | Some a \<Rightarrow> go s (EvictDelete r x n key a))
      | (Delete, EvictDelete r x n key a) \<Rightarrow> delete key (EvictCount r x n a)
      | (Discount, EvictCount r x n a) \<Rightarrow> go (count_out a (expire_session a s)) (Evicting r x n)
      | (Store, Storing r x) \<Rightarrow>
          (case map_of (sg_active s) (rq_Id r) of
             Some a \<Rightarrow> leave (touch_session (rq_Now r) a s)
           | None \<Rightarrow> go (insert_session (rq_Id r) x s) Counting)
      | (CountUp, Counting) \<Rightarrow> leave (s\<lparr>sg_activeCount := sg_activeCount s + 1\<rparr>)
      | (Remove key, Idle) \<Rightarrow> (if remove_check key s then go s (RemoveDelete key) else go s Idle)
      | (Delete, RemoveDelete key) \<Rightarrow> delete key RemoveCount
      | (Discount, RemoveCount) \<Rightarrow> go (s\<lparr>sg_activeCount := sg_activeCount s - 1\<rparr>) Idle
      | (Turns a h, p) \<Rightarrow>
          (if a < length (sg_heap s) then go (s\<lparr>sg_heap := (sg_heap s)[a := (sg_heap s ! a)\<lparr>sn_History := h\<rparr>]\<rparr>) p else None)
      | (SaveNow a saves, p) \<Rightarrow> (if a < length (sg_heap s) then go (save_session saves a s) p else None)
      | (SaveQueued a saves, p) \<Rightarrow>
          (if a \<in> set (sg_backgroundPersists s) then go (background_persist saves a s) p else None)
      | (SaveBranch now saved a name, p) \<Rightarrow>
          (if a < length (sg_heap s) then go (snd (Branch now saved a name s)) p else None)
      | (Restore now readable a bid, p) \<Rightarrow>
          (if a < length (sg_heap s) \<and> now < far_future
           then (case RestoreBranch now readable a bid s of Inl _ \<Rightarrow> None | Inr (ok, t) \<Rightarrow> go t p) else None)
      | _ \<Rightarrow> None)"

fun sm_run :: "(nat \<times> sm_action) list \<Rightarrow> sm_state \<Rightarrow> sm_state option" where
  "sm_run [] st = Some st"
| "sm_run ((g, act) # es) st = (case sm_step g act st of None \<Rightarrow> None | Some st' \<Rightarrow> sm_run es st')"

definition sm_start :: "session_manager \<Rightarrow> sm_state" where
  "sm_start s = (s, \<lambda>_. Idle, None, 0)"

text \<open>The times of requests lie before the end of the year 9999.\<close>

definition timely :: "(nat \<times> sm_action) list \<Rightarrow> bool" where
  "timely es \<longleftrightarrow> (\<forall>(g, act) \<in> set es. case act of Ask r \<Rightarrow> rq_Now r < far_future | _ \<Rightarrow> True)"

subsection \<open>The invariant\<close>

text \<open>The table: distinct keys, each filed under the identifier of its object, all addresses allocated.\<close>

definition tab_fine :: "session_manager \<Rightarrow> bool" where
  "tab_fine s \<longleftrightarrow> distinct (sm_keys s) \<and> (\<forall>e \<in> set (sg_active s). entry_ok (sg_heap s) e) \<and>
     (\<forall>a \<in> set (sg_backgroundPersists s). a < length (sg_heap s)) \<and> (\<forall>k x. sg_store s k = Some x \<longrightarrow> sn_Id x = k)"

definition tab_size :: "session_manager \<Rightarrow> int" where
  "tab_size s = int (length (sg_active s))"

text \<open>There is room for one more session.\<close>

definition slack :: "session_manager \<Rightarrow> nat \<Rightarrow> bool" where
  "slack s d \<longleftrightarrow> (0 < sg_maxSessions s \<longrightarrow> tab_size s + 1 \<le> sg_maxSessions s + int d)"

definition bounded :: "session_manager \<Rightarrow> nat \<Rightarrow> bool" where
  "bounded s d \<longleftrightarrow> (0 < sg_maxSessions s \<longrightarrow> tab_size s \<le> sg_maxSessions s + int d)"

fun gated :: "sm_pc \<Rightarrow> bool" where
  "gated (Gated _) = True"
| "gated (Missed _) = True"
| "gated (Capacity _ _) = True"
| "gated (Sweeping (ForAdmission _ _) _ _) = True"
| "gated (SweepDelete (ForAdmission _ _) _ _ _ _) = True"
| "gated (SweepCount (ForAdmission _ _) _ _ _) = True"
| "gated (Recheck _ _) = True"
| "gated (Evicting _ _ _) = True"
| "gated (Searching _ _ _ _ _ _ _) = True"
| "gated (Taking _ _ _ _) = True"
| "gated (EvictDelete _ _ _ _ _) = True"
| "gated (EvictCount _ _ _ _) = True"
| "gated (Storing _ _) = True"
| "gated Counting = True"
| "gated _ = False"

text \<open>Deleted, not yet counted out; stored, not yet counted in.\<close>

fun owes :: "sm_pc \<Rightarrow> bool" where
  "owes (SweepCount _ _ _ _) = True"
| "owes (EvictCount _ _ _ _) = True"
| "owes RemoveCount = True"
| "owes _ = False"

definition debts :: "(nat \<Rightarrow> sm_pc) \<Rightarrow> int" where
  "debts pcs = int (card {g. owes (pcs g)})"

definition gains :: "(nat \<Rightarrow> sm_pc) \<Rightarrow> nat option \<Rightarrow> int" where
  "gains pcs gate = (case gate of None \<Rightarrow> 0 | Some g \<Rightarrow> if pcs g = Counting then 1 else 0)"

definition asked :: "sm_request \<Rightarrow> bool" where
  "asked r \<longleftrightarrow> rq_Id r \<noteq> [] \<and> rq_Now r < far_future"

definition prepared :: "sm_request \<Rightarrow> chat_session \<Rightarrow> bool" where
  "prepared r x \<longleftrightarrow> asked r \<and> sn_Id x = rq_Id r \<and> sn_LastActiveAt x < far_future"

fun task_fine :: "sm_task \<Rightarrow> bool" where
  "task_fine OwnSweep = True"
| "task_fine (ForAdmission r x) = prepared r x"

text \<open>What a caller knows at each point.\<close>

fun pc_fine :: "session_manager \<Rightarrow> nat \<Rightarrow> sm_pc \<Rightarrow> bool" where
  "pc_fine s d (Waiting r) = asked r"
| "pc_fine s d (Gated r) = asked r"
| "pc_fine s d (Missed r) = asked r"
| "pc_fine s d (Capacity r x) = prepared r x"
| "pc_fine s d (Sweeping task start seen) = task_fine task"
| "pc_fine s d (SweepDelete task start seen key a) = (task_fine task \<and> a < length (sg_heap s))"
| "pc_fine s d (SweepCount task start seen a) = (task_fine task \<and> a < length (sg_heap s))"
| "pc_fine s d (Recheck r x) = prepared r x"
| "pc_fine s d (Evicting r x n) = (prepared r x \<and> (0 < n \<longrightarrow> slack s d))"
| "pc_fine s d (Searching r x n start seen best best_at) =
     (prepared r x \<and> set (sm_keys s) \<subseteq> set start \<and>
      (if best = [] then seen = [] \<and> best_at = far_future else best \<in> set (sm_keys s) \<or> slack s d))"
| "pc_fine s d (Taking r x n key) = (prepared r x \<and> (key \<in> set (sm_keys s) \<or> slack s d))"
| "pc_fine s d (EvictDelete r x n key a) = (prepared r x \<and> a < length (sg_heap s))"
| "pc_fine s d (EvictCount r x n a) = (prepared r x \<and> a < length (sg_heap s) \<and> slack s d)"
| "pc_fine s d (Storing r x) = (prepared r x \<and> slack s d)"
| "pc_fine s d _ = True"

definition sm_inv :: "sm_state \<Rightarrow> bool" where
  "sm_inv st \<longleftrightarrow> (case st of (s, pcs, gate, d) \<Rightarrow>
     tab_fine s \<and> bounded s d \<and> (\<forall>g. gated (pcs g) \<longrightarrow> gate = Some g) \<and> finite {g. owes (pcs g)} \<and>
     (\<forall>g. pc_fine s d (pcs g)) \<and> tab_size s + debts pcs = sg_activeCount s + gains pcs gate + int d)"

text \<open>A step that adds no key: every key that leaves gives room, and so does every deletion that finds nothing.\<close>

definition shrinks :: "session_manager \<Rightarrow> nat \<Rightarrow> session_manager \<Rightarrow> nat \<Rightarrow> bool" where
  "shrinks s d t e \<longleftrightarrow> length (sg_heap s) \<le> length (sg_heap t) \<and> sg_maxSessions t = sg_maxSessions s \<and>
     set (sm_keys t) \<subseteq> set (sm_keys s) \<and> tab_size t + int d \<le> tab_size s + int e \<and>
     (set (sm_keys t) \<noteq> set (sm_keys s) \<longrightarrow> tab_size t + int d + 1 \<le> tab_size s + int e)"

lemma slack_shrinks: "slack s d \<Longrightarrow> shrinks s d t e \<Longrightarrow> slack t e"
  by (auto simp: slack_def shrinks_def)

lemma bounded_shrinks: "bounded s d \<Longrightarrow> shrinks s d t e \<Longrightarrow> bounded t e"
  by (auto simp: bounded_def shrinks_def)

lemma key_or_slack:
  assumes "key \<in> set (sm_keys s) \<or> slack s d" "bounded s d" "shrinks s d t e"
  shows "key \<in> set (sm_keys t) \<or> slack t e"
proof (cases "key \<in> set (sm_keys t)")
  case False
  show ?thesis
  proof (cases "slack s d")
    case False
    with assms(1) \<open>key \<notin> set (sm_keys t)\<close> have "set (sm_keys t) \<noteq> set (sm_keys s)" by auto
    with assms(2,3) show ?thesis by (auto simp: slack_def bounded_def shrinks_def)
  qed (use slack_shrinks assms in blast)
qed simp

lemma pc_fine_shrinks:
  assumes "pc_fine s d p" "bounded s d" "shrinks s d t e"
  shows "pc_fine t e p"
proof -
  have len: "length (sg_heap s) \<le> length (sg_heap t)" and keys: "set (sm_keys t) \<subseteq> set (sm_keys s)"
    using assms(3) by (auto simp: shrinks_def)
  show ?thesis
  proof (cases p)
    case (Searching r x n start seen best best_at)
    with assms(1) keys key_or_slack[OF _ assms(2,3), of best] show ?thesis by (auto split: if_splits)
  next
    case (Taking r x n key)
    with assms(1) key_or_slack[OF _ assms(2,3), of key] show ?thesis by auto
  qed (use assms len slack_shrinks[OF _ assms(3)] in auto)
qed

text \<open>Keys that are added concern nobody but the holder of the gate.\<close>

lemma pc_fine_ungated: "pc_fine s d p \<Longrightarrow> \<not> gated p \<Longrightarrow> length (sg_heap s) \<le> length (sg_heap t) \<Longrightarrow> pc_fine t d p"
  by (cases p) auto

text \<open>Debts when one caller moves.\<close>

lemma owes_upd: "{h. owes ((pcs(g := p)) h)} = (if owes p then insert g {h. owes (pcs h)} else {h. owes (pcs h)} - {g})"
  by auto

lemma debts_upd:
  assumes "finite {h. owes (pcs h)}"
  shows "finite {h. owes ((pcs(g := p)) h)}"
    and "debts (pcs(g := p)) = debts pcs + (if owes p then 1 else 0) - (if owes (pcs g) then 1 else 0)"
proof -
  show "finite {h. owes ((pcs(g := p)) h)}" using assms unfolding owes_upd by simp
  let ?A = "{h. owes (pcs h)}"
  have g: "g \<in> ?A \<longleftrightarrow> owes (pcs g)" by simp
  have pos: "owes (pcs g) \<Longrightarrow> 0 < card ?A" using assms g by (metis card_gt_0_iff empty_iff)
  show "debts (pcs(g := p)) = debts pcs + (if owes p then 1 else 0) - (if owes (pcs g) then 1 else 0)"
    using assms g pos unfolding debts_def owes_upd
    by (auto simp: card_insert_if card_Diff_singleton_if of_nat_diff Suc_le_eq)
qed

subsection \<open>Operations\<close>

text \<open>Operations that leave the table and the counter.\<close>

definition same_table :: "session_manager \<Rightarrow> session_manager \<Rightarrow> bool" where
  "same_table s t \<longleftrightarrow> tab_fine t \<and> sg_active t = sg_active s \<and> sg_activeCount t = sg_activeCount s \<and>
     sg_maxSessions t = sg_maxSessions s \<and> length (sg_heap t) = length (sg_heap s)"

lemma same_table_refl: "tab_fine s \<Longrightarrow> same_table s s"
  by (simp add: same_table_def)

lemma same_table_heap:
  assumes "tab_fine s" "sn_Id x = sn_Id (sg_heap s ! a)" "sn_LastActiveAt x < far_future \<or> sn_LastActiveAt x = last_active s a"
  shows "same_table s (s\<lparr>sg_heap := (sg_heap s)[a := x]\<rparr>)"
  using assms by (auto simp: same_table_def tab_fine_def sm_keys_def intro: entry_ok_upd)

lemma same_table_touch: "tab_fine s \<Longrightarrow> now < far_future \<Longrightarrow> same_table s (touch_session now a s)"
  unfolding touch_session_def by (rule same_table_heap) simp_all

lemma same_table_expire: "tab_fine s \<Longrightarrow> same_table s (expire_session a s)"
  unfolding expire_session_def by (rule same_table_heap) simp_all

lemma same_table_save: "tab_fine s \<Longrightarrow> same_table s (save_session saves a s)"
  by (auto simp: same_table_def tab_fine_def sm_keys_def save_session_def)

lemma same_table_saved: "tab_fine s \<Longrightarrow> same_table s (background_persist saves a s)"
  by (auto simp: same_table_def tab_fine_def sm_keys_def background_persist_def save_session_def dest: notin_set_remove1)

lemma same_table_branch: "tab_fine s \<Longrightarrow> same_table s (snd (Branch now saved a name s))"
  by (auto simp: same_table_def tab_fine_def sm_keys_def Branch_def Let_def)

lemma same_table_restore:
  "tab_fine s \<Longrightarrow> now < far_future \<Longrightarrow> RestoreBranch now readable a bid s = Inr (ok, t) \<Longrightarrow> same_table s t"
  by (auto simp: RestoreBranch_def same_table_refl split: if_splits option.splits intro!: same_table_heap)

lemma same_table_shrinks: "same_table s t \<Longrightarrow> shrinks s d t d"
  by (simp add: same_table_def shrinks_def sm_keys_def tab_size_def)

text \<open>A deletion.\<close>

lemma drop_entry_fields [simp]:
  "sg_activeCount (drop_entry k s) = sg_activeCount s" "sg_maxSessions (drop_entry k s) = sg_maxSessions s"
  "sg_heap (drop_entry k s) = sg_heap s" "set (sm_keys (drop_entry k s)) = set (sm_keys s) - {k}"
  by (auto simp: drop_entry_def sm_keys_def)

lemma drop_entry_fine: "tab_fine s \<Longrightarrow> tab_fine (drop_entry k s)"
  by (auto simp: tab_fine_def drop_entry_def sm_keys_def distinct_map inj_on_def)

lemma drop_entry_size:
  assumes "tab_fine s"
  shows "tab_size (drop_entry k s) + int d + 1 = tab_size s + int (missing k s d)"
proof -
  have "k \<in> set (sm_keys s) \<Longrightarrow> 0 < length (sg_active s)" by (cases "sg_active s") (auto simp: sm_keys_def)
  moreover have "length (filter (\<lambda>e. fst e \<noteq> k) (sg_active s)) =
      (if k \<in> set (sm_keys s) then length (sg_active s) - 1 else length (sg_active s))"
    using filter_key_length[of "sg_active s" k] assms by (simp add: tab_fine_def sm_keys_def)
  moreover have "map_of (sg_active s) k = None \<longleftrightarrow> k \<notin> set (sm_keys s)" by (simp add: sm_keys_def map_of_eq_None_iff)
  ultimately show ?thesis by (auto simp: tab_size_def drop_entry_def missing_def of_nat_diff Suc_le_eq)
qed

lemma drop_entry_shrinks: "tab_fine s \<Longrightarrow> shrinks s d (drop_entry k s) (missing k s d)"
  using drop_entry_size[of s k d] by (auto simp: shrinks_def)

lemma drop_entry_slack: "tab_fine s \<Longrightarrow> bounded s d \<Longrightarrow> slack (drop_entry k s) (missing k s d)"
  using drop_entry_size[of s k d] by (auto simp: slack_def bounded_def)

lemma key_of_entry:
  assumes "tab_fine s" "map_of (sg_active s) k = Some a"
  shows "a < length (sg_heap s)" "last_active s a < far_future" "k \<in> set (sm_keys s)" "k \<noteq> []"
proof -
  have "(k, a) \<in> set (sg_active s)" using assms(2) by (rule map_of_SomeD)
  with assms(1) show "a < length (sg_heap s)" "last_active s a < far_future" "k \<in> set (sm_keys s)" "k \<noteq> []"
    by (force simp: tab_fine_def entry_ok_def sm_keys_def)+
qed

subsection \<open>Every step keeps the invariant\<close>

text \<open>A caller that moves without changing the gate, where no store is left uncounted.\<close>

lemma sm_inv_move:
  assumes inv: "sm_inv (s, pcs, gate, d)" and shr: "shrinks s d t e" and tab: "tab_fine t"
    and p: "pc_fine t e p" "gated p \<longrightarrow> gated (pcs g)" "p \<noteq> Counting" "pcs g \<noteq> Counting"
    and count: "tab_size t + (if owes p then 1 else 0) + sg_activeCount s + int d =
      tab_size s + (if owes (pcs g) then 1 else 0) + sg_activeCount t + int e"
  shows "sm_inv (t, pcs(g := p), gate, e)"
proof -
  have fin: "finite {h. owes (pcs h)}" using inv by (simp add: sm_inv_def)
  have "gains (pcs(g := p)) gate = gains pcs gate" using p(3,4) by (auto simp: gains_def split: option.splits)
  moreover have "pc_fine t e (pcs h)" for h using inv pc_fine_shrinks[OF _ _ shr] by (auto simp: sm_inv_def)
  moreover have "bounded t e" using inv bounded_shrinks[OF _ shr] by (auto simp: sm_inv_def)
  ultimately show ?thesis
    using inv tab p debts_upd[OF fin, of g p] count by (auto simp: sm_inv_def)
qed

lemma sm_inv_same:
  assumes "sm_inv (s, pcs, gate, d)" "same_table s t" "pc_fine t d p" "gated p \<longrightarrow> gated (pcs g)"
    and "p \<noteq> Counting" "pcs g \<noteq> Counting" "owes p \<longleftrightarrow> owes (pcs g)"
  shows "sm_inv (t, pcs(g := p), gate, d)"
  by (rule sm_inv_move[OF assms(1) same_table_shrinks[OF assms(2)]])
    (use assms in \<open>auto simp: same_table_def tab_size_def\<close>)

text \<open>Nothing moves but the objects and the store.\<close>

lemma sm_inv_aside:
  assumes inv: "sm_inv (s, pcs, gate, d)" and t: "same_table s t"
  shows "sm_inv (t, pcs, gate, d)"
proof -
  have "pc_fine t d (pcs h)" for h using inv pc_fine_shrinks[OF _ _ same_table_shrinks[OF t]] by (auto simp: sm_inv_def)
  moreover have "bounded t d" using inv bounded_shrinks[OF _ same_table_shrinks[OF t]] by (auto simp: sm_inv_def)
  ultimately show ?thesis using inv t by (auto simp: sm_inv_def same_table_def tab_size_def)
qed

lemma sm_inv_leave:
  assumes inv: "sm_inv (s, pcs, gate, d)" and t: "same_table s t" and g: "gated (pcs g)" "pcs g \<noteq> Counting" "\<not> owes (pcs g)"
  shows "sm_inv (t, pcs(g := Idle), None, d)"
proof -
  have gate: "gate = Some g" and other: "h \<noteq> g \<Longrightarrow> \<not> gated (pcs h)" for h
    using inv g(1) by (auto simp: sm_inv_def)
  have one: "sm_inv (t, pcs(g := Idle), gate, d)" by (rule sm_inv_same[OF inv t]) (use g in simp_all)
  have "gains pcs gate = 0" "gains (pcs(g := Idle)) gate = 0" using gate g by (simp_all add: gains_def)
  with one other show ?thesis by (auto simp: sm_inv_def gains_def)
qed

lemma sm_inv_delete:
  assumes inv: "sm_inv (s, pcs, gate, d)" and p: "owes p" "gated p \<longrightarrow> gated (pcs g)" "\<not> owes (pcs g)" "pcs g \<noteq> Counting"
    and fine: "pc_fine (drop_entry key s) (missing key s d) p"
  shows "sm_inv (drop_entry key s, pcs(g := p), gate, missing key s d)"
proof -
  have tab: "tab_fine s" using inv by (simp add: sm_inv_def)
  show ?thesis
    by (rule sm_inv_move[OF inv drop_entry_shrinks[OF tab] drop_entry_fine[OF tab] fine])
      (use p drop_entry_size[OF tab, of key d] in auto)
qed

lemma sm_inv_discount:
  assumes inv: "sm_inv (s, pcs, gate, d)" and t: "same_table s t" and g: "owes (pcs g)" "\<not> owes p" "p \<noteq> Counting"
    and u: "tab_fine u" "sg_active u = sg_active t" "sg_activeCount u = sg_activeCount t - 1"
      "sg_maxSessions u = sg_maxSessions t" "sg_heap u = sg_heap t"
    and p: "gated p \<longrightarrow> gated (pcs g)" "pc_fine u d p"
  shows "sm_inv (u, pcs(g := p), gate, d)"
proof -
  have "shrinks s d u d" using t u by (simp add: same_table_def shrinks_def sm_keys_def tab_size_def)
  then show ?thesis
    by (rule sm_inv_move[OF inv _ u(1)]) (use t u p g in \<open>auto simp: same_table_def tab_size_def\<close>)
qed

lemma count_out_fine: "tab_fine s \<Longrightarrow> a < length (sg_heap s) \<Longrightarrow> tab_fine (count_out a s)"
  by (auto simp: tab_fine_def count_out_def sm_keys_def)

lemma sm_inv_lock:
  assumes inv: "sm_inv (s, pcs, None, d)" and "asked r" "pcs g = Waiting r"
  shows "sm_inv (s, pcs(g := Gated r), Some g, d)"
proof -
  have fin: "finite {h. owes (pcs h)}" and none: "\<not> gated (pcs h)" for h
    using inv by (auto simp: sm_inv_def)
  show ?thesis
    using inv none debts_upd[OF fin, of g "Gated r"] assms(2,3) by (auto simp: sm_inv_def gains_def)
qed

lemma insert_fine:
  assumes "tab_fine s" "map_of (sg_active s) (rq_Id r) = None" "prepared r x"
  shows "tab_fine (insert_session (rq_Id r) x s)"
  using assms
  by (auto simp: tab_fine_def insert_session_def sm_keys_def map_of_eq_None_iff prepared_def asked_def entry_ok_append less_Suc_eq)
    (auto simp: entry_ok_def nth_append)

lemma sm_inv_store:
  assumes inv: "sm_inv (s, pcs, gate, d)" and g: "pcs g = Storing r x" and new: "map_of (sg_active s) (rq_Id r) = None"
  shows "sm_inv (insert_session (rq_Id r) x s, pcs(g := Counting), gate, d)"
proof -
  let ?t = "insert_session (rq_Id r) x s"
  have gate: "gate = Some g" using inv g by (auto simp: sm_inv_def)
  have fin: "finite {h. owes (pcs h)}" using inv by (simp add: sm_inv_def)
  have x: "prepared r x" "slack s d" using inv g by (auto simp: sm_inv_def split: prod.splits) (metis pc_fine.simps(14))+
  have other: "h \<noteq> g \<Longrightarrow> \<not> gated (pcs h)" for h using inv gate by (auto simp: sm_inv_def)
  have "h \<noteq> g \<Longrightarrow> pc_fine ?t d (pcs h)" for h
    using inv pc_fine_ungated[OF _ other, of s d h ?t] by (auto simp: sm_inv_def insert_session_def)
  moreover have "bounded ?t d" using x(2) by (auto simp: bounded_def slack_def insert_session_def tab_size_def)
  ultimately show ?thesis
    using inv insert_fine[OF _ new x(1)] debts_upd[OF fin, of g Counting] gate g
    by (auto simp: sm_inv_def gains_def insert_session_def tab_size_def)
qed

lemma sm_inv_count:
  assumes inv: "sm_inv (s, pcs, gate, d)" and g: "pcs g = Counting"
  shows "sm_inv (s\<lparr>sg_activeCount := sg_activeCount s + 1\<rparr>, pcs(g := Idle), None, d)"
proof -
  let ?t = "s\<lparr>sg_activeCount := sg_activeCount s + 1\<rparr>"
  have gate: "gate = Some g" using inv g by (auto simp: sm_inv_def)
  have fin: "finite {h. owes (pcs h)}" using inv by (simp add: sm_inv_def)
  have other: "h \<noteq> g \<Longrightarrow> \<not> gated (pcs h)" for h using inv gate by (auto simp: sm_inv_def)
  have "shrinks s d ?t d" by (simp add: shrinks_def sm_keys_def tab_size_def)
  then have "pc_fine ?t d (pcs h)" for h using inv pc_fine_shrinks[of s d "pcs h" ?t d] by (auto simp: sm_inv_def)
  with inv other debts_upd[OF fin, of g Idle] gate g show ?thesis
    by (auto simp: sm_inv_def gains_def tab_fine_def bounded_def tab_size_def sm_keys_def)
qed

definition timely_action :: "sm_action \<Rightarrow> bool" where
  "timely_action act \<longleftrightarrow> (case act of Ask r \<Rightarrow> rq_Now r < far_future | _ \<Rightarrow> True)"

lemma request_prepared: "tab_fine s \<Longrightarrow> asked r \<Longrightarrow> prepared r (request_session r s)"
  by (auto simp: prepared_def request_session_def tab_fine_def asked_def split: option.splits)

text \<open>At the end of a range nothing is left of what it began with; an empty table has room.\<close>

lemma ranged_empty:
  assumes "ranged s start []" "set (sm_keys s) \<subseteq> set start"
  shows "slack s d"
proof -
  have "sm_keys s = []"
  proof (rule ccontr)
    assume "sm_keys s \<noteq> []"
    then obtain k where k: "k \<in> set (sm_keys s)" by (cases "sm_keys s") auto
    with assms have "map_of (sg_active s) k = None" by (auto simp: ranged_def)
    with k show False by (simp add: sm_keys_def map_of_eq_None_iff)
  qed
  then show ?thesis by (simp add: slack_def tab_size_def sm_keys_def)
qed

text \<open>While the counter is below the limit and nobody has stored without counting, there is room.\<close>

lemma count_slack:
  assumes "sm_inv (s, pcs, gate, d)" "gated (pcs g)" "pcs g \<noteq> Counting" "sg_maxSessions s \<le> 0 \<or> sg_activeCount s < sg_maxSessions s"
  shows "slack s d"
proof -
  have "gate = Some g" using assms(1,2) by (auto simp: sm_inv_def)
  then have "tab_size s + debts pcs = sg_activeCount s + int d"
    using assms(1,3) by (simp add: sm_inv_def gains_def)
  moreover have "0 \<le> debts pcs" by (simp add: debts_def)
  ultimately show ?thesis using assms(4) by (auto simp: slack_def)
qed

lemma sm_step_inv:
  assumes inv: "sm_inv (s, pcs, gate, d)" and step: "sm_step g act (s, pcs, gate, d) = Some st"
    and time: "timely_action act"
  shows "sm_inv st"
proof -
  have tab: "tab_fine s" and bnd: "bounded s d" and pc: "pc_fine s d (pcs g)" using inv by (auto simp: sm_inv_def)
  note same = same_table_refl[OF tab]
  note stay = sm_inv_same[OF inv same]
  show ?thesis
  proof (cases act)
    case (Ask r)
    with step time have g: "pcs g = Idle" and r: "asked r"
      by (auto simp: asked_def timely_action_def split: sm_pc.splits if_splits)
    show ?thesis
    proof (cases "map_of (sg_active s) (rq_Id r)")
      case None
      with step Ask g r have "st = (s, pcs(g := Waiting r), gate, d)" by (simp add: asked_def)
      with stay[of "Waiting r" g] r g show ?thesis by simp
    next
      case (Some a)
      with step Ask g r have "st = (touch_session (rq_Now r) a s, pcs(g := Idle), gate, d)" by (simp add: asked_def)
      moreover have "same_table s (touch_session (rq_Now r) a s)" using same_table_touch[OF tab] r by (simp add: asked_def)
      ultimately show ?thesis using sm_inv_same[OF inv, of _ Idle g] g by simp
    qed
  next
    case Lock
    with step obtain r where g: "pcs g = Waiting r" "gate = None" "st = (s, pcs(g := Gated r), Some g, d)"
      by (auto split: sm_pc.splits if_splits)
    with sm_inv_lock[of s pcs d r g] inv pc show ?thesis by simp
  next
    case Look
    with step obtain r where g: "pcs g = Gated r" by (auto split: sm_pc.splits)
    with pc have r: "asked r" by simp
    show ?thesis
    proof (cases "map_of (sg_active s) (rq_Id r)")
      case None
      with step Look g have "st = (s, pcs(g := Missed r), gate, d)" by simp
      with stay[of "Missed r" g] r g show ?thesis by simp
    next
      case (Some a)
      with step Look g have "st = (touch_session (rq_Now r) a s, pcs(g := Idle), None, d)" by simp
      moreover have "same_table s (touch_session (rq_Now r) a s)" using same_table_touch[OF tab] r by (simp add: asked_def)
      ultimately show ?thesis using sm_inv_leave[OF inv, of _ g] g by simp
    qed
  next
    case (Read readable)
    with step obtain r where g: "pcs g = Missed r" by (auto split: sm_pc.splits)
    with step Read stay[of "Capacity r (request_session r s)" g] sm_inv_leave[OF inv same, of g] pc request_prepared[OF tab, of r]
    show ?thesis by (auto split: if_splits)
  next
    case Check
    with step consider r x where "pcs g = Capacity r x" | r x where "pcs g = Recheck r x" by (auto split: sm_pc.splits)
    then show ?thesis
    proof cases
      case (1 r x)
      show ?thesis
      proof (cases "sg_maxSessions s \<le> 0 \<or> sg_activeCount s < sg_maxSessions s")
        case True
        with step Check 1 have st: "st = (s, pcs(g := Storing r x), gate, d)" by simp
        have "slack s d" using count_slack[OF inv, of g] True 1 by simp
        with stay[of "Storing r x" g] pc st 1 show ?thesis by simp
      next
        case False
        with step Check 1 have st: "st = (s, pcs(g := Sweeping (ForAdmission r x) (sm_keys s) []), gate, d)" by simp
        with stay[of "Sweeping (ForAdmission r x) (sm_keys s) []" g] pc 1 show ?thesis by simp
      qed
    next
      case (2 r x)
      show ?thesis
      proof (cases "sg_activeCount s \<ge> sg_maxSessions s")
        case True
        with step Check 2 have st: "st = (s, pcs(g := Evicting r x 0), gate, d)" by simp
        with stay[of "Evicting r x 0" g] pc 2 show ?thesis by simp
      next
        case False
        with step Check 2 have st: "st = (s, pcs(g := Storing r x), gate, d)" by simp
        have "slack s d" using count_slack[OF inv, of g] False 2 by simp
        with stay[of "Storing r x" g] pc st 2 show ?thesis by simp
      qed
    qed
  next
    case Sweep
    with step have "pcs g = Idle" "st = (s, pcs(g := Sweeping OwnSweep (sm_keys s) []), gate, d)" by (auto split: sm_pc.splits)
    with stay[of "Sweeping OwnSweep (sm_keys s) []" g] show ?thesis by simp
  next
    case (SweepVisit key clk)
    with step obtain task start seen a where g: "pcs g = Sweeping task start seen" and a: "map_of (sg_active s) key = Some a"
      by (auto split: sm_pc.splits if_splits option.splits)
    show ?thesis
    proof (cases "last_active s a + sg_timeout s < clk")
      case True
      with step SweepVisit g a have st: "st = (expire_session a s, pcs(g := SweepDelete task start (key # seen) key a), gate, d)"
        by (auto split: if_splits)
      have "gated (SweepDelete task start (key # seen) key a) \<longrightarrow> gated (pcs g)" using g by (cases task) simp_all
      with sm_inv_same[OF inv same_table_expire[OF tab, of a], of "SweepDelete task start (key # seen) key a" g] pc g st key_of_entry(1)[OF tab a]
      show ?thesis by (simp add: expire_session_def)
    next
      case False
      with step SweepVisit g a have st: "st = (s, pcs(g := Sweeping task start (key # seen)), gate, d)"
        by (auto split: if_splits)
      have "gated (Sweeping task start (key # seen)) \<longrightarrow> gated (pcs g)" using g by (cases task) simp_all
      with stay[of "Sweeping task start (key # seen)" g] pc g st show ?thesis by simp
    qed
  next
    case Delete
    with step consider task start seen key a where "pcs g = SweepDelete task start seen key a"
      | r x n key a where "pcs g = EvictDelete r x n key a" | key where "pcs g = RemoveDelete key" by (auto split: sm_pc.splits)
    then show ?thesis
    proof cases
      case (1 task start seen key a)
      with step Delete have st: "st = (drop_entry key s, pcs(g := SweepCount task start seen a), gate, missing key s d)" by simp
      have "gated (SweepCount task start seen a) \<longrightarrow> gated (pcs g)" using 1 by (cases task) simp_all
      with sm_inv_delete[OF inv, of "SweepCount task start seen a" g key] pc 1 st show ?thesis by simp
    next
      case (2 r x n key a)
      with step Delete have st: "st = (drop_entry key s, pcs(g := EvictCount r x n a), gate, missing key s d)" by simp
      with sm_inv_delete[OF inv, of "EvictCount r x n a" g key] pc 2 drop_entry_slack[OF tab bnd] show ?thesis by simp
    next
      case (3 key)
      with step Delete have st: "st = (drop_entry key s, pcs(g := RemoveCount), gate, missing key s d)" by simp
      with sm_inv_delete[OF inv, of RemoveCount g key] 3 show ?thesis by simp
    qed
  next
    case Discount
    with step consider task start seen a where "pcs g = SweepCount task start seen a"
      | r x n a where "pcs g = EvictCount r x n a" | "pcs g = RemoveCount" by (auto split: sm_pc.splits)
    then show ?thesis
    proof cases
      case (1 task start seen a)
      with step Discount have st: "st = (count_out a s, pcs(g := Sweeping task start seen), gate, d)" by simp
      have "gated (Sweeping task start seen) \<longrightarrow> gated (pcs g)" using 1 by (cases task) simp_all
      with sm_inv_discount[OF inv same, of g "Sweeping task start seen" "count_out a s"] count_out_fine[OF tab, of a] pc 1 st
      show ?thesis by (simp add: count_out_def)
    next
      case (2 r x n a)
      let ?t = "expire_session a s"
      from step Discount 2 have st: "st = (count_out a ?t, pcs(g := Evicting r x n), gate, d)" by simp
      have t: "same_table s ?t" by (rule same_table_expire[OF tab])
      then have "tab_fine (count_out a ?t)" using pc 2 by (intro count_out_fine) (simp_all add: same_table_def)
      moreover have "slack (count_out a ?t) d"
        using pc 2 t by (simp add: slack_def same_table_def tab_size_def count_out_def)
      ultimately show ?thesis
        using sm_inv_discount[OF inv t, of g "Evicting r x n" "count_out a ?t"] pc 2 st by (simp add: count_out_def)
    next
      case 3
      let ?t = "s\<lparr>sg_activeCount := sg_activeCount s - 1\<rparr>"
      from step Discount 3 have st: "st = (?t, pcs(g := Idle), gate, d)" by simp
      have "tab_fine ?t" using tab by (simp add: tab_fine_def sm_keys_def)
      with sm_inv_discount[OF inv same, of g Idle ?t] 3 st show ?thesis by simp
    qed
  next
    case EndRange
    with step consider task start seen where "pcs g = Sweeping task start seen" "ranged s start seen"
      | r x n start seen best best_at where "pcs g = Searching r x n start seen best best_at" "ranged s start seen"
      by (auto split: sm_pc.splits if_splits)
    then show ?thesis
    proof cases
      case (1 task start seen)
      with step EndRange stay[of Idle g] stay[of "Recheck _ _" g] pc show ?thesis
        by (cases task) (auto simp del: fun_upd_apply)
    next
      case (2 r x n start seen best best_at)
      show ?thesis
      proof (cases "best = []")
        case True
        then have "slack s d" using pc 2 ranged_empty[of s start d] by simp
        with step EndRange 2 True stay[of "Storing r x" g] pc show ?thesis by simp
      next
        case False
        with step EndRange 2 stay[of "Taking r x n best" g] pc show ?thesis by simp
      qed
    qed
  next
    case Attempt
    with step obtain r x n where g: "pcs g = Evicting r x n" by (auto split: sm_pc.splits)
    consider "sg_activeCount s < sg_maxSessions s" | "\<not> sg_activeCount s < sg_maxSessions s" "int (Suc n) > sg_maxSessions s + 1"
      | "\<not> sg_activeCount s < sg_maxSessions s" "\<not> int (Suc n) > sg_maxSessions s + 1" by blast
    then show ?thesis
    proof cases
      case 1
      then have "slack s d" using count_slack[OF inv, of g] g by simp
      with step Attempt g 1 stay[of "Storing r x" g] pc show ?thesis by simp
    next
      case 2
      have "slack s d"
      proof (cases "0 < sg_maxSessions s")
        case True
        with 2 have "0 < n" by simp
        with pc g show ?thesis by simp
      qed (simp add: slack_def)
      with step Attempt g 2 stay[of "Storing r x" g] pc show ?thesis by simp
    next
      case 3
      with step Attempt g stay[of "Searching r x (Suc n) (sm_keys s) [] [] far_future" g] pc show ?thesis by simp
    qed
  next
    case (Visit key)
    with step obtain r x n start seen best best_at a where g: "pcs g = Searching r x n start seen best best_at"
      and a: "map_of (sg_active s) key = Some a" "key \<notin> set seen"
      by (auto split: sm_pc.splits if_splits option.splits)
    show ?thesis
    proof (cases "last_active s a < best_at")
      case True
      with step Visit g a stay[of "Searching r x n start (key # seen) key (last_active s a)" g] pc key_of_entry[OF tab a(1)]
      show ?thesis by simp
    next
      case False
      with key_of_entry(2)[OF tab a(1)] pc g have "best \<noteq> []" by auto
      with step Visit g a False stay[of "Searching r x n start (key # seen) best best_at" g] pc show ?thesis by simp
    qed
  next
    case Take
    with step obtain r x n key where g: "pcs g = Taking r x n key" by (auto split: sm_pc.splits)
    show ?thesis
    proof (cases "map_of (sg_active s) key")
      case None
      then have "slack s d" using pc g by (simp add: sm_keys_def map_of_eq_None_iff)
      with step Take g None stay[of "Storing r x" g] pc show ?thesis by simp
    next
      case (Some a)
      with step Take g stay[of "EvictDelete r x n key a" g] pc key_of_entry(1)[OF tab Some] show ?thesis by simp
    qed
  next
    case Store
    with step obtain r x where g: "pcs g = Storing r x" by (auto split: sm_pc.splits)
    show ?thesis
    proof (cases "map_of (sg_active s) (rq_Id r)")
      case None
      with step Store g sm_inv_store[OF inv g None] show ?thesis by simp
    next
      case (Some a)
      have "same_table s (touch_session (rq_Now r) a s)"
        using same_table_touch[OF tab] pc g by (simp add: prepared_def asked_def)
      with step Store g Some sm_inv_leave[OF inv, of _ g] show ?thesis by auto
    qed
  next
    case CountUp
    with step have "pcs g = Counting" "st = (s\<lparr>sg_activeCount := sg_activeCount s + 1\<rparr>, pcs(g := Idle), None, d)"
      by (auto split: sm_pc.splits)
    with sm_inv_count[OF inv] show ?thesis by simp
  next
    case (Remove key)
    with step have "pcs g = Idle" by (auto split: sm_pc.splits)
    with step Remove stay[of Idle g] stay[of "RemoveDelete key" g] show ?thesis by (auto split: if_splits)
  next
    case (Turns a h)
    let ?t = "s\<lparr>sg_heap := (sg_heap s)[a := (sg_heap s ! a)\<lparr>sn_History := h\<rparr>]\<rparr>"
    have "same_table s ?t" by (rule same_table_heap[OF tab]) simp_all
    from sm_inv_aside[OF inv this] step Turns show ?thesis by (auto split: if_splits)
  next
    case (SaveNow a saves)
    with sm_inv_aside[OF inv same_table_save[OF tab]] step show ?thesis by (auto split: if_splits)
  next
    case (SaveQueued a saves)
    with sm_inv_aside[OF inv same_table_saved[OF tab]] step show ?thesis by (auto split: if_splits)
  next
    case (SaveBranch now saved a name)
    with sm_inv_aside[OF inv same_table_branch[OF tab]] step show ?thesis by (auto split: if_splits)
  next
    case (Restore now readable a bid)
    with sm_inv_aside[OF inv same_table_restore[OF tab]] step show ?thesis
      by (auto split: if_splits sum.splits)
  qed
qed

lemma sm_step_limit:
  "sm_step g act (s, pcs, gate, d) = Some (t, rest) \<Longrightarrow> sg_maxSessions t = sg_maxSessions s"
  by (cases act; cases "pcs g")
    (auto simp: Let_def touch_session_def expire_session_def count_out_def insert_session_def save_session_def
      background_persist_def Branch_def RestoreBranch_def split: if_splits option.splits sm_task.splits sum.splits)

lemma sm_run_inv:
  "sm_run es st = Some st' \<Longrightarrow> sm_inv st \<Longrightarrow> timely es \<Longrightarrow> sm_inv st' \<and> sg_maxSessions (fst st') = sg_maxSessions (fst st)"
proof (induction es st rule: sm_run.induct)
  case (2 g act es st)
  obtain s pcs gate d where st: "st = (s, pcs, gate, d)" by (cases st)
  from 2(2) obtain mid where mid: "sm_step g act st = Some mid" "sm_run es mid = Some st'" by (auto split: option.splits)
  have "timely_action act" "timely es" using 2(4) by (auto simp: timely_def timely_action_def)
  with 2(1)[OF mid] 2(3) sm_step_inv[of s pcs gate d g act mid] sm_step_limit[of g act s pcs gate d "fst mid" "snd mid"] mid(1) st
  show ?case by simp
qed simp

text \<open>C25: The table never holds two sessions of one identifier, files each session under its own, and grows
  beyond a positive limit only by deletions that found nothing: by as many as there were removals,
  sweeps or evictions whose key had left the table between their look and their deletion. The counter
  is the size of the table less these deletions, but for the deletions and the store that are not yet
  counted. This holds after any interleaving of admissions, evictions, sweeps, removals, saves and
  branches; the times of requests lie before the end of the year 9999, and the store returns sessions
  under their identifiers.\<close>

theorem sessions_bounded:
  assumes "sm_run es (sm_start (new_manager timeout maxSessions store)) = Some (s, pcs, gate, d)"
    and "timely es" "\<forall>k x. store k = Some x \<longrightarrow> sn_Id x = k"
  shows "distinct (map fst (sg_active s)) \<and>
     (\<forall>(k, a) \<in> set (sg_active s). a < length (sg_heap s) \<and> sn_Id (sg_heap s ! a) = k) \<and>
     int (length (sg_active s)) + debts pcs = sg_activeCount s + gains pcs gate + int d \<and>
     (0 < maxSessions \<longrightarrow> int (length (sg_active s)) \<le> maxSessions + int d)"
proof -
  have "sm_inv (sm_start (new_manager timeout maxSessions store))"
    using assms(3) by (auto simp: sm_inv_def sm_start_def new_manager_def tab_fine_def sm_keys_def bounded_def
        tab_size_def debts_def gains_def)
  from sm_run_inv[OF assms(1) this assms(2)] show ?thesis
    by (auto simp: sm_start_def new_manager_def sm_inv_def tab_fine_def sm_keys_def entry_ok_def bounded_def tab_size_def)
qed

text \<open>A removal overtakes an eviction: with room for one session two are in memory, and one deletion found nothing.\<close>

definition example_request :: "string \<Rightarrow> int \<Rightarrow> sm_request" where
  "example_request sid now = \<lparr>rq_Id = sid, rq_Channel = ''web'', rq_Sender = ''ann'', rq_Now = now\<rparr>"

definition example_overtaken :: "(nat \<times> sm_action) list" where
  "example_overtaken =
     [(1, Ask (example_request ''a'' 1)), (1, Lock), (1, Look), (1, Read True), (1, Check), (1, Store), (1, CountUp),
      (2, Remove ''a''),
      (1, Ask (example_request ''b'' 2)), (1, Lock), (1, Look), (1, Read True), (1, Check), (1, SweepVisit ''a'' 2), (1, EndRange),
      (1, Check), (1, Attempt), (1, Visit ''a''), (1, EndRange), (1, Take), (2, Delete), (2, Discount), (1, Delete), (1, Discount),
      (1, Attempt), (1, Store), (1, CountUp),
      (3, Ask (example_request ''c'' 3)), (3, Lock), (3, Look), (3, Read True), (3, Check), (3, Store), (3, CountUp)]"

lemma example_overtaken_run:
  "map_option (\<lambda>(s, pcs, gate, d). (map fst (sg_active s), sg_activeCount s, d))
     (sm_run example_overtaken (sm_start (new_manager 10 1 (\<lambda>_. None)))) = Some ([''c'', ''b''], 1, 1)"
  by code_simp

theorem sessions_bounded_witness:
  "\<exists>s pcs gate. sm_run example_overtaken (sm_start (new_manager 10 1 (\<lambda>_. None))) = Some (s, pcs, gate, 1) \<and>
     map fst (sg_active s) = [''c'', ''b''] \<and> int (length (sg_active s)) \<le> 1 + 1"
proof -
  obtain s pcs gate where run: "sm_run example_overtaken (sm_start (new_manager 10 1 (\<lambda>_. None))) = Some (s, pcs, gate, 1)"
    and keys: "map fst (sg_active s) = [''c'', ''b'']"
    using example_overtaken_run by auto
  have "timely example_overtaken" by (simp add: timely_def example_overtaken_def example_request_def far_future_def)
  from sessions_bounded[OF run this] run keys show ?thesis by auto
qed

end
