(* ===== verification/Go_Base64.thy ===== *)
theory Go_Base64
  imports Go_Prelude
begin

section \<open>Base64\<close>

text \<open>
  The package \<open>encoding/base64\<close> as the file store uses it: names of files are written with \<open>RawURLEncoding\<close> and read with
  \<open>StdEncoding\<close> after the two special letters are replaced and the padding is put back. Decoding is not strict: it
  ignores line ends and the bits behind the last byte.
\<close>

definition b64_url_alphabet :: string where
  "b64_url_alphabet = ''ABCDEFGHIJKLMNOPQRSTUVWXYZabcdefghijklmnopqrstuvwxyz0123456789-_''"

definition b64_std_alphabet :: string where
  "b64_std_alphabet = ''ABCDEFGHIJKLMNOPQRSTUVWXYZabcdefghijklmnopqrstuvwxyz0123456789+/''"

definition b64_url_char :: "nat \<Rightarrow> char" where
  "b64_url_char n = b64_url_alphabet ! n"

fun position :: "char \<Rightarrow> string \<Rightarrow> nat \<Rightarrow> nat option" where
  "position c [] i = None"
| "position c (x # xs) i = (if x = c then Some i else position c xs (Suc i))"

definition b64_std_value :: "char \<Rightarrow> nat option" where
  "b64_std_value c = position c b64_std_alphabet 0"

text \<open>Three bytes are four letters; one or two bytes at the end are two or three.\<close>

fun RawURLEncode :: "string \<Rightarrow> string" where
  "RawURLEncode (a # b # c # s) =
     (let v = byte a * 65536 + byte b * 256 + byte c in
      b64_url_char (v div 262144) # b64_url_char (v div 4096 mod 64) # b64_url_char (v div 64 mod 64) #
      b64_url_char (v mod 64) # RawURLEncode s)"
| "RawURLEncode [a, b] =
     (let v = byte a * 65536 + byte b * 256 in
      [b64_url_char (v div 262144), b64_url_char (v div 4096 mod 64), b64_url_char (v div 64 mod 64)])"
| "RawURLEncode [a] = (let v = byte a * 65536 in [b64_url_char (v div 262144), b64_url_char (v div 4096 mod 64)])"
| "RawURLEncode [] = []"

fun b64_decode :: "string \<Rightarrow> string option" where
  "b64_decode [] = Some []"
| "b64_decode (c1 # c2 # c3 # c4 # s) =
     (case (b64_std_value c1, b64_std_value c2) of
        (Some n1, Some n2) \<Rightarrow>
          (case (b64_std_value c3, b64_std_value c4) of
             (Some n3, Some n4) \<Rightarrow>
               (let v = n1 * 262144 + n2 * 4096 + n3 * 64 + n4 in
                map_option (\<lambda>r. char_of (v div 65536) # char_of (v div 256) # char_of v # r) (b64_decode s))
           | (Some n3, None) \<Rightarrow>
               if c4 = CHR ''='' \<and> s = [] then
                 (let v = n1 * 262144 + n2 * 4096 + n3 * 64 in Some [char_of (v div 65536), char_of (v div 256)])
               else None
           | (None, _) \<Rightarrow>
               if c3 = CHR ''='' \<and> c4 = CHR ''='' \<and> s = [] then Some [char_of ((n1 * 262144 + n2 * 4096) div 65536)] else None)
      | _ \<Rightarrow> None)"
| "b64_decode _ = None"

definition StdDecodeString :: "string \<Rightarrow> string option" where
  "StdDecodeString s = b64_decode (filter (\<lambda>c. c \<noteq> char_of (10 :: nat) \<and> c \<noteq> char_of (13 :: nat)) s)"

definition url_to_std :: "char \<Rightarrow> char" where
  "url_to_std c = (if c = CHR ''-'' then CHR ''+'' else if c = CHR ''_'' then CHR ''/'' else c)"

text \<open>What \<open>resolveNoteKey\<close> does to a name before it decodes it.\<close>

definition b64_pad :: "string \<Rightarrow> string" where
  "b64_pad s = (let r = length s mod 4 in if r \<noteq> 0 then s @ replicate (4 - r) (CHR ''='') else s)"

subsection \<open>Reading what was written\<close>

lemma position_nth:
  "distinct xs \<Longrightarrow> n < length xs \<Longrightarrow> position (xs ! n) xs i = Some (i + n)"
  by (induction xs arbitrary: n i) (auto simp: nth_Cons split: nat.splits)

lemma b64_alphabets:
  "map url_to_std b64_url_alphabet = b64_std_alphabet" "length b64_url_alphabet = 64" "distinct b64_std_alphabet"
  "list_all (\<lambda>c. c \<noteq> char_of (10 :: nat) \<and> c \<noteq> char_of (13 :: nat)) b64_std_alphabet"
  by code_simp+

lemma b64_letter:
  assumes "n < 64"
  shows "b64_std_value (url_to_std (b64_url_char n)) = Some n"
    "url_to_std (b64_url_char n) \<noteq> char_of (10 :: nat) \<and> url_to_std (b64_url_char n) \<noteq> char_of (13 :: nat)"
proof -
  have len: "length b64_std_alphabet = 64" using b64_alphabets(1,2) length_map by metis
  have c: "url_to_std (b64_url_char n) = b64_std_alphabet ! n"
    unfolding b64_url_char_def using assms b64_alphabets(1,2) nth_map by metis
  show "b64_std_value (url_to_std (b64_url_char n)) = Some n"
    unfolding c b64_std_value_def using position_nth [OF b64_alphabets(3), of n 0] assms len by simp
  show "url_to_std (b64_url_char n) \<noteq> char_of (10 :: nat) \<and> url_to_std (b64_url_char n) \<noteq> char_of (13 :: nat)"
    unfolding c using b64_alphabets(4) assms len by (simp add: list_all_length)
qed

lemma b64_equals: "b64_std_value (CHR ''='') = None"
  by code_simp

lemma b64_newline_not_equals: "CHR ''='' \<noteq> char_of (10 :: nat)" "CHR ''='' \<noteq> char_of (13 :: nat)"
  by code_simp+

lemma length_RawURLEncode: "length (RawURLEncode s) = (4 * length s + 2) div 3"
  by (induction s rule: RawURLEncode.induct) (simp_all add: Let_def)

lemma byte_less: "byte c < 256"
  by simp

text \<open>The numbers behind the letters.\<close>

lemma char_of_byte: "n mod 256 = byte c \<Longrightarrow> char_of n = c"
  by (metis char_of_mod_256 char_of_char)

lemma b64_split:
  fixes a b c :: nat
  assumes "a < 256" "b < 256" "c < 256"
  defines "v \<equiv> a * 65536 + b * 256 + c"
  shows "v div 262144 < 64" "v div 262144 * 262144 + v div 4096 mod 64 * 4096 + v div 64 mod 64 * 64 + v mod 64 = v"
    "v div 65536 mod 256 = a" "v div 256 mod 256 = b" "v mod 256 = c"
proof -
  have "v < 16777216" using assms by simp
  then show "v div 262144 < 64" by (simp add: less_mult_imp_div_less)
  have "v div 4096 = v div 64 div 64" "v div 262144 = v div 4096 div 64" by (simp_all add: div_mult2_eq [symmetric])
  then show "v div 262144 * 262144 + v div 4096 mod 64 * 4096 + v div 64 mod 64 * 64 + v mod 64 = v"
    using div_mult_mod_eq [of v 64] div_mult_mod_eq [of "v div 64" 64] div_mult_mod_eq [of "v div 4096" 64] by linarith
  have "v = (a * 256 + b) * 256 + c" by (simp add: v_def)
  then have 1: "v div 256 = a * 256 + b" "v mod 256 = c"
    using assms(3) div_mult_self3 [of 256 "a * 256 + b" c] mod_mult_self3 [of "a * 256 + b" 256 c] by auto
  moreover have "v div 65536 = v div 256 div 256" by (simp add: div_mult2_eq [symmetric])
  ultimately show "v div 65536 mod 256 = a" "v div 256 mod 256 = b" "v mod 256 = c" using assms(1,2) by simp_all
qed

lemma b64_no_newlines:
  "c \<in> set (RawURLEncode s) \<Longrightarrow> url_to_std c \<noteq> char_of (10 :: nat) \<and> url_to_std c \<noteq> char_of (13 :: nat)"
proof (induction s rule: RawURLEncode.induct)
  case (1 a b c s)
  with b64_split(1) [OF byte_less byte_less byte_less, of a b c] show ?case by (auto simp: Let_def b64_letter(2))
next
  case (2 a b)
  with b64_split(1) [OF byte_less byte_less zero_less_numeral, of a b] show ?case by (auto simp: Let_def b64_letter(2))
next
  case (3 a)
  with b64_split(1) [OF byte_less zero_less_numeral zero_less_numeral, of a] show ?case by (auto simp: Let_def b64_letter(2))
qed simp

text \<open>Groups of four, three and two letters.\<close>

lemma decode_groups:
  assumes "n1 < 64" "n2 < 64"
  shows "n3 < 64 \<Longrightarrow> n4 < 64 \<Longrightarrow>
      b64_decode (url_to_std (b64_url_char n1) # url_to_std (b64_url_char n2) # url_to_std (b64_url_char n3) # url_to_std (b64_url_char n4) # s) =
      map_option (\<lambda>r. char_of ((n1 * 262144 + n2 * 4096 + n3 * 64 + n4) div 65536) # char_of ((n1 * 262144 + n2 * 4096 + n3 * 64 + n4) div 256) #
        char_of (n1 * 262144 + n2 * 4096 + n3 * 64 + n4) # r) (b64_decode s)"
    and "n3 < 64 \<Longrightarrow>
      b64_decode [url_to_std (b64_url_char n1), url_to_std (b64_url_char n2), url_to_std (b64_url_char n3), CHR ''=''] =
      Some [char_of ((n1 * 262144 + n2 * 4096 + n3 * 64) div 65536), char_of ((n1 * 262144 + n2 * 4096 + n3 * 64) div 256)]"
    and "b64_decode [url_to_std (b64_url_char n1), url_to_std (b64_url_char n2), CHR ''='', CHR ''=''] =
      Some [char_of ((n1 * 262144 + n2 * 4096) div 65536)]"
  by (simp_all only: b64_decode.simps b64_letter(1) [OF assms(1)] b64_letter(1) [OF assms(2)] b64_letter(1) b64_equals
      option.case prod.case Let_def simp_thms if_True)

lemma b64_pad_groups:
  "b64_pad (w # x # y # z # t) = w # x # y # z # b64_pad t" "b64_pad [w, x, y] = [w, x, y, CHR ''='']"
  "b64_pad [w, x] = [w, x, CHR ''='', CHR ''='']" "b64_pad [] = []"
  by (simp_all add: b64_pad_def Let_def numeral_2_eq_2)

lemma decode_encode:
  "b64_decode (b64_pad (map url_to_std (RawURLEncode s))) = Some s"
proof (induction s rule: RawURLEncode.induct)
  case (1 a b c s)
  note sp = b64_split [OF byte_less byte_less byte_less, of a b c]
  show ?case
    by (simp only: RawURLEncode.simps Let_def list.map b64_pad_groups)
      (subst decode_groups(1); (rule sp | rule mod_less_divisor, simp)?;
        simp only: sp(2) char_of_byte [OF sp(3)] char_of_byte [OF sp(4)] char_of_byte [OF sp(5)] 1 option.map)
next
  case (2 a b)
  note sp = b64_split [OF byte_less byte_less zero_less_numeral, of a b, unfolded add_0_right]
  let ?v = "byte a * 65536 + byte b * 256"
  have "?v = (byte a * 1024 + byte b * 4) * 64" by simp
  then have "?v mod 64 = 0" by (metis mod_mult_self2_is_0)
  with sp(2) have v: "?v div 262144 * 262144 + ?v div 4096 mod 64 * 4096 + ?v div 64 mod 64 * 64 = ?v" by simp
  show ?case
    by (simp only: RawURLEncode.simps Let_def list.map b64_pad_groups)
      (subst decode_groups(2); (rule sp | rule mod_less_divisor, simp)?;
        simp only: v char_of_byte [OF sp(3)] char_of_byte [OF sp(4)])
next
  case (3 a)
  note sp = b64_split [OF byte_less zero_less_numeral zero_less_numeral, of a, unfolded mult_zero_left add_0_right]
  let ?v = "byte a * 65536"
  have "?v = byte a * 1024 * 64" "byte a * 1024 = byte a * 16 * 64" by simp_all
  then have "?v mod 64 = 0" "?v div 64 mod 64 = 0" by (metis mod_mult_self2_is_0 nonzero_mult_div_cancel_right zero_neq_numeral)+
  with sp(2) have v: "?v div 262144 * 262144 + ?v div 4096 mod 64 * 4096 = ?v" by simp
  show ?case
    by (simp only: RawURLEncode.simps Let_def list.map b64_pad_groups)
      (subst decode_groups(3); (rule sp | rule mod_less_divisor, simp)?; simp only: v char_of_byte [OF sp(3)])
next
  case 4
  show ?case by (simp add: b64_pad_def)
qed

text \<open>A name that was written is read back, and different texts have different names.\<close>

lemma StdDecode_RawURLEncode: "StdDecodeString (b64_pad (map url_to_std (RawURLEncode s))) = Some s"
proof -
  have "\<forall>c \<in> set (b64_pad (map url_to_std (RawURLEncode s))). c \<noteq> char_of (10 :: nat) \<and> c \<noteq> char_of (13 :: nat)"
    using b64_no_newlines b64_newline_not_equals by (auto simp: b64_pad_def Let_def split: if_splits)
  then show ?thesis unfolding StdDecodeString_def by (simp add: filter_id_conv [THEN iffD2] decode_encode)
qed

lemma RawURLEncode_inj: "RawURLEncode s = RawURLEncode t \<longleftrightarrow> s = t"
  using decode_encode by (metis option.inject)

end
