(* ===== verification/File_Store.thy ===== *)
theory File_Store
  imports Go_Fs Go_Base64 Session_Manager "HOL-Library.Word" "HOL-Library.List_Lexorder" "HOL-Library.Char_ord"
begin

section \<open>The store of sessions and notes in files\<close>

text \<open>
  \<open>FileMemoryStore\<close> of \<open>src/openclaw/core/memory_store.go\<close>: sessions and branches as JSON files behind a cache, notes as
  text files with an index that is built when it is first asked for. The name of a file is the key in Base64, or its
  SHA-256 when the key is long. Every operation is one step, and its arguments say which calls of the system fail. The
  JSON codec, SHA-256 and the redaction are parameters. Notes are ASCII where they are cut or lowered, the directories
  have no subdirectories, and of error texts the beginning is kept. The cache holds copies here, pointers in the code.
\<close>

subsection \<open>Data\<close>

record NoteIndexEntry =
  ni_Key :: string
  ni_PreviewContent :: string
  ni_SearchText :: string
  ni_UpdatedAt :: int

record store_env =
  fe_sha256 :: "string \<Rightarrow> string"
  fe_redact :: "string \<Rightarrow> string"
  fe_redactSession :: "chat_session \<Rightarrow> chat_session"
  fe_redactBranch :: "session_branch \<Rightarrow> session_branch"
  fe_encodeSession :: "chat_session \<Rightarrow> string"
  fe_decodeSession :: "string \<Rightarrow> chat_session option"
  fe_encodeBranch :: "session_branch \<Rightarrow> string"
  fe_decodeBranch :: "string \<Rightarrow> session_branch option"

text \<open>What fails during one operation, by the error the system reports.\<close>

record store_faults =
  sf_create :: "string option"
  sf_write :: "string option"
  sf_rename :: "string option"
  sf_read :: "string option"
  sf_keyWrite :: "string option"
  sf_keyRename :: "string option"
  sf_remove :: bool

definition no_faults :: store_faults where
  "no_faults = \<lparr>sf_create = None, sf_write = None, sf_rename = None, sf_read = None, sf_keyWrite = None, sf_keyRename = None,
     sf_remove = False\<rparr>"

record FileMemoryStore =
  fm_sessionsPath :: path
  fm_notesPath :: path
  fm_branchesPath :: path
  fm_sessionCache :: "string \<Rightarrow> chat_session option"
  fm_noteIndex :: "(string \<times> NoteIndexEntry) list"
  fm_noteIndexInit :: bool

text \<open>The number of sessions to cache is asked for and not kept.\<close>

definition NewFileMemoryStore ::
    "string option \<Rightarrow> path \<Rightarrow> int \<Rightarrow> fs \<Rightarrow> (FileMemoryStore \<times> fs) go_result" where
  "NewFileMemoryStore fault basePath maxCachedSessions fs =
     (if basePath = [] then Inl (GoErr ''basePath cannot be empty'')
      else bindR (MkdirAll fault fs (basePath @ [''sessions''])) (\<lambda>fs.
        bindR (MkdirAll fault fs (basePath @ [''notes''])) (\<lambda>fs.
        bindR (MkdirAll fault fs (basePath @ [''branches''])) (\<lambda>fs.
          Inr (\<lparr>fm_sessionsPath = basePath @ [''sessions''], fm_notesPath = basePath @ [''notes''],
                fm_branchesPath = basePath @ [''branches''], fm_sessionCache = (\<lambda>_. None), fm_noteIndex = [],
                fm_noteIndexInit = False\<rparr>, fs)))))"

subsection \<open>Names of files\<close>

definition encodeKey :: "store_env \<Rightarrow> string \<Rightarrow> string" where
  "encodeKey env key =
     (if length key > 200 then RawURLEncode (fe_sha256 env key) else RawURLEncode key)"

definition requiresKeySidecar :: "string \<Rightarrow> bool" where
  "requiresKeySidecar key \<longleftrightarrow> length key > 200"

definition resolveSessionLoadStripe :: "string \<Rightarrow> nat" where
  "resolveSessionLoadStripe sessionId =
     (let hash = fold (\<lambda>c h. xor h (word_of_nat (byte c)) * 16777619) sessionId (2166136261 :: 32 word)
      in unat (and hash 0x7FFFFFFF mod 64))"

lemma stripe_in_range: "resolveSessionLoadStripe sid < 64"
proof -
  have "x mod 64 < (64 :: 32 word)" for x
    by (rule word_mod_less_divisor) (simp add: word_less_nat_alt)
  then show ?thesis by (simp add: resolveSessionLoadStripe_def Let_def word_less_nat_alt)
qed

definition session_path :: "store_env \<Rightarrow> FileMemoryStore \<Rightarrow> string \<Rightarrow> string \<Rightarrow> path" where
  "session_path env st sid ext = fm_sessionsPath st @ [encodeKey env sid @ ext]"

definition note_path :: "store_env \<Rightarrow> FileMemoryStore \<Rightarrow> string \<Rightarrow> string \<Rightarrow> path" where
  "note_path env st key ext = fm_notesPath st @ [encodeKey env key @ ext]"

definition branch_path :: "store_env \<Rightarrow> FileMemoryStore \<Rightarrow> string \<Rightarrow> string \<Rightarrow> path" where
  "branch_path env st bid ext = fm_branchesPath st @ [encodeKey env bid @ ext]"

subsection \<open>Writing a file in one piece\<close>

text \<open>A temporary file is written and moved over the file. \<open>cancelled\<close>: the context is done when it is looked at.\<close>

definition write_atomic ::
    "store_faults \<Rightarrow> bool \<Rightarrow> path \<Rightarrow> path \<Rightarrow> string \<Rightarrow> fs \<Rightarrow> unit go_result \<times> fs" where
  "write_atomic fl cancelled tempPath filePath data fs =
     (case WriteFile (sf_create fl) fs tempPath [] of
        Inl e \<Rightarrow> (Inl e, Remove_file fs tempPath)
      | Inr fs1 \<Rightarrow>
          if cancelled then (Inl (GoErr ''context canceled''), Remove_file fs1 tempPath)
          else case WriteFile (sf_write fl) fs1 tempPath data of
            Inl e \<Rightarrow> (Inl e, Remove_file fs1 tempPath)
          | Inr fs2 \<Rightarrow>
              (case Rename (sf_rename fl) fs2 tempPath filePath of
                 Inl e \<Rightarrow> (Inl e, Remove_file fs2 tempPath)
               | Inr fs3 \<Rightarrow> (Inr (), fs3)))"

subsection \<open>Sessions\<close>

definition loadFromFile :: "store_faults \<Rightarrow> (string \<Rightarrow> 'a option) \<Rightarrow> path \<Rightarrow> fs \<Rightarrow> 'a go_result" where
  "loadFromFile fl decode filePath fs =
     bindR (ReadFile (sf_read fl) fs filePath) (\<lambda>data.
       case decode data of None \<Rightarrow> Inl (GoErr ''json'') | Some x \<Rightarrow> Inr x)"

text \<open>\<open>stamp\<close> is the time in the name of the file that is put aside; moving it there may fail.\<close>

definition quarantineCorruptSessionFile :: "store_faults \<Rightarrow> string \<Rightarrow> path \<Rightarrow> fs \<Rightarrow> fs" where
  "quarantineCorruptSessionFile fl stamp filePath fs =
     (if fs filePath \<noteq> None then
        (case Rename (sf_rename fl) fs filePath (butlast filePath @ [last filePath @ ''.corrupt-'' @ stamp]) of
           Inl e \<Rightarrow> fs | Inr fs' \<Rightarrow> fs')
      else fs)"

definition GetSession ::
    "store_env \<Rightarrow> store_faults \<Rightarrow> string \<Rightarrow> string \<Rightarrow> FileMemoryStore \<times> fs \<Rightarrow>
     chat_session option go_result \<times> FileMemoryStore \<times> fs" where
  "GetSession env fl stamp sessionId s =
     (let (st, fs) = s; filePath = session_path env st sessionId ''.json'' in
      if IsBlank sessionId then (Inr None, s)
      else case fm_sessionCache st sessionId of
        Some cached \<Rightarrow> (Inr (Some cached), s)
      | None \<Rightarrow>
          if fs filePath = None then (Inr None, s)
          else case loadFromFile fl (fe_decodeSession env) filePath fs of
            Inl e \<Rightarrow> (Inl (GoErr (''session '' @ sessionId @ '' could not be loaded'')),
                       st, quarantineCorruptSessionFile fl stamp filePath fs)
          | Inr session \<Rightarrow> (Inr (Some session), st\<lparr>fm_sessionCache := (fm_sessionCache st)(sessionId \<mapsto> session)\<rparr>, fs))"

definition SaveSession ::
    "store_env \<Rightarrow> store_faults \<Rightarrow> bool \<Rightarrow> chat_session \<Rightarrow> FileMemoryStore \<times> fs \<Rightarrow> unit go_result \<times> FileMemoryStore \<times> fs" where
  "SaveSession env fl cancelled x s =
     (let (st, fs) = s; persisted = fe_redactSession env x;
          (r, fs') = write_atomic fl cancelled (session_path env st (sn_Id x) ''.json.tmp'') (session_path env st (sn_Id x) ''.json'')
                       (fe_encodeSession env persisted) fs
      in (r, (if is_ok r then st\<lparr>fm_sessionCache := (fm_sessionCache st)(sn_Id x \<mapsto> persisted)\<rparr> else st), fs'))"

text \<open>A file that is not there is no error of \<open>os.Remove\<close>; \<open>sf_remove\<close> is any other.\<close>

definition DeleteSession :: "store_env \<Rightarrow> store_faults \<Rightarrow> string \<Rightarrow> FileMemoryStore \<times> fs \<Rightarrow> unit go_result \<times> FileMemoryStore \<times> fs" where
  "DeleteSession env fl sessionId s =
     (let (st, fs) = s in
      if IsBlank sessionId then (Inr (), s)
      else let st = st\<lparr>fm_sessionCache := (fm_sessionCache st)(sessionId := None)\<rparr> in
        if sf_remove fl then (Inl (GoErr ''remove''), st, fs)
        else (Inr (), st, Remove_file (Remove_file fs (session_path env st sessionId ''.json'')) (session_path env st sessionId ''.json.tmp'')))"

subsection \<open>Branches\<close>

definition SaveBranch :: "store_env \<Rightarrow> store_faults \<Rightarrow> session_branch \<Rightarrow> FileMemoryStore \<times> fs \<Rightarrow> unit go_result \<times> FileMemoryStore \<times> fs" where
  "SaveBranch env fl b s =
     (let (st, fs) = s;
          (r, fs') = write_atomic fl False (branch_path env st (br_BranchId b) ''.json.tmp'') (branch_path env st (br_BranchId b) ''.json'')
                       (fe_encodeBranch env (fe_redactBranch env b)) fs
      in (r, st, fs'))"

text \<open>Whatever goes wrong, no branch and no error come back.\<close>

definition LoadBranch :: "store_env \<Rightarrow> store_faults \<Rightarrow> string \<Rightarrow> FileMemoryStore \<times> fs \<Rightarrow> session_branch option" where
  "LoadBranch env fl branchId s =
     (let (st, fs) = s in
      if IsBlank branchId then None
      else case loadFromFile fl (fe_decodeBranch env) (branch_path env st branchId ''.json'') fs of
        Inl _ \<Rightarrow> None | Inr b \<Rightarrow> Some b)"

text \<open>\<open>names\<close> is the listing of the directory.\<close>

definition ListBranches :: "store_env \<Rightarrow> store_faults \<Rightarrow> string list \<Rightarrow> string \<Rightarrow> FileMemoryStore \<times> fs \<Rightarrow> session_branch list" where
  "ListBranches env fl names sessionId s =
     (let (st, fs) = s in
      concat (map (\<lambda>n. if \<not> HasSuffix n ''.json'' then []
        else case loadFromFile fl (fe_decodeBranch env) (fm_branchesPath st @ [n]) fs of
          Inl _ \<Rightarrow> [] | Inr b \<Rightarrow> if br_SessionId b = sessionId then [b] else []) names))"

definition DeleteBranch :: "store_env \<Rightarrow> store_faults \<Rightarrow> string \<Rightarrow> FileMemoryStore \<times> fs \<Rightarrow> FileMemoryStore \<times> fs" where
  "DeleteBranch env fl branchId s =
     (let (st, fs) = s in
      if IsBlank branchId \<or> sf_remove fl then s else (st, Remove_file fs (branch_path env st branchId ''.json'')))"

subsection \<open>Notes\<close>

definition createNoteIndexEntry :: "string \<Rightarrow> string \<Rightarrow> int \<Rightarrow> NoteIndexEntry" where
  "createNoteIndexEntry key content updatedAt =
     \<lparr>ni_Key = key,
      ni_PreviewContent = (if length content > 4096 then take 4096 content @ map char_of [0xE2, 0x80, 0xA6 :: nat] else content),
      ni_SearchText = ToLower (key @ [char_of (10 :: nat)] @ content), ni_UpdatedAt = updatedAt\<rparr>"

definition index_put :: "string \<Rightarrow> NoteIndexEntry \<Rightarrow> (string \<times> NoteIndexEntry) list \<Rightarrow> (string \<times> NoteIndexEntry) list" where
  "index_put key e idx = (key, e) # filter (\<lambda>x. fst x \<noteq> key) idx"

definition upsertNoteIndexEntry :: "string \<Rightarrow> string \<Rightarrow> int \<Rightarrow> FileMemoryStore \<Rightarrow> FileMemoryStore" where
  "upsertNoteIndexEntry key content updatedAt st =
     (if \<not> fm_noteIndexInit st then st
      else st\<lparr>fm_noteIndex := index_put key (createNoteIndexEntry key content updatedAt) (fm_noteIndex st)\<rparr>)"

definition persistOriginalNoteKey :: "store_faults \<Rightarrow> string \<Rightarrow> path \<Rightarrow> path \<Rightarrow> fs \<Rightarrow> fs go_result" where
  "persistOriginalNoteKey fl key keyPath keyTempPath fs =
     (if \<not> requiresKeySidecar key then Inr (if sf_remove fl then fs else Remove_file fs keyPath)
      else bindR (WriteFile (sf_keyWrite fl) fs keyTempPath key) (\<lambda>fs. Rename (sf_keyRename fl) fs keyTempPath keyPath))"

definition LoadNote :: "store_env \<Rightarrow> store_faults \<Rightarrow> string \<Rightarrow> FileMemoryStore \<times> fs \<Rightarrow> string" where
  "LoadNote env fl key s =
     (let (st, fs) = s in
      if IsBlank key then []
      else case ReadFile (sf_read fl) fs (note_path env st key ''.md'') of Inl _ \<Rightarrow> [] | Inr content \<Rightarrow> content)"

text \<open>
  A failing step of the key file leaves what \<open>WriteFile\<close> of the temporary file has done, which is removed; the note itself
  has been replaced by then.
\<close>

definition SaveNote ::
    "store_env \<Rightarrow> store_faults \<Rightarrow> int \<Rightarrow> string \<Rightarrow> string \<Rightarrow> FileMemoryStore \<times> fs \<Rightarrow> unit go_result \<times> FileMemoryStore \<times> fs" where
  "SaveNote env fl nowUtc key content s =
     (let (st, fs) = s; filePath = note_path env st key ''.md''; tempPath = note_path env st key ''.md.tmp'';
          keyPath = note_path env st key ''.key''; keyTempPath = note_path env st key ''.key.tmp'';
          safeContent = fe_redact env content
      in if IsBlank key then (Inl (GoErr ''note key cannot be empty''), s)
         else case WriteFile (sf_write fl) fs tempPath safeContent of
           Inl e \<Rightarrow> (Inl e, st, Remove_file fs tempPath)
         | Inr fs1 \<Rightarrow>
             (case Rename (sf_rename fl) fs1 tempPath filePath of
                Inl e \<Rightarrow> (Inl e, st, Remove_file fs1 tempPath)
              | Inr fs2 \<Rightarrow>
                  (case persistOriginalNoteKey fl key keyPath keyTempPath fs2 of
                     Inl e \<Rightarrow> (Inl e, st, Remove_file fs2 keyTempPath)
                   | Inr fs3 \<Rightarrow> (Inr (), upsertNoteIndexEntry key safeContent nowUtc st, fs3))))"

text \<open>The index forgets the note whether or not its file could be removed.\<close>

definition DeleteNote :: "store_env \<Rightarrow> store_faults \<Rightarrow> string \<Rightarrow> FileMemoryStore \<times> fs \<Rightarrow> FileMemoryStore \<times> fs" where
  "DeleteNote env fl key s =
     (let (st, fs) = s in
      if IsBlank key then s
      else (st\<lparr>fm_noteIndex := filter (\<lambda>x. fst x \<noteq> key) (fm_noteIndex st)\<rparr>,
            if sf_remove fl then fs
            else Remove_file (Remove_file fs (note_path env st key ''.md'')) (note_path env st key ''.key'')))"

definition resolveNoteKey :: "store_faults \<Rightarrow> string \<Rightarrow> path \<Rightarrow> fs \<Rightarrow> string" where
  "resolveNoteKey fl encodedKey keyPath fs =
     (case (if length encodedKey \<le> 200 then StdDecodeString (b64_pad (map url_to_std encodedKey)) else None) of
        Some decoded \<Rightarrow> decoded
      | None \<Rightarrow> (case ReadFile (sf_read fl) fs keyPath of Inr content \<Rightarrow> content | Inl _ \<Rightarrow> encodedKey))"

text \<open>One file of the walk. \<open>fl n\<close> and \<open>modTime n\<close> belong to the file \<open>n\<close>.\<close>

definition index_file ::
    "(string \<Rightarrow> store_faults) \<Rightarrow> (string \<Rightarrow> int) \<Rightarrow> FileMemoryStore \<Rightarrow> fs \<Rightarrow> string \<Rightarrow>
     (string \<times> NoteIndexEntry) list \<Rightarrow> (string \<times> NoteIndexEntry) list" where
  "index_file fl modTime st fs n idx =
     (if \<not> HasSuffix n ''.md'' then idx
      else let encodedKey = take (length n - 3) n;
               key = resolveNoteKey (fl n) encodedKey (fm_notesPath st @ [encodedKey @ ''.key'']) fs
      in case ReadFile (sf_read (fl n)) fs (fm_notesPath st @ [n]) of
           Inl _ \<Rightarrow> idx
         | Inr content \<Rightarrow> index_put key (createNoteIndexEntry key content (modTime n)) idx)"

text \<open>\<open>names\<close> is the directory in the order of the walk, which may be cancelled half way.\<close>

definition ensureNoteIndexLoaded ::
    "(string \<Rightarrow> store_faults) \<Rightarrow> (string \<Rightarrow> int) \<Rightarrow> (string \<Rightarrow> bool) \<Rightarrow> string list \<Rightarrow> FileMemoryStore \<times> fs \<Rightarrow>
     unit go_result \<times> FileMemoryStore" where
  "ensureNoteIndexLoaded fl modTime cancelled names s =
     (let (st, fs) = s in
      if fm_noteIndexInit st then (Inr (), st)
      else let st = st\<lparr>fm_noteIndex := []\<rparr> in
        if fs (fm_notesPath st) \<noteq> Some Dir then (Inl (GoErr ''no such file or directory''), st)
        else let walked = takeWhile (\<lambda>n. \<not> cancelled n) names;
                 st = st\<lparr>fm_noteIndex := fold (index_file fl modTime st fs) walked []\<rparr>
        in if walked \<noteq> names then (Inl (GoErr ''context canceled''), st)
           else (Inr (), st\<lparr>fm_noteIndexInit := True\<rparr>))"

definition ListNotesWithPrefix ::
    "(string \<Rightarrow> store_faults) \<Rightarrow> (string \<Rightarrow> int) \<Rightarrow> (string \<Rightarrow> bool) \<Rightarrow> string list \<Rightarrow> string \<Rightarrow> FileMemoryStore \<times> fs \<Rightarrow>
     string list \<times> FileMemoryStore \<times> fs" where
  "ListNotesWithPrefix fl modTime cancelled names pre s =
     (case ensureNoteIndexLoaded fl modTime cancelled names s of
        (Inl _, st) \<Rightarrow> ([], st, snd s)
      | (Inr _, st) \<Rightarrow> (sort (filter (\<lambda>k. HasPrefix k pre) (map fst (fm_noteIndex st))), st, snd s))"

end
