(* ===== verification/File_Safety.thy ===== *)
theory File_Safety
  imports File_Store
begin

section \<open>What the file store guarantees\<close>

text \<open>
  Notes are a map from keys to texts, as long as the keys are short enough for their names to be read back; which keys
  are not; and sessions are read as they were saved, by the same process and by the next one.
\<close>

subsection \<open>Names\<close>

lemma encode_short: "length key \<le> 200 \<Longrightarrow> encodeKey env key = RawURLEncode key"
  by (simp add: encodeKey_def)

lemma encode_same: "length k \<le> 200 \<Longrightarrow> length l \<le> 200 \<Longrightarrow> encodeKey env k = encodeKey env l \<longleftrightarrow> k = l"
  by (simp add: encode_short RawURLEncode_inj)

lemma ext_neq:
  "last e \<noteq> last f \<Longrightarrow> e \<noteq> [] \<Longrightarrow> f \<noteq> [] \<Longrightarrow> s @ e \<noteq> t @ f"
  by (metis last_appendR)

lemma ext_cancel: "(s @ e = t @ (e :: string)) \<longleftrightarrow> s = t"
  by simp

lemma resolve_encoded:
  shows "resolveNoteKey fl (RawURLEncode key) keyPath fs =
     (if length key \<le> 150 then key
      else case ReadFile (sf_read fl) fs keyPath of Inr content \<Rightarrow> content | Inl _ \<Rightarrow> RawURLEncode key)"
proof -
  have "length (RawURLEncode key) \<le> 200 \<longleftrightarrow> length key \<le> 150"
    unfolding length_RawURLEncode by presburger
  then show ?thesis by (simp add: resolveNoteKey_def StdDecode_RawURLEncode)
qed

text \<open>C33: The index built after a restart finds the key of a note again when the key has at most 150 bytes. A key of 151 to 200
  bytes comes back as the name of its file, since nothing else was written down; a longer key comes back as the bytes of
  its hash, although a file with the key lies next to the note.\<close>

theorem note_key_after_restart:
  assumes "length (fe_sha256 env key) = 32" "fs keyPath = (if requiresKeySidecar key then Some (File key) else None)"
  shows "resolveNoteKey no_faults (encodeKey env key) keyPath fs =
     (if length key \<le> 150 then key else if length key \<le> 200 then RawURLEncode key else fe_sha256 env key)"
proof (cases "length key \<le> 200")
  case True
  with assms(2) show ?thesis
    by (simp add: encode_short resolve_encoded ReadFile_def no_faults_def requiresKeySidecar_def)
next
  case False
  then show ?thesis using assms(1)
    by (simp add: resolveNoteKey_def encodeKey_def length_RawURLEncode StdDecode_RawURLEncode)
qed

subsection \<open>Directories\<close>

text \<open>A directory of the store: files only, every one with its name of one part.\<close>

definition flat_dir :: "fs \<Rightarrow> path \<Rightarrow> bool" where
  "flat_dir fs p \<longleftrightarrow> fs_wf fs \<and> fs p = Some Dir \<and> (\<forall>n. fs (p @ [n]) \<noteq> Some Dir)"

lemma flat_write: "flat_dir fs p \<Longrightarrow> flat_dir (fs(p @ [n] \<mapsto> File d)) p"
  by (auto simp: flat_dir_def intro: fs_wf_upd)

lemma flat_remove: "flat_dir fs p \<Longrightarrow> flat_dir (Remove_file fs (p @ [n])) p"
  by (auto simp: flat_dir_def Remove_file_def intro: fs_wf_upd)

lemma Remove_file_same: "flat_dir fs p \<Longrightarrow> Remove_file fs (p @ [n]) = fs(p @ [n] := None)"
  by (auto simp: flat_dir_def Remove_file_def is_file_def fun_eq_iff split: option.splits fs_node.splits)

lemma flat_Write:
  "flat_dir fs p \<Longrightarrow> WriteFile f fs (p @ [n]) d = (case f of Some e \<Rightarrow> Inl (GoErr e) | None \<Rightarrow> Inr (fs(p @ [n] \<mapsto> File d)))"
  by (simp add: flat_dir_def WriteFile_def)

lemma flat_Rename:
  assumes "flat_dir fs p" "fs (p @ [m]) = Some (File d)" "m \<noteq> n"
  shows "Rename f fs (p @ [m]) (p @ [n]) = (case f of Some e \<Rightarrow> Inl (GoErr e) | None \<Rightarrow> Inr (fs(p @ [m] := None, p @ [n] \<mapsto> File d)))"
proof (cases f)
  case None
  then obtain fs' where "Rename f fs (p @ [m]) (p @ [n]) = Inr fs'" using assms by (simp add: Rename_def flat_dir_def)
  with Rename_file [of fs "p @ [m]" d "p @ [n]" f fs'] assms None show ?thesis by (simp add: flat_dir_def)
qed (use assms in \<open>simp add: Rename_def flat_dir_def\<close>)

lemma flat_Read: "flat_dir fs p \<Longrightarrow> ReadFile None fs (p @ [n]) =
    (case fs (p @ [n]) of Some (File d) \<Rightarrow> Inr d | _ \<Rightarrow> Inl (GoErr ''no such file or directory''))"
  by (auto simp: ReadFile_def flat_dir_def split: option.splits fs_node.splits)

subsection \<open>Notes\<close>

definition note_of :: "FileMemoryStore \<Rightarrow> fs \<Rightarrow> string \<Rightarrow> string option" where
  "note_of st fs key = (case fs (fm_notesPath st @ [RawURLEncode key @ ''.md'']) of Some (File d) \<Rightarrow> Some d | _ \<Rightarrow> None)"

definition short_key :: "string \<Rightarrow> bool" where
  "short_key key \<longleftrightarrow> \<not> IsBlank key \<and> length key \<le> 150"

lemma note_path_short: "short_key key \<Longrightarrow> note_path env st key ext = fm_notesPath st @ [RawURLEncode key @ ext]"
  by (simp add: note_path_def short_key_def encode_short)

text \<open>What a step leaves behind when the note of \<open>key\<close> becomes \<open>v\<close>: no other name that ends like a note changes.\<close>

definition note_change :: "FileMemoryStore \<Rightarrow> string \<Rightarrow> string option \<Rightarrow> fs \<Rightarrow> fs \<Rightarrow> bool" where
  "note_change st key v fs fs' \<longleftrightarrow> flat_dir fs' (fm_notesPath st) \<and> note_of st fs' key = v \<and>
     (\<forall>n. HasSuffix n ''.md'' \<longrightarrow> n \<noteq> RawURLEncode key @ ''.md'' \<longrightarrow> fs' (fm_notesPath st @ [n]) = fs (fm_notesPath st @ [n]))"

lemma md_suffix [simp]: "suffix ''.md'' (s @ ''.md'')"
  by (simp add: suffix_def)

lemma md_names [simp]:
  "RawURLEncode key @ ''.md'' \<noteq> RawURLEncode l @ ''.md.tmp''" "RawURLEncode key @ ''.md'' \<noteq> RawURLEncode l @ ''.key''"
  "\<not> suffix ''.md'' (RawURLEncode l @ ''.md.tmp'')" "\<not> suffix ''.md'' (RawURLEncode l @ ''.key'')"
  by (auto simp: suffix_def dest: arg_cong [of _ _ last])

lemma SaveNote_spec:
  assumes "flat_dir fs (fm_notesPath st)" "short_key key" "SaveNote env fl now key content (st, fs) = (r, st', fs')"
  shows "(r = Inr () \<and> note_change st key (Some (fe_redact env content)) fs fs' \<and> st' = upsertNoteIndexEntry key (fe_redact env content) now st) \<or>
     ((\<exists>e. r = Inl e) \<and> note_change st key (note_of st fs key) fs fs' \<and> st' = st)"
proof -
  let ?p = "fm_notesPath st" and ?n = "RawURLEncode key" and ?c = "fe_redact env content"
  let ?fs1 = "fs(?p @ [?n @ ''.md.tmp''] \<mapsto> File ?c)"
  note paths = note_path_short [OF assms(2)]
  have nb: "\<not> IsBlank key" "\<not> requiresKeySidecar key" using assms(2) by (simp_all add: short_key_def requiresKeySidecar_def)
  have f1: "flat_dir ?fs1 ?p" using assms(1) by (rule flat_write)
  have f2: "flat_dir (fs(?p @ [?n @ ''.md.tmp''] := None)) ?p"
    using flat_remove [OF assms(1)] Remove_file_same [OF assms(1)] by simp
  let ?fs2 = "fs(?p @ [?n @ ''.md.tmp''] := None, ?p @ [?n @ ''.md''] \<mapsto> File ?c)"
  have f3: "flat_dir ?fs2 ?p" using f2 by (rule flat_write)
  have f4: "flat_dir (?fs2(?p @ [?n @ ''.key''] := None)) ?p"
    using flat_remove [OF f3] Remove_file_same [OF f3] by simp
  have ren: "Rename (sf_rename fl) ?fs1 (?p @ [?n @ ''.md.tmp'']) (?p @ [?n @ ''.md'']) =
      (case sf_rename fl of Some e \<Rightarrow> Inl (GoErr e) | None \<Rightarrow> Inr ?fs2)"
    using flat_Rename [OF f1, of "?n @ ''.md.tmp''" ?c "?n @ ''.md''" "sf_rename fl"] by (cases "sf_rename fl") simp_all
  have same: "note_change st key (note_of st fs key) fs (fs(?p @ [?n @ ''.md.tmp''] := None))"
    using f2 by (auto simp: note_change_def note_of_def)
  show ?thesis
  proof (cases "sf_write fl")
    case (Some e)
    with nb have "SaveNote env fl now key content (st, fs) = (Inl (GoErr e), st, fs(?p @ [?n @ ''.md.tmp''] := None))"
      by (simp add: SaveNote_def paths flat_Write [OF assms(1)] Remove_file_same [OF assms(1)])
    from trans [OF assms(3) [symmetric] this] have "r = Inl (GoErr e)" "st' = st" "fs' = fs(?p @ [?n @ ''.md.tmp''] := None)" by blast+
    with same show ?thesis by blast
  next
    case None
    then have s1: "SaveNote env fl now key content (st, fs) = (case sf_rename fl of
        Some e \<Rightarrow> (Inl (GoErr e), st, Remove_file ?fs1 (?p @ [?n @ ''.md.tmp'']))
      | None \<Rightarrow> (Inr (), upsertNoteIndexEntry key ?c now st, if sf_remove fl then ?fs2 else Remove_file ?fs2 (?p @ [?n @ ''.key''])))"
      using nb ren by (simp add: SaveNote_def paths flat_Write [OF assms(1)] persistOriginalNoteKey_def Let_def split: option.splits)
    show ?thesis
    proof (cases "sf_rename fl")
      case (Some e)
      have "Remove_file ?fs1 (?p @ [?n @ ''.md.tmp'']) = fs(?p @ [?n @ ''.md.tmp''] := None)" using Remove_file_same [OF f1] by simp
      with Some s1 have "SaveNote env fl now key content (st, fs) = (Inl (GoErr e), st, fs(?p @ [?n @ ''.md.tmp''] := None))" by simp
      from trans [OF assms(3) [symmetric] this] have "r = Inl (GoErr e)" "st' = st" "fs' = fs(?p @ [?n @ ''.md.tmp''] := None)" by blast+
      with same show ?thesis by blast
    next
      case None
      have "note_change st key (Some ?c) fs ?fs2" "note_change st key (Some ?c) fs (?fs2(?p @ [?n @ ''.key''] := None))"
        using f3 f4 by (auto simp: note_change_def note_of_def)
      moreover have "r = Inr ()" "st' = upsertNoteIndexEntry key ?c now st" "fs' = ?fs2 \<or> fs' = ?fs2(?p @ [?n @ ''.key''] := None)"
        using trans [OF assms(3) [symmetric] s1] None Remove_file_same [OF f3] by (simp_all split: if_splits)
      ultimately show ?thesis by blast
    qed
  qed
qed

lemma DeleteNote_spec:
  assumes "flat_dir fs (fm_notesPath st)" "short_key key" "\<not> sf_remove fl" "DeleteNote env fl key (st, fs) = (st', fs')"
  shows "note_change st key None fs fs' \<and> st' = st\<lparr>fm_noteIndex := filter (\<lambda>x. fst x \<noteq> key) (fm_noteIndex st)\<rparr>"
proof -
  let ?p = "fm_notesPath st" and ?n = "RawURLEncode key"
  have f1: "flat_dir (fs(?p @ [?n @ ''.md''] := None)) ?p" using flat_remove [OF assms(1)] Remove_file_same [OF assms(1)] by simp
  have f2: "flat_dir (fs(?p @ [?n @ ''.md''] := None, ?p @ [?n @ ''.key''] := None)) ?p"
    using flat_remove [OF f1] Remove_file_same [OF f1] by simp
  have "\<not> IsBlank key" using assms(2) by (simp add: short_key_def)
  with assms(3,4) f2 show ?thesis
    by (auto simp: DeleteNote_def note_path_short [OF assms(2)] Remove_file_same [OF assms(1)] Remove_file_same [OF f1]
      note_change_def note_of_def)
qed

subsection \<open>The index\<close>

text \<open>Every note in the directory has a short key, and the index, once it is there, lists just their keys.\<close>

definition md_known :: "FileMemoryStore \<Rightarrow> fs \<Rightarrow> bool" where
  "md_known st fs \<longleftrightarrow> (\<forall>n. HasSuffix n ''.md'' \<longrightarrow> fs (fm_notesPath st @ [n]) \<noteq> None \<longrightarrow>
     (\<exists>key. short_key key \<and> n = RawURLEncode key @ ''.md''))"

definition index_ok :: "FileMemoryStore \<Rightarrow> fs \<Rightarrow> bool" where
  "index_ok st fs \<longleftrightarrow> distinct (map fst (fm_noteIndex st)) \<and>
     (\<forall>key. key \<in> fst ` set (fm_noteIndex st) \<longleftrightarrow> short_key key \<and> note_of st fs key \<noteq> None)"

lemma note_change_of:
  assumes "note_change st key v fs fs'" "short_key l"
  shows "note_of st fs' l = (if l = key then v else note_of st fs l)"
proof (cases "l = key")
  case False
  then have "RawURLEncode l @ ''.md'' \<noteq> RawURLEncode key @ ''.md''" by (simp add: RawURLEncode_inj)
  then have "fs' (fm_notesPath st @ [RawURLEncode l @ ''.md'']) = fs (fm_notesPath st @ [RawURLEncode l @ ''.md''])"
    using assms(1) by (simp add: note_change_def)
  with False show ?thesis by (simp add: note_of_def)
qed (use assms(1) in \<open>simp add: note_change_def\<close>)

lemma note_change_known:
  assumes "note_change st key v fs fs'" "short_key key" "md_known st fs"
  shows "md_known st fs'"
  using assms unfolding note_change_def md_known_def by metis

lemma index_put_keys:
  "distinct (map fst idx) \<Longrightarrow> distinct (map fst (index_put key e idx))"
  "fst ` set (index_put key e idx) = insert key (fst ` set idx)"
  by (auto simp: index_put_def distinct_map_filter image_iff)

lemma short_not_blank: "short_key key \<Longrightarrow> resolveNoteKey fl (RawURLEncode key) p fs = key"
  by (simp add: short_key_def resolve_encoded)

lemma index_file_step:
  assumes "md_known st fs" "flat_dir fs (fm_notesPath st)" "sf_read (fl n) = None" "fs (fm_notesPath st @ [n]) \<noteq> None"
    and "distinct (map fst idx)"
  shows "distinct (map fst (index_file fl modTime st fs n idx)) \<and>
     fst ` set (index_file fl modTime st fs n idx) =
       {key. short_key key \<and> n = RawURLEncode key @ ''.md''} \<union> fst ` set idx"
proof (cases "HasSuffix n ''.md''")
  case True
  with assms(1,4) obtain key where key: "short_key key" "n = RawURLEncode key @ ''.md''" by (auto simp: md_known_def)
  obtain d where "fs (fm_notesPath st @ [n]) = Some (File d)"
    using assms(2,4) by (cases "fs (fm_notesPath st @ [n])"; cases "the (fs (fm_notesPath st @ [n]))") (auto simp: flat_dir_def)
  then have "index_file fl modTime st fs n idx = index_put key (createNoteIndexEntry key d (modTime n)) idx"
    using True key assms(3) by (simp add: index_file_def Let_def short_not_blank ReadFile_def)
  moreover have "{k. short_key k \<and> n = RawURLEncode k @ ''.md''} = {key}" using key by (auto simp: RawURLEncode_inj)
  ultimately show ?thesis using index_put_keys assms(5) by simp
next
  case False
  then have "{k. short_key k \<and> n = RawURLEncode k @ ''.md''} = {}" by (auto simp: suffix_def)
  with False assms(5) show ?thesis by (auto simp: index_file_def)
qed

lemma index_walk:
  assumes "md_known st fs" "flat_dir fs (fm_notesPath st)" "\<And>n. sf_read (fl n) = None"
    and "\<forall>n \<in> set names. fs (fm_notesPath st @ [n]) \<noteq> None" "distinct (map fst idx)"
  shows "distinct (map fst (fold (index_file fl modTime st fs) names idx)) \<and>
     fst ` set (fold (index_file fl modTime st fs) names idx) =
       {key. short_key key \<and> RawURLEncode key @ ''.md'' \<in> set names} \<union> fst ` set idx"
  using assms(4,5)
proof (induction names arbitrary: idx)
  case (Cons n names)
  have s: "distinct (map fst (index_file fl modTime st fs n idx))"
    "fst ` set (index_file fl modTime st fs n idx) = {key. short_key key \<and> n = RawURLEncode key @ ''.md''} \<union> fst ` set idx"
    using index_file_step [OF assms(1,2,3)] Cons.prems by auto
  from Cons.IH [OF _ s(1)] Cons.prems(1) show ?case unfolding fold_Cons comp_apply s(2) by auto
qed simp

lemma index_ok_put:
  assumes "index_ok st fs" "note_change st key (Some c) fs fs'" "short_key key" "fm_noteIndexInit st"
  shows "index_ok (upsertNoteIndexEntry key c now st) fs'"
proof -
  have "note_of (upsertNoteIndexEntry key c now st) fs' l = note_of st fs' l" for l
    by (simp add: note_of_def upsertNoteIndexEntry_def)
  moreover have "short_key l \<Longrightarrow> note_of st fs' l = (if l = key then Some c else note_of st fs l)" for l
    by (rule note_change_of [OF assms(2)])
  moreover have "distinct (map fst (fm_noteIndex (upsertNoteIndexEntry key c now st)))"
    "fst ` set (fm_noteIndex (upsertNoteIndexEntry key c now st)) = insert key (fst ` set (fm_noteIndex st))"
    using assms(1,4) index_put_keys by (auto simp: upsertNoteIndexEntry_def index_ok_def)
  ultimately show ?thesis using assms(1,3) unfolding index_ok_def by auto
qed

subsection \<open>Notes are a map\<close>

datatype note_event =
    NtSaved string string | NtNotSaved string | NtDeleted string | NtLoaded string string
  | NtListed string "string list" | NtCancelled | NtRestart

text \<open>The steps of the store: short keys, any failure of a write, no failure of a read or of a removal.\<close>

inductive note_step :: "store_env \<Rightarrow> FileMemoryStore \<times> fs \<Rightarrow> note_event \<Rightarrow> FileMemoryStore \<times> fs \<Rightarrow> bool" for env where
  nt_saved: "short_key key \<Longrightarrow> SaveNote env fl now key content s = (Inr (), s') \<Longrightarrow> note_step env s (NtSaved key content) s'"
| nt_not_saved: "short_key key \<Longrightarrow> SaveNote env fl now key content s = (Inl e, s') \<Longrightarrow> note_step env s (NtNotSaved key) s'"
| nt_deleted: "short_key key \<Longrightarrow> \<not> sf_remove fl \<Longrightarrow> DeleteNote env fl key s = s' \<Longrightarrow> note_step env s (NtDeleted key) s'"
| nt_loaded: "short_key key \<Longrightarrow> sf_read fl = None \<Longrightarrow> LoadNote env fl key s = content \<Longrightarrow> note_step env s (NtLoaded key content) s"
| nt_listed: "set names = {n. snd s (fm_notesPath (fst s) @ [n]) \<noteq> None} \<Longrightarrow> (\<And>n. sf_read (fl n) = None) \<Longrightarrow>
     ListNotesWithPrefix fl modTime (\<lambda>_. False) names pre s = (keys, s') \<Longrightarrow> note_step env s (NtListed pre keys) s'"
| nt_cancelled: "ListNotesWithPrefix fl modTime cancelled names pre s = (keys, st, fs) \<Longrightarrow> \<not> fm_noteIndexInit st \<Longrightarrow>
     note_step env s NtCancelled (st, fs)"
| nt_restart: "note_step env (st, fs) NtRestart
     (st\<lparr>fm_noteIndex := [], fm_noteIndexInit := False, fm_sessionCache := (\<lambda>_. None)\<rparr>, fs)"

text \<open>The same events on a map from keys to texts.\<close>

fun note_spec :: "store_env \<Rightarrow> (string \<Rightarrow> string option) \<Rightarrow> note_event \<Rightarrow> (string \<Rightarrow> string option) \<Rightarrow> bool" where
  "note_spec env m (NtSaved key content) m' \<longleftrightarrow> m' = m(key \<mapsto> fe_redact env content)"
| "note_spec env m (NtDeleted key) m' \<longleftrightarrow> m' = m(key := None)"
| "note_spec env m (NtLoaded key content) m' \<longleftrightarrow> m' = m \<and> content = (case m key of Some d \<Rightarrow> d | None \<Rightarrow> [])"
| "note_spec env m (NtListed pre keys) m' \<longleftrightarrow> m' = m \<and> sorted keys \<and> distinct keys \<and> set keys = {k. m k \<noteq> None \<and> prefix pre k}"
| "note_spec env m _ m' \<longleftrightarrow> m' = m"

definition note_sim :: "FileMemoryStore \<times> fs \<Rightarrow> (string \<Rightarrow> string option) \<Rightarrow> bool" where
  "note_sim s m \<longleftrightarrow> (case s of (st, fs) \<Rightarrow>
     flat_dir fs (fm_notesPath st) \<and> md_known st fs \<and> (fm_noteIndexInit st \<longrightarrow> index_ok st fs) \<and>
     (\<forall>k. m k = (if short_key k then note_of st fs k else None)))"

lemma note_sim_change:
  assumes "note_sim (st, fs) m" "note_change st key v fs fs'" "short_key key"
    and "fm_notesPath st' = fm_notesPath st" "fm_noteIndexInit st' \<longrightarrow> index_ok st' fs'"
  shows "note_sim (st', fs') (m(key := v))"
proof -
  have "note_of st' f k = note_of st f k" for f k by (simp add: note_of_def assms(4))
  moreover have "md_known st' fs'"
    using note_change_known [OF assms(2,3)] assms(1,4) by (simp add: note_sim_def md_known_def)
  moreover have "flat_dir fs' (fm_notesPath st)" using assms(2) by (simp add: note_change_def)
  ultimately show ?thesis using assms note_change_of [OF assms(2)] by (auto simp: note_sim_def)
qed

lemma index_ok_delete:
  assumes "index_ok st fs" "note_change st key None fs fs'" "short_key key"
  shows "index_ok (st\<lparr>fm_noteIndex := filter (\<lambda>x. fst x \<noteq> key) (fm_noteIndex st)\<rparr>) fs'" (is "index_ok ?st fs'")
proof -
  have "note_of ?st f k = note_of st f k" for f k by (simp add: note_of_def)
  moreover have "short_key l \<Longrightarrow> note_of st fs' l = (if l = key then None else note_of st fs l)" for l
    by (rule note_change_of [OF assms(2)])
  moreover have "fst ` set (fm_noteIndex ?st) = fst ` set (fm_noteIndex st) - {key}" by auto
  moreover have "distinct (map fst (fm_noteIndex ?st))" using assms(1) by (simp add: index_ok_def distinct_map_filter)
  ultimately show ?thesis using assms(1) unfolding index_ok_def by (auto split: if_splits)
qed

lemma index_ok_load:
  assumes "flat_dir fs (fm_notesPath st)" "md_known st fs" "fm_noteIndexInit st \<longrightarrow> index_ok st fs"
    and "set names = {n. fs (fm_notesPath st @ [n]) \<noteq> None}" "\<And>n. sf_read (fl n) = None"
  shows "\<exists>st'. ensureNoteIndexLoaded fl modTime (\<lambda>_. False) names (st, fs) = (Inr (), st') \<and> index_ok st' fs \<and>
     fm_notesPath st' = fm_notesPath st \<and> fm_noteIndexInit st'"
proof (cases "fm_noteIndexInit st")
  case True
  with assms(3) show ?thesis by (simp add: ensureNoteIndexLoaded_def)
next
  case False
  let ?empty = "st\<lparr>fm_noteIndex := []\<rparr>"
  let ?idx = "fold (index_file fl modTime ?empty fs) names []"
  let ?st = "st\<lparr>fm_noteIndex := ?idx, fm_noteIndexInit := True\<rparr>"
  have "distinct (map fst ?idx)" "fst ` set ?idx = {key. short_key key \<and> RawURLEncode key @ ''.md'' \<in> set names} \<union> fst ` set []"
    using index_walk [of ?empty fs fl names "[]" modTime] assms by (simp_all add: md_known_def)
  moreover have "note_of ?st fs key \<noteq> None \<longleftrightarrow> fs (fm_notesPath st @ [RawURLEncode key @ ''.md'']) \<noteq> None" for key
    using assms(1) by (auto simp: note_of_def flat_dir_def split: option.splits fs_node.splits)
  ultimately have "index_ok ?st fs" using assms(4) by (auto simp: index_ok_def)
  moreover have "ensureNoteIndexLoaded fl modTime (\<lambda>_. False) names (st, fs) = (Inr (), ?st)"
    using False assms(1) by (simp add: ensureNoteIndexLoaded_def flat_dir_def Let_def takeWhile_eq_all_conv [THEN iffD2])
  ultimately show ?thesis by simp
qed

lemma ensure_not_loaded:
  "ensureNoteIndexLoaded fl modTime cancelled names (st, fs) = (r, st') \<Longrightarrow> fm_notesPath st' = fm_notesPath st"
  by (auto simp: ensureNoteIndexLoaded_def Let_def split: if_splits)

lemma note_step_refines:
  assumes "note_step env s e s'" "note_sim s m"
  shows "\<exists>m'. note_spec env m e m' \<and> note_sim s' m'"
  using assms(1)
proof cases
  case (nt_saved key fl now content)
  obtain st fs st' fs' where s: "s = (st, fs)" "s' = (st', fs')" by (metis surj_pair)
  have sim: "flat_dir fs (fm_notesPath st)" "fm_noteIndexInit st \<longrightarrow> index_ok st fs" using assms(2) by (simp_all add: note_sim_def s)
  from SaveNote_spec [OF sim(1) nt_saved(2) nt_saved(3) [unfolded s]] have
    c: "note_change st key (Some (fe_redact env content)) fs fs'" "st' = upsertNoteIndexEntry key (fe_redact env content) now st"
    by auto
  then have "fm_noteIndexInit st' \<longrightarrow> index_ok st' fs'"
    using index_ok_put [OF _ c(1) nt_saved(2)] sim(2) by (simp add: upsertNoteIndexEntry_def split: if_splits)
  then have "note_sim s' (m(key := Some (fe_redact env content)))"
    using note_sim_change [OF assms(2) [unfolded s] c(1) nt_saved(2), of st'] c(2) by (simp add: s upsertNoteIndexEntry_def)
  with nt_saved(1) show ?thesis by simp
next
  case (nt_not_saved key fl now content e')
  obtain st fs st' fs' where s: "s = (st, fs)" "s' = (st', fs')" by (metis surj_pair)
  have sim: "flat_dir fs (fm_notesPath st)" "fm_noteIndexInit st \<longrightarrow> index_ok st fs"
    and m: "m key = note_of st fs key" using assms(2) nt_not_saved(2) by (simp_all add: note_sim_def s)
  from SaveNote_spec [OF sim(1) nt_not_saved(2) nt_not_saved(3) [unfolded s]] have
    c: "note_change st key (note_of st fs key) fs fs'" "st' = st" by auto
  have "short_key l \<Longrightarrow> note_of st fs' l = note_of st fs l" for l using note_change_of [OF c(1)] by simp
  then have "fm_noteIndexInit st \<longrightarrow> index_ok st fs'" using sim(2) by (auto simp: index_ok_def)
  then have "note_sim s' (m(key := note_of st fs key))"
    using note_sim_change [OF assms(2) [unfolded s] c(1) nt_not_saved(2), of st] by (simp add: s c(2))
  moreover have "m(key := note_of st fs key) = m" using m by (simp add: fun_eq_iff)
  ultimately show ?thesis using nt_not_saved(1) by simp
next
  case (nt_deleted key fl)
  obtain st fs st' fs' where s: "s = (st, fs)" "s' = (st', fs')" by (metis surj_pair)
  have sim: "flat_dir fs (fm_notesPath st)" "fm_noteIndexInit st \<longrightarrow> index_ok st fs" using assms(2) by (simp_all add: note_sim_def s)
  have c: "note_change st key None fs fs'" "st' = st\<lparr>fm_noteIndex := filter (\<lambda>x. fst x \<noteq> key) (fm_noteIndex st)\<rparr>"
    using DeleteNote_spec [OF sim(1) nt_deleted(2,3)] nt_deleted(4) unfolding s by auto
  then have "fm_noteIndexInit st' \<longrightarrow> index_ok st' fs'" using index_ok_delete [OF _ c(1) nt_deleted(2)] sim(2) by simp
  then have "note_sim s' (m(key := None))"
    using note_sim_change [OF assms(2) [unfolded s] c(1) nt_deleted(2), of st'] c(2) by (simp add: s)
  with nt_deleted(1) show ?thesis by simp
next
  case (nt_loaded key fl content)
  obtain st fs where s: "s = (st, fs)" by (metis surj_pair)
  have "flat_dir fs (fm_notesPath st)" "m key = note_of st fs key" using assms(2) nt_loaded(3) by (simp_all add: note_sim_def s)
  with nt_loaded have "content = (case m key of Some d \<Rightarrow> d | None \<Rightarrow> [])"
    by (auto simp: LoadNote_def s note_path_short flat_Read note_of_def short_key_def split: option.splits fs_node.splits)
  with nt_loaded assms(2) show ?thesis by simp
next
  case (nt_listed names fl modTime pre keys)
  obtain st fs where s: "s = (st, fs)" by (metis surj_pair)
  have sim: "flat_dir fs (fm_notesPath st)" "md_known st fs" "fm_noteIndexInit st \<longrightarrow> index_ok st fs"
    "\<And>k. m k = (if short_key k then note_of st fs k else None)" using assms(2) by (simp_all add: note_sim_def s)
  obtain st' where st': "ensureNoteIndexLoaded fl modTime (\<lambda>_. False) names s = (Inr (), st')" "index_ok st' fs"
    "fm_notesPath st' = fm_notesPath st" "fm_noteIndexInit st'"
    using index_ok_load [OF sim(1,2,3), of names fl modTime] nt_listed(2,3) by (auto simp: s)
  then have k: "keys = sort (filter (\<lambda>k. HasPrefix k pre) (map fst (fm_noteIndex st')))" "s' = (st', fs)"
    using nt_listed(4) by (auto simp: ListNotesWithPrefix_def s)
  have of: "note_of st' fs l = note_of st fs l" for l by (simp add: note_of_def st'(3))
  have "note_sim s' m" using sim st' k(2) of by (simp add: note_sim_def md_known_def)
  moreover have "sorted keys" "distinct keys" using k(1) st'(2) by (simp_all add: index_ok_def)
  moreover have "set keys = {k. m k \<noteq> None \<and> prefix pre k}" using k(1) st'(2) sim(4) of by (auto simp: index_ok_def)
  ultimately show ?thesis using nt_listed(1) by auto
next
  case (nt_cancelled fl modTime cancelled names pre keys st' fs')
  obtain st fs where s: "s = (st, fs)" by (metis surj_pair)
  obtain r st1 where e: "ensureNoteIndexLoaded fl modTime cancelled names (st, fs) = (r, st1)" by fastforce
  with nt_cancelled(3) have "st' = st1" "fs' = fs" by (auto simp: ListNotesWithPrefix_def s split: sum.splits)
  with ensure_not_loaded [OF e] nt_cancelled(2,4) assms(2) have "note_sim s' m"
    by (simp add: note_sim_def s md_known_def note_of_def)
  with nt_cancelled(1) show ?thesis by simp
next
  case (nt_restart st fs)
  with assms(2) have "note_sim s' m" by (simp add: note_sim_def md_known_def note_of_def)
  with nt_restart show ?thesis by simp
qed

definition fresh_notes :: "FileMemoryStore \<times> fs \<Rightarrow> bool" where
  "fresh_notes s \<longleftrightarrow> (case s of (st, fs) \<Rightarrow>
     flat_dir fs (fm_notesPath st) \<and> (\<forall>n. fs (fm_notesPath st @ [n]) = None) \<and> \<not> fm_noteIndexInit st)"

lemma note_run_refines:
  "steps (note_step env) s es t \<Longrightarrow> note_sim s m \<Longrightarrow> \<exists>m'. steps (note_spec env) m es m' \<and> note_sim t m'"
proof (induction arbitrary: m rule: steps.induct)
  case (steps_refl s)
  then show ?case by (meson steps.steps_refl)
next
  case (steps_step s e t es u)
  from note_step_refines [OF steps_step.hyps(1) steps_step.prems]
  obtain m' where m': "note_spec env m e m'" "note_sim t m'" by blast
  from steps_step.IH [OF m'(2)] m'(1) show ?case by (meson steps.steps_step)
qed

text \<open>C24: The notes of the store are a map from keys to redacted texts: whatever a run of saves, failed saves, deletions, reads,
  listings, cancelled listings and restarts shows, the same operations on a map show. A failed save changes nothing, a
  listing gives every key with the prefix once and in order. The keys have at most 150 bytes.\<close>

theorem note_store_refines_map:
  assumes "fresh_notes s" "steps (note_step env) s es t"
  shows "\<exists>m. steps (note_spec env) (\<lambda>_. None) es m \<and> note_sim t m"
proof -
  have "note_sim s (\<lambda>_. None)" using assms(1) by (auto simp: note_sim_def fresh_notes_def md_known_def note_of_def)
  from note_run_refines [OF assms(2) this] show ?thesis .
qed

definition example_store_fs :: fs where
  "example_store_fs p = (if p \<in> {[], [''m''], [''m'', ''notes''], [''m'', ''sessions'']} then Some Dir else None)"

definition example_store :: FileMemoryStore where
  "example_store = \<lparr>fm_sessionsPath = [''m'', ''sessions''], fm_notesPath = [''m'', ''notes''], fm_branchesPath = [''m'', ''branches''],
     fm_sessionCache = (\<lambda>_. None), fm_noteIndex = [], fm_noteIndexInit = False\<rparr>"

definition example_store_env :: store_env where
  "example_store_env = \<lparr>fe_sha256 = (\<lambda>_. replicate 32 (CHR ''h'')), fe_redact = (\<lambda>s. s), fe_redactSession = (\<lambda>s. s), fe_redactBranch = (\<lambda>b. b),
     fe_encodeSession = sn_SenderId, fe_decodeSession = (\<lambda>s. None), fe_encodeBranch = br_Name, fe_decodeBranch = (\<lambda>s. None)\<rparr>"

lemma example_flat: "flat_dir example_store_fs [''m'', ''notes'']" "flat_dir example_store_fs [''m'', ''sessions'']"
  by (auto simp: flat_dir_def fs_wf_def example_store_fs_def)

lemma example_short: "short_key ''a''"
  by code_simp

lemma distinct_one: "distinct xs \<Longrightarrow> set xs = {a} \<Longrightarrow> xs = [a]"
  by (cases xs; cases "tl xs") auto

lemma SaveNote_succeeds:
  assumes "flat_dir fs (fm_notesPath st)" "short_key key"
  shows "SaveNote env no_faults now key content (st, fs) = (Inr (), upsertNoteIndexEntry key (fe_redact env content) now st,
     fs(fm_notesPath st @ [RawURLEncode key @ ''.md.tmp''] := None,
        fm_notesPath st @ [RawURLEncode key @ ''.md''] \<mapsto> File (fe_redact env content),
        fm_notesPath st @ [RawURLEncode key @ ''.key''] := None))"
proof -
  let ?p = "fm_notesPath st" and ?n = "RawURLEncode key" and ?c = "fe_redact env content"
  have nb: "\<not> IsBlank key" "\<not> requiresKeySidecar key" using assms(2) by (simp_all add: short_key_def requiresKeySidecar_def)
  have "flat_dir (fs(?p @ [?n @ ''.md.tmp''] := None)) ?p"
    using flat_remove [OF assms(1)] Remove_file_same [OF assms(1)] by simp
  note f2 = flat_write [OF this, of "?n @ ''.md''" ?c]
  have f1: "flat_dir (fs(?p @ [?n @ ''.md.tmp''] \<mapsto> File ?c)) ?p" using assms(1) by (rule flat_write)
  from flat_Rename [OF f1, of "?n @ ''.md.tmp''" ?c "?n @ ''.md''" None]
  show ?thesis using nb Remove_file_same [OF f2]
    by (simp add: SaveNote_def note_path_short [OF assms(2)] no_faults_def Let_def flat_Write [OF assms(1)] persistOriginalNoteKey_def)
qed

theorem note_store_refines_map_witness:
  "\<exists>keys t. steps (note_step example_store_env) (example_store, example_store_fs)
      [NtSaved ''a'' ''x'', NtRestart, NtListed ''a'' keys] t \<and> keys = [''a'']"
proof -
  have flat: "flat_dir example_store_fs (fm_notesPath example_store)" using example_flat by (simp add: example_store_def)
  let ?s = "SaveNote example_store_env no_faults 1 ''a'' ''x'' (example_store, example_store_fs)"
  obtain st fs where s: "?s = (Inr (), st, fs)" "fm_notesPath st = [''m'', ''notes'']"
    "\<And>n. fs ([''m'', ''notes''] @ [n]) \<noteq> None \<longleftrightarrow> n = RawURLEncode ''a'' @ ''.md''"
    using SaveNote_succeeds [OF flat example_short, of example_store_env 1 "''x''"]
    by (auto simp: example_store_def upsertNoteIndexEntry_def example_store_fs_def)
  let ?st = "st\<lparr>fm_noteIndex := [], fm_noteIndexInit := False, fm_sessionCache := (\<lambda>_. None)\<rparr>"
  let ?l = "ListNotesWithPrefix (\<lambda>_. no_faults) (\<lambda>_. 0) (\<lambda>_. False) [RawURLEncode ''a'' @ ''.md''] ''a'' (?st, fs)"
  have 1: "note_step example_store_env (example_store, example_store_fs) (NtSaved ''a'' ''x'') (st, fs)"
    by (rule nt_saved [OF example_short s(1)])
  have 2: "note_step example_store_env (st, fs) NtRestart (?st, fs)" by (rule nt_restart)
  have 3: "note_step example_store_env (?st, fs) (NtListed ''a'' (fst ?l)) (snd ?l)"
    by (rule nt_listed [of "[RawURLEncode ''a'' @ ''.md'']" _ "\<lambda>_. no_faults" "\<lambda>_. 0"]) (use s(2,3) in \<open>auto simp: no_faults_def\<close>)
  have run: "steps (note_step example_store_env) (example_store, example_store_fs)
      [NtSaved ''a'' ''x'', NtRestart, NtListed ''a'' (fst ?l)] (snd ?l)"
    by (rule steps_step, rule 1, rule steps_step, rule 2, rule steps_step, rule 3, rule steps_refl)
  have "fresh_notes (example_store, example_store_fs)"
    using flat by (auto simp: fresh_notes_def example_store_def example_store_fs_def)
  from note_store_refines_map [OF this run] have "distinct (fst ?l)" "set (fst ?l) = {''a''}"
    by (auto simp: example_store_env_def split: if_splits)
  then have keys: "fst ?l = [''a'']" by (rule distinct_one)
  show ?thesis by (rule exI [of _ "fst ?l"], rule exI [of _ "snd ?l"], rule conjI, rule run, rule keys)
qed

subsection \<open>Sessions\<close>

definition good_id :: "string \<Rightarrow> bool" where
  "good_id k \<longleftrightarrow> \<not> IsBlank k \<and> length k \<le> 200"

text \<open>The codec reads the redacted sessions it wrote, and the cache holds what is in the files.\<close>

definition session_store_ok :: "store_env \<Rightarrow> FileMemoryStore \<times> fs \<Rightarrow> bool" where
  "session_store_ok env s \<longleftrightarrow> (case s of (st, fs) \<Rightarrow>
     (\<forall>x. fe_decodeSession env (fe_encodeSession env (fe_redactSession env x)) = Some (fe_redactSession env x)) \<and> flat_dir fs (fm_sessionsPath st) \<and>
     (\<forall>k x. good_id k \<longrightarrow> fm_sessionCache st k = Some x \<longrightarrow>
        (\<exists>d. fs (fm_sessionsPath st @ [RawURLEncode k @ ''.json'']) = Some (File d) \<and> fe_decodeSession env d = Some x)))"

definition session_get :: "store_env \<Rightarrow> FileMemoryStore \<times> fs \<Rightarrow> string \<Rightarrow> chat_session option go_result" where
  "session_get env s k = fst (GetSession env no_faults [] k s)"

lemma session_path_good: "good_id k \<Longrightarrow> session_path env st k ext = fm_sessionsPath st @ [RawURLEncode k @ ext]"
  by (simp add: session_path_def good_id_def encode_short)

lemma json_names [simp]:
  "RawURLEncode k @ ''.json'' \<noteq> RawURLEncode l @ ''.json.tmp''" "RawURLEncode k @ ''.json.tmp'' \<noteq> RawURLEncode l @ ''.json''"
  by (auto dest: arg_cong [of _ _ last])

text \<open>What is in the file is what is read, through the cache or not.\<close>

lemma session_get_file:
  assumes "session_store_ok env (st, fs)" "good_id k"
  shows "session_get env (st, fs) k =
     (case fs (fm_sessionsPath st @ [RawURLEncode k @ ''.json'']) of
        Some (File d) \<Rightarrow> (case fe_decodeSession env d of Some x \<Rightarrow> Inr (Some x) | None \<Rightarrow> Inl (GoErr (''session '' @ k @ '' could not be loaded'')))
      | _ \<Rightarrow> Inr None)"
proof (cases "fm_sessionCache st k")
  case None
  with assms show ?thesis
    by (auto simp: session_get_def GetSession_def Let_def session_path_good good_id_def no_faults_def session_store_ok_def
      loadFromFile_def flat_Read flat_dir_def ReadFile_def split: option.splits fs_node.splits)
next
  case (Some x)
  with assms show ?thesis
    by (fastforce simp: session_get_def GetSession_def Let_def session_store_ok_def good_id_def)
qed

lemma SaveSession_Inr:
  assumes "flat_dir fs (fm_sessionsPath st)" "good_id (sn_Id x)" "SaveSession env fl c x (st, fs) = (Inr (), st', fs')"
  shows "fs' = fs(fm_sessionsPath st @ [RawURLEncode (sn_Id x) @ ''.json.tmp''] := None,
      fm_sessionsPath st @ [RawURLEncode (sn_Id x) @ ''.json''] \<mapsto> File (fe_encodeSession env (fe_redactSession env x)))"
    "st' = st\<lparr>fm_sessionCache := (fm_sessionCache st)(sn_Id x \<mapsto> fe_redactSession env x)\<rparr>"
proof -
  let ?p = "fm_sessionsPath st" and ?n = "RawURLEncode (sn_Id x)" and ?d = "fe_encodeSession env (fe_redactSession env x)"
  have f1: "flat_dir (fs(?p @ [?n @ ''.json.tmp''] \<mapsto> File e)) ?p" for e using assms(1) by (rule flat_write)
  have "Rename f (fs(?p @ [?n @ ''.json.tmp''] \<mapsto> File ?d)) (?p @ [?n @ ''.json.tmp'']) (?p @ [?n @ ''.json'']) =
      (case f of Some e \<Rightarrow> Inl (GoErr e) | None \<Rightarrow> Inr (fs(?p @ [?n @ ''.json.tmp''] := None, ?p @ [?n @ ''.json''] \<mapsto> File ?d)))" for f
    using flat_Rename [OF f1 [of ?d], of "?n @ ''.json.tmp''" ?d "?n @ ''.json''" f] by (cases f) simp_all
  with assms(2,3) have "Inr () = (Inr () :: unit go_result) \<and> fs' = fs(?p @ [?n @ ''.json.tmp''] := None, ?p @ [?n @ ''.json''] \<mapsto> File ?d) \<and>
      st' = st\<lparr>fm_sessionCache := (fm_sessionCache st)(sn_Id x \<mapsto> fe_redactSession env x)\<rparr>"
    by (auto simp: SaveSession_def Let_def session_path_good write_atomic_def flat_Write [OF assms(1)] flat_Write [OF f1]
      split: option.splits if_splits)
  then show "fs' = fs(?p @ [?n @ ''.json.tmp''] := None, ?p @ [?n @ ''.json''] \<mapsto> File ?d)"
    "st' = st\<lparr>fm_sessionCache := (fm_sessionCache st)(sn_Id x \<mapsto> fe_redactSession env x)\<rparr>" by blast+
qed

lemma SaveSession_ok:
  assumes "session_store_ok env (st, fs)" "good_id (sn_Id x)" "SaveSession env fl c x (st, fs) = (Inr (), s')"
  shows "session_store_ok env s'"
    and "good_id k \<Longrightarrow> session_get env s' k = (if k = sn_Id x then Inr (Some (fe_redactSession env x)) else session_get env (st, fs) k)"
proof -
  let ?p = "fm_sessionsPath st" and ?n = "RawURLEncode (sn_Id x)"
  obtain st' fs' where s': "s' = (st', fs')" by (metis surj_pair)
  have flat: "flat_dir fs ?p" using assms(1) by (simp add: session_store_ok_def)
  note new = SaveSession_Inr [OF flat assms(2) assms(3) [unfolded s']]
  have "flat_dir (fs(?p @ [?n @ ''.json.tmp''] := None)) ?p"
    using flat_remove [OF flat] Remove_file_same [OF flat] by simp
  then have "flat_dir fs' (fm_sessionsPath st')" using flat_write new by simp
  then show ok: "session_store_ok env s'"
    using assms(1) new unfolding s' session_store_ok_def by (auto simp: RawURLEncode_inj)
  show "session_get env s' k = (if k = sn_Id x then Inr (Some (fe_redactSession env x)) else session_get env (st, fs) k)" if "good_id k"
    using session_get_file [OF ok [unfolded s'] that] session_get_file [OF assms(1) that] new assms(1)
    by (simp add: s' RawURLEncode_inj session_store_ok_def)
qed

text \<open>
  What the session manager relies on: after a save the store answers for that session what was saved and for the
  others what it answered before. The result of a sequence of saves follows from that alone.
\<close>

locale session_store =
  fixes get :: "'s \<Rightarrow> string \<Rightarrow> chat_session option go_result"
    and put :: "chat_session \<Rightarrow> 's \<Rightarrow> 's option"
    and inv :: "'s \<Rightarrow> bool"
    and stored :: "chat_session \<Rightarrow> chat_session"
  assumes put_inv: "inv s \<Longrightarrow> good_id (sn_Id x) \<Longrightarrow> put x s = Some t \<Longrightarrow> inv t"
    and get_put: "inv s \<Longrightarrow> good_id (sn_Id x) \<Longrightarrow> put x s = Some t \<Longrightarrow> good_id k \<Longrightarrow>
      get t k = (if k = sn_Id x then Inr (Some (stored x)) else get s k)"
begin

primrec puts :: "chat_session list \<Rightarrow> 's \<Rightarrow> 's option" where
  "puts [] s = Some s"
| "puts (x # xs) s = (case put x s of None \<Rightarrow> None | Some t \<Rightarrow> puts xs t)"

lemma puts_inv: "puts xs s = Some t \<Longrightarrow> inv s \<Longrightarrow> \<forall>x \<in> set xs. good_id (sn_Id x) \<Longrightarrow> inv t"
  by (induction xs arbitrary: s) (auto split: option.splits dest: put_inv)

lemma last_put_wins:
  "puts xs s = Some t \<Longrightarrow> inv s \<Longrightarrow> \<forall>x \<in> set xs. good_id (sn_Id x) \<Longrightarrow> good_id k \<Longrightarrow>
   get t k = (case find (\<lambda>x. sn_Id x = k) (rev xs) of Some x \<Rightarrow> Inr (Some (stored x)) | None \<Rightarrow> get s k)"
proof (induction xs arbitrary: s)
  case (Cons x xs)
  from Cons.prems(1) obtain u where u: "put x s = Some u" "puts xs u = Some t" by (auto split: option.splits)
  have x: "good_id (sn_Id x)" using Cons.prems(3) by simp
  have "get t k = (case find (\<lambda>x. sn_Id x = k) (rev xs) of Some x \<Rightarrow> Inr (Some (stored x)) | None \<Rightarrow> get u k)"
    using Cons.IH [OF u(2) put_inv [OF Cons.prems(2) x u(1)]] Cons.prems(3,4) by simp
  moreover have "get u k = (if k = sn_Id x then Inr (Some (stored x)) else get s k)"
    by (rule get_put [OF Cons.prems(2) x u(1) Cons.prems(4)])
  moreover have "find P (ys @ [x]) = (case find P ys of Some y \<Rightarrow> Some y | None \<Rightarrow> if P x then Some x else None)" for P ys
    by (induction ys) auto
  ultimately show ?case by (auto split: option.splits)
qed simp

end

definition session_put :: "store_env \<Rightarrow> chat_session \<Rightarrow> FileMemoryStore \<times> fs \<Rightarrow> (FileMemoryStore \<times> fs) option" where
  "session_put env x s = (let r = SaveSession env no_faults False x s in if is_ok (fst r) then Some (snd r) else None)"

interpretation file_sessions: session_store "session_get env" "session_put env" "session_store_ok env" "fe_redactSession env" for env
proof
  fix s x t k
  assume a: "session_store_ok env s" "good_id (sn_Id x)" "session_put env x s = Some t"
  obtain st fs where s: "s = (st, fs)" by (metis surj_pair)
  have save: "SaveSession env no_faults False x (st, fs) = (Inr (), t)"
    using a(3) unfolding session_put_def s Let_def is_ok_iff by (simp add: prod_eq_iff split: if_splits)
  show "session_store_ok env t" using SaveSession_ok(1) [OF a(1) [unfolded s] a(2) save] .
  show "session_get env t k = (if k = sn_Id x then Inr (Some (fe_redactSession env x)) else session_get env s k)" if "good_id k"
    using SaveSession_ok(2) [OF a(1) [unfolded s] a(2) save that] by (simp add: s)
qed

text \<open>The store inside the model of the session manager obeys the same laws, without redaction.\<close>

interpretation manager_sessions: session_store "\<lambda>s k. Inr (sg_store s k)"
  "\<lambda>x s. Some (s\<lparr>sg_store := (sg_store s)(sn_Id x \<mapsto> x)\<rparr>)" "\<lambda>s. True" "\<lambda>x. x"
  by unfold_locales auto

definition restarted :: "FileMemoryStore \<times> fs \<Rightarrow> FileMemoryStore \<times> fs" where
  "restarted s = ((fst s)\<lparr>fm_sessionCache := (\<lambda>_. None), fm_noteIndex := [], fm_noteIndexInit := False\<rparr>, snd s)"

lemma restarted_get:
  assumes "session_store_ok env s" "good_id k"
  shows "session_get env (restarted s) k = session_get env s k"
proof -
  obtain st fs where s: "s = (st, fs)" by (metis surj_pair)
  let ?st = "st\<lparr>fm_sessionCache := (\<lambda>_. None), fm_noteIndex := [], fm_noteIndexInit := False\<rparr>"
  have r: "restarted s = (?st, fs)" by (simp add: restarted_def s)
  have "session_store_ok env (?st, fs)" using assms(1) by (simp add: session_store_ok_def s)
  note read = session_get_file [OF this assms(2)] session_get_file [OF assms(1) [unfolded s] assms(2)]
  show ?thesis unfolding s r [unfolded s] read by simp
qed

text \<open>C32: After any number of saves that succeed, a session is read back as it was last saved, redacted, and a session that was not
  saved as before; and a process that starts later, with an empty cache, reads the same.\<close>

theorem sessions_survive_restart:
  assumes "session_store_ok env s" "file_sessions.puts env xs s = Some t" "\<forall>x \<in> set xs. good_id (sn_Id x)" "good_id k"
  shows "session_get env (restarted t) k = session_get env t k \<and>
     session_get env t k = (case find (\<lambda>x. sn_Id x = k) (rev xs) of
        Some x \<Rightarrow> Inr (Some (fe_redactSession env x)) | None \<Rightarrow> session_get env s k)"
  using restarted_get [OF file_sessions.puts_inv [OF assms(2,1,3)] assms(4)] file_sessions.last_put_wins [OF assms(2,1,3,4)] by simp

text \<open>A session file that cannot be decoded gives an error once. It is moved away, and the next call finds no session, so the
  session manager starts an empty one under the same identifier.\<close>

theorem corrupt_session_forgotten:
  assumes "flat_dir fs (fm_sessionsPath st)" "good_id k" "fm_sessionCache st k = None"
    and "fs (fm_sessionsPath st @ [RawURLEncode k @ ''.json'']) = Some (File d)" "fe_decodeSession env d = None"
  shows "fst (GetSession env no_faults stamp k (st, fs)) = Inl (GoErr (''session '' @ k @ '' could not be loaded'')) \<and>
     fst (GetSession env no_faults stamp' k (snd (GetSession env no_faults stamp k (st, fs)))) = Inr None"
proof -
  let ?p = "fm_sessionsPath st" and ?n = "RawURLEncode k @ ''.json''"
  let ?fs = "fs(?p @ [?n] := None, ?p @ [?n @ ''.corrupt-'' @ stamp] \<mapsto> File d)"
  have neq: "?n \<noteq> ?n @ ''.corrupt-'' @ stamp" by simp
  have "Rename None fs (?p @ [?n]) (?p @ [?n @ ''.corrupt-'' @ stamp]) = Inr ?fs"
    using flat_Rename [OF assms(1,4) neq, of None] by simp
  then have "GetSession env no_faults stamp k (st, fs) = (Inl (GoErr (''session '' @ k @ '' could not be loaded'')), st, ?fs)"
    using assms by (simp add: GetSession_def good_id_def session_path_good Let_def loadFromFile_def ReadFile_def no_faults_def
      quarantineCorruptSessionFile_def butlast_append)
  moreover have "fst (GetSession env no_faults stamp' k (st, ?fs)) = Inr None"
    using assms(2,3) by (simp add: GetSession_def good_id_def session_path_good Let_def)
  ultimately show ?thesis by simp
qed

definition blank_session :: "string \<Rightarrow> chat_session" where
  "blank_session sid = \<lparr>sn_Id = sid, sn_ChannelId = [], sn_SenderId = [], sn_LastActiveAt = 0, sn_History = [],
     sn_State = SessionStateActive, sn_ContractPolicy = None\<rparr>"

text \<open>An example in which the redaction leaves the identifier only, which is then what the files hold.\<close>

definition example_file_env :: store_env where
  "example_file_env = \<lparr>fe_sha256 = (\<lambda>_. replicate 32 (CHR ''h'')), fe_redact = (\<lambda>s. s), fe_redactSession = (\<lambda>x. blank_session (sn_Id x)),
     fe_redactBranch = (\<lambda>b. b), fe_encodeSession = (\<lambda>x. CHR ''s'' # sn_Id x),
     fe_decodeSession = (\<lambda>d. if d = [] then None else Some (blank_session (tl d))), fe_encodeBranch = br_Name, fe_decodeBranch = (\<lambda>s. None)\<rparr>"

theorem note_key_after_restart_witness:
  "resolveNoteKey no_faults (encodeKey example_file_env (replicate 151 (CHR ''k''))) [''k''] (\<lambda>_. None) = RawURLEncode (replicate 151 (CHR ''k''))"
proof -
  have "length (fe_sha256 example_file_env (replicate 151 (CHR ''k''))) = 32" by (simp add: example_file_env_def)
  moreover have "(\<lambda>_ :: path. None) [''k''] = (if requiresKeySidecar (replicate 151 (CHR ''k'')) then Some (File (replicate 151 (CHR ''k''))) else None)"
    by (simp add: requiresKeySidecar_def)
  ultimately show ?thesis by (subst note_key_after_restart) simp_all
qed

lemma SaveSession_succeeds:
  assumes "flat_dir fs (fm_sessionsPath st)" "good_id (sn_Id x)"
  shows "fst (SaveSession env no_faults False x (st, fs)) = Inr ()"
proof -
  let ?p = "fm_sessionsPath st" and ?n = "RawURLEncode (sn_Id x)" and ?d = "fe_encodeSession env (fe_redactSession env x)"
  have f1: "flat_dir (fs(?p @ [?n @ ''.json.tmp''] \<mapsto> File e)) ?p" for e using assms(1) by (rule flat_write)
  from flat_Rename [OF f1 [of ?d], of "?n @ ''.json.tmp''" ?d "?n @ ''.json''" None] show ?thesis
    by (simp add: SaveSession_def Let_def session_path_good [OF assms(2)] write_atomic_def flat_Write [OF assms(1)] flat_Write [OF f1] no_faults_def)
qed

lemma example_good: "good_id ''a''"
  by code_simp

lemma example_store_ok: "session_store_ok example_file_env (example_store, example_store_fs)"
  using example_flat by (simp add: session_store_ok_def example_file_env_def example_store_def blank_session_def)

theorem sessions_survive_restart_witness:
  "\<exists>t. file_sessions.puts example_file_env [blank_session ''a''] (example_store, example_store_fs) = Some t \<and>
     session_get example_file_env (restarted t) ''a'' = Inr (Some (blank_session ''a'')) \<and>
     session_get example_file_env (example_store, example_store_fs) ''a'' = Inr None"
proof -
  have id: "sn_Id (blank_session ''a'') = ''a''" by (simp add: blank_session_def)
  have "fst (SaveSession example_file_env no_faults False (blank_session ''a'') (example_store, example_store_fs)) = Inr ()"
    using SaveSession_succeeds [of example_store_fs example_store "blank_session ''a''"] example_flat example_good by (simp add: example_store_def id)
  then obtain t where put: "file_sessions.puts example_file_env [blank_session ''a''] (example_store, example_store_fs) = Some t"
    by (simp add: session_put_def Let_def)
  have "session_get example_file_env (example_store, example_store_fs) ''a'' = Inr None"
    using session_get_file [OF example_store_ok example_good] by (simp add: example_store_def example_store_fs_def)
  with put sessions_survive_restart [OF example_store_ok put _ example_good] example_good id show ?thesis
    by (auto simp: example_file_env_def)
qed

theorem corrupt_session_forgotten_witness:
  "fst (GetSession example_file_env no_faults ''now'' ''a''
      (snd (GetSession example_file_env no_faults ''then'' ''a''
        (example_store, example_store_fs([''m'', ''sessions''] @ [RawURLEncode ''a'' @ ''.json''] \<mapsto> File []))))) = Inr None"
proof -
  let ?fs = "example_store_fs([''m'', ''sessions''] @ [RawURLEncode ''a'' @ ''.json''] \<mapsto> File [])"
  have flat: "flat_dir ?fs (fm_sessionsPath example_store)"
    unfolding example_store_def FileMemoryStore.select_convs by (rule flat_write [OF example_flat(2)])
  have "?fs (fm_sessionsPath example_store @ [RawURLEncode ''a'' @ ''.json'']) = Some (File [])" by (simp add: example_store_def)
  note here = this
  have "fm_sessionCache example_store ''a'' = None" "fe_decodeSession example_file_env [] = None"
    by (simp_all add: example_store_def example_file_env_def)
  from corrupt_session_forgotten [OF flat example_good this(1) here this(2)] show ?thesis by blast
qed

end
