(* ===== verification/Cli_Models.thy ===== *)
theory Cli_Models
  imports Go_Prelude "HOL-Library.AList"
begin

section \<open>External command line tools: data\<close>

text \<open>
  The options of \<open>src/openclaw/core/models_external_cli.go\<close>: connectors are programs, commands are templates of
  arguments with named parameters. A Go map is a list of entries with distinct keys in the order it is ranged over;
  where it matters whether a map is nil, it is an option of such a list.
\<close>

type_synonym 'a go_map = "(string \<times> 'a) list option"

definition entries :: "'a go_map \<Rightarrow> (string \<times> 'a) list" where
  "entries m = (case m of None \<Rightarrow> [] | Some es \<Rightarrow> es)"

lemma entries_simps [simp]: "entries None = []" "entries (Some es) = es"
  by (simp_all add: entries_def)

text \<open>When a sequence of fallible steps succeeds.\<close>

lemma bindR_Inr_iff: "bindR r f = Inr b \<longleftrightarrow> (\<exists>a. r = Inr a \<and> f a = Inr b)"
  by (cases r) auto

subsection \<open>Risk levels and output formats\<close>

definition RiskLow :: string where "RiskLow = ''low''"
definition RiskMedium :: string where "RiskMedium = ''medium''"
definition RiskHigh :: string where "RiskHigh = ''high''"

definition NormalizeRiskLevel :: "string \<Rightarrow> string" where
  "NormalizeRiskLevel val = (if val = ''medium'' \<or> val = ''high'' then val else RiskLow)"

definition FormatJson :: string where "FormatJson = ''json''"
definition FormatNdjson :: string where "FormatNdjson = ''ndjson''"
definition FormatCsv :: string where "FormatCsv = ''csv''"
definition FormatText :: string where "FormatText = ''text''"
definition FormatTable :: string where "FormatTable = ''table''"

definition NormalizeOutputFormat :: "string \<Rightarrow> string" where
  "NormalizeOutputFormat val =
     (if val \<in> {''json'', ''ndjson'', ''csv'', ''table''} then val else FormatText)"

lemmas risk_names = RiskLow_def RiskMedium_def RiskHigh_def

lemma NormalizeRiskLevel_idem [simp]: "NormalizeRiskLevel (NormalizeRiskLevel r) = NormalizeRiskLevel r"
  by (simp add: NormalizeRiskLevel_def RiskLow_def)

lemma NormalizeRiskLevel_cases:
  "NormalizeRiskLevel r = ''low'' \<or> NormalizeRiskLevel r = ''medium'' \<or> NormalizeRiskLevel r = ''high''"
  by (auto simp: NormalizeRiskLevel_def RiskLow_def)

subsection \<open>Options\<close>

record ExternalCliParameterOptions =
  xp_Required :: bool
  xp_Description :: string
  xp_MaxLength :: int
  xp_Pattern :: string
  xp_AllowedValues :: "string list"

record ExternalCliStatusCommandOptions =
  xs_Args :: "string list"
  xs_TimeoutSeconds :: int

record ExternalCliCommandOptions =
  xm_Description :: string
  xm_ArgsTemplate :: "string list"
  xm_Parameters :: "ExternalCliParameterOptions go_map"
  xm_AllowUnknownParameters :: bool
  xm_RiskLevel :: string
  xm_ReadOnly :: bool
  xm_RequiresApproval :: bool
  xm_SupportsDryRun :: bool
  xm_DryRunArgsTemplate :: "string list"
  xm_StructuredOutput :: string
  xm_TimeoutSeconds :: "int option"
  xm_WorkingDirectory :: string
  xm_Environment :: "string go_map"
  xm_RedactionRules :: "string list"
  xm_RequiredScopes :: "string list"
  xm_RequiredIdentity :: string
  xm_Tags :: "string list"

record ExternalCliConnectorOptions =
  xc_Enabled :: bool
  xc_DisplayName :: string
  xc_Executable :: string
  xc_DefaultArgs :: "string list"
  xc_WorkingDirectory :: string
  xc_Environment :: "string go_map"
  xc_StatusCommand :: "ExternalCliStatusCommandOptions option"
  xc_VersionCommand :: "ExternalCliStatusCommandOptions option"
  xc_DefaultOutputFormat :: string
  xc_RequiresApproval :: bool
  xc_RedactionRules :: "string list"
  xc_Commands :: "(string \<times> ExternalCliCommandOptions) list"

record ExternalCliOptions =
  xo_Enabled :: bool
  xo_DefaultTimeoutSeconds :: int
  xo_MaxStdoutBytes :: int
  xo_MaxStderrBytes :: int
  xo_RedactSecrets :: bool
  xo_AllowFreeformCommands :: bool
  xo_RequireApprovalForMutatingCommands :: bool
  xo_Presets :: "string list"
  xo_Connectors :: "(string \<times> ExternalCliConnectorOptions) list"

definition DefaultExternalCliOptions :: ExternalCliOptions where
  "DefaultExternalCliOptions =
     \<lparr>xo_Enabled = False, xo_DefaultTimeoutSeconds = 60, xo_MaxStdoutBytes = 262144, xo_MaxStderrBytes = 65536,
      xo_RedactSecrets = True, xo_AllowFreeformCommands = False, xo_RequireApprovalForMutatingCommands = True,
      xo_Presets = [], xo_Connectors = []\<rparr>"

definition DefaultExternalCliConnectorOptions :: ExternalCliConnectorOptions where
  "DefaultExternalCliConnectorOptions =
     \<lparr>xc_Enabled = False, xc_DisplayName = [], xc_Executable = [], xc_DefaultArgs = [], xc_WorkingDirectory = [],
      xc_Environment = Some [], xc_StatusCommand = None, xc_VersionCommand = None, xc_DefaultOutputFormat = FormatText,
      xc_RequiresApproval = False, xc_RedactionRules = [], xc_Commands = []\<rparr>"

definition DefaultExternalCliCommandOptions :: ExternalCliCommandOptions where
  "DefaultExternalCliCommandOptions =
     \<lparr>xm_Description = [], xm_ArgsTemplate = [], xm_Parameters = Some [], xm_AllowUnknownParameters = False,
      xm_RiskLevel = RiskLow, xm_ReadOnly = True, xm_RequiresApproval = False, xm_SupportsDryRun = False,
      xm_DryRunArgsTemplate = [], xm_StructuredOutput = [], xm_TimeoutSeconds = None, xm_WorkingDirectory = [],
      xm_Environment = Some [], xm_RedactionRules = [], xm_RequiredScopes = [], xm_RequiredIdentity = [], xm_Tags = []\<rparr>"

definition DefaultExternalCliParameterOptions :: ExternalCliParameterOptions where
  "DefaultExternalCliParameterOptions =
     \<lparr>xp_Required = False, xp_Description = [], xp_MaxLength = 0, xp_Pattern = [], xp_AllowedValues = []\<rparr>"

subsection \<open>Requests and answers\<close>

text \<open>A parameter arrives as a \<open>json.RawMessage\<close>, the bytes of a JSON value.\<close>

record ExternalCliToolRequest =
  xt_Action :: string
  xt_Connector :: string
  xt_Command :: string
  xt_Parameters :: "(string \<times> string) list"
  xt_ExecuteDryRun :: bool
  xt_ApprovedFingerprint :: string
  xt_ApprovalReason :: string

record ExternalCliPreviewRequest =
  xq_Connector :: string
  xq_Command :: string
  xq_Parameters :: "(string \<times> string) list"
  xq_ExecuteDryRun :: bool

record ExternalCliConnectorSummary =
  cs_Name :: string
  cs_DisplayName :: string
  cs_Enabled :: bool
  cs_Executable :: string
  cs_CommandCount :: nat

record ExternalCliPresetSummary =
  ps_Id :: string
  ps_Connector :: string
  ps_DisplayName :: string
  ps_Description :: string
  ps_Tags :: "string list"
  ps_Commands :: "string list"

record ExternalCliCommandSummary =
  ms_CommandName :: string
  ms_CommandDescription :: string
  ms_RiskLevel :: string
  ms_ReadOnly :: bool
  ms_RequiresApproval :: bool
  ms_SupportsDryRun :: bool
  ms_StructuredOutput :: string
  ms_CommandTags :: "string list"

record ExternalCliCommandSchemaResponse =
  sr_Connector :: string
  sr_Command :: string
  sr_Description :: string
  sr_Parameters :: "ExternalCliParameterOptions go_map"
  sr_RequiredParameters :: "string list"
  sr_RiskLevel :: string
  sr_ReadOnly :: bool
  sr_RequiresApproval :: bool
  sr_SupportsDryRun :: bool
  sr_StructuredOutput :: string

record ExternalCliInvocationPreview =
  xv_Connector :: string
  xv_Command :: string
  xv_Executable :: string
  xv_Arguments :: "string list"
  xv_RedactedArguments :: "string list"
  xv_RedactedCommandLine :: string
  xv_RiskLevel :: string
  xv_ReadOnly :: bool
  xv_RequiresApproval :: bool
  xv_SupportsDryRun :: bool
  xv_IsDryRun :: bool
  xv_StructuredOutput :: string
  xv_RequiredScopes :: "string list"
  xv_RequiredIdentity :: string
  xv_WorkingDirectory :: string
  xv_TimeoutSeconds :: int
  xv_Fingerprint :: string
  xv_ParametersHash :: string
  xv_Warnings :: "string list"

record ExternalCliExecutionResult =
  xr_Preview :: ExternalCliInvocationPreview
  xr_Success :: bool
  xr_ExitCode :: int
  xr_Stdout :: string
  xr_Stderr :: string
  xr_StdoutTruncated :: bool
  xr_StderrTruncated :: bool
  xr_TimedOut :: bool
  xr_DurationMs :: int
  xr_StartedAtUtc :: int
  xr_CompletedAtUtc :: int
  xr_ParsedJson :: "string option"
  xr_ParseError :: string
  xr_ErrorMessage :: string

record ExternalCliConnectorStatus =
  xk_Connector :: string
  xk_DisplayName :: string
  xk_Enabled :: bool
  xk_Executable :: string
  xk_ExecutableFound :: bool
  xk_ResolvedExecutablePath :: string
  xk_Version :: string
  xk_Authenticated :: bool
  xk_AuthenticationStatus :: string
  xk_Warnings :: "string list"
  xk_LastCheckedAtUtc :: int

record ExternalCliAuditEntry =
  xa_Id :: string
  xa_TimestampUtc :: int
  xa_SessionId :: string
  xa_ChannelId :: string
  xa_SenderId :: string
  xa_Connector :: string
  xa_Command :: string
  xa_Executable :: string
  xa_ArgsHash :: string
  xa_RedactedArgsPreview :: string
  xa_ParametersHash :: string
  xa_ApprovalFingerprint :: string
  xa_ExitCode :: int
  xa_DurationMs :: int
  xa_TimedOut :: bool
  xa_Failed :: bool
  xa_StdoutTruncated :: bool
  xa_StderrTruncated :: bool
  xa_RiskLevel :: string
  xa_ReadOnly :: bool
  xa_WorkingDirectory :: string

record ExternalCliRuntimeEvent =
  xe_SessionId :: string
  xe_ChannelId :: string
  xe_SenderId :: string
  xe_Action :: string
  xe_Severity :: string
  xe_Summary :: string
  xe_Metadata :: "(string \<times> string) list"

record ExternalCliPreparedCommand =
  pc_ConnectorName :: string
  pc_CommandName :: string
  pc_Connector :: ExternalCliConnectorOptions
  pc_Command :: ExternalCliCommandOptions
  pc_Executable :: string
  pc_Arguments :: "string list"
  pc_RedactedArguments :: "string list"
  pc_WorkingDirectory :: string
  pc_Environment :: "(string \<times> string) list"
  pc_Preview :: ExternalCliInvocationPreview
  pc_MaxStdoutBytes :: int
  pc_MaxStderrBytes :: int
  pc_RedactionRules :: "string list"

subsection \<open>Helpers of the package \<open>util\<close>\<close>

text \<open>\<open>DistinctStrings\<close> keeps the first occurrence of every string.\<close>

fun DistinctStrings :: "string list \<Rightarrow> string list" where
  "DistinctStrings [] = []"
| "DistinctStrings (x # xs) = x # filter (\<lambda>y. y \<noteq> x) (DistinctStrings xs)"

lemma set_DistinctStrings [simp]: "set (DistinctStrings xs) = set xs"
  by (induction xs) auto

lemma distinct_DistinctStrings [simp]: "distinct (DistinctStrings xs)"
  by (induction xs) auto

end
