(* ===== verification/Cli_Template.thy ===== *)
theory Cli_Template
  imports Cli_Models
begin

section \<open>External command line tools: templates and parameters\<close>

text \<open>
  The arguments of a command are templates with placeholders \<open>{{name}}\<close>, which the registry of
  \<open>src/openclaw/core/external_cli.go\<close> fills with the parameters of a request after it has checked them. Regular
  expressions of the configuration and the decoding of JSON strings are parameters; the expression of the placeholders is
  written out.
\<close>

subsection \<open>Placeholders\<close>

definition ident_start :: "char \<Rightarrow> bool" where
  "ident_start c \<longleftrightarrow> 65 \<le> byte c \<and> byte c \<le> 90 \<or> 97 \<le> byte c \<and> byte c \<le> 122 \<or> byte c = 95"

definition ident_char :: "char \<Rightarrow> bool" where
  "ident_char c \<longleftrightarrow> ident_start c \<or> is_digit c \<or> byte c = 45"

text \<open>
  A match of \<open>PlaceholderRegex\<close> at the front of a string: the name and what follows. White space, letters of names and
  braces are disjoint, so the greedy match is the only one.
\<close>

definition match_placeholder :: "string \<Rightarrow> (string \<times> string) option" where
  "match_placeholder s =
     (if prefix ''{{'' s then
        (let t = dropWhile re_space (drop 2 s);
             n = takeWhile ident_char t;
             r = dropWhile re_space (dropWhile ident_char t)
         in if n \<noteq> [] \<and> ident_start (hd n) \<and> prefix ''}}'' r then Some (n, drop 2 r) else None)
      else None)"

lemma match_placeholder_shorter: "match_placeholder s = Some (n, r) \<Longrightarrow> length r < length s"
proof -
  assume a: "match_placeholder s = Some (n, r)"
  let ?t = "dropWhile re_space (drop 2 s)"
  have "r = drop 2 (dropWhile re_space (dropWhile ident_char ?t))" "prefix ''{{'' s"
    using a by (auto simp: match_placeholder_def Let_def split: if_splits)
  moreover have "length (dropWhile re_space (dropWhile ident_char ?t)) \<le> length (drop 2 s)"
    by (meson length_dropWhile_le order_trans)
  ultimately show ?thesis by (auto simp: prefix_def)
qed

datatype piece = Lit char | Hole string

function pieces :: "string \<Rightarrow> piece list" where
  "pieces [] = []"
| "pieces (c # s) =
     (case match_placeholder (c # s) of
        Some (n, r) \<Rightarrow> Hole n # pieces r
      | None \<Rightarrow> Lit c # pieces s)"
  by pat_completeness auto
termination pieces
  by (relation "measure length") (auto dest: match_placeholder_shorter)

fun hole_name :: "piece \<Rightarrow> string list" where
  "hole_name (Lit c) = []"
| "hole_name (Hole n) = [n]"

definition holes :: "string \<Rightarrow> string list" where
  "holes arg = concat (map hole_name (pieces arg))"

text \<open>Names that differ only in case count once; the first spelling stays.\<close>

fun distinct_lower :: "string list \<Rightarrow> string list" where
  "distinct_lower [] = []"
| "distinct_lower (x # xs) = x # filter (\<lambda>y. ToLower y \<noteq> ToLower x) (distinct_lower xs)"

definition findPlaceholders :: "string list \<Rightarrow> string list" where
  "findPlaceholders template = distinct_lower (concat (map holes template))"

lemma distinct_lower_covers: "x \<in> set xs \<Longrightarrow> \<exists>y \<in> set (distinct_lower xs). ToLower y = ToLower x"
proof (induction xs)
  case (Cons a xs)
  show ?case
  proof (cases "ToLower a = ToLower x")
    case False
    with Cons.prems have "x \<in> set xs" by auto
    with Cons.IH obtain y where "y \<in> set (distinct_lower xs)" "ToLower y = ToLower x" by blast
    with False show ?thesis by (intro bexI [of _ y]) auto
  qed simp
qed simp

lemma distinct_lower_subset: "set (distinct_lower xs) \<subseteq> set xs"
  by (induction xs) auto

lemma hole_in_holes: "Hole n \<in> set (pieces arg) \<longleftrightarrow> n \<in> set (holes arg)"
proof -
  have "n \<in> set (hole_name p) \<longleftrightarrow> p = Hole n" for p by (cases p) auto
  then show ?thesis by (auto simp: holes_def)
qed

lemma literal_pieces: "\<not> Contains arg ''{{'' \<Longrightarrow> pieces arg = map Lit arg"
proof (induction arg)
  case (Cons c s)
  have "\<not> prefix ''{{'' (c # s)" "\<not> Contains s ''{{''"
    using Cons.prems by (auto simp: Contains_def split: if_splits)
  moreover from this(1) have "match_placeholder (c # s) = None"
    unfolding match_placeholder_def by (simp only: if_False)
  ultimately show ?case using Cons.IH by simp
qed simp

subsection \<open>Values\<close>

text \<open>What the template code takes from the libraries: the decoding of a JSON string, an error or the text, and the match of a
  pattern of the configuration, none when the pattern does not compile.\<close>

record cli_codec =
  js_String :: "string \<Rightarrow> string + string"
  rx_Match :: "string \<Rightarrow> string \<Rightarrow> bool option"

definition json_int :: "string \<Rightarrow> string option" where
  "json_int s =
     (case s of [] \<Rightarrow> None
      | c # t \<Rightarrow> if c = CHR ''0'' then Some t else if is_digit c then Some (dropWhile is_digit t) else None)"

definition json_digits :: "string \<Rightarrow> string option" where
  "json_digits s = (if takeWhile is_digit s = [] then None else Some (dropWhile is_digit s))"

definition json_frac :: "string \<Rightarrow> string option" where
  "json_frac s = (case s of [] \<Rightarrow> Some [] | c # t \<Rightarrow> if c = CHR ''.'' then json_digits t else Some s)"

definition json_exp :: "string \<Rightarrow> string option" where
  "json_exp s =
     (case s of [] \<Rightarrow> Some []
      | c # t \<Rightarrow> if c = CHR ''e'' \<or> c = CHR ''E'' then json_digits (if t \<noteq> [] \<and> hd t \<in> {CHR ''+'', CHR ''-''} then tl t else t)
                else Some s)"

definition json_number :: "string \<Rightarrow> bool" where
  "json_number s \<longleftrightarrow>
     Option.bind (Option.bind (json_int (if prefix ''-'' s then tl s else s)) json_frac) json_exp = Some []"

text \<open>Decoding \<open>null\<close> into a \<open>json.Number\<close> succeeds and leaves it empty.\<close>

definition toParameterString :: "cli_codec \<Rightarrow> string \<Rightarrow> string \<Rightarrow> string go_result" where
  "toParameterString jc key raw =
     (let trimmed = TrimSpace raw;
          wrong = Inl (GoErr (''external CLI parameter '' @ quoted key @ '' must be a string, number, or boolean''))
      in if trimmed = [] then wrong
         else if hd trimmed = CHR 34 then
           (case js_String jc trimmed of
              Inl e \<Rightarrow> Inl (GoErr (''invalid string format for parameter '' @ quoted key @ '': '' @ e))
            | Inr s \<Rightarrow> Inr s)
         else if trimmed = ''true'' \<or> trimmed = ''false'' then Inr trimmed
         else if trimmed = ''null'' then Inr []
         else if json_number trimmed then Inr trimmed
         else wrong)"

text \<open>\<open>tryGetParameter\<close> and \<open>tryGetParameterSchema\<close>: the exact name, or else a name that differs in case.\<close>

definition lookup_fold :: "(string \<times> 'a) list \<Rightarrow> string \<Rightarrow> 'a option" where
  "lookup_fold m name =
     (case map_of m name of Some v \<Rightarrow> Some v | None \<Rightarrow> map_option snd (find (\<lambda>e. EqualFold (fst e) name) m))"

lemma lookup_fold_None_iff: "lookup_fold m name = None \<longleftrightarrow> (\<forall>k \<in> fst ` set m. \<not> EqualFold k name)"
proof (cases "map_of m name")
  case None
  then show ?thesis by (auto simp: lookup_fold_def find_None_iff)
next
  case (Some v)
  from map_of_SomeD [OF this] have "\<exists>e \<in> set m. EqualFold (fst e) name" by (intro bexI) auto
  then show ?thesis using Some by (auto simp: lookup_fold_def)
qed

lemma lookup_fold_SomeD:
  assumes "lookup_fold m name = Some v"
  shows "\<exists>k. (k, v) \<in> set m \<and> EqualFold k name"
proof (cases "map_of m name")
  case None
  with assms obtain e where e: "find (\<lambda>e. EqualFold (fst e) name) m = Some e" "snd e = v"
    by (auto simp: lookup_fold_def)
  then have "e \<in> set m" "EqualFold (fst e) name" by (auto simp: find_Some_iff)
  with e(2) show ?thesis by (intro exI [of _ "fst e"]) auto
next
  case (Some w)
  with assms have "w = v" by (simp add: lookup_fold_def)
  with map_of_SomeD [OF Some] show ?thesis by (intro exI [of _ name]) simp
qed

subsection \<open>Validation\<close>

fun all_ok :: "('a \<Rightarrow> unit go_result) \<Rightarrow> 'a list \<Rightarrow> unit go_result" where
  "all_ok f [] = Inr ()"
| "all_ok f (x # xs) = bindR (f x) (\<lambda>_. all_ok f xs)"

lemma all_ok_iff: "all_ok f xs = Inr () \<longleftrightarrow> (\<forall>x \<in> set xs. f x = Inr ())"
  by (induction xs) (auto simp: bindR_def split: sum.splits)

definition validateParameterValue ::
    "cli_codec \<Rightarrow> string \<Rightarrow> string \<Rightarrow> ExternalCliParameterOptions \<Rightarrow> unit go_result" where
  "validateParameterValue jc name val schema =
     (if xp_MaxLength schema \<noteq> 0 \<and> int (length val) > xp_MaxLength schema then
        Inl (GoErr (''external CLI parameter '' @ quoted name @ '' exceeds max length '' @ Itoa (xp_MaxLength schema)))
      else if xp_AllowedValues schema \<noteq> [] \<and> val \<notin> set (xp_AllowedValues schema) then
        Inl (GoErr (''external CLI parameter '' @ quoted name @ '' has a value that is not allowed''))
      else if TrimSpace (xp_Pattern schema) \<noteq> [] \<and> rx_Match jc (xp_Pattern schema) val \<noteq> Some True then
        Inl (GoErr (''external CLI parameter '' @ quoted name @ '' does not match the required pattern''))
      else Inr ())"

definition parameter_required :: "string \<Rightarrow> (string \<times> string) list \<Rightarrow> unit go_result" where
  "parameter_required name parameters =
     (if lookup_fold parameters name = None then
        Inl (GoErr (''external CLI parameter '' @ quoted name @ '' is required''))
      else Inr ())"

definition validate_parameter ::
    "cli_codec \<Rightarrow> (string \<times> ExternalCliParameterOptions) list \<Rightarrow> string \<times> string \<Rightarrow> unit go_result" where
  "validate_parameter jc schemas p =
     bindR (toParameterString jc (fst p) (snd p)) (\<lambda>txt.
       case lookup_fold schemas (fst p) of
         Some schema \<Rightarrow> validateParameterValue jc (fst p) txt schema
       | None \<Rightarrow> Inr ())"

definition validateParameters ::
    "cli_codec \<Rightarrow> ExternalCliCommandOptions \<Rightarrow> string list \<Rightarrow> (string \<times> string) list \<Rightarrow> unit go_result" where
  "validateParameters jc command template parameters =
     (let schemas = entries (xm_Parameters command);
          allowed = map ToLower (findPlaceholders template) @ map (ToLower \<circ> fst) schemas
      in bindR (all_ok (\<lambda>ph. parameter_required ph parameters) (findPlaceholders template)) (\<lambda>_.
         bindR (all_ok (\<lambda>(n, schema). if xp_Required schema then parameter_required n parameters else Inr ()) schemas) (\<lambda>_.
         bindR (if xm_AllowUnknownParameters command then Inr ()
                else all_ok (\<lambda>(key, _). if ToLower key \<in> set allowed then Inr ()
                       else Inl (GoErr (''external CLI parameter '' @ quoted key @ '' is not allowed for this command''))) parameters) (\<lambda>_.
         all_ok (validate_parameter jc schemas) parameters))))"

subsection \<open>Expansion\<close>

fun expand_pieces :: "cli_codec \<Rightarrow> (string \<times> string) list \<Rightarrow> piece list \<Rightarrow> string go_result" where
  "expand_pieces jc parameters [] = Inr []"
| "expand_pieces jc parameters (Lit c # ps) = bindR (expand_pieces jc parameters ps) (\<lambda>s. Inr (c # s))"
| "expand_pieces jc parameters (Hole n # ps) =
     (case lookup_fold parameters n of
        None \<Rightarrow> Inl (GoErr (''External CLI parameter '' @ quoted n @ '' is required.''))
      | Some v \<Rightarrow> bindR (expand_pieces jc parameters ps) (\<lambda>s.
          Inr ((case toParameterString jc n v of Inr r \<Rightarrow> r | Inl e \<Rightarrow> []) @ s)))"

fun expandTemplate :: "cli_codec \<Rightarrow> string list \<Rightarrow> (string \<times> string) list \<Rightarrow> string list go_result" where
  "expandTemplate jc [] parameters = Inr []"
| "expandTemplate jc (arg # template) parameters =
     bindR (expand_pieces jc parameters (pieces arg)) (\<lambda>a.
     bindR (expandTemplate jc template parameters) (\<lambda>as. Inr (a # as)))"

subsection \<open>What an expanded template is\<close>

text \<open>The specification: every argument of the template on its own, its placeholders replaced by one substitution.\<close>

fun fill_piece :: "(string \<Rightarrow> string) \<Rightarrow> piece \<Rightarrow> string" where
  "fill_piece \<sigma> (Lit c) = [c]"
| "fill_piece \<sigma> (Hole n) = \<sigma> n"

definition fill :: "(string \<Rightarrow> string) \<Rightarrow> string \<Rightarrow> string" where
  "fill \<sigma> arg = concat (map (fill_piece \<sigma>) (pieces arg))"

lemma concat_singletons: "concat (map (\<lambda>c. [c]) s) = s"
  by (induction s) auto

lemma fill_literal: "\<not> Contains arg ''{{'' \<Longrightarrow> fill \<sigma> arg = arg"
  by (simp add: fill_def literal_pieces o_def concat_singletons)

definition parameter_text :: "cli_codec \<Rightarrow> (string \<times> string) list \<Rightarrow> string \<Rightarrow> string" where
  "parameter_text jc parameters n =
     (case lookup_fold parameters n of
        Some v \<Rightarrow> (case toParameterString jc n v of Inr r \<Rightarrow> r | Inl e \<Rightarrow> [])
      | None \<Rightarrow> [])"

lemma expand_pieces_iff:
  "expand_pieces jc ps xs = Inr s \<longleftrightarrow>
     (\<forall>n. Hole n \<in> set xs \<longrightarrow> lookup_fold ps n \<noteq> None) \<and> s = concat (map (fill_piece (parameter_text jc ps)) xs)"
proof (induction xs arbitrary: s)
  case (Cons x xs)
  show ?case
  proof (cases x)
    case (Lit c)
    then show ?thesis using Cons.IH by (cases "expand_pieces jc ps xs") auto
  next
    case (Hole n)
    then show ?thesis using Cons.IH
      by (cases "lookup_fold ps n"; cases "expand_pieces jc ps xs") (auto simp: parameter_text_def)
  qed
qed auto

lemma expandTemplate_iff:
  "expandTemplate jc template ps = Inr args \<longleftrightarrow>
     (\<forall>arg \<in> set template. \<forall>n \<in> set (holes arg). lookup_fold ps n \<noteq> None) \<and>
     args = map (fill (parameter_text jc ps)) template"
proof (induction template arbitrary: args)
  case (Cons arg template)
  have "expand_pieces jc ps (pieces arg) = Inr a \<longleftrightarrow>
      (\<forall>n \<in> set (holes arg). lookup_fold ps n \<noteq> None) \<and> a = fill (parameter_text jc ps) arg" for a
    by (auto simp: expand_pieces_iff fill_def hole_in_holes)
  with Cons.IH show ?case by (auto simp: bindR_Inr_iff)
qed auto

text \<open>The error of the conversion does not depend on the name, so a value that passed under its own name is filled in as
  it was checked.\<close>

lemma toParameterString_name:
  "toParameterString jc k raw = Inr s \<Longrightarrow> toParameterString jc n raw = Inr s"
  by (auto simp: toParameterString_def Let_def split: if_splits sum.splits)

lemma validated_value:
  assumes v: "validateParameters jc command template ps = Inr ()"
    and l: "lookup_fold ps n = Some raw"
  shows "\<exists>key. (key, raw) \<in> set ps \<and> EqualFold key n \<and> toParameterString jc key raw = Inr (parameter_text jc ps n) \<and>
    (\<forall>schema. lookup_fold (entries (xm_Parameters command)) key = Some schema \<longrightarrow>
       validateParameterValue jc key (parameter_text jc ps n) schema = Inr ())"
proof -
  obtain key where k: "(key, raw) \<in> set ps" "EqualFold key n"
    using lookup_fold_SomeD [OF l] by blast
  have "all_ok (validate_parameter jc (entries (xm_Parameters command))) ps = Inr ()"
    using v by (auto simp: validateParameters_def Let_def elim!: bindR_InrE)
  then have vp: "validate_parameter jc (entries (xm_Parameters command)) (key, raw) = Inr ()"
    using k(1) by (simp add: all_ok_iff)
  then obtain s where s: "toParameterString jc key raw = Inr s"
    by (auto simp: validate_parameter_def elim!: bindR_InrE)
  have t: "parameter_text jc ps n = s"
    using l toParameterString_name [OF s] by (simp add: parameter_text_def)
  show ?thesis using k s t vp by (auto simp: validate_parameter_def)
qed

lemma validated_expands:
  assumes "validateParameters jc command template ps = Inr ()"
  shows "expandTemplate jc template ps = Inr (map (fill (parameter_text jc ps)) template)"
proof -
  have ok: "\<forall>ph \<in> set (findPlaceholders template). lookup_fold ps ph \<noteq> None"
    using assms by (auto simp: validateParameters_def Let_def all_ok_iff parameter_required_def elim!: bindR_InrE split: if_splits)
  have "lookup_fold ps n \<noteq> None" if "arg \<in> set template" "n \<in> set (holes arg)" for arg n
  proof -
    have "n \<in> set (concat (map holes template))" using that by auto
    then obtain y where y: "y \<in> set (findPlaceholders template)" "ToLower y = ToLower n"
      unfolding findPlaceholders_def using distinct_lower_covers by blast
    then have "lookup_fold ps y \<noteq> None" using ok by blast
    then show ?thesis using y(2) by (auto simp: lookup_fold_None_iff EqualFold_def)
  qed
  then show ?thesis by (auto simp: expandTemplate_iff)
qed

end
