(* ===== verification/Cli_Catalog.thy ===== *)
theory Cli_Catalog
  imports Cli_Models "HOL-Library.Char_ord" "HOL-Library.List_Lexorder"
begin

section \<open>External command line tools: the catalog of presets\<close>

text \<open>
  \<open>ExternalCliPresetCatalog\<close> of \<open>src/openclaw/core/external_cli.go\<close>: the built-in connectors, and how the connectors of the
  configuration are merged with those it asks for. The values of the model are not shared, so the functions of the
  source that only copy are left out; those that also change names are not.
\<close>

subsection \<open>Presets\<close>

definition RepoPattern :: string where
  "RepoPattern = ''^[A-Za-z0-9_.-]+/[A-Za-z0-9_.-]+$''"

definition NumberPattern :: string where
  "NumberPattern = ''^[0-9]+$''"

definition SimpleNamePattern :: string where
  "SimpleNamePattern = ''^[A-Za-z0-9_.:-]+$''"

record ExternalCliPresetDefinition =
  pd_Summary :: ExternalCliPresetSummary
  pd_Connector :: ExternalCliConnectorOptions

definition getSortedKeys :: "(string \<times> 'a) list \<Rightarrow> string list" where
  "getSortedKeys m = sort_key ToLower (map fst m)"

text \<open>The composite literals of the presets: the fields they name, the rest being the zero value.\<close>

definition preset_command ::
    "string \<Rightarrow> string list \<Rightarrow> bool \<Rightarrow> string \<Rightarrow> bool \<Rightarrow> (string \<times> ExternalCliParameterOptions) list \<Rightarrow> string \<Rightarrow> string list \<Rightarrow>
     ExternalCliCommandOptions" where
  "preset_command description template readOnly risk approval params out tags =
     \<lparr>xm_Description = description, xm_ArgsTemplate = template, xm_Parameters = Some params,
      xm_AllowUnknownParameters = False, xm_RiskLevel = risk, xm_ReadOnly = readOnly, xm_RequiresApproval = approval,
      xm_SupportsDryRun = False, xm_DryRunArgsTemplate = [], xm_StructuredOutput = out, xm_TimeoutSeconds = None,
      xm_WorkingDirectory = [], xm_Environment = None, xm_RedactionRules = [], xm_RequiredScopes = [],
      xm_RequiredIdentity = [], xm_Tags = tags\<rparr>"

definition required_param :: "string \<Rightarrow> int \<Rightarrow> string \<Rightarrow> ExternalCliParameterOptions" where
  "required_param description maxLength pattern =
     \<lparr>xp_Required = True, xp_Description = description, xp_MaxLength = maxLength, xp_Pattern = pattern,
      xp_AllowedValues = []\<rparr>"

definition preset_definition ::
    "string \<Rightarrow> string \<Rightarrow> string \<Rightarrow> string list \<Rightarrow> (string \<times> ExternalCliCommandOptions) list \<Rightarrow> string \<Rightarrow> string \<Rightarrow>
     ExternalCliStatusCommandOptions option \<Rightarrow> ExternalCliStatusCommandOptions option \<Rightarrow> ExternalCliPresetDefinition" where
  "preset_definition i displayName description tags commands executable format status version =
     \<lparr>pd_Summary = \<lparr>ps_Id = i, ps_Connector = i, ps_DisplayName = displayName, ps_Description = description,
        ps_Tags = tags, ps_Commands = getSortedKeys commands\<rparr>,
      pd_Connector = \<lparr>xc_Enabled = False, xc_DisplayName = displayName, xc_Executable = executable, xc_DefaultArgs = [],
        xc_WorkingDirectory = [], xc_Environment = None, xc_StatusCommand = status, xc_VersionCommand = version,
        xc_DefaultOutputFormat = format, xc_RequiresApproval = False, xc_RedactionRules = [],
        xc_Commands = commands\<rparr>\<rparr>"

definition gh_commands :: "(string \<times> ExternalCliCommandOptions) list" where
  "gh_commands =
     [(''repo_view'', preset_command ''View repository metadata.''
        [''repo'', ''view'', ''{{repo}}'', ''--json'', ''name,owner,description,url,isPrivate'']
        True RiskLow False [(''repo'', required_param ''owner/repo repository name.'' 0 RepoPattern)]
        FormatJson [''github'', ''repository'']),
      (''issue_list'', preset_command ''List repository issues.''
        [''issue'', ''list'', ''--repo'', ''{{repo}}'', ''--json'', ''number,title,state,author,url,labels'']
        True RiskLow False [(''repo'', required_param ''owner/repo repository name.'' 0 RepoPattern)]
        FormatJson [''github'', ''issues'']),
      (''pr_list'', preset_command ''List repository pull requests.''
        [''pr'', ''list'', ''--repo'', ''{{repo}}'', ''--json'', ''number,title,state,author,url,headRefName,baseRefName'']
        True RiskLow False [(''repo'', required_param ''owner/repo repository name.'' 0 RepoPattern)]
        FormatJson [''github'', ''pull-requests'']),
      (''pr_view'', preset_command ''View pull request metadata.''
        [''pr'', ''view'', ''{{number}}'', ''--repo'', ''{{repo}}'', ''--json'', ''number,title,state,url,mergeStateStatus,reviewDecision,headRefName,baseRefName'']
        True RiskLow False [(''repo'', required_param ''owner/repo repository name.'' 0 RepoPattern),
         (''number'', required_param ''Pull request number.'' 0 NumberPattern)]
        FormatJson [''github'', ''pull-requests'']),
      (''release_list'', preset_command ''List repository releases.''
        [''release'', ''list'', ''--repo'', ''{{repo}}'', ''--json'', ''name,tagName,isDraft,isPrerelease,publishedAt,url'']
        True RiskLow False [(''repo'', required_param ''owner/repo repository name.'' 0 RepoPattern)]
        FormatJson [''github'', ''releases'']),
      (''issue_comment'', preset_command ''Add a comment to a GitHub issue or pull request.''
        [''issue'', ''comment'', ''{{number}}'', ''--repo'', ''{{repo}}'', ''--body'', ''{{body}}'']
        False RiskMedium True [(''repo'', required_param ''owner/repo repository name.'' 0 RepoPattern),
         (''number'', required_param ''Issue or pull request number.'' 0 NumberPattern),
         (''body'', required_param ''Comment body.'' 16000 [])]
        [] [''github'', ''issues'', ''mutating''])]"

definition gh_preset :: ExternalCliPresetDefinition where
  "gh_preset = preset_definition ''gh'' ''GitHub CLI''
     ''Read-oriented GitHub repository, issue, pull request, and release commands.''
     [''github'', ''vcs''] gh_commands ''gh'' FormatJson
     (Some \<lparr>xs_Args = [''auth'', ''status''], xs_TimeoutSeconds = 20\<rparr>)
     (Some \<lparr>xs_Args = [''--version''], xs_TimeoutSeconds = 10\<rparr>)"

definition az_commands :: "(string \<times> ExternalCliCommandOptions) list" where
  "az_commands =
     [(''account_show'', preset_command ''Show the active Azure account.''
        [''account'', ''show'', ''--output'', ''json'']
        True RiskLow False []
        FormatJson [''azure'', ''account'']),
      (''group_list'', preset_command ''List Azure resource groups.''
        [''group'', ''list'', ''--output'', ''json'']
        True RiskLow False []
        FormatJson [''azure'', ''resource-groups'']),
      (''resource_list'', preset_command ''List Azure resources.''
        [''resource'', ''list'', ''--output'', ''json'']
        True RiskLow False []
        FormatJson [''azure'', ''resources''])]"

definition az_preset :: ExternalCliPresetDefinition where
  "az_preset = preset_definition ''az'' ''Azure CLI''
     ''Read-only Azure account, resource group, and resource inventory commands.''
     [''azure'', ''cloud''] az_commands ''az'' FormatJson
     (Some \<lparr>xs_Args = [''account'', ''show'', ''--output'', ''json''], xs_TimeoutSeconds = 20\<rparr>)
     (Some \<lparr>xs_Args = [''--version''], xs_TimeoutSeconds = 10\<rparr>)"

definition kube_commands :: "(string \<times> ExternalCliCommandOptions) list" where
  "kube_commands =
     [(''current_context'', preset_command ''Show the current Kubernetes context.''
        [''config'', ''current-context'']
        True RiskLow False []
        FormatText [''kubernetes'', ''context'']),
      (''get_pods_all'', preset_command ''List pods in all namespaces.''
        [''get'', ''pods'', ''--all-namespaces'', ''-o'', ''json'']
        True RiskLow False []
        FormatJson [''kubernetes'', ''pods'']),
      (''get_pods'', preset_command ''List pods in one namespace.''
        [''get'', ''pods'', ''--namespace'', ''{{namespace}}'', ''-o'', ''json'']
        True RiskLow False [(''namespace'', required_param ''Kubernetes namespace.'' 0 SimpleNamePattern)]
        FormatJson [''kubernetes'', ''pods'']),
      (''get_services_all'', preset_command ''List services in all namespaces.''
        [''get'', ''services'', ''--all-namespaces'', ''-o'', ''json'']
        True RiskLow False []
        FormatJson [''kubernetes'', ''services'']),
      (''get_deployments_all'', preset_command ''List deployments in all namespaces.''
        [''get'', ''deployments'', ''--all-namespaces'', ''-o'', ''json'']
        True RiskLow False []
        FormatJson [''kubernetes'', ''deployments''])]"

definition kube_preset :: ExternalCliPresetDefinition where
  "kube_preset = preset_definition ''kubectl'' ''kubectl''
     ''Read-only Kubernetes context and workload inventory commands.''
     [''kubernetes'', ''cluster''] kube_commands ''kubectl'' FormatJson
     (Some \<lparr>xs_Args = [''config'', ''current-context''], xs_TimeoutSeconds = 10\<rparr>)
     (Some \<lparr>xs_Args = [''version'', ''--client=true'', ''-o'', ''json''], xs_TimeoutSeconds = 15\<rparr>)"

definition stripe_commands :: "(string \<times> ExternalCliCommandOptions) list" where
  "stripe_commands =
     [(''version'', preset_command ''Show Stripe CLI version.''
        [''--version'']
        True RiskLow False []
        FormatText [''stripe'', ''diagnostics'']),
      (''customers_list'', preset_command ''List Stripe customers with a small limit. Customer data can contain PII.''
        [''customers'', ''list'', ''--limit'', ''{{limit}}'']
        True RiskMedium True [(''limit'', required_param ''Maximum customers to list.'' 0 NumberPattern)]
        FormatText [''stripe'', ''customers'', ''pii''])]"

definition stripe_preset :: ExternalCliPresetDefinition where
  "stripe_preset = preset_definition ''stripe'' ''Stripe CLI''
     ''Conservative Stripe CLI commands with PII-bearing reads approval-gated.''
     [''stripe'', ''payments''] stripe_commands ''stripe'' FormatText
     None
     (Some \<lparr>xs_Args = [''--version''], xs_TimeoutSeconds = 10\<rparr>)"

definition lark_commands :: "(string \<times> ExternalCliCommandOptions) list" where
  "lark_commands =
     [(''auth_status'', preset_command ''Show Lark CLI authentication status.''
        [''auth'', ''status'']
        True RiskLow False []
        FormatJson [''lark'', ''auth'']),
      (''docs_search'', preset_command ''Search Lark docs.''
        [''docs'', ''search'', ''{{query}}'', ''--output'', ''json'']
        True RiskLow False [(''query'', required_param ''Search query.'' 500 [])]
        FormatJson [''lark'', ''docs'']),
      (''docs_read'', preset_command ''Read a Lark document.''
        [''docs'', ''read'', ''{{document_id}}'', ''--output'', ''json'']
        True RiskLow False [(''document_id'', required_param ''Lark document identifier.'' 0 SimpleNamePattern)]
        FormatJson [''lark'', ''docs'']),
      (''sheets_read'', preset_command ''Read a Lark sheet range.''
        [''sheets'', ''read'', ''{{sheet_id}}'', ''{{range}}'', ''--output'', ''json'']
        True RiskLow False [(''sheet_id'', required_param ''Lark sheet identifier.'' 0 SimpleNamePattern),
         (''range'', required_param ''Sheet range.'' 200 [])]
        FormatJson [''lark'', ''sheets'']),
      (''message_send'', preset_command ''Send a Lark message.''
        [''messages'', ''send'', ''--chat'', ''{{chat_id}}'', ''--text'', ''{{text}}'', ''--output'', ''json'']
        False RiskMedium True [(''chat_id'', required_param ''Lark chat identifier.'' 0 SimpleNamePattern),
         (''text'', required_param ''Message text.'' 4000 [])]
        FormatJson [''lark'', ''messages'', ''mutating''])]"

definition lark_preset :: ExternalCliPresetDefinition where
  "lark_preset = preset_definition ''lark'' ''Lark CLI''
     ''Generic lark-cli compatible templates for auth checks, docs, sheets, and guarded sends.''
     [''lark'', ''feishu'', ''collaboration''] lark_commands ''lark-cli'' FormatJson
     (Some \<lparr>xs_Args = [''auth'', ''status''], xs_TimeoutSeconds = 20\<rparr>)
     (Some \<lparr>xs_Args = [''--version''], xs_TimeoutSeconds = 10\<rparr>)"

definition copilot_commands :: "(string \<times> ExternalCliCommandOptions) list" where
  "copilot_commands =
     [(''version'', preset_command ''Show GitHub Copilot CLI version.''
        [''version'']
        True RiskLow False []
        FormatText [''github'', ''copilot'', ''diagnostics'']),
      (''prompt'', preset_command ''Run a non-interactive GitHub Copilot CLI prompt.''
        [''-p'', ''{{prompt}}'']
        False RiskHigh True [(''prompt'', required_param ''Prompt to send to GitHub Copilot CLI.'' 8000 [])]
        [] [''github'', ''copilot'', ''ai-agent''])]"

definition copilot_preset :: ExternalCliPresetDefinition where
  "copilot_preset = preset_definition ''github-copilot'' ''GitHub Copilot CLI''
     ''GitHub Copilot CLI non-interactive prompt and diagnostic commands.''
     [''github'', ''copilot'', ''ai''] copilot_commands ''copilot'' FormatText
     None
     (Some \<lparr>xs_Args = [''version''], xs_TimeoutSeconds = 10\<rparr>)"

definition codex_commands :: "(string \<times> ExternalCliCommandOptions) list" where
  "codex_commands =
     [(''version'', preset_command ''Show Codex CLI version.''
        [''--version'']
        True RiskLow False []
        FormatText [''codex'', ''diagnostics'']),
      (''exec_readonly'', preset_command ''Run Codex non-interactively in an explicit read-only sandbox.''
        [''exec'', ''--sandbox'', ''read-only'', ''{{prompt}}'']
        True RiskMedium True [(''prompt'', required_param ''Prompt to send to Codex CLI.'' 8000 [])]
        [] [''codex'', ''ai-agent'']),
      (''exec_readonly_json'', preset_command ''Run Codex non-interactively with JSON Lines events in a read-only sandbox.''
        [''exec'', ''--sandbox'', ''read-only'', ''--json'', ''{{prompt}}'']
        True RiskMedium True [(''prompt'', required_param ''Prompt to send to Codex CLI.'' 8000 [])]
        FormatNdjson [''codex'', ''ai-agent'', ''jsonl'']),
      (''exec_workspace_write'', preset_command ''Run Codex non-interactively with workspace-write sandboxing.''
        [''exec'', ''--sandbox'', ''workspace-write'', ''{{prompt}}'']
        False RiskHigh True [(''prompt'', required_param ''Prompt to send to Codex CLI.'' 8000 [])]
        [] [''codex'', ''ai-agent'', ''mutating''])]"

definition codex_preset :: ExternalCliPresetDefinition where
  "codex_preset = preset_definition ''codex'' ''Codex CLI''
     ''Codex CLI non-interactive exec commands with explicit sandbox choices.''
     [''codex'', ''openai'', ''ai''] codex_commands ''codex'' FormatText
     None
     (Some \<lparr>xs_Args = [''--version''], xs_TimeoutSeconds = 10\<rparr>)"

definition gemini_commands :: "(string \<times> ExternalCliCommandOptions) list" where
  "gemini_commands =
     [(''version'', preset_command ''Show Gemini CLI version.''
        [''--version'']
        True RiskLow False []
        FormatText [''gemini'', ''diagnostics'']),
      (''prompt'', preset_command ''Run a non-interactive Gemini CLI prompt.''
        [''-p'', ''{{prompt}}'']
        False RiskHigh True [(''prompt'', required_param ''Prompt to send to Gemini CLI.'' 8000 [])]
        [] [''gemini'', ''ai-agent''])]"

definition gemini_preset :: ExternalCliPresetDefinition where
  "gemini_preset = preset_definition ''gemini'' ''Gemini CLI''
     ''Gemini CLI non-interactive prompt and diagnostic commands.''
     [''gemini'', ''google'', ''ai''] gemini_commands ''gemini'' FormatText
     None
     (Some \<lparr>xs_Args = [''--version''], xs_TimeoutSeconds = 10\<rparr>)"

definition presetsInstance :: "(string \<times> ExternalCliPresetDefinition) list" where
  "presetsInstance =
     [(''gh'', gh_preset), (''az'', az_preset), (''kubectl'', kube_preset), (''stripe'', stripe_preset),
      (''lark'', lark_preset), (''github-copilot'', copilot_preset), (''codex'', codex_preset), (''gemini'', gemini_preset)]"

lemmas preset_commands_defs = gh_commands_def az_commands_def kube_commands_def stripe_commands_def lark_commands_def
  copilot_commands_def codex_commands_def gemini_commands_def

lemmas preset_defs = gh_preset_def az_preset_def kube_preset_def stripe_preset_def lark_preset_def copilot_preset_def
  codex_preset_def gemini_preset_def preset_definition_def

subsection \<open>Merging\<close>

definition riskRank :: "string \<Rightarrow> nat" where
  "riskRank risk =
     (if NormalizeRiskLevel risk = RiskHigh then 3 else if NormalizeRiskLevel risk = RiskMedium then 2 else 1)"

definition maxRisk_cli :: "string \<Rightarrow> string \<Rightarrow> string" where
  "maxRisk_cli left right =
     (if riskRank (NormalizeRiskLevel right) > riskRank (NormalizeRiskLevel left) then NormalizeRiskLevel right
      else NormalizeRiskLevel left)"

definition prefer_set :: "string \<Rightarrow> string \<Rightarrow> string" where
  "prefer_set configured preset = (if IsBlank configured then preset else configured)"

definition mergeStringSet :: "string list \<Rightarrow> string list \<Rightarrow> string list" where
  "mergeStringSet preset configured = DistinctStrings (filter (\<lambda>v. \<not> IsBlank v) (preset @ configured))"

text \<open>\<open>maps.Copy\<close> writes into the map of the preset; that panics when the map is nil and there is something to write.\<close>

definition mergeDictionary :: "string go_map \<Rightarrow> string go_map \<Rightarrow> string go_map go_result" where
  "mergeDictionary preset configured =
     (case preset of
        None \<Rightarrow> if entries configured = [] then Inr None else Inl (GoPanic ''assignment to entry in nil map'')
      | Some m \<Rightarrow> Inr (Some (fold (\<lambda>(k, v). AList.update k v) (entries configured) m)))"

definition mergeParameter ::
    "ExternalCliParameterOptions \<Rightarrow> ExternalCliParameterOptions \<Rightarrow> ExternalCliParameterOptions" where
  "mergeParameter preset configured =
     \<lparr>xp_Required = xp_Required preset \<or> xp_Required configured,
      xp_Description = prefer_set (xp_Description configured) (xp_Description preset),
      xp_MaxLength = (if xp_MaxLength configured = 0 then xp_MaxLength preset else xp_MaxLength configured),
      xp_Pattern = prefer_set (xp_Pattern configured) (xp_Pattern preset),
      xp_AllowedValues =
        (if xp_AllowedValues configured = [] then xp_AllowedValues preset else xp_AllowedValues configured)\<rparr>"

definition merge_entry ::
    "string \<times> ExternalCliParameterOptions \<Rightarrow> (string \<times> ExternalCliParameterOptions) list \<Rightarrow>
     (string \<times> ExternalCliParameterOptions) list" where
  "merge_entry e res =
     AList.update (fst e)
       (case map_of res (fst e) of Some p \<Rightarrow> mergeParameter p (snd e) | None \<Rightarrow> snd e) res"

definition mergeParameters ::
    "ExternalCliParameterOptions go_map \<Rightarrow> ExternalCliParameterOptions go_map \<Rightarrow> ExternalCliParameterOptions go_map go_result" where
  "mergeParameters preset configured =
     (case preset of
        None \<Rightarrow> if entries configured = [] then Inr None else Inl (GoPanic ''assignment to entry in nil map'')
      | Some m \<Rightarrow> Inr (Some (fold merge_entry (entries configured) m)))"

definition mergeStatusCommand ::
    "ExternalCliStatusCommandOptions option \<Rightarrow> ExternalCliStatusCommandOptions option \<Rightarrow> ExternalCliStatusCommandOptions option" where
  "mergeStatusCommand preset configured =
     (case preset of
        None \<Rightarrow> configured
      | Some p \<Rightarrow>
          (case configured of
             None \<Rightarrow> Some p
           | Some c \<Rightarrow> Some
               \<lparr>xs_Args = (if xs_Args c = [] then xs_Args p else xs_Args c),
                xs_TimeoutSeconds = (if xs_TimeoutSeconds c = 0 then xs_TimeoutSeconds p else xs_TimeoutSeconds c)\<rparr>))"

definition preferNullable :: "string \<Rightarrow> string \<Rightarrow> string" where
  "preferNullable one two = (if one \<noteq> [] then one else two)"

definition preferOptionalInt :: "int option \<Rightarrow> int option \<Rightarrow> int option" where
  "preferOptionalInt one two = (case one of Some i \<Rightarrow> Some i | None \<Rightarrow> two)"

definition mergeCommand ::
    "ExternalCliCommandOptions \<Rightarrow> ExternalCliCommandOptions \<Rightarrow> ExternalCliCommandOptions go_result" where
  "mergeCommand preset configured =
     bindR (mergeParameters (xm_Parameters preset) (xm_Parameters configured)) (\<lambda>parameters.
     bindR (mergeDictionary (xm_Environment preset) (xm_Environment configured)) (\<lambda>environment.
     Inr \<lparr>xm_Description = prefer_set (xm_Description configured) (xm_Description preset),
          xm_ArgsTemplate = (if xm_ArgsTemplate configured \<noteq> [] then xm_ArgsTemplate configured else xm_ArgsTemplate preset),
          xm_Parameters = parameters,
          xm_AllowUnknownParameters = xm_AllowUnknownParameters preset \<or> xm_AllowUnknownParameters configured,
          xm_RiskLevel = maxRisk_cli (xm_RiskLevel preset) (xm_RiskLevel configured),
          xm_ReadOnly = (xm_ReadOnly preset \<and> xm_ReadOnly configured),
          xm_RequiresApproval = xm_RequiresApproval preset \<or> xm_RequiresApproval configured,
          xm_SupportsDryRun = xm_SupportsDryRun preset \<or> xm_SupportsDryRun configured,
          xm_DryRunArgsTemplate =
            (if xm_DryRunArgsTemplate configured \<noteq> [] then xm_DryRunArgsTemplate configured else xm_DryRunArgsTemplate preset),
          xm_StructuredOutput = prefer_set (xm_StructuredOutput configured) (xm_StructuredOutput preset),
          xm_TimeoutSeconds = preferOptionalInt (xm_TimeoutSeconds configured) (xm_TimeoutSeconds preset),
          xm_WorkingDirectory = preferNullable (xm_WorkingDirectory configured) (xm_WorkingDirectory preset),
          xm_Environment = environment,
          xm_RedactionRules = mergeStringSet (xm_RedactionRules preset) (xm_RedactionRules configured),
          xm_RequiredScopes = mergeStringSet (xm_RequiredScopes preset) (xm_RequiredScopes configured),
          xm_RequiredIdentity = preferNullable (xm_RequiredIdentity configured) (xm_RequiredIdentity preset),
          xm_Tags = mergeStringSet (xm_Tags preset) (xm_Tags configured)\<rparr>))"

text \<open>Copying the commands of a connector also turns their names to lower case.\<close>

definition cloneCommands :: "(string \<times> ExternalCliCommandOptions) list \<Rightarrow> (string \<times> ExternalCliCommandOptions) list" where
  "cloneCommands source = fold (\<lambda>(name, command). AList.update (ToLower name) command) source []"

definition cloneConnector :: "ExternalCliConnectorOptions \<Rightarrow> ExternalCliConnectorOptions" where
  "cloneConnector source = source\<lparr>xc_Commands := cloneCommands (xc_Commands source)\<rparr>"

fun merge_commands ::
    "(string \<times> ExternalCliCommandOptions) list \<Rightarrow> (string \<times> ExternalCliCommandOptions) list \<Rightarrow>
     (string \<times> ExternalCliCommandOptions) list go_result" where
  "merge_commands commands [] = Inr commands"
| "merge_commands commands ((name, command) # rest) =
     bindR (case map_of commands (ToLower name) of
              Some presetCommand \<Rightarrow> mergeCommand presetCommand command
            | None \<Rightarrow> Inr command)
       (\<lambda>merged. merge_commands (AList.update (ToLower name) merged commands) rest)"

definition mergeConnector ::
    "ExternalCliConnectorOptions \<Rightarrow> ExternalCliConnectorOptions \<Rightarrow> ExternalCliConnectorOptions go_result" where
  "mergeConnector preset configured =
     bindR (merge_commands (cloneCommands (xc_Commands preset)) (xc_Commands configured)) (\<lambda>commands.
     bindR (mergeDictionary (xc_Environment preset) (xc_Environment configured)) (\<lambda>environment.
     Inr \<lparr>xc_Enabled = xc_Enabled preset \<or> xc_Enabled configured,
          xc_DisplayName = prefer_set (xc_DisplayName configured) (xc_DisplayName preset),
          xc_Executable = prefer_set (xc_Executable configured) (xc_Executable preset),
          xc_DefaultArgs = (if xc_DefaultArgs configured \<noteq> [] then xc_DefaultArgs configured else xc_DefaultArgs preset),
          xc_WorkingDirectory = preferNullable (xc_WorkingDirectory configured) (xc_WorkingDirectory preset),
          xc_Environment = environment,
          xc_StatusCommand = mergeStatusCommand (xc_StatusCommand preset) (xc_StatusCommand configured),
          xc_VersionCommand = mergeStatusCommand (xc_VersionCommand preset) (xc_VersionCommand configured),
          xc_DefaultOutputFormat = prefer_set (xc_DefaultOutputFormat configured) (xc_DefaultOutputFormat preset),
          xc_RequiresApproval = xc_RequiresApproval preset \<or> xc_RequiresApproval configured,
          xc_RedactionRules = mergeStringSet (xc_RedactionRules preset) (xc_RedactionRules configured),
          xc_Commands = commands\<rparr>))"

subsection \<open>The options in effect\<close>

fun add_presets ::
    "string list \<Rightarrow> (string \<times> ExternalCliConnectorOptions) list \<Rightarrow> (string \<times> ExternalCliConnectorOptions) list" where
  "add_presets [] connectors = connectors"
| "add_presets (i # ids) connectors =
     add_presets ids
       (case map_of presetsInstance i of
          Some p \<Rightarrow> AList.update (ps_Connector (pd_Summary p)) (cloneConnector (pd_Connector p)) connectors
        | None \<Rightarrow> connectors)"

fun merge_connectors ::
    "(string \<times> ExternalCliConnectorOptions) list \<Rightarrow> (string \<times> ExternalCliConnectorOptions) list \<Rightarrow>
     (string \<times> ExternalCliConnectorOptions) list go_result" where
  "merge_connectors connectors [] = Inr connectors"
| "merge_connectors connectors ((name, connector) # rest) =
     bindR (case map_of connectors name of
              Some presetConnector \<Rightarrow> mergeConnector presetConnector connector
            | None \<Rightarrow> Inr (cloneConnector connector))
       (\<lambda>merged. merge_connectors (AList.update name merged connectors) rest)"

definition Apply_presets :: "ExternalCliOptions \<Rightarrow> ExternalCliOptions go_result" where
  "Apply_presets options =
     bindR (merge_connectors (add_presets (xo_Presets options) []) (xo_Connectors options)) (\<lambda>connectors.
       Inr (options\<lparr>xo_Connectors := connectors\<rparr>))"

subsection \<open>Looking presets up\<close>

definition FindUnknownPresetIds :: "ExternalCliOptions \<Rightarrow> string list" where
  "FindUnknownPresetIds options =
     sort (DistinctStrings (filter (\<lambda>i. map_of presetsInstance i = None) (xo_Presets options)))"

definition TryGet_preset :: "string \<Rightarrow> ExternalCliPresetSummary option" where
  "TryGet_preset i = map_option pd_Summary (map_of presetsInstance i)"

definition List_presets :: "ExternalCliPresetSummary list" where
  "List_presets = sort_key ps_Id (map (pd_Summary \<circ> snd) presetsInstance)"

end
