(* ===== verification/Cli_Registry.thy ===== *)
theory Cli_Registry
  imports Cli_Template Cli_Catalog "HOL-Library.Product_Lexorder"
begin

section \<open>External command line tools: the registry\<close>

text \<open>
  \<open>ExternalCliConnectorRegistry\<close> of \<open>src/openclaw/core/external_cli.go\<close>: lists and schemas of commands, the status of a
  connector, and \<open>BuildPreview\<close>, which turns a request into a command that is ready to run. The operating system, the
  regular expressions of the configuration, the redaction and SHA-256 are parameters.
\<close>

subsection \<open>What the registry is given\<close>

datatype stat_answer = StatMissing | StatFailed string | StatDir | StatFile

text \<open>How a command of the status ends: its exit code, or an error that is none.\<close>

datatype run_error = RunOk | RunExit int | RunOther string

record status_run =
  sr_Deadline :: bool
  sr_Cancelled :: bool
  sr_Stdout :: string
  sr_Stderr :: string
  sr_Error :: run_error

text \<open>\<open>os_Run\<close> takes the program, its arguments, its directory, its environment (\<open>None\<close>: that of the agent) and the time limit.\<close>

record cli_os =
  os_Windows :: bool
  os_IsAbs :: "string \<Rightarrow> bool"
  os_Join :: "string \<Rightarrow> string \<Rightarrow> string"
  os_SplitList :: "string \<Rightarrow> string list"
  os_Getenv :: "string \<Rightarrow> string"
  os_ExpandEnv :: "string \<Rightarrow> string"
  os_UserHomeDir :: "string + string"
  os_Abs :: "string \<Rightarrow> string + string"
  os_Stat :: "string \<Rightarrow> stat_answer"
  os_Run :: "string \<Rightarrow> string list \<Rightarrow> string \<Rightarrow> (string \<times> string) list option \<Rightarrow> int \<Rightarrow> status_run"
  os_Now :: int

record registry =
  rg_options :: ExternalCliOptions
  rg_Redact :: "string \<Rightarrow> string"
  rg_codec :: cli_codec
  rg_Replace :: "string \<Rightarrow> string \<Rightarrow> string option"   \<comment> \<open>\<open>ReplaceAllString\<close> of a pattern that compiles\<close>
  rg_sha :: "string \<Rightarrow> string"
  rg_os :: cli_os

definition NewExternalCliConnectorRegistry ::
    "ExternalCliOptions \<Rightarrow> (string \<Rightarrow> string) \<Rightarrow> cli_codec \<Rightarrow> (string \<Rightarrow> string \<Rightarrow> string option) \<Rightarrow> (string \<Rightarrow> string) \<Rightarrow>
     cli_os \<Rightarrow> registry go_result" where
  "NewExternalCliConnectorRegistry config redact jc replace sha os =
     bindR (Apply_presets config) (\<lambda>options.
       Inr \<lparr>rg_options = options, rg_Redact = redact, rg_codec = jc, rg_Replace = replace, rg_sha = sha, rg_os = os\<rparr>)"

subsection \<open>Connectors and commands\<close>

definition getConnector :: "registry \<Rightarrow> string \<Rightarrow> ExternalCliConnectorOptions go_result" where
  "getConnector e connectorName =
     (if IsBlank connectorName then Inl (GoErr ''External CLI connector is required'')
      else case map_of (xo_Connectors (rg_options e)) connectorName of
        None \<Rightarrow> Inl (GoErr (''Unknown external CLI connector '' @ quoted connectorName))
      | Some conn \<Rightarrow> Inr conn)"

definition getCommand :: "ExternalCliConnectorOptions \<Rightarrow> string \<Rightarrow> ExternalCliCommandOptions go_result" where
  "getCommand connector commandName =
     (if IsBlank commandName then Inl (GoErr ''External CLI command is required'')
      else case map_of (xc_Commands connector) commandName of
        None \<Rightarrow> Inl (GoErr (''Unknown external CLI command '' @ quoted commandName))
      | Some comm \<Rightarrow> Inr comm)"

definition requiresApproval :: "registry \<Rightarrow> ExternalCliConnectorOptions \<Rightarrow> ExternalCliCommandOptions \<Rightarrow> bool" where
  "requiresApproval e connector command \<longleftrightarrow>
     xc_RequiresApproval connector \<or> xm_RequiresApproval command \<or>
     NormalizeRiskLevel (xm_RiskLevel command) = RiskHigh \<or>
     (\<not> xm_ReadOnly command \<and> xo_RequireApprovalForMutatingCommands (rg_options e))"

definition resolveOutputFormat :: "ExternalCliConnectorOptions \<Rightarrow> ExternalCliCommandOptions \<Rightarrow> string" where
  "resolveOutputFormat connector command =
     (if IsBlank (xm_StructuredOutput command) then NormalizeOutputFormat (xc_DefaultOutputFormat connector)
      else NormalizeOutputFormat (xm_StructuredOutput command))"

definition GetCommandSchema :: "registry \<Rightarrow> string \<Rightarrow> string \<Rightarrow> ExternalCliCommandSchemaResponse go_result" where
  "GetCommandSchema e connectorName commandName =
     bindR (getConnector e connectorName) (\<lambda>connector.
     bindR (getCommand connector commandName) (\<lambda>command.
       let parameterKeys = map fst (filter (xp_Required \<circ> snd) (entries (xm_Parameters command)))
       in Inr \<lparr>sr_Connector = connectorName, sr_Command = commandName, sr_Description = xm_Description command,
            sr_Parameters = xm_Parameters command,
            sr_RequiredParameters = sort (DistinctStrings (findPlaceholders (xm_ArgsTemplate command) @ parameterKeys)),
            sr_RiskLevel = NormalizeRiskLevel (xm_RiskLevel command), sr_ReadOnly = xm_ReadOnly command,
            sr_RequiresApproval = requiresApproval e connector command, sr_SupportsDryRun = xm_SupportsDryRun command,
            sr_StructuredOutput = resolveOutputFormat connector command\<rparr>))"

definition ListCommands :: "registry \<Rightarrow> string \<Rightarrow> ExternalCliCommandSummary list go_result" where
  "ListCommands e connectorName =
     bindR (getConnector e connectorName) (\<lambda>connector.
       Inr (sort_key ms_CommandName (map (\<lambda>(key, command).
         \<lparr>ms_CommandName = key, ms_CommandDescription = xm_Description command,
          ms_RiskLevel = NormalizeRiskLevel (xm_RiskLevel command), ms_ReadOnly = xm_ReadOnly command,
          ms_RequiresApproval = requiresApproval e connector command, ms_SupportsDryRun = xm_SupportsDryRun command,
          ms_StructuredOutput = resolveOutputFormat connector command, ms_CommandTags = xm_Tags command\<rparr>)
         (xc_Commands connector))))"

definition ListConnectors :: "registry \<Rightarrow> ExternalCliConnectorSummary list" where
  "ListConnectors e =
     sort_key cs_Name (map (\<lambda>(key, v).
       \<lparr>cs_Name = key, cs_DisplayName = (if IsBlank (xc_DisplayName v) then key else xc_DisplayName v),
        cs_Enabled = xc_Enabled v, cs_Executable = xc_Executable v, cs_CommandCount = length (xc_Commands v)\<rparr>)
       (xo_Connectors (rg_options e)))"

subsection \<open>The executable\<close>

text \<open>\<open>util.FileExists\<close> looks at the answer of \<open>os.Stat\<close> although there is none when it fails for another reason.\<close>

definition cli_FileExists :: "cli_os \<Rightarrow> string \<Rightarrow> bool go_result" where
  "cli_FileExists os p =
     (case os_Stat os p of
        StatMissing \<Rightarrow> Inr False
      | StatFailed err \<Rightarrow> Inl (GoPanic ''nil pointer dereference'')
      | StatDir \<Rightarrow> Inr False
      | StatFile \<Rightarrow> Inr True)"

definition getEnvIgnoreCase :: "(string \<times> string) list \<Rightarrow> string \<Rightarrow> string" where
  "getEnvIgnoreCase env target =
     (case find (\<lambda>e. EqualFold (fst e) target) env of None \<Rightarrow> [] | Some e \<Rightarrow> snd e)"

fun first_existing :: "cli_os \<Rightarrow> string list \<Rightarrow> string go_result" where
  "first_existing os [] = Inr []"
| "first_existing os (p # ps) = bindR (cli_FileExists os p) (\<lambda>found. if found then Inr p else first_existing os ps)"

definition windows_candidates :: "cli_os \<Rightarrow> string \<Rightarrow> (string \<times> string) list \<Rightarrow> string list" where
  "windows_candidates os executable environment =
     (let fromEnv = getEnvIgnoreCase environment ''PATHEXT'';
          own = (if fromEnv = [] then os_Getenv os ''PATHEXT'' else fromEnv);
          pathext = (if TrimSpace own = [] then ''.EXE;.BAT;.CMD'' else own);
          exts = filter (\<lambda>ext. ext \<noteq> []) (map TrimSpace (Split (CHR '';'') pathext));
          candidate = (\<lambda>ext. if HasSuffix (ToLower executable) (ToLower ext) then executable else executable @ ext)
      in distinct_lower (map candidate exts @ [executable]))"

definition resolveExecutable :: "cli_os \<Rightarrow> string \<Rightarrow> (string \<times> string) list \<Rightarrow> string go_result" where
  "resolveExecutable os executable environment =
     (if TrimSpace executable = [] then Inr []
      else if os_IsAbs os executable then
        bindR (cli_FileExists os executable) (\<lambda>found. Inr (if found then executable else []))
      else
        (let fromEnv = getEnvIgnoreCase environment ''PATH'';
             pathVal = (if fromEnv = [] then os_Getenv os ''PATH'' else fromEnv);
             candidates = (if os_Windows os then windows_candidates os executable environment else [executable]);
             dirs = filter (\<lambda>d. d \<noteq> []) (map TrimSpace (os_SplitList os pathVal))
         in if TrimSpace pathVal = [] then Inr []
            else first_existing os (concat (map (\<lambda>dir. map (os_Join os dir) candidates) dirs))))"

subsection \<open>Redaction and working directory\<close>

fun redact_rules :: "(string \<Rightarrow> string \<Rightarrow> string option) \<Rightarrow> string list \<Rightarrow> string \<Rightarrow> string" where
  "redact_rules replace [] current = current"
| "redact_rules replace (pattern # rules) current =
     redact_rules replace rules
       (if TrimSpace pattern = [] then current
        else case replace pattern current of None \<Rightarrow> current | Some t \<Rightarrow> t)"

definition registry_redact :: "registry \<Rightarrow> string \<Rightarrow> string list \<Rightarrow> string" where
  "registry_redact s val rules =
     (if \<not> xo_RedactSecrets (rg_options s) then val else redact_rules (rg_Replace s) rules (rg_Redact s val))"

definition redactArgs :: "registry \<Rightarrow> string list \<Rightarrow> string list \<Rightarrow> string list" where
  "redactArgs e args rules = map (\<lambda>a. registry_redact e a rules) args"

definition resolveWorkingDirectory :: "cli_os \<Rightarrow> string \<Rightarrow> string go_result" where
  "resolveWorkingDirectory os configured =
     (if TrimSpace configured = [] then Inr []
      else
        (let expanded = os_ExpandEnv os configured;
             home = (if expanded = ''~'' \<or> HasPrefix expanded ''~/'' \<or> HasPrefix expanded (''~'' @ [CHR 92]) then
                 (case os_UserHomeDir os of
                    Inl err \<Rightarrow> Inl (GoErr (''failed to get user home directory: '' @ err))
                  | Inr homeDir \<Rightarrow> Inr (if expanded = ''~'' then homeDir else os_Join os homeDir (drop 2 expanded)))
               else Inr expanded)
         in bindR home (\<lambda>target.
            case os_Abs os target of
              Inl err \<Rightarrow> Inl (GoErr (''failed to resolve absolute path for '' @ quoted configured @ '': '' @ err))
            | Inr fullPath \<Rightarrow>
                (case os_Stat os fullPath of
                   StatMissing \<Rightarrow> Inl (GoErr (''external CLI working directory '' @ quoted configured @ '' does not exist''))
                 | StatFailed err \<Rightarrow> Inl (GoErr (''failed to check working directory '' @ quoted configured @ '': '' @ err))
                 | StatFile \<Rightarrow> Inl (GoErr (''external CLI working directory '' @ quoted configured @ '' is a file, not a directory''))
                 | StatDir \<Rightarrow> Inr fullPath))))"

subsection \<open>Status\<close>

definition runStatusCommand ::
    "registry \<Rightarrow> string \<Rightarrow> ExternalCliStatusCommandOptions \<Rightarrow> ExternalCliConnectorOptions \<Rightarrow> bool \<Rightarrow> string go_result" where
  "runStatusCommand e executable command connector captureExitCode =
     (let configured = (if xs_TimeoutSeconds command > 0 then xs_TimeoutSeconds command
            else if xo_DefaultTimeoutSeconds (rg_options e) > 20 then 20 else xo_DefaultTimeoutSeconds (rg_options e));
          timeoutSec = (if configured < 1 then 1 else if configured > 120 then 120 else configured);
          args = xc_DefaultArgs connector @ xs_Args command;
          environment = entries (xc_Environment connector)
      in bindR (resolveWorkingDirectory (rg_os e) (xc_WorkingDirectory connector)) (\<lambda>workDir.
         let r = os_Run (rg_os e) executable args workDir (if environment = [] then None else Some environment) timeoutSec;
             out = (if TrimSpace (sr_Stdout r) = [] then TrimSpace (sr_Stderr r) else TrimSpace (sr_Stdout r));
             outStr = registry_redact e out (xc_RedactionRules connector);
             exitCode = (case sr_Error r of RunOk \<Rightarrow> 0 | RunExit c \<Rightarrow> c | RunOther t \<Rightarrow> -1)
         in if sr_Deadline r \<and> \<not> sr_Cancelled r then
              Inr (if captureExitCode then ''exit=-1'' @ [CHR 10] @ ''timeout'' else ''timeout'')
            else if captureExitCode then Inr (''exit='' @ Itoa exitCode @ [CHR 10] @ outStr)
            else Inr outStr))"

definition status_output ::
    "registry \<Rightarrow> string \<Rightarrow> ExternalCliStatusCommandOptions option \<Rightarrow> ExternalCliConnectorOptions \<Rightarrow> bool \<Rightarrow>
     string option go_result" where
  "status_output e executableForStatus command connector captureExitCode =
     (case command of
        Some c \<Rightarrow>
          if executableForStatus \<noteq> [] \<and> xs_Args c \<noteq> [] then
            bindR (runStatusCommand e executableForStatus c connector captureExitCode) (\<lambda>s. Inr (Some s))
          else Inr None
      | None \<Rightarrow> Inr None)"

definition GetStatus :: "registry \<Rightarrow> string \<Rightarrow> ExternalCliConnectorStatus go_result" where
  "GetStatus e connectorName =
     bindR (getConnector e connectorName) (\<lambda>connector.
     bindR (resolveExecutable (rg_os e) (xc_Executable connector) (entries (xc_Environment connector))) (\<lambda>resolved.
       let warnings =
             (if IsBlank resolved then [''Executable '' @ quoted (xc_Executable connector) @ '' was not found on PATH''] else []) @
             (if xo_Enabled (rg_options e) then [] else [''External CLI connectors are disabled.'']) @
             (if xc_Enabled connector then [] else [''External CLI connector '' @ quoted connectorName @ '' is disabled'']);
           executableForStatus = (if xo_Enabled (rg_options e) \<and> xc_Enabled connector then resolved else [])
       in bindR (status_output e executableForStatus (xc_VersionCommand connector) connector False) (\<lambda>version.
          bindR (status_output e executableForStatus (xc_StatusCommand connector) connector True) (\<lambda>status.
          let authStatus =
                (case status of
                   None \<Rightarrow> ''unknown''
                 | Some s \<Rightarrow> if HasPrefix s (''exit=0'' @ [CHR 10]) then ''authenticated''
                            else if HasPrefix s ''exit='' then ''not_authenticated'' else ''unknown'')
          in Inr \<lparr>xk_Connector = connectorName,
                xk_DisplayName = (if IsBlank (xc_DisplayName connector) then connectorName else xc_DisplayName connector),
                xk_Enabled = xc_Enabled connector, xk_Executable = xc_Executable connector,
                xk_ExecutableFound = (resolved \<noteq> []), xk_ResolvedExecutablePath = resolved,
                xk_Version = (case version of None \<Rightarrow> [] | Some v \<Rightarrow> v),
                xk_Authenticated = (authStatus = ''authenticated''), xk_AuthenticationStatus = authStatus,
                xk_Warnings = warnings, xk_LastCheckedAtUtc = os_Now (rg_os e)\<rparr>))))"

end
