(* ===== verification/Cli_Preview.thy ===== *)
theory Cli_Preview
  imports Cli_Registry
begin

section \<open>External command line tools: prepared commands\<close>

text \<open>
  \<open>BuildPreview\<close> of \<open>src/openclaw/core/external_cli.go\<close> and the fingerprint by which a person approves a command; then what a
  prepared command is: enabled, checked, one argument for every argument of its template.
\<close>

subsection \<open>Fingerprints\<close>

definition unlines :: "string list \<Rightarrow> string" where
  "unlines ls = concat (map (\<lambda>l. l @ [CHR 10]) ls)"

definition fingerprint_lines ::
    "string \<Rightarrow> string \<Rightarrow> string \<Rightarrow> string list \<Rightarrow> string \<Rightarrow> int \<Rightarrow> string \<Rightarrow> bool \<Rightarrow> ExternalCliCommandOptions \<Rightarrow> string list" where
  "fingerprint_lines connectorName commandName resolvedExecutable args workingDirectory timeout outputFormat dryRun command =
     [connectorName, commandName, resolvedExecutable, workingDirectory, Itoa timeout, outputFormat,
      if dryRun then ''dry-run'' else ''execute'', NormalizeRiskLevel (xm_RiskLevel command),
      if xm_ReadOnly command then ''readonly'' else ''mutation''] @ args"

definition computeFingerprint ::
    "(string \<Rightarrow> string) \<Rightarrow> string \<Rightarrow> string \<Rightarrow> string \<Rightarrow> string list \<Rightarrow> string \<Rightarrow> int \<Rightarrow> string \<Rightarrow> bool \<Rightarrow> ExternalCliCommandOptions \<Rightarrow>
     string" where
  "computeFingerprint sha connectorName commandName resolvedExecutable args workingDirectory timeout outputFormat dryRun command =
     ComputeTurnHash sha (unlines
       (fingerprint_lines connectorName commandName resolvedExecutable args workingDirectory timeout outputFormat dryRun command))"

definition computeParametersHash :: "(string \<Rightarrow> string) \<Rightarrow> (string \<times> string) list \<Rightarrow> string" where
  "computeParametersHash sha parameters =
     ComputeTurnHash sha (unlines (map (\<lambda>(k, v). k @ ''='' @ v) (sort_key (\<lambda>p. (ToLower (fst p), fst p)) parameters)))"

text \<open>Lines without a newline can be told apart again.\<close>

lemma unlines_Cons: "unlines (l # ls) = l @ CHR 10 # unlines ls"
  by (simp add: unlines_def)

lemma line_split:
  "CHR 10 \<notin> set a \<Longrightarrow> CHR 10 \<notin> set b \<Longrightarrow> a @ CHR 10 # x = b @ CHR 10 # y \<longleftrightarrow> a = b \<and> x = (y :: string)"
proof (induction a arbitrary: b)
  case Nil
  then show ?case by (cases b) auto
next
  case (Cons c a)
  then show ?case by (cases b) auto
qed

lemma unlines_inj:
  "(\<forall>l \<in> set ls. CHR 10 \<notin> set l) \<Longrightarrow> (\<forall>l \<in> set ms. CHR 10 \<notin> set l) \<Longrightarrow> unlines ls = unlines ms \<longleftrightarrow> ls = ms"
proof (induction ls arbitrary: ms)
  case Nil
  then show ?case by (cases ms) (auto simp: unlines_def)
next
  case (Cons l ls)
  show ?case
  proof (cases ms)
    case Nil
    then show ?thesis by (auto simp: unlines_def)
  next
    case (Cons m ms')
    then show ?thesis using Cons.prems Cons.IH [of ms'] by (auto simp: unlines_Cons line_split)
  qed
qed

subsection \<open>The command line that is shown\<close>

definition quoteForPreview :: "string \<Rightarrow> string" where
  "quoteForPreview arg =
     (if list_ex is_space arg then CHR 34 # concat (map (\<lambda>c. if c = CHR 34 then [CHR 92, CHR 34] else [c]) arg) @ [CHR 34]
      else arg)"

definition buildCommandLine :: "string \<Rightarrow> string list \<Rightarrow> string" where
  "buildCommandLine executable args =
     (if args = [] then executable else executable @ '' '' @ Join (map quoteForPreview args) '' '')"

definition buildPreviewWarnings :: "cli_os \<Rightarrow> string \<Rightarrow> (string \<times> string) list \<Rightarrow> string list go_result" where
  "buildPreviewWarnings os executable environment =
     bindR (resolveExecutable os executable environment) (\<lambda>r.
       Inr (if r = [] then [''Executable '' @ quoted executable @ '' was not found on PATH.''] else []))"

subsection \<open>\<open>BuildPreview\<close>\<close>

text \<open>First the command a request may run at all, with the template of its arguments.\<close>

definition admit_command ::
    "registry \<Rightarrow> ExternalCliPreviewRequest \<Rightarrow> bool \<Rightarrow>
     (ExternalCliConnectorOptions \<times> ExternalCliCommandOptions \<times> string \<times> string list) go_result" where
  "admit_command e request dryRun =
     (if \<not> xo_Enabled (rg_options e) then Inl (GoErr ''external CLI connectors are disabled'')
      else if xo_AllowFreeformCommands (rg_options e) then
        Inl (GoErr ''external CLI free-form commands are not supported by this native connector'')
      else bindR (getConnector e (xq_Connector request)) (\<lambda>connector.
        if \<not> xc_Enabled connector then
          Inl (GoErr (''external CLI connector '' @ quoted (xq_Connector request) @ '' is disabled''))
        else if TrimSpace (xc_Executable connector) = [] then
          Inl (GoErr (''external CLI connector '' @ quoted (xq_Connector request) @ '' has no executable configured''))
        else bindR (getCommand connector (xq_Command request)) (\<lambda>command.
          let workDir = (if xm_WorkingDirectory command = [] then xc_WorkingDirectory connector else xm_WorkingDirectory command)
          in bindR (resolveWorkingDirectory (rg_os e) workDir) (\<lambda>workingDirectory.
            let name = quoted (xq_Connector request @ ''/'' @ xq_Command request);
                template = (if dryRun then xm_DryRunArgsTemplate command else xm_ArgsTemplate command)
            in if dryRun \<and> (\<not> xm_SupportsDryRun command \<or> xm_DryRunArgsTemplate command = []) then
                 Inl (GoErr (''external CLI command '' @ name @ '' does not have an explicit dry-run template''))
               else if template = [] then
                 Inl (GoErr (''external CLI command '' @ name @ '' has no argument template''))
               else Inr (connector, command, workingDirectory, template)))))"

definition merge_environment :: "string go_map \<Rightarrow> string go_map \<Rightarrow> (string \<times> string) list" where
  "merge_environment connector command =
     fold (\<lambda>(k, v). AList.update k v) (entries command) (fold (\<lambda>(k, v). AList.update k v) (entries connector) [])"

text \<open>Then the prepared command, from the arguments and the executable.\<close>

definition prepare_command ::
    "registry \<Rightarrow> ExternalCliPreviewRequest \<Rightarrow> bool \<Rightarrow> ExternalCliConnectorOptions \<Rightarrow> ExternalCliCommandOptions \<Rightarrow> string \<Rightarrow>
     string list \<Rightarrow> string \<Rightarrow> (string \<times> string) list \<Rightarrow> string list \<Rightarrow> ExternalCliPreparedCommand" where
  "prepare_command e request dryRun connector command workingDirectory args executable environment warnings =
     (let redactionRules = xc_RedactionRules connector @ xm_RedactionRules command;
          redactedArgs = redactArgs e args redactionRules;
          timeout = Clamp (case xm_TimeoutSeconds command of Some t \<Rightarrow> t | None \<Rightarrow> xo_DefaultTimeoutSeconds (rg_options e)) 1 3600;
          outputFormat = resolveOutputFormat connector command;
          fingerprint = computeFingerprint (rg_sha e) (xq_Connector request) (xq_Command request) executable args
            workingDirectory timeout outputFormat dryRun command
      in \<lparr>pc_ConnectorName = xq_Connector request, pc_CommandName = xq_Command request, pc_Connector = connector,
          pc_Command = command, pc_Executable = executable, pc_Arguments = args, pc_RedactedArguments = redactedArgs,
          pc_WorkingDirectory = workingDirectory, pc_Environment = environment,
          pc_Preview =
            \<lparr>xv_Connector = xq_Connector request, xv_Command = xq_Command request, xv_Executable = executable,
             xv_Arguments = args, xv_RedactedArguments = redactedArgs,
             xv_RedactedCommandLine = buildCommandLine executable redactedArgs,
             xv_RiskLevel = NormalizeRiskLevel (xm_RiskLevel command), xv_ReadOnly = xm_ReadOnly command,
             xv_RequiresApproval = requiresApproval e connector command, xv_SupportsDryRun = xm_SupportsDryRun command,
             xv_IsDryRun = dryRun, xv_StructuredOutput = outputFormat, xv_RequiredScopes = xm_RequiredScopes command,
             xv_RequiredIdentity = xm_RequiredIdentity command, xv_WorkingDirectory = workingDirectory,
             xv_TimeoutSeconds = timeout, xv_Fingerprint = fingerprint,
             xv_ParametersHash = computeParametersHash (rg_sha e) (xq_Parameters request), xv_Warnings = warnings\<rparr>,
          pc_MaxStdoutBytes = Clamp (xo_MaxStdoutBytes (rg_options e)) 1 (16 * 1024 * 1024),
          pc_MaxStderrBytes = Clamp (xo_MaxStderrBytes (rg_options e)) 1 (4 * 1024 * 1024),
          pc_RedactionRules = redactionRules\<rparr>)"

definition BuildPreview :: "registry \<Rightarrow> ExternalCliPreviewRequest \<Rightarrow> bool \<Rightarrow> ExternalCliPreparedCommand go_result" where
  "BuildPreview e request dryRun =
     bindR (admit_command e request dryRun) (\<lambda>(connector, command, workingDirectory, template).
     bindR (validateParameters (rg_codec e) command template (xq_Parameters request)) (\<lambda>_.
     bindR (expandTemplate (rg_codec e) template (xq_Parameters request)) (\<lambda>expandedArgs.
       let args = xc_DefaultArgs connector @ expandedArgs;
           environment = merge_environment (xc_Environment connector) (xm_Environment command)
       in bindR (resolveExecutable (rg_os e) (xc_Executable connector) environment) (\<lambda>resolved.
          bindR (buildPreviewWarnings (rg_os e) (xc_Executable connector) environment) (\<lambda>warnings.
            Inr (prepare_command e request dryRun connector command workingDirectory args
                  (if resolved = [] then xc_Executable connector else resolved) environment warnings))))))"

subsection \<open>What a prepared command is\<close>

lemma BuildPreview_InrE:
  assumes "BuildPreview e req dry = Inr p"
  obtains connector command wd template env ws exe where
    "admit_command e req dry = Inr (connector, command, wd, template)"
    "validateParameters (rg_codec e) command template (xq_Parameters req) = Inr ()"
    "p = prepare_command e req dry connector command wd
           (xc_DefaultArgs connector @ map (fill (parameter_text (rg_codec e) (xq_Parameters req))) template) exe env ws"
proof -
  obtain connector command wd template where a: "admit_command e req dry = Inr (connector, command, wd, template)"
    using assms by (auto simp: BuildPreview_def bindR_Inr_iff)
  with assms have v: "validateParameters (rg_codec e) command template (xq_Parameters req) = Inr ()"
    by (auto simp: BuildPreview_def bindR_Inr_iff Let_def)
  from assms show ?thesis
    using that [OF a v] by (auto simp: BuildPreview_def a v validated_expands [OF v] bindR_Inr_iff Let_def)
qed

lemma admit_command_Inr_iff:
  "admit_command e req dry = Inr (connector, command, wd, template) \<longleftrightarrow>
     xo_Enabled (rg_options e) \<and> \<not> xo_AllowFreeformCommands (rg_options e) \<and>
     getConnector e (xq_Connector req) = Inr connector \<and> xc_Enabled connector \<and> TrimSpace (xc_Executable connector) \<noteq> [] \<and>
     getCommand connector (xq_Command req) = Inr command \<and>
     resolveWorkingDirectory (rg_os e)
       (if xm_WorkingDirectory command = [] then xc_WorkingDirectory connector else xm_WorkingDirectory command) = Inr wd \<and>
     (dry \<longrightarrow> xm_SupportsDryRun command) \<and>
     template = (if dry then xm_DryRunArgsTemplate command else xm_ArgsTemplate command) \<and> template \<noteq> []"
  by (auto simp: admit_command_def bindR_Inr_iff Let_def)

lemma getConnector_Inr_iff:
  "getConnector e n = Inr c \<longleftrightarrow> \<not> IsBlank n \<and> map_of (xo_Connectors (rg_options e)) n = Some c"
  by (auto simp: getConnector_def split: option.splits)

lemma getCommand_Inr_iff:
  "getCommand conn n = Inr c \<longleftrightarrow> \<not> IsBlank n \<and> map_of (xc_Commands conn) n = Some c"
  by (auto simp: getCommand_def split: option.splits)

end
