(* ===== verification/Cli_Tool.thy ===== *)
theory Cli_Tool
  imports Cli_Preview Tool_Policy
begin

section \<open>External command line tools: the runner and the tool\<close>

text \<open>
  \<open>ExternalCliRunner\<close> of \<open>src/openclaw/core/external_cli.go\<close> and \<open>ExternalCliTool\<close> of
  \<open>src/openclaw/agent/tool/externalcli/tool.go\<close>. What a process does is a parameter of the runner; the tool records every
  run, event and audit entry in a trace. The contract between the tool and its registry is the locale \<open>connector_registry\<close>.
\<close>

subsection \<open>Reading the output of a process\<close>

text \<open>A reader gives chunks, each perhaps with an error; after the last one it is at its end.\<close>

type_synonym reader = "(string \<times> string option) list"

fun read_loop :: "reader \<Rightarrow> int \<Rightarrow> bool \<Rightarrow> string \<Rightarrow> string \<times> bool \<times> string option" where
  "read_loop [] remaining truncated out = (out, truncated, None)"
| "read_loop ((chunk, err) # reads) remaining truncated out =
     (let n = int (length chunk);
          out' = (if n > 0 \<and> remaining > 0 then out @ (if n > remaining then take (nat remaining) chunk else chunk) else out);
          truncated' = (truncated \<or> (n > 0 \<and> (remaining \<le> 0 \<or> n > remaining)));
          remaining' = (if n > 0 \<and> remaining > 0 then (if n > remaining then 0 else remaining - n) else remaining)
      in case err of
           Some e \<Rightarrow> ([], False, Some e)
         | None \<Rightarrow> read_loop reads remaining' truncated' out')"

definition readCapped :: "reader \<Rightarrow> int \<Rightarrow> string \<times> bool \<times> string option" where
  "readCapped reads maxBytes = read_loop reads maxBytes False []"

subsection \<open>Structured output\<close>

fun append_records :: "(string \<Rightarrow> string option) \<Rightarrow> string list \<Rightarrow> string \<Rightarrow> bool \<Rightarrow> string + (string \<times> bool)" where
  "append_records invalid [] buf hasRecords = Inr (buf, hasRecords)"
| "append_records invalid (l # ls) buf hasRecords =
     (let line = TrimSpace l in
      if line = [] then append_records invalid ls buf hasRecords
      else case invalid line of
        Some err \<Rightarrow> Inl err
      | None \<Rightarrow> append_records invalid ls (buf @ (if hasRecords then '','' else []) @ line) True)"

text \<open>\<open>invalid\<close> is the error of decoding a text as one JSON value, if there is one.\<close>

definition parseStructuredOutput :: "(string \<Rightarrow> string option) \<Rightarrow> string \<Rightarrow> string \<Rightarrow> string + string option" where
  "parseStructuredOutput invalid outputFormat out =
     (let stdout = TrimSpace out in
      if stdout = [] then Inr None
      else if outputFormat = ''json'' then
        (case invalid stdout of Some err \<Rightarrow> Inl err | None \<Rightarrow> Inr (Some stdout))
      else if outputFormat = ''ndjson'' then
        (case append_records invalid (Split (CHR 10) stdout) ''['' False of
           Inl err \<Rightarrow> Inl err
         | Inr (buf, hasRecords) \<Rightarrow> Inr (if hasRecords then Some (buf @ '']'') else None))
      else Inr None)"

subsection \<open>The runner\<close>

text \<open>One run of a process: an error before it runs, what its pipes give, how waiting for it ends, and whether the time was up.\<close>

datatype process_wait = WaitOk | WaitExit int | WaitOther string

record process_run =
  pr_StartError :: "string option"
  pr_Stdout :: reader
  pr_Stderr :: reader
  pr_Wait :: process_wait
  pr_DeadlineExceeded :: bool
  pr_StartedAt :: int
  pr_CompletedAt :: int

record runner =
  rn_Redact :: "string \<Rightarrow> string"
  rn_Replace :: "string \<Rightarrow> string \<Rightarrow> string option"
  rn_Invalid :: "string \<Rightarrow> string option"

text \<open>The program, its arguments, its directory, the variables added to the environment of the agent, and the time limit.\<close>

type_synonym process = "string \<Rightarrow> string list \<Rightarrow> string \<Rightarrow> (string \<times> string) list \<Rightarrow> int \<Rightarrow> process_run"

definition duration_ms :: "process_run \<Rightarrow> int" where
  "duration_ms r = quot (time_sub (pr_CompletedAt r) (pr_StartedAt r)) 1000000"

definition createErrorResult :: "runner \<Rightarrow> ExternalCliPreparedCommand \<Rightarrow> process_run \<Rightarrow> string \<Rightarrow> ExternalCliExecutionResult" where
  "createErrorResult r command p err =
     \<lparr>xr_Preview = pc_Preview command, xr_Success = False, xr_ExitCode = -1, xr_Stdout = [], xr_Stderr = [],
      xr_StdoutTruncated = False, xr_StderrTruncated = False, xr_TimedOut = False, xr_DurationMs = duration_ms p,
      xr_StartedAtUtc = pr_StartedAt p, xr_CompletedAtUtc = pr_CompletedAt p, xr_ParsedJson = None, xr_ParseError = [],
      xr_ErrorMessage = rn_Redact r err\<rparr>"

definition runner_redact :: "runner \<Rightarrow> string \<Rightarrow> string list \<Rightarrow> string" where
  "runner_redact r val rules = redact_rules (rn_Replace r) rules (rn_Redact r val)"

text \<open>Whether the time was up, the exit code and the message.\<close>

definition wait_outcome :: "process_run \<Rightarrow> bool \<times> int \<times> string" where
  "wait_outcome p =
     (case pr_Wait p of
        WaitOk \<Rightarrow> (False, 0, [])
      | w \<Rightarrow>
          if pr_DeadlineExceeded p then (True, -1, ''External CLI command timed out.'')
          else (case w of WaitExit c \<Rightarrow> (False, c, []) | WaitOther t \<Rightarrow> (False, -1, t) | WaitOk \<Rightarrow> (False, 0, [])))"

definition Runner_Execute :: "runner \<Rightarrow> process \<Rightarrow> ExternalCliPreparedCommand \<Rightarrow> ExternalCliExecutionResult" where
  "Runner_Execute r proc command =
     (let p = proc (pc_Executable command) (pc_Arguments command)
                (if TrimSpace (pc_WorkingDirectory command) = [] then [] else pc_WorkingDirectory command)
                (pc_Environment command) (xv_TimeoutSeconds (pc_Preview command))
      in case pr_StartError p of
        Some err \<Rightarrow> createErrorResult r command p err
      | None \<Rightarrow>
          (let (stdout, outTruncated, outErr) = readCapped (pr_Stdout p) (pc_MaxStdoutBytes command);
               (stderr, errTruncated, errErr) = readCapped (pr_Stderr p) (pc_MaxStderrBytes command);
               (timedOut, exitCode, message) = wait_outcome p;
               stdoutText = runner_redact r stdout (pc_RedactionRules command);
               stderrText = runner_redact r stderr (pc_RedactionRules command);
               parsed = parseStructuredOutput (rn_Invalid r) (ToLower (TrimSpace (xv_StructuredOutput (pc_Preview command)))) stdoutText
           in \<lparr>xr_Preview = pc_Preview command, xr_Success = (\<not> timedOut \<and> exitCode = 0), xr_ExitCode = exitCode,
               xr_Stdout = stdoutText, xr_Stderr = stderrText, xr_StdoutTruncated = outTruncated,
               xr_StderrTruncated = errTruncated, xr_TimedOut = timedOut, xr_DurationMs = duration_ms p,
               xr_StartedAtUtc = pr_StartedAt p, xr_CompletedAtUtc = pr_CompletedAt p,
               xr_ParsedJson = (case parsed of Inr j \<Rightarrow> j | Inl err \<Rightarrow> None),
               xr_ParseError = (case parsed of Inr j \<Rightarrow> [] | Inl err \<Rightarrow> err), xr_ErrorMessage = message\<rparr>))"

subsection \<open>The tool\<close>

datatype cli_event =
    CliRun ExternalCliPreparedCommand ExternalCliExecutionResult
  | CliEvent ExternalCliRuntimeEvent
  | CliAudit ExternalCliAuditEntry

type_synonym cli_trace = "cli_event list"

record cli_session =
  cn_Id :: string
  cn_ChannelId :: string
  cn_SenderId :: string

text \<open>The registry behind the tool is an interface, so its operations are fields; so are the runner, the JSON codec, the clock
  and the random identifiers, which may depend on what has happened.\<close>

record cli_tool =
  tl_BuildPreview :: "ExternalCliPreviewRequest \<Rightarrow> bool \<Rightarrow> ExternalCliPreparedCommand go_result"
  tl_ListConnectors :: "ExternalCliConnectorSummary list"
  tl_GetStatus :: "string \<Rightarrow> ExternalCliConnectorStatus go_result"
  tl_ListCommands :: "string \<Rightarrow> ExternalCliCommandSummary list go_result"
  tl_GetCommandSchema :: "string \<Rightarrow> string \<Rightarrow> ExternalCliCommandSchemaResponse go_result"
  tl_Run :: "cli_trace \<Rightarrow> ExternalCliPreparedCommand \<Rightarrow> ExternalCliExecutionResult"
  tl_Unmarshal :: "string \<Rightarrow> string + ExternalCliToolRequest"
  tl_UnmarshalMap :: unmarshal_map
  tl_Uuid :: "cli_trace \<Rightarrow> string"
  tl_Now :: "cli_trace \<Rightarrow> int"
  tl_Sha :: "string \<Rightarrow> string"

definition registry_tool ::
    "registry \<Rightarrow> runner \<Rightarrow> (cli_trace \<Rightarrow> process) \<Rightarrow> (string \<Rightarrow> string + ExternalCliToolRequest) \<Rightarrow> unmarshal_map \<Rightarrow>
     (cli_trace \<Rightarrow> string) \<Rightarrow> (cli_trace \<Rightarrow> int) \<Rightarrow> cli_tool" where
  "registry_tool e r procs unmarshal um uuid now =
     \<lparr>tl_BuildPreview = BuildPreview e, tl_ListConnectors = ListConnectors e, tl_GetStatus = GetStatus e,
      tl_ListCommands = ListCommands e, tl_GetCommandSchema = GetCommandSchema e,
      tl_Run = (\<lambda>tr. Runner_Execute r (procs tr)), tl_Unmarshal = unmarshal, tl_UnmarshalMap = um, tl_Uuid = uuid,
      tl_Now = now, tl_Sha = rg_sha e\<rparr>"

definition buildSummary :: "ExternalCliToolRequest \<Rightarrow> string" where
  "buildSummary request =
     (if xt_Connector request = [] \<or> xt_Command request = [] then ''Use an external CLI connector.''
      else if xt_Action request = ''execute'' then
        ''Execute external CLI command '' @ xt_Connector request @ ''/'' @ xt_Command request @ ''.''
      else if xt_Action request = ''preview'' then
        ''Preview external CLI command '' @ xt_Connector request @ ''/'' @ xt_Command request @ ''.''
      else ''Inspect external CLI connector '' @ xt_Connector request @ ''.'')"

definition toPreviewRequest :: "ExternalCliToolRequest \<Rightarrow> ExternalCliPreviewRequest" where
  "toPreviewRequest request =
     \<lparr>xq_Connector = xt_Connector request, xq_Command = xt_Command request, xq_Parameters = xt_Parameters request,
      xq_ExecuteDryRun = xt_ExecuteDryRun request\<rparr>"

definition runtime_event ::
    "cli_session \<Rightarrow> string \<Rightarrow> string \<Rightarrow> string \<Rightarrow> ExternalCliToolRequest \<Rightarrow> ExternalCliInvocationPreview option \<Rightarrow>
     ExternalCliRuntimeEvent" where
  "runtime_event s action severity summary request preview =
     (let connector = (case preview of Some p \<Rightarrow> xv_Connector p | None \<Rightarrow> []);
          command = (case preview of Some p \<Rightarrow> xv_Command p | None \<Rightarrow> [])
      in \<lparr>xe_SessionId = cn_Id s, xe_ChannelId = cn_ChannelId s, xe_SenderId = cn_SenderId s, xe_Action = action,
          xe_Severity = severity, xe_Summary = summary,
          xe_Metadata =
            [(''connector'', if connector = [] then xt_Connector request else connector),
             (''command'', if command = [] then xt_Command request else command),
             (''riskLevel'', case preview of Some p \<Rightarrow> xv_RiskLevel p | None \<Rightarrow> []),
             (''readOnly'', case preview of Some p \<Rightarrow> if xv_ReadOnly p then ''true'' else ''false'' | None \<Rightarrow> []),
             (''fingerprint'', case preview of Some p \<Rightarrow> xv_Fingerprint p | None \<Rightarrow> [])]\<rparr>)"

definition computeArgsHash :: "(string \<Rightarrow> string) \<Rightarrow> string list \<Rightarrow> string" where
  "computeArgsHash sha args = ComputeTurnHash sha (Join args [CHR 10])"

definition audit_entry ::
    "cli_tool \<Rightarrow> cli_trace \<Rightarrow> cli_session \<Rightarrow> ExternalCliExecutionResult \<Rightarrow> ExternalCliToolRequest \<Rightarrow> ExternalCliAuditEntry" where
  "audit_entry a tr s res request =
     (let p = xr_Preview res in
      \<lparr>xa_Id = take 21 (''ecli_'' @ tl_Uuid a tr), xa_TimestampUtc = tl_Now a tr, xa_SessionId = cn_Id s,
       xa_ChannelId = cn_ChannelId s, xa_SenderId = cn_SenderId s, xa_Connector = xv_Connector p,
       xa_Command = xv_Command p, xa_Executable = xv_Executable p,
       xa_ArgsHash = computeArgsHash (tl_Sha a) (xv_Arguments p), xa_RedactedArgsPreview = xv_RedactedCommandLine p,
       xa_ParametersHash = xv_ParametersHash p,
       xa_ApprovalFingerprint =
         (if xt_ApprovedFingerprint request = [] then xv_Fingerprint p else xt_ApprovedFingerprint request),
       xa_ExitCode = xr_ExitCode res, xa_DurationMs = xr_DurationMs res, xa_TimedOut = xr_TimedOut res,
       xa_Failed = (\<not> xr_Success res), xa_StdoutTruncated = xr_StdoutTruncated res,
       xa_StderrTruncated = xr_StderrTruncated res, xa_RiskLevel = xv_RiskLevel p, xa_ReadOnly = xv_ReadOnly p,
       xa_WorkingDirectory = xv_WorkingDirectory p\<rparr>)"

text \<open>\<open>recordEvent\<close> and \<open>recordAudit\<close>: what the sinks answer is not looked at.\<close>

definition recordEvent ::
    "cli_session \<Rightarrow> string \<Rightarrow> string \<Rightarrow> string \<Rightarrow> ExternalCliToolRequest \<Rightarrow> ExternalCliInvocationPreview option \<Rightarrow>
     cli_trace \<Rightarrow> cli_trace" where
  "recordEvent s action severity summary request preview tr =
     tr @ [CliEvent (runtime_event s action severity summary request preview)]"

definition recordAudit ::
    "cli_tool \<Rightarrow> cli_session \<Rightarrow> ExternalCliExecutionResult \<Rightarrow> ExternalCliToolRequest \<Rightarrow> cli_trace \<Rightarrow> cli_trace" where
  "recordAudit a s res request tr = tr @ [CliAudit (audit_entry a tr s res request)]"

definition command_name :: "ExternalCliPreparedCommand \<Rightarrow> string" where
  "command_name p = pc_ConnectorName p @ ''/'' @ pc_CommandName p"

definition executeCommand ::
    "cli_tool \<Rightarrow> ExternalCliToolRequest \<Rightarrow> cli_session \<Rightarrow> cli_trace \<Rightarrow> ExternalCliExecutionResult go_result \<times> cli_trace" where
  "executeCommand a request s tr =
     (case tl_BuildPreview a (toPreviewRequest request) False of
        Inl err \<Rightarrow> (Inl err, tr)
      | Inr prepared \<Rightarrow>
          (let res = tl_Run a tr prepared;
               action = (if xr_TimedOut res then ''command_timed_out'' else if \<not> xr_Success res then ''command_failed''
                 else ''command_executed'');
               severity = (if xr_Success res then ''info'' else ''warning'');
               summary = ''External CLI command '' @ command_name prepared @ '' completed with exit code '' @
                 Itoa (xr_ExitCode res) @ ''.''
           in (Inr res,
               recordAudit a s res request
                 (recordEvent s action severity summary request (Some (pc_Preview prepared)) (tr @ [CliRun prepared res])))))"

definition tool_preview ::
    "cli_tool \<Rightarrow> ExternalCliToolRequest \<Rightarrow> cli_session \<Rightarrow> cli_trace \<Rightarrow>
     (ExternalCliInvocationPreview \<times> ExternalCliExecutionResult option) go_result \<times> cli_trace" where
  "tool_preview a request s tr =
     (case tl_BuildPreview a (toPreviewRequest request) (xt_ExecuteDryRun request) of
        Inl err \<Rightarrow> (Inl err, tr)
      | Inr prepared \<Rightarrow>
          (let tr1 = recordEvent s (if xt_ExecuteDryRun request then ''dry_run_previewed'' else ''previewed'') ''info''
                 (''Previewed external CLI command '' @ command_name prepared @ ''.'') request (Some (pc_Preview prepared)) tr
           in if \<not> xt_ExecuteDryRun request then (Inr (pc_Preview prepared, None), tr1)
              else
                (let res = tl_Run a tr1 prepared;
                     severity = (if xr_Success res then ''info'' else ''warning'')
                 in (Inr (pc_Preview prepared, Some res),
                     recordAudit a s res request
                       (recordEvent s ''dry_run_executed'' severity
                          (''Dry-run executed for external CLI command '' @ command_name prepared @ ''.'') request
                          (Some (pc_Preview prepared)) (tr1 @ [CliRun prepared res]))))))"

text \<open>A descriptor of an action with the field the rest of the library does not need.\<close>

record cli_descriptor = ToolActionDescriptor +
  ad_ReadOnly :: "bool option"

definition generic_descriptor :: "cli_tool \<Rightarrow> string \<Rightarrow> cli_descriptor" where
  "generic_descriptor a argumentsJson =
     ToolActionDescriptor.extend (action_Resolve (tl_UnmarshalMap a) ''external_cli'' argumentsJson) \<lparr>ad_ReadOnly = None\<rparr>"

definition ResolveActionDescriptor :: "cli_tool \<Rightarrow> string \<Rightarrow> cli_descriptor" where
  "ResolveActionDescriptor a argumentsJson =
     (case tl_Unmarshal a argumentsJson of
        Inl err \<Rightarrow> generic_descriptor a argumentsJson
      | Inr request \<Rightarrow>
          if xt_Action request \<noteq> ''execute'' \<and> xt_Action request \<noteq> ''preview'' then
            \<lparr>ad_Action = xt_Action request, ad_IsMutation = False, ad_RequiresApproval = False,
             ad_Summary = buildSummary request, ad_ApprovalFingerprint = [], ad_RiskLevel = [], ad_ReadOnly = None\<rparr>
          else
            (case tl_BuildPreview a (toPreviewRequest request) (xt_Action request = ''preview'' \<and> xt_ExecuteDryRun request) of
               Inl err \<Rightarrow> generic_descriptor a argumentsJson
             | Inr prepared \<Rightarrow>
                 \<lparr>ad_Action = xt_Action request, ad_IsMutation = (\<not> xv_ReadOnly (pc_Preview prepared)),
                  ad_RequiresApproval = xv_RequiresApproval (pc_Preview prepared), ad_Summary = buildSummary request,
                  ad_ApprovalFingerprint = xv_Fingerprint (pc_Preview prepared),
                  ad_RiskLevel = xv_RiskLevel (pc_Preview prepared), ad_ReadOnly = Some (xv_ReadOnly (pc_Preview prepared))\<rparr>))"

text \<open>The answer before it is encoded as JSON.\<close>

datatype cli_response =
    RespConnectors "ExternalCliConnectorSummary list"
  | RespStatus ExternalCliConnectorStatus
  | RespCommands "ExternalCliCommandSummary list"
  | RespSchema ExternalCliCommandSchemaResponse
  | RespPreview ExternalCliInvocationPreview "ExternalCliExecutionResult option"
  | RespExecution ExternalCliExecutionResult

definition required_text :: "string \<Rightarrow> string \<Rightarrow> string \<Rightarrow> string go_result" where
  "required_text val field name =
     (if TrimSpace val = [] then Inl (GoErr (''request.'' @ field @ '' MUST have '' @ quoted name)) else Inr (TrimSpace val))"

definition map_result :: "('a \<Rightarrow> 'b) \<Rightarrow> 'a go_result \<Rightarrow> 'b go_result" where
  "map_result f r = bindR r (\<lambda>x. Inr (f x))"

definition tool_action :: "cli_tool \<Rightarrow> ExternalCliToolRequest \<Rightarrow> cli_session \<Rightarrow> cli_trace \<Rightarrow> cli_response go_result \<times> cli_trace" where
  "tool_action a request s tr =
     (if xt_Action request = ''list_connectors'' then (Inr (RespConnectors (tl_ListConnectors a)), tr)
      else if xt_Action request = ''connector_status'' then
        (map_result RespStatus (tl_GetStatus a (TrimSpace (xt_Connector request))), tr)
      else if xt_Action request = ''list_commands'' then
        (map_result RespCommands (tl_ListCommands a (TrimSpace (xt_Connector request))), tr)
      else if xt_Action request = ''command_schema'' then
        (map_result RespSchema (tl_GetCommandSchema a (TrimSpace (xt_Connector request)) (TrimSpace (xt_Command request))), tr)
      else if xt_Action request = ''preview'' then
        (let r = tool_preview a request s tr in (map_result (\<lambda>(p, d). RespPreview p d) (fst r), snd r))
      else if xt_Action request = ''execute'' then
        (let r = executeCommand a request s tr in (map_result RespExecution (fst r), snd r))
      else (Inl (GoErr (''Error: Unknown action. Valid actions are list_connectors, connector_status, list_commands, command_schema, preview, and execute.'')), tr))"

text \<open>The actions about one connector, and the one about one command, return at once when the name is missing.\<close>

definition missing_name :: "ExternalCliToolRequest \<Rightarrow> unit go_result" where
  "missing_name request =
     (if xt_Action request \<in> {''connector_status'', ''list_commands'', ''command_schema''} then
        bindR (required_text (xt_Connector request) ''Connector'' ''connector'') (\<lambda>_.
          if xt_Action request = ''command_schema'' then
            bindR (required_text (xt_Command request) ''Command'' ''command'') (\<lambda>_. Inr ())
          else Inr ())
      else Inr ())"

text \<open>The text of an error; a panic leaves the tool without an event.\<close>

definition ExecuteContext ::
    "cli_tool \<Rightarrow> string \<Rightarrow> cli_session \<Rightarrow> cli_trace \<Rightarrow> cli_response go_result \<times> cli_trace" where
  "ExecuteContext a argumentsJson s tr =
     (case tl_Unmarshal a argumentsJson of
        Inl err \<Rightarrow> (Inl (GoErr err), tr)
      | Inr request \<Rightarrow>
          (case missing_name request of
             Inl err \<Rightarrow> (Inl err, tr)
           | Inr _ \<Rightarrow>
               (case tool_action a request s tr of
                  (Inl (GoErr msg), tr') \<Rightarrow>
                    (Inl (GoErr msg), recordEvent s ''blocked_by_policy'' ''warning'' msg request None tr')
                | r \<Rightarrow> r)))"

end
