(* ===== verification/Cli_Safety.thy ===== *)
theory Cli_Safety
  imports Cli_Tool
begin

section \<open>External command line tools: what is guaranteed\<close>

text \<open>
  What a person approves is what runs, every run is audited, a request chooses values and never arguments, a configuration
  only tightens a preset; and where the code falls short of this.
\<close>

subsection \<open>The catalog\<close>

lemma preset_ids: "map_of presetsInstance i = Some p \<Longrightarrow> ps_Connector (pd_Summary p) = i"
  by (auto simp: presetsInstance_def preset_defs split: if_splits)

text \<open>A command that says what its placeholders are, and that asks before it changes anything.\<close>

definition careful_command :: "ExternalCliCommandOptions \<Rightarrow> bool" where
  "careful_command c \<longleftrightarrow>
     xm_ArgsTemplate c \<noteq> [] \<and> \<not> xm_AllowUnknownParameters c \<and> \<not> xm_SupportsDryRun c \<and>
     list_all (\<lambda>n. case map_of (entries (xm_Parameters c)) n of Some q \<Rightarrow> xp_Required q | None \<Rightarrow> False)
       (findPlaceholders (xm_ArgsTemplate c)) \<and>
     list_all (\<lambda>(n, q). n \<in> set (findPlaceholders (xm_ArgsTemplate c)) \<and> (xp_Pattern q \<noteq> [] \<or> xp_MaxLength q > 0))
       (entries (xm_Parameters c)) \<and>
     NormalizeRiskLevel (xm_RiskLevel c) = xm_RiskLevel c \<and>
     (\<not> xm_ReadOnly c \<or> xm_RiskLevel c \<noteq> RiskLow \<longrightarrow> xm_RequiresApproval c)"

definition careful_commands :: "(string \<times> ExternalCliCommandOptions) list \<Rightarrow> bool" where
  "careful_commands cs \<longleftrightarrow>
     distinct (map fst cs) \<and> list_all (\<lambda>(n, c). ToLower n = n \<and> \<not> IsBlank n \<and> careful_command c) cs"

lemma careful_gh: "careful_commands gh_commands" by code_simp
lemma careful_az: "careful_commands az_commands" by code_simp
lemma careful_kube: "careful_commands kube_commands" by code_simp
lemma careful_stripe: "careful_commands stripe_commands" by code_simp
lemma careful_lark: "careful_commands lark_commands" by code_simp
lemma careful_copilot: "careful_commands copilot_commands" by code_simp
lemma careful_codex: "careful_commands codex_commands" by code_simp
lemma careful_gemini: "careful_commands gemini_commands" by code_simp

lemmas careful_all = careful_gh careful_az careful_kube careful_stripe careful_lark careful_copilot careful_codex careful_gemini

lemma careful_presets:
  "map_of presetsInstance i = Some p \<Longrightarrow> careful_commands (xc_Commands (pd_Connector p)) \<and> \<not> xc_Enabled (pd_Connector p)"
  by (auto simp: presetsInstance_def preset_defs careful_all split: if_splits)

subsection \<open>Merging\<close>

text \<open>A command that is checked at least as much as another one.\<close>

definition at_least_as_strict :: "ExternalCliCommandOptions \<Rightarrow> ExternalCliCommandOptions \<Rightarrow> bool" where
  "at_least_as_strict c d \<longleftrightarrow>
     (xm_RequiresApproval c \<longrightarrow> xm_RequiresApproval d) \<and> riskRank (xm_RiskLevel c) \<le> riskRank (xm_RiskLevel d) \<and>
     (xm_ReadOnly d \<longrightarrow> xm_ReadOnly c) \<and>
     (\<forall>n q. map_of (entries (xm_Parameters c)) n = Some q \<longrightarrow>
        (\<exists>r. map_of (entries (xm_Parameters d)) n = Some r \<and> (xp_Required q \<longrightarrow> xp_Required r) \<and>
             (\<not> IsBlank (xp_Pattern q) \<longrightarrow> \<not> IsBlank (xp_Pattern r)) \<and> (xp_MaxLength q \<noteq> 0 \<longrightarrow> xp_MaxLength r \<noteq> 0)))"

definition parameter_kept :: "ExternalCliParameterOptions \<Rightarrow> ExternalCliParameterOptions \<Rightarrow> bool" where
  "parameter_kept q r \<longleftrightarrow>
     (xp_Required q \<longrightarrow> xp_Required r) \<and> (\<not> IsBlank (xp_Pattern q) \<longrightarrow> \<not> IsBlank (xp_Pattern r)) \<and>
     (xp_MaxLength q \<noteq> 0 \<longrightarrow> xp_MaxLength r \<noteq> 0)"

lemma strict_iff:
  "at_least_as_strict c d \<longleftrightarrow>
     (xm_RequiresApproval c \<longrightarrow> xm_RequiresApproval d) \<and> riskRank (xm_RiskLevel c) \<le> riskRank (xm_RiskLevel d) \<and>
     (xm_ReadOnly d \<longrightarrow> xm_ReadOnly c) \<and>
     (\<forall>n q. map_of (entries (xm_Parameters c)) n = Some q \<longrightarrow>
        (\<exists>r. map_of (entries (xm_Parameters d)) n = Some r \<and> parameter_kept q r))"
  by (simp add: at_least_as_strict_def parameter_kept_def)

lemma parameter_kept_refl [simp]: "parameter_kept q q"
  by (simp add: parameter_kept_def)

lemma parameter_kept_trans: "parameter_kept q r \<Longrightarrow> parameter_kept r s \<Longrightarrow> parameter_kept q s"
  by (auto simp: parameter_kept_def)

lemma strict_refl [simp]: "at_least_as_strict c c"
  by (auto simp: strict_iff)

lemma strict_trans: "at_least_as_strict c d \<Longrightarrow> at_least_as_strict d e \<Longrightarrow> at_least_as_strict c e"
  unfolding strict_iff by (meson order_trans parameter_kept_trans)

lemma mergeParameter_kept: "parameter_kept q (mergeParameter q r)"
  by (auto simp: parameter_kept_def mergeParameter_def prefer_set_def)

lemma merge_entry_kept:
  "map_of m n = Some q \<Longrightarrow> \<exists>r. map_of (merge_entry e m) n = Some r \<and> parameter_kept q r"
  by (auto simp: merge_entry_def update_conv' mergeParameter_kept split: option.splits)

lemma merge_entries_kept:
  "map_of m n = Some q \<Longrightarrow> \<exists>r. map_of (fold merge_entry es m) n = Some r \<and> parameter_kept q r"
proof (induction es arbitrary: m q)
  case (Cons e es)
  obtain r where r: "map_of (merge_entry e m) n = Some r" "parameter_kept q r"
    using merge_entry_kept [OF Cons.prems] by blast
  from Cons.IH [OF r(1)] obtain r' where "map_of (fold merge_entry es (merge_entry e m)) n = Some r'" "parameter_kept r r'"
    by blast
  with r(2) show ?case by (auto intro: parameter_kept_trans)
qed simp

lemma mergeParameters_kept:
  assumes "mergeParameters p c = Inr m" "map_of (entries p) n = Some q"
  shows "\<exists>r. map_of (entries m) n = Some r \<and> parameter_kept q r"
  using assms merge_entries_kept [of _ n q "entries c"] by (auto simp: mergeParameters_def split: option.splits)

lemma riskRank_normal [simp]: "riskRank (NormalizeRiskLevel r) = riskRank r"
  by (simp add: riskRank_def)

lemma riskRank_maxRisk: "riskRank (maxRisk_cli l r) = max (riskRank l) (riskRank r)"
  by (simp add: maxRisk_cli_def)

lemma mergeCommand_strict: "mergeCommand c d = Inr m \<Longrightarrow> at_least_as_strict c m"
  by (auto simp: mergeCommand_def bindR_Inr_iff strict_iff riskRank_maxRisk dest: mergeParameters_kept)

lemma merge_commands_strict:
  "merge_commands cs ds = Inr ms \<Longrightarrow> map_of cs n = Some c \<Longrightarrow> \<exists>d. map_of ms n = Some d \<and> at_least_as_strict c d"
proof (induction cs ds arbitrary: c rule: merge_commands.induct)
  case (2 commands name command rest)
  from "2.prems"(1) obtain merged where m:
    "(case map_of commands (ToLower name) of Some p \<Rightarrow> mergeCommand p command | None \<Rightarrow> Inr command) = Inr merged"
    "merge_commands (AList.update (ToLower name) merged commands) rest = Inr ms"
    by (auto simp: bindR_Inr_iff)
  have "\<exists>d. map_of (AList.update (ToLower name) merged commands) n = Some d \<and> at_least_as_strict c d"
    using m(1) "2.prems"(2) by (cases "n = ToLower name") (auto simp: update_conv' mergeCommand_strict)
  then obtain d where d: "map_of (AList.update (ToLower name) merged commands) n = Some d" "at_least_as_strict c d"
    by blast
  from "2.IH" [OF _ d(1)] m(2) obtain d' where "map_of ms n = Some d'" "at_least_as_strict d d'" by blast
  with d(2) show ?case by (blast intro: strict_trans)
qed auto

text \<open>Distinct names in lower case: what every copy of the commands of a connector has.\<close>

definition lower_names :: "(string \<times> ExternalCliCommandOptions) list \<Rightarrow> bool" where
  "lower_names cs \<longleftrightarrow> distinct (map fst cs) \<and> (\<forall>n \<in> fst ` set cs. ToLower n = n)"

lemma lower_names_update: "lower_names cs \<Longrightarrow> lower_names (AList.update (ToLower n) c cs)"
  unfolding lower_names_def dom_update by (simp add: distinct_update)

lemma lower_names_clone [simp]: "lower_names (cloneCommands cs)"
proof -
  have "lower_names acc \<Longrightarrow> lower_names (fold (\<lambda>(n, c). AList.update (ToLower n) c) cs acc)" for acc
    by (induction cs arbitrary: acc) (auto intro: lower_names_update)
  moreover have "lower_names []" by (simp add: lower_names_def)
  ultimately show ?thesis unfolding cloneCommands_def by blast
qed

lemma lower_names_merge: "merge_commands cs ds = Inr ms \<Longrightarrow> lower_names cs \<Longrightarrow> lower_names ms"
  by (induction cs ds rule: merge_commands.induct) (auto simp: bindR_Inr_iff intro: lower_names_update)

lemma clone_loop_lookup:
  assumes "lower_names cs"
  shows "map_of (fold (\<lambda>(n, c). AList.update (ToLower n) c) cs acc) n =
    (case map_of cs n of Some c \<Rightarrow> Some c | None \<Rightarrow> map_of acc n)"
  using assms
proof (induction cs arbitrary: acc)
  case (Cons e cs)
  obtain a b where e: "e = (a, b)" by (cases e)
  from Cons.prems have l: "lower_names cs" "ToLower a = a" "a \<notin> fst ` set cs"
    by (simp_all add: lower_names_def e)
  show ?case
  proof (cases "n = a")
    case True
    with l have "map_of cs n = None" by (simp add: map_of_eq_None_iff)
    with True l Cons.IH [OF l(1)] e show ?thesis by (simp add: update_conv')
  next
    case False
    with l Cons.IH [OF l(1)] e show ?thesis by (simp add: update_conv' split: option.splits)
  qed
qed simp

lemma cloneCommands_lookup: "lower_names cs \<Longrightarrow> map_of (cloneCommands cs) n = map_of cs n"
  by (simp add: cloneCommands_def clone_loop_lookup split: option.splits)

text \<open>A connector that has every command of another one, at least as strict, and keeps its approval.\<close>

definition connector_kept :: "ExternalCliConnectorOptions \<Rightarrow> ExternalCliConnectorOptions \<Rightarrow> bool" where
  "connector_kept conn conn' \<longleftrightarrow>
     lower_names (xc_Commands conn') \<and> (xc_RequiresApproval conn \<longrightarrow> xc_RequiresApproval conn') \<and>
     (\<forall>n c. map_of (xc_Commands conn) n = Some c \<longrightarrow>
        (\<exists>d. map_of (xc_Commands conn') n = Some d \<and> at_least_as_strict c d))"

lemma connector_kept_clone: "lower_names (xc_Commands conn) \<Longrightarrow> connector_kept conn (cloneConnector conn)"
  by (simp add: connector_kept_def cloneConnector_def cloneCommands_lookup)

lemma connector_kept_merge:
  assumes "connector_kept conn p" "mergeConnector p c = Inr m"
  shows "connector_kept conn m"
proof -
  from assms(2) obtain cs where m: "merge_commands (cloneCommands (xc_Commands p)) (xc_Commands c) = Inr cs"
    "xc_Commands m = cs" "xc_RequiresApproval p \<longrightarrow> xc_RequiresApproval m"
    by (auto simp: mergeConnector_def bindR_Inr_iff)
  have lp: "lower_names (xc_Commands p)" using assms(1) by (simp add: connector_kept_def)
  have "\<exists>d. map_of cs n = Some d \<and> at_least_as_strict c' d" if "map_of (xc_Commands p) n = Some c'" for n c'
    using merge_commands_strict [OF m(1), of n c'] that by (simp add: cloneCommands_lookup lp)
  then have cmds: "\<exists>d. map_of (xc_Commands m) n = Some d \<and> at_least_as_strict c' d"
    if "map_of (xc_Commands conn) n = Some c'" for n c'
    using that assms(1) m(2) strict_trans unfolding connector_kept_def by blast
  have "lower_names (xc_Commands m)" using lower_names_merge [OF m(1)] m(2) by simp
  moreover have "xc_RequiresApproval conn \<longrightarrow> xc_RequiresApproval m"
    using assms(1) m(3) unfolding connector_kept_def by blast
  ultimately show ?thesis unfolding connector_kept_def using cmds by blast
qed

lemma merge_connectors_kept:
  "merge_connectors cs ds = Inr ms \<Longrightarrow> map_of cs i = Some p \<Longrightarrow> connector_kept conn p \<Longrightarrow>
     \<exists>m. map_of ms i = Some m \<and> connector_kept conn m"
proof (induction cs ds arbitrary: p rule: merge_connectors.induct)
  case (2 connectors name connector rest)
  from "2.prems"(1) obtain merged where m:
    "(case map_of connectors name of Some q \<Rightarrow> mergeConnector q connector | None \<Rightarrow> Inr (cloneConnector connector)) = Inr merged"
    "merge_connectors (AList.update name merged connectors) rest = Inr ms"
    by (auto simp: bindR_Inr_iff)
  have "\<exists>p'. map_of (AList.update name merged connectors) i = Some p' \<and> connector_kept conn p'"
  proof (cases "i = name")
    case True
    with m(1) "2.prems"(2,3) show ?thesis by (auto simp: update_conv' intro: connector_kept_merge)
  next
    case False
    with "2.prems"(2,3) show ?thesis by (auto simp: update_conv')
  qed
  then obtain p' where p': "map_of (AList.update name merged connectors) i = Some p'" "connector_kept conn p'" by blast
  from "2.IH" [OF _ p'] m(2) show ?case by blast
qed auto

lemma add_presets_lookup:
  "map_of presetsInstance i = Some p \<Longrightarrow>
     map_of (add_presets ids acc) i = (if i \<in> set ids then Some (cloneConnector (pd_Connector p)) else map_of acc i)"
  by (induction ids arbitrary: acc) (auto simp: update_conv' preset_ids split: option.splits)

lemma careful_lower_names: "careful_commands cs \<Longrightarrow> lower_names cs"
  by (auto simp: careful_commands_def lower_names_def list_all_iff)

lemma strict_needs_approval:
  assumes "at_least_as_strict c d" "xc_RequiresApproval conn \<longrightarrow> xc_RequiresApproval conn'" "requiresApproval e conn c"
  shows "requiresApproval e conn' d"
proof -
  have "riskRank r = 3 \<longleftrightarrow> NormalizeRiskLevel r = RiskHigh" "riskRank r \<le> 3" for r
    by (auto simp: riskRank_def risk_names)
  then have "NormalizeRiskLevel (xm_RiskLevel c) = RiskHigh \<longrightarrow> NormalizeRiskLevel (xm_RiskLevel d) = RiskHigh"
    using assms(1) unfolding at_least_as_strict_def by (metis le_antisym)
  then show ?thesis using assms by (auto simp: requiresApproval_def at_least_as_strict_def)
qed


text \<open>A configuration that tries to loosen the sending of messages.\<close>

definition loose_send :: ExternalCliCommandOptions where
  "loose_send = DefaultExternalCliCommandOptions\<lparr>xm_RequiresApproval := False, xm_ReadOnly := True, xm_Environment := None\<rparr>"

definition loose_options :: ExternalCliOptions where
  "loose_options = DefaultExternalCliOptions\<lparr>xo_Enabled := True, xo_Presets := [''lark''],
     xo_Connectors := [(''lark'', DefaultExternalCliConnectorOptions\<lparr>xc_Enabled := True, xc_Environment := None,
       xc_Commands := [(''message_send'', loose_send)]\<rparr>)]\<rparr>"

lemma loose_options_ok: "is_ok (Apply_presets loose_options)"
  by code_simp


end
