(* ===== verification/Cli_Requests.thy ===== *)
theory Cli_Requests
  imports Cli_Safety
begin

section \<open>External command line tools: requests\<close>

text \<open>
  What a request can make of a command: the texts of its placeholders and nothing else; and how far the fingerprint of a
  prepared command tells two requests apart.
\<close>

subsection \<open>Arguments\<close>

text \<open>C10: The arguments of a prepared command are the default arguments of its connector and one argument for every argument
  of the template, in which a text stands for every placeholder and everything else is as written. The text is that of a
  parameter of the request of that name, which has passed the checks of its schema. So no request adds, splits or removes an
  argument.\<close>

theorem request_fills_placeholders:
  assumes "BuildPreview e req dry = Inr p"
  shows "\<exists>conn c template \<sigma>.
    map_of (xo_Connectors (rg_options e)) (xq_Connector req) = Some conn \<and> xc_Enabled conn \<and>
    map_of (xc_Commands conn) (xq_Command req) = Some c \<and>
    template = (if dry then xm_DryRunArgsTemplate c else xm_ArgsTemplate c) \<and>
    pc_Arguments p = xc_DefaultArgs conn @ map (fill \<sigma>) template \<and>
    (\<forall>arg \<in> set template. \<not> Contains arg ''{{'' \<longrightarrow> fill \<sigma> arg = arg) \<and>
    (\<forall>arg \<in> set template. \<forall>n \<in> set (holes arg).
       \<exists>key raw. (key, raw) \<in> set (xq_Parameters req) \<and> EqualFold key n \<and> toParameterString (rg_codec e) key raw = Inr (\<sigma> n) \<and>
         (\<forall>schema. lookup_fold (entries (xm_Parameters c)) key = Some schema \<longrightarrow>
            validateParameterValue (rg_codec e) key (\<sigma> n) schema = Inr ()))"
proof -
  let ?ps = "xq_Parameters req" and ?jc = "rg_codec e"
  let ?\<sigma> = "parameter_text ?jc ?ps"
  obtain conn c wd template env ws exe where a: "admit_command e req dry = Inr (conn, c, wd, template)"
    and v: "validateParameters ?jc c template ?ps = Inr ()"
    and p: "p = prepare_command e req dry conn c wd (xc_DefaultArgs conn @ map (fill ?\<sigma>) template) exe env ws"
    by (rule BuildPreview_InrE [OF assms])
  have found: "lookup_fold ?ps n \<noteq> None" if "arg \<in> set template" "n \<in> set (holes arg)" for arg n
    using validated_expands [OF v] that by (auto simp: expandTemplate_iff)
  have "\<exists>key raw. (key, raw) \<in> set ?ps \<and> EqualFold key n \<and> toParameterString ?jc key raw = Inr (?\<sigma> n) \<and>
      (\<forall>schema. lookup_fold (entries (xm_Parameters c)) key = Some schema \<longrightarrow>
         validateParameterValue ?jc key (?\<sigma> n) schema = Inr ())"
    if "arg \<in> set template" "n \<in> set (holes arg)" for arg n
    using found [OF that] validated_value [OF v] by blast
  moreover have "pc_Arguments p = xc_DefaultArgs conn @ map (fill ?\<sigma>) template"
    by (simp add: p prepare_command_def Let_def)
  ultimately show ?thesis
    using a unfolding admit_command_Inr_iff getConnector_Inr_iff getCommand_Inr_iff
    by (intro exI [of _ conn] exI [of _ c] exI [of _ template] exI [of _ ?\<sigma>]) (simp add: fill_literal)
qed

subsection \<open>A machine to try it on\<close>

text \<open>JSON strings without escapes, and the three patterns of the presets.\<close>

definition plain_String :: "string \<Rightarrow> string + string" where
  "plain_String raw = Inr (butlast (tl raw))"

definition simple_name_char :: "char \<Rightarrow> bool" where
  "simple_name_char c \<longleftrightarrow> ident_char c \<or> c \<in> {CHR ''.'', CHR '':''}"

definition plain_Match :: "string \<Rightarrow> string \<Rightarrow> bool option" where
  "plain_Match pattern s =
     (if pattern = SimpleNamePattern then Some (s \<noteq> [] \<and> list_all simple_name_char s)
      else if pattern = NumberPattern then Some (s \<noteq> [] \<and> list_all is_digit s)
      else None)"

definition plain_codec :: cli_codec where
  "plain_codec = \<lparr>js_String = plain_String, rx_Match = plain_Match\<rparr>"

definition plain_os :: cli_os where
  "plain_os = \<lparr>os_Windows = False, os_IsAbs = (\<lambda>p. HasPrefix p ''/''), os_Join = (\<lambda>d f. d @ ''/'' @ f),
     os_SplitList = Split (CHR '':''), os_Getenv = (\<lambda>v. if v = ''PATH'' then ''/bin'' else []), os_ExpandEnv = id,
     os_UserHomeDir = Inr ''/root'', os_Abs = Inr, os_Stat = (\<lambda>p. if p = ''/bin/send'' then StatFile else StatMissing),
     os_Run = (\<lambda>exe args dir env t. \<lparr>sr_Deadline = False, sr_Cancelled = False, sr_Stdout = [], sr_Stderr = [], sr_Error = RunOk\<rparr>),
     os_Now = 0\<rparr>"

text \<open>A connector with one command of two free texts.\<close>

definition send_command :: ExternalCliCommandOptions where
  "send_command = DefaultExternalCliCommandOptions\<lparr>xm_ArgsTemplate := [''send'', ''{{to}}'', ''{{ text }}''],
     xm_ReadOnly := False, xm_RiskLevel := RiskMedium,
     xm_Parameters := Some [(''to'', required_param [] 40 []), (''text'', required_param [] 4000 [])]\<rparr>"

definition send_options :: ExternalCliOptions where
  "send_options = DefaultExternalCliOptions\<lparr>xo_Enabled := True,
     xo_Connectors := [(''chat'', DefaultExternalCliConnectorOptions\<lparr>xc_Enabled := True, xc_Executable := ''send'',
       xc_Commands := [(''send'', send_command)]\<rparr>)]\<rparr>"

definition send_registry :: registry where
  "send_registry = \<lparr>rg_options = send_options, rg_Redact = id, rg_codec = plain_codec, rg_Replace = (\<lambda>p s. None),
     rg_sha = id, rg_os = plain_os\<rparr>"

definition send_request :: "string \<Rightarrow> string \<Rightarrow> ExternalCliPreviewRequest" where
  "send_request to msg = \<lparr>xq_Connector = ''chat'', xq_Command = ''send'',
     xq_Parameters = [(''To'', CHR 34 # to @ [CHR 34]), (''text'', CHR 34 # msg @ [CHR 34])], xq_ExecuteDryRun = False\<rparr>"

lemma send_ok:
  "(case BuildPreview send_registry (send_request ''bob'' ''{{x}} y'') False of
      Inr p \<Rightarrow> pc_Arguments p = [''send'', ''bob'', ''{{x}} y''] \<and> pc_Executable p = ''/bin/send'' \<and>
        xv_RequiresApproval (pc_Preview p) | Inl _ \<Rightarrow> False)"
  by code_simp

theorem request_fills_placeholders_witness:
  "\<exists>p \<sigma>. BuildPreview send_registry (send_request ''bob'' ''{{x}} y'') False = Inr p \<and>
     pc_Arguments p = map (fill \<sigma>) (xm_ArgsTemplate send_command) \<and> pc_Arguments p = [''send'', ''bob'', ''{{x}} y'']"
proof -
  obtain p where p: "BuildPreview send_registry (send_request ''bob'' ''{{x}} y'') False = Inr p"
    "pc_Arguments p = [''send'', ''bob'', ''{{x}} y'']"
    using send_ok by (auto split: sum.splits)
  from request_fills_placeholders [OF p(1)] obtain conn c template \<sigma> where
    r: "map_of (xo_Connectors (rg_options send_registry)) (xq_Connector (send_request ''bob'' ''{{x}} y'')) = Some conn"
      "map_of (xc_Commands conn) (xq_Command (send_request ''bob'' ''{{x}} y'')) = Some c" "template = xm_ArgsTemplate c"
      "pc_Arguments p = xc_DefaultArgs conn @ map (fill \<sigma>) template" by auto
  then have "xc_DefaultArgs conn = []" "c = send_command"
    by (auto simp: send_registry_def send_options_def send_request_def DefaultExternalCliConnectorOptions_def)
  with r p show ?thesis by auto
qed

subsection \<open>Fingerprints\<close>

definition one_line :: "string \<Rightarrow> bool" where
  "one_line s \<longleftrightarrow> CHR 10 \<notin> set s"

definition one_line_command :: "ExternalCliPreparedCommand \<Rightarrow> bool" where
  "one_line_command p \<longleftrightarrow>
     one_line (pc_ConnectorName p) \<and> one_line (pc_CommandName p) \<and> one_line (pc_Executable p) \<and>
     one_line (pc_WorkingDirectory p) \<and> list_all one_line (pc_Arguments p)"

lemma one_line_Itoa: "one_line (Itoa i)"
proof -
  have "list_all is_digit (decimal n)" for n using decimal_digits by blast
  then have "c \<in> set (decimal n) \<Longrightarrow> is_digit c" for c n by (auto simp: list_all_iff)
  moreover have "\<not> is_digit (CHR 10)" by (simp add: is_digit_def)
  ultimately show ?thesis by (auto simp: one_line_def Itoa_def)
qed

lemma one_line_words:
  "one_line (NormalizeRiskLevel r)" "one_line (NormalizeOutputFormat f)" "one_line ''dry-run''" "one_line ''execute''"
  "one_line ''readonly''" "one_line ''mutation''"
  by (auto simp: one_line_def NormalizeRiskLevel_def NormalizeOutputFormat_def RiskLow_def FormatText_def)

text \<open>The lines of the fingerprint, read off the prepared command.\<close>

definition prepared_lines :: "ExternalCliPreparedCommand \<Rightarrow> string list" where
  "prepared_lines p =
     [pc_ConnectorName p, pc_CommandName p, pc_Executable p, pc_WorkingDirectory p, Itoa (xv_TimeoutSeconds (pc_Preview p)),
      xv_StructuredOutput (pc_Preview p), if xv_IsDryRun (pc_Preview p) then ''dry-run'' else ''execute'',
      xv_RiskLevel (pc_Preview p), if xv_ReadOnly (pc_Preview p) then ''readonly'' else ''mutation''] @ pc_Arguments p"

lemma BuildPreview_fingerprint:
  assumes "BuildPreview e req dry = Inr p"
  shows "xv_Fingerprint (pc_Preview p) = ComputeTurnHash (rg_sha e) (unlines (prepared_lines p))"
    and "one_line_command p \<Longrightarrow> \<forall>l \<in> set (prepared_lines p). CHR 10 \<notin> set l"
    and "in_i64 (xv_TimeoutSeconds (pc_Preview p))"
proof -
  obtain conn c wd template env ws exe where
    p: "p = prepare_command e req dry conn c wd
          (xc_DefaultArgs conn @ map (fill (parameter_text (rg_codec e) (xq_Parameters req))) template) exe env ws"
    by (rule BuildPreview_InrE [OF assms])
  show "xv_Fingerprint (pc_Preview p) = ComputeTurnHash (rg_sha e) (unlines (prepared_lines p))"
    by (simp add: p prepare_command_def Let_def computeFingerprint_def fingerprint_lines_def prepared_lines_def)
  have "one_line (xv_StructuredOutput (pc_Preview p))" "one_line (xv_RiskLevel (pc_Preview p))"
    by (simp_all add: p prepare_command_def Let_def resolveOutputFormat_def one_line_words)
  then show "one_line_command p \<Longrightarrow> \<forall>l \<in> set (prepared_lines p). CHR 10 \<notin> set l"
    using one_line_words(3-) one_line_Itoa [of "xv_TimeoutSeconds (pc_Preview p)"]
    by (simp add: prepared_lines_def one_line_command_def one_line_def list_all_iff)
  have "xv_TimeoutSeconds (pc_Preview p) = Clamp (case xm_TimeoutSeconds c of Some t \<Rightarrow> t | None \<Rightarrow> xo_DefaultTimeoutSeconds (rg_options e)) 1 3600"
    by (simp add: p prepare_command_def Let_def)
  with Clamp_bounds [of 1 3600] have "1 \<le> xv_TimeoutSeconds (pc_Preview p) \<and> xv_TimeoutSeconds (pc_Preview p) \<le> 3600"
    by simp
  then show "in_i64 (xv_TimeoutSeconds (pc_Preview p))" by (simp add: in_i64_def)
qed

text \<open>C27: Where no part contains a newline, and the hash does not collide, the fingerprint says which command it is: program,
  arguments, directory, time limit, format of the output, dry run or not, risk, and whether it changes something.\<close>

theorem fingerprint_identifies_run:
  assumes "inj (rg_sha e)" "BuildPreview e req dry = Inr p" "BuildPreview e req' dry' = Inr q"
    and "one_line_command p" "one_line_command q"
    and "xv_Fingerprint (pc_Preview p) = xv_Fingerprint (pc_Preview q)"
  shows "pc_ConnectorName p = pc_ConnectorName q \<and> pc_CommandName p = pc_CommandName q \<and>
    pc_Executable p = pc_Executable q \<and> pc_Arguments p = pc_Arguments q \<and>
    pc_WorkingDirectory p = pc_WorkingDirectory q \<and>
    xv_TimeoutSeconds (pc_Preview p) = xv_TimeoutSeconds (pc_Preview q) \<and>
    xv_StructuredOutput (pc_Preview p) = xv_StructuredOutput (pc_Preview q) \<and>
    xv_IsDryRun (pc_Preview p) = xv_IsDryRun (pc_Preview q) \<and> xv_RiskLevel (pc_Preview p) = xv_RiskLevel (pc_Preview q) \<and>
    xv_ReadOnly (pc_Preview p) = xv_ReadOnly (pc_Preview q)"
proof -
  note fp = BuildPreview_fingerprint [OF assms(2)] and fq = BuildPreview_fingerprint [OF assms(3)]
  have "unlines (prepared_lines p) \<noteq> []" "unlines (prepared_lines q) \<noteq> []"
    by (simp_all add: prepared_lines_def unlines_Cons)
  then have "rg_sha e (unlines (prepared_lines p)) = rg_sha e (unlines (prepared_lines q))"
    using assms(6) unfolding fp(1) fq(1) ComputeTurnHash_def by (simp only: if_False)
  then have "unlines (prepared_lines p) = unlines (prepared_lines q)" by (rule injD [OF assms(1)])
  then have eq: "prepared_lines p = prepared_lines q"
    by (rule iffD1 [OF unlines_inj [OF fp(2) [OF assms(4)] fq(2) [OF assms(5)]]])
  then have "Itoa (xv_TimeoutSeconds (pc_Preview p)) = Itoa (xv_TimeoutSeconds (pc_Preview q))"
    by (simp add: prepared_lines_def)
  then have "xv_TimeoutSeconds (pc_Preview p) = xv_TimeoutSeconds (pc_Preview q)"
    by (metis Atoi_Itoa [OF fp(3)] Atoi_Itoa [OF fq(3)] option.inject)
  moreover have "xv_IsDryRun (pc_Preview p) = xv_IsDryRun (pc_Preview q)"
    using eq by (cases "xv_IsDryRun (pc_Preview p)"; cases "xv_IsDryRun (pc_Preview q)") (simp_all add: prepared_lines_def)
  moreover have "xv_ReadOnly (pc_Preview p) = xv_ReadOnly (pc_Preview q)"
    using eq by (cases "xv_ReadOnly (pc_Preview p)"; cases "xv_ReadOnly (pc_Preview q)") (simp_all add: prepared_lines_def)
  ultimately show ?thesis using eq by (simp add: prepared_lines_def)
qed

lemma send_one_line:
  "(case BuildPreview send_registry (send_request ''bob'' ''hello'') False of
      Inr p \<Rightarrow> one_line_command p | Inl _ \<Rightarrow> False)"
  by code_simp

theorem fingerprint_identifies_run_witness:
  "\<exists>p. BuildPreview send_registry (send_request ''bob'' ''hello'') False = Inr p \<and>
     (\<forall>q. BuildPreview send_registry (send_request ''bob'' ''hello'') False = Inr q \<and>
        xv_Fingerprint (pc_Preview p) = xv_Fingerprint (pc_Preview q) \<longrightarrow> pc_Arguments p = pc_Arguments q)"
proof -
  obtain p where p: "BuildPreview send_registry (send_request ''bob'' ''hello'') False = Inr p" "one_line_command p"
    using send_one_line by (auto split: sum.splits)
  have "inj (rg_sha send_registry)" by (simp add: send_registry_def)
  from fingerprint_identifies_run [OF this p(1) p(1) p(2) p(2)] p(1) show ?thesis by (intro exI [of _ p]) auto
qed


lemma newline_requests:
  "(case (BuildPreview send_registry (send_request (''a'' @ [CHR 10] @ ''b'') ''c'') False,
          BuildPreview send_registry (send_request ''a'' (''b'' @ [CHR 10] @ ''c'')) False) of
      (Inr p, Inr q) \<Rightarrow> pc_Arguments p \<noteq> pc_Arguments q \<and> xv_RequiresApproval (pc_Preview p) \<and>
        xv_Fingerprint (pc_Preview p) = xv_Fingerprint (pc_Preview q)
    | _ \<Rightarrow> False)"
  by code_simp

subsection \<open>Values that look like options\<close>

definition docs_read :: ExternalCliCommandOptions where
  "docs_read = preset_command ''Read a Lark document.'' [''docs'', ''read'', ''{{document_id}}'', ''--output'', ''json'']
     True RiskLow False [(''document_id'', required_param ''Lark document identifier.'' 0 SimpleNamePattern)]
     FormatJson [''lark'', ''docs'']"

text \<open>The pattern of simple names admits a dash in front, so a value may be an option of the program: the document of the
  preset command \<open>docs_read\<close> can be \<open>--help\<close>, and that command asks nobody.\<close>

theorem simple_name_may_be_option:
  assumes "rx_Match jc SimpleNamePattern ''--help'' = Some True" "js_String jc (CHR 34 # ''--help'' @ [CHR 34]) = Inr ''--help''"
  defines "params \<equiv> [(''document_id'', CHR 34 # ''--help'' @ [CHR 34])]"
  shows "map_of lark_commands ''docs_read'' = Some docs_read \<and>
    validateParameters jc docs_read (xm_ArgsTemplate docs_read) params = Inr () \<and>
    expandTemplate jc (xm_ArgsTemplate docs_read) params = Inr [''docs'', ''read'', ''--help'', ''--output'', ''json''] \<and>
    \<not> xm_RequiresApproval docs_read"
proof -
  let ?t = "xm_ArgsTemplate docs_read"
  have raw: "toParameterString jc k (CHR 34 # ''--help'' @ [CHR 34]) = Inr ''--help''" for k
  proof -
    have "TrimSpace (CHR 34 # ''--help'' @ [CHR 34]) = CHR 34 # ''--help'' @ [CHR 34]" by code_simp
    then show ?thesis using assms(2) by (simp add: toParameterString_def Let_def)
  qed
  have t: "?t = [''docs'', ''read'', ''{{document_id}}'', ''--output'', ''json'']"
    by (simp add: docs_read_def preset_command_def)
  have ph: "findPlaceholders [''docs'', ''read'', ''{{document_id}}'', ''--output'', ''json''] = [''document_id'']"
    by code_simp
  have pat: "TrimSpace SimpleNamePattern \<noteq> []" by code_simp
  have "validate_parameter jc [(''document_id'', required_param ''Lark document identifier.'' 0 SimpleNamePattern)]
      (''document_id'', CHR 34 # ''--help'' @ [CHR 34]) = Inr ()"
    unfolding validate_parameter_def fst_conv snd_conv raw
    by (simp add: lookup_fold_def validateParameterValue_def required_param_def assms(1))
  then have v: "validateParameters jc docs_read ?t params = Inr ()"
    by (simp add: validateParameters_def t ph params_def parameter_required_def lookup_fold_def docs_read_def
        preset_command_def)
  have f: "pieces ''{{document_id}}'' = [Hole ''document_id'']" by code_simp
  have l: "\<not> Contains ''docs'' ''{{''" "\<not> Contains ''read'' ''{{''" "\<not> Contains ''--output'' ''{{''" "\<not> Contains ''json'' ''{{''"
    by code_simp+
  have "parameter_text jc params ''document_id'' = ''--help''"
    using raw by (simp add: parameter_text_def params_def lookup_fold_def)
  then have "fill (parameter_text jc params) ''{{document_id}}'' = ''--help''"
    unfolding fill_def f by simp
  with validated_expands [OF v] have "expandTemplate jc ?t params = Inr [''docs'', ''read'', ''--help'', ''--output'', ''json'']"
    by (simp add: t fill_literal l)
  with v show ?thesis by (simp add: lark_commands_def docs_read_def preset_command_def)
qed

theorem simple_name_may_be_option_witness:
  "expandTemplate plain_codec (xm_ArgsTemplate docs_read) [(''document_id'', CHR 34 # ''--help'' @ [CHR 34])] =
     Inr [''docs'', ''read'', ''--help'', ''--output'', ''json'']"
proof -
  have "rx_Match plain_codec SimpleNamePattern ''--help'' = Some True"
    "js_String plain_codec (CHR 34 # ''--help'' @ [CHR 34]) = Inr ''--help''"
    by code_simp+
  from simple_name_may_be_option [OF this] show ?thesis by blast
qed

subsection \<open>An environment for a preset\<close>

lemma mergeDictionary_nil: "entries env \<noteq> [] \<Longrightarrow> mergeDictionary None env = Inl (GoPanic ''assignment to entry in nil map'')"
  by (simp add: mergeDictionary_def)

lemma merge_panics: "mergeDictionary a b = Inl x \<Longrightarrow> x = GoPanic ''assignment to entry in nil map''"
  "mergeParameters c d = Inl x \<Longrightarrow> x = GoPanic ''assignment to entry in nil map''"
  by (auto simp: mergeDictionary_def mergeParameters_def split: option.splits if_splits)

lemma bindR_InlE:
  assumes "bindR r f = Inl x"
  obtains "r = Inl x" | a where "r = Inr a" "f a = Inl x"
  using assms by (cases r) auto

lemma mergeCommand_panics: "mergeCommand c d = Inl x \<Longrightarrow> x = GoPanic ''assignment to entry in nil map''"
  by (auto simp: mergeCommand_def elim!: bindR_InlE dest: merge_panics)

lemma merge_commands_panics: "merge_commands cs ds = Inl x \<Longrightarrow> x = GoPanic ''assignment to entry in nil map''"
  by (induction cs ds rule: merge_commands.induct)
     (auto elim!: bindR_InlE split: option.splits dest: mergeCommand_panics)

lemma mergeConnector_panics: "mergeConnector p c = Inl x \<Longrightarrow> x = GoPanic ''assignment to entry in nil map''"
  by (auto simp: mergeConnector_def elim!: bindR_InlE dest: merge_panics merge_commands_panics)

lemma mergeConnector_env:
  assumes "xc_Environment p = None" "entries (xc_Environment c) \<noteq> []"
  shows "mergeConnector p c = Inl (GoPanic ''assignment to entry in nil map'')"
  using assms merge_commands_panics
  by (cases "merge_commands (cloneCommands (xc_Commands p)) (xc_Commands c)") (auto simp: mergeConnector_def mergeDictionary_nil)

lemma merge_connectors_env:
  "map_of cs i = Some p \<Longrightarrow> xc_Environment p = None \<Longrightarrow> map_of ds i = Some c \<Longrightarrow> entries (xc_Environment c) \<noteq> [] \<Longrightarrow>
     merge_connectors cs ds = Inl (GoPanic ''assignment to entry in nil map'')"
proof (induction cs ds rule: merge_connectors.induct)
  case (2 connectors name connector rest)
  let ?m = "case map_of connectors name of Some q \<Rightarrow> mergeConnector q connector | None \<Rightarrow> Inr (cloneConnector connector)"
  show ?case
  proof (cases "name = i")
    case True
    with "2.prems" show ?thesis by (simp add: mergeConnector_env)
  next
    case False
    show ?thesis
    proof (cases ?m)
      case (Inl x)
      then show ?thesis by (auto split: option.splits dest: mergeConnector_panics)
    next
      case (Inr merged)
      have "map_of (AList.update name merged connectors) i = Some p" "map_of rest i = Some c"
        using "2.prems" False by (simp_all add: update_conv')
      from "2.IH" [OF this(1) _ this(2)] "2.prems"(2,4) Inr show ?thesis by simp
    qed
  qed
qed simp

text \<open>A configuration that gives the connector of a preset a variable of the environment stops the gateway: the presets have
  no environment, and the merge writes into a nil map.\<close>

theorem preset_environment_panics:
  assumes "i \<in> set (xo_Presets options)" "map_of presetsInstance i \<noteq> None"
    and "map_of (xo_Connectors options) i = Some conn" "entries (xc_Environment conn) \<noteq> []"
  shows "Apply_presets options = Inl (GoPanic ''assignment to entry in nil map'')"
proof -
  from assms(2) obtain p where p: "map_of presetsInstance i = Some p" by blast
  then have "xc_Environment (cloneConnector (pd_Connector p)) = None"
    by (auto simp: presetsInstance_def preset_defs cloneConnector_def split: if_splits)
  moreover have "map_of (add_presets (xo_Presets options) []) i = Some (cloneConnector (pd_Connector p))"
    using p assms(1) by (simp add: add_presets_lookup)
  ultimately show ?thesis using merge_connectors_env assms(3,4) by (simp add: Apply_presets_def)
qed

theorem preset_environment_panics_witness:
  "Apply_presets (DefaultExternalCliOptions\<lparr>xo_Presets := [''gh''], xo_Connectors := [(''gh'',
     DefaultExternalCliConnectorOptions\<lparr>xc_Environment := Some [(''GH_HOST'', ''git.example.org'')]\<rparr>)]\<rparr>) =
   Inl (GoPanic ''assignment to entry in nil map'')"
  by (rule preset_environment_panics [where i = "''gh''"])
    (simp_all add: presetsInstance_def, simp add: entries_def)

end
