(* ===== verification/Cli_Runs.thy ===== *)
theory Cli_Runs
  imports Cli_Requests
begin

section \<open>External command line tools: runs\<close>

text \<open>
  What the tool runs is what its descriptor described, and leaves an audit entry; what the runner keeps of the output. The tool
  relies on its registry only through the locale \<open>connector_registry\<close>, which is interpreted on \<open>BuildPreview\<close>.
\<close>

subsection \<open>What the tool may assume of a registry\<close>

text \<open>A prepared command is the one that was asked for, and its preview describes it.\<close>

definition faithful_preview :: "ExternalCliPreviewRequest \<Rightarrow> bool \<Rightarrow> ExternalCliPreparedCommand \<Rightarrow> bool" where
  "faithful_preview req dry p \<longleftrightarrow>
     pc_ConnectorName p = xq_Connector req \<and> pc_CommandName p = xq_Command req \<and>
     xv_Connector (pc_Preview p) = pc_ConnectorName p \<and> xv_Command (pc_Preview p) = pc_CommandName p \<and>
     xv_Executable (pc_Preview p) = pc_Executable p \<and> xv_Arguments (pc_Preview p) = pc_Arguments p \<and>
     xv_WorkingDirectory (pc_Preview p) = pc_WorkingDirectory p \<and> xv_IsDryRun (pc_Preview p) = dry \<and>
     xv_ReadOnly (pc_Preview p) = xm_ReadOnly (pc_Command p) \<and> xc_Enabled (pc_Connector p)"

text \<open>The run, the event and the audit entry that end a call.\<close>

definition run_entries ::
    "cli_tool \<Rightarrow> ExternalCliToolRequest \<Rightarrow> cli_session \<Rightarrow> cli_trace \<Rightarrow> ExternalCliPreparedCommand \<Rightarrow> cli_event list \<Rightarrow> bool" where
  "run_entries a request s tr p es \<longleftrightarrow>
     (\<exists>ev. let res = tl_Run a tr p in
        es = [CliRun p res, CliEvent ev, CliAudit (audit_entry a (tr @ [CliRun p res, CliEvent ev]) s res request)])"

lemma runs_of_preview:
  "(\<exists>p ev. xt_ExecuteDryRun request \<and> tl_BuildPreview a (toPreviewRequest request) True = Inr p \<and>
      (\<exists>es. snd (tool_preview a request s tr) = (tr @ [CliEvent ev]) @ es \<and>
         run_entries a request s (tr @ [CliEvent ev]) p es)) \<or>
   (\<exists>evs. snd (tool_preview a request s tr) = tr @ map CliEvent evs)"
proof (cases "tl_BuildPreview a (toPreviewRequest request) (xt_ExecuteDryRun request)")
  case (Inl e)
  then have "snd (tool_preview a request s tr) = tr @ map CliEvent []" by (simp add: tool_preview_def)
  then show ?thesis by blast
next
  case (Inr p)
  show ?thesis
  proof (cases "xt_ExecuteDryRun request")
    case True
    with Inr show ?thesis
      by (auto simp: tool_preview_def run_entries_def recordEvent_def recordAudit_def Let_def)
  next
    case False
    with Inr have "\<exists>ev. snd (tool_preview a request s tr) = tr @ map CliEvent [ev]"
      by (simp add: tool_preview_def recordEvent_def Let_def)
    then show ?thesis by blast
  qed
qed

text \<open>Whatever is asked for, the events of a call are the entries of one run, with events around them, or events only.\<close>

definition dry_call :: "ExternalCliToolRequest \<Rightarrow> bool" where
  "dry_call request \<longleftrightarrow> xt_Action request = ''preview'' \<and> xt_ExecuteDryRun request"

lemma runs_of_action:
  "(\<exists>p pre es. xt_Action request \<in> {''execute'', ''preview''} \<and>
      tl_BuildPreview a (toPreviewRequest request) (dry_call request) = Inr p \<and>
      fst (tool_action a request s tr) \<noteq> Inl err \<and>
      snd (tool_action a request s tr) = (tr @ map CliEvent pre) @ es \<and>
      run_entries a request s (tr @ map CliEvent pre) p es) \<or>
   (\<exists>evs. snd (tool_action a request s tr) = tr @ map CliEvent evs)"
proof -
  consider (execute) "xt_Action request = ''execute''" | (preview) "xt_Action request = ''preview''"
    | (other) "xt_Action request \<noteq> ''execute''" "xt_Action request \<noteq> ''preview''" by blast
  then show ?thesis
  proof cases
    case execute
    then have s: "snd (tool_action a request s tr) = snd (executeCommand a request s tr)" and d: "\<not> dry_call request"
      by (simp_all add: tool_action_def Let_def dry_call_def)
    show ?thesis
    proof (cases "tl_BuildPreview a (toPreviewRequest request) False")
      case (Inl e)
      then have "snd (executeCommand a request s tr) = tr @ map CliEvent []" by (simp add: executeCommand_def)
      with s show ?thesis by metis
    next
      case (Inr p)
      then have f: "fst (tool_action a request s tr) \<noteq> Inl err" and
        r: "\<exists>es. snd (executeCommand a request s tr) = tr @ es \<and> run_entries a request s tr p es"
        using execute by (auto simp: tool_action_def executeCommand_def map_result_def run_entries_def recordEvent_def
            recordAudit_def Let_def)
      then obtain es where "snd (executeCommand a request s tr) = (tr @ map CliEvent []) @ es"
        "run_entries a request s (tr @ map CliEvent []) p es" by auto
      then show ?thesis using execute Inr d s f by (metis insertCI)
    qed
  next
    case preview
    then have s: "snd (tool_action a request s tr) = snd (tool_preview a request s tr)"
      by (simp add: tool_action_def Let_def)
    show ?thesis
    proof (cases "xt_ExecuteDryRun request \<and> is_ok (tl_BuildPreview a (toPreviewRequest request) True)")
      case True
      then obtain p where p: "tl_BuildPreview a (toPreviewRequest request) True = Inr p" by (auto simp: is_ok_iff)
      with True preview have f: "fst (tool_action a request s tr) \<noteq> Inl err" and
        r: "\<exists>ev es. snd (tool_preview a request s tr) = (tr @ map CliEvent [ev]) @ es \<and>
              run_entries a request s (tr @ map CliEvent [ev]) p es"
        by (auto simp: tool_action_def tool_preview_def map_result_def run_entries_def recordEvent_def recordAudit_def Let_def)
      then show ?thesis using preview p True s f by (metis dry_call_def insertCI)
    next
      case False
      then show ?thesis using runs_of_preview [of request a s tr] s by (metis is_ok.simps(1))
    qed
  next
    case other
    then have "snd (tool_action a request s tr) = tr @ map CliEvent []"
      by (simp add: tool_action_def)
    then show ?thesis by blast
  qed
qed

locale connector_registry =
  fixes build :: "ExternalCliPreviewRequest \<Rightarrow> bool \<Rightarrow> ExternalCliPreparedCommand go_result"
  assumes faithful: "build req dry = Inr p \<Longrightarrow> faithful_preview req dry p"
begin

lemma call_runs:
  assumes "tl_BuildPreview a = build" "snd (ExecuteContext a args s tr) = tr @ new" "CliRun p res \<in> set new"
  obtains request pre ev where "tl_Unmarshal a args = Inr request" "xt_Action request \<in> {''execute'', ''preview''}"
    "build (toPreviewRequest request) (dry_call request) = Inr p"
    "res = tl_Run a (tr @ map CliEvent pre) p"
    "new = map CliEvent pre @ [CliRun p res, CliEvent ev,
       CliAudit (audit_entry a (tr @ map CliEvent pre @ [CliRun p res, CliEvent ev]) s res request)]"
proof -
  have noev: "CliRun p res \<notin> set (map CliEvent evs)" for evs by auto
  obtain request where u: "tl_Unmarshal a args = Inr request"
    using assms(2,3) by (cases "tl_Unmarshal a args") (auto simp: ExecuteContext_def)
  obtain m where m: "missing_name request = Inr m"
    using assms(2,3) u by (cases "missing_name request") (auto simp: ExecuteContext_def)
  define t where "t = tool_action a request s tr"
  have x: "snd (ExecuteContext a args s tr) = (case fst t of
      Inl (GoErr msg) \<Rightarrow> snd t @ [CliEvent (runtime_event s ''blocked_by_policy'' ''warning'' msg request None)] | _ \<Rightarrow> snd t)"
    by (cases t) (auto simp: ExecuteContext_def u m t_def [symmetric] recordEvent_def split: sum.splits go_fail.splits)
  have "\<not> (\<exists>evs. snd t = tr @ map CliEvent evs)"
  proof
    assume "\<exists>evs. snd t = tr @ map CliEvent evs"
    then obtain evs where "snd t = tr @ map CliEvent evs" by blast
    then have "\<exists>evs'. new = map CliEvent evs'"
      using assms(2) x by (cases "fst t") (auto split: go_fail.splits intro: exI [of _ "evs @ [_]"])
    then show False using assms(3) noev by blast
  qed
  then obtain q pre es where q: "xt_Action request \<in> {''execute'', ''preview''}"
    "build (toPreviewRequest request) (dry_call request) = Inr q"
    "snd t = (tr @ map CliEvent pre) @ es" "run_entries a request s (tr @ map CliEvent pre) q es" "\<forall>err. fst t \<noteq> Inl err"
    using runs_of_action [of request a s tr] assms(1) unfolding t_def [symmetric] by (metis Inl_Inr_False sum.exhaust)
  then obtain resp where "fst t = Inr resp" by (cases "fst t") auto
  then have "new = map CliEvent pre @ es" using assms(2) x q(3) by simp
  moreover obtain ev where es: "es = [CliRun q (tl_Run a (tr @ map CliEvent pre) q), CliEvent ev,
      CliAudit (audit_entry a ((tr @ map CliEvent pre) @ [CliRun q (tl_Run a (tr @ map CliEvent pre) q), CliEvent ev]) s
        (tl_Run a (tr @ map CliEvent pre) q) request)]"
    using q(4) unfolding run_entries_def Let_def by blast
  ultimately have "p = q" "res = tl_Run a (tr @ map CliEvent pre) q" using assms(3) noev by auto
  then show thesis using that [OF u q(1), of pre ev] q(2) es \<open>new = map CliEvent pre @ es\<close> by simp
qed

lemma described:
  assumes "tl_BuildPreview a = build" "snd (ExecuteContext a args s tr) = tr @ new" "CliRun p res \<in> set new"
  shows "ad_RequiresApproval (ResolveActionDescriptor a args) = xv_RequiresApproval (pc_Preview p)"
    "ad_ApprovalFingerprint (ResolveActionDescriptor a args) = xv_Fingerprint (pc_Preview p)"
    "ad_IsMutation (ResolveActionDescriptor a args) = (\<not> xm_ReadOnly (pc_Command p))"
    "ad_RiskLevel (ResolveActionDescriptor a args) = xv_RiskLevel (pc_Preview p)"
    "xc_Enabled (pc_Connector p)"
proof -
  from assms obtain request where r: "tl_Unmarshal a args = Inr request" "xt_Action request \<in> {''execute'', ''preview''}"
    "build (toPreviewRequest request) (dry_call request) = Inr p" by (rule call_runs)
  note f = faithful [OF r(3), unfolded faithful_preview_def]
  have "ResolveActionDescriptor a args =
     \<lparr>ad_Action = xt_Action request, ad_IsMutation = (\<not> xv_ReadOnly (pc_Preview p)),
      ad_RequiresApproval = xv_RequiresApproval (pc_Preview p), ad_Summary = buildSummary request,
      ad_ApprovalFingerprint = xv_Fingerprint (pc_Preview p),
      ad_RiskLevel = xv_RiskLevel (pc_Preview p), ad_ReadOnly = Some (xv_ReadOnly (pc_Preview p))\<rparr>"
    using r assms(1) by (auto simp: ResolveActionDescriptor_def dry_call_def)
  then show "ad_RequiresApproval (ResolveActionDescriptor a args) = xv_RequiresApproval (pc_Preview p)"
    "ad_ApprovalFingerprint (ResolveActionDescriptor a args) = xv_Fingerprint (pc_Preview p)"
    "ad_IsMutation (ResolveActionDescriptor a args) = (\<not> xm_ReadOnly (pc_Command p))"
    "ad_RiskLevel (ResolveActionDescriptor a args) = xv_RiskLevel (pc_Preview p)" "xc_Enabled (pc_Connector p)"
    using f by simp_all
qed

end

text \<open>A runner, moreover, answers for the command it is given.\<close>

locale connector_runner = connector_registry build
  for build :: "ExternalCliPreviewRequest \<Rightarrow> bool \<Rightarrow> ExternalCliPreparedCommand go_result" +
  fixes run :: "cli_trace \<Rightarrow> ExternalCliPreparedCommand \<Rightarrow> ExternalCliExecutionResult"
  assumes keeps_preview: "xr_Preview (run tr p) = pc_Preview p"
begin

lemma audited:
  assumes "tl_BuildPreview a = build" "tl_Run a = run" "snd (ExecuteContext a args s tr) = tr @ new" "CliRun p res \<in> set new"
  shows "\<exists>pre ev entry. new = map CliEvent pre @ [CliRun p res, CliEvent ev, CliAudit entry] \<and>
    xa_SessionId entry = cn_Id s \<and> xa_SenderId entry = cn_SenderId s \<and>
    xa_Connector entry = pc_ConnectorName p \<and> xa_Command entry = pc_CommandName p \<and>
    xa_Executable entry = pc_Executable p \<and> xa_ArgsHash entry = computeArgsHash (tl_Sha a) (pc_Arguments p) \<and>
    xa_WorkingDirectory entry = pc_WorkingDirectory p \<and> xa_ExitCode entry = xr_ExitCode res \<and>
    (xa_Failed entry \<longleftrightarrow> \<not> xr_Success res) \<and> xa_ReadOnly entry = xm_ReadOnly (pc_Command p)"
proof -
  from assms(1,3,4) obtain request pre ev where r: "build (toPreviewRequest request) (dry_call request) = Inr p"
    "res = tl_Run a (tr @ map CliEvent pre) p"
    "new = map CliEvent pre @ [CliRun p res, CliEvent ev,
       CliAudit (audit_entry a (tr @ map CliEvent pre @ [CliRun p res, CliEvent ev]) s res request)]"
    by (rule call_runs)
  have "xr_Preview res = pc_Preview p" using r(2) assms(2) keeps_preview by simp
  with r(3) faithful [OF r(1), unfolded faithful_preview_def] show ?thesis
    by (auto simp: audit_entry_def Let_def)
qed

end

lemma BuildPreview_faithful:
  assumes "BuildPreview e req dry = Inr p"
  shows "faithful_preview req dry p"
    and "xv_RequiresApproval (pc_Preview p) = requiresApproval e (pc_Connector p) (pc_Command p)"
proof -
  obtain conn c wd template env ws exe where a: "admit_command e req dry = Inr (conn, c, wd, template)"
    and p: "p = prepare_command e req dry conn c wd
          (xc_DefaultArgs conn @ map (fill (parameter_text (rg_codec e) (xq_Parameters req))) template) exe env ws"
    by (rule BuildPreview_InrE [OF assms])
  from a have "xc_Enabled conn" by (simp add: admit_command_Inr_iff)
  then show "faithful_preview req dry p"
    "xv_RequiresApproval (pc_Preview p) = requiresApproval e (pc_Connector p) (pc_Command p)"
    by (simp_all add: p faithful_preview_def prepare_command_def Let_def)
qed

lemma Runner_keeps_preview: "xr_Preview (Runner_Execute r proc p) = pc_Preview p"
  by (auto simp: Runner_Execute_def createErrorResult_def Let_def split: option.splits prod.splits)

interpretation reg: connector_runner "BuildPreview e" "\<lambda>tr. Runner_Execute r (procs tr)" for e r procs
  by unfold_locales (simp_all add: BuildPreview_faithful Runner_keeps_preview)

subsection \<open>The tool\<close>


text \<open>C28: A call of the tool runs at most one command. The run is followed by its event and its audit entry, which names the
  session, the program and its exit code and has the hash of the arguments that ran.\<close>

theorem every_cli_run_audited:
  assumes "snd (ExecuteContext (registry_tool e r procs um ms uuid now) args s tr) = tr @ new" "CliRun p res \<in> set new"
  shows "\<exists>pre ev entry. new = map CliEvent pre @ [CliRun p res, CliEvent ev, CliAudit entry] \<and>
    xa_SessionId entry = cn_Id s \<and> xa_SenderId entry = cn_SenderId s \<and>
    xa_Connector entry = pc_ConnectorName p \<and> xa_Command entry = pc_CommandName p \<and>
    xa_Executable entry = pc_Executable p \<and> xa_ArgsHash entry = computeArgsHash (rg_sha e) (pc_Arguments p) \<and>
    xa_WorkingDirectory entry = pc_WorkingDirectory p \<and> xa_ExitCode entry = xr_ExitCode res \<and>
    (xa_Failed entry \<longleftrightarrow> \<not> xr_Success res) \<and> xa_ReadOnly entry = xm_ReadOnly (pc_Command p)"
proof -
  have "tl_BuildPreview (registry_tool e r procs um ms uuid now) = BuildPreview e"
    "tl_Run (registry_tool e r procs um ms uuid now) = (\<lambda>tr. Runner_Execute r (procs tr))"
    "tl_Sha (registry_tool e r procs um ms uuid now) = rg_sha e"
    by (simp_all add: registry_tool_def)
  from reg.audited [OF this(1,2) assms] this(3) show ?thesis by simp
qed

text \<open>A call of the tool, to try these on.\<close>

definition quiet_process :: process where
  "quiet_process exe args dir env t = \<lparr>pr_StartError = None, pr_Stdout = [(''sent'', None)], pr_Stderr = [], pr_Wait = WaitOk,
     pr_DeadlineExceeded = False, pr_StartedAt = 0, pr_CompletedAt = 5000000\<rparr>"

definition plain_runner :: runner where
  "plain_runner = \<lparr>rn_Redact = id, rn_Replace = (\<lambda>p s. None), rn_Invalid = (\<lambda>s. None)\<rparr>"

definition send_tool_request :: "string \<Rightarrow> ExternalCliToolRequest" where
  "send_tool_request claim = \<lparr>xt_Action = ''execute'', xt_Connector = ''chat'', xt_Command = ''send'',
     xt_Parameters = xq_Parameters (send_request ''bob'' ''hello''), xt_ExecuteDryRun = False, xt_ApprovedFingerprint = claim,
     xt_ApprovalReason = []\<rparr>"

definition send_tool :: cli_tool where
  "send_tool = registry_tool send_registry plain_runner
     (\<lambda>tr. quiet_process) (\<lambda>args. Inr (send_tool_request args)) (\<lambda>s. None) (\<lambda>tr. ''0123456789abcdef'') (\<lambda>tr. 0)"

definition send_session :: cli_session where
  "send_session = \<lparr>cn_Id = ''s1'', cn_ChannelId = ''c1'', cn_SenderId = ''u1''\<rparr>"

definition ran_arguments :: "cli_event \<Rightarrow> string list option" where
  "ran_arguments ev = (case ev of CliRun p res \<Rightarrow> Some (pc_Arguments p) | _ \<Rightarrow> None)"

lemma send_tool_run:
  "map ran_arguments (snd (ExecuteContext send_tool [] send_session [])) = [Some [''send'', ''bob'', ''hello''], None, None]"
  by code_simp

lemma send_tool_runs:
  obtains p res new where "snd (ExecuteContext send_tool [] send_session []) = [] @ new" "CliRun p res \<in> set new"
    "pc_Arguments p = [''send'', ''bob'', ''hello'']" "length new = 3"
proof -
  let ?t = "snd (ExecuteContext send_tool [] send_session [])"
  obtain e rest where t: "?t = e # rest" "ran_arguments e = Some [''send'', ''bob'', ''hello'']"
    using send_tool_run by (cases ?t) auto
  moreover have "length ?t = 3" using arg_cong [OF send_tool_run, of length] by simp
  ultimately show thesis
    using that [of ?t] by (cases e) (auto simp: ran_arguments_def)
qed


theorem every_cli_run_audited_witness:
  "\<exists>p res ev entry. snd (ExecuteContext send_tool [] send_session []) = [CliRun p res, CliEvent ev, CliAudit entry] \<and>
     xa_ArgsHash entry = computeArgsHash id [''send'', ''bob'', ''hello'']"
proof -
  obtain p res new where n: "snd (ExecuteContext send_tool [] send_session []) = [] @ new" "CliRun p res \<in> set new"
    "pc_Arguments p = [''send'', ''bob'', ''hello'']" "length new = 3" by (rule send_tool_runs)
  from every_cli_run_audited [OF n(1,2) [unfolded send_tool_def]] obtain pre ev entry where
    e: "new = map CliEvent pre @ [CliRun p res, CliEvent ev, CliAudit entry]"
    "xa_ArgsHash entry = computeArgsHash (rg_sha send_registry) (pc_Arguments p)" by blast
  from e(1) n(4) have "pre = []" by simp
  with e n show ?thesis by (auto simp: send_registry_def)
qed

text \<open>Nothing checks the fingerprint that a request claims to be approved by, and the audit entry of its run has the claim
  and not the fingerprint of what ran.\<close>

theorem claimed_fingerprint_recorded:
  "claim \<noteq> [] \<Longrightarrow> xt_ApprovedFingerprint request = claim \<Longrightarrow> tl_BuildPreview a (toPreviewRequest request) False = Inr p \<Longrightarrow>
     \<exists>ev entry. executeCommand a request s tr =
       (Inr (tl_Run a tr p), tr @ [CliRun p (tl_Run a tr p), CliEvent ev, CliAudit entry]) \<and>
       xa_ApprovalFingerprint entry = claim"
  by (auto simp: executeCommand_def recordEvent_def recordAudit_def audit_entry_def Let_def)

lemma send_claim: "is_ok (tl_BuildPreview send_tool (toPreviewRequest (send_tool_request ''approved by root'')) False)"
  by code_simp

theorem claimed_fingerprint_recorded_witness:
  "\<exists>p ev entry. snd (executeCommand send_tool (send_tool_request ''approved by root'') send_session []) =
       [CliRun p (tl_Run send_tool [] p), CliEvent ev, CliAudit entry] \<and>
     xa_ApprovalFingerprint entry = ''approved by root''"
proof -
  obtain p where "tl_BuildPreview send_tool (toPreviewRequest (send_tool_request ''approved by root'')) False = Inr p"
    using send_claim by (auto simp: is_ok_iff)
  from claimed_fingerprint_recorded [OF _ _ this, of "''approved by root''" send_session "[]"]
  obtain ev entry where "executeCommand send_tool (send_tool_request ''approved by root'') send_session [] =
      (Inr (tl_Run send_tool [] p), [CliRun p (tl_Run send_tool [] p), CliEvent ev, CliAudit entry])"
    "xa_ApprovalFingerprint entry = ''approved by root''" by (auto simp: send_tool_request_def)
  then show ?thesis by (metis snd_conv)
qed

subsection \<open>The runner\<close>

definition no_read_error :: "reader \<Rightarrow> bool" where
  "no_read_error reads \<longleftrightarrow> list_all (\<lambda>(chunk, err). err = None) reads"

abbreviation all_bytes :: "reader \<Rightarrow> string" where
  "all_bytes reads \<equiv> concat (map fst reads)"

lemma read_loop_spec:
  "no_read_error reads \<Longrightarrow> 0 \<le> remaining \<Longrightarrow>
     read_loop reads remaining truncated out =
       (out @ take (nat remaining) (all_bytes reads), truncated \<or> int (length (all_bytes reads)) > remaining, None)"
proof (induction reads arbitrary: remaining truncated out)
  case (Cons read reads)
  obtain chunk where r: "read = (chunk, None)" "no_read_error reads"
    using Cons.prems(1) by (cases read) (auto simp: no_read_error_def)
  note IH = Cons.IH [OF r(2)]
  consider "chunk = []" | "chunk \<noteq> []" "remaining = 0" | "chunk \<noteq> []" "remaining > 0" "int (length chunk) > remaining"
    | "chunk \<noteq> []" "remaining > 0" "int (length chunk) \<le> remaining" using Cons.prems(2) by linarith
  then show ?case
  proof cases
    case 1
    then show ?thesis using IH [OF Cons.prems(2)] r(1) by simp
  next
    case 2
    then have "0 < length chunk" by simp
    then have "0 < int (length chunk) + int (length (all_bytes reads))" by linarith
    then show ?thesis using 2 IH [of 0] r(1) by simp
  next
    case 3
    then show ?thesis using IH [of 0] r(1) by simp
  next
    case 4
    have "nat remaining = length chunk + nat (remaining - int (length chunk))" using 4 by linarith
    then have "take (nat remaining) (chunk @ all_bytes reads) =
        chunk @ take (nat (remaining - int (length chunk))) (all_bytes reads)" by simp
    moreover have "remaining - int (length chunk) < int (length (all_bytes reads)) \<longleftrightarrow>
        remaining < int (length (chunk @ all_bytes reads))" by auto
    ultimately show ?thesis using IH [of "remaining - int (length chunk)"] 4 r(1) by (simp add: Let_def)
  qed
qed simp



lemma read_loop_error: "\<exists>chunk err. (chunk, Some err) \<in> set reads \<Longrightarrow> \<exists>e. read_loop reads m t out = ([], False, Some e)"
proof (induction reads arbitrary: m t out)
  case (Cons read reads)
  obtain chunk err where r: "read = (chunk, err)" by (cases read)
  show ?case
  proof (cases err)
    case None
    with Cons.prems r have "\<exists>chunk err. (chunk, Some err) \<in> set reads" by auto
    with Cons.IH show ?thesis by (simp add: r None Let_def)
  qed (simp add: r Let_def)
qed simp

text \<open>An error while reading, such as that of a pipe which \<open>Wait\<close> has already closed, drops all that was read, and nobody
  hears of it: the run counts as a success with an empty, complete output.\<close>

theorem read_error_loses_output:
  assumes "pr_StartError p = None" "(chunk, Some err) \<in> set (pr_Stdout p)" "pr_Wait p = WaitOk"
    and "\<And>exe args dir env t. proc exe args dir env t = p"
  shows "xr_Success (Runner_Execute r proc command) \<and>
    xr_Stdout (Runner_Execute r proc command) = runner_redact r [] (pc_RedactionRules command) \<and>
    \<not> xr_StdoutTruncated (Runner_Execute r proc command) \<and> xr_ErrorMessage (Runner_Execute r proc command) = []"
proof -
  obtain e where "readCapped (pr_Stdout p) (pc_MaxStdoutBytes command) = ([], False, Some e)"
    using read_loop_error assms(2) unfolding readCapped_def by blast
  then show ?thesis using assms(1,3,4)
    by (simp add: Runner_Execute_def wait_outcome_def Let_def split: prod.splits)
qed

definition closed_pipe_run :: process_run where
  "closed_pipe_run = \<lparr>pr_StartError = None, pr_Stdout = [(''result'', None), ([], Some ''file already closed'')],
     pr_Stderr = [], pr_Wait = WaitOk, pr_DeadlineExceeded = False, pr_StartedAt = 0, pr_CompletedAt = 0\<rparr>"

theorem read_error_loses_output_witness:
  "\<forall>command. xr_Success (Runner_Execute plain_runner (\<lambda>exe args dir env t. closed_pipe_run) command) \<and>
     \<not> xr_StdoutTruncated (Runner_Execute plain_runner (\<lambda>exe args dir env t. closed_pipe_run) command)"
  using read_error_loses_output [of closed_pipe_run "[]" "''file already closed''" "\<lambda>exe args dir env t. closed_pipe_run"]
  by (simp add: closed_pipe_run_def)

end
