(* ===== verification/Cli_Config.thy ===== *)
theory Cli_Config
  imports Cli_Runs
begin

section \<open>External command line tools: the check of the configuration\<close>

text \<open>
  \<open>validateExternalCli\<close> of \<open>src/openclaw/core/validation_config_validator.go\<close>, which looks at the options in effect, and what a
  configuration that passes is worth to a request. The compiler of regular expressions is a parameter, the text of its
  error or none.
\<close>

definition validateRegexPattern :: "(string \<Rightarrow> string option) \<Rightarrow> string \<Rightarrow> string \<Rightarrow> string list" where
  "validateRegexPattern rxc place pattern =
     (case rxc pattern of None \<Rightarrow> [] | Some err \<Rightarrow> [place @ '' is not a valid regex: '' @ err])"

definition validateRegexList :: "(string \<Rightarrow> string option) \<Rightarrow> string \<Rightarrow> string list \<Rightarrow> string list" where
  "validateRegexList rxc place patterns =
     concat (map (\<lambda>(i, pattern). if IsBlank pattern then []
        else validateRegexPattern rxc (place @ ''['' @ Itoa (int i) @ '']'') pattern) (enumerate 0 patterns))"

definition say :: "bool \<Rightarrow> string \<Rightarrow> string list" where
  "say b msg = (if b then [msg] else [])"

lemma say_Nil [simp]: "say b msg = [] \<longleftrightarrow> \<not> b"
  by (simp add: say_def)

definition validate_command :: "(string \<Rightarrow> string option) \<Rightarrow> string \<Rightarrow> string \<times> ExternalCliCommandOptions \<Rightarrow> string list" where
  "validate_command rxc connectorName nc =
     (let (commandName, command) = nc;
          place = ''ExternalCli.Connectors.'' @ connectorName @ ''.Commands.'' @ commandName
      in say (IsBlank commandName)
           (''ExternalCli.Connectors.'' @ connectorName @ ''.Commands contains an empty command name.'') @
         say (xm_ArgsTemplate command = []) (place @ ''.ArgsTemplate must contain at least one argument.'') @
         say (xm_SupportsDryRun command \<and> xm_DryRunArgsTemplate command = [])
           (place @ ''.DryRunArgsTemplate must be set when SupportsDryRun=true.'') @
         say (case xm_TimeoutSeconds command of Some t \<Rightarrow> t \<le> 0 | None \<Rightarrow> False)
           (place @ ''.TimeoutSeconds must be >= 1 when set.'') @
         say (NormalizeRiskLevel (xm_RiskLevel command) \<noteq> xm_RiskLevel command)
           (place @ ''.RiskLevel must be low, medium, or high.'') @
         say (\<not> IsBlank (xm_StructuredOutput command) \<and>
              NormalizeOutputFormat (xm_StructuredOutput command) \<noteq> xm_StructuredOutput command)
           (place @ ''.StructuredOutput must be one of: json, ndjson, csv, text, table.'') @
         validateRegexList rxc (place @ ''.RedactionRules'') (xm_RedactionRules command) @
         concat (map (\<lambda>(parameterName, parameter). if IsBlank (xp_Pattern parameter) then []
             else validateRegexPattern rxc (place @ ''.Parameters.'' @ parameterName @ ''.Pattern'') (xp_Pattern parameter))
           (entries (xm_Parameters command))))"

definition validate_connector :: "(string \<Rightarrow> string option) \<Rightarrow> string \<times> ExternalCliConnectorOptions \<Rightarrow> string list" where
  "validate_connector rxc nc =
     (let (connectorName, connector) = nc; place = ''ExternalCli.Connectors.'' @ connectorName
      in say (IsBlank connectorName) ''ExternalCli.Connectors contains an empty connector name.'' @
         say (xc_Enabled connector \<and> IsBlank (xc_Executable connector))
           (place @ ''.Executable must be set when connector is enabled.'') @
         say (NormalizeOutputFormat (xc_DefaultOutputFormat connector) \<noteq> xc_DefaultOutputFormat connector)
           (place @ ''.DefaultOutputFormat must be one of: json, ndjson, csv, text, table.'') @
         validateRegexList rxc (place @ ''.RedactionRules'') (xc_RedactionRules connector) @
         concat (map (validate_command rxc connectorName) (xc_Commands connector)))"

definition validateExternalCli :: "(string \<Rightarrow> string option) \<Rightarrow> ExternalCliOptions \<Rightarrow> string list go_result" where
  "validateExternalCli rxc config =
     bindR (Apply_presets config) (\<lambda>effectiveConfig.
       Inr (say (xo_DefaultTimeoutSeconds config < 1)
              (''ExternalCli.DefaultTimeoutSeconds must be >= 1 (got '' @ Itoa (xo_DefaultTimeoutSeconds config) @ '').'') @
            say (xo_MaxStdoutBytes config < 1)
              (''ExternalCli.MaxStdoutBytes must be >= 1 (got '' @ Itoa (xo_MaxStdoutBytes config) @ '').'') @
            say (xo_MaxStderrBytes config < 1)
              (''ExternalCli.MaxStderrBytes must be >= 1 (got '' @ Itoa (xo_MaxStderrBytes config) @ '').'') @
            say (xo_AllowFreeformCommands config)
              ''ExternalCli.AllowFreeformCommands is not supported by this native connector; use named allowlisted commands.'' @
            concat (map (\<lambda>(i, preset). say (IsBlank preset)
                (''ExternalCli.Presets['' @ Itoa (int i) @ ''] must not be empty.'')) (enumerate 0 (xo_Presets config))) @
            map (\<lambda>presetId. ''ExternalCli.Presets contains unknown preset '' @ quoted presetId @ ''.'')
              (FindUnknownPresetIds config) @
            concat (map (validate_connector rxc) (xo_Connectors effectiveConfig))))"

subsection \<open>What a checked configuration is worth\<close>

lemma validated_command:
  "validate_command rxc n (m, c) = [] \<Longrightarrow>
     \<not> IsBlank m \<and> xm_ArgsTemplate c \<noteq> [] \<and> (xm_SupportsDryRun c \<longrightarrow> xm_DryRunArgsTemplate c \<noteq> []) \<and>
     NormalizeRiskLevel (xm_RiskLevel c) = xm_RiskLevel c"
  by (simp add: validate_command_def Let_def)

lemma validated_connector:
  "validate_connector rxc (n, conn) = [] \<Longrightarrow>
     \<not> IsBlank n \<and> (xc_Enabled conn \<longrightarrow> \<not> IsBlank (xc_Executable conn)) \<and>
     (\<forall>mc \<in> set (xc_Commands conn). validate_command rxc n mc = [])"
  by (auto simp: validate_connector_def Let_def)

lemma validated_config:
  assumes "validateExternalCli rxc config = Inr []"
  obtains eff where "Apply_presets config = Inr eff" "\<not> xo_AllowFreeformCommands config"
    "\<And>nc. nc \<in> set (xo_Connectors eff) \<Longrightarrow> validate_connector rxc nc = []"
  using assms by (auto simp: validateExternalCli_def bindR_Inr_iff)

lemma Apply_presets_options: "Apply_presets config = Inr eff \<Longrightarrow> eff = config\<lparr>xo_Connectors := xo_Connectors eff\<rparr>"
  by (auto simp: Apply_presets_def bindR_Inr_iff)

text \<open>C29: A configuration that the validator passes leaves nothing to fail but the request and the machine: every command of an
  enabled connector is admitted, as a run and, where it supports that, as a dry run, once its working directory exists.\<close>

theorem validated_commands_admitted:
  assumes "validateExternalCli rxc config = Inr []" "NewExternalCliConnectorRegistry config redact jc replace sha os = Inr e"
    and "xo_Enabled config" "map_of (xo_Connectors (rg_options e)) (xq_Connector req) = Some conn" "xc_Enabled conn"
    and "map_of (xc_Commands conn) (xq_Command req) = Some c" "dry \<longrightarrow> xm_SupportsDryRun c"
    and "resolveWorkingDirectory os (if xm_WorkingDirectory c = [] then xc_WorkingDirectory conn else xm_WorkingDirectory c) = Inr wd"
  shows "admit_command e req dry = Inr (conn, c, wd, if dry then xm_DryRunArgsTemplate c else xm_ArgsTemplate c)"
proof -
  obtain eff where eff: "Apply_presets config = Inr eff" "\<not> xo_AllowFreeformCommands config"
    "\<And>nc. nc \<in> set (xo_Connectors eff) \<Longrightarrow> validate_connector rxc nc = []"
    by (rule validated_config [OF assms(1)]) blast
  from assms(2) eff(1) have e: "rg_options e = eff" "rg_os e = os"
    by (auto simp: NewExternalCliConnectorRegistry_def)
  have o: "xo_Enabled eff" "\<not> xo_AllowFreeformCommands eff"
    using assms(3) eff(2) by (subst Apply_presets_options [OF eff(1)], simp)+
  have "(xq_Connector req, conn) \<in> set (xo_Connectors eff)" using assms(4) e(1) by (simp add: map_of_SomeD)
  note vc = validated_connector [OF eff(3) [OF this]]
  with map_of_SomeD [OF assms(6)] have "validate_command rxc (xq_Connector req) (xq_Command req, c) = []" by blast
  note vm = validated_command [OF this]
  show ?thesis
    using vc vm assms(4-8) e o
    unfolding admit_command_Inr_iff getConnector_Inr_iff getCommand_Inr_iff by (auto simp: IsBlank_def)
qed

lemma send_apply: "Apply_presets send_options = Inr send_options"
proof -
  have "ToLower ''send'' = ''send''" by code_simp
  then show ?thesis
    by (simp add: Apply_presets_def send_options_def DefaultExternalCliOptions_def cloneConnector_def cloneCommands_def)
qed

lemma send_config_valid: "validateExternalCli (\<lambda>p. None) send_options = Inr []"
proof -
  have b: "\<not> IsBlank ''send''" "\<not> IsBlank ''chat''" by code_simp+
  have c: "validate_command (\<lambda>p. None) ''chat'' (''send'', send_command) = []"
    by (simp add: validate_command_def send_command_def DefaultExternalCliCommandOptions_def b validateRegexList_def
        validateRegexPattern_def NormalizeRiskLevel_def required_param_def risk_names)
  show ?thesis
    by (simp add: validateExternalCli_def send_apply)
       (simp add: send_options_def DefaultExternalCliOptions_def FindUnknownPresetIds_def validate_connector_def b c
          DefaultExternalCliConnectorOptions_def NormalizeOutputFormat_def FormatText_def validateRegexList_def)
qed

theorem validated_commands_admitted_witness:
  "\<exists>conn. admit_command send_registry (send_request ''bob'' ''hello'') False =
     Inr (conn, send_command, [], xm_ArgsTemplate send_command)"
proof -
  have n: "NewExternalCliConnectorRegistry send_options id plain_codec (\<lambda>p s. None) id plain_os = Inr send_registry"
    by (simp add: NewExternalCliConnectorRegistry_def send_apply send_registry_def)
  obtain conn where c: "map_of (xo_Connectors (rg_options send_registry)) (xq_Connector (send_request ''bob'' ''hello'')) = Some conn"
    "xc_Enabled conn" "map_of (xc_Commands conn) (xq_Command (send_request ''bob'' ''hello'')) = Some send_command"
    "xc_WorkingDirectory conn = []"
    by (simp add: send_registry_def send_options_def send_request_def DefaultExternalCliConnectorOptions_def)
  have w: "resolveWorkingDirectory plain_os
      (if xm_WorkingDirectory send_command = [] then xc_WorkingDirectory conn else xm_WorkingDirectory send_command) = Inr []"
    using c(4) by (simp add: send_command_def DefaultExternalCliCommandOptions_def resolveWorkingDirectory_def)
  have "xo_Enabled send_options" by (simp add: send_options_def)
  from validated_commands_admitted [OF send_config_valid n this c(1-3) _ w, of False] show ?thesis by auto
qed

end
